(* ===== verification/MC_Prelude.thy ===== *)
theory MC_Prelude
  imports Main "HOL-Library.Word" "HOL-Library.Monad_Syntax"
begin

text \<open>
  Shared vocabulary of the development: character classes of the C locale, the decimal text
  of a number (\<open>std::to_string\<close>), the loop combinator every possibly non-terminating C++ loop
  is translated with, and the total-correctness rules for it.

  A computation that may diverge or trip an \<open>assert\<close> has type \<open>'a option\<close>: \<open>None\<close> means that the
  fuel ran out or that an assertion of the source failed, so a theorem whose conclusion is
  \<open>Some\<close> excludes both.
\<close>

named_theorems parser_rules
  \<comment> \<open>contracts of the parser's token operations\<close>

named_theorems class_simps
  \<comment> \<open>definitions of the character classes\<close>

section \<open>Machine types\<close>

type_synonym int64 = "64 word"
type_synonym uint64 = "64 word"
type_synonym size64 = "64 word"
type_synonym double = "64 word"

text \<open>
  A \<open>double\<close> is its 64-bit pattern; the arithmetic on it is a parameter of the definitions that
  compute with it.
\<close>

section \<open>Character classes of the C locale\<close>

definition char_code :: "char \<Rightarrow> nat" where
  [class_simps]: "char_code c = of_char c"

definition is_digit_char :: "char \<Rightarrow> bool" where
  [class_simps]: "is_digit_char c \<longleftrightarrow> 48 \<le> char_code c \<and> char_code c \<le> 57"

definition is_alpha_char :: "char \<Rightarrow> bool" where
  [class_simps]: "is_alpha_char c \<longleftrightarrow>
     (65 \<le> char_code c \<and> char_code c \<le> 90) \<or> (97 \<le> char_code c \<and> char_code c \<le> 122)"

definition is_alnum_char :: "char \<Rightarrow> bool" where
  [class_simps]: "is_alnum_char c \<longleftrightarrow> is_alpha_char c \<or> is_digit_char c"

definition is_xdigit_char :: "char \<Rightarrow> bool" where
  [class_simps]: "is_xdigit_char c \<longleftrightarrow> is_digit_char c \<or>
     (65 \<le> char_code c \<and> char_code c \<le> 70) \<or> (97 \<le> char_code c \<and> char_code c \<le> 102)"

definition is_space_char :: "char \<Rightarrow> bool" where
  [class_simps]: "is_space_char c \<longleftrightarrow> c = CHR '' '' \<or> (9 \<le> char_code c \<and> char_code c \<le> 13)"

abbreviation newline_char :: char where "newline_char \<equiv> CHR 0x0A"
abbreviation return_char :: char where "return_char \<equiv> CHR 0x0D"
abbreviation tab_char :: char where "tab_char \<equiv> CHR 0x09"
abbreviation nul_char :: char where "nul_char \<equiv> CHR 0x00"
abbreviation quote_char :: char where "quote_char \<equiv> CHR 0x22"
abbreviation apostrophe_char :: char where "apostrophe_char \<equiv> CHR 0x27"
abbreviation backslash_char :: char where "backslash_char \<equiv> CHR 0x5C"

section \<open>Decimal text\<close>

fun string_of_nat :: "nat \<Rightarrow> string" where
  "string_of_nat n =
     (if n < 10 then [char_of (48 + n)] else string_of_nat (n div 10) @ [char_of (48 + n mod 10)])"

declare string_of_nat.simps [simp del]

definition string_of_int :: "int \<Rightarrow> string" where
  "string_of_int i = (if i < 0 then CHR ''-'' # string_of_nat (nat (- i)) else string_of_nat (nat i))"

definition decimal_value :: "string \<Rightarrow> nat" where
  "decimal_value = foldl (\<lambda>a c. a * 10 + (char_code c - 48)) 0"

lemma char_code_digit [simp]: "d < 10 \<Longrightarrow> char_code (char_of (48 + d)) = 48 + d"
  by (simp add: char_code_def)

lemma string_of_nat_digits: "\<forall>c \<in> set (string_of_nat n). is_digit_char c"
proof (induction n rule: string_of_nat.induct)
  case (1 n)
  show ?case
  proof (cases "n < 10")
    case True
    then show ?thesis by (subst string_of_nat.simps) (simp add: is_digit_char_def)
  next
    case False
    with 1 have "\<forall>c \<in> set (string_of_nat (n div 10)). is_digit_char c" by simp
    with False show ?thesis by (subst string_of_nat.simps) (auto simp: is_digit_char_def)
  qed
qed

lemma string_of_nat_neq_Nil [simp]: "string_of_nat n \<noteq> []"
  by (subst string_of_nat.simps) simp

lemma decimal_value_string_of_nat [simp]: "decimal_value (string_of_nat n) = n"
proof (induction n rule: string_of_nat.induct)
  case (1 n)
  show ?case
  proof (cases "n < 10")
    case True
    then show ?thesis by (subst string_of_nat.simps) (simp add: decimal_value_def)
  next
    case False
    with 1 have "decimal_value (string_of_nat (n div 10)) = n div 10" by simp
    with False show ?thesis by (subst string_of_nat.simps) (simp add: decimal_value_def)
  qed
qed

lemma string_of_nat_inject [simp]: "string_of_nat m = string_of_nat n \<longleftrightarrow> m = n"
  by (metis decimal_value_string_of_nat)

section \<open>Separated text\<close>

text \<open>The loop \<open>if (index > 0) stream << sep; stream << item\<close> of the source's printers.\<close>

fun join_with :: "string \<Rightarrow> string list \<Rightarrow> string" where
  "join_with sep [] = []"
| "join_with sep [x] = x"
| "join_with sep (x # y # ys) = x @ sep @ join_with sep (y # ys)"

section \<open>Loops with fuel\<close>

text \<open>
  \<open>fuel_loop n f x\<close> runs the body \<open>f\<close> at most \<open>n\<close> times: \<open>Inl\<close> goes round again with the new
  loop state, \<open>Inr\<close> leaves the loop with its result.
\<close>

primrec fuel_loop :: "nat \<Rightarrow> ('x \<Rightarrow> ('x + 'r) option) \<Rightarrow> 'x \<Rightarrow> 'r option" where
  "fuel_loop 0 f x = None"
| "fuel_loop (Suc n) f x =
     (case f x of None \<Rightarrow> None | Some (Inl y) \<Rightarrow> fuel_loop n f y | Some (Inr r) \<Rightarrow> Some r)"

text \<open>
  Total correctness: an invariant kept by the body, a measure the body decreases whenever it
  goes round, and fuel above the measure of the start.
\<close>

lemma fuel_loop_total:
  assumes "I x" and "\<mu> x < n"
    and step: "\<And>y. I y \<Longrightarrow> \<mu> y \<le> \<mu> x \<Longrightarrow>
      (\<exists>z. f y = Some (Inl z) \<and> I z \<and> \<mu> z < \<mu> y) \<or> (\<exists>r. f y = Some (Inr r) \<and> Q r)"
  shows "\<exists>r. fuel_loop n f x = Some r \<and> Q r"
  using assms
proof (induction n arbitrary: x)
  case 0
  then show ?case by simp
next
  case (Suc n)
  from Suc.prems(3) [OF Suc.prems(1)] consider
      (again) z where "f x = Some (Inl z)" "I z" "\<mu> z < \<mu> x"
    | (stop) r where "f x = Some (Inr r)" "Q r"
    by auto
  then show ?case
  proof cases
    case again
    have "\<exists>r. fuel_loop n f z = Some r \<and> Q r"
    proof (rule Suc.IH)
      show "I z" by fact
      show "\<mu> z < n" using again Suc.prems(2) by simp
    next
      fix y assume "I y" "\<mu> y \<le> \<mu> z"
      with again show "(\<exists>z. f y = Some (Inl z) \<and> I z \<and> \<mu> z < \<mu> y) \<or> (\<exists>r. f y = Some (Inr r) \<and> Q r)"
        by (intro Suc.prems(3)) auto
    qed
    with again show ?thesis by simp
  next
    case stop
    then show ?thesis by simp
  qed
qed

lemma fuel_loop_diverges:
  assumes "I x" and "\<And>y. I y \<Longrightarrow> f y = None \<or> (\<exists>z. f y = Some (Inl z) \<and> I z)"
  shows "fuel_loop n f x = None"
  using assms(1)
proof (induction n arbitrary: x)
  case (Suc n)
  with assms(2) [of x] show ?case by (auto)
qed simp

lemma fuel_loop_mono:
  assumes "fuel_loop n f x = Some r" and "n \<le> m"
    and "\<And>y v. f y = Some v \<Longrightarrow> g y = Some v"
  shows "fuel_loop m g x = Some r"
  using assms(1,2)
proof (induction n arbitrary: x m)
  case (Suc n)
  then obtain m' where "m = Suc m'" "n \<le> m'" by (cases m) auto
  with Suc show ?case
    by (auto dest!: assms(3) split: option.splits sum.splits)
qed simp

lemma take_drop_append: "i \<le> j \<Longrightarrow> j \<le> k \<Longrightarrow>
  take (j - i) (drop i xs) @ take (k - j) (drop j xs) = take (k - i) (drop i xs)"
  by (smt (verit) add.commute add_diff_cancel_left' drop_drop le_add_diff_inverse2 take_add
      Nat.add_diff_assoc2)

end
