(* ===== verification/MC_Support.thy ===== *)
theory MC_Support
  imports MC_Prelude
begin

unbundle bit_operations_syntax

text \<open>
  \<open>compiler/support\<close>: source positions and spans, diagnostics and the diagnostic sink, array
  length text, import path resolution and the names of build artifacts.

  A \<open>std::filesystem::path\<close> is its generic string. What the code asks the file system
  (\<open>absolute\<close> with \<open>lexically_normal\<close>, \<open>exists\<close>) is the argument \<open>fs\<close> of the definitions that ask.
\<close>

section \<open>Source positions (\<open>source_span.h\<close>)\<close>

record SourcePosition =
  pos_line :: nat
  pos_column :: nat

record SourceSpan =
  span_begin :: SourcePosition
  span_end :: SourcePosition

definition start_position :: SourcePosition where
  "start_position = \<lparr>pos_line = 1, pos_column = 1\<rparr>"

definition kDefaultSourceSpan :: SourceSpan where
  "kDefaultSourceSpan = \<lparr>span_begin = start_position, span_end = start_position\<rparr>"

section \<open>Diagnostics (\<open>diagnostics.h\<close>, \<open>diagnostics.cpp\<close>)\<close>

type_synonym path = string

datatype DiagnosticSeverity = kError | kWarning | kNote

record Diagnostic =
  diag_file_path :: path
  diag_span :: SourceSpan
  diag_severity :: DiagnosticSeverity
  diag_message :: string

type_synonym DiagnosticSink = "Diagnostic list"

fun ToString_severity :: "DiagnosticSeverity \<Rightarrow> string" where
  "ToString_severity kError = ''error''"
| "ToString_severity kWarning = ''warning''"
| "ToString_severity kNote = ''note''"

definition FormatDiagnostic :: "Diagnostic \<Rightarrow> string" where
  "FormatDiagnostic d =
     (if diag_file_path d = [] then ''<unknown>'' else diag_file_path d)
     @ '':'' @ string_of_nat (pos_line (span_begin (diag_span d)))
     @ '':'' @ string_of_nat (pos_column (span_begin (diag_span d)))
     @ '': '' @ ToString_severity (diag_severity d) @ '': '' @ diag_message d"

definition Report :: "Diagnostic \<Rightarrow> DiagnosticSink \<Rightarrow> DiagnosticSink" where
  "Report d sink = sink @ [d]"

fun HasErrors :: "DiagnosticSink \<Rightarrow> bool" where
  "HasErrors [] = False"
| "HasErrors (d # ds) = (if diag_severity d = kError then True else HasErrors ds)"

fun Render :: "DiagnosticSink \<Rightarrow> string" where
  "Render [] = []"
| "Render [d] = FormatDiagnostic d"
| "Render (d # e # ds) = FormatDiagnostic d @ [newline_char] @ Render (e # ds)"

lemma HasErrors_iff: "HasErrors ds \<longleftrightarrow> (\<exists>d \<in> set ds. diag_severity d = kError)"
  by (induction ds) auto

lemma HasErrors_Report [simp]:
  "HasErrors (Report d ds) \<longleftrightarrow> diag_severity d = kError \<or> HasErrors ds"
  by (auto simp: HasErrors_iff Report_def)

lemma HasErrors_append [simp]: "HasErrors (xs @ ys) \<longleftrightarrow> HasErrors xs \<or> HasErrors ys"
  by (auto simp: HasErrors_iff)

lemma Render_join: "Render ds = join_with [newline_char] (map FormatDiagnostic ds)"
  by (induction ds rule: Render.induct) auto

section \<open>Array lengths\<close>

text \<open>\<open>ParseArrayLength\<close> accumulates in a \<open>std::size_t\<close>, so the multiplication wraps.\<close>

fun ParseArrayLength_loop :: "string \<Rightarrow> size64 \<Rightarrow> size64 option" where
  "ParseArrayLength_loop [] v = Some v"
| "ParseArrayLength_loop (ch # chs) v =
     (if char_code ch < 48 \<or> 57 < char_code ch then None
      else ParseArrayLength_loop chs (v * 10 + of_nat (char_code ch - 48)))"

definition ParseArrayLength :: "string \<Rightarrow> size64 option" where
  "ParseArrayLength text = (if text = [] then None else ParseArrayLength_loop text 0)"

lemma ParseArrayLength_loop_eq:
  "ParseArrayLength_loop cs v =
     (if \<forall>c \<in> set cs. is_digit_char c
      then Some (foldl (\<lambda>a c. a * 10 + of_nat (char_code c - 48)) v cs) else None)"
  by (induction cs arbitrary: v) (auto simp: is_digit_char_def)

lemma foldl_decimal_of_nat:
  "foldl (\<lambda>a c. a * 10 + of_nat (char_code c - 48)) (of_nat n :: 'a::comm_semiring_1) cs =
     of_nat (foldl (\<lambda>a c. a * 10 + (char_code c - 48)) n cs)"
proof (induction cs arbitrary: n)
  case (Cons c cs)
  have "(of_nat n :: 'a) * 10 + of_nat (char_code c - 48) = of_nat (n * 10 + (char_code c - 48))"
    by simp
  then show ?case
    by (simp only: foldl_Cons Cons.IH)
qed simp

lemma ParseArrayLength_decimal:
  "ParseArrayLength t =
     (if t \<noteq> [] \<and> (\<forall>c \<in> set t. is_digit_char c) then Some (of_nat (decimal_value t)) else None)"
  using foldl_decimal_of_nat [where n = 0 and 'a = "64 word"]
  by (simp add: ParseArrayLength_def ParseArrayLength_loop_eq decimal_value_def)

lemma ParseArrayLength_string_of_nat [simp]:
  "ParseArrayLength (string_of_nat n) = Some (of_nat n)"
  using string_of_nat_digits [of n] by (simp add: ParseArrayLength_decimal)

section \<open>Paths and import resolution\<close>

record filesystem =
  fs_absolute_normal :: "path \<Rightarrow> path"
  fs_lexically_normal :: "path \<Rightarrow> path"
  fs_exists :: "path \<Rightarrow> bool"

abbreviation slash :: char where "slash \<equiv> CHR ''/''"

definition path_append :: "path \<Rightarrow> path \<Rightarrow> path" where
  \<comment> \<open>\<open>operator/\<close> of a POSIX path: an absolute right operand replaces the left one.\<close>
  "path_append a b =
     (if b \<noteq> [] \<and> hd b = slash then b
      else if a = [] \<or> last a = slash then a @ b
      else a @ [slash] @ b)"

definition path_filename :: "path \<Rightarrow> path" where
  "path_filename p = rev (takeWhile (\<lambda>c. c \<noteq> slash) (rev p))"

definition path_parent :: "path \<Rightarrow> path" where
  \<comment> \<open>\<open>parent_path()\<close>: drop the file name and the separators before it; a root stays a root.\<close>
  "path_parent p =
     (let dir = rev (dropWhile (\<lambda>c. c \<noteq> slash) (rev p));
          stripped = rev (dropWhile (\<lambda>c. c = slash) (rev dir))
      in if stripped = [] \<and> dir \<noteq> [] then [slash] else stripped)"

definition kInternalModuleFilename :: string where
  "kInternalModuleFilename = ''internal.mc''"

definition IsInternalModulePath :: "path \<Rightarrow> bool" where
  "IsInternalModulePath p \<longleftrightarrow> path_filename p = kInternalModuleFilename"

definition JoinPaths :: "path list \<Rightarrow> string" where
  "JoinPaths = join_with '', ''"

definition import_error :: "path \<Rightarrow> SourceSpan \<Rightarrow> string \<Rightarrow> Diagnostic" where
  "import_error p sp msg =
     \<lparr>diag_file_path = p, diag_span = sp, diag_severity = kError, diag_message = msg\<rparr>"

text \<open>The loop over the roots: \<open>matches\<close> doubles as \<open>seen_matches\<close>, which holds the same paths.\<close>

fun collect_matches :: "filesystem \<Rightarrow> string \<Rightarrow> path list \<Rightarrow> path list \<Rightarrow> path list" where
  "collect_matches fs m [] found = found"
| "collect_matches fs m (root # roots) found =
     (let candidate = fs_absolute_normal fs (path_append root (m @ ''.mc''))
      in if fs_exists fs candidate \<and> candidate \<notin> set found
         then collect_matches fs m roots (found @ [candidate])
         else collect_matches fs m roots found)"

definition ResolveImportPathFromRoots ::
  "filesystem \<Rightarrow> path \<Rightarrow> string \<Rightarrow> path list \<Rightarrow> DiagnosticSink \<Rightarrow> SourceSpan \<Rightarrow>
     path option \<times> DiagnosticSink" where
  "ResolveImportPathFromRoots fs diagnostic_path module_name search_roots sink span =
     (case collect_matches fs module_name search_roots [] of
        [p] \<Rightarrow> (Some p, sink)
      | [] \<Rightarrow> (None, Report (import_error diagnostic_path span
                 (''unable to resolve import module: '' @ module_name)) sink)
      | ps \<Rightarrow> (None, Report (import_error diagnostic_path span
                 (''ambiguous import module '' @ [apostrophe_char] @ module_name
                  @ [apostrophe_char] @ '' matched multiple roots: '' @ JoinPaths ps)) sink))"

definition ResolveImportPath ::
  "filesystem \<Rightarrow> path \<Rightarrow> string \<Rightarrow> path list \<Rightarrow> DiagnosticSink \<Rightarrow> SourceSpan \<Rightarrow>
     path option \<times> DiagnosticSink" where
  "ResolveImportPath fs importer_path module_name import_roots sink span =
     ResolveImportPathFromRoots fs importer_path module_name
       (path_parent importer_path # import_roots) sink span"

definition import_candidates :: "filesystem \<Rightarrow> string \<Rightarrow> path list \<Rightarrow> path set" where
  \<comment> \<open>Reference: the existing files the module name can mean.\<close>
  "import_candidates fs m roots =
     {c \<in> (\<lambda>r. fs_absolute_normal fs (path_append r (m @ ''.mc''))) ` set roots. fs_exists fs c}"

lemma collect_matches_set:
  "set (collect_matches fs m roots found) = set found \<union> import_candidates fs m roots"
  by (induction fs m roots found rule: collect_matches.induct)
    (auto simp: Let_def import_candidates_def)

lemma collect_matches_distinct:
  "distinct found \<Longrightarrow> distinct (collect_matches fs m roots found)"
  by (induction fs m roots found rule: collect_matches.induct) (auto simp: Let_def)

lemma ResolveImportPathFromRoots_cases:
  fixes fs m roots
  defines "C \<equiv> import_candidates fs m roots"
  shows "(\<exists>p. C = {p} \<and> ResolveImportPathFromRoots fs d m roots sink sp = (Some p, sink)) \<or>
    (\<nexists>p. C = {p}) \<and>
      (\<exists>msg. ResolveImportPathFromRoots fs d m roots sink sp = (None, sink @ [import_error d sp msg]))"
proof -
  let ?ms = "collect_matches fs m roots []"
  have C: "C = set ?ms" by (simp add: C_def collect_matches_set)
  have d: "distinct ?ms" by (rule collect_matches_distinct) simp
  consider "?ms = []" | p where "?ms = [p]" | p q ps where "?ms = p # q # ps"
    by (metis list.exhaust)
  then show ?thesis
  proof cases
    case 3
    with d have "p \<noteq> q" "p \<in> C" "q \<in> C" by (auto simp: C)
    then have "\<nexists>x. C = {x}" by auto
    with 3 show ?thesis by (auto simp: ResolveImportPathFromRoots_def Report_def)
  qed (auto simp: ResolveImportPathFromRoots_def Report_def C)
qed

section \<open>Artifact names (\<open>dump_paths.cpp\<close>)\<close>

fun sanitize_chars :: "string \<Rightarrow> string" where
  "sanitize_chars [] = []"
| "sanitize_chars (b # bs) =
     (if is_alnum_char b then b else if b = CHR ''.'' then CHR ''.'' else CHR ''_'')
       # sanitize_chars bs"

definition SanitizeArtifactStemText :: "string \<Rightarrow> string" where
  "SanitizeArtifactStemText text =
     (let stem = sanitize_chars text in if stem = [] then ''module'' else stem)"

definition hex_digit :: "uint64 \<Rightarrow> char" where
  "hex_digit d = ''0123456789abcdef'' ! unat d"

primrec HexU64_loop :: "nat \<Rightarrow> uint64 \<Rightarrow> string \<Rightarrow> string" where
  "HexU64_loop 0 v text = text"
| "HexU64_loop (Suc index) v text =
     HexU64_loop index (drop_bit 4 v) (text[index := hex_digit (v AND 0xF)])"

definition HexU64 :: "uint64 \<Rightarrow> string" where
  "HexU64 v = HexU64_loop 16 v (replicate 16 (CHR ''0''))"

fun hash_step :: "uint64 \<Rightarrow> char \<Rightarrow> uint64" where
  "hash_step h b = (h XOR of_nat (char_code b)) * 1099511628211"

definition artifact_hash :: "string \<Rightarrow> uint64" where
  "artifact_hash text = foldl hash_step 1469598103934665603 text"

definition HashArtifactKey :: "string \<Rightarrow> string" where
  "HashArtifactKey text = HexU64 (artifact_hash text)"

definition SanitizeLogicalArtifactStem :: "string \<Rightarrow> string" where
  "SanitizeLogicalArtifactStem key = SanitizeArtifactStemText key @ ''.'' @ HashArtifactKey key"

definition SanitizeArtifactStem :: "filesystem \<Rightarrow> path \<Rightarrow> string" where
  "SanitizeArtifactStem fs source_path =
     (let key = fs_lexically_normal fs source_path
      in SanitizeArtifactStemText key @ ''.'' @ HashArtifactKey key)"

record DumpTargets =
  dump_ast :: path
  dump_mir :: path
  dump_backend :: path
  dump_mci :: path

record BuildArtifactTargets =
  art_llvm_ir :: path
  art_object :: path
  art_executable :: path
  art_static_library :: path

definition dump_targets_of :: "string \<Rightarrow> path \<Rightarrow> DumpTargets" where
  "dump_targets_of stem build_dir =
     (let dumps = path_append build_dir ''dumps'' in
      \<lparr>dump_ast = path_append (path_append dumps ''ast'') (stem @ ''.ast.txt''),
       dump_mir = path_append (path_append dumps ''mir'') (stem @ ''.mir.txt''),
       dump_backend = path_append (path_append dumps ''backend'') (stem @ ''.backend.txt''),
       dump_mci = path_append (path_append build_dir ''mci'') (stem @ ''.mci'')\<rparr>)"

definition build_targets_of :: "string \<Rightarrow> path \<Rightarrow> BuildArtifactTargets" where
  "build_targets_of stem build_dir =
     \<lparr>art_llvm_ir =
        path_append (path_append (path_append build_dir ''dumps'') ''backend'') (stem @ ''.ll''),
      art_object = path_append (path_append build_dir ''obj'') (stem @ ''.o''),
      art_executable = path_append (path_append build_dir ''bin'') stem,
      art_static_library = path_append (path_append build_dir ''lib'') (''lib'' @ stem @ ''.a'')\<rparr>"

definition ComputeDumpTargets :: "filesystem \<Rightarrow> path \<Rightarrow> path \<Rightarrow> DumpTargets" where
  "ComputeDumpTargets fs source_path build_dir =
     dump_targets_of (SanitizeArtifactStem fs source_path) build_dir"

definition ComputeLogicalDumpTargets :: "string \<Rightarrow> path \<Rightarrow> DumpTargets" where
  "ComputeLogicalDumpTargets key build_dir =
     dump_targets_of (SanitizeLogicalArtifactStem key) build_dir"

definition ComputeBuildArtifactTargets :: "filesystem \<Rightarrow> path \<Rightarrow> path \<Rightarrow> BuildArtifactTargets" where
  "ComputeBuildArtifactTargets fs source_path build_dir =
     build_targets_of (SanitizeArtifactStem fs source_path) build_dir"

definition ComputeLogicalBuildArtifactTargets :: "string \<Rightarrow> path \<Rightarrow> BuildArtifactTargets" where
  "ComputeLogicalBuildArtifactTargets key build_dir =
     build_targets_of (SanitizeLogicalArtifactStem key) build_dir"

section \<open>What an operation adds to the sink\<close>

text \<open>\<open>reported d ok d' ok'\<close>: the sink went from \<open>d\<close> to \<open>d'\<close> and the flag of the pass from \<open>ok\<close> to
  \<open>ok'\<close>; only errors were added, and the flag was cleared exactly if there were some.\<close>

definition reported :: "DiagnosticSink \<Rightarrow> bool \<Rightarrow> DiagnosticSink \<Rightarrow> bool \<Rightarrow> bool" where
  "reported d ok d' ok' \<longleftrightarrow>
     (\<exists>ds. d' = d @ ds \<and> (\<forall>x \<in> set ds. diag_severity x = kError) \<and> (ok' \<longleftrightarrow> ok \<and> ds = []))"

lemma reported_refl [simp]: "reported d ok d ok"
  by (simp add: reported_def)

lemma reported_trans: "reported d ok d1 ok1 \<Longrightarrow> reported d1 ok1 d2 ok2 \<Longrightarrow> reported d ok d2 ok2"
  unfolding reported_def by (elim exE conjE, rule_tac x = "ds @ dsa" in exI) auto

lemma reported_Report: "reported d ok d1 ok1 \<Longrightarrow> diag_severity x = kError \<Longrightarrow> reported d ok (Report x d1) False"
  unfolding reported_def Report_def by (elim exE conjE, rule_tac x = "ds @ [x]" in exI) auto

lemma reported_ok: "reported d ok d' ok' \<Longrightarrow> ok' \<Longrightarrow> ok"
  by (simp add: reported_def)

end
