(* ===== verification/MC_Token.thy ===== *)
theory MC_Token
  imports MC_Support
begin

text \<open>
  \<open>compiler/lex/token.h\<close> and the keyword and spelling tables of \<open>compiler/lex/lexer.cpp\<close>: the
  token kinds, the token record, \<open>kKeywords\<close> and \<open>ToString(TokenKind)\<close>.
\<close>

datatype (plugins only: code) TokenKind =
    T_kNewline | T_kIdentifier | T_kImport | T_kExport | T_kFunc | T_kStruct | T_kEnum
    | T_kDistinct | T_kType | T_kExtern | T_kIf | T_kElse | T_kSwitch | T_kCase | T_kDefault
    | T_kFor | T_kWhile | T_kIn | T_kIs | T_kWith | T_kReturn | T_kBreak | T_kContinue
    | T_kDefer | T_kVar | T_kConst | T_kNil | T_kTrue | T_kFalse | T_kIntLiteral
    | T_kFloatLiteral | T_kStringLiteral | T_kCharLiteral | T_kLBrace | T_kRBrace | T_kLParen
    | T_kRParen | T_kLBracket | T_kRBracket | T_kComma | T_kColon | T_kColonAssign | T_kDot
    | T_kAt | T_kDotDeref | T_kRange | T_kAssign | T_kEqEq | T_kBangEq | T_kLt | T_kLtEq
    | T_kLtLt | T_kGt | T_kGtEq | T_kGtGt | T_kPlus | T_kMinus | T_kStar | T_kSlash
    | T_kPercent | T_kAmp | T_kPipe | T_kCaret | T_kBang | T_kAmpAmp | T_kPipePipe | T_kArrow
    | T_kEof

record Token =
  tok_kind :: TokenKind
  tok_lexeme :: string
  tok_integer_value :: "int64 option"
  tok_float_value :: "double option"
  tok_span :: SourceSpan

definition kKeywords :: "(string \<times> TokenKind) list" where
  "kKeywords =
    [(''import'', T_kImport), (''export'', T_kExport), (''func'', T_kFunc),
     (''struct'', T_kStruct), (''enum'', T_kEnum), (''distinct'', T_kDistinct),
     (''type'', T_kType), (''extern'', T_kExtern), (''if'', T_kIf), (''else'', T_kElse),
     (''switch'', T_kSwitch), (''case'', T_kCase), (''default'', T_kDefault),
     (''for'', T_kFor), (''while'', T_kWhile), (''in'', T_kIn), (''is'', T_kIs),
     (''with'', T_kWith), (''return'', T_kReturn), (''break'', T_kBreak),
     (''continue'', T_kContinue), (''defer'', T_kDefer), (''var'', T_kVar),
     (''const'', T_kConst), (''nil'', T_kNil), (''true'', T_kTrue), (''false'', T_kFalse)]"

definition find_keyword :: "string \<Rightarrow> TokenKind option" where
  "find_keyword text = map_of kKeywords text"

primrec ToString_kind :: "TokenKind \<Rightarrow> string" where
  "ToString_kind T_kNewline = ''newline''"
| "ToString_kind T_kIdentifier = ''identifier''"
| "ToString_kind T_kImport = ''import''"
| "ToString_kind T_kExport = ''export''"
| "ToString_kind T_kFunc = ''func''"
| "ToString_kind T_kStruct = ''struct''"
| "ToString_kind T_kEnum = ''enum''"
| "ToString_kind T_kDistinct = ''distinct''"
| "ToString_kind T_kType = ''type''"
| "ToString_kind T_kExtern = ''extern''"
| "ToString_kind T_kIf = ''if''"
| "ToString_kind T_kElse = ''else''"
| "ToString_kind T_kSwitch = ''switch''"
| "ToString_kind T_kCase = ''case''"
| "ToString_kind T_kDefault = ''default''"
| "ToString_kind T_kFor = ''for''"
| "ToString_kind T_kWhile = ''while''"
| "ToString_kind T_kIn = ''in''"
| "ToString_kind T_kIs = ''is''"
| "ToString_kind T_kWith = ''with''"
| "ToString_kind T_kReturn = ''return''"
| "ToString_kind T_kBreak = ''break''"
| "ToString_kind T_kContinue = ''continue''"
| "ToString_kind T_kDefer = ''defer''"
| "ToString_kind T_kVar = ''var''"
| "ToString_kind T_kConst = ''const''"
| "ToString_kind T_kNil = ''nil''"
| "ToString_kind T_kTrue = ''true''"
| "ToString_kind T_kFalse = ''false''"
| "ToString_kind T_kIntLiteral = ''int_lit''"
| "ToString_kind T_kFloatLiteral = ''float_lit''"
| "ToString_kind T_kStringLiteral = ''string_lit''"
| "ToString_kind T_kCharLiteral = ''char_lit''"
| "ToString_kind T_kLBrace = ''{''"
| "ToString_kind T_kRBrace = ''}''"
| "ToString_kind T_kLParen = ''(''"
| "ToString_kind T_kRParen = '')''"
| "ToString_kind T_kLBracket = ''[''"
| "ToString_kind T_kRBracket = '']''"
| "ToString_kind T_kComma = '',''"
| "ToString_kind T_kColon = '':''"
| "ToString_kind T_kColonAssign = '':=''"
| "ToString_kind T_kDot = ''.''"
| "ToString_kind T_kAt = ''@''"
| "ToString_kind T_kDotDeref = ''.*''"
| "ToString_kind T_kRange = ''..''"
| "ToString_kind T_kAssign = ''=''"
| "ToString_kind T_kEqEq = ''==''"
| "ToString_kind T_kBangEq = ''!=''"
| "ToString_kind T_kLt = ''<''"
| "ToString_kind T_kLtEq = ''<=''"
| "ToString_kind T_kLtLt = ''<<''"
| "ToString_kind T_kGt = ''>''"
| "ToString_kind T_kGtEq = ''>=''"
| "ToString_kind T_kGtGt = ''>>''"
| "ToString_kind T_kPlus = ''+''"
| "ToString_kind T_kMinus = ''-''"
| "ToString_kind T_kStar = ''*''"
| "ToString_kind T_kSlash = ''/''"
| "ToString_kind T_kPercent = ''%''"
| "ToString_kind T_kAmp = ''&''"
| "ToString_kind T_kPipe = ''|''"
| "ToString_kind T_kCaret = ''^''"
| "ToString_kind T_kBang = ''!''"
| "ToString_kind T_kAmpAmp = ''&&''"
| "ToString_kind T_kPipePipe = ''||''"
| "ToString_kind T_kArrow = ''->''"
| "ToString_kind T_kEof = ''eof''"

text \<open>Kinds whose spelling in the source text is fixed: the keywords and the punctuation.\<close>

definition has_fixed_spelling :: "TokenKind \<Rightarrow> bool" where
  "has_fixed_spelling k \<longleftrightarrow>
     k \<noteq> T_kNewline \<and> k \<noteq> T_kIdentifier \<and> k \<noteq> T_kIntLiteral \<and> k \<noteq> T_kFloatLiteral \<and>
     k \<noteq> T_kStringLiteral \<and> k \<noteq> T_kCharLiteral \<and> k \<noteq> T_kEof"

lemma find_keyword_spelling: "find_keyword t = Some k \<Longrightarrow> ToString_kind k = t"
  unfolding find_keyword_def
  by (drule map_of_SomeD) (auto simp: kKeywords_def)

lemma find_keyword_kind: "find_keyword t = Some k \<Longrightarrow> k \<in> snd ` set kKeywords"
  unfolding find_keyword_def by (drule map_of_SomeD) (force)

lemma keyword_kind_fixed:
  "k \<in> snd ` set kKeywords \<Longrightarrow> has_fixed_spelling k"
  by (auto simp: kKeywords_def has_fixed_spelling_def)

end
