(* ===== verification/MC_Lexer.thy ===== *)
theory MC_Lexer
  imports MC_Token
begin

text \<open>
  \<open>compiler/lex/lexer.cpp\<close>: the class \<open>Lexer\<close>. Its members \<open>index_\<close>, \<open>line_\<close>, \<open>column_\<close>, the
  sink it reports to and the \<open>ok\<close> flag its operations take by reference are one state record;
  each loop of the class is a recursive function whose measure is the text left to read.
  \<open>stream >> value\<close> on a \<open>double\<close> is the argument \<open>stream_double\<close>: the value read and whether the
  whole text was consumed, or \<open>None\<close> when the extraction fails.
\<close>

section \<open>Literal values\<close>

definition DigitValue :: "char \<Rightarrow> int" where
  "DigitValue ch =
     (let c = int (char_code ch) in
      if 48 \<le> c \<and> c \<le> 57 then c - 48
      else if 97 \<le> c \<and> c \<le> 102 then 10 + (c - 97)
      else if 65 \<le> c \<and> c \<le> 70 then 10 + (c - 65)
      else - 1)"

definition int64_max :: uint64 where "int64_max = 0x7FFFFFFFFFFFFFFF"

fun parse_digits :: "nat \<Rightarrow> string \<Rightarrow> uint64 \<Rightarrow> bool \<Rightarrow> (uint64 \<times> bool) option" where
  "parse_digits base [] value saw = Some (value, saw)"
| "parse_digits base (ch # chs) value saw =
     (if ch = CHR ''_'' then parse_digits base chs value saw
      else let digit = DigitValue ch in
        if digit < 0 \<or> int base \<le> digit then None
        else let d = of_int digit :: uint64 in
          if (int64_max - d) div of_nat base < value then None
          else parse_digits base chs (value * of_nat base + d) True)"

definition ParseIntegerLiteralValue :: "string \<Rightarrow> int64 option" where
  "ParseIntegerLiteralValue text =
     (if text = [] then None
      else
        let hex = 2 \<le> length text \<and> text ! 0 = CHR ''0'' \<and> (text ! 1 = CHR ''x'' \<or> text ! 1 = CHR ''X'');
            base = (if hex then 16 else 10);
            body = (if hex then drop 2 text else text)
        in if body = [] then None
           else case parse_digits base body 0 False of
             None \<Rightarrow> None
           | Some (value, saw) \<Rightarrow> if saw then Some value else None)"

definition ParseFloatLiteralValue ::
  "(string \<Rightarrow> (double \<times> bool) option) \<Rightarrow> string \<Rightarrow> double option" where
  "ParseFloatLiteralValue stream_double text =
     (case stream_double (filter (\<lambda>ch. ch \<noteq> CHR ''_'') text) of
        Some (value, eof) \<Rightarrow> if eof then Some value else None
      | None \<Rightarrow> None)"

definition DecodeCharEscape :: "char \<Rightarrow> int64 option" where
  "DecodeCharEscape escape =
     (if escape = apostrophe_char then Some (of_nat (char_code apostrophe_char))
      else if escape = backslash_char then Some (of_nat (char_code backslash_char))
      else if escape = CHR ''n'' then Some (of_nat (char_code newline_char))
      else if escape = CHR ''r'' then Some (of_nat (char_code return_char))
      else if escape = CHR ''t'' then Some (of_nat (char_code tab_char))
      else if escape = CHR ''0'' then Some (of_nat (char_code nul_char))
      else None)"

section \<open>The state of the lexer\<close>

record LexState =
  lx_source :: string
  lx_file_path :: path
  lx_index :: nat
  lx_line :: nat
  lx_column :: nat
  lx_diagnostics :: DiagnosticSink
  lx_ok :: bool

definition AtEnd_lx :: "LexState \<Rightarrow> bool" where
  "AtEnd_lx s \<longleftrightarrow> length (lx_source s) \<le> lx_index s"

definition Peek_lx :: "LexState \<Rightarrow> char" where
  "Peek_lx s = (if AtEnd_lx s then nul_char else lx_source s ! lx_index s)"

definition PeekNext_lx :: "LexState \<Rightarrow> char" where
  "PeekNext_lx s =
     (if length (lx_source s) \<le> lx_index s + 1 then nul_char else lx_source s ! (lx_index s + 1))"

definition Advance_lx :: "LexState \<Rightarrow> LexState" where
  \<comment> \<open>Every caller reads the returned character first, as \<open>Peek_lx\<close>.\<close>
  "Advance_lx s =
     (if lx_source s ! lx_index s = newline_char
      then s\<lparr>lx_index := lx_index s + 1, lx_line := lx_line s + 1, lx_column := 1\<rparr>
      else s\<lparr>lx_index := lx_index s + 1, lx_column := lx_column s + 1\<rparr>)"

definition CurrentPosition :: "LexState \<Rightarrow> SourcePosition" where
  "CurrentPosition s = \<lparr>pos_line = lx_line s, pos_column = lx_column s\<rparr>"

definition IsIdentifierStart :: "char \<Rightarrow> bool" where
  "IsIdentifierStart c \<longleftrightarrow> is_alpha_char c \<or> c = CHR ''_''"

definition IsIdentifierContinue :: "char \<Rightarrow> bool" where
  "IsIdentifierContinue c \<longleftrightarrow> is_alnum_char c \<or> c = CHR ''_''"

definition lex_error :: "SourcePosition \<Rightarrow> string \<Rightarrow> LexState \<Rightarrow> LexState" where
  \<comment> \<open>\<open>ok = false; diagnostics_.Report(...)\<close>, the span ending at the current position.\<close>
  "lex_error start msg s =
     s\<lparr>lx_ok := False,
       lx_diagnostics := Report
         \<lparr>diag_file_path = lx_file_path s,
          diag_span = \<lparr>span_begin = start, span_end = CurrentPosition s\<rparr>,
          diag_severity = kError, diag_message = msg\<rparr> (lx_diagnostics s)\<rparr>"

definition substr :: "LexState \<Rightarrow> nat \<Rightarrow> nat \<Rightarrow> string" where
  "substr s start len = take len (drop start (lx_source s))"

definition lex_token ::
  "TokenKind \<Rightarrow> string \<Rightarrow> int64 option \<Rightarrow> double option \<Rightarrow> SourcePosition \<Rightarrow> LexState \<Rightarrow> Token" where
  "lex_token k lexeme i f start s =
     \<lparr>tok_kind = k, tok_lexeme = lexeme, tok_integer_value = i, tok_float_value = f,
      tok_span = \<lparr>span_begin = start, span_end = CurrentPosition s\<rparr>\<rparr>"

definition lex_remaining :: "LexState \<Rightarrow> nat" where
  "lex_remaining s = length (lx_source s) - lx_index s"

lemma lex_remaining_Advance [simp]:
  "\<not> AtEnd_lx s \<Longrightarrow> lex_remaining (Advance_lx s) < lex_remaining s"
  by (auto simp: lex_remaining_def AtEnd_lx_def Advance_lx_def)

section \<open>Where the lexer stands in the text\<close>

text \<open>
  \<open>pos_at src i\<close> is the line and column of offset \<open>i\<close>, counted from the start of the file:
  the reference for \<open>line_\<close> and \<open>column_\<close>. \<open>lx_ext s s'\<close> says what every operation of the class
  keeps: the text, the position reached (which only grows and stays the position of the
  index), and the sink, which gets error diagnostics exactly when \<open>ok\<close> is cleared.
\<close>

definition pos_step :: "nat \<times> nat \<Rightarrow> char \<Rightarrow> nat \<times> nat" where
  "pos_step lc c = (if c = newline_char then (fst lc + 1, 1) else (fst lc, snd lc + 1))"

definition pos_at :: "string \<Rightarrow> nat \<Rightarrow> nat \<times> nat" where
  "pos_at src i = foldl pos_step (1, 1) (take i src)"

definition position_of :: "string \<Rightarrow> nat \<Rightarrow> SourcePosition" where
  "position_of src i = \<lparr>pos_line = fst (pos_at src i), pos_column = snd (pos_at src i)\<rparr>"

definition lx_wf :: "LexState \<Rightarrow> bool" where
  "lx_wf s \<longleftrightarrow> lx_index s \<le> length (lx_source s) \<and>
     (lx_line s, lx_column s) = pos_at (lx_source s) (lx_index s)"

definition lx_ext :: "LexState \<Rightarrow> LexState \<Rightarrow> bool" where
  "lx_ext s s' \<longleftrightarrow> lx_source s' = lx_source s \<and> lx_file_path s' = lx_file_path s \<and>
     lx_index s \<le> lx_index s' \<and> (lx_wf s \<longrightarrow> lx_wf s') \<and>
     (\<exists>ds. lx_diagnostics s' = lx_diagnostics s @ ds \<and> (\<forall>d \<in> set ds. diag_severity d = kError) \<and>
       (lx_ok s' \<longleftrightarrow> lx_ok s \<and> ds = []))"

lemma lx_ext_refl [simp]: "lx_ext s s"
  by (simp add: lx_ext_def)

lemma lx_ext_trans: "lx_ext s t \<Longrightarrow> lx_ext t u \<Longrightarrow> lx_ext s u"
  unfolding lx_ext_def by (auto intro: order_trans)

lemma lx_ext_source: "lx_ext s t \<Longrightarrow> lx_source t = lx_source s"
  by (simp add: lx_ext_def)

lemma lx_ext_index: "lx_ext s t \<Longrightarrow> lx_index s \<le> lx_index t"
  by (simp add: lx_ext_def)

lemma lx_ext_wf: "lx_ext s t \<Longrightarrow> lx_wf s \<Longrightarrow> lx_wf t"
  by (simp add: lx_ext_def)

lemma lx_ext_remaining: "lx_ext s t \<Longrightarrow> lex_remaining t \<le> lex_remaining s"
  by (simp add: lx_ext_def lex_remaining_def diff_le_mono2)

lemma pos_at_Suc: "i < length src \<Longrightarrow> pos_at src (Suc i) = pos_step (pos_at src i) (src ! i)"
  by (simp add: pos_at_def take_Suc_conv_app_nth)

lemma lx_ext_Advance: "\<not> AtEnd_lx s \<Longrightarrow> lx_ext s (Advance_lx s)"
  by (auto simp: lx_ext_def lx_wf_def AtEnd_lx_def Advance_lx_def pos_at_Suc pos_step_def
      dest: sym)

lemma lx_ext_lex_error: "lx_ext s (lex_error p m s)"
  by (auto simp: lx_ext_def lex_error_def lx_wf_def Report_def)

lemma lex_error_simps [simp]:
  "lx_index (lex_error p m s) = lx_index s" "lx_source (lex_error p m s) = lx_source s"
  "AtEnd_lx (lex_error p m s) = AtEnd_lx s" "Peek_lx (lex_error p m s) = Peek_lx s"
  "lex_remaining (lex_error p m s) = lex_remaining s" "CurrentPosition (lex_error p m s) = CurrentPosition s"
  by (simp_all add: lex_error_def AtEnd_lx_def Peek_lx_def lex_remaining_def CurrentPosition_def)

lemma Advance_lx_simps [simp]:
  "lx_index (Advance_lx s) = Suc (lx_index s)" "lx_source (Advance_lx s) = lx_source s"
  by (simp_all add: Advance_lx_def)

lemma CurrentPosition_wf: "lx_wf s \<Longrightarrow> CurrentPosition s = position_of (lx_source s) (lx_index s)"
  by (cases "pos_at (lx_source s) (lx_index s)")
    (simp add: lx_wf_def CurrentPosition_def position_of_def)

text \<open>One more step at the front of a run.\<close>

lemma lx_ext_step:
  "lx_ext (Advance_lx s) t \<Longrightarrow> \<not> AtEnd_lx s \<Longrightarrow> lx_ext s t"
  "lx_ext (lex_error p m s) t \<Longrightarrow> lx_ext s t"
  by (blast intro: lx_ext_trans lx_ext_Advance lx_ext_lex_error)+

section \<open>Trivia and newlines\<close>

function skip_line_comment :: "LexState \<Rightarrow> LexState" where
  "skip_line_comment s =
     (if \<not> AtEnd_lx s \<and> Peek_lx s \<noteq> newline_char then skip_line_comment (Advance_lx s) else s)"
  by pat_completeness auto
termination
  by (relation "measure lex_remaining") auto

declare skip_line_comment.simps [simp del]

lemma skip_line_comment_ext: "lx_ext s (skip_line_comment s)"
proof (induction s rule: skip_line_comment.induct)
  case (1 s)
  then show ?case by (subst skip_line_comment.simps) (auto dest: lx_ext_step)
qed

lemma skip_line_comment_less:
  "\<not> AtEnd_lx s \<Longrightarrow> Peek_lx s \<noteq> newline_char \<Longrightarrow>
     lex_remaining (skip_line_comment s) < lex_remaining s"
  using lx_ext_remaining [OF skip_line_comment_ext [of "Advance_lx s"]]
  by (subst skip_line_comment.simps) (auto intro: le_less_trans)

function SkipTrivia :: "LexState \<Rightarrow> LexState" where
  "SkipTrivia s =
     (if AtEnd_lx s then s
      else if Peek_lx s = CHR '' '' \<or> Peek_lx s = tab_char \<or> Peek_lx s = return_char
      then SkipTrivia (Advance_lx s)
      else if Peek_lx s = slash \<and> PeekNext_lx s = slash
      then SkipTrivia (skip_line_comment s)
      else s)"
  by pat_completeness auto
termination
  by (relation "measure lex_remaining") (auto intro!: skip_line_comment_less)

declare SkipTrivia.simps [simp del]

lemma SkipTrivia_ext: "lx_ext s (SkipTrivia s)"
proof (induction s rule: SkipTrivia.induct)
  case (1 s)
  then show ?case
    by (subst SkipTrivia.simps)
      (auto dest: lx_ext_step lx_ext_trans [OF skip_line_comment_ext])
qed

function skip_newlines_lx :: "LexState \<Rightarrow> LexState" where
  "skip_newlines_lx s =
     (if \<not> AtEnd_lx s \<and> Peek_lx s = newline_char
      then skip_newlines_lx (SkipTrivia (Advance_lx s)) else s)"
  by pat_completeness auto
termination
  by (relation "measure lex_remaining") (auto intro: le_less_trans [OF lx_ext_remaining [OF SkipTrivia_ext]])

declare skip_newlines_lx.simps [simp del]

definition ConsumeNewline :: "LexState \<Rightarrow> (Token \<times> LexState) option" where
  "ConsumeNewline s =
     (if Peek_lx s \<noteq> newline_char then None
      else let s' = skip_newlines_lx s
        in Some (lex_token T_kNewline [backslash_char, CHR ''n''] None None (CurrentPosition s) s', s'))"

section \<open>Identifiers\<close>

function scan_identifier :: "LexState \<Rightarrow> LexState" where
  "scan_identifier s =
     (if \<not> AtEnd_lx s \<and> IsIdentifierContinue (Peek_lx s)
      then scan_identifier (Advance_lx s) else s)"
  by pat_completeness auto
termination
  by (relation "measure lex_remaining") auto

declare scan_identifier.simps [simp del]

definition LexIdentifier :: "LexState \<Rightarrow> Token \<times> LexState" where
  "LexIdentifier s =
     (let s' = scan_identifier s;
          text = substr s' (lx_index s) (lx_index s' - lx_index s);
          kind = (case find_keyword text of None \<Rightarrow> T_kIdentifier | Some k \<Rightarrow> k)
      in (lex_token kind text None None (CurrentPosition s) s', s'))"

section \<open>Numbers\<close>

function digit_loop ::
  "SourcePosition \<Rightarrow> (char \<Rightarrow> bool) \<Rightarrow> bool \<Rightarrow> string \<Rightarrow> bool \<Rightarrow> bool \<Rightarrow> LexState \<Rightarrow> bool \<times> LexState"
where
  "digit_loop start is_dig allow_separator separator_message saw_digit just_saw_separator s =
     (if AtEnd_lx s then (saw_digit, s)
      else let value = Peek_lx s in
        if is_dig value
        then digit_loop start is_dig allow_separator separator_message True False (Advance_lx s)
        else if value = CHR ''_''
        then let next = PeekNext_lx s;
                 separator_is_valid = allow_separator \<and> saw_digit \<and> \<not> just_saw_separator \<and>
                   next \<noteq> nul_char \<and> is_dig next
          in if \<not> separator_is_valid
             then digit_loop start is_dig allow_separator separator_message saw_digit
               just_saw_separator (Advance_lx (lex_error start separator_message s))
             else digit_loop start is_dig allow_separator separator_message saw_digit True
               (Advance_lx s)
        else (saw_digit, s))"
  by pat_completeness auto
termination
  by (relation "measure (\<lambda>(_, _, _, _, _, _, s). lex_remaining s)")
    (auto simp: lex_remaining_def AtEnd_lx_def Advance_lx_def lex_error_def)

declare digit_loop.simps [simp del]

definition ConsumeDigitSequence ::
  "SourcePosition \<Rightarrow> (char \<Rightarrow> bool) \<Rightarrow> bool \<Rightarrow> string \<Rightarrow> string \<Rightarrow> LexState \<Rightarrow> LexState" where
  "ConsumeDigitSequence start is_dig allow_separator missing_digits_message separator_message s =
     (let (saw_digit, s) = digit_loop start is_dig allow_separator separator_message False False s
      in if \<not> saw_digit then lex_error start missing_digits_message s else s)"

definition kSeparatorMessage :: string where
  "kSeparatorMessage = ''numeric separator must appear between digits''"

definition lex_fraction :: "SourcePosition \<Rightarrow> LexState \<Rightarrow> bool \<times> LexState" where
  "lex_fraction start s =
     (if \<not> AtEnd_lx s \<and> Peek_lx s = CHR ''.'' \<and> PeekNext_lx s \<noteq> CHR ''.''
      then (True, ConsumeDigitSequence start is_digit_char True
        ''expected digit after decimal point'' kSeparatorMessage (Advance_lx s))
      else (False, s))"

definition lex_exponent :: "SourcePosition \<Rightarrow> LexState \<Rightarrow> bool \<times> LexState" where
  "lex_exponent start s =
     (if \<not> AtEnd_lx s \<and> (Peek_lx s = CHR ''e'' \<or> Peek_lx s = CHR ''E'')
      then let s = Advance_lx s;
               s = (if \<not> AtEnd_lx s \<and> (Peek_lx s = CHR ''+'' \<or> Peek_lx s = CHR ''-'')
                    then Advance_lx s else s)
        in (True, ConsumeDigitSequence start is_digit_char False
          ''expected digits after exponent marker''
          ''numeric separator is not allowed in exponent'' s)
      else (False, s))"

definition scan_number :: "LexState \<Rightarrow> bool \<times> LexState" where
  \<comment> \<open>The body of \<open>LexNumber\<close>: whether the literal is a float, and the state after it.\<close>
  "scan_number s =
     (let start = CurrentPosition s in
      if Peek_lx s = CHR ''0'' \<and> (PeekNext_lx s = CHR ''x'' \<or> PeekNext_lx s = CHR ''X'')
      then (False, ConsumeDigitSequence start is_xdigit_char True
        ''expected hexadecimal digits after 0x'' kSeparatorMessage (Advance_lx (Advance_lx s)))
      else
        let s = ConsumeDigitSequence start is_digit_char True
              ''expected digits in numeric literal'' kSeparatorMessage s;
            (fraction, s) = lex_fraction start s;
            (exponent, s) = lex_exponent start s
        in (fraction \<or> exponent, s))"

definition LexNumber ::
  "(string \<Rightarrow> (double \<times> bool) option) \<Rightarrow> LexState \<Rightarrow> Token \<times> LexState" where
  "LexNumber stream_double s =
     (let (is_float, s') = scan_number s;
          lexeme = substr s' (lx_index s) (lx_index s' - lx_index s)
      in (if is_float
          then lex_token T_kFloatLiteral lexeme None
            (ParseFloatLiteralValue stream_double lexeme) (CurrentPosition s) s'
          else lex_token T_kIntLiteral lexeme
            (ParseIntegerLiteralValue lexeme) None (CurrentPosition s) s', s'))"

section \<open>Strings and characters\<close>

definition is_string_escape :: "char \<Rightarrow> bool" where
  "is_string_escape c \<longleftrightarrow> c = quote_char \<or> c = backslash_char \<or> c = CHR ''n'' \<or> c = CHR ''r'' \<or>
     c = CHR ''t'' \<or> c = CHR ''0''"

function string_loop :: "SourcePosition \<Rightarrow> LexState \<Rightarrow> bool \<times> LexState" where
  "string_loop start s =
     (if AtEnd_lx s then (False, s)
      else let value = Peek_lx s; s1 = Advance_lx s in
        if value = quote_char then (True, s1)
        else if value = backslash_char
        then if AtEnd_lx s1 then (False, s1)
          else let escape = Peek_lx s1; s2 = Advance_lx s1 in
            string_loop start
              (if is_string_escape escape then s2
               else lex_error start ''unsupported string escape'' s2)
        else if value = newline_char \<or> value = return_char then (False, s1)
        else string_loop start s1)"
  by pat_completeness auto
termination
  by (relation "measure (\<lambda>(_, s). lex_remaining s)")
    (auto simp: lex_remaining_def AtEnd_lx_def Advance_lx_def lex_error_def)

declare string_loop.simps [simp del]

definition scan_string :: "LexState \<Rightarrow> LexState" where
  "scan_string s =
     (let start = CurrentPosition s; (terminated, s') = string_loop start (Advance_lx s)
      in if \<not> terminated then lex_error start ''unterminated string literal'' s' else s')"

definition LexString :: "LexState \<Rightarrow> Token \<times> LexState" where
  "LexString s =
     (let s' = scan_string s
      in (lex_token T_kStringLiteral (substr s' (lx_index s) (lx_index s' - lx_index s))
            None None (CurrentPosition s) s', s'))"

record CharScan =
  cs_saw_value :: bool
  cs_has_extra :: bool
  cs_terminated :: bool
  cs_invalid :: bool
  cs_value :: "int64 option"

definition cs_init :: CharScan where
  "cs_init = \<lparr>cs_saw_value = False, cs_has_extra = False, cs_terminated = False,
     cs_invalid = False, cs_value = None\<rparr>"

definition cs_record :: "int64 option \<Rightarrow> CharScan \<Rightarrow> CharScan" where
  \<comment> \<open>\<open>if (decoded_value.has_value())\<close>: the first value is kept, a second one is extra.\<close>
  "cs_record decoded c =
     (case decoded of None \<Rightarrow> c
      | Some v \<Rightarrow> if \<not> cs_saw_value c then c\<lparr>cs_saw_value := True, cs_value := Some v\<rparr>
          else c\<lparr>cs_has_extra := True\<rparr>)"

function char_loop :: "SourcePosition \<Rightarrow> CharScan \<Rightarrow> LexState \<Rightarrow> CharScan \<times> LexState" where
  "char_loop start c s =
     (if AtEnd_lx s then (c, s)
      else let current = Peek_lx s; s1 = Advance_lx s in
        if current = newline_char \<or> current = return_char then (c, s1)
        else if current = apostrophe_char
        then if \<not> cs_saw_value c
          then (c\<lparr>cs_invalid := True, cs_terminated := True\<rparr>,
                lex_error start ''empty character literal'' s1)
          else (c\<lparr>cs_terminated := True\<rparr>, s1)
        else if current = backslash_char
        then if AtEnd_lx s1 then (c, s1)
          else let decoded = DecodeCharEscape (Peek_lx s1); s2 = Advance_lx s1 in
            (case decoded of
               None \<Rightarrow> char_loop start (c\<lparr>cs_invalid := True\<rparr>)
                 (lex_error start ''unsupported character escape'' s2)
             | Some v \<Rightarrow> char_loop start (cs_record (Some v) c) s2)
        else char_loop start (cs_record (Some (of_nat (char_code current))) c) s1)"
  by pat_completeness auto
termination
  by (relation "measure (\<lambda>(_, _, s). lex_remaining s)")
    (auto simp: lex_remaining_def AtEnd_lx_def Advance_lx_def lex_error_def)

declare char_loop.simps [simp del]

definition scan_char :: "LexState \<Rightarrow> CharScan \<times> LexState" where
  "scan_char s =
     (let start = CurrentPosition s;
          (c, s) = char_loop start cs_init (Advance_lx s);
          (c, s) = (if \<not> cs_terminated c
            then (c\<lparr>cs_invalid := True\<rparr>, lex_error start ''unterminated character literal'' s)
            else (c, s))
      in if cs_saw_value c \<and> cs_has_extra c
         then (c\<lparr>cs_invalid := True\<rparr>,
               lex_error start ''character literal may contain only one byte'' s)
         else (c, s))"

definition LexCharLiteral :: "LexState \<Rightarrow> Token \<times> LexState" where
  "LexCharLiteral s =
     (let (c, s') = scan_char s
      in (lex_token T_kCharLiteral (substr s' (lx_index s) (lx_index s' - lx_index s))
            (if \<not> cs_invalid c \<and> cs_saw_value c \<and> cs_terminated c \<and> \<not> cs_has_extra c
             then cs_value c else None)
            None (CurrentPosition s) s', s'))"

section \<open>Punctuation\<close>

definition punctuation_of :: "char \<Rightarrow> char \<Rightarrow> (TokenKind \<times> nat) option" where
  \<comment> \<open>The switch of \<open>LexPunctuation\<close>: the kind and the width handed to \<open>emit\<close>.\<close>
  "punctuation_of c n =
     (if c = CHR ''{'' then Some (T_kLBrace, 1)
      else if c = CHR ''}'' then Some (T_kRBrace, 1)
      else if c = CHR ''('' then Some (T_kLParen, 1)
      else if c = CHR '')'' then Some (T_kRParen, 1)
      else if c = CHR ''['' then Some (T_kLBracket, 1)
      else if c = CHR '']'' then Some (T_kRBracket, 1)
      else if c = CHR '','' then Some (T_kComma, 1)
      else if c = CHR '':'' then
        (if n = CHR ''='' then Some (T_kColonAssign, 2) else Some (T_kColon, 1))
      else if c = CHR ''@'' then Some (T_kAt, 1)
      else if c = CHR ''.'' then
        (if n = CHR ''*'' then Some (T_kDotDeref, 2)
         else if n = CHR ''.'' then Some (T_kRange, 2) else Some (T_kDot, 1))
      else if c = CHR ''='' then
        (if n = CHR ''='' then Some (T_kEqEq, 2) else Some (T_kAssign, 1))
      else if c = CHR ''!'' then
        (if n = CHR ''='' then Some (T_kBangEq, 2) else Some (T_kBang, 1))
      else if c = CHR ''<'' then
        (if n = CHR ''<'' then Some (T_kLtLt, 2)
         else if n = CHR ''='' then Some (T_kLtEq, 2) else Some (T_kLt, 1))
      else if c = CHR ''>'' then
        (if n = CHR ''>'' then Some (T_kGtGt, 2)
         else if n = CHR ''='' then Some (T_kGtEq, 2) else Some (T_kGt, 1))
      else if c = CHR ''+'' then Some (T_kPlus, 1)
      else if c = CHR ''-'' then
        (if n = CHR ''>'' then Some (T_kArrow, 2) else Some (T_kMinus, 1))
      else if c = CHR ''*'' then Some (T_kStar, 1)
      else if c = CHR ''/'' then Some (T_kSlash, 1)
      else if c = CHR ''%'' then Some (T_kPercent, 1)
      else if c = CHR ''&'' then
        (if n = CHR ''&'' then Some (T_kAmpAmp, 2) else Some (T_kAmp, 1))
      else if c = CHR ''|'' then
        (if n = CHR ''|'' then Some (T_kPipePipe, 2) else Some (T_kPipe, 1))
      else if c = CHR ''^'' then Some (T_kCaret, 1)
      else None)"

definition emit :: "TokenKind \<Rightarrow> nat \<Rightarrow> LexState \<Rightarrow> Token \<times> LexState" where
  "emit kind width s =
     (let s' = (Advance_lx ^^ width) s
      in (lex_token kind (substr s' (lx_index s) width) None None (CurrentPosition s) s', s'))"

definition LexPunctuation :: "LexState \<Rightarrow> (Token \<times> LexState) option" where
  "LexPunctuation s =
     map_option (\<lambda>(kind, width). emit kind width s) (punctuation_of (Peek_lx s) (PeekNext_lx s))"

section \<open>The operations only move forward\<close>

lemma skip_newlines_lx_ext: "lx_ext s (skip_newlines_lx s)"
proof (induction s rule: skip_newlines_lx.induct)
  case (1 s)
  then show ?case
    by (subst skip_newlines_lx.simps)
      (auto dest: lx_ext_step lx_ext_trans [OF SkipTrivia_ext])
qed

lemma scan_identifier_ext: "lx_ext s (scan_identifier s)"
proof (induction s rule: scan_identifier.induct)
  case (1 s)
  then show ?case by (subst scan_identifier.simps) (auto dest: lx_ext_step)
qed

lemma digit_loop_ext: "lx_ext s (snd (digit_loop p d a m b j s))"
proof (induction p d a m b j s rule: digit_loop.induct)
  case (1 p d a m b j s)
  show ?case
  proof (cases "AtEnd_lx s")
    case False
    have lead: "lx_ext s t" if "lx_ext (Advance_lx (lex_error p m s)) t" for t
      using that False by (metis lex_error_simps(3) lx_ext_step)
    show ?thesis
      using 1 False by (subst digit_loop.simps) (auto simp: Let_def intro: lead lx_ext_step(1))
  qed (subst digit_loop.simps, simp)
qed

lemma ConsumeDigitSequence_ext: "lx_ext s (ConsumeDigitSequence p d a m1 m2 s)"
  using digit_loop_ext [of s p d a m2 False False]
  by (auto simp: ConsumeDigitSequence_def split_beta intro: lx_ext_trans lx_ext_lex_error)

lemma not_AtEnd_Next: "PeekNext_lx s \<noteq> nul_char \<Longrightarrow> \<not> AtEnd_lx (Advance_lx s)"
  by (auto simp: PeekNext_lx_def AtEnd_lx_def split: if_splits)

lemma not_AtEnd_Peek: "Peek_lx s \<noteq> nul_char \<Longrightarrow> \<not> AtEnd_lx s"
  by (auto simp: Peek_lx_def)

lemma lex_fraction_ext: "lx_ext s (snd (lex_fraction p s))"
  by (auto simp: lex_fraction_def intro: lx_ext_step(1) ConsumeDigitSequence_ext)

lemma lex_exponent_ext: "lx_ext s (snd (lex_exponent p s))"
  by (auto simp: lex_exponent_def Let_def intro!: lx_ext_step(1) [where s = s]
      intro: lx_ext_step(1) ConsumeDigitSequence_ext)

lemma scan_number_ext: "lx_ext s (snd (scan_number s))"
proof (cases "Peek_lx s = CHR ''0'' \<and> (PeekNext_lx s = CHR ''x'' \<or> PeekNext_lx s = CHR ''X'')")
  case True
  have "\<not> AtEnd_lx s" by (rule not_AtEnd_Peek) (use True in simp)
  moreover have "\<not> AtEnd_lx (Advance_lx s)" by (rule not_AtEnd_Next) (use True in auto)
  ultimately show ?thesis using True
    by (auto simp: scan_number_def Let_def intro!: lx_ext_step(1) ConsumeDigitSequence_ext)
next
  case False
  then show ?thesis
    unfolding scan_number_def Let_def split_beta
    by (auto intro!: lx_ext_trans [OF _ lex_exponent_ext] lx_ext_trans [OF _ lex_fraction_ext]
        ConsumeDigitSequence_ext)
qed

lemma string_loop_ext: "lx_ext s (snd (string_loop p s))"
proof (induction p s rule: string_loop.induct)
  case (1 p s)
  show ?case
  proof (cases "AtEnd_lx s")
    case False
    have lead: "lx_ext s t" if "lx_ext (Advance_lx (Advance_lx s)) t" "\<not> AtEnd_lx (Advance_lx s)" for t
      using that False by (blast intro: lx_ext_step)
    have lead_err: "lx_ext s t"
      if "lx_ext (lex_error p ''unsupported string escape'' (Advance_lx (Advance_lx s))) t" "\<not> AtEnd_lx (Advance_lx s)" for t
      using that False by (blast intro: lx_ext_step)
    show ?thesis
      using 1 False
      by (subst string_loop.simps, auto simp: Let_def intro: lead lx_ext_Advance lx_ext_step(1))
        (rule lead_err, simp_all)
  qed (subst string_loop.simps, simp)
qed

lemma scan_string_ext: "\<not> AtEnd_lx s \<Longrightarrow> lx_ext (Advance_lx s) (scan_string s)"
  using string_loop_ext [of "Advance_lx s" "CurrentPosition s"]
  by (auto simp: scan_string_def Let_def split_beta intro: lx_ext_trans lx_ext_lex_error)

lemma char_loop_ext: "lx_ext s (snd (char_loop p c s))"
proof (induction p c s rule: char_loop.induct)
  case (1 p c s)
  show ?case
  proof (cases "AtEnd_lx s")
    case False
    have lead: "lx_ext s t" if "lx_ext (Advance_lx (Advance_lx s)) t" "\<not> AtEnd_lx (Advance_lx s)" for t
      using that False by (blast intro: lx_ext_step)
    have lead_err: "lx_ext s t"
      if "lx_ext (lex_error p ''unsupported character escape'' (Advance_lx (Advance_lx s))) t" "\<not> AtEnd_lx (Advance_lx s)" for t
      using that False by (blast intro: lx_ext_step)
    have err: "lx_ext s (lex_error p m (Advance_lx s))" for m
      using False by (blast intro: lx_ext_step lx_ext_lex_error)
    show ?thesis
      using 1 False
      by (subst char_loop.simps,
          auto simp: Let_def intro: lead err lx_ext_Advance lx_ext_step(1) split: option.splits)
        (rule lead_err, simp_all)+
  qed (subst char_loop.simps, simp)
qed

lemma scan_char_ext: "\<not> AtEnd_lx s \<Longrightarrow> lx_ext (Advance_lx s) (snd (scan_char s))"
  using char_loop_ext [of "Advance_lx s" "CurrentPosition s" cs_init]
  by (auto simp: scan_char_def Let_def split_beta
      intro: lx_ext_trans lx_ext_lex_error lx_ext_trans [OF _ lx_ext_lex_error])

lemma punctuation_of_width:
  "punctuation_of c n = Some (k, w) \<Longrightarrow> w = 1 \<or> w = 2 \<and> n \<noteq> nul_char"
  by (auto simp: punctuation_of_def split: if_splits)

lemma punctuation_of_nul [simp]: "punctuation_of nul_char n = None"
  by (simp add: punctuation_of_def)

lemma LexPunctuation_ext:
  assumes "LexPunctuation s = Some (t, s')"
  shows "\<not> AtEnd_lx s" "lx_ext (Advance_lx s) s'"
proof -
  from assms obtain k w where p: "punctuation_of (Peek_lx s) (PeekNext_lx s) = Some (k, w)"
    and s': "s' = (Advance_lx ^^ w) s"
    by (auto simp: LexPunctuation_def emit_def Let_def)
  then show "\<not> AtEnd_lx s" by (metis Peek_lx_def option.distinct(1) punctuation_of_nul)
  from punctuation_of_width [OF p] show "lx_ext (Advance_lx s) s'"
    using lx_ext_Advance [OF not_AtEnd_Next] by (auto simp: s' numeral_2_eq_2)
qed

section \<open>The main loop\<close>

definition lex_one ::
  "(string \<Rightarrow> (double \<times> bool) option) \<Rightarrow> LexState \<Rightarrow> Token option \<times> LexState" where
  \<comment> \<open>One round of \<open>Run\<close> after the trivia: a token, or the report of an unexpected character.\<close>
  "lex_one stream_double s =
     (case ConsumeNewline s of
        Some (t, s') \<Rightarrow> (Some t, s')
      | None \<Rightarrow>
          let current = Peek_lx s in
          if IsIdentifierStart current then apfst Some (LexIdentifier s)
          else if is_digit_char current then apfst Some (LexNumber stream_double s)
          else if current = quote_char then apfst Some (LexString s)
          else if current = apostrophe_char then apfst Some (LexCharLiteral s)
          else case LexPunctuation s of
            Some (t, s') \<Rightarrow> (Some t, s')
          | None \<Rightarrow> (None, lex_error (CurrentPosition s) ''unexpected character'' (Advance_lx s)))"

lemma skip_newlines_lx_progress:
  "\<not> AtEnd_lx s \<Longrightarrow> Peek_lx s = newline_char \<Longrightarrow> lx_ext (Advance_lx s) (skip_newlines_lx s)"
  by (subst skip_newlines_lx.simps)
    (auto intro: lx_ext_trans [OF SkipTrivia_ext skip_newlines_lx_ext])

lemma scan_identifier_progress:
  "\<not> AtEnd_lx s \<Longrightarrow> IsIdentifierStart (Peek_lx s) \<Longrightarrow> lx_ext (Advance_lx s) (scan_identifier s)"
  by (subst scan_identifier.simps)
    (auto simp: scan_identifier_ext IsIdentifierStart_def IsIdentifierContinue_def is_alnum_char_def)

lemma digit_loop_progress:
  "\<not> AtEnd_lx s \<Longrightarrow> d (Peek_lx s) \<Longrightarrow> lx_ext (Advance_lx s) (snd (digit_loop p d a m b j s))"
  by (subst digit_loop.simps) (simp add: digit_loop_ext)

lemma scan_number_progress:
  assumes "\<not> AtEnd_lx s" "is_digit_char (Peek_lx s)"
  shows "lx_ext (Advance_lx s) (snd (scan_number s))"
proof (cases "Peek_lx s = CHR ''0'' \<and> (PeekNext_lx s = CHR ''x'' \<or> PeekNext_lx s = CHR ''X'')")
  case True
  have "\<not> AtEnd_lx (Advance_lx s)" by (rule not_AtEnd_Next) (use True in auto)
  with True show ?thesis
    by (auto simp: scan_number_def Let_def intro!: lx_ext_step(1) ConsumeDigitSequence_ext)
next
  case False
  have "lx_ext (Advance_lx s) (ConsumeDigitSequence p is_digit_char a m1 m2 s)" for p a m1 m2
    using digit_loop_progress [of s is_digit_char p a m2 False False] assms
    by (auto simp: ConsumeDigitSequence_def split_beta intro: lx_ext_trans lx_ext_lex_error)
  with False show ?thesis
    unfolding scan_number_def Let_def split_beta
    by (auto intro!: lx_ext_trans [OF _ lex_exponent_ext] lx_ext_trans [OF _ lex_fraction_ext])
qed

lemmas lex_progress_rules =
  skip_newlines_lx_progress scan_identifier_progress scan_number_progress
  scan_string_ext scan_char_ext LexPunctuation_ext(2) lx_ext_lex_error

lemma lex_one_ext:
  "\<not> AtEnd_lx s \<Longrightarrow> lx_ext (Advance_lx s) (snd (lex_one stream_double s))"
  by (auto simp: lex_one_def ConsumeNewline_def LexIdentifier_def LexNumber_def LexString_def
      LexCharLiteral_def Let_def split_beta intro: lex_progress_rules
      split: option.splits if_splits)

lemma lex_one_less:
  "\<not> AtEnd_lx s \<Longrightarrow> lex_remaining (snd (lex_one stream_double s)) < lex_remaining s"
  using lx_ext_remaining [OF lex_one_ext [of s stream_double]] lex_remaining_Advance [of s]
  by (simp add: le_less_trans)

function lex_run ::
  "(string \<Rightarrow> (double \<times> bool) option) \<Rightarrow> LexState \<Rightarrow> Token list \<Rightarrow> Token list \<times> LexState" where
  "lex_run stream_double s tokens =
     (if AtEnd_lx s then (tokens, s)
      else let s1 = SkipTrivia s in
        if AtEnd_lx s1 then (tokens, s1)
        else let (t, s2) = lex_one stream_double s1 in
          lex_run stream_double s2 (case t of None \<Rightarrow> tokens | Some t \<Rightarrow> tokens @ [t]))"
  by pat_completeness auto
termination
proof (relation "measure (\<lambda>(_, s, _). lex_remaining s)", goal_cases)
  case (2 f s tokens s1 x t s2)
  then have "lex_remaining s2 < lex_remaining s1"
    using lex_one_less [of s1 f] by (metis snd_conv)
  moreover have "lex_remaining s1 \<le> lex_remaining s"
    using 2 by (simp add: lx_ext_remaining SkipTrivia_ext)
  ultimately show ?case by simp
qed simp

declare lex_run.simps [simp del]

record LexResult =
  lr_tokens :: "Token list"
  lr_ok :: bool

definition lex_start :: "string \<Rightarrow> path \<Rightarrow> DiagnosticSink \<Rightarrow> LexState" where
  "lex_start source_text file_path sink =
     \<lparr>lx_source = source_text, lx_file_path = file_path, lx_index = 0, lx_line = 1, lx_column = 1,
      lx_diagnostics = sink, lx_ok = True\<rparr>"

definition Lex ::
  "(string \<Rightarrow> (double \<times> bool) option) \<Rightarrow> string \<Rightarrow> path \<Rightarrow> DiagnosticSink \<Rightarrow> LexResult \<times> DiagnosticSink"
where
  "Lex stream_double source_text file_path sink =
     (let (tokens, s) = lex_run stream_double (lex_start source_text file_path sink) [];
          eof = lex_token T_kEof [] None None (CurrentPosition s) s
      in (\<lparr>lr_tokens = tokens @ [eof], lr_ok = lx_ok s\<rparr>, lx_diagnostics s))"

end
