(* ===== verification/MC_LexerSpec.thy ===== *)
theory MC_LexerSpec
  imports MC_Lexer
begin

text \<open>
  What the lexer promises: its token list is a partition of the source text. The reference is
  stated over offsets (\<open>gap\<close>, \<open>newlines\<close>, \<open>token_placed\<close>, \<open>tokens_placed\<close>); the lemmas below show
  that each operation of \<open>MC_Lexer\<close> covers one piece of the partition.
\<close>

section \<open>Pieces of the text\<close>

abbreviation slice :: "string \<Rightarrow> nat \<Rightarrow> nat \<Rightarrow> string" where
  "slice src i j \<equiv> take (j - i) (drop i src)"

abbreviation is_blank :: "char \<Rightarrow> bool" where
  "is_blank c \<equiv> c = CHR '' '' \<or> c = tab_char \<or> c = return_char"

text \<open>\<open>gap src i j\<close>: the text between two offsets is blanks, then at most one line comment, which
  runs to the end of its line.\<close>

inductive gap :: "string \<Rightarrow> nat \<Rightarrow> nat \<Rightarrow> bool" for src where
  gap_nil: "gap src i i"
| gap_blank: "i < length src \<Longrightarrow> is_blank (src ! i) \<Longrightarrow> gap src (Suc i) j \<Longrightarrow> gap src i j"
| gap_comment: "Suc i < j \<Longrightarrow> j \<le> length src \<Longrightarrow> src ! i = slash \<Longrightarrow> src ! Suc i = slash \<Longrightarrow>
    (\<forall>m. i \<le> m \<and> m < j \<longrightarrow> src ! m \<noteq> newline_char) \<Longrightarrow> j = length src \<or> src ! j = newline_char \<Longrightarrow>
    gap src i j"

inductive newlines :: "string \<Rightarrow> nat \<Rightarrow> nat \<Rightarrow> bool" for src where
  newlines_last: "i < length src \<Longrightarrow> src ! i = newline_char \<Longrightarrow> gap src (Suc i) j \<Longrightarrow> newlines src i j"
| newlines_more: "i < length src \<Longrightarrow> src ! i = newline_char \<Longrightarrow> gap src (Suc i) k \<Longrightarrow>
    newlines src k j \<Longrightarrow> newlines src i j"

definition token_placed :: "string \<Rightarrow> nat \<Rightarrow> nat \<Rightarrow> Token \<Rightarrow> bool" where
  "token_placed src i j t \<longleftrightarrow>
     i \<le> j \<and> j \<le> length src \<and>
     tok_span t = \<lparr>span_begin = position_of src i, span_end = position_of src j\<rparr> \<and>
     (if tok_kind t = T_kEof then i = length src \<and> tok_lexeme t = []
      else if tok_kind t = T_kNewline then newlines src i j
      else i < j \<and> tok_lexeme t = slice src i j \<and>
        (has_fixed_spelling (tok_kind t) \<longrightarrow> tok_lexeme t = ToString_kind (tok_kind t)))"

fun tokens_placed :: "bool \<Rightarrow> string \<Rightarrow> nat \<Rightarrow> Token list \<Rightarrow> bool" where
  "tokens_placed clean src k [] \<longleftrightarrow> k = length src"
| "tokens_placed clean src k (t # ts) \<longleftrightarrow>
     (\<exists>i j. k \<le> i \<and> (clean \<longrightarrow> gap src k i) \<and> token_placed src i j t \<and> tokens_placed clean src j ts)"

section \<open>Trivia\<close>

lemma Peek_lx_nth: "\<not> AtEnd_lx s \<Longrightarrow> Peek_lx s = lx_source s ! lx_index s"
  by (simp add: Peek_lx_def)

lemma AtEnd_index: "\<not> AtEnd_lx s \<longleftrightarrow> lx_index s < length (lx_source s)"
  by (auto simp: AtEnd_lx_def)

lemma skip_line_comment_source [simp]: "lx_source (skip_line_comment s) = lx_source s"
  using skip_line_comment_ext lx_ext_source by blast

lemma SkipTrivia_source [simp]: "lx_source (SkipTrivia s) = lx_source s"
  using SkipTrivia_ext lx_ext_source by blast

lemma skip_newlines_lx_source [simp]: "lx_source (skip_newlines_lx s) = lx_source s"
  using skip_newlines_lx_ext lx_ext_source by blast

lemma skip_line_comment_end:
  "lx_index s \<le> length (lx_source s) \<Longrightarrow>
     lx_index (skip_line_comment s) \<le> length (lx_source s) \<and>
     (lx_index (skip_line_comment s) = length (lx_source s) \<or>
      lx_source s ! lx_index (skip_line_comment s) = newline_char) \<and>
     (\<forall>m. lx_index s \<le> m \<and> m < lx_index (skip_line_comment s) \<longrightarrow> lx_source s ! m \<noteq> newline_char)"
proof (induction s rule: skip_line_comment.induct)
  case (1 s)
  show ?case
  proof (cases "\<not> AtEnd_lx s \<and> Peek_lx s \<noteq> newline_char")
    case True
    then have le: "lx_index (Advance_lx s) \<le> length (lx_source (Advance_lx s))"
      and nth: "lx_source s ! lx_index s \<noteq> newline_char"
      by (auto simp: AtEnd_lx_def Peek_lx_nth)
    have "lx_source s ! m \<noteq> newline_char"
      if "lx_index s \<le> m" "m < lx_index (skip_line_comment (Advance_lx s))" for m
      using "1.IH" [OF True le] nth that by (cases "m = lx_index s") auto
    with "1.IH" [OF True le] True show ?thesis
      by (subst (1 2 3 4) skip_line_comment.simps) auto
  next
    case False
    with "1.prems" show ?thesis
      by (subst (1 2 3 4) skip_line_comment.simps) (auto simp: AtEnd_lx_def Peek_lx_def)
  qed
qed

lemma skip_line_comment_two:
  assumes "\<not> AtEnd_lx s" "Peek_lx s = slash" "PeekNext_lx s = slash"
  shows "Suc (lx_index s) < lx_index (skip_line_comment s)"
proof -
  have n: "\<not> AtEnd_lx (Advance_lx s)" "Peek_lx (Advance_lx s) = slash"
    using assms by (auto simp: PeekNext_lx_def AtEnd_lx_def Peek_lx_def split: if_splits)
  have "skip_line_comment s = skip_line_comment (Advance_lx (Advance_lx s))"
    using assms n by (simp add: skip_line_comment.simps [of s] skip_line_comment.simps [of "Advance_lx s"])
  then show ?thesis
    using lx_ext_index [OF skip_line_comment_ext, of "Advance_lx (Advance_lx s)"] by simp
qed

lemma SkipTrivia_gap:
  "lx_index s \<le> length (lx_source s) \<Longrightarrow> gap (lx_source s) (lx_index s) (lx_index (SkipTrivia s))"
proof (induction s rule: SkipTrivia.induct)
  case (1 s)
  consider (stop) "SkipTrivia s = s"
    | (blank) "\<not> AtEnd_lx s" "is_blank (Peek_lx s)"
    | (comment) "\<not> AtEnd_lx s" "\<not> is_blank (Peek_lx s)" "Peek_lx s = slash" "PeekNext_lx s = slash"
    using SkipTrivia.simps [of s] by (auto split: if_splits)
  then show ?case
  proof cases
    case stop
    then show ?thesis by (simp add: gap_nil)
  next
    case blank
    then have "gap (lx_source s) (Suc (lx_index s)) (lx_index (SkipTrivia (Advance_lx s)))"
      using "1.IH"(1) by (simp add: AtEnd_index Suc_le_eq)
    moreover have "SkipTrivia s = SkipTrivia (Advance_lx s)"
      using blank by (simp add: SkipTrivia.simps [of s])
    ultimately show ?thesis
      using blank by (simp add: gap_blank AtEnd_index Peek_lx_nth)
  next
    case comment
    let ?t = "skip_line_comment s"
    note cend = skip_line_comment_end [OF "1.prems"]
    have stop: "SkipTrivia ?t = ?t"
      using cend by (subst SkipTrivia.simps) (auto simp: AtEnd_lx_def Peek_lx_def)
    have two: "Suc (lx_index s) < lx_index ?t"
      using comment by (intro skip_line_comment_two)
    have "lx_source s ! lx_index s = slash" "lx_source s ! Suc (lx_index s) = slash"
      using comment two cend by (auto simp: Peek_lx_nth PeekNext_lx_def split: if_splits)
    with two cend have "gap (lx_source s) (lx_index s) (lx_index ?t)"
      by (intro gap_comment) auto
    with comment stop show ?thesis by (simp add: SkipTrivia.simps [of s])
  qed
qed

lemma SkipTrivia_diagnostics [simp]:
  "lx_ok (SkipTrivia s) = lx_ok s"
proof -
  have c: "lx_ok (skip_line_comment s) = lx_ok s" for s
    by (induction s rule: skip_line_comment.induct)
      (subst skip_line_comment.simps, auto simp: Advance_lx_def)
  show ?thesis
    by (induction s rule: SkipTrivia.induct)
      (subst SkipTrivia.simps, auto simp: Advance_lx_def c)
qed

lemma lx_ext_bound: "lx_ext s t \<Longrightarrow> lx_wf s \<Longrightarrow> lx_index t \<le> length (lx_source s)"
  by (metis lx_ext_source lx_ext_wf lx_wf_def)

lemma skip_newlines_lx_newlines:
  "lx_wf s \<Longrightarrow> \<not> AtEnd_lx s \<Longrightarrow> Peek_lx s = newline_char \<Longrightarrow>
     newlines (lx_source s) (lx_index s) (lx_index (skip_newlines_lx s))"
proof (induction s rule: skip_newlines_lx.induct)
  case (1 s)
  let ?t = "SkipTrivia (Advance_lx s)"
  have wf: "lx_wf ?t"
    using 1 by (blast intro: lx_ext_wf lx_ext_Advance SkipTrivia_ext)
  have g: "gap (lx_source s) (Suc (lx_index s)) (lx_index ?t)"
    using SkipTrivia_gap [of "Advance_lx s"] "1.prems" by (simp add: AtEnd_index Suc_le_eq)
  have here: "lx_index s < length (lx_source s)" "lx_source s ! lx_index s = newline_char"
    using "1.prems" by (auto simp: AtEnd_index Peek_lx_nth)
  have eq: "skip_newlines_lx s = skip_newlines_lx ?t"
    using "1.prems" by (simp add: skip_newlines_lx.simps [of s])
  show ?case
  proof (cases "\<not> AtEnd_lx ?t \<and> Peek_lx ?t = newline_char")
    case True
    with "1.IH" "1.prems" wf have "newlines (lx_source s) (lx_index ?t) (lx_index (skip_newlines_lx ?t))"
      by simp
    with here g show ?thesis by (simp add: eq newlines_more)
  next
    case False
    then have "skip_newlines_lx ?t = ?t" by (subst skip_newlines_lx.simps) auto
    with here g show ?thesis by (simp add: eq newlines_last)
  qed
qed

section \<open>One token\<close>

lemma punctuation_of_spelling:
  "punctuation_of c n = Some (k, w) \<Longrightarrow>
     ToString_kind k = (if w = 1 then [c] else [c, n]) \<and> has_fixed_spelling k \<and> (w = 1 \<or> w = 2)"
  by (auto simp: punctuation_of_def has_fixed_spelling_def split: if_splits)

lemma slice_1: "i < length src \<Longrightarrow> take (Suc 0) (drop i src) = [src ! i]"
  by (simp add: Cons_nth_drop_Suc [symmetric])

lemma slice_2: "Suc i < length src \<Longrightarrow> take 2 (drop i src) = [src ! i, src ! Suc i]"
  by (simp add: Cons_nth_drop_Suc [symmetric] numeral_2_eq_2)

text \<open>A token that the scanners build from the text they crossed is placed there.\<close>

lemma scanned_token_placed:
  assumes "lx_wf s" "\<not> AtEnd_lx s" "lx_ext (Advance_lx s) s'"
    and k: "k \<noteq> T_kEof" "k \<noteq> T_kNewline"
    and spell: "has_fixed_spelling k \<Longrightarrow>
      slice (lx_source s) (lx_index s) (lx_index s') = ToString_kind k"
  shows "token_placed (lx_source s) (lx_index s) (lx_index s')
    (lex_token k (substr s' (lx_index s) (lx_index s' - lx_index s)) iv fv (CurrentPosition s) s')"
proof -
  have e: "lx_ext s s'" by (rule lx_ext_step(1) [OF assms(3,2)])
  have "lx_wf s'" "lx_source s' = lx_source s" "lx_index s' \<le> length (lx_source s)"
    using e assms(1) by (auto dest: lx_ext_source intro: lx_ext_wf lx_ext_bound)
  moreover have "Suc (lx_index s) \<le> lx_index s'"
    using lx_ext_index [OF assms(3)] by simp
  ultimately show ?thesis
    using k spell assms(1)
    by (auto simp: token_placed_def lex_token_def substr_def CurrentPosition_wf)
qed

lemma LexPunctuation_placed:
  assumes "lx_wf s" "LexPunctuation s = Some (t, s')"
  shows "token_placed (lx_source s) (lx_index s) (lx_index s') t"
proof -
  from assms(2) obtain k w where p: "punctuation_of (Peek_lx s) (PeekNext_lx s) = Some (k, w)"
    and s': "s' = (Advance_lx ^^ w) s"
    and t: "t = lex_token k (substr s' (lx_index s) w) None None (CurrentPosition s) s'"
    by (auto simp: LexPunctuation_def emit_def Let_def)
  note ext = LexPunctuation_ext [OF assms(2)]
  note sp = punctuation_of_spelling [OF p]
  have idx: "lx_index s' = lx_index s + w" using sp by (auto simp: s' numeral_2_eq_2)
  have nn: "w = 2 \<Longrightarrow> PeekNext_lx s \<noteq> nul_char" using punctuation_of_width [OF p] by auto
  have "slice (lx_source s) (lx_index s) (lx_index s') = ToString_kind k"
  proof (cases "w = 1")
    case True
    then show ?thesis using ext(1) sp idx
      by (simp add: slice_1 AtEnd_index Peek_lx_nth)
  next
    case False
    then have w: "w = 2" using sp by simp
    have "Suc (lx_index s) < length (lx_source s)"
      using nn [OF w] by (auto simp: PeekNext_lx_def split: if_splits)
    then show ?thesis using ext(1) sp idx w
      by (simp add: slice_2 Peek_lx_nth PeekNext_lx_def)
  qed
  then have "token_placed (lx_source s) (lx_index s) (lx_index s')
    (lex_token k (substr s' (lx_index s) (lx_index s' - lx_index s)) None None (CurrentPosition s) s')"
    using sp assms(1) ext by (intro scanned_token_placed) (auto simp: has_fixed_spelling_def)
  then show ?thesis by (simp add: t idx)
qed

lemma keyword_spelling:
  "find_keyword t = Some k \<Longrightarrow> has_fixed_spelling k \<and> k \<noteq> T_kEof \<and> k \<noteq> T_kNewline \<and> ToString_kind k = t"
  using keyword_kind_fixed [OF find_keyword_kind] find_keyword_spelling
  by (auto simp: has_fixed_spelling_def)

lemma LexIdentifier_placed:
  assumes "lx_wf s" "\<not> AtEnd_lx s" "IsIdentifierStart (Peek_lx s)"
  shows "token_placed (lx_source s) (lx_index s) (lx_index (snd (LexIdentifier s))) (fst (LexIdentifier s))"
proof -
  have [simp]: "lx_source (scan_identifier s) = lx_source s"
    using scan_identifier_ext lx_ext_source by blast
  show ?thesis
    unfolding LexIdentifier_def Let_def fst_conv snd_conv
    by (rule scanned_token_placed)
      (use assms in \<open>auto simp: substr_def scan_identifier_progress has_fixed_spelling_def
         dest: keyword_spelling split: option.splits\<close>)
qed

lemma ConsumeNewline_placed:
  assumes "lx_wf s" "\<not> AtEnd_lx s" "ConsumeNewline s = Some (t, s')"
  shows "token_placed (lx_source s) (lx_index s) (lx_index s') t"
proof -
  have s': "s' = skip_newlines_lx s" "Peek_lx s = newline_char"
    and t: "t = lex_token T_kNewline [backslash_char, CHR ''n''] None None (CurrentPosition s) s'"
    using assms(3) by (auto simp: ConsumeNewline_def Let_def split: if_splits)
  have e: "lx_ext s s'" "newlines (lx_source s) (lx_index s) (lx_index s')"
    using s' assms by (auto simp: skip_newlines_lx_ext skip_newlines_lx_newlines)
  then show ?thesis
    using assms lx_ext_bound [OF e(1)] lx_ext_wf [OF e(1)] lx_ext_source [OF e(1)] lx_ext_index [OF e(1)]
    by (simp add: t token_placed_def lex_token_def CurrentPosition_wf)
qed

lemma lex_token_kind [simp]: "tok_kind (lex_token k x i f p s) = k"
  by (simp add: lex_token_def)

lemma LexNumber_placed:
  assumes "lx_wf s" "\<not> AtEnd_lx s" "is_digit_char (Peek_lx s)"
  shows "token_placed (lx_source s) (lx_index s) (lx_index (snd (LexNumber f s))) (fst (LexNumber f s))"
  using scanned_token_placed [OF assms(1,2) scan_number_progress [OF assms(2,3)], of T_kIntLiteral]
    scanned_token_placed [OF assms(1,2) scan_number_progress [OF assms(2,3)], of T_kFloatLiteral]
  by (auto simp: LexNumber_def Let_def split_beta has_fixed_spelling_def)

lemma LexString_placed:
  assumes "lx_wf s" "\<not> AtEnd_lx s"
  shows "token_placed (lx_source s) (lx_index s) (lx_index (snd (LexString s))) (fst (LexString s))"
  using scanned_token_placed [OF assms scan_string_ext [OF assms(2)], of T_kStringLiteral]
  by (auto simp: LexString_def Let_def has_fixed_spelling_def)

lemma LexCharLiteral_placed:
  assumes "lx_wf s" "\<not> AtEnd_lx s"
  shows "token_placed (lx_source s) (lx_index s) (lx_index (snd (LexCharLiteral s))) (fst (LexCharLiteral s))"
  using scanned_token_placed [OF assms scan_char_ext [OF assms(2)], of T_kCharLiteral]
  by (auto simp: LexCharLiteral_def Let_def split_beta has_fixed_spelling_def)

lemma lex_one_placed:
  assumes "lx_wf s" "\<not> AtEnd_lx s" "lex_one f s = (Some t, s')"
  shows "token_placed (lx_source s) (lx_index s) (lx_index s') t"
  using assms(3) ConsumeNewline_placed [OF assms(1,2)] LexIdentifier_placed [OF assms(1,2)]
    LexNumber_placed [OF assms(1,2), of f] LexString_placed [OF assms(1,2)]
    LexCharLiteral_placed [OF assms(1,2)] LexPunctuation_placed [OF assms(1)]
  by (auto simp: lex_one_def Let_def apfst_def map_prod_def split_beta split: option.splits if_splits)

lemma lex_one_not_eof:
  assumes "lex_one f s = (Some t, s')"
  shows "tok_kind t \<noteq> T_kEof"
proof -
  have "tok_kind (fst (LexIdentifier s)) \<noteq> T_kEof"
    by (auto simp: LexIdentifier_def Let_def dest: keyword_spelling split: option.splits)
  moreover have "k \<noteq> T_kEof" if "punctuation_of c n = Some (k, w)" for c n k w
    using punctuation_of_spelling [OF that] by (auto simp: has_fixed_spelling_def)
  ultimately show ?thesis using assms
    by (auto simp: lex_one_def Let_def apfst_def map_prod_def split_beta ConsumeNewline_def
        LexNumber_def LexString_def LexCharLiteral_def LexPunctuation_def emit_def
        split: option.splits if_splits)
qed

lemma lex_one_none:
  "lex_one f s = (None, s') \<Longrightarrow> \<not> lx_ok s'"
  by (auto simp: lex_one_def Let_def apfst_def map_prod_def split_beta lex_error_def
      split: option.splits if_splits)

section \<open>The whole file\<close>

lemma lx_ext_ok: "lx_ext s t \<Longrightarrow> lx_ok t \<Longrightarrow> lx_ok s"
  by (auto simp: lx_ext_def)

lemma lex_run_ext: "lx_ext s (snd (lex_run f s acc))"
proof (induction f s acc rule: lex_run.induct)
  case (1 f s acc)
  show ?case
  proof (cases "AtEnd_lx s \<or> AtEnd_lx (SkipTrivia s)")
    case True
    then show ?thesis by (subst lex_run.simps) (auto simp: Let_def SkipTrivia_ext)
  next
    case False
    let ?r = "lex_one f (SkipTrivia s)"
    have "lx_ext (snd ?r) (snd (lex_run f (snd ?r) (case fst ?r of None \<Rightarrow> acc | Some t \<Rightarrow> acc @ [t])))"
      by (rule "1.IH") (use False in auto)
    moreover have "lx_ext s (snd ?r)"
      using False by (blast intro: lx_ext_trans SkipTrivia_ext lx_ext_step(1) lex_one_ext)
    ultimately show ?thesis
      using False by (subst lex_run.simps) (auto simp: Let_def split_beta intro: lx_ext_trans)
  qed
qed

definition eof_token :: "LexState \<Rightarrow> Token" where
  "eof_token s = lex_token T_kEof [] None None (CurrentPosition s) s"

lemma eof_token_placed:
  "lx_wf s \<Longrightarrow> AtEnd_lx s \<Longrightarrow> k \<le> lx_index s \<Longrightarrow> (clean \<Longrightarrow> gap (lx_source s) k (lx_index s)) \<Longrightarrow>
     tokens_placed clean (lx_source s) k [eof_token s]"
  by (auto simp: eof_token_def token_placed_def lex_token_def CurrentPosition_wf lx_wf_def AtEnd_lx_def)

lemma lex_run_placed:
  assumes "lx_wf s" "k \<le> lx_index s" "lx_ok (snd (lex_run f s acc)) \<Longrightarrow> k = lx_index s"
  shows "\<exists>ts. fst (lex_run f s acc) = acc @ ts \<and> (\<forall>t \<in> set ts. tok_kind t \<noteq> T_kEof) \<and>
    tokens_placed (lx_ok (snd (lex_run f s acc))) (lx_source s) k (ts @ [eof_token (snd (lex_run f s acc))])"
  using assms
proof (induction f s acc arbitrary: k rule: lex_run.induct)
  case (1 f s acc)
  let ?t = "SkipTrivia s"
  have wf: "lx_wf ?t" and le: "lx_index s \<le> lx_index ?t"
    and g: "gap (lx_source s) (lx_index s) (lx_index ?t)"
    using "1.prems"(1) SkipTrivia_gap [of s] lx_ext_wf [OF SkipTrivia_ext] lx_ext_index [OF SkipTrivia_ext]
    by (auto simp: lx_wf_def)
  show ?case
  proof (cases "AtEnd_lx s \<or> AtEnd_lx ?t")
    case True
    then have run: "lex_run f s acc = (acc, if AtEnd_lx s then s else ?t)"
      by (subst lex_run.simps) (auto simp: Let_def)
    show ?thesis
      using True "1.prems" wf le g eof_token_placed [of s k "lx_ok s"] eof_token_placed [of ?t k "lx_ok s"]
      by (cases "AtEnd_lx s") (auto simp: run gap_nil)
  next
    case False
    obtain t s2 where one: "lex_one f ?t = (t, s2)" by fastforce
    let ?acc = "case t of None \<Rightarrow> acc | Some t \<Rightarrow> acc @ [t]"
    have run: "lex_run f s acc = lex_run f s2 ?acc"
      using False by (simp add: lex_run.simps [of f s acc] Let_def one)
    have ext: "lx_ext ?t s2" "lx_index s \<le> lx_index s2"
      using lex_one_ext [of ?t f] False le by (auto simp: one dest: lx_ext_step(1) lx_ext_index)
    have wf2: "lx_wf s2" and src: "lx_source s2 = lx_source s"
      using ext wf by (auto intro: lx_ext_wf dest: lx_ext_source)
    have IH: "\<exists>ts. fst (lex_run f s2 ?acc) = ?acc @ ts \<and> (\<forall>t \<in> set ts. tok_kind t \<noteq> T_kEof) \<and>
      tokens_placed (lx_ok (snd (lex_run f s2 ?acc))) (lx_source s2) k
        (ts @ [eof_token (snd (lex_run f s2 ?acc))])"
      if "k \<le> lx_index s2" "lx_ok (snd (lex_run f s2 ?acc)) \<Longrightarrow> k = lx_index s2" for k
      using "1.IH" [of ?t "(t, s2)" t s2 k] False one wf2 that by simp
    show ?thesis
    proof (cases t)
      case None
      have "\<not> lx_ok (snd (lex_run f s2 ?acc))"
        using lex_one_none [of f ?t s2] one None lx_ext_ok [OF lex_run_ext] by blast
      with IH [of k] None "1.prems" ext(2) show ?thesis by (simp add: run src)
    next
      case (Some tok)
      have placed: "token_placed (lx_source s) (lx_index ?t) (lx_index s2) tok"
        using lex_one_placed [OF wf, of f tok s2] False one Some by simp
      from IH [of "lx_index s2"] obtain ts
        where ts: "fst (lex_run f s2 ?acc) = ?acc @ ts" "\<forall>t \<in> set ts. tok_kind t \<noteq> T_kEof"
        "tokens_placed (lx_ok (snd (lex_run f s2 ?acc))) (lx_source s2) (lx_index s2)
          (ts @ [eof_token (snd (lex_run f s2 ?acc))])"
        by auto
      have "tokens_placed (lx_ok (snd (lex_run f s acc))) (lx_source s) k
        ((tok # ts) @ [eof_token (snd (lex_run f s acc))])"
        unfolding append_Cons tokens_placed.simps
        by (rule exI [of _ "lx_index ?t"], rule exI [of _ "lx_index s2"])
          (use ts(3) placed g le "1.prems"(2,3) in \<open>auto simp: run src\<close>)
      moreover have "tok_kind tok \<noteq> T_kEof"
        using lex_one_not_eof one Some by blast
      ultimately show ?thesis using ts(1,2) Some
        by (intro exI [of _ "tok # ts"]) (auto simp: run)
    qed
  qed
qed

lemma lex_start_wf: "lx_wf (lex_start src p d)"
  by (simp add: lx_wf_def lex_start_def pos_at_def)

text \<open>The lemma on which the properties of \<open>Lex\<close> rest.\<close>

lemma Lex_placed:
  "\<exists>ts eof. lr_tokens (fst (Lex f src p d)) = ts @ [eof] \<and> tok_kind eof = T_kEof \<and>
     (\<forall>t \<in> set ts. tok_kind t \<noteq> T_kEof) \<and>
     tokens_placed (lr_ok (fst (Lex f src p d))) src 0 (ts @ [eof])"
  using lex_run_placed [OF lex_start_wf, of 0 src p d f "[]"]
  by (auto simp: Lex_def split_beta Let_def lex_start_def eof_token_def)

lemma Lex_diagnostics:
  "\<exists>ds. snd (Lex f src p d) = d @ ds \<and> (\<forall>x \<in> set ds. diag_severity x = kError) \<and>
     (lr_ok (fst (Lex f src p d)) \<longleftrightarrow> ds = [])"
  using lex_run_ext [of "lex_start src p d" f "[]"]
  by (auto simp: Lex_def split_beta Let_def lex_start_def lx_ext_def)

section \<open>Integer literals\<close>

text \<open>The reference for \<open>ParseIntegerLiteralValue\<close>: the number the digits write, in unbounded integers.\<close>

definition digits_value :: "nat \<Rightarrow> int list \<Rightarrow> int" where
  "digits_value base ds = foldl (\<lambda>v d. v * int base + d) 0 ds"

definition literal_digits :: "string \<Rightarrow> int list" where
  "literal_digits text = map DigitValue (filter (\<lambda>ch. ch \<noteq> CHR ''_'') text)"

definition integer_literal :: "string \<Rightarrow> int option" where
  "integer_literal text =
     (let hex = take 2 text = ''0x'' \<or> take 2 text = ''0X'';
          base = (if hex then 16 else 10);
          ds = literal_digits (if hex then drop 2 text else text)
      in if ds \<noteq> [] \<and> list_all (\<lambda>d. 0 \<le> d \<and> d < int base) ds \<and> digits_value base ds < 2 ^ 63
         then Some (digits_value base ds) else None)"

lemma digits_mono:
  "1 \<le> b \<Longrightarrow> 0 \<le> v \<Longrightarrow> list_all (\<lambda>d. 0 \<le> d) ds \<Longrightarrow> v \<le> foldl (\<lambda>v d. v * int b + d) v ds"
proof (induction ds arbitrary: v)
  case (Cons d ds)
  then have le: "v \<le> v * int b + d" by (simp add: mult_le_cancel_left1 add_increasing2)
  then have "v * int b + d \<le> foldl (\<lambda>v d. v * int b + d) (v * int b + d) ds"
    using Cons.prems by (intro Cons.IH) auto
  with le show ?case by simp
qed simp

lemma int_div_less_iff:
  fixes a b c :: int
  assumes "0 < b"
  shows "a div b < c \<longleftrightarrow> a < c * b"
proof -
  have "c * b \<le> a" if "c \<le> a div b"
  proof -
    have "c * b \<le> a div b * b" using that assms by (simp add: mult_right_mono)
    also have "\<dots> \<le> a" using assms by (metis minus_mod_eq_div_mult pos_mod_sign diff_le_eq le_add_same_cancel1)
    finally show ?thesis .
  qed
  moreover have "c \<le> a div b" if "c * b \<le> a"
    using zdiv_mono1 [OF that assms] assms by simp
  ultimately show ?thesis by (metis not_le)
qed

lemma parse_digits_step:
  fixes acc :: uint64
  assumes "uint acc < 2 ^ 63" "0 \<le> d" "d < int b" "1 \<le> b" "b \<le> 16"
  shows "(int64_max - of_int d) div of_nat b < acc \<longleftrightarrow> 2 ^ 63 \<le> uint acc * int b + d"
    and "uint acc * int b + d < 2 ^ 63 \<Longrightarrow>
      uint (acc * of_nat b + of_int d) = uint acc * int b + d"
proof -
  have d: "uint (of_int d :: uint64) = d" and b: "uint (of_nat b :: uint64) = int b"
    using assms by (auto simp: uint_word_of_int_eq take_bit_int_eq_self unsigned_of_nat take_bit_nat_eq_self
        simp flip: of_nat_mod)
  have m: "uint (int64_max - of_int d :: uint64) = 2 ^ 63 - 1 - d"
    using assms d by (simp add: uint_sub_if' int64_max_def)
  have "uint ((int64_max - of_int d) div of_nat b :: uint64) = (2 ^ 63 - 1 - d) div int b"
    by (simp add: uint_div m b)
  then have "(int64_max - of_int d) div of_nat b < acc \<longleftrightarrow> (2 ^ 63 - 1 - d) div int b < uint acc"
    by (simp add: word_less_alt)
  also have "\<dots> \<longleftrightarrow> 2 ^ 63 - 1 - d < uint acc * int b"
    using assms(4) int_div_less_iff [of "int b" "2 ^ 63 - 1 - d" "uint acc"] by simp
  finally show "(int64_max - of_int d) div of_nat b < acc \<longleftrightarrow> 2 ^ 63 \<le> uint acc * int b + d"
    by auto
  assume "uint acc * int b + d < 2 ^ 63"
  then show "uint (acc * of_nat b + of_int d) = uint acc * int b + d"
    using assms by (simp add: uint_word_ariths d b)
qed

lemma parse_digits_reference:
  assumes "uint acc < 2 ^ 63" "1 \<le> b" "b \<le> 16"
  shows "parse_digits b cs acc saw =
    (let ds = literal_digits cs; v = foldl (\<lambda>v d. v * int b + d) (uint acc) ds in
     if list_all (\<lambda>d. 0 \<le> d \<and> d < int b) ds \<and> v < 2 ^ 63
     then Some (of_int v, saw \<or> ds \<noteq> []) else None)"
  using assms(1)
proof (induction cs arbitrary: acc saw)
  case Nil
  then show ?case by (simp add: literal_digits_def)
next
  case (Cons ch cs)
  let ?d = "DigitValue ch"
  show ?case
  proof (cases "ch = CHR ''_''")
    case True
    then show ?thesis using Cons by (simp add: literal_digits_def)
  next
    case False
    then have ds: "literal_digits (ch # cs) = ?d # literal_digits cs"
      by (simp add: literal_digits_def)
    show ?thesis
    proof (cases "0 \<le> ?d \<and> ?d < int b")
      case False
      with ds \<open>ch \<noteq> _\<close> show ?thesis by (auto simp: Let_def)
    next
      case True
      note step = parse_digits_step [OF Cons.prems conjunct1 [OF True] conjunct2 [OF True] assms(2,3)]
      show ?thesis
      proof (cases "uint acc * int b + ?d < 2 ^ 63")
        case True
        note small = this
        have "uint (acc * of_nat b + of_int ?d) < 2 ^ 63" using step(2) small by simp
        note IH = Cons.IH [OF this, of True]
        show ?thesis
          using IH step ds small \<open>0 \<le> ?d \<and> ?d < int b\<close> \<open>ch \<noteq> _\<close> by (simp add: Let_def)
      next
        case False
        have "2 ^ 63 \<le> foldl (\<lambda>v d. v * int b + d) (uint acc * int b + ?d) (literal_digits cs)"
          if "list_all (\<lambda>d. 0 \<le> d \<and> d < int b) (literal_digits cs)"
        proof -
          have "list_all (\<lambda>d. 0 \<le> d) (literal_digits cs)"
            using that by (auto simp: list_all_iff)
          with digits_mono [OF assms(2), of "uint acc * int b + ?d"] \<open>0 \<le> ?d \<and> _\<close> False
          show ?thesis by fastforce
        qed
        with False step ds \<open>0 \<le> ?d \<and> ?d < int b\<close> \<open>ch \<noteq> _\<close> show ?thesis
          by (auto simp: Let_def)
      qed
    qed
  qed
qed

lemma hex_prefix:
  "2 \<le> length cs \<and> cs ! 0 = CHR ''0'' \<and> (cs ! 1 = CHR ''x'' \<or> cs ! 1 = CHR ''X'') \<longleftrightarrow>
     take 2 cs = ''0x'' \<or> take 2 cs = ''0X''"
  by (cases cs; cases "tl cs") (auto simp: numeral_2_eq_2)

lemma ParseIntegerLiteralValue_reference:
  "ParseIntegerLiteralValue cs = map_option of_int (integer_literal cs)"
proof -
  have *: "(case parse_digits b body 0 False of None \<Rightarrow> None | Some (v, saw) \<Rightarrow> if saw then Some v else None) =
    (let ds = literal_digits body in
     if ds \<noteq> [] \<and> list_all (\<lambda>d. 0 \<le> d \<and> d < int b) ds \<and> digits_value b ds < 2 ^ 63
     then Some (of_int (digits_value b ds)) else None)" if "b = 10 \<or> b = 16" for b body
    using that parse_digits_reference [of 0 b body False]
    by (auto simp: Let_def digits_value_def)
  have nil: "literal_digits [] = []" by (simp add: literal_digits_def)
  show ?thesis
    unfolding ParseIntegerLiteralValue_def integer_literal_def hex_prefix
    by (auto simp: * nil Let_def)
qed

text \<open>A token stream as the parser expects it: the tokens partition the text, and the end-of-file
  token is there once, at the end.\<close>

definition token_stream :: "bool \<Rightarrow> string \<Rightarrow> Token list \<Rightarrow> bool" where
  "token_stream clean src ts \<longleftrightarrow>
     ts \<noteq> [] \<and> tok_kind (last ts) = T_kEof \<and> (\<forall>t \<in> set (butlast ts). tok_kind t \<noteq> T_kEof) \<and>
     tokens_placed clean src 0 ts"

end
