(* ===== verification/MC_LexerRound.thy ===== *)
theory MC_LexerRound
  imports MC_LexerSpec
begin

text \<open>
  Printing and lexing: a list of fixed-spelling token kinds, written out with a blank between
  neighbours, lexes back to these kinds. The lemmas describe what the scanners do when the text
  left to read is known.
\<close>

abbreviation rest_of :: "LexState \<Rightarrow> string" where
  "rest_of s \<equiv> drop (lx_index s) (lx_source s)"

lemma rest_of_Cons:
  assumes "rest_of s = c # cs"
  shows "\<not> AtEnd_lx s" "Peek_lx s = c" "PeekNext_lx s = (case cs of [] \<Rightarrow> nul_char | n # _ \<Rightarrow> n)"
    "rest_of (Advance_lx s) = cs"
proof -
  show end': "\<not> AtEnd_lx s" using assms by (auto simp: AtEnd_index intro: ccontr)
  show "Peek_lx s = c" using assms end' by (metis AtEnd_index Peek_lx_nth hd_drop_conv_nth list.sel(1))
  show tl: "rest_of (Advance_lx s) = cs" using assms by (simp add: drop_Suc drop_tl [symmetric])
      (metis list.sel(3) drop_Suc tl_drop)
  show "PeekNext_lx s = (case cs of [] \<Rightarrow> nul_char | n # _ \<Rightarrow> n)"
    using tl by (auto simp: PeekNext_lx_def hd_drop_conv_nth [symmetric] split: list.splits)
qed

lemma rest_of_Nil: "rest_of s = [] \<longleftrightarrow> AtEnd_lx s"
  by (simp add: AtEnd_lx_def)

lemma scan_identifier_rest:
  "rest_of s = w @ r \<Longrightarrow> list_all IsIdentifierContinue w \<Longrightarrow> r = [] \<or> \<not> IsIdentifierContinue (hd r) \<Longrightarrow>
     lx_index (scan_identifier s) = lx_index s + length w \<and> lx_ok (scan_identifier s) = lx_ok s"
proof (induction w arbitrary: s)
  case Nil
  then have "AtEnd_lx s \<or> \<not> IsIdentifierContinue (Peek_lx s)"
    by (cases r) (auto simp: rest_of_Nil [symmetric] rest_of_Cons)
  then show ?case by (subst (1 2) scan_identifier.simps) auto
next
  case (Cons c w)
  then have *: "rest_of s = c # (w @ r)" "rest_of (Advance_lx s) = w @ r"
    using rest_of_Cons(4) [of s c "w @ r"] by simp_all
  then show ?case
    using Cons rest_of_Cons(1,2) [OF *(1)] by (simp add: scan_identifier.simps [of s])
      (simp add: Advance_lx_def)
qed

definition lexes_as :: "TokenKind \<Rightarrow> LexState \<Rightarrow> string \<Rightarrow> bool" where
  "lexes_as k s w \<longleftrightarrow> (\<forall>f. \<exists>t s'. lex_one f s = (Some t, s') \<and> tok_kind t = k \<and>
     lx_index s' = lx_index s + length w \<and> lx_ok s' = lx_ok s)"

lemma keyword_letters:
  "find_keyword w = Some k \<Longrightarrow>
     list_all IsIdentifierContinue w \<and> w \<noteq> [] \<and> IsIdentifierStart (hd w)"
proof -
  assume w: "find_keyword w = Some k"
  have "list_all (\<lambda>(w, k). list_all IsIdentifierContinue w \<and> w \<noteq> [] \<and> IsIdentifierStart (hd w)) kKeywords"
    by (simp add: kKeywords_def IsIdentifierContinue_def IsIdentifierStart_def is_alnum_char_def
        is_alpha_char_def is_digit_char_def char_code_def)
  then show ?thesis
    using map_of_SomeD [OF w [unfolded find_keyword_def]] by (auto simp: list_all_iff)
qed

lemma keyword_lexes:
  assumes "find_keyword w = Some k" "rest_of s = w @ r" "r = [] \<or> hd r = CHR '' ''"
  shows "lexes_as k s w"
proof -
  note letters = keyword_letters [OF assms(1)]
  have r: "r = [] \<or> \<not> IsIdentifierContinue (hd r)"
    using assms(3) by (auto simp: IsIdentifierContinue_def is_alnum_char_def is_alpha_char_def
        is_digit_char_def char_code_def)
  note scan = scan_identifier_rest [OF assms(2) conjunct1 [OF letters] r]
  have "Peek_lx s = hd w"
    using letters assms(2) by (cases w) (auto simp: rest_of_Cons)
  moreover have "hd w \<noteq> newline_char"
    using letters by (auto simp: IsIdentifierStart_def is_alpha_char_def char_code_def)
  moreover have "substr (scan_identifier s) (lx_index s) (length w) = w"
    using assms(2) scan_identifier_ext [THEN lx_ext_source, of s] by (simp add: substr_def)
  ultimately show ?thesis
    using letters scan assms(1)
    by (simp add: lexes_as_def lex_one_def ConsumeNewline_def LexIdentifier_def Let_def)
qed

lemma Advance_lx_ok [simp]: "lx_ok (Advance_lx s) = lx_ok s"
  by (simp add: Advance_lx_def)

lemma punctuation_lexes:
  assumes "punctuation_of (hd w) (if tl w = [] then n else hd (tl w)) = Some (k, length w)"
    and "w \<noteq> []" "rest_of s = w @ r" "n = (case r of [] \<Rightarrow> nul_char | c # _ \<Rightarrow> c)"
    and "hd w \<notin> {newline_char, quote_char, apostrophe_char}" "\<not> IsIdentifierStart (hd w)" "\<not> is_digit_char (hd w)"
  shows "lexes_as k s w"
proof -
  have len: "length w = 1 \<or> length w = 2" using punctuation_of_width [OF assms(1)] by auto
  obtain c w' where w: "w = c # w'" using assms(2) by (cases w) auto
  have p: "Peek_lx s = c" "PeekNext_lx s = (if tl w = [] then n else hd (tl w))"
    using rest_of_Cons(2,3) [of s c "w' @ r"] assms(3,4) w by (cases w'; cases r; simp)+
  show ?thesis
    using assms p w len
    by (auto simp: lexes_as_def lex_one_def ConsumeNewline_def LexPunctuation_def emit_def Let_def
        numeral_2_eq_2)
qed

abbreviation punctuation_kinds :: "TokenKind set" where
  "punctuation_kinds \<equiv> {T_kLBrace, T_kRBrace, T_kLParen, T_kRParen, T_kLBracket, T_kRBracket,
     T_kComma, T_kColon, T_kColonAssign, T_kAt, T_kDot, T_kDotDeref, T_kRange, T_kAssign, T_kEqEq,
     T_kBang, T_kBangEq, T_kLt, T_kLtLt, T_kLtEq, T_kGt, T_kGtGt, T_kGtEq, T_kPlus, T_kMinus,
     T_kArrow, T_kStar, T_kSlash, T_kPercent, T_kAmp, T_kAmpAmp, T_kPipe, T_kPipePipe, T_kCaret}"

lemma keyword_or_punctuation:
  "has_fixed_spelling k \<Longrightarrow> find_keyword (ToString_kind k) = Some k \<or> k \<in> punctuation_kinds"
  by (cases k) (simp_all add: has_fixed_spelling_def find_keyword_def kKeywords_def)

lemma punctuation_spelling:
  assumes "k \<in> punctuation_kinds" "n = nul_char \<or> n = CHR '' ''"
  shows "punctuation_of (hd (ToString_kind k)) (if tl (ToString_kind k) = [] then n else hd (tl (ToString_kind k)))
      = Some (k, length (ToString_kind k))"
    and "ToString_kind k \<noteq> [] \<and> hd (ToString_kind k) \<notin> {newline_char, quote_char, apostrophe_char} \<and>
      \<not> IsIdentifierStart (hd (ToString_kind k)) \<and> \<not> is_digit_char (hd (ToString_kind k))"
proof -
  show "punctuation_of (hd (ToString_kind k)) (if tl (ToString_kind k) = [] then n else hd (tl (ToString_kind k)))
      = Some (k, length (ToString_kind k))"
    using assms by (elim insertE disjE emptyE; simp add: punctuation_of_def)
  show "ToString_kind k \<noteq> [] \<and> hd (ToString_kind k) \<notin> {newline_char, quote_char, apostrophe_char} \<and>
      \<not> IsIdentifierStart (hd (ToString_kind k)) \<and> \<not> is_digit_char (hd (ToString_kind k))"
    using assms(1) by (elim insertE emptyE; simp add: IsIdentifierStart_def is_alpha_char_def
        is_digit_char_def char_code_def)
qed

lemma spelling_lexes:
  assumes "has_fixed_spelling k" "rest_of s = ToString_kind k @ r" "r = [] \<or> hd r = CHR '' ''"
  shows "lexes_as k s (ToString_kind k)"
  using keyword_or_punctuation [OF assms(1)]
proof
  assume "find_keyword (ToString_kind k) = Some k"
  then show ?thesis by (rule keyword_lexes [OF _ assms(2,3)])
next
  assume k: "k \<in> punctuation_kinds"
  obtain n where r: "n = (case r of [] \<Rightarrow> nul_char | c # _ \<Rightarrow> c)" by simp
  then have n: "n = nul_char \<or> n = CHR '' ''" using assms(3) by (cases r) auto
  show ?thesis
    using punctuation_spelling [OF k n] assms(2) r
    by (intro punctuation_lexes [where r = r and n = n]) auto
qed

lemma spelling_head:
  "has_fixed_spelling k \<Longrightarrow> \<exists>c cs. ToString_kind k = c # cs \<and> \<not> is_blank c \<and>
     \<not> (c = slash \<and> cs \<noteq> [])"
  by (cases k) (simp_all add: has_fixed_spelling_def)

lemma SkipTrivia_stop:
  assumes "has_fixed_spelling k" "rest_of s = ToString_kind k @ r" "r = [] \<or> hd r = CHR '' ''"
  shows "SkipTrivia s = s" "\<not> AtEnd_lx s"
proof -
  obtain c cs where c: "ToString_kind k = c # cs" "\<not> is_blank c" "c = slash \<longrightarrow> cs = []"
    using spelling_head [OF assms(1)] by auto
  note * = rest_of_Cons [of s c "cs @ r"]
  show "\<not> AtEnd_lx s" using * c assms(2) by simp
  have "Peek_lx s = slash \<Longrightarrow> PeekNext_lx s \<noteq> slash"
    using * c assms(2,3) by (cases r) auto
  then show "SkipTrivia s = s" using * c assms(2) by (subst SkipTrivia.simps) auto
qed

lemma SkipTrivia_one_blank:
  assumes "rest_of s = CHR '' '' # cs"
  shows "SkipTrivia s = SkipTrivia (Advance_lx s)" "rest_of (Advance_lx s) = cs"
  using rest_of_Cons [OF assms] by (simp_all add: SkipTrivia.simps [of s])

definition spell :: "TokenKind list \<Rightarrow> string" where
  "spell ks = join_with '' '' (map ToString_kind ks)"

lemma lex_run_spell:
  assumes "\<forall>k \<in> set ks. has_fixed_spelling k"
    and "rest_of s = spell ks \<or> ks \<noteq> [] \<and> rest_of s = '' '' @ spell ks"
  shows "map tok_kind (fst (lex_run f s acc)) = map tok_kind acc @ ks \<and>
    lx_ok (snd (lex_run f s acc)) = lx_ok s"
  using assms
proof (induction ks arbitrary: s acc)
  case Nil
  then have "AtEnd_lx s" by (simp add: spell_def AtEnd_lx_def)
  then show ?case by (simp add: lex_run.simps [of f s acc])
next
  case (Cons k ks)
  let ?t = "SkipTrivia s"
  let ?r = "if ks = [] then [] else '' '' @ spell ks"
  have sp: "spell (k # ks) = ToString_kind k @ ?r"
    by (cases ks) (simp_all add: spell_def)
  have k: "has_fixed_spelling k" and r: "?r = [] \<or> hd ?r = CHR '' ''" using Cons.prems by auto
  have t: "rest_of ?t = ToString_kind k @ ?r" "\<not> AtEnd_lx ?t"
    using Cons.prems(2) SkipTrivia_stop [OF k _ r] SkipTrivia_one_blank [of s "spell (k # ks)"]
    by (auto simp: sp simp del: append.simps)
  have nend: "\<not> AtEnd_lx s"
    using t lx_ext_index [OF SkipTrivia_ext [of s]] by (auto simp: AtEnd_index)
  obtain tok s2 where one: "lex_one f ?t = (Some tok, s2)" and s2: "tok_kind tok = k"
    "lx_index s2 = lx_index ?t + length (ToString_kind k)" "lx_ok s2 = lx_ok ?t"
    using spelling_lexes [OF k t(1) r] unfolding lexes_as_def by blast
  have "lx_source s2 = lx_source ?t"
    using lx_ext_source [OF lex_one_ext [OF t(2), of f]] one by simp
  then have "rest_of s2 = drop (length (ToString_kind k)) (rest_of ?t)"
    using s2(2) by (simp add: add.commute)
  then have "rest_of s2 = ?r" unfolding t(1) by simp
  then have "rest_of s2 = spell ks \<or> ks \<noteq> [] \<and> rest_of s2 = '' '' @ spell ks"
    by (cases ks) (simp_all add: spell_def)
  with Cons.prems Cons.IH [of s2 "acc @ [tok]"] nend t(2) s2 one show ?case
    by (simp add: lex_run.simps [of f s acc] Let_def)
qed

lemma Lex_spelled:
  "\<forall>k \<in> set ks. has_fixed_spelling k \<Longrightarrow>
     map tok_kind (lr_tokens (fst (Lex f (spell ks) p d))) = ks @ [T_kEof] \<and> lr_ok (fst (Lex f (spell ks) p d))"
  using lex_run_spell [of ks "lex_start (spell ks) p d" f "[]"]
  by (auto simp: Lex_def Let_def split_beta lex_start_def)

end
