(* ===== verification/MC_Ast.thy ===== *)
theory MC_Ast
  imports MC_Token
begin

text \<open>
  \<open>compiler/ast/ast.h\<close>: the syntax tree. Each node class is one fat struct; a recursive one is a
  datatype with one constructor, its fields in the order of the struct as selectors and an update
  per field the parser assigns; the others are records. A \<open>std::unique_ptr\<close> is an \<open>option\<close>, a
  vector of them a list of the nodes, except for the vectors of \<open>TypeExpr\<close>: the parser pushes the
  result of \<open>ParseTypeExpr\<close> there without a test for \<open>nullptr\<close>, so they are lists of options.
\<close>

section \<open>Types and expressions\<close>

record AttributeArg =
  aa_span :: SourceSpan
  aa_is_identifier :: bool
  aa_value :: string

record Attribute =
  at_span :: SourceSpan
  at_name :: string
  at_args :: "AttributeArg list"

record ImportDecl =
  im_span :: SourceSpan
  im_module_name :: string

datatype (plugins only: code) TypeExprKind =
  TE_kNamed | TE_kPointer | TE_kConst | TE_kArray | TE_kParen | TE_kProcedure

datatype (plugins only: code) ExprKind =
    E_kName | E_kDiscard | E_kQualifiedName | E_kLiteral | E_kUnary | E_kBinary | E_kRange
  | E_kCall | E_kField | E_kDerefField | E_kIndex | E_kSlice | E_kEmptyCollection
  | E_kAggregateInit | E_kRecordUpdate | E_kParen

datatype (plugins only: code size) TypeExpr =
  mk_TypeExpr
    (te_span: SourceSpan)
    (te_kind: TypeExprKind)
    (te_name: string)
    (te_type_args: "TypeExpr option list")
    (te_inner: "TypeExpr option")
    (te_length_expr: "Expr option")
    (te_params: "TypeExpr option list")
    (te_returns: "TypeExpr option list")
and FieldInit =
  mk_FieldInit
    (fi_span: SourceSpan)
    (fi_has_name: bool)
    (fi_name: string)
    (fi_field_path: "string list")
    (fi_value: "Expr option")
and Expr =
  mk_Expr
    (e_span: SourceSpan)
    (e_kind: ExprKind)
    (e_text: string)
    (e_secondary_text: string)
    (e_integer_literal_value: "int64 option")
    (e_float_literal_value: "double option")
    (e_type_args: "TypeExpr option list")
    (e_type_target: "TypeExpr option")
    (e_bare_type_target_syntax: bool)
    (e_args: "Expr list")
    (e_field_inits: "FieldInit list")
    (e_left: "Expr option")
    (e_right: "Expr option")
    (e_extra: "Expr option")


text \<open>\<open>std::make_unique<TypeExpr>()\<close> and \<open>std::make_unique<Expr>()\<close>, the kind set: every other field
  has its default.\<close>

definition new_TypeExpr :: "TypeExprKind \<Rightarrow> TypeExpr" where
  "new_TypeExpr k = mk_TypeExpr kDefaultSourceSpan k [] [] None None [] []"

definition new_Expr :: "ExprKind \<Rightarrow> Expr" where
  "new_Expr k = mk_Expr kDefaultSourceSpan k [] [] None None [] None False [] [] None None None"

definition set_te_span :: "SourceSpan \<Rightarrow> TypeExpr \<Rightarrow> TypeExpr" where
  "set_te_span x t = mk_TypeExpr x (te_kind t) (te_name t) (te_type_args t) (te_inner t) (te_length_expr t)
       (te_params t) (te_returns t)"

definition set_te_name :: "string \<Rightarrow> TypeExpr \<Rightarrow> TypeExpr" where
  "set_te_name x t = mk_TypeExpr (te_span t) (te_kind t) x (te_type_args t) (te_inner t) (te_length_expr t)
       (te_params t) (te_returns t)"

definition set_te_type_args :: "TypeExpr option list \<Rightarrow> TypeExpr \<Rightarrow> TypeExpr" where
  "set_te_type_args x t = mk_TypeExpr (te_span t) (te_kind t) (te_name t) x (te_inner t) (te_length_expr t)
       (te_params t) (te_returns t)"

definition set_te_inner :: "TypeExpr option \<Rightarrow> TypeExpr \<Rightarrow> TypeExpr" where
  "set_te_inner x t = mk_TypeExpr (te_span t) (te_kind t) (te_name t) (te_type_args t) x (te_length_expr t)
       (te_params t) (te_returns t)"

definition set_te_length_expr :: "Expr option \<Rightarrow> TypeExpr \<Rightarrow> TypeExpr" where
  "set_te_length_expr x t = mk_TypeExpr (te_span t) (te_kind t) (te_name t) (te_type_args t) (te_inner t) x (te_params
       t) (te_returns t)"

definition set_te_params :: "TypeExpr option list \<Rightarrow> TypeExpr \<Rightarrow> TypeExpr" where
  "set_te_params x t = mk_TypeExpr (te_span t) (te_kind t) (te_name t) (te_type_args t) (te_inner t)
       (te_length_expr t) x (te_returns t)"

definition set_te_returns :: "TypeExpr option list \<Rightarrow> TypeExpr \<Rightarrow> TypeExpr" where
  "set_te_returns x t = mk_TypeExpr (te_span t) (te_kind t) (te_name t) (te_type_args t) (te_inner t)
       (te_length_expr t) (te_params t) x"

definition set_e_span :: "SourceSpan \<Rightarrow> Expr \<Rightarrow> Expr" where
  "set_e_span x e = mk_Expr x (e_kind e) (e_text e) (e_secondary_text e) (e_integer_literal_value e)
       (e_float_literal_value e) (e_type_args e) (e_type_target e) (e_bare_type_target_syntax
       e) (e_args e) (e_field_inits e) (e_left e) (e_right e) (e_extra e)"

definition set_e_kind :: "ExprKind \<Rightarrow> Expr \<Rightarrow> Expr" where
  "set_e_kind x e = mk_Expr (e_span e) x (e_text e) (e_secondary_text e) (e_integer_literal_value e)
       (e_float_literal_value e) (e_type_args e) (e_type_target e) (e_bare_type_target_syntax
       e) (e_args e) (e_field_inits e) (e_left e) (e_right e) (e_extra e)"

definition set_e_text :: "string \<Rightarrow> Expr \<Rightarrow> Expr" where
  "set_e_text x e = mk_Expr (e_span e) (e_kind e) x (e_secondary_text e) (e_integer_literal_value e)
       (e_float_literal_value e) (e_type_args e) (e_type_target e) (e_bare_type_target_syntax
       e) (e_args e) (e_field_inits e) (e_left e) (e_right e) (e_extra e)"

definition set_e_secondary_text :: "string \<Rightarrow> Expr \<Rightarrow> Expr" where
  "set_e_secondary_text x e = mk_Expr (e_span e) (e_kind e) (e_text e) x (e_integer_literal_value e)
       (e_float_literal_value e) (e_type_args e) (e_type_target e) (e_bare_type_target_syntax
       e) (e_args e) (e_field_inits e) (e_left e) (e_right e) (e_extra e)"

definition set_e_integer_literal_value :: "int64 option \<Rightarrow> Expr \<Rightarrow> Expr" where
  "set_e_integer_literal_value x e = mk_Expr (e_span e) (e_kind e) (e_text e) (e_secondary_text e) x (e_float_literal_value e)
       (e_type_args e) (e_type_target e) (e_bare_type_target_syntax e) (e_args e)
       (e_field_inits e) (e_left e) (e_right e) (e_extra e)"

definition set_e_float_literal_value :: "double option \<Rightarrow> Expr \<Rightarrow> Expr" where
  "set_e_float_literal_value x e = mk_Expr (e_span e) (e_kind e) (e_text e) (e_secondary_text e) (e_integer_literal_value e)
       x (e_type_args e) (e_type_target e) (e_bare_type_target_syntax e) (e_args e)
       (e_field_inits e) (e_left e) (e_right e) (e_extra e)"

definition set_e_type_args :: "TypeExpr option list \<Rightarrow> Expr \<Rightarrow> Expr" where
  "set_e_type_args x e = mk_Expr (e_span e) (e_kind e) (e_text e) (e_secondary_text e) (e_integer_literal_value e)
       (e_float_literal_value e) x (e_type_target e) (e_bare_type_target_syntax e) (e_args e)
       (e_field_inits e) (e_left e) (e_right e) (e_extra e)"

definition set_e_type_target :: "TypeExpr option \<Rightarrow> Expr \<Rightarrow> Expr" where
  "set_e_type_target x e = mk_Expr (e_span e) (e_kind e) (e_text e) (e_secondary_text e) (e_integer_literal_value e)
       (e_float_literal_value e) (e_type_args e) x (e_bare_type_target_syntax e) (e_args e)
       (e_field_inits e) (e_left e) (e_right e) (e_extra e)"

definition set_e_bare_type_target_syntax :: "bool \<Rightarrow> Expr \<Rightarrow> Expr" where
  "set_e_bare_type_target_syntax x e = mk_Expr (e_span e) (e_kind e) (e_text e) (e_secondary_text e) (e_integer_literal_value e)
       (e_float_literal_value e) (e_type_args e) (e_type_target e) x (e_args e) (e_field_inits
       e) (e_left e) (e_right e) (e_extra e)"

definition set_e_args :: "Expr list \<Rightarrow> Expr \<Rightarrow> Expr" where
  "set_e_args x e = mk_Expr (e_span e) (e_kind e) (e_text e) (e_secondary_text e) (e_integer_literal_value e)
       (e_float_literal_value e) (e_type_args e) (e_type_target e) (e_bare_type_target_syntax
       e) x (e_field_inits e) (e_left e) (e_right e) (e_extra e)"

definition set_e_field_inits :: "FieldInit list \<Rightarrow> Expr \<Rightarrow> Expr" where
  "set_e_field_inits x e = mk_Expr (e_span e) (e_kind e) (e_text e) (e_secondary_text e) (e_integer_literal_value e)
       (e_float_literal_value e) (e_type_args e) (e_type_target e) (e_bare_type_target_syntax
       e) (e_args e) x (e_left e) (e_right e) (e_extra e)"

definition set_e_left :: "Expr option \<Rightarrow> Expr \<Rightarrow> Expr" where
  "set_e_left x e = mk_Expr (e_span e) (e_kind e) (e_text e) (e_secondary_text e) (e_integer_literal_value e)
       (e_float_literal_value e) (e_type_args e) (e_type_target e) (e_bare_type_target_syntax
       e) (e_args e) (e_field_inits e) x (e_right e) (e_extra e)"

definition set_e_right :: "Expr option \<Rightarrow> Expr \<Rightarrow> Expr" where
  "set_e_right x e = mk_Expr (e_span e) (e_kind e) (e_text e) (e_secondary_text e) (e_integer_literal_value e)
       (e_float_literal_value e) (e_type_args e) (e_type_target e) (e_bare_type_target_syntax
       e) (e_args e) (e_field_inits e) (e_left e) x (e_extra e)"

definition set_e_extra :: "Expr option \<Rightarrow> Expr \<Rightarrow> Expr" where
  "set_e_extra x e = mk_Expr (e_span e) (e_kind e) (e_text e) (e_secondary_text e) (e_integer_literal_value e)
       (e_float_literal_value e) (e_type_args e) (e_type_target e) (e_bare_type_target_syntax
       e) (e_args e) (e_field_inits e) (e_left e) (e_right e) x"

section \<open>Statements\<close>

record NamePattern =
  np_span :: SourceSpan
  np_names :: "string list"
  np_discards :: "bool list"

definition IsDiscard :: "NamePattern \<Rightarrow> nat \<Rightarrow> bool" where
  "IsDiscard p i = (if i < length (np_discards p) then np_discards p ! i else False)"

fun HasDiscardTarget_loop :: "bool list \<Rightarrow> bool" where
  "HasDiscardTarget_loop [] = False"
| "HasDiscardTarget_loop (d # ds) = (if d then True else HasDiscardTarget_loop ds)"

definition HasDiscardTarget :: "NamePattern \<Rightarrow> bool" where
  "HasDiscardTarget p = HasDiscardTarget_loop (np_discards p)"

definition empty_NamePattern :: NamePattern where
  "empty_NamePattern = \<lparr>np_span = kDefaultSourceSpan, np_names = [], np_discards = []\<rparr>"

datatype (plugins only: code) CasePatternKind = CP_kExpr | CP_kVariant

record CasePattern =
  cp_span :: SourceSpan
  cp_kind :: CasePatternKind
  cp_expr :: "Expr option"
  cp_variant_name :: string
  cp_bindings :: "string list"

definition empty_CasePattern :: CasePattern where
  "empty_CasePattern = \<lparr>cp_span = kDefaultSourceSpan, cp_kind = CP_kExpr, cp_expr = None,
     cp_variant_name = [], cp_bindings = []\<rparr>"

datatype (plugins only: code) StmtKind =
    S_kBlock | S_kBinding | S_kVar | S_kConst | S_kAssign | S_kExpr | S_kIf | S_kSwitch | S_kWhile
  | S_kForCondition | S_kForIn | S_kForEach | S_kForEachIndex | S_kForRange | S_kReturn | S_kBreak
  | S_kContinue | S_kDefer

datatype (plugins only: code size) Stmt =
  mk_Stmt
    (s_span: SourceSpan)
    (s_kind: StmtKind)
    (s_statements: "Stmt list")
    (s_pattern: NamePattern)
    (s_type_ann: "TypeExpr option")
    (s_exprs: "Expr list")
    (s_assign_targets: "Expr list")
    (s_assign_values: "Expr list")
    (s_has_initializer: bool)
    (s_switch_cases: "SwitchCase list")
    (s_has_default_case: bool)
    (s_default_case: "DefaultCase option")
    (s_loop_name: string)
    (s_loop_second_name: string)
    (s_then_branch: "Stmt option")
    (s_else_branch: "Stmt option")
and SwitchCase =
  mk_SwitchCase (sc_span: SourceSpan) (sc_pattern: CasePattern) (sc_statements: "Stmt list")
and DefaultCase =
  mk_DefaultCase (dc_span: SourceSpan) (dc_statements: "Stmt list")

text \<open>\<open>default_case\<close> is a value in the struct, the one no statement but a switch sets: here
  \<open>None\<close> is that default value.\<close>

definition new_Stmt :: "StmtKind \<Rightarrow> Stmt" where
  "new_Stmt k = mk_Stmt kDefaultSourceSpan k [] empty_NamePattern None [] [] [] False [] False None
     [] [] None None"

definition set_s_span :: "SourceSpan \<Rightarrow> Stmt \<Rightarrow> Stmt" where
  "set_s_span x st = mk_Stmt x (s_kind st) (s_statements st) (s_pattern st) (s_type_ann st) (s_exprs st)
       (s_assign_targets st) (s_assign_values st) (s_has_initializer st) (s_switch_cases st)
       (s_has_default_case st) (s_default_case st) (s_loop_name st) (s_loop_second_name st)
       (s_then_branch st) (s_else_branch st)"

definition set_s_statements :: "Stmt list \<Rightarrow> Stmt \<Rightarrow> Stmt" where
  "set_s_statements x st = mk_Stmt (s_span st) (s_kind st) x (s_pattern st) (s_type_ann st) (s_exprs st)
       (s_assign_targets st) (s_assign_values st) (s_has_initializer st) (s_switch_cases st)
       (s_has_default_case st) (s_default_case st) (s_loop_name st) (s_loop_second_name st)
       (s_then_branch st) (s_else_branch st)"

definition set_s_pattern :: "NamePattern \<Rightarrow> Stmt \<Rightarrow> Stmt" where
  "set_s_pattern x st = mk_Stmt (s_span st) (s_kind st) (s_statements st) x (s_type_ann st) (s_exprs st)
       (s_assign_targets st) (s_assign_values st) (s_has_initializer st) (s_switch_cases st)
       (s_has_default_case st) (s_default_case st) (s_loop_name st) (s_loop_second_name st)
       (s_then_branch st) (s_else_branch st)"

definition set_s_type_ann :: "TypeExpr option \<Rightarrow> Stmt \<Rightarrow> Stmt" where
  "set_s_type_ann x st = mk_Stmt (s_span st) (s_kind st) (s_statements st) (s_pattern st) x (s_exprs st)
       (s_assign_targets st) (s_assign_values st) (s_has_initializer st) (s_switch_cases st)
       (s_has_default_case st) (s_default_case st) (s_loop_name st) (s_loop_second_name st)
       (s_then_branch st) (s_else_branch st)"

definition set_s_exprs :: "Expr list \<Rightarrow> Stmt \<Rightarrow> Stmt" where
  "set_s_exprs x st = mk_Stmt (s_span st) (s_kind st) (s_statements st) (s_pattern st) (s_type_ann st) x
       (s_assign_targets st) (s_assign_values st) (s_has_initializer st) (s_switch_cases st)
       (s_has_default_case st) (s_default_case st) (s_loop_name st) (s_loop_second_name st)
       (s_then_branch st) (s_else_branch st)"

definition set_s_assign_targets :: "Expr list \<Rightarrow> Stmt \<Rightarrow> Stmt" where
  "set_s_assign_targets x st = mk_Stmt (s_span st) (s_kind st) (s_statements st) (s_pattern st) (s_type_ann st) (s_exprs
       st) x (s_assign_values st) (s_has_initializer st) (s_switch_cases st)
       (s_has_default_case st) (s_default_case st) (s_loop_name st) (s_loop_second_name st)
       (s_then_branch st) (s_else_branch st)"

definition set_s_assign_values :: "Expr list \<Rightarrow> Stmt \<Rightarrow> Stmt" where
  "set_s_assign_values x st = mk_Stmt (s_span st) (s_kind st) (s_statements st) (s_pattern st) (s_type_ann st) (s_exprs
       st) (s_assign_targets st) x (s_has_initializer st) (s_switch_cases st)
       (s_has_default_case st) (s_default_case st) (s_loop_name st) (s_loop_second_name st)
       (s_then_branch st) (s_else_branch st)"

definition set_s_has_initializer :: "bool \<Rightarrow> Stmt \<Rightarrow> Stmt" where
  "set_s_has_initializer x st = mk_Stmt (s_span st) (s_kind st) (s_statements st) (s_pattern st) (s_type_ann st) (s_exprs
       st) (s_assign_targets st) (s_assign_values st) x (s_switch_cases st) (s_has_default_case
       st) (s_default_case st) (s_loop_name st) (s_loop_second_name st) (s_then_branch st)
       (s_else_branch st)"

definition set_s_switch_cases :: "SwitchCase list \<Rightarrow> Stmt \<Rightarrow> Stmt" where
  "set_s_switch_cases x st = mk_Stmt (s_span st) (s_kind st) (s_statements st) (s_pattern st) (s_type_ann st) (s_exprs
       st) (s_assign_targets st) (s_assign_values st) (s_has_initializer st) x
       (s_has_default_case st) (s_default_case st) (s_loop_name st) (s_loop_second_name st)
       (s_then_branch st) (s_else_branch st)"

definition set_s_has_default_case :: "bool \<Rightarrow> Stmt \<Rightarrow> Stmt" where
  "set_s_has_default_case x st = mk_Stmt (s_span st) (s_kind st) (s_statements st) (s_pattern st) (s_type_ann st) (s_exprs
       st) (s_assign_targets st) (s_assign_values st) (s_has_initializer st) (s_switch_cases
       st) x (s_default_case st) (s_loop_name st) (s_loop_second_name st) (s_then_branch st)
       (s_else_branch st)"

definition set_s_default_case :: "DefaultCase option \<Rightarrow> Stmt \<Rightarrow> Stmt" where
  "set_s_default_case x st = mk_Stmt (s_span st) (s_kind st) (s_statements st) (s_pattern st) (s_type_ann st) (s_exprs
       st) (s_assign_targets st) (s_assign_values st) (s_has_initializer st) (s_switch_cases
       st) (s_has_default_case st) x (s_loop_name st) (s_loop_second_name st) (s_then_branch
       st) (s_else_branch st)"

definition set_s_loop_name :: "string \<Rightarrow> Stmt \<Rightarrow> Stmt" where
  "set_s_loop_name x st = mk_Stmt (s_span st) (s_kind st) (s_statements st) (s_pattern st) (s_type_ann st) (s_exprs
       st) (s_assign_targets st) (s_assign_values st) (s_has_initializer st) (s_switch_cases
       st) (s_has_default_case st) (s_default_case st) x (s_loop_second_name st) (s_then_branch
       st) (s_else_branch st)"

definition set_s_loop_second_name :: "string \<Rightarrow> Stmt \<Rightarrow> Stmt" where
  "set_s_loop_second_name x st = mk_Stmt (s_span st) (s_kind st) (s_statements st) (s_pattern st) (s_type_ann st) (s_exprs
       st) (s_assign_targets st) (s_assign_values st) (s_has_initializer st) (s_switch_cases
       st) (s_has_default_case st) (s_default_case st) (s_loop_name st) x (s_then_branch st)
       (s_else_branch st)"

definition set_s_then_branch :: "Stmt option \<Rightarrow> Stmt \<Rightarrow> Stmt" where
  "set_s_then_branch x st = mk_Stmt (s_span st) (s_kind st) (s_statements st) (s_pattern st) (s_type_ann st) (s_exprs
       st) (s_assign_targets st) (s_assign_values st) (s_has_initializer st) (s_switch_cases
       st) (s_has_default_case st) (s_default_case st) (s_loop_name st) (s_loop_second_name st)
       x (s_else_branch st)"

definition set_s_else_branch :: "Stmt option \<Rightarrow> Stmt \<Rightarrow> Stmt" where
  "set_s_else_branch x st = mk_Stmt (s_span st) (s_kind st) (s_statements st) (s_pattern st) (s_type_ann st) (s_exprs
       st) (s_assign_targets st) (s_assign_values st) (s_has_initializer st) (s_switch_cases
       st) (s_has_default_case st) (s_default_case st) (s_loop_name st) (s_loop_second_name st)
       (s_then_branch st) x"

section \<open>Declarations\<close>

record FieldDecl =
  fd_span :: SourceSpan
  fd_name :: string
  fd_type :: "TypeExpr option"

record EnumVariantDecl =
  ev_span :: SourceSpan
  ev_name :: string
  ev_payload_fields :: "FieldDecl list"

record ParamDecl =
  pa_span :: SourceSpan
  pa_attributes :: "Attribute list"
  pa_name :: string
  pa_type :: "TypeExpr option"

datatype (plugins only: code) DeclKind =
  D_kFunc | D_kExternFunc | D_kStruct | D_kEnum | D_kDistinct | D_kTypeAlias | D_kConst | D_kVar

record Decl =
  d_span :: SourceSpan
  d_kind :: DeclKind
  d_attributes :: "Attribute list"
  d_name :: string
  d_extern_abi :: string
  d_type_params :: "string list"
  d_params :: "ParamDecl list"
  d_return_types :: "TypeExpr option list"
  d_body :: "Stmt option"
  d_fields :: "FieldDecl list"
  d_variants :: "EnumVariantDecl list"
  d_pattern :: NamePattern
  d_type_ann :: "TypeExpr option"
  d_values :: "Expr list"
  d_has_initializer :: bool
  d_aliased_type :: "TypeExpr option"

definition new_Decl :: "DeclKind \<Rightarrow> Decl" where
  "new_Decl k = \<lparr>d_span = kDefaultSourceSpan, d_kind = k, d_attributes = [], d_name = [],
     d_extern_abi = [], d_type_params = [], d_params = [], d_return_types = [], d_body = None,
     d_fields = [], d_variants = [], d_pattern = empty_NamePattern, d_type_ann = None,
     d_values = [], d_has_initializer = False, d_aliased_type = None\<rparr>"

datatype (plugins only: code) ModuleKind = kOrdinary | kInternal

record SourceFile =
  sf_span :: SourceSpan
  sf_module_kind :: ModuleKind
  sf_imports :: "ImportDecl list"
  sf_decls :: "Decl list"

lemmas set_node_defs =
  set_te_span_def set_te_name_def set_te_type_args_def set_te_inner_def set_te_length_expr_def set_te_params_def set_te_returns_def set_e_span_def set_e_kind_def set_e_text_def set_e_secondary_text_def set_e_integer_literal_value_def set_e_float_literal_value_def set_e_type_args_def set_e_type_target_def set_e_bare_type_target_syntax_def set_e_args_def set_e_field_inits_def set_e_left_def set_e_right_def set_e_extra_def set_s_span_def set_s_statements_def set_s_pattern_def set_s_type_ann_def set_s_exprs_def set_s_assign_targets_def set_s_assign_values_def set_s_has_initializer_def set_s_switch_cases_def set_s_has_default_case_def set_s_default_case_def set_s_loop_name_def set_s_loop_second_name_def set_s_then_branch_def set_s_else_branch_def
  new_TypeExpr_def new_Expr_def new_Stmt_def

end
