(* ===== verification/MC_ParserCore.thy ===== *)
theory MC_ParserCore
  imports MC_Ast "HOL-Library.Monad_Syntax"
begin

text \<open>
  \<open>compiler/parse/parser.cpp\<close>: the state of the class \<open>Parser\<close> and its token walking and recovery.
  An operation that may not return, or that stops at the assertion of \<open>Previous\<close>, is a function
  into an option, \<open>None\<close> being both; the others are plain functions of the state. \<open>ps_ext\<close> says
  what every operation of the parser keeps, and \<open>outcome\<close> is the judgement the parser theories
  prove about an operation: with its flag set, it returns and its result has the property; with
  the flag clear, its result has the property if it returns.
\<close>

section \<open>State and token access\<close>

record ParseState =
  ps_tokens :: "Token list"
  ps_file_path :: path
  ps_diagnostics :: DiagnosticSink
  ps_index :: nat
  ps_ok :: bool
  ps_allow_aggregate_init :: bool

definition Current :: "ParseState \<Rightarrow> Token" where
  "Current s = ps_tokens s ! ps_index s"

definition AtEnd :: "ParseState \<Rightarrow> bool" where
  "AtEnd s \<longleftrightarrow> tok_kind (Current s) = T_kEof"

definition Previous :: "ParseState \<Rightarrow> Token option" where
  \<comment> \<open>\<open>assert(index_ > 0)\<close>\<close>
  "Previous s = (if ps_index s > 0 then Some (ps_tokens s ! (ps_index s - 1)) else None)"

definition Peek :: "ParseState \<Rightarrow> nat \<Rightarrow> Token" where
  "Peek s off =
     (let target = ps_index s + off
      in ps_tokens s ! (if target < length (ps_tokens s) then target else length (ps_tokens s) - 1))"

definition Check :: "TokenKind \<Rightarrow> ParseState \<Rightarrow> bool" where
  "Check k s \<longleftrightarrow> tok_kind (Current s) = k"

definition Advance :: "ParseState \<Rightarrow> ParseState" where
  \<comment> \<open>The token it returns is \<open>Previous\<close> of the new state, which the callers that use it read there.\<close>
  "Advance s = (if \<not> AtEnd s then s\<lparr>ps_index := ps_index s + 1\<rparr> else s)"

definition Match :: "TokenKind \<Rightarrow> ParseState \<Rightarrow> ParseState option" where
  \<comment> \<open>\<open>Some\<close> for true, with the state after it.\<close>
  "Match k s = (if Check k s then Some (Advance s) else None)"

definition ReportAt :: "SourceSpan \<Rightarrow> string \<Rightarrow> ParseState \<Rightarrow> ParseState" where
  \<comment> \<open>\<open>diagnostics_.Report(...); ok_ = false;\<close>\<close>
  "ReportAt span msg s =
     s\<lparr>ps_diagnostics := Report
         \<lparr>diag_file_path = ps_file_path s, diag_span = span, diag_severity = kError,
          diag_message = msg\<rparr> (ps_diagnostics s),
       ps_ok := False\<rparr>"

definition ReportError :: "Token \<Rightarrow> string \<Rightarrow> ParseState \<Rightarrow> ParseState" where
  "ReportError t msg s = ReportAt (tok_span t) msg s"

definition Consume :: "TokenKind \<Rightarrow> string \<Rightarrow> ParseState \<Rightarrow> ParseState" where
  \<comment> \<open>The pointer it returns is \<open>&Previous()\<close> or null; the callers that use it fall back on
    \<open>Previous()\<close> when it is null, so what they read is \<open>Previous\<close> of this state either way.\<close>
  "Consume k msg s = (case Match k s of Some s' \<Rightarrow> s' | None \<Rightarrow> ReportError (Current s) msg s)"

definition begin_of :: "Token \<Rightarrow> SourcePosition" where
  "begin_of t = span_begin (tok_span t)"

definition end_of :: "Token \<Rightarrow> SourcePosition" where
  "end_of t = span_end (tok_span t)"

definition tokens_left :: "ParseState \<Rightarrow> nat" where
  "tokens_left s = length (ps_tokens s) - ps_index s"

definition in_bounds :: "ParseState \<Rightarrow> bool" where
  "in_bounds s \<longleftrightarrow> ps_index s < length (ps_tokens s)"

text \<open>The loops that only walk over tokens. The guard \<open>in_bounds\<close> stops them where the code would
  read past the vector; the parser is never there (\<open>ps_wf\<close> below).\<close>

function SkipNewlines :: "ParseState \<Rightarrow> ParseState" where
  "SkipNewlines s =
     (if in_bounds s \<and> Check T_kNewline s then SkipNewlines (Advance s) else s)"
  by pat_completeness auto
termination
  by (relation "measure tokens_left")
    (auto simp: in_bounds_def tokens_left_def Advance_def Check_def AtEnd_def)

definition RequireSourceSeparator :: "string \<Rightarrow> ParseState \<Rightarrow> bool \<times> ParseState" where
  "RequireSourceSeparator ctxt s =
     (if AtEnd s \<or> Check T_kNewline s then (True, SkipNewlines s)
      else (False, ReportError (Current s) (''expected newline after '' @ ctxt) s))"

definition is_top_level_start :: "TokenKind \<Rightarrow> bool" where
  "is_top_level_start k \<longleftrightarrow> k = T_kFunc \<or> k = T_kStruct \<or> k = T_kEnum \<or> k = T_kDistinct \<or>
     k = T_kType \<or> k = T_kVar \<or> k = T_kConst \<or> k = T_kExtern \<or> k = T_kAt"

lemma tokens_left_Advance: "in_bounds s \<Longrightarrow> \<not> AtEnd s \<Longrightarrow> tokens_left (Advance s) < tokens_left s"
  by (simp add: in_bounds_def tokens_left_def Advance_def)

declare SkipNewlines.simps [simp del]

lemma SkipNewlines_left: "tokens_left (SkipNewlines s) \<le> tokens_left s"
proof (induction s rule: SkipNewlines.induct)
  case (1 s)
  have "tokens_left (Advance s) \<le> tokens_left s"
    by (auto simp: tokens_left_def Advance_def)
  with 1 show ?case
    by (cases "in_bounds s \<and> Check T_kNewline s") (auto simp: SkipNewlines.simps [of s])
qed

function SynchronizeTopLevel :: "ParseState \<Rightarrow> ParseState" where
  "SynchronizeTopLevel s =
     (if in_bounds s \<and> \<not> AtEnd s
      then if is_top_level_start (tok_kind (Current s)) then s
        else (case Match T_kNewline s of
          Some s' \<Rightarrow> SynchronizeTopLevel (SkipNewlines s')
        | None \<Rightarrow> SynchronizeTopLevel (Advance s))
      else s)"
  by pat_completeness auto
termination
proof (relation "measure tokens_left", goal_cases)
  case (3 s s')
  then have "tokens_left s' < tokens_left s"
    by (auto simp: Match_def intro: tokens_left_Advance split: if_splits)
  then show ?case using SkipNewlines_left [of s'] by simp
qed (simp_all add: tokens_left_Advance)

declare SynchronizeTopLevel.simps [simp del]

function SynchronizeStatement :: "ParseState \<Rightarrow> ParseState" where
  "SynchronizeStatement s =
     (if in_bounds s \<and> \<not> AtEnd s
      then (case Match T_kNewline s of
          Some s' \<Rightarrow> SkipNewlines s'
        | None \<Rightarrow>
            if Check T_kRBrace s \<or> Check T_kCase s \<or> Check T_kDefault s then s
            else SynchronizeStatement (Advance s))
      else s)"
  by pat_completeness auto
termination
  by (relation "measure tokens_left") (auto simp: tokens_left_Advance)

declare SynchronizeStatement.simps [simp del]

definition ParseIdentifier :: "string \<Rightarrow> ParseState \<Rightarrow> string option \<times> ParseState" where
  "ParseIdentifier msg s =
     (if \<not> Check T_kIdentifier s then (None, ReportError (Current s) msg s)
      else (Some (tok_lexeme (Current s)), Advance s))"

function name_chain_end :: "TokenKind \<Rightarrow> ParseState \<Rightarrow> nat \<Rightarrow> nat" where
  \<comment> \<open>\<open>while (Peek(off).kind == sep && Peek(off + 1).kind == kIdentifier) off += 2;\<close>. Past the last
    token \<open>Peek\<close> is the end-of-file token, which is no separator.\<close>
  "name_chain_end sep s off =
     (if ps_index s + off < length (ps_tokens s) \<and>
        tok_kind (Peek s off) = sep \<and> tok_kind (Peek s (off + 1)) = T_kIdentifier
      then name_chain_end sep s (off + 2) else off)"
  by pat_completeness auto
termination
  by (relation "measure (\<lambda>(_, s, off). length (ps_tokens s) - (ps_index s + off))") auto

declare name_chain_end.simps [simp del]

definition LooksLikeBindingStmt :: "ParseState \<Rightarrow> bool" where
  "LooksLikeBindingStmt s =
     (if tok_kind (Current s) \<noteq> T_kIdentifier then False
      else let off = name_chain_end T_kComma s 1
        in tok_kind (Peek s off) = T_kColon \<or> tok_kind (Peek s off) = T_kColonAssign)"

definition SkipStatementSeparator :: "ParseState \<Rightarrow> ParseState" where
  "SkipStatementSeparator s =
     (case Match T_kNewline s of
        Some s' \<Rightarrow> SkipNewlines s'
      | None \<Rightarrow>
          if Check T_kRBrace s \<or> Check T_kCase s \<or> Check T_kDefault s then s
          else ReportError (Current s) ''expected newline between statements'' s)"

definition RequireStatementSeparatorOrSync :: "ParseState \<Rightarrow> ParseState" where
  "RequireStatementSeparatorOrSync s =
     (let diagnostic_count = length (ps_diagnostics s); s' = SkipStatementSeparator s
      in if length (ps_diagnostics s') \<noteq> diagnostic_count then SynchronizeStatement s' else s')"

definition ConsumeMemberSeparator :: "ParseState \<Rightarrow> ParseState" where
  "ConsumeMemberSeparator s =
     (case Match T_kComma s of
        Some s' \<Rightarrow> SkipNewlines s'
      | None \<Rightarrow> (case Match T_kNewline s of
          Some s' \<Rightarrow> SkipNewlines s'
        | None \<Rightarrow>
            if Check T_kRBrace s then s
            else ReportError (Current s) ''expected member separator'' s))"

definition IsLiteral :: "TokenKind \<Rightarrow> bool" where
  "IsLiteral k \<longleftrightarrow> k = T_kIntLiteral \<or> k = T_kFloatLiteral \<or> k = T_kStringLiteral \<or>
     k = T_kCharLiteral \<or> k = T_kTrue \<or> k = T_kFalse \<or> k = T_kNil"

definition IsAggregateInitBase :: "Expr \<Rightarrow> bool" where
  "IsAggregateInitBase e \<longleftrightarrow> e_kind e = E_kName \<or> e_kind e = E_kQualifiedName"

fun IsAssignmentTarget :: "Expr \<Rightarrow> bool" where
  "IsAssignmentTarget (mk_Expr sp k tx sx iv fv ta tt b as fs l r x) =
     (case k of
        E_kDiscard \<Rightarrow> True | E_kName \<Rightarrow> True | E_kQualifiedName \<Rightarrow> True | E_kField \<Rightarrow> True
      | E_kDerefField \<Rightarrow> True | E_kIndex \<Rightarrow> True
      | E_kParen \<Rightarrow> (case l of Some e \<Rightarrow> IsAssignmentTarget e | None \<Rightarrow> False)
      | _ \<Rightarrow> False)"

definition NormalizeAssignmentTarget :: "Expr \<Rightarrow> Expr" where
  "NormalizeAssignmentTarget target =
     (if e_kind target = E_kName \<and> e_text target = ''_''
      then set_e_secondary_text [] (set_e_text [] (set_e_kind E_kDiscard target)) else target)"

definition IsCaseBoundary :: "ParseState \<Rightarrow> bool" where
  "IsCaseBoundary s \<longleftrightarrow> Check T_kCase s \<or> Check T_kDefault s \<or> Check T_kRBrace s"

definition IsPrefixUnaryOperator :: "TokenKind \<Rightarrow> bool" where
  "IsPrefixUnaryOperator k \<longleftrightarrow> k = T_kBang \<or> k = T_kMinus \<or> k = T_kAmp \<or> k = T_kStar"

definition IsStatementTerminator :: "TokenKind \<Rightarrow> bool" where
  "IsStatementTerminator k \<longleftrightarrow> k = T_kNewline \<or> k = T_kRBrace \<or> k = T_kEof"

definition MakeLeafStmt :: "StmtKind \<Rightarrow> SourcePosition \<Rightarrow> SourcePosition \<Rightarrow> Stmt" where
  "MakeLeafStmt k b e = set_s_span \<lparr>span_begin = b, span_end = e\<rparr> (new_Stmt k)"

definition IsTypeExprStart :: "TokenKind \<Rightarrow> bool" where
  "IsTypeExprStart k \<longleftrightarrow> k = T_kConst \<or> k = T_kStar \<or> k = T_kLBracket \<or> k = T_kLParen \<or>
     k = T_kIdentifier \<or> k = T_kFunc"

end
