(* ===== verification/MC_AstShape.thy ===== *)
theory MC_AstShape
  imports MC_Ast
begin

text \<open>
  Which fields of a node are set for each kind, and the precedence of operators: the contract
  between the parser and its clients that the comment of \<open>struct Expr\<close> states. \<open>expr_ok b e\<close> holds
  of a tree whose nodes all have their shape; with \<open>b\<close> clear, the parts the parser leaves out after
  it reported an error (a type it could not read) may be missing.
\<close>

definition binary_operators :: "(string \<times> nat) list" where
  "binary_operators =
     [(''..'', 0), (''||'', 1), (''&&'', 2), (''|'', 3), (''^'', 4), (''&'', 5), (''is'', 6),
      (''=='', 7), (''!='', 7), (''<'', 8), (''<='', 8), (''>'', 8), (''>='', 8), (''<<'', 9),
      (''>>'', 9), (''+'', 10), (''-'', 10), (''*'', 11), (''/'', 11), (''%'', 11)]"

definition binary_prec :: "string \<Rightarrow> nat" where
  "binary_prec op = (case map_of binary_operators op of Some p \<Rightarrow> p | None \<Rightarrow> 0)"

definition unary_operators :: "string list" where
  "unary_operators = [''!'', ''-'', ''&'', ''*'']"

definition expr_prec :: "Expr \<Rightarrow> nat" where
  "expr_prec e =
     (if e_kind e = E_kBinary \<or> e_kind e = E_kRange then binary_prec (e_text e)
      else if e_kind e = E_kUnary then 12 else 13)"

abbreviation prec_of :: "Expr option \<Rightarrow> nat" where
  "prec_of x \<equiv> (case x of Some e \<Rightarrow> expr_prec e | None \<Rightarrow> 0)"

primrec kind_shape :: "ExprKind \<Rightarrow> bool \<Rightarrow> Expr \<Rightarrow> bool" where
  "kind_shape E_kName b e \<longleftrightarrow> e_left e = None \<and> e_right e = None \<and> e_extra e = None"
| "kind_shape E_kDiscard b e \<longleftrightarrow> e_text e = [] \<and> e_left e = None"
| "kind_shape E_kQualifiedName b e \<longleftrightarrow> e_left e = None \<and> e_right e = None \<and> e_extra e = None"
| "kind_shape E_kLiteral b e \<longleftrightarrow> e_left e = None \<and> e_right e = None \<and> e_extra e = None"
| "kind_shape E_kUnary b e \<longleftrightarrow> e_text e \<in> set unary_operators \<and> 12 \<le> prec_of (e_left e)"
| "kind_shape E_kBinary b e \<longleftrightarrow> e_text e \<in> fst ` set binary_operators \<and>
     e_left e \<noteq> None \<and> e_right e \<noteq> None \<and>
     binary_prec (e_text e) \<le> prec_of (e_left e) \<and> binary_prec (e_text e) < prec_of (e_right e)"
| "kind_shape E_kRange b e \<longleftrightarrow> e_text e = ''..'' \<and> e_left e \<noteq> None \<and>
     e_right e \<noteq> None \<and> 0 < prec_of (e_right e)"
| "kind_shape E_kCall b e \<longleftrightarrow> e_left e = None \<and> (b \<longrightarrow> e_type_target e \<noteq> None) \<or> prec_of (e_left e) = 13"
| "kind_shape E_kField b e \<longleftrightarrow> prec_of (e_left e) = 13"
| "kind_shape E_kDerefField b e \<longleftrightarrow> prec_of (e_left e) = 13"
| "kind_shape E_kIndex b e \<longleftrightarrow> prec_of (e_left e) = 13 \<and> e_right e \<noteq> None"
| "kind_shape E_kSlice b e \<longleftrightarrow> prec_of (e_left e) = 13"
| "kind_shape E_kEmptyCollection b e \<longleftrightarrow> e_left e = None"
| "kind_shape E_kAggregateInit b e \<longleftrightarrow>
     (case e_left e of Some l \<Rightarrow> e_kind l = E_kName \<or> e_kind l = E_kQualifiedName | None \<Rightarrow> True)"
| "kind_shape E_kRecordUpdate b e \<longleftrightarrow> prec_of (e_left e) = 13"
| "kind_shape E_kParen b e \<longleftrightarrow> e_left e \<noteq> None"

definition type_shape :: "bool \<Rightarrow> TypeExpr \<Rightarrow> bool" where
  "type_shape b t \<longleftrightarrow>
     (te_kind t \<in> {TE_kPointer, TE_kConst, TE_kArray, TE_kParen} \<longrightarrow> b \<longrightarrow> te_inner t \<noteq> None) \<and>
     (te_kind t = TE_kArray \<longrightarrow> te_length_expr t \<noteq> None) \<and>
     (b \<longrightarrow> None \<notin> set (te_type_args t) \<union> set (te_params t) \<union> set (te_returns t))"

abbreviation all_types :: "(TypeExpr \<Rightarrow> bool) \<Rightarrow> TypeExpr option list \<Rightarrow> bool" where
  "all_types P \<equiv> list_all (pred_option P)"

primrec type_ok :: "bool \<Rightarrow> TypeExpr \<Rightarrow> bool"
  and init_ok :: "bool \<Rightarrow> FieldInit \<Rightarrow> bool"
  and expr_ok :: "bool \<Rightarrow> Expr \<Rightarrow> bool" where
  "type_ok b (mk_TypeExpr sp k nm targs inn len ps rs) \<longleftrightarrow>
     type_shape b (mk_TypeExpr sp k nm targs inn len ps rs) \<and>
     list_all (pred_option id) (map (map_option (type_ok b)) targs) \<and>
     pred_option id (map_option (type_ok b) inn) \<and> pred_option id (map_option (expr_ok b) len) \<and>
     list_all (pred_option id) (map (map_option (type_ok b)) ps) \<and>
     list_all (pred_option id) (map (map_option (type_ok b)) rs)"
| "init_ok b (mk_FieldInit sp h nm path v) \<longleftrightarrow>
     v \<noteq> None \<and> (h \<longrightarrow> path \<noteq> []) \<and> pred_option id (map_option (expr_ok b) v)"
| "expr_ok b (mk_Expr sp k tx sx iv fv ta tt bare args fs l r x) \<longleftrightarrow>
     kind_shape k b (mk_Expr sp k tx sx iv fv ta tt bare args fs l r x) \<and> (b \<longrightarrow> None \<notin> set ta) \<and>
     list_all (pred_option id) (map (map_option (type_ok b)) ta) \<and>
     pred_option id (map_option (type_ok b) tt) \<and> list_all id (map (expr_ok b) args) \<and>
     list_all id (map (init_ok b) fs) \<and> pred_option id (map_option (expr_ok b) l) \<and>
     pred_option id (map_option (expr_ok b) r) \<and> pred_option id (map_option (expr_ok b) x)"

lemma list_all_id_map: "list_all id (map f xs) = list_all f xs"
  by (induction xs) auto

lemma pred_option_id_map: "pred_option id (map_option f x) = pred_option f x"
  by (cases x) auto

lemma all_types_id_map: "list_all (pred_option id) (map (map_option f) xs) = list_all (pred_option f) xs"
  by (induction xs) (simp_all only: list.pred_inject list.map pred_option_id_map)

lemma type_ok_iff:
  "type_ok b t \<longleftrightarrow> type_shape b t \<and> all_types (type_ok b) (te_type_args t) \<and>
     pred_option (type_ok b) (te_inner t) \<and> pred_option (expr_ok b) (te_length_expr t) \<and>
     all_types (type_ok b) (te_params t) \<and> all_types (type_ok b) (te_returns t)"
  by (cases t) (simp only: type_ok.simps TypeExpr.sel all_types_id_map pred_option_id_map)

lemma init_ok_iff:
  "init_ok b f \<longleftrightarrow> fi_value f \<noteq> None \<and> (fi_has_name f \<longrightarrow> fi_field_path f \<noteq> []) \<and>
     pred_option (expr_ok b) (fi_value f)"
  by (cases f) (simp only: init_ok.simps FieldInit.sel pred_option_id_map)

lemma expr_ok_iff:
  "expr_ok b e \<longleftrightarrow> kind_shape (e_kind e) b e \<and> (b \<longrightarrow> None \<notin> set (e_type_args e)) \<and>
     all_types (type_ok b) (e_type_args e) \<and> pred_option (type_ok b) (e_type_target e) \<and>
     list_all (expr_ok b) (e_args e) \<and> list_all (init_ok b) (e_field_inits e) \<and>
     pred_option (expr_ok b) (e_left e) \<and> pred_option (expr_ok b) (e_right e) \<and>
     pred_option (expr_ok b) (e_extra e)"
  by (cases e) (simp only: expr_ok.simps Expr.sel all_types_id_map pred_option_id_map list_all_id_map)

lemma kind_shape_weaken: "kind_shape k b e \<Longrightarrow> kind_shape k False e"
  by (cases k) auto

lemma type_shape_weaken: "type_shape b t \<Longrightarrow> type_shape False t"
  by (auto simp: type_shape_def)

lemma pred_option_weaken: "pred_option P x \<Longrightarrow> (\<And>y. y \<in> set_option x \<Longrightarrow> P y \<Longrightarrow> Q y) \<Longrightarrow> pred_option Q x"
  by (auto simp: pred_option_def)

lemma list_all_weaken: "list_all P xs \<Longrightarrow> (\<And>y. y \<in> set xs \<Longrightarrow> P y \<Longrightarrow> Q y) \<Longrightarrow> list_all Q xs"
  by (auto simp: list_all_iff)

lemma all_types_weaken:
  "all_types P xs \<Longrightarrow> (\<And>t y. t \<in> set xs \<Longrightarrow> y \<in> set_option t \<Longrightarrow> P y \<Longrightarrow> Q y) \<Longrightarrow> all_types Q xs"
  by (auto simp: list_all_iff pred_option_def)

lemma ok_weaken:
  "type_ok b t \<Longrightarrow> type_ok False t" "init_ok b f \<Longrightarrow> init_ok False f" "expr_ok b e \<Longrightarrow> expr_ok False e"
proof (induction t and f and e)
  case (mk_TypeExpr sp k nm targs inn len ps rs)
  then show ?case
    unfolding type_ok.simps all_types_id_map pred_option_id_map
    by (elim conjE, intro conjI)
      (erule type_shape_weaken all_types_weaken pred_option_weaken; blast)+
next
  case (mk_FieldInit sp h nm path v)
  then show ?case
    unfolding init_ok.simps pred_option_id_map
    by (elim conjE, intro conjI) (assumption | erule pred_option_weaken; blast)+
next
  case (mk_Expr sp k tx sx iv fv ta tt bare args fs l r x)
  then show ?case
    unfolding expr_ok.simps all_types_id_map pred_option_id_map list_all_id_map
    by (elim conjE, intro conjI)
      (erule kind_shape_weaken all_types_weaken pred_option_weaken list_all_weaken; blast | simp)+
qed

text \<open>The form in which the parser proofs use it: a flag that only gets cleared.\<close>

lemma ok_mono:
  "type_ok b t \<Longrightarrow> (b' \<longrightarrow> b) \<Longrightarrow> type_ok b' t"
  "init_ok b f \<Longrightarrow> (b' \<longrightarrow> b) \<Longrightarrow> init_ok b' f"
  "expr_ok b e \<Longrightarrow> (b' \<longrightarrow> b) \<Longrightarrow> expr_ok b' e"
  by (cases b'; cases b; simp add: ok_weaken)+

lemma ok_list_mono:
  "all_types (type_ok b) ts \<Longrightarrow> (b' \<longrightarrow> b) \<Longrightarrow> all_types (type_ok b') ts"
  "pred_option (type_ok b) t \<Longrightarrow> (b' \<longrightarrow> b) \<Longrightarrow> pred_option (type_ok b') t"
  "list_all (init_ok b) fs \<Longrightarrow> (b' \<longrightarrow> b) \<Longrightarrow> list_all (init_ok b') fs"
  "list_all (expr_ok b) es \<Longrightarrow> (b' \<longrightarrow> b) \<Longrightarrow> list_all (expr_ok b') es"
  "pred_option (expr_ok b) e \<Longrightarrow> (b' \<longrightarrow> b) \<Longrightarrow> pred_option (expr_ok b') e"
  by (auto simp: list_all_iff pred_option_def intro: ok_mono)

end
