(* ===== verification/MC_ParserRules.thy ===== *)
theory MC_ParserRules
  imports MC_ParserCore MC_AstShape
begin

text \<open>
  The judgement \<open>outcome\<close> about an operation of the parser, the order \<open>moved\<close> between the states
  before and after it, and their rules.
\<close>

section \<open>Outcomes\<close>

definition outcome :: "bool \<Rightarrow> 'a option \<Rightarrow> ('a \<Rightarrow> bool) \<Rightarrow> bool" where
  "outcome t m Q \<longleftrightarrow> (case m of None \<Rightarrow> \<not> t | Some x \<Rightarrow> Q x)"

lemma outcome_Some [simp]: "outcome t (Some x) Q \<longleftrightarrow> Q x"
  by (simp add: outcome_def)

lemma outcome_None [simp]: "outcome t None Q \<longleftrightarrow> \<not> t"
  by (simp add: outcome_def)

lemma outcome_mono: "outcome t m P \<Longrightarrow> (\<And>x. P x \<Longrightarrow> Q x) \<Longrightarrow> outcome t m Q"
  by (auto simp: outcome_def split: option.splits)

lemma outcome_bind:
  "outcome t m P \<Longrightarrow> (\<And>x. P x \<Longrightarrow> outcome t (f x) Q) \<Longrightarrow> outcome t (m \<bind> f) Q"
  by (cases m) (auto simp: outcome_def)

lemma outcome_total: "outcome True m Q \<Longrightarrow> \<exists>x. m = Some x \<and> Q x"
  by (auto simp: outcome_def split: option.splits)

lemma outcome_partial: "outcome False m Q \<Longrightarrow> m = Some x \<Longrightarrow> Q x"
  by (simp add: outcome_def)

section \<open>States reached\<close>

definition ps_wf :: "ParseState \<Rightarrow> bool" where
  "ps_wf s \<longleftrightarrow> in_bounds s \<and> tok_kind (last (ps_tokens s)) = T_kEof \<and>
     (\<forall>i < length (ps_tokens s) - 1. tok_kind (ps_tokens s ! i) \<noteq> T_kEof)"

text \<open>\<open>moved s b s'\<close>: the parser got from \<open>s\<close> to \<open>s'\<close>; with \<open>b\<close>, it consumed a token on the way.\<close>

definition moved :: "ParseState \<Rightarrow> bool \<Rightarrow> ParseState \<Rightarrow> bool" where
  "moved s b s' \<longleftrightarrow> ps_wf s \<and> ps_wf s' \<and> ps_tokens s' = ps_tokens s \<and> ps_file_path s' = ps_file_path s \<and>
     ps_allow_aggregate_init s' = ps_allow_aggregate_init s \<and>
     ps_index s + of_bool b \<le> ps_index s' \<and>
     reported (ps_diagnostics s) (ps_ok s) (ps_diagnostics s') (ps_ok s')"

lemma moved_refl: "ps_wf s \<Longrightarrow> moved s False s"
  by (simp add: moved_def)

lemma moved_wf: "moved s b s' \<Longrightarrow> ps_wf s'" "moved s b s' \<Longrightarrow> ps_wf s"
  by (simp_all add: moved_def)

lemma moved_weaken: "moved s b s' \<Longrightarrow> (c \<longrightarrow> b) \<Longrightarrow> moved s c s'"
  by (cases b; cases c) (simp_all add: moved_def)

lemma moved_trans:
  assumes "moved s b t" "moved t c u"
  shows "moved s (b \<or> c) u"
proof -
  have "ps_index s + of_bool (b \<or> c) \<le> ps_index u"
    using assms by (cases b; cases c) (simp_all add: moved_def)
  with assms show ?thesis by (auto simp: moved_def intro: reported_trans)
qed

lemma moved_ok: "moved s b s' \<Longrightarrow> ps_ok s' \<Longrightarrow> ps_ok s"
  by (auto simp: moved_def intro: reported_ok)

lemma moved_left: "moved s True s' \<Longrightarrow> tokens_left s' < tokens_left s"
  by (auto simp: moved_def tokens_left_def ps_wf_def in_bounds_def)

lemma moved_left_le: "moved s b s' \<Longrightarrow> tokens_left s' \<le> tokens_left s"
  by (simp add: moved_def tokens_left_def diff_le_mono2)

lemma moved_index: "moved s b s' \<Longrightarrow> ps_index s \<le> ps_index s'"
  by (simp add: moved_def)

lemma moved_past: "moved s True s' \<Longrightarrow> 0 < ps_index s'"
  by (auto simp: moved_def)

lemma last_is_eof:
  assumes "ps_wf s"
  shows "ps_index s < length (ps_tokens s) - 1 \<longleftrightarrow> \<not> AtEnd s"
proof
  assume "ps_index s < length (ps_tokens s) - 1"
  with assms show "\<not> AtEnd s" by (simp add: ps_wf_def AtEnd_def Current_def)
next
  assume "\<not> AtEnd s"
  moreover have "ps_index s = length (ps_tokens s) - 1 \<Longrightarrow> AtEnd s"
    using assms by (cases "ps_tokens s = []") (auto simp: ps_wf_def AtEnd_def Current_def in_bounds_def last_conv_nth)
  ultimately show "ps_index s < length (ps_tokens s) - 1"
    using assms unfolding ps_wf_def in_bounds_def by linarith
qed

lemma moved_Advance:
  assumes "moved s b t" "\<not> AtEnd t"
  shows "moved s True (Advance t)"
proof -
  have "ps_index t < length (ps_tokens t) - 1"
    using assms last_is_eof [of t] by (auto simp: moved_wf)
  with assms show ?thesis
    by (simp add: moved_def ps_wf_def in_bounds_def Advance_def)
qed

lemma moved_Advance_le: "moved s b t \<Longrightarrow> moved s b (Advance t)"
  using moved_Advance [of s b t] by (cases "AtEnd t") (auto simp: Advance_def intro: moved_weaken)

lemma Check_not_AtEnd: "Check k s \<Longrightarrow> k \<noteq> T_kEof \<Longrightarrow> \<not> AtEnd s"
  by (simp add: Check_def AtEnd_def)

lemma moved_Match: "Match k t = Some u \<Longrightarrow> moved s b t \<Longrightarrow> k \<noteq> T_kEof \<Longrightarrow> moved s True u"
  unfolding Match_def by (metis Check_not_AtEnd moved_Advance option.distinct(1) option.inject)

lemma moved_ReportAt: "moved s b t \<Longrightarrow> moved s b (ReportAt sp m t)"
  by (auto simp: moved_def ReportAt_def ps_wf_def in_bounds_def intro: reported_Report)

lemma moved_ReportError: "moved s b t \<Longrightarrow> moved s b (ReportError k m t)"
  by (simp add: ReportError_def moved_ReportAt)

lemma ok_ReportAt [simp]: "\<not> ps_ok (ReportAt sp m t)" "\<not> ps_ok (ReportError k m t)"
  by (simp_all add: ReportAt_def ReportError_def)

lemma moved_Consume: "moved s b t \<Longrightarrow> k \<noteq> T_kEof \<Longrightarrow> moved s b (Consume k m t)"
  by (cases "Match k t") (simp_all add: Consume_def moved_ReportError moved_weaken [OF moved_Match])

lemma moved_SkipNewlines: "moved s b t \<Longrightarrow> moved s b (SkipNewlines t)"
proof (induction t rule: SkipNewlines.induct)
  case (1 t)
  then show ?case
    by (cases "in_bounds t \<and> Check T_kNewline t")
      (auto simp: SkipNewlines.simps [of t] intro: moved_Advance_le)
qed

lemma ok_simps [simp]:
  "ps_ok (Advance s) = ps_ok s" "ps_ok (SkipNewlines s) = ps_ok s"
proof -
  show *: "ps_ok (Advance s) = ps_ok s" for s by (simp add: Advance_def)
  show "ps_ok (SkipNewlines s) = ps_ok s"
    by (induction s rule: SkipNewlines.induct) (subst SkipNewlines.simps, auto simp: *)
qed

lemma ok_Match: "Match k s = Some s' \<Longrightarrow> ps_ok s' = ps_ok s"
  by (auto simp: Match_def split: if_splits)

lemma ok_Consume: "ps_ok (Consume k m s) \<Longrightarrow> ps_ok s"
  by (auto simp: Consume_def dest: ok_Match split: option.splits)

lemma Previous_moved: "moved s b t \<Longrightarrow> b \<or> 0 < ps_index s \<Longrightarrow> \<exists>p. Previous t = Some p"
  by (auto simp: Previous_def moved_def split: if_splits)

text \<open>Loops over parser states: a pass of the body that goes round again has consumed a token.\<close>

lemma parser_loop:
  assumes start: "I x" "ps_wf (st x)" and fuel: "t \<Longrightarrow> tokens_left (st x) < n"
    and body: "\<And>y. I y \<Longrightarrow> ps_wf (st y) \<Longrightarrow> tokens_left (st y) \<le> tokens_left (st x) \<Longrightarrow>
      outcome t (f y) (\<lambda>r. case r of Inl z \<Rightarrow> I z \<and> moved (st y) True (st z) | Inr r \<Rightarrow> Q r)"
  shows "outcome t (fuel_loop n f x) Q"
  using assms
proof (induction n arbitrary: x)
  case 0
  then show ?case by auto
next
  case (Suc n)
  note b = Suc.prems(4) [OF Suc.prems(1,2) order_refl]
  show ?case
  proof (cases "f x")
    case None
    with b show ?thesis by simp
  next
    case (Some r)
    show ?thesis
    proof (cases r)
      case (Inl z)
      have z: "I z" "moved (st x) True (st z)" using b Some Inl by auto
      have "outcome t (fuel_loop n f z) Q"
      proof (rule Suc.IH)
        show "I z" "ps_wf (st z)" using z by (auto dest: moved_wf)
        show "tokens_left (st z) < n" if t
          using moved_left [OF z(2)] Suc.prems(3) [OF that] by simp
        fix y assume "I y" "ps_wf (st y)" "tokens_left (st y) \<le> tokens_left (st z)"
        then show "outcome t (f y) (\<lambda>r. case r of Inl z \<Rightarrow> I z \<and> moved (st y) True (st z) | Inr r \<Rightarrow> Q r)"
          using moved_left [OF z(2)] by (intro Suc.prems(4)) auto
      qed
      with Some Inl show ?thesis by simp
    next
      case (Inr y)
      with b Some show ?thesis by simp
    qed
  qed
qed

end
