(* ===== verification/MC_Lookahead.thy ===== *)
theory MC_Lookahead
  imports MC_ParserRules
begin

text \<open>
  The unbounded lookahead of \<open>compiler/parse/parser_expr.cpp\<close>, which decides between a type and an
  expression before the parser commits. It reads tokens and changes nothing. The mutually
  recursive skippers take fuel, one unit per call; \<open>lookahead_fuel\<close> is enough, because a call
  moves to a later token at least every second time (\<open>lookahead_fuel_enough\<close> below).
\<close>

definition kMaxTypeExprDepth :: nat where "kMaxTypeExprDepth = 256"

definition kMaxUnaryExprDepth :: nat where "kMaxUnaryExprDepth = 256"

abbreviation kind_at :: "ParseState \<Rightarrow> nat \<Rightarrow> TokenKind" where
  "kind_at s off \<equiv> tok_kind (Peek s off)"

definition IsBuiltinIntegerTypeName :: "string \<Rightarrow> bool" where
  "IsBuiltinIntegerTypeName name \<longleftrightarrow> name = ''i8'' \<or> name = ''i16'' \<or> name = ''i32'' \<or>
     name = ''i64'' \<or> name = ''isize'' \<or> name = ''u8'' \<or> name = ''u16'' \<or> name = ''u32'' \<or>
     name = ''u64'' \<or> name = ''usize'' \<or> name = ''uintptr''"

function SkipArrayLength_loop :: "ParseState \<Rightarrow> nat \<Rightarrow> int \<Rightarrow> int \<Rightarrow> nat option" where
  \<comment> \<open>Past the last token \<open>Peek\<close> is the end-of-file token: the first case of the loop.\<close>
  "SkipArrayLength_loop s off bracket_depth paren_depth =
     (let kind = kind_at s off in
      if kind = T_kEof \<or> length (ps_tokens s) \<le> ps_index s + off then None
      else if kind = T_kLBracket
      then SkipArrayLength_loop s (off + 1) (bracket_depth + 1) paren_depth
      else if kind = T_kRBracket
      then if bracket_depth - 1 = 0 \<and> paren_depth = 0 then Some (off + 1)
        else SkipArrayLength_loop s (off + 1) (bracket_depth - 1) paren_depth
      else if kind = T_kLParen
      then SkipArrayLength_loop s (off + 1) bracket_depth (paren_depth + 1)
      else if kind = T_kRParen \<and> 0 < paren_depth
      then SkipArrayLength_loop s (off + 1) bracket_depth (paren_depth - 1)
      else SkipArrayLength_loop s (off + 1) bracket_depth paren_depth)"
  by pat_completeness auto
termination
  by (relation "measure (\<lambda>(s, off, _, _). length (ps_tokens s) - (ps_index s + off))") auto

declare SkipArrayLength_loop.simps [simp del]

definition SkipArrayLengthLookahead :: "ParseState \<Rightarrow> nat \<Rightarrow> nat option" where
  "SkipArrayLengthLookahead s off = SkipArrayLength_loop s off 1 0"

fun SkipTypeExpr :: "nat \<Rightarrow> ParseState \<Rightarrow> nat \<Rightarrow> bool \<Rightarrow> nat \<Rightarrow> nat option"
  and SkipTypeArgList :: "nat \<Rightarrow> ParseState \<Rightarrow> nat \<Rightarrow> nat \<Rightarrow> nat option"
  and skip_type_list :: "nat \<Rightarrow> ParseState \<Rightarrow> TokenKind \<Rightarrow> nat \<Rightarrow> nat \<Rightarrow> nat option" where
  "SkipTypeExpr 0 s off allow_bare_identifier nesting = None"
| "SkipTypeExpr (Suc n) s off allow_bare_identifier nesting =
     (let kind = kind_at s off in
      if kind = T_kConst \<or> kind = T_kStar
      then if kMaxTypeExprDepth \<le> nesting then None
        else SkipTypeExpr n s (off + 1) allow_bare_identifier (nesting + 1)
      else if kind = T_kLBracket
      then if kMaxTypeExprDepth \<le> nesting then None
        else (case SkipArrayLengthLookahead s (off + 1) of
            None \<Rightarrow> None
          | Some after_length \<Rightarrow> SkipTypeExpr n s after_length True (nesting + 1))
      else if kind = T_kLParen
      then if kMaxTypeExprDepth \<le> nesting then None
        else (case SkipTypeExpr n s (off + 1) True (nesting + 1) of
            None \<Rightarrow> None
          | Some inner \<Rightarrow> if kind_at s inner \<noteq> T_kRParen then None else Some (inner + 1))
      else if kind = T_kFunc
      then if kMaxTypeExprDepth \<le> nesting \<or> kind_at s (off + 1) \<noteq> T_kLParen then None
        else (case (if kind_at s (off + 2) \<noteq> T_kRParen
              then skip_type_list n s T_kRParen (nesting + 1) (off + 2) else Some (off + 2)) of
            None \<Rightarrow> None
          | Some params_end \<Rightarrow>
              let next = params_end + 1 in
              if \<not> IsTypeExprStart (kind_at s next) then Some next
              else if kind_at s next = T_kLParen
              then (case (if kind_at s (next + 1) \<noteq> T_kRParen
                    then skip_type_list n s T_kRParen (nesting + 1) (next + 1) else Some (next + 1)) of
                  None \<Rightarrow> None
                | Some returns_end \<Rightarrow> Some (returns_end + 1))
              else SkipTypeExpr n s next True (nesting + 1))
      else if kind = T_kIdentifier
      then let next = name_chain_end T_kDot s (off + 1) in
        if kind_at s next = T_kLt then SkipTypeArgList n s next nesting
        else if allow_bare_identifier then Some next else None
      else None)"
| "SkipTypeArgList 0 s off depth = None"
| "SkipTypeArgList (Suc n) s off depth =
     (if kind_at s off \<noteq> T_kLt then None
      else let next = off + 1 in
        if kind_at s next = T_kGt then Some (next + 1)
        else if kMaxTypeExprDepth \<le> depth then None
        else (case skip_type_list n s T_kGt (depth + 1) next of
            None \<Rightarrow> None
          | Some args_end \<Rightarrow> Some (args_end + 1)))"
| \<comment> \<open>The loop over types separated by commas up to the token \<open>close\<close>; its offset.\<close>
  "skip_type_list 0 s close depth next = None"
| "skip_type_list (Suc n) s close depth next =
     (case SkipTypeExpr n s next True depth of
        None \<Rightarrow> None
      | Some type_end \<Rightarrow>
          if kind_at s type_end = T_kComma then skip_type_list n s close depth (type_end + 1)
          else if kind_at s type_end \<noteq> close then None
          else Some type_end)"

definition lookahead_fuel :: "ParseState \<Rightarrow> nat" where
  "lookahead_fuel s = 2 * tokens_left s + 2"

definition SkipTypeExprLookahead :: "ParseState \<Rightarrow> nat \<Rightarrow> bool \<Rightarrow> nat option" where
  "SkipTypeExprLookahead s off allow_bare_identifier =
     SkipTypeExpr (lookahead_fuel s) s off allow_bare_identifier 0"

definition LooksLikeTypeCallExpr :: "ParseState \<Rightarrow> bool" where
  "LooksLikeTypeCallExpr s =
     (if \<not> Check T_kLParen s then False
      else (case SkipTypeExprLookahead s 1 True of
          None \<Rightarrow> False
        | Some inner_type_end \<Rightarrow>
            kind_at s inner_type_end = T_kRParen \<and> kind_at s (inner_type_end + 1) = T_kLParen))"

definition LooksLikeBareIntegerConversionExpr :: "ParseState \<Rightarrow> bool" where
  "LooksLikeBareIntegerConversionExpr s \<longleftrightarrow>
     Check T_kIdentifier s \<and> IsBuiltinIntegerTypeName (tok_lexeme (Current s)) \<and>
     kind_at s 1 = T_kLParen"

definition LooksLikeTypeAggregateInitExpr :: "ParseState \<Rightarrow> bool" where
  "LooksLikeTypeAggregateInitExpr s =
     (if \<not> IsTypeExprStart (tok_kind (Current s)) then False
      else (case SkipTypeExprLookahead s 0 True of
          None \<Rightarrow> False
        | Some type_end \<Rightarrow> kind_at s type_end = T_kLBrace))"

definition LooksLikePostfixTypeArgs :: "ParseState \<Rightarrow> bool" where
  "LooksLikePostfixTypeArgs s =
     (if \<not> Check T_kLt s then False
      else (case SkipTypeArgList (lookahead_fuel s) s 0 0 of
          None \<Rightarrow> False
        | Some after_type_args \<Rightarrow>
            kind_at s after_type_args = T_kLParen \<or> kind_at s after_type_args = T_kLBrace \<or>
            kind_at s after_type_args = T_kDot))"

section \<open>The fuel is enough\<close>

lemma name_chain_end_le: "off \<le> name_chain_end sep s off"
proof (induction sep s off rule: name_chain_end.induct)
  case (1 sep s off)
  then show ?case by (subst name_chain_end.simps) auto
qed

lemma SkipArrayLength_less: "SkipArrayLength_loop s off b p = Some e \<Longrightarrow> off < e"
proof (induction "length (ps_tokens s) - (ps_index s + off)" arbitrary: off b p rule: less_induct)
  case less
  have IH: "off + 1 < e" if "\<not> length (ps_tokens s) \<le> ps_index s + off"
    "SkipArrayLength_loop s (off + 1) b p = Some e" for b p
    by (rule less.hyps [OF _ that(2)]) (use that(1) in simp)
  from less.prems show ?case
    by (subst (asm) SkipArrayLength_loop.simps) (auto simp: Let_def split: if_splits dest!: IH)
qed

lemma skip_progress:
  "SkipTypeExpr n s off a d = Some e \<Longrightarrow> off < e"
  "SkipTypeArgList n s off d = Some e \<Longrightarrow> off < e"
  "skip_type_list n s c d off = Some e \<Longrightarrow> off < e"
proof (induction n arbitrary: off a d e c)
  case (Suc n)
  have chain: "off < name_chain_end T_kDot s (Suc off)" for off
    using name_chain_end_le [of "Suc off" T_kDot s] by simp
  {
    case 1
    from 1 show ?case
      by (simp only: SkipTypeExpr.simps Let_def SkipArrayLengthLookahead_def)
        (auto simp: chain intro: less_trans [OF chain] split: if_splits option.splits
          dest!: Suc.IH SkipArrayLength_less)
  next
    case 2
    from 2 show ?case
      by (auto simp: Let_def split: if_splits option.splits dest!: Suc.IH(3))
  next
    case 3
    from 3 show ?case
      by (auto split: if_splits option.splits dest!: Suc.IH(1,3))
  }
qed simp_all

abbreviation room :: "ParseState \<Rightarrow> nat \<Rightarrow> nat" where
  "room s off \<equiv> length (ps_tokens s) - (ps_index s + off)"

lemma kind_at_end: "ps_wf s \<Longrightarrow> room s off = 0 \<Longrightarrow> kind_at s off = T_kEof"
  by (cases "ps_tokens s = []") (auto simp: ps_wf_def in_bounds_def Peek_def last_conv_nth)

declare SkipTypeExpr.simps(2) [simp del] SkipTypeArgList.simps(2) [simp del] skip_type_list.simps(2) [simp del]

lemma skip_fuel_step:
  assumes "ps_wf s"
  shows "2 * room s off + 1 \<le> n \<Longrightarrow> SkipTypeExpr (Suc n) s off a d = SkipTypeExpr n s off a d"
    and "2 * room s off + 1 \<le> n \<Longrightarrow> SkipTypeArgList (Suc n) s off d = SkipTypeArgList n s off d"
    and "2 * room s off + 2 \<le> n \<Longrightarrow> skip_type_list (Suc n) s c d off = skip_type_list n s c d off"
proof (induction n arbitrary: off a d c)
  case (Suc n)
  {
    case 1
    show ?case
    proof (cases "room s off = 0")
      case True
      then show ?thesis using kind_at_end [OF assms True] 1
        by (cases n) (simp_all add: SkipTypeExpr.simps(2))
    next
      case False
      have T: "SkipTypeExpr (Suc n) s o' a' d' = SkipTypeExpr n s o' a' d'"
        "SkipTypeArgList (Suc n) s o' d' = SkipTypeArgList n s o' d'"
        "skip_type_list (Suc n) s c' d' o' = skip_type_list n s c' d' o'" if "off < o'" for o' a' d' c'
        using 1 False that by (intro Suc.IH; simp)+
      have chain: "off < name_chain_end T_kDot s (Suc off)"
        using name_chain_end_le [of "Suc off" T_kDot s] by simp
      have list: "off < Suc e" if "skip_type_list n s c' d' o' = Some e" "off < o'" for c' d' o' e
        using skip_progress(3) [OF that(1)] that(2) by simp
      have arr: "off < e" if "SkipArrayLengthLookahead s (Suc off) = Some e" for e
        using that by (auto simp: SkipArrayLengthLookahead_def dest: SkipArrayLength_less)
      have opt: "off < Suc e" if "(if q then skip_type_list n s c' d' o' else Some o') = Some e" "off < o'"
        for q c' d' o' e
        using that skip_progress(3) [of n s c' d' o' e] by (cases q) auto
      show ?thesis
        by (rule trans [OF SkipTypeExpr.simps(2) trans [OF _ SkipTypeExpr.simps(2) [symmetric]]],
            unfold Let_def, intro if_cong option.case_cong refl)
          (auto intro!: T opt simp: chain arr)
    qed
  next
    case 2
    have L: "skip_type_list (Suc n) s c' d' (Suc off) = skip_type_list n s c' d' (Suc off)"
      if "kind_at s off \<noteq> T_kEof" for c' d'
    proof (rule Suc.IH(3))
      have "0 < room s off" using kind_at_end [OF assms, of off] that by blast
      then show "2 * room s (Suc off) + 2 \<le> n" using 2 by arith
    qed
    show ?case
      by (rule trans [OF SkipTypeArgList.simps(2) trans [OF _ SkipTypeArgList.simps(2) [symmetric]]],
          unfold Let_def, intro if_cong option.case_cong refl) (auto simp: L)
  next
    case 3
    have T: "SkipTypeExpr (Suc n) s off True d = SkipTypeExpr n s off True d"
      using 3 by (intro Suc.IH(1)) simp
    have L: "skip_type_list (Suc n) s c d (Suc e) = skip_type_list n s c d (Suc e)"
      if "SkipTypeExpr n s off True d = Some e" "kind_at s e = T_kComma" for e
    proof (rule Suc.IH(3))
      have "0 < room s e" using kind_at_end [OF assms, of e] that(2) by (cases "room s e = 0") auto
      then show "2 * room s (Suc e) + 2 \<le> n" using 3 skip_progress(1) [OF that(1)] by arith
    qed
    show ?case
      by (rule trans [OF skip_type_list.simps(2) trans [OF _ skip_type_list.simps(2) [symmetric]]],
          unfold T, intro if_cong option.case_cong refl) (auto simp: L)
  }
qed simp_all

lemma skip_fuel_enough:
  assumes "ps_wf s" "2 * room s off + 1 \<le> n"
  shows "SkipTypeExpr n s off a d = SkipTypeExpr (2 * room s off + 1) s off a d"
    and "SkipTypeArgList n s off d = SkipTypeArgList (2 * room s off + 1) s off d"
  using assms(2)
  by (induction n rule: dec_induct) (simp_all add: skip_fuel_step [OF assms(1)])

lemma lookahead_fuel_enough:
  assumes "ps_wf s" "lookahead_fuel s \<le> n"
  shows "SkipTypeExpr n s off a d = SkipTypeExpr (lookahead_fuel s) s off a d"
    and "SkipTypeArgList n s off d = SkipTypeArgList (lookahead_fuel s) s off d"
proof -
  have "2 * room s off + 1 \<le> lookahead_fuel s" by (simp add: lookahead_fuel_def tokens_left_def)
  with assms show "SkipTypeExpr n s off a d = SkipTypeExpr (lookahead_fuel s) s off a d"
    "SkipTypeArgList n s off d = SkipTypeArgList (lookahead_fuel s) s off d"
    by (simp_all only: skip_fuel_enough [of s off n] skip_fuel_enough [of s off "lookahead_fuel s"]
        order_trans)
qed

end
