(* ===== verification/MC_ParserExpr.thy ===== *)
theory MC_ParserExpr
  imports MC_Lookahead
begin

text \<open>
  The recursive descent of \<open>compiler/parse/parser_expr.cpp\<close> and the type parser of
  \<open>compiler/parse/parser_decls.cpp\<close>. The two entry points \<open>ParseExpr\<close> and \<open>ParseTypeExpr\<close> call
  each other; the functions in between take them as the arguments \<open>pe\<close> and \<open>pt\<close>, and \<open>n\<close> as the
  fuel of their loops. \<open>ParseExpr n\<close> and \<open>ParseTypeExpr n\<close> tie the knot: each nested call of an
  entry point has one unit of fuel less. A \<open>while\<close> loop is a \<open>fuel_loop\<close> over its loop state.
\<close>

type_synonym 'a parser = "ParseState \<Rightarrow> ('a \<times> ParseState) option"

section \<open>Building blocks\<close>

definition span_to_previous :: "SourcePosition \<Rightarrow> ParseState \<Rightarrow> SourceSpan option" where
  \<comment> \<open>\<open>span.end = Previous().span.end\<close>\<close>
  "span_to_previous start s = do { p \<leftarrow> Previous s; Some \<lparr>span_begin = start, span_end = end_of p\<rparr> }"

definition e_begin :: "Expr \<Rightarrow> SourcePosition" where
  "e_begin e = span_begin (e_span e)"

definition e_end :: "Expr \<Rightarrow> SourcePosition" where
  "e_end e = span_end (e_span e)"

definition te_end :: "TypeExpr \<Rightarrow> SourcePosition" where
  "te_end t = span_end (te_span t)"

definition end_of_type :: "TypeExpr option \<Rightarrow> ParseState \<Rightarrow> SourcePosition option" where
  \<comment> \<open>\<open>type != nullptr ? type->span.end : Previous().span.end\<close>\<close>
  "end_of_type t s = (case t of Some t \<Rightarrow> Some (te_end t) | None \<Rightarrow> map_option end_of (Previous s))"

definition comma_list :: "nat \<Rightarrow> 'a parser \<Rightarrow> 'a list parser" where
  \<comment> \<open>\<open>do { result.push_back(item()); } while (Match(TokenKind::kComma));\<close>\<close>
  "comma_list n item s =
     fuel_loop n (\<lambda>(acc, s). do {
         (x, s) \<leftarrow> item s;
         case Match T_kComma s of
           Some s \<Rightarrow> Some (Inl (acc @ [x], s))
         | None \<Rightarrow> Some (Inr (acc @ [x], s)) }) ([], s)"

definition list_until :: "nat \<Rightarrow> TokenKind \<Rightarrow> 'a parser \<Rightarrow> 'a list parser" where
  \<comment> \<open>The loop of \<open>ParseExprListUntil\<close> and \<open>ParseFieldInitListUntil\<close>.\<close>
  "list_until n terminator item s = do {
     (x, s) \<leftarrow> item s;
     fuel_loop n (\<lambda>(acc, s).
         case Match T_kComma s of
           None \<Rightarrow> Some (Inr (acc, s))
         | Some s \<Rightarrow>
             let s = SkipNewlines s in
             if Check terminator s then Some (Inr (acc, s))
             else do { (x, s) \<leftarrow> item s; Some (Inl (acc @ [x], SkipNewlines s)) })
       ([x], SkipNewlines s) }"

definition ParseExprListUntil :: "nat \<Rightarrow> (bool \<Rightarrow> Expr parser) \<Rightarrow> TokenKind \<Rightarrow> Expr list parser" where
  "ParseExprListUntil n pe terminator = list_until n terminator (pe True)"

definition ParseCallTypeArgs :: "nat \<Rightarrow> (nat \<Rightarrow> TypeExpr option parser) \<Rightarrow> TypeExpr option list parser" where
  "ParseCallTypeArgs n pt s = do {
     let s = Consume T_kLt ''expected '<' before call type arguments'' s;
     (args, s) \<leftarrow> (if \<not> Check T_kGt s then comma_list n (pt 0) s else Some ([], s));
     Some (args, Consume T_kGt ''expected '>' after call type arguments'' s) }"

section \<open>Field initialisers\<close>

definition name_value :: "SourcePosition \<Rightarrow> string \<Rightarrow> ParseState \<Rightarrow> Expr option" where
  \<comment> \<open>The \<open>kName\<close> node that stands for the value a shorthand leaves out.\<close>
  "name_value start name s = do {
     span \<leftarrow> span_to_previous start s;
     Some (set_e_text name (set_e_span span (new_Expr E_kName))) }"

function field_path :: "ParseState \<Rightarrow> nat \<Rightarrow> string list" where
  \<comment> \<open>The loop that collects the path of a dotted name; see \<open>name_chain_end\<close>.\<close>
  "field_path s off =
     (if ps_index s + off < length (ps_tokens s) \<and>
        tok_kind (Peek s off) = T_kDot \<and> tok_kind (Peek s (off + 1)) = T_kIdentifier
      then tok_lexeme (Peek s (off + 1)) # field_path s (off + 2) else [])"
  by pat_completeness auto
termination
  by (relation "measure (\<lambda>(s, off). length (ps_tokens s) - (ps_index s + off))") auto

declare field_path.simps [simp del]

function skip_field_path :: "ParseState \<Rightarrow> ParseState" where
  \<comment> \<open>\<open>while (Match(TokenKind::kDot)) ...\<close>\<close>
  "skip_field_path s =
     (if in_bounds s \<and> Check T_kDot s
      then let s = Advance s in
        if in_bounds s \<and> Check T_kIdentifier s then skip_field_path (Advance s)
        else ReportError (Current s) ''expected field name after '.' in record update path'' s
      else s)"
  by pat_completeness auto
termination
proof (relation "measure tokens_left", goal_cases)
  case (2 s t)
  then have "tokens_left (Advance t) < tokens_left t" "tokens_left t < tokens_left s"
    by (auto intro!: tokens_left_Advance simp: Check_def AtEnd_def)
  then show ?case by simp
qed simp

declare skip_field_path.simps [simp del]

definition ParseFieldInit ::
  "(bool \<Rightarrow> Expr parser) \<Rightarrow> TokenKind \<Rightarrow> bool \<Rightarrow> FieldInit parser" where
  "ParseFieldInit pe terminator allow_dotted_name s =
     (let start = begin_of (Current s);
          value = (\<lambda>has_name name path s. do {
            (e, s) \<leftarrow> pe True s;
            Some (mk_FieldInit \<lparr>span_begin = start, span_end = e_end e\<rparr> has_name name path (Some e), s) })
      in if Check T_kIdentifier s \<and> kind_at s 1 = T_kColon
      then let name = tok_lexeme (Current s); s = Advance (Advance s) in
        if Check T_kComma s \<or> Check terminator s
        then do {
          e \<leftarrow> name_value start name s;
          Some (mk_FieldInit \<lparr>span_begin = start, span_end = e_end e\<rparr> True name [name] (Some e), s) }
        else value True name [name] s
      else if allow_dotted_name \<and> Check T_kIdentifier s
      then let path = tok_lexeme (Current s) # field_path s 1; off = name_chain_end T_kDot s 1 in
        if kind_at s off = T_kColon \<and> 1 < length path
        then let name = join_with ''.'' path; s = Advance (skip_field_path (Advance s)) in
          if Check T_kComma s \<or> Check terminator s
          then do {
            p \<leftarrow> Previous s;
            let s = ReportError p ''record update shorthand requires a simple field name'' s;
            e \<leftarrow> name_value start (last path) s;
            Some (mk_FieldInit \<lparr>span_begin = start, span_end = e_end e\<rparr> True name path (Some e), s) }
          else value True name path s
        else value False [] [] s
      else value False [] [] s)"

definition ParseFieldInitListUntil ::
  "nat \<Rightarrow> (bool \<Rightarrow> Expr parser) \<Rightarrow> TokenKind \<Rightarrow> bool \<Rightarrow> FieldInit list parser" where
  "ParseFieldInitListUntil n pe terminator allow_dotted_name =
     list_until n terminator (ParseFieldInit pe terminator allow_dotted_name)"

definition braced_inits :: "nat \<Rightarrow> (bool \<Rightarrow> Expr parser) \<Rightarrow> bool \<Rightarrow> string \<Rightarrow> FieldInit list parser" where
  \<comment> \<open>The initialisers after a \<open>{\<close>, up to and with the \<open>}\<close>.\<close>
  "braced_inits n pe allow_dotted_name msg s = do {
     let s = SkipNewlines s;
     (inits, s) \<leftarrow> (if \<not> Check T_kRBrace s
       then ParseFieldInitListUntil n pe T_kRBrace allow_dotted_name s else Some ([], s));
     Some (inits, Consume T_kRBrace msg s) }"

definition call_args :: "nat \<Rightarrow> (bool \<Rightarrow> Expr parser) \<Rightarrow> Expr list parser" where
  \<comment> \<open>The arguments after a \<open>(\<close>, up to and with the \<open>)\<close>.\<close>
  "call_args n pe s = do {
     let s = SkipNewlines s;
     (args, s) \<leftarrow> (if \<not> Check T_kRParen s then ParseExprListUntil n pe T_kRParen s else Some ([], s));
     Some (args, Consume T_kRParen ''expected ')' after call arguments'' s) }"

section \<open>Primary expressions\<close>

definition ParseTypeCallExpr ::
  "nat \<Rightarrow> (bool \<Rightarrow> Expr parser) \<Rightarrow> (nat \<Rightarrow> TypeExpr option parser) \<Rightarrow> Expr parser" where
  "ParseTypeCallExpr n pe pt s = do {
     let start = begin_of (Current s);
     let s = Consume T_kLParen ''expected '(' before conversion target type'' s;
     (target, s) \<leftarrow> pt 0 s;
     let s = Consume T_kRParen ''expected ')' after conversion target type'' s;
     let s = Consume T_kLParen ''expected '(' after conversion target type'' s;
     (args, s) \<leftarrow> call_args n pe s;
     span \<leftarrow> span_to_previous start s;
     Some (set_e_args args (set_e_type_target target (set_e_span span (new_Expr E_kCall))), s) }"

definition ParseBareIntegerConversionExpr :: "nat \<Rightarrow> (bool \<Rightarrow> Expr parser) \<Rightarrow> Expr parser" where
  "ParseBareIntegerConversionExpr n pe s = do {
     let start = begin_of (Current s);
     let type = set_te_name (tok_lexeme (Current s))
       (set_te_span (tok_span (Current s)) (new_TypeExpr TE_kNamed));
     let s = Consume T_kLParen ''expected '(' after conversion target type'' (Advance s);
     (args, s) \<leftarrow> call_args n pe s;
     span \<leftarrow> span_to_previous start s;
     Some (set_e_args args (set_e_type_target (Some type) (set_e_bare_type_target_syntax True
       (set_e_span span (new_Expr E_kCall)))), s) }"

definition ParseTypeAggregateInitExpr ::
  "nat \<Rightarrow> (bool \<Rightarrow> Expr parser) \<Rightarrow> (nat \<Rightarrow> TypeExpr option parser) \<Rightarrow> Expr parser" where
  "ParseTypeAggregateInitExpr n pe pt s = do {
     let start = begin_of (Current s);
     (target, s) \<leftarrow> pt 0 s;
     let s = Consume T_kLBrace ''expected '{' after aggregate initializer type'' s;
     (inits, s) \<leftarrow> braced_inits n pe False ''expected '}' after aggregate initializer'' s;
     span \<leftarrow> span_to_previous start s;
     Some (set_e_field_inits inits (set_e_type_target target
       (set_e_span span (new_Expr E_kAggregateInit))), s) }"

definition ParseBraceAggregateInitExpr :: "nat \<Rightarrow> (bool \<Rightarrow> Expr parser) \<Rightarrow> Expr parser" where
  "ParseBraceAggregateInitExpr n pe s = do {
     let start = begin_of (Current s);
     let s = Consume T_kLBrace ''expected '{' to start aggregate initializer'' s;
     (inits, s) \<leftarrow> braced_inits n pe False ''expected '}' after aggregate initializer'' s;
     span \<leftarrow> span_to_previous start s;
     Some (set_e_field_inits inits (set_e_span span (new_Expr E_kAggregateInit)), s) }"

definition ParseEmptyCollectionExpr :: "Expr parser" where
  "ParseEmptyCollectionExpr s = do {
     let start = begin_of (Current s);
     let s = Consume T_kLBracket ''expected '[' to start empty collection literal'' s;
     let s = Consume T_kRBracket ''expected ']' after '[' in empty collection literal'' s;
     span \<leftarrow> span_to_previous start s;
     Some (set_e_span span (new_Expr E_kEmptyCollection), s) }"

definition literal_node :: "Token \<Rightarrow> Expr" where
  "literal_node t =
     set_e_float_literal_value (tok_float_value t) (set_e_integer_literal_value (tok_integer_value t)
       (set_e_secondary_text (ToString_kind (tok_kind t)) (set_e_text (tok_lexeme t)
         (set_e_span (tok_span t) (new_Expr E_kLiteral)))))"

definition ParsePrimaryExpr :: "nat \<Rightarrow> (bool \<Rightarrow> Expr parser) \<Rightarrow> Expr parser" where
  "ParsePrimaryExpr n pe s =
     (if Check T_kLBracket s \<and> kind_at s 1 = T_kRBracket then ParseEmptyCollectionExpr s
      else if ps_allow_aggregate_init s \<and> Check T_kLBrace s then ParseBraceAggregateInitExpr n pe s
      else if IsLiteral (tok_kind (Current s)) then Some (literal_node (Current s), Advance s)
      else (case Match T_kIdentifier s of
          Some s \<Rightarrow> do {
            p \<leftarrow> Previous s;
            Some (set_e_text (tok_lexeme p) (set_e_span (tok_span p) (new_Expr E_kName)), s) }
        | None \<Rightarrow> (case Match T_kLParen s of
            Some s \<Rightarrow> do {
              p \<leftarrow> Previous s;
              (inner, s) \<leftarrow> pe True s;
              let s = Consume T_kRParen ''expected ')' after expression'' s;
              span \<leftarrow> span_to_previous (begin_of p) s;
              Some (set_e_left (Some inner) (set_e_span span (new_Expr E_kParen)), s) }
          | None \<Rightarrow>
              let error_token = Current s; s = ReportError (Current s) ''expected expression'' s
              in Some (set_e_text ''<error>'' (set_e_span (tok_span error_token) (new_Expr E_kLiteral)),
                   if \<not> AtEnd s then Advance s else s))))"

section \<open>Postfix and unary expressions\<close>

definition postfix_dot :: "Expr \<Rightarrow> Expr parser" where
  \<comment> \<open>After \<open>.\<close>: a qualified name when the base is a name and the member an identifier, else a field.\<close>
  "postfix_dot e s = do {
     let (member, s) = (if Check T_kIdentifier s \<or> Check T_kIntLiteral s
       then (Some (tok_lexeme (Current s)), Advance s)
       else (None, ReportError (Current s) (''expected field name after '.'' @ [apostrophe_char]) s));
     p \<leftarrow> Previous s;
     let span = \<lparr>span_begin = e_begin e, span_end = end_of p\<rparr>;
     let name = (case member of Some m \<Rightarrow> m | None \<Rightarrow> []);
     if (e_kind e = E_kName \<or> e_kind e = E_kQualifiedName) \<and> tok_kind p = T_kIdentifier
     then Some (set_e_type_args (e_type_args e) (set_e_secondary_text name (set_e_text
         (if e_kind e = E_kQualifiedName then e_text e @ ''.'' @ e_secondary_text e else e_text e)
         (set_e_span span (new_Expr E_kQualifiedName)))), s)
     else Some (set_e_left (Some e) (set_e_text name (set_e_span span (new_Expr E_kField))), s) }"

definition slice_end :: "(bool \<Rightarrow> Expr parser) \<Rightarrow> Expr option parser" where
  "slice_end pe s = do {
     (extra, s) \<leftarrow> (if \<not> Check T_kRBracket s then do { (x, s) \<leftarrow> pe True s; Some (Some x, s) }
       else Some (None, s));
     Some (extra, Consume T_kRBracket ''expected ']' after slice expression'' s) }"

definition postfix_index :: "(bool \<Rightarrow> Expr parser) \<Rightarrow> Expr \<Rightarrow> Expr parser" where
  \<comment> \<open>After \<open>[\<close>: a slice or an index.\<close>
  "postfix_index pe e s = do {
     (node, s) \<leftarrow> (case Match T_kColon s of
         Some s \<Rightarrow> do {
           (extra, s) \<leftarrow> slice_end pe s;
           Some (set_e_extra extra (new_Expr E_kSlice), s) }
       | None \<Rightarrow> do {
           (first, s) \<leftarrow> pe True s;
           case Match T_kColon s of
             Some s \<Rightarrow> do {
               (extra, s) \<leftarrow> slice_end pe s;
               Some (set_e_extra extra (set_e_right (Some first) (new_Expr E_kSlice)), s) }
           | None \<Rightarrow> Some (set_e_right (Some first) (new_Expr E_kIndex),
               Consume T_kRBracket ''expected ']' after index expression'' s) });
     span \<leftarrow> span_to_previous (e_begin e) s;
     Some (set_e_left (Some e) (set_e_span span node), s) }"

definition postfix_step ::
  "nat \<Rightarrow> (bool \<Rightarrow> Expr parser) \<Rightarrow> (nat \<Rightarrow> TypeExpr option parser) \<Rightarrow> Expr \<times> ParseState \<Rightarrow>
     ((Expr \<times> ParseState) + (Expr \<times> ParseState)) option" where
  \<comment> \<open>One round of the loop of \<open>ParsePostfixExpr\<close>.\<close>
  "postfix_step n pe pt = (\<lambda>(e, s).
     case Match T_kDot s of Some s \<Rightarrow> map_option Inl (postfix_dot e s) | None \<Rightarrow>
     case Match T_kDotDeref s of
       Some s \<Rightarrow> do {
         span \<leftarrow> span_to_previous (e_begin e) s;
         Some (Inl (set_e_left (Some e) (set_e_span span (new_Expr E_kDerefField)), s)) }
     | None \<Rightarrow>
     case Match T_kLBracket s of Some s \<Rightarrow> map_option Inl (postfix_index pe e s) | None \<Rightarrow>
     if e_type_args e = [] \<and> LooksLikePostfixTypeArgs s
     then do { (args, s) \<leftarrow> ParseCallTypeArgs n pt s; Some (Inl (set_e_type_args args e, s)) }
     else case Match T_kLParen s of
       Some s \<Rightarrow> do {
         (args, s) \<leftarrow> call_args n pe s;
         span \<leftarrow> span_to_previous (e_begin e) s;
         Some (Inl (set_e_args args (set_e_left (Some e) (set_e_span span (new_Expr E_kCall))), s)) }
     | None \<Rightarrow>
     if ps_allow_aggregate_init s \<and> Check T_kLBrace s \<and> IsAggregateInitBase e
     then do {
       (inits, s) \<leftarrow> braced_inits n pe False ''expected '}' after aggregate initializer'' (Advance s);
       span \<leftarrow> span_to_previous (e_begin e) s;
       Some (Inl (set_e_field_inits inits (set_e_left (Some e)
         (set_e_span span (new_Expr E_kAggregateInit))), s)) }
     else case Match T_kWith s of
       Some s \<Rightarrow> do {
         let s = Consume T_kLBrace (''expected '{' after 'with'' @ [apostrophe_char]) s;
         (inits, s) \<leftarrow> braced_inits n pe True ''expected '}' after record update'' s;
         span \<leftarrow> span_to_previous (e_begin e) s;
         Some (Inl (set_e_field_inits inits (set_e_left (Some e)
           (set_e_span span (new_Expr E_kRecordUpdate))), s)) }
     | None \<Rightarrow> Some (Inr (e, s)))"

definition ParsePostfixExpr ::
  "nat \<Rightarrow> (bool \<Rightarrow> Expr parser) \<Rightarrow> (nat \<Rightarrow> TypeExpr option parser) \<Rightarrow> Expr parser" where
  "ParsePostfixExpr n pe pt s = do {
     (e, s) \<leftarrow> ParsePrimaryExpr n pe s;
     fuel_loop n (postfix_step n pe pt) (e, s) }"

function skip_prefix_operators :: "ParseState \<Rightarrow> ParseState" where
  "skip_prefix_operators s =
     (if in_bounds s \<and> IsPrefixUnaryOperator (tok_kind (Current s))
      then skip_prefix_operators (Advance s) else s)"
  by pat_completeness auto
termination
  by (relation "measure tokens_left")
    (auto intro!: tokens_left_Advance simp: AtEnd_def IsPrefixUnaryOperator_def)

declare skip_prefix_operators.simps [simp del]

function prefix_operators :: "Token list \<Rightarrow> ParseState \<Rightarrow> Token list \<times> ParseState" where
  \<comment> \<open>\<open>op\<close> is the token \<open>Advance\<close> returns, the current one.\<close>
  "prefix_operators operators s =
     (if in_bounds s \<and> IsPrefixUnaryOperator (tok_kind (Current s))
      then let op = Current s; s = Advance s in
        if kMaxUnaryExprDepth \<le> length operators
        then (operators, skip_prefix_operators
          (ReportError op ''unary expression nesting exceeds parser limit'' s))
        else prefix_operators (operators @ [op]) s
      else (operators, s))"
  by pat_completeness auto
termination
  by (relation "measure (\<lambda>(_, s). tokens_left s)")
    (auto intro!: tokens_left_Advance simp: AtEnd_def IsPrefixUnaryOperator_def)

declare prefix_operators.simps [simp del]

definition unary_node :: "Token \<Rightarrow> Expr \<Rightarrow> Expr" where
  "unary_node op e =
     set_e_left (Some e) (set_e_text (ToString_kind (tok_kind op))
       (set_e_span \<lparr>span_begin = begin_of op, span_end = e_end e\<rparr> (new_Expr E_kUnary)))"

definition ParseUnaryExpr ::
  "nat \<Rightarrow> (bool \<Rightarrow> Expr parser) \<Rightarrow> (nat \<Rightarrow> TypeExpr option parser) \<Rightarrow> Expr parser" where
  "ParseUnaryExpr n pe pt s =
     (if LooksLikeBareIntegerConversionExpr s then ParseBareIntegerConversionExpr n pe s
      else if LooksLikeTypeCallExpr s then ParseTypeCallExpr n pe pt s
      else if ps_allow_aggregate_init s \<and> LooksLikeTypeAggregateInitExpr s
      then ParseTypeAggregateInitExpr n pe pt s
      else do {
        let (operators, s) = prefix_operators [] s;
        (e, s) \<leftarrow> ParsePostfixExpr n pe pt s;
        Some (foldr unary_node operators e, s) })"

section \<open>Binary expressions\<close>

definition binary_node :: "Token \<Rightarrow> Expr \<Rightarrow> Expr \<Rightarrow> Expr" where
  "binary_node op l r =
     set_e_right (Some r) (set_e_left (Some l) (set_e_text (ToString_kind (tok_kind op))
       (set_e_span \<lparr>span_begin = e_begin l, span_end = e_end r\<rparr> (new_Expr E_kBinary))))"

fun match_any :: "TokenKind list \<Rightarrow> ParseState \<Rightarrow> ParseState option" where
  \<comment> \<open>\<open>Match(a) || Match(b) || ...\<close>\<close>
  "match_any [] s = None"
| "match_any (k # ks) s = (case Match k s of Some s' \<Rightarrow> Some s' | None \<Rightarrow> match_any ks s)"

definition binary_step ::
  "TokenKind list \<Rightarrow> Expr parser \<Rightarrow> Expr \<times> ParseState \<Rightarrow>
     ((Expr \<times> ParseState) + (Expr \<times> ParseState)) option" where
  "binary_step ops operand = (\<lambda>(l, s).
     case match_any ops s of
       None \<Rightarrow> Some (Inr (l, s))
     | Some s \<Rightarrow> do {
         op \<leftarrow> Previous s;
         (r, s) \<leftarrow> operand s;
         Some (Inl (binary_node op l r, s)) })"

definition binary_level :: "TokenKind list \<Rightarrow> nat \<Rightarrow> Expr parser \<Rightarrow> Expr parser" where
  \<comment> \<open>The body the left-associative levels share: an operand, then operators and operands.\<close>
  "binary_level ops n operand s = do {
     (l, s) \<leftarrow> operand s;
     fuel_loop n (binary_step ops operand) (l, s) }"

type_synonym expr_level =
  "nat \<Rightarrow> (bool \<Rightarrow> Expr parser) \<Rightarrow> (nat \<Rightarrow> TypeExpr option parser) \<Rightarrow> Expr parser"

definition ParseMultiplicativeExpr :: expr_level where
  "ParseMultiplicativeExpr n pe pt =
     binary_level [T_kStar, T_kSlash, T_kPercent] n (ParseUnaryExpr n pe pt)"

definition ParseAdditiveExpr :: expr_level where
  "ParseAdditiveExpr n pe pt =
     binary_level [T_kPlus, T_kMinus] n (ParseMultiplicativeExpr n pe pt)"

definition ParseShiftExpr :: expr_level where
  "ParseShiftExpr n pe pt = binary_level [T_kLtLt, T_kGtGt] n (ParseAdditiveExpr n pe pt)"

definition ParseRelationalExpr :: expr_level where
  "ParseRelationalExpr n pe pt =
     binary_level [T_kLt, T_kLtEq, T_kGt, T_kGtEq] n (ParseShiftExpr n pe pt)"

definition ParseEqualityExpr :: expr_level where
  "ParseEqualityExpr n pe pt = binary_level [T_kEqEq, T_kBangEq] n (ParseRelationalExpr n pe pt)"

definition ParseIsExpr :: expr_level where
  "ParseIsExpr n pe pt s = do {
     (l, s) \<leftarrow> ParseEqualityExpr n pe pt s;
     case Match T_kIs s of
       None \<Rightarrow> Some (l, s)
     | Some s \<Rightarrow> do {
         op \<leftarrow> Previous s;
         (r, s) \<leftarrow> ParseEqualityExpr n pe pt s;
         Some (binary_node op l r, s) } }"

definition ParseBitwiseAndExpr :: expr_level where
  "ParseBitwiseAndExpr n pe pt = binary_level [T_kAmp] n (ParseIsExpr n pe pt)"

definition ParseBitwiseXorExpr :: expr_level where
  "ParseBitwiseXorExpr n pe pt = binary_level [T_kCaret] n (ParseBitwiseAndExpr n pe pt)"

definition ParseBitwiseOrExpr :: expr_level where
  "ParseBitwiseOrExpr n pe pt = binary_level [T_kPipe] n (ParseBitwiseXorExpr n pe pt)"

definition ParseLogicalAndExpr :: expr_level where
  "ParseLogicalAndExpr n pe pt = binary_level [T_kAmpAmp] n (ParseBitwiseOrExpr n pe pt)"

definition ParseLogicalOrExpr :: expr_level where
  "ParseLogicalOrExpr n pe pt = binary_level [T_kPipePipe] n (ParseLogicalAndExpr n pe pt)"

definition ParseRangeExpr :: expr_level where
  "ParseRangeExpr n pe pt s = do {
     (e, s) \<leftarrow> binary_level [T_kRange] n (ParseLogicalOrExpr n pe pt) s;
     Some (if e_kind e = E_kBinary \<and> e_text e = ''..'' then set_e_kind E_kRange e else e, s) }"

definition expr_entry ::
  "nat \<Rightarrow> (bool \<Rightarrow> Expr parser) \<Rightarrow> (nat \<Rightarrow> TypeExpr option parser) \<Rightarrow> bool \<Rightarrow> Expr parser" where
  \<comment> \<open>\<open>ParseExpr\<close>: \<open>AggInitGuard\<close> sets the flag, and restores it on the way out.\<close>
  "expr_entry n pe pt allow_aggregate_init s = do {
     (e, s') \<leftarrow> ParseRangeExpr n pe pt (s\<lparr>ps_allow_aggregate_init := allow_aggregate_init\<rparr>);
     Some (e, s'\<lparr>ps_allow_aggregate_init := ps_allow_aggregate_init s\<rparr>) }"

section \<open>Types\<close>

definition ParseProcedureParamTypes ::
  "nat \<Rightarrow> (nat \<Rightarrow> TypeExpr option parser) \<Rightarrow> nat \<Rightarrow> TypeExpr option list parser" where
  "ParseProcedureParamTypes n pt depth s = do {
     let s = Consume T_kLParen ''expected '(' after 'func' in procedure type'' s;
     (params, s) \<leftarrow> (if \<not> Check T_kRParen s then comma_list n (pt (depth + 1)) s else Some ([], s));
     Some (params, Consume T_kRParen ''expected ')' after procedure parameter types'' s) }"

definition ParseProcedureReturnTypes ::
  "nat \<Rightarrow> (nat \<Rightarrow> TypeExpr option parser) \<Rightarrow> nat \<Rightarrow> TypeExpr option list parser" where
  "ParseProcedureReturnTypes n pt depth s =
     (if \<not> IsTypeExprStart (tok_kind (Current s)) then Some ([], s)
      else (case Match T_kLParen s of
          Some s \<Rightarrow> do {
            (returns, s) \<leftarrow>
              (if \<not> Check T_kRParen s then comma_list n (pt (depth + 1)) s else Some ([], s));
            Some (returns, Consume T_kRParen ''expected ')' after procedure return types'' s) }
        | None \<Rightarrow> do { (t, s) \<leftarrow> pt (depth + 1) s; Some ([t], s) }))"

function dotted_type_name :: "string \<Rightarrow> ParseState \<Rightarrow> string \<times> ParseState" where
  \<comment> \<open>\<open>while (Match(TokenKind::kDot)) ...\<close> of the named type.\<close>
  "dotted_type_name name s =
     (if in_bounds s \<and> Check T_kDot s
      then let s1 = Advance s in
        (case fst (ParseIdentifier (''expected type name after '.'' @ [apostrophe_char]) s1) of
          None \<Rightarrow> (name, snd (ParseIdentifier (''expected type name after '.'' @ [apostrophe_char]) s1))
        | Some member \<Rightarrow> if in_bounds s1
            then dotted_type_name (name @ ''.'' @ member)
              (snd (ParseIdentifier (''expected type name after '.'' @ [apostrophe_char]) s1))
            else (name, s1))
      else (name, s))"
  by pat_completeness auto
termination
proof (relation "measure (\<lambda>(_, s). tokens_left s)", goal_cases)
  case (2 name s s1 member)
  then have "tokens_left s1 < tokens_left s"
    "tokens_left (snd (ParseIdentifier (''expected type name after '.'' @ [apostrophe_char]) s1))
      < tokens_left s1"
    by (auto intro!: tokens_left_Advance simp: Check_def AtEnd_def ParseIdentifier_def split: if_splits)
  then show ?case by simp
qed simp

declare dotted_type_name.simps [simp del]

definition type_entry ::
  "nat \<Rightarrow> (bool \<Rightarrow> Expr parser) \<Rightarrow> (nat \<Rightarrow> TypeExpr option parser) \<Rightarrow> nat \<Rightarrow> TypeExpr option parser" where
  \<comment> \<open>\<open>ParseTypeExpr(depth)\<close>\<close>
  "type_entry n pe pt depth s =
     (if kMaxTypeExprDepth \<le> depth
      then Some (None, ReportError (Current s) ''type expression nesting exceeds parser limit'' s)
      else case match_any [T_kConst, T_kStar] s of
        Some s \<Rightarrow> do {
          p \<leftarrow> Previous s;
          (inner, s) \<leftarrow> pt (depth + 1) s;
          e \<leftarrow> end_of_type inner s;
          Some (Some (set_te_inner inner (set_te_span \<lparr>span_begin = begin_of p, span_end = e\<rparr>
            (new_TypeExpr (if tok_kind p = T_kConst then TE_kConst else TE_kPointer)))), s) }
      | None \<Rightarrow> case Match T_kFunc s of
        Some s \<Rightarrow> do {
          p \<leftarrow> Previous s;
          (params, s) \<leftarrow> ParseProcedureParamTypes n pt depth s;
          (returns, s) \<leftarrow> ParseProcedureReturnTypes n pt depth s;
          span \<leftarrow> span_to_previous (begin_of p) s;
          Some (Some (set_te_returns returns (set_te_params params
            (set_te_span span (new_TypeExpr TE_kProcedure)))), s) }
      | None \<Rightarrow> case Match T_kLBracket s of
        Some s \<Rightarrow> do {
          p \<leftarrow> Previous s;
          (len, s) \<leftarrow> pe True s;
          let s = Consume T_kRBracket ''expected ']' after array length'' s;
          (inner, s) \<leftarrow> pt (depth + 1) s;
          e \<leftarrow> end_of_type inner s;
          Some (Some (set_te_inner inner (set_te_length_expr (Some len)
            (set_te_span \<lparr>span_begin = begin_of p, span_end = e\<rparr> (new_TypeExpr TE_kArray)))), s) }
      | None \<Rightarrow> case Match T_kLParen s of
        Some s \<Rightarrow> do {
          p \<leftarrow> Previous s;
          (inner, s) \<leftarrow> pt (depth + 1) s;
          let s = Consume T_kRParen ''expected ')' after parenthesized type'' s;
          span \<leftarrow> span_to_previous (begin_of p) s;
          Some (Some (set_te_inner inner (set_te_span span (new_TypeExpr TE_kParen))), s) }
      | None \<Rightarrow>
        if \<not> Check T_kIdentifier s
        then Some (None, ReportError (Current s) ''expected type expression'' s)
        else do {
          let start = begin_of (Current s);
          let (name, s) = dotted_type_name (tok_lexeme (Current s)) (Advance s);
          (args, s) \<leftarrow> (case Match T_kLt s of
              None \<Rightarrow> Some ([], s)
            | Some s \<Rightarrow> do {
                (args, s) \<leftarrow>
                  (if \<not> Check T_kGt s then comma_list n (pt (depth + 1)) s else Some ([], s));
                Some (args, Consume T_kGt ''expected '>' after type arguments'' s) });
          span \<leftarrow> span_to_previous start s;
          Some (Some (set_te_type_args args (set_te_name name
            (set_te_span span (new_TypeExpr TE_kNamed)))), s) })"

section \<open>The knot\<close>

primrec expr_parsers :: "nat \<Rightarrow> (bool \<Rightarrow> Expr parser) \<times> (nat \<Rightarrow> TypeExpr option parser)" where
  "expr_parsers 0 = (\<lambda>_ _. None, \<lambda>_ _. None)"
| "expr_parsers (Suc n) =
     (let (pe, pt) = expr_parsers n in (expr_entry n pe pt, type_entry n pe pt))"

definition ParseExpr :: "nat \<Rightarrow> bool \<Rightarrow> Expr parser" where
  "ParseExpr n = fst (expr_parsers n)"

definition ParseTypeExpr :: "nat \<Rightarrow> nat \<Rightarrow> TypeExpr option parser" where
  "ParseTypeExpr n = snd (expr_parsers n)"

end
