(* ===== verification/MC_ParserStmt.thy ===== *)
theory MC_ParserStmt
  imports MC_ParserExpr
begin

text \<open>
  \<open>compiler/parse/parser_statements.cpp\<close>, with \<open>ParseBindingPattern\<close> and \<open>ParseBindingTail\<close>, which
  statements and declarations share. \<open>m\<close> is the fuel of the expression parsers and of the loops.
  \<open>ParseStatement\<close> and \<open>ParseIfStmt\<close> call themselves through blocks and \<open>else if\<close>: the functions
  take them as the arguments \<open>st\<close> and \<open>pif\<close>, and \<open>stmt_parsers\<close> ties the knot with fuel for the
  nesting. No statement parser returns \<open>nullptr\<close>: each makes a node on every path, so the test for
  a null statement in \<open>ParseBlockStmt\<close> is always true and has no branch here.
\<close>

section \<open>Bindings\<close>

fun ParseBindingPattern_step ::
  "bool \<Rightarrow> string \<Rightarrow> (string list \<times> bool list) \<times> ParseState \<Rightarrow> ((string list \<times> bool list) \<times> ParseState) option"
where
  \<comment> \<open>One name: the body \<open>first\<close> and the loop have in common.\<close>
  "ParseBindingPattern_step allow_discard_targets msg ((names, discards), s) =
     (case ParseIdentifier msg s of
        (None, s) \<Rightarrow> Some ((names, discards), s)
      | (Some name, s) \<Rightarrow> do {
          s \<leftarrow> (if name = ''_'' \<and> \<not> allow_discard_targets
            then do {
              p \<leftarrow> Previous s;
              Some (ReportError p ''discard target '_' is only allowed in local bindings'' s) }
            else Some s);
          Some ((names @ [name], discards @ [allow_discard_targets \<and> name = ''_'']), s) })"

definition ParseBindingPattern :: "nat \<Rightarrow> bool \<Rightarrow> NamePattern parser" where
  "ParseBindingPattern m allow_discard_targets s = do {
     let start = begin_of (Current s);
     first \<leftarrow> ParseBindingPattern_step allow_discard_targets ''expected binding name'' (([], []), s);
     ((names, discards), s) \<leftarrow> fuel_loop m (\<lambda>(acc, s).
         case Match T_kComma s of
           None \<Rightarrow> Some (Inr (acc, s))
         | Some s \<Rightarrow> map_option Inl (ParseBindingPattern_step allow_discard_targets
             (''expected binding name after ','' @ [apostrophe_char]) (acc, s))) first;
     span \<leftarrow> span_to_previous start s;
     Some (\<lparr>np_span = span, np_names = names, np_discards = discards\<rparr>, s) }"

definition ParseExprList :: "nat \<Rightarrow> Expr list parser" where
  "ParseExprList m s = do {
     (x, s) \<leftarrow> ParseExpr m True s;
     fuel_loop m (\<lambda>(acc, s).
         case Match T_kComma s of
           None \<Rightarrow> Some (Inr (acc, s))
         | Some s \<Rightarrow>
             if IsStatementTerminator (tok_kind (Current s)) then Some (Inr (acc, s))
             else do { (x, s) \<leftarrow> ParseExpr m True s; Some (Inl (acc @ [x], s)) })
       ([x], s) }"

record ParsedBindingTail =
  bt_pattern :: NamePattern
  bt_type_ann :: "TypeExpr option"
  bt_initializers :: "Expr list"
  bt_has_initializer :: bool
  bt_uses_inferred_initializer_syntax :: bool
  bt_end :: SourcePosition

definition ParseBindingTail :: "nat \<Rightarrow> bool \<Rightarrow> bool \<Rightarrow> bool \<Rightarrow> string \<Rightarrow> ParsedBindingTail parser" where
  "ParseBindingTail m allow_storage_without_initializer allow_inferred_initializer_syntax
     allow_discard_targets missing_initializer_message s = do {
     (pattern, s) \<leftarrow> ParseBindingPattern m allow_discard_targets s;
     ((type_ann, inits, has_init, inferred), s) \<leftarrow> (case Match T_kColonAssign s of
         Some s \<Rightarrow> do {
           p \<leftarrow> Previous s;
           let s = (if \<not> allow_inferred_initializer_syntax
             then ReportError p (''':=' is only allowed for local binding statements'') s else s);
           (inits, s) \<leftarrow> ParseExprList m s;
           Some ((None, inits, True, True), s) }
       | None \<Rightarrow> (case Match T_kColon s of
           Some s \<Rightarrow> do {
             (type_ann, s) \<leftarrow> ParseTypeExpr m 0 s;
             case Match T_kAssign s of
               Some s \<Rightarrow> do {
                 (inits, s) \<leftarrow> ParseExprList m s;
                 Some ((type_ann, inits, True, False), s) }
             | None \<Rightarrow> Some ((type_ann, [], False, False),
                 if \<not> allow_storage_without_initializer \<or> type_ann = None
                 then ReportError (Current s) missing_initializer_message s else s) }
         | None \<Rightarrow> Some ((None, [], False, False), ReportError (Current s) missing_initializer_message s)));
     p \<leftarrow> Previous s;
     Some (\<lparr>bt_pattern = pattern, bt_type_ann = type_ann, bt_initializers = inits,
       bt_has_initializer = has_init, bt_uses_inferred_initializer_syntax = inferred,
       bt_end = end_of p\<rparr>, s) }"

definition ParseBindingStmt :: "nat \<Rightarrow> StmtKind \<Rightarrow> SourcePosition \<Rightarrow> bool \<Rightarrow> Stmt parser" where
  "ParseBindingStmt m kind start allow_storage_without_initializer s = do {
     (binding, s) \<leftarrow> ParseBindingTail m allow_storage_without_initializer (kind = S_kBinding) True
       (if kind = S_kConst then ''const statement requires initializer''
        else ''binding requires either a type or initializer'') s;
     Some (set_s_exprs (bt_initializers binding) (set_s_has_initializer (bt_has_initializer binding)
       (set_s_type_ann (bt_type_ann binding) (set_s_pattern (bt_pattern binding)
         (set_s_span \<lparr>span_begin = start, span_end = bt_end binding\<rparr> (new_Stmt kind))))), s) }"

section \<open>Leaves\<close>

definition ParseReturnStmt :: "nat \<Rightarrow> SourcePosition \<Rightarrow> Stmt parser" where
  "ParseReturnStmt m start s = do {
     (exprs, s) \<leftarrow> (if \<not> IsStatementTerminator (tok_kind (Current s)) then ParseExprList m s
       else Some ([], s));
     span \<leftarrow> span_to_previous start s;
     Some (set_s_exprs exprs (set_s_span span (new_Stmt S_kReturn)), s) }"

definition ParseDeferStmt :: "nat \<Rightarrow> SourcePosition \<Rightarrow> Stmt parser" where
  "ParseDeferStmt m start s = do {
     (e, s) \<leftarrow> ParseExpr m True s;
     Some (set_s_exprs [e] (set_s_span \<lparr>span_begin = start, span_end = e_end e\<rparr> (new_Stmt S_kDefer)), s) }"

definition ParseAssignmentTarget :: "nat \<Rightarrow> Expr parser" where
  "ParseAssignmentTarget m s = do {
     let start = begin_of (Current s);
     (target, s) \<leftarrow> ParsePostfixExpr m (ParseExpr m) (ParseTypeExpr m) s;
     let target = NormalizeAssignmentTarget target;
     Some (target,
       if \<not> IsAssignmentTarget target
       then ReportAt \<lparr>span_begin = start, span_end = e_end target\<rparr> ''expected assignment target'' s
       else s) }"

definition assign_stmt :: "SourcePosition \<Rightarrow> Expr list \<Rightarrow> Expr list \<Rightarrow> ParseState \<Rightarrow> Stmt option" where
  "assign_stmt start targets values s = do {
     span \<leftarrow> span_to_previous start s;
     Some (set_s_assign_values values (set_s_assign_targets targets
       (set_s_span span (new_Stmt S_kAssign)))) }"

definition ParseAssignOrExprStmt :: "nat \<Rightarrow> Stmt parser" where
  "ParseAssignOrExprStmt m s = do {
     let start = begin_of (Current s);
     (first, s) \<leftarrow> ParseExpr m True s;
     case Match T_kAssign s of
       Some s \<Rightarrow> do {
         (values, s) \<leftarrow> ParseExprList m s;
         stmt \<leftarrow> assign_stmt start [NormalizeAssignmentTarget first] values s;
         Some (stmt, s) }
     | None \<Rightarrow>
       if Check T_kComma s
       then do {
         let first = NormalizeAssignmentTarget first;
         let s = (if \<not> IsAssignmentTarget first
           then ReportAt (e_span first) (''expected assignment target before ','' @ [apostrophe_char]) s
           else s);
         (targets, s) \<leftarrow> fuel_loop m (\<lambda>(acc, s).
             case Match T_kComma s of
               None \<Rightarrow> Some (Inr (acc, s))
             | Some s \<Rightarrow> do { (x, s) \<leftarrow> ParseAssignmentTarget m s; Some (Inl (acc @ [x], s)) })
           ([first], s);
         let s = Consume T_kAssign ''expected '=' after assignment targets'' s;
         (values, s) \<leftarrow> ParseExprList m s;
         stmt \<leftarrow> assign_stmt start targets values s;
         Some (stmt, s) }
       else Some (set_s_exprs [first]
         (set_s_span \<lparr>span_begin = start, span_end = e_end first\<rparr> (new_Stmt S_kExpr)), s) }"

section \<open>Blocks and the statements with a body\<close>

definition block_step :: "Stmt parser \<Rightarrow> Stmt list \<times> ParseState \<Rightarrow>
    ((Stmt list \<times> ParseState) + (Stmt list \<times> ParseState)) option" where
  "block_step st = (\<lambda>(acc, s).
     if \<not> Check T_kRBrace s \<and> \<not> AtEnd s
     then do { (x, s) \<leftarrow> st s; Some (Inl (acc @ [x], RequireStatementSeparatorOrSync s)) }
     else Some (Inr (acc, s)))"

definition ParseBlockStmt :: "nat \<Rightarrow> Stmt parser \<Rightarrow> Stmt parser" where
  "ParseBlockStmt m st s =
     (case Match T_kLBrace s of
        None \<Rightarrow> Some (set_s_span (tok_span (Current s)) (new_Stmt S_kBlock),
          ReportError (Current s) ''expected '{' to start block'' s)
      | Some s \<Rightarrow> do {
          p \<leftarrow> Previous s;
          (statements, s) \<leftarrow> fuel_loop m (block_step st) ([], SkipNewlines s);
          let s = Consume T_kRBrace ''expected '}' to close block'' s;
          span \<leftarrow> span_to_previous (begin_of p) s;
          Some (set_s_statements statements (set_s_span span (new_Stmt S_kBlock)), s) })"

definition stmt_end :: "Stmt \<Rightarrow> SourcePosition" where
  "stmt_end x = span_end (s_span x)"

definition ParseIfStmt_step ::
  "nat \<Rightarrow> Stmt parser \<Rightarrow> (SourcePosition \<Rightarrow> Stmt parser) \<Rightarrow> SourcePosition \<Rightarrow> Stmt parser" where
  \<comment> \<open>\<open>ParseIfStmt\<close>\<close>
  "ParseIfStmt_step m st pif start s = do {
     (cond, s) \<leftarrow> ParseExpr m False s;
     (then_branch, s) \<leftarrow> ParseBlockStmt m st s;
     (else_branch, s) \<leftarrow> (case Match T_kElse s of
         None \<Rightarrow> Some (None, s)
       | Some s \<Rightarrow>
           if Check T_kIf s
           then do {
             let s = Advance s;
             p \<leftarrow> Previous s;
             (x, s) \<leftarrow> pif (begin_of p) s;
             Some (Some x, s) }
           else do { (x, s) \<leftarrow> ParseBlockStmt m st s; Some (Some x, s) });
     let e = (case else_branch of Some x \<Rightarrow> stmt_end x | None \<Rightarrow> stmt_end then_branch);
     Some (set_s_else_branch else_branch (set_s_then_branch (Some then_branch) (set_s_exprs [cond]
       (set_s_span \<lparr>span_begin = start, span_end = e\<rparr> (new_Stmt S_kIf)))), s) }"

definition ParseCaseBodyStatements :: "nat \<Rightarrow> Stmt parser \<Rightarrow> Stmt list parser" where
  "ParseCaseBodyStatements m st s = do {
     (statements, s) \<leftarrow> (if \<not> IsCaseBoundary s \<and> \<not> Check T_kNewline s \<and> \<not> AtEnd s
       then do { (x, s) \<leftarrow> st s; Some ([x], s) } else Some ([], s));
     fuel_loop m (\<lambda>(acc, s).
         if \<not> IsCaseBoundary s \<and> \<not> AtEnd s
         then do { (x, s) \<leftarrow> st s; Some (Inl (acc @ [x], RequireStatementSeparatorOrSync s)) }
         else Some (Inr (acc, s)))
       (statements, RequireStatementSeparatorOrSync s) }"

definition LooksLikeVariantCasePattern :: "ParseState \<Rightarrow> bool" where
  "LooksLikeVariantCasePattern s =
     (if \<not> Check T_kIdentifier s then False
      else if kind_at s 1 = T_kLParen then True
      else if kind_at s 1 \<noteq> T_kDot \<or> kind_at s 2 \<noteq> T_kIdentifier then False
      else if kind_at s 3 = T_kLParen then True
      else kind_at s 3 = T_kDot \<and> kind_at s 4 = T_kIdentifier)"

definition ParseCaseVariantName :: "ParseState \<Rightarrow> string \<times> ParseState" where
  "ParseCaseVariantName s =
     (if \<not> Check T_kIdentifier s then ([], ReportError (Current s) ''expected variant name'' s)
      else let name = tok_lexeme (Current s); s = Advance s in
        (case Match T_kDot s of
          None \<Rightarrow> (name, s)
        | Some s \<Rightarrow> (case ParseIdentifier (''expected variant name after '.'' @ [apostrophe_char]) s of
            (None, s) \<Rightarrow> (name, s)
          | (Some second, s) \<Rightarrow>
              let name = name @ ''.'' @ second in
              (case Match T_kDot s of
                 None \<Rightarrow> (name, s)
               | Some s \<Rightarrow> (case ParseIdentifier (''expected variant name after '.'' @ [apostrophe_char]) s of
                   (None, s) \<Rightarrow> (name, s)
                 | (Some third, s) \<Rightarrow> (name @ ''.'' @ third, s))))))"

definition ident_list :: "nat \<Rightarrow> string \<Rightarrow> string list parser" where
  \<comment> \<open>\<open>do { if (name = ParseIdentifier(msg)) push_back(name); } while (Match(kComma));\<close>\<close>
  "ident_list m msg s =
     map_option (apfst (List.map_filter id)) (comma_list m (\<lambda>s. Some (ParseIdentifier msg s)) s)"

definition ParseCasePatternBindings :: "nat \<Rightarrow> string list parser" where
  "ParseCasePatternBindings m s =
     (case Match T_kLParen s of
        None \<Rightarrow> Some ([], s)
      | Some s \<Rightarrow> do {
          (bindings, s) \<leftarrow> (if \<not> Check T_kRParen s
            then ident_list m ''expected pattern binding name'' s else Some ([], s));
          Some (bindings, Consume T_kRParen ''expected ')' after pattern bindings'' s) })"

definition ParseCasePattern :: "nat \<Rightarrow> CasePattern parser" where
  "ParseCasePattern m s = do {
     let start = begin_of (Current s);
     if LooksLikeVariantCasePattern s
     then do {
       let (name, s) = ParseCaseVariantName s;
       (bindings, s) \<leftarrow> ParseCasePatternBindings m s;
       span \<leftarrow> span_to_previous start s;
       Some (\<lparr>cp_span = span, cp_kind = CP_kVariant, cp_expr = None, cp_variant_name = name,
         cp_bindings = bindings\<rparr>, s) }
     else do {
       (e, s) \<leftarrow> ParseExpr m True s;
       Some (\<lparr>cp_span = \<lparr>span_begin = start, span_end = e_end e\<rparr>, cp_kind = CP_kExpr,
         cp_expr = Some e, cp_variant_name = [], cp_bindings = []\<rparr>, s) } }"

definition ParseSwitchCase :: "nat \<Rightarrow> Stmt parser \<Rightarrow> SourcePosition \<Rightarrow> SwitchCase parser" where
  "ParseSwitchCase m st start s = do {
     (pattern, s) \<leftarrow> ParseCasePattern m s;
     let s = Consume T_kColon ''expected ':' after case pattern'' s;
     (statements, s) \<leftarrow> ParseCaseBodyStatements m st s;
     span \<leftarrow> span_to_previous start s;
     Some (mk_SwitchCase span pattern statements, s) }"

definition ParseDefaultCase :: "nat \<Rightarrow> Stmt parser \<Rightarrow> SourcePosition \<Rightarrow> DefaultCase parser" where
  "ParseDefaultCase m st start s = do {
     let s = Consume T_kColon ''expected ':' after default'' s;
     (statements, s) \<leftarrow> ParseCaseBodyStatements m st s;
     span \<leftarrow> span_to_previous start s;
     Some (mk_DefaultCase span statements, s) }"

definition switch_step :: "nat \<Rightarrow> Stmt parser \<Rightarrow> (SwitchCase list \<times> DefaultCase option) \<times> ParseState \<Rightarrow>
    (((SwitchCase list \<times> DefaultCase option) \<times> ParseState) +
     ((SwitchCase list \<times> DefaultCase option) \<times> ParseState)) option" where
  \<comment> \<open>One round of the loop of \<open>ParseSwitchStmt\<close>; a second \<open>default\<close> replaces the first.\<close>
  "switch_step m st = (\<lambda>((cases, dflt), s).
     if \<not> Check T_kRBrace s \<and> \<not> AtEnd s
     then do {
       ((cases, dflt), s) \<leftarrow> (case Match T_kCase s of
           Some s \<Rightarrow> do {
             p \<leftarrow> Previous s;
             (c, s) \<leftarrow> ParseSwitchCase m st (begin_of p) s;
             Some ((cases @ [c], dflt), s) }
         | None \<Rightarrow> (case Match T_kDefault s of
             Some s \<Rightarrow> do {
               p \<leftarrow> Previous s;
               (d, s) \<leftarrow> ParseDefaultCase m st (begin_of p) s;
               Some ((cases, Some d), s) }
           | None \<Rightarrow> Some ((cases, dflt), SynchronizeStatement
               (ReportError (Current s) ''expected case or default in switch'' s))));
       Some (Inl ((cases, dflt), RequireStatementSeparatorOrSync s)) }
     else Some (Inr ((cases, dflt), s)))"

definition ParseSwitchStmt :: "nat \<Rightarrow> Stmt parser \<Rightarrow> SourcePosition \<Rightarrow> Stmt parser" where
  "ParseSwitchStmt m st start s = do {
     (subject, s) \<leftarrow> ParseExpr m False s;
     let s = SkipNewlines (Consume T_kLBrace ''expected '{' after switch expression'' s);
     ((cases, dflt), s) \<leftarrow> fuel_loop m (switch_step m st) (([], None), s);
     let s = Consume T_kRBrace ''expected '}' after switch body'' s;
     span \<leftarrow> span_to_previous start s;
     Some (set_s_default_case dflt (set_s_has_default_case (dflt \<noteq> None) (set_s_switch_cases cases
       (set_s_exprs [subject] (set_s_span span (new_Stmt S_kSwitch))))), s) }"

definition loop_stmt :: "nat \<Rightarrow> Stmt parser \<Rightarrow> StmtKind \<Rightarrow> SourcePosition \<Rightarrow> string \<Rightarrow> string \<Rightarrow> Stmt parser" where
  \<comment> \<open>The part the loops have in common: an expression, then a block.\<close>
  "loop_stmt m st kind start name second_name s = do {
     (e, s) \<leftarrow> ParseExpr m False s;
     (body, s) \<leftarrow> ParseBlockStmt m st s;
     Some (set_s_then_branch (Some body) (set_s_exprs [e] (set_s_loop_second_name second_name
       (set_s_loop_name name (set_s_span \<lparr>span_begin = start, span_end = stmt_end body\<rparr>
         (new_Stmt kind))))), s) }"

definition ParseForStmt :: "nat \<Rightarrow> Stmt parser \<Rightarrow> SourcePosition \<Rightarrow> Stmt parser" where
  "ParseForStmt m st start s =
     (if Check T_kIdentifier s \<and> kind_at s 1 = T_kIn
      then loop_stmt m st S_kForIn start (tok_lexeme (Current s)) [] (Advance (Advance s))
      else if Check T_kIdentifier s \<and> kind_at s 1 = T_kComma \<and> kind_at s 2 = T_kIdentifier \<and>
        kind_at s 3 = T_kIn
      then let name = tok_lexeme (Current s); s = Advance (Advance s) in
        loop_stmt m st S_kForEachIndex start name (tok_lexeme (Current s)) (Advance (Advance s))
      else loop_stmt m st S_kForCondition start [] [] s)"

definition ParseWhileStmt :: "nat \<Rightarrow> Stmt parser \<Rightarrow> SourcePosition \<Rightarrow> Stmt parser" where
  "ParseWhileStmt m st start = loop_stmt m st S_kWhile start [] []"

fun keyword_dispatch :: "(TokenKind \<times> (SourcePosition \<Rightarrow> 'a parser)) list \<Rightarrow> 'a parser \<Rightarrow> 'a parser" where
  \<comment> \<open>A row of \<open>if (Match(k)) return f(Previous().span.begin);\<close>, then the rest.\<close>
  "keyword_dispatch [] other s = other s"
| "keyword_dispatch ((k, f) # rows) other s =
     (case Match k s of
        Some s' \<Rightarrow> do { p \<leftarrow> Previous s'; f (begin_of p) s' }
      | None \<Rightarrow> keyword_dispatch rows other s)"

definition leaf_stmt :: "StmtKind \<Rightarrow> SourcePosition \<Rightarrow> Stmt parser" where
  "leaf_stmt kind start s = do { p \<leftarrow> Previous s; Some (MakeLeafStmt kind start (end_of p), s) }"

definition statement_rows ::
  "nat \<Rightarrow> Stmt parser \<Rightarrow> (SourcePosition \<Rightarrow> Stmt parser) \<Rightarrow> (TokenKind \<times> (SourcePosition \<Rightarrow> Stmt parser)) list"
where
  "statement_rows m st pif =
     [(T_kIf, pif), (T_kSwitch, ParseSwitchStmt m st), (T_kFor, ParseForStmt m st),
      (T_kWhile, ParseWhileStmt m st), (T_kReturn, ParseReturnStmt m), (T_kBreak, leaf_stmt S_kBreak),
      (T_kContinue, leaf_stmt S_kContinue), (T_kDefer, ParseDeferStmt m),
      (T_kVar, \<lambda>b. ParseBindingStmt m S_kVar b True),
      (T_kConst, \<lambda>b. ParseBindingStmt m S_kConst b False)]"

definition ParseStatement_step ::
  "nat \<Rightarrow> Stmt parser \<Rightarrow> (SourcePosition \<Rightarrow> Stmt parser) \<Rightarrow> Stmt parser" where
  \<comment> \<open>\<open>ParseStatement\<close>\<close>
  "ParseStatement_step m st pif s =
     (if Check T_kLBrace s then ParseBlockStmt m st s
      else keyword_dispatch (statement_rows m st pif)
        (\<lambda>s. if LooksLikeBindingStmt s
          then ParseBindingStmt m S_kBinding (begin_of (Current s)) True s
          else ParseAssignOrExprStmt m s) s)"

primrec stmt_parsers :: "nat \<Rightarrow> nat \<Rightarrow> Stmt parser \<times> (SourcePosition \<Rightarrow> Stmt parser)" where
  "stmt_parsers m 0 = (\<lambda>_. None, \<lambda>_ _. None)"
| "stmt_parsers m (Suc n) =
     (let (st, pif) = stmt_parsers m n in (ParseStatement_step m st pif, ParseIfStmt_step m st pif))"

definition ParseStatement :: "nat \<Rightarrow> nat \<Rightarrow> Stmt parser" where
  "ParseStatement m n = fst (stmt_parsers m n)"

definition ParseIfStmt :: "nat \<Rightarrow> nat \<Rightarrow> SourcePosition \<Rightarrow> Stmt parser" where
  "ParseIfStmt m n = snd (stmt_parsers m n)"

end
