(* ===== verification/MC_ParserDecl.thy ===== *)
theory MC_ParserDecl
  imports MC_ParserStmt MC_Lexer
begin

text \<open>
  \<open>compiler/parse/parser_decls.cpp\<close> (its type parsers are in \<open>MC_ParserExpr\<close>, \<open>ParseBindingPattern\<close>
  in \<open>MC_ParserStmt\<close>) and \<open>Parser::Run\<close> and \<open>Parse\<close> of \<open>parser.cpp\<close>. \<open>m\<close> is the fuel of the
  expression parsers and the loops, \<open>n\<close> that of the nesting of statements; \<open>Parse\<close> gives both by the
  number of tokens (\<open>parse_fuel\<close>).
\<close>

section \<open>Imports, attributes and type parameters\<close>

definition name_or_empty :: "string option \<Rightarrow> string" where
  \<comment> \<open>\<open>if (name.has_value()) decl.name = *name;\<close>\<close>
  "name_or_empty x = (case x of Some nm \<Rightarrow> nm | None \<Rightarrow> [])"

function import_path :: "string \<Rightarrow> ParseState \<Rightarrow> string \<times> ParseState" where
  \<comment> \<open>\<open>while (Match(TokenKind::kSlash)) ...\<close>\<close>
  "import_path name s =
     (if in_bounds s \<and> Check T_kSlash s
      then let s1 = Advance s in
        (case fst (ParseIdentifier ''expected module path segment after '/' in import'' s1) of
          None \<Rightarrow> (name, snd (ParseIdentifier ''expected module path segment after '/' in import'' s1))
        | Some segment \<Rightarrow> if in_bounds s1
            then import_path (name @ ''/'' @ segment)
              (snd (ParseIdentifier ''expected module path segment after '/' in import'' s1))
            else (name, s1))
      else (name, s))"
  by pat_completeness auto
termination
proof (relation "measure (\<lambda>(_, s). tokens_left s)", goal_cases)
  case (2 name s s1 segment)
  then have "tokens_left s1 < tokens_left s"
    "tokens_left (snd (ParseIdentifier ''expected module path segment after '/' in import'' s1)) < tokens_left s1"
    by (auto intro!: tokens_left_Advance simp: Check_def AtEnd_def ParseIdentifier_def split: if_splits)
  then show ?case by simp
qed simp

declare import_path.simps [simp del]

definition ParseImportDecl :: "SourcePosition \<Rightarrow> ImportDecl parser" where
  "ParseImportDecl start s = do {
     let (name, s) = ParseIdentifier ''expected module name after import (slash-separated paths allowed)'' s;
     let (module_name, s) = (case name of Some nm \<Rightarrow> import_path nm s | None \<Rightarrow> ([], s));
     span \<leftarrow> span_to_previous start s;
     Some (\<lparr>im_span = span, im_module_name = module_name\<rparr>, s) }"

definition attribute_args :: "nat \<Rightarrow> AttributeArg list parser" where
  \<comment> \<open>The \<open>do ... while (Match(TokenKind::kComma))\<close> of \<open>ParseAttributes\<close>, with its \<open>break\<close>.\<close>
  "attribute_args m s =
     fuel_loop m (\<lambda>(acc, s).
       let start = begin_of (Current s) in
       if Check T_kIdentifier s \<or> IsLiteral (tok_kind (Current s))
       then do {
         let is_identifier = Check T_kIdentifier s;
         let val = tok_lexeme (Current s);
         let s = Advance s;
         span \<leftarrow> span_to_previous start s;
         let acc = acc @ [\<lparr>aa_span = span, aa_is_identifier = is_identifier, aa_value = val\<rparr>];
         case Match T_kComma s of
           Some s \<Rightarrow> Some (Inl (acc, s))
         | None \<Rightarrow> Some (Inr (acc, s)) }
       else Some (Inr (acc, ReportError (Current s) ''expected attribute argument'' s))) ([], s)"

definition attribute_step :: "nat \<Rightarrow> Attribute list \<times> ParseState \<Rightarrow>
    ((Attribute list \<times> ParseState) + (Attribute list \<times> ParseState)) option" where
  "attribute_step m = (\<lambda>(acc, s).
     case Match T_kAt s of
       None \<Rightarrow> Some (Inr (acc, s))
     | Some s \<Rightarrow> do {
         p \<leftarrow> Previous s;
         let (name, s) = ParseIdentifier (''expected attribute name after '@'' @ [apostrophe_char]) s;
         (args, s) \<leftarrow> (case Match T_kLParen s of
             None \<Rightarrow> Some ([], s)
           | Some s \<Rightarrow> do {
               (args, s) \<leftarrow> (if \<not> Check T_kRParen s then attribute_args m s else Some ([], s));
               Some (args, Consume T_kRParen ''expected ')' after attribute arguments'' s) });
         span \<leftarrow> span_to_previous (begin_of p) s;
         Some (Inl (acc @ [\<lparr>at_span = span, at_name = name_or_empty name, at_args = args\<rparr>], s)) })"

definition ParseAttributes :: "nat \<Rightarrow> Attribute list parser" where
  "ParseAttributes m s = fuel_loop m (attribute_step m) ([], s)"

definition ParseTypeParams :: "nat \<Rightarrow> string list option parser" where
  "ParseTypeParams m s =
     (case Match T_kLt s of
        None \<Rightarrow> Some (None, s)
      | Some s \<Rightarrow> do {
          (names, s) \<leftarrow> (if \<not> Check T_kGt s then ident_list m ''expected type parameter name'' s
            else Some ([], s));
          Some (Some names, Consume T_kGt ''expected '>' after type parameters'' s) })"

section \<open>Functions\<close>

definition ParseParameter :: "nat \<Rightarrow> ParamDecl parser" where
  "ParseParameter m s = do {
     let start = begin_of (Current s);
     (attributes, s) \<leftarrow> ParseAttributes m s;
     let (name, s) = ParseIdentifier ''expected parameter name'' s;
     let s = Consume T_kColon ''expected ':' after parameter name'' s;
     (type, s) \<leftarrow> ParseTypeExpr m 0 s;
     e \<leftarrow> end_of_type type s;
     Some (\<lparr>pa_span = \<lparr>span_begin = start, span_end = e\<rparr>, pa_attributes = attributes,
       pa_name = name_or_empty name, pa_type = type\<rparr>, s) }"

definition ParseReturnTypes :: "nat \<Rightarrow> TypeExpr option list parser" where
  "ParseReturnTypes m s =
     (case Match T_kLParen s of
        Some s \<Rightarrow> do {
          (types, s) \<leftarrow> (if \<not> Check T_kRParen s then comma_list m (ParseTypeExpr m 0) s
            else Some ([], s));
          Some (types, Consume T_kRParen ''expected ')' after return types'' s) }
      | None \<Rightarrow> do { (type, s) \<leftarrow> ParseTypeExpr m 0 s; Some ([type], s) })"

definition ParseFuncLikeTail :: "nat \<Rightarrow> nat \<Rightarrow> Decl \<Rightarrow> bool \<Rightarrow> Decl option parser" where
  "ParseFuncLikeTail m n decl expect_body s = do {
     let (name, s) = ParseIdentifier ''expected function name'' s;
     (type_params, s) \<leftarrow> ParseTypeParams m s;
     let s = Consume T_kLParen ''expected '(' after function name'' s;
     (params, s) \<leftarrow> (if \<not> Check T_kRParen s then comma_list m (ParseParameter m) s else Some ([], s));
     let s = Consume T_kRParen ''expected ')' after parameter list'' s;
     (return_types, s) \<leftarrow>
       (if \<not> Check T_kLBrace s \<and> \<not> Check T_kNewline s \<and> \<not> Check T_kEof s then ParseReturnTypes m s
        else Some ([], s));
     let decl = decl\<lparr>d_name := name_or_empty name,
       d_type_params := (case type_params of Some ps \<Rightarrow> ps | None \<Rightarrow> []),
       d_params := params, d_return_types := return_types\<rparr>;
     if expect_body
     then do {
       (body, s) \<leftarrow> ParseBlockStmt m (ParseStatement m n) s;
       Some (Some (decl\<lparr>d_body := Some body,
         d_span := \<lparr>span_begin = span_begin (d_span decl), span_end = stmt_end body\<rparr>\<rparr>), s) }
     else do {
       span \<leftarrow> span_to_previous (span_begin (d_span decl)) s;
       Some (Some (decl\<lparr>d_span := span\<rparr>), s) } }"

definition start_decl :: "DeclKind \<Rightarrow> Attribute list \<Rightarrow> SourcePosition \<Rightarrow> Decl" where
  \<comment> \<open>The first lines of each declaration parser.\<close>
  "start_decl kind attributes start =
     (new_Decl kind)\<lparr>d_attributes := attributes,
       d_span := \<lparr>span_begin = start, span_end = span_end kDefaultSourceSpan\<rparr>\<rparr>"

definition ParseExternFuncDecl :: "nat \<Rightarrow> nat \<Rightarrow> Attribute list \<Rightarrow> SourcePosition \<Rightarrow> Decl option parser" where
  "ParseExternFuncDecl m n attributes start s = do {
     let s = Consume T_kLParen ''expected '(' after extern'' s;
     let (abi, s) = ParseIdentifier ''expected extern ABI name'' s;
     let s = Consume T_kRParen ''expected ')' after extern ABI'' s;
     let s = Consume T_kFunc ''expected 'func' after extern modifier'' s;
     (parsed, s) \<leftarrow> ParseFuncLikeTail m n
       ((start_decl D_kExternFunc attributes start)\<lparr>d_extern_abi := name_or_empty abi\<rparr>) False s;
     case parsed of
       Some decl \<Rightarrow> do {
         span \<leftarrow> span_to_previous (span_begin (d_span decl)) s;
         Some (Some (decl\<lparr>d_span := span\<rparr>), s) }
     | None \<Rightarrow> Some (None, s) }"

definition ParseFuncDecl :: "nat \<Rightarrow> nat \<Rightarrow> Attribute list \<Rightarrow> SourcePosition \<Rightarrow> Decl option parser" where
  "ParseFuncDecl m n attributes start = ParseFuncLikeTail m n (start_decl D_kFunc attributes start) True"

section \<open>Types with members\<close>

definition ParseFieldDecl :: "nat \<Rightarrow> FieldDecl parser" where
  "ParseFieldDecl m s = do {
     let start = begin_of (Current s);
     let (name, s) = ParseIdentifier ''expected field name'' s;
     let s = Consume T_kColon ''expected ':' after field name'' s;
     (type, s) \<leftarrow> ParseTypeExpr m 0 s;
     e \<leftarrow> end_of_type type s;
     Some (\<lparr>fd_span = \<lparr>span_begin = start, span_end = e\<rparr>, fd_name = name_or_empty name,
       fd_type = type\<rparr>, s) }"

definition ParseVariantField :: "nat \<Rightarrow> FieldDecl parser" where
  "ParseVariantField m s = do {
     let start = begin_of (Current s);
     let (name, s) = (if Check T_kIdentifier s \<and> kind_at s 1 = T_kColon
       then (tok_lexeme (Current s), Advance (Advance s)) else ([], s));
     (type, s) \<leftarrow> ParseTypeExpr m 0 s;
     e \<leftarrow> end_of_type type s;
     Some (\<lparr>fd_span = \<lparr>span_begin = start, span_end = e\<rparr>, fd_name = name, fd_type = type\<rparr>, s) }"

definition ParseEnumVariantDecl :: "nat \<Rightarrow> EnumVariantDecl parser" where
  "ParseEnumVariantDecl m s = do {
     let start = begin_of (Current s);
     let (name, s) = ParseIdentifier ''expected enum variant name'' s;
     (fields, s) \<leftarrow> (case Match T_kLParen s of
         None \<Rightarrow> Some ([], s)
       | Some s \<Rightarrow> do {
           (fields, s) \<leftarrow> (if \<not> Check T_kRParen s then comma_list m (ParseVariantField m) s
             else Some ([], s));
           Some (fields, Consume T_kRParen ''expected ')' after enum variant payload'' s) });
     span \<leftarrow> span_to_previous start s;
     Some (\<lparr>ev_span = span, ev_name = name_or_empty name, ev_payload_fields = fields\<rparr>, s) }"

definition member_step :: "'a parser \<Rightarrow> 'a list \<times> ParseState \<Rightarrow>
    (('a list \<times> ParseState) + ('a list \<times> ParseState)) option" where
  \<comment> \<open>\<open>while (!Check(kRBrace) && !AtEnd()) { push_back(item()); ConsumeMemberSeparator(); }\<close>\<close>
  "member_step item = (\<lambda>(acc, s).
     if \<not> Check T_kRBrace s \<and> \<not> AtEnd s
     then do { (x, s) \<leftarrow> item s; Some (Inl (acc @ [x], ConsumeMemberSeparator s)) }
     else Some (Inr (acc, s)))"

definition ParseStructDecl :: "nat \<Rightarrow> Attribute list \<Rightarrow> SourcePosition \<Rightarrow> Decl option parser" where
  "ParseStructDecl m attributes start s = do {
     let (name, s) = ParseIdentifier ''expected struct name'' s;
     (type_params, s) \<leftarrow> ParseTypeParams m s;
     let s = SkipNewlines (Consume T_kLBrace ''expected '{' to start struct body'' s);
     (fields, s) \<leftarrow> fuel_loop m (member_step (ParseFieldDecl m)) ([], s);
     let s = Consume T_kRBrace ''expected '}' to close struct body'' s;
     span \<leftarrow> span_to_previous start s;
     Some (Some ((start_decl D_kStruct attributes start)\<lparr>d_name := name_or_empty name,
       d_type_params := (case type_params of Some ps \<Rightarrow> ps | None \<Rightarrow> []), d_fields := fields,
       d_span := span\<rparr>), s) }"

definition ParseEnumDecl :: "nat \<Rightarrow> Attribute list \<Rightarrow> SourcePosition \<Rightarrow> Decl option parser" where
  "ParseEnumDecl m attributes start s = do {
     let (name, s) = ParseIdentifier ''expected enum name'' s;
     (type_params, s) \<leftarrow> ParseTypeParams m s;
     let s = SkipNewlines (Consume T_kLBrace ''expected '{' to start enum body'' s);
     (variants, s) \<leftarrow> fuel_loop m (member_step (ParseEnumVariantDecl m)) ([], s);
     let s = Consume T_kRBrace ''expected '}' to close enum body'' s;
     span \<leftarrow> span_to_previous start s;
     Some (Some ((start_decl D_kEnum attributes start)\<lparr>d_name := name_or_empty name,
       d_type_params := (case type_params of Some ps \<Rightarrow> ps | None \<Rightarrow> []), d_variants := variants,
       d_span := span\<rparr>), s) }"

section \<open>Distinct types, aliases and bindings\<close>

definition ParseDistinctDecl :: "nat \<Rightarrow> Attribute list \<Rightarrow> SourcePosition \<Rightarrow> Decl option parser" where
  "ParseDistinctDecl m attributes start s = do {
     let (name, s) = ParseIdentifier ''expected distinct type name'' s;
     let s = Consume T_kAssign ''expected '=' in distinct declaration'' s;
     (aliased_type, s) \<leftarrow> ParseTypeExpr m 0 s;
     e \<leftarrow> end_of_type aliased_type s;
     Some (Some ((start_decl D_kDistinct attributes start)\<lparr>d_name := name_or_empty name,
       d_aliased_type := aliased_type, d_span := \<lparr>span_begin = start, span_end = e\<rparr>\<rparr>), s) }"

definition ParseTypeAliasDecl :: "nat \<Rightarrow> Attribute list \<Rightarrow> SourcePosition \<Rightarrow> Decl option parser" where
  "ParseTypeAliasDecl m attributes start s = do {
     let (name, s) = ParseIdentifier ''expected type alias name'' s;
     (type_params, s) \<leftarrow> ParseTypeParams m s;
     let s = Consume T_kAssign ''expected '=' in type alias declaration'' s;
     (aliased_type, s) \<leftarrow> ParseTypeExpr m 0 s;
     e \<leftarrow> end_of_type aliased_type s;
     Some (Some ((start_decl D_kTypeAlias attributes start)\<lparr>d_name := name_or_empty name,
       d_type_params := (case type_params of Some ps \<Rightarrow> ps | None \<Rightarrow> []),
       d_aliased_type := aliased_type, d_span := \<lparr>span_begin = start, span_end = e\<rparr>\<rparr>), s) }"

definition ParseBindingDecl ::
  "nat \<Rightarrow> Attribute list \<Rightarrow> DeclKind \<Rightarrow> bool \<Rightarrow> SourcePosition \<Rightarrow> Decl option parser" where
  "ParseBindingDecl m attributes kind allow_storage_without_initializer start s = do {
     (binding, s) \<leftarrow> ParseBindingTail m allow_storage_without_initializer False False
       (if kind = D_kConst then ''const declaration requires initializer''
        else ''var declaration requires either a type or initializer'') s;
     Some (Some ((start_decl kind attributes start)\<lparr>d_pattern := bt_pattern binding,
       d_type_ann := bt_type_ann binding, d_has_initializer := bt_has_initializer binding,
       d_values := bt_initializers binding,
       d_span := \<lparr>span_begin = start, span_end = bt_end binding\<rparr>\<rparr>), s) }"

section \<open>Top-level declarations\<close>

function skip_export_block :: "int \<Rightarrow> ParseState \<Rightarrow> ParseState" where
  \<comment> \<open>\<open>while (!AtEnd() && depth > 0)\<close> of the dropped \<open>export\<close> block.\<close>
  "skip_export_block depth s =
     (if in_bounds s \<and> \<not> AtEnd s \<and> 0 < depth
      then if Check T_kLBrace s then skip_export_block (depth + 1) (Advance s)
        else if Check T_kRBrace s then skip_export_block (depth - 1) (Advance s)
        else skip_export_block depth (Advance s)
      else s)"
  by pat_completeness auto
termination
  by (relation "measure (\<lambda>(_, s). tokens_left s)") (auto intro: tokens_left_Advance)

declare skip_export_block.simps [simp del]

definition declaration_rows ::
  "nat \<Rightarrow> nat \<Rightarrow> Attribute list \<Rightarrow> (TokenKind \<times> (SourcePosition \<Rightarrow> Decl option parser)) list" where
  "declaration_rows m n attributes =
     [(T_kExtern, ParseExternFuncDecl m n attributes), (T_kFunc, ParseFuncDecl m n attributes),
      (T_kStruct, ParseStructDecl m attributes), (T_kEnum, ParseEnumDecl m attributes),
      (T_kDistinct, ParseDistinctDecl m attributes), (T_kType, ParseTypeAliasDecl m attributes),
      (T_kVar, ParseBindingDecl m attributes D_kVar True),
      (T_kConst, ParseBindingDecl m attributes D_kConst False)]"

definition ParseTopLevelDecl :: "nat \<Rightarrow> nat \<Rightarrow> Decl option parser" where
  "ParseTopLevelDecl m n s = do {
     (attributes, s) \<leftarrow> ParseAttributes m s;
     let s = (if attributes \<noteq> [] then SkipNewlines s else s);
     case Match T_kExport s of
       Some s \<Rightarrow> do {
         p \<leftarrow> Previous s;
         let s = ReportError p ''export blocks are no longer supported; top-level declarations are public by default and @private hides them'' s;
         Some (None, (case Match T_kLBrace s of Some s \<Rightarrow> skip_export_block 1 s | None \<Rightarrow> s)) }
     | None \<Rightarrow>
         keyword_dispatch (declaration_rows m n attributes)
           (\<lambda>s. Some (None, ReportError (Current s) ''expected top-level declaration'' s)) s }"

section \<open>Source files\<close>

definition import_step :: "ImportDecl list \<times> ParseState \<Rightarrow>
    ((ImportDecl list \<times> ParseState) + (ImportDecl list \<times> ParseState)) option" where
  "import_step = (\<lambda>(acc, s).
     case Match T_kImport s of
       None \<Rightarrow> Some (Inr (acc, s))
     | Some s \<Rightarrow> do {
         p \<leftarrow> Previous s;
         (d, s) \<leftarrow> ParseImportDecl (begin_of p) s;
         Some (Inl (acc @ [d], snd (RequireSourceSeparator ''import declaration'' s))) })"

definition decl_step :: "nat \<Rightarrow> nat \<Rightarrow> Decl list \<times> ParseState \<Rightarrow>
    ((Decl list \<times> ParseState) + (Decl list \<times> ParseState)) option" where
  "decl_step m n = (\<lambda>(acc, s).
     if \<not> AtEnd s
     then do {
       (decl, s) \<leftarrow> ParseTopLevelDecl m n s;
       Some (Inl (case decl of
           Some d \<Rightarrow> (acc @ [d], SkipNewlines s)
         | None \<Rightarrow> (acc, SkipNewlines (SynchronizeTopLevel s)))) }
     else Some (Inr (acc, s)))"

record ParseResult =
  pr_source_file :: SourceFile
  pr_ok :: bool

definition Run :: "nat \<Rightarrow> nat \<Rightarrow> ParseResult parser" where
  "Run m n s = do {
     let start = begin_of (Current s);
     let module_kind = (if IsInternalModulePath (ps_file_path s) then kInternal else kOrdinary);
     (imports, s) \<leftarrow> fuel_loop m import_step ([], SkipNewlines s);
     (decls, s) \<leftarrow> fuel_loop m (decl_step m n) ([], SkipNewlines s);
     Some (\<lparr>pr_source_file = \<lparr>sf_span = \<lparr>span_begin = start, span_end = end_of (Current s)\<rparr>,
         sf_module_kind = module_kind, sf_imports = imports, sf_decls = decls\<rparr>,
       pr_ok = (ps_ok s \<and> \<not> HasErrors (ps_diagnostics s))\<rparr>, s) }"

definition parse_start :: "LexResult \<Rightarrow> path \<Rightarrow> DiagnosticSink \<Rightarrow> ParseState" where
  \<comment> \<open>The constructor.\<close>
  "parse_start lexed file_path sink =
     \<lparr>ps_tokens = lr_tokens lexed, ps_file_path = file_path, ps_diagnostics = sink, ps_index = 0,
      ps_ok = lr_ok lexed, ps_allow_aggregate_init = True\<rparr>"

definition Parse_fuel :: "nat \<Rightarrow> LexResult \<Rightarrow> path \<Rightarrow> DiagnosticSink \<Rightarrow> (ParseResult \<times> DiagnosticSink) option" where
  "Parse_fuel k lexed file_path sink =
     map_option (apsnd ps_diagnostics) (Run (2 * k + 4) k (parse_start lexed file_path sink))"

definition Parse :: "LexResult \<Rightarrow> path \<Rightarrow> DiagnosticSink \<Rightarrow> (ParseResult \<times> DiagnosticSink) option" where
  \<comment> \<open>\<open>None\<close>: it does not return.\<close>
  "Parse lexed = Parse_fuel (length (lr_tokens lexed)) lexed"

end
