(* ===== verification/MC_ParserContract.thy ===== *)
theory MC_ParserContract
  imports MC_ParserExpr
begin

text \<open>
  What the parsers promise. \<open>parses t F A R p\<close>: from a state with at most \<open>F div 2\<close> tokens left,
  \<open>p\<close> moves forward, by a token at least where \<open>A\<close> holds, and its result is in \<open>R\<close> for the flag
  \<open>ok\<close> after it; with \<open>t\<close> it also returns. Then the rules for the pieces parsers are made of, and
  the nodes they build.
\<close>

section \<open>Contracts\<close>

definition parses ::
  "bool \<Rightarrow> nat \<Rightarrow> (ParseState \<Rightarrow> bool) \<Rightarrow> (bool \<Rightarrow> 'a \<Rightarrow> bool) \<Rightarrow> 'a parser \<Rightarrow> bool" where
  "parses t F A R p \<longleftrightarrow>
     (\<forall>s. ps_wf s \<longrightarrow> (t \<longrightarrow> 2 * tokens_left s \<le> F) \<longrightarrow>
        outcome t (p s) (\<lambda>(x, s'). moved s (A s) s' \<and> R (ps_ok s') x))"

abbreviation not_at_end :: "ParseState \<Rightarrow> bool" where
  "not_at_end s \<equiv> \<not> AtEnd s"

lemma parsesI:
  "(\<And>s. moved s False s \<Longrightarrow> (t \<Longrightarrow> 2 * tokens_left s \<le> F) \<Longrightarrow>
      outcome t (p s) (\<lambda>(x, s'). moved s (A s) s' \<and> R (ps_ok s') x)) \<Longrightarrow> parses t F A R p"
  by (simp add: parses_def moved_refl)

lemma parses_outcome:
  assumes "parses t F A R p" "moved s0 b s" "t \<Longrightarrow> 2 * tokens_left s \<le> F"
  shows "outcome t (p s) (\<lambda>(x, s'). moved s0 (b \<or> A s) s' \<and> (ps_ok s' \<longrightarrow> ps_ok s) \<and> R (ps_ok s') x)"
proof -
  have "outcome t (p s) (\<lambda>(x, s'). moved s (A s) s' \<and> R (ps_ok s') x)"
    using assms by (auto simp: parses_def moved_wf)
  then show ?thesis
    by (rule outcome_mono) (use assms(2) in \<open>auto intro: moved_trans dest: moved_ok\<close>)
qed

lemma parses_bind:
  assumes "parses t F A R p" "moved s0 b s" "t \<Longrightarrow> 2 * tokens_left s \<le> F"
    and "\<And>x s'. moved s0 (b \<or> A s) s' \<Longrightarrow> (ps_ok s' \<longrightarrow> ps_ok s) \<Longrightarrow> R (ps_ok s') x \<Longrightarrow>
      outcome t (f (x, s')) Q"
  shows "outcome t (p s \<bind> f) Q"
  using parses_outcome [OF assms(1-3)] by (rule outcome_bind) (use assms(4) in auto)

lemma parses_weaken:
  "parses t F A R p \<Longrightarrow> F' \<le> F \<Longrightarrow> (\<And>s. A' s \<Longrightarrow> A s) \<Longrightarrow> (\<And>b x. R b x \<Longrightarrow> R' b x) \<Longrightarrow>
     parses t F' A' R' p"
  by (fastforce simp: parses_def intro: outcome_mono moved_weaken)

text \<open>Fuel: a token consumed frees two units.\<close>

lemma fuel_after: "moved s True s' \<Longrightarrow> (t \<Longrightarrow> 2 * tokens_left s \<le> F) \<Longrightarrow> t \<Longrightarrow> 2 * tokens_left s' \<le> F - 2"
  using moved_left [of s s'] by fastforce

lemma fuel_same: "moved s b s' \<Longrightarrow> (t \<Longrightarrow> 2 * tokens_left s \<le> F) \<Longrightarrow> t \<Longrightarrow> 2 * tokens_left s' \<le> F"
  using moved_left_le [of s b s'] by fastforce

lemma left_positive: "moved s b s' \<Longrightarrow> 0 < tokens_left s'"
  by (auto simp: moved_def ps_wf_def in_bounds_def tokens_left_def)

lemma moved_True: "moved s (True \<or> b) s' \<longleftrightarrow> moved s True s'" "moved s (b \<or> True) s' \<longleftrightarrow> moved s True s'"
  "moved s (False \<or> b) s' \<longleftrightarrow> moved s b s'" "moved s (b \<or> False) s' \<longleftrightarrow> moved s b s'"
  by simp_all

text \<open>Rules for the pieces of a parser: a \<open>case\<close> on \<open>Match\<close>, the assertion of \<open>Previous\<close>, the end of
  a span.\<close>

lemma case_Match:
  assumes "moved s0 b s" "k \<noteq> T_kEof"
    and "\<And>s'. Check k s \<Longrightarrow> moved s0 True s' \<Longrightarrow> ps_ok s' = ps_ok s \<Longrightarrow> Previous s' = Some (Current s) \<Longrightarrow>
      outcome t (g s') Q"
    and "\<not> Check k s \<Longrightarrow> outcome t h Q"
  shows "outcome t (case Match k s of Some s' \<Rightarrow> g s' | None \<Rightarrow> h) Q"
proof (cases "Check k s")
  case True
  then have "\<not> AtEnd s" using assms(2) by (rule Check_not_AtEnd)
  then have "Previous (Advance s) = Some (Current s)"
    by (simp add: Advance_def Previous_def Current_def)
  with True assms \<open>\<not> AtEnd s\<close> show ?thesis by (simp add: Match_def moved_Advance)
next
  case False
  with assms show ?thesis by (simp add: Match_def)
qed

lemma bind_Previous:
  "moved s0 b s \<Longrightarrow> b \<or> 0 < ps_index s0 \<Longrightarrow> (\<And>p. Previous s = Some p \<Longrightarrow> outcome t (f p) Q) \<Longrightarrow>
     outcome t (Previous s \<bind> f) Q"
  by (drule (1) Previous_moved) auto

lemma bind_span:
  "moved s0 b s \<Longrightarrow> b \<or> 0 < ps_index s0 \<Longrightarrow> (\<And>sp. span_begin sp = start \<Longrightarrow> outcome t (f sp) Q) \<Longrightarrow>
     outcome t (span_to_previous start s \<bind> f) Q"
  by (drule (1) Previous_moved) (auto simp: span_to_previous_def)

lemma bind_end_of_type:
  "moved s0 b s \<Longrightarrow> b \<or> 0 < ps_index s0 \<Longrightarrow> (\<And>e. outcome t (f e) Q) \<Longrightarrow>
     outcome t (end_of_type x s \<bind> f) Q"
  by (drule (1) Previous_moved) (auto simp: end_of_type_def split: option.splits)

lemma bind_pair_if:
  "(c \<Longrightarrow> outcome t (m \<bind> f) Q) \<Longrightarrow> (\<not> c \<Longrightarrow> outcome t (f x) Q) \<Longrightarrow>
     outcome t ((if c then m else Some x) \<bind> f) Q"
  by auto

lemmas moved_intros =
  moved_Consume moved_SkipNewlines moved_ReportError moved_ReportAt moved_Advance_le

section \<open>Lists\<close>

lemma comma_list_parses:
  assumes "parses t F A R p" "t \<Longrightarrow> F \<le> 2 * (n - 1)"
    and mono: "\<And>b b' x. R b x \<Longrightarrow> (b' \<longrightarrow> b) \<Longrightarrow> R b' x"
  shows "parses t F A (\<lambda>b. list_all (R b)) (comma_list n p)"
proof (rule parsesI)
  fix s assume s: "moved s False s" and fuel: "t \<Longrightarrow> 2 * tokens_left s \<le> F"
  let ?I = "\<lambda>(acc, s'). moved s False s' \<and> list_all (R (ps_ok s')) acc \<and> (s' = s \<or> moved s True s')"
  show "outcome t (comma_list n p s) (\<lambda>(x, s'). moved s (A s) s' \<and> list_all (R (ps_ok s')) x)"
    unfolding comma_list_def
  proof (rule parser_loop [where I = ?I and st = snd])
    show "?I ([], s)" "ps_wf (snd ([], s))" using s by (auto simp: moved_wf)
    show "tokens_left (snd ([], s)) < n" if t
      using fuel [OF that] assms(2) [OF that] left_positive [OF s] by simp
    fix y :: "'a list \<times> ParseState"
    assume y: "?I y" and left: "tokens_left (snd y) \<le> tokens_left (snd ([], s))"
    obtain acc s1 where [simp]: "y = (acc, s1)" by (cases y)
    have m: "moved s1 False s1" using y by (auto simp: moved_refl moved_wf)
    show "outcome t
       (case y of (acc, s) \<Rightarrow> p s \<bind> (\<lambda>a. case a of (x, s) \<Rightarrow>
           case Match T_kComma s of None \<Rightarrow> Some (Inr (acc @ [x], s)) | Some s \<Rightarrow> Some (Inl (acc @ [x], s))))
       (\<lambda>r. case r of Inl z \<Rightarrow> ?I z \<and> moved (snd y) True (snd z)
         | Inr r \<Rightarrow> (\<lambda>(x, s'). moved s (A s) s' \<and> list_all (R (ps_ok s')) x) r)"
      unfolding \<open>y = _\<close> prod.case
    proof (rule parses_bind [OF assms(1) m])
      show "2 * tokens_left s1 \<le> F" if t using fuel [OF that] left by simp
      fix x s2
      assume s2: "moved s1 (False \<or> A s1) s2" "ps_ok s2 \<longrightarrow> ps_ok s1" "R (ps_ok s2) x"
      have acc: "list_all (R (ps_ok s2)) acc"
        using y s2(2) by (auto simp: list_all_iff intro: mono)
      have sA: "moved s (A s) s2"
        using y s2(1) by (auto intro: moved_weaken dest: moved_trans)
      show "outcome t (case (x, s2) of (x, s) \<Rightarrow>
           case Match T_kComma s of None \<Rightarrow> Some (Inr (acc @ [x], s)) | Some s \<Rightarrow> Some (Inl (acc @ [x], s)))
       (\<lambda>r. case r of Inl z \<Rightarrow> ?I z \<and> moved (snd (acc, s1)) True (snd z)
         | Inr r \<Rightarrow> (\<lambda>(x, s'). moved s (A s) s' \<and> list_all (R (ps_ok s')) x) r)"
        unfolding prod.case
      proof (rule case_Match [OF s2(1)])
        fix s3 assume s3: "moved s1 True s3" "ps_ok s3 = ps_ok s2"
        then have "moved s True s3" using y moved_trans [of s False s1 True s3] by simp
        with s3 acc s2(3) show "outcome t (Some (Inl (acc @ [x], s3)))
          (\<lambda>r. case r of Inl z \<Rightarrow> ?I z \<and> moved (snd (acc, s1)) True (snd z)
            | Inr r \<Rightarrow> (\<lambda>(x, s'). moved s (A s) s' \<and> list_all (R (ps_ok s')) x) r)"
          by (auto intro: moved_weaken)
      qed (use acc s2(3) sA in auto)
    qed
  qed
qed

text \<open>A loop over a pair of an accumulator and a state.\<close>

lemma loop_parses:
  assumes s: "moved s0 b s" and "t \<Longrightarrow> tokens_left s < n" and "I s acc"
    and step: "\<And>acc s1. moved s0 b s1 \<Longrightarrow> tokens_left s1 \<le> tokens_left s \<Longrightarrow> moved s1 False s1 \<Longrightarrow> I s1 acc \<Longrightarrow>
      outcome t (f (acc, s1)) (\<lambda>r. case r of
          Inl (acc', s2) \<Rightarrow> moved s1 True s2 \<and> I s2 acc'
        | Inr (x, s2) \<Rightarrow> moved s1 False s2 \<and> Q s2 x)"
  shows "outcome t (fuel_loop n f (acc, s)) (\<lambda>(x, s'). moved s0 b s' \<and> Q s' x)"
proof (rule parser_loop [where I = "\<lambda>(acc, s1). moved s0 b s1 \<and> I s1 acc" and st = snd])
  fix y assume y: "case y of (acc, s1) \<Rightarrow> moved s0 b s1 \<and> I s1 acc"
    and left: "tokens_left (snd y) \<le> tokens_left (snd (acc, s))"
  obtain acc1 s1 where [simp]: "y = (acc1, s1)" by (cases y)
  have tr: "moved s0 b s2" if "moved s1 c s2" for c s2
    using y that by (auto intro: moved_weaken dest: moved_trans)
  show "outcome t (f y) (\<lambda>r. case r of
      Inl z \<Rightarrow> (case z of (acc, s1) \<Rightarrow> moved s0 b s1 \<and> I s1 acc) \<and> moved (snd y) True (snd z)
    | Inr r \<Rightarrow> (case r of (x, s') \<Rightarrow> moved s0 b s' \<and> Q s' x))"
    using step [of s1 acc1] y left
    by (auto simp: moved_wf moved_refl elim!: outcome_mono intro: tr split: sum.splits)
qed (use assms in \<open>auto simp: moved_wf\<close>)

lemma list_until_parses:
  assumes "parses t F A R p" "t \<Longrightarrow> F \<le> 2 * (n - 1)" "terminator \<noteq> T_kEof"
    and mono: "\<And>b b' x. R b x \<Longrightarrow> (b' \<longrightarrow> b) \<Longrightarrow> R b' x"
  shows "parses t F A (\<lambda>b. list_all (R b)) (list_until n terminator p)"
  unfolding list_until_def
proof (rule parsesI, rule parses_bind [OF assms(1)], assumption, assumption, unfold prod.case)
  fix s x s'
  assume s: "moved s False s" and fuel: "t \<Longrightarrow> 2 * tokens_left s \<le> F"
    and s': "moved s (False \<or> A s) s'" "ps_ok s' \<longrightarrow> ps_ok s" "R (ps_ok s') x"
  have left: "tokens_left (SkipNewlines s') \<le> tokens_left s"
    using moved_left_le [OF moved_SkipNewlines [OF s'(1)]] .
  let ?I = "\<lambda>s acc. list_all (R (ps_ok s)) acc"
  show "outcome t (fuel_loop n (\<lambda>(acc, s). case Match T_kComma s of
        None \<Rightarrow> Some (Inr (acc, s))
      | Some s \<Rightarrow> let s = SkipNewlines s in
          if Check terminator s then Some (Inr (acc, s))
          else p s \<bind> (\<lambda>a. case a of (x, s) \<Rightarrow> Some (Inl (acc @ [x], SkipNewlines s))))
      ([x], SkipNewlines s'))
    (\<lambda>(x, s'). moved s (A s) s' \<and> list_all (R (ps_ok s')) x)"
  proof (rule loop_parses [where I = ?I])
    show "moved s (A s) (SkipNewlines s')" using s' by (simp add: moved_SkipNewlines)
    show "tokens_left (SkipNewlines s') < n" if t
      using fuel [OF that] assms(2) [OF that] left left_positive [OF s] by simp
    show "?I (SkipNewlines s') [x]" using s' by simp
    fix acc s1
    assume s1: "moved s1 False s1" and acc: "?I s1 acc" and l1: "tokens_left s1 \<le> tokens_left (SkipNewlines s')"
    show "outcome t (case (acc, s1) of (acc, s) \<Rightarrow> case Match T_kComma s of
        None \<Rightarrow> Some (Inr (acc, s))
      | Some s \<Rightarrow> let s = SkipNewlines s in
          if Check terminator s then Some (Inr (acc, s))
          else p s \<bind> (\<lambda>a. case a of (x, s) \<Rightarrow> Some (Inl (acc @ [x], SkipNewlines s))))
      (\<lambda>r. case r of Inl (acc', s2) \<Rightarrow> moved s1 True s2 \<and> ?I s2 acc'
        | Inr (x, s2) \<Rightarrow> moved s1 False s2 \<and> ?I s2 x)"
      unfolding prod.case
    proof (rule case_Match [OF s1])
      fix s2 assume s2: "moved s1 True s2" "ps_ok s2 = ps_ok s1"
      have "outcome t (p (SkipNewlines s2) \<bind> (\<lambda>a. case a of (x, s) \<Rightarrow> Some (Inl (acc @ [x], SkipNewlines s))))
        (\<lambda>r. case r of Inl (acc', s2) \<Rightarrow> moved s1 True s2 \<and> ?I s2 acc' | Inr (x, s2) \<Rightarrow> moved s1 False s2 \<and> ?I s2 x)"
      proof (rule parses_bind [OF assms(1) moved_SkipNewlines [OF s2(1)]], goal_cases)
        case 1
        then show ?case
          using fuel left l1 moved_left_le [OF moved_SkipNewlines [OF s2(1)]] by simp
      next
        case (2 y s3)
        then show ?case using acc s2
          by (auto simp: list_all_iff moved_True intro: mono moved_SkipNewlines)
      qed
      then show "outcome t (let s = SkipNewlines s2 in if Check terminator s then Some (Inr (acc, s))
          else p s \<bind> (\<lambda>a. case a of (x, s) \<Rightarrow> Some (Inl (acc @ [x], SkipNewlines s))))
        (\<lambda>r. case r of Inl (acc', s2) \<Rightarrow> moved s1 True s2 \<and> ?I s2 acc' | Inr (x, s2) \<Rightarrow> moved s1 False s2 \<and> ?I s2 x)"
        using acc s2 by (auto simp: Let_def intro: moved_weaken moved_SkipNewlines)
    qed (use s1 acc in auto)
  qed
qed

section \<open>Nodes\<close>

text \<open>Each node the parser builds is well formed when its parts are.\<close>

lemma node_ok:
  "expr_ok b l \<Longrightarrow> expr_ok b (set_e_left (Some l) (set_e_span sp (new_Expr E_kParen)))"
  "expr_ok b (literal_node tok)"
  "expr_ok b (set_e_text tx (set_e_span sp (new_Expr E_kLiteral)))"
  "expr_ok b (set_e_text tx (set_e_span sp (new_Expr E_kName)))"
  "expr_ok b (set_e_span sp (new_Expr E_kEmptyCollection))"
  "list_all (init_ok b) fs \<Longrightarrow> expr_ok b (set_e_field_inits fs (set_e_span sp (new_Expr E_kAggregateInit)))"
  by ((subst expr_ok_iff, simp add: set_node_defs literal_node_def)+)

lemma call_node_ok:
  "list_all (expr_ok b) as \<Longrightarrow> pred_option (type_ok b) target \<Longrightarrow> (b \<longrightarrow> target \<noteq> None) \<Longrightarrow>
     expr_ok b (set_e_args as (set_e_type_target target (set_e_span sp (new_Expr E_kCall))))"
  "list_all (expr_ok b) as \<Longrightarrow> type_ok b ty \<Longrightarrow>
     expr_ok b (set_e_args as (set_e_type_target (Some ty) (set_e_bare_type_target_syntax c (set_e_span sp (new_Expr E_kCall)))))"
  "list_all (init_ok b) fs \<Longrightarrow> pred_option (type_ok b) target \<Longrightarrow>
     expr_ok b (set_e_field_inits fs (set_e_type_target target (set_e_span sp (new_Expr E_kAggregateInit))))"
  by ((subst expr_ok_iff, simp add: set_node_defs)+)

lemma postfix_node_ok:
  assumes "expr_ok b l" "expr_prec l = 13"
  shows "expr_ok b (set_e_left (Some l) (set_e_text nm (set_e_span sp (new_Expr E_kField))))"
    "expr_ok b (set_e_left (Some l) (set_e_span sp (new_Expr E_kDerefField)))"
    "list_all (expr_ok b) as \<Longrightarrow> expr_ok b (set_e_args as (set_e_left (Some l) (set_e_span sp (new_Expr E_kCall))))"
    "list_all (init_ok b) fs \<Longrightarrow>
       expr_ok b (set_e_field_inits fs (set_e_left (Some l) (set_e_span sp (new_Expr E_kRecordUpdate))))"
    "pred_option (expr_ok b) x \<Longrightarrow>
       expr_ok b (set_e_left (Some l) (set_e_span sp (set_e_extra x (new_Expr E_kSlice))))"
    "pred_option (expr_ok b) x \<Longrightarrow> expr_ok b r \<Longrightarrow>
       expr_ok b (set_e_left (Some l) (set_e_span sp (set_e_extra x (set_e_right (Some r) (new_Expr E_kSlice)))))"
    "expr_ok b r \<Longrightarrow>
       expr_ok b (set_e_left (Some l) (set_e_span sp (set_e_right (Some r) (new_Expr E_kIndex))))"
  by (subst expr_ok_iff, use assms in \<open>simp add: set_node_defs\<close>)+

lemma base_node_ok:
  assumes "expr_ok b l" "e_kind l = E_kName \<or> e_kind l = E_kQualifiedName"
  shows "expr_ok b (set_e_type_args (e_type_args l) (set_e_secondary_text nm (set_e_text tx
      (set_e_span sp (new_Expr E_kQualifiedName)))))"
    and "list_all (init_ok b) fs \<Longrightarrow>
      expr_ok b (set_e_field_inits fs (set_e_left (Some l) (set_e_span sp (new_Expr E_kAggregateInit))))"
  by (subst expr_ok_iff, use assms(2) expr_ok_iff [THEN iffD1, OF assms(1)] assms(1) in \<open>simp add: set_node_defs\<close>)+

lemma kind_shape_type_args [simp]: "kind_shape k b (set_e_type_args as e) \<longleftrightarrow> kind_shape k b e"
  by (cases k) (simp_all add: set_e_type_args_def)

lemma type_args_node_ok:
  assumes "expr_ok b l" "all_types (type_ok b) as" "b \<longrightarrow> None \<notin> set as"
  shows "expr_ok b (set_e_type_args as l)"
  by (subst expr_ok_iff, use assms(2,3) expr_ok_iff [THEN iffD1, OF assms(1)] in simp)
    (simp add: set_e_type_args_def)

lemma prec_simps [simp]:
  "expr_prec (set_e_type_args as l) = expr_prec l"
  "e_kind e \<notin> {E_kBinary, E_kRange, E_kUnary} \<Longrightarrow> expr_prec e = 13"
  by (simp_all add: expr_prec_def set_e_type_args_def)

lemma kind_simps [simp]:
  "e_kind (new_Expr k) = k" "e_kind (set_e_span sp e) = e_kind e" "e_kind (set_e_text tx e) = e_kind e"
  "e_kind (set_e_left l e) = e_kind e" "e_kind (set_e_right l e) = e_kind e"
  "e_kind (set_e_extra l e) = e_kind e" "e_kind (set_e_args as e) = e_kind e"
  "e_kind (set_e_field_inits fs e) = e_kind e" "e_kind (set_e_type_target ty e) = e_kind e"
  "e_kind (set_e_bare_type_target_syntax c e) = e_kind e"
  "e_kind (set_e_secondary_text tx e) = e_kind e" "e_kind (set_e_type_args ts e) = e_kind e"
  "e_kind (literal_node tok) = E_kLiteral"
  by (simp_all add: set_node_defs literal_node_def)

end
