(* ===== verification/MC_ParserExprSpec.thy ===== *)
theory MC_ParserExprSpec
  imports MC_ParserContract
begin

text \<open>
  The expression and type parsers keep the contract of \<open>MC_ParserContract\<close>: the locale
  \<open>expr_context\<close> assumes it of the two entry points, the functions in between are verified inside
  it, and the entry points with fuel \<open>n\<close> are its instances.
\<close>

section \<open>The functions between the entry points\<close>

abbreviation expr_result :: "nat \<Rightarrow> bool \<Rightarrow> Expr \<Rightarrow> bool" where
  "expr_result p b e \<equiv> expr_ok b e \<and> p \<le> expr_prec e"

definition opt_type_ok :: "bool \<Rightarrow> TypeExpr option \<Rightarrow> bool" where
  "opt_type_ok b x \<longleftrightarrow> pred_option (type_ok b) x \<and> (b \<longrightarrow> x \<noteq> None)"

definition starts_type :: "nat \<Rightarrow> ParseState \<Rightarrow> bool" where
  "starts_type depth s \<longleftrightarrow> depth < kMaxTypeExprDepth \<and> IsTypeExprStart (tok_kind (Current s))"

lemma opt_type_mono: "opt_type_ok b x \<Longrightarrow> (b' \<longrightarrow> b) \<Longrightarrow> opt_type_ok b' x"
  by (auto simp: opt_type_ok_def pred_option_def intro: ok_mono)

lemma opt_type_Some [simp]: "opt_type_ok b (Some x) \<longleftrightarrow> type_ok b x"
  by (simp add: opt_type_ok_def)

lemma opt_types_mono: "list_all (opt_type_ok b) xs \<Longrightarrow> (b' \<longrightarrow> b) \<Longrightarrow> list_all (opt_type_ok b') xs"
  by (auto simp: list_all_iff intro: opt_type_mono)

lemma opt_types_split:
  "list_all (opt_type_ok b) xs \<longleftrightarrow> all_types (type_ok b) xs \<and> (b \<longrightarrow> None \<notin> set xs)"
  by (induction xs) (auto simp: opt_type_ok_def eq_commute [of None])

lemma outcome_if:
  "(c \<Longrightarrow> outcome t m1 Q) \<Longrightarrow> (\<not> c \<Longrightarrow> outcome t m2 Q) \<Longrightarrow> outcome t (if c then m1 else m2) Q"
  by simp

lemma binary_prec_le: "binary_prec op \<le> 11"
  by (auto simp: binary_prec_def binary_operators_def split: if_splits option.splits)

lemma prec_13: "13 \<le> expr_prec e \<longleftrightarrow> expr_prec e = 13"
  using binary_prec_le [of "e_text e"] by (auto simp: expr_prec_def)

text \<open>The prefix operators and the nodes around their operand.\<close>

lemma skip_prefix_operators_moved: "moved s b s' \<Longrightarrow> moved s b (skip_prefix_operators s')"
proof (induction s' rule: skip_prefix_operators.induct)
  case (1 s')
  then show ?case
    by (subst skip_prefix_operators.simps) (auto intro: moved_Advance_le)
qed

definition prefix_ops :: "Token list \<Rightarrow> bool" where
  "prefix_ops ops \<longleftrightarrow> list_all (\<lambda>op. IsPrefixUnaryOperator (tok_kind op)) ops \<and> length ops \<le> kMaxUnaryExprDepth"

lemma prefix_operators_moved:
  "moved s b s' \<Longrightarrow> prefix_ops ops \<Longrightarrow>
     moved s (b \<or> IsPrefixUnaryOperator (tok_kind (Current s'))) (snd (prefix_operators ops s')) \<and>
     prefix_ops (fst (prefix_operators ops s'))"
proof (induction ops s' arbitrary: b rule: prefix_operators.induct)
  case (1 ops s')
  show ?case
  proof (cases "IsPrefixUnaryOperator (tok_kind (Current s'))")
    case True
    have inb: "in_bounds s'" using "1.prems"(1) by (auto dest: moved_wf simp: ps_wf_def)
    have "\<not> AtEnd s'" using True by (auto simp: AtEnd_def IsPrefixUnaryOperator_def)
    then have adv: "moved s True (Advance s')" by (rule moved_Advance [OF "1.prems"(1)])
    show ?thesis
    proof (cases "kMaxUnaryExprDepth \<le> length ops")
      case True
      with inb adv "1.prems"(2) \<open>IsPrefixUnaryOperator _\<close> show ?thesis
        by (simp add: prefix_operators.simps [of ops s'] Let_def skip_prefix_operators_moved moved_ReportError)
    next
      case False
      with "1.prems"(2) \<open>IsPrefixUnaryOperator _\<close> have "prefix_ops (ops @ [Current s'])"
        by (simp add: prefix_ops_def)
      with "1.IH" [OF _ refl refl False adv] inb \<open>IsPrefixUnaryOperator _\<close> False show ?thesis
        by (simp add: prefix_operators.simps [of ops s'] Let_def)
    qed
  next
    case False
    with "1.prems" show ?thesis by (simp add: prefix_operators.simps [of ops s'])
  qed
qed

lemma unary_node_ok:
  "IsPrefixUnaryOperator (tok_kind op) \<Longrightarrow> expr_ok b e \<Longrightarrow> 12 \<le> expr_prec e \<Longrightarrow> expr_ok b (unary_node op e)"
  by (subst expr_ok_iff) (auto simp: unary_node_def set_node_defs IsPrefixUnaryOperator_def unary_operators_def)

lemma expr_prec_unary_node [simp]: "expr_prec (unary_node op e) = 12"
  by (simp add: unary_node_def expr_prec_def set_node_defs)

lemma unary_nodes_ok:
  "list_all (\<lambda>op. IsPrefixUnaryOperator (tok_kind op)) ops \<Longrightarrow> expr_ok b e \<Longrightarrow> 12 \<le> expr_prec e \<Longrightarrow>
     expr_ok b (foldr unary_node ops e) \<and> 12 \<le> expr_prec (foldr unary_node ops e)"
  by (induction ops) (auto intro: unary_node_ok)

text \<open>Binary nodes.\<close>

definition level_ops :: "nat \<Rightarrow> TokenKind list \<Rightarrow> bool" where
  "level_ops p ops \<longleftrightarrow> list_all (\<lambda>k. k \<noteq> T_kEof \<and> (ToString_kind k, p) \<in> set binary_operators) ops"

lemma distinct_operators: "distinct (map fst binary_operators)"
  by (simp add: binary_operators_def)

lemma binary_prec_op: "(op, p) \<in> set binary_operators \<Longrightarrow> binary_prec op = p \<and> op \<in> fst ` set binary_operators"
  using distinct_operators by (force simp: binary_prec_def)

lemma expr_prec_binary_node [simp]: "expr_prec (binary_node op l r) = binary_prec (ToString_kind (tok_kind op))"
  by (simp add: binary_node_def set_node_defs expr_prec_def)

lemma binary_node_ok:
  assumes "expr_ok b l" "expr_ok b r" "(ToString_kind (tok_kind op), p) \<in> set binary_operators"
    "p \<le> expr_prec l" "p < expr_prec r"
  shows "expr_ok b (binary_node op l r)"
  using assms binary_prec_op [OF assms(3)]
  by (subst expr_ok_iff) (simp add: binary_node_def set_node_defs)

lemma case_match_any:
  assumes "moved s0 b s" "T_kEof \<notin> set ops"
    and "\<And>s'. tok_kind (Current s) \<in> set ops \<Longrightarrow> moved s0 True s' \<Longrightarrow> ps_ok s' = ps_ok s \<Longrightarrow>
      Previous s' = Some (Current s) \<Longrightarrow> outcome t (g s') Q"
    and "tok_kind (Current s) \<notin> set ops \<Longrightarrow> outcome t h Q"
  shows "outcome t (case match_any ops s of Some s' \<Rightarrow> g s' | None \<Rightarrow> h) Q"
proof -
  have *: "match_any ops s = (if tok_kind (Current s) \<in> set ops then Some (Advance s) else None)"
    by (induction ops) (auto simp: Match_def Check_def)
  have "outcome t (case Match (tok_kind (Current s)) s of Some s' \<Rightarrow> g s' | None \<Rightarrow> h) Q"
    if "tok_kind (Current s) \<in> set ops"
    using assms that by (intro case_Match) (auto simp: Check_def)
  with * assms(4) show ?thesis by (auto simp: Match_def Check_def)
qed

locale expr_context =
  fixes t :: bool and n :: nat
    and pe :: "bool \<Rightarrow> Expr parser" and pt :: "nat \<Rightarrow> TypeExpr option parser"
  assumes pe: "parses t (n - 2) not_at_end expr_ok (pe a)"
    and pt: "parses t (n - 1) (starts_type d) opt_type_ok (pt d)"
begin

lemma fuel_loops: "t \<Longrightarrow> n - 2 \<le> 2 * (n - 1)"
  by simp

text \<open>A call of an entry point after a token was consumed.\<close>

lemmas pe_bind = parses_bind [OF pe]
lemmas pt_bind = parses_bind [OF pt]

lemma name_value_ok:
  "moved s b s' \<Longrightarrow> b \<or> 0 < ps_index s \<Longrightarrow> (\<And>e. expr_ok c e \<Longrightarrow> outcome t (f e) Q) \<Longrightarrow>
     outcome t (name_value start nm s' \<bind> f) Q"
  unfolding name_value_def bind_assoc
  by (erule (1) bind_span) (simp add: node_ok)

lemma exprs_parse: "k \<noteq> T_kEof \<Longrightarrow> parses t (n - 2) not_at_end (\<lambda>b. list_all (expr_ok b)) (ParseExprListUntil n pe k)"
  unfolding ParseExprListUntil_def by (rule list_until_parses [OF pe]) (auto intro: ok_mono)

lemma moved_skip_field_path: "moved s b s' \<Longrightarrow> moved s b (skip_field_path s')"
proof (induction s' rule: skip_field_path.induct)
  case (1 s')
  show ?case
    using 1 by (subst skip_field_path.simps)
      (auto simp: Let_def intro: moved_intros)
qed

lemma init_value_parses:
  assumes "moved s b s'" "(t \<Longrightarrow> 2 * tokens_left s' \<le> n - 2)" "hn \<longrightarrow> path \<noteq> []"
  shows "outcome t (pe True s' \<bind> (\<lambda>a. case a of (e, s) \<Rightarrow>
      Some (mk_FieldInit \<lparr>span_begin = start, span_end = e_end e\<rparr> hn nm path (Some e), s)))
    (\<lambda>(x, s''). moved s (b \<or> not_at_end s') s'' \<and> init_ok (ps_ok s'') x)"
  using assms(3) by (intro pe_bind [OF assms(1,2)]) (simp_all add: init_ok_iff)

lemma field_init_parses:
  assumes "terminator \<noteq> T_kEof"
  shows "parses t (n - 2) (\<lambda>_. False) init_ok (ParseFieldInit pe terminator dotted)"
proof (rule parsesI)
  fix s assume s: "moved s False s" and fuel: "t \<Longrightarrow> 2 * tokens_left s \<le> n - 2"
  have adv: "moved s True (Advance s)" if "Check T_kIdentifier s"
    by (rule moved_Advance [OF s Check_not_AtEnd [OF that]]) simp
  have adv2: "moved s True (Advance (Advance s))" "moved s True (Advance (skip_field_path (Advance s)))"
    if "Check T_kIdentifier s"
    using adv [OF that] by (simp_all add: moved_Advance_le moved_skip_field_path)
  have val: "outcome t (pe True s' \<bind> (\<lambda>a. case a of (e, s) \<Rightarrow>
      Some (mk_FieldInit \<lparr>span_begin = start, span_end = e_end e\<rparr> hn nm path (Some e), s)))
    (\<lambda>(x, s''). moved s False s'' \<and> init_ok (ps_ok s'') x)"
    if "moved s b s'" "hn \<longrightarrow> path \<noteq> []" for b s' start hn nm path
    by (rule outcome_mono [OF init_value_parses [OF that(1) _ that(2)]])
      (use fuel_same [OF that(1), of t "n - 2"] fuel in \<open>auto intro: moved_weaken\<close>)
  show "outcome t (ParseFieldInit pe terminator dotted s) (\<lambda>(x, s'). moved s False s' \<and> init_ok (ps_ok s') x)"
    unfolding ParseFieldInit_def Let_def
  proof (intro outcome_if, goal_cases)
    case 1
    with adv2(1) show ?case
      by (auto intro!: name_value_ok simp: init_ok_iff intro: moved_weaken)
  next
    case 2
    then show ?case using adv2(1) by (intro val) auto
  next
    case 3
    let ?s = "Advance (skip_field_path (Advance s))"
    from 3 adv2(2) have m: "moved s True ?s" by simp
    show ?case
    proof (rule bind_Previous [OF m], goal_cases)
      case (2 p)
      show ?case
        by (rule name_value_ok [OF moved_ReportError [OF m]])
          (auto simp: init_ok_iff intro: moved_weaken moved_ReportError [OF m])
    qed simp
  next
    case 4
    then show ?case using adv2(2) by (intro val) auto
  qed (rule val [OF s], simp)+
qed

lemma inits_parse:
  "k \<noteq> T_kEof \<Longrightarrow> parses t (n - 2) (\<lambda>_. False) (\<lambda>b. list_all (init_ok b)) (ParseFieldInitListUntil n pe k dotted)"
  unfolding ParseFieldInitListUntil_def
  by (rule list_until_parses [OF field_init_parses]) (auto intro: ok_mono)

lemma call_args_parses: "parses t (n - 2) (\<lambda>_. False) (\<lambda>b. list_all (expr_ok b)) (call_args n pe)"
  unfolding call_args_def Let_def
proof (rule parsesI, rule bind_pair_if, goal_cases)
  case (1 s)
  show ?case
    by (rule parses_bind [OF exprs_parse moved_SkipNewlines [OF 1(1)]])
      (use fuel_same [OF moved_SkipNewlines [OF 1(1)], of t "n - 2"] 1(2) in
        \<open>auto intro: moved_weaken moved_Consume elim: ok_list_mono dest: ok_Consume\<close>)
next
  case (2 s)
  then show ?case by (simp add: moved_intros)
qed

lemma braced_inits_parses:
  "parses t (n - 2) (\<lambda>_. False) (\<lambda>b. list_all (init_ok b)) (braced_inits n pe dotted msg)"
  unfolding braced_inits_def Let_def
proof (rule parsesI, rule bind_pair_if, goal_cases)
  case (1 s)
  show ?case
    by (rule parses_bind [OF inits_parse moved_SkipNewlines [OF 1(1)]])
      (use fuel_same [OF moved_SkipNewlines [OF 1(1)], of t "n - 2"] 1(2) in
        \<open>auto intro: moved_weaken moved_Consume elim: ok_list_mono dest: ok_Consume\<close>)
next
  case (2 s)
  then show ?case by (simp add: moved_intros)
qed

text \<open>Fuel inside an expression-level parser.\<close>

lemma after_pe: "moved s True s' \<Longrightarrow> (t \<Longrightarrow> 2 * tokens_left s \<le> n - 1) \<Longrightarrow> t \<Longrightarrow> 2 * tokens_left s' \<le> n - 2"
  using fuel_after [of s s' t "n - 1"] by fastforce

lemma after_loop: "moved s b s' \<Longrightarrow> (t \<Longrightarrow> 2 * tokens_left s \<le> n - 1) \<Longrightarrow> t \<Longrightarrow> tokens_left s' < n"
  using moved_left_le [of s b s'] left_positive [of s b s'] by fastforce

lemma Consume_here: "Check k s \<Longrightarrow> Consume k m s = Advance s"
  by (simp add: Consume_def Match_def)

lemma moved_here: "Check k s \<Longrightarrow> k \<noteq> T_kEof \<Longrightarrow> moved s0 b s \<Longrightarrow> moved s0 True (Advance s)"
  by (rule moved_Advance) (auto dest: Check_not_AtEnd)

lemma moved_Consume_here: "moved s False s \<Longrightarrow> k \<noteq> T_kEof \<Longrightarrow> moved s (Check k s) (Consume k m s)"
  using moved_Consume [of s False s k m] moved_here [of k s s False]
  by (cases "Check k s") (auto simp: Consume_here)

lemma type_args_parse:
  "parses t (n - 1) (Check T_kLt) (\<lambda>b. list_all (opt_type_ok b)) (ParseCallTypeArgs n pt)"
proof (rule parsesI)
  fix s assume s: "moved s False s" and fuel: "t \<Longrightarrow> 2 * tokens_left s \<le> n - 1"
  have s1: "moved s (Check T_kLt s) (Consume T_kLt m s)" for m
    using s by (simp add: moved_Consume_here)
  show "outcome t (ParseCallTypeArgs n pt s) (\<lambda>(x, s'). moved s (Check T_kLt s) s' \<and> list_all (opt_type_ok (ps_ok s')) x)"
    unfolding ParseCallTypeArgs_def Let_def
  proof (rule bind_pair_if, goal_cases)
    case 1
    show ?case
      by (rule parses_bind [OF comma_list_parses [OF pt _ opt_type_mono] s1])
        (use fuel_same [OF s1 fuel] in
          \<open>auto simp: list_all_iff intro: moved_weaken moved_Consume opt_type_mono dest: ok_Consume\<close>)
  next
    case 2
    then show ?case by (simp add: moved_Consume s1)
  qed
qed

lemma type_call_parses:
  assumes s: "moved s False s" and fuel: "t \<Longrightarrow> 2 * tokens_left s \<le> n - 1" and p: "Check T_kLParen s"
  shows "outcome t (ParseTypeCallExpr n pe pt s) (\<lambda>(e, s'). moved s True s' \<and> expr_result 13 (ps_ok s') e)"
proof -
  obtain s1 where m1: "Match T_kLParen s = Some s1" using p by (simp add: Match_def)
  then have s1: "moved s True s1" using moved_Match [OF m1 s] by simp
  show ?thesis
    unfolding ParseTypeCallExpr_def Let_def Consume_def [of _ _ s] m1 option.case
  proof (rule pt_bind [OF s1 fuel_same [OF s1 fuel]], assumption, unfold prod.case)
    fix target s2 assume s2: "moved s (True \<or> starts_type 0 s1) s2" "opt_type_ok (ps_ok s2) target"
    let ?s3 = "Consume T_kLParen ''expected '(' after conversion target type''
      (Consume T_kRParen ''expected ')' after conversion target type'' s2)"
    have s3: "moved s True ?s3" using s2(1) by (simp add: moved_Consume)
    have ok3: "ps_ok ?s3 \<longrightarrow> ps_ok s2" by (blast dest: ok_Consume)
    show "outcome t (call_args n pe ?s3 \<bind> (\<lambda>(args, s). span_to_previous (begin_of (Current s0)) s \<bind>
        (\<lambda>span. Some (set_e_args args (set_e_type_target target (set_e_span span (new_Expr E_kCall))), s))))
      (\<lambda>(e, s'). moved s True s' \<and> expr_result 13 (ps_ok s') e)" for s0
    proof (rule parses_bind [OF call_args_parses s3 after_pe [OF s3 fuel]], assumption, unfold prod.case)
      fix args s4 assume s4: "moved s (True \<or> False) s4" "ps_ok s4 \<longrightarrow> ps_ok ?s3" "list_all (expr_ok (ps_ok s4)) args"
      have "opt_type_ok (ps_ok s4) target" by (rule opt_type_mono [OF s2(2)]) (use s4(2) ok3 in blast)
      with s4 show "outcome t (span_to_previous (begin_of (Current s0)) s4 \<bind>
          (\<lambda>span. Some (set_e_args args (set_e_type_target target (set_e_span span (new_Expr E_kCall))), s4)))
        (\<lambda>(e, s'). moved s True s' \<and> expr_result 13 (ps_ok s') e)"
        by (intro bind_span [where s = s4]) (auto simp: opt_type_ok_def intro!: call_node_ok)
    qed
  qed
qed

lemma bare_conversion_parses:
  assumes s: "moved s False s" and fuel: "t \<Longrightarrow> 2 * tokens_left s \<le> n - 1" and p: "Check T_kIdentifier s"
  shows "outcome t (ParseBareIntegerConversionExpr n pe s)
    (\<lambda>(e, s'). moved s True s' \<and> expr_result 13 (ps_ok s') e)"
proof -
  have s1: "moved s True (Consume T_kLParen m (Advance s))" for m
    using moved_here [OF p _ s] by (simp add: moved_Consume)
  have ty: "type_ok b (set_te_name x (set_te_span y (new_TypeExpr TE_kNamed)))" for b x y
    by (subst type_ok_iff) (simp add: set_node_defs type_shape_def)
  show ?thesis
    unfolding ParseBareIntegerConversionExpr_def Let_def
  proof (rule parses_bind [OF call_args_parses s1 after_pe [OF s1 fuel]], assumption+, unfold prod.case, goal_cases)
    case (1 args s2)
    then show ?case
      by (intro bind_span [where s = s2]) (auto intro!: call_node_ok ty)
  qed
qed

lemma braced_node_parses:
  assumes s: "moved s True s1" and fuel: "t \<Longrightarrow> 2 * tokens_left s \<le> n - 1"
    and node: "\<And>fs sp s2. (ps_ok s2 \<longrightarrow> ps_ok s1) \<Longrightarrow> list_all (init_ok (ps_ok s2)) fs \<Longrightarrow> moved s True s2 \<Longrightarrow> P (g fs sp s2)"
  shows "outcome t (braced_inits n pe dotted msg s1 \<bind> (\<lambda>(inits, s).
      span_to_previous start s \<bind> (\<lambda>span. Some (g inits span s)))) P"
  by (rule parses_bind [OF braced_inits_parses s after_pe [OF s fuel]], assumption+, unfold prod.case)
    (rule bind_span, auto intro: node)

lemma type_aggregate_parses:
  assumes s: "moved s False s" and fuel: "t \<Longrightarrow> 2 * tokens_left s \<le> n - 1"
    and p: "IsTypeExprStart (tok_kind (Current s))"
  shows "outcome t (ParseTypeAggregateInitExpr n pe pt s)
    (\<lambda>(e, s'). moved s True s' \<and> expr_result 13 (ps_ok s') e)"
  unfolding ParseTypeAggregateInitExpr_def Let_def
proof (rule pt_bind [OF s fuel], assumption+, unfold prod.case)
  fix target s1 assume s1: "moved s (False \<or> starts_type 0 s) s1" "opt_type_ok (ps_ok s1) target"
  have "starts_type 0 s" using p by (simp add: starts_type_def kMaxTypeExprDepth_def)
  then have s2: "moved s True (Consume k m s1)" if "k \<noteq> T_kEof" for k m
    using s1(1) that by (simp add: moved_Consume)
  show "outcome t (braced_inits n pe False ''expected '}' after aggregate initializer''
      (Consume T_kLBrace ''expected '{' after aggregate initializer type'' s1) \<bind>
      (\<lambda>(inits, sa). span_to_previous (begin_of (Current s)) sa \<bind> (\<lambda>span. Some (set_e_field_inits inits
        (set_e_type_target target (set_e_span span (new_Expr E_kAggregateInit))), sa))))
    (\<lambda>(e, s'). moved s True s' \<and> expr_result 13 (ps_ok s') e)"
    by (rule braced_node_parses [OF s2 fuel])
      (use s1(2) in \<open>auto simp: opt_type_ok_def intro!: call_node_ok elim!: ok_list_mono dest!: ok_Consume\<close>)
qed

lemma brace_aggregate_parses:
  assumes s: "moved s False s" and fuel: "t \<Longrightarrow> 2 * tokens_left s \<le> n - 1" and p: "Check T_kLBrace s"
  shows "outcome t (ParseBraceAggregateInitExpr n pe s)
    (\<lambda>(e, s'). moved s True s' \<and> expr_result 13 (ps_ok s') e)"
  unfolding ParseBraceAggregateInitExpr_def Let_def Consume_here [OF p]
  by (rule braced_node_parses [OF moved_here [OF p _ s] fuel]) (auto intro!: node_ok)

lemma empty_collection_parses:
  assumes s: "moved s False s" and p: "Check T_kLBracket s"
  shows "outcome t (ParseEmptyCollectionExpr s) (\<lambda>(e, s'). moved s True s' \<and> expr_result 13 (ps_ok s') e)"
proof -
  have s1: "moved s True (Consume T_kRBracket m (Advance s))" for m
    using moved_here [OF p _ s] by (simp add: moved_Consume)
  show ?thesis
    unfolding ParseEmptyCollectionExpr_def Let_def Consume_here [OF p]
    by (rule bind_span [OF s1]) (auto intro!: node_ok s1)
qed

lemma outcome_moved:
  "outcome t m (\<lambda>(e, s'). moved s True s' \<and> R (ps_ok s') e) \<Longrightarrow>
     outcome t m (\<lambda>(e, s'). moved s b s' \<and> R (ps_ok s') e)"
  by (erule outcome_mono) (auto intro: moved_weaken)

lemma primary_parses: "parses t (n - 1) not_at_end (expr_result 13) (ParsePrimaryExpr n pe)"
proof (rule parsesI)
  fix s assume s: "moved s False s" and fuel: "t \<Longrightarrow> 2 * tokens_left s \<le> n - 1"
  show "outcome t (ParsePrimaryExpr n pe s) (\<lambda>(e, s'). moved s (not_at_end s) s' \<and> expr_result 13 (ps_ok s') e)"
    unfolding ParsePrimaryExpr_def Let_def
  proof (intro outcome_if, goal_cases)
    case 1
    then show ?case by (intro outcome_moved [OF empty_collection_parses [OF s]]) simp
  next
    case 2
    then show ?case by (intro outcome_moved [OF brace_aggregate_parses [OF s fuel]]) simp_all
  next
    case 3
    then have "\<not> AtEnd s" by (auto simp: IsLiteral_def AtEnd_def)
    then show ?case using moved_Advance [OF s] by (simp add: node_ok)
  next
    case 4
    show ?case
    proof (rule case_Match [OF s], goal_cases)
      case (2 s1)
      then show ?case by (auto intro!: node_ok intro: moved_weaken)
    next
      case 3
      show ?case
      proof (rule case_Match [OF s], goal_cases)
        case (2 s1)
        show ?case
        proof (rule bind_Previous [OF 2(2)], simp, rule pe_bind [OF 2(2) after_pe [OF 2(2) fuel]],
            assumption+, unfold prod.case, goal_cases)
          case (1 p inner s2)
          have s3: "moved s True (Consume T_kRParen m s2)" for m
            using 1(2) by (simp add: moved_Consume)
          show ?case
            by (rule bind_span [OF s3], simp)
              (use 1 in \<open>auto intro: moved_weaken [OF s3] intro!: node_ok elim!: ok_mono dest: ok_Consume\<close>)
        qed
      next
        case 3
        show ?case
          using moved_Advance [OF moved_ReportError [OF s]] moved_ReportError [OF s]
          by (auto intro!: node_ok intro: moved_weaken simp: AtEnd_def Current_def ReportError_def ReportAt_def)
      qed simp
    qed simp
  qed
qed

abbreviation pair_ok :: "ParseState \<Rightarrow> Expr \<times> ParseState \<Rightarrow> bool" where
  "pair_ok s r \<equiv> (case r of (e, s') \<Rightarrow> moved s True s' \<and> expr_result 13 (ps_ok s') e)"

lemma postfix_dot_parses:
  assumes s: "moved s True s1" and e: "expr_result 13 (ps_ok s1) e"
  shows "outcome t (postfix_dot e s1) (pair_ok s)"
proof -
  have prec: "expr_prec e = 13"
    using e by (simp add: prec_13)
  have core: "outcome t (Previous s2 \<bind> (\<lambda>p.
       if (e_kind e = E_kName \<or> e_kind e = E_kQualifiedName) \<and> tok_kind p = T_kIdentifier
       then Some (set_e_type_args (e_type_args e) (set_e_secondary_text nm (set_e_text tx
         (set_e_span (f p) (new_Expr E_kQualifiedName)))), s2)
       else Some (set_e_left (Some e) (set_e_text nm (set_e_span (f p) (new_Expr E_kField))), s2)))
     (pair_ok s)"
    if s2: "moved s True s2" "ps_ok s2 \<longrightarrow> ps_ok s1" for s2 nm tx f
  proof -
    have e2: "expr_ok (ps_ok s2) e" using e s2(2) by (blast intro: ok_mono)
    show ?thesis
      by (rule bind_Previous [OF s2(1)])
        (use s2 e2 prec in \<open>auto intro!: base_node_ok(1) postfix_node_ok\<close>)
  qed
  show ?thesis
    unfolding postfix_dot_def Let_def
    using core [of "Advance s1"] core [of "ReportError (Current s1) m s1" for m] s
    by (cases "Check T_kIdentifier s1 \<or> Check T_kIntLiteral s1")
      (simp_all add: moved_Advance_le moved_ReportError)
qed

lemma slice_end_parses:
  assumes s: "moved s True s1" and fuel: "t \<Longrightarrow> 2 * tokens_left s \<le> n - 1"
  shows "outcome t (slice_end pe s1)
    (\<lambda>(x, s'). moved s True s' \<and> (ps_ok s' \<longrightarrow> ps_ok s1) \<and> pred_option (expr_ok (ps_ok s')) x)"
  unfolding slice_end_def bind_assoc
proof (cases "Check T_kRBracket s1")
  case False
  then show "outcome t ((if \<not> Check T_kRBracket s1
        then pe True s1 \<bind> (\<lambda>(x, s). Some (Some x, s)) else Some (None, s1)) \<bind>
      (\<lambda>(extra, s). Some (extra, Consume T_kRBracket ''expected ']' after slice expression'' s)))
    (\<lambda>(x, s'). moved s True s' \<and> (ps_ok s' \<longrightarrow> ps_ok s1) \<and> pred_option (expr_ok (ps_ok s')) x)"
    apply (simp only: if_True bind_assoc not_False_eq_True)
    by (rule pe_bind [OF s after_pe [OF s fuel]], assumption+)
      (auto intro: moved_Consume elim: ok_mono dest: ok_Consume)
qed (use s in \<open>auto simp: moved_Consume dest: ok_Consume\<close>)

lemma postfix_index_parses:
  assumes s: "moved s True s1" and fuel: "t \<Longrightarrow> 2 * tokens_left s \<le> n - 1"
    and e: "expr_result 13 (ps_ok s1) e"
  shows "outcome t (postfix_index pe e s1) (pair_ok s)"
proof -
  have prec: "expr_prec e = 13" using e by (simp add: prec_13)
  let ?node = "\<lambda>(node, s2). moved s True s2 \<and> e_kind node \<in> {E_kSlice, E_kIndex} \<and>
      (\<forall>sp. expr_ok (ps_ok s2) (set_e_left (Some e) (set_e_span sp node)))"
  have slice: "outcome t (slice_end pe s2 \<bind> (\<lambda>(extra, s). Some (set_e_extra extra nd, s))) ?node"
    if s2: "moved s True s2" "ps_ok s2 \<longrightarrow> ps_ok s1" and nd: "nd = new_Expr E_kSlice \<or>
      (\<exists>r. nd = set_e_right (Some r) (new_Expr E_kSlice) \<and> expr_ok (ps_ok s2) r)" for s2 nd
    by (rule outcome_bind [OF slice_end_parses [OF s2(1) fuel]], assumption)
      (use nd s2 e prec in \<open>auto intro!: postfix_node_ok elim: ok_mono\<close>)
  show ?thesis
    unfolding postfix_index_def
  proof (rule outcome_bind [where P = ?node], rule case_Match [OF s], goal_cases)
    case (2 s2)
    then show ?case by (intro slice) auto
  next
    case 3
    show ?case
    proof (rule pe_bind [OF s after_pe [OF s fuel]], assumption+, unfold prod.case, goal_cases)
      case (1 first s2)
      then have s2: "moved s True s2" by simp
      show ?case
      proof (rule case_Match [OF s2], goal_cases)
        case (2 s3)
        then show ?case using 1 by (intro slice) auto
      next
        case 3
        then show ?case using 1 e prec
          by (auto intro!: postfix_node_ok moved_Consume elim!: ok_mono dest: ok_Consume)
      qed simp
    qed
  next
    case (4 r)
    then show ?case by (cases r) (auto intro!: bind_span [where b = True] simp: moved_True)
  qed simp
qed

lemma outcome_Inl:
  "outcome t m P \<Longrightarrow> outcome t (map_option Inl m) (\<lambda>r. case r of Inl z \<Rightarrow> P z | Inr z \<Rightarrow> Q z)"
  by (cases m) auto

abbreviation step_ok :: "ParseState \<Rightarrow> (Expr \<times> ParseState) + (Expr \<times> ParseState) \<Rightarrow> bool" where
  "step_ok s r \<equiv> (case r of Inl z \<Rightarrow> pair_ok s z
    | Inr (e, s') \<Rightarrow> moved s False s' \<and> expr_result 13 (ps_ok s') e)"

lemma postfix_step_parses:
  assumes s: "moved s False s" and fuel: "t \<Longrightarrow> 2 * tokens_left s \<le> n - 1"
    and e: "expr_result 13 (ps_ok s) e"
  shows "outcome t (postfix_step n pe pt (e, s)) (step_ok s)"
proof -
  have prec: "expr_prec e = 13" using e by (simp add: prec_13)
  have e': "expr_ok b e" if "b \<longrightarrow> ps_ok s" for b using e that by (blast intro: ok_mono)
  show ?thesis
    unfolding postfix_step_def prod.case Let_def
  proof (rule case_Match [OF s], goal_cases)
    case (2 s1)
    then show ?case using e by (intro outcome_Inl postfix_dot_parses) auto
  next
    case 3
    show ?case
    proof (rule case_Match [OF s], goal_cases)
      case (2 s1)
      then show ?case using e prec by (intro bind_span [OF 2(2)]) (auto intro!: postfix_node_ok)
    next
      case 3
      show ?case
      proof (rule case_Match [OF s], goal_cases)
        case (2 s1)
        then show ?case using e fuel by (intro outcome_Inl postfix_index_parses) auto
      next
        case 3
        show ?case
        proof (rule outcome_if, goal_cases)
          case 1
          then have lt: "Check T_kLt s" by (simp add: LooksLikePostfixTypeArgs_def split: if_splits)
          show ?case
            by (rule parses_bind [OF type_args_parse s fuel], assumption, unfold prod.case)
              (use lt e prec in \<open>auto simp: opt_types_split intro!: type_args_node_ok e'\<close>)
        next
          case 2
          show ?case
          proof (rule case_Match [OF s], goal_cases)
            case (2 s1)
            show ?case
              by (rule parses_bind [OF call_args_parses 2(2) after_pe [OF 2(2) fuel]], assumption+,
                  unfold prod.case, rule bind_span)
                (use 2 prec in \<open>auto intro!: postfix_node_ok e'\<close>)
          next
            case 3
            show ?case
            proof (rule outcome_if, goal_cases)
              case 1
              then have "moved s True (Advance s)" by (intro moved_here [OF _ _ s]) auto
              then show ?case
                by (rule braced_node_parses [OF _ fuel])
                  (use 1 in \<open>auto intro!: base_node_ok(2) e' simp: IsAggregateInitBase_def\<close>)
            next
              case 2
              show ?case
              proof (rule case_Match [OF s], goal_cases)
                case (2 s1)
                have "moved s True (Consume T_kLBrace m s1)" for m
                  using 2(2) by (simp add: moved_Consume)
                then show ?case
                  by (rule braced_node_parses [OF _ fuel])
                    (use 2 prec in \<open>auto intro!: postfix_node_ok e' dest!: ok_Consume\<close>)
              qed (use s e in auto)
            qed
          qed simp
        qed
      qed simp
    qed simp
  qed simp
qed

lemma postfix_parses: "parses t (n - 1) not_at_end (expr_result 13) (ParsePostfixExpr n pe pt)"
  unfolding ParsePostfixExpr_def
proof (rule parsesI, rule parses_bind [OF primary_parses], assumption+, unfold prod.case)
  fix s e s1
  assume s: "moved s False s" and fuel: "t \<Longrightarrow> 2 * tokens_left s \<le> n - 1"
    and s1: "moved s (False \<or> not_at_end s) s1" and e: "expr_result 13 (ps_ok s1) e"
  have "outcome t (fuel_loop n (postfix_step n pe pt) (e, s1))
    (\<lambda>(x, s'). moved s (not_at_end s) s' \<and> (\<lambda>s' x. expr_result 13 (ps_ok s') x) s' x)"
  proof (rule loop_parses [where I = "\<lambda>s' x. expr_result 13 (ps_ok s') x"])
    show "moved s (not_at_end s) s1" using s1 by simp
    show "tokens_left s1 < n" if t by (rule after_loop [OF s1 fuel that]) (rule that)
    show "expr_result 13 (ps_ok s1) e" by (rule e)
    fix e2 s2
    assume s2: "moved s2 False s2" "expr_result 13 (ps_ok s2) e2" "tokens_left s2 \<le> tokens_left s1"
    have "2 * tokens_left s2 \<le> n - 1" if t
      using fuel [OF that] s2(3) moved_left_le [OF s1] by linarith
    from postfix_step_parses [OF s2(1) this s2(2)]
    show "outcome t (postfix_step n pe pt (e2, s2))
      (\<lambda>r. case r of Inl (acc', s3) \<Rightarrow> moved s2 True s3 \<and> expr_result 13 (ps_ok s3) acc'
        | Inr (x, s3) \<Rightarrow> moved s2 False s3 \<and> expr_result 13 (ps_ok s3) x)"
      by (rule outcome_mono) (auto split: sum.splits)
  qed
  then show "outcome t (fuel_loop n (postfix_step n pe pt) (e, s1))
    (\<lambda>(x, s'). moved s (not_at_end s) s' \<and> expr_result 13 (ps_ok s') x)"
    by simp
qed

lemma unary_parses: "parses t (n - 1) not_at_end (expr_result 12) (ParseUnaryExpr n pe pt)"
proof (rule parsesI)
  fix s assume s: "moved s False s" and fuel: "t \<Longrightarrow> 2 * tokens_left s \<le> n - 1"
  have weak: "outcome t m (\<lambda>(e, s'). moved s (not_at_end s) s' \<and> expr_result 12 (ps_ok s') e)"
    if "outcome t m (\<lambda>(e, s'). moved s True s' \<and> expr_result 13 (ps_ok s') e)" for m
    by (rule outcome_mono [OF that]) (auto intro: moved_weaken)
  show "outcome t (ParseUnaryExpr n pe pt s) (\<lambda>(e, s'). moved s (not_at_end s) s' \<and> expr_result 12 (ps_ok s') e)"
    unfolding ParseUnaryExpr_def
  proof (intro outcome_if, goal_cases)
    case 1
    then show ?case
      by (intro weak bare_conversion_parses s fuel) (simp_all add: LooksLikeBareIntegerConversionExpr_def)
  next
    case 2
    then show ?case
      by (intro weak type_call_parses s fuel) (simp_all add: LooksLikeTypeCallExpr_def split: if_splits)
  next
    case 3
    then show ?case
      by (intro weak type_aggregate_parses s fuel)
        (simp_all add: LooksLikeTypeAggregateInitExpr_def split: if_splits)
  next
    case 4
    obtain ops s1 where ops: "prefix_operators [] s = (ops, s1)" by fastforce
    have s1: "moved s (IsPrefixUnaryOperator (tok_kind (Current s))) s1" and ok: "prefix_ops ops"
      using prefix_operators_moved [OF s, of "[]"] by (simp_all add: ops prefix_ops_def)
    have same: "s1 = s" if "\<not> IsPrefixUnaryOperator (tok_kind (Current s))"
      using ops that by (simp add: prefix_operators.simps [of "[]" s])
    show ?case
      unfolding ops Let_def prod.case
      by (rule parses_bind [OF postfix_parses s1 fuel_same [OF s1 fuel]], assumption+)
        (use ok same in \<open>auto simp: prefix_ops_def unary_nodes_ok intro: moved_weaken\<close>)
  qed
qed

lemma binary_level_parses:
  assumes operand: "parses t (n - 1) not_at_end (expr_result q) p" and ops: "level_ops l ops" and "l < q"
  shows "parses t (n - 1) not_at_end (expr_result l) (binary_level ops n p)"
  unfolding binary_level_def
proof (rule parsesI, rule parses_bind [OF operand], assumption+, unfold prod.case)
  fix s e s1
  assume s: "moved s False s" and fuel: "t \<Longrightarrow> 2 * tokens_left s \<le> n - 1"
    and s1: "moved s (False \<or> not_at_end s) s1" and e: "expr_result q (ps_ok s1) e"
  have eof: "T_kEof \<notin> set ops" using ops by (auto simp: level_ops_def list_all_iff)
  have "outcome t (fuel_loop n (binary_step ops p) (e, s1))
    (\<lambda>(x, s'). moved s (not_at_end s) s' \<and> (\<lambda>s' x. expr_result l (ps_ok s') x) s' x)"
  proof (rule loop_parses [where I = "\<lambda>s' x. expr_result l (ps_ok s') x"])
    show "moved s (not_at_end s) s1" using s1 by simp
    show "tokens_left s1 < n" if t by (rule after_loop [OF s1 fuel that]) (rule that)
    show "expr_result l (ps_ok s1) e" using e \<open>l < q\<close> by simp
    fix e2 s2
    assume s2: "moved s2 False s2" and e2: "expr_result l (ps_ok s2) e2" and left: "tokens_left s2 \<le> tokens_left s1"
    have fuel2: "2 * tokens_left s2 \<le> n - 1" if t
      using fuel [OF that] left moved_left_le [OF s1] by linarith
    show "outcome t (binary_step ops p (e2, s2))
      (\<lambda>r. case r of Inl (acc', s3) \<Rightarrow> moved s2 True s3 \<and> expr_result l (ps_ok s3) acc'
        | Inr (x, s3) \<Rightarrow> moved s2 False s3 \<and> expr_result l (ps_ok s3) x)"
      unfolding binary_step_def prod.case
    proof (rule case_match_any [OF s2 eof], goal_cases)
      case (1 s3)
      then have op: "(ToString_kind (tok_kind (Current s2)), l) \<in> set binary_operators"
        using ops by (auto simp: level_ops_def list_all_iff)
      show ?case
        unfolding 1(4) Option.bind.simps
        by (rule parses_bind [OF operand 1(2) fuel_same [OF 1(2) fuel2]], assumption+)
          (use 1 e2 op \<open>l < q\<close> in \<open>auto intro!: binary_node_ok elim: ok_mono simp: binary_prec_op\<close>)
    next
      case 2
      then show ?case using s2 e2 by simp
    qed
  qed
  then show "outcome t (fuel_loop n (binary_step ops p) (e, s1))
    (\<lambda>(x, s'). moved s (not_at_end s) s' \<and> expr_result l (ps_ok s') x)"
    by simp
qed

lemma multiplicative_parses: "parses t (n - 1) not_at_end (expr_result 11) (ParseMultiplicativeExpr n pe pt)"
  unfolding ParseMultiplicativeExpr_def
  by (rule binary_level_parses [OF unary_parses]) (simp_all add: level_ops_def binary_operators_def)

lemma additive_parses: "parses t (n - 1) not_at_end (expr_result 10) (ParseAdditiveExpr n pe pt)"
  unfolding ParseAdditiveExpr_def
  by (rule binary_level_parses [OF multiplicative_parses]) (simp_all add: level_ops_def binary_operators_def)

lemma shift_parses: "parses t (n - 1) not_at_end (expr_result 9) (ParseShiftExpr n pe pt)"
  unfolding ParseShiftExpr_def
  by (rule binary_level_parses [OF additive_parses]) (simp_all add: level_ops_def binary_operators_def)

lemma relational_parses: "parses t (n - 1) not_at_end (expr_result 8) (ParseRelationalExpr n pe pt)"
  unfolding ParseRelationalExpr_def
  by (rule binary_level_parses [OF shift_parses]) (simp_all add: level_ops_def binary_operators_def)

lemma equality_parses: "parses t (n - 1) not_at_end (expr_result 7) (ParseEqualityExpr n pe pt)"
  unfolding ParseEqualityExpr_def
  by (rule binary_level_parses [OF relational_parses]) (simp_all add: level_ops_def binary_operators_def)

lemma is_parses: "parses t (n - 1) not_at_end (expr_result 6) (ParseIsExpr n pe pt)"
  unfolding ParseIsExpr_def
proof (rule parsesI, rule parses_bind [OF equality_parses], assumption+, unfold prod.case)
  fix s e s1
  assume s: "moved s False s" and fuel: "t \<Longrightarrow> 2 * tokens_left s \<le> n - 1"
    and s1: "moved s (False \<or> not_at_end s) s1" and e: "expr_result 7 (ps_ok s1) e"
  show "outcome t (case Match T_kIs s1 of None \<Rightarrow> Some (e, s1)
      | Some s \<Rightarrow> Previous s \<bind> (\<lambda>op. ParseEqualityExpr n pe pt s \<bind> (\<lambda>(r, s). Some (binary_node op e r, s))))
    (\<lambda>(x, s'). moved s (not_at_end s) s' \<and> expr_result 6 (ps_ok s') x)"
  proof (rule case_Match [OF s1], goal_cases)
    case (2 s2)
    then have op: "(ToString_kind (tok_kind (Current s1)), 6) \<in> set binary_operators"
      by (simp add: Check_def binary_operators_def)
    show ?case
      unfolding 2(4) Option.bind.simps
      by (rule parses_bind [OF equality_parses 2(2) fuel_same [OF 2(2) fuel]], assumption+)
        (use 2 e op in \<open>auto intro!: binary_node_ok elim: ok_mono simp: binary_prec_op intro: moved_weaken\<close>)
  qed (use s1 e in auto)
qed

lemma bitand_parses: "parses t (n - 1) not_at_end (expr_result 5) (ParseBitwiseAndExpr n pe pt)"
  unfolding ParseBitwiseAndExpr_def
  by (rule binary_level_parses [OF is_parses]) (simp_all add: level_ops_def binary_operators_def)

lemma bitxor_parses: "parses t (n - 1) not_at_end (expr_result 4) (ParseBitwiseXorExpr n pe pt)"
  unfolding ParseBitwiseXorExpr_def
  by (rule binary_level_parses [OF bitand_parses]) (simp_all add: level_ops_def binary_operators_def)

lemma bitor_parses: "parses t (n - 1) not_at_end (expr_result 3) (ParseBitwiseOrExpr n pe pt)"
  unfolding ParseBitwiseOrExpr_def
  by (rule binary_level_parses [OF bitxor_parses]) (simp_all add: level_ops_def binary_operators_def)

lemma and_parses: "parses t (n - 1) not_at_end (expr_result 2) (ParseLogicalAndExpr n pe pt)"
  unfolding ParseLogicalAndExpr_def
  by (rule binary_level_parses [OF bitor_parses]) (simp_all add: level_ops_def binary_operators_def)

lemma or_parses: "parses t (n - 1) not_at_end (expr_result 1) (ParseLogicalOrExpr n pe pt)"
  unfolding ParseLogicalOrExpr_def
  by (rule binary_level_parses [OF and_parses]) (simp_all add: level_ops_def binary_operators_def)

lemma range_node_ok:
  assumes "expr_ok b e" "e_kind e = E_kBinary" "e_text e = ''..''"
  shows "expr_ok b (set_e_kind E_kRange e)"
proof -
  note e = expr_ok_iff [THEN iffD1, OF assms(1)]
  have "binary_prec ''..'' = 0" by (simp add: binary_prec_def binary_operators_def)
  with e assms(2,3) show ?thesis
    by (subst expr_ok_iff) (simp add: set_node_defs)
qed

lemma range_parses: "parses t (n - 1) not_at_end expr_ok (ParseRangeExpr n pe pt)"
proof -
  have "parses t (n - 1) not_at_end (expr_result 0) (binary_level [T_kRange] n (ParseLogicalOrExpr n pe pt))"
    by (rule binary_level_parses [OF or_parses]) (simp_all add: level_ops_def binary_operators_def)
  then show ?thesis
    unfolding ParseRangeExpr_def
    by (intro parsesI) (rule parses_bind, assumption+, auto intro: range_node_ok)
qed

lemma moved_guard:
  "moved (s\<lparr>ps_allow_aggregate_init := a\<rparr>) b s' \<Longrightarrow>
     moved s b (s'\<lparr>ps_allow_aggregate_init := ps_allow_aggregate_init s\<rparr>)"
  by (auto simp: moved_def ps_wf_def in_bounds_def)

lemma entry_parses: "parses t (n - 1) not_at_end expr_ok (expr_entry n pe pt a)"
proof (rule parsesI)
  fix s assume s: "moved s False s" and fuel: "t \<Longrightarrow> 2 * tokens_left s \<le> n - 1"
  let ?s = "s\<lparr>ps_allow_aggregate_init := a\<rparr>"
  have s': "moved ?s False ?s" using s by (simp add: moved_def ps_wf_def in_bounds_def)
  show "outcome t (expr_entry n pe pt a s) (\<lambda>(x, s'). moved s (not_at_end s) s' \<and> expr_ok (ps_ok s') x)"
    unfolding expr_entry_def
  proof (rule parses_bind [OF range_parses s'], goal_cases)
    case 1
    then show ?case using fuel by (simp add: tokens_left_def)
  next
    case (2 e s1)
    then show ?case
      using moved_guard [where s = s and a = a and s' = s1 and b = "not_at_end s"] by (simp add: AtEnd_def Current_def)
  qed
qed

section \<open>Types\<close>

lemma after_pt: "moved s True s' \<Longrightarrow> (t \<Longrightarrow> 2 * tokens_left s \<le> n) \<Longrightarrow> t \<Longrightarrow> 2 * tokens_left s' \<le> n - 1"
  using fuel_after [of s s' t n] by fastforce

lemma type_list_parses:
  assumes "moved s True s1" "t \<Longrightarrow> 2 * tokens_left s \<le> n" "k \<noteq> T_kEof"
    and "\<And>xs s2. moved s True s2 \<Longrightarrow> (ps_ok s2 \<longrightarrow> ps_ok s1) \<Longrightarrow> list_all (opt_type_ok (ps_ok s2)) xs \<Longrightarrow>
      outcome t (g (xs, s2)) Q"
  shows "outcome t ((if \<not> Check k s1 then comma_list n (pt d) s1 else Some ([], s1)) \<bind> g) Q"
proof (rule bind_pair_if)
  have "parses t (n - 1) (starts_type d) (\<lambda>b. list_all (opt_type_ok b)) (comma_list n (pt d))"
    by (rule comma_list_parses [OF pt _ opt_type_mono]) simp
  then show "outcome t (comma_list n (pt d) s1 \<bind> g) Q"
    by (rule parses_bind [OF _ assms(1) after_pt [OF assms(1,2)]]) (simp_all add: assms(4))
  show "outcome t (g ([], s1)) Q" using assms(1) by (intro assms(4)) simp_all
qed

lemma params_parse:
  assumes "moved s True s1" "t \<Longrightarrow> 2 * tokens_left s \<le> n"
  shows "outcome t (ParseProcedureParamTypes n pt d s1)
    (\<lambda>(xs, s2). moved s True s2 \<and> (ps_ok s2 \<longrightarrow> ps_ok s1) \<and> list_all (opt_type_ok (ps_ok s2)) xs)"
  unfolding ParseProcedureParamTypes_def Let_def
  by (rule type_list_parses [OF moved_Consume [OF assms(1)] assms(2)])
    (auto intro: moved_Consume opt_type_mono simp: list_all_iff dest: ok_Consume)

lemma returns_parse:
  assumes "moved s True s1" "t \<Longrightarrow> 2 * tokens_left s \<le> n"
  shows "outcome t (ParseProcedureReturnTypes n pt d s1)
    (\<lambda>(xs, s2). moved s True s2 \<and> (ps_ok s2 \<longrightarrow> ps_ok s1) \<and> list_all (opt_type_ok (ps_ok s2)) xs)"
  unfolding ParseProcedureReturnTypes_def
proof (intro outcome_if, goal_cases)
  case 1
  then show ?case using assms(1) by simp
next
  case 2
  show ?case
  proof (rule case_Match [OF assms(1)], goal_cases)
    case (2 s2)
    show ?case
      by (rule type_list_parses [OF 2(2) assms(2)])
        (use 2 in \<open>auto intro: moved_Consume opt_type_mono simp: list_all_iff dest: ok_Consume\<close>)
  next
    case 3
    show ?case
      by (rule pt_bind [OF assms(1) after_pt [OF assms]], assumption+) simp
  qed simp
qed

lemma dotted_type_name_moved: "moved s b s' \<Longrightarrow> moved s b (snd (dotted_type_name nm s'))"
proof (induction nm s' rule: dotted_type_name.induct)
  case (1 nm s')
  have id: "moved s b (snd (ParseIdentifier m s1))" if "moved s b s1" for m s1
    using that by (auto simp: ParseIdentifier_def intro: moved_intros)
  show ?case
    using 1 by (subst dotted_type_name.simps)
      (auto simp: Let_def intro: id moved_Advance_le split: option.splits)
qed

lemma type_node_ok:
  "opt_type_ok b inn \<Longrightarrow> k = TE_kConst \<or> k = TE_kPointer \<or> k = TE_kParen \<Longrightarrow>
     type_ok b (set_te_inner inn (set_te_span sp (new_TypeExpr k)))"
  "list_all (opt_type_ok b) ps \<Longrightarrow> list_all (opt_type_ok b) rs \<Longrightarrow>
     type_ok b (set_te_returns rs (set_te_params ps (set_te_span sp (new_TypeExpr TE_kProcedure))))"
  "opt_type_ok b inn \<Longrightarrow> expr_ok b len \<Longrightarrow>
     type_ok b (set_te_inner inn (set_te_length_expr (Some len) (set_te_span sp (new_TypeExpr TE_kArray))))"
  "list_all (opt_type_ok b) as \<Longrightarrow>
     type_ok b (set_te_type_args as (set_te_name nm (set_te_span sp (new_TypeExpr TE_kNamed))))"
  by (subst type_ok_iff, auto simp: set_node_defs type_shape_def opt_type_ok_def opt_types_split
      all_types_id_map pred_option_id_map)+

lemma type_entry_parses: "parses t n (starts_type d) opt_type_ok (type_entry n pe pt d)"
proof (rule parsesI)
  fix s assume s: "moved s False s" and fuel: "t \<Longrightarrow> 2 * tokens_left s \<le> n"
  have weak: "outcome t m (\<lambda>(x, s'). moved s (starts_type d s) s' \<and> opt_type_ok (ps_ok s') x)"
    if "outcome t m (\<lambda>(x, s'). moved s True s' \<and> opt_type_ok (ps_ok s') x)" for m
    by (rule outcome_mono [OF that]) (auto intro: moved_weaken)
  have inner: "outcome t (pt (d + 1) s1 \<bind> (\<lambda>(x, s). end_of_type x s \<bind> (\<lambda>e. Some (Some (g x e), s))))
      (\<lambda>(x, s'). moved s True s' \<and> opt_type_ok (ps_ok s') x)"
    if s1: "moved s True s1" and "\<And>x e b. (b \<longrightarrow> ps_ok s1) \<Longrightarrow> opt_type_ok b x \<Longrightarrow> type_ok b (g x e)"
    for s1 g
    by (rule pt_bind [OF s1 after_pt [OF s1 fuel]], assumption+, unfold prod.case, rule bind_end_of_type)
      (use that in auto)
  show "outcome t (type_entry n pe pt d s) (\<lambda>(x, s'). moved s (starts_type d s) s' \<and> opt_type_ok (ps_ok s') x)"
    unfolding type_entry_def
  proof (rule outcome_if, goal_cases)
    case 1
    then show ?case using s by (simp add: starts_type_def opt_type_ok_def moved_ReportError)
  next
    case 2
    show ?case
    proof (rule case_match_any [OF s], goal_cases)
      case (2 s1)
      then show ?case
        unfolding 2(4) Option.bind.simps by (intro weak inner) (auto intro!: type_node_ok)
    next
      case 3
      note no_const = this
      show ?case
      proof (rule case_Match [OF s], goal_cases)
        case (2 s1)
        show ?case
          unfolding 2(4) Option.bind.simps
          by (rule weak, rule outcome_bind [OF params_parse [OF 2(2) fuel]], assumption, unfold case_prod_unfold,
              rule outcome_bind [OF returns_parse [OF _ fuel]], simp, assumption, unfold case_prod_unfold, rule bind_span)
            (auto intro!: type_node_ok elim!: opt_types_mono)
      next
        case 3
        show ?case
        proof (rule case_Match [OF s], goal_cases)
          case (2 s1)
          show ?case
            unfolding 2(4) Option.bind.simps
          proof (rule weak, rule pe_bind [OF 2(2) fuel_after [OF 2(2) fuel]], assumption+, unfold prod.case Let_def, goal_cases)
            case (1 len s2)
            then show ?case
              by (intro inner moved_Consume) (auto intro!: type_node_ok elim!: ok_mono dest: ok_Consume)
          qed
        next
          case 3
          show ?case
          proof (rule case_Match [OF s], goal_cases)
            case (2 s1)
            show ?case
              unfolding 2(4) Option.bind.simps
            proof (rule weak, rule pt_bind [OF 2(2) after_pt [OF 2(2) fuel]], assumption+, unfold prod.case Let_def, goal_cases)
              case (1 inn s2)
              have s3: "moved s True (Consume T_kRParen m s2)" for m using 1(1) by (simp add: moved_Consume)
              show ?case
                by (rule bind_span [OF s3], simp)
                  (use 1 s3 in \<open>auto intro!: type_node_ok elim!: opt_type_mono dest: ok_Consume\<close>)
            qed
          next
            case 3
            show ?case
            proof (rule outcome_if, goal_cases)
              case 1
              then have "\<not> starts_type d s"
                using no_const \<open>\<not> Check T_kFunc s\<close> \<open>\<not> Check T_kLBracket s\<close> \<open>\<not> Check T_kLParen s\<close>
                by (auto simp: starts_type_def IsTypeExprStart_def Check_def)
              then show ?case using s by (simp add: opt_type_ok_def moved_ReportError)
            next
              case 2
              obtain nm s1 where nm: "dotted_type_name (tok_lexeme (Current s)) (Advance s) = (nm, s1)"
                by fastforce
              have s1: "moved s True s1"
                using dotted_type_name_moved [OF moved_here [OF _ _ s], of T_kIdentifier "tok_lexeme (Current s)"] 2
                by (simp add: nm)
              show ?case
                unfolding nm Let_def prod.case
              proof (rule weak, rule outcome_bind [where P = "\<lambda>(as, s2). moved s True s2 \<and> list_all (opt_type_ok (ps_ok s2)) as"],
                  rule case_Match [OF s1], goal_cases)
                case (2 s2)
                show ?case
                  by (rule type_list_parses [OF 2(2) fuel])
                    (auto intro: moved_Consume elim!: opt_types_mono dest: ok_Consume)
              next
                case (4 r)
                then show ?case
                  by (cases r) (auto intro!: bind_span [where b = True] type_node_ok)
              qed (use s1 in simp_all)
            qed
          qed simp
        qed simp
      qed simp
    qed simp
  qed
qed

end

section \<open>The entry points\<close>

lemma ParseExpr_Suc: "ParseExpr (Suc n) = expr_entry n (ParseExpr n) (ParseTypeExpr n)"
  by (simp add: ParseExpr_def ParseTypeExpr_def Let_def split_beta)

lemma ParseTypeExpr_Suc: "ParseTypeExpr (Suc n) = type_entry n (ParseExpr n) (ParseTypeExpr n)"
  by (simp add: ParseExpr_def ParseTypeExpr_def Let_def split_beta)

lemma no_fuel_parses:
  assumes "\<And>s. p s = None" "F \<le> 1" shows "parses t F A R p"
proof (rule parsesI)
  fix s assume "moved s False s" "t \<Longrightarrow> 2 * tokens_left s \<le> F"
  with left_positive [of s False s] assms show "outcome t (p s) (\<lambda>(x, s'). moved s (A s) s' \<and> R (ps_ok s') x)"
    by fastforce
qed

lemma expr_context_fuel: "expr_context t n (ParseExpr n) (ParseTypeExpr n)"
proof (induction n)
  case 0
  show ?case
    by unfold_locales (simp_all add: no_fuel_parses ParseExpr_def ParseTypeExpr_def)
next
  case (Suc n)
  show ?case
    using expr_context.entry_parses [OF Suc.IH] expr_context.type_entry_parses [OF Suc.IH]
    by unfold_locales (simp_all add: ParseExpr_Suc ParseTypeExpr_Suc)
qed

interpretation parser: expr_context t n "ParseExpr n" "ParseTypeExpr n" for t n
  by (rule expr_context_fuel)

end
