(* ===== verification/MC_StmtShape.thy ===== *)
theory MC_StmtShape
  imports MC_ParserStmt MC_ParserExprSpec
begin

text \<open>
  The shape of statements: which members of \<open>Stmt\<close> are set for each kind. \<open>stmt_ok b st\<close> holds of a
  statement whose parts all have their shape; \<open>b\<close> is set when the parser has reported nothing, and
  the parts it leaves out after an error must then be there.
\<close>

definition pattern_ok :: "NamePattern \<Rightarrow> bool" where
  "pattern_ok p \<longleftrightarrow> list_all2 (\<lambda>name discard. discard \<longrightarrow> name = ''_'') (np_names p) (np_discards p)"

definition binding_ok :: "bool \<Rightarrow> bool \<Rightarrow> NamePattern \<Rightarrow> TypeExpr option \<Rightarrow> bool \<Rightarrow> Expr list \<Rightarrow> bool" where
  \<comment> \<open>A binding that needs an initialiser (\<open>needs_init\<close>) has one, and any other a type or one.\<close>
  "binding_ok needs_init b p ty has_init es \<longleftrightarrow>
     pattern_ok p \<and> (b \<longrightarrow> np_names p \<noteq> []) \<and> pred_option (type_ok b) ty \<and> list_all (expr_ok b) es \<and>
     (has_init \<longleftrightarrow> es \<noteq> []) \<and> (b \<longrightarrow> has_init \<or> \<not> needs_init \<and> ty \<noteq> None)"

definition case_pattern_ok :: "bool \<Rightarrow> CasePattern \<Rightarrow> bool" where
  "case_pattern_ok b p \<longleftrightarrow>
     (case cp_kind p of
        CP_kExpr \<Rightarrow> cp_expr p \<noteq> None \<and> cp_bindings p = []
      | CP_kVariant \<Rightarrow> cp_expr p = None) \<and> pred_option (expr_ok b) (cp_expr p)"

definition one_expr :: "Stmt \<Rightarrow> bool" where
  "one_expr st \<longleftrightarrow> length (s_exprs st) = 1"

definition body_kind :: "StmtKind set \<Rightarrow> Stmt option \<Rightarrow> bool" where
  "body_kind ks x \<longleftrightarrow> (case x of Some st \<Rightarrow> s_kind st \<in> ks | None \<Rightarrow> False)"

primrec stmt_shape :: "StmtKind \<Rightarrow> bool \<Rightarrow> Stmt \<Rightarrow> bool" where
  "stmt_shape S_kBlock b st \<longleftrightarrow> s_then_branch st = None"
| "stmt_shape S_kBinding b st \<longleftrightarrow>
     binding_ok False b (s_pattern st) (s_type_ann st) (s_has_initializer st) (s_exprs st)"
| "stmt_shape S_kVar b st \<longleftrightarrow>
     binding_ok False b (s_pattern st) (s_type_ann st) (s_has_initializer st) (s_exprs st)"
| "stmt_shape S_kConst b st \<longleftrightarrow>
     binding_ok True b (s_pattern st) (s_type_ann st) (s_has_initializer st) (s_exprs st)"
| "stmt_shape S_kAssign b st \<longleftrightarrow> s_assign_targets st \<noteq> [] \<and> s_assign_values st \<noteq> [] \<and>
     (b \<longrightarrow> length (s_assign_targets st) \<noteq> 1 \<longrightarrow> list_all IsAssignmentTarget (s_assign_targets st))"
| "stmt_shape S_kExpr b st \<longleftrightarrow> one_expr st"
| "stmt_shape S_kIf b st \<longleftrightarrow> one_expr st \<and> body_kind {S_kBlock} (s_then_branch st) \<and>
     (s_else_branch st \<noteq> None \<longrightarrow> body_kind {S_kBlock, S_kIf} (s_else_branch st))"
| "stmt_shape S_kSwitch b st \<longleftrightarrow> one_expr st \<and> (s_has_default_case st \<longleftrightarrow> s_default_case st \<noteq> None)"
| "stmt_shape S_kWhile b st \<longleftrightarrow> one_expr st \<and> body_kind {S_kBlock} (s_then_branch st)"
| "stmt_shape S_kForCondition b st \<longleftrightarrow> one_expr st \<and> body_kind {S_kBlock} (s_then_branch st)"
| "stmt_shape S_kForIn b st \<longleftrightarrow> one_expr st \<and> body_kind {S_kBlock} (s_then_branch st)"
| "stmt_shape S_kForEach b st \<longleftrightarrow> False"
| "stmt_shape S_kForEachIndex b st \<longleftrightarrow> one_expr st \<and> body_kind {S_kBlock} (s_then_branch st)"
| "stmt_shape S_kForRange b st \<longleftrightarrow> False"
| "stmt_shape S_kReturn b st \<longleftrightarrow> s_then_branch st = None"
| "stmt_shape S_kBreak b st \<longleftrightarrow> s_exprs st = [] \<and> s_then_branch st = None"
| "stmt_shape S_kContinue b st \<longleftrightarrow> s_exprs st = [] \<and> s_then_branch st = None"
| "stmt_shape S_kDefer b st \<longleftrightarrow> one_expr st"

definition stmt_exprs_ok :: "bool \<Rightarrow> Stmt \<Rightarrow> bool" where
  "stmt_exprs_ok b st \<longleftrightarrow> pred_option (type_ok b) (s_type_ann st) \<and> list_all (expr_ok b) (s_exprs st) \<and>
     list_all (expr_ok b) (s_assign_targets st) \<and> list_all (expr_ok b) (s_assign_values st)"

primrec stmt_ok :: "bool \<Rightarrow> Stmt \<Rightarrow> bool"
  and case_ok :: "bool \<Rightarrow> SwitchCase \<Rightarrow> bool"
  and default_ok :: "bool \<Rightarrow> DefaultCase \<Rightarrow> bool" where
  "stmt_ok b (mk_Stmt sp k sts pat ann es ts vs hi cs dflt dc n1 n2 th el) \<longleftrightarrow>
     stmt_shape k b (mk_Stmt sp k sts pat ann es ts vs hi cs dflt dc n1 n2 th el) \<and>
     stmt_exprs_ok b (mk_Stmt sp k sts pat ann es ts vs hi cs dflt dc n1 n2 th el) \<and>
     list_all id (map (stmt_ok b) sts) \<and> list_all id (map (case_ok b) cs) \<and>
     pred_option id (map_option (default_ok b) dc) \<and>
     pred_option id (map_option (stmt_ok b) th) \<and> pred_option id (map_option (stmt_ok b) el)"
| "case_ok b (mk_SwitchCase sp p sts) \<longleftrightarrow> case_pattern_ok b p \<and> list_all id (map (stmt_ok b) sts)"
| "default_ok b (mk_DefaultCase sp sts) \<longleftrightarrow> list_all id (map (stmt_ok b) sts)"

lemma stmt_ok_iff:
  "stmt_ok b st \<longleftrightarrow> stmt_shape (s_kind st) b st \<and> stmt_exprs_ok b st \<and>
     list_all (stmt_ok b) (s_statements st) \<and> list_all (case_ok b) (s_switch_cases st) \<and>
     pred_option (default_ok b) (s_default_case st) \<and>
     pred_option (stmt_ok b) (s_then_branch st) \<and> pred_option (stmt_ok b) (s_else_branch st)"
  by (cases st) (simp only: stmt_ok.simps Stmt.sel list_all_id_map pred_option_id_map)

lemma case_ok_iff: "case_ok b (mk_SwitchCase sp p sts) \<longleftrightarrow> case_pattern_ok b p \<and> list_all (stmt_ok b) sts"
  by (simp only: case_ok.simps list_all_id_map)

lemma default_ok_iff: "default_ok b (mk_DefaultCase sp sts) \<longleftrightarrow> list_all (stmt_ok b) sts"
  by (simp only: default_ok.simps list_all_id_map)

declare stmt_ok.simps [simp del] case_ok.simps [simp del] default_ok.simps [simp del]

section \<open>Clearing the flag\<close>

lemma binding_ok_weaken: "binding_ok q b p ty h es \<Longrightarrow> binding_ok q False p ty h es"
  by (auto simp: binding_ok_def intro: ok_list_mono)

lemma case_pattern_weaken: "case_pattern_ok b p \<Longrightarrow> case_pattern_ok False p"
  by (auto simp: case_pattern_ok_def intro: ok_list_mono split: CasePatternKind.splits)

lemma stmt_shape_weaken: "stmt_shape k b st \<Longrightarrow> stmt_shape k False st"
  by (cases k) (auto intro: binding_ok_weaken)

lemma stmt_exprs_weaken: "stmt_exprs_ok b st \<Longrightarrow> stmt_exprs_ok False st"
  by (auto simp: stmt_exprs_ok_def intro: ok_list_mono)

lemma stmt_ok_weaken:
  "stmt_ok b st \<Longrightarrow> stmt_ok False st" "case_ok b c \<Longrightarrow> case_ok False c" "default_ok b d \<Longrightarrow> default_ok False d"
proof (induction st and c and d)
  case (mk_Stmt sp k sts pat ann es ts vs hi cs dflt dc n1 n2 th el)
  then show ?case
    unfolding stmt_ok.simps pred_option_id_map list_all_id_map
    by (elim conjE, intro conjI)
      (erule stmt_shape_weaken stmt_exprs_weaken list_all_weaken pred_option_weaken; blast)+
next
  case (mk_SwitchCase sp p sts)
  then show ?case
    unfolding case_ok_iff by (auto intro: case_pattern_weaken list_all_weaken)
next
  case (mk_DefaultCase sp sts)
  then show ?case
    unfolding default_ok_iff by (auto intro: list_all_weaken)
qed

lemma stmt_ok_mono:
  "stmt_ok b st \<Longrightarrow> (b' \<longrightarrow> b) \<Longrightarrow> stmt_ok b' st"
  "case_ok b c \<Longrightarrow> (b' \<longrightarrow> b) \<Longrightarrow> case_ok b' c"
  "default_ok b d \<Longrightarrow> (b' \<longrightarrow> b) \<Longrightarrow> default_ok b' d"
  "binding_ok q b p ty h es \<Longrightarrow> (b' \<longrightarrow> b) \<Longrightarrow> binding_ok q b' p ty h es"
  "case_pattern_ok b cp \<Longrightarrow> (b' \<longrightarrow> b) \<Longrightarrow> case_pattern_ok b' cp"
  by (cases b'; cases b; simp add: stmt_ok_weaken binding_ok_weaken case_pattern_weaken)+

lemma stmt_list_mono:
  "list_all (stmt_ok b) sts \<Longrightarrow> (b' \<longrightarrow> b) \<Longrightarrow> list_all (stmt_ok b') sts"
  "list_all (case_ok b) cs \<Longrightarrow> (b' \<longrightarrow> b) \<Longrightarrow> list_all (case_ok b') cs"
  "pred_option (default_ok b) d \<Longrightarrow> (b' \<longrightarrow> b) \<Longrightarrow> pred_option (default_ok b') d"
  "pred_option (stmt_ok b) st \<Longrightarrow> (b' \<longrightarrow> b) \<Longrightarrow> pred_option (stmt_ok b') st"
  by (auto simp: list_all_iff pred_option_def intro: stmt_ok_mono)

end
