(* ===== verification/MC_StmtRules.thy ===== *)
theory MC_StmtRules
  imports MC_StmtShape
begin

text \<open>
  Rules for the statement and declaration parsers, which all start after a token was consumed, so
  that \<open>Previous\<close> is there: \<open>ready t F s\<close>. A proof applies these rules to the text of a parser from
  left to right and is left with the nodes it returns.
\<close>

definition ready :: "bool \<Rightarrow> nat \<Rightarrow> ParseState \<Rightarrow> bool" where
  "ready t F s \<longleftrightarrow> ps_wf s \<and> 0 < ps_index s \<and> (t \<longrightarrow> 2 * tokens_left s \<le> F)"

definition parses_after ::
  "bool \<Rightarrow> nat \<Rightarrow> (ParseState \<Rightarrow> bool) \<Rightarrow> (bool \<Rightarrow> 'a \<Rightarrow> bool) \<Rightarrow> 'a parser \<Rightarrow> bool" where
  "parses_after t F A R p \<longleftrightarrow>
     (\<forall>s. ready t F s \<longrightarrow> outcome t (p s) (\<lambda>(x, s'). moved s (A s) s' \<and> R (ps_ok s') x))"

lemma parses_afterI:
  "(\<And>s. ready t F s \<Longrightarrow> moved s False s \<Longrightarrow>
      outcome t (p s) (\<lambda>(x, s'). moved s (A s) s' \<and> R (ps_ok s') x)) \<Longrightarrow> parses_after t F A R p"
  by (simp add: parses_after_def ready_def moved_refl)

lemma parses_after_weaken:
  "parses_after t F A R p \<Longrightarrow> (t \<longrightarrow> F' \<le> F) \<Longrightarrow> (\<And>s. A' s \<Longrightarrow> A s) \<Longrightarrow> (\<And>b x. R b x \<Longrightarrow> R' b x) \<Longrightarrow>
     parses_after t F' A' R' p"
  by (fastforce simp: parses_after_def ready_def intro: outcome_mono moved_weaken)

lemma parses_imp_after: "parses t F A R p \<Longrightarrow> (t \<longrightarrow> F' \<le> F) \<Longrightarrow> parses_after t F' A R p"
  by (auto simp: parses_def parses_after_def ready_def)

lemma ready_moved: "ready t F s \<Longrightarrow> moved s b s' \<Longrightarrow> ready t F s'"
  using moved_left_le [of s b s'] moved_index [of s b s'] by (auto simp: ready_def moved_wf)

lemma ready_after: "ready t F s \<Longrightarrow> moved s True s' \<Longrightarrow> ready t (F - 2) s'"
  using moved_left [of s s'] moved_index [of s True s'] by (auto simp: ready_def moved_wf)

definition able :: "bool \<Rightarrow> nat \<Rightarrow> ParseState \<Rightarrow> bool" where
  \<comment> \<open>The same at the start of a file, where there is no \<open>Previous\<close> yet.\<close>
  "able t F s \<longleftrightarrow> ps_wf s \<and> (t \<longrightarrow> 2 * tokens_left s \<le> F)"

lemma ready_able: "ready t F s \<Longrightarrow> able t F s"
  by (simp add: ready_def able_def)

lemma able_moved: "able t F s \<Longrightarrow> moved s b s' \<Longrightarrow> able t F s'"
  using moved_left_le [of s b s'] by (auto simp: able_def moved_wf)

lemma able_after: "able t F s \<Longrightarrow> moved s True s' \<Longrightarrow> ready t (F - 2) s'"
  using moved_left [of s s'] moved_index [of s True s'] by (auto simp: able_def ready_def moved_wf moved_past)

lemma moved_when: "moved s b s' \<Longrightarrow> (A \<longrightarrow> moved s True s') \<Longrightarrow> moved s A s'"
  by (cases A) (auto intro: moved_weaken)

section \<open>Calls\<close>

lemma call_outcome:
  assumes "parses_after t F A R p" "ready t F s1" "moved s b s1"
    and "\<And>x s2. moved s b s2 \<Longrightarrow> (A s1 \<longrightarrow> moved s True s2) \<Longrightarrow> (ps_ok s2 \<longrightarrow> ps_ok s1) \<Longrightarrow>
      R (ps_ok s2) x \<Longrightarrow> outcome t (f (x, s2)) Q"
  shows "outcome t (p s1 \<bind> f) Q"
proof (rule outcome_bind)
  show "outcome t (p s1) (\<lambda>(x, s'). moved s1 (A s1) s' \<and> R (ps_ok s') x)"
    using assms(1,2) by (simp add: parses_after_def)
  fix r assume r: "case r of (x, s') \<Rightarrow> moved s1 (A s1) s' \<and> R (ps_ok s') x"
  obtain x s2 where [simp]: "r = (x, s2)" by (cases r)
  have "moved s (b \<or> A s1) s2" using r assms(3) by (auto intro: moved_trans)
  then have "moved s b s2" "A s1 \<longrightarrow> moved s True s2" by (auto intro: moved_weaken)
  moreover have "ps_ok s2 \<longrightarrow> ps_ok s1" using r by (auto dest: moved_ok)
  ultimately show "outcome t (f r) Q" using r assms(4) by simp
qed

lemma call:
  assumes "parses_after t F A R p" "ready t F s" "moved s b s1"
    and "\<And>x s2. moved s b s2 \<Longrightarrow> (A s1 \<longrightarrow> moved s True s2) \<Longrightarrow> (ps_ok s2 \<longrightarrow> ps_ok s1) \<Longrightarrow>
      R (ps_ok s2) x \<Longrightarrow> outcome t (f (x, s2)) Q"
  shows "outcome t (p s1 \<bind> f) Q"
  by (rule call_outcome [OF assms(1) ready_moved [OF assms(2,3)] assms(3)]) (rule assms(4))

lemma call_inner:
  assumes "parses_after t (F - 2) A R p" "ready t F s" "moved s True s1"
    and "\<And>x s2. moved s True s2 \<Longrightarrow> (ps_ok s2 \<longrightarrow> ps_ok s1) \<Longrightarrow> R (ps_ok s2) x \<Longrightarrow> outcome t (f (x, s2)) Q"
  shows "outcome t (p s1 \<bind> f) Q"
  by (rule call_outcome [OF assms(1) ready_after [OF assms(2,3)] assms(3)]) (rule assms(4))

text \<open>A call in tail position.\<close>

lemma bind_to_Some: "m = m \<bind> (\<lambda>(x, s). Some (x, s))"
  by (cases m) auto

lemma tail_call:
  assumes "parses_after t F A R p" "ready t F s" "moved s b s1"
    and "\<And>x s2. moved s b s2 \<Longrightarrow> (A s1 \<longrightarrow> moved s True s2) \<Longrightarrow> (ps_ok s2 \<longrightarrow> ps_ok s1) \<Longrightarrow>
      R (ps_ok s2) x \<Longrightarrow> outcome t (Some (x, s2)) Q"
  shows "outcome t (p s1) Q"
  by (subst bind_to_Some, rule call [OF assms(1-3)]) (use assms(4) in auto)

section \<open>Control\<close>

lemma outcome_pair: "outcome t (f x s) Q \<Longrightarrow> outcome t (case (x, s) of (x, s) \<Rightarrow> f x s) Q"
  by simp

lemma outcome_Let: "outcome t (f e) Q \<Longrightarrow> outcome t (let x = e in f x) Q"
  by simp

lemma outcome_return: "outcome t (f x) Q \<Longrightarrow> outcome t (Some x \<bind> f) Q"
  by simp

lemma outcome_assoc: "outcome t (m \<bind> (\<lambda>x. g x \<bind> f)) Q \<Longrightarrow> outcome t ((m \<bind> g) \<bind> f) Q"
  by (simp add: bind_assoc)

lemma outcome_let_bind: "outcome t (f e \<bind> g) Q \<Longrightarrow> outcome t ((let x = e in f x) \<bind> g) Q"
  by simp

lemma outcome_pair_bind: "outcome t (f x s \<bind> g) Q \<Longrightarrow> outcome t ((case (x, s) of (x, s) \<Rightarrow> f x s) \<bind> g) Q"
  by simp

lemma outcome_if_bind:
  "(c \<Longrightarrow> outcome t (m1 \<bind> f) Q) \<Longrightarrow> (\<not> c \<Longrightarrow> outcome t (m2 \<bind> f) Q) \<Longrightarrow>
     outcome t ((if c then m1 else m2) \<bind> f) Q"
  by simp

lemma case_Match_bind:
  assumes "moved s0 b s" "k \<noteq> T_kEof"
    and "\<And>s'. Check k s \<Longrightarrow> moved s0 True s' \<Longrightarrow> ps_ok s' = ps_ok s \<Longrightarrow> Previous s' = Some (Current s) \<Longrightarrow>
      outcome t (g s' \<bind> f) Q"
    and "\<not> Check k s \<Longrightarrow> outcome t (h \<bind> f) Q"
  shows "outcome t ((case Match k s of Some s' \<Rightarrow> g s' | None \<Rightarrow> h) \<bind> f) Q"
proof -
  have "outcome t (case Match k s of Some s' \<Rightarrow> g s' \<bind> f | None \<Rightarrow> h \<bind> f) Q"
    by (rule case_Match [OF assms])
  then show ?thesis by (simp split: option.splits)
qed

lemma previous_known: "Previous s = Some p \<Longrightarrow> outcome t (f p) Q \<Longrightarrow> outcome t (Previous s \<bind> f) Q"
  by simp

lemma previous_ready:
  "ready t F s0 \<Longrightarrow> moved s0 b s \<Longrightarrow> (\<And>p. Previous s = Some p \<Longrightarrow> outcome t (f p) Q) \<Longrightarrow>
     outcome t (Previous s \<bind> f) Q"
  by (rule bind_Previous [where b = b]) (auto simp: ready_def)

lemma span_ready:
  "ready t F s0 \<Longrightarrow> moved s0 b s \<Longrightarrow> (\<And>sp. span_begin sp = start \<Longrightarrow> outcome t (f sp) Q) \<Longrightarrow>
     outcome t (span_to_previous start s \<bind> f) Q"
  by (rule bind_span [where b = b]) (auto simp: ready_def)

lemma end_of_type_ready:
  "ready t F s0 \<Longrightarrow> moved s0 b s \<Longrightarrow> (\<And>e. outcome t (f e) Q) \<Longrightarrow> outcome t (end_of_type x s \<bind> f) Q"
  by (rule bind_end_of_type [where b = b]) (auto simp: ready_def)

lemmas control = outcome_pair outcome_Let outcome_return outcome_assoc outcome_let_bind outcome_pair_bind
lemmas branches = outcome_if outcome_if_bind

section \<open>Loops\<close>

lemma loop_bind:
  assumes "ready t F s" "moved s b s1" "t \<longrightarrow> F + 2 \<le> m" "I s1 acc"
    and "\<And>acc s2. ready t F s2 \<Longrightarrow> moved s2 False s2 \<Longrightarrow> I s2 acc \<Longrightarrow>
      outcome t (f (acc, s2)) (\<lambda>r. case r of
          Inl (acc', s3) \<Rightarrow> moved s2 True s3 \<and> I s3 acc'
        | Inr (x, s3) \<Rightarrow> moved s2 False s3 \<and> J s3 x)"
    and "\<And>x s2. moved s b s2 \<Longrightarrow> J s2 x \<Longrightarrow> outcome t (g (x, s2)) Q"
  shows "outcome t (fuel_loop m f (acc, s1) \<bind> g) Q"
proof (rule outcome_bind)
  have r1: "ready t F s1" by (rule ready_moved [OF assms(1,2)])
  show "outcome t (fuel_loop m f (acc, s1)) (\<lambda>(x, s'). moved s b s' \<and> J s' x)"
  proof (rule loop_parses [OF assms(2), where I = I])
    show "tokens_left s1 < m" if t
      using r1 assms(3,4) that by (simp add: ready_def)
    show "I s1 acc" by (rule assms(4))
    fix acc s2
    assume s2: "moved s b s2" "tokens_left s2 \<le> tokens_left s1" "moved s2 False s2" "I s2 acc"
    have "ready t F s2" by (rule ready_moved [OF assms(1) s2(1)])
    with s2 assms(5) show "outcome t (f (acc, s2)) (\<lambda>r. case r of
          Inl (acc', s3) \<Rightarrow> moved s2 True s3 \<and> I s3 acc'
        | Inr (x, s3) \<Rightarrow> moved s2 False s3 \<and> J s3 x)" by simp
  qed
qed (use assms(6) in auto)

lemma loop_tail:
  assumes "ready t F s" "moved s b s1" "t \<longrightarrow> F + 2 \<le> m" "I s1 acc"
    and "\<And>acc s2. ready t F s2 \<Longrightarrow> moved s2 False s2 \<Longrightarrow> I s2 acc \<Longrightarrow>
      outcome t (f (acc, s2)) (\<lambda>r. case r of
          Inl (acc', s3) \<Rightarrow> moved s2 True s3 \<and> I s3 acc'
        | Inr (x, s3) \<Rightarrow> moved s2 False s3 \<and> J s3 x)"
    and "\<And>x s2. moved s b s2 \<Longrightarrow> J s2 x \<Longrightarrow> outcome t (Some (x, s2)) Q"
  shows "outcome t (fuel_loop m f (acc, s1)) Q"
  by (subst bind_to_Some, rule loop_bind [OF assms(1-5)]) (use assms(6) in auto)

text \<open>A loop that is not known to make progress: it is right if it returns.\<close>

lemma fuel_loop_partial:
  assumes "I x" and "\<And>y. I y \<Longrightarrow> outcome False (f y) (\<lambda>r. case r of Inl z \<Rightarrow> I z | Inr r \<Rightarrow> Q r)"
  shows "outcome False (fuel_loop n f x) Q"
  using assms(1)
proof (induction n arbitrary: x)
  case (Suc n)
  then show ?case
    using assms(2) [OF Suc.prems] by (cases "f x") (auto split: sum.splits)
qed simp

lemma loop_progress:
  assumes "able t F s" "moved s b s1" "t \<longrightarrow> F + 2 \<le> m" "I s1 acc"
    and step: "\<And>acc s2. able t F s2 \<Longrightarrow> moved s b s2 \<Longrightarrow> moved s2 False s2 \<Longrightarrow> I s2 acc \<Longrightarrow>
      outcome t (f (acc, s2)) (\<lambda>r. case r of
          Inl (acc', s3) \<Rightarrow> moved s2 t s3 \<and> I s3 acc'
        | Inr (x, s3) \<Rightarrow> moved s2 False s3 \<and> J s3 x)"
    and "\<And>x s2. moved s b s2 \<Longrightarrow> J s2 x \<Longrightarrow> outcome t (g (x, s2)) Q"
  shows "outcome t (fuel_loop m f (acc, s1) \<bind> g) Q"
proof (rule outcome_bind)
  show "outcome t (fuel_loop m f (acc, s1)) (\<lambda>(x, s'). moved s b s' \<and> J s' x)"
  proof (cases t)
    case True
    show ?thesis
    proof (rule loop_parses [OF assms(2), where I = I])
      show "tokens_left s1 < m" using assms(1,3) True moved_left_le [OF assms(2)] by (simp add: able_def)
      fix acc s2 assume s2: "moved s b s2" "moved s2 False s2" "I s2 acc"
      have "able t F s2" by (rule able_moved [OF assms(1) s2(1)])
      from step [OF this s2] show "outcome t (f (acc, s2)) (\<lambda>r. case r of
          Inl (acc', s3) \<Rightarrow> moved s2 True s3 \<and> I s3 acc' | Inr (x, s3) \<Rightarrow> moved s2 False s3 \<and> J s3 x)"
        by (simp only: True)
    qed (rule assms(4))
  next
    case False
    have tr: "moved s b s3" if "moved s b s2" "moved s2 False s3" for s2 s3
      using moved_trans [OF that] by simp
    have "outcome False (fuel_loop m f (acc, s1)) (\<lambda>(x, s'). moved s b s' \<and> J s' x)"
    proof (rule fuel_loop_partial [where I = "\<lambda>(acc, s'). moved s b s' \<and> I s' acc"])
      fix y assume y: "case y of (acc, s') \<Rightarrow> moved s b s' \<and> I s' acc"
      obtain acc s2 where [simp]: "y = (acc, s2)" by fastforce
      from y have s2: "moved s b s2" "I s2 acc" by auto
      have "able t F s2" "moved s2 False s2"
        using able_moved [OF assms(1) s2(1)] s2(1) by (auto simp: moved_wf moved_refl)
      from step [OF this(1) s2(1) this(2) s2(2)] False s2
      show "outcome False (f y) (\<lambda>r. case r of Inl z \<Rightarrow> (case z of (acc, s') \<Rightarrow> moved s b s' \<and> I s' acc)
          | Inr r \<Rightarrow> (case r of (x, s') \<Rightarrow> moved s b s' \<and> J s' x))"
        by (auto elim!: outcome_mono intro: tr split: sum.splits)
    qed (use assms(2,4) in auto)
    with False show ?thesis by simp
  qed
qed (use assms(6) in auto)

section \<open>Dispatch on a keyword\<close>

lemma keyword_dispatch_outcome:
  assumes rows: "\<And>k f s1. (k, f) \<in> set rows \<Longrightarrow> Check k s \<Longrightarrow> moved s True s1 \<Longrightarrow> ready t (F - 2) s1 \<Longrightarrow>
      ps_tokens s1 = ps_tokens s \<Longrightarrow> outcome t (f (begin_of (Current s)) s1) Q"
    and keys: "T_kEof \<notin> fst ` set rows" and r: "able t F s" and s: "moved s False s"
    and other: "(\<And>k. k \<in> fst ` set rows \<Longrightarrow> \<not> Check k s) \<Longrightarrow> outcome t (other s) Q"
  shows "outcome t (keyword_dispatch rows other s) Q"
  using rows keys other
proof (induction rows)
  case (Cons row rows)
  obtain k f where row: "row = (k, f)" by fastforce
  show ?case
    unfolding row keyword_dispatch.simps
  proof (rule case_Match [OF s], goal_cases)
    case (2 s1)
    show ?case
      by (rule previous_known [OF 2(4)], rule Cons.prems(1))
        (use 2 row able_after [OF r 2(2)] in \<open>auto simp: moved_def\<close>)
  qed (use row Cons in auto)
qed simp

section \<open>Recovery and the other helpers\<close>

lemma moved_SynchronizeStatement: "moved s b t \<Longrightarrow> moved s b (SynchronizeStatement t)"
proof (induction t rule: SynchronizeStatement.induct)
  case (1 t)
  have "moved s b (Advance t)" by (rule moved_Advance_le [OF "1.prems"])
  with 1 show ?case
    by (subst SynchronizeStatement.simps) (auto simp: Match_def intro: moved_SkipNewlines)
qed

lemma ok_SynchronizeStatement [simp]: "ps_ok (SynchronizeStatement t) = ps_ok t"
  by (induction t rule: SynchronizeStatement.induct)
    (subst SynchronizeStatement.simps, auto simp: Match_def)

text \<open>Where no boundary stops it, \<open>SynchronizeStatement\<close> consumes a token.\<close>

lemma SynchronizeStatement_progress:
  assumes "moved s b t" "\<not> AtEnd t" "\<not> IsCaseBoundary t"
  shows "moved s True (SynchronizeStatement t)"
proof -
  have "in_bounds t" using assms(1) by (auto dest: moved_wf simp: ps_wf_def)
  moreover have "moved s True (Advance t)" by (rule moved_Advance [OF assms(1,2)])
  ultimately show ?thesis
    using assms(2,3) by (subst SynchronizeStatement.simps)
      (auto simp: Match_def IsCaseBoundary_def intro: moved_SkipNewlines moved_SynchronizeStatement)
qed

lemma moved_SkipStatementSeparator: "moved s b t \<Longrightarrow> moved s b (SkipStatementSeparator t)"
  by (auto simp: SkipStatementSeparator_def Match_def intro: moved_SkipNewlines moved_Advance_le moved_ReportError)

lemma ok_SkipStatementSeparator: "ps_ok (SkipStatementSeparator t) \<Longrightarrow> ps_ok t"
  by (auto simp: SkipStatementSeparator_def Match_def split: if_splits)

lemma moved_RequireStatementSeparatorOrSync: "moved s b t \<Longrightarrow> moved s b (RequireStatementSeparatorOrSync t)"
  by (simp add: RequireStatementSeparatorOrSync_def Let_def moved_SkipStatementSeparator moved_SynchronizeStatement)

lemma ok_RequireStatementSeparatorOrSync: "ps_ok (RequireStatementSeparatorOrSync t) \<Longrightarrow> ps_ok t"
  by (auto simp: RequireStatementSeparatorOrSync_def Let_def intro: ok_SkipStatementSeparator split: if_splits)

lemma ParseIdentifier_moved:
  assumes "moved s b t" "ParseIdentifier m t = (x, u)"
  shows "moved s b u \<and> (x \<noteq> None \<longrightarrow> moved s True u) \<and> (ps_ok u \<longrightarrow> ps_ok t \<and> x \<noteq> None)"
  using assms parser.moved_here [of T_kIdentifier t s b]
  by (auto simp: ParseIdentifier_def moved_ReportError split: if_splits intro: moved_Advance_le)

lemmas moved_rules =
  moved_Consume moved_SkipNewlines moved_ReportError moved_ReportAt moved_Advance_le
  moved_SynchronizeStatement moved_RequireStatementSeparatorOrSync

lemmas ok_dests = ok_Consume ok_RequireStatementSeparatorOrSync

end
