(* ===== verification/MC_ParserStmtSpec.thy ===== *)
theory MC_ParserStmtSpec
  imports MC_StmtRules
begin

text \<open>
  The statement parsers keep their contract: with the fuel a token count calls for they return, they
  consume a token where one is left, and the statement they build has its shape. \<open>parser_fuel\<close> holds
  what needs the expression parsers only, \<open>stmt_context\<close> what calls \<open>ParseStatement\<close> again.
\<close>

section \<open>Bindings and expression lists\<close>

locale parser_fuel =
  fixes t :: bool and m F :: nat
  assumes enough: "t \<longrightarrow> F + 2 \<le> m"
begin

lemma expr_parses: "parses_after t F not_at_end expr_ok (ParseExpr m a)"
  by (rule parses_imp_after [OF parser.pe]) (use enough in auto)

lemma type_parses: "parses_after t F (starts_type d) opt_type_ok (ParseTypeExpr m d)"
  by (rule parses_imp_after [OF parser.pt]) (use enough in auto)

lemma postfix_parses:
  "parses_after t F not_at_end (expr_result 13) (ParsePostfixExpr m (ParseExpr m) (ParseTypeExpr m))"
  by (rule parses_imp_after [OF parser.postfix_parses]) (use enough in auto)

abbreviation names_ok :: "string list \<Rightarrow> bool list \<Rightarrow> bool" where
  "names_ok \<equiv> list_all2 (\<lambda>name discard. discard \<longrightarrow> name = ''_'')"

lemma pattern_step_parses:
  assumes r: "ready t F s0" and s: "moved s0 b s" and acc: "names_ok ns ds"
  shows "outcome t (ParseBindingPattern_step d msg ((ns, ds), s))
    (\<lambda>((ns', ds'), s'). moved s0 b s' \<and> (Check T_kIdentifier s \<longrightarrow> moved s0 True s') \<and>
       (ps_ok s' \<longrightarrow> ps_ok s \<and> ns' \<noteq> []) \<and> names_ok ns' ds')"
proof -
  obtain x u where x: "ParseIdentifier msg s = (x, u)" by fastforce
  note id = ParseIdentifier_moved [OF s x]
  have chk: "x \<noteq> None" if "Check T_kIdentifier s" using x that by (auto simp: ParseIdentifier_def)
  show ?thesis
  proof (cases x)
    case None
    with x id acc chk show ?thesis by auto
  next
    case (Some nm)
    with id have u: "moved s0 True u" "moved s0 b u" "ps_ok u \<longrightarrow> ps_ok s" by auto
    obtain p where "Previous u = Some p" using Previous_moved [OF u(1)] by auto
    with x Some u acc show ?thesis
      by (auto simp: moved_ReportError intro: list_all2_appendI)
  qed
qed

lemma binding_pattern_parses:
  "parses_after t F (Check T_kIdentifier) (\<lambda>b p. pattern_ok p \<and> (b \<longrightarrow> np_names p \<noteq> [])) (ParseBindingPattern m d)"
  unfolding ParseBindingPattern_def
proof (rule parses_afterI, rule outcome_Let)
  fix s assume r: "ready t F s" and s: "moved s False s"
  let ?P = "\<lambda>s' ((ns, ds), s2). moved s False s2 \<and> (Check T_kIdentifier s' \<longrightarrow> moved s True s2) \<and>
      (ps_ok s2 \<longrightarrow> ns \<noteq> []) \<and> names_ok ns ds"
  have "outcome t (ParseBindingPattern_step d ''expected binding name'' (([], []), s)) (?P s)"
    by (rule outcome_mono [OF pattern_step_parses [OF r s]]) auto
  then show "outcome t
     (ParseBindingPattern_step d ''expected binding name'' (([], []), s) \<bind> (\<lambda>first.
        fuel_loop m (\<lambda>(acc, s). case Match T_kComma s of
             None \<Rightarrow> Some (Inr (acc, s))
           | Some s \<Rightarrow> map_option Inl (ParseBindingPattern_step d
               (''expected binding name after ','' @ [apostrophe_char]) (acc, s))) first \<bind>
        (\<lambda>((names, discards), s'). span_to_previous (begin_of (Current s)) s' \<bind>
          (\<lambda>span. Some (\<lparr>np_span = span, np_names = names, np_discards = discards\<rparr>, s')))))
     (\<lambda>(x, s'). moved s (Check T_kIdentifier s) s' \<and> pattern_ok x \<and> (ps_ok s' \<longrightarrow> np_names x \<noteq> []))"
  proof (rule outcome_bind, goal_cases)
    case (1 first)
    obtain ns ds s1 where f: "first = ((ns, ds), s1)" by (cases first) auto
    let ?I = "\<lambda>s' (ns, ds). (ps_ok s' \<longrightarrow> ns \<noteq> []) \<and> names_ok ns ds"
    have s1: "moved s (Check T_kIdentifier s) s1" "?I s1 (ns, ds)" using 1 f by (auto intro: moved_when)
    show ?case
      unfolding f
    proof (rule loop_bind [OF r s1(1) enough, where I = ?I and J = ?I], rule s1(2), goal_cases)
      case (1 acc s2)
      obtain ns ds where acc: "acc = (ns, ds)" by (cases acc)
      show ?case
        unfolding prod.case
      proof (rule case_Match [OF 1(2)], goal_cases)
        case (2 s3)
        show ?case
          unfolding acc
          by (rule parser.outcome_Inl, rule outcome_mono [OF pattern_step_parses [OF 1(1) 2(2)]])
            (use 1 2 acc in auto)
      qed (use 1 in auto)
    next
      case (2 x s2)
      then show ?case by (cases x) (auto intro!: span_ready [OF r 2(1)] simp: pattern_ok_def)
    qed
  qed
qed

lemma expr_list_parses:
  "parses_after t F not_at_end (\<lambda>b es. es \<noteq> [] \<and> list_all (expr_ok b) es) (ParseExprList m)"
  unfolding ParseExprList_def
proof (rule parses_afterI)
  fix s assume r: "ready t F s" and s: "moved s False s"
  let ?I = "\<lambda>s es. es \<noteq> [] \<and> list_all (expr_ok (ps_ok s)) es"
  show "outcome t (ParseExpr m True s \<bind> (\<lambda>a. case a of (x, s) \<Rightarrow>
        fuel_loop m (\<lambda>(acc, s). case Match T_kComma s of
            None \<Rightarrow> Some (Inr (acc, s))
          | Some s \<Rightarrow> if IsStatementTerminator (tok_kind (Current s)) then Some (Inr (acc, s))
              else ParseExpr m True s \<bind> (\<lambda>a. case a of (x, s) \<Rightarrow> Some (Inl (acc @ [x], s)))) ([x], s)))
     (\<lambda>(x, s'). moved s (not_at_end s) s' \<and> x \<noteq> [] \<and> list_all (expr_ok (ps_ok s')) x)"
  proof (rule call [OF expr_parses r s], rule outcome_pair, goal_cases)
    case (1 x s1)
    then have s1: "moved s (not_at_end s) s1" "?I s1 [x]" by (auto intro: moved_when)
    show ?case
    proof (rule loop_tail [OF r s1(1) enough, where I = ?I and J = ?I], rule s1(2), goal_cases)
      case (1 acc s2)
      have mono: "list_all (expr_ok b) acc" if "b \<longrightarrow> ps_ok s2" for b
        using 1(3) that by (auto intro: ok_list_mono)
      show ?case
        by (rule outcome_pair, rule case_Match [OF 1(2)], simp, rule outcome_if)
          (use 1 in \<open>auto intro!: call [OF expr_parses 1(1)] mono intro: moved_weaken\<close>)
    qed auto
  qed
qed

definition tail_ok :: "bool \<Rightarrow> bool \<Rightarrow> ParsedBindingTail \<Rightarrow> bool" where
  "tail_ok needs_init b r \<longleftrightarrow>
     binding_ok needs_init b (bt_pattern r) (bt_type_ann r) (bt_has_initializer r) (bt_initializers r)"

lemma opt_type_weaker: "opt_type_ok b x \<Longrightarrow> (b' \<longrightarrow> b) \<Longrightarrow> pred_option (type_ok b') x \<and> (b' \<longrightarrow> x \<noteq> None)"
  by (auto simp: opt_type_ok_def intro: ok_list_mono)

lemma binding_tail_parses:
  "parses_after t F (Check T_kIdentifier) (tail_ok (\<not> storage)) (ParseBindingTail m storage inferred discard msg)"
  unfolding ParseBindingTail_def
proof (rule parses_afterI, rule call [OF binding_pattern_parses], assumption+, rule outcome_pair)
  fix s pat s1
  assume r: "ready t F s" and s1: "moved s False s1" "Check T_kIdentifier s \<longrightarrow> moved s True s1"
    and pat: "pattern_ok pat \<and> (ps_ok s1 \<longrightarrow> np_names pat \<noteq> [])"
  let ?A = "Check T_kIdentifier s"
  have m1: "moved s ?A s1" using s1 by (rule moved_when)
  let ?P = "\<lambda>((ty, es, h, q), s2). moved s ?A s2 \<and> binding_ok (\<not> storage) (ps_ok s2) pat ty h es"
  note list = call [OF expr_list_parses r]
  show "outcome t
     ((case Match T_kColonAssign s1 of
         Some s \<Rightarrow> Previous s \<bind> (\<lambda>p. let s = (if \<not> inferred
             then ReportError p ''':=' is only allowed for local binding statements'' s else s)
           in ParseExprList m s \<bind> (\<lambda>(inits, s). Some ((None, inits, True, True), s)))
       | None \<Rightarrow> (case Match T_kColon s1 of
           Some s \<Rightarrow> ParseTypeExpr m 0 s \<bind> (\<lambda>(type_ann, s).
             case Match T_kAssign s of
               Some s \<Rightarrow> ParseExprList m s \<bind> (\<lambda>(inits, s). Some ((type_ann, inits, True, False), s))
             | None \<Rightarrow> Some ((type_ann, [], False, False),
                 if \<not> storage \<or> type_ann = None then ReportError (Current s) msg s else s))
         | None \<Rightarrow> Some ((None, [], False, False), ReportError (Current s1) msg s1))) \<bind>
      (\<lambda>((ty, es, h, q), s). Previous s \<bind> (\<lambda>p. Some (\<lparr>bt_pattern = pat, bt_type_ann = ty,
         bt_initializers = es, bt_has_initializer = h, bt_uses_inferred_initializer_syntax = q,
         bt_end = end_of p\<rparr>, s))))
     (\<lambda>(x, s'). moved s ?A s' \<and> tail_ok (\<not> storage) (ps_ok s') x)"
  proof (rule outcome_bind [where P = ?P], rule case_Match [OF m1], goal_cases)
    case (2 s2)
    show ?case
      by (rule previous_known [OF 2(4)], rule outcome_Let, rule list, rule moved_when [where b = True])
        (use 2 pat in \<open>auto simp: binding_ok_def moved_ReportError intro: moved_weaken split: if_splits\<close>)
  next
    case 3
    show ?case
    proof (rule case_Match [OF m1], goal_cases)
      case (2 s2)
      show ?case
      proof (rule call [OF type_parses r 2(2)], rule outcome_pair, goal_cases)
        case (1 ty s3)
        show ?case
        proof (rule case_Match [OF 1(1)], goal_cases)
          case (2 s4)
          show ?case
            by (rule list [OF 2(2)])
              (use 1 2 pat \<open>ps_ok s2 = ps_ok s1\<close> opt_type_weaker [OF 1(4)] in
                \<open>auto simp: binding_ok_def intro: moved_weaken\<close>)
        next
          case 3
          with 1 2 pat opt_type_weaker [OF 1(4)] show ?case
            by (auto simp: binding_ok_def intro!: moved_weaken [OF moved_ReportError [OF 1(1)]] moved_weaken [OF 1(1)])
        qed simp
      qed
    qed (use m1 pat in \<open>auto simp: binding_ok_def moved_ReportError\<close>)
  next
    case (4 x)
    then obtain ty es h q s2 where x: "x = ((ty, es, h, q), s2)" by (cases x) auto
    with 4 have s2: "moved s ?A s2" by simp
    show ?case
      unfolding x prod.case by (rule previous_ready [OF r s2]) (use 4 x in \<open>auto simp: tail_ok_def\<close>)
  qed simp
qed

section \<open>Statements without a body\<close>

lemma binding_stmt_parses:
  assumes "k = S_kBinding \<or> k = S_kVar \<or> k = S_kConst"
  shows "parses_after t F (Check T_kIdentifier) stmt_ok (ParseBindingStmt m k start (k \<noteq> S_kConst))"
  unfolding ParseBindingStmt_def
  by (rule parses_afterI, rule call [OF binding_tail_parses], assumption+)
    (use assms in \<open>auto simp: stmt_ok_iff stmt_exprs_ok_def tail_ok_def set_node_defs binding_ok_def intro: moved_when\<close>)

lemma return_stmt_parses: "parses_after t F (\<lambda>_. False) stmt_ok (ParseReturnStmt m start)"
proof (rule parses_afterI)
  fix s assume r: "ready t F s" and s: "moved s False s"
  have node: "stmt_ok b (set_s_exprs es (set_s_span sp (new_Stmt S_kReturn)))" if "list_all (expr_ok b) es" for b es sp
    using that by (simp add: stmt_ok_iff stmt_exprs_ok_def set_node_defs)
  show "outcome t (ParseReturnStmt m start s) (\<lambda>(x, s'). moved s False s' \<and> stmt_ok (ps_ok s') x)"
    unfolding ParseReturnStmt_def
    by (rule outcome_if_bind; (rule outcome_return outcome_pair call [OF expr_list_parses r s] span_ready [OF r s]
          span_ready [OF r])+) (use s in \<open>auto intro: node\<close>)
qed

lemma defer_stmt_parses: "parses_after t F (\<lambda>_. False) stmt_ok (ParseDeferStmt m start)"
  unfolding ParseDeferStmt_def
  by (rule parses_afterI, rule call [OF expr_parses], assumption+)
    (auto simp: stmt_ok_iff stmt_exprs_ok_def set_node_defs one_expr_def)

text \<open>Assignments.\<close>

definition target_ok :: "bool \<Rightarrow> Expr \<Rightarrow> bool" where
  "target_ok b e \<longleftrightarrow> expr_ok b e \<and> (b \<longrightarrow> IsAssignmentTarget e)"

lemma target_mono: "list_all (target_ok b) es \<Longrightarrow> (b' \<longrightarrow> b) \<Longrightarrow> list_all (target_ok b') es"
  by (auto simp: list_all_iff target_ok_def intro: ok_mono)

lemma normalize_ok: "expr_ok b e \<Longrightarrow> expr_ok b (NormalizeAssignmentTarget e)"
  using expr_ok_iff [THEN iffD1, of b e]
  by (subst expr_ok_iff) (auto simp: NormalizeAssignmentTarget_def set_node_defs)

lemma assignment_target_parses: "parses_after t F not_at_end target_ok (ParseAssignmentTarget m)"
proof (rule parses_afterI)
  fix s assume r: "ready t F s" and s: "moved s False s"
  show "outcome t (ParseAssignmentTarget m s) (\<lambda>(x, s'). moved s (not_at_end s) s' \<and> target_ok (ps_ok s') x)"
    unfolding ParseAssignmentTarget_def
    by (rule outcome_Let, rule call [OF postfix_parses r s])
      (auto simp: Let_def target_ok_def intro: moved_when ok_mono intro!: normalize_ok moved_ReportAt)
qed

lemma assign_ready:
  "ready t F s0 \<Longrightarrow> moved s0 b s \<Longrightarrow>
     (\<And>st. list_all (expr_ok c) ts \<Longrightarrow> list_all (expr_ok c) vs \<Longrightarrow> ts \<noteq> [] \<Longrightarrow> vs \<noteq> [] \<Longrightarrow>
        (c \<longrightarrow> length ts = 1 \<or> list_all IsAssignmentTarget ts) \<Longrightarrow> stmt_ok c st \<Longrightarrow> outcome t (f st) Q) \<Longrightarrow>
     list_all (expr_ok c) ts \<Longrightarrow> list_all (expr_ok c) vs \<Longrightarrow> ts \<noteq> [] \<Longrightarrow> vs \<noteq> [] \<Longrightarrow>
     (c \<longrightarrow> length ts = 1 \<or> list_all IsAssignmentTarget ts) \<Longrightarrow> outcome t (assign_stmt start ts vs s \<bind> f) Q"
  unfolding assign_stmt_def bind_assoc
  by (rule span_ready, assumption+)
    (auto simp: stmt_ok_iff stmt_exprs_ok_def set_node_defs)

lemma assign_or_expr_parses: "parses_after t F not_at_end stmt_ok (ParseAssignOrExprStmt m)"
  unfolding ParseAssignOrExprStmt_def
proof (rule parses_afterI, rule outcome_Let, rule call [OF expr_parses], assumption+, rule outcome_pair)
  fix s e s1
  assume r: "ready t F s" and s: "moved s False s" "moved s False s1" "not_at_end s \<longrightarrow> moved s True s1"
    and e: "expr_ok (ps_ok s1) e"
  have s1: "moved s (not_at_end s) s1" using s(2,3) by (rule moved_when)
  have e': "expr_ok b e" if "b \<longrightarrow> ps_ok s1" for b using e that by (rule ok_mono)
  let ?Q = "\<lambda>(x, s'). moved s (not_at_end s) s' \<and> stmt_ok (ps_ok s') x"
  have vals: "outcome t (ParseExprList m s2 \<bind> (\<lambda>(values, s). assign_stmt start ts values s \<bind> (\<lambda>stmt. Some (stmt, s)))) ?Q"
    if s2: "moved s True s2" and ts: "list_all (expr_ok (ps_ok s2)) ts" "ts \<noteq> []"
      "ps_ok s2 \<longrightarrow> length ts = 1 \<or> list_all IsAssignmentTarget ts" for start s2 ts
  proof (rule call [OF expr_list_parses r s2], rule outcome_pair, goal_cases)
    case (1 vs s3)
    then show ?case
      using ts by (intro assign_ready [OF r 1(1), where c = "ps_ok s3"]) (auto intro: moved_weaken ok_list_mono)
  qed
  show "outcome t
    (case Match T_kAssign s1 of
       Some s' \<Rightarrow> ParseExprList m s' \<bind> (\<lambda>(values, s').
         assign_stmt (begin_of (Current s)) [NormalizeAssignmentTarget e] values s' \<bind> (\<lambda>stmt. Some (stmt, s')))
     | None \<Rightarrow>
       if Check T_kComma s1
       then let first = NormalizeAssignmentTarget e;
         s' = (if \<not> IsAssignmentTarget first
           then ReportAt (e_span first) (''expected assignment target before ','' @ [apostrophe_char]) s1
           else s1)
         in fuel_loop m (\<lambda>(acc, s).
             case Match T_kComma s of
               None \<Rightarrow> Some (Inr (acc, s))
             | Some s \<Rightarrow> ParseAssignmentTarget m s \<bind> (\<lambda>(x, s). Some (Inl (acc @ [x], s)))) ([first], s') \<bind>
           (\<lambda>(targets, s'). let s' = Consume T_kAssign ''expected '=' after assignment targets'' s'
             in ParseExprList m s' \<bind> (\<lambda>(values, s').
               assign_stmt (begin_of (Current s)) targets values s' \<bind> (\<lambda>stmt. Some (stmt, s'))))
       else Some (set_s_exprs [e] (set_s_span \<lparr>span_begin = begin_of (Current s), span_end = e_end e\<rparr>
          (new_Stmt S_kExpr)), s1)) ?Q"
  proof (rule case_Match [OF s1], goal_cases)
    case (2 s2)
    then show ?case by (intro vals) (auto intro: normalize_ok e')
  next
    case 3
    show ?case
    proof (rule outcome_if, goal_cases)
      case 1
      then have c: "not_at_end s1" by (auto dest: Check_not_AtEnd)
      let ?s2 = "if \<not> IsAssignmentTarget (NormalizeAssignmentTarget e)
           then ReportAt (e_span (NormalizeAssignmentTarget e)) (''expected assignment target before ','' @ [apostrophe_char]) s1
           else s1"
      have not_end: "not_at_end s"
      proof
        assume "AtEnd s"
        then have "ps_index s = length (ps_tokens s) - 1"
          using last_is_eof [of s] r by (auto simp: ready_def ps_wf_def in_bounds_def)
        moreover have "ps_index s1 < length (ps_tokens s1) - 1"
          using last_is_eof [of s1] c s(2) by (auto simp: moved_wf)
        ultimately show False using s(2) by (simp add: moved_def)
      qed
      with s1 have s2: "moved s True ?s2" by (auto simp: moved_ReportAt)
      let ?I = "\<lambda>s ts. ts \<noteq> [] \<and> list_all (target_ok (ps_ok s)) ts"
      show ?case
        unfolding Let_def
      proof (rule loop_bind [OF r s2 enough, where I = ?I and J = ?I], goal_cases)
        case 1
        show ?case by (auto simp: target_ok_def intro: normalize_ok e')
      next
        case (2 acc s3)
        note loop = this
        show ?case
        proof (rule outcome_pair, rule case_Match [OF loop(2)], goal_cases)
          case (2 s4)
          show ?case
            by (rule call [OF assignment_target_parses loop(1) 2(2)])
              (use 2 loop(3) in \<open>auto intro: target_mono\<close>)
        qed (use loop in auto)
      next
        case (3 ts s3)
        then show ?case
          by (intro outcome_pair vals moved_Consume)
            (auto simp: list_all_iff target_ok_def intro: ok_mono dest: ok_Consume)
      qed
    next
      case 2
      then show ?case
        using s1 e by (auto simp: stmt_ok_iff stmt_exprs_ok_def set_node_defs one_expr_def)
    qed
  qed simp
qed

text \<open>Case patterns.\<close>

lemma moved_ParseCaseVariantName: "moved s b s1 \<Longrightarrow> moved s b (snd (ParseCaseVariantName s1))"
  by (auto simp: ParseCaseVariantName_def ParseIdentifier_def Match_def Let_def
      intro!: moved_Advance_le moved_ReportError)

lemma ident_list_parses: "parses_after t F (\<lambda>_. False) (\<lambda>_ _. True) (ident_list m msg)"
proof -
  have "parses t F (\<lambda>_. False) (\<lambda>_ _. True) (\<lambda>s. Some (ParseIdentifier msg s))"
    by (rule parsesI) (auto simp: ParseIdentifier_def moved_ReportError intro: moved_Advance_le)
  then have "parses t F (\<lambda>_. False) (\<lambda>b. list_all (\<lambda>_. True)) (comma_list m (\<lambda>s. Some (ParseIdentifier msg s)))"
    by (rule comma_list_parses) (use enough in auto)
  then show ?thesis
    unfolding ident_list_def
    by (auto simp: parses_def parses_after_def ready_def outcome_def split: option.splits)
qed

lemma case_pattern_parses: "parses_after t F (\<lambda>_. False) case_pattern_ok (ParseCasePattern m)"
  unfolding ParseCasePattern_def
proof (rule parses_afterI, rule outcome_Let, rule outcome_if, goal_cases)
  case (1 s)
  obtain nm s1 where nm: "ParseCaseVariantName s = (nm, s1)" by fastforce
  have s1: "moved s False s1" using moved_ParseCaseVariantName [OF 1(2)] by (simp add: nm)
  have node: "outcome t (span_to_previous p s2 \<bind> (\<lambda>span. Some (\<lparr>cp_span = span, cp_kind = CP_kVariant,
      cp_expr = None, cp_variant_name = nm, cp_bindings = bs\<rparr>, s2)))
    (\<lambda>(x, s'). moved s False s' \<and> case_pattern_ok (ps_ok s') x)" if "moved s False s2" for s2 p bs
    by (rule span_ready [OF 1(1) that]) (use that in \<open>simp add: case_pattern_ok_def\<close>)
  show ?case
    unfolding nm Let_def prod.case ParseCasePatternBindings_def
  proof (rule case_Match_bind [OF s1], goal_cases)
    case (2 s2)
    show ?case
      by (rule outcome_assoc, rule outcome_if_bind, rule call [OF ident_list_parses 1(1) 2(2)],
          rule outcome_pair_bind, rule outcome_return, rule outcome_pair, rule node)
        (use 2 in \<open>auto intro!: node moved_Consume intro: moved_weaken\<close>)
  qed (auto intro!: node s1)
next
  case (2 s)
  show ?case
    by (rule call [OF expr_parses 2(1,2)]) (auto simp: case_pattern_ok_def)
qed

end

section \<open>Blocks and the statements with a body\<close>

abbreviation any_state :: "ParseState \<Rightarrow> bool" where
  "any_state \<equiv> \<lambda>_. False"

definition is_block :: "bool \<Rightarrow> Stmt \<Rightarrow> bool" where
  "is_block b x \<longleftrightarrow> stmt_ok b x \<and> s_kind x = S_kBlock"

definition is_if :: "bool \<Rightarrow> Stmt \<Rightarrow> bool" where
  "is_if b x \<longleftrightarrow> stmt_ok b x \<and> s_kind x = S_kIf"

lemma s_kind_simps [simp]:
  "s_kind (new_Stmt k) = k" "s_kind (set_s_span sp st) = s_kind st"
  "s_kind (set_s_statements x1 st) = s_kind st" "s_kind (set_s_exprs x2 st) = s_kind st"
  "s_kind (set_s_then_branch x3 st) = s_kind st" "s_kind (set_s_else_branch x3 st) = s_kind st"
  by (simp_all add: set_node_defs)

lemma block_mono: "is_block b x \<Longrightarrow> (b' \<longrightarrow> b) \<Longrightarrow> is_block b' x"
  by (auto simp: is_block_def intro: stmt_ok_mono)

lemma body_node_ok:
  "list_all (stmt_ok b) sts \<Longrightarrow> is_block b (set_s_statements sts (set_s_span sp (new_Stmt S_kBlock)))"
  "is_block b (set_s_span sp (new_Stmt S_kBlock))"
  "expr_ok b c \<Longrightarrow> is_block b th \<Longrightarrow> pred_option (\<lambda>x. is_block b x \<or> is_if b x) el \<Longrightarrow>
     is_if b (set_s_else_branch el (set_s_then_branch (Some th) (set_s_exprs [c] (set_s_span sp (new_Stmt S_kIf)))))"
  "k = S_kWhile \<or> k = S_kForCondition \<or> k = S_kForIn \<or> k = S_kForEachIndex \<Longrightarrow> expr_ok b c \<Longrightarrow> is_block b th \<Longrightarrow>
     stmt_ok b (set_s_then_branch (Some th) (set_s_exprs [c] (set_s_loop_second_name n2
       (set_s_loop_name n1 (set_s_span sp (new_Stmt k))))))"
  "expr_ok b c \<Longrightarrow> list_all (case_ok b) cs \<Longrightarrow> pred_option (default_ok b) d \<Longrightarrow>
     stmt_ok b (set_s_default_case d (set_s_has_default_case (d \<noteq> None) (set_s_switch_cases cs
       (set_s_exprs [c] (set_s_span sp (new_Stmt S_kSwitch))))))"
  "k = S_kBreak \<or> k = S_kContinue \<Longrightarrow> stmt_ok b (MakeLeafStmt k p q)"
  by (unfold is_block_def is_if_def)
    (subst stmt_ok_iff, auto simp: stmt_exprs_ok_def set_node_defs one_expr_def body_kind_def MakeLeafStmt_def
      pred_option_def)+

locale stmt_context = parser_fuel +
  fixes st :: "Stmt parser" and pif :: "SourcePosition \<Rightarrow> Stmt parser"
  assumes st: "parses_after t (F - 2) not_at_end stmt_ok st"
    and pif: "parses_after t (F - 2) any_state is_if (pif start)"
begin

end

sublocale stmt_context \<subseteq> inner: parser_fuel t m "F - 2"
  using enough by unfold_locales auto

context stmt_context
begin

lemma stmts_loop_parses:
  assumes r: "ready t (F - 2) s" and s1: "moved s b s1" and acc: "list_all (stmt_ok (ps_ok s1)) acc"
    and c: "\<And>s. c s \<Longrightarrow> not_at_end s"
  shows "outcome t (fuel_loop m (\<lambda>(acc, s).
      if c s then st s \<bind> (\<lambda>(x, s). Some (Inl (acc @ [x], RequireStatementSeparatorOrSync s)))
      else Some (Inr (acc, s))) (acc, s1))
    (\<lambda>(sts, s2). moved s b s2 \<and> list_all (stmt_ok (ps_ok s2)) sts)"
proof (rule loop_tail [OF r s1 inner.enough, where I = "\<lambda>s. list_all (stmt_ok (ps_ok s))" and
      J = "\<lambda>s. list_all (stmt_ok (ps_ok s))"], rule acc, rule outcome_pair, rule outcome_if, goal_cases)
  case (1 acc s2)
  show ?case
    by (rule call [OF st 1(1,2)])
      (use 1 c in \<open>auto simp: moved_RequireStatementSeparatorOrSync intro: stmt_ok_mono stmt_list_mono
        dest: ok_RequireStatementSeparatorOrSync\<close>)
qed auto

lemma block_parses: "parses_after t F (Check T_kLBrace) is_block (ParseBlockStmt m st)"
  unfolding ParseBlockStmt_def block_step_def
proof (rule parses_afterI, rule case_Match, assumption, goal_cases)
  case (2 s s1)
  have r1: "ready t (F - 2) s1" using 2 by (intro ready_after)
  have s1: "moved s1 False (SkipNewlines s1)" using r1 by (simp add: ready_def moved_refl moved_SkipNewlines)
  show ?case
  proof (rule previous_known [OF 2(6)], rule outcome_bind [OF stmts_loop_parses [OF r1 s1]], goal_cases)
    case (3 x)
    obtain sts s2 where x: "x = (sts, s2)" by fastforce
    then have "moved s True s2" using 3 moved_trans [OF 2(4), of False s2] by simp
    then have s2: "moved s True (Consume T_kRBrace msg s2)" for msg by (simp add: moved_Consume)
    have sts: "list_all (stmt_ok (ps_ok (Consume T_kRBrace msg s2))) sts" for msg
      by (rule stmt_list_mono(1) [where b = "ps_ok s2"]) (use 3 x in \<open>auto dest: ok_Consume\<close>)
    show ?case
      unfolding x prod.case Let_def
      by (rule span_ready [OF 2(1) s2]) (simp add: body_node_ok(1) [OF sts] moved_weaken [OF s2])
  qed auto
qed (auto simp: body_node_ok moved_ReportError)

lemma if_parses: "parses_after t F any_state is_if (ParseIfStmt_step m st pif start)"
  unfolding ParseIfStmt_step_def
proof (rule parses_afterI, rule call [OF expr_parses], assumption+, rule outcome_pair,
    rule call [OF block_parses], assumption+, rule outcome_pair, goal_cases)
  case (1 s c s1 th s2)
  let ?P = "\<lambda>(el, s3). moved s False s3 \<and> (ps_ok s3 \<longrightarrow> ps_ok s2) \<and> pred_option (\<lambda>x. is_block (ps_ok s3) x \<or> is_if (ps_ok s3) x) el"
  show ?case
  proof (rule outcome_bind [where P = ?P], rule case_Match [OF 1(7)], goal_cases)
    case (2 s3)
    show ?case
    proof (rule outcome_if, goal_cases)
      case 1
      have s4: "moved s True (Advance s3)" using 2(2) by (rule moved_Advance_le)
      then obtain p where p: "Previous (Advance s3) = Some p" using Previous_moved by blast
      show ?case
        unfolding Let_def
        by (rule previous_known [OF p], rule call_inner [OF pif \<open>ready t F s\<close> s4])
          (use 2 in \<open>auto intro: moved_weaken\<close>)
    next
      case 2
      show ?case
        by (rule call [OF block_parses \<open>ready t F s\<close> \<open>moved s True s3\<close>])
          (use \<open>ps_ok s3 = ps_ok s2\<close> in \<open>auto intro: moved_weaken\<close>)
    qed
  next
    case (4 x)
    then show ?case
      using 1 by (cases x) (auto simp: Let_def intro!: body_node_ok intro: ok_mono block_mono)
  qed (use 1 in auto)
qed

lemma loop_stmt_parses:
  "k = S_kWhile \<or> k = S_kForCondition \<or> k = S_kForIn \<or> k = S_kForEachIndex \<Longrightarrow>
     parses_after t F any_state stmt_ok (loop_stmt m st k start n1 n2)"
  unfolding loop_stmt_def
  by (rule parses_afterI, rule call [OF expr_parses], assumption+, rule outcome_pair,
      rule call [OF block_parses], assumption+)
    (auto intro!: body_node_ok intro: ok_mono)

lemma while_parses: "parses_after t F any_state stmt_ok (ParseWhileStmt m st start)"
  unfolding ParseWhileStmt_def by (rule loop_stmt_parses) simp

lemma for_parses: "parses_after t F any_state stmt_ok (ParseForStmt m st start)"
  unfolding ParseForStmt_def Let_def
proof (rule parses_afterI, intro outcome_if, goal_cases)
  case (1 s)
  show ?case by (rule tail_call [OF loop_stmt_parses 1(1)]) (use 1 in \<open>auto intro: moved_Advance_le\<close>)
next
  case (2 s)
  show ?case by (rule tail_call [OF loop_stmt_parses 2(1)]) (use 2 in \<open>auto intro: moved_Advance_le\<close>)
next
  case (3 s)
  show ?case by (rule tail_call [OF loop_stmt_parses 3(1)]) (use 3 in auto)
qed

text \<open>Switches.\<close>

lemma case_body_parses:
  "parses_after t (F - 2) any_state (\<lambda>b. list_all (stmt_ok b)) (ParseCaseBodyStatements m st)"
  unfolding ParseCaseBodyStatements_def
proof (rule parses_afterI)
  fix s assume r: "ready t (F - 2) s" and s: "moved s False s"
  have loop: "outcome t (fuel_loop m (\<lambda>(acc, s).
         if \<not> IsCaseBoundary s \<and> \<not> AtEnd s
         then st s \<bind> (\<lambda>(x, s). Some (Inl (acc @ [x], RequireStatementSeparatorOrSync s)))
         else Some (Inr (acc, s))) (sts, RequireStatementSeparatorOrSync s1))
      (\<lambda>(x, s'). moved s False s' \<and> list_all (stmt_ok (ps_ok s')) x)"
    if "moved s False s1" "list_all (stmt_ok (ps_ok s1)) sts" for s1 sts
    by (rule stmts_loop_parses [OF r])
      (use that in \<open>auto simp: moved_RequireStatementSeparatorOrSync intro: stmt_list_mono
        dest: ok_RequireStatementSeparatorOrSync\<close>)
  show "outcome t
     ((if \<not> IsCaseBoundary s \<and> \<not> Check T_kNewline s \<and> \<not> AtEnd s
       then st s \<bind> (\<lambda>(x, s). Some ([x], s)) else Some ([], s)) \<bind>
      (\<lambda>(statements, s). fuel_loop m (\<lambda>(acc, s).
         if \<not> IsCaseBoundary s \<and> \<not> AtEnd s
         then st s \<bind> (\<lambda>(x, s). Some (Inl (acc @ [x], RequireStatementSeparatorOrSync s)))
         else Some (Inr (acc, s))) (statements, RequireStatementSeparatorOrSync s)))
     (\<lambda>(x, s'). moved s False s' \<and> list_all (stmt_ok (ps_ok s')) x)"
  proof (rule outcome_if_bind, goal_cases)
    case 1
    show ?case
      by (rule outcome_assoc, rule call [OF st r s], rule outcome_pair_bind, rule outcome_return, rule outcome_pair,
          rule loop) simp_all
  next
    case 2
    show ?case by (rule outcome_return, rule outcome_pair, rule loop [OF s]) simp
  qed
qed

lemma switch_case_parses: "parses_after t (F - 2) any_state case_ok (ParseSwitchCase m st start)"
  unfolding ParseSwitchCase_def
proof (rule parses_afterI, rule call [OF inner.case_pattern_parses], assumption+, rule outcome_pair, rule outcome_Let, goal_cases)
  case (1 s p s1)
  show ?case
  proof (rule call [OF case_body_parses 1(1) moved_Consume [OF 1(3)]], simp, rule outcome_pair, goal_cases)
    case (1 sts s2)
    show ?case
      by (rule span_ready [OF \<open>ready t (F - 2) s\<close> 1(1)])
        (use 1 \<open>case_pattern_ok (ps_ok s1) p\<close> in \<open>auto simp: case_ok_iff intro: stmt_ok_mono dest: ok_Consume\<close>)
  qed
qed

lemma default_case_parses: "parses_after t (F - 2) any_state default_ok (ParseDefaultCase m st start)"
  unfolding ParseDefaultCase_def
proof (rule parses_afterI, rule outcome_Let, goal_cases)
  case (1 s)
  show ?case
  proof (rule call [OF case_body_parses 1(1) moved_Consume [OF 1(2)]], simp, rule outcome_pair, goal_cases)
    case (1 sts s2)
    show ?case
      by (rule span_ready [OF \<open>ready t (F - 2) s\<close> 1(1)]) (use 1 in \<open>auto simp: default_ok_iff\<close>)
  qed
qed

abbreviation switch_ok :: "ParseState \<Rightarrow> SwitchCase list \<times> DefaultCase option \<Rightarrow> bool" where
  "switch_ok s r \<equiv> list_all (case_ok (ps_ok s)) (fst r) \<and> pred_option (default_ok (ps_ok s)) (snd r)"

lemma switch_step_parses:
  assumes r: "ready t (F - 2) s" and s: "moved s False s" and acc: "switch_ok s acc"
  shows "outcome t (switch_step m st (acc, s)) (\<lambda>r. case r of
      Inl (acc', s') \<Rightarrow> moved s True s' \<and> switch_ok s' acc'
    | Inr (x, s') \<Rightarrow> moved s False s' \<and> switch_ok s' x)"
proof -
  obtain cs d where a: "acc = (cs, d)" by fastforce
  let ?P = "\<lambda>(acc', s'). moved s True s' \<and> switch_ok s' acc'"
  show ?thesis
    unfolding a switch_step_def prod.case
  proof (rule outcome_if, rule outcome_bind [where P = ?P], rule case_Match [OF s], goal_cases)
    case (2 s1)
    show ?case
      by (rule previous_known [OF 2(5)], rule call [OF switch_case_parses r 2(3)])
        (use 2 a acc in \<open>auto intro: stmt_list_mono\<close>)
  next
    case 3
    show ?case
    proof (rule case_Match [OF s], goal_cases)
      case (2 s1)
      show ?case
        by (rule previous_known [OF 2(4)], rule call [OF default_case_parses r 2(2)])
          (use 2 a acc in \<open>auto intro: stmt_list_mono\<close>)
    next
      case 3
      have "moved s True (SynchronizeStatement (ReportError (Current s) msg s))" for msg
        by (rule SynchronizeStatement_progress [OF moved_ReportError [OF s]])
          (use 3 \<open>\<not> Check T_kCase s\<close> \<open>\<not> Check T_kRBrace s \<and> not_at_end s\<close> in
            \<open>auto simp: IsCaseBoundary_def Check_def AtEnd_def Current_def ReportError_def ReportAt_def\<close>)
      then show ?case using a acc by (auto intro: stmt_list_mono)
    qed simp
  next
    case (4 x)
    then show ?case
      by (cases x) (auto simp: moved_RequireStatementSeparatorOrSync intro: stmt_list_mono
          dest: ok_RequireStatementSeparatorOrSync)
  qed (use s a acc in auto)
qed

lemma switch_parses: "parses_after t (F - 2) any_state stmt_ok (ParseSwitchStmt m st start)"
  unfolding ParseSwitchStmt_def
proof (rule parses_afterI, rule call [OF inner.expr_parses], assumption+, rule outcome_pair, rule outcome_Let, goal_cases)
  case (1 s c s1)
  have s2: "moved s False (SkipNewlines (Consume T_kLBrace msg s1))" for msg
    using 1(3) by (simp add: moved_SkipNewlines moved_Consume)
  let ?I = "\<lambda>s r. switch_ok s r \<and> (ps_ok s \<longrightarrow> ps_ok s1)"
  show ?case
  proof (rule loop_bind [OF 1(1) s2 inner.enough, where I = ?I and J = ?I], goal_cases)
    case (2 acc s3)
    show ?case
      by (rule outcome_mono [OF switch_step_parses [OF 2(1,2)]])
        (use 2(3) in \<open>auto split: sum.splits dest: moved_ok\<close>)
  next
    case (3 x s3)
    obtain cs d where x: "x = (cs, d)" by fastforce
    have s4: "moved s False (Consume T_kRBrace msg s3)" for msg using 3(1) by (simp add: moved_Consume)
    show ?case
      unfolding x prod.case Let_def
      by (rule span_ready [OF 1(1) s4], unfold outcome_Some prod.case, intro conjI s4 body_node_ok(5))
        (use 1(6) 3 x in \<open>auto intro: ok_mono stmt_list_mono dest: ok_Consume\<close>)
  qed (auto dest: ok_Consume)
qed

text \<open>The dispatch on the first token.\<close>

lemma statement_rows_parse:
  assumes "(k, f) \<in> set (statement_rows m st pif)"
  shows "k \<noteq> T_kEof \<and> parses_after t (F - 2) any_state stmt_ok (f start)"
proof -
  have leaf: "parses_after t (F - 2) any_state stmt_ok (leaf_stmt kd start)" if "kd = S_kBreak \<or> kd = S_kContinue" for kd
    unfolding leaf_stmt_def
    by (rule parses_afterI, rule previous_ready, assumption+) (use that in \<open>auto intro: body_node_ok\<close>)
  have weak: "parses_after t (F - 2) any_state stmt_ok p" if "parses_after t F any_state stmt_ok p" for p
    by (rule parses_after_weaken [OF that]) auto
  have binding: "parses_after t (F - 2) any_state stmt_ok (ParseBindingStmt m kd start b)"
    if "kd = S_kVar \<and> b \<or> kd = S_kConst \<and> \<not> b" for kd b
    by (rule parses_after_weaken [where A = "Check T_kIdentifier" and F = "F - 2" and R = stmt_ok])
      (use that inner.binding_stmt_parses [of kd start] in auto)
  have "parses_after t (F - 2) any_state stmt_ok (pif start)"
    by (rule parses_after_weaken [OF pif]) (auto simp: is_if_def)
  then show ?thesis
    using assms by (auto simp: statement_rows_def switch_parses inner.return_stmt_parses inner.defer_stmt_parses
        intro: leaf weak for_parses while_parses binding)
qed

end

context stmt_context
begin

lemma statement_parses: "parses_after t F not_at_end stmt_ok (ParseStatement_step m st pif)"
  unfolding ParseStatement_step_def
proof (rule parses_afterI, rule outcome_if, goal_cases)
  case (1 s)
  show ?case
    by (rule tail_call [OF block_parses 1(1,2)]) (use 1 in \<open>auto simp: is_block_def intro: moved_weaken\<close>)
next
  case (2 s)
  show ?case
  proof (rule keyword_dispatch_outcome [where F = F], goal_cases)
    case (1 k f s1)
    have "outcome t (f (begin_of (Current s)) s1) (\<lambda>(x, s'). moved s1 False s' \<and> stmt_ok (ps_ok s') x)"
      using statement_rows_parse [OF 1(1)] 1(4) by (simp add: parses_after_def)
    then show ?case
      by (rule outcome_mono) (use moved_trans [OF 1(3)] in \<open>auto intro: moved_weaken\<close>)
  next
    case 2
    show ?case by (auto simp: statement_rows_def)
  next
    case 5
    show ?case
    proof (rule outcome_if, goal_cases)
      case 1
      then have "Check T_kIdentifier s" by (simp add: LooksLikeBindingStmt_def Check_def split: if_splits)
      then show ?case
        using binding_stmt_parses [of S_kBinding "begin_of (Current s)"] 2(1)
        by (auto simp: parses_after_def elim!: outcome_mono intro: moved_weaken)
    next
      case 2
      show ?case
        using assign_or_expr_parses \<open>ready t F s\<close> by (auto simp: parses_after_def)
    qed
  qed (use 2 in \<open>auto intro: ready_able\<close>)
qed

end

section \<open>The entry points\<close>

lemma ParseStatement_Suc:
  "ParseStatement m (Suc n) = ParseStatement_step m (ParseStatement m n) (ParseIfStmt m n)"
  by (simp add: ParseStatement_def ParseIfStmt_def Let_def split_beta)

lemma ParseIfStmt_Suc:
  "ParseIfStmt m (Suc n) = ParseIfStmt_step m (ParseStatement m n) (ParseIfStmt m n)"
  by (simp add: ParseStatement_def ParseIfStmt_def Let_def split_beta)

text \<open>\<open>n\<close> units of fuel for \<open>n\<close> tokens, and twice that and some for the expressions in them.\<close>

lemma stmt_parsers_parse:
  assumes "t \<longrightarrow> 2 * n + 2 \<le> m"
  shows "parses_after t (2 * n) not_at_end stmt_ok (ParseStatement m n)"
    and "parses_after t (2 * n) any_state is_if (ParseIfStmt m n start)"
  using assms
proof (induction n arbitrary: start)
  case 0
  {
    case 1 show ?case
      by (rule parses_afterI) (auto simp: ready_def ParseStatement_def dest!: left_positive)
  next
    case 2 show ?case
      by (rule parses_afterI) (auto simp: ready_def ParseIfStmt_def dest!: left_positive)
  }
next
  case (Suc n)
  have ctxt: "stmt_context t m (2 * Suc n) (ParseStatement m n) (ParseIfStmt m n)"
    if "t \<longrightarrow> 2 * Suc n + 2 \<le> m"
    using that Suc.IH by unfold_locales auto
  {
    case 1 then show ?case
      unfolding ParseStatement_Suc by (rule stmt_context.statement_parses [OF ctxt])
  next
    case 2 then show ?case
      unfolding ParseIfStmt_Suc by (rule stmt_context.if_parses [OF ctxt])
  }
qed

interpretation statements: stmt_context "t \<and> 2 * n + 4 \<le> m" m "2 * n + 2" "ParseStatement m n" "ParseIfStmt m n"
  for t m n
proof -
  have *: "t \<and> 2 * n + 4 \<le> m \<longrightarrow> 2 * n + 2 \<le> m" by simp
  show "stmt_context (t \<and> 2 * n + 4 \<le> m) m (2 * n + 2) (ParseStatement m n) (ParseIfStmt m n)"
    using stmt_parsers_parse [OF *] by unfold_locales auto
qed

end
