(* ===== verification/MC_ParserDeclSpec.thy ===== *)
theory MC_ParserDeclSpec
  imports MC_ParserDecl MC_ParserStmtSpec
begin

text \<open>
  The declaration parsers keep their contract, and with them \<open>Run\<close>. The loops over the members of a
  struct or an enum are the exception: they need not consume a token, and go on for ever where the
  parser stands before a token that starts no member (\<open>stuck_field\<close>, \<open>stuck_variant\<close>).
\<close>

section \<open>The shape of declarations\<close>

definition field_ok :: "bool \<Rightarrow> FieldDecl \<Rightarrow> bool" where
  "field_ok b f \<longleftrightarrow> opt_type_ok b (fd_type f)"

definition variant_ok :: "bool \<Rightarrow> EnumVariantDecl \<Rightarrow> bool" where
  "variant_ok b v \<longleftrightarrow> list_all (field_ok b) (ev_payload_fields v)"

definition param_ok :: "bool \<Rightarrow> ParamDecl \<Rightarrow> bool" where
  "param_ok b p \<longleftrightarrow> opt_type_ok b (pa_type p)"

primrec decl_shape :: "DeclKind \<Rightarrow> bool \<Rightarrow> Decl \<Rightarrow> bool" where
  "decl_shape D_kFunc b d \<longleftrightarrow> body_kind {S_kBlock} (d_body d)"
| "decl_shape D_kExternFunc b d \<longleftrightarrow> d_body d = None"
| "decl_shape D_kStruct b d \<longleftrightarrow> d_body d = None \<and> d_variants d = []"
| "decl_shape D_kEnum b d \<longleftrightarrow> d_body d = None \<and> d_fields d = []"
| "decl_shape D_kDistinct b d \<longleftrightarrow> opt_type_ok b (d_aliased_type d)"
| "decl_shape D_kTypeAlias b d \<longleftrightarrow> opt_type_ok b (d_aliased_type d)"
| "decl_shape D_kConst b d \<longleftrightarrow>
     binding_ok True b (d_pattern d) (d_type_ann d) (d_has_initializer d) (d_values d)"
| "decl_shape D_kVar b d \<longleftrightarrow>
     binding_ok False b (d_pattern d) (d_type_ann d) (d_has_initializer d) (d_values d)"

definition decl_ok :: "bool \<Rightarrow> Decl \<Rightarrow> bool" where
  "decl_ok b d \<longleftrightarrow> decl_shape (d_kind d) b d \<and> list_all (param_ok b) (d_params d) \<and>
     list_all (opt_type_ok b) (d_return_types d) \<and> pred_option (stmt_ok b) (d_body d) \<and>
     list_all (field_ok b) (d_fields d) \<and> list_all (variant_ok b) (d_variants d)"

lemma member_mono:
  "field_ok b f \<Longrightarrow> (b' \<longrightarrow> b) \<Longrightarrow> field_ok b' f"
  "list_all (field_ok b) fs \<Longrightarrow> (b' \<longrightarrow> b) \<Longrightarrow> list_all (field_ok b') fs"
  "variant_ok b v \<Longrightarrow> (b' \<longrightarrow> b) \<Longrightarrow> variant_ok b' v"
  "list_all (variant_ok b) vs \<Longrightarrow> (b' \<longrightarrow> b) \<Longrightarrow> list_all (variant_ok b') vs"
  "param_ok b p \<Longrightarrow> (b' \<longrightarrow> b) \<Longrightarrow> param_ok b' p"
  "list_all (param_ok b) ps \<Longrightarrow> (b' \<longrightarrow> b) \<Longrightarrow> list_all (param_ok b') ps"
  by (auto simp: field_ok_def variant_ok_def param_ok_def list_all_iff intro: opt_type_mono)

lemma decl_shape_mono: "decl_shape k b d \<Longrightarrow> (b' \<longrightarrow> b) \<Longrightarrow> decl_shape k b' d"
  by (cases k) (auto intro: opt_type_mono stmt_ok_mono)

lemma decl_mono: "decl_ok b d \<Longrightarrow> (b' \<longrightarrow> b) \<Longrightarrow> decl_ok b' d"
  by (auto simp: decl_ok_def intro: decl_shape_mono member_mono opt_types_mono stmt_list_mono)

lemma decl_list_mono: "list_all (decl_ok b) ds \<Longrightarrow> (b' \<longrightarrow> b) \<Longrightarrow> list_all (decl_ok b') ds"
  by (auto simp: list_all_iff intro: decl_mono)

lemma decl_ok_span [simp]: "decl_ok b (d\<lparr>d_span := sp\<rparr>) \<longleftrightarrow> decl_ok b d"
  by (cases "d_kind d") (simp_all add: decl_ok_def)

section \<open>Imports and attributes\<close>

lemma moved_no_cycle: "moved s b s' \<Longrightarrow> \<not> moved s' True s"
  by (auto simp: moved_def)

lemma ParseIdentifier_eq: "ParseIdentifier m s = (fst (ParseIdentifier m s), snd (ParseIdentifier m s))"
  by simp

lemma moved_ParseIdentifier: "moved s b t \<Longrightarrow> moved s b (snd (ParseIdentifier m t))"
  using ParseIdentifier_moved [of s b t m, OF _ ParseIdentifier_eq] by simp

lemma ok_ParseIdentifier: "ps_ok (snd (ParseIdentifier m t)) \<Longrightarrow> ps_ok t"
  by (simp add: ParseIdentifier_def split: if_splits)

lemma moved_import_path: "moved s b t \<Longrightarrow> moved s b (snd (import_path nm t))"
proof (induction nm t rule: import_path.induct)
  case (1 nm t)
  show ?case
    using 1 by (subst import_path.simps)
      (auto simp: Let_def intro: moved_ParseIdentifier moved_Advance_le split: option.splits)
qed

lemma import_parses: "parses_after t F (\<lambda>_. False) (\<lambda>_ _. True) (ParseImportDecl start)"
  unfolding ParseImportDecl_def
proof (rule parses_afterI)
  fix s assume r: "ready t F s" and s: "moved s False s"
  let ?m = "''expected module name after import (slash-separated paths allowed)''"
  obtain nm s1 where id: "ParseIdentifier ?m s = (nm, s1)" by fastforce
  obtain md s2 where p: "(case nm of Some nm \<Rightarrow> import_path nm s1 | None \<Rightarrow> ([], s1)) = (md, s2)" by fastforce
  have "moved s False s1" using ParseIdentifier_moved [OF s id] by simp
  then have s2: "moved s False s2"
    using p moved_import_path [of s False s1] by (auto split: option.splits) (metis snd_conv)
  show "outcome t (let (name, s) = ParseIdentifier ?m s;
          (module_name, s) = case name of None \<Rightarrow> ([], s) | Some nm \<Rightarrow> import_path nm s
        in span_to_previous start s \<bind> (\<lambda>span. Some (\<lparr>im_span = span, im_module_name = module_name\<rparr>, s)))
     (\<lambda>(x, s'). moved s False s' \<and> True)"
    unfolding Let_def id prod.case p by (rule span_ready [OF r s2]) (use s2 in auto)
qed

context parser_fuel
begin

lemma attribute_args_parses:
  assumes r: "ready t F s" and s: "moved s b s1"
  shows "outcome t (attribute_args m s1) (\<lambda>(x, s'). moved s b s')"
  unfolding attribute_args_def
proof (rule loop_tail [OF r s enough, where I = "\<lambda>_ _. True" and J = "\<lambda>_ _. True"],
    rule TrueI, rule outcome_pair, rule outcome_Let, rule outcome_if, goal_cases)
  case (1 acc s2)
  have "\<not> AtEnd s2" using 1 by (auto simp: AtEnd_def Check_def IsLiteral_def)
  then have s3: "moved s2 True (Advance s2)" using 1(2) by (intro moved_Advance)
  show ?case
    unfolding Let_def
    by (rule span_ready [OF 1(1) s3], rule case_Match [OF s3]) (auto intro: moved_weaken s3)
qed (auto simp: moved_ReportError)

lemma attribute_step_parses:
  assumes r: "able t F s" and s: "moved s False s"
  shows "outcome t (attribute_step m (acc, s)) (\<lambda>r. case r of
      Inl (acc', s') \<Rightarrow> Check T_kAt s \<and> moved s True s'
    | Inr (x, s') \<Rightarrow> \<not> Check T_kAt s \<and> x = acc \<and> s' = s)"
  unfolding attribute_step_def
proof (rule outcome_pair, rule case_Match [OF s], goal_cases)
  case (2 s1)
  let ?m = "''expected attribute name after '@'' @ [apostrophe_char]"
  obtain nm s2 where id: "ParseIdentifier ?m s1 = (nm, s2)" by fastforce
  have s2: "moved s True s2" using ParseIdentifier_moved [OF 2(2) id] by simp
  have fuel: "t \<longrightarrow> F - 2 + 2 \<le> m" using enough by auto
  have r1: "ready t (F - 2) s1" by (rule able_after [OF r 2(2)])
  have "moved s1 False s2"
    using ParseIdentifier_moved [OF _ id, of s1 False] r1 by (simp add: ready_def moved_refl)
  then have r2: "ready t (F - 2) s2" by (rule ready_moved [OF r1])
  have fin: "outcome t (span_to_previous (begin_of p) s3 \<bind> (\<lambda>span.
      Some (Inl (acc @ [\<lparr>at_span = span, at_name = name_or_empty nm, at_args = args\<rparr>], s3))))
     (\<lambda>r. case r of Inl (acc', s') \<Rightarrow> Check T_kAt s \<and> moved s True s'
       | Inr (x, s') \<Rightarrow> \<not> Check T_kAt s \<and> x = acc \<and> s' = s)"
    if "moved s True s3" for s3 args p
    by (rule bind_span [OF that]) (use that 2(1) in auto)
  show ?case
    unfolding 2(4) Option.bind.simps Let_def id prod.case
  proof (rule case_Match_bind [OF s2], goal_cases)
    case (2 s3)
    have r3: "ready t (F - 2) s3"
      using able_after [OF r 2(2)] .
    have m3: "moved s3 False s3" using r3 by (simp add: ready_def moved_refl)
    show ?case
    proof (rule outcome_assoc, rule outcome_if_bind, goal_cases)
      case 1
      have args: "outcome t (attribute_args m s3) (\<lambda>(x, s'). moved s3 False s')"
        by (rule parser_fuel.attribute_args_parses [OF _ r3 m3]) (use fuel in unfold_locales)
      show ?case
      proof (rule outcome_bind [OF args], goal_cases)
        case (1 x)
        obtain as s4 where x: "x = (as, s4)" by fastforce
        have "moved s True s4" using 1 x moved_trans [OF 2(2), of False s4] by simp
        then show ?case
          unfolding x prod.case Option.bind.simps by (intro fin moved_Consume) simp_all
      qed
    next
      case 2
      show ?case unfolding Option.bind.simps prod.case by (intro fin moved_Consume \<open>moved s True s3\<close>) simp
    qed
  qed (auto intro!: fin s2)
qed auto

lemma attributes_parse:
  assumes r: "able t F s" and s: "moved s False s"
  shows "outcome t (ParseAttributes m s)
    (\<lambda>(as, s'). moved s (Check T_kAt s) s' \<and> (\<not> Check T_kAt s \<longrightarrow> as = [] \<and> s' = s))"
  unfolding ParseAttributes_def
proof (subst bind_to_Some, rule loop_progress [OF r s enough, where
      I = "\<lambda>s' as. moved s (s' \<noteq> s) s' \<and> (s' = s \<longrightarrow> as = []) \<and> (s' \<noteq> s \<longrightarrow> Check T_kAt s)" and
      J = "\<lambda>s' as. moved s (s' \<noteq> s) s' \<and> \<not> Check T_kAt s' \<and> (s' = s \<longrightarrow> as = []) \<and> (s' \<noteq> s \<longrightarrow> Check T_kAt s)"], goal_cases)
  case (2 acc s2)
  show ?case
    by (rule outcome_mono [OF attribute_step_parses [OF 2(1,3)]])
      (use 2(3,4) in \<open>auto split: sum.splits intro: moved_weaken dest: moved_trans moved_no_cycle\<close>)
qed (use s in \<open>auto intro: moved_weaken\<close>)

end

section \<open>Functions\<close>

lemma call_if:
  assumes "parses_after t F A R p" "ready t F s" "moved s b s1" "R (ps_ok s1) e"
    and "\<And>x s2. moved s b s2 \<Longrightarrow> (ps_ok s2 \<longrightarrow> ps_ok s1) \<Longrightarrow> R (ps_ok s2) x \<Longrightarrow> outcome t (f (x, s2)) Q"
  shows "outcome t ((if c then p s1 else Some (e, s1)) \<bind> f) Q"
  by (rule outcome_if_bind, rule call [OF assms(1-3)]) (use assms(3-5) in auto)

context parser_fuel
begin

lemma type_params_parse: "parses_after t F (\<lambda>_. False) (\<lambda>_ _. True) (ParseTypeParams m)"
  unfolding ParseTypeParams_def
proof (rule parses_afterI, rule case_Match, assumption, goal_cases)
  case (2 s s1)
  show ?case
    by (rule outcome_if_bind, rule call [OF ident_list_parses 2(1,4)])
      (use 2 in \<open>auto intro!: moved_Consume intro: moved_weaken\<close>)
qed auto

lemma comma_list_after:
  assumes p: "parses_after t F A R p" and mono: "\<And>b b' x. R b x \<Longrightarrow> (b' \<longrightarrow> b) \<Longrightarrow> R b' x"
  shows "parses_after t F (\<lambda>_. False) (\<lambda>b. list_all (R b)) (comma_list m p)"
  unfolding comma_list_def
proof (rule parses_afterI, rule loop_tail [OF _ _ enough, where I = "\<lambda>s. list_all (R (ps_ok s))"
      and J = "\<lambda>s. list_all (R (ps_ok s))"], assumption, assumption, goal_cases)
  case (2 s acc s2)
  show ?case
    unfolding prod.case
  proof (rule call [OF p 2(3,4)], rule outcome_pair, goal_cases)
    case (1 x s3)
    have "list_all (R (ps_ok s3)) (acc @ [x])"
      using 1(3,4) 2(5) by (auto simp: list_all_iff intro: mono)
    then show ?case
      by (intro case_Match [OF 1(1)]) (auto simp: 1)
  qed
qed auto

lemma type_list_after: "parses_after t F (\<lambda>_. False) (\<lambda>b. list_all (opt_type_ok b)) (comma_list m (ParseTypeExpr m 0))"
  by (rule comma_list_after [OF type_parses opt_type_mono])

lemma return_types_parse: "parses_after t F (\<lambda>_. False) (\<lambda>b. list_all (opt_type_ok b)) (ParseReturnTypes m)"
  unfolding ParseReturnTypes_def
proof (rule parses_afterI, rule case_Match, assumption, goal_cases)
  case (2 s s1)
  show ?case
    by (rule outcome_if_bind, rule call [OF type_list_after 2(1,4)])
      (use 2 in \<open>auto intro!: moved_Consume intro: moved_weaken opt_types_mono dest: ok_Consume\<close>)
next
  case (3 s)
  show ?case
    by (rule call [OF type_parses 3(1,2)]) auto
qed simp

lemma parameter_parses: "parses_after t F (\<lambda>_. False) param_ok (ParseParameter m)"
  unfolding ParseParameter_def
proof (rule parses_afterI, rule outcome_Let, rule outcome_bind [OF attributes_parse [OF ready_able]],
    assumption, assumption, goal_cases)
  case (1 s x)
  obtain as s1 where x: "x = (as, s1)" by fastforce
  have s1: "moved s False s1" using 1 x by (auto intro: moved_weaken)
  obtain nm s2 where id: "ParseIdentifier ''expected parameter name'' s1 = (nm, s2)" by fastforce
  have s2: "moved s False (Consume T_kColon msg s2)" for msg
    using ParseIdentifier_moved [OF s1 id] by (simp add: moved_Consume)
  show ?case
    unfolding x Let_def prod.case id
    by (rule call [OF type_parses 1(1) s2], rule outcome_pair, rule end_of_type_ready [OF 1(1)], assumption)
      (auto simp: param_ok_def)
qed

end

definition opt_decl_ok :: "bool \<Rightarrow> Decl option \<Rightarrow> bool" where
  "opt_decl_ok b x \<longleftrightarrow> (case x of Some d \<Rightarrow> decl_ok b d | None \<Rightarrow> False)"

locale decl_context = parser_fuel +
  fixes n :: nat
  assumes nesting: "t \<longrightarrow> F \<le> 2 * n \<and> 2 * n + 4 \<le> m"
begin

lemma body_parses: "parses_after t F (Check T_kLBrace) is_block (ParseBlockStmt m (ParseStatement m n))"
proof -
  have "(t \<and> 2 * n + 4 \<le> m) = t" using nesting by auto
  then have "parses_after t (2 * n + 2) (Check T_kLBrace) is_block (ParseBlockStmt m (ParseStatement m n))"
    using statements.block_parses [of t n m] by simp
  then show ?thesis by (rule parses_after_weaken) (use nesting in auto)
qed

lemma start_decl_simps [simp]:
  "d_kind (start_decl k as p) = k" "d_params (start_decl k as p) = []" "d_return_types (start_decl k as p) = []"
  "d_body (start_decl k as p) = None" "d_fields (start_decl k as p) = []" "d_variants (start_decl k as p) = []"
  by (simp_all add: start_decl_def new_Decl_def)

lemma func_tail_parses:
  assumes k: "d_kind d = D_kFunc \<and> eb \<or> d_kind d = D_kExternFunc \<and> \<not> eb"
    and d: "d_body d = None" "d_fields d = []" "d_variants d = []"
  shows "parses_after t F (\<lambda>_. False) opt_decl_ok (ParseFuncLikeTail m n d eb)"
  unfolding ParseFuncLikeTail_def
proof (rule parses_afterI, goal_cases)
  case (1 s)
  note r = 1(1)
  obtain nm s1 where id: "ParseIdentifier ''expected function name'' s = (nm, s1)" by fastforce
  have s1: "moved s False s1" using ParseIdentifier_moved [OF 1(2) id] by simp
  show ?case
    unfolding id Let_def prod.case
  proof (rule call [OF type_params_parse r s1], rule outcome_pair,
      rule call_if [OF comma_list_after [OF parameter_parses member_mono(5)] r moved_Consume],
      assumption+, simp, simp, rule outcome_pair,
      rule call_if [OF return_types_parse r moved_Consume], assumption, simp, simp, rule outcome_pair,
      rule outcome_if, goal_cases)
    case (1 tps s2 ps s3 rs s4)
    show ?case
    proof (rule call [OF body_parses r 1(8)], rule outcome_pair, goal_cases)
      case (1 body s5)
      then show ?case
        using k d \<open>eb\<close> member_mono(6) [OF \<open>list_all (param_ok (ps_ok s3)) ps\<close>, of "ps_ok s5"]
          \<open>ps_ok s4 \<longrightarrow> ps_ok (Consume T_kRParen ''expected ')' after parameter list'' s3)\<close>
          opt_types_mono [OF \<open>list_all (opt_type_ok (ps_ok s4)) rs\<close>, of "ps_ok s5"]
        by (auto simp: opt_decl_ok_def decl_ok_def body_kind_def is_block_def dest: ok_Consume)
    qed
  next
    case (2 tps s2 ps s3 rs s4)
    show ?case
      by (rule span_ready [OF r 2(8)])
        (use 2 k d member_mono(6) [OF \<open>list_all (param_ok (ps_ok s3)) ps\<close>, of "ps_ok s4"] in
          \<open>auto simp: opt_decl_ok_def decl_ok_def dest: ok_Consume\<close>)
  qed
qed

lemma func_parses: "parses_after t F (\<lambda>_. False) opt_decl_ok (ParseFuncDecl m n as start)"
  unfolding ParseFuncDecl_def by (rule func_tail_parses) simp_all

lemma extern_parses: "parses_after t F (\<lambda>_. False) opt_decl_ok (ParseExternFuncDecl m n as start)"
  unfolding ParseExternFuncDecl_def
proof (rule parses_afterI, goal_cases)
  case (1 s)
  note r = 1(1)
  let ?s1 = "Consume T_kLParen ''expected '(' after extern'' s"
  obtain nm s2 where id: "ParseIdentifier ''expected extern ABI name'' ?s1 = (nm, s2)" by fastforce
  have s1: "moved s False ?s1" using 1(2) by (rule moved_Consume) simp
  have s2: "moved s False s2" using ParseIdentifier_moved [OF s1 id] by simp
  have s4: "moved s False (Consume T_kFunc msg (Consume T_kRParen msg' s2))" for msg msg'
    using s2 by (simp add: moved_Consume)
  show ?case
    unfolding Let_def id prod.case
  proof (rule call [OF func_tail_parses r s4], simp_all only: prod.case, goal_cases)
    case (5 x s5)
    then obtain d where d: "x = Some d" "decl_ok (ps_ok s5) d"
      by (auto simp: opt_decl_ok_def split: option.splits)
    show ?case
      unfolding d option.case
      by (rule span_ready [OF r 5(1)]) (use d 5(1) in \<open>auto simp: opt_decl_ok_def\<close>)
  qed (auto simp: start_decl_def new_Decl_def)
qed

lemma distinct_parses: "parses_after t F (\<lambda>_. False) opt_decl_ok (ParseDistinctDecl m as start)"
  unfolding ParseDistinctDecl_def
proof (rule parses_afterI, goal_cases)
  case (1 s)
  obtain nm s1 where id: "ParseIdentifier ''expected distinct type name'' s = (nm, s1)" by fastforce
  have s2: "moved s False (Consume T_kAssign msg s1)" for msg
    using ParseIdentifier_moved [OF 1(2) id] by (simp add: moved_Consume)
  show ?case
    unfolding Let_def id prod.case
    by (rule call [OF type_parses 1(1) s2], rule outcome_pair, rule end_of_type_ready [OF 1(1)], assumption)
      (auto simp: opt_decl_ok_def decl_ok_def)
qed

lemma alias_parses: "parses_after t F (\<lambda>_. False) opt_decl_ok (ParseTypeAliasDecl m as start)"
  unfolding ParseTypeAliasDecl_def
proof (rule parses_afterI, goal_cases)
  case (1 s)
  obtain nm s1 where id: "ParseIdentifier ''expected type alias name'' s = (nm, s1)" by fastforce
  have s1: "moved s False s1" using ParseIdentifier_moved [OF 1(2) id] by simp
  show ?case
    unfolding Let_def id prod.case
    by (rule call [OF type_params_parse 1(1) s1], rule outcome_pair, rule call [OF type_parses 1(1) moved_Consume],
        assumption, simp, rule outcome_pair, rule end_of_type_ready [OF 1(1)], assumption)
      (auto simp: opt_decl_ok_def decl_ok_def)
qed

lemma binding_decl_parses:
  "k = D_kVar \<and> storage \<or> k = D_kConst \<and> \<not> storage \<Longrightarrow>
     parses_after t F (\<lambda>_. False) opt_decl_ok (ParseBindingDecl m as k storage start)"
  unfolding ParseBindingDecl_def
  by (rule parses_afterI, rule call [OF binding_tail_parses], assumption+)
    (auto simp: opt_decl_ok_def decl_ok_def tail_ok_def)

end

section \<open>Members\<close>

definition field_start :: "TokenKind \<Rightarrow> bool" where
  "field_start k \<longleftrightarrow> k = T_kIdentifier \<or> k = T_kColon \<or> IsTypeExprStart k"

definition variant_start :: "TokenKind \<Rightarrow> bool" where
  "variant_start k \<longleftrightarrow> k = T_kIdentifier \<or> k = T_kLParen"

definition stuck_member :: "(TokenKind \<Rightarrow> bool) \<Rightarrow> ParseState \<Rightarrow> bool" where
  \<comment> \<open>Before a token that starts no member, separates none and does not end the list.\<close>
  "stuck_member start s \<longleftrightarrow> \<not> start (tok_kind (Current s)) \<and>
     tok_kind (Current s) \<notin> {T_kComma, T_kNewline, T_kRBrace, T_kEof}"

lemma ConsumeMemberSeparator_moved:
  assumes "moved s b s1"
  shows "moved s (b \<or> tok_kind (Current s1) \<in> {T_kComma, T_kNewline}) (ConsumeMemberSeparator s1)"
proof -
  have "moved s True (Advance s1)" if "tok_kind (Current s1) \<in> {T_kComma, T_kNewline}"
    using assms that by (intro moved_Advance) (auto simp: AtEnd_def)
  then show ?thesis
    using assms by (auto simp: ConsumeMemberSeparator_def Match_def Check_def moved_SkipNewlines moved_ReportError
        intro: moved_weaken)
qed

lemma ok_ConsumeMemberSeparator: "ps_ok (ConsumeMemberSeparator s) \<Longrightarrow> ps_ok s"
  by (auto simp: ConsumeMemberSeparator_def Match_def split: if_splits)

lemma moved_same_place: "moved s False s' \<Longrightarrow> moved s True s' \<or> Current s' = Current s"
  by (auto simp: moved_def Current_def le_less)

text \<open>A pass makes progress unless it starts before such a token.\<close>

lemma member_progress:
  assumes "moved s False s1" "start (tok_kind (Current s)) \<longrightarrow> moved s True s1" "\<not> stuck_member start s"
    "\<not> Check T_kRBrace s \<and> \<not> AtEnd s"
  shows "moved s True (ConsumeMemberSeparator s1)"
proof (cases "moved s True s1")
  case True
  from ConsumeMemberSeparator_moved [OF this] show ?thesis by simp
next
  case False
  with moved_same_place [OF assms(1)] have "Current s1 = Current s" by blast
  moreover from False assms(2-4) have "tok_kind (Current s) \<in> {T_kComma, T_kNewline}"
    by (auto simp: stuck_member_def Check_def AtEnd_def)
  ultimately show ?thesis using ConsumeMemberSeparator_moved [OF assms(1)] by simp
qed

lemma Consume_progress:
  assumes "moved s b s1" "k \<noteq> T_kEof"
  shows "moved s (b \<or> Check k s1) (Consume k m s1)"
    and "\<not> Check k s1 \<Longrightarrow> Current (Consume k m s1) = Current s1"
  using moved_Consume [OF assms, of m] parser.moved_here [OF _ assms(2,1)]
  by (cases "Check k s1"; simp add: Consume_def Match_def ReportError_def ReportAt_def Current_def)+

lemma ParseIdentifier_progress:
  assumes "moved s b s1" "ParseIdentifier m s1 = (x, u)"
  shows "moved s (b \<or> Check T_kIdentifier s1) u" and "\<not> Check T_kIdentifier s1 \<Longrightarrow> Current u = Current s1"
  using ParseIdentifier_moved [OF assms] assms(2)
  by (cases "Check T_kIdentifier s1"; auto simp: ParseIdentifier_def ReportError_def ReportAt_def Current_def)+

context parser_fuel
begin

lemma field_parses: "parses_after t F (\<lambda>s. field_start (tok_kind (Current s))) field_ok (ParseFieldDecl m)"
  unfolding ParseFieldDecl_def
proof (rule parses_afterI, goal_cases)
  case (1 s)
  obtain nm s1 where id: "ParseIdentifier ''expected field name'' s = (nm, s1)" by fastforce
  note i = ParseIdentifier_progress [OF 1(2) id]
  note c = Consume_progress [OF i(1), of T_kColon]
  show ?case
    unfolding Let_def id prod.case
  proof (rule call [OF type_parses 1(1) c(1)], simp, rule outcome_pair, rule end_of_type_ready [OF 1(1)], assumption, goal_cases)
    case (1 x s3 e)
    let ?s2 = "Consume T_kColon ''expected ':' after field name'' s1"
    have "moved s True s3" if "field_start (tok_kind (Current s))"
    proof (cases "Check T_kIdentifier s \<or> Check T_kColon s1")
      case True
      with 1(1) show ?thesis by simp
    next
      case False
      with c(2) i(2) have "Current ?s2 = Current s" "Current s1 = Current s" by auto
      with False that have "starts_type 0 ?s2"
        by (auto simp: starts_type_def field_start_def Check_def kMaxTypeExprDepth_def)
      with 1(2) show ?thesis by simp
    qed
    then show ?case using 1 by (auto simp: field_ok_def intro: moved_when)
  qed
qed

lemma variant_field_parses: "parses_after t F (\<lambda>_. False) field_ok (ParseVariantField m)"
  unfolding ParseVariantField_def
proof (rule parses_afterI, goal_cases)
  case (1 s)
  obtain nm s1 where c: "(if Check T_kIdentifier s \<and> kind_at s 1 = T_kColon
       then (tok_lexeme (Current s), Advance (Advance s)) else ([], s)) = (nm, s1)" by fastforce
  have s1: "moved s False s1" using c 1(2) by (auto intro!: moved_Advance_le split: if_splits)
  show ?case
    unfolding Let_def c prod.case
    by (rule call [OF type_parses 1(1) s1], rule outcome_pair, rule end_of_type_ready [OF 1(1)], assumption)
      (auto simp: field_ok_def)
qed

lemma variant_parses: "parses_after t F (\<lambda>s. variant_start (tok_kind (Current s))) variant_ok (ParseEnumVariantDecl m)"
  unfolding ParseEnumVariantDecl_def
proof (rule parses_afterI, goal_cases)
  case (1 s)
  note r = 1(1)
  let ?A = "variant_start (tok_kind (Current s))"
  obtain nm s1 where id: "ParseIdentifier ''expected enum variant name'' s = (nm, s1)" by fastforce
  note i = ParseIdentifier_progress [OF 1(2) id]
  show ?case
    unfolding Let_def id prod.case
  proof (rule case_Match_bind [OF i(1)], goal_cases)
    case (2 s2)
    show ?case
    proof (rule outcome_assoc, rule call_if [OF comma_list_after [OF variant_field_parses member_mono(1)] r 2(2)],
        assumption+, simp, rule outcome_pair_bind, rule outcome_return, rule outcome_pair, goal_cases)
      case (1 fs s3)
      have s4: "moved s True (Consume T_kRParen msg s3)" for msg using 1(1) by (simp add: moved_Consume)
      show ?case
        by (rule span_ready [OF r s4])
          (use 1(3) in \<open>auto simp: variant_ok_def moved_weaken [OF s4] intro: member_mono(2) dest: ok_Consume\<close>)
    qed
  next
    case 3
    have A: "moved s ?A s1"
      using i 3 by (cases "Check T_kIdentifier s") (auto simp: variant_start_def Check_def intro: moved_weaken)
    show ?case
      unfolding Option.bind.simps prod.case
      by (rule span_ready [OF r A]) (use A in \<open>auto simp: variant_ok_def\<close>)
  qed simp
qed

text \<open>The loop: with the guarantee that it never stands before a stuck token, it returns.\<close>

lemma members_parse:
  assumes item: "parses_after t F (\<lambda>s. start (tok_kind (Current s))) R p"
    and mono: "\<And>b b' x. R b x \<Longrightarrow> (b' \<longrightarrow> b) \<Longrightarrow> R b' x"
    and r: "ready t F s" and s1: "moved s b s1"
    and free: "t \<longrightarrow> (\<forall>s'. moved s b s' \<longrightarrow> \<not> stuck_member start s')"
    and cont: "\<And>xs s2. moved s b s2 \<Longrightarrow> (ps_ok s2 \<longrightarrow> ps_ok s1) \<Longrightarrow> list_all (R (ps_ok s2)) xs \<Longrightarrow> outcome t (g (xs, s2)) Q"
  shows "outcome t (fuel_loop m (member_step p) ([], s1) \<bind> g) Q"
proof (rule loop_progress [OF ready_able [OF r] s1 enough, where
      I = "\<lambda>s xs. list_all (R (ps_ok s)) xs \<and> (ps_ok s \<longrightarrow> ps_ok s1)" and
      J = "\<lambda>s xs. list_all (R (ps_ok s)) xs \<and> (ps_ok s \<longrightarrow> ps_ok s1)"], goal_cases)
  case (2 acc s2)
  have r2: "ready t F s2" by (rule ready_moved [OF r 2(2)])
  show ?case
    unfolding member_step_def prod.case
  proof (rule outcome_if, rule call [OF item r2 2(3)], rule outcome_pair, goal_cases)
    case (1 x s3)
    have "moved s2 t (ConsumeMemberSeparator s3)"
    proof (cases t)
      case True
      with free 2(2) have "\<not> stuck_member start s2" by blast
      from member_progress [OF 1(2,3) this 1(1)] show ?thesis by (rule moved_weaken) simp
    qed (use ConsumeMemberSeparator_moved [OF 1(2)] in \<open>auto intro: moved_weaken\<close>)
    moreover have ok: "ps_ok (ConsumeMemberSeparator s3) \<longrightarrow> ps_ok s3 \<and> ps_ok s2"
      using 1(4) by (auto dest: ok_ConsumeMemberSeparator)
    moreover have "R (ps_ok (ConsumeMemberSeparator s3)) x"
      by (rule mono [OF 1(5)]) (use ok in blast)
    moreover have "R (ps_ok (ConsumeMemberSeparator s3)) y" if "y \<in> set acc" for y
      by (rule mono [of "ps_ok s2"]) (use ok that 2(4) in \<open>auto simp: list_all_iff\<close>)
    ultimately show ?case using 2(4) by (auto simp: list_all_iff)
  qed (use 2 in auto)
qed (use cont in auto)

end

context decl_context
begin

lemma struct_parses:
  assumes r: "ready t F s" and s: "moved s False s"
    and free: "t \<longrightarrow> (\<forall>s'. moved s False s' \<longrightarrow> \<not> stuck_member field_start s')"
  shows "outcome t (ParseStructDecl m as start s) (\<lambda>(x, s'). moved s False s' \<and> opt_decl_ok (ps_ok s') x)"
proof -
  obtain nm s1 where id: "ParseIdentifier ''expected struct name'' s = (nm, s1)" by fastforce
  have s1: "moved s False s1" using ParseIdentifier_moved [OF s id] by simp
  have open_body: "moved s False (SkipNewlines (Consume T_kLBrace msg s2))" if "moved s False s2" for msg s2
    using that by (simp add: moved_SkipNewlines moved_Consume)
  show ?thesis
    unfolding ParseStructDecl_def Let_def id prod.case
  proof (rule call [OF type_params_parse r s1], rule outcome_pair,
      rule members_parse [OF field_parses member_mono(1) r open_body free], assumption, assumption, assumption,
      rule outcome_pair, goal_cases)
    case (1 tps s2 fs s3)
    have s4: "moved s False (Consume T_kRBrace msg s3)" for msg using 1(5) by (simp add: moved_Consume)
    show ?case
      by (rule span_ready [OF r s4])
        (use 1(7) s4 in \<open>auto simp: opt_decl_ok_def decl_ok_def intro: member_mono(2) dest: ok_Consume\<close>)
  qed
qed

lemma enum_parses:
  assumes r: "ready t F s" and s: "moved s False s"
    and free: "t \<longrightarrow> (\<forall>s'. moved s False s' \<longrightarrow> \<not> stuck_member variant_start s')"
  shows "outcome t (ParseEnumDecl m as start s) (\<lambda>(x, s'). moved s False s' \<and> opt_decl_ok (ps_ok s') x)"
proof -
  obtain nm s1 where id: "ParseIdentifier ''expected enum name'' s = (nm, s1)" by fastforce
  have s1: "moved s False s1" using ParseIdentifier_moved [OF s id] by simp
  have open_body: "moved s False (SkipNewlines (Consume T_kLBrace msg s2))" if "moved s False s2" for msg s2
    using that by (simp add: moved_SkipNewlines moved_Consume)
  show ?thesis
    unfolding ParseEnumDecl_def Let_def id prod.case
  proof (rule call [OF type_params_parse r s1], rule outcome_pair,
      rule members_parse [OF variant_parses member_mono(3) r open_body free], assumption, assumption, assumption,
      rule outcome_pair, goal_cases)
    case (1 tps s2 vs s3)
    have s4: "moved s False (Consume T_kRBrace msg s3)" for msg using 1(5) by (simp add: moved_Consume)
    show ?case
      by (rule span_ready [OF r s4])
        (use 1(7) s4 in \<open>auto simp: opt_decl_ok_def decl_ok_def intro: member_mono(4) dest: ok_Consume\<close>)
  qed
qed

end

section \<open>Top-level declarations and files\<close>

lemma moved_SynchronizeTopLevel: "moved s b t \<Longrightarrow> moved s b (SynchronizeTopLevel t)"
proof (induction t rule: SynchronizeTopLevel.induct)
  case (1 t)
  have "moved s b (Advance t)" by (rule moved_Advance_le [OF "1.prems"])
  with 1 show ?case
    by (subst SynchronizeTopLevel.simps) (auto simp: Match_def moved_SkipNewlines)
qed

lemma ok_SynchronizeTopLevel [simp]: "ps_ok (SynchronizeTopLevel t) = ps_ok t"
  by (induction t rule: SynchronizeTopLevel.induct)
    (subst SynchronizeTopLevel.simps, auto simp: Match_def)

lemma SynchronizeTopLevel_progress:
  assumes "moved s b t" "\<not> AtEnd t" "\<not> is_top_level_start (tok_kind (Current t))"
  shows "moved s True (SynchronizeTopLevel t)"
proof -
  have "in_bounds t" using assms(1) by (auto dest: moved_wf simp: ps_wf_def)
  moreover have "moved s True (Advance t)" by (rule moved_Advance [OF assms(1,2)])
  ultimately show ?thesis
    using assms(2,3) by (subst SynchronizeTopLevel.simps)
      (auto simp: Match_def intro: moved_SkipNewlines moved_SynchronizeTopLevel)
qed

lemma moved_skip_export_block: "moved s b t \<Longrightarrow> moved s b (skip_export_block d t)"
proof (induction d t rule: skip_export_block.induct)
  case (1 d t)
  have "moved s b (Advance t)" by (rule moved_Advance_le [OF "1.prems"])
  with 1 show ?case by (subst skip_export_block.simps) auto
qed

abbreviation top_level_result :: "ParseState \<Rightarrow> Decl option \<times> ParseState \<Rightarrow> bool" where
  "top_level_result s r \<equiv> (case r of
      (Some d, s') \<Rightarrow> moved s True s' \<and> decl_ok (ps_ok s') d
    | (None, s') \<Rightarrow> moved s True (SynchronizeTopLevel s') \<and> \<not> ps_ok s')"

abbreviation run_result :: "ParseState \<Rightarrow> ParseResult \<times> ParseState \<Rightarrow> bool" where
  "run_result s r \<equiv> (case r of (r, s') \<Rightarrow> moved s False s' \<and> AtEnd s' \<and>
     pr_ok r = (ps_ok s' \<and> \<not> HasErrors (ps_diagnostics s')) \<and>
     list_all (decl_ok (ps_ok s')) (sf_decls (pr_source_file r)))"

definition without_members :: "Token list \<Rightarrow> bool" where
  "without_members toks \<longleftrightarrow> (\<forall>x \<in> set toks. tok_kind x \<noteq> T_kStruct \<and> tok_kind x \<noteq> T_kEnum)"

lemma Current_mem: "ps_wf s \<Longrightarrow> Current s \<in> set (ps_tokens s)"
  by (simp add: ps_wf_def in_bounds_def Current_def)

context decl_context
begin

lemma declaration_rows_parse:
  assumes row: "(k, f) \<in> set (declaration_rows m n as)" and k: "Check k s" and s1: "moved s True s1"
    and r: "ready t (F - 2) s1" and free: "t \<longrightarrow> without_members (ps_tokens s)"
  shows "outcome t (f start s1) (top_level_result s)"
proof -
  have wf: "ps_wf s" using s1 by (simp add: moved_wf)
  have r1: "ready t F s1" using r by (auto simp: ready_def)
  have m1: "moved s1 False s1" using r by (simp add: ready_def moved_refl)
  have *: "outcome t (f start s1) (top_level_result s)"
    if "outcome t (f start s1) (\<lambda>(x, s'). moved s1 False s' \<and> opt_decl_ok (ps_ok s') x)"
    by (rule outcome_mono [OF that])
      (use moved_trans [OF s1] in \<open>auto simp: opt_decl_ok_def split: option.splits\<close>)
  have pa: "outcome t (p s1) (\<lambda>(x, s'). moved s1 False s' \<and> opt_decl_ok (ps_ok s') x)"
    if "parses_after t F (\<lambda>_. False) opt_decl_ok p" for p
    using that r1 by (simp add: parses_after_def)
  have "\<not> t" if "k = T_kStruct \<or> k = T_kEnum"
    using free Current_mem [OF wf] k that by (auto simp: without_members_def Check_def)
  then consider "f = ParseStructDecl m as" "\<not> t" | "f = ParseEnumDecl m as" "\<not> t"
    | "parses_after t F (\<lambda>_. False) opt_decl_ok (f start)"
    using row by (auto simp: declaration_rows_def func_parses extern_parses distinct_parses alias_parses binding_decl_parses)
  then show ?thesis
  proof cases
    case 1
    show ?thesis by (rule *, unfold 1(1), rule struct_parses [OF r1 m1]) (use 1(2) in simp)
  next
    case 2
    show ?thesis by (rule *, unfold 2(1), rule enum_parses [OF r1 m1]) (use 2(2) in simp)
  next
    case 3
    show ?thesis by (rule *, rule pa, rule 3)
  qed
qed

lemma top_level_parses:
  assumes r: "able t F s" and s: "moved s False s" and "\<not> AtEnd s"
    and free: "t \<longrightarrow> without_members (ps_tokens s)"
  shows "outcome t (ParseTopLevelDecl m n s) (top_level_result s)"
  unfolding ParseTopLevelDecl_def
proof (rule outcome_bind [OF attributes_parse [OF r s]], goal_cases)
  case (1 x)
  obtain as s1 where x: "x = (as, s1)" by fastforce
  define s2 where "s2 = (if as \<noteq> [] then SkipNewlines s1 else s1)"
  have s2: "moved s (Check T_kAt s) s2" "\<not> Check T_kAt s \<longrightarrow> s2 = s"
    using 1 x by (auto simp: s2_def moved_SkipNewlines)
  have m2: "moved s2 False s2" using s2(1) by (simp add: moved_wf moved_refl)
  have r2: "able t F s2" by (rule able_moved [OF r s2(1)])
  have toks: "ps_tokens s2 = ps_tokens s" using s2(1) by (simp add: moved_def)
  have lift: "moved s True u" if "moved s2 True u" for u using moved_trans [OF s2(1) that] by simp
  show ?case
    unfolding x prod.case Let_def s2_def [symmetric]
  proof (rule case_Match [OF s2(1)], goal_cases)
    case (2 s3)
    have "moved s True (case Match T_kLBrace u of Some v \<Rightarrow> skip_export_block 1 v | None \<Rightarrow> u)"
      if "moved s True u" for u
      using that by (auto simp: Match_def moved_skip_export_block moved_Advance_le)
    moreover have "ps_ok (skip_export_block d v) = ps_ok v" for d v
      by (induction d v rule: skip_export_block.induct) (subst skip_export_block.simps, auto)
    moreover have "ps_ok (case Match T_kLBrace u of Some v \<Rightarrow> skip_export_block 1 v | None \<Rightarrow> u) = ps_ok u" for u
      using calculation(2) by (auto simp: Match_def)
    ultimately show ?case
      unfolding 2(4) Option.bind.simps
      by (auto intro!: moved_SynchronizeTopLevel moved_ReportError 2(2))
  next
    case 3
    show ?case
    proof (rule keyword_dispatch_outcome [OF _ _ r2 m2], goal_cases)
      case (1 k f s3)
      show ?case
        by (rule outcome_mono [OF declaration_rows_parse [OF 1(1-4)]])
          (use free toks in \<open>auto split: option.splits dest: lift\<close>)
    next
      case 2
      show ?case by (auto simp: declaration_rows_def)
    next
      case 3
      have "moved s True (SynchronizeTopLevel (ReportError (Current s2) msg s2))" for msg
      proof (cases "Check T_kAt s")
        case True
        with s2(1) show ?thesis by (auto intro!: moved_SynchronizeTopLevel moved_ReportError)
      next
        case False
        with s2(2) have "s2 = s" by simp
        have "\<not> is_top_level_start (tok_kind (Current s))"
          using 3 False \<open>s2 = s\<close> by (auto simp: is_top_level_start_def declaration_rows_def Check_def)
        then show ?thesis
          unfolding \<open>s2 = s\<close> by (intro SynchronizeTopLevel_progress [OF moved_ReportError [OF s]])
            (use assms(3) in \<open>auto simp: AtEnd_def Current_def ReportError_def ReportAt_def\<close>)
      qed
      then show ?case by simp
    qed
  qed simp
qed

lemma import_step_parses:
  assumes r: "able t F s" and s: "moved s False s"
  shows "outcome t (import_step (acc, s)) (\<lambda>r. case r of
      Inl (acc', s') \<Rightarrow> moved s True s'
    | Inr (x, s') \<Rightarrow> moved s False s')"
  unfolding import_step_def prod.case
proof (rule case_Match [OF s], goal_cases)
  case (2 s1)
  have r1: "ready t (F - 2) s1" by (rule able_after [OF r 2(2)])
  have "moved s True (snd (RequireSourceSeparator c u))" if "moved s True u" for c u
    using that by (simp add: RequireSourceSeparator_def moved_SkipNewlines moved_ReportError)
  with 2 r1 show ?case
    unfolding 2(4) Option.bind.simps
    by (intro call [OF import_parses r1 moved_refl]) (auto simp: ready_def dest: moved_trans [OF 2(2)])
qed (use s in auto)

lemma decl_step_parses:
  assumes r: "able t F s" and s: "moved s False s" and free: "t \<longrightarrow> without_members (ps_tokens s)"
    and acc: "list_all (decl_ok (ps_ok s)) acc"
  shows "outcome t (decl_step m n (acc, s)) (\<lambda>r. case r of
      Inl (acc', s') \<Rightarrow> moved s True s' \<and> list_all (decl_ok (ps_ok s')) acc'
    | Inr (x, s') \<Rightarrow> moved s False s' \<and> AtEnd s' \<and> list_all (decl_ok (ps_ok s')) x)"
  unfolding decl_step_def prod.case
proof (rule outcome_if, goal_cases)
  case 1
  show ?case
  proof (rule outcome_bind [OF top_level_parses [OF r s 1 free]], goal_cases)
    case (1 x)
    obtain d s1 where x: "x = (d, s1)" by fastforce
    show ?case
      using 1 x acc
      by (cases d) (auto simp: moved_SkipNewlines intro: decl_list_mono dest: moved_ok)
  qed
qed (use s acc in auto)

lemma Run_parses:
  assumes r: "able t F s" and s: "moved s False s" and free: "t \<longrightarrow> without_members (ps_tokens s)"
  shows "outcome t (Run m n s) (run_result s)"
  unfolding Run_def
proof (rule outcome_Let, rule outcome_Let, rule loop_progress [OF r moved_SkipNewlines [OF s] enough, where
      I = "\<lambda>_ _. True" and J = "\<lambda>_ _. True"], goal_cases)
  case (2 acc s1)
  show ?case
    by (rule outcome_mono [OF import_step_parses [OF 2(1,3)]]) (auto split: sum.splits intro: moved_weaken)
next
  case (3 ims s1)
  show ?case
    unfolding prod.case
  proof (rule loop_progress [OF r moved_SkipNewlines [OF 3(1)] enough, where
        I = "\<lambda>s ds. list_all (decl_ok (ps_ok s)) ds" and
        J = "\<lambda>s ds. AtEnd s \<and> list_all (decl_ok (ps_ok s)) ds"], goal_cases)
    case (2 acc s2)
    have "t \<longrightarrow> without_members (ps_tokens s2)" using free 2(2) by (simp add: moved_def)
    from decl_step_parses [OF 2(1,3) this 2(4)] show ?case
      by (rule outcome_mono) (auto split: sum.splits intro: moved_weaken)
  qed auto
qed simp

end

section \<open>The parser on the tokens of a file\<close>

lemma Parse_fuel_parses:
  assumes wf: "ps_wf (parse_start lexed p d)"
    and t: "t \<longrightarrow> length (lr_tokens lexed) \<le> k \<and> without_members (lr_tokens lexed)"
  shows "outcome t (Run (2 * k + 4) k (parse_start lexed p d)) (run_result (parse_start lexed p d))"
proof -
  have c: "decl_context t (2 * k + 4) (2 * k) k" by unfold_locales auto
  have "able t (2 * k) (parse_start lexed p d)"
    using wf t by (auto simp: able_def tokens_left_def parse_start_def)
  from decl_context.Run_parses [OF c this] show ?thesis
    using wf t by (simp add: moved_refl parse_start_def)
qed

interpretation declarations: decl_context "t \<and> F \<le> 2 * n \<and> 2 * n + 4 \<le> m" m F n for t m F n
  by unfold_locales auto

end
