(* ===== verification/MC_ParserStuck.thy ===== *)
theory MC_ParserStuck
  imports MC_ParserDeclSpec
begin

text \<open>
  The loops over the members of a struct or an enum do not return when they stand before a token of
  \<open>stuck_member\<close>: the member parser reports and consumes nothing, \<open>ConsumeMemberSeparator\<close> reports
  and consumes nothing, and the loop goes round again.
\<close>

definition same_place :: "ParseState \<Rightarrow> ParseState \<Rightarrow> bool" where
  "same_place s s' \<longleftrightarrow> ps_tokens s' = ps_tokens s \<and> ps_index s' = ps_index s"

lemma same_place_ReportError [simp]: "same_place s (ReportError k m s') \<longleftrightarrow> same_place s s'"
  by (simp add: same_place_def ReportError_def ReportAt_def)

lemma same_place_kind: "same_place s s' \<Longrightarrow> Current s' = Current s" "same_place s s' \<Longrightarrow> Check k s' = Check k s"
  "same_place s s' \<Longrightarrow> AtEnd s' = AtEnd s" "same_place s s' \<Longrightarrow> Previous s' = Previous s"
  by (simp_all add: same_place_def Current_def Check_def AtEnd_def Previous_def)

lemma same_place_previous: "same_place s s' \<Longrightarrow> 0 < ps_index s \<Longrightarrow> \<exists>p. Previous s' = Some p"
  by (simp add: same_place_def Previous_def)

lemma same_place_trans: "same_place s t \<Longrightarrow> same_place t u \<Longrightarrow> same_place s u"
  by (simp add: same_place_def)

lemma Consume_same: "\<not> Check k s \<Longrightarrow> same_place s (Consume k m s)"
  by (simp add: Consume_def Match_def same_place_def ReportError_def ReportAt_def)

lemma ParseIdentifier_same:
  "\<not> Check T_kIdentifier s \<Longrightarrow> fst (ParseIdentifier m s) = None \<and> same_place s (snd (ParseIdentifier m s))"
  by (simp add: ParseIdentifier_def same_place_def ReportError_def ReportAt_def)

lemma ParseTypeExpr_same:
  assumes "\<not> IsTypeExprStart (tok_kind (Current s))"
  shows "ParseTypeExpr (Suc m) 0 s = Some (None, ReportError (Current s) ''expected type expression'' s)"
  using assms by (auto simp: ParseTypeExpr_Suc type_entry_def kMaxTypeExprDepth_def IsTypeExprStart_def Match_def Check_def)

lemma ConsumeMemberSeparator_same:
  "tok_kind (Current s) \<notin> {T_kComma, T_kNewline, T_kRBrace} \<Longrightarrow> same_place s (ConsumeMemberSeparator s)"
  by (simp add: ConsumeMemberSeparator_def Match_def Check_def same_place_def ReportError_def ReportAt_def)

lemma ParseFieldDecl_same:
  assumes "stuck_member field_start s" "0 < ps_index s"
  shows "\<exists>x s'. ParseFieldDecl (Suc m) s = Some (x, s') \<and> same_place s s'"
proof -
  obtain nm s1 where id: "ParseIdentifier ''expected field name'' s = (nm, s1)" by fastforce
  have k: "\<not> Check T_kIdentifier s" "\<not> Check T_kColon s" "\<not> IsTypeExprStart (tok_kind (Current s))"
    using assms(1) by (auto simp: stuck_member_def field_start_def Check_def)
  have s1: "same_place s s1" using ParseIdentifier_same [OF k(1)] by (metis id snd_conv)
  let ?s2 = "Consume T_kColon ''expected ':' after field name'' s1"
  have s2: "same_place s ?s2"
    using Consume_same [of T_kColon s1] k(2) s1 by (auto simp: same_place_kind intro: same_place_trans)
  let ?s3 = "ReportError (Current ?s2) ''expected type expression'' ?s2"
  obtain p where "Previous ?s3 = Some p"
    using same_place_previous [of s ?s3] assms(2) s2 by auto
  moreover have "\<not> IsTypeExprStart (tok_kind (Current ?s2))" using k(3) s2 by (simp add: same_place_kind)
  ultimately show ?thesis
    using s2 unfolding ParseFieldDecl_def Let_def id prod.case
    by (simp add: ParseTypeExpr_same end_of_type_def)
qed

lemma ParseEnumVariantDecl_same:
  assumes "stuck_member variant_start s" "0 < ps_index s"
  shows "\<exists>x s'. ParseEnumVariantDecl m s = Some (x, s') \<and> same_place s s'"
proof -
  obtain nm s1 where id: "ParseIdentifier ''expected enum variant name'' s = (nm, s1)" by fastforce
  have k: "\<not> Check T_kIdentifier s" "\<not> Check T_kLParen s"
    using assms(1) by (auto simp: stuck_member_def variant_start_def Check_def)
  have s1: "same_place s s1" using ParseIdentifier_same [OF k(1)] by (metis id snd_conv)
  obtain p where "Previous s1 = Some p" using same_place_previous [OF s1 assms(2)] by blast
  with s1 k(2) show ?thesis
    unfolding ParseEnumVariantDecl_def Let_def id prod.case
    by (simp add: Match_def same_place_kind span_to_previous_def)
qed

lemma members_stuck:
  assumes item: "\<And>s. stuck_member start s \<Longrightarrow> 0 < ps_index s \<Longrightarrow> \<exists>x s'. p s = Some (x, s') \<and> same_place s s'"
    and s: "stuck_member start s" "0 < ps_index s"
  shows "fuel_loop j (member_step p) (acc :: 'a list, s) = None"
proof (rule fuel_loop_diverges [where I = "\<lambda>(_, s). stuck_member start s \<and> 0 < ps_index s"])
  fix y :: "'a list \<times> ParseState" assume y: "case y of (_, s) \<Rightarrow> stuck_member start s \<and> 0 < ps_index s"
  obtain acc s where [simp]: "y = (acc, s)" by fastforce
  from y item [of s] obtain x s' where x: "p s = Some (x, s')" "same_place s s'" by auto
  have k: "tok_kind (Current s) \<notin> {T_kComma, T_kNewline, T_kRBrace, T_kEof}" using y by (simp add: stuck_member_def)
  have "same_place s' (ConsumeMemberSeparator s')"
    using k x(2) by (intro ConsumeMemberSeparator_same) (simp add: same_place_kind)
  then have c: "same_place s (ConsumeMemberSeparator s')" using x(2) by (blast intro: same_place_trans)
  have "stuck_member start (ConsumeMemberSeparator s') \<and> 0 < ps_index (ConsumeMemberSeparator s')"
    using y c by (simp add: stuck_member_def same_place_kind) (simp add: same_place_def)
  then show "member_step p y = None \<or> (\<exists>z. member_step p y = Some (Inl z) \<and>
      (case z of (_, s) \<Rightarrow> stuck_member start s \<and> 0 < ps_index s))"
    using k x by (simp add: member_step_def Check_def AtEnd_def)
qed (use s in simp)

section \<open>A file that opens with a malformed body\<close>

definition malformed_members :: "Token list \<Rightarrow> bool" where
  \<comment> \<open>\<open>struct S {\<close> or \<open>enum E {\<close> and then a token that starts no member.\<close>
  "malformed_members toks \<longleftrightarrow> 4 \<le> length toks \<and> tok_kind (toks ! 1) = T_kIdentifier \<and>
     tok_kind (toks ! 2) = T_kLBrace \<and> tok_kind (toks ! 3) \<notin> {T_kComma, T_kNewline, T_kRBrace, T_kEof} \<and>
     (tok_kind (toks ! 0) = T_kStruct \<and> \<not> field_start (tok_kind (toks ! 3)) \<or>
      tok_kind (toks ! 0) = T_kEnum \<and> \<not> variant_start (tok_kind (toks ! 3)))"

lemma SkipNewlines_here: "\<not> Check T_kNewline s \<Longrightarrow> SkipNewlines s = s"
  by (subst SkipNewlines.simps) simp

lemma fuel_loop_stop: "f x = Some (Inr r) \<Longrightarrow> fuel_loop (Suc n) f x = Some r"
  by simp

lemma keyword_dispatch_hit:
  "(k, f) \<in> set rows \<Longrightarrow> distinct (map fst rows) \<Longrightarrow> Check k s \<Longrightarrow> k \<noteq> T_kEof \<Longrightarrow>
     keyword_dispatch rows other s = f (begin_of (Current s)) (Advance s)"
proof (induction rows)
  case (Cons row rows)
  obtain k' f' where row: "row = (k', f')" by fastforce
  have "\<not> AtEnd s" using Cons.prems by (auto dest: Check_not_AtEnd)
  then have "Previous (Advance s) = Some (Current s)" by (simp add: Previous_def Advance_def Current_def)
  with Cons row show ?case
    by (cases "k' = k") (auto simp: Match_def Check_def image_iff)
qed simp

lemma Advance_index:
  "ps_index s = i \<Longrightarrow> tok_kind (ps_tokens s ! i) \<noteq> T_kEof \<Longrightarrow> Advance s = s\<lparr>ps_index := i + 1\<rparr>"
  by (simp add: Advance_def AtEnd_def Current_def)

lemma ParseAttributes_none: "\<not> Check T_kAt s \<Longrightarrow> ParseAttributes (Suc m) s = Some ([], s)"
  by (simp add: ParseAttributes_def attribute_step_def Match_def)

text \<open>The body loop is reached, and does not come back.\<close>

lemma malformed_declaration:
  assumes "malformed_members (ps_tokens s)" "ps_index s = 0"
  shows "ParseTopLevelDecl (Suc m) n s = None"
proof -
  let ?t = "ps_tokens s"
  define at where "at i = s\<lparr>ps_index := i\<rparr>" for i
  have s: "s = at 0" using assms(2) by (simp add: at_def)
  have kinds: "tok_kind (?t ! 0) \<in> {T_kStruct, T_kEnum}" "tok_kind (?t ! 1) = T_kIdentifier"
    "tok_kind (?t ! 2) = T_kLBrace" "tok_kind (?t ! 3) \<notin> {T_kComma, T_kNewline, T_kRBrace, T_kEof}"
    using assms(1) by (auto simp: malformed_members_def)
  have cur: "Current (at i) = ?t ! i" for i by (simp add: at_def Current_def)
  have chk: "Check k (at i) \<longleftrightarrow> tok_kind (?t ! i) = k" for k i by (simp add: Check_def cur)
  have adv: "Advance (at i) = at (Suc i)" if "tok_kind (?t ! i) \<noteq> T_kEof" for i
    using that by (simp add: at_def Advance_def AtEnd_def Current_def)
  have steps: "Advance (at 0) = at 1" "Advance (at 1) = at 2" "Advance (at 2) = at 3"
    using kinds adv [of 0] adv [of 1] adv [of 2] by (auto simp: numeral_2_eq_2 numeral_3_eq_3)
  have head: "ParseIdentifier msg (at 1) = (Some (tok_lexeme (?t ! 1)), at 2)"
    "ParseTypeParams q (at 2) = Some (None, at 2)"
    "SkipNewlines (Consume T_kLBrace msg (at 2)) = at 3" for msg q
    using kinds steps
    by (simp_all add: ParseIdentifier_def ParseTypeParams_def Consume_def Match_def chk cur SkipNewlines_here)
  have pos: "0 < ps_index (at 3)" by (simp add: at_def)
  have struct: "ParseStructDecl (Suc m) [] start (at 1) = None" if "tok_kind (?t ! 0) = T_kStruct" for start
  proof -
    have "stuck_member field_start (at 3)"
      using assms(1) that by (auto simp: malformed_members_def stuck_member_def cur)
    then show ?thesis
      using members_stuck [of field_start "ParseFieldDecl (Suc m)", OF ParseFieldDecl_same _ pos]
      unfolding ParseStructDecl_def head Let_def prod.case Option.bind.simps by (simp del: fuel_loop.simps)
  qed
  have enum: "ParseEnumDecl (Suc m) [] start (at 1) = None" if "tok_kind (?t ! 0) = T_kEnum" for start
  proof -
    have "stuck_member variant_start (at 3)"
      using assms(1) that by (auto simp: malformed_members_def stuck_member_def cur)
    then show ?thesis
      using members_stuck [of variant_start "ParseEnumVariantDecl (Suc m)", OF ParseEnumVariantDecl_same _ pos]
      unfolding ParseEnumDecl_def head Let_def prod.case Option.bind.simps by (simp del: fuel_loop.simps)
  qed
  have rows: "distinct (map fst (declaration_rows (Suc m) n []))" by (simp add: declaration_rows_def)
  have "\<not> Check T_kAt (at 0)" "\<not> Check T_kExport (at 0)" using kinds(1) by (auto simp: chk)
  moreover have "keyword_dispatch (declaration_rows (Suc m) n []) other (at 0) = None" for other
  proof (cases "tok_kind (?t ! 0) = T_kStruct")
    case True
    then show ?thesis
      using keyword_dispatch_hit [OF _ rows, of T_kStruct "ParseStructDecl (Suc m) []" "at 0" other] struct
      by (simp add: declaration_rows_def chk steps)
  next
    case False
    with kinds(1) have "tok_kind (?t ! 0) = T_kEnum" by simp
    then show ?thesis
      using keyword_dispatch_hit [OF _ rows, of T_kEnum "ParseEnumDecl (Suc m) []" "at 0" other] enum
      by (simp add: declaration_rows_def chk steps)
  qed
  ultimately show ?thesis
    unfolding s ParseTopLevelDecl_def by (simp add: ParseAttributes_none Match_def)
qed

lemma malformed_members_stuck:
  assumes "malformed_members (lr_tokens lexed)"
  shows "Parse_fuel k lexed p d = None"
proof -
  let ?s = "parse_start lexed p d"
  have k0: "tok_kind (Current ?s) \<in> {T_kStruct, T_kEnum}"
    using assms by (auto simp: malformed_members_def parse_start_def Current_def)
  then have nl: "SkipNewlines ?s = ?s" by (intro SkipNewlines_here) (auto simp: Check_def)
  have "fuel_loop (Suc j) import_step ([], ?s) = Some ([], ?s)" for j
    using k0 by (intro fuel_loop_stop) (auto simp: import_step_def Match_def Check_def)
  moreover have "fuel_loop (Suc j) (decl_step (Suc i) n) ([], ?s) = None" for i j n
  proof -
    have "ParseTopLevelDecl (Suc i) n ?s = None"
      using malformed_declaration [of ?s i n] assms by (simp add: parse_start_def)
    then show ?thesis using k0 by (auto simp: decl_step_def AtEnd_def)
  qed
  ultimately have *: "fuel_loop m import_step ([], ?s) = Some ([], ?s)"
    "fuel_loop m (decl_step m n) ([], ?s) = None" if "m = Suc j" for m j n
    using that by (simp_all del: fuel_loop.simps)
  have "2 * k + 4 = Suc (2 * k + 3)" by simp
  note * = * [OF this]
  have "Run (2 * k + 4) k ?s = None"
    unfolding Run_def Let_def nl *(1) Option.bind.simps prod.case nl *(2) by simp
  then show ?thesis by (simp add: Parse_fuel_def)
qed

end
