(* ===== verification/MC_Type.thy ===== *)
theory MC_Type
  imports MC_Ast
begin

text \<open>
  \<open>compiler/sema/type.cpp\<close> and \<open>type_predicates.h\<close>: the types of the checker, their equality up to
  the names of built-in types, their text, and the conversions from and to type expressions. A
  dereferenced null pointer and \<open>front()\<close> of an empty vector are \<open>None\<close>.
\<close>

section \<open>Types\<close>

datatype (plugins only: code) TypeKind =
    Ty_kUnknown | Ty_kVoid | Ty_kBool | Ty_kString | Ty_kNil | Ty_kIntLiteral | Ty_kFloatLiteral
  | Ty_kNamed | Ty_kPointer | Ty_kConst | Ty_kArray | Ty_kTuple | Ty_kRange | Ty_kProcedure

datatype Type =
  mk_Type (ty_kind: TypeKind) (ty_name: string) (ty_metadata: string) (ty_subtypes: "Type list")

definition UnknownType :: Type where "UnknownType = mk_Type Ty_kUnknown [] [] []"
definition VoidType :: Type where "VoidType = mk_Type Ty_kVoid [] [] []"
definition BoolType :: Type where "BoolType = mk_Type Ty_kBool [] [] []"
definition StringType :: Type where "StringType = mk_Type Ty_kString [] [] []"
definition NilType :: Type where "NilType = mk_Type Ty_kNil [] [] []"
definition IntLiteralType :: Type where "IntLiteralType = mk_Type Ty_kIntLiteral [] [] []"
definition FloatLiteralType :: Type where "FloatLiteralType = mk_Type Ty_kFloatLiteral [] [] []"

definition NamedType :: "string \<Rightarrow> Type" where
  "NamedType name = mk_Type Ty_kNamed name [] []"

definition PointerType :: "Type \<Rightarrow> Type" where
  "PointerType pointee = mk_Type Ty_kPointer [] [] [pointee]"

definition ConstType :: "Type \<Rightarrow> Type" where
  "ConstType inner = mk_Type Ty_kConst [] [] [inner]"

definition ArrayType :: "Type \<Rightarrow> string \<Rightarrow> Type" where
  "ArrayType inner length_text = mk_Type Ty_kArray [] length_text [inner]"

definition TupleType :: "Type list \<Rightarrow> Type" where
  "TupleType elements = mk_Type Ty_kTuple [] [] elements"

definition RangeType :: "Type \<Rightarrow> Type" where
  "RangeType element = mk_Type Ty_kRange [] [] [element]"

definition ProcedureType :: "Type list \<Rightarrow> Type list \<Rightarrow> Type" where
  "ProcedureType params returns =
     mk_Type Ty_kProcedure [] (string_of_nat (length params)) (params @ returns)"

definition IsUnknown :: "Type \<Rightarrow> bool" where
  "IsUnknown t \<longleftrightarrow> ty_kind t = Ty_kUnknown"

lemmas type_constructors =
  UnknownType_def VoidType_def BoolType_def StringType_def NilType_def IntLiteralType_def
  FloatLiteralType_def NamedType_def PointerType_def ConstType_def ArrayType_def TupleType_def
  RangeType_def ProcedureType_def

section \<open>Built-in names\<close>

definition IsStringBuiltinName :: "string \<Rightarrow> bool" where
  "IsStringBuiltinName name \<longleftrightarrow> name = ''str'' \<or> name = ''string'' \<or> name = ''cstr''"

definition NamedOrBuiltinType :: "string \<Rightarrow> Type" where
  "NamedOrBuiltinType name =
     (if name = ''bool'' then BoolType
      else if IsStringBuiltinName name then StringType
      else NamedType name)"

primrec CanonicalizeBuiltinType :: "Type \<Rightarrow> Type" where
  "CanonicalizeBuiltinType (mk_Type k name metadata subtypes) =
     (let subtypes = map CanonicalizeBuiltinType subtypes in
      if k \<noteq> Ty_kNamed then mk_Type k name metadata subtypes
      else if name = ''bool'' \<and> subtypes = [] then BoolType
      else if IsStringBuiltinName name \<and> subtypes = [] then StringType
      else mk_Type k name metadata subtypes)"

lemma Canonicalize_size: "size (CanonicalizeBuiltinType t) \<le> size t"
proof (induction t)
  case (mk_Type k name metadata ts)
  have "size_list size (map CanonicalizeBuiltinType ts) \<le> size_list size ts"
    using mk_Type by (induction ts) (auto intro: add_mono)
  then show ?case by (simp add: Let_def type_constructors)
qed

lemma subtype_size [termination_simp]: "x \<in> set (ty_subtypes (CanonicalizeBuiltinType t)) \<Longrightarrow> size x < size t"
proof -
  assume x: "x \<in> set (ty_subtypes (CanonicalizeBuiltinType t))"
  have "size x < size (CanonicalizeBuiltinType t)"
    using x by (cases "CanonicalizeBuiltinType t") (auto dest: size_list_estimation' [of x _ "size x" size])
  then show ?thesis using Canonicalize_size [of t] by simp
qed

lemma front_size: "x # xs = ty_subtypes (CanonicalizeBuiltinType t) \<Longrightarrow> size x < size t"
  by (rule subtype_size) (metis list.set_intros(1))

text \<open>\<open>operator==\<close> compares the canonical forms, and their subtypes by itself.\<close>

function type_eq :: "Type \<Rightarrow> Type \<Rightarrow> bool" where
  "type_eq l r =
     (let cl = CanonicalizeBuiltinType l; cr = CanonicalizeBuiltinType r in
      ty_kind cl = ty_kind cr \<and> ty_name cl = ty_name cr \<and> ty_metadata cl = ty_metadata cr \<and>
      length (ty_subtypes cl) = length (ty_subtypes cr) \<and>
      list_all (\<lambda>(x, y). type_eq x y) (zip (ty_subtypes cl) (ty_subtypes cr)))"
  by pat_completeness auto
termination
  by (relation "measure (\<lambda>(l, r). size l)") (auto dest: set_zip_leftD subtype_size)

declare type_eq.simps [simp del]

section \<open>Predicates (type_predicates.h)\<close>

definition IsIntegerTypeName :: "string \<Rightarrow> bool" where
  "IsIntegerTypeName name \<longleftrightarrow> name \<in> {''i8'', ''i16'', ''i32'', ''i64'', ''isize'', ''u8'', ''u16'', ''u32'',
     ''u64'', ''usize'', ''uintptr''}"

definition IsFloatTypeName :: "string \<Rightarrow> bool" where
  "IsFloatTypeName name \<longleftrightarrow> name = ''f32'' \<or> name = ''f64''"

definition IsIntegerType :: "Type \<Rightarrow> bool" where
  "IsIntegerType t \<longleftrightarrow> ty_kind t = Ty_kNamed \<and> IsIntegerTypeName (ty_name t)"

definition IsFloatType :: "Type \<Rightarrow> bool" where
  "IsFloatType t \<longleftrightarrow> ty_kind t = Ty_kNamed \<and> IsFloatTypeName (ty_name t)"

definition IsNumericType :: "Type \<Rightarrow> bool" where
  "IsNumericType t \<longleftrightarrow> ty_kind t = Ty_kIntLiteral \<or> ty_kind t = Ty_kFloatLiteral \<or> IsIntegerType t \<or>
     IsFloatType t"

definition IsIntegerLikeType :: "Type \<Rightarrow> bool" where
  "IsIntegerLikeType t \<longleftrightarrow> ty_kind t = Ty_kIntLiteral \<or> IsIntegerType t"

definition IsBoolType :: "Type \<Rightarrow> bool" where
  "IsBoolType t \<longleftrightarrow> ty_kind t = Ty_kBool \<or> (ty_kind t = Ty_kNamed \<and> ty_name t = ''bool'')"

definition IsPointerLikeType :: "Type \<Rightarrow> bool" where
  "IsPointerLikeType t \<longleftrightarrow> ty_kind t = Ty_kPointer"

definition IsUintPtrConvertibleType :: "Type \<Rightarrow> bool" where
  "IsUintPtrConvertibleType t \<longleftrightarrow> ty_kind t = Ty_kPointer \<or> ty_kind t = Ty_kProcedure"

definition IsUintPtrType :: "Type \<Rightarrow> bool" where
  "IsUintPtrType t \<longleftrightarrow> ty_kind t = Ty_kNamed \<and> ty_name t = ''uintptr''"

section \<open>Fields of the built-in aggregates\<close>

definition BuiltinAggregateFields :: "Type \<Rightarrow> (string \<times> Type) list" where
  "BuiltinAggregateFields raw_type =
     (let t = CanonicalizeBuiltinType raw_type;
          element_type = (case ty_subtypes t of [] \<Rightarrow> UnknownType | x # _ \<Rightarrow> x) in
      if ty_kind t = Ty_kTuple
      then map (\<lambda>index. (string_of_nat index, ty_subtypes t ! index)) [0..<length (ty_subtypes t)]
      else if ty_kind t = Ty_kString
      then [(''ptr'', PointerType (NamedType ''u8'')), (''len'', NamedType ''usize'')]
      else if ty_kind t \<noteq> Ty_kNamed then []
      else if ty_name t = ''Slice''
      then [(''ptr'', PointerType element_type), (''len'', NamedType ''usize'')]
      else if ty_name t = ''Buffer''
      then [(''ptr'', PointerType element_type), (''len'', NamedType ''usize''),
        (''cap'', NamedType ''usize''), (''alloc'', PointerType (NamedType ''Allocator''))]
      else [])"

section \<open>The text of type expressions and expressions\<close>

definition deref :: "'a option option \<Rightarrow> 'a option" where
  \<comment> \<open>\<open>*p\<close> and a call with it: the outer \<open>None\<close> is the null pointer.\<close>
  "deref p = Option.bind p id"

definition or_hole :: "string option option \<Rightarrow> string option" where
  "or_hole p = (case p of None \<Rightarrow> Some ''<?>'' | Some r \<Rightarrow> r)"

definition comma_separated :: "string option list \<Rightarrow> string option" where
  "comma_separated rs = map_option (join_with '', '') (those rs)"

definition with_type_args :: "string \<Rightarrow> string option option list \<Rightarrow> string option" where
  "with_type_args base args =
     (if args = [] then Some base
      else map_option (\<lambda>as. base @ ''<'' @ as @ ''>'') (comma_separated (map deref args)))"

definition RenderFieldInitName :: "string \<Rightarrow> string list \<Rightarrow> string" where
  "RenderFieldInitName name field_path = (if field_path \<noteq> [] then join_with ''.'' field_path else name)"

primrec RenderTypeInline :: "TypeExpr \<Rightarrow> string option"
  and render_init :: "FieldInit \<Rightarrow> string option"
  and RenderExprInline :: "Expr \<Rightarrow> string option" where
  "RenderTypeInline (mk_TypeExpr span kind name type_args inner length_expr params returns) =
     (let args = map (map_option RenderTypeInline) type_args;
          inner' = or_hole (map_option RenderTypeInline inner);
          ps = map (map_option RenderTypeInline) params;
          rs = map (map_option RenderTypeInline) returns in
      case kind of
        TE_kNamed \<Rightarrow> with_type_args name args
      | TE_kPointer \<Rightarrow> map_option (\<lambda>r. ''*'' @ r) inner'
      | TE_kConst \<Rightarrow> map_option (\<lambda>r. ''const '' @ r) inner'
      | TE_kArray \<Rightarrow> do {
          l \<leftarrow> (case map_option RenderExprInline length_expr of None \<Rightarrow> Some ''?'' | Some r \<Rightarrow> r);
          r \<leftarrow> inner';
          Some (''['' @ l @ '']'' @ r) }
      | TE_kParen \<Rightarrow> map_option (\<lambda>r. ''('' @ r @ '')'') inner'
      | TE_kProcedure \<Rightarrow> do {
          ptexts \<leftarrow> comma_separated (map deref ps);
          rtexts \<leftarrow> comma_separated (map deref rs);
          Some (''func('' @ ptexts @ '')'' @
            (if length rs = 1 then '' '' @ rtexts else if rs \<noteq> [] then '' ('' @ rtexts @ '')'' else [])) })"
| "render_init (mk_FieldInit span has_name name field_path initial) =
     map_option (\<lambda>r. (if has_name then RenderFieldInitName name field_path @ '': '' else []) @ r)
       (deref (map_option RenderExprInline initial))"
| "RenderExprInline (mk_Expr span kind txt secondary_text integer_literal_value float_literal_value
      type_args type_target bare_type_target_syntax args field_inits left right extra) =
     (let targs = map (map_option RenderTypeInline) type_args;
          l = or_hole (map_option RenderExprInline left);
          r = or_hole (map_option RenderExprInline right);
          target_or_left = (case map_option RenderTypeInline type_target of None \<Rightarrow> l | Some t \<Rightarrow> t) in
      case kind of
        E_kName \<Rightarrow> with_type_args txt targs
      | E_kDiscard \<Rightarrow> with_type_args ''_'' targs
      | E_kQualifiedName \<Rightarrow> with_type_args (txt @ ''.'' @ secondary_text) targs
      | E_kLiteral \<Rightarrow> Some txt
      | E_kUnary \<Rightarrow> map_option (\<lambda>l. txt @ l) l
      | E_kBinary \<Rightarrow> do { l \<leftarrow> l; r \<leftarrow> r; Some (l @ '' '' @ txt @ '' '' @ r) }
      | E_kRange \<Rightarrow> do { l \<leftarrow> l; r \<leftarrow> r; Some (l @ '' '' @ txt @ '' '' @ r) }
      | E_kCall \<Rightarrow> do {
          f \<leftarrow> target_or_left;
          as \<leftarrow> comma_separated (map RenderExprInline args);
          Some (f @ ''('' @ as @ '')'') }
      | E_kField \<Rightarrow> map_option (\<lambda>l. l @ ''.'' @ txt) l
      | E_kDerefField \<Rightarrow> map_option (\<lambda>l. l @ ''.*'') l
      | E_kIndex \<Rightarrow> do { l \<leftarrow> l; r \<leftarrow> r; Some (l @ ''['' @ r @ '']'') }
      | E_kSlice \<Rightarrow> do {
          l \<leftarrow> l;
          a \<leftarrow> (case map_option RenderExprInline right of None \<Rightarrow> Some [] | Some t \<Rightarrow> t);
          b \<leftarrow> (case map_option RenderExprInline extra of None \<Rightarrow> Some [] | Some t \<Rightarrow> t);
          Some (l @ ''['' @ a @ '':'' @ b @ '']'') }
      | E_kEmptyCollection \<Rightarrow> Some ''[]''
      | E_kAggregateInit \<Rightarrow> target_or_left
      | E_kRecordUpdate \<Rightarrow> do {
          l \<leftarrow> l;
          is \<leftarrow> comma_separated (map render_init field_inits);
          Some (l @ '' with {'' @ is @ ''}'') }
      | E_kParen \<Rightarrow> map_option (\<lambda>l. ''('' @ l @ '')'') l)"

section \<open>From and to type expressions\<close>

definition or_unknown :: "Type option option \<Rightarrow> Type option" where
  "or_unknown p = (case p of None \<Rightarrow> Some UnknownType | Some r \<Rightarrow> r)"

primrec TypeFromAst_node :: "TypeExpr \<Rightarrow> Type option" where
  "TypeFromAst_node (mk_TypeExpr span kind name type_args inner length_expr params returns) =
     (let inner' = or_unknown (map_option TypeFromAst_node inner) in
      case kind of
        TE_kNamed \<Rightarrow> do {
          args \<leftarrow> those (map or_unknown (map (map_option TypeFromAst_node) type_args));
          let t = NamedOrBuiltinType name;
          Some (mk_Type (ty_kind t) (ty_name t) (ty_metadata t) args) }
      | TE_kPointer \<Rightarrow> map_option PointerType inner'
      | TE_kConst \<Rightarrow> map_option ConstType inner'
      | TE_kArray \<Rightarrow> do {
          t \<leftarrow> inner';
          l \<leftarrow> (case length_expr of None \<Rightarrow> Some ''?'' | Some e \<Rightarrow> RenderExprInline e);
          Some (ArrayType t l) }
      | TE_kParen \<Rightarrow> inner'
      | TE_kProcedure \<Rightarrow> do {
          ps \<leftarrow> those (map or_unknown (map (map_option TypeFromAst_node) params));
          rs \<leftarrow> those (map or_unknown (map (map_option TypeFromAst_node) returns));
          Some (ProcedureType ps rs) })"

definition TypeFromAst :: "TypeExpr option \<Rightarrow> Type option" where
  "TypeFromAst type_expr = or_unknown (map_option TypeFromAst_node type_expr)"

function TypeToAst :: "Type \<Rightarrow> TypeExpr option" where
  "TypeToAst raw_type =
     (let t = CanonicalizeBuiltinType raw_type;
          wrap = (\<lambda>k. case ty_subtypes t of
              [] \<Rightarrow> None
            | x # _ \<Rightarrow> map_option (\<lambda>i. set_te_inner (Some i) (new_TypeExpr k)) (TypeToAst x)) in
      case ty_kind t of
        Ty_kBool \<Rightarrow> Some (set_te_name ''bool'' (new_TypeExpr TE_kNamed))
      | Ty_kString \<Rightarrow> Some (set_te_name ''string'' (new_TypeExpr TE_kNamed))
      | Ty_kNamed \<Rightarrow> map_option (\<lambda>args. set_te_type_args (map Some args)
            (set_te_name (ty_name t) (new_TypeExpr TE_kNamed)))
          (those (map TypeToAst (ty_subtypes t)))
      | Ty_kPointer \<Rightarrow> wrap TE_kPointer
      | Ty_kConst \<Rightarrow> wrap TE_kConst
      | Ty_kArray \<Rightarrow> map_option (set_te_length_expr (Some
            (set_e_integer_literal_value (ParseArrayLength (ty_metadata t))
              (set_e_secondary_text ''int_lit'' (set_e_text (ty_metadata t) (new_Expr E_kLiteral))))))
          (wrap TE_kArray)
      | _ \<Rightarrow> None)"
  by pat_completeness auto
termination
  by (relation "measure size") (auto intro: subtype_size front_size)

declare TypeToAst.simps [simp del]

section \<open>The text of types\<close>

definition format_args :: "string option list \<Rightarrow> string option" where
  "format_args rs = map_option (\<lambda>as. ''<'' @ as @ ''>'') (comma_separated rs)"

definition format_returns :: "string list \<Rightarrow> string" where
  "format_returns rs =
     (if rs = [] then ''->void'' else if length rs = 1 then ''->'' @ hd rs
      else ''->tuple<'' @ join_with '', '' rs @ ''>'')"

function FormatType :: "Type \<Rightarrow> string option" where
  "FormatType t =
     (let c = CanonicalizeBuiltinType t; ss = ty_subtypes c;
          front = (case ss of [] \<Rightarrow> None | x # _ \<Rightarrow> FormatType x) in
      case ty_kind c of
        Ty_kUnknown \<Rightarrow> Some ''unknown''
      | Ty_kVoid \<Rightarrow> Some ''void''
      | Ty_kBool \<Rightarrow> Some ''bool''
      | Ty_kString \<Rightarrow> Some ''string''
      | Ty_kNil \<Rightarrow> Some ''nil''
      | Ty_kIntLiteral \<Rightarrow> Some ''int_literal''
      | Ty_kFloatLiteral \<Rightarrow> Some ''float_literal''
      | Ty_kNamed \<Rightarrow> (if ss = [] then Some (ty_name c)
          else map_option (\<lambda>as. ty_name c @ as) (format_args (map FormatType ss)))
      | Ty_kPointer \<Rightarrow> map_option (\<lambda>r. ''*'' @ r) front
      | Ty_kConst \<Rightarrow> map_option (\<lambda>r. ''const '' @ r) front
      | Ty_kArray \<Rightarrow> map_option (\<lambda>r. ''['' @ ty_metadata c @ '']'' @ r) front
      | Ty_kTuple \<Rightarrow> map_option (\<lambda>as. ''tuple'' @ as) (format_args (map FormatType ss))
      | Ty_kRange \<Rightarrow> map_option (\<lambda>r. ''range<'' @ r @ ''>'') front
      | Ty_kProcedure \<Rightarrow>
          (let n = (case ParseArrayLength (ty_metadata c) of Some n \<Rightarrow> unat n | None \<Rightarrow> 0) in
           map_option (\<lambda>rs. ''proc('' @ join_with '', '' (take n rs) @ '')'' @ format_returns (drop n rs))
             (those (map FormatType ss))))"
  by pat_completeness auto
termination
  by (relation "measure size") (auto intro: subtype_size front_size)

declare FormatType.simps [simp del]

end
