(* ===== verification/MC_TypeSpec.thy ===== *)
theory MC_TypeSpec
  imports MC_Type MC_AstShape
begin

text \<open>
  What the operations of \<open>MC_Type\<close> guarantee: equality of types is equality of canonical forms; on
  the trees of the parser nothing null is dereferenced; a type that has a type expression comes back
  from it.
\<close>

section \<open>Canonical forms\<close>

lemma Canonicalize_shape:
  "ty_kind (CanonicalizeBuiltinType t) = Ty_kNamed \<Longrightarrow>
     ty_subtypes (CanonicalizeBuiltinType t) = [] \<Longrightarrow>
     ty_name (CanonicalizeBuiltinType t) \<noteq> ''bool'' \<and> \<not> IsStringBuiltinName (ty_name (CanonicalizeBuiltinType t))"
  by (cases t) (auto simp: Let_def type_constructors split: if_splits)

lemma Canonicalize_subtypes:
  "x \<in> set (ty_subtypes (CanonicalizeBuiltinType t)) \<Longrightarrow> \<exists>y \<in> set (ty_subtypes t). x = CanonicalizeBuiltinType y"
  by (cases t) (auto simp: Let_def type_constructors split: if_splits)

lemma Canonicalize_idem [simp]:
  "CanonicalizeBuiltinType (CanonicalizeBuiltinType t) = CanonicalizeBuiltinType t"
proof (induction t)
  case (mk_Type k name metadata ts)
  then have "map (CanonicalizeBuiltinType \<circ> CanonicalizeBuiltinType) ts = map CanonicalizeBuiltinType ts"
    by simp
  then show ?case by (auto simp: Let_def type_constructors)
qed

lemma Canonicalize_subtype [simp]:
  "x \<in> set (ty_subtypes (CanonicalizeBuiltinType t)) \<Longrightarrow> CanonicalizeBuiltinType x = x"
  using Canonicalize_subtypes [of x t] by auto

lemma type_eq_canonical: "type_eq l r \<longleftrightarrow> CanonicalizeBuiltinType l = CanonicalizeBuiltinType r"
proof (induction l r rule: type_eq.induct)
  case (1 l r)
  let ?cl = "CanonicalizeBuiltinType l" and ?cr = "CanonicalizeBuiltinType r"
  have eq: "list_all (\<lambda>(x, y). type_eq x y) (zip (ty_subtypes ?cl) (ty_subtypes ?cr)) \<longleftrightarrow>
      ty_subtypes ?cl = ty_subtypes ?cr" if len: "length (ty_subtypes ?cl) = length (ty_subtypes ?cr)"
  proof -
    have "type_eq x y \<longleftrightarrow> x = y" if "(x, y) \<in> set (zip (ty_subtypes ?cl) (ty_subtypes ?cr))" for x y
      using "1.IH" [OF refl refl that refl] set_zip_leftD [OF that] set_zip_rightD [OF that] by simp
    then have "list_all (\<lambda>(x, y). type_eq x y) (zip (ty_subtypes ?cl) (ty_subtypes ?cr)) \<longleftrightarrow>
        list_all (\<lambda>(x, y). x = y) (zip (ty_subtypes ?cl) (ty_subtypes ?cr))"
      by (intro list.pred_cong) auto
    also have "\<dots> \<longleftrightarrow> ty_subtypes ?cl = ty_subtypes ?cr"
      using len by (auto simp: list_all_iff set_zip list_eq_iff_nth_eq)
    finally show ?thesis .
  qed
  obtain k n m ts k' n' m' ts' where c: "?cl = mk_Type k n m ts" "?cr = mk_Type k' n' m' ts'"
    by (meson Type.exhaust_sel)
  show ?case
    unfolding type_eq.simps [of l r] Let_def using eq unfolding c Type.sel by auto
qed

section \<open>Sequences of optional results\<close>

lemma those_map_Some: "those (map f xs) = Some ys \<longleftrightarrow> map f xs = map Some ys"
proof (induction xs arbitrary: ys)
  case (Cons x xs)
  then show ?case by (cases ys) (auto split: option.splits)
qed auto

lemma those_total: "(\<And>x. x \<in> set xs \<Longrightarrow> f x \<noteq> None) \<Longrightarrow> \<exists>ys. those (map f xs) = Some ys"
  by (induction xs) (auto split: option.splits)

lemma those_length: "those xs = Some ys \<Longrightarrow> length ys = length xs"
  by (induction xs arbitrary: ys) (auto split: option.splits)

lemma comma_total: "(\<And>x. x \<in> set xs \<Longrightarrow> f x \<noteq> None) \<Longrightarrow> comma_separated (map f xs) \<noteq> None"
  using those_total [of xs f] by (auto simp: comma_separated_def)

section \<open>Rendering\<close>

lemma or_hole_total: "pred_option (\<lambda>y. f y \<noteq> None) x \<Longrightarrow> or_hole (map_option f x) \<noteq> None"
  by (cases x) (auto simp: or_hole_def)

lemma args_total:
  "list_all (pred_option (\<lambda>y. f y \<noteq> None)) xs \<Longrightarrow> None \<notin> set xs \<Longrightarrow>
     comma_separated (map deref (map (map_option f) xs)) \<noteq> None"
proof (unfold map_map, rule comma_total)
  fix x assume "list_all (pred_option (\<lambda>y. f y \<noteq> None)) xs" "None \<notin> set xs" "x \<in> set xs"
  then show "(deref \<circ> map_option f) x \<noteq> None"
    by (cases x) (auto simp: list_all_iff pred_option_def deref_def)
qed

lemma RenderInline_total:
  "type_ok True t \<Longrightarrow> RenderTypeInline t \<noteq> None"
  "init_ok True f \<Longrightarrow> render_init f \<noteq> None"
  "expr_ok True e \<Longrightarrow> RenderExprInline e \<noteq> None"
proof (induction t and f and e)
  case (mk_TypeExpr sp k nm targs inn len ps rs)
  note ok = mk_TypeExpr.prems [unfolded type_ok.simps all_types_id_map pred_option_id_map]
  have lists: "all_types (\<lambda>y. RenderTypeInline y \<noteq> None) xs" "None \<notin> set xs"
    if "xs = targs \<or> xs = ps \<or> xs = rs" for xs
  proof -
    have "all_types (type_ok True) xs" using ok that by blast
    then show "all_types (\<lambda>y. RenderTypeInline y \<noteq> None) xs"
      by (rule all_types_weaken) (use mk_TypeExpr.IH(1,4,5) that in blast)
    show "None \<notin> set xs" using ok that by (auto simp: type_shape_def)
  qed
  note * = lists [of targs] lists [of ps] lists [of rs]
  have **: "pred_option (\<lambda>y. RenderTypeInline y \<noteq> None) inn" "pred_option (\<lambda>y. RenderExprInline y \<noteq> None) len"
    using ok mk_TypeExpr.IH(2,3) by (blast intro: pred_option_weaken)+
  show ?case
    using args_total [OF *(1,2)] args_total [OF *(3,4)] args_total [OF *(5,6)] or_hole_total [OF **(1)] **(2)
    by (cases k) (auto simp: Let_def with_type_args_def split: option.splits)
next
  case (mk_FieldInit sp h nm path v)
  then show ?case
    unfolding init_ok.simps pred_option_id_map by (cases v) (auto simp: deref_def)
next
  case (mk_Expr sp k tx sx iv fv ta tt bare args fs l r x)
  have *: "list_all (pred_option (\<lambda>y. RenderTypeInline y \<noteq> None)) ta" "None \<notin> set ta"
    "pred_option (\<lambda>y. RenderTypeInline y \<noteq> None) tt"
    "pred_option (\<lambda>y. RenderExprInline y \<noteq> None) l" "pred_option (\<lambda>y. RenderExprInline y \<noteq> None) r"
    "pred_option (\<lambda>y. RenderExprInline y \<noteq> None) x"
    and elems: "\<And>y. y \<in> set args \<Longrightarrow> RenderExprInline y \<noteq> None" "\<And>y. y \<in> set fs \<Longrightarrow> render_init y \<noteq> None"
    using mk_Expr.prems mk_Expr.IH
    unfolding expr_ok.simps all_types_id_map pred_option_id_map list_all_id_map
    by (auto simp: list_all_iff pred_option_def)
  have lists: "comma_separated (map RenderExprInline args) \<noteq> None" "comma_separated (map render_init fs) \<noteq> None"
    using elems by (intro comma_total; blast)+
  show ?case
    using args_total [OF *(1,2)] or_hole_total [OF *(4)] or_hole_total [OF *(5)] *(3,5,6) lists
    by (cases k) (auto simp: Let_def with_type_args_def split: option.splits)
qed

section \<open>Types of type expressions\<close>

primrec type_shaped :: "Type \<Rightarrow> bool" where
  \<comment> \<open>The constructors that hold one type hold one, at every level.\<close>
  "type_shaped (mk_Type k name metadata ts) \<longleftrightarrow>
     (k \<in> {Ty_kPointer, Ty_kConst, Ty_kArray, Ty_kRange} \<longrightarrow> ts \<noteq> []) \<and> list_all id (map type_shaped ts)"

lemma type_shaped_iff:
  "type_shaped t \<longleftrightarrow> (ty_kind t \<in> {Ty_kPointer, Ty_kConst, Ty_kArray, Ty_kRange} \<longrightarrow> ty_subtypes t \<noteq> []) \<and>
     list_all type_shaped (ty_subtypes t)"
  by (cases t) (simp only: type_shaped.simps Type.sel list_all_id_map)

lemma type_shaped_mk [simp]:
  "type_shaped (mk_Type k name metadata ts) \<longleftrightarrow>
     (k \<in> {Ty_kPointer, Ty_kConst, Ty_kArray, Ty_kRange} \<longrightarrow> ts \<noteq> []) \<and> list_all type_shaped ts"
  by (simp only: type_shaped.simps list_all_id_map)

declare type_shaped.simps [simp del]

lemma type_shaped_constructors [simp]:
  "type_shaped UnknownType" "type_shaped (NamedType n)"
  "type_shaped (PointerType t) \<longleftrightarrow> type_shaped t" "type_shaped (ConstType t) \<longleftrightarrow> type_shaped t"
  "type_shaped (ArrayType t l) \<longleftrightarrow> type_shaped t"
  "type_shaped (ProcedureType ps rs) \<longleftrightarrow> list_all type_shaped ps \<and> list_all type_shaped rs"
  by (simp_all add: type_constructors)

lemma Canonicalize_shaped: "type_shaped t \<Longrightarrow> type_shaped (CanonicalizeBuiltinType t)"
proof (induction t)
  case (mk_Type k name metadata ts)
  then show ?case
    by (auto simp: Let_def type_constructors list_all_iff)
qed

lemma FormatType_total: "type_shaped t \<Longrightarrow> FormatType t \<noteq> None"
proof (induction t rule: measure_induct_rule [of size])
  case (less t)
  obtain k n m ts where c: "CanonicalizeBuiltinType t = mk_Type k n m ts" by (cases "CanonicalizeBuiltinType t")
  have shaped: "k \<in> {Ty_kPointer, Ty_kConst, Ty_kArray, Ty_kRange} \<longrightarrow> ts \<noteq> []" "list_all type_shaped ts"
    using Canonicalize_shaped [OF less.prems] by (simp_all add: c)
  have sub: "FormatType x \<noteq> None" if "x \<in> set ts" for x
    using less.IH [OF subtype_size] that shaped(2) by (simp add: c list_all_iff)
  define front where "front = (case ts of [] \<Rightarrow> None | x # _ \<Rightarrow> FormatType x)"
  have front: "k \<in> {Ty_kPointer, Ty_kConst, Ty_kArray, Ty_kRange} \<Longrightarrow> front \<noteq> None"
    using sub shaped(1) by (cases ts) (auto simp: front_def)
  obtain ss where "those (map FormatType ts) = Some ss" using those_total [of ts FormatType] sub by blast
  then show ?case
    using front unfolding FormatType.simps [of t] Let_def c Type.sel front_def [symmetric]
    by (cases k) (simp_all add: format_args_def comma_separated_def)
qed

lemma FormatType_canonical: "CanonicalizeBuiltinType l = CanonicalizeBuiltinType r \<Longrightarrow> FormatType l = FormatType r"
  by (subst (1 2) FormatType.simps) simp

lemma types_total:
  "list_all (pred_option (\<lambda>y. \<exists>t. f y = Some t \<and> type_shaped t)) xs \<Longrightarrow>
     \<exists>ts. those (map or_unknown (map (map_option f) xs)) = Some ts \<and> list_all type_shaped ts"
proof (induction xs)
  case (Cons x xs)
  then show ?case by (cases x) (auto simp: or_unknown_def)
qed simp

lemma inner_total:
  "pred_option (\<lambda>y. \<exists>t. f y = Some t \<and> type_shaped t) x \<Longrightarrow>
     \<exists>t. or_unknown (map_option f x) = Some t \<and> type_shaped t"
  by (cases x) (auto simp: or_unknown_def)

lemma NamedOrBuiltin_kind: "ty_kind (NamedOrBuiltinType n) \<in> {Ty_kBool, Ty_kString, Ty_kNamed}"
  by (simp add: NamedOrBuiltinType_def type_constructors)

lemma TypeFromAst_node_total:
  "type_ok True e \<Longrightarrow> \<exists>t. TypeFromAst_node e = Some t \<and> type_shaped t"
  "init_ok True f \<Longrightarrow> True"
  "expr_ok True x \<Longrightarrow> True"
proof (induction e and f and x)
  case (mk_TypeExpr sp k nm targs inn len ps rs)
  have *: "list_all (pred_option (\<lambda>y. \<exists>t. TypeFromAst_node y = Some t \<and> type_shaped t)) targs"
    "list_all (pred_option (\<lambda>y. \<exists>t. TypeFromAst_node y = Some t \<and> type_shaped t)) ps"
    "list_all (pred_option (\<lambda>y. \<exists>t. TypeFromAst_node y = Some t \<and> type_shaped t)) rs"
    "pred_option (\<lambda>y. \<exists>t. TypeFromAst_node y = Some t \<and> type_shaped t) inn"
    "pred_option (\<lambda>y. RenderExprInline y \<noteq> None) len"
    using mk_TypeExpr.prems mk_TypeExpr.IH RenderInline_total(3)
    unfolding type_ok.simps all_types_id_map pred_option_id_map
    by (auto simp: list_all_iff pred_option_def)
  obtain as pts rts it where
    "those (map or_unknown (map (map_option TypeFromAst_node) targs)) = Some as" "list_all type_shaped as"
    "those (map or_unknown (map (map_option TypeFromAst_node) ps)) = Some pts" "list_all type_shaped pts"
    "those (map or_unknown (map (map_option TypeFromAst_node) rs)) = Some rts" "list_all type_shaped rts"
    "or_unknown (map_option TypeFromAst_node inn) = Some it" "type_shaped it"
    using types_total [OF *(1)] types_total [OF *(2)] types_total [OF *(3)] inner_total [OF *(4)] by blast
  then show ?case
    using *(5) NamedOrBuiltin_kind [of nm]
    by (cases k) (auto simp: Let_def split: option.splits)
qed simp_all

section \<open>There and back\<close>

primrec type_plain :: "Type \<Rightarrow> bool" where
  \<comment> \<open>The members that a kind does not use are empty, at every level.\<close>
  "type_plain (mk_Type k name metadata ts) \<longleftrightarrow>
     (k \<in> {Ty_kBool, Ty_kString} \<longrightarrow> name = [] \<and> metadata = [] \<and> ts = []) \<and>
     (k = Ty_kNamed \<longrightarrow> metadata = [] \<and> (name = ''bool'' \<or> IsStringBuiltinName name \<longrightarrow> ts = [])) \<and>
     (k \<in> {Ty_kPointer, Ty_kConst} \<longrightarrow> name = [] \<and> metadata = [] \<and> length ts = 1) \<and>
     (k = Ty_kArray \<longrightarrow> name = [] \<and> length ts = 1) \<and> list_all id (map type_plain ts)"

lemma type_plain_mk [simp]:
  "type_plain (mk_Type k name metadata ts) \<longleftrightarrow>
     (k \<in> {Ty_kBool, Ty_kString} \<longrightarrow> name = [] \<and> metadata = [] \<and> ts = []) \<and>
     (k = Ty_kNamed \<longrightarrow> metadata = [] \<and> (name = ''bool'' \<or> IsStringBuiltinName name \<longrightarrow> ts = [])) \<and>
     (k \<in> {Ty_kPointer, Ty_kConst} \<longrightarrow> name = [] \<and> metadata = [] \<and> length ts = 1) \<and>
     (k = Ty_kArray \<longrightarrow> name = [] \<and> length ts = 1) \<and> list_all type_plain ts"
  by (simp only: type_plain.simps list_all_id_map)

declare type_plain.simps [simp del]

lemma Canonicalize_plain: "type_plain t \<Longrightarrow> type_plain (CanonicalizeBuiltinType t)"
proof (induction t)
  case (mk_Type k name metadata ts)
  then show ?case
    by (auto simp: Let_def type_constructors list_all_iff)
qed

lemma TypeFromAst_TypeToAst_node:
  "type_plain t \<Longrightarrow> TypeToAst t = Some e \<Longrightarrow> TypeFromAst_node e = Some (CanonicalizeBuiltinType t)"
proof (induction t arbitrary: e rule: measure_induct_rule [of size])
  case (less t)
  obtain k n m ts where c: "CanonicalizeBuiltinType t = mk_Type k n m ts" by (cases "CanonicalizeBuiltinType t")
  have plain: "type_plain (mk_Type k n m ts)"
    using Canonicalize_plain [OF less.prems(1)] c by simp
  have sub: "TypeFromAst_node a = Some x" if "x \<in> set ts" "TypeToAst x = Some a" for x a
    using less.IH [OF subtype_size, of x a] Canonicalize_subtype [of x t] that plain by (simp add: c list_all_iff)
  have args: "those (map or_unknown (map (map_option TypeFromAst_node) (map Some as))) = Some ts"
    if "those (map TypeToAst ts) = Some as" for as
  proof -
    have "map TypeToAst ts = map Some as" using that by (simp add: those_map_Some)
    then have "map (or_unknown \<circ> map_option TypeFromAst_node \<circ> Some) as = map Some ts"
      using sub by (auto simp: list_eq_iff_nth_eq or_unknown_def)
    then show ?thesis by (simp add: those_map_Some comp_assoc)
  qed
  note simps = Let_def or_unknown_def TypeFromAst_node.simps RenderExprInline.simps
    set_te_inner_def set_te_name_def set_te_type_args_def set_te_length_expr_def set_e_text_def
    set_e_secondary_text_def set_e_integer_literal_value_def new_TypeExpr_def new_Expr_def type_constructors
  have named: "\<not> (n = ''bool'' \<or> IsStringBuiltinName n)" if "k = Ty_kNamed"
    using plain Canonicalize_shape [of t, unfolded c Type.sel] that by (cases "ts = []") simp_all
  have front: "\<exists>x a. ts = [x] \<and> TypeFromAst_node a = Some x \<and> y = set_te_inner (Some a) (new_TypeExpr q)"
    if "(case ts of [] \<Rightarrow> None | x # xs \<Rightarrow> map_option (\<lambda>i. set_te_inner (Some i) (new_TypeExpr q)) (TypeToAst x)) = Some y"
      "length ts = 1" for q y
    using that sub by (cases ts) auto
  note to_ast = less.prems(2) [unfolded TypeToAst.simps [of t], unfolded c Let_def Type.sel]
  show ?case
  proof (cases k)
    case Ty_kNamed
    then show ?thesis
      using to_ast plain args named
      by (auto simp: c simps NamedOrBuiltinType_def simp del: map_map list.map)
  next
    case Ty_kPointer
    then show ?thesis using to_ast plain front [of TE_kPointer e] by (auto simp: c simps)
  next
    case Ty_kConst
    then show ?thesis using to_ast plain front [of TE_kConst e] by (auto simp: c simps)
  next
    case Ty_kArray
    then obtain y where y: "(case ts of [] \<Rightarrow> None | x # xs \<Rightarrow>
        map_option (\<lambda>i. set_te_inner (Some i) (new_TypeExpr TE_kArray)) (TypeToAst x)) = Some y"
      using to_ast by (auto simp del: option.case)
    with Ty_kArray show ?thesis using to_ast plain front [OF y] by (auto simp: c simps)
  qed (use to_ast plain in \<open>auto simp: c simps NamedOrBuiltinType_def IsStringBuiltinName_def\<close>)
qed

end
