(* ===== verification/MC_Module.thy ===== *)
theory MC_Module
  imports MC_Type
begin

text \<open>
  \<open>compiler/sema/check.h\<close>: the summaries of declarations and the semantic module that the later
  stages read, and the searches over it. A hash map is a partial function.
\<close>

section \<open>Summaries of declarations\<close>

record FunctionSignature =
  fs_name :: string
  fs_is_extern :: bool
  fs_extern_abi :: string
  fs_type_params :: "string list"
  fs_param_types :: "Type list"
  fs_param_is_noalias :: "bool list"
  fs_return_types :: "Type list"

record LayoutInfo =
  lay_valid :: bool
  lay_size :: size64
  lay_alignment :: size64
  lay_field_offsets :: "size64 list"

definition no_layout :: LayoutInfo where
  "no_layout = \<lparr>lay_valid = False, lay_size = 0, lay_alignment = 0, lay_field_offsets = []\<rparr>"

record VariantSummary =
  vs_name :: string
  vs_payload_fields :: "(string \<times> Type) list"

record TypeDeclSummary =
  td_kind :: DeclKind
  td_name :: string
  td_type_params :: "string list"
  td_attributes :: "Attribute list"
  td_fields :: "(string \<times> Type) list"
  td_variants :: "VariantSummary list"
  td_aliased_type :: Type
  td_is_packed :: bool
  td_is_abi_c :: bool
  td_layout :: LayoutInfo

datatype (plugins only: code) ConstKind =
  CK_kBool | CK_kInteger | CK_kFloat | CK_kString | CK_kNil | CK_kProcedure | CK_kEnum | CK_kAggregate

datatype ConstValue =
  mk_ConstValue
    (cv_kind: ConstKind)
    (cv_integer_value: int64)
    (cv_float_value: double)
    (cv_bool_value: bool)
    (cv_text: string)
    (cv_procedure_name: string)
    (cv_enum_type: Type)
    (cv_variant_name: string)
    (cv_variant_tag: int64)
    (cv_field_names: "string list")
    (cv_elements: "ConstValue list")

record GlobalSummary =
  gs_is_const :: bool
  gs_names :: "string list"
  gs_type :: Type
  gs_constant_values :: "ConstValue option list"
  gs_zero_initialized_values :: "bool list"

datatype (plugins only: code) ForInResolution = kForEach | kForRange

record ForInFact =
  fif_span :: SourceSpan
  fif_resolution :: ForInResolution

section \<open>Modules\<close>

record Module =
  mod_kind :: ModuleKind
  mod_package_identity :: string
  mod_imports :: "string list"
  mod_type_decls :: "TypeDeclSummary list"
  mod_globals :: "GlobalSummary list"
  mod_functions :: "FunctionSignature list"
  mod_hidden_value_names :: "string set"
  mod_hidden_type_names :: "string set"
  mod_expr_types :: "SourceSpan \<rightharpoonup> Type"
  mod_for_in_facts :: "SourceSpan \<rightharpoonup> ForInFact"
  mod_function_lookup :: "string \<rightharpoonup> nat"
  mod_type_decl_lookup :: "string \<rightharpoonup> nat"

definition empty_module :: Module where
  "empty_module = \<lparr>mod_kind = kOrdinary, mod_package_identity = [], mod_imports = [], mod_type_decls = [],
     mod_globals = [], mod_functions = [], mod_hidden_value_names = {}, mod_hidden_type_names = {},
     mod_expr_types = Map.empty, mod_for_in_facts = Map.empty, mod_function_lookup = Map.empty,
     mod_type_decl_lookup = Map.empty\<rparr>"

definition FindFunctionSignature :: "Module \<Rightarrow> string \<Rightarrow> FunctionSignature option" where
  "FindFunctionSignature m name = find (\<lambda>f. fs_name f = name) (mod_functions m)"

definition FindTypeDecl :: "Module \<Rightarrow> string \<Rightarrow> TypeDeclSummary option" where
  "FindTypeDecl m name = find (\<lambda>d. td_name d = name) (mod_type_decls m)"

definition FindGlobalSummary :: "Module \<Rightarrow> string \<Rightarrow> GlobalSummary option" where
  "FindGlobalSummary m name = find (\<lambda>g. name \<in> set (gs_names g)) (mod_globals m)"

definition FindExprType :: "Module \<Rightarrow> Expr \<Rightarrow> Type option" where
  "FindExprType m e = mod_expr_types m (e_span e)"

definition FindForInFact :: "Module \<Rightarrow> Stmt \<Rightarrow> ForInFact option" where
  "FindForInFact m st = mod_for_in_facts m (s_span st)"

fun emplace_names :: "nat \<Rightarrow> string list \<Rightarrow> (string \<rightharpoonup> nat) \<Rightarrow> (string \<rightharpoonup> nat)" where
  \<comment> \<open>\<open>emplace\<close> keeps the entry of a name that is already there.\<close>
  "emplace_names i [] lookup = lookup"
| "emplace_names i (name # names) lookup =
     emplace_names (Suc i) names (if lookup name = None then lookup(name \<mapsto> i) else lookup)"

definition BuildModuleLookupMaps :: "Module \<Rightarrow> Module" where
  "BuildModuleLookupMaps m =
     m\<lparr>mod_function_lookup := emplace_names 0 (map fs_name (mod_functions m)) Map.empty,
       mod_type_decl_lookup := emplace_names 0 (map td_name (mod_type_decls m)) Map.empty\<rparr>"

text \<open>The caches agree with the searches they stand for.\<close>

lemma find_position_Cons:
  "find (\<lambda>k. (n # names) ! k = name) [0..<length (n # names)] =
     (if n = name then Some 0 else map_option Suc (find (\<lambda>k. names ! k = name) [0..<length names]))"
proof -
  have "find (\<lambda>k. (n # names) ! k = name) (map Suc ks) = map_option Suc (find (\<lambda>k. names ! k = name) ks)" for ks
    by (induction ks) auto
  then show ?thesis by (simp add: upt_conv_Cons map_Suc_upt [symmetric] del: map_Suc_upt upt_Suc)
qed

lemma emplace_names_first:
  "emplace_names i names lookup name =
     (case lookup name of Some j \<Rightarrow> Some j
      | None \<Rightarrow> (case find (\<lambda>k. names ! k = name) [0..<length names] of None \<Rightarrow> None | Some k \<Rightarrow> Some (i + k)))"
proof (induction names arbitrary: i lookup)
  case (Cons n names)
  show ?case
    unfolding find_position_Cons by (auto simp: Cons.IH split: option.splits)
qed (simp split: option.split)

lemma find_index: "find P xs = map_option ((!) xs) (find (\<lambda>k. P (xs ! k)) [0..<length xs])"
proof (induction xs)
  case (Cons x xs)
  have "find (\<lambda>k. P ((x # xs) ! k)) (map Suc ks) = map_option Suc (find (\<lambda>k. P (xs ! k)) ks)" for ks
    by (induction ks) auto
  then show ?case
    using Cons by (auto simp: upt_conv_Cons map_Suc_upt [symmetric] option.map_comp comp_def del: map_Suc_upt simp del: map_Suc_upt upt_Suc)
qed simp

lemma find_map_index:
  "find (\<lambda>k. map f xs ! k = y) [0..<length xs] = find (\<lambda>k. f (xs ! k) = y) [0..<length xs]"
  by (rule find_cong) auto

lemma lookup_maps_find:
  "FindFunctionSignature m name =
     map_option ((!) (mod_functions m)) (mod_function_lookup (BuildModuleLookupMaps m) name)"
  "FindTypeDecl m name =
     map_option ((!) (mod_type_decls m)) (mod_type_decl_lookup (BuildModuleLookupMaps m) name)"
  by (auto simp: FindFunctionSignature_def FindTypeDecl_def BuildModuleLookupMaps_def emplace_names_first
      find_index [of _ "mod_functions m"] find_index [of _ "mod_type_decls m"] find_map_index
      split: option.split)

end
