(* ===== verification/MC_TypeUtils.thy ===== *)
theory MC_TypeUtils
  imports MC_Module "HOL-Library.While_Combinator"
begin

text \<open>
  \<open>compiler/sema/type_utils.cpp\<close>: substitution of type parameters, expansion of aliases, and the
  relations between types the checker asks for. \<open>active_names\<close>, a set that the code passes by
  reference, holds the same names after a call as before it, so it is an argument here.
\<close>

section \<open>Substitution and instantiation\<close>

primrec SubstituteTypeParams :: "string list \<Rightarrow> Type list \<Rightarrow> Type \<Rightarrow> Type" where
  "SubstituteTypeParams type_params type_args (mk_Type k name metadata subtypes) =
     (let subtypes = map (SubstituteTypeParams type_params type_args) subtypes;
          t = mk_Type k name metadata subtypes in
      if k \<noteq> Ty_kNamed then t
      else case map_of (zip type_params type_args) name of Some a \<Rightarrow> a | None \<Rightarrow> t)"

definition IsBuiltinNamedType :: "string \<Rightarrow> bool" where
  "IsBuiltinNamedType name \<longleftrightarrow> IsIntegerTypeName name \<or> IsFloatTypeName name \<or>
     name \<in> {''bool'', ''string'', ''str'', ''cstr'', ''void'', ''Slice'', ''Buffer'', ''Result''}"

definition InstantiateTypeDeclAliasedType :: "TypeDeclSummary \<Rightarrow> Type \<Rightarrow> Type" where
  "InstantiateTypeDeclAliasedType d instantiated_type =
     (if td_type_params d \<noteq> []
      then SubstituteTypeParams (td_type_params d) (ty_subtypes instantiated_type) (td_aliased_type d)
      else td_aliased_type d)"

definition InstantiateTypeDeclFields :: "TypeDeclSummary \<Rightarrow> Type \<Rightarrow> (string \<times> Type) list" where
  "InstantiateTypeDeclFields d instantiated_type =
     (if td_type_params d = [] then td_fields d
      else map (apsnd (SubstituteTypeParams (td_type_params d) (ty_subtypes instantiated_type))) (td_fields d))"

definition InstantiateVariantSummary :: "VariantSummary \<Rightarrow> TypeDeclSummary \<Rightarrow> Type \<Rightarrow> VariantSummary" where
  "InstantiateVariantSummary variant d instantiated_type =
     (if td_type_params d = [] then variant
      else variant\<lparr>vs_payload_fields :=
        map (apsnd (SubstituteTypeParams (td_type_params d) (ty_subtypes instantiated_type)))
          (vs_payload_fields variant)\<rparr>)"

section \<open>Aliases\<close>

datatype (plugins only: code) TypeStripMode = kAliasesOnly | kAliasesAndDistinct

definition ShouldStripTypeDeclKind :: "DeclKind \<Rightarrow> TypeStripMode \<Rightarrow> bool" where
  "ShouldStripTypeDeclKind kind mode \<longleftrightarrow>
     kind = D_kTypeAlias \<or> (mode = kAliasesAndDistinct \<and> kind = D_kDistinct)"

definition declared_names :: "Module \<Rightarrow> string set" where
  "declared_names m = set (map td_name (mod_type_decls m))"

lemma FindTypeDecl_declared: "FindTypeDecl m n = Some d \<Longrightarrow> n \<in> declared_names m \<and> td_name d = n"
  by (auto simp: FindTypeDecl_def declared_names_def find_Some_iff)

lemma declared_names_less:
  "FindTypeDecl m n = Some d \<Longrightarrow> n \<notin> active \<Longrightarrow>
     card (declared_names m - insert n active) < card (declared_names m - active)"
  by (rule psubset_card_mono, simp add: declared_names_def) (use FindTypeDecl_declared in blast)

function StripTypeInternal :: "Module \<Rightarrow> TypeStripMode \<Rightarrow> string set \<Rightarrow> Type \<Rightarrow> Type" where
  "StripTypeInternal m mode active_names (mk_Type k name metadata subtypes) =
     (let subtypes = map (\<lambda>x. StripTypeInternal m mode active_names x) subtypes;
          t = mk_Type k name metadata subtypes in
      if k \<noteq> Ty_kNamed then t
      else case FindTypeDecl m name of
          None \<Rightarrow> t
        | Some type_decl \<Rightarrow>
            if \<not> ShouldStripTypeDeclKind (td_kind type_decl) mode then t
            else if name \<in> active_names then t
            else StripTypeInternal m mode (insert name active_names) (InstantiateTypeDeclAliasedType type_decl t))"
  by pat_completeness auto
termination
  by (relation "(\<lambda>(m, mode, active, t). card (declared_names m - active)) <*mlex*>
      measure (\<lambda>(m, mode, active, t). size t)")
    (auto simp: wf_mlex mlex_iff declared_names_less size_list_estimation' less_Suc_eq_le)

declare StripTypeInternal.simps [simp del]

definition StripType :: "Type \<Rightarrow> Module \<Rightarrow> TypeStripMode \<Rightarrow> Type" where
  "StripType t m mode = StripTypeInternal m mode {} t"

function ResolveCallableShell_loop :: "Module \<Rightarrow> string set \<Rightarrow> Type \<Rightarrow> Type" where
  "ResolveCallableShell_loop m active_names t =
     (if ty_kind t \<noteq> Ty_kNamed then t
      else case FindTypeDecl m (ty_name t) of
          None \<Rightarrow> t
        | Some type_decl \<Rightarrow>
            if td_kind type_decl \<noteq> D_kTypeAlias then t
            else if ty_name t \<in> active_names then t
            else ResolveCallableShell_loop m (insert (ty_name t) active_names)
              (InstantiateTypeDeclAliasedType type_decl t))"
  by pat_completeness auto
termination
  by (relation "measure (\<lambda>(m, active, t). card (declared_names m - active))") (auto intro: declared_names_less)

declare ResolveCallableShell_loop.simps [simp del]

definition ResolveCallableShell :: "Type \<Rightarrow> Module \<Rightarrow> Type" where
  "ResolveCallableShell t m = ResolveCallableShell_loop m {} t"

text \<open>The loop of \<open>IsNoAliasEligibleType\<close> need not end: \<open>None\<close>.\<close>

definition strip_const :: "Module \<Rightarrow> Type \<Rightarrow> Type option" where
  "strip_const m = while_option (\<lambda>t. ty_kind t = Ty_kConst \<and> ty_subtypes t \<noteq> [])
     (\<lambda>t. StripType (hd (ty_subtypes t)) m kAliasesOnly)"

definition IsNoAliasEligibleType :: "Type \<Rightarrow> Module \<Rightarrow> bool option" where
  "IsNoAliasEligibleType t m = map_option IsPointerLikeType (strip_const m (StripType t m kAliasesOnly))"

section \<open>Predicates up to aliases\<close>

abbreviation stripped :: "Type \<Rightarrow> Module \<Rightarrow> Type" where
  "stripped t m \<equiv> CanonicalizeBuiltinType (StripType t m kAliasesOnly)"

definition IsNumericTypeWithModule :: "Type \<Rightarrow> Module \<Rightarrow> bool" where
  "IsNumericTypeWithModule t m = IsNumericType (stripped t m)"

definition IsIntegerLikeTypeWithModule :: "Type \<Rightarrow> Module \<Rightarrow> bool" where
  "IsIntegerLikeTypeWithModule t m = IsIntegerLikeType (stripped t m)"

definition IsBoolTypeWithModule :: "Type \<Rightarrow> Module \<Rightarrow> bool" where
  "IsBoolTypeWithModule t m = IsBoolType (stripped t m)"

definition IsPointerLikeTypeWithModule :: "Type \<Rightarrow> Module \<Rightarrow> bool" where
  "IsPointerLikeTypeWithModule t m = IsPointerLikeType (StripType t m kAliasesOnly)"

definition IsUintPtrConvertibleTypeWithModule :: "Type \<Rightarrow> Module \<Rightarrow> bool" where
  "IsUintPtrConvertibleTypeWithModule t m = IsUintPtrConvertibleType (StripType t m kAliasesOnly)"

definition IsUintPtrTypeWithModule :: "Type \<Rightarrow> Module \<Rightarrow> bool" where
  "IsUintPtrTypeWithModule t m = IsUintPtrType (StripType t m kAliasesOnly)"

definition HasSuffix :: "string \<Rightarrow> string \<Rightarrow> bool" where
  "HasSuffix txt suffix \<longleftrightarrow> length suffix \<le> length txt \<and> drop (length txt - length suffix) txt = suffix"

definition IsErrorType :: "Type \<Rightarrow> Module \<Rightarrow> bool" where
  "IsErrorType t m =
     (let t = CanonicalizeBuiltinType (StripType t m kAliasesAndDistinct) in
      ty_kind t = Ty_kNamed \<and> (ty_name t = ''Error'' \<or> HasSuffix (ty_name t) ''.Error''))"

primrec IsAddressableExpr :: "Expr \<Rightarrow> bool" where
  "IsAddressableExpr (mk_Expr span kind txt secondary_text integer_literal_value float_literal_value
      type_args type_target bare_type_target_syntax args field_inits left right extra) =
     (case kind of
        E_kName \<Rightarrow> True
      | E_kQualifiedName \<Rightarrow> True
      | E_kField \<Rightarrow> True
      | E_kDerefField \<Rightarrow> True
      | E_kIndex \<Rightarrow> True
      | E_kParen \<Rightarrow> (case map_option IsAddressableExpr left of None \<Rightarrow> False | Some b \<Rightarrow> b)
      | _ \<Rightarrow> False)"

definition IsValidDistinctBaseType :: "Type \<Rightarrow> Module \<Rightarrow> bool" where
  "IsValidDistinctBaseType t m =
     (let t = stripped t m in
      if ty_kind t = Ty_kBool \<or> ty_kind t = Ty_kPointer then True
      else if ty_kind t \<noteq> Ty_kNamed then False
      else IsIntegerTypeName (ty_name t) \<or> IsFloatTypeName (ty_name t))"

section \<open>Assignment and conversion\<close>

definition IsAssignable :: "Type \<Rightarrow> Type \<Rightarrow> Module \<Rightarrow> bool" where
  "IsAssignable expected actual m =
     (let e = stripped expected m; a = stripped actual m in
      if IsUnknown e \<or> IsUnknown a then True
      else if type_eq e a then True
      else if ty_kind e = Ty_kNamed \<and> ty_kind a = Ty_kIntLiteral \<and> IsIntegerTypeName (ty_name e) then True
      else if ty_kind e = Ty_kNamed \<and> ty_kind a = Ty_kFloatLiteral \<and> IsFloatTypeName (ty_name e) then True
      else if IsPointerLikeTypeWithModule e m \<and> ty_kind a = Ty_kNil then True
      else False)"

definition MergeNumericTypes :: "Type \<Rightarrow> Type \<Rightarrow> Module \<Rightarrow> Type" where
  "MergeNumericTypes left right m =
     (let l = stripped left m; r = stripped right m in
      if IsUnknown l \<or> IsUnknown r then UnknownType
      else if type_eq l r then l
      else if ty_kind l = Ty_kNamed \<and> ty_kind r = Ty_kIntLiteral \<and> IsIntegerTypeName (ty_name l) then l
      else if ty_kind r = Ty_kNamed \<and> ty_kind l = Ty_kIntLiteral \<and> IsIntegerTypeName (ty_name r) then r
      else if ty_kind l = Ty_kNamed \<and> ty_kind r = Ty_kFloatLiteral \<and> IsFloatTypeName (ty_name l) then l
      else if ty_kind r = Ty_kNamed \<and> ty_kind l = Ty_kFloatLiteral \<and> IsFloatTypeName (ty_name r) then r
      else if ty_kind l = Ty_kFloatLiteral \<and> ty_kind r = Ty_kIntLiteral then l
      else if ty_kind r = Ty_kFloatLiteral \<and> ty_kind l = Ty_kIntLiteral then r
      else UnknownType)"

definition InferSliceElementType :: "Type \<Rightarrow> Type option" where
  "InferSliceElementType t =
     (case ty_subtypes t of
        [] \<Rightarrow> None
      | x # _ \<Rightarrow>
          if ty_kind t = Ty_kArray \<or> (ty_kind t = Ty_kNamed \<and> (ty_name t = ''Slice'' \<or> ty_name t = ''Buffer''))
          then Some x else None)"

definition is_slice :: "Type \<Rightarrow> bool" where
  "is_slice t \<longleftrightarrow> ty_kind t = Ty_kNamed \<and> ty_name t = ''Slice''"

definition push_subtype :: "Type \<Rightarrow> Type \<Rightarrow> Type" where
  "push_subtype x t = mk_Type (ty_kind t) (ty_name t) (ty_metadata t) (ty_subtypes t @ [x])"

definition InferExplicitConversionTarget :: "Type \<Rightarrow> Type \<Rightarrow> Module \<Rightarrow> Type" where
  "InferExplicitConversionTarget target actual m =
     (let stripped_target = StripType target m kAliasesAndDistinct in
      case (if is_slice target \<and> ty_subtypes target = [] then InferSliceElementType actual else None) of
        Some x \<Rightarrow> push_subtype x target
      | None \<Rightarrow>
          (case (if is_slice stripped_target \<and> ty_subtypes stripped_target = []
                 then InferSliceElementType actual else None) of
             Some x \<Rightarrow> push_subtype x stripped_target
           | None \<Rightarrow> target))"

definition slice_conversion :: "Type \<Rightarrow> Type \<Rightarrow> Module \<Rightarrow> bool option" where
  \<comment> \<open>The test of the element types; \<open>None\<close> when the target is no slice or the source has no elements.\<close>
  "slice_conversion expected actual m =
     (if is_slice expected
      then (case ty_subtypes expected of
          [] \<Rightarrow> None
        | e # _ \<Rightarrow> map_option (\<lambda>a. IsAssignable e a m) (InferSliceElementType actual))
      else None)"

definition IsExplicitlyConvertible :: "Type \<Rightarrow> Type \<Rightarrow> Module \<Rightarrow> bool" where
  "IsExplicitlyConvertible expected actual m =
     (if IsAssignable expected actual m then True
      else case slice_conversion expected actual m of Some b \<Rightarrow> b | None \<Rightarrow>
        (let e = StripType expected m kAliasesAndDistinct; a = StripType actual m kAliasesAndDistinct in
         if IsAssignable e a m then True
         else case slice_conversion e a m of Some b \<Rightarrow> b | None \<Rightarrow>
           if (IsUintPtrConvertibleTypeWithModule e m \<and> IsUintPtrTypeWithModule a m) \<or>
              (IsUintPtrTypeWithModule e m \<and> IsUintPtrConvertibleTypeWithModule a m) then True
           else IsNumericTypeWithModule e m \<and> IsNumericTypeWithModule a m))"

definition InferLiteralType :: "Expr \<Rightarrow> Type" where
  "InferLiteralType e =
     (let txt = e_text e in
      if txt = ''true'' \<or> txt = ''false'' then BoolType
      else if txt = ''nil'' then NilType
      else if txt \<noteq> [] \<and> hd txt = quote_char then StringType
      else if e_secondary_text e = ''char_lit'' \<or> (txt \<noteq> [] \<and> hd txt = apostrophe_char) then IntLiteralType
      else if \<exists>c \<in> set txt. c \<in> set ''.eE'' then FloatLiteralType
      else IntLiteralType)"

end
