(* ===== verification/MC_TypeUtilsSpec.thy ===== *)
theory MC_TypeUtilsSpec
  imports MC_TypeUtils MC_TypeSpec
begin

text \<open>
  What \<open>MC_TypeUtils\<close> guarantees: in a module whose aliases are well-founded the expansion leaves no
  alias and is idempotent; the merge of numeric types is symmetric and accepts both operands. And two
  places where the code falls short: the loop over \<open>const\<close> and the type of hexadecimal literals.
\<close>

section \<open>Names in types\<close>

primrec type_names :: "Type \<Rightarrow> string set" where
  "type_names (mk_Type k name metadata ts) =
     (if k = Ty_kNamed then {name} else {}) \<union> (\<Union>x \<in> set (map type_names ts). x)"

definition alias_name :: "Module \<Rightarrow> TypeStripMode \<Rightarrow> string \<Rightarrow> bool" where
  "alias_name m mode n \<longleftrightarrow>
     (case FindTypeDecl m n of None \<Rightarrow> False | Some d \<Rightarrow> ShouldStripTypeDeclKind (td_kind d) mode)"

definition alias_free :: "Module \<Rightarrow> TypeStripMode \<Rightarrow> Type \<Rightarrow> bool" where
  "alias_free m mode t \<longleftrightarrow> (\<forall>n \<in> type_names t. \<not> alias_name m mode n)"

definition aliases_ranked :: "Module \<Rightarrow> TypeStripMode \<Rightarrow> (string \<Rightarrow> nat) \<Rightarrow> bool" where
  \<comment> \<open>No alias mentions itself through others: what it mentions ranks lower.\<close>
  "aliases_ranked m mode rank \<longleftrightarrow>
     (\<forall>n d. FindTypeDecl m n = Some d \<longrightarrow> alias_name m mode n \<longrightarrow>
        (\<forall>n' \<in> type_names (td_aliased_type d). alias_name m mode n' \<longrightarrow> rank n' < rank n))"

lemma type_names_mk [simp]:
  "type_names (mk_Type k name metadata ts) = (if k = Ty_kNamed then {name} else {}) \<union> (\<Union>x \<in> set ts. type_names x)"
  by simp

lemma type_names_Substitute:
  "type_names (SubstituteTypeParams ps as t) \<subseteq> type_names t \<union> (\<Union>a \<in> set as. type_names a)"
proof (induction t)
  case (mk_Type k name metadata ts)
  have "type_names a \<subseteq> (\<Union>a \<in> set as. type_names a)" if "map_of (zip ps as) name = Some a" for a
    using that by (auto dest!: map_of_SomeD set_zip_rightD)
  moreover have "(\<Union>x \<in> set ts. type_names (SubstituteTypeParams ps as x)) \<subseteq>
      (\<Union>x \<in> set ts. type_names x) \<union> (\<Union>a \<in> set as. type_names a)"
    using mk_Type by blast
  ultimately show ?case
    by (auto simp: Let_def split: option.split)
qed

lemma type_names_Instantiate:
  "type_names (InstantiateTypeDeclAliasedType d t) \<subseteq>
     type_names (td_aliased_type d) \<union> (\<Union>a \<in> set (ty_subtypes t). type_names a)"
  using type_names_Substitute [of "td_type_params d" "ty_subtypes t" "td_aliased_type d"]
  by (auto simp: InstantiateTypeDeclAliasedType_def)

lemma type_names_Canonicalize: "type_names (CanonicalizeBuiltinType t) \<subseteq> type_names t"
proof (induction t)
  case (mk_Type k name metadata ts)
  then show ?case by (auto simp: Let_def type_constructors)
qed

section \<open>Expansion of aliases\<close>

lemma StripTypeInternal_free:
  assumes ranked: "aliases_ranked m mode rank"
  shows "(\<forall>n \<in> type_names t. alias_name m mode n \<longrightarrow> (\<forall>a \<in> active. rank n < rank a)) \<Longrightarrow>
    alias_free m mode (StripTypeInternal m mode active t)"
  using ranked
proof (induction m mode active t rule: StripTypeInternal.induct)
  case (1 m mode active k name metadata ts)
  let ?ts = "map (StripTypeInternal m mode active) ts"
  have free: "alias_free m mode (StripTypeInternal m mode active x)" if "x \<in> set ts" for x
    using "1.IH"(1) [OF that _ "1.prems"(2)] "1.prems"(1) that by auto
  then have ts: "(\<Union>x \<in> set ?ts. type_names x) \<inter> {n. alias_name m mode n} = {}"
    by (auto simp: alias_free_def)
  show ?case
  proof (cases "k = Ty_kNamed \<and> alias_name m mode name")
    case False
    then show ?thesis
      using ts by (subst StripTypeInternal.simps) (auto simp: Let_def alias_free_def alias_name_def split: option.splits)
  next
    case True
    then obtain d where d: "FindTypeDecl m name = Some d" "ShouldStripTypeDeclKind (td_kind d) mode"
      by (auto simp: alias_name_def split: option.splits)
    have fresh: "name \<notin> active" using "1.prems"(1) True by auto
    let ?e = "InstantiateTypeDeclAliasedType d (mk_Type k name metadata ?ts)"
    have "rank n < rank a" if "n \<in> type_names ?e" "alias_name m mode n" "a \<in> insert name active" for n a
    proof -
      have "n \<in> type_names (td_aliased_type d)"
        using type_names_Instantiate [of d "mk_Type k name metadata ?ts"] that ts by auto
      then have "rank n < rank name"
        using "1.prems"(2) d(1) True that(2) by (auto simp: aliases_ranked_def)
      moreover have "rank name < rank a" if "a \<in> active"
        using "1.prems"(1) True that by auto
      ultimately show ?thesis using that(3) by auto
    qed
    then have "alias_free m mode (StripTypeInternal m mode (insert name active) ?e)"
      using "1.IH"(2) [OF refl refl _ d(1) _ fresh] d(2) True "1.prems"(2) by auto
    then show ?thesis
      using True d fresh by (subst StripTypeInternal.simps) (simp add: Let_def)
  qed
qed

lemma StripType_free: "aliases_ranked m mode rank \<Longrightarrow> alias_free m mode (StripType t m mode)"
  unfolding StripType_def by (rule StripTypeInternal_free) auto

lemma StripTypeInternal_id: "alias_free m mode t \<Longrightarrow> StripTypeInternal m mode active t = t"
proof (induction t arbitrary: active)
  case (mk_Type k name metadata ts)
  have "map (StripTypeInternal m mode active) ts = ts"
    using mk_Type by (intro map_idI) (auto simp: alias_free_def)
  with mk_Type.prems show ?case
    by (subst StripTypeInternal.simps) (auto simp: Let_def alias_free_def alias_name_def split: option.splits)
qed

lemma StripType_idem:
  "aliases_ranked m mode rank \<Longrightarrow> StripType (StripType t m mode) m mode = StripType t m mode"
  unfolding StripType_def [of "StripType t m mode"] by (rule StripTypeInternal_id [OF StripType_free])

lemma stripped_idem: "aliases_ranked m kAliasesOnly rank \<Longrightarrow> stripped (stripped t m) m = stripped t m"
proof -
  assume "aliases_ranked m kAliasesOnly rank"
  then have "alias_free m kAliasesOnly (stripped t m)"
    using StripType_free type_names_Canonicalize by (fastforce simp: alias_free_def)
  then show ?thesis by (simp add: StripType_def StripTypeInternal_id)
qed

section \<open>Merging numeric types\<close>

text \<open>The merge as a function of the two stripped types.\<close>

definition merged :: "Type \<Rightarrow> Type \<Rightarrow> Type" where
  "merged l r =
     (if l = r then l
      else if ty_kind l = Ty_kNamed then
        (if (ty_kind r = Ty_kIntLiteral \<and> IsIntegerTypeName (ty_name l)) \<or>
            (ty_kind r = Ty_kFloatLiteral \<and> IsFloatTypeName (ty_name l)) then l else UnknownType)
      else if ty_kind r = Ty_kNamed then
        (if (ty_kind l = Ty_kIntLiteral \<and> IsIntegerTypeName (ty_name r)) \<or>
            (ty_kind l = Ty_kFloatLiteral \<and> IsFloatTypeName (ty_name r)) then r else UnknownType)
      else if ty_kind l = Ty_kFloatLiteral \<and> ty_kind r = Ty_kIntLiteral then l
      else if ty_kind r = Ty_kFloatLiteral \<and> ty_kind l = Ty_kIntLiteral then r
      else UnknownType)"

lemma merged_chain:
  "(if l = r then l
    else if ty_kind l = Ty_kNamed \<and> ty_kind r = Ty_kIntLiteral \<and> IsIntegerTypeName (ty_name l) then l
    else if ty_kind r = Ty_kNamed \<and> ty_kind l = Ty_kIntLiteral \<and> IsIntegerTypeName (ty_name r) then r
    else if ty_kind l = Ty_kNamed \<and> ty_kind r = Ty_kFloatLiteral \<and> IsFloatTypeName (ty_name l) then l
    else if ty_kind r = Ty_kNamed \<and> ty_kind l = Ty_kFloatLiteral \<and> IsFloatTypeName (ty_name r) then r
    else if ty_kind l = Ty_kFloatLiteral \<and> ty_kind r = Ty_kIntLiteral then l
    else if ty_kind r = Ty_kFloatLiteral \<and> ty_kind l = Ty_kIntLiteral then r
    else UnknownType) = merged l r"
  unfolding merged_def by (cases "ty_kind l"; simp)

lemma Merge_merged:
  "MergeNumericTypes l r m =
     (if IsUnknown (stripped l m) \<or> IsUnknown (stripped r m) then UnknownType
      else merged (stripped l m) (stripped r m))"
  unfolding MergeNumericTypes_def Let_def type_eq_canonical Canonicalize_idem merged_chain ..

lemma merged_sides:
  assumes "merged l r = t" "ty_kind t \<notin> {Ty_kUnknown, Ty_kFloatLiteral}"
  shows "t = l \<or> t = r" "x = l \<or> x = r \<Longrightarrow> x = t \<or>
      ty_kind t = Ty_kNamed \<and> ty_kind x = Ty_kIntLiteral \<and> IsIntegerTypeName (ty_name t) \<or>
      ty_kind t = Ty_kNamed \<and> ty_kind x = Ty_kFloatLiteral \<and> IsFloatTypeName (ty_name t)"
  using assms unfolding merged_def by (auto simp: UnknownType_def split: if_splits)

lemma merged_commutes: "merged l r = merged r l"
  unfolding merged_def by (cases "l = r"; cases "ty_kind l"; simp)

lemma Merge_commutes: "MergeNumericTypes l r m = MergeNumericTypes r l m"
  unfolding Merge_merged using merged_commutes by metis

lemma Merge_accepts:
  assumes ranked: "aliases_ranked m kAliasesOnly rank" and t: "MergeNumericTypes l r m = t"
    and kind: "ty_kind t \<notin> {Ty_kUnknown, Ty_kFloatLiteral}"
  shows "IsAssignable t l m \<and> IsAssignable t r m"
proof -
  let ?l = "stripped l m" and ?r = "stripped r m"
  have known: "\<not> IsUnknown ?l" "\<not> IsUnknown ?r" and m: "merged ?l ?r = t"
    using t kind by (auto simp: Merge_merged UnknownType_def split: if_splits)
  have idem: "stripped t m = t" "CanonicalizeBuiltinType t = t"
    using stripped_idem [OF ranked] merged_sides(1) [OF m kind] by auto
  have "IsAssignable t x m" if "stripped x m = ?l \<or> stripped x m = ?r" for x
    using merged_sides(2) [OF m kind that]
    unfolding IsAssignable_def Let_def idem type_eq_canonical Canonicalize_idem by argo
  then show ?thesis by blast
qed

lemma merged_literals:
  "merged l r = t \<Longrightarrow> ty_kind t = Ty_kFloatLiteral \<Longrightarrow>
     ty_kind l \<in> {Ty_kIntLiteral, Ty_kFloatLiteral} \<and> ty_kind r \<in> {Ty_kIntLiteral, Ty_kFloatLiteral}"
  unfolding merged_def by (auto simp: UnknownType_def split: if_splits)

lemma merged_unknown:
  assumes "ty_kind (merged l r) = Ty_kUnknown" "ty_kind l \<noteq> Ty_kUnknown"
  shows "l \<noteq> r" "ty_kind l = Ty_kNamed \<Longrightarrow> ty_kind r = Ty_kIntLiteral \<Longrightarrow> \<not> IsIntegerTypeName (ty_name l)"
    "ty_kind l = Ty_kNamed \<Longrightarrow> ty_kind r = Ty_kFloatLiteral \<Longrightarrow> \<not> IsFloatTypeName (ty_name l)"
  using assms unfolding merged_def by (auto split: if_splits)

lemma Merge_unknown:
  assumes "ty_kind (MergeNumericTypes l r m) = Ty_kUnknown" "\<not> IsUnknown (stripped l m)" "\<not> IsUnknown (stripped r m)"
    and "IsAssignable l r m"
  shows "ty_kind (stripped r m) = Ty_kNil"
proof -
  have k: "ty_kind (merged (stripped l m) (stripped r m)) = Ty_kUnknown" "ty_kind (stripped l m) \<noteq> Ty_kUnknown"
    using assms(1-3) by (simp_all add: Merge_merged IsUnknown_def)
  show ?thesis
    using merged_unknown [OF k] assms(2-4)
    by (auto simp: IsAssignable_def Let_def type_eq_canonical Canonicalize_idem split: if_splits)
qed

lemma Merge_literals:
  assumes "ty_kind (MergeNumericTypes l r m) = Ty_kFloatLiteral"
  shows "ty_kind (stripped l m) \<in> {Ty_kIntLiteral, Ty_kFloatLiteral}" "ty_kind (stripped r m) \<in> {Ty_kIntLiteral, Ty_kFloatLiteral}"
  using assms merged_literals [OF refl, of "stripped l m" "stripped r m"]
  by (auto simp: Merge_merged UnknownType_def split: if_splits)

section \<open>A loop that need not end\<close>

lemma while_option_stuck: "b s \<Longrightarrow> c s = s \<Longrightarrow> while_option b c s = None"
proof -
  assume "b s" "c s = s"
  then have "(c ^^ k) s = s" for k by (induction k) auto
  with \<open>b s\<close> show ?thesis by (simp add: while_option_def)
qed

lemma const_alias_stuck:
  assumes d: "FindTypeDecl m a = Some d" "td_kind d = D_kTypeAlias" "td_type_params d = []"
    "td_aliased_type d = ConstType (NamedType a)"
  shows "IsNoAliasEligibleType (NamedType a) m = None"
proof -
  have e: "InstantiateTypeDeclAliasedType d t = ConstType (NamedType a)" for t
    using d by (simp add: InstantiateTypeDeclAliasedType_def)
  have strip: "ShouldStripTypeDeclKind (td_kind d) kAliasesOnly"
    using d by (simp add: ShouldStripTypeDeclKind_def)
  have "StripTypeInternal m kAliasesOnly {a} (NamedType a) = NamedType a"
    using d(1) strip by (simp add: StripTypeInternal.simps NamedType_def Let_def)
  then have inner: "StripTypeInternal m kAliasesOnly {a} (ConstType (NamedType a)) = ConstType (NamedType a)"
    by (simp add: StripTypeInternal.simps [of m kAliasesOnly "{a}" Ty_kConst] ConstType_def Let_def)
  have "StripType (NamedType a) m kAliasesOnly = ConstType (NamedType a)"
    unfolding StripType_def
    by (subst NamedType_def, subst StripTypeInternal.simps)
      (use d(1) strip inner e in \<open>simp add: Let_def\<close>)
  then show ?thesis
    unfolding IsNoAliasEligibleType_def strip_const_def
    by (simp add: while_option_stuck ConstType_def)
qed

end
