(* ===== verification/MC_ConstEval.thy ===== *)
theory MC_ConstEval
  imports MC_Module "HOL-Library.Signed_Division"
begin

unbundle bit_operations_syntax

text \<open>
  \<open>compiler/sema/const_eval.cpp\<close>: compile-time values, their text and the operators on them; and the
  evaluation of array lengths in a checked module (end of \<open>check.cpp\<close>). An \<open>int64_t\<close> is a 64-bit
  word read by \<open>sint\<close>. The arithmetic of \<open>double\<close> is a parameter, \<open>double_ops\<close>.
\<close>

section \<open>Machine arithmetic\<close>

record double_ops =
  fp_add :: "double \<Rightarrow> double \<Rightarrow> double"
  fp_sub :: "double \<Rightarrow> double \<Rightarrow> double"
  fp_mul :: "double \<Rightarrow> double \<Rightarrow> double"
  fp_div :: "double \<Rightarrow> double \<Rightarrow> double"
  fp_neg :: "double \<Rightarrow> double"
  fp_eq :: "double \<Rightarrow> double \<Rightarrow> bool"
  fp_less :: "double \<Rightarrow> double \<Rightarrow> bool"
  fp_le :: "double \<Rightarrow> double \<Rightarrow> bool"
  fp_of_int :: "int64 \<Rightarrow> double"
  fp_render :: "double \<Rightarrow> string"

definition int64_min :: int64 where
  "int64_min = word_of_int (- (2 ^ 63))"

definition WrapAddInt64 :: "int64 \<Rightarrow> int64 \<Rightarrow> int64" where
  "WrapAddInt64 lhs rhs = lhs + rhs"

definition WrapSubInt64 :: "int64 \<Rightarrow> int64 \<Rightarrow> int64" where
  "WrapSubInt64 lhs rhs = lhs - rhs"

definition WrapMulInt64 :: "int64 \<Rightarrow> int64 \<Rightarrow> int64" where
  "WrapMulInt64 lhs rhs = lhs * rhs"

definition CheckedNegateInt64 :: "int64 \<Rightarrow> int64 option" where
  "CheckedNegateInt64 v = (if v = int64_min then None else Some (- v))"

definition CheckedDivideInt64 :: "int64 \<Rightarrow> int64 \<Rightarrow> int64 option" where
  "CheckedDivideInt64 lhs rhs =
     (if rhs = 0 \<or> (lhs = int64_min \<and> rhs = - 1) then None
      else Some (word_of_int (sint lhs sdiv sint rhs)))"

definition CheckedRemainderInt64 :: "int64 \<Rightarrow> int64 \<Rightarrow> int64 option" where
  "CheckedRemainderInt64 lhs rhs =
     (if rhs = 0 \<or> (lhs = int64_min \<and> rhs = - 1) then None
      else Some (word_of_int (sint lhs smod sint rhs)))"

definition CheckedShiftLeftInt64 :: "int64 \<Rightarrow> int64 \<Rightarrow> int64 option" where
  "CheckedShiftLeftInt64 lhs rhs =
     (if sint rhs < 0 \<or> 64 \<le> sint rhs then None else Some (push_bit (unat rhs) lhs))"

definition CheckedShiftRightInt64 :: "int64 \<Rightarrow> int64 \<Rightarrow> int64 option" where
  "CheckedShiftRightInt64 lhs rhs =
     (if sint rhs < 0 \<or> 64 \<le> sint rhs then None else Some (signed_drop_bit (unat rhs) lhs))"

definition BitwiseAndInt64 :: "int64 \<Rightarrow> int64 \<Rightarrow> int64 option" where
  "BitwiseAndInt64 lhs rhs = Some (lhs AND rhs)"

definition BitwiseOrInt64 :: "int64 \<Rightarrow> int64 \<Rightarrow> int64 option" where
  "BitwiseOrInt64 lhs rhs = Some (lhs OR rhs)"

definition BitwiseXorInt64 :: "int64 \<Rightarrow> int64 \<Rightarrow> int64 option" where
  "BitwiseXorInt64 lhs rhs = Some (lhs XOR rhs)"

definition kConstIntegerBinaryOps :: "(string \<times> (int64 \<Rightarrow> int64 \<Rightarrow> int64 option)) list" where
  "kConstIntegerBinaryOps =
     [(''+'', \<lambda>l r. Some (WrapAddInt64 l r)), (''-'', \<lambda>l r. Some (WrapSubInt64 l r)),
      (''*'', \<lambda>l r. Some (WrapMulInt64 l r)), (''/'', CheckedDivideInt64), (''%'', CheckedRemainderInt64),
      (''<<'', CheckedShiftLeftInt64), (''>>'', CheckedShiftRightInt64), (''&'', BitwiseAndInt64),
      (''|'', BitwiseOrInt64), (''^'', BitwiseXorInt64)]"

definition FindConstIntegerBinaryOp :: "string \<Rightarrow> (int64 \<Rightarrow> int64 \<Rightarrow> int64 option) option" where
  "FindConstIntegerBinaryOp op = map_of kConstIntegerBinaryOps op"

section \<open>Values and their text\<close>

definition new_ConstValue :: "ConstKind \<Rightarrow> ConstValue" where
  "new_ConstValue k = mk_ConstValue k 0 0 False [] [] UnknownType [] 0 [] []"

definition set_cv_integer_value :: "int64 \<Rightarrow> ConstValue \<Rightarrow> ConstValue" where
  "set_cv_integer_value x v = mk_ConstValue (cv_kind v) x (cv_float_value v) (cv_bool_value v) (cv_text v)
     (cv_procedure_name v) (cv_enum_type v) (cv_variant_name v) (cv_variant_tag v) (cv_field_names v) (cv_elements v)"

definition set_cv_float_value :: "double \<Rightarrow> ConstValue \<Rightarrow> ConstValue" where
  "set_cv_float_value x v = mk_ConstValue (cv_kind v) (cv_integer_value v) x (cv_bool_value v) (cv_text v)
     (cv_procedure_name v) (cv_enum_type v) (cv_variant_name v) (cv_variant_tag v) (cv_field_names v) (cv_elements v)"

definition set_cv_bool_value :: "bool \<Rightarrow> ConstValue \<Rightarrow> ConstValue" where
  "set_cv_bool_value x v = mk_ConstValue (cv_kind v) (cv_integer_value v) (cv_float_value v) x (cv_text v)
     (cv_procedure_name v) (cv_enum_type v) (cv_variant_name v) (cv_variant_tag v) (cv_field_names v) (cv_elements v)"

definition set_cv_text :: "string \<Rightarrow> ConstValue \<Rightarrow> ConstValue" where
  "set_cv_text x v = mk_ConstValue (cv_kind v) (cv_integer_value v) (cv_float_value v) (cv_bool_value v) x
     (cv_procedure_name v) (cv_enum_type v) (cv_variant_name v) (cv_variant_tag v) (cv_field_names v) (cv_elements v)"

fun named_elements :: "string list \<Rightarrow> string list \<Rightarrow> string list" where
  \<comment> \<open>\<open>field: value\<close>; a name that is missing or empty is left out.\<close>
  "named_elements names [] = []"
| "named_elements [] (x # xs) = x # named_elements [] xs"
| "named_elements (n # names) (x # xs) = (if n \<noteq> [] then n @ '': '' @ x else x) # named_elements names xs"

primrec RenderConstValue :: "double_ops \<Rightarrow> ConstValue \<Rightarrow> string option" where
  "RenderConstValue fp (mk_ConstValue kind integer_value float_value bool_value txt procedure_name enum_type
      variant_name variant_tag field_names elements) =
     (let rendered = map_option (named_elements field_names) (those (map (RenderConstValue fp) elements)) in
      case kind of
        CK_kBool \<Rightarrow> Some (if bool_value then ''true'' else ''false'')
      | CK_kInteger \<Rightarrow> Some (string_of_int (sint integer_value))
      | CK_kFloat \<Rightarrow> Some (fp_render fp float_value)
      | CK_kString \<Rightarrow> Some txt
      | CK_kNil \<Rightarrow> Some ''nil''
      | CK_kProcedure \<Rightarrow> Some procedure_name
      | CK_kEnum \<Rightarrow> do {
          t \<leftarrow> FormatType enum_type;
          es \<leftarrow> rendered;
          Some (t @ ''.'' @ variant_name @ (if elements = [] then [] else ''('' @ join_with '', '' es @ '')'')) }
      | CK_kAggregate \<Rightarrow> map_option (\<lambda>es. ''{'' @ join_with '', '' es @ ''}'') rendered)"

definition with_text :: "double_ops \<Rightarrow> ConstValue \<Rightarrow> ConstValue option" where
  \<comment> \<open>\<open>result.text = RenderConstValue(result)\<close>\<close>
  "with_text fp v = map_option (\<lambda>t. set_cv_text t v) (RenderConstValue fp v)"

definition MakeConstValue_bool :: "bool \<Rightarrow> ConstValue" where
  "MakeConstValue_bool b =
     set_cv_text (if b then ''true'' else ''false'') (set_cv_bool_value b (new_ConstValue CK_kBool))"

definition MakeConstValue_int :: "int64 \<Rightarrow> ConstValue" where
  "MakeConstValue_int i = set_cv_text (string_of_int (sint i)) (set_cv_integer_value i (new_ConstValue CK_kInteger))"

definition MakeConstValue_float :: "double_ops \<Rightarrow> double \<Rightarrow> ConstValue" where
  "MakeConstValue_float fp d = set_cv_text (fp_render fp d) (set_cv_float_value d (new_ConstValue CK_kFloat))"

definition MakeProcedureConstValue :: "string \<Rightarrow> ConstValue" where
  "MakeProcedureConstValue procedure_name =
     mk_ConstValue CK_kProcedure 0 0 False procedure_name procedure_name UnknownType [] 0 [] []"

definition MakeEnumConstValue ::
  "double_ops \<Rightarrow> Type \<Rightarrow> string \<Rightarrow> int64 \<Rightarrow> string list \<Rightarrow> ConstValue list \<Rightarrow> ConstValue option" where
  "MakeEnumConstValue fp enum_type variant_name variant_tag field_names elements =
     with_text fp (mk_ConstValue CK_kEnum 0 0 False [] [] enum_type variant_name variant_tag field_names elements)"

definition ParseLiteralConstValue :: "double_ops \<Rightarrow> Expr \<Rightarrow> ConstValue option" where
  "ParseLiteralConstValue fp e =
     (if e_text e = ''true'' then Some (MakeConstValue_bool True)
      else if e_text e = ''false'' then Some (MakeConstValue_bool False)
      else if e_text e = ''nil'' then Some (set_cv_text ''nil'' (new_ConstValue CK_kNil))
      else if e_text e \<noteq> [] \<and> hd (e_text e) = quote_char
      then Some (set_cv_text (e_text e) (new_ConstValue CK_kString))
      else case e_float_literal_value e of
          Some d \<Rightarrow> Some (MakeConstValue_float fp d)
        | None \<Rightarrow> map_option MakeConstValue_int (e_integer_literal_value e))"

text \<open>The text that the constructors store is the one \<open>RenderConstValue\<close> gives.\<close>

lemma MakeConstValue_text:
  "with_text fp (set_cv_bool_value b (new_ConstValue CK_kBool)) = Some (MakeConstValue_bool b)"
  "with_text fp (set_cv_integer_value i (new_ConstValue CK_kInteger)) = Some (MakeConstValue_int i)"
  "with_text fp (set_cv_float_value d (new_ConstValue CK_kFloat)) = Some (MakeConstValue_float fp d)"
  by (simp_all add: with_text_def MakeConstValue_bool_def MakeConstValue_int_def MakeConstValue_float_def
      set_cv_bool_value_def set_cv_integer_value_def set_cv_float_value_def new_ConstValue_def Let_def)

section \<open>Operators\<close>

definition IsConstComparisonOp :: "string \<Rightarrow> bool" where
  "IsConstComparisonOp op \<longleftrightarrow> op \<in> {''=='', ''!='', ''<'', ''>'', ''<='', ''>=''}"

definition EvaluateOrderedComparison_float :: "double_ops \<Rightarrow> string \<Rightarrow> double \<Rightarrow> double \<Rightarrow> bool" where
  "EvaluateOrderedComparison_float fp op lhs rhs =
     (if op = ''=='' then fp_eq fp lhs rhs
      else if op = ''!='' then \<not> fp_eq fp lhs rhs
      else if op = ''<'' then fp_less fp lhs rhs
      else if op = ''>'' then fp_less fp rhs lhs
      else if op = ''<='' then fp_le fp lhs rhs
      else fp_le fp rhs lhs)"

definition EvaluateOrderedComparison_int :: "string \<Rightarrow> int64 \<Rightarrow> int64 \<Rightarrow> bool" where
  "EvaluateOrderedComparison_int op lhs rhs =
     (if op = ''=='' then lhs = rhs
      else if op = ''!='' then lhs \<noteq> rhs
      else if op = ''<'' then sint lhs < sint rhs
      else if op = ''>'' then sint lhs > sint rhs
      else if op = ''<='' then sint lhs \<le> sint rhs
      else sint lhs \<ge> sint rhs)"

primrec ConstValuesEqual :: "double_ops \<Rightarrow> ConstValue \<Rightarrow> ConstValue \<Rightarrow> bool" where
  "ConstValuesEqual fp (mk_ConstValue kind integer_value float_value bool_value txt procedure_name enum_type
      variant_name variant_tag field_names elements) r =
     (let same_elements = length elements = length (cv_elements r) \<and>
            list_all2 (\<lambda>f x. f x) (map (ConstValuesEqual fp) elements) (cv_elements r) in
      if kind \<noteq> cv_kind r then False
      else case kind of
          CK_kBool \<Rightarrow> bool_value = cv_bool_value r
        | CK_kInteger \<Rightarrow> integer_value = cv_integer_value r
        | CK_kFloat \<Rightarrow> fp_eq fp float_value (cv_float_value r)
        | CK_kString \<Rightarrow> txt = cv_text r
        | CK_kNil \<Rightarrow> True
        | CK_kProcedure \<Rightarrow> procedure_name = cv_procedure_name r
        | CK_kEnum \<Rightarrow> type_eq enum_type (cv_enum_type r) \<and> variant_name = cv_variant_name r \<and>
            variant_tag = cv_variant_tag r \<and> field_names = cv_field_names r \<and> same_elements
        | CK_kAggregate \<Rightarrow> field_names = cv_field_names r \<and> same_elements)"

definition as_double :: "double_ops \<Rightarrow> ConstValue \<Rightarrow> double" where
  "as_double fp v = (if cv_kind v = CK_kFloat then cv_float_value v else fp_of_int fp (cv_integer_value v))"

definition EvaluateConstComparison :: "double_ops \<Rightarrow> string \<Rightarrow> ConstValue \<Rightarrow> ConstValue \<Rightarrow> ConstValue option" where
  "EvaluateConstComparison fp op l r =
     (if \<not> IsConstComparisonOp op then None
      else if cv_kind l = CK_kEnum \<or> cv_kind r = CK_kEnum
      then if cv_kind l \<noteq> CK_kEnum \<or> cv_kind r \<noteq> CK_kEnum \<or> (op \<noteq> ''=='' \<and> op \<noteq> ''!='') then None
        else let same = ConstValuesEqual fp l r in
          Some (MakeConstValue_bool (if op = ''=='' then same else \<not> same))
      else if cv_kind l = CK_kFloat \<or> cv_kind r = CK_kFloat
      then Some (MakeConstValue_bool (EvaluateOrderedComparison_float fp op (as_double fp l) (as_double fp r)))
      else if cv_kind l \<noteq> CK_kInteger \<or> cv_kind r \<noteq> CK_kInteger then None
      else Some (MakeConstValue_bool (EvaluateOrderedComparison_int op (cv_integer_value l) (cv_integer_value r))))"

definition EvaluateConstLogicalBinary :: "string \<Rightarrow> ConstValue \<Rightarrow> ConstValue \<Rightarrow> ConstValue option" where
  "EvaluateConstLogicalBinary op l r =
     (if (op \<noteq> ''&&'' \<and> op \<noteq> ''||'') \<or> cv_kind l \<noteq> CK_kBool \<or> cv_kind r \<noteq> CK_kBool then None
      else Some (MakeConstValue_bool
        (if op = ''&&'' then cv_bool_value l \<and> cv_bool_value r else cv_bool_value l \<or> cv_bool_value r)))"

definition EvaluateConstFloatBinary :: "double_ops \<Rightarrow> string \<Rightarrow> double \<Rightarrow> double \<Rightarrow> ConstValue option" where
  "EvaluateConstFloatBinary fp op lhs rhs =
     (if op = ''/'' \<and> fp_eq fp rhs 0 then None
      else if op = ''+'' then Some (MakeConstValue_float fp (fp_add fp lhs rhs))
      else if op = ''-'' then Some (MakeConstValue_float fp (fp_sub fp lhs rhs))
      else if op = ''*'' then Some (MakeConstValue_float fp (fp_mul fp lhs rhs))
      else if op = ''/'' then Some (MakeConstValue_float fp (fp_div fp lhs rhs))
      else None)"

definition EvaluateConstUnaryOp :: "double_ops \<Rightarrow> string \<Rightarrow> ConstValue \<Rightarrow> ConstValue option" where
  "EvaluateConstUnaryOp fp op v =
     (if op = ''+'' then (if cv_kind v = CK_kInteger \<or> cv_kind v = CK_kFloat then Some v else None)
      else if op = ''-'' then
        (if cv_kind v = CK_kInteger then map_option MakeConstValue_int (CheckedNegateInt64 (cv_integer_value v))
         else if cv_kind v = CK_kFloat then Some (MakeConstValue_float fp (fp_neg fp (cv_float_value v)))
         else None)
      else if op = ''!'' then
        (if cv_kind v = CK_kBool then Some (MakeConstValue_bool (\<not> cv_bool_value v)) else None)
      else None)"

definition EvaluateConstBinaryOp :: "double_ops \<Rightarrow> string \<Rightarrow> ConstValue \<Rightarrow> ConstValue \<Rightarrow> ConstValue option" where
  "EvaluateConstBinaryOp fp op l r =
     (case EvaluateConstLogicalBinary op l r of Some v \<Rightarrow> Some v | None \<Rightarrow>
      case EvaluateConstComparison fp op l r of Some v \<Rightarrow> Some v | None \<Rightarrow>
      if cv_kind l = CK_kFloat \<or> cv_kind r = CK_kFloat
      then EvaluateConstFloatBinary fp op (as_double fp l) (as_double fp r)
      else if cv_kind l \<noteq> CK_kInteger \<or> cv_kind r \<noteq> CK_kInteger then None
      else case FindConstIntegerBinaryOp op of
          None \<Rightarrow> None
        | Some evaluate \<Rightarrow> map_option MakeConstValue_int (evaluate (cv_integer_value l) (cv_integer_value r)))"

definition ParseGlobalConstValue :: "GlobalSummary \<Rightarrow> string \<Rightarrow> ConstValue option" where
  "ParseGlobalConstValue g name =
     (case find (\<lambda>i. gs_names g ! i = name) [0..<length (gs_names g)] of
        None \<Rightarrow> None
      | Some index \<Rightarrow>
          if length (gs_constant_values g) \<le> index then None else gs_constant_values g ! index)"

section \<open>Array lengths in a checked module (check.cpp)\<close>

definition const_global :: "double_ops \<Rightarrow> Module \<Rightarrow> string \<Rightarrow> ConstValue option" where
  "const_global fp m name =
     (case FindGlobalSummary m name of
        None \<Rightarrow> None
      | Some g \<Rightarrow> if gs_is_const g then ParseGlobalConstValue g name else None)"

definition qualified_global ::
  "double_ops \<Rightarrow> Module \<Rightarrow> (string \<rightharpoonup> Module) option \<Rightarrow> string \<Rightarrow> string \<Rightarrow> ConstValue option" where
  "qualified_global fp m imported_modules qualifier name =
     (case (case imported_modules of None \<Rightarrow> None | Some ms \<Rightarrow> ms qualifier) of
        Some source_module \<Rightarrow> const_global fp source_module name
      | None \<Rightarrow> const_global fp m (qualifier @ ''.'' @ name))"

definition join_option :: "'a option option \<Rightarrow> 'a option" where
  "join_option x = (case x of None \<Rightarrow> None | Some y \<Rightarrow> y)"

primrec EvalConstExprFromModule ::
  "double_ops \<Rightarrow> Module \<Rightarrow> (string \<rightharpoonup> Module) option \<Rightarrow> Expr \<Rightarrow> ConstValue option" where
  "EvalConstExprFromModule fp m imported_modules
      (mk_Expr span kind txt secondary_text integer_literal_value float_literal_value
        type_args type_target bare_type_target_syntax args field_inits left right extra) =
     (let l = join_option (map_option (EvalConstExprFromModule fp m imported_modules) left);
          r = join_option (map_option (EvalConstExprFromModule fp m imported_modules) right) in
      case kind of
        E_kName \<Rightarrow> const_global fp m txt
      | E_kQualifiedName \<Rightarrow> qualified_global fp m imported_modules txt secondary_text
      | E_kLiteral \<Rightarrow> ParseLiteralConstValue fp
          (mk_Expr span kind txt secondary_text integer_literal_value float_literal_value
            type_args type_target bare_type_target_syntax args field_inits left right extra)
      | E_kUnary \<Rightarrow> Option.bind l (EvaluateConstUnaryOp fp txt)
      | E_kBinary \<Rightarrow> do { a \<leftarrow> l; b \<leftarrow> r; EvaluateConstBinaryOp fp txt a b }
      | E_kParen \<Rightarrow> l
      | _ \<Rightarrow> None)"

definition EvalArrayLengthFromModule ::
  "double_ops \<Rightarrow> Expr option \<Rightarrow> Module \<Rightarrow> (string \<rightharpoonup> Module) option \<Rightarrow> size64 option" where
  "EvalArrayLengthFromModule fp length_expr m imported_modules =
     (case join_option (map_option (EvalConstExprFromModule fp m imported_modules) length_expr) of
        None \<Rightarrow> None
      | Some v \<Rightarrow>
          if cv_kind v \<noteq> CK_kInteger \<or> sint (cv_integer_value v) < 0 then None
          else Some (cv_integer_value v))"

definition replace_element_type :: "Type \<Rightarrow> Type \<Rightarrow> Type" where
  \<comment> \<open>\<open>if (!base.subtypes.empty()) base.subtypes[0] = inner\<close>\<close>
  "replace_element_type inner base =
     mk_Type (ty_kind base) (ty_name base) (ty_metadata base)
       (case ty_subtypes base of [] \<Rightarrow> [] | x # xs \<Rightarrow> inner # xs)"

primrec ResolveTypeFromAst_node ::
  "double_ops \<Rightarrow> Module \<Rightarrow> (string \<rightharpoonup> Module) option \<Rightarrow> TypeExpr \<Rightarrow> Type option" where
  "ResolveTypeFromAst_node fp m imported_modules
      (mk_TypeExpr span kind name type_args inner length_expr params returns) =
     (let t = mk_TypeExpr span kind name type_args inner length_expr params returns in
      if kind \<noteq> TE_kArray then TypeFromAst (Some t)
      else do {
        element \<leftarrow> or_unknown (map_option (ResolveTypeFromAst_node fp m imported_modules) inner);
        base \<leftarrow> TypeFromAst (Some t);
        let metadata =
          (case (if ParseArrayLength (ty_metadata base) = None
                 then EvalArrayLengthFromModule fp length_expr m imported_modules else None) of
             Some len \<Rightarrow> string_of_nat (unat len)
           | None \<Rightarrow> ty_metadata base);
        Some (replace_element_type element (mk_Type (ty_kind base) (ty_name base) metadata (ty_subtypes base))) })"

definition ResolveTypeFromAst ::
  "double_ops \<Rightarrow> TypeExpr option \<Rightarrow> Module \<Rightarrow> (string \<rightharpoonup> Module) option \<Rightarrow> Type option" where
  "ResolveTypeFromAst fp type_expr m imported_modules =
     or_unknown (map_option (ResolveTypeFromAst_node fp m imported_modules) type_expr)"

end
