(* ===== verification/MC_ConstEvalSpec.thy ===== *)
theory MC_ConstEvalSpec
  imports MC_ConstEval
begin

unbundle bit_operations_syntax

text \<open>
  The integer operators of constant expressions against arithmetic on unbounded integers: addition,
  subtraction, multiplication and shifts to the left wrap, the others are exact or have no value.
\<close>

definition wrap64 :: "int \<Rightarrow> int" where
  "wrap64 = signed_take_bit 63"

definition in_int64 :: "int \<Rightarrow> bool" where
  "in_int64 i \<longleftrightarrow> - (2 ^ 63) \<le> i \<and> i < 2 ^ 63"

definition int_op_spec :: "string \<Rightarrow> int \<Rightarrow> int \<Rightarrow> int option" where
  "int_op_spec op a b =
     (if op = ''+'' then Some (wrap64 (a + b))
      else if op = ''-'' then Some (wrap64 (a - b))
      else if op = ''*'' then Some (wrap64 (a * b))
      else if op = ''/'' then (if b = 0 \<or> \<not> in_int64 (a sdiv b) then None else Some (a sdiv b))
      else if op = ''%'' then (if b = 0 \<or> \<not> in_int64 (a sdiv b) then None else Some (a smod b))
      else if op = ''<<'' then (if 0 \<le> b \<and> b < 64 then Some (wrap64 (a * 2 ^ nat b)) else None)
      else if op = ''>>'' then (if 0 \<le> b \<and> b < 64 then Some (a div 2 ^ nat b) else None)
      else if op = ''&'' then Some (a AND b)
      else if op = ''|'' then Some (a OR b)
      else if op = ''^'' then Some (a XOR b)
      else None)"

lemma sint_int64_min: "sint int64_min = - (2 ^ 63)"
  by (simp add: int64_min_def signed_of_int signed_take_bit_int_eq_self_iff)

lemma sint_eq_iff: "sint (a :: int64) = sint b \<longleftrightarrow> a = b"
  by (metis signed_word_eqI)

lemma sint_range: "in_int64 (sint (a :: int64))"
  using sint_ge [of a] sint_lt [of a] by (simp add: in_int64_def)

lemma sint_of_int: "in_int64 i \<Longrightarrow> sint (word_of_int i :: int64) = i"
  by (simp add: in_int64_def signed_of_int signed_take_bit_int_eq_self_iff)

lemma sdiv_in_range:
  assumes "in_int64 a" "in_int64 b" "b \<noteq> 0"
  shows "in_int64 (a sdiv b) \<longleftrightarrow> \<not> (a = - (2 ^ 63) \<and> b = - 1)"
proof (cases "\<bar>b\<bar> = 1")
  case True
  then show ?thesis
    using assms by (cases "0 \<le> a") (auto simp: in_int64_def signed_divide_int_def abs_if sgn_if split: if_splits)
next
  case False
  with assms(3) have b: "2 \<le> \<bar>b\<bar>" by linarith
  have "\<bar>a\<bar> div \<bar>b\<bar> \<le> \<bar>a\<bar> div 2" by (rule zdiv_mono2) (use b in auto)
  also have "\<dots> < 2 ^ 63" using assms(1) by (auto simp: in_int64_def)
  finally have q: "\<bar>a\<bar> div \<bar>b\<bar> < 2 ^ 63" "0 \<le> \<bar>a\<bar> div \<bar>b\<bar>" using b by (auto simp: pos_imp_zdiv_nonneg_iff)
  then have "in_int64 (a sdiv b)"
    unfolding signed_divide_int_def in_int64_def by (cases "sgn a"; cases "sgn b"; auto simp: sgn_if split: if_splits)
  with b show ?thesis by auto
qed

lemma smod_in_range:
  assumes "in_int64 a" "in_int64 b" "b \<noteq> 0"
  shows "in_int64 (a smod b)"
  using smod_int_range [OF assms(3), of a] assms(2) by (auto simp: in_int64_def abs_if split: if_splits)

lemma int_zero_or_min:
  "rhs = 0 \<or> (lhs = int64_min \<and> rhs = - 1) \<longleftrightarrow>
     sint rhs = 0 \<or> \<not> in_int64 (sint lhs sdiv sint rhs)" for lhs rhs :: int64
proof -
  have "rhs = 0 \<longleftrightarrow> sint rhs = 0" using sint_eq_iff [of rhs 0] by simp
  moreover have "lhs = int64_min \<longleftrightarrow> sint lhs = - (2 ^ 63)" using sint_eq_iff [of lhs int64_min] sint_int64_min by simp
  moreover have "rhs = - 1 \<longleftrightarrow> sint rhs = - 1" using sint_eq_iff [of rhs "- 1"] by simp
  ultimately show ?thesis using sdiv_in_range [OF sint_range sint_range, of rhs lhs] by blast
qed

lemma shift_amount: "0 \<le> sint (b :: int64) \<Longrightarrow> unat b = nat (sint b)"
  using sint_lt [of b] by (simp add: uint_sint take_bit_int_eq_self unat_eq_nat_uint flip: nat_uint_eq)

lemma sint_push_bit: "sint (push_bit n a) = wrap64 (sint a * 2 ^ n)" for a :: int64
proof -
  have "sint (push_bit n a) = signed_take_bit 63 (push_bit n (sint a))" by (simp only: signed_push_bit_eq) simp
  then show ?thesis by (simp only: wrap64_def push_bit_eq_mult)
qed

lemma checked_ops:
  "sint (WrapAddInt64 a b) = wrap64 (sint a + sint b)"
  "sint (WrapSubInt64 a b) = wrap64 (sint a - sint b)"
  "sint (WrapMulInt64 a b) = wrap64 (sint a * sint b)"
  "map_option sint (CheckedDivideInt64 a b) = int_op_spec ''/'' (sint a) (sint b)"
  "map_option sint (CheckedRemainderInt64 a b) = int_op_spec ''%'' (sint a) (sint b)"
  "map_option sint (CheckedShiftLeftInt64 a b) = int_op_spec ''<<'' (sint a) (sint b)"
  "map_option sint (CheckedShiftRightInt64 a b) = int_op_spec ''>>'' (sint a) (sint b)"
proof -
  show "sint (WrapAddInt64 a b) = wrap64 (sint a + sint b)"
    "sint (WrapSubInt64 a b) = wrap64 (sint a - sint b)"
    "sint (WrapMulInt64 a b) = wrap64 (sint a * sint b)"
    by (simp_all add: WrapAddInt64_def WrapSubInt64_def WrapMulInt64_def wrap64_def sint_word_ariths)
  show "map_option sint (CheckedDivideInt64 a b) = int_op_spec ''/'' (sint a) (sint b)"
    unfolding CheckedDivideInt64_def int_zero_or_min by (simp add: int_op_spec_def sint_of_int)
  show "map_option sint (CheckedRemainderInt64 a b) = int_op_spec ''%'' (sint a) (sint b)"
    unfolding CheckedRemainderInt64_def int_zero_or_min
    by (simp add: int_op_spec_def sint_of_int smod_in_range sint_range)
  show "map_option sint (CheckedShiftLeftInt64 a b) = int_op_spec ''<<'' (sint a) (sint b)"
    by (auto simp: CheckedShiftLeftInt64_def int_op_spec_def sint_push_bit shift_amount)
  show "map_option sint (CheckedShiftRightInt64 a b) = int_op_spec ''>>'' (sint a) (sint b)"
    by (auto simp: CheckedShiftRightInt64_def int_op_spec_def sint_signed_drop_bit_eq shift_amount drop_bit_eq_div)
qed

lemma FindConstIntegerBinaryOp_spec:
  "(case FindConstIntegerBinaryOp op of None \<Rightarrow> None | Some f \<Rightarrow> map_option sint (f a b)) =
     int_op_spec op (sint a) (sint b)"
proof (cases "op \<in> fst ` set kConstIntegerBinaryOps")
  case True
  then have "op \<in> {''+'', ''-'', ''*'', ''/'', ''%'', ''<<'', ''>>'', ''&'', ''|'', ''^''}"
    by (auto simp: kConstIntegerBinaryOps_def)
  then show ?thesis
    by (elim insertE; simp add: FindConstIntegerBinaryOp_def kConstIntegerBinaryOps_def checked_ops)
      (simp_all add: int_op_spec_def BitwiseAndInt64_def BitwiseOrInt64_def BitwiseXorInt64_def
        signed_and_eq signed_or_eq signed_xor_eq)
next
  case False
  then have "FindConstIntegerBinaryOp op = None"
    by (simp add: FindConstIntegerBinaryOp_def map_of_eq_None_iff)
  then show ?thesis using False by (simp add: int_op_spec_def kConstIntegerBinaryOps_def)
qed

lemma MakeConstValue_int_sel [simp]:
  "cv_kind (MakeConstValue_int a) = CK_kInteger" "cv_integer_value (MakeConstValue_int a) = a"
  by (simp_all add: MakeConstValue_int_def set_cv_text_def set_cv_integer_value_def new_ConstValue_def)

lemma EvaluateConstBinaryOp_int:
  assumes "cv_kind l = CK_kInteger" "cv_kind r = CK_kInteger" "\<not> IsConstComparisonOp op"
  shows "map_option (\<lambda>v. (cv_kind v, sint (cv_integer_value v))) (EvaluateConstBinaryOp fp op l r) =
    map_option (Pair CK_kInteger) (int_op_spec op (sint (cv_integer_value l)) (sint (cv_integer_value r)))"
  using assms FindConstIntegerBinaryOp_spec [where op = op and a = "cv_integer_value l" and b = "cv_integer_value r", symmetric]
  by (auto simp: EvaluateConstBinaryOp_def EvaluateConstLogicalBinary_def EvaluateConstComparison_def
      option.map_comp comp_def split: option.splits)

end
