(* ===== verification/MC_Layout.thy ===== *)
theory MC_Layout
  imports MC_TypeUtils
begin

text \<open>
  \<open>compiler/sema/layout.cpp\<close>: size, alignment and field offsets of types, in 64-bit arithmetic. The
  state is the module, in whose declarations computed layouts are kept, and the reports made. The
  recursion is not guarded for aliases and for instances of generic types, so it has fuel: \<open>None\<close>
  for every amount of it means that the code recurses until the stack is exhausted. \<open>active_types\<close>
  holds after a call what it held before, and is an argument.
\<close>

record LayoutState =
  ly_module :: Module
  ly_reports :: "(SourceSpan \<times> string) list"

type_synonym layout_fun = "Type \<Rightarrow> string set \<Rightarrow> LayoutState \<Rightarrow> (LayoutInfo \<times> LayoutState) option"

definition AlignTo :: "size64 \<Rightarrow> size64 \<Rightarrow> size64" where
  "AlignTo v alignment =
     (if alignment = 0 then v
      else let remainder = v mod alignment in
        if remainder = 0 then v else v + (alignment - remainder))"

definition layout_of :: "size64 \<Rightarrow> size64 \<Rightarrow> LayoutInfo" where
  "layout_of sz alignment =
     \<lparr>lay_valid = True, lay_size = sz, lay_alignment = alignment, lay_field_offsets = []\<rparr>"

definition Report_layout :: "SourceSpan \<Rightarrow> string \<Rightarrow> LayoutState \<Rightarrow> LayoutState" where
  "Report_layout span message s = s\<lparr>ly_reports := ly_reports s @ [(span, message)]\<rparr>"

fun update_first :: "('a \<Rightarrow> bool) \<Rightarrow> ('a \<Rightarrow> 'a) \<Rightarrow> 'a list \<Rightarrow> 'a list" where
  "update_first P f [] = []"
| "update_first P f (x # xs) = (if P x then f x # xs else x # update_first P f xs)"

definition store_layout :: "string \<Rightarrow> LayoutInfo \<Rightarrow> LayoutState \<Rightarrow> LayoutState" where
  \<comment> \<open>\<open>type_decl.layout = layout\<close> through the reference that \<open>FindMutableTypeDecl\<close> gave.\<close>
  "store_layout name layout s =
     s\<lparr>ly_module := (ly_module s)\<lparr>mod_type_decls :=
       update_first (\<lambda>d. td_name d = name) (td_layout_update (\<lambda>_. layout)) (mod_type_decls (ly_module s))\<rparr>\<rparr>"

definition builtin_layout :: "string \<Rightarrow> LayoutInfo option" where
  "builtin_layout name =
     (if name \<in> {''i8'', ''u8''} then Some (layout_of 1 1)
      else if name \<in> {''i16'', ''u16''} then Some (layout_of 2 2)
      else if name \<in> {''i32'', ''u32'', ''f32''} then Some (layout_of 4 4)
      else if name \<in> {''i64'', ''u64'', ''isize'', ''usize'', ''uintptr'', ''f64''} then Some (layout_of 8 8)
      else if name = ''Slice'' then Some (layout_of 16 8)
      else if name = ''Buffer'' then Some (layout_of 32 8)
      else None)"

section \<open>Enumerations\<close>

primrec variant_fields ::
  "layout_fun \<Rightarrow> TypeDeclSummary \<Rightarrow> Type \<Rightarrow> string set \<Rightarrow> (string \<times> Type) list \<Rightarrow> size64 \<Rightarrow> size64 \<Rightarrow>
     LayoutState \<Rightarrow> ((size64 \<times> size64) option \<times> LayoutState) option" where
  \<comment> \<open>The loop over the payload fields of a variant; an inner \<open>None\<close> when a field has no layout.\<close>
  "variant_fields compute d t active [] variant_size variant_alignment s =
     Some (Some (AlignTo variant_size variant_alignment, variant_alignment), s)"
| "variant_fields compute d t active (payload_field # rest) variant_size variant_alignment s =
     (let field_type = (if td_type_params d \<noteq> []
        then SubstituteTypeParams (td_type_params d) (ty_subtypes t) (snd payload_field) else snd payload_field) in
      do {
        (field_layout, s) \<leftarrow> compute field_type active s;
        if \<not> lay_valid field_layout then Some (None, s)
        else variant_fields compute d t active rest
          (AlignTo variant_size (lay_alignment field_layout) + lay_size field_layout)
          (max variant_alignment (lay_alignment field_layout)) s })"

primrec enum_variants ::
  "layout_fun \<Rightarrow> TypeDeclSummary \<Rightarrow> Type \<Rightarrow> string set \<Rightarrow> VariantSummary list \<Rightarrow> size64 \<Rightarrow> size64 \<Rightarrow>
     LayoutState \<Rightarrow> ((size64 \<times> size64) option \<times> LayoutState) option" where
  "enum_variants compute d t active [] payload_size payload_alignment s =
     Some (Some (payload_size, payload_alignment), s)"
| "enum_variants compute d t active (variant # variants) payload_size payload_alignment s =
     do {
       (r, s) \<leftarrow> variant_fields compute d t active (vs_payload_fields variant) 0 1 s;
       case r of
         None \<Rightarrow> Some (None, s)
       | Some (variant_size, variant_alignment) \<Rightarrow>
           enum_variants compute d t active variants (max payload_size variant_size)
             (max payload_alignment variant_alignment) s }"

definition cycle_report :: "SourceSpan \<Rightarrow> string \<Rightarrow> LayoutState \<Rightarrow> LayoutInfo \<times> LayoutState" where
  "cycle_report span key s = (no_layout, Report_layout span (''type layout cycle requires indirection: '' @ key) s)"

definition finish_layout ::
  "TypeDeclSummary \<Rightarrow> LayoutInfo \<Rightarrow> LayoutState \<Rightarrow> LayoutInfo \<times> LayoutState" where
  "finish_layout d layout s =
     (layout, if td_type_params d = [] then store_layout (td_name d) layout s else s)"

definition ComputeEnumLayout ::
  "layout_fun \<Rightarrow> TypeDeclSummary \<Rightarrow> Type \<Rightarrow> SourceSpan \<Rightarrow> string set \<Rightarrow> LayoutState \<Rightarrow> (LayoutInfo \<times> LayoutState) option"
where
  "ComputeEnumLayout compute d t span active_types s =
     (if td_type_params d = [] \<and> lay_valid (td_layout d) then Some (td_layout d, s)
      else do {
        active_key \<leftarrow> FormatType t;
        if active_key \<in> active_types then Some (cycle_report span active_key s)
        else do {
          (r, s) \<leftarrow> enum_variants compute d t (insert active_key active_types) (td_variants d) 0 1 s;
          case r of
            None \<Rightarrow> Some (no_layout, s)
          | Some (payload_size, payload_alignment) \<Rightarrow>
              let alignment = max 8 payload_alignment in
              Some (finish_layout d (layout_of (AlignTo (8 + payload_size) alignment) alignment) s) } })"

section \<open>Structures\<close>

primrec struct_fields ::
  "layout_fun \<Rightarrow> bool \<Rightarrow> string set \<Rightarrow> (string \<times> Type) list \<Rightarrow> size64 \<Rightarrow> size64 \<Rightarrow> size64 list \<Rightarrow>
     LayoutState \<Rightarrow> ((size64 \<times> size64 \<times> size64 list) option \<times> LayoutState) option" where
  "struct_fields compute is_packed active [] sz alignment offsets s = Some (Some (sz, alignment, offsets), s)"
| "struct_fields compute is_packed active (field # rest) sz alignment offsets s =
     do {
       (field_layout, s) \<leftarrow> compute (snd field) active s;
       if \<not> lay_valid field_layout then Some (None, s)
       else let field_alignment = (if is_packed then 1 else lay_alignment field_layout);
                start = AlignTo sz field_alignment in
         struct_fields compute is_packed active rest (start + lay_size field_layout)
           (max alignment field_alignment) (offsets @ [start]) s }"

definition ComputeStructLayout ::
  "layout_fun \<Rightarrow> TypeDeclSummary \<Rightarrow> Type \<Rightarrow> SourceSpan \<Rightarrow> string set \<Rightarrow> LayoutState \<Rightarrow> (LayoutInfo \<times> LayoutState) option"
where
  "ComputeStructLayout compute d t span active_types s =
     (if td_type_params d = [] \<and> lay_valid (td_layout d) then Some (td_layout d, s)
      else do {
        active_key \<leftarrow> FormatType t;
        if active_key \<in> active_types then Some (cycle_report span active_key s)
        else do {
          (r, s) \<leftarrow> struct_fields compute (td_is_packed d) (insert active_key active_types)
            (InstantiateTypeDeclFields d t) 0 (if td_is_packed d then 1 else 0) [] s;
          case r of
            None \<Rightarrow> Some (no_layout, s)
          | Some (sz, alignment, offsets) \<Rightarrow>
              Some (finish_layout d ((layout_of (AlignTo sz alignment) alignment)\<lparr>lay_field_offsets := offsets\<rparr>) s) } })"

section \<open>Types\<close>

definition array_layout :: "SourceSpan \<Rightarrow> string \<Rightarrow> LayoutInfo \<Rightarrow> LayoutState \<Rightarrow> LayoutInfo \<times> LayoutState" where
  "array_layout span metadata element_layout s =
     (if \<not> lay_valid element_layout then (no_layout, s)
      else case ParseArrayLength metadata of
          None \<Rightarrow> (no_layout,
            Report_layout span (''array layout requires an integer constant length, got '' @ metadata) s)
        | Some len \<Rightarrow> (layout_of (lay_size element_layout * len) (lay_alignment element_layout), s))"

definition named_layout ::
  "layout_fun \<Rightarrow> Type \<Rightarrow> SourceSpan \<Rightarrow> string set \<Rightarrow> LayoutState \<Rightarrow> (LayoutInfo \<times> LayoutState) option" where
  "named_layout compute t span active_types s =
     (case builtin_layout (ty_name t) of
        Some l \<Rightarrow> Some (l, s)
      | None \<Rightarrow> (case FindTypeDecl (ly_module s) (ty_name t) of
          None \<Rightarrow> do {
            txt \<leftarrow> FormatType t;
            Some (no_layout, Report_layout span (''layout is not available for type '' @ txt) s) }
        | Some d \<Rightarrow>
            if td_kind d = D_kDistinct \<or> td_kind d = D_kTypeAlias
            then compute (InstantiateTypeDeclAliasedType d t) active_types s
            else if td_kind d = D_kEnum then ComputeEnumLayout compute d t span active_types s
            else if td_kind d \<noteq> D_kStruct
            then Some (no_layout,
              Report_layout span (''layout is not available for type '' @ td_name d @ '' in bootstrap sema'') s)
            else ComputeStructLayout compute d t span active_types s))"

fun Compute :: "nat \<Rightarrow> SourceSpan \<Rightarrow> layout_fun" where
  "Compute 0 span t active_types s = None"
| "Compute (Suc n) span t active_types s =
     (case ty_kind t of
        Ty_kBool \<Rightarrow> Some (layout_of 1 1, s)
      | Ty_kString \<Rightarrow> Some (layout_of 16 8, s)
      | Ty_kPointer \<Rightarrow> Some (layout_of 8 8, s)
      | Ty_kProcedure \<Rightarrow> Some (layout_of 8 8, s)
      | Ty_kConst \<Rightarrow> (case ty_subtypes t of
            [] \<Rightarrow> Some (no_layout, s)
          | x # _ \<Rightarrow> Compute n span x active_types s)
      | Ty_kArray \<Rightarrow> (case ty_subtypes t of
            [] \<Rightarrow> Some (no_layout, s)
          | x # _ \<Rightarrow> do {
              (element_layout, s) \<leftarrow> Compute n span x active_types s;
              Some (array_layout span (ty_metadata t) element_layout s) })
      | Ty_kNamed \<Rightarrow> named_layout (Compute n span) t span active_types s
      | _ \<Rightarrow> Some (no_layout, s))"

definition ComputeTypeLayout :: "nat \<Rightarrow> Type \<Rightarrow> SourceSpan \<Rightarrow> LayoutState \<Rightarrow> (LayoutInfo \<times> LayoutState) option" where
  "ComputeTypeLayout n t span s = Compute n span t {} s"

fun layouts_loop :: "nat \<Rightarrow> SourceSpan \<Rightarrow> nat list \<Rightarrow> LayoutState \<Rightarrow> LayoutState option" where
  "layouts_loop n span [] s = Some s"
| "layouts_loop n span (i # is) s =
     (let d = mod_type_decls (ly_module s) ! i in
      if td_kind d \<noteq> D_kStruct \<and> td_kind d \<noteq> D_kEnum then layouts_loop n span is s
      else if td_type_params d \<noteq> [] \<or> lay_valid (td_layout d) then layouts_loop n span is s
      else do {
        (_, s) \<leftarrow> Compute n span (NamedType (td_name d)) {} s;
        layouts_loop n span is s })"

definition ComputeTypeLayouts :: "nat \<Rightarrow> SourceSpan \<Rightarrow> LayoutState \<Rightarrow> LayoutState option" where
  "ComputeTypeLayouts n span s = layouts_loop n span [0..<length (mod_type_decls (ly_module s))] s"

end
