(* ===== verification/MC_LayoutSpec.thy ===== *)
theory MC_LayoutSpec
  imports MC_Layout MC_TypeSpec
begin

text \<open>
  What the layouts of \<open>MC_Layout\<close> guarantee: alignments are small powers of two that divide the sizes,
  whatever overflows; the fields of a structure are aligned, do not overlap and lie inside it, as long
  as the sum fits 64 bits. And where the recursion does not end.
\<close>

section \<open>Alignment\<close>

definition good_alignment :: "size64 \<Rightarrow> bool" where
  "good_alignment a \<longleftrightarrow> a \<in> {0, 1, 2, 4, 8}"

definition layout_wf :: "LayoutInfo \<Rightarrow> bool" where
  "layout_wf l \<longleftrightarrow>
     (lay_valid l \<longrightarrow> good_alignment (lay_alignment l) \<and> unat (lay_alignment l) dvd unat (lay_size l))"

lemma good_alignment_cases:
  "good_alignment a \<Longrightarrow> (a = 0 \<Longrightarrow> P) \<Longrightarrow> (a = 1 \<Longrightarrow> P) \<Longrightarrow> (a = 2 \<Longrightarrow> P) \<Longrightarrow> (a = 4 \<Longrightarrow> P) \<Longrightarrow> (a = 8 \<Longrightarrow> P) \<Longrightarrow> P"
  by (auto simp: good_alignment_def)

lemma good_alignment_max [intro]: "good_alignment a \<Longrightarrow> good_alignment b \<Longrightarrow> good_alignment (max a b)"
  by (auto simp: max_def)

lemma good_alignment_le: "good_alignment a \<Longrightarrow> unat a \<le> 8"
  by (erule good_alignment_cases) auto

text \<open>The powers of two below it divide \<open>2 ^ 64\<close>, so wrapping keeps multiples.\<close>

lemma good_alignment_dvd: "good_alignment a \<Longrightarrow> a \<noteq> 0 \<Longrightarrow> unat a dvd 2 ^ 64"
  by (erule good_alignment_cases) (auto simp: dvd_def)

lemma unat_AlignTo:
  assumes "a \<noteq> 0"
  shows "unat (AlignTo v a) = ((unat v + unat a - 1) div unat a * unat a) mod 2 ^ 64"
proof -
  let ?v = "unat v" and ?a = "unat a"
  have a: "0 < ?a" using assms by (simp add: unat_gt_0)
  have r: "unat (v mod a) = ?v mod ?a" by (simp add: unat_mod)
  have up: "(?v + ?a - 1) div ?a * ?a = (if ?v mod ?a = 0 then ?v else ?v + (?a - ?v mod ?a))"
  proof (cases "?v mod ?a = 0")
    case True
    then obtain q where v: "?v = q * ?a" by (auto simp: mod_eq_0_iff_dvd dvd_def mult.commute)
    have "q * ?a + ?a - 1 = (?a - 1) + q * ?a" using a by simp
    then have "(q * ?a + ?a - 1) div ?a = q" using a by (simp only: div_mult_self1) simp
    then show ?thesis using v by simp
  next
    case False
    define q where "q = ?v div ?a"
    define m where "m = ?v mod ?a"
    have v: "?v = q * ?a + m" "0 < m" "m < ?a" using False a by (auto simp: q_def m_def)
    have "(?v + ?a - 1) div ?a = q + 1"
      by (rule div_nat_eqI) (use v in \<open>simp_all add: algebra_simps\<close>)
    then show ?thesis using v False by (simp add: m_def [symmetric] algebra_simps)
  qed
  have sub: "unat (a - v mod a) = ?a - ?v mod ?a"
    using a by (subst unat_sub) (auto simp: r word_le_nat_alt unat_mod less_imp_le)
  have "?v mod 2 ^ 64 = ?v" using unsigned_less [of v, where ?'a = nat] by simp
  then show ?thesis
    unfolding up AlignTo_def Let_def
    using assms a r sub by (auto simp: unat_word_ariths unat_eq_zero word_arith_nat_mod unat_0_iff)
qed

lemma AlignTo_dvd:
  assumes "good_alignment a" "a = 0 \<longrightarrow> v = 0"
  shows "unat a dvd unat (AlignTo v a)"
proof (cases "a = 0")
  case False
  then show ?thesis
    unfolding unat_AlignTo [OF False] using good_alignment_dvd [OF assms(1) False]
    by (simp add: dvd_mod)
qed (use assms in \<open>simp add: AlignTo_def\<close>)

text \<open>Without wrapping it is the next multiple.\<close>

lemma AlignTo_exact:
  assumes "good_alignment a" "unat v + 8 < 2 ^ 64"
  shows "unat v \<le> unat (AlignTo v a)" "unat (AlignTo v a) < unat v + max 1 (unat a)"
    "a = 0 \<or> unat a dvd unat (AlignTo v a)"
proof -
  show "a = 0 \<or> unat a dvd unat (AlignTo v a)"
    using AlignTo_dvd [OF assms(1), of v] by blast
  have "unat v \<le> unat (AlignTo v a) \<and> unat (AlignTo v a) < unat v + max 1 (unat a)"
  proof (cases "a = 0")
    case False
    then have a: "0 < unat a" by (simp add: unat_gt_0)
    let ?q = "(unat v + unat a - 1) div unat a"
    have "?q * unat a \<le> unat v + unat a - 1" by (rule div_times_less_eq_dividend)
    moreover from this have "?q * unat a < 2 ^ 64" using assms(2) good_alignment_le [OF assms(1)] a by linarith
    moreover have "unat v + unat a - 1 < ?q * unat a + unat a"
      using dividend_less_div_times [OF a, of "unat v + unat a - 1"] by simp
    moreover from calculation have "unat (AlignTo v a) = ?q * unat a"
      unfolding unat_AlignTo [OF False] by simp
    ultimately show ?thesis using a by linarith
  qed (simp add: AlignTo_def)
  then show "unat v \<le> unat (AlignTo v a)" "unat (AlignTo v a) < unat v + max 1 (unat a)" by auto
qed

section \<open>The invariant\<close>

definition same_decls :: "LayoutState \<Rightarrow> LayoutState \<Rightarrow> bool" where
  \<comment> \<open>Only layouts were stored.\<close>
  "same_decls s s' \<longleftrightarrow>
     map (td_layout_update (\<lambda>_. no_layout)) (mod_type_decls (ly_module s')) =
     map (td_layout_update (\<lambda>_. no_layout)) (mod_type_decls (ly_module s)) \<and>
     (ly_module s')\<lparr>mod_type_decls := []\<rparr> = (ly_module s)\<lparr>mod_type_decls := []\<rparr>"

definition layouts_wf :: "LayoutState \<Rightarrow> bool" where
  "layouts_wf s \<longleftrightarrow> (\<forall>d \<in> set (mod_type_decls (ly_module s)). layout_wf (td_layout d))"

definition layout_step :: "LayoutState \<Rightarrow> LayoutState \<Rightarrow> bool" where
  "layout_step s s' \<longleftrightarrow> layouts_wf s' \<and> same_decls s s' \<and> (\<exists>rs. ly_reports s' = ly_reports s @ rs)"

lemma layout_step_refl: "layouts_wf s \<Longrightarrow> layout_step s s"
  by (simp add: layout_step_def same_decls_def)

lemma layout_step_trans: "layout_step s t \<Longrightarrow> layout_step t u \<Longrightarrow> layout_step s u"
  by (auto simp: layout_step_def same_decls_def)

lemma layout_step_wf: "layout_step s t \<Longrightarrow> layouts_wf t"
  by (simp add: layout_step_def)

lemma layout_step_Report: "layout_step s t \<Longrightarrow> layout_step s (Report_layout sp msg t)"
  by (auto simp: layout_step_def layouts_wf_def same_decls_def Report_layout_def)

lemma set_update_first: "set (update_first P f xs) \<subseteq> set xs \<union> f ` set xs"
  by (induction xs) auto

lemma map_update_first: "(\<And>x. g (f x) = g x) \<Longrightarrow> map g (update_first P f xs) = map g xs"
  by (induction xs) auto

lemma layout_step_store:
  assumes "layout_step s t" "layout_wf l"
  shows "layout_step s (store_layout n l t)"
proof -
  have "layouts_wf (store_layout n l t)"
    using assms set_update_first [of "\<lambda>d. td_name d = n" "td_layout_update (\<lambda>_. l)" "mod_type_decls (ly_module t)"]
    by (auto simp: layout_step_def layouts_wf_def store_layout_def dest!: subsetD)
  moreover have "same_decls s (store_layout n l t)"
    using assms(1) by (simp add: layout_step_def same_decls_def store_layout_def map_update_first comp_def)
  ultimately show ?thesis using assms(1) by (simp add: layout_step_def store_layout_def)
qed

lemma layout_step_finish:
  "layout_step s t \<Longrightarrow> layout_wf l \<Longrightarrow> finish_layout d l t = (l', u) \<Longrightarrow> l' = l \<and> layout_step s u"
  by (auto simp: finish_layout_def intro: layout_step_store)

lemma no_layout_wf [simp]: "layout_wf no_layout"
  by (simp add: layout_wf_def no_layout_def)

lemma no_layout_invalid [simp]: "lay_valid no_layout \<longleftrightarrow> False"
  by (simp add: no_layout_def)

lemma Find_layout_wf: "FindTypeDecl (ly_module s) n = Some d \<Longrightarrow> layouts_wf s \<Longrightarrow> layout_wf (td_layout d)"
  by (auto simp: FindTypeDecl_def layouts_wf_def find_Some_iff)

lemma layout_of_wf: "good_alignment a \<Longrightarrow> unat a dvd unat n \<Longrightarrow> layout_wf (layout_of n a)"
  by (simp add: layout_of_def layout_wf_def)

lemma builtin_layout_wf: "builtin_layout n = Some l \<Longrightarrow> layout_wf l"
proof -
  assume "builtin_layout n = Some l"
  then have "l \<in> {layout_of 1 1, layout_of 2 2, layout_of 4 4, layout_of 8 8, layout_of 16 8, layout_of 32 8}"
    unfolding builtin_layout_def by (metis insertI1 insertI2 option.inject option.distinct(1))
  then show ?thesis by (auto simp: layout_of_def layout_wf_def good_alignment_def)
qed

lemma array_wf:
  assumes "layout_wf el" "layout_step s t" "array_layout sp md el t = (l, u)"
  shows "layout_wf l \<and> layout_step s u"
proof -
  have "layout_wf (layout_of (lay_size el * len) (lay_alignment el))" if "lay_valid el" for len
  proof (cases "lay_alignment el = 0")
    case True
    then have "lay_size el = 0" using assms(1) that by (simp add: layout_wf_def unat_eq_zero)
    with True show ?thesis by (simp add: layout_of_def layout_wf_def good_alignment_def)
  next
    case False
    with assms(1) that have "unat (lay_alignment el) dvd unat (lay_size el * len)"
      using good_alignment_dvd by (simp add: layout_wf_def unat_word_ariths dvd_mod)
    with assms(1) that show ?thesis by (simp add: layout_of_def layout_wf_def)
  qed
  with assms show ?thesis
    by (auto simp: array_layout_def split: if_splits option.splits intro: layout_step_Report)
qed

section \<open>Placing fields\<close>

abbreviation field_align :: "bool \<Rightarrow> LayoutInfo \<Rightarrow> size64" where
  "field_align packed l \<equiv> if packed then 1 else lay_alignment l"

fun place :: "bool \<Rightarrow> size64 \<times> size64 \<times> size64 list \<Rightarrow> LayoutInfo list \<Rightarrow> size64 \<times> size64 \<times> size64 list" where
  \<comment> \<open>The loop over the fields when their layouts are known.\<close>
  "place packed r [] = r"
| "place packed (sz, al, offs) (l # ls) =
     (let start = AlignTo sz (field_align packed l) in
      place packed (start + lay_size l, max al (field_align packed l), offs @ [start]) ls)"

fun fields_placed :: "bool \<Rightarrow> nat \<Rightarrow> size64 list \<Rightarrow> LayoutInfo list \<Rightarrow> nat \<Rightarrow> bool" where
  \<comment> \<open>From \<open>pos\<close> to \<open>fin\<close> the fields lie one behind the other, each at the next multiple of its alignment.\<close>
  "fields_placed packed pos [] [] fin \<longleftrightarrow> pos = fin"
| "fields_placed packed pos (off # offs) (l # ls) fin \<longleftrightarrow>
     pos \<le> unat off \<and> unat off < pos + max 1 (unat (field_align packed l)) \<and>
     (field_align packed l = 0 \<or> unat (field_align packed l) dvd unat off) \<and>
     fields_placed packed (unat off + unat (lay_size l)) offs ls fin"
| "fields_placed packed pos offs ls fin \<longleftrightarrow> False"

lemma field_align_good: "lay_valid l \<Longrightarrow> layout_wf l \<Longrightarrow> good_alignment (field_align packed l)"
  by (auto simp: layout_wf_def good_alignment_def)

lemma place_wf:
  assumes "place packed (sz, al, offs) ls = (sz', al', offs')" "good_alignment al" "al = 0 \<longrightarrow> sz = 0"
    and "\<forall>l \<in> set ls. lay_valid l \<and> layout_wf l"
  shows "good_alignment al' \<and> (al' = 0 \<longrightarrow> sz' = 0)"
  using assms
proof (induction ls arbitrary: sz al offs)
  case (Cons l ls)
  let ?a = "field_align packed l"
  have good: "good_alignment (max al ?a)"
    using Cons.prems(2,4) by (intro good_alignment_max field_align_good) auto
  moreover have "max al ?a = 0 \<longrightarrow> AlignTo sz ?a + lay_size l = 0"
  proof
    assume "max al ?a = 0"
    then have "al = 0" "?a = 0" by (auto simp: max_def split: if_splits)
    moreover from this have "lay_size l = 0" using Cons.prems(4) by (auto simp: layout_wf_def unat_eq_zero split: if_splits)
    ultimately show "AlignTo sz ?a + lay_size l = 0" using Cons.prems(3) by (simp add: AlignTo_def)
  qed
  ultimately show ?case
    using Cons.IH [OF _ good, of "AlignTo sz ?a + lay_size l" "offs @ [AlignTo sz ?a]"] Cons.prems(1,4)
    by (simp add: Let_def)
qed simp

lemma place_exact:
  assumes "place packed (sz, al, offs) ls = (sz', al', offs')"
    and "\<forall>l \<in> set ls. lay_valid l \<and> layout_wf l"
    and "unat sz + sum_list (map (\<lambda>l. unat (lay_size l) + 8) ls) + 8 < 2 ^ 64"
  shows "\<exists>os. offs' = offs @ os \<and> fields_placed packed (unat sz) os ls (unat sz') \<and> unat sz' + 8 < 2 ^ 64"
  using assms
proof (induction ls arbitrary: sz al offs)
  case (Cons l ls)
  let ?a = "field_align packed l" and ?start = "AlignTo sz (field_align packed l)"
  have good: "good_alignment ?a" using Cons.prems(2) by (intro field_align_good) auto
  have "unat sz + 8 < 2 ^ 64" using Cons.prems(3) by simp
  note start = AlignTo_exact [OF good this]
  have pad: "unat ?start \<le> unat sz + 7"
    using start(2) good_alignment_le [OF good] by linarith
  then have le: "unat ?start + unat (lay_size l) \<le> unat sz + 8 + unat (lay_size l)" by simp
  then have sum: "unat (?start + lay_size l) = unat ?start + unat (lay_size l)"
    using Cons.prems(3) by (simp add: unat_word_ariths)
  have "unat (?start + lay_size l) + sum_list (map (\<lambda>l. unat (lay_size l) + 8) ls) + 8 < 2 ^ 64"
    using Cons.prems(3) le unfolding sum by simp
  then obtain os where os: "offs' = (offs @ [?start]) @ os"
    "fields_placed packed (unat (?start + lay_size l)) os ls (unat sz')" "unat sz' + 8 < 2 ^ 64"
    using Cons.IH [of "?start + lay_size l" "max al ?a" "offs @ [?start]"] Cons.prems(1,2) by (auto simp: Let_def)
  then show ?case
    using start by (intro exI [of _ "?start # os"]) (simp add: sum)
qed simp

section \<open>The contract of the recursion\<close>

definition laid_out :: "layout_fun \<Rightarrow> string set \<Rightarrow> string \<times> Type \<Rightarrow> LayoutInfo \<Rightarrow> bool" where
  \<comment> \<open>The layout of a field, as the recursion computed it in some state.\<close>
  "laid_out compute active f l \<longleftrightarrow>
     lay_valid l \<and> layout_wf l \<and> (\<exists>s0 s1. compute (snd f) active s0 = Some (l, s1))"

lemma list_all2_laid_out: "list_all2 (laid_out compute active) fs ls \<Longrightarrow> \<forall>l \<in> set ls. lay_valid l \<and> layout_wf l"
  by (auto simp: laid_out_def list_all2_conv_all_nth in_set_conv_nth)

locale layout_context =
  fixes compute :: layout_fun
  assumes step: "compute t active s = Some (l, s') \<Longrightarrow> layouts_wf s \<Longrightarrow> layout_wf l \<and> layout_step s s'"
begin

lemma variant_fields_step:
  assumes "variant_fields compute d t active fs sz al s = Some (r, s')" "layouts_wf s" "good_alignment al"
  shows "layout_step s s' \<and> (\<forall>sz' al'. r = Some (sz', al') \<longrightarrow> good_alignment al')"
  using assms
proof (induction fs arbitrary: sz al s)
  case (Cons f fs)
  let ?t = "if td_type_params d \<noteq> [] then SubstituteTypeParams (td_type_params d) (ty_subtypes t) (snd f) else snd f"
  obtain l s1 where c: "compute ?t active s = Some (l, s1)"
    using Cons.prems(1) by (auto simp: Let_def bind_eq_Some_conv)
  note st = step [OF c Cons.prems(2)]
  show ?case
  proof (cases "lay_valid l")
    case True
    then have "good_alignment (max al (lay_alignment l))"
      using st Cons.prems(3) by (intro good_alignment_max) (simp_all add: layout_wf_def)
    then show ?thesis
      using Cons.IH [of _ _ s1] Cons.prems(1) c True st layout_step_wf [of s s1]
      by (auto simp: Let_def intro: layout_step_trans)
  next
    case False
    then show ?thesis using Cons.prems(1) c st by (simp add: Let_def)
  qed
qed (auto simp: layout_step_refl)

lemma enum_variants_step:
  assumes "enum_variants compute d t active vs sz al s = Some (r, s')" "layouts_wf s" "good_alignment al"
  shows "layout_step s s' \<and> (\<forall>sz' al'. r = Some (sz', al') \<longrightarrow> good_alignment al')"
  using assms
proof (induction vs arbitrary: sz al s)
  case (Cons v vs)
  obtain q s1 where c: "variant_fields compute d t active (vs_payload_fields v) 0 1 s = Some (q, s1)"
    using Cons.prems(1) by (auto simp: bind_eq_Some_conv)
  have st: "layout_step s s1 \<and> (\<forall>sz' al'. q = Some (sz', al') \<longrightarrow> good_alignment al')"
    using variant_fields_step [OF c Cons.prems(2)] by (simp add: good_alignment_def)
  show ?case
  proof (cases q)
    case None
    then show ?thesis using Cons.prems(1) c st by auto
  next
    case (Some p)
    then obtain vsz val where p: "q = Some (vsz, val)" by (cases p) auto
    then have "enum_variants compute d t active vs (max sz vsz) (max al val) s1 = Some (r, s')"
      using Cons.prems(1) c by simp
    moreover have "layouts_wf s1" "good_alignment (max al val)"
      using st p Cons.prems(3) by (auto intro: layout_step_wf)
    ultimately have "layout_step s1 s' \<and> (\<forall>sz' al'. r = Some (sz', al') \<longrightarrow> good_alignment al')"
      by (rule Cons.IH)
    then show ?thesis using st by (blast intro: layout_step_trans)
  qed
qed (auto simp: layout_step_refl)

lemma ComputeEnumLayout_step:
  assumes "ComputeEnumLayout compute d t span active s = Some (l, s')" "layouts_wf s" "layout_wf (td_layout d)"
  shows "layout_wf l \<and> layout_step s s'"
proof (cases "td_type_params d = [] \<and> lay_valid (td_layout d)")
  case True
  then show ?thesis using assms by (simp add: ComputeEnumLayout_def layout_step_refl)
next
  case False
  then obtain key where key: "FormatType t = Some key"
    using assms(1) by (auto simp: ComputeEnumLayout_def bind_eq_Some_conv)
  show ?thesis
  proof (cases "key \<in> active")
    case True
    then show ?thesis
      using assms False key by (auto simp: ComputeEnumLayout_def cycle_report_def layout_step_refl intro!: layout_step_Report)
  next
    case not_active: False
    obtain r s1 where r: "enum_variants compute d t (insert key active) (td_variants d) 0 1 s = Some (r, s1)"
      using assms(1) False key not_active by (auto simp: ComputeEnumLayout_def bind_eq_Some_conv)
    have st: "layout_step s s1 \<and> (\<forall>sz' al'. r = Some (sz', al') \<longrightarrow> good_alignment al')"
      using enum_variants_step [OF r assms(2)] by (simp add: good_alignment_def)
    show ?thesis
    proof (cases r)
      case None
      then show ?thesis using assms(1) False key not_active r st by (simp add: ComputeEnumLayout_def)
    next
      case (Some p)
      then obtain sz al where p: "r = Some (sz, al)" by (cases p) auto
      have good: "good_alignment (max 8 al)"
        using st p by (intro good_alignment_max) (auto simp: good_alignment_def)
      have "max 8 al \<noteq> 0" by (auto simp: max_def)
      then have "layout_wf (layout_of (AlignTo (8 + sz) (max 8 al)) (max 8 al))"
        using good AlignTo_dvd [OF good, of "8 + sz"] by (intro layout_of_wf) auto
      then show ?thesis
        using assms(1) False key not_active r st p
          layout_step_finish [of s s1 "layout_of (AlignTo (8 + sz) (max 8 al)) (max 8 al)" d l s']
        by (auto simp: ComputeEnumLayout_def Let_def)
    qed
  qed
qed

lemma struct_fields_step:
  assumes "struct_fields compute packed active fs sz al offs s = Some (r, s')" "layouts_wf s"
  shows "layout_step s s' \<and> (\<forall>q. r = Some q \<longrightarrow>
    (\<exists>ls. list_all2 (laid_out compute active) fs ls \<and>
       q = place packed (sz, al, offs) ls))"
  using assms
proof (induction fs arbitrary: sz al offs s)
  case (Cons f fs)
  obtain l s1 where c: "compute (snd f) active s = Some (l, s1)"
    using Cons.prems(1) by (auto simp: bind_eq_Some_conv)
  note st = step [OF c Cons.prems(2)]
  show ?case
  proof (cases "lay_valid l")
    case True
    let ?a = "field_align packed l"
    have "struct_fields compute packed active fs (AlignTo sz ?a + lay_size l) (max al ?a) (offs @ [AlignTo sz ?a]) s1 = Some (r, s')"
      using Cons.prems(1) c True by (simp add: Let_def)
    from Cons.IH [OF this layout_step_wf] st
    have IH: "layout_step s1 s'" "\<And>q. r = Some q \<Longrightarrow>
        \<exists>ls. list_all2 (laid_out compute active) fs ls \<and>
          q = place packed (AlignTo sz ?a + lay_size l, max al ?a, offs @ [AlignTo sz ?a]) ls"
      by blast+
    show ?thesis
    proof (intro conjI allI impI)
      show "layout_step s s'" using st IH(1) by (blast intro: layout_step_trans)
      fix q assume "r = Some q"
      then obtain ls where ls: "list_all2 (laid_out compute active) fs ls"
        "q = place packed (AlignTo sz ?a + lay_size l, max al ?a, offs @ [AlignTo sz ?a]) ls"
        using IH(2) by blast
      have "laid_out compute active f l"
        using True st c by (auto simp: laid_out_def)
      with ls show "\<exists>ls. list_all2 (laid_out compute active) (f # fs) ls \<and>
          q = place packed (sz, al, offs) ls"
        by (intro exI [of _ "l # ls"]) (simp add: Let_def)
    qed
  next
    case False
    then show ?thesis using Cons.prems(1) c st by simp
  qed
qed (auto simp: layout_step_refl)

text \<open>A structure whose layout is not cached.\<close>

lemma ComputeStructLayout_step:
  assumes "ComputeStructLayout compute d t span active s = Some (l, s')" "layouts_wf s" "layout_wf (td_layout d)"
  shows "layout_wf l \<and> layout_step s s' \<and>
    (lay_valid l \<longrightarrow> \<not> (td_type_params d = [] \<and> lay_valid (td_layout d)) \<longrightarrow>
      (\<exists>ls key sz. FormatType t = Some key \<and>
        list_all2 (laid_out compute (insert key active))
          (InstantiateTypeDeclFields d t) ls \<and>
        place (td_is_packed d) (0, if td_is_packed d then 1 else 0, []) ls = (sz, lay_alignment l, lay_field_offsets l) \<and>
        lay_size l = AlignTo sz (lay_alignment l)))"
proof (cases "td_type_params d = [] \<and> lay_valid (td_layout d)")
  case True
  then show ?thesis using assms by (simp add: ComputeStructLayout_def layout_step_refl)
next
  case False
  then obtain key where key: "FormatType t = Some key"
    using assms(1) by (auto simp: ComputeStructLayout_def bind_eq_Some_conv)
  show ?thesis
  proof (cases "key \<in> active")
    case True
    then show ?thesis
      using assms False key
      by (auto simp: ComputeStructLayout_def cycle_report_def no_layout_def layout_step_refl layout_wf_def intro!: layout_step_Report)
  next
    case not_active: False
    let ?packed = "td_is_packed d" and ?al = "if td_is_packed d then 1 else 0 :: size64"
    obtain r s1 where r: "struct_fields compute ?packed (insert key active) (InstantiateTypeDeclFields d t) 0 ?al [] s = Some (r, s1)"
      using assms(1) False key not_active by (auto simp: ComputeStructLayout_def bind_eq_Some_conv)
    note st = struct_fields_step [OF r assms(2)]
    show ?thesis
    proof (cases r)
      case None
      then have "l = no_layout \<and> s' = s1"
        using assms(1) False key not_active r by (auto simp: ComputeStructLayout_def)
      then show ?thesis using st by simp
    next
      case (Some p)
      then obtain sz al offs where p: "r = Some (sz, al, offs)" by (cases p) auto
      obtain ls where ls: "list_all2 (laid_out compute (insert key active))
          (InstantiateTypeDeclFields d t) ls" "place ?packed (0, ?al, []) ls = (sz, al, offs)"
        using conjunct2 [OF st, rule_format, OF p] by auto
      from place_wf [OF ls(2) _ _ list_all2_laid_out [OF ls(1)]] have al: "good_alignment al" "al = 0 \<longrightarrow> sz = 0"
        by (auto simp: good_alignment_def)
      let ?l = "(layout_of (AlignTo sz al) al)\<lparr>lay_field_offsets := offs\<rparr>"
      have wf: "layout_wf ?l"
        using AlignTo_dvd [OF al] al by (simp add: layout_wf_def layout_of_def)
      have fin: "finish_layout d ?l s1 = (l, s')"
        using assms(1) False key not_active r p by (auto simp: ComputeStructLayout_def)
      have "l = ?l \<and> layout_step s s'"
        using layout_step_finish [OF _ wf fin] st by blast
      then show ?thesis
        using wf ls key by (auto simp: layout_of_def)
    qed
  qed
qed

lemma named_layout_step:
  assumes "named_layout compute t span active s = Some (l, s')" "layouts_wf s"
  shows "layout_wf l \<and> layout_step s s'"
proof (cases "builtin_layout (ty_name t)")
  case (Some b)
  then show ?thesis
    using assms by (auto simp: named_layout_def layout_step_refl dest: builtin_layout_wf)
next
  case None
  show ?thesis
  proof (cases "FindTypeDecl (ly_module s) (ty_name t)")
    case None
    with \<open>builtin_layout (ty_name t) = None\<close> show ?thesis
      using assms by (auto simp: named_layout_def bind_eq_Some_conv layout_step_refl intro: layout_step_Report)
  next
    case (Some d)
    note wf = Find_layout_wf [OF Some assms(2)]
    show ?thesis
      using assms None Some step [of _ active s l s'] ComputeEnumLayout_step [OF _ assms(2) wf, of t span active l s']
        ComputeStructLayout_step [OF _ assms(2) wf, of t span active l s']
      by (auto simp: named_layout_def layout_step_refl layout_step_Report split: if_splits)
  qed
qed

end

lemma layout_context_fuel: "layout_context (Compute n span)"
proof (induction n)
  case 0
  show ?case by unfold_locales simp
next
  case (Suc n)
  note IH = layout_context.step [OF Suc.IH]
  show ?case
  proof
    fix t active s l s'
    assume c: "Compute (Suc n) span t active s = Some (l, s')" and wf: "layouts_wf s"
    note simple = layout_of_wf [of _ _] layout_step_refl [OF wf]
    show "layout_wf l \<and> layout_step s s'"
    proof (cases "ty_kind t = Ty_kNamed")
      case True
      then show ?thesis using c layout_context.named_layout_step [OF Suc.IH _ wf] by simp
    next
      case False
      have good: "layout_wf (layout_of 1 1)" "layout_wf (layout_of 16 8)" "layout_wf (layout_of 8 8)"
        by (auto simp: layout_of_def layout_wf_def good_alignment_def)
      have arr: "layout_wf l \<and> layout_step s s'"
        if "Compute n span x active s \<bind> (\<lambda>(el, s). Some (array_layout span (ty_metadata t) el s)) = Some (l, s')" for x
      proof -
        from that obtain el s1 where "Compute n span x active s = Some (el, s1)" "array_layout span (ty_metadata t) el s1 = (l, s')"
          by (auto simp: bind_eq_Some_conv)
        then show ?thesis using IH [OF _ wf] array_wf by blast
      qed
      show ?thesis
        using c False good simple(2) IH [OF _ wf] arr by (cases "ty_kind t") (auto split: list.splits)
    qed
  qed
qed

interpretation layout: layout_context "Compute n span" for n span
  by (rule layout_context_fuel)

section \<open>Cycles of aliases\<close>

definition alias_to :: "LayoutState \<Rightarrow> string \<Rightarrow> string \<Rightarrow> bool" where
  "alias_to s a b \<longleftrightarrow> builtin_layout a = None \<and>
     (case FindTypeDecl (ly_module s) a of
        None \<Rightarrow> False
      | Some d \<Rightarrow> (td_kind d = D_kDistinct \<or> td_kind d = D_kTypeAlias) \<and> td_type_params d = [] \<and>
          td_aliased_type d = NamedType b)"

text \<open>Aliases that only name each other are followed for ever.\<close>

lemma alias_cycle_stuck:
  assumes "\<forall>a \<in> A. \<exists>b \<in> A. alias_to s a b" "x \<in> A"
  shows "Compute n span (NamedType x) active s = None"
  using assms(2)
proof (induction n arbitrary: x)
  case (Suc n)
  obtain b where "b \<in> A" "alias_to s x b" using assms(1) Suc.prems by blast
  then show ?case
    using Suc.IH [of b]
    by (auto simp: alias_to_def NamedType_def named_layout_def InstantiateTypeDeclAliasedType_def split: option.splits)
qed simp

lemma alias_cycle_layouts:
  assumes "\<forall>a \<in> A. \<exists>b \<in> A. alias_to s a b" "x \<in> A"
    and d: "mod_type_decls (ly_module s) = d # ds" "td_kind d = D_kStruct" "td_type_params d = []"
      "\<not> lay_valid (td_layout d)" "builtin_layout (td_name d) = None" "td_fields d = (f, NamedType x) # fs"
  shows "ComputeTypeLayouts n span s = None"
proof -
  have "Compute n span (NamedType (td_name d)) {} s = None"
  proof (cases n)
    case (Suc k)
    have "struct_fields (Compute k span) p act (td_fields d) sz al offs s = None" for p act sz al offs
      using alias_cycle_stuck [OF assms(1,2)] d by simp
    moreover obtain key where "FormatType (NamedType (td_name d)) = Some key"
      using FormatType_total [of "NamedType (td_name d)"] by auto
    ultimately show ?thesis
      using d Suc by (simp add: NamedType_def named_layout_def FindTypeDecl_def ComputeStructLayout_def InstantiateTypeDeclFields_def)
  qed simp
  then show ?thesis
    using d by (simp add: ComputeTypeLayouts_def upt_conv_Cons del: upt_Suc)
qed

end
