(* ===== verification/MC_Resolver.thy ===== *)
theory MC_Resolver
  imports MC_ConstEval MC_TypeUtils
begin

text \<open>
  \<open>compiler/sema/module_resolver.cpp\<close>: what a checked module shows to its importers, and the
  qualified names under which they see it. Rewriting a constant renders its text again, which is
  \<open>None\<close> where the rendering of a type is (see \<open>MC_Type\<close>).
\<close>

section \<open>Private declarations\<close>

definition DeclHasPrivateAttribute :: "Decl \<Rightarrow> bool" where
  "DeclHasPrivateAttribute d \<longleftrightarrow> list_ex (\<lambda>a. at_name a = ''private'') (d_attributes d)"

definition is_type_decl_kind :: "DeclKind \<Rightarrow> bool" where
  "is_type_decl_kind k \<longleftrightarrow> k = D_kStruct \<or> k = D_kEnum \<or> k = D_kDistinct \<or> k = D_kTypeAlias"

definition RecordHiddenDeclNames :: "Decl \<Rightarrow> Module \<Rightarrow> Module" where
  "RecordHiddenDeclNames d m =
     (if \<not> DeclHasPrivateAttribute d then m
      else case d_kind d of
          D_kFunc \<Rightarrow> (if d_name d \<noteq> [] then m\<lparr>mod_hidden_value_names := insert (d_name d) (mod_hidden_value_names m)\<rparr> else m)
        | D_kExternFunc \<Rightarrow> (if d_name d \<noteq> [] then m\<lparr>mod_hidden_value_names := insert (d_name d) (mod_hidden_value_names m)\<rparr> else m)
        | D_kConst \<Rightarrow> m\<lparr>mod_hidden_value_names := set (np_names (d_pattern d)) \<union> mod_hidden_value_names m\<rparr>
        | D_kVar \<Rightarrow> m\<lparr>mod_hidden_value_names := set (np_names (d_pattern d)) \<union> mod_hidden_value_names m\<rparr>
        | _ \<Rightarrow> (if d_name d \<noteq> [] then m\<lparr>mod_hidden_type_names := insert (d_name d) (mod_hidden_type_names m)\<rparr> else m))"

section \<open>Qualified names\<close>

definition ImportedModuleQualifier :: "string \<Rightarrow> string" where
  "ImportedModuleQualifier module_name = map (\<lambda>c. if c = CHR ''/'' then CHR ''_'' else c) module_name"

definition QualifyImportedName :: "string \<Rightarrow> string \<Rightarrow> string" where
  "QualifyImportedName module_name name = ImportedModuleQualifier module_name @ ''.'' @ name"

abbreviation has_dot :: "string \<Rightarrow> bool" where
  "has_dot name \<equiv> CHR ''.'' \<in> set name"

definition qualified_type_name :: "string \<Rightarrow> string set \<Rightarrow> string list \<Rightarrow> string \<Rightarrow> string" where
  \<comment> \<open>What \<open>RewriteImportedTypeNames\<close> does to the name of a named type.\<close>
  "qualified_type_name module_name local_type_names type_params name =
     (if name = [] \<or> has_dot name then name
      else if IsBuiltinNamedType name \<or> name \<in> set type_params then name
      else if name \<in> local_type_names then QualifyImportedName module_name name
      else name)"

primrec RewriteImportedTypeNames :: "string \<Rightarrow> string set \<Rightarrow> string list \<Rightarrow> Type \<Rightarrow> Type" where
  "RewriteImportedTypeNames module_name local_type_names type_params (mk_Type k name metadata subtypes) =
     (let subtypes = map (RewriteImportedTypeNames module_name local_type_names type_params) subtypes in
      mk_Type k
        (if k \<noteq> Ty_kNamed then name else qualified_type_name module_name local_type_names type_params name)
        metadata subtypes)"

primrec RewriteImportedConstValue ::
  "double_ops \<Rightarrow> string \<Rightarrow> string set \<Rightarrow> string list \<Rightarrow> ConstValue \<Rightarrow> ConstValue option" where
  "RewriteImportedConstValue fp module_name local_type_names type_params
      (mk_ConstValue kind integer_value float_value bool_value txt procedure_name enum_type
        variant_name variant_tag field_names elements) =
     do {
       es \<leftarrow> those (map (RewriteImportedConstValue fp module_name local_type_names type_params) elements);
       with_text fp (mk_ConstValue kind integer_value float_value bool_value txt
         (if kind = CK_kProcedure \<and> procedure_name \<noteq> [] \<and> \<not> has_dot procedure_name
          then QualifyImportedName module_name procedure_name else procedure_name)
         (if kind = CK_kEnum
          then RewriteImportedTypeNames module_name local_type_names type_params enum_type else enum_type)
         variant_name variant_tag field_names es) }"

definition RewriteImportedTypeDecl :: "TypeDeclSummary \<Rightarrow> string \<Rightarrow> string set \<Rightarrow> TypeDeclSummary" where
  "RewriteImportedTypeDecl d module_name local_type_names =
     (let rewrite = RewriteImportedTypeNames module_name local_type_names (td_type_params d) in
      d\<lparr>td_name := if \<not> has_dot (td_name d) then QualifyImportedName module_name (td_name d) else td_name d,
        td_fields := map (apsnd rewrite) (td_fields d),
        td_variants := map (\<lambda>v. v\<lparr>vs_payload_fields := map (apsnd rewrite) (vs_payload_fields v)\<rparr>) (td_variants d),
        td_aliased_type := rewrite (td_aliased_type d)\<rparr>)"

section \<open>Equivalent declarations\<close>

definition EquivalentLayoutInfo :: "LayoutInfo \<Rightarrow> LayoutInfo \<Rightarrow> bool" where
  "EquivalentLayoutInfo l r \<longleftrightarrow> lay_valid l = lay_valid r \<and> lay_size l = lay_size r \<and>
     lay_alignment l = lay_alignment r \<and> lay_field_offsets l = lay_field_offsets r"

abbreviation same_fields :: "(string \<times> Type) list \<Rightarrow> (string \<times> Type) list \<Rightarrow> bool" where
  "same_fields \<equiv> list_all2 (\<lambda>f g. fst f = fst g \<and> type_eq (snd f) (snd g))"

definition EquivalentVariantSummary :: "VariantSummary \<Rightarrow> VariantSummary \<Rightarrow> bool" where
  "EquivalentVariantSummary l r \<longleftrightarrow>
     vs_name l = vs_name r \<and> same_fields (vs_payload_fields l) (vs_payload_fields r)"

definition EquivalentTypeDeclSummary :: "TypeDeclSummary \<Rightarrow> TypeDeclSummary \<Rightarrow> bool" where
  "EquivalentTypeDeclSummary l r \<longleftrightarrow>
     td_kind l = td_kind r \<and> td_name l = td_name r \<and> td_type_params l = td_type_params r \<and>
     td_is_packed l = td_is_packed r \<and> td_is_abi_c l = td_is_abi_c r \<and>
     type_eq (td_aliased_type l) (td_aliased_type r) \<and> EquivalentLayoutInfo (td_layout l) (td_layout r) \<and>
     same_fields (td_fields l) (td_fields r) \<and>
     list_all2 EquivalentVariantSummary (td_variants l) (td_variants r)"

section \<open>The surface of a module\<close>

definition visible_positions :: "string set \<Rightarrow> GlobalSummary \<Rightarrow> nat list" where
  "visible_positions hidden g = filter (\<lambda>i. gs_names g ! i \<notin> hidden) [0..<length (gs_names g)]"

definition at_positions :: "'a list \<Rightarrow> nat list \<Rightarrow> 'a list" where
  \<comment> \<open>\<open>if (index < xs.size()) ys.push_back(xs[index])\<close> for each index.\<close>
  "at_positions xs is = map ((!) xs) (filter (\<lambda>i. i < length xs) is)"

definition visible_global :: "string set \<Rightarrow> GlobalSummary \<Rightarrow> GlobalSummary" where
  "visible_global hidden g =
     (let is = visible_positions hidden g in
      g\<lparr>gs_names := at_positions (gs_names g) is,
        gs_constant_values := at_positions (gs_constant_values g) is,
        gs_zero_initialized_values := at_positions (gs_zero_initialized_values g) is\<rparr>)"

definition private_type_names :: "SourceFile \<Rightarrow> string set" where
  "private_type_names f =
     set (map d_name (filter (\<lambda>d. is_type_decl_kind (d_kind d) \<and> DeclHasPrivateAttribute d \<and> d_name d \<noteq> [])
       (sf_decls f)))"

definition BuildImportVisibleModuleSurface :: "Module \<Rightarrow> SourceFile \<Rightarrow> Module" where
  "BuildImportVisibleModuleSurface m f =
     (let visible = fold RecordHiddenDeclNames (sf_decls f)
            (empty_module\<lparr>mod_kind := mod_kind m, mod_package_identity := mod_package_identity m,
               mod_imports := mod_imports m\<rparr>);
          hidden = mod_hidden_value_names visible in
      BuildModuleLookupMaps (visible\<lparr>
        mod_functions := filter (\<lambda>g. fs_name g \<notin> hidden) (mod_functions m),
        mod_globals := filter (\<lambda>g. gs_names g \<noteq> []) (map (visible_global hidden) (mod_globals m)),
        mod_type_decls := filter (\<lambda>d. td_name d \<notin> private_type_names f) (mod_type_decls m)\<rparr>))"

section \<open>The surface under the name of the module\<close>

definition rewrite_global :: "double_ops \<Rightarrow> string \<Rightarrow> string set \<Rightarrow> GlobalSummary \<Rightarrow> GlobalSummary option" where
  "rewrite_global fp module_name local_type_names g =
     do {
       vs \<leftarrow> those (map (\<lambda>v. case v of
           None \<Rightarrow> Some None
         | Some x \<Rightarrow> map_option Some (RewriteImportedConstValue fp module_name local_type_names [] x))
         (gs_constant_values g));
       Some (g\<lparr>gs_type := RewriteImportedTypeNames module_name local_type_names [] (gs_type g),
         gs_constant_values := vs\<rparr>) }"

definition rewrite_signature :: "string \<Rightarrow> string set \<Rightarrow> FunctionSignature \<Rightarrow> FunctionSignature" where
  "rewrite_signature module_name local_type_names g =
     (let rewrite = RewriteImportedTypeNames module_name local_type_names (fs_type_params g) in
      g\<lparr>fs_param_types := map rewrite (fs_param_types g), fs_return_types := map rewrite (fs_return_types g)\<rparr>)"

definition RewriteImportedModuleSurfaceTypes :: "double_ops \<Rightarrow> Module \<Rightarrow> string \<Rightarrow> Module option" where
  "RewriteImportedModuleSurfaceTypes fp m module_name =
     (let local_type_names = set (map td_name (mod_type_decls m)) in
      do {
        gs \<leftarrow> those (map (rewrite_global fp module_name local_type_names) (mod_globals m));
        Some (m\<lparr>
          mod_type_decls := map (\<lambda>d. RewriteImportedTypeDecl d module_name local_type_names) (mod_type_decls m),
          mod_globals := gs,
          mod_functions := map (rewrite_signature module_name local_type_names) (mod_functions m)\<rparr>) })"

end
