(* ===== verification/MC_ResolverSpec.thy ===== *)
theory MC_ResolverSpec
  imports MC_Resolver MC_TypeUtilsSpec
begin

text \<open>
  The surface of a module hides what is private and nothing else, and after the rewriting of names the
  references in it lead to the declarations they led to before.
\<close>

section \<open>What is hidden\<close>

definition hidden_values :: "Decl \<Rightarrow> string set" where
  "hidden_values d =
     (if \<not> DeclHasPrivateAttribute d then {}
      else if d_kind d = D_kConst \<or> d_kind d = D_kVar then set (np_names (d_pattern d))
      else if is_type_decl_kind (d_kind d) then {} else {d_name d} - {[]})"

lemma RecordHidden_values:
  "mod_hidden_value_names (RecordHiddenDeclNames d m) = hidden_values d \<union> mod_hidden_value_names m"
  by (auto simp: RecordHiddenDeclNames_def hidden_values_def is_type_decl_kind_def split: DeclKind.splits)

lemma fold_hidden_values:
  "mod_hidden_value_names (fold RecordHiddenDeclNames ds m) =
     (\<Union>d \<in> set ds. hidden_values d) \<union> mod_hidden_value_names m"
  by (induction ds arbitrary: m) (auto simp: RecordHidden_values)

lemma RecordHidden_rest:
  "mod_expr_types (RecordHiddenDeclNames d m) = mod_expr_types m"
  "mod_for_in_facts (RecordHiddenDeclNames d m) = mod_for_in_facts m"
  by (auto simp: RecordHiddenDeclNames_def split: DeclKind.splits)

lemma fold_hidden_rest:
  "mod_expr_types (fold RecordHiddenDeclNames ds m) = mod_expr_types m"
  "mod_for_in_facts (fold RecordHiddenDeclNames ds m) = mod_for_in_facts m"
  by (induction ds arbitrary: m) (simp_all add: RecordHidden_rest)

definition private_value_names :: "SourceFile \<Rightarrow> string set" where
  "private_value_names f = (\<Union>d \<in> set (sf_decls f). hidden_values d)"

section \<open>The surface\<close>

lemma BuildModuleLookupMaps_sel [simp]:
  "mod_functions (BuildModuleLookupMaps m) = mod_functions m"
  "mod_globals (BuildModuleLookupMaps m) = mod_globals m"
  "mod_type_decls (BuildModuleLookupMaps m) = mod_type_decls m"
  "mod_hidden_value_names (BuildModuleLookupMaps m) = mod_hidden_value_names m"
  "mod_expr_types (BuildModuleLookupMaps m) = mod_expr_types m"
  "mod_for_in_facts (BuildModuleLookupMaps m) = mod_for_in_facts m"
  by (simp_all add: BuildModuleLookupMaps_def)

lemma surface_sel:
  "mod_functions (BuildImportVisibleModuleSurface m f) =
     filter (\<lambda>g. fs_name g \<notin> private_value_names f) (mod_functions m)"
  "mod_globals (BuildImportVisibleModuleSurface m f) =
     filter (\<lambda>g. gs_names g \<noteq> []) (map (visible_global (private_value_names f)) (mod_globals m))"
  "mod_type_decls (BuildImportVisibleModuleSurface m f) =
     filter (\<lambda>d. td_name d \<notin> private_type_names f) (mod_type_decls m)"
  "mod_expr_types (BuildImportVisibleModuleSurface m f) = Map.empty"
  "mod_for_in_facts (BuildImportVisibleModuleSurface m f) = Map.empty"
  by (simp_all add: BuildImportVisibleModuleSurface_def Let_def fold_hidden_values fold_hidden_rest
      private_value_names_def empty_module_def)

lemma find_filter_key:
  "find (\<lambda>x. key x = k) (filter (\<lambda>x. key x \<notin> H) xs) = (if k \<in> H then None else find (\<lambda>x. key x = k) xs)"
  by (induction xs) auto

lemma find_map_key:
  "(\<And>x. x \<in> set xs \<Longrightarrow> key' (f x) = k' \<longleftrightarrow> key x = k) \<Longrightarrow>
     find (\<lambda>y. key' y = k') (map f xs) = map_option f (find (\<lambda>x. key x = k) xs)"
  by (induction xs) auto

lemma filter_less_upt: "filter (\<lambda>i. i < k) [0..<n] = [0..<min n k]"
  by (induction n) auto

lemma at_positions_zip:
  "at_positions vs (filter (\<lambda>i. P (names ! i)) [0..<length names]) = map snd (filter (P \<circ> fst) (zip names vs))"
proof -
  have "filter (\<lambda>i. i < length vs) (filter (\<lambda>i. P (names ! i)) [0..<length names]) =
      filter (\<lambda>i. P (names ! i)) [0..<min (length names) (length vs)]"
    by (simp add: filter_less_upt [symmetric] conj_commute cong: filter_cong)
  moreover have "zip names vs = map (\<lambda>i. (names ! i, vs ! i)) [0..<min (length names) (length vs)]"
    by (rule nth_equalityI) simp_all
  ultimately show ?thesis by (simp add: at_positions_def filter_map comp_def)
qed

lemma visible_names: "gs_names (visible_global H g) = filter (\<lambda>n. n \<notin> H) (gs_names g)"
proof -
  have "map snd (filter ((\<lambda>n. n \<notin> H) \<circ> fst) (zip xs xs)) = filter (\<lambda>n. n \<notin> H) xs" for xs :: "string list"
    by (induction xs) auto
  then show ?thesis
    by (simp add: visible_global_def visible_positions_def Let_def at_positions_zip [of _ "\<lambda>n. n \<notin> H"])
qed

lemma visible_values:
  "gs_constant_values (visible_global H g) =
     map snd (filter ((\<lambda>n. n \<notin> H) \<circ> fst) (zip (gs_names g) (gs_constant_values g)))"
  by (simp add: visible_global_def visible_positions_def Let_def at_positions_zip [of _ "\<lambda>n. n \<notin> H"])

text \<open>The value of a name in a global, by pairs.\<close>

lemma ParseGlobalConstValue_pairs:
  "ParseGlobalConstValue g n = join_option (map_of (zip (gs_names g) (gs_constant_values g)) n)"
proof -
  have "(case find (\<lambda>i. names ! i = n) [0..<length names] of
        None \<Rightarrow> None | Some i \<Rightarrow> if length vs \<le> i then None else vs ! i) = join_option (map_of (zip names vs) n)"
    for names and vs :: "ConstValue option list"
  proof (induction names arbitrary: vs)
    case (Cons x xs)
    show ?case
    proof (cases vs)
      case Nil
      then show ?thesis by (auto simp: join_option_def split: option.split)
    next
      case (Cons v ws)
      show ?thesis
        using Cons.IH [of ws] unfolding find_position_Cons Cons
        by (auto simp: join_option_def option.case_eq_if split: option.splits)
    qed
  qed (simp add: join_option_def)
  then show ?thesis by (simp add: ParseGlobalConstValue_def)
qed

lemma visible_value:
  assumes "n \<notin> H"
  shows "ParseGlobalConstValue (visible_global H g) n = ParseGlobalConstValue g n"
proof -
  have "zip (filter P xs) (map snd (filter (P \<circ> fst) (zip xs vs))) = filter (P \<circ> fst) (zip xs vs)"
    for P and xs :: "string list" and vs :: "ConstValue option list"
  proof (induction xs arbitrary: vs)
    case (Cons x xs)
    then show ?case by (cases vs) auto
  qed simp
  moreover have "map_of (filter ((\<lambda>n. n \<notin> H) \<circ> fst) ps) n = map_of ps n" for ps :: "(string \<times> ConstValue option) list"
    using assms by (induction ps) auto
  ultimately show ?thesis
    by (simp add: ParseGlobalConstValue_pairs visible_names visible_values)
qed

lemma visible_find_global:
  "FindGlobalSummary (BuildImportVisibleModuleSurface m f) n =
     (if n \<in> private_value_names f then None
      else map_option (visible_global (private_value_names f)) (FindGlobalSummary m n))"
proof -
  let ?H = "private_value_names f"
  have "find (\<lambda>g. n \<in> set (gs_names g)) (filter (\<lambda>g. gs_names g \<noteq> []) (map (visible_global ?H) gs)) =
      (if n \<in> ?H then None else map_option (visible_global ?H) (find (\<lambda>g. n \<in> set (gs_names g)) gs))" for gs
    by (induction gs) (auto simp: visible_names filter_empty_conv)
  then show ?thesis by (simp add: FindGlobalSummary_def surface_sel)
qed

lemma visible_const_global:
  "const_global fp (BuildImportVisibleModuleSurface m f) n =
     (if n \<in> private_value_names f then None else const_global fp m n)"
  by (auto simp: const_global_def visible_find_global visible_value split: option.split)
     (simp_all add: visible_global_def Let_def)

lemma visible_find:
  "FindFunctionSignature (BuildImportVisibleModuleSurface m f) n =
     (if n \<in> private_value_names f then None else FindFunctionSignature m n)"
  "FindTypeDecl (BuildImportVisibleModuleSurface m f) n =
     (if n \<in> private_type_names f then None else FindTypeDecl m n)"
  by (simp_all add: FindFunctionSignature_def FindTypeDecl_def surface_sel find_filter_key)

section \<open>Names\<close>

lemma Qualify_dot [simp]: "has_dot (QualifyImportedName q n)"
  by (simp add: QualifyImportedName_def)

lemma Qualify_inject [simp]: "QualifyImportedName q n = QualifyImportedName q n' \<longleftrightarrow> n = n'"
  by (simp add: QualifyImportedName_def)

lemma qualified_idem [simp]:
  "qualified_type_name q L ps (qualified_type_name q L ps n) = qualified_type_name q L ps n"
  by (auto simp: qualified_type_name_def)

lemma Rewrite_idem:
  "RewriteImportedTypeNames q L ps (RewriteImportedTypeNames q L ps t) = RewriteImportedTypeNames q L ps t"
  by (induction t) (auto simp: Let_def)

lemma Rewrite_names: "type_names (RewriteImportedTypeNames q L ps t) = qualified_type_name q L ps ` type_names t"
  by (induction t) (auto simp: Let_def)

text \<open>No declaration of the module bears a name in the module's own namespace already.\<close>

definition qualifier_free :: "string \<Rightarrow> Module \<Rightarrow> bool" where
  "qualifier_free q m \<longleftrightarrow> (\<forall>d \<in> set (mod_type_decls m). \<forall>n. td_name d \<noteq> QualifyImportedName q n)"

lemma Rewritten_find:
  assumes "RewriteImportedModuleSurfaceTypes fp m q = Some r" "qualifier_free q m"
    and "FindTypeDecl m n = Some d" "n \<noteq> []" "\<not> IsBuiltinNamedType n" "n \<notin> set ps"
  shows "FindTypeDecl r (qualified_type_name q (set (map td_name (mod_type_decls m))) ps n) =
    Some (RewriteImportedTypeDecl d q (set (map td_name (mod_type_decls m))))"
proof -
  let ?L = "set (map td_name (mod_type_decls m))"
  let ?new = "\<lambda>x. if has_dot x then x else QualifyImportedName q x"
  have r: "mod_type_decls r = map (\<lambda>d. RewriteImportedTypeDecl d q ?L) (mod_type_decls m)"
    using assms(1) by (auto simp: RewriteImportedModuleSurfaceTypes_def Let_def bind_eq_Some_conv)
  have "n \<in> ?L" using FindTypeDecl_declared [OF assms(3)] by (simp add: declared_names_def)
  then have name: "qualified_type_name q ?L ps n = ?new n"
    using assms(4-6) by (simp add: qualified_type_name_def)
  have new: "td_name (RewriteImportedTypeDecl d q ?L) = ?new (td_name d)" for d
    by (simp add: RewriteImportedTypeDecl_def Let_def)
  have inj: "?new (td_name d') = ?new n \<longleftrightarrow> td_name d' = n" if "d' \<in> set (mod_type_decls m)" for d'
  proof -
    have "td_name d' \<noteq> QualifyImportedName q n" "n \<noteq> QualifyImportedName q (td_name d')"
      using that assms(2) \<open>n \<in> ?L\<close> by (auto simp: qualifier_free_def)
    then show ?thesis by auto
  qed
  have "find (\<lambda>d. td_name d = ?new n) (map (\<lambda>d. RewriteImportedTypeDecl d q ?L) (mod_type_decls m)) =
      map_option (\<lambda>d. RewriteImportedTypeDecl d q ?L) (find (\<lambda>d. td_name d = n) (mod_type_decls m))"
    by (rule find_map_key) (simp only: new inj)
  then show ?thesis
    using assms(3) unfolding FindTypeDecl_def r name by simp
qed

text \<open>A declaration with the name of a built-in type is renamed, but references to it are not.\<close>

lemma Rewritten_builtin:
  assumes "RewriteImportedModuleSurfaceTypes fp m q = Some r" "IsBuiltinNamedType n"
  shows "RewriteImportedTypeNames q L ps (NamedType n) = NamedType n \<and> FindTypeDecl r n = None"
proof
  show "RewriteImportedTypeNames q L ps (NamedType n) = NamedType n"
    using assms(2) by (simp add: NamedType_def qualified_type_name_def)
  have "\<not> has_dot n"
    using assms(2) by (auto simp: IsBuiltinNamedType_def IsIntegerTypeName_def IsFloatTypeName_def)
  moreover have "mod_type_decls r = map (\<lambda>d. RewriteImportedTypeDecl d q (set (map td_name (mod_type_decls m)))) (mod_type_decls m)"
    using assms(1) by (auto simp: RewriteImportedModuleSurfaceTypes_def Let_def bind_eq_Some_conv)
  ultimately show "FindTypeDecl r n = None"
    by (auto simp: FindTypeDecl_def find_None_iff RewriteImportedTypeDecl_def Let_def)
qed

section \<open>Equivalence of declarations\<close>

definition canonical_variant :: "VariantSummary \<Rightarrow> VariantSummary" where
  "canonical_variant v = v\<lparr>vs_payload_fields := map (apsnd CanonicalizeBuiltinType) (vs_payload_fields v)\<rparr>"

definition decl_key :: "TypeDeclSummary \<Rightarrow> TypeDeclSummary" where
  \<comment> \<open>What the comparison sees of a declaration: all but the attributes, with types in canonical form.\<close>
  "decl_key d = d\<lparr>td_attributes := [],
     td_fields := map (apsnd CanonicalizeBuiltinType) (td_fields d),
     td_variants := map canonical_variant (td_variants d),
     td_aliased_type := CanonicalizeBuiltinType (td_aliased_type d)\<rparr>"

lemma same_fields_canonical:
  "same_fields fs gs \<longleftrightarrow> map (apsnd CanonicalizeBuiltinType) fs = map (apsnd CanonicalizeBuiltinType) gs"
  by (induction fs gs rule: list_induct2')
    (auto simp: type_eq_canonical prod_eq_iff)

lemma EquivalentVariant_key: "EquivalentVariantSummary v w \<longleftrightarrow> canonical_variant v = canonical_variant w"
  unfolding EquivalentVariantSummary_def same_fields_canonical canonical_variant_def by (cases v; cases w) auto

lemma same_variants_canonical:
  "list_all2 EquivalentVariantSummary vs ws \<longleftrightarrow> map canonical_variant vs = map canonical_variant ws"
  by (induction vs ws rule: list_induct2') (simp_all add: EquivalentVariant_key)

lemma EquivalentLayoutInfo_eq: "EquivalentLayoutInfo a b \<longleftrightarrow> a = b"
  by (cases a; cases b) (auto simp: EquivalentLayoutInfo_def)

lemma Equivalent_key: "EquivalentTypeDeclSummary l r \<longleftrightarrow> decl_key l = decl_key r"
  unfolding EquivalentTypeDeclSummary_def same_fields_canonical same_variants_canonical EquivalentLayoutInfo_eq
  unfolding type_eq_canonical decl_key_def by (cases l; cases r) auto

end
