(* ===== verification/MC_Mir.thy ===== *)
theory MC_Mir
  imports MC_Module
begin

text \<open>
  The data of \<open>compiler/mir/mir.h\<close>: the middle representation, a list of basic blocks for each
  function. \<open>mir::Module\<close> is \<open>MirModule\<close> and \<open>mir::Function\<close> is \<open>MirFunction\<close>; the other names are those
  of the code.
\<close>

record VariantDecl =
  vd_name :: string
  vd_payload_fields :: "(string \<times> Type) list"

datatype (plugins only: code) MirDeclKind = MD_kStruct | MD_kEnum | MD_kDistinct | MD_kAlias

record MirTypeDecl =
  mt_kind :: MirDeclKind
  mt_name :: string
  mt_type_params :: "string list"
  mt_is_packed :: bool
  mt_is_abi_c :: bool
  mt_fields :: "(string \<times> Type) list"
  mt_variants :: "VariantDecl list"
  mt_aliased_type :: Type

record GlobalDecl =
  gd_is_const :: bool
  gd_is_extern :: bool
  gd_names :: "string list"
  gd_type :: Type
  gd_initializers :: "string list"
  gd_constant_values :: "ConstValue option list"

record Local =
  lc_name :: string
  lc_type :: Type
  lc_is_parameter :: bool
  lc_is_noalias :: bool
  lc_is_mutable :: bool

datatype (plugins only: code) TargetKind =
  TK_kNone | TK_kFunction | TK_kGlobal | TK_kField | TK_kDerefField | TK_kIndex | TK_kOther

datatype (plugins only: code) ArithmeticSemantics = AS_kNone | AS_kWrap

datatype (plugins only: code) StorageBaseKind = SB_kNone | SB_kLocal | SB_kGlobal

datatype (plugins only: code) InstructionKind =
  I_kConst | I_kLocalAddr | I_kArenaNew | I_kLoadLocal | I_kStoreLocal | I_kStoreTarget | I_kSymbolRef
| I_kBoundsCheck | I_kDivCheck | I_kShiftCheck | I_kUnary | I_kBinary | I_kConvert | I_kConvertNumeric
| I_kConvertDistinct | I_kPointerToInt | I_kIntToPointer | I_kArrayToSlice | I_kBufferToSlice | I_kBufferNew
| I_kBufferFree | I_kSliceFromBuffer | I_kCall | I_kMemoryBarrier | I_kVolatileLoad | I_kVolatileStore
| I_kAtomicLoad | I_kAtomicStore | I_kAtomicExchange | I_kAtomicCompareExchange | I_kAtomicFetchAdd
| I_kField | I_kIndex | I_kSlice | I_kAggregateInit | I_kVariantInit | I_kVariantMatch | I_kVariantExtract

record Instruction =
  in_kind :: InstructionKind
  in_result :: string
  in_type :: Type
  in_op :: string
  in_atomic_order :: string
  in_atomic_success_order :: string
  in_atomic_failure_order :: string
  in_target :: string
  in_target_kind :: TargetKind
  in_target_name :: string
  in_target_display :: string
  in_target_base_storage :: StorageBaseKind
  in_target_base_name :: string
  in_target_base_type :: Type
  in_target_aux_types :: "Type list"
  in_target_index :: int64
  in_operands :: "string list"
  in_field_names :: "string list"
  in_arithmetic_semantics :: ArithmeticSemantics

definition new_Instruction :: "InstructionKind \<Rightarrow> Instruction" where
  \<comment> \<open>The default values of the members.\<close>
  "new_Instruction k = \<lparr>in_kind = k, in_result = [], in_type = UnknownType, in_op = [], in_atomic_order = [],
     in_atomic_success_order = [], in_atomic_failure_order = [], in_target = [], in_target_kind = TK_kNone,
     in_target_name = [], in_target_display = [], in_target_base_storage = SB_kNone, in_target_base_name = [],
     in_target_base_type = UnknownType, in_target_aux_types = [], in_target_index = -1, in_operands = [],
     in_field_names = [], in_arithmetic_semantics = AS_kNone\<rparr>"

datatype (plugins only: code) TerminatorKind = X_kNone | X_kReturn | X_kBranch | X_kCondBranch | X_kPanic

record Terminator =
  tm_kind :: TerminatorKind
  tm_values :: "string list"
  tm_true_target :: string
  tm_false_target :: string

record BasicBlock =
  bb_label :: string
  bb_instructions :: "Instruction list"
  bb_terminator :: Terminator

record MirFunction =
  mf_name :: string
  mf_is_extern :: bool
  mf_extern_abi :: string
  mf_type_params :: "string list"
  mf_locals :: "Local list"
  mf_return_types :: "Type list"
  mf_blocks :: "BasicBlock list"

record MirModule =
  mm_imports :: "string list"
  mm_type_decls :: "MirTypeDecl list"
  mm_globals :: "GlobalDecl list"
  mm_functions :: "MirFunction list"

end
