(* ===== verification/MC_Flow.thy ===== *)
theory MC_Flow
  imports MC_Mir "HOL-Library.While_Combinator"
begin

text \<open>
  \<open>compiler/mir/mir_validate_flow.cpp\<close>: the checks of the control flow of a function. Sets and maps
  keyed by labels are hash tables in the code and are sets and partial functions here; the vector
  that serves as a stack is a list whose head is its back. The reports are returned in their order.
\<close>

section \<open>Structure\<close>

definition blocks_by_label :: "BasicBlock list \<Rightarrow> (string \<rightharpoonup> BasicBlock)" where
  \<comment> \<open>\<open>blocks_by_label[block.label] = &block\<close>: the last block of a label stays.\<close>
  "blocks_by_label blocks = fold (\<lambda>b m. m(bb_label b \<mapsto> b)) blocks Map.empty"

fun duplicate_labels :: "string \<Rightarrow> string set \<Rightarrow> BasicBlock list \<Rightarrow> string list" where
  "duplicate_labels fname labels [] = []"
| "duplicate_labels fname labels (b # bs) =
     (if bb_label b \<in> labels
      then [''duplicate MIR block label in function '' @ fname @ '': '' @ bb_label b] else []) @
     duplicate_labels fname (insert (bb_label b) labels) bs"

definition block_labels :: "BasicBlock list \<Rightarrow> string set" where
  "block_labels blocks = set (map bb_label blocks)"

definition complain :: "bool \<Rightarrow> string \<Rightarrow> string list" where
  \<comment> \<open>\<open>if (c) fail(message)\<close>\<close>
  "complain c message = (if c then [message] else [])"

definition target_faults :: "string set \<Rightarrow> string \<Rightarrow> string \<Rightarrow> string \<Rightarrow> string list" where
  \<comment> \<open>A target that is required: it has a name, and the name is that of a block.\<close>
  "target_faults labels target unnamed missing =
     (if target = [] then [unnamed] else complain (target \<notin> labels) (missing @ target))"

definition terminator_faults :: "string \<Rightarrow> string set \<Rightarrow> BasicBlock \<Rightarrow> string list" where
  "terminator_faults fname labels b =
     (let t = bb_terminator b; place = fname @ '': '' @ bb_label b in
      case tm_kind t of
        X_kNone \<Rightarrow> [''unterminated MIR block in function '' @ place]
      | X_kReturn \<Rightarrow>
          complain (tm_true_target t \<noteq> [] \<or> tm_false_target t \<noteq> [])
            (''return terminator must not name branch targets in function '' @ place)
      | X_kPanic \<Rightarrow>
          complain (tm_true_target t \<noteq> [] \<or> tm_false_target t \<noteq> [])
            (''panic terminator must not name branch targets in function '' @ place) @
          complain (length (tm_values t) \<noteq> 1)
            (''panic terminator must carry exactly one fault code value in function '' @ place)
      | X_kBranch \<Rightarrow>
          complain (tm_values t \<noteq> []) (''branch terminator must not carry values in function '' @ place) @
          target_faults labels (tm_true_target t)
            (''branch terminator must name a target in function '' @ place)
            (''branch targets missing MIR block in function '' @ fname @ '': '') @
          complain (tm_false_target t \<noteq> [])
            (''branch terminator must not name a false target in function '' @ place)
      | X_kCondBranch \<Rightarrow>
          complain (length (tm_values t) \<noteq> 1)
            (''conditional branch must use exactly one condition value in function '' @ place) @
          target_faults labels (tm_true_target t)
            (''conditional branch must name a true target in function '' @ place)
            (''conditional branch true target missing MIR block in function '' @ fname @ '': '') @
          target_faults labels (tm_false_target t)
            (''conditional branch must name a false target in function '' @ place)
            (''conditional branch false target missing MIR block in function '' @ fname @ '': ''))"

definition successors :: "BasicBlock \<Rightarrow> string list" where
  "successors b =
     (case tm_kind (bb_terminator b) of
        X_kBranch \<Rightarrow> [tm_true_target (bb_terminator b)]
      | X_kCondBranch \<Rightarrow> [tm_true_target (bb_terminator b), tm_false_target (bb_terminator b)]
      | _ \<Rightarrow> [])"

definition next_labels :: "BasicBlock list \<Rightarrow> string \<Rightarrow> string list" where
  "next_labels blocks label = (case blocks_by_label blocks label of None \<Rightarrow> [] | Some b \<Rightarrow> successors b)"

lemma blocks_by_label_fold:
  "fold (\<lambda>b m. m(bb_label b \<mapsto> b)) bs m label = Some b \<Longrightarrow> b \<in> set bs \<and> bb_label b = label \<or> m label = Some b"
proof (induction bs arbitrary: m)
  case (Cons x xs)
  then show ?case using Cons.IH [of "m(bb_label x \<mapsto> x)"] by (auto split: if_splits)
qed simp

lemma blocks_by_label_mem: "blocks_by_label blocks label = Some b \<Longrightarrow> b \<in> set blocks \<and> bb_label b = label"
  unfolding blocks_by_label_def using blocks_by_label_fold [of blocks Map.empty label b] by simp

definition targets_of :: "BasicBlock list \<Rightarrow> string set" where
  "targets_of blocks = (\<Union>b \<in> set blocks. set (successors b))"

lemma next_labels_targets: "set (next_labels blocks label) \<subseteq> targets_of blocks"
  by (cases "blocks_by_label blocks label")
    (auto simp: next_labels_def targets_of_def dest!: blocks_by_label_mem)

lemma finite_targets [simp]: "finite (targets_of blocks)"
  by (simp add: targets_of_def)

text \<open>The walk from the entry. A label without a block is reached as well.\<close>

function reach_loop :: "BasicBlock list \<Rightarrow> string set \<Rightarrow> string list \<Rightarrow> string set" where
  "reach_loop blocks reachable [] = reachable"
| "reach_loop blocks reachable (label # worklist) =
     (if label \<in> reachable then reach_loop blocks reachable worklist
      else reach_loop blocks (insert label reachable) (rev (next_labels blocks label) @ worklist))"
  by pat_completeness auto
termination
proof (relation "(\<lambda>(bs, r, w). card (targets_of bs \<union> set w - r)) <*mlex*> measure (\<lambda>(bs, r, w). length w)")
  show "wf ((\<lambda>(bs, r, w). card (targets_of bs \<union> set w - r)) <*mlex*> measure (\<lambda>(bs, r, w). length w))"
    by (simp add: wf_mlex)
next
  fix bs :: "BasicBlock list" and r and l :: string and w
  assume "l \<in> r"
  then have "targets_of bs \<union> set w - r = targets_of bs \<union> set (l # w) - r" by auto
  then show "((bs, r, w), (bs, r, l # w)) \<in> (\<lambda>(bs, r, w). card (targets_of bs \<union> set w - r)) <*mlex*> measure (\<lambda>(bs, r, w). length w)"
    by (simp add: mlex_iff)
next
  fix bs :: "BasicBlock list" and r and l :: string and w
  assume "l \<notin> r"
  then have "targets_of bs \<union> set (rev (next_labels bs l) @ w) - insert l r \<subset> targets_of bs \<union> set (l # w) - r"
    using next_labels_targets [of bs l] by auto
  then have "card (targets_of bs \<union> set (rev (next_labels bs l) @ w) - insert l r) < card (targets_of bs \<union> set (l # w) - r)"
    by (rule psubset_card_mono [rotated]) simp
  then show "((bs, insert l r, rev (next_labels bs l) @ w), (bs, r, l # w)) \<in>
      (\<lambda>(bs, r, w). card (targets_of bs \<union> set w - r)) <*mlex*> measure (\<lambda>(bs, r, w). length w)"
    by (simp add: mlex_iff)
qed

record FlowStructure =
  fl_ok :: bool
  fl_reports :: "string list"
  fl_blocks_by_label :: "string \<rightharpoonup> BasicBlock"
  fl_reachable_blocks :: "string set"

definition ValidateFunctionStructure :: "MirFunction \<Rightarrow> FlowStructure" where
  "ValidateFunctionStructure f =
     (case mf_blocks f of
        [] \<Rightarrow> \<lparr>fl_ok = False, fl_reports = [''function has no MIR blocks: '' @ mf_name f],
                fl_blocks_by_label = Map.empty, fl_reachable_blocks = {}\<rparr>
      | entry # _ \<Rightarrow>
          let faults = duplicate_labels (mf_name f) {} (mf_blocks f) @
                concat (map (terminator_faults (mf_name f) (block_labels (mf_blocks f))) (mf_blocks f)) in
          \<lparr>fl_ok = (faults = []), fl_reports = faults, fl_blocks_by_label = blocks_by_label (mf_blocks f),
           fl_reachable_blocks = reach_loop (mf_blocks f) {} [bb_label entry]\<rparr>)"

section \<open>Dominance\<close>

definition preds :: "BasicBlock list \<Rightarrow> string set \<Rightarrow> string \<Rightarrow> string list" where
  "preds blocks reachable label =
     (if label \<notin> reachable then []
      else concat (map (\<lambda>b. if bb_label b \<in> reachable
             then map (\<lambda>_. bb_label b) (filter (\<lambda>t. t = label) (successors b)) else []) blocks))"

text \<open>Reverse postorder. An entry of the stack is a label and whether its successors are done.\<close>

function rpo_loop :: "BasicBlock list \<Rightarrow> string set \<Rightarrow> (string \<times> bool) list \<Rightarrow> string list \<Rightarrow> string list" where
  "rpo_loop blocks visited [] rpo = rpo"
| "rpo_loop blocks visited ((label, processed) # stack) rpo =
     (if processed then rpo_loop blocks visited stack (rpo @ [label])
      else if label \<in> visited then rpo_loop blocks visited stack rpo
      else rpo_loop blocks (insert label visited)
        (map (\<lambda>l. (l, False)) (next_labels blocks label) @ (label, True) # stack) rpo)"
  by pat_completeness auto
termination
proof (relation "(\<lambda>(bs, v, s, r). card (targets_of bs \<union> fst ` set s - v)) <*mlex*> measure (\<lambda>(bs, v, s, r). length s)")
  show "wf ((\<lambda>(bs, v, s, r). card (targets_of bs \<union> fst ` set s - v)) <*mlex*> measure (\<lambda>(bs, v, s, r). length s))"
    by (simp add: wf_mlex)
next
  fix bs :: "BasicBlock list" and v and l :: string and p :: bool and s and r r' :: "string list"
  have "card (targets_of bs \<union> fst ` set s - v) \<le> card (targets_of bs \<union> fst ` set ((l, p) # s) - v)"
    by (rule card_mono) auto
  then have "((bs, v, s, r'), (bs, v, (l, p) # s, r)) \<in>
      (\<lambda>(bs, v, s, r). card (targets_of bs \<union> fst ` set s - v)) <*mlex*> measure (\<lambda>(bs, v, s, r). length s)" for r'
    by (auto simp: mlex_iff less_le)
  then show "((bs, v, s, r @ [l]), (bs, v, (l, p) # s, r)) \<in>
      (\<lambda>(bs, v, s, r). card (targets_of bs \<union> fst ` set s - v)) <*mlex*> measure (\<lambda>(bs, v, s, r). length s)"
    and "((bs, v, s, r), (bs, v, (l, p) # s, r)) \<in>
      (\<lambda>(bs, v, s, r). card (targets_of bs \<union> fst ` set s - v)) <*mlex*> measure (\<lambda>(bs, v, s, r). length s)"
    by blast+
next
  fix bs :: "BasicBlock list" and v and l :: string and p :: bool and s and r :: "string list"
  assume "l \<notin> v"
  then have "targets_of bs \<union> fst ` set (map (\<lambda>l. (l, False)) (next_labels bs l) @ (l, True) # s) - insert l v
      \<subset> targets_of bs \<union> fst ` set ((l, p) # s) - v"
    using next_labels_targets [of bs l] by (auto simp: image_Un image_image)
  then have "card (targets_of bs \<union> fst ` set (map (\<lambda>l. (l, False)) (next_labels bs l) @ (l, True) # s) - insert l v)
      < card (targets_of bs \<union> fst ` set ((l, p) # s) - v)"
    by (rule psubset_card_mono [rotated]) simp
  then show "((bs, insert l v, map (\<lambda>l. (l, False)) (next_labels bs l) @ (l, True) # s, r), (bs, v, (l, p) # s, r)) \<in>
      (\<lambda>(bs, v, s, r). card (targets_of bs \<union> fst ` set s - v)) <*mlex*> measure (\<lambda>(bs, v, s, r). length s)"
    by (simp add: mlex_iff)
qed

definition reverse_postorder :: "BasicBlock list \<Rightarrow> string \<Rightarrow> string list" where
  "reverse_postorder blocks entry_label = rev (rpo_loop blocks {} [(entry_label, False)] [])"

type_synonym dominators = "string \<rightharpoonup> string set"

definition initial_dominators :: "string set \<Rightarrow> string \<Rightarrow> dominators" where
  "initial_dominators reachable entry_label label =
     (if label \<notin> reachable then None
      else Some (if label = entry_label then {label} else reachable))"

definition pred_dominators :: "dominators \<Rightarrow> string list \<Rightarrow> string set option" where
  \<comment> \<open>The intersection over the predecessors that have dominators; \<open>None\<close> when none has.\<close>
  "pred_dominators doms ps =
     (case List.map_filter doms ps of [] \<Rightarrow> None | d # ds \<Rightarrow> Some (fold (\<lambda>d new. new \<inter> d) ds d))"

definition dom_step ::
  "(string \<Rightarrow> string list) \<Rightarrow> string \<Rightarrow> string \<Rightarrow> dominators \<times> bool \<Rightarrow> dominators \<times> bool" where
  "dom_step pred entry_label label = (\<lambda>(doms, changed).
     if label = entry_label then (doms, changed)
     else case pred_dominators doms (pred label) of
         None \<Rightarrow> (doms, changed)
       | Some new \<Rightarrow>
           let new_dominators = insert label new;
               old = (case doms label of None \<Rightarrow> {} | Some d \<Rightarrow> d) in
           if old \<noteq> new_dominators then (doms(label \<mapsto> new_dominators), True) else (doms, changed))"

definition dom_pass :: "(string \<Rightarrow> string list) \<Rightarrow> string \<Rightarrow> string list \<Rightarrow> dominators \<Rightarrow> dominators \<times> bool" where
  "dom_pass pred entry_label rpo doms = fold (dom_step pred entry_label) rpo (doms, False)"

text \<open>\<open>while (changed)\<close>: \<open>None\<close> if it did not end.\<close>

definition dom_iterate :: "(string \<Rightarrow> string list) \<Rightarrow> string \<Rightarrow> string list \<Rightarrow> dominators \<Rightarrow> dominators option" where
  "dom_iterate pred entry_label rpo doms =
     map_option fst (while_option snd (\<lambda>(doms, _). dom_pass pred entry_label rpo doms) (doms, True))"

definition block_defs :: "BasicBlock \<Rightarrow> (string \<rightharpoonup> string) \<Rightarrow> (string \<rightharpoonup> string)" where
  "block_defs b = fold (\<lambda>i defs. if in_result i \<noteq> [] then defs(in_result i \<mapsto> bb_label b) else defs) (bb_instructions b)"

definition value_defs :: "BasicBlock list \<Rightarrow> string set \<Rightarrow> (string \<rightharpoonup> string)" where
  "value_defs blocks reachable = fold block_defs (filter (\<lambda>b. bb_label b \<in> reachable) blocks) Map.empty"

definition dominates :: "dominators \<Rightarrow> string \<Rightarrow> string \<Rightarrow> bool" where
  "dominates doms def_block use_block \<longleftrightarrow>
     def_block = use_block \<or> (case doms use_block of None \<Rightarrow> False | Some d \<Rightarrow> def_block \<in> d)"

definition check_operand_dominance ::
  "string \<Rightarrow> (string \<rightharpoonup> string) \<Rightarrow> dominators \<Rightarrow> string \<Rightarrow> string \<Rightarrow> string list" where
  "check_operand_dominance fname defs doms use_block operand =
     (case defs operand of
        None \<Rightarrow> []
      | Some def_block \<Rightarrow>
          complain (\<not> dominates doms def_block use_block)
            (''SSA dominance violation in function '' @ fname @ '': operand '' @ operand @ '' does not dominate its use''))"

definition uses_of :: "BasicBlock \<Rightarrow> string list" where
  "uses_of b = filter (\<lambda>v. v \<noteq> []) (concat (map in_operands (bb_instructions b)) @ tm_values (bb_terminator b))"

definition ValidateFunctionDominance :: "MirFunction \<Rightarrow> string set \<Rightarrow> string list option" where
  \<comment> \<open>The outer \<open>None\<close> is \<open>front()\<close> of no blocks, or a loop that does not end.\<close>
  "ValidateFunctionDominance f reachable =
     (case mf_blocks f of
        [] \<Rightarrow> None
      | entry # _ \<Rightarrow>
          let blocks = mf_blocks f; entry_label = bb_label entry; defs = value_defs blocks reachable in
          map_option (\<lambda>doms.
            concat (map (\<lambda>b. concat (map (check_operand_dominance (mf_name f) defs doms (bb_label b)) (uses_of b)))
              (filter (\<lambda>b. bb_label b \<in> reachable) blocks)))
            (dom_iterate (preds blocks reachable) entry_label (reverse_postorder blocks entry_label)
              (initial_dominators reachable entry_label)))"

end
