(* ===== verification/MC_FlowSpec.thy ===== *)
theory MC_FlowSpec
  imports MC_Flow
begin

text \<open>
  What the checks of \<open>MC_Flow\<close> establish, in terms of paths: the walk over the blocks finds the labels
  that a path from the entry leads to, and the iteration over sets of dominators ends with the
  labels that are on every path.
\<close>

section \<open>Paths\<close>

inductive walk :: "BasicBlock list \<Rightarrow> string \<Rightarrow> string list \<Rightarrow> string \<Rightarrow> bool" for blocks e where
  walk_entry: "walk blocks e [e] e"
| walk_next: "walk blocks e ls l \<Longrightarrow> l' \<in> set (next_labels blocks l) \<Longrightarrow> walk blocks e (ls @ [l']) l'"

inductive_cases walk_cases: "walk blocks e ls l"

definition reachable_from :: "BasicBlock list \<Rightarrow> string \<Rightarrow> string set" where
  "reachable_from blocks e = {l. \<exists>ls. walk blocks e ls l}"

definition on_every_path :: "BasicBlock list \<Rightarrow> string \<Rightarrow> string \<Rightarrow> string \<Rightarrow> bool" where
  "on_every_path blocks e d l \<longleftrightarrow> (\<forall>ls. walk blocks e ls l \<longrightarrow> d \<in> set ls)"

lemma reachable_entry [simp]: "e \<in> reachable_from blocks e"
  by (auto simp: reachable_from_def intro: walk_entry)

lemma reachable_next: "l \<in> reachable_from blocks e \<Longrightarrow> set (next_labels blocks l) \<subseteq> reachable_from blocks e"
  by (auto simp: reachable_from_def intro: walk_next)

lemma reachable_least:
  assumes "e \<in> S" "\<And>l. l \<in> S \<Longrightarrow> set (next_labels blocks l) \<subseteq> S"
  shows "reachable_from blocks e \<subseteq> S"
proof
  fix l assume "l \<in> reachable_from blocks e"
  then obtain ls where "walk blocks e ls l" by (auto simp: reachable_from_def)
  then show "l \<in> S" by induction (use assms in auto)
qed

lemma walk_reachable: "walk blocks e ls l \<Longrightarrow> set ls \<subseteq> reachable_from blocks e"
  by (induction rule: walk.induct) (auto simp: reachable_from_def intro: walk_entry walk_next)

lemma walk_last: "walk blocks e ls l \<Longrightarrow> l \<in> set ls"
  by (induction rule: walk.induct) auto

section \<open>The walk over the blocks\<close>

lemma reach_loop_sound:
  "r \<subseteq> reachable_from blocks e \<Longrightarrow> set w \<subseteq> reachable_from blocks e \<Longrightarrow> reach_loop blocks r w \<subseteq> reachable_from blocks e"
proof (induction blocks r w rule: reach_loop.induct)
  case (2 blocks r l w)
  then show ?case using reachable_next [of l blocks e] by (cases "l \<in> r") auto
qed simp

lemma reach_loop_closed:
  "(\<And>l. l \<in> r \<Longrightarrow> set (next_labels blocks l) \<subseteq> r \<union> set w) \<Longrightarrow>
     r \<union> set w \<subseteq> reach_loop blocks r w \<and>
     (\<forall>l \<in> reach_loop blocks r w. set (next_labels blocks l) \<subseteq> reach_loop blocks r w)"
proof (induction blocks r w rule: reach_loop.induct)
  case (2 blocks r l w)
  show ?case
  proof (cases "l \<in> r")
    case True
    then have "set (next_labels blocks l') \<subseteq> r \<union> set w" if "l' \<in> r" for l' using 2(3) [OF that] by auto
    with 2(1) [OF True] True show ?thesis by auto
  next
    case False
    have "set (next_labels blocks l') \<subseteq> insert l r \<union> set (rev (next_labels blocks l) @ w)" if "l' \<in> insert l r" for l'
      using that 2(3) [of l'] by auto
    with 2(2) [OF False] False show ?thesis by auto
  qed
qed auto

lemma reach_loop_entry: "reach_loop blocks {} [e] = reachable_from blocks e"
proof (rule antisym)
  have c: "e \<in> reach_loop blocks {} [e]"
    "\<And>l. l \<in> reach_loop blocks {} [e] \<Longrightarrow> set (next_labels blocks l) \<subseteq> reach_loop blocks {} [e]"
    using reach_loop_closed [of "{}" blocks "[e]"] by auto
  show "reachable_from blocks e \<subseteq> reach_loop blocks {} [e]" by (rule reachable_least) (use c in auto)
qed (rule reach_loop_sound, auto)

lemma finite_reach_loop: "finite r \<Longrightarrow> finite (reach_loop blocks r w)"
  by (induction blocks r w rule: reach_loop.induct) auto

lemma finite_reachable [simp]: "finite (reachable_from blocks e)"
  using finite_reach_loop [OF finite.emptyI, of blocks "[e]"] by (simp only: reach_loop_entry)

lemma rpo_loop_sound:
  "set out \<subseteq> reachable_from blocks e \<Longrightarrow> fst ` set s \<subseteq> reachable_from blocks e \<Longrightarrow>
     set (rpo_loop blocks v s out) \<subseteq> reachable_from blocks e"
proof (induction blocks v s out rule: rpo_loop.induct)
  case (2 blocks v l p s out)
  then show ?case using reachable_next [of l blocks e] by (auto simp: image_Un image_image)
qed simp

lemma rpo_loop_closed:
  "v = set out \<union> {l. (l, True) \<in> set s} \<Longrightarrow>
   (\<And>l. l \<in> v \<Longrightarrow> set (next_labels blocks l) \<subseteq> v \<union> fst ` set s) \<Longrightarrow>
     v \<union> fst ` set s \<subseteq> set (rpo_loop blocks v s out) \<and>
     (\<forall>l \<in> set (rpo_loop blocks v s out). set (next_labels blocks l) \<subseteq> set (rpo_loop blocks v s out))"
proof (induction blocks v s out rule: rpo_loop.induct)
  case (2 blocks v l p s out)
  consider "p" | "\<not> p" "l \<in> v" | "\<not> p" "l \<notin> v" by blast
  then show ?case
  proof cases
    case 1
    then have "v = set (out @ [l]) \<union> {l. (l, True) \<in> set s}" "l \<in> v" using 2(4) by auto
    moreover have "set (next_labels blocks l') \<subseteq> v \<union> fst ` set s" if "l' \<in> v" for l'
      using 2(5) [OF that] \<open>l \<in> v\<close> by auto
    ultimately show ?thesis using 2(1) [OF 1] 1 by auto
  next
    case 2: 2
    then have "v = set out \<union> {l. (l, True) \<in> set s}" using "2.prems"(1) by auto
    moreover have "set (next_labels blocks l') \<subseteq> v \<union> fst ` set s" if "l' \<in> v" for l'
      using "2.prems"(2) [OF that] 2 by auto
    ultimately show ?thesis using "2.IH"(2) [OF 2] 2 by auto
  next
    case 3
    let ?s = "map (\<lambda>l. (l, False)) (next_labels blocks l) @ (l, True) # s"
    have "insert l v = set out \<union> {l. (l, True) \<in> set ?s}" using 2(4) 3 by auto
    moreover have "set (next_labels blocks l') \<subseteq> insert l v \<union> fst ` set ?s" if "l' \<in> insert l v" for l'
      using that 2(5) [of l'] by (auto simp: image_Un image_image)
    ultimately show ?thesis using 2(3) [OF 3] 3 by (auto simp: image_Un image_image)
  qed
qed auto

lemma reverse_postorder_set: "set (reverse_postorder blocks e) = reachable_from blocks e"
proof (rule antisym)
  let ?r = "rpo_loop blocks {} [(e, False)] []"
  have c: "e \<in> set ?r" "\<And>l. l \<in> set ?r \<Longrightarrow> set (next_labels blocks l) \<subseteq> set ?r"
    using rpo_loop_closed [of "{}" "[]" "[(e, False)]" blocks] by auto
  show "reachable_from blocks e \<subseteq> set (reverse_postorder blocks e)"
    unfolding reverse_postorder_def set_rev by (rule reachable_least) (use c in auto)
  show "set (reverse_postorder blocks e) \<subseteq> reachable_from blocks e"
    using rpo_loop_sound [of "[]" blocks e "[(e, False)]" "{}"] by (simp add: reverse_postorder_def)
qed

section \<open>The iteration over dominators\<close>

definition flow_graph :: "(string \<Rightarrow> string list) \<Rightarrow> string \<Rightarrow> string set \<Rightarrow> string list \<Rightarrow> bool" where
  "flow_graph pred e R rpo \<longleftrightarrow> finite R \<and> e \<in> R \<and> set rpo = R \<and>
     (\<forall>l \<in> R. set (pred l) \<subseteq> R \<and> (l \<noteq> e \<longrightarrow> pred l \<noteq> []))"

definition doms_at :: "dominators \<Rightarrow> string \<Rightarrow> string set" where
  "doms_at D l = (case D l of None \<Rightarrow> {} | Some d \<Rightarrow> d)"

definition transfer :: "(string \<Rightarrow> string list) \<Rightarrow> (string \<Rightarrow> string set) \<Rightarrow> string \<Rightarrow> string set" where
  "transfer pred T l = insert l (\<Inter>p \<in> set (pred l). T p)"

definition dom_inv ::
  "(string \<Rightarrow> string list) \<Rightarrow> string \<Rightarrow> string set \<Rightarrow> (string \<Rightarrow> string set) \<Rightarrow> dominators \<Rightarrow> bool" where
  \<comment> \<open>The sets only shrink towards what the equations ask for, and never below \<open>T\<close>.\<close>
  "dom_inv pred e R T D \<longleftrightarrow> dom D = R \<and> doms_at D e = {e} \<and>
     (\<forall>l \<in> R. doms_at D l \<subseteq> R \<and> T l \<subseteq> doms_at D l) \<and>
     (\<forall>l \<in> R. l \<noteq> e \<longrightarrow> transfer pred (doms_at D) l \<subseteq> doms_at D l)"

definition solves_at :: "(string \<Rightarrow> string list) \<Rightarrow> string \<Rightarrow> dominators \<Rightarrow> string \<Rightarrow> bool" where
  "solves_at pred e D l \<longleftrightarrow> l = e \<or> doms_at D l = transfer pred (doms_at D) l"

definition below :: "(string \<Rightarrow> string list) \<Rightarrow> string \<Rightarrow> string set \<Rightarrow> (string \<Rightarrow> string set) \<Rightarrow> bool" where
  "below pred e R T \<longleftrightarrow> T e \<subseteq> {e} \<and> (\<forall>l \<in> R. T l \<subseteq> R \<and> (l \<noteq> e \<longrightarrow> T l \<subseteq> transfer pred T l))"

lemma transfer_mono: "(\<And>p. p \<in> set (pred l) \<Longrightarrow> T p \<subseteq> U p) \<Longrightarrow> transfer pred T l \<subseteq> transfer pred U l"
  by (auto simp: transfer_def)

lemma fold_inter: "fold (\<lambda>d new. new \<inter> d) ds d = d \<inter> \<Inter> (set ds)"
  by (induction ds arbitrary: d) auto

lemma pred_dominators_inter:
  assumes "ps \<noteq> []" "set ps \<subseteq> dom D"
  shows "pred_dominators D ps = Some (\<Inter>p \<in> set ps. doms_at D p)"
proof -
  have "List.map_filter D ps = map (doms_at D) ps"
    using assms(2) by (induction ps) (auto simp: List.map_filter_simps doms_at_def split: option.splits)
  with assms(1) show ?thesis
    by (cases ps) (auto simp: pred_dominators_def fold_inter)
qed

definition weight :: "string set \<Rightarrow> dominators \<Rightarrow> nat" where
  "weight R D = (\<Sum>l \<in> R. card (doms_at D l))"

lemma dom_step_inv:
  assumes g: "flow_graph pred e R rpo" and T: "below pred e R T" and D: "dom_inv pred e R T D" and l: "l \<in> R"
    and s: "dom_step pred e l (D, c) = (D', c')"
  shows "dom_inv pred e R T D' \<and>
    (if c' \<and> \<not> c then weight R D' < weight R D else weight R D' \<le> weight R D) \<and> (c \<longrightarrow> c') \<and>
    (\<not> c' \<longrightarrow> D' = D \<and> solves_at pred e D l)"
proof (cases "l = e")
  case True
  then show ?thesis using s D by (auto simp: dom_step_def solves_at_def)
next
  case False
  have ps: "pred l \<noteq> []" "set (pred l) \<subseteq> R" using g l False by (auto simp: flow_graph_def)
  have dom: "dom D = R" using D by (simp add: dom_inv_def)
  let ?new = "transfer pred (doms_at D) l"
  have new: "pred_dominators D (pred l) = Some (\<Inter>p \<in> set (pred l). doms_at D p)"
    by (rule pred_dominators_inter) (use ps dom in auto)
  have old: "(case D l of None \<Rightarrow> {} | Some d \<Rightarrow> d) = doms_at D l" by (simp add: doms_at_def)
  have step: "dom_step pred e l (D, c) = (if doms_at D l \<noteq> ?new then (D(l \<mapsto> ?new), True) else (D, c))"
    by (simp add: dom_step_def False new old transfer_def Let_def)
  show ?thesis
  proof (cases "doms_at D l = ?new")
    case True
    then show ?thesis using s D step by (auto simp: solves_at_def)
  next
    case changed: False
    have D': "D' = D(l \<mapsto> ?new)" "c'" using s step changed by auto
    have at: "doms_at D' x = (if x = l then ?new else doms_at D x)" for x by (simp add: D' doms_at_def)
    have sub: "?new \<subseteq> doms_at D l" using D l False by (simp add: dom_inv_def)
    have le: "doms_at D' x \<subseteq> doms_at D x" for x using sub by (simp add: at)
    have fin: "finite (doms_at D x)" if "x \<in> R" for x
      using D g that by (auto simp: dom_inv_def flow_graph_def intro: finite_subset)
    have "T l \<subseteq> transfer pred T l" using T l False by (simp add: below_def)
    also have "\<dots> \<subseteq> ?new" by (rule transfer_mono) (use D ps in \<open>auto simp: dom_inv_def\<close>)
    finally have low: "T l \<subseteq> ?new" .
    have tr: "transfer pred (doms_at D') x \<subseteq> transfer pred (doms_at D) x" for x
      by (rule transfer_mono) (rule le)
    have "transfer pred (doms_at D') x \<subseteq> doms_at D' x" if "x \<in> R" "x \<noteq> e" for x
    proof (cases "x = l")
      case True
      then show ?thesis using tr [of l] at [of l] by simp
    next
      case False
      then have "transfer pred (doms_at D) x \<subseteq> doms_at D' x" using D that at [of x] by (simp add: dom_inv_def)
      with tr show ?thesis by blast
    qed
    moreover have "dom D' = R" using dom l by (auto simp: D')
    moreover have "doms_at D' x \<subseteq> R \<and> T x \<subseteq> doms_at D' x" if "x \<in> R" for x
    proof
      have "doms_at D x \<subseteq> R" using D that by (simp add: dom_inv_def)
      with le [of x] show "doms_at D' x \<subseteq> R" by blast
      show "T x \<subseteq> doms_at D' x" using D that low at [of x] by (cases "x = l") (auto simp: dom_inv_def)
    qed
    moreover have "doms_at D' e = {e}" using D False by (simp add: at dom_inv_def)
    ultimately have "dom_inv pred e R T D'" unfolding dom_inv_def by blast
    moreover have "weight R D' < weight R D"
      unfolding weight_def
    proof (rule sum_strict_mono_ex1)
      show "finite R" using g by (simp add: flow_graph_def)
      show "\<forall>x \<in> R. card (doms_at D' x) \<le> card (doms_at D x)" using le fin by (blast intro: card_mono)
      have "doms_at D' l \<subset> doms_at D l" using sub changed at [of l] by auto
      with l fin show "\<exists>x \<in> R. card (doms_at D' x) < card (doms_at D x)" by (blast intro: psubset_card_mono)
    qed
    ultimately show ?thesis using D' by auto
  qed
qed

lemma dom_fold_inv:
  assumes g: "flow_graph pred e R rpo" and T: "below pred e R T"
  shows "dom_inv pred e R T D \<Longrightarrow> set ls \<subseteq> R \<Longrightarrow> fold (dom_step pred e) ls (D, c) = (D', c') \<Longrightarrow>
    dom_inv pred e R T D' \<and>
    (if c' \<and> \<not> c then weight R D' < weight R D else weight R D' \<le> weight R D) \<and> (c \<longrightarrow> c') \<and>
    (\<not> c' \<longrightarrow> D' = D \<and> (\<forall>l \<in> set ls. solves_at pred e D l))"
proof (induction ls arbitrary: D c)
  case (Cons l ls)
  obtain D1 c1 where s: "dom_step pred e l (D, c) = (D1, c1)" by force
  have l: "l \<in> R" "set ls \<subseteq> R" using Cons.prems(2) by auto
  note one = dom_step_inv [OF g T Cons.prems(1) l(1) s]
  have "fold (dom_step pred e) ls (D1, c1) = (D', c')" using Cons.prems(3) s by simp
  note two = Cons.IH [OF conjunct1 [OF one] l(2) this]
  show ?case
  proof (cases c')
    case True
    then show ?thesis using one two by (cases c; cases c1) simp_all
  next
    case False
    with two have c1: "\<not> c1" "D' = D1" by blast+
    with one have "\<not> c" "D1 = D" by blast+
    with c1 False one two show ?thesis by simp
  qed
qed auto

lemma initial_inv:
  assumes "flow_graph pred e R rpo" "below pred e R T"
  shows "dom_inv pred e R T (initial_dominators R e)"
proof -
  have at: "doms_at (initial_dominators R e) l = (if l \<notin> R then {} else if l = e then {e} else R)" for l
    by (simp add: doms_at_def initial_dominators_def)
  have "transfer pred (doms_at (initial_dominators R e)) l \<subseteq> R" if l: "l \<in> R" "l \<noteq> e" for l
  proof -
    have "pred l \<noteq> []" "set (pred l) \<subseteq> R" "e \<in> R" using assms(1) l by (auto simp: flow_graph_def)
    then obtain p where "p \<in> set (pred l)" by (cases "pred l") auto
    moreover have "doms_at (initial_dominators R e) p \<subseteq> R" for p using \<open>e \<in> R\<close> by (auto simp: at)
    ultimately show ?thesis using l unfolding transfer_def by blast
  qed
  moreover have "dom (initial_dominators R e) = R" by (auto simp: initial_dominators_def split: if_splits)
  moreover have "e \<in> R" using assms(1) by (simp add: flow_graph_def)
  moreover have "T l \<subseteq> doms_at (initial_dominators R e) l" if "l \<in> R" for l
    using assms(2) that by (auto simp: at below_def)
  ultimately show ?thesis by (auto simp: dom_inv_def at)
qed

text \<open>The iteration ends, with a solution that is above every \<open>T\<close> that the equations allow.\<close>

lemma dom_iterate_solution:
  assumes g: "flow_graph pred e R rpo" and T: "below pred e R T"
  shows "\<exists>D. dom_iterate pred e rpo (initial_dominators R e) = Some D \<and>
    dom_inv pred e R T D \<and> (\<forall>l \<in> R. solves_at pred e D l)"
proof -
  let ?P = "\<lambda>(D, c). dom_inv pred e R T D \<and> (\<not> c \<longrightarrow> (\<forall>l \<in> R. solves_at pred e D l))"
  let ?c = "\<lambda>(D :: dominators, c :: bool). dom_pass pred e rpo D"
  let ?f = "\<lambda>(D, c). weight R D + (if c then 1 else 0 :: nat)"
  have R: "set rpo = R" using g by (simp add: flow_graph_def)
  have pass: "?P (?c s) \<and> ?f (?c s) < ?f s" if "?P s" "snd s" for s
  proof -
    obtain D b where "s = (D, b)" by force
    with that have s: "s = (D, True)" "dom_inv pred e R T D" by simp_all
    obtain D' c' where p: "dom_pass pred e rpo D = (D', c')" by force
    have "fold (dom_step pred e) rpo (D, False) = (D', c')" "set rpo \<subseteq> R" using p R by (simp_all add: dom_pass_def)
    from dom_fold_inv [OF g T s(2) this(2,1)] show ?thesis
      unfolding s(1) using s(2) by (cases c') (simp_all add: p R)
  qed
  have start: "?P (initial_dominators R e, True)" using initial_inv [OF g T] by simp
  obtain t where t: "while_option snd ?c (initial_dominators R e, True) = Some t"
    using measure_while_option_Some [of ?P snd ?c ?f, OF pass start] by blast
  moreover have "?P t"
    by (rule while_option_rule [of ?P snd ?c, OF conjunct1 [OF pass] t start])
  moreover have "\<not> snd t" using while_option_stop [OF t] .
  ultimately show ?thesis unfolding dom_iterate_def by (cases t) auto
qed

section \<open>Functions\<close>

lemma duplicate_labels_none:
  "duplicate_labels f S bs = [] \<longleftrightarrow> distinct (map bb_label bs) \<and> set (map bb_label bs) \<inter> S = {}"
  by (induction bs arbitrary: S) auto

lemma blocks_by_label_distinct:
  assumes "distinct (map bb_label bs)" "b \<in> set bs"
  shows "blocks_by_label bs (bb_label b) = Some b"
proof -
  have keep: "bb_label b \<notin> set (map bb_label bs) \<Longrightarrow> fold (\<lambda>b m. m(bb_label b \<mapsto> b)) bs m (bb_label b) = m (bb_label b)"
    for m bs by (induction bs arbitrary: m) auto
  have "fold (\<lambda>b m. m(bb_label b \<mapsto> b)) bs m (bb_label b) = Some b" for m
    using assms
  proof (induction bs arbitrary: m)
    case (Cons x xs)
    then show ?case using keep [of xs "m(bb_label x \<mapsto> x)"] by (cases "x = b") (auto simp del: fun_upd_apply, simp)
  qed simp
  then show ?thesis by (simp add: blocks_by_label_def)
qed

lemma structure_ok:
  assumes "fl_ok (ValidateFunctionStructure f)"
  obtains entry bs where "mf_blocks f = entry # bs" "distinct (map bb_label (mf_blocks f))"
    "fl_reachable_blocks (ValidateFunctionStructure f) = reachable_from (mf_blocks f) (bb_label entry)"
    "\<forall>b \<in> set (mf_blocks f). terminator_faults (mf_name f) (block_labels (mf_blocks f)) b = []"
proof (cases "mf_blocks f")
  case (Cons entry bs)
  with assms show ?thesis
    by (intro that) (simp_all add: ValidateFunctionStructure_def Let_def duplicate_labels_none reach_loop_entry
        del: reach_loop.simps)
qed (use assms in \<open>simp add: ValidateFunctionStructure_def\<close>)

lemma no_faults_targets:
  assumes "terminator_faults fname labels b = []" "t \<in> set (successors b)"
  shows "t \<in> labels \<and> t \<noteq> []"
  using assms
  by (auto simp: terminator_faults_def successors_def target_faults_def complain_def Let_def
      split: TerminatorKind.splits if_splits)

text \<open>Every label that the control flow reaches is that of a block.\<close>

lemma reachable_blocks_exist:
  assumes "\<forall>b \<in> set bs. terminator_faults fname (block_labels bs) b = []" "entry \<in> set bs"
  shows "reachable_from bs (bb_label entry) \<subseteq> block_labels bs"
proof (rule reachable_least)
  show "bb_label entry \<in> block_labels bs" using assms(2) by (simp add: block_labels_def)
  fix l assume "l \<in> block_labels bs"
  show "set (next_labels bs l) \<subseteq> block_labels bs"
  proof (cases "blocks_by_label bs l")
    case (Some b)
    then have "terminator_faults fname (block_labels bs) b = []" using assms(1) blocks_by_label_mem by blast
    with Some no_faults_targets show ?thesis by (auto simp: next_labels_def)
  qed (simp add: next_labels_def)
qed

lemma preds_iff:
  assumes "distinct (map bb_label bs)"
  shows "p \<in> set (preds bs R l) \<longleftrightarrow> l \<in> R \<and> p \<in> R \<and> l \<in> set (next_labels bs p)"
proof -
  have "(\<exists>b \<in> set bs. bb_label b = p \<and> l \<in> set (successors b)) \<longleftrightarrow> l \<in> set (next_labels bs p)"
  proof
    assume "\<exists>b \<in> set bs. bb_label b = p \<and> l \<in> set (successors b)"
    then show "l \<in> set (next_labels bs p)"
      using blocks_by_label_distinct [OF assms] by (auto simp: next_labels_def)
  next
    assume "l \<in> set (next_labels bs p)"
    then show "\<exists>b \<in> set bs. bb_label b = p \<and> l \<in> set (successors b)"
      using blocks_by_label_mem [of bs p] by (cases "blocks_by_label bs p") (auto simp: next_labels_def)
  qed
  then show ?thesis by (auto simp: preds_def)
qed

abbreviation path_doms :: "BasicBlock list \<Rightarrow> string \<Rightarrow> string \<Rightarrow> string set" where
  "path_doms bs e l \<equiv> {d. on_every_path bs e d l}"

lemma graph_of_blocks:
  assumes distinct: "distinct (map bb_label bs)" and R: "R = reachable_from bs e"
  shows "flow_graph (preds bs R) e R (reverse_postorder bs e)"
proof -
  have "preds bs R l \<noteq> []" if l: "l \<in> R" "l \<noteq> e" for l
  proof -
    obtain ls where "walk bs e ls l" using l(1) by (auto simp: R reachable_from_def)
    then have "\<exists>p \<in> R. l \<in> set (next_labels bs p)"
      by (cases rule: walk.cases) (use l in \<open>auto simp: R reachable_from_def\<close>)
    then obtain p where "p \<in> set (preds bs R l)" using l by (auto simp: preds_iff [OF distinct])
    then show ?thesis by auto
  qed
  then show ?thesis by (auto simp: flow_graph_def preds_iff [OF distinct] reverse_postorder_set R)
qed

lemma path_doms_below:
  assumes distinct: "distinct (map bb_label bs)" and R: "R = reachable_from bs e"
  shows "below (preds bs R) e R (path_doms bs e)"
proof -
  have "path_doms bs e e \<subseteq> {e}" using walk_entry by (fastforce simp: on_every_path_def)
  moreover have "path_doms bs e l \<subseteq> R" if "l \<in> R" for l
    using that walk_reachable by (fastforce simp: R on_every_path_def reachable_from_def)
  moreover have "path_doms bs e l \<subseteq> transfer (preds bs R) (path_doms bs e) l" for l
  proof
    fix d assume d: "d \<in> path_doms bs e l"
    have "d \<in> set ls" if "d \<noteq> l" "p \<in> set (preds bs R l)" "walk bs e ls p" for p ls
    proof -
      have "walk bs e (ls @ [l]) l" using that by (auto simp: preds_iff [OF distinct] intro: walk_next)
      with d that(1) show ?thesis by (auto simp: on_every_path_def)
    qed
    then show "d \<in> transfer (preds bs R) (path_doms bs e) l"
      by (cases "d = l") (auto simp: transfer_def on_every_path_def)
  qed
  ultimately show ?thesis by (simp add: below_def)
qed

lemma solution_sound:
  assumes distinct: "distinct (map bb_label bs)" and R: "R = reachable_from bs e"
    and "\<forall>l \<in> R. solves_at (preds bs R) e D l" "doms_at D e = {e}" "walk bs e ls l"
  shows "doms_at D l \<subseteq> set ls"
  using assms(5)
proof induction
  case walk_entry
  then show ?case using assms(4) by simp
next
  case (walk_next ls p l)
  have l: "l \<in> R" "p \<in> R" using walk_next by (auto simp: R reachable_from_def intro: walk.walk_next)
  show ?case
  proof (cases "l = e")
    case True
    then show ?thesis using assms(4) by simp
  next
    case False
    then have "doms_at D l = transfer (preds bs R) (doms_at D) l" using bspec [OF assms(3) l(1)] False unfolding solves_at_def by blast
    also have "\<dots> \<subseteq> insert l (doms_at D p)"
      using l walk_next by (auto simp: transfer_def preds_iff [OF distinct])
    finally show ?thesis using walk_next by auto
  qed
qed

lemma dominators_exact:
  assumes distinct: "distinct (map bb_label bs)" and R: "R = reachable_from bs e"
  shows "\<exists>D. dom_iterate (preds bs R) e (reverse_postorder bs e) (initial_dominators R e) = Some D \<and>
     dom D = R \<and> (\<forall>l \<in> R. doms_at D l = path_doms bs e l)"
proof -
  obtain D where D: "dom_iterate (preds bs R) e (reverse_postorder bs e) (initial_dominators R e) = Some D"
    "dom_inv (preds bs R) e R (path_doms bs e) D" "\<forall>l \<in> R. solves_at (preds bs R) e D l"
    using dom_iterate_solution [OF graph_of_blocks [OF assms] path_doms_below [OF assms]] by blast
  have "doms_at D e = {e}" using D(2) by (simp add: dom_inv_def)
  from solution_sound [OF assms D(3) this] have "doms_at D l \<subseteq> path_doms bs e l" for l
    unfolding on_every_path_def by blast
  moreover have "dom D = R" "\<forall>l \<in> R. path_doms bs e l \<subseteq> doms_at D l" using D(2) by (simp_all add: dom_inv_def)
  ultimately have "\<forall>l \<in> R. doms_at D l = path_doms bs e l" by blast
  with D(1) \<open>dom D = R\<close> show ?thesis by blast
qed

section \<open>Definitions and uses\<close>

definition defines_value :: "BasicBlock \<Rightarrow> string \<Rightarrow> bool" where
  "defines_value b v \<longleftrightarrow> v \<noteq> [] \<and> v \<in> in_result ` set (bb_instructions b)"

lemma block_defs_at: "block_defs b m v = (if defines_value b v then Some (bb_label b) else m v)"
proof -
  have "fold (\<lambda>i defs. if in_result i \<noteq> [] then defs(in_result i \<mapsto> l) else defs) is m v =
      (if v \<noteq> [] \<and> v \<in> in_result ` set is then Some l else m v)" for "is" and l :: string and m
    by (induction "is" arbitrary: m) auto
  then show ?thesis unfolding block_defs_def defines_value_def by blast
qed

lemma fold_block_defs:
  "fold block_defs bs m v = Some l \<Longrightarrow> (\<exists>b \<in> set bs. defines_value b v \<and> bb_label b = l) \<or> m v = Some l"
  "b \<in> set bs \<Longrightarrow> defines_value b v \<Longrightarrow> fold block_defs bs m v \<noteq> None"
  "m v \<noteq> None \<Longrightarrow> fold block_defs bs m v \<noteq> None"
proof (induction bs arbitrary: m)
  case (Cons x xs)
  {
    case 1
    then show ?case using Cons.IH(1) [of "block_defs x m"] by (auto simp: block_defs_at split: if_splits)
  next
    case 2
    then show ?case using Cons.IH(2,3) [of "block_defs x m"] by (auto simp: block_defs_at split: if_splits)
  next
    case 3
    then show ?case using Cons.IH(3) [of "block_defs x m"] by (simp add: block_defs_at split: if_splits)
  }
qed auto

lemma value_defs_unique:
  assumes "b \<in> set bs" "bb_label b \<in> R" "defines_value b v"
    and "\<And>b'. b' \<in> set bs \<Longrightarrow> bb_label b' \<in> R \<Longrightarrow> defines_value b' v \<Longrightarrow> bb_label b' = bb_label b"
  shows "value_defs bs R v = Some (bb_label b)"
proof -
  let ?bs = "filter (\<lambda>b. bb_label b \<in> R) bs"
  have "b \<in> set ?bs" using assms(1,2) by simp
  from fold_block_defs(2) [OF this assms(3), of Map.empty] obtain l where "fold block_defs ?bs Map.empty v = Some l"
    by auto
  with fold_block_defs(1) [OF this] assms(4) show ?thesis by (auto simp: value_defs_def)
qed

lemma dominance_checked:
  assumes ok: "fl_ok (ValidateFunctionStructure f)" and R: "R = fl_reachable_blocks (ValidateFunctionStructure f)"
    and e: "e = bb_label (hd (mf_blocks f))"
  shows "\<exists>reports. ValidateFunctionDominance f R = Some reports \<and>
    (reports = [] \<longleftrightarrow> (\<forall>b \<in> set (mf_blocks f). bb_label b \<in> R \<longrightarrow>
      (\<forall>v \<in> set (uses_of b). \<forall>d. value_defs (mf_blocks f) R v = Some d \<longrightarrow>
         on_every_path (mf_blocks f) e d (bb_label b))))"
proof -
  let ?bs = "mf_blocks f" and ?defs = "value_defs (mf_blocks f) R"
  obtain entry rest where f: "?bs = entry # rest" "distinct (map bb_label ?bs)" and Re: "R = reachable_from ?bs e"
    using structure_ok [OF ok] R e by (metis list.sel(1))
  obtain D where D: "dom_iterate (preds ?bs R) e (reverse_postorder ?bs e) (initial_dominators R e) = Some D"
    "\<forall>l \<in> R. doms_at D l = path_doms ?bs e l"
    using dominators_exact [OF f(2) Re] by blast
  let ?rs = "concat (map (\<lambda>b. concat (map (check_operand_dominance (mf_name f) ?defs D (bb_label b)) (uses_of b)))
    (filter (\<lambda>b. bb_label b \<in> R) ?bs))"
  have dom: "dominates D d l \<longleftrightarrow> on_every_path ?bs e d l" if "l \<in> R" for d l
  proof -
    have "dominates D d l \<longleftrightarrow> d = l \<or> d \<in> doms_at D l" by (simp add: dominates_def doms_at_def split: option.split)
    also have "\<dots> \<longleftrightarrow> on_every_path ?bs e d l" using D(2) that walk_last by (auto simp: on_every_path_def)
    finally show ?thesis .
  qed
  have "ValidateFunctionDominance f R = Some ?rs"
    using D(1) f(1) e by (simp add: ValidateFunctionDominance_def Let_def)
  moreover have one: "check_operand_dominance (mf_name f) ?defs D l v = [] \<longleftrightarrow>
      (\<forall>d. ?defs v = Some d \<longrightarrow> on_every_path ?bs e d l)" if "l \<in> R" for l v
    using dom [OF that] by (auto simp: check_operand_dominance_def complain_def split: option.split)
  have "?rs = [] \<longleftrightarrow> (\<forall>b \<in> set ?bs. bb_label b \<in> R \<longrightarrow>
      (\<forall>v \<in> set (uses_of b). \<forall>d. ?defs v = Some d \<longrightarrow> on_every_path ?bs e d (bb_label b)))"
    using one by (auto simp: concat_eq_Nil_conv)
  ultimately show ?thesis by blast
qed

end
