(* ===== verification/MC_MciText.thy ===== *)
theory MC_MciText
  imports MC_Support
begin

text \<open>
  The text layer of interface files (first part of \<open>compiler/mci/mci.cpp\<close>): escaped texts and lists of
  them, flags, numbers and length-prefixed texts; each reader undoes its writer.
\<close>

section \<open>Splitting\<close>

fun split_on :: "char \<Rightarrow> string \<Rightarrow> string \<Rightarrow> string list" where
  "split_on sep [] current = [current]"
| "split_on sep (ch # chs) current =
     (if ch = sep then current # split_on sep chs [] else split_on sep chs (current @ [ch]))"

definition SplitFields :: "string \<Rightarrow> string list" where
  "SplitFields line = split_on tab_char line []"

definition getlines :: "char \<Rightarrow> string \<Rightarrow> string list" where
  \<comment> \<open>The loop \<open>while (std::getline(input, part, sep))\<close>: nothing follows the last separator.\<close>
  "getlines sep text = (let parts = split_on sep text [] in if last parts = [] then butlast parts else parts)"

lemma split_on_neq_Nil [simp]: "split_on sep cs current \<noteq> []"
  by (induction cs arbitrary: current) auto

lemma split_on_append:
  "sep \<notin> set x \<Longrightarrow> split_on sep (x @ sep # text) current = (current @ x) # split_on sep text []"
  by (induction x arbitrary: current) auto

lemma split_on_last: "sep \<notin> set x \<Longrightarrow> split_on sep x current = [current @ x]"
  by (induction x arbitrary: current) auto

lemma split_on_join:
  "\<forall>x \<in> set xs. sep \<notin> set x \<Longrightarrow> split_on sep (join_with [sep] xs) [] = (if xs = [] then [[]] else xs)"
  by (induction "[sep]" xs rule: join_with.induct) (auto simp: split_on_last split_on_append)

lemma getlines_concat:
  "\<forall>x \<in> set xs. sep \<notin> set x \<Longrightarrow> getlines sep (concat (map (\<lambda>x. x @ [sep]) xs)) = xs"
proof (induction xs)
  case (Cons x xs)
  then have "getlines sep (concat (map (\<lambda>x. x @ [sep]) xs)) = xs" by simp
  with Cons.prems show ?case by (auto simp: getlines_def Let_def split_on_append split: if_splits)
qed (simp add: getlines_def)

lemma getlines_join:
  assumes "\<forall>x \<in> set xs. sep \<notin> set x \<and> x \<noteq> []"
  shows "getlines sep (join_with [sep] xs) = xs"
  using split_on_join [of xs sep] assms by (auto simp: getlines_def Let_def)

section \<open>Escaped text\<close>

definition escape_char :: "char \<Rightarrow> string" where
  "escape_char ch =
     (if ch = backslash_char then [backslash_char, backslash_char]
      else if ch = tab_char then [backslash_char, CHR ''t'']
      else if ch = newline_char then [backslash_char, CHR ''n'']
      else if ch = CHR '';'' then [backslash_char, CHR '';'']
      else [ch])"

definition EscapeText :: "string \<Rightarrow> string" where
  "EscapeText text = concat (map escape_char text)"

definition unescape_char :: "char \<Rightarrow> char option" where
  "unescape_char ch =
     (if ch = backslash_char then Some backslash_char
      else if ch = CHR ''t'' then Some tab_char
      else if ch = CHR ''n'' then Some newline_char
      else if ch = CHR '';'' then Some (CHR '';'')
      else None)"

fun UnescapeText_loop :: "string \<Rightarrow> bool \<Rightarrow> string \<Rightarrow> string option" where
  "UnescapeText_loop [] escape output = (if escape then None else Some output)"
| "UnescapeText_loop (ch # chs) escape output =
     (if \<not> escape
      then if ch = backslash_char then UnescapeText_loop chs True output
           else UnescapeText_loop chs False (output @ [ch])
      else case unescape_char ch of
          None \<Rightarrow> None
        | Some c \<Rightarrow> UnescapeText_loop chs False (output @ [c]))"

definition UnescapeText :: "string \<Rightarrow> string option" where
  "UnescapeText text = UnescapeText_loop text False []"

definition JoinEscaped :: "string list \<Rightarrow> string" where
  "JoinEscaped values = join_with '';'' (map EscapeText values)"

fun SplitEscaped_loop :: "string \<Rightarrow> bool \<Rightarrow> string \<Rightarrow> string list \<Rightarrow> (string \<times> string list) option" where
  "SplitEscaped_loop [] escape current found = (if escape then None else Some (current, found))"
| "SplitEscaped_loop (ch # chs) escape current found =
     (if escape
      then case unescape_char ch of
          None \<Rightarrow> None
        | Some c \<Rightarrow> SplitEscaped_loop chs False (current @ [c]) found
      else if ch = backslash_char then SplitEscaped_loop chs True current found
      else if ch = CHR '';'' then SplitEscaped_loop chs False [] (found @ [current])
      else SplitEscaped_loop chs False (current @ [ch]) found)"

definition SplitEscaped :: "string \<Rightarrow> string list option" where
  "SplitEscaped text =
     map_option (\<lambda>(current, found). if text \<noteq> [] then found @ [current] else found)
       (SplitEscaped_loop text False [] [])"

lemma EscapeText_Nil [simp]: "EscapeText [] = []"
  by (simp add: EscapeText_def)

lemma EscapeText_Cons: "EscapeText (ch # chs) = escape_char ch @ EscapeText chs"
  by (simp add: EscapeText_def)

lemma EscapeText_eq_Nil [simp]: "EscapeText x = [] \<longleftrightarrow> x = []"
  by (cases x) (auto simp: EscapeText_Cons escape_char_def)

lemma EscapeText_plain: "tab_char \<notin> set (EscapeText x)" "newline_char \<notin> set (EscapeText x)"
  by (induction x) (auto simp: EscapeText_Cons escape_char_def)

lemma UnescapeText_loop_escaped:
  "UnescapeText_loop (EscapeText x @ rest) False acc = UnescapeText_loop rest False (acc @ x)"
  by (induction x arbitrary: acc) (auto simp: EscapeText_Cons escape_char_def unescape_char_def)

lemma UnescapeText_EscapeText [simp]: "UnescapeText (EscapeText x) = Some x"
  using UnescapeText_loop_escaped [of x "[]" "[]"] by (simp add: UnescapeText_def)

lemma SplitEscaped_loop_escaped:
  "SplitEscaped_loop (EscapeText x @ rest) False current found =
     SplitEscaped_loop rest False (current @ x) found"
  by (induction x arbitrary: current) (auto simp: EscapeText_Cons escape_char_def unescape_char_def)

lemma SplitEscaped_loop_joined:
  "xs \<noteq> [] \<Longrightarrow> SplitEscaped_loop (join_with '';'' (map EscapeText xs)) False [] found =
     Some (last xs, found @ butlast xs)"
proof (induction xs arbitrary: found)
  case (Cons x xs)
  show ?case
  proof (cases xs)
    case Nil
    then show ?thesis using SplitEscaped_loop_escaped [of x "[]"] by simp
  next
    case (Cons y ys)
    with Cons.IH show ?thesis by (simp add: SplitEscaped_loop_escaped)
  qed
qed simp

lemma JoinEscaped_eq_Nil: "JoinEscaped xs = [] \<longleftrightarrow> xs = [] \<or> xs = [[]]"
  by (cases xs rule: remdups_adj.cases) (auto simp: JoinEscaped_def)

lemma SplitEscaped_JoinEscaped: "SplitEscaped (JoinEscaped xs) = Some (if xs = [[]] then [] else xs)"
proof (cases "JoinEscaped xs = []")
  case True
  then have "xs = [] \<or> xs = [[]]" by (simp add: JoinEscaped_eq_Nil)
  then show ?thesis by (auto simp: SplitEscaped_def JoinEscaped_def)
next
  case False
  then have "xs \<noteq> []" "xs \<noteq> [[]]" by (auto simp: JoinEscaped_eq_Nil)
  then show ?thesis
    using False SplitEscaped_loop_joined [of xs "[]"] by (simp add: SplitEscaped_def JoinEscaped_def)
qed

lemma set_join_with: "set (join_with sep xs) \<subseteq> set sep \<union> (\<Union>x \<in> set xs. set x)"
  by (induction sep xs rule: join_with.induct) auto

lemma JoinEscaped_plain: "tab_char \<notin> set (JoinEscaped xs)" "newline_char \<notin> set (JoinEscaped xs)"
  using set_join_with [of "'';''" "map EscapeText xs"] EscapeText_plain by (auto simp: JoinEscaped_def)

section \<open>Flags\<close>

definition ParseBoolField :: "string \<Rightarrow> bool option" where
  "ParseBoolField text = (if text = ''0'' then Some False else if text = ''1'' then Some True else None)"

definition flag_text :: "bool \<Rightarrow> string" where
  "flag_text b = (if b then ''1'' else ''0'')"

definition JoinBoolFlags :: "bool list \<Rightarrow> string" where
  "JoinBoolFlags values = join_with '';'' (map flag_text values)"

definition ParseBoolFlags :: "string \<Rightarrow> bool list option" where
  "ParseBoolFlags text = (if text = [] then Some [] else those (map ParseBoolField (split_on (CHR '';'') text [])))"

definition SplitBoolFlags :: "string \<Rightarrow> bool list option" where
  "SplitBoolFlags text = Option.bind (SplitEscaped text) (\<lambda>values. those (map ParseBoolField values))"

lemma ParseBoolField_flag [simp]: "ParseBoolField (flag_text b) = Some b"
  by (simp add: ParseBoolField_def flag_text_def)

lemma those_map_inverse: "(\<And>x. x \<in> set xs \<Longrightarrow> g (f x) = Some x) \<Longrightarrow> those (map g (map f xs)) = Some xs"
  by (induction xs) auto

lemma JoinBoolFlags_escaped: "JoinBoolFlags bs = JoinEscaped (map flag_text bs)"
proof -
  have "EscapeText (flag_text b) = flag_text b" for b
    by (simp add: flag_text_def EscapeText_def escape_char_def)
  then show ?thesis by (simp add: JoinBoolFlags_def JoinEscaped_def comp_def)
qed

lemma SplitBoolFlags_Join [simp]: "SplitBoolFlags (JoinBoolFlags bs) = Some bs"
proof -
  have "map flag_text bs \<noteq> [[]]" by (auto simp: flag_text_def map_eq_Cons_conv)
  then show ?thesis
    using those_map_inverse [of bs ParseBoolField flag_text]
    by (simp add: SplitBoolFlags_def JoinBoolFlags_escaped SplitEscaped_JoinEscaped)
qed

lemma flag_text_no_separator: "CHR '';'' \<notin> set (flag_text b)"
  by (simp add: flag_text_def)

lemma ParseBoolFlags_Join [simp]: "ParseBoolFlags (JoinBoolFlags bs) = Some bs"
proof (cases "bs = []")
  case False
  then have "JoinBoolFlags bs \<noteq> []" by (cases bs rule: remdups_adj.cases) (auto simp: JoinBoolFlags_def flag_text_def)
  moreover have "split_on (CHR '';'') (JoinBoolFlags bs) [] = map flag_text bs"
    using split_on_join [of "map flag_text bs" "CHR '';''"] False flag_text_no_separator
    by (simp add: JoinBoolFlags_def)
  ultimately show ?thesis
    using those_map_inverse [of bs ParseBoolField flag_text] by (simp add: ParseBoolFlags_def)
qed (simp add: ParseBoolFlags_def JoinBoolFlags_def)

lemma JoinBoolFlags_plain: "tab_char \<notin> set (JoinBoolFlags bs)" "newline_char \<notin> set (JoinBoolFlags bs)"
  by (simp_all add: JoinBoolFlags_escaped JoinEscaped_plain)

section \<open>Numbers\<close>

definition JoinEscapedPaths :: "size64 list \<Rightarrow> string" where
  "JoinEscapedPaths values = join_with '';'' (map (\<lambda>v. string_of_nat (unat v)) values)"

definition SplitOffsets :: "string \<Rightarrow> size64 list option" where
  "SplitOffsets text = (if text = [] then Some [] else those (map ParseArrayLength (getlines (CHR '';'') text)))"

definition ParseInt64 :: "string \<Rightarrow> int64 option" where
  \<comment> \<open>\<open>std::from_chars\<close> in base ten: an optional minus sign and digits, within the range of the type.\<close>
  "ParseInt64 text =
     (let negative = text \<noteq> [] \<and> hd text = CHR ''-'';
          digits = (if negative then tl text else text);
          value = (if negative then - int (decimal_value digits) else int (decimal_value digits))
      in if digits = [] \<or> \<not> list_all is_digit_char digits then None
         else if value < - (2 ^ 63) \<or> 2 ^ 63 \<le> value then None
         else Some (word_of_int value))"

definition ParseFloat64 :: "(string \<Rightarrow> (double \<times> bool) option) \<Rightarrow> string \<Rightarrow> double option" where
  "ParseFloat64 stream_double text =
     (case stream_double text of
        None \<Rightarrow> None
      | Some (value, at_end) \<Rightarrow> if at_end then Some value else None)"

lemma digits_not: "is_digit_char c \<Longrightarrow> c \<notin> {tab_char, newline_char, CHR '';'', CHR '':'', CHR ''-''}"
  by (auto simp: is_digit_char_def char_code_def)

lemma string_of_nat_not:
  "{tab_char, newline_char, CHR '';'', CHR '':'', CHR ''-''} \<inter> set (string_of_nat n) = {}"
  using string_of_nat_digits [of n] digits_not by blast

lemma JoinEscapedPaths_plain: "tab_char \<notin> set (JoinEscapedPaths vs)" "newline_char \<notin> set (JoinEscapedPaths vs)"
proof -
  have "tab_char \<notin> set (string_of_nat n) \<and> newline_char \<notin> set (string_of_nat n)" for n
    using string_of_nat_not [of n] by simp
  then show "tab_char \<notin> set (JoinEscapedPaths vs)" "newline_char \<notin> set (JoinEscapedPaths vs)"
    using set_join_with [of "'';''" "map (\<lambda>v. string_of_nat (unat v)) vs"] by (auto simp: JoinEscapedPaths_def)
qed

lemma SplitOffsets_Join [simp]: "SplitOffsets (JoinEscapedPaths vs) = Some vs"
proof (cases "vs = []")
  case False
  have "getlines (CHR '';'') (JoinEscapedPaths vs) = map (\<lambda>v. string_of_nat (unat v)) vs"
    unfolding JoinEscapedPaths_def by (rule getlines_join) (use string_of_nat_not in simp)
  moreover have "JoinEscapedPaths vs \<noteq> []"
    using False by (cases vs rule: remdups_adj.cases) (auto simp: JoinEscapedPaths_def)
  ultimately show ?thesis
    using those_map_inverse [of vs ParseArrayLength "\<lambda>v. string_of_nat (unat v)"] by (simp add: SplitOffsets_def)
qed (simp add: SplitOffsets_def JoinEscapedPaths_def)

lemma ParseInt64_string_of_int [simp]: "ParseInt64 (string_of_int (sint v)) = Some v"
proof -
  have range: "- (2 ^ 63) \<le> sint v" "sint v < 2 ^ 63"
    using sint_range_size [of v] by (simp_all add: word_size)
  have digits: "list_all is_digit_char (string_of_nat n)" for n
    using string_of_nat_digits [of n] by (simp add: list_all_iff)
  have first: "hd (string_of_nat n) \<noteq> CHR ''-''" for n
    using string_of_nat_not [of n] hd_in_set [OF string_of_nat_neq_Nil [of n]] by force
  show ?thesis
    using range digits first by (auto simp: ParseInt64_def string_of_int_def Let_def)
qed

section \<open>Length-prefixed text\<close>

definition AppendLengthPrefixed :: "string \<Rightarrow> string \<Rightarrow> string" where
  "AppendLengthPrefixed output value = output @ string_of_nat (length value) @ '':'' @ value"

definition ParseLengthPrefix :: "string \<Rightarrow> (size64 \<times> string) option" where
  "ParseLengthPrefix text =
     (let before = takeWhile (\<lambda>ch. ch \<noteq> CHR '':'') text in
      if before = text then None
      else map_option (\<lambda>parsed. (parsed, drop (length before + 1) text)) (ParseArrayLength before))"

definition ConsumeLengthPrefixed :: "string \<Rightarrow> (string \<times> string) option" where
  "ConsumeLengthPrefixed text =
     (case ParseLengthPrefix text of
        None \<Rightarrow> None
      | Some (len, rest) \<Rightarrow>
          if length rest < unat len then None else Some (take (unat len) rest, drop (unat len) rest))"

lemma ParseLengthPrefix_number [simp]:
  "ParseLengthPrefix (string_of_nat n @ CHR '':'' # rest) = Some (of_nat n, rest)"
proof -
  have "takeWhile (\<lambda>ch. ch \<noteq> CHR '':'') (string_of_nat n @ CHR '':'' # rest) = string_of_nat n"
    using string_of_nat_not [of n] by (subst takeWhile_append2) auto
  then show ?thesis by (simp add: ParseLengthPrefix_def Let_def)
qed

lemma ConsumeLengthPrefixed_Append [simp]:
  assumes "length x < 2 ^ 64"
  shows "ConsumeLengthPrefixed (string_of_nat (length x) @ CHR '':'' # x @ rest) = Some (x, rest)"
proof -
  have "unat (of_nat (length x) :: size64) = length x"
    using assms by (simp add: unat_of_nat)
  then show ?thesis by (simp add: ConsumeLengthPrefixed_def)
qed

lemma ParseLengthPrefix_shorter: "ParseLengthPrefix cs = Some (n, rest) \<Longrightarrow> length rest < length cs"
proof -
  assume *: "ParseLengthPrefix cs = Some (n, rest)"
  then have rest: "rest = drop (length (takeWhile (\<lambda>ch. ch \<noteq> CHR '':'') cs) + 1) cs" and "cs \<noteq> []"
    by (auto simp: ParseLengthPrefix_def Let_def split: if_splits)
  then show ?thesis by (cases cs) auto
qed

lemma ConsumeLengthPrefixed_shorter:
  "ConsumeLengthPrefixed text = Some (x, rest) \<Longrightarrow> length x + length rest < length text"
  by (auto simp: ConsumeLengthPrefixed_def dest!: ParseLengthPrefix_shorter split: option.splits if_splits)

end
