(* ===== verification/MC_MciType.thy ===== *)
theory MC_MciType
  imports MC_MciText MC_TypeSpec
begin

text \<open>
  The class \<open>TypeParser\<close> of \<open>compiler/mci/mci.cpp\<close>, which reads back the text that \<open>FormatType\<close> gives
  a type. The members \<open>text_\<close> and \<open>index_\<close> are the text from the index on. A parser's result is the
  value and the text after it, \<open>None\<close> for \<open>nullopt\<close>; after that the text does not matter, since every
  caller gives up. The outer option is the fuel of the recursion.
\<close>

section \<open>The parser\<close>

type_synonym 'a type_parse = "('a \<times> string) option option"

definition tp_return :: "'a \<Rightarrow> string \<Rightarrow> 'a type_parse" where
  "tp_return x s = Some (Some (x, s))"

definition tp_fail :: "'a type_parse" where
  "tp_fail = Some None"

definition tp_bind :: "'a type_parse \<Rightarrow> ('a \<Rightarrow> string \<Rightarrow> 'b type_parse) \<Rightarrow> 'b type_parse" where
  \<comment> \<open>\<open>if (!x.has_value()) return std::nullopt;\<close>\<close>
  "tp_bind p f = (case p of None \<Rightarrow> None | Some None \<Rightarrow> Some None | Some (Some (x, s)) \<Rightarrow> f x s)"

definition tp_SkipWhitespace :: "string \<Rightarrow> string" where
  "tp_SkipWhitespace s = dropWhile (\<lambda>ch. ch = CHR '' '' \<or> ch = tab_char) s"

definition tp_Consume :: "string \<Rightarrow> string \<Rightarrow> bool \<times> string" where
  "tp_Consume token s =
     (let s = tp_SkipWhitespace s in
      if take (length token) s \<noteq> token then (False, s) else (True, drop (length token) s))"

definition is_type_name_char :: "char \<Rightarrow> bool" where
  "is_type_name_char ch \<longleftrightarrow> is_alnum_char ch \<or> ch = CHR ''_'' \<or> ch = CHR ''.''"

definition tp_ParseIdentifier :: "string \<Rightarrow> (string \<times> string) option" where
  "tp_ParseIdentifier s =
     (let s = tp_SkipWhitespace s; name = takeWhile is_type_name_char s in
      if name = [] then None else Some (name, dropWhile is_type_name_char s))"

definition builtin_type_texts :: "(string \<times> Type) list" where
  "builtin_type_texts =
     [(''unknown'', UnknownType), (''void'', VoidType), (''bool'', BoolType), (''string'', StringType),
      (''nil'', NilType), (''int_literal'', IntLiteralType), (''float_literal'', FloatLiteralType)]"

definition tp_ParseNamedOrBuiltin ::
  "(string \<Rightarrow> Type type_parse) \<Rightarrow> (string \<Rightarrow> string \<Rightarrow> Type list type_parse) \<Rightarrow> string \<Rightarrow> Type type_parse" where
  "tp_ParseNamedOrBuiltin ParseType ParseList s =
     (case tp_ParseIdentifier s of
        None \<Rightarrow> tp_fail
      | Some (name, s) \<Rightarrow>
        (case map_of builtin_type_texts name of
           Some t \<Rightarrow> tp_return t s
         | None \<Rightarrow>
           (let (is_tuple, s) = (if name = ''tuple'' then tp_Consume ''<'' s else (False, s)) in
            if is_tuple
            then (case tp_Consume ''>'' s of
                    (True, s) \<Rightarrow> tp_return (TupleType []) s
                  | (False, s) \<Rightarrow> tp_bind (ParseList ''>'' s) (\<lambda>elements. tp_return (TupleType elements)))
            else
              (let (is_range, s) = (if name = ''range'' then tp_Consume ''<'' s else (False, s)) in
               if is_range
               then tp_bind (ParseType s) (\<lambda>element s.
                 case tp_Consume ''>'' s of
                   (True, s) \<Rightarrow> tp_return (RangeType element) s
                 | (False, s) \<Rightarrow> tp_fail)
               else case tp_Consume ''<'' s of
                   (False, s) \<Rightarrow> tp_return (NamedType name) s
                 | (True, s) \<Rightarrow> tp_bind (ParseList ''>'' s) (\<lambda>args. tp_return (mk_Type Ty_kNamed name [] args))))))"

definition procedure_returns :: "Type \<Rightarrow> Type list" where
  "procedure_returns return_type =
     (if ty_kind return_type = Ty_kVoid then []
      else if ty_kind return_type = Ty_kTuple then ty_subtypes return_type
      else [return_type])"

definition tp_ParseProcedure ::
  "(string \<Rightarrow> Type type_parse) \<Rightarrow> (string \<Rightarrow> string \<Rightarrow> Type list type_parse) \<Rightarrow> string \<Rightarrow> Type type_parse" where
  "tp_ParseProcedure ParseType ParseList s =
     (case tp_Consume ''proc'' s of
        (False, s) \<Rightarrow> tp_fail
      | (True, s) \<Rightarrow>
        (case tp_Consume ''('' s of
           (False, s) \<Rightarrow> tp_fail
         | (True, s) \<Rightarrow>
           tp_bind (case tp_Consume '')'' s of (True, s) \<Rightarrow> tp_return [] s | (False, s) \<Rightarrow> ParseList '')'' s)
             (\<lambda>params s.
                case tp_Consume ''->'' s of
                  (False, s) \<Rightarrow> tp_fail
                | (True, s) \<Rightarrow> tp_bind (ParseType s) (\<lambda>return_type.
                    tp_return (ProcedureType params (procedure_returns return_type))))))"

text \<open>\<open>tp_ParseList\<close> is the loop over elements, up to the closing bracket, of the three parsers of lists.\<close>

fun tp_ParseType :: "nat \<Rightarrow> string \<Rightarrow> Type type_parse"
  and tp_ParseList :: "nat \<Rightarrow> string \<Rightarrow> string \<Rightarrow> Type list type_parse" where
  "tp_ParseType 0 s = None"
| "tp_ParseType (Suc n) s =
     (case tp_Consume ''*'' (tp_SkipWhitespace s) of
        (True, s) \<Rightarrow> tp_bind (tp_ParseType n s) (\<lambda>inner. tp_return (PointerType inner))
      | (False, s) \<Rightarrow>
     (case tp_Consume ''const'' s of
        (True, s) \<Rightarrow> tp_bind (tp_ParseType n s) (\<lambda>inner. tp_return (ConstType inner))
      | (False, s) \<Rightarrow>
     (case tp_Consume ''['' s of
        (True, s) \<Rightarrow>
          (let len = takeWhile (\<lambda>ch. ch \<noteq> CHR '']'') s; s = dropWhile (\<lambda>ch. ch \<noteq> CHR '']'') s in
           if s = [] then tp_fail
           else tp_bind (tp_ParseType n (tl s)) (\<lambda>inner. tp_return (ArrayType inner len)))
      | (False, s) \<Rightarrow>
          if take 4 s = ''proc'' then tp_ParseProcedure (tp_ParseType n) (tp_ParseList n) s
          else tp_ParseNamedOrBuiltin (tp_ParseType n) (tp_ParseList n) s)))"
| "tp_ParseList 0 close s = None"
| "tp_ParseList (Suc n) close s =
     tp_bind (tp_ParseType n s) (\<lambda>element s.
       case tp_Consume close s of
         (True, s) \<Rightarrow> tp_return [element] s
       | (False, s) \<Rightarrow>
         (case tp_Consume '','' s of
            (False, s) \<Rightarrow> tp_fail
          | (True, s) \<Rightarrow> tp_bind (tp_ParseList n close s) (\<lambda>elements. tp_return (element # elements))))"

definition ParseTypeText :: "string \<Rightarrow> Type option" where
  "ParseTypeText text =
     (case tp_ParseType (2 * length text + 1) text of
        Some (Some (t, s)) \<Rightarrow> if tp_SkipWhitespace s = [] then Some t else None
      | _ \<Rightarrow> None)"

end
