(* ===== verification/MC_MciConst.thy ===== *)
theory MC_MciConst
  imports MC_MciType MC_ConstEval
begin

text \<open>
  Constant values in interface files (\<open>compiler/mci/mci.cpp\<close>): their text and its reader. The readers
  have two options: the outer one is \<open>None\<close> when the program stops, because \<open>reserve\<close> throws for a
  count above \<open>vmax\<close>, the largest that the containers can hold, or because a null is dereferenced; the inner
  one is the \<open>std::optional\<close> of the source.
\<close>

section \<open>Writing\<close>

fun append_children :: "string \<Rightarrow> string list \<Rightarrow> string list \<Rightarrow> string" where
  \<comment> \<open>The loop over the elements; a name that is missing is written as the empty text.\<close>
  "append_children encoded names [] = encoded"
| "append_children encoded [] (child # children) =
     append_children (AppendLengthPrefixed (AppendLengthPrefixed encoded []) child) [] children"
| "append_children encoded (name # names) (child # children) =
     append_children (AppendLengthPrefixed (AppendLengthPrefixed encoded name) child) names children"

primrec SerializeConstValue_some :: "ConstValue \<Rightarrow> string option" where
  "SerializeConstValue_some (mk_ConstValue kind integer_value float_value bool_value txt procedure_name enum_type
      variant_name variant_tag field_names elements) =
     (let children = map SerializeConstValue_some elements in
      case kind of
        CK_kBool \<Rightarrow> Some (''b:'' @ (if bool_value then ''1'' else ''0''))
      | CK_kInteger \<Rightarrow> Some (''i:'' @ string_of_int (sint integer_value))
      | CK_kFloat \<Rightarrow> Some (''f:'' @ txt)
      | CK_kString \<Rightarrow> Some (''s:'' @ txt)
      | CK_kNil \<Rightarrow> Some ''n:''
      | CK_kProcedure \<Rightarrow> Some (AppendLengthPrefixed ''p:'' procedure_name)
      | CK_kEnum \<Rightarrow> do {
          type_text \<leftarrow> FormatType enum_type;
          children \<leftarrow> those children;
          Some (append_children
            (AppendLengthPrefixed (AppendLengthPrefixed ''e:'' type_text) variant_name
              @ string_of_int (sint variant_tag) @ '':'' @ string_of_nat (length elements) @ '':'')
            field_names children) }
      | CK_kAggregate \<Rightarrow>
          map_option (append_children (''a:'' @ string_of_nat (length elements) @ '':'') field_names) (those children))"

definition SerializeConstValue :: "ConstValue option \<Rightarrow> string option" where
  "SerializeConstValue v = (case v of None \<Rightarrow> Some [] | Some v \<Rightarrow> SerializeConstValue_some v)"

definition JoinConstValues :: "ConstValue option list \<Rightarrow> string option" where
  "JoinConstValues values = map_option JoinEscaped (those (map SerializeConstValue values))"

section \<open>Reading\<close>

definition opt_bind :: "'a option option \<Rightarrow> ('a \<Rightarrow> 'b option option) \<Rightarrow> 'b option option" where
  \<comment> \<open>\<open>if (!x.has_value()) return std::nullopt;\<close>, and the program may stop before.\<close>
  "opt_bind p f = (case p of None \<Rightarrow> None | Some None \<Rightarrow> Some None | Some (Some x) \<Rightarrow> f x)"

primrec parse_children ::
  "(string \<Rightarrow> ConstValue option option) \<Rightarrow> nat \<Rightarrow> string \<Rightarrow> ((string \<times> ConstValue) list \<times> string) option option" where
  "parse_children parse 0 payload = Some (Some ([], payload))"
| "parse_children parse (Suc n) payload =
     opt_bind (Some (ConsumeLengthPrefixed payload)) (\<lambda>(field_name, payload).
     opt_bind (Some (ConsumeLengthPrefixed payload)) (\<lambda>(child_text, payload).
     opt_bind (parse child_text) (\<lambda>child.
     opt_bind (parse_children parse n payload) (\<lambda>(children, payload).
       Some (Some ((field_name, child) # children, payload))))))"

definition reserve :: "nat \<Rightarrow> size64 \<Rightarrow> 'a option option \<Rightarrow> 'a option option" where
  "reserve vmax count result = (if vmax < unat count then None else result)"

definition parse_elements ::
  "nat \<Rightarrow> double_ops \<Rightarrow> (string \<Rightarrow> ConstValue option option) \<Rightarrow> size64 \<Rightarrow> string \<Rightarrow> (string list \<Rightarrow> ConstValue list \<Rightarrow> ConstValue) \<Rightarrow>
     ConstValue option option" where
  \<comment> \<open>The last part of the cases \<open>'e'\<close> and \<open>'a'\<close>.\<close>
  "parse_elements vmax fp parse field_count payload build =
     reserve vmax field_count
       (opt_bind (parse_children parse (unat field_count) payload) (\<lambda>(children, payload).
          if payload \<noteq> [] then Some None
          else map_option Some (with_text fp (build (map fst children) (map snd children)))))"

definition parse_const_body ::
  "nat \<Rightarrow> double_ops \<Rightarrow> (string \<Rightarrow> (double \<times> bool) option) \<Rightarrow> (string \<Rightarrow> ConstValue option option) \<Rightarrow> string \<Rightarrow>
     ConstValue option option" where
  "parse_const_body vmax fp stream_double parse text =
     (if length text < 2 \<or> text ! 1 \<noteq> CHR '':'' then Some None
      else let tag = text ! 0; payload = drop 2 text in
        if tag = CHR ''b'' then
          (if payload \<noteq> ''0'' \<and> payload \<noteq> ''1'' then Some None
           else Some (Some (set_cv_text (if payload = ''1'' then ''true'' else ''false'')
             (set_cv_bool_value (payload = ''1'') (new_ConstValue CK_kBool)))))
        else if tag = CHR ''i'' then
          opt_bind (Some (ParseInt64 payload)) (\<lambda>v.
            Some (Some (set_cv_text (string_of_int (sint v)) (set_cv_integer_value v (new_ConstValue CK_kInteger)))))
        else if tag = CHR ''p'' then
          opt_bind (Some (ConsumeLengthPrefixed payload)) (\<lambda>(procedure_name, payload).
            if payload \<noteq> [] then Some None
            else map_option Some (with_text fp
              (mk_ConstValue CK_kProcedure 0 0 False [] procedure_name UnknownType [] 0 [] [])))
        else if tag = CHR ''f'' then
          opt_bind (Some (ParseFloat64 stream_double payload)) (\<lambda>d.
            Some (Some (set_cv_text payload (set_cv_float_value d (new_ConstValue CK_kFloat)))))
        else if tag = CHR ''s'' then Some (Some (set_cv_text payload (new_ConstValue CK_kString)))
        else if tag = CHR ''n'' then
          (if length text \<noteq> 2 then Some None else Some (Some (set_cv_text ''nil'' (new_ConstValue CK_kNil))))
        else if tag = CHR ''e'' then
          opt_bind (Some (ConsumeLengthPrefixed payload)) (\<lambda>(type_text, payload).
          opt_bind (Some (ConsumeLengthPrefixed payload)) (\<lambda>(variant_name, payload).
          opt_bind (Some (ParseLengthPrefix payload)) (\<lambda>(variant_tag, payload).
          opt_bind (Some (ParseLengthPrefix payload)) (\<lambda>(field_count, payload).
          opt_bind (Some (ParseTypeText type_text)) (\<lambda>enum_type.
            parse_elements vmax fp parse field_count payload
              (mk_ConstValue CK_kEnum 0 0 False [] [] enum_type variant_name variant_tag))))))
        else if tag = CHR ''a'' then
          opt_bind (Some (ParseLengthPrefix payload)) (\<lambda>(field_count, payload).
            parse_elements vmax fp parse field_count payload
              (mk_ConstValue CK_kAggregate 0 0 False [] [] UnknownType [] 0))
        else Some None)"

text \<open>The text of an element is shorter than that of the value it is in.\<close>

primrec ParseConstValue_fuel ::
  "nat \<Rightarrow> nat \<Rightarrow> double_ops \<Rightarrow> (string \<Rightarrow> (double \<times> bool) option) \<Rightarrow> string \<Rightarrow> ConstValue option option" where
  "ParseConstValue_fuel 0 vmax fp stream_double = (\<lambda>text. None)"
| "ParseConstValue_fuel (Suc n) vmax fp stream_double =
     parse_const_body vmax fp stream_double (ParseConstValue_fuel n vmax fp stream_double)"

definition ParseConstValue ::
  "nat \<Rightarrow> double_ops \<Rightarrow> (string \<Rightarrow> (double \<times> bool) option) \<Rightarrow> string \<Rightarrow> ConstValue option option" where
  "ParseConstValue vmax fp stream_double text = ParseConstValue_fuel (length text + 1) vmax fp stream_double text"

fun parse_values :: "(string \<Rightarrow> ConstValue option option) \<Rightarrow> string list \<Rightarrow> ConstValue option list option option" where
  "parse_values parse [] = Some (Some [])"
| "parse_values parse (value # rest) =
     (if value = [] then opt_bind (parse_values parse rest) (\<lambda>parsed. Some (Some (None # parsed)))
      else opt_bind (parse value) (\<lambda>decoded.
           opt_bind (parse_values parse rest) (\<lambda>parsed. Some (Some (Some decoded # parsed)))))"

definition ParseConstValues ::
  "nat \<Rightarrow> double_ops \<Rightarrow> (string \<Rightarrow> (double \<times> bool) option) \<Rightarrow> string \<Rightarrow> ConstValue option list option option" where
  "ParseConstValues vmax fp stream_double text =
     opt_bind (Some (SplitEscaped text)) (parse_values (ParseConstValue vmax fp stream_double))"

definition ParseLegacyConstValue ::
  "(string \<Rightarrow> (double \<times> bool) option) \<Rightarrow> Type \<Rightarrow> string \<Rightarrow> ConstValue option" where
  "ParseLegacyConstValue stream_double t text =
     (let canonical = CanonicalizeBuiltinType t in
      if ty_kind canonical = Ty_kBool then
        (if text \<noteq> ''true'' \<and> text \<noteq> ''false'' then None
         else Some (set_cv_text text (set_cv_bool_value (text = ''true'') (new_ConstValue CK_kBool))))
      else if ty_kind canonical = Ty_kString then Some (set_cv_text text (new_ConstValue CK_kString))
      else if ty_kind canonical = Ty_kNil then
        (if text \<noteq> ''nil'' then None else Some (set_cv_text ''nil'' (new_ConstValue CK_kNil)))
      else if ty_kind canonical = Ty_kNamed \<and> IsIntegerTypeName (ty_name canonical) then
        map_option (\<lambda>v. set_cv_text (string_of_int (sint v)) (set_cv_integer_value v (new_ConstValue CK_kInteger)))
          (ParseInt64 text)
      else if ty_kind canonical = Ty_kNamed \<and> IsFloatTypeName (ty_name canonical) then
        map_option (\<lambda>d. set_cv_text text (set_cv_float_value d (new_ConstValue CK_kFloat)))
          (ParseFloat64 stream_double text)
      else None)"

definition ParseLegacyConstValues ::
  "(string \<Rightarrow> (double \<times> bool) option) \<Rightarrow> Type \<Rightarrow> string \<Rightarrow> ConstValue option list option option" where
  "ParseLegacyConstValues stream_double t text =
     opt_bind (Some (SplitEscaped text)) (parse_values (\<lambda>v. Some (ParseLegacyConstValue stream_double t v)))"

end
