(* ===== verification/MC_Mci.thy ===== *)
theory MC_Mci
  imports MC_MciConst MC_Layout
begin

text \<open>
  Interface files (\<open>compiler/mci/mci.h\<close> and the rest of \<open>mci.cpp\<close>): the record \<open>InterfaceArtifact\<close>, its
  text, the hash over the text, and the loader, which reads record after record into the artifact. The
  content of a file is an argument of the loader and a result of the writer. The outer option is
  that of \<open>MC_MciConst\<close>.
\<close>

section \<open>Artifacts\<close>

record InterfaceArtifact =
  ia_format_version :: int
  ia_target_identity :: string
  ia_package_identity :: string
  ia_module_name :: string
  ia_module_kind :: ModuleKind
  ia_source_path :: path
  ia_module :: Module
  ia_interface_hash :: string

definition new_InterfaceArtifact :: InterfaceArtifact where
  "new_InterfaceArtifact =
     \<lparr>ia_format_version = 6, ia_target_identity = [], ia_package_identity = [], ia_module_name = [],
      ia_module_kind = kOrdinary, ia_source_path = [], ia_module = empty_module, ia_interface_hash = []\<rparr>"

definition kFormatVersion :: int where
  "kFormatVersion = 7"

definition TypeKindName :: "DeclKind \<Rightarrow> string" where
  "TypeKindName kind =
     (case kind of D_kStruct \<Rightarrow> ''struct'' | D_kEnum \<Rightarrow> ''enum'' | D_kDistinct \<Rightarrow> ''distinct''
      | D_kTypeAlias \<Rightarrow> ''alias'' | _ \<Rightarrow> ''struct'')"

definition ParseTypeKind :: "string \<Rightarrow> DeclKind option" where
  "ParseTypeKind text =
     (if text = ''struct'' then Some D_kStruct else if text = ''enum'' then Some D_kEnum
      else if text = ''distinct'' then Some D_kDistinct else if text = ''alias'' then Some D_kTypeAlias else None)"

definition ModuleKindName :: "ModuleKind \<Rightarrow> string" where
  "ModuleKindName kind = (case kind of kOrdinary \<Rightarrow> ''ordinary'' | kInternal \<Rightarrow> ''internal'')"

definition ParseModuleKind :: "string \<Rightarrow> ModuleKind option" where
  "ParseModuleKind text =
     (if text = ''ordinary'' then Some kOrdinary else if text = ''internal'' then Some kInternal else None)"

section \<open>Writing\<close>

definition record_line :: "string list \<Rightarrow> string" where
  "record_line fs = join_with [tab_char] fs @ [newline_char]"

definition header_records :: "InterfaceArtifact \<Rightarrow> string list list" where
  "header_records a =
     [[''format'', string_of_int (ia_format_version a)], [''target'', EscapeText (ia_target_identity a)],
      [''package'', EscapeText (ia_package_identity a)], [''module'', EscapeText (ia_module_name a)],
      [''module_kind'', ModuleKindName (ia_module_kind a)], [''source'', EscapeText (ia_source_path a)],
      [''imports'', JoinEscaped (mod_imports (ia_module a))]]"

definition function_record :: "FunctionSignature \<Rightarrow> string list option" where
  "function_record f = do {
     param_types \<leftarrow> those (map FormatType (fs_param_types f));
     return_types \<leftarrow> those (map FormatType (fs_return_types f));
     Some [''function'', EscapeText (fs_name f), flag_text (fs_is_extern f), EscapeText (fs_extern_abi f),
       JoinEscaped (fs_type_params f), JoinEscaped param_types, JoinEscaped return_types,
       JoinBoolFlags (fs_param_is_noalias f)] }"

definition field_record :: "string list \<Rightarrow> string \<times> Type \<Rightarrow> string list option" where
  "field_record prefix f =
     map_option (\<lambda>t. prefix @ [EscapeText (fst f), EscapeText t]) (FormatType (snd f))"

definition variant_records :: "string \<Rightarrow> VariantSummary \<Rightarrow> string list list option" where
  "variant_records type_name v =
     map_option ((#) [''type_variant'', EscapeText type_name, EscapeText (vs_name v)])
       (those (map (field_record [''type_variant_field'', EscapeText type_name, EscapeText (vs_name v)])
         (vs_payload_fields v)))"

definition type_decl_records :: "TypeDeclSummary \<Rightarrow> string list list option" where
  "type_decl_records d = do {
     aliased_type \<leftarrow> FormatType (td_aliased_type d);
     fields_text \<leftarrow> those (map (field_record [''type_field'', EscapeText (td_name d)]) (td_fields d));
     variants_text \<leftarrow> those (map (variant_records (td_name d)) (td_variants d));
     Some ([''type'', TypeKindName (td_kind d), EscapeText (td_name d), JoinEscaped (td_type_params d),
         flag_text (td_is_packed d), flag_text (td_is_abi_c d), flag_text (lay_valid (td_layout d)),
         string_of_nat (unat (lay_size (td_layout d))), string_of_nat (unat (lay_alignment (td_layout d))),
         JoinEscapedPaths (lay_field_offsets (td_layout d)), EscapeText aliased_type]
       # fields_text @ concat variants_text) }"

definition global_record :: "GlobalSummary \<Rightarrow> string list option" where
  "global_record g = do {
     type_text \<leftarrow> FormatType (gs_type g);
     constant_values \<leftarrow> JoinConstValues (gs_constant_values g);
     Some [''global'', flag_text (gs_is_const g), JoinEscaped (gs_names g), EscapeText type_text,
       constant_values, JoinBoolFlags (gs_zero_initialized_values g)] }"

definition artifact_records :: "InterfaceArtifact \<Rightarrow> string list list option" where
  "artifact_records a = do {
     functions \<leftarrow> those (map function_record (mod_functions (ia_module a)));
     type_decls \<leftarrow> those (map type_decl_records (mod_type_decls (ia_module a)));
     globals \<leftarrow> those (map global_record (mod_globals (ia_module a)));
     Some (header_records a @ functions @ concat type_decls @ globals) }"

definition SerializeArtifactWithoutHash :: "InterfaceArtifact \<Rightarrow> string option" where
  "SerializeArtifactWithoutHash a = map_option (\<lambda>rs. concat (map record_line rs)) (artifact_records a)"

definition ComputeInterfaceHash :: "InterfaceArtifact \<Rightarrow> string option" where
  "ComputeInterfaceHash a =
     map_option (\<lambda>contents. HexU64 (foldl hash_step 1469598103934665603 contents)) (SerializeArtifactWithoutHash a)"

definition mci_report :: "path \<Rightarrow> SourceSpan \<Rightarrow> string \<Rightarrow> DiagnosticSink \<Rightarrow> DiagnosticSink" where
  "mci_report p span message =
     Report \<lparr>diag_file_path = p, diag_span = span, diag_severity = kError, diag_message = message\<rparr>"

definition WriteInterfaceArtifact ::
  "bool \<Rightarrow> bool \<Rightarrow> path \<Rightarrow> InterfaceArtifact \<Rightarrow> DiagnosticSink \<Rightarrow> (string option \<times> bool \<times> DiagnosticSink) option" where
  \<comment> \<open>\<open>opened\<close>: the file could be opened; \<open>written\<close>: the stream is good after the output. The text
    that is written, the value returned, and the sink.\<close>
  "WriteInterfaceArtifact opened written p artifact diagnostics = do {
     let versioned = artifact\<lparr>ia_format_version := kFormatVersion\<rparr>;
     hash \<leftarrow> ComputeInterfaceHash versioned;
     let materialized = versioned\<lparr>ia_interface_hash := hash\<rparr>;
     if \<not> opened
     then Some (None, False, mci_report p kDefaultSourceSpan ''unable to write interface artifact'' diagnostics)
     else do {
       text \<leftarrow> SerializeArtifactWithoutHash materialized;
       Some (Some (text @ record_line [''interface_hash'', ia_interface_hash materialized]), written, diagnostics) } }"

section \<open>Reading\<close>

record LoadState =
  ld_artifact :: InterfaceArtifact
  ld_saw_package_identity :: bool
  ld_saw_module_kind :: bool

type_synonym load_step = "(string + LoadState) option"

definition reject :: "string \<Rightarrow> load_step" where
  \<comment> \<open>\<open>ReportMciError(...); return std::nullopt;\<close>\<close>
  "reject message = Some (Inl message)"

definition need :: "string \<Rightarrow> 'a option \<Rightarrow> ('a \<Rightarrow> load_step) \<Rightarrow> load_step" where
  "need message x f = (case x of None \<Rightarrow> reject message | Some v \<Rightarrow> f v)"

definition check_that :: "string \<Rightarrow> bool \<Rightarrow> load_step \<Rightarrow> load_step" where
  "check_that message ok step = (if ok then step else reject message)"

definition with_artifact :: "(InterfaceArtifact \<Rightarrow> InterfaceArtifact) \<Rightarrow> LoadState \<Rightarrow> load_step" where
  "with_artifact f st = Some (Inr (st\<lparr>ld_artifact := f (ld_artifact st)\<rparr>))"

definition with_module :: "(Module \<Rightarrow> Module) \<Rightarrow> LoadState \<Rightarrow> load_step" where
  "with_module f = with_artifact (\<lambda>a. a\<lparr>ia_module := f (ia_module a)\<rparr>)"

definition load_format :: "string list \<Rightarrow> LoadState \<Rightarrow> load_step" where
  \<comment> \<open>\<open>static_cast<int>\<close> keeps the low 32 bits.\<close>
  "load_format fs st =
     need ''invalid format field in interface artifact'' (if length fs = 2 then ParseArrayLength (fs ! 1) else None)
       (\<lambda>v. with_artifact (\<lambda>a. a\<lparr>ia_format_version := sint (ucast v :: 32 word)\<rparr>) st)"

definition load_text ::
  "string \<Rightarrow> (string \<Rightarrow> InterfaceArtifact \<Rightarrow> InterfaceArtifact) \<Rightarrow> string list \<Rightarrow> LoadState \<Rightarrow> load_step" where
  \<comment> \<open>The records \<open>target\<close>, \<open>package\<close>, \<open>module\<close> and \<open>source\<close>.\<close>
  "load_text what f fs st =
     check_that (''invalid '' @ what @ '' field in interface artifact'') (length fs = 2)
       (need (''invalid escaped '' @ what @ '' field in interface artifact'') (UnescapeText (fs ! 1))
         (\<lambda>v. with_artifact (f v) st))"

definition saw_package :: "load_step \<Rightarrow> load_step" where
  "saw_package step = map_option (map_sum id (ld_saw_package_identity_update (\<lambda>_. True))) step"

definition load_module_kind :: "string list \<Rightarrow> LoadState \<Rightarrow> load_step" where
  "load_module_kind fs st =
     check_that ''invalid module_kind field in interface artifact'' (length fs = 2)
       (need ''invalid module_kind value in interface artifact'' (ParseModuleKind (fs ! 1))
         (\<lambda>v. with_artifact (\<lambda>a. a\<lparr>ia_module_kind := v\<rparr>) (st\<lparr>ld_saw_module_kind := True\<rparr>)))"

definition load_imports :: "string list \<Rightarrow> LoadState \<Rightarrow> load_step" where
  "load_imports fs st =
     check_that ''invalid imports field in interface artifact'' (length fs = 2)
       (need ''invalid imports list in interface artifact'' (SplitEscaped (fs ! 1))
         (\<lambda>v. with_module (\<lambda>m. m\<lparr>mod_imports := v\<rparr>) st))"

definition load_function :: "string list \<Rightarrow> LoadState \<Rightarrow> load_step" where
  "load_function fs st =
     check_that ''invalid function record in interface artifact'' (length fs = 7 \<or> length fs = 8)
       (need ''invalid function payload in interface artifact''
         (do { name \<leftarrow> UnescapeText (fs ! 1); abi \<leftarrow> UnescapeText (fs ! 3); type_params \<leftarrow> SplitEscaped (fs ! 4);
               params \<leftarrow> SplitEscaped (fs ! 5); returns \<leftarrow> SplitEscaped (fs ! 6);
               noalias_flags \<leftarrow> (if length fs = 8 then SplitBoolFlags (fs ! 7) else Some []);
               is_extern \<leftarrow> ParseBoolField (fs ! 2);
               Some (name, abi, type_params, params, returns, noalias_flags, is_extern) })
         (\<lambda>(name, abi, type_params, params, returns, noalias_flags, is_extern).
       need ''invalid function parameter type in interface artifact'' (those (map ParseTypeText params)) (\<lambda>param_types.
       need ''invalid function return type in interface artifact'' (those (map ParseTypeText returns)) (\<lambda>return_types.
       check_that ''function noalias flag count does not match parameter count''
         (noalias_flags = [] \<or> length noalias_flags = length param_types)
         (with_module (\<lambda>m. m\<lparr>mod_functions := mod_functions m @
            [\<lparr>fs_name = name, fs_is_extern = is_extern, fs_extern_abi = abi, fs_type_params = type_params,
              fs_param_types = param_types,
              fs_param_is_noalias =
                (if noalias_flags = [] then replicate (length param_types) False else noalias_flags),
              fs_return_types = return_types\<rparr>]\<rparr>) st)))))"

definition load_type :: "string list \<Rightarrow> LoadState \<Rightarrow> load_step" where
  "load_type fs st =
     check_that ''invalid type record in interface artifact'' (length fs = 11)
       (need ''invalid type payload in interface artifact''
         (do { kind \<leftarrow> ParseTypeKind (fs ! 1); name \<leftarrow> UnescapeText (fs ! 2); type_params \<leftarrow> SplitEscaped (fs ! 3);
               offsets \<leftarrow> SplitOffsets (fs ! 9); aliased_type_text \<leftarrow> UnescapeText (fs ! 10);
               is_packed \<leftarrow> ParseBoolField (fs ! 4); is_abi_c \<leftarrow> ParseBoolField (fs ! 5);
               valid \<leftarrow> ParseBoolField (fs ! 6);
               Some (kind, name, type_params, offsets, aliased_type_text, is_packed, is_abi_c, valid) })
         (\<lambda>(kind, name, type_params, offsets, aliased_type_text, is_packed, is_abi_c, valid).
       need ''invalid type layout or alias in interface artifact''
         (do { size' \<leftarrow> ParseArrayLength (fs ! 7); alignment \<leftarrow> ParseArrayLength (fs ! 8);
               aliased_type \<leftarrow> ParseTypeText aliased_type_text;
               Some (size', alignment, aliased_type) })
         (\<lambda>(size', alignment, aliased_type).
       with_module (\<lambda>m. m\<lparr>mod_type_decls := mod_type_decls m @
         [\<lparr>td_kind = kind, td_name = name, td_type_params = type_params, td_attributes = [], td_fields = [],
           td_variants = [], td_aliased_type = aliased_type, td_is_packed = is_packed, td_is_abi_c = is_abi_c,
           td_layout = \<lparr>lay_valid = valid, lay_size = size', lay_alignment = alignment,
             lay_field_offsets = offsets\<rparr>\<rparr>]\<rparr>) st)))"

definition has_type :: "string \<Rightarrow> LoadState \<Rightarrow> bool" where
  "has_type name st \<longleftrightarrow> (\<exists>d \<in> set (mod_type_decls (ia_module (ld_artifact st))). td_name d = name)"

definition update_type :: "string \<Rightarrow> (TypeDeclSummary \<Rightarrow> TypeDeclSummary) \<Rightarrow> LoadState \<Rightarrow> load_step" where
  \<comment> \<open>Through the iterator that \<open>find_if\<close> gave.\<close>
  "update_type name f =
     with_module (\<lambda>m. m\<lparr>mod_type_decls := update_first (\<lambda>d. td_name d = name) f (mod_type_decls m)\<rparr>)"

definition load_type_field :: "string list \<Rightarrow> LoadState \<Rightarrow> load_step" where
  "load_type_field fs st =
     check_that ''invalid type_field record in interface artifact'' (length fs = 4)
       (need ''invalid type field payload in interface artifact''
         (do { type_name \<leftarrow> UnescapeText (fs ! 1); field_name \<leftarrow> UnescapeText (fs ! 2);
               field_type_text \<leftarrow> UnescapeText (fs ! 3); field_type \<leftarrow> ParseTypeText field_type_text;
               Some (type_name, field_name, field_type) })
         (\<lambda>(type_name, field_name, field_type).
       check_that ''type_field references unknown type in interface artifact'' (has_type type_name st)
         (update_type type_name (td_fields_update (\<lambda>fields. fields @ [(field_name, field_type)])) st)))"

definition load_type_variant :: "string list \<Rightarrow> LoadState \<Rightarrow> load_step" where
  "load_type_variant fs st =
     check_that ''invalid type_variant record in interface artifact'' (length fs = 3)
       (need ''invalid type variant payload in interface artifact''
         (do { type_name \<leftarrow> UnescapeText (fs ! 1); variant_name \<leftarrow> UnescapeText (fs ! 2);
               Some (type_name, variant_name) })
         (\<lambda>(type_name, variant_name).
       check_that ''type_variant references unknown type in interface artifact'' (has_type type_name st)
         (update_type type_name
           (td_variants_update (\<lambda>vs. vs @ [\<lparr>vs_name = variant_name, vs_payload_fields = []\<rparr>])) st)))"

definition has_variant :: "string \<Rightarrow> string \<Rightarrow> LoadState \<Rightarrow> bool" where
  "has_variant type_name variant_name st \<longleftrightarrow>
     (case find (\<lambda>d. td_name d = type_name) (mod_type_decls (ia_module (ld_artifact st))) of
        None \<Rightarrow> False
      | Some d \<Rightarrow> \<exists>v \<in> set (td_variants d). vs_name v = variant_name)"

definition load_type_variant_field :: "string list \<Rightarrow> LoadState \<Rightarrow> load_step" where
  "load_type_variant_field fs st =
     check_that ''invalid type_variant_field record in interface artifact'' (length fs = 5)
       (need ''invalid type variant field payload in interface artifact''
         (do { type_name \<leftarrow> UnescapeText (fs ! 1); variant_name \<leftarrow> UnescapeText (fs ! 2);
               field_name \<leftarrow> UnescapeText (fs ! 3); field_type_text \<leftarrow> UnescapeText (fs ! 4);
               field_type \<leftarrow> ParseTypeText field_type_text;
               Some (type_name, variant_name, field_name, field_type) })
         (\<lambda>(type_name, variant_name, field_name, field_type).
       check_that ''type_variant_field references unknown type in interface artifact'' (has_type type_name st)
         (check_that ''type_variant_field references unknown variant in interface artifact''
           (has_variant type_name variant_name st)
         (update_type type_name (td_variants_update (update_first (\<lambda>v. vs_name v = variant_name)
           (vs_payload_fields_update (\<lambda>fields. fields @ [(field_name, field_type)])))) st))))"

definition global_constants ::
  "nat \<Rightarrow> double_ops \<Rightarrow> (string \<Rightarrow> (double \<times> bool) option) \<Rightarrow> int \<Rightarrow> Type option \<Rightarrow> string list \<Rightarrow>
     ConstValue option list option option" where
  \<comment> \<open>\<open>*type\<close> is dereferenced before the test for its value.\<close>
  "global_constants vmax fp stream_double version t fs =
     (if length fs = 6 then ParseConstValues vmax fp stream_double (fs ! 4)
      else if length fs = 5
      then (if version = 2
            then (case t of None \<Rightarrow> None | Some t \<Rightarrow> ParseLegacyConstValues stream_double t (fs ! 4))
            else ParseConstValues vmax fp stream_double (fs ! 4))
      else Some (Some []))"

definition load_global ::
  "nat \<Rightarrow> double_ops \<Rightarrow> (string \<Rightarrow> (double \<times> bool) option) \<Rightarrow> string list \<Rightarrow> LoadState \<Rightarrow> load_step" where
  "load_global vmax fp stream_double fs st =
     (let version = ia_format_version (ld_artifact st) in
      check_that ''invalid global record in interface artifact''
        (\<not> (4 \<le> version \<and> length fs \<noteq> 6) \<and> \<not> (version < 4 \<and> length fs \<noteq> 4 \<and> length fs \<noteq> 5))
        (let names = SplitEscaped (fs ! 2); t = Option.bind (UnescapeText (fs ! 3)) ParseTypeText in
         case global_constants vmax fp stream_double version t fs of
           None \<Rightarrow> None
         | Some constant_values \<Rightarrow>
           need ''invalid global payload in interface artifact''
             (do { names \<leftarrow> names; t \<leftarrow> t; constant_values \<leftarrow> constant_values;
                   zeros \<leftarrow> (if length fs = 6 then ParseBoolFlags (fs ! 5) else Some []);
                   is_const \<leftarrow> ParseBoolField (fs ! 1);
                   Some (names, t, constant_values, zeros, is_const) })
             (\<lambda>(names, t, constant_values, zeros, is_const).
           check_that ''global constant value count does not match bound name count''
             (constant_values = [] \<or> length constant_values = length names)
             (check_that ''global zero-init flag count does not match bound name count''
               (zeros = [] \<or> length zeros = length names)
             (with_module (\<lambda>m. m\<lparr>mod_globals := mod_globals m @
               [\<lparr>gs_is_const = is_const, gs_names = names, gs_type = t, gs_constant_values = constant_values,
                 gs_zero_initialized_values = zeros\<rparr>]\<rparr>) st)))))"

definition load_interface_hash :: "string list \<Rightarrow> LoadState \<Rightarrow> load_step" where
  "load_interface_hash fs st =
     check_that ''invalid interface_hash record in interface artifact'' (length fs = 2)
       (with_artifact (\<lambda>a. a\<lparr>ia_interface_hash := fs ! 1\<rparr>) st)"

definition load_record ::
  "nat \<Rightarrow> double_ops \<Rightarrow> (string \<Rightarrow> (double \<times> bool) option) \<Rightarrow> string list \<Rightarrow> LoadState \<Rightarrow> load_step" where
  "load_record vmax fp stream_double fs st =
     (if fs ! 0 = ''format'' then load_format fs st
      else if fs ! 0 = ''target'' then load_text ''target'' (\<lambda>v a. a\<lparr>ia_target_identity := v\<rparr>) fs st
      else if fs ! 0 = ''package''
      then saw_package (load_text ''package'' (\<lambda>v a. a\<lparr>ia_package_identity := v\<rparr>) fs st)
      else if fs ! 0 = ''module'' then load_text ''module'' (\<lambda>v a. a\<lparr>ia_module_name := v\<rparr>) fs st
      else if fs ! 0 = ''module_kind'' then load_module_kind fs st
      else if fs ! 0 = ''source'' then load_text ''source'' (\<lambda>v a. a\<lparr>ia_source_path := v\<rparr>) fs st
      else if fs ! 0 = ''imports'' then load_imports fs st
      else if fs ! 0 = ''function'' then load_function fs st
      else if fs ! 0 = ''type'' then load_type fs st
      else if fs ! 0 = ''type_field'' then load_type_field fs st
      else if fs ! 0 = ''type_variant'' then load_type_variant fs st
      else if fs ! 0 = ''type_variant_field'' then load_type_variant_field fs st
      else if fs ! 0 = ''global'' then load_global vmax fp stream_double fs st
      else if fs ! 0 = ''interface_hash'' then load_interface_hash fs st
      else reject (''unknown record in interface artifact: '' @ fs ! 0))"

fun load_lines ::
  "nat \<Rightarrow> double_ops \<Rightarrow> (string \<Rightarrow> (double \<times> bool) option) \<Rightarrow> nat \<Rightarrow> string list \<Rightarrow> LoadState \<Rightarrow>
     ((nat \<times> string) + LoadState) option" where
  \<comment> \<open>The lines from number \<open>line_number + 1\<close> on.\<close>
  "load_lines vmax fp stream_double line_number [] st = Some (Inr st)"
| "load_lines vmax fp stream_double line_number (line # rest) st =
     (if line = [] then load_lines vmax fp stream_double (line_number + 1) rest st
      else case load_record vmax fp stream_double (SplitFields line) st of
          None \<Rightarrow> None
        | Some (Inl message) \<Rightarrow> Some (Inl (line_number + 1, message))
        | Some (Inr st) \<Rightarrow> load_lines vmax fp stream_double (line_number + 1) rest st)"

definition load_fault :: "LoadState \<Rightarrow> string option" where
  \<comment> \<open>The checks after the last line but that of the hash.\<close>
  "load_fault st =
     (let a = ld_artifact st in
      if ia_format_version a \<noteq> kFormatVersion then Some ''unsupported interface artifact format version''
      else if \<not> ld_saw_package_identity st \<or> ia_package_identity a = []
      then Some ''interface artifact is missing package identity''
      else if \<not> ld_saw_module_kind st then Some ''interface artifact is missing module kind''
      else if ia_interface_hash a = [] then Some ''interface artifact is missing interface_hash''
      else None)"

definition load_start :: LoadState where
  "load_start =
     \<lparr>ld_artifact = new_InterfaceArtifact\<lparr>ia_format_version := kFormatVersion\<rparr>,
      ld_saw_package_identity = False, ld_saw_module_kind = False\<rparr>"

definition line_span :: "nat \<Rightarrow> SourceSpan" where
  "line_span n = \<lparr>span_begin = \<lparr>pos_line = n, pos_column = 1\<rparr>, span_end = \<lparr>pos_line = n, pos_column = 1\<rparr>\<rparr>"

definition LoadInterfaceArtifact ::
  "nat \<Rightarrow> double_ops \<Rightarrow> (string \<Rightarrow> (double \<times> bool) option) \<Rightarrow> string option \<Rightarrow> path \<Rightarrow> DiagnosticSink \<Rightarrow>
     (InterfaceArtifact option \<times> DiagnosticSink) option" where
  \<comment> \<open>The content of the file, or \<open>None\<close> when it cannot be read.\<close>
  "LoadInterfaceArtifact vmax fp stream_double content p diagnostics =
     (case content of
        None \<Rightarrow> Some (None, mci_report p kDefaultSourceSpan ''unable to read interface artifact'' diagnostics)
      | Some text \<Rightarrow>
        (case load_lines vmax fp stream_double 0 (getlines newline_char text) load_start of
           None \<Rightarrow> None
         | Some (Inl (n, message)) \<Rightarrow> Some (None, mci_report p (line_span n) message diagnostics)
         | Some (Inr st) \<Rightarrow>
           (case load_fault st of
              Some message \<Rightarrow> Some (None, mci_report p kDefaultSourceSpan message diagnostics)
            | None \<Rightarrow>
              map_option (\<lambda>computed_hash.
                  if ia_interface_hash (ld_artifact st) \<noteq> computed_hash
                  then (None, mci_report p kDefaultSourceSpan ''interface artifact hash mismatch'' diagnostics)
                  else (Some (ld_artifact st), diagnostics))
                (ComputeInterfaceHash (ld_artifact st)))))"

section \<open>Validation\<close>

definition metadata_fault ::
  "filesystem \<Rightarrow> InterfaceArtifact \<Rightarrow> string \<Rightarrow> string \<Rightarrow> string \<Rightarrow> ModuleKind \<Rightarrow> path \<Rightarrow> string option" where
  "metadata_fault fs a expected_target expected_package expected_module expected_kind expected_source =
     (if ia_target_identity a = [] then Some ''interface artifact is missing target identity''
      else if ia_module_name a = [] then Some ''interface artifact is missing module name''
      else if ia_package_identity a = [] then Some ''interface artifact is missing package identity''
      else if ia_source_path a = [] then Some ''interface artifact is missing source path''
      else if expected_target \<noteq> [] \<and> ia_target_identity a \<noteq> expected_target
      then Some ''interface artifact target mismatch''
      else if expected_package \<noteq> [] \<and> ia_package_identity a \<noteq> expected_package
      then Some ''interface artifact package identity mismatch''
      else if expected_module \<noteq> [] \<and> ia_module_name a \<noteq> expected_module
      then Some ''interface artifact module mismatch''
      else if ia_module_kind a \<noteq> expected_kind then Some ''interface artifact module kind mismatch''
      else if expected_source \<noteq> [] \<and>
        fs_lexically_normal fs (ia_source_path a) \<noteq> fs_lexically_normal fs expected_source
      then Some ''interface artifact source path mismatch''
      else None)"

definition ValidateInterfaceArtifactMetadata ::
  "filesystem \<Rightarrow> InterfaceArtifact \<Rightarrow> path \<Rightarrow> string \<Rightarrow> string \<Rightarrow> string \<Rightarrow> ModuleKind \<Rightarrow> path \<Rightarrow> DiagnosticSink \<Rightarrow>
     bool \<times> DiagnosticSink" where
  "ValidateInterfaceArtifactMetadata fs a artifact_path expected_target expected_package expected_module
      expected_kind expected_source diagnostics =
     (case metadata_fault fs a expected_target expected_package expected_module expected_kind expected_source of
        Some message \<Rightarrow> (False, mci_report artifact_path kDefaultSourceSpan message diagnostics)
      | None \<Rightarrow> (True, diagnostics))"

end
