(* ===== verification/MC_MciTypeSpec.thy ===== *)
theory MC_MciTypeSpec
  imports MC_MciType
begin

text \<open>
  What \<open>TypeParser\<close> does: its recursion ends, within the fuel that \<open>ParseTypeText\<close> gives it; it reads back
  what \<open>FormatType\<close> wrote of the types that \<open>type_writable\<close> describes; and the names it misreads.
\<close>

section \<open>The recursion ends\<close>

definition shortens :: "nat \<Rightarrow> 'a type_parse \<Rightarrow> bool" where
  \<comment> \<open>There is a result, and less than \<open>k\<close> characters are left after a value.\<close>
  "shortens k p \<longleftrightarrow> p = Some None \<or> (\<exists>x s. p = Some (Some (x, s)) \<and> length s < k)"

lemma shortens_fail [simp]: "shortens k tp_fail"
  by (simp add: shortens_def tp_fail_def)

lemma shortens_return [simp]: "shortens k (tp_return x s) \<longleftrightarrow> length s < k"
  by (simp add: shortens_def tp_return_def)

lemma shortens_bind:
  "shortens j p \<Longrightarrow> (\<And>x s. length s < j \<Longrightarrow> shortens k (f x s)) \<Longrightarrow> shortens k (tp_bind p f)"
  unfolding shortens_def tp_bind_def by (elim disjE exE conjE) simp_all

lemma shortens_weaken: "shortens j p \<Longrightarrow> j \<le> k \<Longrightarrow> shortens k p"
  by (auto simp: shortens_def)

lemma SkipWhitespace_length: "length (tp_SkipWhitespace s) \<le> length s"
  by (simp add: tp_SkipWhitespace_def length_dropWhile_le)

lemma Consume_True:
  "tp_Consume token s = (True, r) \<Longrightarrow> length r + length token \<le> length s"
proof -
  assume *: "tp_Consume token s = (True, r)"
  let ?s = "tp_SkipWhitespace s"
  have "take (length token) ?s = token" "r = drop (length token) ?s"
    using * by (auto simp: tp_Consume_def Let_def split: if_splits)
  then have "length (take (length token) ?s) = length token" "length r = length ?s - length token" by simp_all
  then show ?thesis using SkipWhitespace_length [of s] by simp
qed

lemma Consume_False: "tp_Consume token s = (False, r) \<Longrightarrow> length r \<le> length s"
  using SkipWhitespace_length [of s] by (auto simp: tp_Consume_def Let_def split: if_splits)

lemma ParseIdentifier_shorter: "tp_ParseIdentifier s = Some (name, r) \<Longrightarrow> length r < length s"
proof -
  assume *: "tp_ParseIdentifier s = Some (name, r)"
  let ?s = "tp_SkipWhitespace s"
  have name: "name = takeWhile is_type_name_char ?s" "r = dropWhile is_type_name_char ?s" "name \<noteq> []"
    using * by (auto simp: tp_ParseIdentifier_def Let_def split: if_splits)
  then have "length ?s = length name + length r"
    by (simp flip: length_append)
  with name(3) show ?thesis using SkipWhitespace_length [of s] by (cases name) auto
qed

lemma shortens_Consume:
  assumes "\<And>r. length r + length token \<le> length s \<Longrightarrow> shortens k (f r)"
    and "\<And>r. length r \<le> length s \<Longrightarrow> shortens k (g r)"
  shows "shortens k (case tp_Consume token s of (True, r) \<Rightarrow> f r | (False, r) \<Rightarrow> g r)"
  using assms Consume_True [of token s] Consume_False [of token s]
  by (cases "tp_Consume token s") (auto split: bool.split)

lemma optional_Consume:
  "(if b then tp_Consume token s else (False, s)) = (c, r) \<Longrightarrow> length r \<le> length s"
  using Consume_True [of token s r] Consume_False [of token s r] by (cases c) (auto split: if_splits)

lemma NamedOrBuiltin_shortens:
  assumes pt: "\<And>r. length r < length s \<Longrightarrow> shortens (length r) (pt r)"
    and pl: "\<And>c r. length r < length s \<Longrightarrow> shortens (length r) (pl c r)"
  shows "shortens (length s) (tp_ParseNamedOrBuiltin pt pl s)"
proof (cases "tp_ParseIdentifier s")
  case None
  then show ?thesis by (simp add: tp_ParseNamedOrBuiltin_def)
next
  case (Some p)
  obtain name s1 where p: "p = (name, s1)" by (cases p)
  have s1: "length s1 < length s" using Some p by (auto dest: ParseIdentifier_shorter)
  show ?thesis
  proof (cases "map_of builtin_type_texts name")
    case None
    obtain b2 s2 where o2: "(if name = ''tuple'' then tp_Consume ''<'' s1 else (False, s1)) = (b2, s2)" by fastforce
    obtain b3 s3 where o3: "(if name = ''range'' then tp_Consume ''<'' s2 else (False, s2)) = (b3, s3)" by fastforce
    have s2: "length s2 \<le> length s1" and s3: "length s3 \<le> length s2"
      using optional_Consume [OF o2] optional_Consume [OF o3] by simp_all
    have list: "shortens (length s) (tp_bind (pl c r) (\<lambda>x. tp_return (g x)))" if "length r < length s"
      for c r and g :: "Type list \<Rightarrow> Type"
      using that by (intro shortens_bind [OF pl]) auto
    have "shortens (length s) (case tp_Consume ''>'' s2 of (True, r) \<Rightarrow> tp_return (TupleType []) r
        | (False, r) \<Rightarrow> tp_bind (pl ''>'' r) (\<lambda>x. tp_return (TupleType x)))"
      using s1 s2 by (intro shortens_Consume list) auto
    moreover have "shortens (length s) (tp_bind (pt s3) (\<lambda>x r. case tp_Consume ''>'' r of
        (True, r) \<Rightarrow> tp_return (RangeType x) r | (False, r) \<Rightarrow> tp_fail))"
      using s1 s2 s3 by (intro shortens_bind [OF pt] shortens_Consume) auto
    moreover have "shortens (length s) (case tp_Consume ''<'' s3 of (False, r) \<Rightarrow> tp_return (NamedType name) r
        | (True, r) \<Rightarrow> tp_bind (pl ''>'' r) (\<lambda>x. tp_return (mk_Type Ty_kNamed name [] x)))"
      using s1 s2 s3 shortens_Consume [of "''<''" s3 "length s"
          "\<lambda>r. tp_bind (pl ''>'' r) (\<lambda>x. tp_return (mk_Type Ty_kNamed name [] x))"
          "\<lambda>r. tp_return (NamedType name) r"]
      by (force intro: list)
    ultimately show ?thesis
      using Some p None o2 o3 by (simp add: tp_ParseNamedOrBuiltin_def)
  qed (use Some p s1 in \<open>simp add: tp_ParseNamedOrBuiltin_def\<close>)
qed

lemma Procedure_shortens:
  assumes pt: "\<And>r. length r < length s \<Longrightarrow> shortens (length r) (pt r)"
    and pl: "\<And>c r. length r < length s \<Longrightarrow> shortens (length r) (pl c r)"
  shows "shortens (length s) (tp_ParseProcedure pt pl s)"
  unfolding tp_ParseProcedure_def
proof (rule shortens_Consume)
  fix r :: string assume r: "length r + length ''proc'' \<le> length s"
  have returns: "shortens (length s) (case tp_Consume ''->'' r of (True, s) \<Rightarrow> tp_bind (pt s) (\<lambda>t. tp_return (g t))
      | (False, s) \<Rightarrow> tp_fail)" if "length r < length s" for r and g :: "Type \<Rightarrow> Type"
    using that by (intro shortens_Consume shortens_bind [OF pt]) auto
  have params: "shortens (length s) (case tp_Consume '')'' r of (True, s) \<Rightarrow> tp_return [] s | (False, s) \<Rightarrow> pl '')'' s)"
    if "length r < length s" for r
    using that by (intro shortens_Consume shortens_weaken [OF pl]) auto
  show "shortens (length s) (case tp_Consume ''('' r of (True, s) \<Rightarrow>
        tp_bind (case tp_Consume '')'' s of (True, s) \<Rightarrow> tp_return [] s | (False, s) \<Rightarrow> pl '')'' s)
          (\<lambda>params s. case tp_Consume ''->'' s of
             (True, s) \<Rightarrow> tp_bind (pt s) (\<lambda>return_type. tp_return (ProcedureType params (procedure_returns return_type)))
           | (False, s) \<Rightarrow> tp_fail)
      | (False, s) \<Rightarrow> tp_fail)"
    using r by (intro shortens_Consume shortens_bind [OF params] returns) auto
qed simp

lemma ParseType_shortens:
  "2 * length s + 1 \<le> n \<Longrightarrow> shortens (length s) (tp_ParseType n s)"
  "2 * length s + 2 \<le> n \<Longrightarrow> shortens (length s) (tp_ParseList n close s)"
proof (induction n arbitrary: s close)
  case (Suc n)
  note pt = Suc.IH(1) and pl = Suc.IH(2)
  {
    case 1
    have inner: "shortens (length s) (tp_bind (tp_ParseType n r) (\<lambda>t. tp_return (g t)))"
      if "length r < length s" for r and g :: "Type \<Rightarrow> Type"
      using that 1 by (intro shortens_bind [OF pt]) auto
    have base: "shortens (length s) (if take 4 r = ''proc'' then tp_ParseProcedure (tp_ParseType n) (tp_ParseList n) r
        else tp_ParseNamedOrBuiltin (tp_ParseType n) (tp_ParseList n) r)" if "length r \<le> length s" for r
      using that 1 Procedure_shortens [of r "tp_ParseType n" "tp_ParseList n"]
        NamedOrBuiltin_shortens [of r "tp_ParseType n" "tp_ParseList n"] pt pl
      by (auto intro: shortens_weaken)
    have array: "shortens (length s) (let len = takeWhile (\<lambda>ch. ch \<noteq> CHR '']'') r; r = dropWhile (\<lambda>ch. ch \<noteq> CHR '']'') r
        in if r = [] then tp_fail else tp_bind (tp_ParseType n (tl r)) (\<lambda>inner. tp_return (ArrayType inner len)))"
      if "length r < length s" for r
      using that length_dropWhile_le [of "\<lambda>ch. ch \<noteq> CHR '']''" r] by (auto simp: Let_def intro!: inner)
    show ?case
      unfolding tp_ParseType.simps using SkipWhitespace_length [of s]
      by (intro shortens_Consume inner array base) auto
  next
    case 2
    have rest: "shortens (length s) (tp_bind (tp_ParseList n close r) (\<lambda>ts. tp_return (t # ts)))"
      if "length r < length s" for r t
      using that 2 by (intro shortens_bind [OF pl]) auto
    show ?case
      unfolding tp_ParseList.simps using 2 pt [of s]
      by (intro shortens_bind [of "length s"] shortens_Consume rest) auto
  }
qed simp_all

section \<open>More fuel changes nothing\<close>

definition tp_le :: "'a type_parse \<Rightarrow> 'a type_parse \<Rightarrow> bool" where
  "tp_le p q \<longleftrightarrow> p = None \<or> p = q"

lemma tp_le_refl [simp]: "tp_le p p"
  by (simp add: tp_le_def)

lemma tp_le_None [simp]: "tp_le None q"
  by (simp add: tp_le_def)

lemma tp_le_bind:
  "tp_le p q \<Longrightarrow> (\<And>x s. tp_le (f x s) (g x s)) \<Longrightarrow> tp_le (tp_bind p f) (tp_bind q g)"
  unfolding tp_le_def tp_bind_def by (elim disjE) (auto split: option.split)

lemma tp_le_Consume:
  "(\<And>r. tp_le (f r) (f' r)) \<Longrightarrow> (\<And>r. tp_le (g r) (g' r)) \<Longrightarrow>
     tp_le (case c of (True, r) \<Rightarrow> f r | (False, r) \<Rightarrow> g r) (case c of (True, r) \<Rightarrow> f' r | (False, r) \<Rightarrow> g' r)"
  by (cases c) (auto split: bool.split)

lemma tp_le_choice:
  "(\<And>r. tp_le (f r) (f' r)) \<Longrightarrow> (\<And>r. tp_le (g r) (g' r)) \<Longrightarrow>
     tp_le (case c of (b, r) \<Rightarrow> if b then f r else g r) (case c of (b, r) \<Rightarrow> if b then f' r else g' r)"
  by (cases c) auto

lemma NamedOrBuiltin_le:
  assumes "\<And>s. tp_le (pt s) (pt' s)" "\<And>c s. tp_le (pl c s) (pl' c s)"
  shows "tp_le (tp_ParseNamedOrBuiltin pt pl s) (tp_ParseNamedOrBuiltin pt' pl' s)"
proof (cases "tp_ParseIdentifier s")
  case (Some p)
  then show ?thesis
    using assms
    by (cases p; cases "map_of builtin_type_texts (fst p)")
      (auto simp: tp_ParseNamedOrBuiltin_def Let_def intro!: tp_le_choice tp_le_Consume tp_le_bind)
qed (simp add: tp_ParseNamedOrBuiltin_def)

lemma Procedure_le:
  assumes "\<And>s. tp_le (pt s) (pt' s)" "\<And>c s. tp_le (pl c s) (pl' c s)"
  shows "tp_le (tp_ParseProcedure pt pl s) (tp_ParseProcedure pt' pl' s)"
  unfolding tp_ParseProcedure_def by (intro tp_le_Consume tp_le_bind tp_le_refl assms)

lemma ParseType_le_step:
  assumes pt: "\<And>s. tp_le (tp_ParseType n s) (tp_ParseType m s)"
    and pl: "\<And>c s. tp_le (tp_ParseList n c s) (tp_ParseList m c s)"
  shows "tp_le (tp_ParseType (Suc n) s) (tp_ParseType (Suc m) s)"
    and "tp_le (tp_ParseList (Suc n) close s) (tp_ParseList (Suc m) close s)"
proof -
  have array: "tp_le (let len = f r; r = g r in if r = [] then tp_fail else tp_bind (tp_ParseType n (tl r)) (k len))
      (let len = f r; r = g r in if r = [] then tp_fail else tp_bind (tp_ParseType m (tl r)) (k len))"
    for f g :: "string \<Rightarrow> string" and k :: "string \<Rightarrow> Type \<Rightarrow> string \<Rightarrow> Type type_parse" and r
    using pt by (auto simp: Let_def intro!: tp_le_bind)
  have base: "tp_le (if take 4 r = ''proc'' then tp_ParseProcedure (tp_ParseType n) (tp_ParseList n) r
        else tp_ParseNamedOrBuiltin (tp_ParseType n) (tp_ParseList n) r)
      (if take 4 r = ''proc'' then tp_ParseProcedure (tp_ParseType m) (tp_ParseList m) r
        else tp_ParseNamedOrBuiltin (tp_ParseType m) (tp_ParseList m) r)" for r
    using pt pl Procedure_le NamedOrBuiltin_le by simp
  show "tp_le (tp_ParseType (Suc n) s) (tp_ParseType (Suc m) s)"
    unfolding tp_ParseType.simps by (intro tp_le_Consume tp_le_bind tp_le_refl pt array base)
  show "tp_le (tp_ParseList (Suc n) close s) (tp_ParseList (Suc m) close s)"
    unfolding tp_ParseList.simps by (intro tp_le_Consume tp_le_bind tp_le_refl pt pl)
qed

lemma ParseType_le:
  "n \<le> m \<Longrightarrow> tp_le (tp_ParseType n s) (tp_ParseType m s)"
  "n \<le> m \<Longrightarrow> tp_le (tp_ParseList n close s) (tp_ParseList m close s)"
proof (induction n arbitrary: m s close)
  case (Suc n)
  {
    case 1
    then show ?case using Suc.IH by (cases m) (auto intro: ParseType_le_step simp del: tp_ParseType.simps)
  next
    case 2
    then show ?case using Suc.IH by (cases m) (auto intro: ParseType_le_step simp del: tp_ParseList.simps)
  }
qed simp_all

lemma ParseType_fuel:
  assumes "2 * length s + 1 \<le> n"
  shows "tp_ParseType n s = tp_ParseType (2 * length s + 1) s"
  using ParseType_le(1) [OF assms, of s] ParseType_shortens(1) [of s "2 * length s + 1"]
  by (auto simp: tp_le_def shortens_def)

lemma ParseTypeText_fuel:
  "2 * length s + 1 \<le> n \<Longrightarrow> ParseTypeText s =
     (case tp_ParseType n s of Some (Some (t, r)) \<Rightarrow> if tp_SkipWhitespace r = [] then Some t else None | _ \<Rightarrow> None)"
  unfolding ParseTypeText_def using ParseType_fuel [of s n] by simp

section \<open>Names that are misread\<close>

lemma tp_bind_const_case:
  "(case tp_bind p (\<lambda>x. tp_return (f x)) of Some (Some (t, r)) \<Rightarrow> if g r then Some t else None | _ \<Rightarrow> None) =
     map_option f (case p of Some (Some (t, r)) \<Rightarrow> if g r then Some t else None | _ \<Rightarrow> None)"
  by (auto simp: tp_bind_def tp_return_def split: option.split)

lemma ParseTypeText_const: "ParseTypeText (''const'' @ name) = map_option ConstType (ParseTypeText name)"
proof -
  let ?n = "2 * length (''const'' @ name)"
  have "tp_ParseType (Suc ?n) (''const'' @ name) = tp_bind (tp_ParseType ?n name) (\<lambda>t. tp_return (ConstType t))"
    by (simp add: tp_Consume_def tp_SkipWhitespace_def del: tp_ParseType.simps) (simp add: tp_Consume_def tp_SkipWhitespace_def)
  then have "ParseTypeText (''const'' @ name) =
      (case tp_bind (tp_ParseType ?n name) (\<lambda>t. tp_return (ConstType t)) of
         Some (Some (t, r)) \<Rightarrow> if tp_SkipWhitespace r = [] then Some t else None | _ \<Rightarrow> None)"
    by (simp add: ParseTypeText_def)
  also have "\<dots> = map_option ConstType (ParseTypeText name)"
    by (subst ParseTypeText_fuel [of name ?n]) (simp_all add: tp_bind_const_case)
  finally show ?thesis .
qed

lemma ParseTypeText_proc:
  assumes "name = [] \<or> hd name \<notin> {CHR '' '', tab_char, CHR ''(''}"
  shows "ParseTypeText (''proc'' @ name) = None"
proof -
  have "tp_ParseType (Suc n) (''proc'' @ name) = tp_fail" for n
    using assms by (cases name) (auto simp: tp_Consume_def tp_SkipWhitespace_def tp_ParseProcedure_def)
  then show ?thesis by (simp add: ParseTypeText_def tp_fail_def)
qed

section \<open>Types that are read back\<close>

definition type_name_ok :: "string \<Rightarrow> bool" where
  "type_name_ok name \<longleftrightarrow> name \<noteq> [] \<and> list_all is_type_name_char name \<and> map_of builtin_type_texts name = None \<and>
     take 5 name \<noteq> ''const'' \<and> take 4 name \<noteq> ''proc''"

primrec type_writable :: "Type \<Rightarrow> bool" where
  \<comment> \<open>Of a canonical type: its text determines it.\<close>
  "type_writable (mk_Type k name metadata ts) \<longleftrightarrow>
     list_all id (map type_writable ts) \<and>
     (if k = Ty_kNamed
      then metadata = [] \<and> type_name_ok name \<and> (ts \<noteq> [] \<longrightarrow> name \<noteq> ''tuple'' \<and> name \<noteq> ''range'')
      else name = []) \<and>
     (k \<notin> {Ty_kNamed, Ty_kArray, Ty_kProcedure} \<longrightarrow> metadata = []) \<and>
     (k \<in> {Ty_kUnknown, Ty_kVoid, Ty_kBool, Ty_kString, Ty_kNil, Ty_kIntLiteral, Ty_kFloatLiteral} \<longrightarrow> ts = []) \<and>
     (k \<in> {Ty_kPointer, Ty_kConst, Ty_kArray, Ty_kRange} \<longrightarrow> length ts = 1) \<and>
     (k = Ty_kArray \<longrightarrow> CHR '']'' \<notin> set metadata) \<and>
     (k = Ty_kProcedure \<longrightarrow> (\<exists>p \<le> length ts. metadata = string_of_nat p \<and> p < 2 ^ 64 \<and>
        (length ts = Suc p \<longrightarrow> ty_kind (last ts) \<notin> {Ty_kVoid, Ty_kTuple})))"

lemma type_writable_subtypes: "type_writable (mk_Type k name metadata ts) \<Longrightarrow> x \<in> set ts \<Longrightarrow> type_writable x"
  by (auto simp: list_all_iff)

definition type_end :: "string \<Rightarrow> bool" where
  \<comment> \<open>What follows the text of a type.\<close>
  "type_end s \<longleftrightarrow> s = [] \<or> hd s \<in> {CHR ''>'', CHR '','', CHR '')''}"

lemma type_end_simps [simp]:
  "type_end []" "type_end (CHR ''>'' # s)" "type_end (CHR '','' # s)" "type_end (CHR '')'' # s)"
  by (simp_all add: type_end_def)

lemma Consume_first:
  "c \<noteq> CHR '' '' \<Longrightarrow> c \<noteq> tab_char \<Longrightarrow>
     tp_Consume (d # ds) (c # s) = (if c = d \<and> take (length ds) s = ds then (True, drop (length ds) s) else (False, c # s))"
  by (simp add: tp_Consume_def tp_SkipWhitespace_def)

lemma Consume_Nil [simp]: "tp_Consume (d # ds) [] = (False, [])"
  by (simp add: tp_Consume_def tp_SkipWhitespace_def)

lemma name_char_not:
  "is_type_name_char c \<Longrightarrow> c \<notin> {CHR '' '', tab_char, CHR ''*'', CHR ''['', CHR ''<'', CHR ''>'', CHR '','', CHR '')'', CHR ''('', CHR ''-''}"
  by (auto simp: is_type_name_char_def class_simps)

lemma type_end_not_name: "type_end s \<Longrightarrow> s = [] \<or> \<not> is_type_name_char (hd s)"
  using name_char_not [of "hd s"] by (auto simp: type_end_def)

lemma take_name:
  assumes "list_all is_type_name_char token" "s = [] \<or> \<not> is_type_name_char (hd s)" "n = length token"
  shows "take n (name @ s) = token \<longleftrightarrow> take n name = token"
proof (cases "length token \<le> length name")
  case False
  have "take (length token) (name @ s) \<noteq> token"
  proof
    assume eq: "take (length token) (name @ s) = token"
    have "s \<noteq> []" using eq False arg_cong [OF eq, of length] by auto
    then have "hd s \<in> set (take (length token) (name @ s))" using False by (cases s) (auto simp: take_Cons')
    with eq assms \<open>s \<noteq> []\<close> show False by (auto simp: list_all_iff)
  qed
  moreover have "take (length token) name \<noteq> token" using False by auto
  ultimately show ?thesis by (simp add: assms(3))
qed (simp add: assms(3))

text \<open>A text that starts with a name goes to \<open>ParseNamedOrBuiltin\<close>.\<close>

lemma ParseType_name:
  assumes "name \<noteq> []" "list_all is_type_name_char name" "take 5 name \<noteq> ''const''" "take 4 name \<noteq> ''proc''"
    and "s = [] \<or> \<not> is_type_name_char (hd s)"
  shows "tp_ParseType (Suc n) (name @ s) = tp_ParseNamedOrBuiltin (tp_ParseType n) (tp_ParseList n) (name @ s)"
proof -
  obtain c cs where name: "name = c # cs" using assms(1) by (cases name) auto
  have c: "c \<notin> {CHR '' '', tab_char, CHR ''*'', CHR ''[''}"
    using assms(2) name_char_not [of c] by (auto simp: name)
  have skip: "tp_SkipWhitespace (name @ s) = name @ s" using c by (auto simp: name tp_SkipWhitespace_def)
  have token: "list_all is_type_name_char ''const''" "list_all is_type_name_char ''proc''"
    by (simp_all add: is_type_name_char_def class_simps)
  have const: "take 5 (name @ s) \<noteq> ''const''" and proc: "take 4 (name @ s) \<noteq> ''proc''"
    using take_name [OF token(1) assms(5), of 5 name] take_name [OF token(2) assms(5), of 4 name] assms(3,4)
    by (simp_all del: take_append)
  have "tp_Consume ''*'' (name @ s) = (False, name @ s)" "tp_Consume ''['' (name @ s) = (False, name @ s)"
    using c by (simp_all add: name Consume_first)
  moreover have "tp_Consume ''const'' (name @ s) = (False, name @ s)"
    using const by (simp add: tp_Consume_def skip Let_def numeral_eq_Suc del: take_append)
  ultimately show ?thesis using proc by (simp add: skip)
qed

lemma ParseIdentifier_name:
  assumes "name \<noteq> []" "list_all is_type_name_char name" "s = [] \<or> \<not> is_type_name_char (hd s)"
  shows "tp_ParseIdentifier (name @ s) = Some (name, s)"
proof -
  obtain c cs where name: "name = c # cs" using assms(1) by (cases name) auto
  have "tp_SkipWhitespace (name @ s) = name @ s"
    using assms(2) name_char_not [of c] by (auto simp: name tp_SkipWhitespace_def)
  moreover have "takeWhile is_type_name_char (name @ s) = name" "dropWhile is_type_name_char (name @ s) = s"
    using assms(2,3) by (cases s; auto simp: list_all_iff takeWhile_append2 dropWhile_append2)+
  ultimately show ?thesis using assms(1) by (simp add: tp_ParseIdentifier_def Let_def)
qed

lemma ParseType_blank [simp]: "tp_ParseType n (CHR '' '' # s) = tp_ParseType n s"
  by (cases n) (simp_all add: tp_SkipWhitespace_def)

lemma ParseList_blank [simp]: "tp_ParseList n close (CHR '' '' # s) = tp_ParseList n close s"
  by (cases n) (simp_all del: tp_ParseType.simps)

definition type_start :: "string \<Rightarrow> bool" where
  "type_start s \<longleftrightarrow> s \<noteq> [] \<and> hd s \<notin> {CHR '' '', tab_char, CHR ''>'', CHR '')''}"

definition reads_back :: "Type \<Rightarrow> string \<Rightarrow> bool" where
  "reads_back t s \<longleftrightarrow> type_start s \<and> (\<forall>r n. type_end r \<longrightarrow> 2 * length (s @ r) + 1 \<le> n \<longrightarrow> tp_ParseType n (s @ r) = tp_return t r)"

lemma reads_backD:
  "reads_back t s \<Longrightarrow> type_end r \<Longrightarrow> 2 * length (s @ r) + 1 \<le> n \<Longrightarrow> tp_ParseType n (s @ r) = tp_return t r"
  by (simp add: reads_back_def)

lemma tp_bind_return [simp]: "tp_bind (tp_return x s) f = f x s"
  by (simp add: tp_bind_def tp_return_def)

lemma ParseList_reads:
  "list_all2 reads_back ts ss \<Longrightarrow> ts \<noteq> [] \<Longrightarrow> c = CHR ''>'' \<or> c = CHR '')'' \<Longrightarrow>
     2 * length (join_with '', '' ss @ c # r) + 2 \<le> n \<Longrightarrow>
     tp_ParseList n [c] (join_with '', '' ss @ c # r) = tp_return ts r"
proof (induction ts ss arbitrary: n rule: list_all2_induct)
  case (Cons t ts s ss)
  obtain m where n: "n = Suc m" using Cons.prems(3) by (cases n) auto
  have c: "c \<noteq> CHR '' ''" "c \<noteq> tab_char" "type_end (c # r)" "c \<noteq> CHR '',''" using Cons.prems(2) by auto
  show ?case
  proof (cases ts)
    case Nil
    then have ss: "ss = []" using Cons.hyps(2) by simp
    have "tp_ParseType m (s @ c # r) = tp_return t (c # r)"
      using reads_backD [OF Cons.hyps(1) c(3)] Cons.prems(3) by (simp add: n ss)
    with c show ?thesis by (simp add: n ss Nil Consume_first del: tp_ParseType.simps)
  next
    case (Cons t' ts')
    then obtain s' ss' where ss: "ss = s' # ss'" using Cons.hyps(2) by (cases ss) auto
    have "tp_ParseType m (s @ '','' @ CHR '' '' # join_with '', '' ss @ c # r) =
        tp_return t ('','' @ CHR '' '' # join_with '', '' ss @ c # r)"
      using Cons.prems(3) by (intro reads_backD [OF Cons.hyps(1)]) (auto simp: n ss)
    moreover have "tp_ParseList m [c] (join_with '', '' ss @ c # r) = tp_return ts r"
      using Cons.prems Cons by (intro Cons.IH) (auto simp: n ss)
    ultimately show ?thesis using c by (simp add: n ss Consume_first del: tp_ParseType.simps)
  qed
qed simp

lemma ParseType_builtin:
  assumes "map_of builtin_type_texts name = Some t" "type_end r"
  shows "tp_ParseType (Suc n) (name @ r) = tp_return t r"
proof -
  have "(name, t) \<in> set builtin_type_texts" using assms(1) by (rule map_of_SomeD)
  then have name: "name \<noteq> []" "list_all is_type_name_char name" "take 5 name \<noteq> ''const''" "take 4 name \<noteq> ''proc''"
    by (auto simp: builtin_type_texts_def is_type_name_char_def class_simps)
  note r = type_end_not_name [OF assms(2)]
  show ?thesis
    unfolding ParseType_name [OF name r] tp_ParseNamedOrBuiltin_def ParseIdentifier_name [OF name(1,2) r]
    using assms(1) by simp
qed

text \<open>One lemma for each form of text.\<close>

lemma ParseType_prefixed:
  assumes "reads_back t s" "type_end r"
  shows "2 * length (CHR ''*'' # s @ r) + 1 \<le> n \<Longrightarrow> tp_ParseType n (CHR ''*'' # s @ r) = tp_return (PointerType t) r"
    and "2 * length (''const '' @ s @ r) + 1 \<le> n \<Longrightarrow> tp_ParseType n (''const '' @ s @ r) = tp_return (ConstType t) r"
    and "CHR '']'' \<notin> set len \<Longrightarrow> 2 * length (''['' @ len @ '']'' @ s @ r) + 1 \<le> n \<Longrightarrow>
           tp_ParseType n (''['' @ len @ '']'' @ s @ r) = tp_return (ArrayType t len) r"
proof -
  have inner: "2 * length (s @ r) + 1 \<le> m \<Longrightarrow> tp_ParseType m (s @ r) = tp_return t r" for m
    using assms by (rule reads_backD)
  show "tp_ParseType n (CHR ''*'' # s @ r) = tp_return (PointerType t) r"
    if "2 * length (CHR ''*'' # s @ r) + 1 \<le> n"
    using that inner by (cases n) (simp_all add: tp_SkipWhitespace_def Consume_first)
  show "tp_ParseType n (''const '' @ s @ r) = tp_return (ConstType t) r" if "2 * length (''const '' @ s @ r) + 1 \<le> n"
    using that inner by (cases n) (simp_all add: tp_SkipWhitespace_def Consume_first)
  show "tp_ParseType n (''['' @ len @ '']'' @ s @ r) = tp_return (ArrayType t len) r"
    if "CHR '']'' \<notin> set len" "2 * length (''['' @ len @ '']'' @ s @ r) + 1 \<le> n"
  proof -
    have "takeWhile (\<lambda>ch. ch \<noteq> CHR '']'') (len @ CHR '']'' # s @ r) = len"
      "dropWhile (\<lambda>ch. ch \<noteq> CHR '']'') (len @ CHR '']'' # s @ r) = CHR '']'' # s @ r"
      using that(1) by (auto simp: takeWhile_append dropWhile_append)
    then show ?thesis
      using that inner by (cases n) (simp_all add: tp_SkipWhitespace_def Consume_first Let_def)
  qed
qed

lemma ParseType_named:
  assumes name: "type_name_ok name" and r: "type_end r"
  shows "1 \<le> n \<Longrightarrow> tp_ParseType n (name @ r) = tp_return (NamedType name) r"
    and "list_all2 reads_back ts ss \<Longrightarrow> ts \<noteq> [] \<Longrightarrow> name \<noteq> ''tuple'' \<Longrightarrow> name \<noteq> ''range'' \<Longrightarrow>
      2 * length (name @ ''<'' @ join_with '', '' ss @ ''>'' @ r) + 1 \<le> n \<Longrightarrow>
      tp_ParseType n (name @ ''<'' @ join_with '', '' ss @ ''>'' @ r) = tp_return (mk_Type Ty_kNamed name [] ts) r"
proof -
  have n: "name \<noteq> []" "list_all is_type_name_char name" "take 5 name \<noteq> ''const''" "take 4 name \<noteq> ''proc''"
    "map_of builtin_type_texts name = None"
    using name by (auto simp: type_name_ok_def)
  have lt: "tp_Consume ''<'' r = (False, r)"
    using r by (cases r) (auto simp: type_end_def Consume_first)
  show "tp_ParseType n (name @ r) = tp_return (NamedType name) r" if "1 \<le> n"
    using that lt n(5)
    by (cases n) (simp_all add: ParseType_name [OF n(1-4) type_end_not_name [OF r]] tp_ParseNamedOrBuiltin_def
        ParseIdentifier_name [OF n(1,2) type_end_not_name [OF r]] del: tp_ParseType.simps)
  show "tp_ParseType n (name @ ''<'' @ join_with '', '' ss @ ''>'' @ r) = tp_return (mk_Type Ty_kNamed name [] ts) r"
    if prems: "list_all2 reads_back ts ss" "ts \<noteq> []" "name \<noteq> ''tuple''" "name \<noteq> ''range''"
      "2 * length (name @ ''<'' @ join_with '', '' ss @ ''>'' @ r) + 1 \<le> n"
  proof -
    obtain m where m: "n = Suc m" using prems(5) by (cases n) auto
    let ?r = "''<'' @ join_with '', '' ss @ ''>'' @ r"
    have end': "?r = [] \<or> \<not> is_type_name_char (hd ?r)" using name_char_not [of "CHR ''<''"] by auto
    have "tp_ParseList m ''>'' (join_with '', '' ss @ CHR ''>'' # r) = tp_return ts r"
      using prems m by (intro ParseList_reads) auto
    with prems(3,4) n(5) show ?thesis
      unfolding m ParseType_name [OF n(1-4) end'] tp_ParseNamedOrBuiltin_def ParseIdentifier_name [OF n(1,2) end']
      by (simp add: Consume_first)
  qed
qed

lemma name_text_end: "''<'' @ s = [] \<or> \<not> is_type_name_char (hd (''<'' @ s))"
  using name_char_not [of "CHR ''<''"] by auto

lemma ParseType_range:
  assumes "reads_back t s" "type_end r" "2 * length (''range<'' @ s @ ''>'' @ r) + 1 \<le> n"
  shows "tp_ParseType n (''range<'' @ s @ ''>'' @ r) = tp_return (RangeType t) r"
proof -
  obtain m where m: "n = Suc m" using assms(3) by (cases n) auto
  have name: "''range'' \<noteq> []" "list_all is_type_name_char ''range''" "take 5 ''range'' \<noteq> ''const''"
    "take 4 ''range'' \<noteq> ''proc''"
    by (simp_all add: is_type_name_char_def class_simps)
  have "tp_ParseType m (s @ CHR ''>'' # r) = tp_return t (CHR ''>'' # r)"
    using assms by (intro reads_backD) (auto simp: m)
  then show ?thesis
    using ParseType_name [OF name name_text_end, of m "s @ ''>'' @ r"]
      ParseIdentifier_name [OF name(1,2) name_text_end, of "s @ ''>'' @ r"]
    by (simp add: m tp_ParseNamedOrBuiltin_def builtin_type_texts_def Consume_first del: tp_ParseType.simps)
qed

lemma joined_start:
  assumes "list_all2 reads_back ts ss" "ts \<noteq> []"
  obtains c cs where "join_with '', '' ss = c # cs" "c \<notin> {CHR '' '', tab_char, CHR ''>'', CHR '')''}"
proof -
  obtain s ss' where "ss = s # ss'" "type_start s"
    using assms by (cases ts; cases ss) (auto simp: reads_back_def)
  then show ?thesis using that by (cases s; cases ss') (auto simp: type_start_def)
qed

lemma ParseType_tuple:
  assumes "list_all2 reads_back ts ss" "type_end r" "2 * length (''tuple<'' @ join_with '', '' ss @ ''>'' @ r) + 1 \<le> n"
  shows "tp_ParseType n (''tuple<'' @ join_with '', '' ss @ ''>'' @ r) = tp_return (TupleType ts) r"
proof -
  obtain m where m: "n = Suc m" using assms(3) by (cases n) auto
  have name: "''tuple'' \<noteq> []" "list_all is_type_name_char ''tuple''" "take 5 ''tuple'' \<noteq> ''const''"
    "take 4 ''tuple'' \<noteq> ''proc''"
    by (simp_all add: is_type_name_char_def class_simps)
  note step = ParseType_name [OF name name_text_end, of m "join_with '', '' ss @ ''>'' @ r"]
    ParseIdentifier_name [OF name(1,2) name_text_end, of "join_with '', '' ss @ ''>'' @ r"]
  show ?thesis
  proof (cases ts)
    case Nil
    then show ?thesis
      using step assms(1)
      by (simp add: m tp_ParseNamedOrBuiltin_def builtin_type_texts_def Consume_first del: tp_ParseType.simps)
  next
    case (Cons t ts')
    then obtain c cs where joined: "join_with '', '' ss = c # cs" "c \<notin> {CHR '' '', tab_char, CHR ''>'', CHR '')''}"
      using joined_start [OF assms(1)] by blast
    have "tp_ParseList m ''>'' (join_with '', '' ss @ CHR ''>'' # r) = tp_return ts r"
      using assms Cons m by (intro ParseList_reads) auto
    with step joined show ?thesis
      by (simp add: m tp_ParseNamedOrBuiltin_def builtin_type_texts_def Consume_first del: tp_ParseType.simps)
  qed
qed

lemma ParseType_procedure:
  assumes params: "list_all2 reads_back ps pss" and r: "type_end r"
    and returns: "\<And>m. 2 * length (rs @ r) + 1 \<le> m \<Longrightarrow> tp_ParseType m (rs @ r) = tp_return t r"
    and n: "2 * length (''proc('' @ join_with '', '' pss @ '')->'' @ rs @ r) + 1 \<le> n"
  shows "tp_ParseType n (''proc('' @ join_with '', '' pss @ '')->'' @ rs @ r) =
    tp_return (ProcedureType ps (procedure_returns t)) r"
proof -
  obtain m where m: "n = Suc m" using n by (cases n) auto
  let ?s = "join_with '', '' pss @ '')->'' @ rs @ r"
  have "tp_ParseType n (''proc('' @ ?s) = tp_ParseProcedure (tp_ParseType m) (tp_ParseList m) (''proc('' @ ?s)"
    by (simp add: m tp_SkipWhitespace_def Consume_first)
  moreover have "(case tp_Consume '')'' ?s of (True, s) \<Rightarrow> tp_return [] s | (False, s) \<Rightarrow> tp_ParseList m '')'' s) =
      tp_return ps (''->'' @ rs @ r)"
  proof (cases ps)
    case Nil
    then show ?thesis using params by (simp add: Consume_first)
  next
    case (Cons p ps')
    then obtain c cs where joined: "join_with '', '' pss = c # cs" "c \<notin> {CHR '' '', tab_char, CHR ''>'', CHR '')''}"
      using joined_start [OF params] by blast
    have "tp_ParseList m '')'' (join_with '', '' pss @ CHR '')'' # ''->'' @ rs @ r) = tp_return ps (''->'' @ rs @ r)"
      using params Cons n m by (intro ParseList_reads) auto
    with joined show ?thesis by (simp add: Consume_first)
  qed
  moreover have "tp_ParseType m (rs @ r) = tp_return t r" using n m by (intro returns) auto
  ultimately show ?thesis
    by (simp add: tp_ParseProcedure_def Consume_first del: tp_ParseType.simps)
qed

section \<open>The round trip\<close>

lemma FormatType_subtypes:
  assumes "CanonicalizeBuiltinType (mk_Type k name metadata ts) = mk_Type k name metadata ts"
  shows "\<And>x. x \<in> set ts \<Longrightarrow> CanonicalizeBuiltinType x = x"
  using Canonicalize_subtype [of _ "mk_Type k name metadata ts"] unfolding assms by simp

lemma reads_backI:
  assumes "type_start s" "\<And>r n. type_end r \<Longrightarrow> 2 * length (s @ r) + 1 \<le> n \<Longrightarrow> tp_ParseType n (s @ r) = tp_return t r"
  shows "reads_back t s"
  using assms by (simp add: reads_back_def)

lemma reads_back_builtin:
  "map_of builtin_type_texts name = Some t \<Longrightarrow> reads_back t name"
proof (rule reads_backI)
  assume "map_of builtin_type_texts name = Some t"
  then have "(name, t) \<in> set builtin_type_texts" by (rule map_of_SomeD)
  then show "type_start name" by (auto simp: builtin_type_texts_def type_start_def)
next
  fix r n assume "map_of builtin_type_texts name = Some t" "type_end r" "2 * length (name @ r) + 1 \<le> n"
  then show "tp_ParseType n (name @ r) = tp_return t r" by (cases n) (auto intro: ParseType_builtin simp del: tp_ParseType.simps)
qed

lemma reads_back_returns:
  assumes "list_all2 reads_back rs rss" "length rs = 1 \<longrightarrow> ty_kind (hd rs) \<notin> {Ty_kVoid, Ty_kTuple}"
  obtains t s where "format_returns rss = ''->'' @ s" "procedure_returns t = rs"
    "\<And>r m. type_end r \<Longrightarrow> 2 * length (s @ r) + 1 \<le> m \<Longrightarrow> tp_ParseType m (s @ r) = tp_return t r"
proof -
  have len: "length rss = length rs" using assms(1) by (simp add: list_all2_lengthD)
  consider "rs = []" | x y where "rs = [x]" "rss = [y]" | "1 < length rs"
    using len by (cases rs; cases rss; cases "tl rs"; auto)
  then show thesis
  proof cases
    case 1
    have "reads_back VoidType ''void''" by (rule reads_back_builtin) (simp add: builtin_type_texts_def)
    then show ?thesis
      using that [of "''void''" VoidType] 1 len
      by (simp add: format_returns_def procedure_returns_def VoidType_def reads_back_def)
  next
    case 2
    then show ?thesis
      using that [of y x] assms by (simp add: format_returns_def procedure_returns_def reads_back_def)
  next
    case 3
    have "tp_ParseType m (''tuple<'' @ join_with '', '' rss @ ''>'' @ r) = tp_return (TupleType rs) r"
      if "type_end r" "2 * length (''tuple<'' @ join_with '', '' rss @ ''>'' @ r) + 1 \<le> m" for r m
      using ParseType_tuple [OF assms(1) that] .
    moreover have "format_returns rss = ''->'' @ ''tuple<'' @ join_with '', '' rss @ ''>''"
      using 3 len by (auto simp: format_returns_def)
    moreover have "procedure_returns (TupleType rs) = rs"
      by (simp add: procedure_returns_def TupleType_def)
    ultimately show ?thesis
      using that [of "''tuple<'' @ join_with '', '' rss @ ''>''" "TupleType rs"] by simp
  qed
qed

lemma FormatType_reads_back:
  "type_writable t \<Longrightarrow> CanonicalizeBuiltinType t = t \<Longrightarrow> FormatType t = Some s \<Longrightarrow> reads_back t s"
proof (induction t arbitrary: s)
  case (mk_Type k name metadata ts)
  note c = mk_Type.prems(2)
  note format = mk_Type.prems(3) [unfolded FormatType.simps [of "mk_Type k name metadata ts"] c, unfolded Let_def Type.sel]
  note w = mk_Type.prems(1) [unfolded type_writable.simps list_all_id_map]
  have sub: "reads_back x y" if "x \<in> set ts" "FormatType x = Some y" for x y
    using mk_Type.IH [OF that(1) _ FormatType_subtypes [OF c that(1)] that(2)] w that(1) by (simp add: list_all_iff)
  have subs: "list_all2 reads_back ts ss" if "those (map FormatType ts) = Some ss" for ss
  proof -
    have eq: "map FormatType ts = map Some ss" using that by (simp add: those_map_Some)
    then have "length ts = length ss" by (rule map_eq_imp_length_eq)
    moreover have "FormatType (ts ! i) = Some (ss ! i)" if "i < length ts" for i
      using arg_cong [OF eq, of "\<lambda>xs. xs ! i"] that calculation by simp
    ultimately show ?thesis using sub by (simp add: list_all2_conv_all_nth)
  qed
  have front: "\<exists>x y. ts = [x] \<and> FormatType x = Some y \<and> reads_back x y \<and> s = f y"
    if "map_option f (case ts of [] \<Rightarrow> None | x # _ \<Rightarrow> FormatType x) = Some s" "length ts = 1" for f
    using that sub by (cases ts) auto
  have args: "\<exists>ss. list_all2 reads_back ts ss \<and> s = f (''<'' @ join_with '', '' ss @ ''>'')"
    if "map_option f (format_args (map FormatType ts)) = Some s" for f
    using that subs by (auto simp: format_args_def comma_separated_def)
  show ?case
  proof (cases k)
    case Ty_kNamed
    show ?thesis
    proof (cases "ts = []")
      case True
      then have "s = name" "mk_Type k name metadata ts = NamedType name"
        using format w Ty_kNamed by (simp_all add: NamedType_def)
      moreover have "type_start name"
        using w Ty_kNamed name_char_not [of "hd name"] by (cases name) (auto simp: type_start_def type_name_ok_def)
      ultimately show ?thesis
        using w Ty_kNamed ParseType_named(1) [of name] by (intro reads_backI) auto
    next
      case False
      then obtain ss where ss: "list_all2 reads_back ts ss" "s = name @ ''<'' @ join_with '', '' ss @ ''>''"
        using format args [of "(@) name"] Ty_kNamed by auto
      have name: "type_name_ok name" "name \<noteq> ''tuple''" "name \<noteq> ''range''" "metadata = []"
        using w Ty_kNamed False by auto
      have "type_start s"
        using name(1) name_char_not [of "hd name"] by (cases name) (auto simp: ss(2) type_start_def type_name_ok_def)
      then show ?thesis
        using ParseType_named(2) [OF name(1) _ ss(1) False name(2,3)] by (intro reads_backI) (auto simp: ss(2) Ty_kNamed name(4))
    qed
  next
    case Ty_kPointer
    then obtain x y where "ts = [x]" "reads_back x y" "s = ''*'' @ y"
      using format front [of "\<lambda>r. ''*'' @ r"] w by auto
    then show ?thesis
      using ParseType_prefixed(1) [of x y] Ty_kPointer w by (intro reads_backI) (auto simp: type_start_def PointerType_def)
  next
    case Ty_kConst
    then obtain x y where "ts = [x]" "reads_back x y" "s = ''const '' @ y"
      using format front [of "\<lambda>r. ''const '' @ r"] w by auto
    then show ?thesis
      using ParseType_prefixed(2) [of x y] Ty_kConst w by (intro reads_backI) (auto simp: type_start_def ConstType_def)
  next
    case Ty_kArray
    then obtain x y where "ts = [x]" "reads_back x y" "s = ''['' @ metadata @ '']'' @ y"
      using format front [of "\<lambda>r. ''['' @ metadata @ '']'' @ r"] w by auto
    then show ?thesis
      using ParseType_prefixed(3) [of x y _ metadata] Ty_kArray w by (intro reads_backI) (auto simp: type_start_def ArrayType_def)
  next
    case Ty_kRange
    then obtain x y where "ts = [x]" "reads_back x y" "s = ''range<'' @ y @ ''>''"
      using format front [of "\<lambda>r. ''range<'' @ r @ ''>''"] w by auto
    then show ?thesis
      using ParseType_range [of x y] Ty_kRange w by (intro reads_backI) (auto simp: type_start_def RangeType_def)
  next
    case Ty_kTuple
    then obtain ss where ss: "list_all2 reads_back ts ss" "s = ''tuple<'' @ join_with '', '' ss @ ''>''"
      using format args [of "(@) ''tuple''"] by auto
    then show ?thesis
      using ParseType_tuple [OF ss(1)] Ty_kTuple w by (intro reads_backI) (auto simp: type_start_def TupleType_def)
  next
    case Ty_kProcedure
    obtain p where p: "p \<le> length ts" "metadata = string_of_nat p" "p < 2 ^ 64"
      "length ts = Suc p \<longrightarrow> ty_kind (last ts) \<notin> {Ty_kVoid, Ty_kTuple}"
      using w Ty_kProcedure by auto
    obtain ss where those: "those (map FormatType ts) = Some ss"
      using format Ty_kProcedure by (auto simp: Let_def)
    note ss = subs [OF those]
    have "unat (of_nat p :: size64) = p" using p(3) by (simp add: unat_of_nat)
    then have s: "s = ''proc('' @ join_with '', '' (take p ss) @ '')'' @ format_returns (drop p ss)"
      using format Ty_kProcedure those p(2) by (simp add: Let_def)
    have params: "list_all2 reads_back (take p ts) (take p ss)" and rets: "list_all2 reads_back (drop p ts) (drop p ss)"
      using ss by (auto intro: list_all2_takeI list_all2_dropI)
    have "length (drop p ts) = 1 \<longrightarrow> ty_kind (hd (drop p ts)) \<notin> {Ty_kVoid, Ty_kTuple}"
    proof
      assume "length (drop p ts) = 1"
      then have len: "length ts = Suc p" by simp
      then have "hd (drop p ts) = last ts" by (cases ts rule: rev_cases) auto
      with p(4) len show "ty_kind (hd (drop p ts)) \<notin> {Ty_kVoid, Ty_kTuple}" by simp
    qed
    then obtain t u where t: "format_returns (drop p ss) = ''->'' @ u" "procedure_returns t = drop p ts"
      "\<And>r m. type_end r \<Longrightarrow> 2 * length (u @ r) + 1 \<le> m \<Longrightarrow> tp_ParseType m (u @ r) = tp_return t r"
      using reads_back_returns [OF rets] by metis
    have "mk_Type k name metadata ts = ProcedureType (take p ts) (procedure_returns t)"
      using Ty_kProcedure w p by (simp add: ProcedureType_def t(2))
    then show ?thesis
      using ParseType_procedure [OF params _ t(3)] by (intro reads_backI) (auto simp: s t(1) type_start_def)
  qed (use format w in \<open>auto intro!: reads_back_builtin simp: builtin_type_texts_def type_constructors\<close>)
qed

lemma ParseTypeText_Format:
  assumes "type_writable (CanonicalizeBuiltinType t)" "FormatType t = Some s"
  shows "ParseTypeText s = Some (CanonicalizeBuiltinType t)"
proof -
  have "FormatType (CanonicalizeBuiltinType t) = Some s"
    using assms(2) FormatType_canonical [of "CanonicalizeBuiltinType t" t] by simp
  then have "reads_back (CanonicalizeBuiltinType t) s"
    using FormatType_reads_back assms(1) by simp
  then have "tp_ParseType (2 * length s + 1) (s @ []) = tp_return (CanonicalizeBuiltinType t) []"
    by (rule reads_backD) simp_all
  then show ?thesis by (simp add: ParseTypeText_def tp_return_def tp_SkipWhitespace_def)
qed

end
