(* ===== verification/MC_MciConstSpec.thy ===== *)
theory MC_MciConstSpec
  imports MC_MciConst MC_MciTypeSpec
begin

text \<open>
  What becomes of a constant value that is written and read back, \<open>reread_const\<close>: the members that its
  kind does not use are those of a new value, the type is canonical, missing field names are empty, and
  the text of a compound value is rendered anew.
\<close>

section \<open>The value read back\<close>

fun padded :: "string list \<Rightarrow> 'a list \<Rightarrow> string list" where
  "padded names [] = []"
| "padded [] (x # xs) = [] # padded [] xs"
| "padded (name # names) (x # xs) = name # padded names xs"

definition texted :: "double_ops \<Rightarrow> ConstValue \<Rightarrow> ConstValue" where
  "texted fp v = (case with_text fp v of None \<Rightarrow> v | Some w \<Rightarrow> w)"

primrec reread_const :: "double_ops \<Rightarrow> (string \<Rightarrow> (double \<times> bool) option) \<Rightarrow> ConstValue \<Rightarrow> ConstValue" where
  "reread_const fp stream_double (mk_ConstValue kind integer_value float_value bool_value txt procedure_name
      enum_type variant_name variant_tag field_names elements) =
     (let children = map (reread_const fp stream_double) elements in
      case kind of
        CK_kBool \<Rightarrow> MakeConstValue_bool bool_value
      | CK_kInteger \<Rightarrow> MakeConstValue_int integer_value
      | CK_kFloat \<Rightarrow> set_cv_text txt (set_cv_float_value (the (ParseFloat64 stream_double txt)) (new_ConstValue CK_kFloat))
      | CK_kString \<Rightarrow> set_cv_text txt (new_ConstValue CK_kString)
      | CK_kNil \<Rightarrow> set_cv_text ''nil'' (new_ConstValue CK_kNil)
      | CK_kProcedure \<Rightarrow> MakeProcedureConstValue procedure_name
      | CK_kEnum \<Rightarrow> texted fp (mk_ConstValue CK_kEnum 0 0 False [] [] (CanonicalizeBuiltinType enum_type)
          variant_name variant_tag (padded field_names elements) children)
      | CK_kAggregate \<Rightarrow> texted fp (mk_ConstValue CK_kAggregate 0 0 False [] [] UnknownType [] 0
          (padded field_names elements) children))"

primrec const_writable :: "nat \<Rightarrow> (string \<Rightarrow> (double \<times> bool) option) \<Rightarrow> ConstValue \<Rightarrow> bool" where
  \<comment> \<open>A float has a text that is a number, an enum value a tag that is not negative and a type that can
    be read back, and the containers can hold the elements.\<close>
  "const_writable vmax stream_double (mk_ConstValue kind integer_value float_value bool_value txt procedure_name
      enum_type variant_name variant_tag field_names elements) \<longleftrightarrow>
     (kind = CK_kFloat \<longrightarrow> ParseFloat64 stream_double txt \<noteq> None) \<and>
     (kind = CK_kEnum \<longrightarrow> type_writable (CanonicalizeBuiltinType enum_type) \<and> 0 \<le> sint variant_tag) \<and>
     (kind \<in> {CK_kEnum, CK_kAggregate} \<longrightarrow>
        length elements \<le> vmax \<and> list_all id (map (const_writable vmax stream_double) elements))"

section \<open>Lists of elements\<close>

lemma append_children_acc: "append_children encoded names children = encoded @ append_children [] names children"
proof (induction children arbitrary: encoded names)
  case (Cons c cs)
  let ?A = AppendLengthPrefixed
  define name where "name = (case names of [] \<Rightarrow> [] | n # _ \<Rightarrow> n)"
  have step: "append_children e names (c # cs) = append_children (?A (?A e name) c) (tl names) cs" for e
    by (cases names) (simp_all add: name_def)
  show ?case
    unfolding step Cons.IH [of "?A (?A encoded name) c"] Cons.IH [of "?A (?A [] name) c"]
    by (simp add: AppendLengthPrefixed_def)
qed simp

lemma append_children_padded: "append_children encoded (padded names children) children = append_children encoded names children"
  by (induction encoded names children rule: append_children.induct) simp_all

lemma padded_length [simp]: "length (padded names xs) = length xs"
  by (induction names xs rule: padded.induct) simp_all

lemma padded_cong: "length xs = length ys \<Longrightarrow> padded names xs = padded names ys"
  by (induction names xs arbitrary: ys rule: padded.induct) (auto simp: Suc_length_conv)

text \<open>\<open>rereads parse v\<close>: the reader gives, from the text of \<open>v\<close>, what \<open>v\<close> becomes.\<close>

lemma append_children_Cons:
  "append_children encoded names (c # cs) =
     encoded @ string_of_nat (length (concat (take 1 names))) @ '':'' @ concat (take 1 names) @
      string_of_nat (length c) @ '':'' @ c @ append_children [] (tl names) cs"
proof -
  let ?A = AppendLengthPrefixed
  have "append_children encoded names (c # cs) = append_children (?A (?A encoded (concat (take 1 names))) c) (tl names) cs"
    by (cases names) simp_all
  then show ?thesis
    using append_children_acc [of "?A (?A encoded (concat (take 1 names))) c" "tl names" cs]
    by (simp add: AppendLengthPrefixed_def)
qed

lemma parse_children_append:
  assumes "list_all2 (\<lambda>e c. parse c = Some (Some (f e))) elements children"
    and "length (append_children [] names children) < 2 ^ 64"
  shows "parse_children parse (length elements) (append_children [] names children @ rest) =
    Some (Some (zip (padded names elements) (map f elements), rest))"
  using assms
proof (induction elements children arbitrary: names rule: list_all2_induct)
  case (Cons e es c cs)
  have len: "length (concat (take 1 names)) < 2 ^ 64" "length c < 2 ^ 64"
      "length (append_children [] (tl names) cs) < 2 ^ 64"
    using Cons.prems by (simp_all add: append_children_Cons)
  have rest: "parse_children parse (length es) (append_children [] (tl names) cs @ rest) =
      Some (Some (zip (padded (tl names) es) (map f es), rest))"
    using len(3) by (rule Cons.IH)
  have "padded names (e # es) = concat (take 1 names) # padded (tl names) es"
    by (cases names) simp_all
  then show ?case
    using len(1,2) Cons.hyps(1) rest by (simp add: append_children_Cons opt_bind_def)
qed simp

lemma children_shorter:
  "c \<in> set children \<Longrightarrow> length c < length (append_children [] names children)"
proof (induction children arbitrary: names)
  case (Cons d ds)
  then show ?case
    using Cons.IH [of "tl names"] by (fastforce simp: append_children_Cons)
qed simp

lemma children_count: "length children \<le> length (append_children [] names children)"
proof (induction children arbitrary: names)
  case (Cons d ds)
  show ?case using Cons.IH [of "tl names"] by (simp add: append_children_Cons)
qed simp

section \<open>The round trip\<close>

lemma const_writable_elements:
  "const_writable vmax sd v \<Longrightarrow> cv_kind v \<in> {CK_kEnum, CK_kAggregate} \<Longrightarrow> e \<in> set (cv_elements v) \<Longrightarrow>
     const_writable vmax sd e"
  by (cases v) (auto simp: list_all_iff)

lemma Render_set_text [simp]: "RenderConstValue fp (set_cv_text t v) = RenderConstValue fp v"
  if "cv_kind v \<noteq> CK_kString"
  using that by (cases v; cases "cv_kind v") (simp_all add: set_cv_text_def Let_def)

lemma texted_text: "RenderConstValue fp v \<noteq> None \<Longrightarrow> with_text fp v = Some (texted fp v)"
  by (auto simp: texted_def with_text_def)

lemma Render_texted: "cv_kind v \<noteq> CK_kString \<Longrightarrow> RenderConstValue fp (texted fp v) = RenderConstValue fp v"
  by (auto simp: texted_def with_text_def split: option.split)

lemma those_map_list_all2: "those (map f xs) = Some ys \<longleftrightarrow> list_all2 (\<lambda>x y. f x = Some y) xs ys"
proof (induction xs arbitrary: ys)
  case (Cons x xs)
  then show ?case by (cases ys) (auto split: option.splits)
qed auto

lemma those_map_total: "those (map f xs) \<noteq> None \<longleftrightarrow> (\<forall>x \<in> set xs. f x \<noteq> None)"
  by (induction xs) (auto split: option.splits)

lemma list_all2_total: "list_all2 (\<lambda>x y. f x = Some y) xs ys \<Longrightarrow> x \<in> set xs \<Longrightarrow> f x \<noteq> None"
  using those_map_total [of f xs] by (simp flip: those_map_list_all2)

lemma append_children_head: "append_children (c # encoded) names cs = c # encoded @ append_children [] names cs"
  using append_children_acc [of "c # encoded"] by simp

definition enum_head :: "string \<Rightarrow> string \<Rightarrow> int64 \<Rightarrow> nat \<Rightarrow> string" where
  "enum_head type_text variant_name variant_tag n =
     ''e:'' @ string_of_nat (length type_text) @ '':'' @ type_text @ string_of_nat (length variant_name) @ '':'' @
       variant_name @ string_of_int (sint variant_tag) @ '':'' @ string_of_nat n @ '':''"

lemma Serialize_enum:
  "SerializeConstValue_some (mk_ConstValue CK_kEnum i f b tx pn et vn vt names elements) = Some s \<longleftrightarrow>
     (\<exists>t cs. FormatType et = Some t \<and> list_all2 (\<lambda>e c. SerializeConstValue_some e = Some c) elements cs \<and>
       s = enum_head t vn vt (length elements) @ append_children [] names cs)"
  by (auto simp: Let_def bind_eq_Some_conv those_map_list_all2 AppendLengthPrefixed_def enum_head_def append_children_head)

lemma Serialize_aggregate:
  "SerializeConstValue_some (mk_ConstValue CK_kAggregate i f b tx pn et vn vt names elements) = Some s \<longleftrightarrow>
     (\<exists>cs. list_all2 (\<lambda>e c. SerializeConstValue_some e = Some c) elements cs \<and>
       s = ''a:'' @ string_of_nat (length elements) @ '':'' @ append_children [] names cs)"
  by (auto simp: Let_def those_map_list_all2 append_children_head)

lemma reread_renders:
  "SerializeConstValue_some v \<noteq> None \<Longrightarrow> RenderConstValue fp (reread_const fp sd v) \<noteq> None"
proof (induction v)
  case (mk_ConstValue k i f b tx pn et vn vt names elements)
  have elems: "those (map (RenderConstValue fp) (map (reread_const fp sd) elements)) \<noteq> None"
    if "list_all2 (\<lambda>e c. SerializeConstValue_some e = Some c) elements cs" for cs
    using list_all2_total [OF that] mk_ConstValue.IH
    by (simp only: map_map those_map_total comp_apply not_False_eq_True ball_simps) blast
  show ?case
  proof (cases k)
    case CK_kEnum
    then obtain t cs where "FormatType et = Some t"
      and cs: "list_all2 (\<lambda>e c. SerializeConstValue_some e = Some c) elements cs"
      using mk_ConstValue.prems Serialize_enum by blast
    moreover have "FormatType (CanonicalizeBuiltinType et) = FormatType et" by (rule FormatType_canonical) simp
    ultimately show ?thesis using CK_kEnum elems [OF cs] by (auto simp: Let_def Render_texted)
  next
    case CK_kAggregate
    then obtain cs where cs: "list_all2 (\<lambda>e c. SerializeConstValue_some e = Some c) elements cs"
      using mk_ConstValue.prems Serialize_aggregate by blast
    show ?thesis using CK_kAggregate elems [OF cs] by (auto simp: Let_def Render_texted)
  qed (simp_all add: Let_def MakeConstValue_bool_def MakeConstValue_int_def MakeProcedureConstValue_def
      set_cv_text_def set_cv_bool_value_def set_cv_integer_value_def set_cv_float_value_def new_ConstValue_def)
qed

lemma texted_kind: "texted fp v = v \<or> (\<exists>t. texted fp v = set_cv_text t v)"
  by (auto simp: texted_def with_text_def split: option.split)

lemma Serialize_texted:
  "cv_kind v \<noteq> CK_kString \<Longrightarrow> cv_kind v \<noteq> CK_kFloat \<Longrightarrow>
     SerializeConstValue_some (texted fp v) = SerializeConstValue_some v"
  using texted_kind [of fp v]
  by (cases v; cases "cv_kind v") (auto simp: set_cv_text_def Let_def)

lemma reread_serializes:
  "SerializeConstValue_some v = Some s \<Longrightarrow> SerializeConstValue_some (reread_const fp sd v) = Some s"
proof (induction v arbitrary: s)
  case (mk_ConstValue k i f b tx pn et vn vt names elements)
  have elems: "list_all2 (\<lambda>e c. SerializeConstValue_some e = Some c) (map (reread_const fp sd) elements) cs"
    if "list_all2 (\<lambda>e c. SerializeConstValue_some e = Some c) elements cs" for cs
    using that mk_ConstValue.IH by (simp add: list_all2_conv_all_nth)
  have pad: "append_children [] (padded names elements) cs = append_children [] names cs"
    if "list_all2 (\<lambda>e c. SerializeConstValue_some e = Some c) elements cs" for cs
    using padded_cong [OF list_all2_lengthD [OF that], of names] append_children_padded by simp
  show ?case
  proof (cases k)
    case CK_kEnum
    then obtain t cs where t: "FormatType et = Some t" "s = enum_head t vn vt (length elements) @ append_children [] names cs"
      and cs: "list_all2 (\<lambda>e c. SerializeConstValue_some e = Some c) elements cs"
      using mk_ConstValue.prems Serialize_enum by blast
    have "FormatType (CanonicalizeBuiltinType et) = Some t" using t(1) FormatType_canonical [of "CanonicalizeBuiltinType et" et] by simp
    moreover have "reread_const fp sd (mk_ConstValue k i f b tx pn et vn vt names elements) =
        texted fp (mk_ConstValue CK_kEnum 0 0 False [] [] (CanonicalizeBuiltinType et) vn vt (padded names elements)
          (map (reread_const fp sd) elements))"
      using CK_kEnum by (simp add: Let_def)
    moreover have "s = enum_head t vn vt (length (map (reread_const fp sd) elements)) @
        append_children [] (padded names elements) cs"
      using t(2) pad [OF cs] by simp
    ultimately show ?thesis
      using elems [OF cs] Serialize_enum by (simp add: Serialize_texted del: SerializeConstValue_some.simps) blast
  next
    case CK_kAggregate
    then obtain cs where cs: "list_all2 (\<lambda>e c. SerializeConstValue_some e = Some c) elements cs"
      "s = ''a:'' @ string_of_nat (length elements) @ '':'' @ append_children [] names cs"
      using mk_ConstValue.prems Serialize_aggregate by blast
    have "reread_const fp sd (mk_ConstValue k i f b tx pn et vn vt names elements) =
        texted fp (mk_ConstValue CK_kAggregate 0 0 False [] [] UnknownType [] 0 (padded names elements)
          (map (reread_const fp sd) elements))"
      using CK_kAggregate by (simp add: Let_def)
    moreover have "s = ''a:'' @ string_of_nat (length (map (reread_const fp sd) elements)) @ '':'' @
        append_children [] (padded names elements) cs"
      using cs(2) pad [OF cs(1)] by simp
    ultimately show ?thesis
      using elems [OF cs(1)] Serialize_aggregate by (simp add: Serialize_texted del: SerializeConstValue_some.simps) blast
  qed (use mk_ConstValue.prems in \<open>simp_all add: Let_def MakeConstValue_bool_def MakeConstValue_int_def
      MakeProcedureConstValue_def set_cv_text_def set_cv_bool_value_def set_cv_integer_value_def set_cv_float_value_def
      new_ConstValue_def\<close>)
qed

lemma ParseLengthPrefix_number_0:
  "0 \<le> sint v \<Longrightarrow> ParseLengthPrefix (string_of_int (sint (v :: int64)) @ CHR '':'' # rest) = Some (v, rest)"
  by (simp add: string_of_int_def)

lemma parse_elements_read:
  assumes cs: "list_all2 (\<lambda>e c. parse c = Some (Some (f e))) elements cs"
    and len: "length (append_children [] names cs) < 2 ^ 64" and vmax: "length elements \<le> vmax"
    and rendered: "with_text fp (build (padded names elements) (map f elements)) = Some v"
  shows "parse_elements vmax fp parse (of_nat (length elements)) (append_children [] names cs) build = Some (Some v)"
proof -
  have "length elements \<le> length (append_children [] names cs)"
    using children_count [of cs names] list_all2_lengthD [OF cs] by simp
  then have n: "unat (of_nat (length elements) :: size64) = length elements"
    using len by (simp add: unat_of_nat)
  have "parse_children parse (length elements) (append_children [] names cs) =
      Some (Some (zip (padded names elements) (map f elements), []))"
    using parse_children_append [OF cs len, of "[]"] by simp
  then show ?thesis using vmax rendered by (simp add: parse_elements_def reserve_def n opt_bind_def)
qed

lemma ParseConstValue_fuel_read:
  assumes "const_writable vmax sd v" "SerializeConstValue_some v = Some s" "length s < 2 ^ 64" "length s < n"
  shows "ParseConstValue_fuel n vmax fp sd s = Some (Some (reread_const fp sd v))"
  using assms
proof (induction v arbitrary: s n)
  case (mk_ConstValue k i f b tx pn et vn vt names elements)
  obtain m where n: "n = Suc m" using mk_ConstValue.prems(4) by (cases n) auto
  let ?parse = "ParseConstValue_fuel m vmax fp sd"
  let ?v = "mk_ConstValue k i f b tx pn et vn vt names elements"
  have elems: "list_all2 (\<lambda>e c. ?parse c = Some (Some (reread_const fp sd e))) elements cs"
    if cs: "list_all2 (\<lambda>e c. SerializeConstValue_some e = Some c) elements cs"
      and w: "list_all (const_writable vmax sd) elements"
      and s: "s = p @ append_children [] names cs" for cs p
    unfolding list_all2_conv_all_nth
  proof (intro conjI allI impI)
    show "length elements = length cs" using cs by (rule list_all2_lengthD)
    fix j assume j: "j < length elements"
    have "length (cs ! j) < length (append_children [] names cs)"
      using children_shorter [of "cs ! j" cs names] j cs by (simp add: list_all2_conv_all_nth)
    moreover have "SerializeConstValue_some (elements ! j) = Some (cs ! j)"
      using cs j by (simp add: list_all2_conv_all_nth)
    moreover have "const_writable vmax sd (elements ! j)" using w j by (simp add: list_all_length)
    ultimately show "?parse (cs ! j) = Some (Some (reread_const fp sd (elements ! j)))"
      using mk_ConstValue.IH [OF nth_mem [OF j]] mk_ConstValue.prems(3,4) by (simp add: s n)
  qed
  have total: "RenderConstValue fp (reread_const fp sd ?v) \<noteq> None"
    using mk_ConstValue.prems(2) by (intro reread_renders) (simp del: SerializeConstValue_some.simps)
  show ?case
  proof (cases k)
    case CK_kEnum
    then obtain t cs where t: "FormatType et = Some t" "s = enum_head t vn vt (length elements) @ append_children [] names cs"
      and cs: "list_all2 (\<lambda>e c. SerializeConstValue_some e = Some c) elements cs"
      using mk_ConstValue.prems(2) Serialize_enum by blast
    have w: "type_writable (CanonicalizeBuiltinType et)" "0 \<le> sint vt" "length elements \<le> vmax"
        "list_all (const_writable vmax sd) elements"
      using mk_ConstValue.prems(1) CK_kEnum by (simp_all add: list_all_id_map)
    have len: "length t < 2 ^ 64" "length vn < 2 ^ 64" "length (append_children [] names cs) < 2 ^ 64"
      using mk_ConstValue.prems(3) by (simp_all add: t(2) enum_head_def)
    let ?w = "mk_ConstValue CK_kEnum 0 0 False [] [] (CanonicalizeBuiltinType et) vn vt (padded names elements)
        (map (reread_const fp sd) elements)"
    have v: "reread_const fp sd ?v = texted fp ?w" using CK_kEnum by (simp add: Let_def)
    have "with_text fp ?w = Some (texted fp ?w)"
      using total unfolding v by (intro texted_text) (subst (asm) Render_texted, simp_all only: ConstValue.sel ConstKind.distinct not_False_eq_True)
    then have read: "parse_elements vmax fp ?parse (of_nat (length elements)) (append_children [] names cs)
        (mk_ConstValue CK_kEnum 0 0 False [] [] (CanonicalizeBuiltinType et) vn vt) = Some (Some (texted fp ?w))"
      by (rule parse_elements_read [OF elems [OF cs w(4) t(2)] len(3) w(3)])
    show ?thesis
      using w(2) len(1,2) ParseTypeText_Format [OF w(1) t(1)] ParseLengthPrefix_number_0 [OF w(2)] read
      by (simp add: n CK_kEnum t(2) enum_head_def parse_const_body_def opt_bind_def Let_def)
  next
    case CK_kAggregate
    then obtain cs where s: "s = (''a:'' @ string_of_nat (length elements) @ '':'') @ append_children [] names cs"
      and cs: "list_all2 (\<lambda>e c. SerializeConstValue_some e = Some c) elements cs"
      using mk_ConstValue.prems(2) Serialize_aggregate by auto
    have w: "length elements \<le> vmax" "list_all (const_writable vmax sd) elements"
      using mk_ConstValue.prems(1) CK_kAggregate by (simp_all add: list_all_id_map)
    have len: "length (append_children [] names cs) < 2 ^ 64" using mk_ConstValue.prems(3) by (simp add: s)
    let ?w = "mk_ConstValue CK_kAggregate 0 0 False [] [] UnknownType [] 0 (padded names elements)
        (map (reread_const fp sd) elements)"
    have v: "reread_const fp sd ?v = texted fp ?w" using CK_kAggregate by (simp add: Let_def)
    have "with_text fp ?w = Some (texted fp ?w)"
      using total unfolding v by (intro texted_text) (subst (asm) Render_texted, simp_all only: ConstValue.sel ConstKind.distinct not_False_eq_True)
    then have read: "parse_elements vmax fp ?parse (of_nat (length elements)) (append_children [] names cs)
        (mk_ConstValue CK_kAggregate 0 0 False [] [] UnknownType [] 0) = Some (Some (texted fp ?w))"
      by (rule parse_elements_read [OF elems [OF cs w(2) s] len w(1)])
    then show ?thesis
      by (simp add: n CK_kAggregate s parse_const_body_def opt_bind_def Let_def)
  next
    case CK_kProcedure
    then have s: "s = ''p:'' @ string_of_nat (length pn) @ '':'' @ pn @ []"
      using mk_ConstValue.prems(2) by (simp add: AppendLengthPrefixed_def)
    have "length pn < 2 ^ 64" using mk_ConstValue.prems(3) by (simp add: s)
    then have "ConsumeLengthPrefixed (string_of_nat (length pn) @ CHR '':'' # pn) = Some (pn, [])"
      using ConsumeLengthPrefixed_Append [of pn "[]"] by simp
    then show ?thesis
      using CK_kProcedure by (simp add: s n parse_const_body_def opt_bind_def Let_def with_text_def
          MakeProcedureConstValue_def set_cv_text_def)
  next
    case CK_kBool
    then have "s = ''b:'' @ (if b then ''1'' else ''0'')" using mk_ConstValue.prems(2) by (simp add: Let_def)
    then show ?thesis
      using CK_kBool by (simp add: n parse_const_body_def opt_bind_def Let_def MakeConstValue_bool_def MakeConstValue_int_def)
  next
    case CK_kInteger
    then have "s = ''i:'' @ string_of_int (sint i)" using mk_ConstValue.prems(2) by (simp add: Let_def)
    then show ?thesis
      using CK_kInteger by (simp add: n parse_const_body_def opt_bind_def Let_def MakeConstValue_bool_def MakeConstValue_int_def)
  next
    case CK_kFloat
    then have "s = ''f:'' @ tx" using mk_ConstValue.prems(2) by (simp add: Let_def)
    then show ?thesis
      using CK_kFloat mk_ConstValue.prems(1) by (auto simp: n parse_const_body_def opt_bind_def Let_def MakeConstValue_bool_def MakeConstValue_int_def)
  next
    case CK_kString
    then have "s = ''s:'' @ tx" using mk_ConstValue.prems(2) by (simp add: Let_def)
    then show ?thesis
      using CK_kString by (simp add: n parse_const_body_def opt_bind_def Let_def MakeConstValue_bool_def MakeConstValue_int_def)
  next
    case CK_kNil
    then have "s = ''n:''" using mk_ConstValue.prems(2) by (simp add: Let_def)
    then show ?thesis
      using CK_kNil by (simp add: n parse_const_body_def opt_bind_def Let_def MakeConstValue_bool_def MakeConstValue_int_def)
  qed
qed

lemma ParseConstValue_read:
  "const_writable vmax sd v \<Longrightarrow> SerializeConstValue_some v = Some s \<Longrightarrow> length s < 2 ^ 64 \<Longrightarrow>
     ParseConstValue vmax fp sd s = Some (Some (reread_const fp sd v))"
  by (simp add: ParseConstValue_def ParseConstValue_fuel_read del: ParseConstValue_fuel.simps)

section \<open>Values that are kept\<close>

primrec floats_exact :: "(string \<Rightarrow> (double \<times> bool) option) \<Rightarrow> ConstValue \<Rightarrow> bool" where
  \<comment> \<open>The text of a float is read as its value.\<close>
  "floats_exact stream_double (mk_ConstValue kind integer_value float_value bool_value txt procedure_name
      enum_type variant_name variant_tag field_names elements) \<longleftrightarrow>
     (kind = CK_kFloat \<longrightarrow> ParseFloat64 stream_double txt = Some float_value) \<and>
     list_all id (map (floats_exact stream_double) elements)"

primrec const_agrees :: "ConstValue \<Rightarrow> ConstValue \<Rightarrow> bool" where
  \<comment> \<open>The members that count for the kind are the same; a missing field name is empty.\<close>
  "const_agrees (mk_ConstValue kind integer_value float_value bool_value txt procedure_name
      enum_type variant_name variant_tag field_names elements) w \<longleftrightarrow>
     cv_kind w = kind \<and> (kind = CK_kBool \<longrightarrow> cv_bool_value w = bool_value) \<and>
     (kind = CK_kInteger \<longrightarrow> cv_integer_value w = integer_value) \<and> (kind = CK_kFloat \<longrightarrow> cv_float_value w = float_value) \<and>
     (kind = CK_kString \<longrightarrow> cv_text w = txt) \<and> (kind = CK_kProcedure \<longrightarrow> cv_procedure_name w = procedure_name) \<and>
     (kind = CK_kEnum \<longrightarrow> type_eq (cv_enum_type w) enum_type \<and> cv_variant_name w = variant_name \<and> cv_variant_tag w = variant_tag) \<and>
     (kind \<in> {CK_kEnum, CK_kAggregate} \<longrightarrow> cv_field_names w = padded field_names elements \<and>
        list_all2 (\<lambda>agrees e. agrees e) (map const_agrees elements) (cv_elements w))"

lemma texted_sel [simp]:
  "cv_kind (texted fp v) = cv_kind v" "cv_enum_type (texted fp v) = cv_enum_type v" "cv_variant_name (texted fp v) = cv_variant_name v"
  "cv_variant_tag (texted fp v) = cv_variant_tag v" "cv_field_names (texted fp v) = cv_field_names v" "cv_elements (texted fp v) = cv_elements v"
  by (cases v; simp add: texted_def with_text_def set_cv_text_def split: option.split)+

lemma reread_agrees: "floats_exact sd v \<Longrightarrow> const_agrees v (reread_const fp sd v)"
proof (induction v)
  case (mk_ConstValue k i f b tx pn et vn vt names elements)
  have "list_all2 (\<lambda>agrees e. agrees e) (map const_agrees elements) (map (reread_const fp sd) elements)"
    using mk_ConstValue by (auto simp: list_all2_conv_all_nth list_all_length)
  moreover have "padded names (map (reread_const fp sd) elements) = padded names elements" by (rule padded_cong) simp
  ultimately show ?case
    using mk_ConstValue.prems
    by (cases k) (simp_all add: MakeConstValue_bool_def MakeConstValue_int_def MakeProcedureConstValue_def new_ConstValue_def
      set_cv_text_def set_cv_bool_value_def set_cv_integer_value_def set_cv_float_value_def type_eq_canonical)
qed

end
