(* ===== verification/MC_MciSpec.thy ===== *)
theory MC_MciSpec
  imports MC_Mci MC_MciConstSpec
begin

text \<open>
  Interface files: what \<open>WriteInterfaceArtifact\<close> wrote is loaded again, as \<open>reread_artifact\<close>; what is
  loaded has passed the checks; and the contents that stop the program.
\<close>

section \<open>What becomes of an artifact\<close>

abbreviation type_readable :: "Type \<Rightarrow> bool" where
  "type_readable t \<equiv> type_writable (CanonicalizeBuiltinType t)"

abbreviation canonical_field :: "string \<times> Type \<Rightarrow> string \<times> Type" where
  "canonical_field \<equiv> apsnd CanonicalizeBuiltinType"

definition reread_function :: "FunctionSignature \<Rightarrow> FunctionSignature" where
  "reread_function f = f\<lparr>fs_param_types := map CanonicalizeBuiltinType (fs_param_types f),
     fs_return_types := map CanonicalizeBuiltinType (fs_return_types f)\<rparr>"

definition reread_variant :: "VariantSummary \<Rightarrow> VariantSummary" where
  "reread_variant v = v\<lparr>vs_payload_fields := map canonical_field (vs_payload_fields v)\<rparr>"

definition reread_type_decl :: "TypeDeclSummary \<Rightarrow> TypeDeclSummary" where
  \<comment> \<open>The attributes are not written.\<close>
  "reread_type_decl d = d\<lparr>td_attributes := [], td_fields := map canonical_field (td_fields d),
     td_variants := map reread_variant (td_variants d), td_aliased_type := CanonicalizeBuiltinType (td_aliased_type d)\<rparr>"

definition reread_global :: "double_ops \<Rightarrow> (string \<Rightarrow> (double \<times> bool) option) \<Rightarrow> GlobalSummary \<Rightarrow> GlobalSummary" where
  \<comment> \<open>A list of one missing value has the text of the empty list.\<close>
  "reread_global fp sd g = g\<lparr>gs_type := CanonicalizeBuiltinType (gs_type g),
     gs_constant_values := (if gs_constant_values g = [None] then []
       else map (map_option (reread_const fp sd)) (gs_constant_values g))\<rparr>"

definition reread_module :: "double_ops \<Rightarrow> (string \<Rightarrow> (double \<times> bool) option) \<Rightarrow> Module \<Rightarrow> Module" where
  "reread_module fp sd m = empty_module\<lparr>mod_imports := mod_imports m,
     mod_functions := map reread_function (mod_functions m),
     mod_type_decls := map reread_type_decl (mod_type_decls m),
     mod_globals := map (reread_global fp sd) (mod_globals m)\<rparr>"

definition reread_artifact ::
  "double_ops \<Rightarrow> (string \<Rightarrow> (double \<times> bool) option) \<Rightarrow> string \<Rightarrow> InterfaceArtifact \<Rightarrow> InterfaceArtifact" where
  "reread_artifact fp sd hash a = a\<lparr>ia_format_version := kFormatVersion,
     ia_module := reread_module fp sd (ia_module a), ia_interface_hash := hash\<rparr>"

definition global_values_agree :: "GlobalSummary \<Rightarrow> GlobalSummary \<Rightarrow> bool" where
  \<comment> \<open>The same names with the same values; a single missing value is none.\<close>
  "global_values_agree g h \<longleftrightarrow> gs_names h = gs_names g \<and>
     (if gs_constant_values g = [None] then gs_constant_values h = []
      else list_all2 (rel_option const_agrees) (gs_constant_values g) (gs_constant_values h))"

definition module_floats_exact :: "(string \<Rightarrow> (double \<times> bool) option) \<Rightarrow> Module \<Rightarrow> bool" where
  "module_floats_exact sd m \<longleftrightarrow> list_all (\<lambda>g. list_all (pred_option (floats_exact sd)) (gs_constant_values g)) (mod_globals m)"

lemma reread_globals_agree:
  assumes "module_floats_exact sd m"
  shows "list_all2 global_values_agree (mod_globals m) (mod_globals (reread_module fp sd m))"
proof -
  have v: "rel_option const_agrees v (map_option (reread_const fp sd) v)" if "pred_option (floats_exact sd) v" for v
    using that by (cases v) (simp_all add: reread_agrees)
  have "global_values_agree g (reread_global fp sd g)" if "list_all (pred_option (floats_exact sd)) (gs_constant_values g)" for g
    using that v by (auto simp: global_values_agree_def reread_global_def list_all2_conv_all_nth list_all_length)
  then show ?thesis
    using assms by (auto simp: module_floats_exact_def reread_module_def list_all2_conv_all_nth list_all_length)
qed

definition function_writable :: "FunctionSignature \<Rightarrow> bool" where
  "function_writable f \<longleftrightarrow> fs_type_params f \<noteq> [[]] \<and>
     length (fs_param_is_noalias f) = length (fs_param_types f) \<and>
     list_all type_readable (fs_param_types f) \<and> list_all type_readable (fs_return_types f)"

definition fields_writable :: "(string \<times> Type) list \<Rightarrow> bool" where
  "fields_writable fts = list_all (\<lambda>f. type_readable (snd f)) fts"

definition type_decl_writable :: "TypeDeclSummary \<Rightarrow> bool" where
  "type_decl_writable d \<longleftrightarrow> td_kind d \<in> {D_kStruct, D_kEnum, D_kDistinct, D_kTypeAlias} \<and>
     td_type_params d \<noteq> [[]] \<and> type_readable (td_aliased_type d) \<and> fields_writable (td_fields d) \<and>
     distinct (map vs_name (td_variants d)) \<and> list_all (\<lambda>v. fields_writable (vs_payload_fields v)) (td_variants d)"

definition global_writable :: "nat \<Rightarrow> (string \<Rightarrow> (double \<times> bool) option) \<Rightarrow> GlobalSummary \<Rightarrow> bool" where
  "global_writable vmax sd g \<longleftrightarrow> gs_names g \<noteq> [[]] \<and> type_readable (gs_type g) \<and>
     list_all (pred_option (const_writable vmax sd)) (gs_constant_values g) \<and>
     (gs_constant_values g = [] \<or> gs_constant_values g = [None] \<or>
        length (gs_constant_values g) = length (gs_names g)) \<and>
     (gs_zero_initialized_values g = [] \<or> length (gs_zero_initialized_values g) = length (gs_names g))"

definition artifact_writable :: "nat \<Rightarrow> (string \<Rightarrow> (double \<times> bool) option) \<Rightarrow> InterfaceArtifact \<Rightarrow> bool" where
  "artifact_writable vmax sd a \<longleftrightarrow> ia_package_identity a \<noteq> [] \<and> mod_imports (ia_module a) \<noteq> [[]] \<and>
     list_all function_writable (mod_functions (ia_module a)) \<and>
     list_all type_decl_writable (mod_type_decls (ia_module a)) \<and>
     distinct (map td_name (mod_type_decls (ia_module a))) \<and>
     list_all (global_writable vmax sd) (mod_globals (ia_module a))"

section \<open>Lines\<close>

definition plain_record :: "string list \<Rightarrow> bool" where
  "plain_record r \<longleftrightarrow> r \<noteq> [] \<and> hd r \<noteq> [] \<and> (\<forall>f \<in> set r. tab_char \<notin> set f \<and> newline_char \<notin> set f)"

lemma SplitFields_record: "plain_record r \<Longrightarrow> SplitFields (join_with [tab_char] r) = r"
  using split_on_join [of r tab_char] by (auto simp: SplitFields_def plain_record_def)

lemma getlines_records:
  assumes "\<forall>r \<in> set rs. plain_record r"
  shows "getlines newline_char (concat (map record_line rs)) = map (join_with [tab_char]) rs"
proof -
  have "newline_char \<notin> set (join_with [tab_char] r)" if "r \<in> set rs" for r
    using set_join_with [of "[tab_char]" r] assms that by (auto simp: plain_record_def)
  then show ?thesis
    using getlines_concat [of "map (join_with [tab_char]) rs" newline_char]
    by (simp add: record_line_def [abs_def] comp_def)
qed

primrec run_records ::
  "nat \<Rightarrow> double_ops \<Rightarrow> (string \<Rightarrow> (double \<times> bool) option) \<Rightarrow> string list list \<Rightarrow> LoadState \<Rightarrow> LoadState option" where
  "run_records vmax fp sd [] st = Some st"
| "run_records vmax fp sd (r # rs) st =
     (case load_record vmax fp sd r st of Some (Inr st) \<Rightarrow> run_records vmax fp sd rs st | _ \<Rightarrow> None)"

lemma run_records_append:
  "run_records vmax fp sd (rs @ qs) st = Option.bind (run_records vmax fp sd rs st) (run_records vmax fp sd qs)"
  by (induction rs arbitrary: st) (auto split: option.split sum.split)

lemma join_with_neq_Nil: "plain_record r \<Longrightarrow> join_with sep r \<noteq> []"
  by (cases r rule: remdups_adj.cases) (auto simp: plain_record_def)

lemma load_lines_record:
  "plain_record r \<Longrightarrow> load_lines vmax fp sd n (join_with [tab_char] r # rest) st =
     (case load_record vmax fp sd r st of
        None \<Rightarrow> None
      | Some (Inl message) \<Rightarrow> Some (Inl (n + 1, message))
      | Some (Inr st) \<Rightarrow> load_lines vmax fp sd (n + 1) rest st)"
  by (simp add: SplitFields_record join_with_neq_Nil)

lemma load_lines_records:
  "\<forall>r \<in> set rs. plain_record r \<Longrightarrow> run_records vmax fp sd rs st = Some st' \<Longrightarrow>
     load_lines vmax fp sd n (map (join_with [tab_char]) rs) st = Some (Inr st')"
proof (induction rs arbitrary: st n)
  case (Cons r rs)
  then show ?case
    by (auto simp: load_lines_record simp del: load_lines.simps(2) split: option.splits sum.splits)
qed simp

section \<open>Types in records\<close>

lemma FormatType_Canonicalize [simp]: "FormatType (CanonicalizeBuiltinType t) = FormatType t"
  by (rule FormatType_canonical) simp

lemma FormatType_neq_Nil: "type_readable t \<Longrightarrow> FormatType t = Some s \<Longrightarrow> s \<noteq> []"
  using FormatType_reads_back [of "CanonicalizeBuiltinType t" s] by (auto simp: reads_back_def type_start_def)

lemma types_read:
  assumes "list_all type_readable ts" "those (map FormatType ts) = Some ss"
  shows "SplitEscaped (JoinEscaped ss) = Some ss" "those (map ParseTypeText ss) = Some (map CanonicalizeBuiltinType ts)"
proof -
  have ss: "list_all2 (\<lambda>t s. FormatType t = Some s) ts ss" using assms(2) by (simp add: those_map_list_all2)
  have "ss \<noteq> [[]]"
  proof
    assume "ss = [[]]"
    with ss obtain t where "ts = [t]" "FormatType t = Some []" by (auto simp: list_all2_Cons2)
    then show False using assms(1) FormatType_neq_Nil [of t "[]"] by simp
  qed
  then show "SplitEscaped (JoinEscaped ss) = Some ss" by (simp add: SplitEscaped_JoinEscaped)
  have "list_all2 (\<lambda>s t. ParseTypeText s = Some t) ss (map CanonicalizeBuiltinType ts)"
    using ss assms(1) ParseTypeText_Format by (auto simp: list_all2_conv_all_nth list_all_length)
  then show "those (map ParseTypeText ss) = Some (map CanonicalizeBuiltinType ts)"
    by (simp add: those_map_list_all2)
qed

lemma split_params [simp]: "xs \<noteq> [[]] \<Longrightarrow> SplitEscaped (JoinEscaped xs) = Some xs"
  by (simp add: SplitEscaped_JoinEscaped)

lemmas load_simps = check_that_def need_def with_module_def with_artifact_def

lemma load_function_record:
  assumes "function_writable f" "function_record f = Some r"
  shows "load_record vmax fp sd r st =
    with_module (\<lambda>m. m\<lparr>mod_functions := mod_functions m @ [reread_function f]\<rparr>) st"
proof -
  obtain ps rs where ps: "those (map FormatType (fs_param_types f)) = Some ps"
      and rs: "those (map FormatType (fs_return_types f)) = Some rs"
      and r: "r = [''function'', EscapeText (fs_name f), flag_text (fs_is_extern f), EscapeText (fs_extern_abi f),
         JoinEscaped (fs_type_params f), JoinEscaped ps, JoinEscaped rs, JoinBoolFlags (fs_param_is_noalias f)]"
    using assms(2) by (auto simp: function_record_def bind_eq_Some_conv)
  have f: "fs_type_params f \<noteq> [[]]" "length (fs_param_is_noalias f) = length (fs_param_types f)"
    "list_all type_readable (fs_param_types f)" "list_all type_readable (fs_return_types f)"
    using assms(1) by (simp_all add: function_writable_def)
  have f': "reread_function f = \<lparr>fs_name = fs_name f, fs_is_extern = fs_is_extern f, fs_extern_abi = fs_extern_abi f,
      fs_type_params = fs_type_params f, fs_param_types = map CanonicalizeBuiltinType (fs_param_types f),
      fs_param_is_noalias = fs_param_is_noalias f,
      fs_return_types = map CanonicalizeBuiltinType (fs_return_types f)\<rparr>"
    by (simp add: reread_function_def)
  have "load_record vmax fp sd r st = load_function r st" by (simp add: load_record_def r)
  also have "\<dots> = with_module (\<lambda>m. m\<lparr>mod_functions := mod_functions m @ [reread_function f]\<rparr>) st"
    using types_read [OF f(3) ps] types_read [OF f(4) rs] f(1,2)
    by (cases "fs_param_is_noalias f") (simp_all add: load_function_def r check_that_def need_def f')
  finally show ?thesis .
qed

section \<open>Records of types\<close>

lemma update_first_last:
  "(\<And>x. x \<in> set xs \<Longrightarrow> \<not> P x) \<Longrightarrow> P y \<Longrightarrow> update_first P f (xs @ [y]) = xs @ [f y]"
  by (induction xs) auto

lemma field_type_read:
  "type_readable t \<Longrightarrow> FormatType t = Some s \<Longrightarrow> ParseTypeText s = Some (CanonicalizeBuiltinType t)"
  by (rule ParseTypeText_Format)

definition with_last_type :: "TypeDeclSummary list \<Rightarrow> TypeDeclSummary \<Rightarrow> LoadState \<Rightarrow> LoadState" where
  "with_last_type ds d st = st\<lparr>ld_artifact := (ld_artifact st)
     \<lparr>ia_module := (ia_module (ld_artifact st))\<lparr>mod_type_decls := ds @ [d]\<rparr>\<rparr>\<rparr>"

lemma update_last_type:
  assumes "\<forall>e \<in> set ds. td_name e \<noteq> td_name d"
  shows "update_type (td_name d) f (with_last_type ds d st) = Some (Inr (with_last_type ds (f d) st))"
  using assms by (simp add: update_type_def with_module_def with_artifact_def with_last_type_def update_first_last)

lemma has_last_type [simp]: "has_type (td_name d) (with_last_type ds d st)"
  by (simp add: has_type_def with_last_type_def)

lemma update_member:
  "td_fields_update g d = d\<lparr>td_fields := g (td_fields d)\<rparr>"
  "td_variants_update h d = d\<lparr>td_variants := h (td_variants d)\<rparr>"
  by (cases d; simp)+

lemma load_field_record:
  assumes "\<forall>e \<in> set ds. td_name e \<noteq> td_name d" "type_readable (snd f)"
    "field_record [''type_field'', EscapeText (td_name d)] f = Some r"
  shows "load_record vmax fp sd r (with_last_type ds d st) =
    Some (Inr (with_last_type ds (d\<lparr>td_fields := td_fields d @ [canonical_field f]\<rparr>) st))"
proof -
  obtain t where t: "FormatType (snd f) = Some t" "r = [''type_field'', EscapeText (td_name d), EscapeText (fst f), EscapeText t]"
    using assms(3) by (auto simp: field_record_def)
  let ?g = "\<lambda>fts. fts @ [(fst f, CanonicalizeBuiltinType (snd f))]"
  have "load_record vmax fp sd r (with_last_type ds d st) = Some (Inr (with_last_type ds (td_fields_update ?g d) st))"
    using field_type_read [OF assms(2) t(1)] update_last_type [OF assms(1)]
    by (simp add: load_record_def load_type_field_def check_that_def need_def t(2))
  also have "td_fields_update ?g d = d\<lparr>td_fields := ?g (td_fields d)\<rparr>"
    by (rule update_member(1))
  finally show ?thesis by (simp add: apsnd_def map_prod_def prod.case_eq_if)
qed

lemma load_field_records:
  assumes "\<forall>e \<in> set ds. td_name e \<noteq> td_name d" "fields_writable fts"
    "those (map (field_record [''type_field'', EscapeText (td_name d)]) fts) = Some rs"
  shows "run_records vmax fp sd rs (with_last_type ds d st) =
    Some (with_last_type ds (d\<lparr>td_fields := td_fields d @ map canonical_field fts\<rparr>) st)"
  using assms
proof (induction fts arbitrary: d rs)
  case (Cons f fts)
  then obtain r rs' where r: "field_record [''type_field'', EscapeText (td_name d)] f = Some r"
    "those (map (field_record [''type_field'', EscapeText (td_name d)]) fts) = Some rs'" "rs = r # rs'"
    by (auto split: option.splits)
  let ?d = "d\<lparr>td_fields := td_fields d @ [canonical_field f]\<rparr>"
  have "load_record vmax fp sd r (with_last_type ds d st) = Some (Inr (with_last_type ds ?d st))"
    using Cons.prems(1,2) r(1) by (intro load_field_record) (auto simp: fields_writable_def)
  moreover have "run_records vmax fp sd rs' (with_last_type ds ?d st) =
      Some (with_last_type ds (?d\<lparr>td_fields := td_fields ?d @ map canonical_field fts\<rparr>) st)"
    using Cons.prems(1,2) r(2) by (intro Cons.IH) (auto simp: fields_writable_def)
  ultimately show ?case by (simp add: r(3))
qed (simp add: with_last_type_def)

text \<open>The variant that was added last, and its payload.\<close>

definition with_last_variant :: "TypeDeclSummary \<Rightarrow> VariantSummary list \<Rightarrow> VariantSummary \<Rightarrow> TypeDeclSummary" where
  "with_last_variant d vs v = d\<lparr>td_variants := vs @ [v]\<rparr>"

lemma with_last_variant_name [simp]: "td_name (with_last_variant d vs v) = td_name d"
  by (simp add: with_last_variant_def)

lemma load_payload_record:
  assumes ds: "\<forall>e \<in> set ds. td_name e \<noteq> td_name d" and vs: "\<forall>w \<in> set vs. vs_name w \<noteq> vs_name v"
    and f: "type_readable (snd f)"
      "field_record [''type_variant_field'', EscapeText (td_name d), EscapeText (vs_name v)] f = Some r"
  shows "load_record vmax fp sd r (with_last_type ds (with_last_variant d vs v) st) =
    Some (Inr (with_last_type ds (with_last_variant d vs
      (v\<lparr>vs_payload_fields := vs_payload_fields v @ [canonical_field f]\<rparr>)) st))"
proof -
  let ?d = "with_last_variant d vs v"
  let ?g = "vs_payload_fields_update (\<lambda>fts. fts @ [(fst f, CanonicalizeBuiltinType (snd f))])"
  obtain t where t: "FormatType (snd f) = Some t"
    "r = [''type_variant_field'', EscapeText (td_name d), EscapeText (vs_name v), EscapeText (fst f), EscapeText t]"
    using f(2) by (auto simp: field_record_def)
  have find: "find (\<lambda>e. td_name e = td_name d) (ds @ [?d]) = Some ?d"
    using ds by (induction ds) auto
  have variant: "has_variant (td_name d) (vs_name v) (with_last_type ds ?d st)"
    unfolding has_variant_def using find by (simp add: with_last_type_def with_last_variant_def)
  have "load_record vmax fp sd r (with_last_type ds ?d st) =
      update_type (td_name ?d) (td_variants_update (update_first (\<lambda>w. vs_name w = vs_name v) ?g)) (with_last_type ds ?d st)"
    using field_type_read [OF f(1) t(1)] variant has_last_type [of ?d ds st]
    by (simp add: load_record_def load_type_variant_field_def t(2) check_that_def need_def)
  also have "\<dots> = Some (Inr (with_last_type ds (td_variants_update (update_first (\<lambda>w. vs_name w = vs_name v) ?g) ?d) st))"
    using ds by (intro update_last_type) simp
  also have "td_variants_update (update_first (\<lambda>w. vs_name w = vs_name v) ?g) ?d = with_last_variant d vs (?g v)"
    using vs by (simp add: with_last_variant_def update_first_last)
  also have "?g v = v\<lparr>vs_payload_fields := vs_payload_fields v @ [canonical_field f]\<rparr>"
    by (cases v) (simp add: apsnd_def map_prod_def prod.case_eq_if)
  finally show ?thesis .
qed

lemma load_payload_records:
  assumes "\<forall>e \<in> set ds. td_name e \<noteq> td_name d" "\<forall>w \<in> set vs. vs_name w \<noteq> vs_name v" "fields_writable fts"
    "those (map (field_record [''type_variant_field'', EscapeText (td_name d), EscapeText (vs_name v)]) fts) = Some rs"
  shows "run_records vmax fp sd rs (with_last_type ds (with_last_variant d vs v) st) =
    Some (with_last_type ds (with_last_variant d vs
      (v\<lparr>vs_payload_fields := vs_payload_fields v @ map canonical_field fts\<rparr>)) st)"
  using assms
proof (induction fts arbitrary: v rs)
  case (Cons f fts)
  let ?rec = "field_record [''type_variant_field'', EscapeText (td_name d), EscapeText (vs_name v)]"
  obtain r rs' where r: "?rec f = Some r" "those (map ?rec fts) = Some rs'" "rs = r # rs'"
    using Cons.prems(4) by (auto split: option.splits)
  let ?v = "v\<lparr>vs_payload_fields := vs_payload_fields v @ [canonical_field f]\<rparr>"
  have "load_record vmax fp sd r (with_last_type ds (with_last_variant d vs v) st) =
      Some (Inr (with_last_type ds (with_last_variant d vs ?v) st))"
    using Cons.prems r(1) by (intro load_payload_record) (auto simp: fields_writable_def)
  moreover have "run_records vmax fp sd rs' (with_last_type ds (with_last_variant d vs ?v) st) =
      Some (with_last_type ds (with_last_variant d vs
        (?v\<lparr>vs_payload_fields := vs_payload_fields ?v @ map canonical_field fts\<rparr>)) st)"
    using Cons.prems r(2) by (intro Cons.IH) (auto simp: fields_writable_def)
  ultimately show ?case by (simp add: r(3))
qed simp

lemma load_variant_records:
  assumes ds: "\<forall>e \<in> set ds. td_name e \<noteq> td_name d"
    and vs: "\<forall>w \<in> set (td_variants d). vs_name w \<noteq> vs_name v" and v: "fields_writable (vs_payload_fields v)"
    and rs: "variant_records (td_name d) v = Some rs"
  shows "run_records vmax fp sd rs (with_last_type ds d st) =
    Some (with_last_type ds (d\<lparr>td_variants := td_variants d @ [reread_variant v]\<rparr>) st)"
proof -
  obtain qs where qs: "those (map (field_record [''type_variant_field'', EscapeText (td_name d), EscapeText (vs_name v)])
      (vs_payload_fields v)) = Some qs" "rs = [''type_variant'', EscapeText (td_name d), EscapeText (vs_name v)] # qs"
    using rs by (auto simp: variant_records_def)
  let ?v = "\<lparr>vs_name = vs_name v, vs_payload_fields = []\<rparr>"
  have "load_record vmax fp sd [''type_variant'', EscapeText (td_name d), EscapeText (vs_name v)] (with_last_type ds d st) =
      Some (Inr (with_last_type ds (td_variants_update (\<lambda>ws. ws @ [?v]) d) st))"
    using update_last_type [OF ds] by (simp add: load_record_def load_type_variant_def check_that_def need_def)
  moreover have "td_variants_update (\<lambda>ws. ws @ [?v]) d = with_last_variant d (td_variants d) ?v"
    unfolding with_last_variant_def by (rule update_member(2))
  moreover have "run_records vmax fp sd qs (with_last_type ds (with_last_variant d (td_variants d) ?v) st) =
      Some (with_last_type ds (with_last_variant d (td_variants d)
        (?v\<lparr>vs_payload_fields := vs_payload_fields ?v @ map canonical_field (vs_payload_fields v)\<rparr>)) st)"
    using ds vs v qs(1) by (intro load_payload_records) auto
  moreover have "reread_variant v = \<lparr>vs_name = vs_name v, vs_payload_fields = map canonical_field (vs_payload_fields v)\<rparr>"
    by (simp add: reread_variant_def)
  ultimately show ?thesis
    by (simp add: qs(2) with_last_variant_def)
qed

lemma load_variants_records:
  assumes "\<forall>e \<in> set ds. td_name e \<noteq> td_name d" "distinct (map vs_name (td_variants d @ vs))"
    "list_all (\<lambda>v. fields_writable (vs_payload_fields v)) vs" "those (map (variant_records (td_name d)) vs) = Some rss"
  shows "run_records vmax fp sd (concat rss) (with_last_type ds d st) =
    Some (with_last_type ds (d\<lparr>td_variants := td_variants d @ map reread_variant vs\<rparr>) st)"
  using assms
proof (induction vs arbitrary: d rss)
  case (Cons v vs)
  obtain rs rss' where r: "variant_records (td_name d) v = Some rs" "those (map (variant_records (td_name d)) vs) = Some rss'"
    "rss = rs # rss'"
    using Cons.prems(4) by (auto split: option.splits)
  let ?d = "d\<lparr>td_variants := td_variants d @ [reread_variant v]\<rparr>"
  have "\<forall>w \<in> set (td_variants d). vs_name w \<noteq> vs_name v"
    using Cons.prems(2) by (auto simp: image_iff)
  then have "run_records vmax fp sd rs (with_last_type ds d st) = Some (with_last_type ds ?d st)"
    using Cons.prems(1,3) r(1) by (intro load_variant_records) auto
  moreover have "run_records vmax fp sd (concat rss') (with_last_type ds ?d st) =
      Some (with_last_type ds (?d\<lparr>td_variants := td_variants ?d @ map reread_variant vs\<rparr>) st)"
    using Cons.prems r(2) by (intro Cons.IH) (auto simp: reread_variant_def)
  ultimately show ?case by (simp add: r(3) run_records_append)
qed (simp add: with_last_type_def)

lemma with_last_typeI:
  "with_module (\<lambda>m. m\<lparr>mod_type_decls := mod_type_decls m @ [d]\<rparr>) st =
     Some (Inr (with_last_type (mod_type_decls (ia_module (ld_artifact st))) d st))"
  by (simp add: with_module_def with_artifact_def with_last_type_def)

lemma ParseTypeKind_name:
  "k = D_kStruct \<or> k = D_kEnum \<or> k = D_kDistinct \<or> k = D_kTypeAlias \<Longrightarrow> ParseTypeKind (TypeKindName k) = Some k"
  by (elim disjE) (simp_all add: ParseTypeKind_def TypeKindName_def)

lemma load_type_values:
  assumes "ParseTypeKind a = Some kind" "UnescapeText b = Some name" "SplitEscaped c = Some type_params"
    "ParseBoolField d = Some is_packed" "ParseBoolField e = Some is_abi_c" "ParseBoolField f = Some valid"
    "ParseArrayLength g = Some size'" "ParseArrayLength h = Some alignment" "SplitOffsets i = Some offsets"
    "UnescapeText j = Some aliased" "ParseTypeText aliased = Some aliased_type"
  shows "load_type [x, a, b, c, d, e, f, g, h, i, j] st = with_module (\<lambda>m. m\<lparr>mod_type_decls := mod_type_decls m @
      [\<lparr>td_kind = kind, td_name = name, td_type_params = type_params, td_attributes = [], td_fields = [],
         td_variants = [], td_aliased_type = aliased_type, td_is_packed = is_packed, td_is_abi_c = is_abi_c,
         td_layout = \<lparr>lay_valid = valid, lay_size = size', lay_alignment = alignment, lay_field_offsets = offsets\<rparr>\<rparr>]\<rparr>) st"
proof -
  let ?r = "[x, a, b, c, d, e, f, g, h, i, j]"
  have r: "length ?r = 11" "?r ! 1 = a" "?r ! 2 = b" "?r ! 3 = c" "?r ! 4 = d" "?r ! 5 = e" "?r ! 6 = f" "?r ! 7 = g"
    "?r ! 8 = h" "?r ! 9 = i" "?r ! 10 = j"
    by simp_all
  show ?thesis
    unfolding load_type_def check_that_def need_def r assms Option.bind.bind_lunit option.case prod.case by (simp only: refl if_True)
qed

lemma load_type_decl_records:
  assumes w: "type_decl_writable d" and r: "type_decl_records d = Some rs"
    and new: "\<forall>e \<in> set (mod_type_decls (ia_module (ld_artifact st))). td_name e \<noteq> td_name d"
  shows "run_records vmax fp sd rs st =
    Some (with_last_type (mod_type_decls (ia_module (ld_artifact st))) (reread_type_decl d) st)"
proof -
  let ?ds = "mod_type_decls (ia_module (ld_artifact st))"
  obtain al fr vr where al: "FormatType (td_aliased_type d) = Some al"
    and fr: "those (map (field_record [''type_field'', EscapeText (td_name d)]) (td_fields d)) = Some fr"
    and vr: "those (map (variant_records (td_name d)) (td_variants d)) = Some vr"
    and rs: "rs = [''type'', TypeKindName (td_kind d), EscapeText (td_name d), JoinEscaped (td_type_params d),
         flag_text (td_is_packed d), flag_text (td_is_abi_c d), flag_text (lay_valid (td_layout d)),
         string_of_nat (unat (lay_size (td_layout d))), string_of_nat (unat (lay_alignment (td_layout d))),
         JoinEscapedPaths (lay_field_offsets (td_layout d)), EscapeText al] # fr @ concat vr"
    using r by (auto simp: type_decl_records_def bind_eq_Some_conv)
  have d: "ParseTypeKind (TypeKindName (td_kind d)) = Some (td_kind d)" "td_type_params d \<noteq> [[]]"
    "type_readable (td_aliased_type d)" "fields_writable (td_fields d)" "distinct (map vs_name (td_variants d))"
    "list_all (\<lambda>v. fields_writable (vs_payload_fields v)) (td_variants d)"
    using w by (simp_all add: type_decl_writable_def ParseTypeKind_name)
  let ?d0 = "d\<lparr>td_attributes := [], td_fields := [], td_variants := [], td_aliased_type := CanonicalizeBuiltinType (td_aliased_type d)\<rparr>"
  let ?d1 = "?d0\<lparr>td_fields := map canonical_field (td_fields d)\<rparr>"
  have d0: "?d0 = \<lparr>td_kind = td_kind d, td_name = td_name d, td_type_params = td_type_params d, td_attributes = [],
      td_fields = [], td_variants = [], td_aliased_type = CanonicalizeBuiltinType (td_aliased_type d),
      td_is_packed = td_is_packed d, td_is_abi_c = td_is_abi_c d, td_layout = \<lparr>lay_valid = lay_valid (td_layout d),
        lay_size = lay_size (td_layout d), lay_alignment = lay_alignment (td_layout d),
        lay_field_offsets = lay_field_offsets (td_layout d)\<rparr>\<rparr>"
    by simp
  have "load_record vmax fp sd (hd rs) st = load_type (hd rs) st" by (simp add: rs load_record_def)
  also have "\<dots> = with_module (\<lambda>m. m\<lparr>mod_type_decls := mod_type_decls m @ [?d0]\<rparr>) st"
    unfolding d0 rs list.sel
    by (rule load_type_values) (use d(1,2) field_type_read [OF d(3) al] in simp_all)
  finally have step: "load_record vmax fp sd (hd rs) st = with_module (\<lambda>m. m\<lparr>mod_type_decls := mod_type_decls m @ [?d0]\<rparr>) st" .
  have fields_step: "run_records vmax fp sd fr (with_last_type ?ds ?d0 st) = Some (with_last_type ?ds ?d1 st)"
    using load_field_records [of ?ds ?d0 "td_fields d" fr] new d(4) fr by simp
  have "run_records vmax fp sd (concat vr) (with_last_type ?ds ?d1 st) =
      Some (with_last_type ?ds (?d1\<lparr>td_variants := map reread_variant (td_variants d)\<rparr>) st)"
    using load_variants_records [of ?ds ?d1 "td_variants d" vr] new d(5,6) vr by simp
  moreover have "?d1\<lparr>td_variants := map reread_variant (td_variants d)\<rparr> = reread_type_decl d"
    by (simp add: reread_type_decl_def)
  ultimately show ?thesis
    using step fields_step by (simp add: rs with_last_typeI run_records_append)
qed

section \<open>Records of globals\<close>

lemma length_EscapeText: "length x \<le> length (EscapeText x)"
  by (induction x) (auto simp: EscapeText_Cons escape_char_def)

lemma length_join_with: "x \<in> set xs \<Longrightarrow> length x \<le> length (join_with sep xs)"
  by (induction sep xs rule: join_with.induct) auto

lemma Serialize_some_neq_Nil: "SerializeConstValue_some v = Some s \<Longrightarrow> s \<noteq> []"
proof (cases v)
  case (mk_ConstValue k i f b tx pn et vn vt names elements)
  assume "SerializeConstValue_some v = Some s"
  then show ?thesis
    using Serialize_enum [of i f b tx pn et vn vt names elements s]
      Serialize_aggregate [of i f b tx pn et vn vt names elements s]
    unfolding mk_ConstValue
    by (cases k) (auto simp: Let_def AppendLengthPrefixed_def enum_head_def simp del: SerializeConstValue_some.simps,
        auto simp: Let_def AppendLengthPrefixed_def)
qed

lemma parse_values_read:
  assumes "list_all (pred_option (const_writable vmax sd)) vs" "those (map SerializeConstValue vs) = Some ss"
    "\<forall>s \<in> set ss. length s < 2 ^ 64"
  shows "parse_values (ParseConstValue vmax fp sd) ss = Some (Some (map (map_option (reread_const fp sd)) vs))"
  using assms
proof (induction vs arbitrary: ss)
  case (Cons v vs)
  obtain s ss' where s: "SerializeConstValue v = Some s" "those (map SerializeConstValue vs) = Some ss'" "ss = s # ss'"
    using Cons.prems(2) by (auto split: option.splits)
  have rest: "parse_values (ParseConstValue vmax fp sd) ss' = Some (Some (map (map_option (reread_const fp sd)) vs))"
    using Cons.prems s by (intro Cons.IH) auto
  show ?case
  proof (cases v)
    case None
    then show ?thesis using s rest by (simp add: SerializeConstValue_def opt_bind_def)
  next
    case (Some c)
    then have c: "SerializeConstValue_some c = Some s" "const_writable vmax sd c" "length s < 2 ^ 64"
      using s Cons.prems by (simp_all add: SerializeConstValue_def)
    have "s \<noteq> []" using c(1) by (rule Serialize_some_neq_Nil)
    then show ?thesis
      using ParseConstValue_read [OF c(2,1,3)] rest by (simp add: Some s(3) opt_bind_def)
  qed
qed simp

lemma ParseConstValues_read:
  assumes "list_all (pred_option (const_writable vmax sd)) vs" "JoinConstValues vs = Some s" "length s < 2 ^ 64"
  shows "ParseConstValues vmax fp sd s =
    Some (Some (if vs = [None] then [] else map (map_option (reread_const fp sd)) vs))"
proof -
  obtain ss where ss: "those (map SerializeConstValue vs) = Some ss" "s = JoinEscaped ss"
    using assms(2) by (auto simp: JoinConstValues_def)
  have "length x < 2 ^ 64" if "x \<in> set ss" for x
    using length_join_with [of "EscapeText x" "map EscapeText ss" "'';''"] length_EscapeText [of x] that assms(3)
    by (simp add: ss(2) JoinEscaped_def)
  then have read: "parse_values (ParseConstValue vmax fp sd) ss = Some (Some (map (map_option (reread_const fp sd)) vs))"
    using parse_values_read [OF assms(1) ss(1)] by blast
  have one: "vs = [None] \<longleftrightarrow> ss = [[]]"
  proof
    assume "ss = [[]]"
    then obtain v where v: "vs = [v]" "SerializeConstValue v = Some []"
      using ss(1) by (cases vs rule: remdups_adj.cases) (auto split: option.splits)
    have "v = None"
    proof (rule ccontr)
      assume "v \<noteq> None"
      then obtain c where "v = Some c" by auto
      then have "SerializeConstValue_some c = Some []" using v(2) by (simp add: SerializeConstValue_def)
      then show False using Serialize_some_neq_Nil by blast
    qed
    then show "vs = [None]" by (simp add: v(1))
  qed (use ss(1) in \<open>simp add: SerializeConstValue_def\<close>)
  show ?thesis
  proof (cases "ss = [[]]")
    case True
    then show ?thesis
      using one by (simp add: ParseConstValues_def ss(2) SplitEscaped_JoinEscaped opt_bind_def)
  next
    case False
    then show ?thesis
      using one read by (simp add: ParseConstValues_def ss(2) opt_bind_def)
  qed
qed

lemma load_global_record:
  assumes w: "global_writable vmax sd g" and r: "global_record g = Some r" and len: "\<forall>f \<in> set r. length f < 2 ^ 64"
    and version: "ia_format_version (ld_artifact st) = 7"
  shows "load_record vmax fp sd r st = with_module (\<lambda>m. m\<lparr>mod_globals := mod_globals m @ [reread_global fp sd g]\<rparr>) st"
proof -
  obtain t cs where t: "FormatType (gs_type g) = Some t" and cs: "JoinConstValues (gs_constant_values g) = Some cs"
    and r': "r = [''global'', flag_text (gs_is_const g), JoinEscaped (gs_names g), EscapeText t, cs,
      JoinBoolFlags (gs_zero_initialized_values g)]"
    using r by (auto simp: global_record_def bind_eq_Some_conv)
  have g: "gs_names g \<noteq> [[]]" "type_readable (gs_type g)"
    "list_all (pred_option (const_writable vmax sd)) (gs_constant_values g)"
    "gs_constant_values g = [] \<or> gs_constant_values g = [None] \<or> length (gs_constant_values g) = length (gs_names g)"
    "gs_zero_initialized_values g = [] \<or> length (gs_zero_initialized_values g) = length (gs_names g)"
    using w by (simp_all add: global_writable_def)
  let ?cs = "if gs_constant_values g = [None] then [] else map (map_option (reread_const fp sd)) (gs_constant_values g)"
  have g': "reread_global fp sd g = \<lparr>gs_is_const = gs_is_const g, gs_names = gs_names g,
      gs_type = CanonicalizeBuiltinType (gs_type g), gs_constant_values = ?cs,
      gs_zero_initialized_values = gs_zero_initialized_values g\<rparr>"
    by (simp add: reread_global_def)
  have cvs: "ParseConstValues vmax fp sd cs = Some (Some ?cs)"
    using ParseConstValues_read [OF g(3) cs] len by (simp add: r')
  have count: "?cs = [] \<or> length ?cs = length (gs_names g)" using g(4) by auto
  have "load_record vmax fp sd r st = load_global vmax fp sd r st" by (simp add: load_record_def r')
  also have "\<dots> = with_module (\<lambda>m. m\<lparr>mod_globals := mod_globals m @ [reread_global fp sd g]\<rparr>) st"
    unfolding g' using cvs count g(1,5) field_type_read [OF g(2) t] version
    by (simp add: load_global_def global_constants_def r' check_that_def need_def Let_def del: split_paired_All)
  finally show ?thesis .
qed

section \<open>Texts in records\<close>

definition plain_text :: "string \<Rightarrow> bool" where
  "plain_text f \<longleftrightarrow> tab_char \<notin> set f \<and> newline_char \<notin> set f"

lemma plain_text_simps [simp]:
  "plain_text (EscapeText x)" "plain_text (JoinEscaped xs)" "plain_text (JoinBoolFlags bs)" "plain_text (flag_text b)"
  "plain_text (JoinEscapedPaths vs)" "plain_text (string_of_nat n)" "plain_text (ModuleKindName k)"
  "plain_text (TypeKindName dk)"
  using EscapeText_plain [of x] JoinEscaped_plain [of xs] JoinBoolFlags_plain [of bs] JoinEscapedPaths_plain [of vs]
    string_of_nat_not [of n]
  by (auto simp: plain_text_def flag_text_def ModuleKindName_def TypeKindName_def split: ModuleKind.split DeclKind.split)

lemma plain_record_iff: "plain_record r \<longleftrightarrow> r \<noteq> [] \<and> hd r \<noteq> [] \<and> list_all plain_text r"
  by (auto simp: plain_record_def plain_text_def list_all_iff)

lemma plain_name [simp]:
  "plain_text ''format''" "plain_text ''target''" "plain_text ''package''" "plain_text ''module''"
  "plain_text ''module_kind''" "plain_text ''source''" "plain_text ''imports''" "plain_text ''function''"
  "plain_text ''type''" "plain_text ''type_field''" "plain_text ''type_variant''" "plain_text ''type_variant_field''"
  "plain_text ''global''" "plain_text ''interface_hash''"
  by (simp_all add: plain_text_def)

lemma function_record_plain: "function_record f = Some r \<Longrightarrow> plain_record r"
  by (auto simp: function_record_def bind_eq_Some_conv plain_record_iff)

lemma field_record_plain: "list_all plain_text p \<Longrightarrow> p \<noteq> [] \<Longrightarrow> hd p \<noteq> [] \<Longrightarrow> field_record p f = Some r \<Longrightarrow> plain_record r"
  by (auto simp: field_record_def plain_record_iff)

lemma those_map_member: "those (map f xs) = Some ys \<Longrightarrow> y \<in> set ys \<Longrightarrow> \<exists>x \<in> set xs. f x = Some y"
  by (metis (mono_tags, lifting) those_map_Some image_iff list.set_map)

lemma variant_records_plain:
  assumes "variant_records n v = Some rs" "r \<in> set rs"
  shows "plain_record r"
proof -
  let ?p = "[''type_variant_field'', EscapeText n, EscapeText (vs_name v)]"
  obtain qs where qs: "those (map (field_record ?p) (vs_payload_fields v)) = Some qs"
    "rs = [''type_variant'', EscapeText n, EscapeText (vs_name v)] # qs"
    using assms(1) by (auto simp: variant_records_def)
  show ?thesis
  proof (cases "r \<in> set qs")
    case True
    then obtain f where "field_record ?p f = Some r" using those_map_member [OF qs(1)] by blast
    then show ?thesis by (rule field_record_plain [rotated 3]) simp_all
  next
    case False
    then show ?thesis using assms(2) by (simp add: qs(2) plain_record_iff)
  qed
qed

lemma type_decl_records_plain: "type_decl_records d = Some rs \<Longrightarrow> r \<in> set rs \<Longrightarrow> plain_record r"
proof -
  assume *: "type_decl_records d = Some rs" "r \<in> set rs"
  obtain al fr vr where fr: "those (map (field_record [''type_field'', EscapeText (td_name d)]) (td_fields d)) = Some fr"
    and vr: "those (map (variant_records (td_name d)) (td_variants d)) = Some vr"
    and rs: "rs = [''type'', TypeKindName (td_kind d), EscapeText (td_name d), JoinEscaped (td_type_params d),
         flag_text (td_is_packed d), flag_text (td_is_abi_c d), flag_text (lay_valid (td_layout d)),
         string_of_nat (unat (lay_size (td_layout d))), string_of_nat (unat (lay_alignment (td_layout d))),
         JoinEscapedPaths (lay_field_offsets (td_layout d)), EscapeText al] # fr @ concat vr"
    using *(1) by (auto simp: type_decl_records_def bind_eq_Some_conv)
  consider "r = hd rs" | "r \<in> set fr" | vrs where "vrs \<in> set vr" "r \<in> set vrs"
    using *(2) by (auto simp: rs)
  then show "plain_record r"
  proof cases
    case 2
    then obtain f where "field_record [''type_field'', EscapeText (td_name d)] f = Some r"
      using those_map_member [OF fr] by blast
    then show ?thesis by (rule field_record_plain [rotated 3]) simp_all
  next
    case 3
    then show ?thesis using those_map_member [OF vr] variant_records_plain by blast
  qed (simp add: rs plain_record_iff)
qed

lemma global_record_plain: "global_record g = Some r \<Longrightarrow> plain_record r"
  by (auto simp: global_record_def bind_eq_Some_conv plain_record_iff JoinConstValues_def)

lemma hex_digit_hex: "hex_digit (v AND 0xF) \<in> set ''0123456789abcdef''"
proof -
  have "v AND 0xF \<le> 0xF" by (rule word_and_le1)
  then have "unat (v AND 0xF) \<le> 15" by (simp add: word_le_nat_alt)
  then show ?thesis unfolding hex_digit_def by (intro nth_mem) simp
qed

lemma HexU64_loop_hex:
  "set t \<subseteq> set ''0123456789abcdef'' \<Longrightarrow>
     set (HexU64_loop n v t) \<subseteq> set ''0123456789abcdef'' \<and> length (HexU64_loop n v t) = length t"
proof (induction n arbitrary: v t)
  case (Suc n)
  have "set (t[n := hex_digit (v AND 0xF)]) \<subseteq> set ''0123456789abcdef''"
    using Suc.prems hex_digit_hex by (meson set_update_subsetI)
  then show ?case using Suc.IH by simp
qed simp

lemma HexU64_length: "length (HexU64 v) = 16"
  using HexU64_loop_hex [of "replicate 16 (CHR ''0'')" 16 v] by (auto simp: HexU64_def)

lemma HexU64_text: "plain_text (HexU64 v)" "HexU64 v \<noteq> []"
proof -
  have *: "set (HexU64 v) \<subseteq> set ''0123456789abcdef''" "length (HexU64 v) = 16"
    using HexU64_loop_hex [of "replicate 16 (CHR ''0'')" 16 v] by (auto simp: HexU64_def)
  then show "HexU64 v \<noteq> []" by auto
  have "tab_char \<notin> set ''0123456789abcdef''" "newline_char \<notin> set ''0123456789abcdef''" by simp_all
  with * show "plain_text (HexU64 v)" unfolding plain_text_def by blast
qed

lemma header_records_plain:
  "ia_format_version a = 7 \<Longrightarrow> r \<in> set (header_records a) \<Longrightarrow> plain_record r"
  by (auto simp: header_records_def plain_record_iff string_of_int_def)

lemma artifact_records_plain:
  assumes "artifact_records a = Some rs" "ia_format_version a = 7" "r \<in> set rs"
  shows "plain_record r"
proof -
  obtain fr tr gr where fr: "those (map function_record (mod_functions (ia_module a))) = Some fr"
    and tr: "those (map type_decl_records (mod_type_decls (ia_module a))) = Some tr"
    and gr: "those (map global_record (mod_globals (ia_module a))) = Some gr"
    and rs: "rs = header_records a @ fr @ concat tr @ gr"
    using assms(1) by (auto simp: artifact_records_def bind_eq_Some_conv)
  have "r \<in> set (header_records a) \<or> r \<in> set fr \<or> (\<exists>q \<in> set tr. r \<in> set q) \<or> r \<in> set gr"
    using assms(3) by (auto simp: rs)
  then show ?thesis
    using header_records_plain [OF assms(2)] those_map_member [OF fr] those_map_member [OF tr] those_map_member [OF gr]
      function_record_plain type_decl_records_plain global_record_plain
    by blast
qed

section \<open>Loading what was written\<close>

definition in_module :: "(Module \<Rightarrow> Module) \<Rightarrow> LoadState \<Rightarrow> LoadState" where
  "in_module f st = st\<lparr>ld_artifact := (ld_artifact st)\<lparr>ia_module := f (ia_module (ld_artifact st))\<rparr>\<rparr>"

lemma with_module_in: "with_module f st = Some (Inr (in_module f st))"
  by (simp add: with_module_def with_artifact_def in_module_def)

lemma in_module_id: "(\<And>m. f m = m) \<Longrightarrow> in_module f st = st"
  by (simp add: in_module_def)

lemma load_function_records:
  "list_all function_writable fs \<Longrightarrow> those (map function_record fs) = Some rs \<Longrightarrow>
     run_records vmax fp sd rs st = Some (in_module (\<lambda>m. m\<lparr>mod_functions := mod_functions m @ map reread_function fs\<rparr>) st)"
proof (induction fs arbitrary: rs st)
  case (Cons f fs)
  obtain r rs' where r: "function_record f = Some r" "those (map function_record fs) = Some rs'" "rs = r # rs'"
    using Cons.prems(2) by (auto split: option.splits)
  have "load_record vmax fp sd r st = Some (Inr (in_module (\<lambda>m. m\<lparr>mod_functions := mod_functions m @ [reread_function f]\<rparr>) st))"
    using load_function_record [of f r] Cons.prems(1) r(1) by (simp add: with_module_in)
  then show ?case
    using Cons.IH [of rs'] Cons.prems(1) r(2) by (simp add: r(3) in_module_def)
qed (simp add: in_module_id)

lemma load_type_decls_records:
  assumes "list_all type_decl_writable ds" "those (map type_decl_records ds) = Some rss"
    "distinct (map td_name (mod_type_decls (ia_module (ld_artifact st)) @ ds))"
  shows "run_records vmax fp sd (concat rss) st =
    Some (in_module (\<lambda>m. m\<lparr>mod_type_decls := mod_type_decls m @ map reread_type_decl ds\<rparr>) st)"
  using assms
proof (induction ds arbitrary: rss st)
  case (Cons d ds)
  obtain rs rss' where r: "type_decl_records d = Some rs" "those (map type_decl_records ds) = Some rss'" "rss = rs # rss'"
    using Cons.prems(2) by (auto split: option.splits)
  let ?ds = "mod_type_decls (ia_module (ld_artifact st))"
  let ?st = "in_module (\<lambda>m. m\<lparr>mod_type_decls := mod_type_decls m @ [reread_type_decl d]\<rparr>) st"
  have "\<forall>e \<in> set ?ds. td_name e \<noteq> td_name d"
    using Cons.prems(3) by (auto simp: image_iff)
  then have "run_records vmax fp sd rs st = Some ?st"
    using load_type_decl_records [of d rs st] Cons.prems(1) r(1) by (simp add: in_module_def with_last_type_def)
  moreover have "run_records vmax fp sd (concat rss') ?st =
      Some (in_module (\<lambda>m. m\<lparr>mod_type_decls := mod_type_decls m @ map reread_type_decl ds\<rparr>) ?st)"
    using Cons.prems(1,3) r(2) by (intro Cons.IH) (auto simp: in_module_def reread_type_decl_def)
  ultimately show ?case by (simp add: r(3) run_records_append in_module_def)
qed (simp add: in_module_id)

lemma load_global_records:
  "list_all (global_writable vmax sd) gs \<Longrightarrow> those (map global_record gs) = Some rs \<Longrightarrow>
     \<forall>r \<in> set rs. \<forall>f \<in> set r. length f < 2 ^ 64 \<Longrightarrow> ia_format_version (ld_artifact st) = 7 \<Longrightarrow>
     run_records vmax fp sd rs st = Some (in_module (\<lambda>m. m\<lparr>mod_globals := mod_globals m @ map (reread_global fp sd) gs\<rparr>) st)"
proof (induction gs arbitrary: rs st)
  case (Cons g gs)
  obtain r rs' where r: "global_record g = Some r" "those (map global_record gs) = Some rs'" "rs = r # rs'"
    using Cons.prems(2) by (auto split: option.splits)
  have "load_record vmax fp sd r st = Some (Inr (in_module (\<lambda>m. m\<lparr>mod_globals := mod_globals m @ [reread_global fp sd g]\<rparr>) st))"
    using load_global_record [of vmax sd g r st fp] Cons.prems(1,3,4) r(1,3) by (simp add: with_module_in)
  then show ?case
    using Cons.IH [of rs'] Cons.prems(1,3,4) r(2) by (simp add: r(3) in_module_def)
qed (simp add: in_module_id)

lemma ParseModuleKind_name [simp]: "ParseModuleKind (ModuleKindName k) = Some k"
  by (cases k) (simp_all add: ParseModuleKind_def ModuleKindName_def)

definition after_header :: "InterfaceArtifact \<Rightarrow> LoadState" where
  "after_header a = \<lparr>ld_artifact = a\<lparr>ia_module := empty_module\<lparr>mod_imports := mod_imports (ia_module a)\<rparr>,
     ia_interface_hash := []\<rparr>, ld_saw_package_identity = True, ld_saw_module_kind = True\<rparr>"

lemma load_header_records:
  assumes "ia_format_version a = 7" "mod_imports (ia_module a) \<noteq> [[]]"
  shows "run_records vmax fp sd (header_records a) load_start = Some (after_header a)"
proof -
  have "sint (ucast (7 :: size64) :: 32 word) = 7" by simp
  then have "load_format [''format'', string_of_int 7] st = with_artifact (\<lambda>a. a\<lparr>ia_format_version := 7\<rparr>) st" for st
    using ParseArrayLength_string_of_nat [of 7] by (simp add: load_format_def need_def string_of_int_def)
  then show ?thesis
    using assms
    by (simp add: header_records_def load_record_def load_text_def load_imports_def load_module_kind_def saw_package_def
        check_that_def need_def with_artifact_def with_module_def load_start_def after_header_def new_InterfaceArtifact_def)
qed

lemma run_artifact_records:
  assumes w: "artifact_writable vmax sd a" and r: "artifact_records a = Some rs" and version: "ia_format_version a = 7"
    and len: "\<forall>r \<in> set rs. \<forall>f \<in> set r. length f < 2 ^ 64"
  shows "run_records vmax fp sd rs load_start =
    Some (in_module (\<lambda>_. reread_module fp sd (ia_module a)) (after_header a))"
proof -
  let ?m = "ia_module a"
  obtain fr tr gr where fr: "those (map function_record (mod_functions ?m)) = Some fr"
    and tr: "those (map type_decl_records (mod_type_decls ?m)) = Some tr"
    and gr: "those (map global_record (mod_globals ?m)) = Some gr"
    and rs: "rs = header_records a @ fr @ concat tr @ gr"
    using r by (auto simp: artifact_records_def bind_eq_Some_conv)
  have w': "mod_imports ?m \<noteq> [[]]" "list_all function_writable (mod_functions ?m)"
    "list_all type_decl_writable (mod_type_decls ?m)" "distinct (map td_name (mod_type_decls ?m))"
    "list_all (global_writable vmax sd) (mod_globals ?m)"
    using w by (simp_all add: artifact_writable_def)
  let ?s1 = "in_module (\<lambda>m. m\<lparr>mod_functions := mod_functions m @ map reread_function (mod_functions ?m)\<rparr>) (after_header a)"
  let ?s2 = "in_module (\<lambda>m. m\<lparr>mod_type_decls := mod_type_decls m @ map reread_type_decl (mod_type_decls ?m)\<rparr>) ?s1"
  let ?s3 = "in_module (\<lambda>m. m\<lparr>mod_globals := mod_globals m @ map (reread_global fp sd) (mod_globals ?m)\<rparr>) ?s2"
  have "run_records vmax fp sd (concat tr) ?s1 = Some ?s2"
    using w'(3,4) tr by (intro load_type_decls_records) (auto simp: in_module_def after_header_def empty_module_def)
  moreover have "run_records vmax fp sd gr ?s2 = Some ?s3"
    using len version by (intro load_global_records [OF w'(5) gr]) (auto simp: rs in_module_def after_header_def)
  ultimately have "run_records vmax fp sd rs load_start = Some ?s3"
    using load_header_records [OF version w'(1)] load_function_records [OF w'(2) fr]
    by (simp add: rs run_records_append)
  then show ?thesis by (simp add: in_module_def after_header_def reread_module_def empty_module_def)
qed

text \<open>What was read has the text, and so the hash, of what was written.\<close>

lemma Format_comp [simp]: "FormatType \<circ> CanonicalizeBuiltinType = FormatType"
  by (simp add: fun_eq_iff)

lemma field_record_reread [simp]: "field_record p (canonical_field f) = field_record p f"
  by (simp add: field_record_def)

lemma variant_records_reread [simp]: "variant_records n (reread_variant v) = variant_records n v"
  by (simp add: variant_records_def reread_variant_def comp_def)

lemma function_record_reread [simp]: "function_record (reread_function f) = function_record f"
  by (simp add: function_record_def reread_function_def)

lemma type_decl_records_reread [simp]: "type_decl_records (reread_type_decl d) = type_decl_records d"
  by (simp add: type_decl_records_def reread_type_decl_def comp_def)

lemma JoinConstValues_reread:
  assumes "JoinConstValues vs = Some s"
  shows "JoinConstValues (if vs = [None] then [] else map (map_option (reread_const fp sd)) vs) = Some s"
proof (cases "vs = [None]")
  case True
  then show ?thesis using assms by (simp add: JoinConstValues_def SerializeConstValue_def JoinEscaped_def)
next
  case False
  obtain ss where ss: "those (map SerializeConstValue vs) = Some ss" "s = JoinEscaped ss"
    using assms by (auto simp: JoinConstValues_def)
  have "SerializeConstValue (map_option (reread_const fp sd) v) = SerializeConstValue v" if "v \<in> set vs" for v
  proof (cases v)
    case (Some c)
    have "SerializeConstValue v \<noteq> None"
      using ss(1) that those_map_total [of SerializeConstValue vs] by auto
    then show ?thesis using reread_serializes [of c _ fp sd] by (auto simp: Some SerializeConstValue_def)
  qed simp
  then have "those (map SerializeConstValue (map (map_option (reread_const fp sd)) vs)) = Some ss"
    using ss(1) by (simp cong: map_cong)
  then show ?thesis using False ss(2) by (simp only: JoinConstValues_def if_False option.map)
qed

lemma global_record_reread: "global_record g = Some r \<Longrightarrow> global_record (reread_global fp sd g) = Some r"
  using JoinConstValues_reread [of "gs_constant_values g" _ fp sd]
  by (auto simp: global_record_def reread_global_def bind_eq_Some_conv)

lemma artifact_records_reread:
  assumes "artifact_records a = Some rs" "ia_format_version a = 7"
  shows "artifact_records (reread_artifact fp sd h a) = Some rs"
proof -
  obtain fr tr gr where fr: "those (map function_record (mod_functions (ia_module a))) = Some fr"
    and tr: "those (map type_decl_records (mod_type_decls (ia_module a))) = Some tr"
    and gr: "those (map global_record (mod_globals (ia_module a))) = Some gr"
    and rs: "rs = header_records a @ fr @ concat tr @ gr"
    using assms(1) by (auto simp: artifact_records_def bind_eq_Some_conv)
  have "list_all2 (\<lambda>g r. global_record g = Some r) (map (reread_global fp sd) (mod_globals (ia_module a))) gr"
    using gr global_record_reread by (auto simp: those_map_list_all2 list_all2_conv_all_nth)
  then have "those (map global_record (map (reread_global fp sd) (mod_globals (ia_module a)))) = Some gr"
    by (simp only: those_map_list_all2)
  then show ?thesis
    using fr tr assms(2)
    by (simp add: artifact_records_def reread_artifact_def reread_module_def header_records_def rs comp_def
        kFormatVersion_def)
qed

lemma record_line_length: "r \<in> set rs \<Longrightarrow> f \<in> set r \<Longrightarrow> length f \<le> length (concat (map record_line rs))"
proof (induction rs)
  case (Cons q rs)
  then show ?case using length_join_with [of f r "[tab_char]"] by (auto simp: record_line_def)
qed simp

lemma Write_length:
  assumes "artifact_records (a\<lparr>ia_format_version := kFormatVersion\<rparr>) = Some rs"
  shows "\<exists>contents. WriteInterfaceArtifact True written p a d = Some (Some contents, written, d) \<and>
    length contents = length (concat (map record_line rs)) + 32"
proof -
  have "artifact_records (a\<lparr>ia_format_version := kFormatVersion, ia_interface_hash := h\<rparr>) = Some rs" for h
    using assms by (simp add: artifact_records_def header_records_def)
  then show ?thesis
    using assms by (simp add: WriteInterfaceArtifact_def ComputeInterfaceHash_def SerializeArtifactWithoutHash_def
        Let_def record_line_def HexU64_length)
qed

lemma LoadInterfaceArtifact_written:
  assumes w: "artifact_writable vmax sd a" and len: "length contents < 2 ^ 64"
    and written: "WriteInterfaceArtifact True written p a d = Some (Some contents, r, d')"
  shows "\<exists>h. ComputeInterfaceHash (a\<lparr>ia_format_version := kFormatVersion\<rparr>) = Some h \<and>
    LoadInterfaceArtifact vmax fp sd (Some contents) q e = Some (Some (reread_artifact fp sd h a), e)"
proof -
  let ?a = "a\<lparr>ia_format_version := kFormatVersion\<rparr>"
  obtain h where h: "ComputeInterfaceHash ?a = Some h"
    using written by (auto simp: WriteInterfaceArtifact_def Let_def bind_eq_Some_conv)
  obtain rs where rs: "artifact_records ?a = Some rs"
    using h by (auto simp: ComputeInterfaceHash_def SerializeArtifactWithoutHash_def)
  have "artifact_records (?a\<lparr>ia_interface_hash := h\<rparr>) = artifact_records ?a"
    by (simp add: artifact_records_def header_records_def)
  then have contents: "contents = concat (map record_line (rs @ [[''interface_hash'', h]]))"
    using written rs h by (simp add: WriteInterfaceArtifact_def SerializeArtifactWithoutHash_def Let_def)
  have version: "ia_format_version ?a = 7" by (simp add: kFormatVersion_def)
  obtain v where v: "h = HexU64 v" using h by (auto simp: ComputeInterfaceHash_def)
  have plain: "\<forall>r \<in> set (rs @ [[''interface_hash'', h]]). plain_record r"
    using artifact_records_plain [OF rs version] HexU64_text [of v] by (auto simp: v plain_record_iff)
  have w': "artifact_writable vmax sd ?a" using w by (simp add: artifact_writable_def)
  have "\<forall>r \<in> set rs. \<forall>f \<in> set r. length f < 2 ^ 64"
    using record_line_length [of _ "rs @ [[''interface_hash'', h]]"] len by (fastforce simp: contents)
  then have run: "run_records vmax fp sd rs load_start =
      Some (in_module (\<lambda>_. reread_module fp sd (ia_module ?a)) (after_header ?a))"
    by (rule run_artifact_records [OF w' rs version])
  let ?st = "\<lparr>ld_artifact = reread_artifact fp sd h ?a, ld_saw_package_identity = True, ld_saw_module_kind = True\<rparr>"
  have "run_records vmax fp sd (rs @ [[''interface_hash'', h]]) load_start = Some ?st"
    using run by (simp add: run_records_append load_record_def load_interface_hash_def check_that_def with_artifact_def
        in_module_def after_header_def reread_artifact_def kFormatVersion_def)
  then have "load_lines vmax fp sd 0 (getlines newline_char contents) load_start = Some (Inr ?st)"
    unfolding contents getlines_records [OF plain] by (rule load_lines_records [OF plain])
  moreover have "load_fault ?st = None"
    using w HexU64_text(2) [of v] by (simp add: load_fault_def reread_artifact_def kFormatVersion_def artifact_writable_def v)
  moreover have "ComputeInterfaceHash (reread_artifact fp sd h ?a) = Some h"
    using artifact_records_reread [OF rs version, of fp sd h] h rs
    by (simp add: ComputeInterfaceHash_def SerializeArtifactWithoutHash_def)
  moreover have "ia_interface_hash (reread_artifact fp sd h ?a) = h" by (simp add: reread_artifact_def)
  moreover have "reread_artifact fp sd h ?a = reread_artifact fp sd h a" by (simp add: reread_artifact_def)
  ultimately show ?thesis using h by (simp add: LoadInterfaceArtifact_def)
qed

section \<open>What is loaded\<close>

lemma LoadInterfaceArtifact_checked:
  assumes "LoadInterfaceArtifact vmax fp sd content p d = Some (r, d')"
  shows "case r of
      None \<Rightarrow> \<exists>span message. d' = mci_report p span message d
    | Some a \<Rightarrow> d' = d \<and> ia_format_version a = kFormatVersion \<and> ia_package_identity a \<noteq> [] \<and>
        ComputeInterfaceHash a = Some (ia_interface_hash a)"
proof (cases content)
  case None
  then show ?thesis using assms by (auto simp: LoadInterfaceArtifact_def)
next
  case (Some contents)
  let ?l = "load_lines vmax fp sd 0 (getlines newline_char contents) load_start"
  show ?thesis
  proof (cases ?l)
    case None
    then show ?thesis using assms Some by (simp add: LoadInterfaceArtifact_def)
  next
    case (Some l)
    note l = this
    show ?thesis
    proof (cases l)
      case (Inl nm)
      then show ?thesis using assms l \<open>content = Some contents\<close> by (cases nm) (auto simp: LoadInterfaceArtifact_def)
    next
      case (Inr st)
      note load = assms [unfolded LoadInterfaceArtifact_def \<open>content = Some contents\<close> option.case l Inr sum.case]
      show ?thesis
      proof (cases "load_fault st")
        case None
        then have "ia_format_version (ld_artifact st) = kFormatVersion" "ia_package_identity (ld_artifact st) \<noteq> []"
          by (auto simp: load_fault_def Let_def split: if_splits)
        with None load show ?thesis by (auto split: if_splits intro!: exI)
      next
        case (Some message)
        with load show ?thesis by auto
      qed
    qed
  qed
qed

section \<open>Contents that stop the program\<close>

definition huge_count :: string where
  \<comment> \<open>An aggregate that claims to have \<open>2 ^ 64 - 1\<close> elements.\<close>
  "huge_count = ''a:18446744073709551615:''"

definition huge_content :: string where
  "huge_content = join_with [tab_char] [''global'', ''0'', ''x'', ''i32'', huge_count, ''0'']"

definition null_content :: string where
  \<comment> \<open>A global of version 2 whose type cannot be read.\<close>
  "null_content = join_with [tab_char] [''format'', ''2''] @ [newline_char] @
     join_with [tab_char] [''global'', ''0'', ''x'', ''!'', ''1'']"

lemma Load_None: "load_lines vmax fp sd 0 (getlines newline_char content) load_start = None \<Longrightarrow>
  LoadInterfaceArtifact vmax fp sd (Some content) p d = None"
  by (simp add: LoadInterfaceArtifact_def)

lemma ParseConstValue_huge: "vmax < 2 ^ 64 - 1 \<Longrightarrow> ParseConstValue vmax fp sd huge_count = None"
proof -
  assume vmax: "vmax < 2 ^ 64 - 1"
  have prefix: "ParseLengthPrefix (drop 2 huge_count) = Some (- 1, [])" by code_simp
  have first: "huge_count ! 0 = CHR ''a''" "huge_count ! 1 = CHR '':''" "\<not> length huge_count < 2" by code_simp+
  have "unat (- 1 :: size64) = 2 ^ 64 - 1" by (simp add: unsigned_minus_1_eq_mask mask_eq_exp_minus_1)
  then have "reserve vmax (- 1) r = None" for r :: "ConstValue option option"
    using vmax by (simp add: reserve_def)
  then show ?thesis
    using first by (simp add: ParseConstValue_def parse_const_body_def opt_bind_def parse_elements_def Let_def prefix
        del: One_nat_def flip: Suc_eq_plus1)
qed

lemma LoadInterfaceArtifact_stops_count:
  assumes "vmax < 2 ^ 64 - 1"
  shows "LoadInterfaceArtifact vmax fp sd (Some huge_content) p d = None"
proof -
  let ?r = "[''global'', ''0'', ''x'', ''i32'', huge_count, ''0'']"
  have lines: "getlines newline_char huge_content = [huge_content]" and fields_eq: "SplitFields huge_content = ?r"
    and values_eq: "SplitEscaped huge_count = Some [huge_count]" and nonempty: "huge_count \<noteq> []" "huge_content \<noteq> []"
    by code_simp+
  have "ParseConstValues vmax fp sd huge_count = None"
    using ParseConstValue_huge [OF assms] nonempty by (simp add: ParseConstValues_def values_eq opt_bind_def)
  then have "load_record vmax fp sd ?r load_start = None"
    by (simp add: load_record_def load_global_def check_that_def global_constants_def load_start_def kFormatVersion_def)
  then show ?thesis using nonempty by (intro Load_None) (simp add: lines fields_eq)
qed

lemma LoadInterfaceArtifact_stops_null: "LoadInterfaceArtifact vmax fp sd (Some null_content) p d = None"
proof -
  let ?st = "load_start\<lparr>ld_artifact := (ld_artifact load_start)\<lparr>ia_format_version := 2\<rparr>\<rparr>"
  let ?r1 = "[''format'', ''2'']" and ?r2 = "[''global'', ''0'', ''x'', ''!'', ''1'']"
  have lines: "getlines newline_char null_content = [join_with [tab_char] ?r1, join_with [tab_char] ?r2]"
    and null: "UnescapeText ''!'' = Some ''!''" "ParseTypeText ''!'' = None" "ParseArrayLength ''2'' = Some 2"
    by code_simp+
  have plain: "plain_record ?r1" "plain_record ?r2" by (simp_all add: plain_record_def)
  have "load_record vmax fp sd ?r1 load_start = Some (Inr ?st)"
    by (simp add: load_record_def load_format_def need_def null with_artifact_def)
  moreover have "load_record vmax fp sd ?r2 ?st = None"
    by (simp add: load_record_def load_global_def check_that_def null global_constants_def)
  ultimately show ?thesis
    by (intro Load_None) (simp only: lines load_lines_record [OF plain(1)] load_lines_record [OF plain(2)] option.case sum.case)
qed

end
