(* ===== verification/MC_MirTypes.thy ===== *)
theory MC_MirTypes
  imports MC_Flow MC_TypeUtils
begin

text \<open>
  \<open>compiler/mir/mir_type_utils.cpp\<close> and the searches of \<open>mir/mir.cpp\<close>: declarations of a MIR module, types up to
  its aliases and distinct types, assignability, kinds of conversion, procedure types and the names with
  a meaning of their own. An assertion that fails, and a recursion that does not end with the given fuel, is \<open>None\<close>.
\<close>

section \<open>Names\<close>

definition after_last_dot :: "string \<Rightarrow> string" where
  \<comment> \<open>The part after \<open>rfind('.')\<close>, all of it without a dot.\<close>
  "after_last_dot name = rev (takeWhile (\<lambda>c. c \<noteq> CHR ''.'') (rev name))"

definition before_last_dot :: "string \<Rightarrow> string option" where
  "before_last_dot name =
     (if CHR ''.'' \<in> set name then Some (take (length name - length (after_last_dot name) - 1) name) else None)"

definition VariantTypeName :: "string \<Rightarrow> string" where
  "VariantTypeName variant_name = (case before_last_dot variant_name of None \<Rightarrow> variant_name | Some t \<Rightarrow> t)"

definition VariantLeafName :: "string \<Rightarrow> string" where
  "VariantLeafName variant_name = after_last_dot variant_name"

definition LeafTypeName :: "string \<Rightarrow> string" where
  "LeafTypeName name = after_last_dot name"

definition kInstructionKindNames :: "(InstructionKind \<times> string) list" where
  "kInstructionKindNames =
     [(I_kConst, ''const''), (I_kLocalAddr, ''local_addr''), (I_kArenaNew, ''arena_new''), (I_kLoadLocal, ''load_local''),
      (I_kStoreLocal, ''store_local''), (I_kStoreTarget, ''store_target''), (I_kSymbolRef, ''symbol_ref''),
      (I_kBoundsCheck, ''bounds_check''), (I_kDivCheck, ''div_check''), (I_kShiftCheck, ''shift_check''), (I_kUnary, ''unary''),
      (I_kBinary, ''binary''), (I_kConvert, ''convert''), (I_kConvertNumeric, ''convert_numeric''),
      (I_kConvertDistinct, ''convert_distinct''), (I_kPointerToInt, ''pointer_to_int''), (I_kIntToPointer, ''int_to_pointer''),
      (I_kArrayToSlice, ''array_to_slice''), (I_kBufferToSlice, ''buffer_to_slice''), (I_kBufferNew, ''buffer_new''),
      (I_kBufferFree, ''buffer_free''), (I_kSliceFromBuffer, ''slice_from_buffer''), (I_kCall, ''call''),
      (I_kMemoryBarrier, ''memory_barrier''), (I_kVolatileLoad, ''volatile_load''), (I_kVolatileStore, ''volatile_store''),
      (I_kAtomicLoad, ''atomic_load''), (I_kAtomicStore, ''atomic_store''), (I_kAtomicExchange, ''atomic_exchange''),
      (I_kAtomicCompareExchange, ''atomic_compare_exchange''), (I_kAtomicFetchAdd, ''atomic_fetch_add''), (I_kField, ''field''),
      (I_kIndex, ''index''), (I_kSlice, ''slice''), (I_kAggregateInit, ''aggregate_init''), (I_kVariantInit, ''variant_init''),
      (I_kVariantMatch, ''variant_match''), (I_kVariantExtract, ''variant_extract'')]"

definition ToString_instruction :: "InstructionKind \<Rightarrow> string" where
  "ToString_instruction k = (case map_of kInstructionKindNames k of Some s \<Rightarrow> s | None \<Rightarrow> ''instr'')"

fun ToString_target :: "TargetKind \<Rightarrow> string" where
  "ToString_target TK_kNone = ''none''"
| "ToString_target TK_kFunction = ''function''"
| "ToString_target TK_kGlobal = ''global''"
| "ToString_target TK_kField = ''field''"
| "ToString_target TK_kDerefField = ''deref_field''"
| "ToString_target TK_kIndex = ''index''"
| "ToString_target TK_kOther = ''other''"

datatype (plugins only: code) SpecialCallKind =
  SC_kNone | SC_kPanic | SC_kMmioPtr | SC_kBufferNew | SC_kBufferFree | SC_kArenaNew | SC_kSliceFromBuffer
| SC_kMemoryBarrier | SC_kVolatileLoad | SC_kVolatileStore | SC_kAtomicLoad | SC_kAtomicStore | SC_kAtomicExchange
| SC_kAtomicCompareExchange | SC_kAtomicFetchAdd

definition kSpecialCallTable :: "(string \<times> string \<times> SpecialCallKind) list" where
  \<comment> \<open>Leaf name, module name, kind.\<close>
  "kSpecialCallTable =
     [(''panic'', [], SC_kPanic), (''mmio_ptr'', ''hal'', SC_kMmioPtr), (''buffer_new'', ''mem'', SC_kBufferNew),
      (''buffer_free'', ''mem'', SC_kBufferFree), (''arena_new'', ''mem'', SC_kArenaNew),
      (''slice_from_buffer'', ''mem'', SC_kSliceFromBuffer), (''memory_barrier'', ''hal'', SC_kMemoryBarrier),
      (''volatile_load'', ''hal'', SC_kVolatileLoad), (''volatile_store'', ''hal'', SC_kVolatileStore),
      (''atomic_load'', ''sync'', SC_kAtomicLoad), (''atomic_store'', ''sync'', SC_kAtomicStore),
      (''atomic_exchange'', ''sync'', SC_kAtomicExchange),
      (''atomic_compare_exchange'', ''sync'', SC_kAtomicCompareExchange), (''atomic_fetch_add'', ''sync'', SC_kAtomicFetchAdd)]"

definition MatchesSpecialCallName :: "string \<Rightarrow> string \<Rightarrow> string \<Rightarrow> bool" where
  "MatchesSpecialCallName callee_name leaf_name module_name \<longleftrightarrow>
     callee_name = leaf_name \<or> (module_name \<noteq> [] \<and> callee_name = module_name @ ''.'' @ leaf_name)"

definition ClassifySpecialCall :: "string \<Rightarrow> SpecialCallKind" where
  "ClassifySpecialCall callee_name =
     (case find (\<lambda>(leaf_name, module_name, kind). MatchesSpecialCallName callee_name leaf_name module_name) kSpecialCallTable of
        None \<Rightarrow> SC_kNone | Some (_, _, kind) \<Rightarrow> kind)"

definition IsDedicatedCallSurface :: "string \<Rightarrow> bool" where
  "IsDedicatedCallSurface callee_name \<longleftrightarrow> ClassifySpecialCall callee_name \<noteq> SC_kNone"

definition HasAtomicOrderMetadata :: "Instruction \<Rightarrow> bool" where
  "HasAtomicOrderMetadata i \<longleftrightarrow> in_atomic_order i \<noteq> []"

definition HasCompareExchangeOrderMetadata :: "Instruction \<Rightarrow> bool" where
  "HasCompareExchangeOrderMetadata i \<longleftrightarrow> in_atomic_success_order i \<noteq> [] \<and> in_atomic_failure_order i \<noteq> []"

definition AtomicMetadataText :: "Instruction \<Rightarrow> string" where
  "AtomicMetadataText i =
     (if in_atomic_success_order i \<noteq> [] \<or> in_atomic_failure_order i \<noteq> [] then
        (if in_atomic_success_order i = [] \<or> in_atomic_failure_order i = [] then []
         else ''success='' @ in_atomic_success_order i @ '',failure='' @ in_atomic_failure_order i)
      else if in_atomic_order i \<noteq> [] then ''order='' @ in_atomic_order i
      else [])"

definition PrimaryTargetName :: "Instruction \<Rightarrow> string" where
  "PrimaryTargetName i = in_target_name i"

section \<open>Searches\<close>

definition FindMirTypeDecl :: "MirModule \<Rightarrow> string \<Rightarrow> MirTypeDecl option" where
  "FindMirTypeDecl m name = find (\<lambda>d. mt_name d = name) (mm_type_decls m)"

definition FindMirGlobalDecl :: "MirModule \<Rightarrow> string \<Rightarrow> GlobalDecl option" where
  "FindMirGlobalDecl m name = find (\<lambda>g. name \<in> set (gd_names g)) (mm_globals m)"

definition FindMirFunction :: "MirModule \<Rightarrow> string \<Rightarrow> MirFunction option" where
  "FindMirFunction m name = find (\<lambda>f. mf_name f = name) (mm_functions m)"

definition FindMirVariantDecl :: "MirTypeDecl \<Rightarrow> string \<Rightarrow> VariantDecl option" where
  "FindMirVariantDecl d variant_name =
     (let qualified_type = (case before_last_dot variant_name of None \<Rightarrow> mt_name d | Some t \<Rightarrow> t);
          leaf_name = after_last_dot variant_name in
      if qualified_type \<noteq> [] \<and> qualified_type \<noteq> mt_name d then None
      else find (\<lambda>v. vd_name v = leaf_name) (mt_variants d))"

section \<open>Instantiation\<close>

definition InstantiateMirAliasedType :: "MirTypeDecl \<Rightarrow> Type \<Rightarrow> Type" where
  "InstantiateMirAliasedType d instantiated_type =
     (if mt_type_params d \<noteq> []
      then SubstituteTypeParams (mt_type_params d) (ty_subtypes instantiated_type) (mt_aliased_type d)
      else mt_aliased_type d)"

definition InstantiateMirFields :: "MirTypeDecl \<Rightarrow> Type \<Rightarrow> (string \<times> Type) list" where
  "InstantiateMirFields d instantiated_type =
     (if mt_type_params d = [] then mt_fields d
      else map (apsnd (SubstituteTypeParams (mt_type_params d) (ty_subtypes instantiated_type))) (mt_fields d))"

definition InstantiateMirVariantDecl :: "MirTypeDecl \<Rightarrow> Type \<Rightarrow> string \<Rightarrow> VariantDecl option" where
  "InstantiateMirVariantDecl d instantiated_type variant_name =
     map_option (\<lambda>variant.
         if mt_type_params d = [] then variant
         else variant\<lparr>vd_payload_fields :=
           map (apsnd (SubstituteTypeParams (mt_type_params d) (ty_subtypes instantiated_type))) (vd_payload_fields variant)\<rparr>)
       (FindMirVariantDecl d variant_name)"

section \<open>Types up to aliases and distinct types\<close>

definition mir_declared :: "MirModule \<Rightarrow> string set" where
  "mir_declared m = set (map mt_name (mm_type_decls m))"

lemma FindMirTypeDecl_declared: "FindMirTypeDecl m n = Some d \<Longrightarrow> n \<in> mir_declared m \<and> mt_name d = n"
  by (auto simp: FindMirTypeDecl_def mir_declared_def find_Some_iff)

lemma mir_declared_less:
  "FindMirTypeDecl m n = Some d \<Longrightarrow> n \<notin> visited \<Longrightarrow>
     card (mir_declared m - insert n visited) < card (mir_declared m - visited)"
  by (rule psubset_card_mono, simp add: mir_declared_def) (use FindMirTypeDecl_declared in blast)

function StripMirAliasOrDistinct_loop :: "MirModule \<Rightarrow> string set \<Rightarrow> Type \<Rightarrow> Type" where
  "StripMirAliasOrDistinct_loop m visited t =
     (if ty_kind t \<noteq> Ty_kNamed then t
      else case FindMirTypeDecl m (ty_name t) of
          None \<Rightarrow> t
        | Some type_decl \<Rightarrow>
            if mt_kind type_decl \<noteq> MD_kDistinct \<and> mt_kind type_decl \<noteq> MD_kAlias then t
            else if ty_name t \<in> visited then t
            else StripMirAliasOrDistinct_loop m (insert (ty_name t) visited) (InstantiateMirAliasedType type_decl t))"
  by pat_completeness auto
termination
  by (relation "measure (\<lambda>(m, visited, t). card (mir_declared m - visited))") (auto intro: mir_declared_less)

declare StripMirAliasOrDistinct_loop.simps [simp del]

definition StripMirAliasOrDistinct :: "MirModule \<Rightarrow> Type \<Rightarrow> Type" where
  "StripMirAliasOrDistinct m t = StripMirAliasOrDistinct_loop m {} t"

definition CanonicalMirType :: "MirModule \<Rightarrow> Type \<Rightarrow> Type" where
  "CanonicalMirType m t = CanonicalizeBuiltinType (StripMirAliasOrDistinct m t)"

definition strip_mir_const :: "MirModule \<Rightarrow> Type \<Rightarrow> Type option" where
  \<comment> \<open>The loop over \<open>const\<close> in \<open>RepresentationMirType\<close>; it need not end.\<close>
  "strip_mir_const m = while_option (\<lambda>t. ty_kind t = Ty_kConst \<and> ty_subtypes t \<noteq> [])
     (\<lambda>t. StripMirAliasOrDistinct m (hd (ty_subtypes t)))"

primrec RepresentationMirType :: "nat \<Rightarrow> MirModule \<Rightarrow> Type \<Rightarrow> Type option" where
  \<comment> \<open>The recursion goes into the subtypes of what was stripped, which need not be smaller.\<close>
  "RepresentationMirType 0 m t = None"
| "RepresentationMirType (Suc n) m t = do {
     r \<leftarrow> strip_mir_const m (StripMirAliasOrDistinct m t);
     let representation = CanonicalizeBuiltinType r;
     subtypes \<leftarrow> those (map (RepresentationMirType n m) (ty_subtypes representation));
     Some (mk_Type (ty_kind representation) (ty_name representation) (ty_metadata representation) subtypes) }"

definition HasSameMirRepresentation :: "nat \<Rightarrow> MirModule \<Rightarrow> Type \<Rightarrow> Type \<Rightarrow> bool option" where
  "HasSameMirRepresentation n m source_type target_type = do {
     s \<leftarrow> RepresentationMirType n m source_type;
     t \<leftarrow> RepresentationMirType n m target_type;
     Some (type_eq s t) }"

section \<open>Predicates up to aliases and distinct types\<close>

text \<open>The versions of the predicates of \<open>sema\<close> that take a module.\<close>

definition MirIsIntegerType :: "MirModule \<Rightarrow> Type \<Rightarrow> bool" where
  "MirIsIntegerType m t = IsIntegerType (CanonicalMirType m t)"

definition MirIsFloatType :: "MirModule \<Rightarrow> Type \<Rightarrow> bool" where
  "MirIsFloatType m t = IsFloatType (CanonicalMirType m t)"

definition MirIsNumericType :: "MirModule \<Rightarrow> Type \<Rightarrow> bool" where
  "MirIsNumericType m t = IsNumericType (CanonicalMirType m t)"

definition IsWraparoundBinaryOp :: "string \<Rightarrow> bool" where
  "IsWraparoundBinaryOp op \<longleftrightarrow> op = ''+'' \<or> op = ''-'' \<or> op = ''*''"

definition MirIsIntegerLikeType :: "MirModule \<Rightarrow> Type \<Rightarrow> bool" where
  "MirIsIntegerLikeType m t = IsIntegerLikeType (CanonicalMirType m t)"

definition MirIsBoolType :: "MirModule \<Rightarrow> Type \<Rightarrow> bool" where
  "MirIsBoolType m t = IsBoolType (CanonicalMirType m t)"

definition IsNamedTypeFamily :: "Type \<Rightarrow> string \<Rightarrow> bool" where
  "IsNamedTypeFamily t family_name \<longleftrightarrow> ty_kind t = Ty_kNamed \<and> LeafTypeName (ty_name t) = family_name"

definition IsMemoryOrderType :: "MirModule \<Rightarrow> Type \<Rightarrow> bool" where
  "IsMemoryOrderType m t = IsNamedTypeFamily (StripMirAliasOrDistinct m t) ''MemoryOrder''"

definition MirIsPointerLikeType :: "MirModule \<Rightarrow> Type \<Rightarrow> bool" where
  "MirIsPointerLikeType m t = IsPointerLikeType (CanonicalMirType m t)"

definition MirIsUintPtrConvertibleType :: "MirModule \<Rightarrow> Type \<Rightarrow> bool" where
  "MirIsUintPtrConvertibleType m t = IsUintPtrConvertibleType (CanonicalMirType m t)"

definition MirIsUintPtrType :: "MirModule \<Rightarrow> Type \<Rightarrow> bool" where
  "MirIsUintPtrType m t = IsUintPtrType (CanonicalMirType m t)"

definition IsBuiltinNamedNonAggregate :: "Type \<Rightarrow> bool" where
  "IsBuiltinNamedNonAggregate t =
     (let canonical = CanonicalizeBuiltinType t in
      if ty_kind canonical = Ty_kBool \<or> ty_kind canonical = Ty_kString then True
      else if ty_kind canonical \<noteq> Ty_kNamed then False
      else IsIntegerType canonical \<or> IsFloatType canonical \<or> ty_name canonical = ''bool'')"

definition MirIsBuiltinNamedNonAggregate :: "MirModule \<Rightarrow> Type \<Rightarrow> bool" where
  "MirIsBuiltinNamedNonAggregate m t = IsBuiltinNamedNonAggregate (CanonicalizeBuiltinType (StripMirAliasOrDistinct m t))"

definition IsUsizeCompatibleType :: "Type \<Rightarrow> bool" where
  "IsUsizeCompatibleType t \<longleftrightarrow> type_eq t (NamedType ''usize'') \<or> ty_kind t = Ty_kIntLiteral"

definition MirIsUsizeCompatibleType :: "MirModule \<Rightarrow> Type \<Rightarrow> bool" where
  "MirIsUsizeCompatibleType m t = IsUsizeCompatibleType (CanonicalizeBuiltinType (StripMirAliasOrDistinct m t))"

definition IsAssignableCanonicalTypes :: "Type \<Rightarrow> Type \<Rightarrow> bool" where
  "IsAssignableCanonicalTypes expected actual \<longleftrightarrow>
     IsUnknown expected \<or> IsUnknown actual \<or> type_eq expected actual \<or>
     (IsIntegerType expected \<and> ty_kind actual = Ty_kIntLiteral) \<or>
     (IsFloatType expected \<and> ty_kind actual = Ty_kFloatLiteral) \<or>
     (IsPointerLikeType expected \<and> ty_kind actual = Ty_kNil)"

definition IsAssignableType :: "MirModule \<Rightarrow> Type \<Rightarrow> Type \<Rightarrow> bool" where
  "IsAssignableType m expected actual =
     IsAssignableCanonicalTypes (CanonicalMirType m expected) (CanonicalMirType m actual)"

definition HasCompatibleCanonicalNumericTypes :: "Type \<Rightarrow> Type \<Rightarrow> bool" where
  "HasCompatibleCanonicalNumericTypes left right =
     (if IsUnknown left \<or> IsUnknown right then True
      else if type_eq left right then IsNumericType left
      else (IsIntegerType left \<and> ty_kind right = Ty_kIntLiteral) \<or>
        (IsIntegerType right \<and> ty_kind left = Ty_kIntLiteral) \<or>
        (IsFloatType left \<and> ty_kind right = Ty_kFloatLiteral) \<or>
        (IsFloatType right \<and> ty_kind left = Ty_kFloatLiteral) \<or>
        (ty_kind left = Ty_kFloatLiteral \<and> ty_kind right = Ty_kIntLiteral) \<or>
        (ty_kind right = Ty_kFloatLiteral \<and> ty_kind left = Ty_kIntLiteral))"

definition HasCompatibleNumericTypes :: "MirModule \<Rightarrow> Type \<Rightarrow> Type \<Rightarrow> bool" where
  "HasCompatibleNumericTypes m left right =
     HasCompatibleCanonicalNumericTypes (CanonicalMirType m left) (CanonicalMirType m right)"

definition HasCompatibleComparisonTypes :: "MirModule \<Rightarrow> Type \<Rightarrow> Type \<Rightarrow> bool" where
  "HasCompatibleComparisonTypes m left right \<longleftrightarrow>
     HasCompatibleNumericTypes m left right \<or> IsAssignableType m left right \<or> IsAssignableType m right left"

definition AreEquivalentTypes :: "MirModule \<Rightarrow> Type \<Rightarrow> Type \<Rightarrow> bool" where
  "AreEquivalentTypes m left right \<longleftrightarrow> IsAssignableType m left right \<and> IsAssignableType m right left"

section \<open>Parts of types\<close>

definition RangeElementType :: "Type \<Rightarrow> Type" where
  "RangeElementType t = (if ty_kind t = Ty_kRange \<and> ty_subtypes t \<noteq> [] then hd (ty_subtypes t) else UnknownType)"

definition IterableElementType :: "Type \<Rightarrow> Type" where
  "IterableElementType t =
     (if ty_kind t = Ty_kArray \<and> ty_subtypes t \<noteq> [] then hd (ty_subtypes t)
      else if ty_kind t = Ty_kNamed \<and> (IsNamedTypeFamily t ''Slice'' \<or> IsNamedTypeFamily t ''Buffer'') \<and> ty_subtypes t \<noteq> []
      then hd (ty_subtypes t)
      else UnknownType)"

definition PointerPointeeType :: "Type \<Rightarrow> Type option" where
  "PointerPointeeType t = (if ty_kind t \<noteq> Ty_kPointer \<or> ty_subtypes t = [] then None else Some (hd (ty_subtypes t)))"

definition AtomicElementType :: "MirModule \<Rightarrow> Type \<Rightarrow> Type option" where
  "AtomicElementType m pointer_type =
     (case PointerPointeeType (StripMirAliasOrDistinct m pointer_type) of
        None \<Rightarrow> None
      | Some pointee \<Rightarrow>
          let stripped_pointee = StripMirAliasOrDistinct m pointee in
          if ty_kind stripped_pointee \<noteq> Ty_kNamed \<or> \<not> IsNamedTypeFamily stripped_pointee ''Atomic'' \<or>
             ty_subtypes stripped_pointee = [] then None
          else Some (hd (ty_subtypes stripped_pointee)))"

definition FindMirFieldType :: "MirModule \<Rightarrow> Type \<Rightarrow> string \<Rightarrow> Type option" where
  "FindMirFieldType m base_type field_name =
     (case map_of (BuiltinAggregateFields base_type) field_name of
        Some t \<Rightarrow> Some t
      | None \<Rightarrow>
          let canonical_base = StripMirAliasOrDistinct m (CanonicalizeBuiltinType base_type) in
          if ty_kind canonical_base \<noteq> Ty_kNamed then None
          else case FindMirTypeDecl m (ty_name canonical_base) of
              None \<Rightarrow> None
            | Some type_decl \<Rightarrow> map_of (InstantiateMirFields type_decl canonical_base) field_name)"

section \<open>Conversions and arithmetic\<close>

datatype (plugins only: code) ExplicitConversionKind =
  EC_kGeneric | EC_kNumeric | EC_kDistinct | EC_kPointerToInt | EC_kIntToPointer | EC_kArrayToSlice | EC_kBufferToSlice

definition ClassifyMirConversion :: "MirModule \<Rightarrow> Type \<Rightarrow> Type \<Rightarrow> ExplicitConversionKind" where
  "ClassifyMirConversion m source_type target_type =
     (let to_slice = ty_kind target_type = Ty_kNamed \<and> IsNamedTypeFamily target_type ''Slice'';
          stripped_source = StripMirAliasOrDistinct m source_type;
          stripped_target = StripMirAliasOrDistinct m target_type;
          source_wrapped = (\<not> type_eq stripped_source source_type);
          target_wrapped = (\<not> type_eq stripped_target target_type) in
      if to_slice \<and> ty_kind source_type = Ty_kArray then EC_kArrayToSlice
      else if to_slice \<and> ty_kind source_type = Ty_kNamed \<and> IsNamedTypeFamily source_type ''Buffer'' then EC_kBufferToSlice
      else if IsUintPtrConvertibleType stripped_source \<and> IsUintPtrType stripped_target then EC_kPointerToInt
      else if IsUintPtrType stripped_source \<and> IsUintPtrConvertibleType stripped_target then EC_kIntToPointer
      else if (source_wrapped \<or> target_wrapped) \<and> type_eq stripped_source stripped_target then EC_kDistinct
      else if IsNumericType stripped_source \<and> IsNumericType stripped_target then EC_kNumeric
      else EC_kGeneric)"

definition ClassifyBinaryArithmeticSemantics :: "MirModule \<Rightarrow> string \<Rightarrow> Type \<Rightarrow> ArithmeticSemantics" where
  "ClassifyBinaryArithmeticSemantics m op result_type =
     (if \<not> IsWraparoundBinaryOp op then AS_kNone
      else if IsIntegerType (StripMirAliasOrDistinct m result_type) then AS_kWrap
      else AS_kNone)"

section \<open>Procedure types\<close>

definition ProcedureParamCount :: "Type \<Rightarrow> nat option" where
  \<comment> \<open>\<open>None\<close>: the metadata is no number, which is asserted.\<close>
  "ProcedureParamCount t =
     (if ty_kind t \<noteq> Ty_kProcedure \<or> ty_metadata t = [] then Some 0
      else map_option unat (ParseArrayLength (ty_metadata t)))"

definition ProcedureParamTypes :: "Type \<Rightarrow> Type list option" where
  "ProcedureParamTypes t =
     (if ty_kind t \<noteq> Ty_kProcedure then Some []
      else map_option (\<lambda>param_count. if length (ty_subtypes t) < param_count then [] else take param_count (ty_subtypes t))
        (ProcedureParamCount t))"

definition ProcedureReturnTypes :: "Type \<Rightarrow> Type list option" where
  "ProcedureReturnTypes t =
     (if ty_kind t \<noteq> Ty_kProcedure then Some []
      else map_option (\<lambda>param_count. if length (ty_subtypes t) \<le> param_count then [] else drop param_count (ty_subtypes t))
        (ProcedureParamCount t))"

definition ProcedureResultType :: "Type \<Rightarrow> Type option" where
  "ProcedureResultType t =
     map_option (\<lambda>returns. case returns of [] \<Rightarrow> VoidType | [r] \<Rightarrow> r | _ \<Rightarrow> TupleType returns) (ProcedureReturnTypes t)"

definition CallReturnTypes :: "Type \<Rightarrow> Type list" where
  "CallReturnTypes t =
     (if ty_kind t = Ty_kVoid then [] else if ty_kind t = Ty_kTuple then ty_subtypes t else [t])"

definition FunctionProcedureType :: "MirFunction \<Rightarrow> Type option" where
  \<comment> \<open>Asserted: no parameter comes after a local that is none.\<close>
  "FunctionProcedureType f =
     (if \<exists>l \<in> set (dropWhile lc_is_parameter (mf_locals f)). lc_is_parameter l then None
      else Some (ProcedureType (map lc_type (takeWhile lc_is_parameter (mf_locals f))) (mf_return_types f)))"

fun match_types :: "(Type \<Rightarrow> Type \<Rightarrow> (string \<rightharpoonup> Type) \<Rightarrow> (bool \<times> (string \<rightharpoonup> Type)) option) \<Rightarrow>
    (Type \<times> Type) list \<Rightarrow> (string \<rightharpoonup> Type) \<Rightarrow> (bool \<times> (string \<rightharpoonup> Type)) option" where
  \<comment> \<open>The loop over the subtypes.\<close>
  "match_types match [] bindings = Some (True, bindings)"
| "match_types match ((pattern, actual) # rest) bindings =
     (case match pattern actual bindings of
        None \<Rightarrow> None
      | Some (False, bindings) \<Rightarrow> Some (False, bindings)
      | Some (True, bindings) \<Rightarrow> match_types match rest bindings)"

primrec MatchGenericTypePattern ::
  "nat \<Rightarrow> MirModule \<Rightarrow> string set \<Rightarrow> Type \<Rightarrow> Type \<Rightarrow> (string \<rightharpoonup> Type) \<Rightarrow> (bool \<times> (string \<rightharpoonup> Type)) option" where
  "MatchGenericTypePattern 0 m type_params pattern actual bindings = None"
| "MatchGenericTypePattern (Suc n) m type_params pattern actual bindings =
     (let p = CanonicalMirType m pattern; a = CanonicalMirType m actual in
      if ty_kind p = Ty_kNamed \<and> ty_name p \<in> type_params then
        (case bindings (ty_name p) of
           None \<Rightarrow> Some (True, bindings(ty_name p \<mapsto> a))
         | Some found \<Rightarrow> Some (AreEquivalentTypes m found a, bindings))
      else if ty_kind p \<noteq> ty_kind a then Some (False, bindings)
      else if ty_kind p = Ty_kUnknown then Some (True, bindings)
      else if ty_kind p = Ty_kNamed \<and> ty_name p \<noteq> ty_name a then Some (False, bindings)
      else if ty_kind p \<noteq> Ty_kNamed \<and> ty_metadata p \<noteq> ty_metadata a then Some (False, bindings)
      else if length (ty_subtypes p) \<noteq> length (ty_subtypes a) then Some (False, bindings)
      else match_types (MatchGenericTypePattern n m type_params) (zip (ty_subtypes p) (ty_subtypes a)) bindings)"

definition MatchesGenericFunctionType :: "nat \<Rightarrow> MirModule \<Rightarrow> MirFunction \<Rightarrow> Type \<Rightarrow> bool option" where
  "MatchesGenericFunctionType n m f actual_type =
     (if mf_type_params f = [] then map_option (\<lambda>t. AreEquivalentTypes m t actual_type) (FunctionProcedureType f)
      else let canonical_actual = CanonicalMirType m actual_type in
        if ty_kind canonical_actual \<noteq> Ty_kProcedure then Some False
        else do {
          expected_type \<leftarrow> FunctionProcedureType f;
          (matched, _) \<leftarrow> MatchGenericTypePattern n m (set (mf_type_params f)) expected_type canonical_actual Map.empty;
          Some matched })"

section \<open>Text\<close>

definition CanonicalVariantDisplayName :: "Type \<Rightarrow> string \<Rightarrow> string" where
  "CanonicalVariantDisplayName selector_type variant_name =
     (if CHR ''.'' \<in> set variant_name then variant_name
      else if ty_kind selector_type = Ty_kNamed \<and> ty_name selector_type \<noteq> []
      then ty_name selector_type @ ''.'' @ variant_name
      else variant_name)"

definition MatchesTargetDisplay :: "string \<Rightarrow> Type \<Rightarrow> bool option" where
  "MatchesTargetDisplay target t =
     map_option (\<lambda>canonical. target = canonical \<or>
         (ty_kind t = Ty_kNamed \<and> ty_name t \<noteq> [] \<and> CHR ''.'' \<in> set (ty_name t) \<and> target = after_last_dot (ty_name t)))
       (FormatType t)"

end
