(* ===== verification/MC_MirValidate.thy ===== *)
theory MC_MirValidate
  imports MC_MirTypes
begin

text \<open>
  \<open>compiler/mir/mir_validate.cpp\<close>: the checks of the instructions and terminators of a module. The reports are returned
  in their order. A report whose text cannot be made, and a check that does not come to an end or dereferences
  what is not there, is \<open>None\<close> in the list; then the program does not return.
\<close>

section \<open>Reports\<close>

type_synonym mir_reports = "string option list"

record ValidationContext =
  vc_fuel :: nat
    \<comment> \<open>for the recursion over types\<close>
  vc_module :: MirModule
  vc_function :: MirFunction
  vc_locals :: "string \<rightharpoonup> Type"
    \<comment> \<open>\<open>local_types\<close>\<close>
  vc_operand_types :: "Type list"
  vc_previous_instruction :: "Instruction option"

definition report_if :: "bool \<Rightarrow> string option \<Rightarrow> mir_reports" where
  "report_if c message = (if c then [message] else [])"

definition report_when :: "bool option \<Rightarrow> string option \<Rightarrow> mir_reports" where
  \<comment> \<open>The condition may not come to a value.\<close>
  "report_when c message = (case c of None \<Rightarrow> [None] | Some c \<Rightarrow> report_if c message)"

definition or_stop :: "bool \<Rightarrow> string option \<Rightarrow> mir_reports \<Rightarrow> mir_reports" where
  \<comment> \<open>\<open>if (c) { report(message); break; }\<close>\<close>
  "or_stop c message rest = (if c then [message] else rest)"

definition in_function :: "ValidationContext \<Rightarrow> string \<Rightarrow> string option" where
  "in_function c what = Some (what @ '' in function '' @ mf_name (vc_function c))"

definition in_function_of :: "ValidationContext \<Rightarrow> string \<Rightarrow> string \<Rightarrow> string option" where
  "in_function_of c what tail = Some (what @ '' in function '' @ mf_name (vc_function c) @ tail)"

definition expected_got :: "ValidationContext \<Rightarrow> string \<Rightarrow> string \<Rightarrow> string \<Rightarrow> Type \<Rightarrow> Type \<Rightarrow> string option" where
  \<comment> \<open>The text of a mismatch; \<open>place\<close> follows the name of the function, \<open>star\<close> precedes the expected type.\<close>
  "expected_got c what place star expected got = do {
     e \<leftarrow> FormatType expected;
     g \<leftarrow> FormatType got;
     Some (what @ '' in function '' @ mf_name (vc_function c) @ place @ '': expected '' @ star @ e @ '', got '' @ g) }"

definition known :: "Type \<Rightarrow> bool" where
  "known t \<longleftrightarrow> \<not> IsUnknown t"

section \<open>store_target\<close>

definition indexed_element_type :: "Type \<Rightarrow> Type" where
  \<comment> \<open>The element type of the base of an index, for \<open>store_target\<close>, \<open>local_addr\<close> and \<open>index\<close>.\<close>
  "indexed_element_type base =
     (if ty_kind base = Ty_kNamed \<and> (IsNamedTypeFamily base ''Slice'' \<or> IsNamedTypeFamily base ''Buffer'') \<and> ty_subtypes base \<noteq> []
      then hd (ty_subtypes base)
      else if ty_kind base = Ty_kArray \<and> ty_subtypes base \<noteq> [] then hd (ty_subtypes base)
      else UnknownType)"

definition store_field :: "Instruction \<Rightarrow> ValidationContext \<Rightarrow> mir_reports" where
  "store_field i c =
     (let base = in_target_base_type i; builtin_fields = BuiltinAggregateFields base; ots = vc_operand_types c in
      report_if (length (in_operands i) \<noteq> 2) (in_function c ''store_target field access must use value and base operands'') @
      report_if ((in_target_base_storage i = SB_kNone) \<noteq> (in_target_base_name i = []))
        (in_function c ''store_target field access direct-base metadata must pair kind and name'') @
      report_if (in_target_aux_types i \<noteq> []) (in_function c ''store_target field access must not carry index metadata'') @
      or_stop (in_target_name i = []) (in_function c ''store_target field access must name a field'')
       (report_if (2 \<le> length ots \<and> known base \<and> \<not> type_eq base (ots ! 1))
          (in_function c ''store_target field base metadata mismatch'') @
        report_if (ty_kind base \<noteq> Ty_kNamed \<and> known base \<and> builtin_fields = [])
          (in_function c ''store_target field access requires named aggregate base'') @
        (if ty_kind base \<noteq> Ty_kNamed \<and> builtin_fields = [] then []
         else let type_decl = FindMirTypeDecl (vc_module c) (ty_name base) in
           or_stop (type_decl = None \<and> builtin_fields = [])
             (in_function_of c ''store_target field base type is unknown'' ('': '' @ ty_name base))
             (case map_of (case type_decl of Some d \<Rightarrow> InstantiateMirFields d base | None \<Rightarrow> builtin_fields) (in_target_name i) of
                Some field_type \<Rightarrow>
                  report_if (ots \<noteq> [] \<and> \<not> IsAssignableType (vc_module c) field_type (hd ots))
                    (expected_got c ''store_target field type mismatch'' ('' for '' @ in_target_name i) [] field_type (hd ots))
              | None \<Rightarrow> [in_function_of c ''store_target field is unknown'' ('': '' @ in_target_name i)]))))"

definition store_index :: "Instruction \<Rightarrow> ValidationContext \<Rightarrow> mir_reports" where
  "store_index i c =
     (let base = in_target_base_type i; aux = in_target_aux_types i; ots = vc_operand_types c;
          element_type = indexed_element_type base in
      report_if (length (in_operands i) \<noteq> 3) (in_function c ''store_target index access must use value, base, and index operands'') @
      report_if ((in_target_base_storage i = SB_kNone) \<noteq> (in_target_base_name i = []))
        (in_function c ''store_target index access direct-base metadata must pair kind and name'') @
      report_if (in_target_name i \<noteq> []) (in_function c ''store_target index access must not name a field target'') @
      report_if (length aux \<noteq> 1) (in_function c ''store_target index access must carry exactly one index type'') @
      report_if (2 \<le> length ots \<and> known base \<and> \<not> type_eq base (ots ! 1))
        (in_function c ''store_target index base metadata mismatch'') @
      report_if (IsUnknown element_type \<and> known base) (in_function c ''store_target index requires array, slice, or buffer base'') @
      report_if (aux \<noteq> [] \<and> \<not> IsUsizeCompatibleType (hd aux)) (in_function c ''store_target index operand must be usize-compatible'') @
      report_if (3 \<le> length ots \<and> aux \<noteq> [] \<and> \<not> type_eq (hd aux) (ots ! 2))
        (in_function c ''store_target index metadata type mismatch'') @
      report_if (ots \<noteq> [] \<and> known element_type \<and> \<not> IsAssignableType (vc_module c) element_type (hd ots))
        (expected_got c ''store_target indexed element type mismatch'' [] [] element_type (hd ots)))"

definition store_global :: "Instruction \<Rightarrow> ValidationContext \<Rightarrow> mir_reports" where
  "store_global i c =
     report_if (length (in_operands i) \<noteq> 1) (in_function c ''store_target global access must use exactly one value operand'') @
     report_if (in_target_name i = []) (in_function c ''store_target global access must name the target symbol'') @
     report_if (in_target_aux_types i \<noteq> [] \<or> (in_target_name i \<noteq> [] \<and> known (in_target_base_type i)))
       (in_function c ''store_target global access must not carry structured base metadata'')"

definition store_pointer :: "Instruction \<Rightarrow> ValidationContext \<Rightarrow> mir_reports" where
  "store_pointer i c =
     (let base = in_target_base_type i; ots = vc_operand_types c in
      if length (in_operands i) = 2 \<and> ty_kind base = Ty_kPointer \<and> ty_subtypes base \<noteq> [] then
        report_if (ots \<noteq> [] \<and> \<not> IsAssignableType (vc_module c) (hd (ty_subtypes base)) (hd ots))
          (expected_got c ''store_target pointer target type mismatch'' [] [] (hd (ty_subtypes base)) (hd ots)) @
        report_if (2 \<le> length ots \<and> \<not> type_eq (ots ! 1) base) (in_function c ''store_target pointer base metadata mismatch'')
      else [])"

definition ValidateStoreTargetInstruction :: "Instruction \<Rightarrow> ValidationContext \<Rightarrow> mir_reports" where
  "ValidateStoreTargetInstruction i c =
     (let ots = vc_operand_types c in
      report_if (in_result i \<noteq> []) (in_function c ''store_target must not produce a result'') @
      report_if (in_target i = [] \<and> in_target_name i = [] \<and> in_target_display i = [])
        (in_function c ''store_target must name a target'') @
      report_if (ots \<noteq> [] \<and> known (in_type i) \<and> \<not> IsAssignableType (vc_module c) (in_type i) (hd ots))
        (expected_got c ''store_target declared type mismatch'' [] [] (in_type i) (hd ots)) @
      (case in_target_kind i of
         TK_kField \<Rightarrow> store_field i c
       | TK_kDerefField \<Rightarrow> store_field i c
       | TK_kIndex \<Rightarrow> store_index i c
       | TK_kGlobal \<Rightarrow> store_global i c
       | _ \<Rightarrow> store_pointer i c))"

section \<open>binary\<close>

definition preceded_by :: "ValidationContext \<Rightarrow> InstructionKind \<Rightarrow> Instruction \<Rightarrow> bool" where
  \<comment> \<open>The previous instruction is the check of the given kind for this operation and its operands.\<close>
  "preceded_by c check i =
     (case vc_previous_instruction c of
        None \<Rightarrow> False
      | Some p \<Rightarrow> in_kind p = check \<and> in_op p = in_op i \<and> in_operands p = in_operands i)"

definition each_operand :: "ValidationContext \<Rightarrow> (Type \<Rightarrow> bool) \<Rightarrow> string \<Rightarrow> mir_reports" where
  \<comment> \<open>A report for every operand whose type is known and not of the kind asked for.\<close>
  "each_operand c good what = concat (map (\<lambda>t. report_if (known t \<and> \<not> good t) (in_function c what)) (vc_operand_types c))"

definition comparison_ops :: "string list" where
  "comparison_ops = [''=='', ''!='', ''<'', ''<='', ''>'', ''>='']"

definition binary_shift :: "Instruction \<Rightarrow> ValidationContext \<Rightarrow> mir_reports" where
  "binary_shift i c =
     (let m = vc_module c; ots = vc_operand_types c in
      (if length ots = 2 then
         report_if (known (hd ots) \<and> \<not> MirIsIntegerLikeType m (hd ots)) (in_function c ''shift binary requires integer left operand'') @
         report_if (known (last ots) \<and> \<not> MirIsIntegerLikeType m (last ots)) (in_function c ''shift binary requires integer right operand'') @
         report_if (known (hd ots) \<and> \<not> type_eq (in_type i) (hd ots)) (in_function c ''shift binary must preserve the left operand type'')
       else []) @
      report_if (\<not> preceded_by c I_kShiftCheck i) (in_function c ''shift binary must be preceded by matching shift_check''))"

definition binary_bitwise :: "Instruction \<Rightarrow> ValidationContext \<Rightarrow> mir_reports" where
  "binary_bitwise i c =
     (let m = vc_module c; ots = vc_operand_types c in
      each_operand c (MirIsIntegerLikeType m) ''bitwise binary requires integer operands'' @
      report_if (length ots = 2 \<and> \<not> HasCompatibleNumericTypes m (hd ots) (last ots))
        (in_function c ''bitwise binary requires compatible operand types'') @
      report_if (known (in_type i) \<and> \<not> MirIsIntegerLikeType m (in_type i)) (in_function c ''bitwise binary must produce integer type''))"

definition binary_arithmetic :: "Instruction \<Rightarrow> ValidationContext \<Rightarrow> mir_reports" where
  "binary_arithmetic i c =
     (let m = vc_module c; ots = vc_operand_types c in
      each_operand c (MirIsNumericType m) ''arithmetic binary requires numeric operands'' @
      report_if (length ots = 2 \<and> \<not> HasCompatibleNumericTypes m (hd ots) (last ots))
        (in_function c ''arithmetic binary requires compatible operand types'') @
      report_if (known (in_type i) \<and> \<not> MirIsNumericType m (in_type i)) (in_function c ''arithmetic binary must produce numeric type'') @
      report_if (in_op i \<in> {''/'', ''%''} \<and> \<not> preceded_by c I_kDivCheck i)
        (in_function c ''division and remainder must be preceded by matching div_check''))"

definition ValidateBinaryInstruction :: "Instruction \<Rightarrow> ValidationContext \<Rightarrow> mir_reports" where
  "ValidateBinaryInstruction i c =
     (let m = vc_module c; ots = vc_operand_types c; op = in_op i;
          binary_result_type = StripMirAliasOrDistinct m (in_type i) in
      report_if (in_result i = []) (in_function c ''binary must produce a result'') @
      report_if (length (in_operands i) \<noteq> 2) (in_function c ''binary must use exactly two operands'') @
      report_if (IsWraparoundBinaryOp op \<and> known binary_result_type \<and> MirIsIntegerType m binary_result_type \<and>
          in_arithmetic_semantics i \<noteq> AS_kWrap)
        (in_function c ''integer arithmetic binary must record wrap semantics'') @
      report_if (in_arithmetic_semantics i = AS_kWrap \<and>
          (\<not> IsWraparoundBinaryOp op \<or> (known binary_result_type \<and> \<not> MirIsIntegerType m binary_result_type)))
        (in_function c ''wrap semantics are only valid on integer +, -, or * binaries'') @
      report_if (op \<in> set (comparison_ops @ [''&&'', ''||'']) \<and> \<not> MirIsBoolType m (in_type i))
        (in_function c ''comparison/logical binary must produce bool'') @
      report_if (op \<in> set comparison_ops \<and> length ots = 2 \<and> \<not> HasCompatibleComparisonTypes m (hd ots) (last ots))
        (in_function c ''comparison requires compatible operand types'') @
      (if op \<in> {''<<'', ''>>''} then binary_shift i c else []) @
      (if op \<in> {''&&'', ''||''} then each_operand c (MirIsBoolType m) ''logical binary requires bool operands'' else []) @
      (if op \<in> {''&'', ''|'', ''^''} then binary_bitwise i c else []) @
      (if op \<in> {''+'', ''-'', ''*'', ''/'', ''%''} then binary_arithmetic i c else []))"

section \<open>Atomic operations\<close>

datatype (plugins only: code) AtomicOrderKind = AO_kInvalid | AO_kRelaxed | AO_kAcquire | AO_kRelease | AO_kAcqRel | AO_kSeqCst

definition ClassifyAtomicOrder :: "string \<Rightarrow> AtomicOrderKind" where
  "ClassifyAtomicOrder order_name =
     (let leaf = VariantLeafName order_name in
      if leaf = ''Relaxed'' then AO_kRelaxed
      else if leaf = ''Acquire'' then AO_kAcquire
      else if leaf = ''Release'' then AO_kRelease
      else if leaf = ''AcqRel'' then AO_kAcqRel
      else if leaf = ''SeqCst'' then AO_kSeqCst
      else AO_kInvalid)"

definition IsConstantAtomicOrderMetadata :: "string \<Rightarrow> bool" where
  "IsConstantAtomicOrderMetadata order_name \<longleftrightarrow> ClassifyAtomicOrder order_name \<noteq> AO_kInvalid"

definition AtomicOrderAllowedForInstruction :: "InstructionKind \<Rightarrow> string \<Rightarrow> bool" where
  "AtomicOrderAllowedForInstruction kind order_name =
     (let order = ClassifyAtomicOrder order_name in
      case kind of
        I_kAtomicLoad \<Rightarrow> order \<in> {AO_kRelaxed, AO_kAcquire, AO_kSeqCst}
      | I_kAtomicStore \<Rightarrow> order \<in> {AO_kRelaxed, AO_kRelease, AO_kSeqCst}
      | I_kAtomicExchange \<Rightarrow> order \<noteq> AO_kInvalid
      | I_kAtomicFetchAdd \<Rightarrow> order \<noteq> AO_kInvalid
      | I_kAtomicCompareExchange \<Rightarrow> order \<noteq> AO_kInvalid
      | _ \<Rightarrow> False)"

definition AtomicCompareExchangeFailureOrderAllowed :: "string \<Rightarrow> string \<Rightarrow> bool" where
  "AtomicCompareExchangeFailureOrderAllowed success_order_name failure_order_name =
     (let failure = ClassifyAtomicOrder failure_order_name in
      case ClassifyAtomicOrder success_order_name of
        AO_kRelaxed \<Rightarrow> failure = AO_kRelaxed
      | AO_kAcquire \<Rightarrow> failure = AO_kRelaxed \<or> failure = AO_kAcquire
      | AO_kRelease \<Rightarrow> failure = AO_kRelaxed
      | AO_kAcqRel \<Rightarrow> failure = AO_kRelaxed \<or> failure = AO_kAcquire
      | AO_kSeqCst \<Rightarrow> failure = AO_kRelaxed \<or> failure = AO_kAcquire \<or> failure = AO_kSeqCst
      | AO_kInvalid \<Rightarrow> False)"

fun atomic_call :: "InstructionKind \<Rightarrow> SpecialCallKind" where
  \<comment> \<open>\<open>expected_special_kind\<close>\<close>
  "atomic_call I_kAtomicLoad = SC_kAtomicLoad"
| "atomic_call I_kAtomicStore = SC_kAtomicStore"
| "atomic_call I_kAtomicExchange = SC_kAtomicExchange"
| "atomic_call I_kAtomicCompareExchange = SC_kAtomicCompareExchange"
| "atomic_call _ = SC_kAtomicFetchAdd"

definition require_order :: "ValidationContext \<Rightarrow> nat \<Rightarrow> string \<Rightarrow> mir_reports" where
  "require_order c index label =
     (let ots = vc_operand_types c in
      report_if (index < length ots \<and> known (ots ! index) \<and> \<not> IsMemoryOrderType (vc_module c) (ots ! index))
        (in_function c (label @ '' must use MemoryOrder operand'')))"

definition atomic_operand :: "ValidationContext \<Rightarrow> nat \<Rightarrow> Type \<Rightarrow> string \<Rightarrow> mir_reports" where
  \<comment> \<open>The value of an operand must fit the element.\<close>
  "atomic_operand c index element what =
     (let ots = vc_operand_types c in
      report_if (index < length ots \<and> \<not> IsAssignableType (vc_module c) element (ots ! index)) (in_function c what))"

definition atomic_result :: "Instruction \<Rightarrow> ValidationContext \<Rightarrow> Type \<Rightarrow> string \<Rightarrow> mir_reports" where
  "atomic_result i c element what = report_if (\<not> IsAssignableType (vc_module c) (in_type i) element) (in_function c what)"

definition atomic_types :: "Instruction \<Rightarrow> ValidationContext \<Rightarrow> Type \<Rightarrow> mir_reports" where
  \<comment> \<open>The part of \<open>ValidateAtomicInstruction\<close> that knows the type of the element.\<close>
  "atomic_types i c element =
     (let ots = vc_operand_types c in
      case in_kind i of
        I_kAtomicLoad \<Rightarrow> atomic_result i c element ''atomic_load result type mismatch'' @ require_order c 1 ''atomic_load''
      | I_kAtomicStore \<Rightarrow>
          atomic_operand c 1 element ''atomic_store value type mismatch'' @ require_order c 2 ''atomic_store''
      | I_kAtomicExchange \<Rightarrow>
          atomic_result i c element ''atomic_exchange result type mismatch'' @
          atomic_operand c 1 element ''atomic_exchange value type mismatch'' @ require_order c 2 ''atomic_exchange''
      | I_kAtomicCompareExchange \<Rightarrow>
          report_if (1 < length ots \<and>
              (case PointerPointeeType (StripMirAliasOrDistinct (vc_module c) (ots ! 1)) of
                 None \<Rightarrow> True | Some p \<Rightarrow> \<not> IsAssignableType (vc_module c) p element))
            (in_function c ''atomic_compare_exchange expected pointer type mismatch'') @
          atomic_operand c 2 element ''atomic_compare_exchange desired value type mismatch'' @
          require_order c 3 ''atomic_compare_exchange success order'' @
          require_order c 4 ''atomic_compare_exchange failure order''
      | _ \<Rightarrow>
          atomic_result i c element ''atomic_fetch_add result type mismatch'' @
          atomic_operand c 1 element ''atomic_fetch_add value type mismatch'' @ require_order c 2 ''atomic_fetch_add'')"

definition ValidateAtomicInstruction :: "Instruction \<Rightarrow> ValidationContext \<Rightarrow> mir_reports" where
  \<comment> \<open>Called for the five atomic kinds only.\<close>
  "ValidateAtomicInstruction i c =
     (let kind = in_kind i; name = ToString_instruction kind; ots = vc_operand_types c;
          is_load = (kind = I_kAtomicLoad); is_store = (kind = I_kAtomicStore);
          is_compare_exchange = (kind = I_kAtomicCompareExchange);
          expected_operands = (if is_load then 2 else if is_compare_exchange then 5 else 3);
          success = in_atomic_success_order i; failure = in_atomic_failure_order i in
      report_if (ClassifySpecialCall (PrimaryTargetName i) \<noteq> atomic_call kind)
        (in_function c (name @ '' must use matching atomic call metadata'')) @
      or_stop (length (in_operands i) \<noteq> expected_operands) (in_function c (name @ '' operand count mismatch''))
       (report_if (\<not> is_compare_exchange \<and> \<not> HasAtomicOrderMetadata i) (in_function c (name @ '' must record order metadata'')) @
        report_if (is_compare_exchange \<and> \<not> HasCompareExchangeOrderMetadata i)
          (in_function c ''atomic_compare_exchange must record success/failure order metadata'') @
        report_if (\<not> is_compare_exchange \<and> HasAtomicOrderMetadata i \<and> IsConstantAtomicOrderMetadata (in_atomic_order i) \<and>
            \<not> AtomicOrderAllowedForInstruction kind (in_atomic_order i))
          (in_function c (name @ '' uses unsupported MemoryOrder metadata'')) @
        (if is_compare_exchange \<and> HasCompareExchangeOrderMetadata i then
           report_if (IsConstantAtomicOrderMetadata success \<and> \<not> AtomicOrderAllowedForInstruction kind success)
             (in_function c ''atomic_compare_exchange uses unsupported success MemoryOrder metadata'') @
           report_if (IsConstantAtomicOrderMetadata success \<and> IsConstantAtomicOrderMetadata failure \<and>
               \<not> AtomicCompareExchangeFailureOrderAllowed success failure)
             (in_function c ''atomic_compare_exchange uses unsupported failure MemoryOrder metadata'')
         else []) @
        report_if (in_op i \<noteq> []) (in_function c (name @ '' must not encode atomic order metadata in generic op text'')) @
        report_if (\<not> is_store \<and> \<not> is_compare_exchange \<and> in_result i = []) (in_function c (name @ '' must produce a result'')) @
        report_if (is_store \<and> in_result i \<noteq> []) (in_function c ''atomic_store must not produce a result'') @
        report_if (is_compare_exchange \<and> \<not> MirIsBoolType (vc_module c) (in_type i))
          (in_function c ''atomic_compare_exchange must produce bool'') @
        (if ots = [] then []
         else case AtomicElementType (vc_module c) (hd ots) of
             None \<Rightarrow> report_if (known (hd ots)) (in_function c (name @ '' requires *Atomic<T> operand''))
           | Some element \<Rightarrow> atomic_types i c element)))"

section \<open>Locals\<close>

definition addr_global :: "Instruction \<Rightarrow> ValidationContext \<Rightarrow> mir_reports" where
  "addr_global i c =
     (let global_name = PrimaryTargetName i in
      or_stop (global_name = []) (in_function c ''local_addr global target must record target_name metadata'')
       (case FindMirGlobalDecl (vc_module c) global_name of
          None \<Rightarrow> [in_function_of c ''local_addr references unknown global'' ('': '' @ global_name)]
        | Some g \<Rightarrow>
            report_if (\<not> type_eq (hd (ty_subtypes (in_type i))) (gd_type g))
              (expected_got c ''local_addr type mismatch'' ('' for '' @ global_name) ''*'' (gd_type g) (in_type i))))"

definition addr_field :: "Instruction \<Rightarrow> ValidationContext \<Rightarrow> mir_reports" where
  "addr_field i c =
     or_stop (in_target_name i = []) (in_function c ''local_addr field target must record target_name metadata'')
      (or_stop (in_target_base_storage i \<noteq> SB_kLocal \<and> in_target_base_storage i \<noteq> SB_kGlobal)
         (in_function c ''local_addr field target must record direct local/global base storage'')
        (or_stop (in_target_base_name i = []) (in_function c ''local_addr field target must record a base name'')
          (or_stop (IsUnknown (in_target_base_type i)) (in_function c ''local_addr field target must record a base type'')
            (case FindMirFieldType (vc_module c) (in_target_base_type i) (in_target_name i) of
               None \<Rightarrow> [in_function c (''local_addr could not resolve field '' @ [apostrophe_char] @ in_target_name i @ [apostrophe_char])]
             | Some field_type \<Rightarrow>
                 report_if (\<not> type_eq (hd (ty_subtypes (in_type i))) field_type)
                   (expected_got c ''local_addr field type mismatch'' ('' for '' @ in_target i) ''*'' field_type (in_type i))))))"

definition addr_index :: "Instruction \<Rightarrow> ValidationContext \<Rightarrow> mir_reports" where
  "addr_index i c =
     (let base = in_target_base_type i; aux = in_target_aux_types i; ots = vc_operand_types c;
          element_type = indexed_element_type base in
      report_if (length (in_operands i) \<noteq> 2) (in_function c ''local_addr index target must use base and index operands'') @
      report_if ((in_target_base_storage i = SB_kNone) \<noteq> (in_target_base_name i = []))
        (in_function c ''local_addr index target direct-base metadata must pair kind and name'') @
      report_if (in_target_name i \<noteq> []) (in_function c ''local_addr index target must not record field-name metadata'') @
      report_if (length aux \<noteq> 1) (in_function c ''local_addr index target must carry exactly one index type'') @
      report_if (1 \<le> length ots \<and> known base \<and> \<not> type_eq base (ots ! 0))
        (in_function c ''local_addr index base metadata mismatch'') @
      or_stop (IsUnknown element_type \<and> known base) (in_function c ''local_addr index requires array, slice, or buffer base'')
       (report_if (aux \<noteq> [] \<and> \<not> IsUsizeCompatibleType (hd aux)) (in_function c ''local_addr index operand must be usize-compatible'') @
        report_if (2 \<le> length ots \<and> aux \<noteq> [] \<and> \<not> type_eq (hd aux) (ots ! 1))
          (in_function c ''local_addr index metadata type mismatch'') @
        report_if (known element_type \<and> \<not> type_eq (hd (ty_subtypes (in_type i))) element_type)
          (expected_got c ''local_addr index type mismatch'' ('' for '' @ in_target i) ''*'' element_type (in_type i))))"

definition check_local_addr :: "Instruction \<Rightarrow> ValidationContext \<Rightarrow> mir_reports" where
  "check_local_addr i c =
     report_if (in_result i = []) (in_function c ''local_addr must produce a result'') @
     or_stop (in_target i = []) (in_function c ''local_addr must name a target'')
      (or_stop (ty_kind (in_type i) \<noteq> Ty_kPointer \<or> ty_subtypes (in_type i) = [])
         (in_function c ''local_addr must produce a pointer type'')
        (case in_target_kind i of
           TK_kGlobal \<Rightarrow> addr_global i c
         | TK_kField \<Rightarrow> addr_field i c
         | TK_kIndex \<Rightarrow> addr_index i c
         | kind \<Rightarrow>
             or_stop (in_operands i \<noteq> []) (in_function c ''local_addr must not take operands'')
              (or_stop (kind \<noteq> TK_kNone) (in_function_of c ''local_addr uses unsupported target kind'' ('': '' @ ToString_target kind))
                (case vc_locals c (in_target i) of
                   None \<Rightarrow> [in_function_of c ''local_addr references unknown local'' ('': '' @ in_target i)]
                 | Some local_type \<Rightarrow>
                     report_if (\<not> type_eq (hd (ty_subtypes (in_type i))) local_type)
                       (expected_got c ''local_addr type mismatch'' ('' for '' @ in_target i) ''*'' local_type (in_type i))))))"

definition check_load_local :: "Instruction \<Rightarrow> ValidationContext \<Rightarrow> mir_reports" where
  "check_load_local i c =
     report_if (in_result i = []) (in_function c ''load_local must produce a result'') @
     report_if (in_operands i \<noteq> []) (in_function c ''load_local must not take operands'') @
     or_stop (in_target i = []) (in_function c ''load_local must name a local target'')
      (case vc_locals c (in_target i) of
         None \<Rightarrow> [in_function_of c ''load_local references unknown local'' ('': '' @ in_target i)]
       | Some local_type \<Rightarrow>
           report_if (\<not> type_eq (in_type i) local_type)
             (expected_got c ''load_local type mismatch'' ('' for '' @ in_target i) [] local_type (in_type i)))"

definition check_store_local :: "Instruction \<Rightarrow> ValidationContext \<Rightarrow> mir_reports" where
  "check_store_local i c =
     (let ots = vc_operand_types c in
      report_if (in_result i \<noteq> []) (in_function c ''store_local must not produce a result'') @
      report_if (length (in_operands i) \<noteq> 1) (in_function c ''store_local must use exactly one operand'') @
      or_stop (in_target i = []) (in_function c ''store_local must name a local target'')
       (case vc_locals c (in_target i) of
          None \<Rightarrow> [in_function_of c ''store_local references unknown local'' ('': '' @ in_target i)]
        | Some local_type \<Rightarrow>
            report_if (\<not> type_eq (in_type i) local_type)
              (expected_got c ''store_local declared type mismatch'' ('' for '' @ in_target i) [] local_type (in_type i)) @
            report_if (length ots = 1 \<and> \<not> IsAssignableType (vc_module c) local_type (hd ots))
              (expected_got c ''store_local operand type mismatch'' ('' for '' @ in_target i) [] local_type (hd ots))))"

section \<open>Operators and run-time checks\<close>

definition check_unary :: "Instruction \<Rightarrow> ValidationContext \<Rightarrow> mir_reports" where
  "check_unary i c =
     (let m = vc_module c; ots = vc_operand_types c; op = in_op i; t = in_type i; one = (length ots = 1);
          deref_operand = (if one then StripMirAliasOrDistinct m (hd ots) else UnknownType) in
      report_if (in_result i = []) (in_function c ''unary must produce a result'') @
      report_if (length (in_operands i) \<noteq> 1) (in_function c ''unary must use exactly one operand'') @
      report_if (op = ''!'' \<and> \<not> MirIsBoolType m t) (in_function c ''logical unary must produce bool'') @
      report_if (op = ''!'' \<and> one \<and> \<not> MirIsBoolType m (hd ots) \<and> known (hd ots))
        (in_function c ''logical unary requires bool operand'') @
      report_if (op = ''&'' \<and> ty_kind t = Ty_kPointer \<and> ty_subtypes t \<noteq> [] \<and> one \<and>
          \<not> IsAssignableType m (hd (ty_subtypes t)) (hd ots))
        (in_function c ''address-of unary result type mismatch'') @
      report_if (op = ''&'' \<and> known t \<and> ty_kind t \<noteq> Ty_kPointer) (in_function c ''address-of unary must produce pointer type'') @
      report_if (op = ''*'' \<and> one \<and> known deref_operand \<and> ty_kind deref_operand \<noteq> Ty_kPointer)
        (in_function c ''pointer dereference requires pointer operand'') @
      report_if (op = ''*'' \<and> one \<and> ty_kind deref_operand = Ty_kPointer \<and> ty_subtypes deref_operand \<noteq> [] \<and>
          \<not> type_eq t (hd (ty_subtypes deref_operand)))
        (in_function c ''pointer dereference result type mismatch'') @
      (if op = ''-'' \<and> one then
         report_if (known (hd ots) \<and> \<not> MirIsNumericType m (hd ots)) (in_function c ''numeric unary requires numeric operand'') @
         report_if (known t \<and> \<not> MirIsNumericType m t) (in_function c ''numeric unary must produce numeric type'')
       else []) @
      report_if (op \<notin> {''!'', ''&'', ''*'', ''-''}) (in_function_of c ''unary uses unsupported opcode'' ('': '' @ op)))"

definition check_bounds_check :: "Instruction \<Rightarrow> ValidationContext \<Rightarrow> mir_reports" where
  "check_bounds_check i c =
     (let n = length (in_operands i);
          types = each_operand c (MirIsUsizeCompatibleType (vc_module c)) ''bounds_check operands must be usize-compatible'' in
      report_if (in_result i \<noteq> []) (in_function c ''bounds_check must not produce a result'') @
      (if in_op i = ''index'' then
         or_stop (n \<noteq> 2) (in_function c ''bounds_check index must use index and length operands'') types
       else if in_op i = ''slice'' then
         or_stop (n \<noteq> 2 \<and> n \<noteq> 3)
           (in_function c ''bounds_check slice must use bound/length or start/end/length operands'') types
       else [in_function c ''bounds_check must record index or slice mode'']))"

definition check_div_check :: "Instruction \<Rightarrow> ValidationContext \<Rightarrow> mir_reports" where
  "check_div_check i c =
     report_if (in_result i \<noteq> []) (in_function c ''div_check must not produce a result'') @
     report_if (in_op i \<noteq> ''/'' \<and> in_op i \<noteq> ''%'')
       (in_function c (''div_check must record '' @ [apostrophe_char] @ ''/'' @ [apostrophe_char] @ '' or '' @
          [apostrophe_char] @ ''%'' @ [apostrophe_char] @ '' mode'')) @
     or_stop (length (in_operands i) \<noteq> 2) (in_function c ''div_check must use dividend and divisor operands'')
       (each_operand c (MirIsNumericType (vc_module c)) ''div_check operands must be numeric'')"

definition check_shift_check :: "Instruction \<Rightarrow> ValidationContext \<Rightarrow> mir_reports" where
  "check_shift_check i c =
     (let m = vc_module c; ots = vc_operand_types c in
      report_if (in_result i \<noteq> []) (in_function c ''shift_check must not produce a result'') @
      report_if (in_op i \<noteq> ''<<'' \<and> in_op i \<noteq> ''>>'')
        (in_function c (''shift_check must record '' @ [apostrophe_char] @ ''<<'' @ [apostrophe_char] @ '' or '' @
           [apostrophe_char] @ ''>>'' @ [apostrophe_char] @ '' mode'')) @
      or_stop (length (in_operands i) \<noteq> 2) (in_function c ''shift_check must use value and count operands'')
       (if length ots = 2 then
          report_if (known (hd ots) \<and> \<not> MirIsIntegerLikeType m (hd ots))
            (in_function c ''shift_check value operand must be integer-typed'') @
          report_if (known (last ots) \<and> \<not> MirIsIntegerLikeType m (last ots))
            (in_function c ''shift_check count operand must be integer-typed'')
        else []))"

section \<open>Conversions\<close>

definition target_display :: "Instruction \<Rightarrow> ValidationContext \<Rightarrow> string \<Rightarrow> mir_reports" where
  "target_display i c what =
     report_when (if known (in_type i) then map_option Not (MatchesTargetDisplay (in_target i) (in_type i)) else Some False)
       (in_function c what)"

definition check_convert :: "Instruction \<Rightarrow> ValidationContext \<Rightarrow> mir_reports" where
  "check_convert i c =
     (let m = vc_module c; ots = vc_operand_types c; one = (length ots = 1) in
      report_if (in_result i = []) (in_function c ''convert must produce a result'') @
      report_if (length (in_operands i) \<noteq> 1) (in_function c ''convert must use exactly one operand'') @
      report_if (in_target i = []) (in_function c ''convert must name a target type'') @
      target_display i c ''convert target metadata must match result type'' @
      report_if (one \<and> ClassifyMirConversion m (hd ots) (in_type i) \<noteq> EC_kGeneric)
        (in_function c ''convert must use a dedicated conversion opcode when one exists'') @
      report_when (if one then map_option Not (HasSameMirRepresentation (vc_fuel c) m (hd ots) (in_type i)) else Some False)
        (in_function c ''convert requires representation-preserving source and target types''))"

definition dedicated_conversion ::
  "Instruction \<Rightarrow> ValidationContext \<Rightarrow> string \<Rightarrow> ExplicitConversionKind \<Rightarrow> string \<Rightarrow> (Type \<Rightarrow> mir_reports) \<Rightarrow> mir_reports" where
  \<comment> \<open>What the other conversions have in common: \<open>name\<close> and kind, the \<open>family\<close> in the message, and the last check of
    the type of the operand.\<close>
  "dedicated_conversion i c name kind family check =
     (let ots = vc_operand_types c; one = (length ots = 1) in
      report_if (in_result i = []) (in_function c (name @ '' must produce a result'')) @
      or_stop (length (in_operands i) \<noteq> 1) (in_function c (name @ '' must use exactly one operand''))
       ((if in_target i = [] then [in_function c (name @ '' must name a target type'')]
         else target_display i c (name @ '' target metadata must match result type'')) @
        report_if (one \<and> ClassifyMirConversion (vc_module c) (hd ots) (in_type i) \<noteq> kind)
          (in_function c (name @ '' must encode '' @ family @ '' conversion family'')) @
        (if one then check (hd ots) else [])))"

definition check_convert_numeric :: "Instruction \<Rightarrow> ValidationContext \<Rightarrow> mir_reports" where
  "check_convert_numeric i c =
     dedicated_conversion i c ''convert_numeric'' EC_kNumeric ''a numeric'' (\<lambda>t.
       report_if (\<not> MirIsNumericType (vc_module c) t \<or> \<not> MirIsNumericType (vc_module c) (in_type i))
         (in_function c ''convert_numeric requires numeric source and target types''))"

definition check_convert_distinct :: "Instruction \<Rightarrow> ValidationContext \<Rightarrow> mir_reports" where
  "check_convert_distinct i c =
     dedicated_conversion i c ''convert_distinct'' EC_kDistinct ''a distinct or alias'' (\<lambda>t.
       let stripped_source = StripMirAliasOrDistinct (vc_module c) t;
           stripped_target = StripMirAliasOrDistinct (vc_module c) (in_type i) in
       report_if (\<not> type_eq stripped_source stripped_target \<or>
           (type_eq stripped_source t \<and> type_eq stripped_target (in_type i)))
         (in_function c ''convert_distinct requires representation-preserving distinct or alias conversion''))"

definition check_pointer_to_int :: "Instruction \<Rightarrow> ValidationContext \<Rightarrow> mir_reports" where
  "check_pointer_to_int i c =
     dedicated_conversion i c ''pointer_to_int'' EC_kPointerToInt ''a pointer-to-uintptr'' (\<lambda>t.
       report_if (\<not> MirIsUintPtrConvertibleType (vc_module c) t \<or> \<not> MirIsUintPtrType (vc_module c) (in_type i))
         (in_function c ''pointer_to_int requires pointer source and uintptr target''))"

definition check_int_to_pointer :: "Instruction \<Rightarrow> ValidationContext \<Rightarrow> mir_reports" where
  "check_int_to_pointer i c =
     dedicated_conversion i c ''int_to_pointer'' EC_kIntToPointer ''a uintptr-to-pointer'' (\<lambda>t.
       report_if (\<not> MirIsUintPtrType (vc_module c) t \<or> \<not> MirIsUintPtrConvertibleType (vc_module c) (in_type i))
         (in_function c ''int_to_pointer requires uintptr source and pointer target''))"

definition slice_element :: "Instruction \<Rightarrow> ValidationContext \<Rightarrow> Type \<Rightarrow> string \<Rightarrow> mir_reports" where
  "slice_element i c source what =
     report_if (ty_subtypes source \<noteq> [] \<and> ty_subtypes (in_type i) \<noteq> [] \<and>
         \<not> IsAssignableType (vc_module c) (hd (ty_subtypes (in_type i))) (hd (ty_subtypes source)))
       (in_function c what)"

definition check_array_to_slice :: "Instruction \<Rightarrow> ValidationContext \<Rightarrow> mir_reports" where
  "check_array_to_slice i c =
     dedicated_conversion i c ''array_to_slice'' EC_kArrayToSlice ''an array-to-slice'' (\<lambda>t.
       or_stop (ty_kind t \<noteq> Ty_kArray \<or> ty_kind (in_type i) \<noteq> Ty_kNamed \<or> ty_name (in_type i) \<noteq> ''Slice'')
         (in_function c ''array_to_slice requires array source and Slice target'')
         (slice_element i c t ''array_to_slice element type mismatch''))"

definition check_buffer_to_slice :: "Instruction \<Rightarrow> ValidationContext \<Rightarrow> mir_reports" where
  "check_buffer_to_slice i c =
     dedicated_conversion i c ''buffer_to_slice'' EC_kBufferToSlice ''a buffer-to-slice'' (\<lambda>t.
       or_stop (ty_kind t \<noteq> Ty_kNamed \<or> \<not> IsNamedTypeFamily t ''Buffer'' \<or> ty_kind (in_type i) \<noteq> Ty_kNamed \<or>
           \<not> IsNamedTypeFamily (in_type i) ''Slice'')
         (in_function c ''buffer_to_slice requires Buffer source and Slice target'')
         (slice_element i c t ''buffer_to_slice element type mismatch''))"

section \<open>Memory\<close>

definition pointee_or_unknown :: "Type \<Rightarrow> Type" where
  "pointee_or_unknown t = (case PointerPointeeType t of None \<Rightarrow> UnknownType | Some p \<Rightarrow> p)"

definition is_buffer_pointer :: "Type \<Rightarrow> bool" where
  "is_buffer_pointer t \<longleftrightarrow> ty_kind t = Ty_kPointer \<and> ty_kind (pointee_or_unknown t) = Ty_kNamed \<and>
     IsNamedTypeFamily (pointee_or_unknown t) ''Buffer''"

definition check_buffer_new :: "Instruction \<Rightarrow> ValidationContext \<Rightarrow> mir_reports" where
  "check_buffer_new i c =
     (let m = vc_module c; ots = vc_operand_types c in
      report_if (in_result i = []) (in_function c ''buffer_new must produce a result'') @
      or_stop (length (in_operands i) \<noteq> 2) (in_function c ''buffer_new must use allocator and capacity operands'')
       (report_if (\<not> is_buffer_pointer (in_type i)) (in_function c ''buffer_new must produce *Buffer<T>'') @
        (if length ots = 2 then
           report_if (case PointerPointeeType (StripMirAliasOrDistinct m (ots ! 0)) of
                None \<Rightarrow> True | Some p \<Rightarrow> \<not> IsNamedTypeFamily p ''Allocator'')
             (in_function c ''buffer_new allocator operand must be *Allocator'') @
           report_if (\<not> MirIsIntegerLikeType m (ots ! 1)) (in_function c ''buffer_new capacity operand must be an integer type'')
         else [])))"

definition check_buffer_free :: "Instruction \<Rightarrow> ValidationContext \<Rightarrow> mir_reports" where
  "check_buffer_free i c =
     (let ots = vc_operand_types c in
      report_if (in_result i \<noteq> []) (in_function c ''buffer_free must not produce a result'') @
      or_stop (length (in_operands i) \<noteq> 1) (in_function c ''buffer_free must use exactly one operand'')
       (report_if (length ots = 1 \<and> \<not> is_buffer_pointer (hd ots)) (in_function c ''buffer_free requires *Buffer<T> operand'')))"

definition check_arena_new :: "Instruction \<Rightarrow> ValidationContext \<Rightarrow> mir_reports" where
  "check_arena_new i c =
     (let ots = vc_operand_types c in
      report_if (in_result i = []) (in_function c ''arena_new must produce a result'') @
      or_stop (length (in_operands i) \<noteq> 1) (in_function c ''arena_new must use exactly one arena operand'')
       (report_if (ty_kind (in_type i) \<noteq> Ty_kPointer \<or> IsUnknown (pointee_or_unknown (in_type i)))
          (in_function c ''arena_new must produce *T'') @
        report_if (length ots = 1 \<and>
            \<not> (ty_kind (hd ots) = Ty_kNamed \<and> IsNamedTypeFamily (hd ots) ''Arena'') \<and>
            \<not> (case PointerPointeeType (StripMirAliasOrDistinct (vc_module c) (hd ots)) of
                 None \<Rightarrow> False | Some p \<Rightarrow> ty_kind p = Ty_kNamed \<and> ty_name p = ''u8''))
          (in_function c ''arena_new requires Arena operand'')))"

definition check_volatile_load :: "Instruction \<Rightarrow> ValidationContext \<Rightarrow> mir_reports" where
  "check_volatile_load i c =
     (let m = vc_module c; ots = vc_operand_types c in
      report_if (ClassifySpecialCall (PrimaryTargetName i) \<noteq> SC_kVolatileLoad)
        (in_function c ''volatile_load must use volatile_load call metadata'') @
      report_if (in_result i = []) (in_function c ''volatile_load must produce a result'') @
      or_stop (length (in_operands i) \<noteq> 1) (in_function c ''volatile_load must use exactly one pointer operand'')
       (if length ots = 1 then
          (case PointerPointeeType (StripMirAliasOrDistinct m (hd ots)) of
             None \<Rightarrow> report_if (known (hd ots)) (in_function c ''volatile_load requires pointer operand'')
           | Some pointee \<Rightarrow>
               report_if (\<not> IsAssignableType m (in_type i) pointee) (in_function c ''volatile_load result type mismatch''))
        else []))"

definition check_memory_barrier :: "Instruction \<Rightarrow> ValidationContext \<Rightarrow> mir_reports" where
  "check_memory_barrier i c =
     report_if (ClassifySpecialCall (PrimaryTargetName i) \<noteq> SC_kMemoryBarrier)
       (in_function c ''memory_barrier must use memory_barrier call metadata'') @
     report_if (in_result i \<noteq> []) (in_function c ''memory_barrier must not produce a result'') @
     report_if (in_operands i \<noteq> []) (in_function c ''memory_barrier must not use operands'')"

definition check_volatile_store :: "Instruction \<Rightarrow> ValidationContext \<Rightarrow> mir_reports" where
  "check_volatile_store i c =
     (let m = vc_module c; ots = vc_operand_types c in
      report_if (ClassifySpecialCall (PrimaryTargetName i) \<noteq> SC_kVolatileStore)
        (in_function c ''volatile_store must use volatile_store call metadata'') @
      report_if (in_result i \<noteq> []) (in_function c ''volatile_store must not produce a result'') @
      or_stop (length (in_operands i) \<noteq> 2) (in_function c ''volatile_store must use pointer and value operands'')
       (if length ots = 2 then
          (case PointerPointeeType (StripMirAliasOrDistinct m (hd ots)) of
             None \<Rightarrow> report_if (known (hd ots)) (in_function c ''volatile_store requires pointer operand'')
           | Some pointee \<Rightarrow>
               report_if (\<not> IsAssignableType m pointee (ots ! 1)) (in_function c ''volatile_store value type mismatch''))
        else []))"

section \<open>Calls\<close>

definition call_arguments :: "Instruction \<Rightarrow> ValidationContext \<Rightarrow> Type \<Rightarrow> nat \<Rightarrow> mir_reports" where
  \<comment> \<open>The loop over the arguments. The parameter types are read without a test that there are as many.\<close>
  "call_arguments i c callee_type param_count =
     (let ots = vc_operand_types c; params = ty_subtypes callee_type in
      concat (map (\<lambda>index.
          if length params \<le> index then [None]
          else report_if (\<not> IsAssignableType (vc_module c) (params ! index) (ots ! (index + 1)))
            (expected_got c ''call argument type mismatch'' [] [] (params ! index) (ots ! (index + 1))))
        [0..<min param_count (length ots - 1)]))"

definition call_signature :: "Instruction \<Rightarrow> ValidationContext \<Rightarrow> Type \<Rightarrow> mir_reports" where
  "call_signature i c callee_type =
     (case (ProcedureParamCount callee_type, ProcedureResultType callee_type) of
        (Some param_count, Some result_type) \<Rightarrow>
          report_if (length (in_operands i) - 1 \<noteq> param_count)
            (in_function_of c ''call argument count mismatch'' ('': expected '' @ string_of_nat param_count @ '', got '' @
               string_of_nat (length (in_operands i) - 1))) @
          call_arguments i c callee_type param_count @
          report_if (\<not> AreEquivalentTypes (vc_module c) (in_type i) result_type)
            (expected_got c ''call result type mismatch'' [] [] result_type (in_type i))
      | _ \<Rightarrow> [None])"

definition check_call :: "Instruction \<Rightarrow> ValidationContext \<Rightarrow> mir_reports" where
  "check_call i c =
     (let callee_type = hd (vc_operand_types c); name = PrimaryTargetName i; direct = (in_target_kind i = TK_kFunction) in
      or_stop (in_operands i = []) (in_function c ''call must include a callee operand'')
       (report_if (name \<noteq> [] \<and> IsDedicatedCallSurface name)
          (in_function c ''call must use a dedicated semantic-boundary opcode when one exists'') @
        report_if (direct \<and> in_target_name i = []) (in_function c ''call must record target_name metadata for direct function calls'') @
        or_stop (known callee_type \<and> ty_kind callee_type \<noteq> Ty_kProcedure) (in_function c ''call callee must have procedure type'')
         ((if direct \<and> in_target_name i \<noteq> [] \<and> known callee_type then
             (case FindMirFunction (vc_module c) (in_target_name i) of
                None \<Rightarrow> []
              | Some direct_callee \<Rightarrow>
                  report_when (map_option Not (MatchesGenericFunctionType (vc_fuel c) (vc_module c) direct_callee callee_type))
                    (in_function_of c ''call target metadata type mismatch'' ('' for '' @ mf_name direct_callee)))
           else []) @
          (if ty_kind callee_type = Ty_kProcedure then call_signature i c callee_type else []))))"

section \<open>Members and elements\<close>

definition base_of :: "Instruction \<Rightarrow> Type \<Rightarrow> Type" where
  \<comment> \<open>The type of the base: what is recorded, or that of the operand.\<close>
  "base_of i operand_type = (if known (in_target_base_type i) then in_target_base_type i else operand_type)"

definition base_mismatch :: "Instruction \<Rightarrow> Type \<Rightarrow> bool" where
  "base_mismatch i operand_type \<longleftrightarrow>
     known (in_target_base_type i) \<and> known operand_type \<and> \<not> type_eq (in_target_base_type i) operand_type"

definition declared_member :: "Instruction \<Rightarrow> ValidationContext \<Rightarrow> Type \<Rightarrow> string \<Rightarrow> mir_reports" where
  \<comment> \<open>The part of \<open>field\<close> for members that are not built in.\<close>
  "declared_member i c base_type field_name =
     (let mismatch = in_function_of c ''field result type mismatch'' ('' for '' @ field_name);
          aggregate = in_function c ''field requires named aggregate base'' in
      if ty_kind base_type = Ty_kNamed then
        (case FindMirTypeDecl (vc_module c) (ty_name base_type) of
           None \<Rightarrow> report_if (MirIsBuiltinNamedNonAggregate (vc_module c) base_type) aggregate
         | Some type_decl \<Rightarrow>
             (case map_of (InstantiateMirFields type_decl base_type) field_name of
                Some t \<Rightarrow> report_if (\<not> type_eq (in_type i) t) mismatch
              | None \<Rightarrow>
                  if field_name \<in> vd_name ` set (mt_variants type_decl)
                  then report_if (\<not> type_eq (in_type i) base_type) mismatch
                  else [in_function_of c ''field references unknown member'' ('': '' @ field_name)]))
      else report_if (known base_type) aggregate)"

definition check_field :: "Instruction \<Rightarrow> ValidationContext \<Rightarrow> mir_reports" where
  "check_field i c =
     (let field_name = PrimaryTargetName i; operand_base_type = hd (vc_operand_types c);
          base_type = base_of i operand_base_type; builtin_fields = BuiltinAggregateFields base_type in
      report_if (in_result i = []) (in_function c ''field must produce a result'') @
      or_stop (length (in_operands i) \<noteq> 1) (in_function c ''field must use exactly one base operand'')
       (or_stop (field_name = []) (in_function c ''field must name a member target'')
         (report_if (in_target_kind i \<notin> {TK_kNone, TK_kField, TK_kDerefField})
            (in_function c ''field must use field or deref_field target metadata'') @
          report_if (base_mismatch i operand_base_type) (in_function c ''field target base metadata mismatch'') @
          (case map_of builtin_fields field_name of
             Some t \<Rightarrow>
               report_if (\<not> type_eq (in_type i) t) (in_function_of c ''field result type mismatch'' ('' for '' @ field_name))
           | None \<Rightarrow>
               report_if (builtin_fields \<noteq> [] \<and> ty_kind base_type \<noteq> Ty_kNamed)
                 (in_function_of c ''field references unknown member'' ('': '' @ field_name)) @
               declared_member i c base_type field_name))))"

definition index_metadata :: "Instruction \<Rightarrow> ValidationContext \<Rightarrow> Type \<Rightarrow> mir_reports \<times> Type" where
  \<comment> \<open>The reports on the recorded type of the index, and the type that counts.\<close>
  "index_metadata i c operand_type =
     (case in_target_aux_types i of
        [] \<Rightarrow> ([], operand_type)
      | [t] \<Rightarrow> (report_if (known operand_type \<and> \<not> type_eq t operand_type)
          (in_function c ''index target metadata type mismatch''), t)
      | _ \<Rightarrow> ([in_function c ''index target metadata must carry exactly one index type''], operand_type))"

definition check_index :: "Instruction \<Rightarrow> ValidationContext \<Rightarrow> mir_reports" where
  "check_index i c =
     (let ots = vc_operand_types c; base_type = base_of i (hd ots); expected_type = indexed_element_type base_type;
          (metadata, index_type) = index_metadata i c (ots ! 1) in
      report_if (in_result i = []) (in_function c ''index must produce a result'') @
      or_stop (length (in_operands i) \<noteq> 2) (in_function c ''index must use base and index operands'')
       (report_if (base_mismatch i (hd ots)) (in_function c ''index target base metadata mismatch'') @
        metadata @
        report_if (IsUnknown expected_type \<and> known base_type) (in_function c ''index requires array, slice, or buffer base'') @
        report_if (known expected_type \<and> \<not> type_eq (in_type i) expected_type)
          (expected_got c ''index result type mismatch'' [] [] expected_type (in_type i)) @
        report_if (known index_type \<and> \<not> IsUsizeCompatibleType index_type) (in_function c ''index operand must be usize-compatible'')))"

definition sliced_type :: "Type \<Rightarrow> Type" where
  "sliced_type base =
     (if ty_kind base = Ty_kString then StringType
      else if ty_kind base = Ty_kNamed \<and> IsNamedTypeFamily base ''Buffer'' then mk_Type Ty_kNamed ''Slice'' [] (ty_subtypes base)
      else if ty_kind base = Ty_kNamed \<and> IsNamedTypeFamily base ''Slice'' then base
      else if ty_kind base = Ty_kArray \<and> ty_subtypes base \<noteq> [] then mk_Type Ty_kNamed ''Slice'' [] [hd (ty_subtypes base)]
      else UnknownType)"

definition slice_bound :: "Instruction \<Rightarrow> ValidationContext \<Rightarrow> nat \<Rightarrow> mir_reports" where
  \<comment> \<open>The operand \<open>index + 1\<close>.\<close>
  "slice_bound i c index =
     (let t = vc_operand_types c ! (index + 1); aux = in_target_aux_types i; recorded = (index < length aux);
          bound_type = (if recorded then aux ! index else t) in
      report_if (recorded \<and> known t \<and> \<not> type_eq (aux ! index) t) (in_function c ''slice target metadata type mismatch'') @
      report_if (known bound_type \<and> \<not> IsUsizeCompatibleType bound_type) (in_function c ''slice bounds must be usize-compatible''))"

definition check_slice :: "Instruction \<Rightarrow> ValidationContext \<Rightarrow> mir_reports" where
  "check_slice i c =
     (let ots = vc_operand_types c; base_type = base_of i (hd ots); expected_type = sliced_type base_type; aux = in_target_aux_types i in
      report_if (in_result i = []) (in_function c ''slice must produce a result'') @
      or_stop (in_operands i = [] \<or> 3 < length (in_operands i)) (in_function c ''slice must use one to three operands'')
       (report_if (base_mismatch i (hd ots)) (in_function c ''slice target base metadata mismatch'') @
        report_if (IsUnknown expected_type \<and> known base_type)
          (in_function c ''slice requires array, slice, buffer, or string base'') @
        report_if (known expected_type \<and> \<not> type_eq (in_type i) expected_type)
          (expected_got c ''slice result type mismatch'' [] [] expected_type (in_type i)) @
        report_if (aux \<noteq> [] \<and> length aux \<noteq> length ots - 1) (in_function c ''slice target metadata must track each bound type'') @
        concat (map (slice_bound i c) [0..<length ots - 1])))"

section \<open>Aggregates and variants\<close>

definition initialized_type ::
  "Instruction \<Rightarrow> ValidationContext \<Rightarrow> MirTypeDecl option \<Rightarrow> string set \<Rightarrow> nat \<Rightarrow> string \<Rightarrow> string option + Type" where
  \<comment> \<open>What the element \<open>index\<close> with the given name must have for a type, or the report; \<open>seen\<close> are the names before it.\<close>
  "initialized_type i c type_decl seen index field_name =
     (let t = in_type i;
          members = (case type_decl of Some d \<Rightarrow> InstantiateMirFields d t | None \<Rightarrow> BuiltinAggregateFields t) in
      if ty_kind t = Ty_kArray then
        (if field_name \<noteq> ''_'' then Inl (in_function c ''aggregate_init array elements must be positional'')
         else case ParseArrayLength (ty_metadata t) of
             None \<Rightarrow> Inl (in_function c ''aggregate_init array type must have a fixed length'')
           | Some array_length \<Rightarrow>
               if unat array_length \<le> index then Inl (in_function c ''aggregate_init has too many positional fields'')
               else if ty_subtypes t = [] then Inl (in_function c ''aggregate_init array type must have an element type'')
               else Inr (hd (ty_subtypes t)))
      else if field_name = ''_'' then
        (if length members \<le> index then Inl (in_function c ''aggregate_init has too many positional fields'')
         else Inr (snd (members ! index)))
      else if field_name \<in> seen then Inl (in_function_of c ''aggregate_init has duplicate named field'' ('': '' @ field_name))
      else case map_of members field_name of
          Some member_type \<Rightarrow>
            if IsUnknown member_type then Inl (in_function_of c ''aggregate_init field is unknown'' ('': '' @ field_name))
            else Inr member_type
        | None \<Rightarrow> Inl (in_function_of c ''aggregate_init field is unknown'' ('': '' @ field_name)))"

fun initialized_fields ::
  "Instruction \<Rightarrow> ValidationContext \<Rightarrow> MirTypeDecl option \<Rightarrow> string set \<Rightarrow> nat \<Rightarrow> (string \<times> Type) list \<Rightarrow> mir_reports" where
  \<comment> \<open>The loop over the names and the types of the operands.\<close>
  "initialized_fields i c type_decl seen index [] = []"
| "initialized_fields i c type_decl seen index ((field_name, operand_type) # rest) =
     (case initialized_type i c type_decl seen index field_name of
        Inl message \<Rightarrow> [message]
      | Inr expected_type \<Rightarrow>
          report_if (\<not> IsAssignableType (vc_module c) expected_type operand_type)
            (expected_got c ''aggregate_init field type mismatch'' ('' for '' @ field_name) [] expected_type operand_type)) @
     initialized_fields i c type_decl
       (if ty_kind (in_type i) = Ty_kArray \<or> field_name = ''_'' then seen else insert field_name seen) (index + 1) rest"

definition check_aggregate_init :: "Instruction \<Rightarrow> ValidationContext \<Rightarrow> mir_reports" where
  "check_aggregate_init i c =
     (let t = in_type i; builtin_fields = BuiltinAggregateFields t; is_array = (ty_kind t = Ty_kArray);
          type_decl = FindMirTypeDecl (vc_module c) (ty_name t) in
      report_if (in_result i = []) (in_function c ''aggregate_init must produce a result'') @
      report_if (length (in_field_names i) \<noteq> length (in_operands i)) (in_function c ''aggregate_init field metadata mismatch'') @
      (if ty_kind t \<noteq> Ty_kNamed \<and> builtin_fields = [] \<and> \<not> is_array then
         report_if (known t) (in_function c ''aggregate_init must produce a named aggregate type'')
       else
         or_stop (type_decl = None \<and> builtin_fields = [] \<and> \<not> is_array)
           (in_function_of c ''aggregate_init references unknown type'' ('': '' @ ty_name t))
           (report_when (if in_target i \<noteq> [] then map_option Not (MatchesTargetDisplay (in_target i) t) else Some False)
              (in_function c ''aggregate_init target metadata must match result type'') @
            initialized_fields i c type_decl {} 0 (zip (in_field_names i) (vc_operand_types c)) @
            (case ParseArrayLength (ty_metadata t) of
               Some array_length \<Rightarrow>
                 report_if (is_array \<and> length (in_operands i) \<noteq> unat array_length)
                   (in_function_of c ''aggregate_init array element count mismatch''
                     ('': expected '' @ string_of_nat (unat array_length) @ '', got '' @ string_of_nat (length (in_operands i))))
             | None \<Rightarrow> []))))"

definition check_variant_init :: "Instruction \<Rightarrow> ValidationContext \<Rightarrow> mir_reports" where
  "check_variant_init i c =
     (let m = vc_module c; t = in_type i; variant_name = PrimaryTargetName i; ots = vc_operand_types c in
      report_if (in_result i = []) (in_function c ''variant_init must produce a result'') @
      report_if (variant_name = []) (in_function c ''variant_init must name a target variant'') @
      or_stop (ty_kind t \<noteq> Ty_kNamed) (in_function c ''variant_init must produce a named enum type'')
       (report_if (known (in_target_base_type i) \<and> \<not> type_eq (in_target_base_type i) t)
          (in_function c ''variant_init target metadata must match result type'') @
        (case FindMirTypeDecl m (ty_name t) of
           None \<Rightarrow> [in_function_of c ''variant_init references unknown type'' ('': '' @ ty_name t)]
         | Some type_decl \<Rightarrow>
             or_stop (mt_kind type_decl \<noteq> MD_kEnum) (in_function c ''variant_init requires enum result type'')
              (case InstantiateMirVariantDecl type_decl t variant_name of
                 None \<Rightarrow> [in_function_of c ''variant_init references unknown variant'' ('': '' @ variant_name)]
               | Some variant_decl \<Rightarrow>
                   let variant_index = nat (sint (in_target_index i)); payload = vd_payload_fields variant_decl in
                   report_if (0 \<le> sint (in_target_index i) \<and>
                       (length (mt_variants type_decl) \<le> variant_index \<or>
                        vd_name (mt_variants type_decl ! variant_index) \<noteq> vd_name variant_decl))
                     (in_function c ''variant_init variant metadata mismatch'') @
                   or_stop (length (in_operands i) \<noteq> length payload) (in_function c ''variant_init operand count mismatch'')
                     (concat (map (\<lambda>((_, expected), actual).
                         report_if (\<not> IsAssignableType m expected actual)
                           (expected_got c ''variant_init operand type mismatch'' ('' for '' @ vd_name variant_decl) [] expected actual))
                       (zip payload ots)))))))"

definition selector_type_of :: "Instruction \<Rightarrow> ValidationContext \<Rightarrow> Type" where
  "selector_type_of i c =
     (if known (in_target_base_type i) then in_target_base_type i
      else case vc_operand_types c of [] \<Rightarrow> UnknownType | t # _ \<Rightarrow> t)"

definition selector_mismatch :: "Instruction \<Rightarrow> ValidationContext \<Rightarrow> bool" where
  "selector_mismatch i c \<longleftrightarrow> length (vc_operand_types c) = 1 \<and> base_mismatch i (hd (vc_operand_types c))"

definition check_variant_match :: "Instruction \<Rightarrow> ValidationContext \<Rightarrow> mir_reports" where
  "check_variant_match i c =
     (let variant_name = PrimaryTargetName i; selector_type = selector_type_of i c in
      report_if (in_result i = []) (in_function c ''variant_match must produce a result'') @
      report_if (length (in_operands i) \<noteq> 1) (in_function c ''variant_match must use exactly one selector operand'') @
      report_if (variant_name = []) (in_function c ''variant_match must name a target variant'') @
      report_if (\<not> type_eq (in_type i) BoolType) (in_function c ''variant_match must produce bool'') @
      report_if (selector_mismatch i c) (in_function c ''variant_match selector metadata mismatch'') @
      (if ty_kind selector_type \<noteq> Ty_kNamed then []
       else case FindMirTypeDecl (vc_module c) (ty_name selector_type) of
           None \<Rightarrow> [in_function_of c ''variant_match selector type is unknown'' ('': '' @ ty_name selector_type)]
         | Some type_decl \<Rightarrow>
             or_stop (mt_kind type_decl \<noteq> MD_kEnum) (in_function c ''variant_match requires enum selector type'')
               (report_if (FindMirVariantDecl type_decl variant_name = None)
                 (in_function_of c ''variant_match references unknown variant'' ('': '' @ variant_name)))))"

definition stoul :: "string \<Rightarrow> size64 option" where
  \<comment> \<open>\<open>std::stoul\<close>: blanks and a sign may come first, what follows the digits is ignored, and a number that does not fit
    is an exception as one without digits is.\<close>
  "stoul text =
     (let t = dropWhile is_space_char text;
          negative = (t \<noteq> [] \<and> hd t = CHR ''-'');
          digits = takeWhile is_digit_char (if t \<noteq> [] \<and> hd t \<in> {CHR ''-'', CHR ''+''} then tl t else t);
          v = decimal_value digits in
      if digits = [] \<or> 2 ^ 64 \<le> v then None
      else Some (if negative then - of_nat v else of_nat v))"

definition payload_index_of :: "Instruction \<Rightarrow> ValidationContext \<Rightarrow> mir_reports \<times> nat option" where
  \<comment> \<open>The reports on the index and \<open>payload_index\<close>, \<open>None\<close> unless \<open>payload_index_ok\<close>.\<close>
  "payload_index_of i c =
     (let recorded = (if 0 \<le> sint (in_target_index i) then Some (nat (sint (in_target_index i))) else None) in
      if in_op i = [] then ([], recorded)
      else case stoul (in_op i) of
          None \<Rightarrow> ([in_function c ''variant_extract payload index must be numeric''], recorded)
        | Some encoded \<Rightarrow>
            (report_if (recorded \<noteq> None \<and> recorded \<noteq> Some (unat encoded))
               (in_function c ''variant_extract payload metadata mismatch''), Some (unat encoded)))"

definition check_variant_extract :: "Instruction \<Rightarrow> ValidationContext \<Rightarrow> mir_reports" where
  "check_variant_extract i c =
     (let variant_name = PrimaryTargetName i; selector_type = selector_type_of i c;
          (payload_reports, payload_index) = payload_index_of i c in
      report_if (in_result i = []) (in_function c ''variant_extract must produce a result'') @
      report_if (length (in_operands i) \<noteq> 1) (in_function c ''variant_extract must use exactly one selector operand'') @
      report_if (variant_name = []) (in_function c ''variant_extract must name a target variant'') @
      report_if (in_op i = [] \<and> sint (in_target_index i) < 0) (in_function c ''variant_extract must record a payload index'') @
      payload_reports @
      report_if (selector_mismatch i c) (in_function c ''variant_extract selector metadata mismatch'') @
      (if ty_kind selector_type \<noteq> Ty_kNamed then []
       else case FindMirTypeDecl (vc_module c) (ty_name selector_type) of
           None \<Rightarrow> [in_function_of c ''variant_extract selector type is unknown'' ('': '' @ ty_name selector_type)]
         | Some type_decl \<Rightarrow>
             or_stop (mt_kind type_decl \<noteq> MD_kEnum) (in_function c ''variant_extract requires enum selector type'')
              (case InstantiateMirVariantDecl type_decl selector_type variant_name of
                 None \<Rightarrow> [in_function_of c ''variant_extract references unknown variant'' ('': '' @ variant_name)]
               | Some variant_decl \<Rightarrow>
                   (case payload_index of
                      None \<Rightarrow> []
                    | Some n \<Rightarrow>
                        or_stop (length (vd_payload_fields variant_decl) \<le> n)
                          (in_function_of c ''variant_extract payload index out of range'' ('' for '' @ variant_name))
                          (report_if (\<not> type_eq (in_type i) (snd (vd_payload_fields variant_decl ! n)))
                            (expected_got c ''variant_extract result type mismatch'' ('' for '' @ variant_name) []
                              (snd (vd_payload_fields variant_decl ! n)) (in_type i)))))))"

section \<open>Constants and symbols\<close>

definition check_const :: "Instruction \<Rightarrow> ValidationContext \<Rightarrow> mir_reports" where
  "check_const i c =
     report_if (in_result i = []) (in_function c ''const must produce a result'') @
     report_if (in_operands i \<noteq> []) (in_function c ''const must not take operands'') @
     report_if (in_op i = []) (in_function c ''const must record literal payload text'')"

definition symbol_function :: "Instruction \<Rightarrow> ValidationContext \<Rightarrow> mir_reports" where
  "symbol_function i c =
     (case FindMirFunction (vc_module c) (PrimaryTargetName i) of
        None \<Rightarrow> []
      | Some callee \<Rightarrow>
          report_when (map_option Not (MatchesGenericFunctionType (vc_fuel c) (vc_module c) callee (in_type i)))
            (do { expected \<leftarrow> FunctionProcedureType callee;
                  expected_got c ''symbol_ref function type mismatch'' ('' for '' @ mf_name callee) [] expected (in_type i) }))"

definition symbol_global :: "Instruction \<Rightarrow> ValidationContext \<Rightarrow> mir_reports" where
  "symbol_global i c =
     (case FindMirGlobalDecl (vc_module c) (PrimaryTargetName i) of
        None \<Rightarrow> []
      | Some g \<Rightarrow>
          report_if (\<not> type_eq (in_type i) (gd_type g))
            (expected_got c ''symbol_ref global type mismatch'' ('' for '' @ PrimaryTargetName i) [] (gd_type g) (in_type i)))"

definition check_symbol_ref :: "Instruction \<Rightarrow> ValidationContext \<Rightarrow> mir_reports" where
  "check_symbol_ref i c =
     report_if (in_result i = []) (in_function c ''symbol_ref must produce a result'') @
     report_if (in_operands i \<noteq> []) (in_function c ''symbol_ref must not take operands'') @
     report_if (PrimaryTargetName i = []) (in_function c ''symbol_ref must name a target symbol'') @
     report_if (in_target_kind i = TK_kNone) (in_function c ''symbol_ref must record a target kind'') @
     report_if (in_target_kind i \<in> {TK_kFunction, TK_kGlobal} \<and> in_target_name i = [])
       (in_function c ''symbol_ref must record target_name metadata for known symbols'') @
     (if in_target_kind i = TK_kFunction then symbol_function i c else []) @
     (if in_target_kind i = TK_kGlobal then symbol_global i c else [])"

section \<open>Functions\<close>

definition ValidateInstruction :: "Instruction \<Rightarrow> ValidationContext \<Rightarrow> mir_reports" where
  "ValidateInstruction i c =
     (case in_kind i of
        I_kConst \<Rightarrow> check_const i c
      | I_kLocalAddr \<Rightarrow> check_local_addr i c
      | I_kArenaNew \<Rightarrow> check_arena_new i c
      | I_kLoadLocal \<Rightarrow> check_load_local i c
      | I_kStoreLocal \<Rightarrow> check_store_local i c
      | I_kStoreTarget \<Rightarrow> ValidateStoreTargetInstruction i c
      | I_kSymbolRef \<Rightarrow> check_symbol_ref i c
      | I_kBoundsCheck \<Rightarrow> check_bounds_check i c
      | I_kDivCheck \<Rightarrow> check_div_check i c
      | I_kShiftCheck \<Rightarrow> check_shift_check i c
      | I_kUnary \<Rightarrow> check_unary i c
      | I_kBinary \<Rightarrow> ValidateBinaryInstruction i c
      | I_kConvert \<Rightarrow> check_convert i c
      | I_kConvertNumeric \<Rightarrow> check_convert_numeric i c
      | I_kConvertDistinct \<Rightarrow> check_convert_distinct i c
      | I_kPointerToInt \<Rightarrow> check_pointer_to_int i c
      | I_kIntToPointer \<Rightarrow> check_int_to_pointer i c
      | I_kArrayToSlice \<Rightarrow> check_array_to_slice i c
      | I_kBufferToSlice \<Rightarrow> check_buffer_to_slice i c
      | I_kBufferNew \<Rightarrow> check_buffer_new i c
      | I_kBufferFree \<Rightarrow> check_buffer_free i c
      | I_kSliceFromBuffer \<Rightarrow>
          [in_function c (''slice_from_buffer should lower to unary '' @ [apostrophe_char] @ ''*'' @ [apostrophe_char] @
             '' plus buffer_to_slice before MIR validation'')]
      | I_kCall \<Rightarrow> check_call i c
      | I_kMemoryBarrier \<Rightarrow> check_memory_barrier i c
      | I_kVolatileLoad \<Rightarrow> check_volatile_load i c
      | I_kVolatileStore \<Rightarrow> check_volatile_store i c
      | I_kAtomicLoad \<Rightarrow> ValidateAtomicInstruction i c
      | I_kAtomicStore \<Rightarrow> ValidateAtomicInstruction i c
      | I_kAtomicExchange \<Rightarrow> ValidateAtomicInstruction i c
      | I_kAtomicCompareExchange \<Rightarrow> ValidateAtomicInstruction i c
      | I_kAtomicFetchAdd \<Rightarrow> ValidateAtomicInstruction i c
      | I_kField \<Rightarrow> check_field i c
      | I_kIndex \<Rightarrow> check_index i c
      | I_kSlice \<Rightarrow> check_slice i c
      | I_kAggregateInit \<Rightarrow> check_aggregate_init i c
      | I_kVariantInit \<Rightarrow> check_variant_init i c
      | I_kVariantMatch \<Rightarrow> check_variant_match i c
      | I_kVariantExtract \<Rightarrow> check_variant_extract i c)"

text \<open>The values defined so far with their types. An operand without a name passes as one of unknown type.\<close>

type_synonym mir_values = "string set \<times> (string \<rightharpoonup> Type)"

definition value_type :: "mir_values \<Rightarrow> string \<Rightarrow> Type" where
  "value_type vs v = (case snd vs v of None \<Rightarrow> UnknownType | Some t \<Rightarrow> t)"

definition operand_reports :: "string \<Rightarrow> mir_values \<Rightarrow> string list \<Rightarrow> mir_reports" where
  "operand_reports fname vs operands =
     concat (map (\<lambda>v. report_if (v \<noteq> [] \<and> v \<notin> fst vs) (Some (''undefined MIR operand in function '' @ fname @ '': '' @ v))) operands)"

definition operand_type :: "mir_values \<Rightarrow> string \<Rightarrow> Type" where
  "operand_type vs v = (if v \<noteq> [] \<and> v \<notin> fst vs then UnknownType else value_type vs v)"

definition define_value :: "Instruction \<Rightarrow> mir_values \<Rightarrow> mir_values" where
  "define_value i vs =
     (if in_result i = [] then vs else (insert (in_result i) (fst vs), (snd vs)(in_result i \<mapsto> in_type i)))"

definition step_reports ::
  "nat \<Rightarrow> MirModule \<Rightarrow> MirFunction \<Rightarrow> (string \<rightharpoonup> Type) \<Rightarrow> mir_values \<Rightarrow> Instruction option \<Rightarrow> Instruction \<Rightarrow> mir_reports" where
  \<comment> \<open>The body of the loop over the instructions of a block.\<close>
  "step_reports n m f local_types vs previous_instruction i =
     operand_reports (mf_name f) vs (in_operands i) @
     ValidateInstruction i \<lparr>vc_fuel = n, vc_module = m, vc_function = f, vc_locals = local_types,
       vc_operand_types = map (operand_type vs) (in_operands i), vc_previous_instruction = previous_instruction\<rparr> @
     report_if (in_result i \<noteq> [] \<and> in_result i \<in> fst vs)
       (Some (''duplicate MIR value in function '' @ mf_name f @ '': '' @ in_result i))"

fun instructions_reports ::
  "nat \<Rightarrow> MirModule \<Rightarrow> MirFunction \<Rightarrow> (string \<rightharpoonup> Type) \<Rightarrow> Instruction option \<Rightarrow> Instruction list \<Rightarrow> mir_values \<Rightarrow>
     mir_reports \<times> mir_values" where
  "instructions_reports n m f local_types previous [] vs = ([], vs)"
| "instructions_reports n m f local_types previous (i # rest) vs =
     apfst (\<lambda>rs. step_reports n m f local_types vs previous i @ rs)
       (instructions_reports n m f local_types (Some i) rest (define_value i vs))"

fun return_reports :: "MirModule \<Rightarrow> MirFunction \<Rightarrow> mir_values \<Rightarrow> Type list \<Rightarrow> string list \<Rightarrow> mir_reports" where
  \<comment> \<open>The loop over the values of a return, with the return types that are left.\<close>
  "return_reports m f vs types [] = []"
| "return_reports m f vs types (v # rest) =
     (if v \<notin> fst vs then [Some (''return uses undefined MIR value in function '' @ mf_name f @ '': '' @ v)]
      else case types of
          [] \<Rightarrow> []
        | t # _ \<Rightarrow> report_if (\<not> IsAssignableType m t (value_type vs v))
            (do { e \<leftarrow> FormatType t; g \<leftarrow> FormatType (value_type vs v);
                  Some (''return type mismatch in function '' @ mf_name f @ '': expected '' @ e @ '', got '' @ g) })) @
     return_reports m f vs (tl types) rest"

definition condition_reports ::
  "MirFunction \<Rightarrow> mir_values \<Rightarrow> string list \<Rightarrow> (Type \<Rightarrow> bool) \<Rightarrow> string \<Rightarrow> string \<Rightarrow> mir_reports" where
  \<comment> \<open>The value of a panic or of a conditional branch, when there is one.\<close>
  "condition_reports f vs condition_values good undefined_text type_text =
     (case condition_values of
        [v] \<Rightarrow>
          if v \<notin> fst vs then [Some (undefined_text @ '' in function '' @ mf_name f)]
          else report_if (known (value_type vs v) \<and> \<not> good (value_type vs v)) (Some (type_text @ '' in function '' @ mf_name f))
      | _ \<Rightarrow> [])"

definition terminator_reports :: "MirModule \<Rightarrow> MirFunction \<Rightarrow> mir_values \<Rightarrow> Terminator \<Rightarrow> mir_reports" where
  "terminator_reports m f vs t =
     (case tm_kind t of
        X_kNone \<Rightarrow> []
      | X_kReturn \<Rightarrow>
          report_if (length (tm_values t) \<noteq> length (mf_return_types f))
            (Some (''return value count mismatch in function '' @ mf_name f @ '': expected '' @
               string_of_nat (length (mf_return_types f)) @ '', got '' @ string_of_nat (length (tm_values t)))) @
          return_reports m f vs (mf_return_types f) (tm_values t)
      | X_kPanic \<Rightarrow> condition_reports f vs (tm_values t) (MirIsIntegerLikeType m)
          ''panic terminator must use one defined MIR fault code'' ''panic terminator fault code must have integer type''
      | X_kBranch \<Rightarrow> []
      | X_kCondBranch \<Rightarrow> condition_reports f vs (tm_values t) (MirIsBoolType m)
          ''conditional branch must use one defined MIR condition'' ''conditional branch condition must have bool type'')"

fun blocks_reports ::
  "nat \<Rightarrow> MirModule \<Rightarrow> MirFunction \<Rightarrow> (string \<rightharpoonup> Type) \<Rightarrow> BasicBlock list \<Rightarrow> mir_values \<Rightarrow> mir_reports" where
  \<comment> \<open>Of the reachable blocks, in the order of the function; the values defined are those of the blocks before.\<close>
  "blocks_reports n m f local_types [] vs = []"
| "blocks_reports n m f local_types (b # rest) vs =
     (let (rs, vs) = instructions_reports n m f local_types None (bb_instructions b) vs in
      rs @ terminator_reports m f vs (bb_terminator b) @ blocks_reports n m f local_types rest vs)"

definition local_types_of :: "MirFunction \<Rightarrow> (string \<rightharpoonup> Type)" where
  "local_types_of f = fold (\<lambda>l types. types(lc_name l \<mapsto> lc_type l)) (mf_locals f) Map.empty"

definition function_reports :: "nat \<Rightarrow> MirModule \<Rightarrow> MirFunction \<Rightarrow> mir_reports" where
  "function_reports n m f =
     (let structure = ValidateFunctionStructure f in
      map Some (fl_reports structure) @
      (if \<not> fl_ok structure then []
       else
         blocks_reports n m f (local_types_of f)
           (filter (\<lambda>b. bb_label b \<in> fl_reachable_blocks structure) (mf_blocks f)) ({}, Map.empty) @
         (case ValidateFunctionDominance f (fl_reachable_blocks structure) of
            None \<Rightarrow> [None]
          | Some reports \<Rightarrow> map Some reports)))"

fun functions_reports :: "nat \<Rightarrow> MirModule \<Rightarrow> string set \<Rightarrow> MirFunction list \<Rightarrow> mir_reports" where
  "functions_reports n m function_names [] = []"
| "functions_reports n m function_names (f # rest) =
     report_if (mf_name f \<in> function_names) (Some (''duplicate MIR function: '' @ mf_name f)) @
     (if mf_is_extern f then [] else function_reports n m f) @
     functions_reports n m (insert (mf_name f) function_names) rest"

definition ValidateModule :: "nat \<Rightarrow> MirModule \<Rightarrow> path \<Rightarrow> DiagnosticSink \<Rightarrow> (bool \<times> DiagnosticSink) option" where
  "ValidateModule n m file_path diagnostics =
     map_option (\<lambda>messages. (messages = [],
         fold (\<lambda>message. Report \<lparr>diag_file_path = file_path, diag_span = kDefaultSourceSpan, diag_severity = kError,
           diag_message = message\<rparr>) messages diagnostics))
       (those (functions_reports n m {} (mm_functions m)))"

end
