(* ===== verification/MC_MirValidateSpec.thy ===== *)
theory MC_MirValidateSpec
  imports MC_MirValidate MC_FlowSpec
begin

text \<open>
  What holds of the functions of a module for which \<open>ValidateModule\<close> has no report: every value is computed on every path
  before it is used, divisions and shifts come with their checks, and the types of values fit where the values go.
\<close>

lemma report_if_Nil [simp]: "report_if c message = [] \<longleftrightarrow> \<not> c"
  by (simp add: report_if_def)

lemma report_when_Nil [simp]: "report_when c message = [] \<longleftrightarrow> c = Some False"
  by (auto simp: report_when_def split: option.split)

lemma or_stop_Nil [simp]: "or_stop c message rest = [] \<longleftrightarrow> \<not> c \<and> rest = []"
  by (simp add: or_stop_def)

section \<open>From the module to the function\<close>

definition valid_function :: "nat \<Rightarrow> MirModule \<Rightarrow> MirFunction \<Rightarrow> bool" where
  "valid_function n m f \<longleftrightarrow> function_reports n m f = []"

definition checked_blocks :: "MirFunction \<Rightarrow> BasicBlock list" where
  "checked_blocks f = filter (\<lambda>b. bb_label b \<in> fl_reachable_blocks (ValidateFunctionStructure f)) (mf_blocks f)"

lemma functions_valid:
  "functions_reports n m names fs = [] \<Longrightarrow> f \<in> set fs \<Longrightarrow> \<not> mf_is_extern f \<Longrightarrow> valid_function n m f"
  by (induction fs arbitrary: names) (auto simp: valid_function_def split: if_splits)

lemma module_valid:
  assumes "ValidateModule n m p d = Some (True, d')" "f \<in> set (mm_functions m)" "\<not> mf_is_extern f"
  shows "valid_function n m f"
proof -
  have "functions_reports n m {} (mm_functions m) = []"
    using assms(1) by (cases "functions_reports n m {} (mm_functions m)") (auto simp: ValidateModule_def split: option.splits)
  then show ?thesis using assms by (rule_tac functions_valid)
qed

lemma structure_reports: "fl_reports (ValidateFunctionStructure f) = [] \<Longrightarrow> fl_ok (ValidateFunctionStructure f)"
  by (auto simp: ValidateFunctionStructure_def Let_def split: list.splits)

lemma valid_parts:
  assumes "valid_function n m f"
  shows "fl_ok (ValidateFunctionStructure f)"
    "blocks_reports n m f (local_types_of f) (checked_blocks f) ({}, Map.empty) = []"
    "ValidateFunctionDominance f (fl_reachable_blocks (ValidateFunctionStructure f)) = Some []"
  using assms by (auto simp: valid_function_def function_reports_def checked_blocks_def Let_def structure_reports
      split: if_splits option.splits)

section \<open>From the function to the instruction\<close>

lemma instructions_values: "snd (instructions_reports n m f lt previous is vs) = fold define_value is vs"
  by (induction "is" arbitrary: previous vs) auto

lemma instruction_checked:
  "fst (instructions_reports n m f lt previous (xs @ i # ys) vs) = [] \<Longrightarrow>
     step_reports n m f lt (fold define_value xs vs) (if xs = [] then previous else Some (last xs)) i = []"
proof (induction xs arbitrary: previous vs)
  case (Cons x xs)
  then show ?case using Cons.IH [of "Some x" "define_value x vs"] by (cases "define_value x vs") (auto split: if_splits)
qed auto

abbreviation instructions_of :: "BasicBlock list \<Rightarrow> Instruction list" where
  "instructions_of bs \<equiv> concat (map bb_instructions bs)"

lemma block_checked:
  "blocks_reports n m f lt (as @ b # cs) vs = [] \<Longrightarrow>
     fst (instructions_reports n m f lt None (bb_instructions b) (fold define_value (instructions_of as) vs)) = [] \<and>
     terminator_reports m f (fold define_value (bb_instructions b) (fold define_value (instructions_of as) vs)) (bb_terminator b) = []"
proof (induction as arbitrary: vs)
  case Nil
  then show ?case using instructions_values [of n m f lt None "bb_instructions b" vs]
    by (auto simp: Let_def split: prod.splits)
next
  case (Cons a as)
  then show ?case using instructions_values [of n m f lt None "bb_instructions a" vs]
    by (auto simp: Let_def split: prod.splits)
qed

section \<open>Values\<close>

definition results_of :: "Instruction list \<Rightarrow> string list" where
  "results_of is = filter (\<lambda>r. r \<noteq> []) (map in_result is)"

lemma results_of_simps [simp]:
  "results_of [] = []"
  "results_of (i # is) = (if in_result i = [] then results_of is else in_result i # results_of is)"
  "results_of (is @ js) = results_of is @ results_of js"
  by (auto simp: results_of_def)

lemma set_results_of: "v \<in> set (results_of is) \<longleftrightarrow> v \<noteq> [] \<and> v \<in> in_result ` set is"
  by (auto simp: results_of_def)

lemma define_value_fst [simp]: "fst (fold define_value is vs) = fst vs \<union> set (results_of is)"
  by (induction "is" arbitrary: vs) (auto simp: define_value_def)

lemma define_value_snd:
  "distinct (results_of is) \<Longrightarrow> i \<in> set is \<Longrightarrow> in_result i \<noteq> [] \<Longrightarrow>
     snd (fold define_value is vs) (in_result i) = Some (in_type i)"
proof (induction "is" arbitrary: vs)
  case (Cons x xs)
  have keep: "v \<notin> set (results_of xs) \<Longrightarrow> snd (fold define_value xs vs) v = snd vs v" for v vs
    by (induction xs arbitrary: vs) (auto simp: define_value_def)
  show ?case
  proof (cases "i \<in> set xs")
    case True
    then show ?thesis using Cons by (auto split: if_splits)
  next
    case False
    then have "i = x" using Cons.prems by simp
    then show ?thesis using Cons.prems keep [of "in_result x" "define_value x vs"] by (simp add: define_value_def [of x vs])
  qed
qed simp

lemma define_value_known: "snd (fold define_value is vs) v \<noteq> None \<Longrightarrow> snd vs v \<noteq> None \<or> v \<in> set (results_of is)"
proof (induction "is" arbitrary: vs)
  case (Cons i "is")
  have "snd (define_value i vs) v \<noteq> None \<Longrightarrow> snd vs v \<noteq> None \<or> v \<in> set (results_of [i])"
    by (auto simp: define_value_def split: if_splits)
  with Cons.IH [of "define_value i vs"] Cons.prems show ?case by (auto split: if_splits)
qed simp

lemma instructions_fresh:
  "fst (instructions_reports n m f lt previous is vs) = [] \<Longrightarrow>
     distinct (results_of is) \<and> set (results_of is) \<inter> fst vs = {}"
proof (induction "is" arbitrary: previous vs)
  case (Cons i "is")
  then show ?case using Cons.IH [of "Some i" "define_value i vs"] by (auto simp: step_reports_def define_value_def)
qed simp

lemma blocks_fresh:
  "blocks_reports n m f lt bs vs = [] \<Longrightarrow>
     distinct (results_of (instructions_of bs)) \<and> set (results_of (instructions_of bs)) \<inter> fst vs = {}"
proof (induction bs arbitrary: vs)
  case (Cons b bs)
  let ?r = "instructions_reports n m f lt None (bb_instructions b) vs"
  have "fst ?r = []" "blocks_reports n m f lt bs (snd ?r) = []"
    using Cons.prems by (auto simp: Let_def split: prod.splits)
  then show ?case using Cons.IH [of "snd ?r"] instructions_fresh [of n m f lt None "bb_instructions b" vs]
    by (auto simp: instructions_values)
qed simp

lemma checked_split:
  assumes "b \<in> set (checked_blocks f)"
  obtains as cs where "checked_blocks f = as @ b # cs"
  using assms by (meson split_list)

lemma defined_before:
  assumes v: "valid_function n m f" and split: "checked_blocks f = as @ b # cs"
    and u: "bb_instructions b = xs @ i # ys" "v \<in> set (in_operands i)" "v \<noteq> []"
  shows "v \<in> set (results_of (instructions_of as)) \<union> set (results_of xs)"
proof -
  have "step_reports n m f (local_types_of f) (fold define_value xs (fold define_value (instructions_of as) ({}, Map.empty)))
      (if xs = [] then None else Some (last xs)) i = []"
    using block_checked [OF valid_parts(2) [OF v, unfolded split]] u(1) by (intro instruction_checked [of _ _ _ _ _ _ _ ys]) simp
  then show ?thesis using u(2,3) by (auto simp: step_reports_def operand_reports_def)
qed

lemma return_values: "return_reports m f vs types vals = [] \<Longrightarrow> set vals \<subseteq> fst vs"
  by (induction vals arbitrary: types) (auto split: if_splits)

lemma defined_before_end:
  assumes v: "valid_function n m f" and split: "checked_blocks f = as @ b # cs" and u: "v \<in> set (tm_values (bb_terminator b))"
  shows "v \<in> set (results_of (instructions_of as)) \<union> set (results_of (bb_instructions b))"
proof -
  let ?vs = "fold define_value (bb_instructions b) (fold define_value (instructions_of as) ({}, Map.empty))"
  have r: "terminator_reports m f ?vs (bb_terminator b) = []" using block_checked [OF valid_parts(2) [OF v, unfolded split]] by simp
  have "b \<in> set (checked_blocks f)" by (simp add: split)
  then have "b \<in> set (mf_blocks f)" by (simp add: checked_blocks_def)
  then have t: "terminator_faults (mf_name f) (block_labels (mf_blocks f)) b = []"
    using structure_ok [OF valid_parts(1) [OF v]] by metis
  have "v \<in> fst ?vs"
  proof (cases "tm_kind (bb_terminator b)")
    case X_kReturn
    with r have "return_reports m f ?vs (mf_return_types f) (tm_values (bb_terminator b)) = []"
      by (simp add: terminator_reports_def)
    from return_values [OF this] u show ?thesis by blast
  next
    case X_kPanic
    with t u have "tm_values (bb_terminator b) = [v]"
      by (auto simp: terminator_faults_def complain_def Let_def length_Suc_conv split: if_splits)
    with r X_kPanic show ?thesis by (auto simp: terminator_reports_def condition_reports_def split: if_splits)
  next
    case X_kCondBranch
    with t u have "tm_values (bb_terminator b) = [v]"
      by (auto simp: terminator_faults_def complain_def Let_def length_Suc_conv split: if_splits)
    with r X_kCondBranch show ?thesis by (auto simp: terminator_reports_def condition_reports_def split: if_splits)
  qed (use t u in \<open>auto simp: terminator_faults_def complain_def Let_def split: if_splits\<close>)
  then show ?thesis by auto
qed

section \<open>Every use comes after the definition\<close>

definition used_at :: "BasicBlock \<Rightarrow> nat \<Rightarrow> string \<Rightarrow> bool" where
  \<comment> \<open>The value is an operand of the instruction \<open>k\<close>, or of the terminator, whose place is that after the last instruction.\<close>
  "used_at b k v \<longleftrightarrow> v \<noteq> [] \<and>
     (k < length (bb_instructions b) \<and> v \<in> set (in_operands (bb_instructions b ! k)) \<or>
      k = length (bb_instructions b) \<and> v \<in> set (tm_values (bb_terminator b)))"

definition defined_at :: "BasicBlock \<Rightarrow> nat \<Rightarrow> string \<Rightarrow> bool" where
  "defined_at b j v \<longleftrightarrow> v \<noteq> [] \<and> j < length (bb_instructions b) \<and> in_result (bb_instructions b ! j) = v"

lemma defined_at_results: "v \<in> set (results_of (bb_instructions b)) \<longleftrightarrow> (\<exists>j. defined_at b j v)"
  by (simp only: set_results_of defined_at_def) (auto simp: image_iff Bex_def in_set_conv_nth)

lemma used_defined_before:
  assumes v: "valid_function n m f" and split: "checked_blocks f = as @ b # cs" and u: "used_at b k v"
  shows "v \<in> set (results_of (instructions_of as)) \<union> set (results_of (take k (bb_instructions b)))"
proof (cases "k = length (bb_instructions b)")
  case True
  then show ?thesis using defined_before_end [OF v split] u by (auto simp: used_at_def)
next
  case False
  then have k: "k < length (bb_instructions b)" "v \<in> set (in_operands (bb_instructions b ! k))" "v \<noteq> []"
    using u by (auto simp: used_at_def)
  show ?thesis by (rule defined_before [OF v split id_take_nth_drop [OF k(1)] k(2,3)])
qed

lemma used_in_uses: "used_at b k v \<Longrightarrow> v \<in> set (uses_of b)"
  by (auto simp: used_at_def uses_of_def intro!: bexI [of _ "bb_instructions b ! k"])

lemma checked_distinct: "valid_function n m f \<Longrightarrow> distinct (results_of (instructions_of (checked_blocks f)))"
  using blocks_fresh [OF valid_parts(2)] by blast

lemma defining_block_unique:
  assumes v: "valid_function n m f" and "b \<in> set (checked_blocks f)" "d \<in> set (checked_blocks f)"
    and "v \<in> set (results_of (bb_instructions b))" "v \<in> set (results_of (bb_instructions d))"
  shows "d = b"
proof (rule ccontr)
  assume "d \<noteq> b"
  obtain as cs where split: "checked_blocks f = as @ b # cs" using assms(2) by (rule checked_split)
  with \<open>d \<noteq> b\<close> assms(3) have "d \<in> set as \<union> set cs" by auto
  then have "v \<in> set (results_of (instructions_of as)) \<union> set (results_of (instructions_of cs))"
    using assms(5) by (auto simp: set_results_of)
  then show False using checked_distinct [OF v] assms(4) by (auto simp: split)
qed

lemma reachable_checked:
  assumes "valid_function n m f" "b \<in> set (mf_blocks f)" "walk (mf_blocks f) (bb_label (hd (mf_blocks f))) ls (bb_label b)"
  shows "b \<in> set (checked_blocks f)"
proof -
  obtain entry bs where "mf_blocks f = entry # bs"
    "fl_reachable_blocks (ValidateFunctionStructure f) = reachable_from (mf_blocks f) (bb_label entry)"
    using structure_ok [OF valid_parts(1) [OF assms(1)]] by metis
  with assms(2,3) show ?thesis by (auto simp: checked_blocks_def reachable_from_def)
qed

lemma used_defined:
  assumes v: "valid_function n m f" and b: "b \<in> set (mf_blocks f)"
    and w: "walk (mf_blocks f) (bb_label (hd (mf_blocks f))) ls (bb_label b)" and u: "used_at b k v"
  shows "\<exists>d j. d \<in> set (mf_blocks f) \<and> bb_label d \<in> set ls \<and> defined_at d j v \<and> (d = b \<longrightarrow> j < k)"
proof -
  have c: "b \<in> set (checked_blocks f)" by (rule reachable_checked [OF v b w])
  then obtain as cs where split: "checked_blocks f = as @ b # cs" by (rule checked_split)
  let ?R = "fl_reachable_blocks (ValidateFunctionStructure f)"
  from used_defined_before [OF v split u] show ?thesis
  proof
    assume "v \<in> set (results_of (take k (bb_instructions b)))"
    then obtain i where i: "i \<in> set (take k (bb_instructions b))" "in_result i = v" "v \<noteq> []" by (auto simp: set_results_of)
    then obtain j where "j < k" "defined_at b j v" by (auto simp: in_set_conv_nth defined_at_def)
    with b walk_last [OF w] show ?thesis by blast
  next
    assume "v \<in> set (results_of (instructions_of as))"
    then obtain d where d: "d \<in> set as" "v \<in> set (results_of (bb_instructions d))" by (auto simp: set_results_of)
    then have dc: "d \<in> set (checked_blocks f)" by (simp add: split)
    have "d \<noteq> b"
    proof
      assume "d = b"
      with d have "v \<in> set (results_of (instructions_of as))" "v \<in> set (results_of (bb_instructions b))"
        by (auto simp: set_results_of)
      then show False using checked_distinct [OF v] by (auto simp: split)
    qed
    have "value_defs (mf_blocks f) ?R v = Some (bb_label d)"
    proof (rule value_defs_unique)
      show "d \<in> set (mf_blocks f)" "bb_label d \<in> ?R" using dc by (auto simp: checked_blocks_def)
      show "defines_value d v" using d(2) by (simp add: defines_value_def set_results_of)
      fix b' assume "b' \<in> set (mf_blocks f)" "bb_label b' \<in> ?R" "defines_value b' v"
      then have "b' \<in> set (checked_blocks f)" "v \<in> set (results_of (bb_instructions b'))"
        by (auto simp: checked_blocks_def defines_value_def set_results_of)
      with defining_block_unique [OF v _ dc] d(2) show "bb_label b' = bb_label d" by metis
    qed
    moreover have "bb_label b \<in> ?R" using c by (simp add: checked_blocks_def)
    ultimately have "on_every_path (mf_blocks f) (bb_label (hd (mf_blocks f))) (bb_label d) (bb_label b)"
      using dominance_checked [OF valid_parts(1) [OF v] refl refl] valid_parts(3) [OF v] b used_in_uses [OF u] by auto
    then have "bb_label d \<in> set ls" using w by (simp add: on_every_path_def)
    moreover have "d \<in> set (mf_blocks f)" using dc by (simp add: checked_blocks_def)
    ultimately show ?thesis using d(2) \<open>d \<noteq> b\<close> by (auto simp: defined_at_results)
  qed
qed

section \<open>The types of values\<close>

definition flow_type :: "MirFunction \<Rightarrow> string \<Rightarrow> Type" where
  \<comment> \<open>The type of the instruction that defines the value.\<close>
  "flow_type f v =
     (if v = [] then UnknownType
      else case find (\<lambda>i. in_result i = v) (instructions_of (checked_blocks f)) of None \<Rightarrow> UnknownType | Some i \<Rightarrow> in_type i)"

lemma value_type_flow:
  assumes v: "valid_function n m f" and split: "instructions_of (checked_blocks f) = before @ after"
    and r: "r \<in> set (results_of before)"
  shows "value_type (fold define_value before ({}, Map.empty)) r = flow_type f r"
proof -
  obtain i where i: "i \<in> set before" "in_result i = r" "r \<noteq> []" using r by (auto simp: set_results_of)
  have d: "distinct (results_of before @ results_of after)" using checked_distinct [OF v] by (simp add: split)
  have first: "snd (fold define_value before ({}, Map.empty)) r = Some (in_type i)"
    using define_value_snd [of before i "({}, Map.empty)"] d i by simp
  have "\<exists>j. find (\<lambda>i. in_result i = r) (before @ after) = Some j"
    using i by (cases "find (\<lambda>i. in_result i = r) (before @ after)") (auto simp: find_None_iff)
  then obtain j where f: "find (\<lambda>i. in_result i = r) (before @ after) = Some j" by blast
  then have j: "in_result j = r" "j \<in> set (before @ after)" by (auto simp only: find_Some_iff nth_mem)
  have "j \<in> set before"
  proof (rule ccontr)
    assume "j \<notin> set before"
    with j i(3) have "r \<in> set (results_of after)" by (auto simp: set_results_of)
    with d r show False by auto
  qed
  then have "snd (fold define_value before ({}, Map.empty)) r = Some (in_type j)"
    using define_value_snd [of before j "({}, Map.empty)"] d i(3) j(1) by simp
  with first f i(3) show ?thesis by (simp add: value_type_def flow_type_def split)
qed

lemma unnamed_value_type: "value_type (fold define_value before ({}, Map.empty)) [] = flow_type f []"
  using define_value_known [of before "({}, Map.empty)" "[]"]
  by (auto simp: value_type_def flow_type_def set_results_of split: option.split)

lemma valid_instruction:
  assumes v: "valid_function n m f" and b: "b \<in> set (checked_blocks f)" and k: "k < length (bb_instructions b)"
  shows "ValidateInstruction (bb_instructions b ! k) \<lparr>vc_fuel = n, vc_module = m, vc_function = f, vc_locals = local_types_of f,
      vc_operand_types = map (flow_type f) (in_operands (bb_instructions b ! k)),
      vc_previous_instruction = (if k = 0 then None else Some (bb_instructions b ! (k - 1)))\<rparr> = []"
proof -
  obtain as cs where split: "checked_blocks f = as @ b # cs" using b by (rule checked_split)
  let ?before = "instructions_of as @ take k (bb_instructions b)" and ?i = "bb_instructions b ! k"
  let ?vs = "fold define_value ?before ({}, Map.empty)"
  have previous: "(if k = 0 then None else Some (bb_instructions b ! (k - 1))) =
      (if take k (bb_instructions b) = [] then None else Some (last (take k (bb_instructions b))))"
    using k by (auto simp: last_conv_nth min_def)
  have "step_reports n m f (local_types_of f) ?vs (if k = 0 then None else Some (bb_instructions b ! (k - 1))) ?i = []"
    unfolding previous fold_append comp_def
    using block_checked [OF valid_parts(2) [OF v, unfolded split]] id_take_nth_drop [OF k]
    by (intro instruction_checked [of _ _ _ _ _ _ _ "drop (Suc k) (bb_instructions b)"]) simp
  then have s: "ValidateInstruction ?i \<lparr>vc_fuel = n, vc_module = m, vc_function = f, vc_locals = local_types_of f,
      vc_operand_types = map (operand_type ?vs) (in_operands ?i),
      vc_previous_instruction = (if k = 0 then None else Some (bb_instructions b ! (k - 1)))\<rparr> = []"
    by (simp add: step_reports_def)
  have all: "instructions_of (checked_blocks f) = ?before @ drop k (bb_instructions b) @ instructions_of cs"
    by (simp add: split)
  have "operand_type ?vs r = flow_type f r" if "r \<in> set (in_operands ?i)" for r
  proof (cases "r = []")
    case True
    then show ?thesis by (simp only: operand_type_def unnamed_value_type simp_thms if_False)
  next
    case False
    with that k have "used_at b k r" by (simp add: used_at_def)
    from used_defined_before [OF v split this] have r: "r \<in> set (results_of ?before)" by simp
    then have "r \<in> fst ?vs" by (simp add: define_value_fst del: fold_append)
    then show ?thesis using value_type_flow [OF v all r] by (simp only: operand_type_def simp_thms if_False)
  qed
  then have "map (operand_type ?vs) (in_operands ?i) = map (flow_type f) (in_operands ?i)" by (rule map_cong [OF refl])
  with s show ?thesis by (simp only:)
qed

lemma valid_terminator:
  assumes v: "valid_function n m f" and b: "b \<in> set (checked_blocks f)"
  shows "\<exists>vs. terminator_reports m f vs (bb_terminator b) = [] \<and>
    (\<forall>r \<in> set (tm_values (bb_terminator b)). value_type vs r = flow_type f r)"
proof -
  obtain as cs where split: "checked_blocks f = as @ b # cs" using b by (rule checked_split)
  let ?before = "instructions_of as @ bb_instructions b"
  let ?vs = "fold define_value ?before ({}, Map.empty)"
  have "terminator_reports m f ?vs (bb_terminator b) = []"
    using block_checked [OF valid_parts(2) [OF v, unfolded split]] by simp
  moreover have "value_type ?vs r = flow_type f r" if "r \<in> set (tm_values (bb_terminator b))" for r
    using value_type_flow [OF v _, of ?before "instructions_of cs" r] defined_before_end [OF v split that] by (simp add: split)
  ultimately show ?thesis by blast
qed

section \<open>Checks before divisions and shifts\<close>

lemma valid_checks:
  assumes v: "valid_function n m f" and b: "b \<in> set (checked_blocks f)" and k: "k < length (bb_instructions b)"
    and i: "in_kind (bb_instructions b ! k) = I_kBinary"
    and op: "in_op (bb_instructions b ! k) \<in> {''/'', ''%''} \<and> check = I_kDivCheck \<or>
      in_op (bb_instructions b ! k) \<in> {''<<'', ''>>''} \<and> check = I_kShiftCheck"
  shows "0 < k \<and> in_kind (bb_instructions b ! (k - 1)) = check \<and>
    in_op (bb_instructions b ! (k - 1)) = in_op (bb_instructions b ! k) \<and>
    in_operands (bb_instructions b ! (k - 1)) = in_operands (bb_instructions b ! k)"
proof -
  let ?i = "bb_instructions b ! k"
  let ?c = "\<lparr>vc_fuel = n, vc_module = m, vc_function = f, vc_locals = local_types_of f,
      vc_operand_types = map (flow_type f) (in_operands ?i),
      vc_previous_instruction = (if k = 0 then None else Some (bb_instructions b ! (k - 1)))\<rparr>"
  have r: "ValidateBinaryInstruction ?i ?c = []"
    using valid_instruction [OF v b k] i by (simp add: ValidateInstruction_def)
  have "preceded_by ?c check ?i"
    using op
  proof
    assume o: "in_op ?i \<in> {''/'', ''%''} \<and> check = I_kDivCheck"
    then have "binary_arithmetic ?i ?c = []" using r by (auto simp: ValidateBinaryInstruction_def Let_def)
    with o show ?thesis by (auto simp: binary_arithmetic_def Let_def)
  next
    assume o: "in_op ?i \<in> {''<<'', ''>>''} \<and> check = I_kShiftCheck"
    then have "binary_shift ?i ?c = []" using r by (auto simp: ValidateBinaryInstruction_def Let_def)
    with o show ?thesis by (auto simp: binary_shift_def Let_def)
  qed
  then show ?thesis by (auto simp: preceded_by_def split: if_splits option.splits)
qed

section \<open>Where values go\<close>

definition call_fits :: "MirModule \<Rightarrow> Type \<Rightarrow> Type \<Rightarrow> Type list \<Rightarrow> bool" where
  \<comment> \<open>A procedure of the given type may be called with arguments of these types and yields the result type.\<close>
  "call_fits m callee result_type arg_types \<longleftrightarrow>
     ty_kind callee = Ty_kProcedure \<and> ProcedureParamCount callee = Some (length arg_types) \<and>
     length arg_types \<le> length (ty_subtypes callee) \<and>
     (\<forall>j < length arg_types. IsAssignableType m (ty_subtypes callee ! j) (arg_types ! j)) \<and>
     (\<exists>r. ProcedureResultType callee = Some r \<and> AreEquivalentTypes m result_type r)"

lemma valid_store_local:
  assumes v: "valid_function n m f" and b: "b \<in> set (checked_blocks f)" and i: "i \<in> set (bb_instructions b)"
    and k: "in_kind i = I_kStoreLocal"
  shows "\<exists>v l. in_operands i = [v] \<and> local_types_of f (in_target i) = Some l \<and> IsAssignableType m l (flow_type f v)"
proof -
  obtain k where k': "k < length (bb_instructions b)" "i = bb_instructions b ! k" using i by (auto simp: in_set_conv_nth)
  from valid_instruction [OF v b k'(1)] k k'(2) show ?thesis
    by (auto simp: ValidateInstruction_def check_store_local_def Let_def length_Suc_conv split: option.splits)
qed

lemma call_arguments_Nil:
  assumes "call_arguments i c t pc = []" "j < pc" "j < length (vc_operand_types c) - 1"
  shows "j < length (ty_subtypes t) \<and> IsAssignableType (vc_module c) (ty_subtypes t ! j) (vc_operand_types c ! (j + 1))"
proof -
  have "j \<in> set [0..<min pc (length (vc_operand_types c) - 1)]" using assms(2,3) by simp
  then show ?thesis using assms(1)
    unfolding call_arguments_def Let_def concat_eq_Nil_conv set_map ball_simps by (force split: if_splits)
qed

lemma valid_call:
  assumes v: "valid_function n m f" and b: "b \<in> set (checked_blocks f)" and i: "i \<in> set (bb_instructions b)"
    and k: "in_kind i = I_kCall"
  shows "\<exists>callee args. in_operands i = callee # args \<and>
    (IsUnknown (flow_type f callee) \<or> call_fits m (flow_type f callee) (in_type i) (map (flow_type f) args))"
proof -
  obtain k where k': "k < length (bb_instructions b)" "i = bb_instructions b ! k" using i by (auto simp: in_set_conv_nth)
  let ?c = "\<lparr>vc_fuel = n, vc_module = m, vc_function = f, vc_locals = local_types_of f,
      vc_operand_types = map (flow_type f) (in_operands i),
      vc_previous_instruction = (if k = 0 then None else Some (bb_instructions b ! (k - 1)))\<rparr>"
  have r: "check_call i ?c = []" using valid_instruction [OF v b k'(1)] k k'(2) by (simp add: ValidateInstruction_def)
  then obtain callee args where o: "in_operands i = callee # args" by (cases "in_operands i") (auto simp: check_call_def Let_def)
  let ?t = "flow_type f callee"
  have "call_fits m ?t (in_type i) (map (flow_type f) args)" if known: "\<not> IsUnknown ?t"
  proof -
    have p: "ty_kind ?t = Ty_kProcedure" "call_signature i ?c ?t = []"
      using r known by (auto simp: check_call_def Let_def o known_def split: if_splits)
    obtain pc rt where pc: "ProcedureParamCount ?t = Some pc" "ProcedureResultType ?t = Some rt"
      using p(2) by (auto simp: call_signature_def split: option.splits)
    with p(2) have c: "length args = pc" "call_arguments i ?c ?t pc = []" "AreEquivalentTypes m (in_type i) rt"
      by (auto simp: call_signature_def o)
    have "j < length (ty_subtypes ?t) \<and> IsAssignableType m (ty_subtypes ?t ! j) (flow_type f (args ! j))" if j: "j < pc" for j
    proof -
      show ?thesis using call_arguments_Nil [OF c(2), of j] j c(1) by (simp add: o)
    qed
    then show ?thesis using p(1) pc c by (auto simp: call_fits_def) (metis less_Suc_eq_le not_less_eq not_le less_or_eq_imp_le)
  qed
  with o show ?thesis by blast
qed

lemma valid_return:
  assumes v: "valid_function n m f" and b: "b \<in> set (checked_blocks f)" and k: "tm_kind (bb_terminator b) = X_kReturn"
  shows "list_all2 (\<lambda>t v. IsAssignableType m t (flow_type f v)) (mf_return_types f) (tm_values (bb_terminator b))"
proof -
  obtain vs where r: "terminator_reports m f vs (bb_terminator b) = []"
    and t: "\<And>r. r \<in> set (tm_values (bb_terminator b)) \<Longrightarrow> value_type vs r = flow_type f r"
    using valid_terminator [OF v b] by blast
  have *: "return_reports m f vs types vals = [] \<Longrightarrow> length vals = length types \<Longrightarrow>
      list_all2 (\<lambda>t v. IsAssignableType m t (value_type vs v)) types vals" for types vals
    by (induction vals arbitrary: types) (auto simp: length_Suc_conv Suc_length_conv split: if_splits)
  have "list_all2 (\<lambda>t v. IsAssignableType m t (value_type vs v)) (mf_return_types f) (tm_values (bb_terminator b))"
    using r k by (intro *) (auto simp: terminator_reports_def)
  then show ?thesis by (rule list.rel_mono_strong) (use t in auto)
qed

end
