(* ===== verification/MC_Project.thy ===== *)
theory MC_Project
  imports MC_MciText "HOL-Library.AList" "HOL-Library.List_Lexorder" "HOL-Library.Char_ord"
begin

text \<open>
  Project files: \<open>compiler/driver/project.cpp\<close>, with the functions of \<open>build_support.cpp\<close> and \<open>backend.cpp\<close> that it uses.

  A \<open>std::unordered_map\<close> is an association list in the order of insertion, and the order in which a loop visits it is
  the argument \<open>visit\<close>, a function from the keys to the keys in some other order.
\<close>

section \<open>Paths\<close>

definition path_stem :: "path \<Rightarrow> string" where
  \<comment> \<open>\<open>stem()\<close>: the file name up to its last dot, unless that is its first character or the name is two dots.\<close>
  "path_stem p =
     (let name = path_filename p; rest = dropWhile (\<lambda>c. c \<noteq> CHR ''.'') (rev name) in
      if name = ''..'' \<or> length rest \<le> 1 then name else rev (tl rest))"

definition path_components :: "path \<Rightarrow> string list" where
  \<comment> \<open>What iteration over a path yields: the root directory, the names, and an empty name for a separator at the end.\<close>
  "path_components p =
     (let parts = split_on slash p []; names = filter (\<lambda>n. n \<noteq> []) parts in
      (if p \<noteq> [] \<and> hd p = slash then [[slash]] else []) @ names @
      (if names \<noteq> [] \<and> last p = slash then [[]] else []))"

definition IsPathWithinRoot :: "filesystem \<Rightarrow> path \<Rightarrow> path \<Rightarrow> bool" where
  "IsPathWithinRoot fs p root =
     (let path = path_components (fs_absolute_normal fs p); root = path_components (fs_absolute_normal fs root) in
      length root \<le> length path \<and> take (length root) path = root)"

section \<open>Data\<close>

type_synonym ('k, 'v) umap = "('k \<times> 'v) list"

record ProjectTargetTests =
  tt_enabled :: bool
  tt_roots :: "path list"
  tt_mode :: string
  tt_timeout_ms :: "int option"

record ProjectModuleSet =
  ms_module_name :: string
  ms_files :: "path list"
  ms_files_line :: nat

record ProjectTarget =
  pt_name :: string
  pt_decl_line :: nat
  pt_kind :: string
  pt_package_name :: string
  pt_root :: path
  pt_mode :: string
  pt_env :: string
  pt_target :: string
  pt_links :: "string list"
  pt_link_inputs :: "path list"
  pt_module_search_paths :: "path list"
  pt_package_roots :: "(string, path list) umap"
  pt_module_sets :: "(string, ProjectModuleSet) umap"
  pt_runtime_startup :: string
  pt_tests :: ProjectTargetTests

definition new_ProjectTarget :: ProjectTarget where
  "new_ProjectTarget =
     \<lparr>pt_name = [], pt_decl_line = 0, pt_kind = ''exe'', pt_package_name = [], pt_root = [], pt_mode = ''debug'',
      pt_env = ''hosted'', pt_target = [], pt_links = [], pt_link_inputs = [], pt_module_search_paths = [],
      pt_package_roots = [], pt_module_sets = [], pt_runtime_startup = ''default'',
      pt_tests = \<lparr>tt_enabled = False, tt_roots = [], tt_mode = ''checked'', tt_timeout_ms = None\<rparr>\<rparr>"

record ProjectFile =
  pf_path :: path
  pf_root_dir :: path
  pf_project_name :: string
  pf_default_target :: "string option"
  pf_build_dir :: path
  pf_targets :: "(string, ProjectTarget) umap"

definition new_ProjectFile :: ProjectFile where
  "new_ProjectFile = \<lparr>pf_path = [], pf_root_dir = [], pf_project_name = [], pf_default_target = None, pf_build_dir = ''build'',
     pf_targets = []\<rparr>"

datatype (plugins only: code) ParsedValue =
  PV_kString string | PV_kInteger int | PV_kBoolean bool | PV_kStringArray "string list"

section \<open>Names that are supported\<close>

definition IsSupportedBootstrapTargetKind :: "string \<Rightarrow> bool" where
  "IsSupportedBootstrapTargetKind kind \<longleftrightarrow> kind = ''exe'' \<or> kind = ''test'' \<or> kind = ''staticlib''"

definition IsSupportedBootstrapEnv :: "string \<Rightarrow> bool" where
  "IsSupportedBootstrapEnv env \<longleftrightarrow> env = ''hosted'' \<or> env = ''freestanding''"

definition IsSupportedMode :: "string \<Rightarrow> bool" where
  "IsSupportedMode mode \<longleftrightarrow> mode = ''debug'' \<or> mode = ''release'' \<or> mode = ''checked''"

definition IsSupportedEnv :: "string \<Rightarrow> bool" where
  "IsSupportedEnv env \<longleftrightarrow> env = ''hosted'' \<or> env = ''freestanding''"

definition IsExecutableTargetKind :: "string \<Rightarrow> bool" where
  "IsExecutableTargetKind kind \<longleftrightarrow> kind = ''exe'' \<or> kind = ''test''"

definition IsStaticLibraryTargetKind :: "string \<Rightarrow> bool" where
  "IsStaticLibraryTargetKind kind \<longleftrightarrow> kind = ''staticlib''"

definition IsPlainStartupName :: "string \<Rightarrow> bool" where
  "IsPlainStartupName name \<longleftrightarrow> name \<noteq> [] \<and> list_all (\<lambda>ch. is_alnum_char ch \<or> ch = CHR ''_'') name"

record TargetConfig =
  tc_triple :: string
  tc_target_family :: string
  tc_object_format :: string
  tc_host_tool_prefix :: "string list"
  tc_hosted :: bool

record driver_env =
  de_fs :: filesystem
  de_visit :: "string list \<Rightarrow> string list"
    \<comment> \<open>the order in which a loop over an \<open>unordered_map\<close> with these keys visits them\<close>
  de_config :: TargetConfig
    \<comment> \<open>\<open>BootstrapTargetConfig()\<close>, whose texts are generated by the build\<close>

definition visited_entries :: "driver_env \<Rightarrow> (string, 'v) umap \<Rightarrow> (string, 'v) umap" where
  "visited_entries env m = List.map_filter (\<lambda>k. map_option (Pair k) (map_of m k)) (de_visit env (map fst m))"

definition JoinBootstrapTargetChoices :: "TargetConfig \<Rightarrow> string" where
  "JoinBootstrapTargetChoices config =
     (if tc_target_family config = [] \<or> tc_target_family config = tc_triple config then tc_triple config
      else tc_triple config @ '', '' @ tc_target_family config)"

section \<open>Lines\<close>

fun CountBracketDelta_loop :: "string \<Rightarrow> bool \<Rightarrow> bool \<Rightarrow> int" where
  \<comment> \<open>With \<open>in_string\<close> and \<open>escape\<close>. A backslash is an escape outside of strings too.\<close>
  "CountBracketDelta_loop [] in_string escape = 0"
| "CountBracketDelta_loop (ch # chs) in_string escape =
     (if escape then CountBracketDelta_loop chs in_string False
      else if ch = backslash_char then CountBracketDelta_loop chs in_string True
      else if ch = quote_char then CountBracketDelta_loop chs (\<not> in_string) False
      else if in_string then CountBracketDelta_loop chs in_string False
      else if ch = CHR ''['' then 1 + CountBracketDelta_loop chs in_string False
      else if ch = CHR '']'' then - 1 + CountBracketDelta_loop chs in_string False
      else CountBracketDelta_loop chs in_string False)"

definition CountBracketDelta :: "string \<Rightarrow> int" where
  "CountBracketDelta text = CountBracketDelta_loop text False False"

definition Trim :: "string \<Rightarrow> string" where
  "Trim text = rev (dropWhile is_space_char (rev (dropWhile is_space_char text)))"

fun StripComment_loop :: "string \<Rightarrow> bool \<Rightarrow> bool \<Rightarrow> string" where
  "StripComment_loop [] in_string escape = []"
| "StripComment_loop (ch # chs) in_string escape =
     (if escape then ch # StripComment_loop chs in_string False
      else if ch = backslash_char then ch # StripComment_loop chs in_string True
      else if ch = quote_char then ch # StripComment_loop chs (\<not> in_string) False
      else if ch = CHR ''#'' \<and> \<not> in_string then []
      else ch # StripComment_loop chs in_string False)"

definition StripComment :: "string \<Rightarrow> string" where
  "StripComment line = StripComment_loop line False False"

definition MakeLineSpan :: "nat \<Rightarrow> SourceSpan" where
  "MakeLineSpan line = \<lparr>span_begin = \<lparr>pos_line = line, pos_column = 1\<rparr>, span_end = \<lparr>pos_line = line, pos_column = 1\<rparr>\<rparr>"

definition ReportProjectError :: "path \<Rightarrow> nat \<Rightarrow> string \<Rightarrow> DiagnosticSink \<Rightarrow> DiagnosticSink" where
  "ReportProjectError p line message =
     Report \<lparr>diag_file_path = p, diag_span = MakeLineSpan line, diag_severity = kError, diag_message = message\<rparr>"

record SourceLine =
  sl_number :: nat
  sl_text :: string

record LogicalLines =
  ll_lines :: "SourceLine list"
  ll_pending :: "SourceLine option"
  ll_pending_bracket_depth :: int

definition key_value :: "string \<Rightarrow> (string \<times> string) option" where
  \<comment> \<open>What stands before and after the first \<open>=\<close>.\<close>
  "key_value line =
     (if CHR ''='' \<in> set line
      then Some (takeWhile (\<lambda>c. c \<noteq> CHR ''='') line, tl (dropWhile (\<lambda>c. c \<noteq> CHR ''='') line)) else None)"

definition opens_array :: "string \<Rightarrow> bool" where
  "opens_array line =
     (case key_value line of
        None \<Rightarrow> False
      | Some (_, v) \<Rightarrow>
          let value_text = Trim v in value_text \<noteq> [] \<and> hd value_text = CHR ''['' \<and> 0 < CountBracketDelta value_text)"

definition logical_line :: "nat \<times> string \<Rightarrow> LogicalLines \<Rightarrow> LogicalLines" where
  \<comment> \<open>One round of the loop; the depth of a pending line is that of its value.\<close>
  "logical_line = (\<lambda>(number, raw_line) st.
     let line = Trim (StripComment raw_line) in
     if line = [] then st
     else case ll_pending st of
         None \<Rightarrow>
           if opens_array line
           then st\<lparr>ll_pending := Some \<lparr>sl_number = number, sl_text = line\<rparr>,
             ll_pending_bracket_depth := CountBracketDelta (Trim (snd (the (key_value line))))\<rparr>
           else st\<lparr>ll_lines := ll_lines st @ [\<lparr>sl_number = number, sl_text = line\<rparr>]\<rparr>
       | Some pending \<Rightarrow>
           let pending = pending\<lparr>sl_text := sl_text pending @ '' '' @ line\<rparr>;
               depth = ll_pending_bracket_depth st + CountBracketDelta line in
           if depth \<le> 0
           then st\<lparr>ll_lines := ll_lines st @ [pending], ll_pending := None, ll_pending_bracket_depth := 0\<rparr>
           else st\<lparr>ll_pending := Some pending, ll_pending_bracket_depth := depth\<rparr>)"

definition ReadLogicalProjectLines :: "string \<Rightarrow> path \<Rightarrow> DiagnosticSink \<Rightarrow> SourceLine list \<times> DiagnosticSink" where
  "ReadLogicalProjectLines input project_path diagnostics =
     (let raw_lines = getlines newline_char input;
          st = fold logical_line (zip [1..<length raw_lines + 1] raw_lines)
            \<lparr>ll_lines = [], ll_pending = None, ll_pending_bracket_depth = 0\<rparr> in
      (ll_lines st,
       (case ll_pending st of
          None \<Rightarrow> diagnostics
        | Some pending \<Rightarrow> ReportProjectError project_path (sl_number pending) ''unterminated array value'' diagnostics)))"

section \<open>Values\<close>

fun unquote :: "string \<Rightarrow> string option" where
  \<comment> \<open>The loop of \<open>ParseQuotedString\<close> over the text between the quotes.\<close>
  "unquote [] = Some []"
| "unquote (ch # chs) =
     (if ch = backslash_char then
        (case chs of
           [] \<Rightarrow> None
         | e # rest \<Rightarrow>
             if e = CHR ''n'' then map_option ((#) newline_char) (unquote rest)
             else if e = CHR ''t'' then map_option ((#) tab_char) (unquote rest)
             else if e = backslash_char \<or> e = quote_char then map_option ((#) e) (unquote rest)
             else None)
      else map_option ((#) ch) (unquote chs))"

definition ParseQuotedString :: "string \<Rightarrow> string option" where
  "ParseQuotedString text =
     (if length text < 2 \<or> hd text \<noteq> quote_char \<or> last text \<noteq> quote_char then None
      else unquote (butlast (tl text)))"

record ArrayState =
  as_values :: "string list"
  as_current :: string
  as_in_string :: bool
  as_escape :: bool
  as_saw_value :: bool

definition array_char :: "char \<Rightarrow> ArrayState \<Rightarrow> ArrayState option" where
  \<comment> \<open>One round of the loop of \<open>ParseStringArray\<close>.\<close>
  "array_char ch st =
     (if \<not> as_in_string st then
        (if is_space_char ch then Some st
         else if ch = CHR '','' then (if \<not> as_saw_value st then None else Some (st\<lparr>as_saw_value := False\<rparr>))
         else if ch \<noteq> quote_char then None
         else Some (st\<lparr>as_current := [], as_in_string := True, as_escape := False\<rparr>))
      else if as_escape st then
        (if ch = CHR ''n'' then Some (st\<lparr>as_current := as_current st @ [newline_char], as_escape := False\<rparr>)
         else if ch = CHR ''t'' then Some (st\<lparr>as_current := as_current st @ [tab_char], as_escape := False\<rparr>)
         else if ch = backslash_char \<or> ch = quote_char then Some (st\<lparr>as_current := as_current st @ [ch], as_escape := False\<rparr>)
         else None)
      else if ch = backslash_char then Some (st\<lparr>as_escape := True\<rparr>)
      else if ch = quote_char then Some (st\<lparr>as_values := as_values st @ [as_current st], as_in_string := False, as_saw_value := True\<rparr>)
      else Some (st\<lparr>as_current := as_current st @ [ch]\<rparr>))"

fun array_chars :: "string \<Rightarrow> ArrayState \<Rightarrow> ArrayState option" where
  "array_chars [] st = Some st"
| "array_chars (ch # chs) st = (case array_char ch st of None \<Rightarrow> None | Some st \<Rightarrow> array_chars chs st)"

definition ParseStringArray :: "string \<Rightarrow> string list option" where
  "ParseStringArray text =
     (if length text < 2 \<or> hd text \<noteq> CHR ''['' \<or> last text \<noteq> CHR '']'' then None
      else case array_chars (butlast (tl text))
          \<lparr>as_values = [], as_current = [], as_in_string = False, as_escape = False, as_saw_value = False\<rparr> of
          None \<Rightarrow> None
        | Some st \<Rightarrow> if as_in_string st \<or> as_escape st then None else Some (as_values st))"

fun int_digits :: "string \<Rightarrow> int \<Rightarrow> int option" where
  \<comment> \<open>\<open>value = value * 10 + digit\<close> on \<open>int\<close>; \<open>None\<close>: the signed overflow, which is undefined.\<close>
  "int_digits [] v = Some v"
| "int_digits (ch # chs) v =
     (let next = v * 10 + int (char_code ch - 48) in if 2 ^ 31 \<le> next then None else int_digits chs next)"

definition ParseValue :: "string \<Rightarrow> ParsedValue option option" where
  \<comment> \<open>The outer \<open>None\<close> is undefined behaviour, the inner one no value.\<close>
  "ParseValue text =
     (let trimmed = Trim text in
      if trimmed = [] then Some None
      else if hd trimmed = quote_char then Some (map_option PV_kString (ParseQuotedString trimmed))
      else if hd trimmed = CHR ''['' then Some (map_option PV_kStringArray (ParseStringArray trimmed))
      else if trimmed = ''true'' \<or> trimmed = ''false'' then Some (Some (PV_kBoolean (trimmed = ''true'')))
      else
        let negative = (hd trimmed = CHR ''-''); digits = (if negative then tl trimmed else trimmed) in
        if digits \<noteq> [] \<and> list_all is_digit_char digits
        then map_option (\<lambda>v. Some (PV_kInteger (if negative then - v else v))) (int_digits digits 0)
        else Some None)"

fun table_parts :: "string \<Rightarrow> string \<Rightarrow> string list option" where
  "table_parts [] current = (if current = [] then None else Some [current])"
| "table_parts (ch # chs) current =
     (if ch = CHR ''.'' then (if current = [] then None else map_option ((#) current) (table_parts chs []))
      else if \<not> (is_alnum_char ch \<or> ch = CHR ''_'' \<or> ch = CHR ''-'') then None
      else table_parts chs (current @ [ch]))"

definition ParseTablePath :: "string \<Rightarrow> string list option" where
  "ParseTablePath text =
     (if length text < 3 \<or> hd text \<noteq> CHR ''['' \<or> last text \<noteq> CHR '']'' then None else table_parts (butlast (tl text)) [])"

section \<open>Entries\<close>

type_synonym 'a reporting = "'a \<times> DiagnosticSink"

definition kind_error :: "path \<Rightarrow> nat \<Rightarrow> string \<Rightarrow> 'a reporting \<Rightarrow> 'a reporting" where
  \<comment> \<open>The report of \<open>ExpectValueKind\<close>; the entry has no effect.\<close>
  "kind_error p line key =
     apsnd (ReportProjectError p line (''invalid value type for key '' @ [apostrophe_char] @ key @ [apostrophe_char]))"

definition with_string :: "path \<Rightarrow> nat \<Rightarrow> string \<Rightarrow> ParsedValue \<Rightarrow> (string \<Rightarrow> 'a \<Rightarrow> 'a) \<Rightarrow> 'a reporting \<Rightarrow> 'a reporting" where
  "with_string p line key v set_member =
     (case v of PV_kString t \<Rightarrow> apfst (set_member t) | _ \<Rightarrow> kind_error p line key)"

definition with_integer :: "path \<Rightarrow> nat \<Rightarrow> string \<Rightarrow> ParsedValue \<Rightarrow> (int \<Rightarrow> 'a reporting \<Rightarrow> 'a reporting) \<Rightarrow> 'a reporting \<Rightarrow> 'a reporting" where
  "with_integer p line key v act = (case v of PV_kInteger n \<Rightarrow> act n | _ \<Rightarrow> kind_error p line key)"

definition with_boolean :: "path \<Rightarrow> nat \<Rightarrow> string \<Rightarrow> ParsedValue \<Rightarrow> (bool \<Rightarrow> 'a \<Rightarrow> 'a) \<Rightarrow> 'a reporting \<Rightarrow> 'a reporting" where
  "with_boolean p line key v set_member = (case v of PV_kBoolean b \<Rightarrow> apfst (set_member b) | _ \<Rightarrow> kind_error p line key)"

definition with_array :: "path \<Rightarrow> nat \<Rightarrow> string \<Rightarrow> ParsedValue \<Rightarrow> (string list \<Rightarrow> 'a \<Rightarrow> 'a) \<Rightarrow> 'a reporting \<Rightarrow> 'a reporting" where
  "with_array p line key v set_member = (case v of PV_kStringArray ts \<Rightarrow> apfst (set_member ts) | _ \<Rightarrow> kind_error p line key)"

definition top_level_entry :: "path \<Rightarrow> nat \<Rightarrow> string \<Rightarrow> ParsedValue \<Rightarrow> ProjectFile reporting \<Rightarrow> ProjectFile reporting" where
  "top_level_entry p line key v =
     (if key = ''schema'' then with_integer p line key v
        (\<lambda>n. if n \<noteq> 1 then apsnd (ReportProjectError p line ''unsupported build.toml schema version'') else id)
      else if key = ''project'' then with_string p line key v (\<lambda>t project. project\<lparr>pf_project_name := t\<rparr>)
      else if key = ''default'' then with_string p line key v (\<lambda>t project. project\<lparr>pf_default_target := Some t\<rparr>)
      else if key = ''build_dir'' then with_string p line key v (\<lambda>t project. project\<lparr>pf_build_dir := t\<rparr>)
      else apsnd (ReportProjectError p line (''unknown top-level key: '' @ key)))"

definition LookupTarget :: "string \<Rightarrow> path \<Rightarrow> nat \<Rightarrow> ProjectFile reporting \<Rightarrow> ProjectTarget option \<times> ProjectFile reporting" where
  \<comment> \<open>The target, which is in the project from then on.\<close>
  "LookupTarget target_name p line = (\<lambda>(project, diagnostics).
     if target_name = [] then (None, project, ReportProjectError p line ''target section is missing a target name'' diagnostics)
     else case map_of (pf_targets project) target_name of
         Some t \<Rightarrow> (Some t, project, diagnostics)
       | None \<Rightarrow>
           let t = new_ProjectTarget\<lparr>pt_name := target_name\<rparr> in
           (Some t, project\<lparr>pf_targets := AList.update target_name t (pf_targets project)\<rparr>, diagnostics))"

definition LookupTargetModuleSet :: "string \<Rightarrow> ProjectTarget \<Rightarrow> ProjectModuleSet" where
  \<comment> \<open>The set, new when there is none; the caller puts it into the target.\<close>
  "LookupTargetModuleSet module_name t =
     (case map_of (pt_module_sets t) module_name of
        Some s \<Rightarrow> s
      | None \<Rightarrow> \<lparr>ms_module_name = module_name, ms_files = [], ms_files_line = 0\<rparr>)"

definition target_entry :: "path \<Rightarrow> nat \<Rightarrow> string \<Rightarrow> ParsedValue \<Rightarrow> ProjectTarget reporting \<Rightarrow> ProjectTarget reporting" where
  \<comment> \<open>\<open>[targets.<name>]\<close>\<close>
  "target_entry p line key v =
     (if key = ''kind'' then with_string p line key v (\<lambda>t target. target\<lparr>pt_kind := t\<rparr>)
      else if key = ''package'' then with_string p line key v (\<lambda>t target. target\<lparr>pt_package_name := t\<rparr>)
      else if key = ''root'' then with_string p line key v (\<lambda>t target. target\<lparr>pt_root := t\<rparr>)
      else if key = ''mode'' then with_string p line key v (\<lambda>t target. target\<lparr>pt_mode := t\<rparr>)
      else if key = ''env'' then with_string p line key v (\<lambda>t target. target\<lparr>pt_env := t\<rparr>)
      else if key = ''target'' then with_string p line key v (\<lambda>t target. target\<lparr>pt_target := t\<rparr>)
      else if key = ''links'' then with_array p line key v (\<lambda>ts target. target\<lparr>pt_links := ts\<rparr>)
      else apsnd (ReportProjectError p line (''unknown target key: '' @ key)))"

definition tests_entry :: "path \<Rightarrow> nat \<Rightarrow> string \<Rightarrow> ParsedValue \<Rightarrow> ProjectTarget reporting \<Rightarrow> ProjectTarget reporting" where
  \<comment> \<open>\<open>[targets.<name>.tests]\<close>\<close>
  "tests_entry p line key v =
     (let set_tests = (\<lambda>f target. target\<lparr>pt_tests := f (pt_tests target)\<rparr>) in
      if key = ''enabled'' then with_boolean p line key v (\<lambda>b. set_tests (tt_enabled_update (\<lambda>_. b)))
      else if key = ''roots'' then with_array p line key v (\<lambda>ts. set_tests (tt_roots_update (\<lambda>_. ts)))
      else if key = ''mode'' then with_string p line key v (\<lambda>t. set_tests (tt_mode_update (\<lambda>_. t)))
      else if key = ''timeout_ms'' then with_integer p line key v (\<lambda>n. apfst (set_tests (tt_timeout_ms_update (\<lambda>_. Some n))))
      else apsnd (ReportProjectError p line (''unknown tests key: '' @ key)))"

definition single_key :: "string \<Rightarrow> string \<Rightarrow> path \<Rightarrow> nat \<Rightarrow> string \<Rightarrow> ('a reporting \<Rightarrow> 'a reporting) \<Rightarrow> 'a reporting \<Rightarrow> 'a reporting" where
  \<comment> \<open>The tables that know one key.\<close>
  "single_key table expected p line key act =
     (if key \<noteq> expected then apsnd (ReportProjectError p line (''unknown '' @ table @ '' key: '' @ key)) else act)"

definition nested_entry :: "path \<Rightarrow> nat \<Rightarrow> string list \<Rightarrow> string \<Rightarrow> ParsedValue \<Rightarrow> ProjectTarget reporting \<Rightarrow> ProjectTarget reporting" where
  \<comment> \<open>The tables below a target: the parts of the header after its name.\<close>
  "nested_entry p line tables key v =
     (case tables of
        [] \<Rightarrow> target_entry p line key v
      | [table] \<Rightarrow>
          if table = ''search_paths'' then single_key ''search_paths'' ''modules'' p line key
            (with_array p line key v (\<lambda>ts target. target\<lparr>pt_module_search_paths := ts\<rparr>))
          else if table = ''runtime'' then single_key ''runtime'' ''startup'' p line key
            (with_string p line key v (\<lambda>t target. target\<lparr>pt_runtime_startup := t\<rparr>))
          else if table = ''link'' then single_key ''link'' ''inputs'' p line key
            (with_array p line key v (\<lambda>ts target. target\<lparr>pt_link_inputs := ts\<rparr>))
          else if table = ''tests'' then tests_entry p line key v
          else apsnd (ReportProjectError p line ''unsupported nested table in project file'')
      | [table, name] \<Rightarrow>
          if table = ''packages'' then single_key ''packages'' ''roots'' p line key
            (with_array p line key v (\<lambda>ts target. target\<lparr>pt_package_roots := AList.update name ts (pt_package_roots target)\<rparr>))
          else if table = ''module_sets'' then single_key ''module_sets'' ''files'' p line key
            (with_array p line key v (\<lambda>ts target. target\<lparr>pt_module_sets := AList.update name
               ((LookupTargetModuleSet name target)\<lparr>ms_files := ts, ms_files_line := line\<rparr>) (pt_module_sets target)\<rparr>))
          else apsnd (ReportProjectError p line ''unsupported nested table in project file'')
      | _ \<Rightarrow> apsnd (ReportProjectError p line ''unsupported nested table in project file''))"

definition section_entry :: "path \<Rightarrow> nat \<Rightarrow> string list \<Rightarrow> nat \<Rightarrow> string \<Rightarrow> ParsedValue \<Rightarrow> ProjectFile reporting \<Rightarrow> ProjectFile reporting" where
  \<comment> \<open>An entry of the table with the given header. The changes of the target are those of the one in the project.\<close>
  "section_entry p line header header_line key v st =
     (case header of
        [] \<Rightarrow> top_level_entry p line key v st
      | [_] \<Rightarrow> apsnd (ReportProjectError p line ''unsupported table path in project file'') st
      | root # name # tables \<Rightarrow>
          if root \<noteq> ''targets'' then apsnd (ReportProjectError p line ''unsupported table path in project file'') st
          else case LookupTarget name p line st of
              (None, st) \<Rightarrow> st
            | (Some t, project, diagnostics) \<Rightarrow>
                let t = (if pt_decl_line t = 0 then t\<lparr>pt_decl_line := header_line\<rparr> else t);
                    (t, diagnostics) = nested_entry p line tables key v (t, diagnostics) in
                (project\<lparr>pf_targets := AList.update name t (pf_targets project)\<rparr>, diagnostics))"

record LoadProjectState =
  lp_project :: ProjectFile
  lp_header :: "string list"
  lp_header_line :: nat
  lp_diagnostics :: DiagnosticSink

definition project_line :: "path \<Rightarrow> SourceLine \<Rightarrow> LoadProjectState \<Rightarrow> LoadProjectState option" where
  \<comment> \<open>One round of the loop over the lines, which are not empty.\<close>
  "project_line p source_line st =
     (let number = sl_number source_line; line = sl_text source_line;
          error = (\<lambda>message. Some (st\<lparr>lp_diagnostics := ReportProjectError p number message (lp_diagnostics st)\<rparr>)) in
      if line = [] then Some st
      else if hd line = CHR ''['' then
        (case ParseTablePath line of
           None \<Rightarrow> error ''invalid table header''
         | Some header \<Rightarrow> Some (st\<lparr>lp_header := header, lp_header_line := number\<rparr>))
      else case key_value line of
          None \<Rightarrow> error (''expected '' @ [apostrophe_char] @ ''key = value'' @ [apostrophe_char] @ '' entry'')
        | Some (k, v) \<Rightarrow>
            (case ParseValue v of
               None \<Rightarrow> None
             | Some None \<Rightarrow> error ''invalid project entry''
             | Some (Some parsed_value) \<Rightarrow>
                 if Trim k = [] then error ''invalid project entry''
                 else let (project, diagnostics) = section_entry p number (lp_header st) (lp_header_line st) (Trim k) parsed_value
                        (lp_project st, lp_diagnostics st) in
                   Some (st\<lparr>lp_project := project, lp_diagnostics := diagnostics\<rparr>)))"

fun project_lines :: "path \<Rightarrow> SourceLine list \<Rightarrow> LoadProjectState \<Rightarrow> LoadProjectState option" where
  "project_lines p [] st = Some st"
| "project_lines p (l # ls) st = (case project_line p l st of None \<Rightarrow> None | Some st \<Rightarrow> project_lines p ls st)"

section \<open>Checks of a target\<close>

definition project_report :: "DiagnosticSeverity \<Rightarrow> path \<Rightarrow> SourceSpan \<Rightarrow> string \<Rightarrow> Diagnostic" where
  "project_report severity p span message =
     \<lparr>diag_file_path = p, diag_span = span, diag_severity = severity, diag_message = message\<rparr>"

definition error_if :: "bool \<Rightarrow> path \<Rightarrow> SourceSpan \<Rightarrow> string \<Rightarrow> Diagnostic list" where
  "error_if c p span message = (if c then [project_report kError p span message] else [])"

abbreviation quoted :: "string \<Rightarrow> string" where
  "quoted t \<equiv> [apostrophe_char] @ t @ [apostrophe_char]"

definition ReportBootstrapTargetNotes :: "TargetConfig \<Rightarrow> path \<Rightarrow> string \<Rightarrow> Diagnostic list" where
  "ReportBootstrapTargetNotes config p target_name =
     [project_report kNote p kDefaultSourceSpan (''supported bootstrap targets: '' @ JoinBootstrapTargetChoices config),
      project_report kNote p kDefaultSourceSpan
        (''set [targets.'' @ target_name @ ''] target = '' @ [quote_char] @ tc_triple config @ [quote_char] @
         (if tc_target_family config \<noteq> [] \<and> tc_target_family config \<noteq> tc_triple config
          then '' or '' @ [quote_char] @ tc_target_family config @ [quote_char] else []) @
         '' in build.toml'')]"

fun first_duplicate :: "filesystem \<Rightarrow> string set \<Rightarrow> path list \<Rightarrow> string option" where
  "first_duplicate fs seen [] = None"
| "first_duplicate fs seen (p # ps) =
     (let normalized = fs_lexically_normal fs p in
      if normalized \<in> seen then Some normalized else first_duplicate fs (insert normalized seen) ps)"

definition ReportDuplicateConfiguredPaths :: "filesystem \<Rightarrow> path \<Rightarrow> string \<Rightarrow> string \<Rightarrow> path list \<Rightarrow> Diagnostic list" where
  "ReportDuplicateConfiguredPaths fs project_path target_name label paths =
     (case first_duplicate fs {} paths of
        None \<Rightarrow> []
      | Some normalized \<Rightarrow> [project_report kError project_path kDefaultSourceSpan
          (''target '' @ quoted target_name @ '' declares duplicate '' @ label @ '': '' @ normalized)])"

definition in_root :: "filesystem \<Rightarrow> ProjectFile \<Rightarrow> path \<Rightarrow> path" where
  "in_root fs project p = fs_absolute_normal fs (path_append (pf_root_dir project) p)"

definition settled_module_set :: "filesystem \<Rightarrow> ProjectFile \<Rightarrow> ProjectModuleSet \<Rightarrow> ProjectModuleSet" where
  \<comment> \<open>\<open>std::sort\<close> by the text of the paths.\<close>
  "settled_module_set fs project s =
     (if ms_files s = [] then s else s\<lparr>ms_files := sort (map (in_root fs project) (ms_files s))\<rparr>)"

definition settled_target :: "filesystem \<Rightarrow> ProjectFile \<Rightarrow> string \<Rightarrow> ProjectTarget \<Rightarrow> ProjectTarget" where
  \<comment> \<open>What the loop over the targets assigns.\<close>
  "settled_target fs project name t =
     (let absolute = in_root fs project in
      t\<lparr>pt_root := (if pt_root t = [] then [] else absolute (pt_root t)),
        pt_package_name := (if pt_package_name t = [] then name else pt_package_name t),
        pt_link_inputs := map absolute (pt_link_inputs t),
        pt_module_search_paths := map absolute (pt_module_search_paths t),
        pt_package_roots := map (apsnd (map absolute)) (pt_package_roots t),
        pt_module_sets := map (apsnd (settled_module_set fs project)) (pt_module_sets t),
        pt_tests := tt_roots_update (map absolute) (pt_tests t)\<rparr>)"

definition runtime_reports :: "driver_env \<Rightarrow> path \<Rightarrow> SourceSpan \<Rightarrow> string \<Rightarrow> ProjectTarget \<Rightarrow> Diagnostic list" where
  "runtime_reports env p span name t =
     (if pt_env t = ''hosted'' then
        error_if (pt_runtime_startup t \<noteq> ''default'') p span
          (''target '' @ quoted name @ '' uses unsupported hosted runtime startup: '' @ pt_runtime_startup t)
      else if pt_env t = ''freestanding'' then
        (if pt_target t = [] then
           project_report kError p span (''target '' @ quoted name @ '' must declare an explicit freestanding target'') #
           ReportBootstrapTargetNotes (de_config env) p name
         else []) @
        (if pt_runtime_startup t = ''default'' then
           [project_report kError p span (''target '' @ quoted name @ '' must declare an explicit freestanding runtime startup'')]
         else error_if (\<not> IsPlainStartupName (pt_runtime_startup t)) p span
           (''target '' @ quoted name @ '' uses invalid freestanding runtime startup name: '' @ pt_runtime_startup t))
      else [])"

definition package_reports :: "filesystem \<Rightarrow> path \<Rightarrow> SourceSpan \<Rightarrow> string \<Rightarrow> string \<times> path list \<Rightarrow> Diagnostic list" where
  \<comment> \<open>One round of the loop over the packages, with absolute roots.\<close>
  "package_reports fs p span name = (\<lambda>(package_name, roots).
     error_if (package_name = []) p span (''target '' @ quoted name @ '' declares an empty package identity'') @
     ReportDuplicateConfiguredPaths fs p name ''package root'' roots)"

definition module_set_reports ::
  "driver_env \<Rightarrow> ProjectFile \<Rightarrow> SourceSpan \<Rightarrow> string \<Rightarrow> string \<times> ProjectModuleSet \<Rightarrow> Diagnostic list" where
  \<comment> \<open>One round of the loop over the module sets, which are as written.\<close>
  "module_set_reports env project span name = (\<lambda>(module_name, s).
     let p = pf_path project; files = map (in_root (de_fs env) project) (ms_files s) in
     error_if (module_name = ''internal'') p span
       (''target '' @ quoted name @ '' may not declare multi-file module set '' @ quoted ''internal'' @
        ''; multi-file internal modules remain deferred'') @
     (if ms_files s = [] then
        [project_report kError p span (''target '' @ quoted name @ '' declares module set '' @ quoted module_name @ '' with no files'')]
      else
        concat (map (\<lambda>file. error_if (IsInternalModulePath file) p span
          (''target '' @ quoted name @ '' module set '' @ quoted module_name @ '' includes internal module source '' @ quoted file @
           ''; multi-file internal modules remain deferred'')) files) @
        ReportDuplicateConfiguredPaths (de_fs env) p name (''module set '' @ quoted module_name @ '' file'') (sort files)))"

fun package_owner_reports ::
  "path \<Rightarrow> SourceSpan \<Rightarrow> string \<Rightarrow> (string \<times> string) list \<Rightarrow> (string \<rightharpoonup> string) \<Rightarrow> Diagnostic list" where
  \<comment> \<open>\<open>owned_package_roots\<close>: over the pairs of a root and its package.\<close>
  "package_owner_reports p span name [] owned = []"
| "package_owner_reports p span name ((root, package_name) # rest) owned =
     (case owned root of
        None \<Rightarrow> package_owner_reports p span name rest (owned(root \<mapsto> package_name))
      | Some owner \<Rightarrow>
          error_if (owner \<noteq> package_name) p span
            (''target '' @ quoted name @ '' assigns source root '' @ quoted root @ '' to multiple package identities: '' @
             quoted owner @ '' and '' @ quoted package_name) @
          package_owner_reports p span name rest owned)"

fun file_owner_reports ::
  "path \<Rightarrow> string \<Rightarrow> (string \<times> string \<times> nat) list \<Rightarrow> (string \<rightharpoonup> string \<times> nat) \<Rightarrow> Diagnostic list \<times> (string \<rightharpoonup> string \<times> nat)" where
  \<comment> \<open>\<open>owned_module_set_files\<close>: over the triples of a file, its module and the line of the set.\<close>
  "file_owner_reports p name [] owned = ([], owned)"
| "file_owner_reports p name ((file, module_name, files_line) # rest) owned =
     (case owned file of
        None \<Rightarrow> file_owner_reports p name rest (owned(file \<mapsto> (module_name, files_line)))
      | Some (owner, owner_line) \<Rightarrow>
          let later = owner_line \<le> files_line;
              first_owner = (if later then owner else module_name); second_owner = (if later then module_name else owner);
              second_line = (if later then files_line else owner_line);
              (reports, owned) = file_owner_reports p name rest owned in
          (error_if (owner \<noteq> module_name) p (MakeLineSpan (if second_line = 0 then 1 else second_line))
             (''target '' @ quoted name @ '' assigns source file '' @ quoted file @ '' to multiple module sets: '' @
              quoted first_owner @ '' and '' @ quoted second_owner) @ reports, owned))"

definition entry_reports ::
  "filesystem \<Rightarrow> path \<Rightarrow> SourceSpan \<Rightarrow> string \<Rightarrow> ProjectTarget \<Rightarrow> (string \<rightharpoonup> string \<times> nat) \<Rightarrow> Diagnostic list" where
  \<comment> \<open>The root and the module sets, of the settled target.\<close>
  "entry_reports fs p span name t owned =
     (let entry_module_name = path_stem (pt_root t); root_key = fs_lexically_normal fs (pt_root t) in
      (case map_of (pt_module_sets t) entry_module_name of
         None \<Rightarrow> []
       | Some s \<Rightarrow> error_if (root_key \<notin> fs_lexically_normal fs ` set (ms_files s)) p span
           (''target '' @ quoted name @ '' declares entry module set '' @ quoted entry_module_name @
            '' but does not include root source '' @ quoted root_key)) @
      (case owned root_key of
         None \<Rightarrow> []
       | Some (owner, _) \<Rightarrow> error_if (owner \<noteq> entry_module_name) p span
           (''target '' @ quoted name @ '' root source '' @ quoted (pt_root t) @ '' belongs to module set '' @ quoted owner @
            ''; the root source may only participate in entry module set '' @ quoted entry_module_name)))"

definition target_reports :: "driver_env \<Rightarrow> ProjectFile \<Rightarrow> string \<times> ProjectTarget \<Rightarrow> Diagnostic list" where
  \<comment> \<open>One round of the loop over the targets, with the target as written.\<close>
  "target_reports env project = (\<lambda>(name, t).
     let fs = de_fs env; p = pf_path project; span = MakeLineSpan (if pt_decl_line t = 0 then 1 else pt_decl_line t);
         settled = settled_target fs project name t;
         (owner_reports, owned) = file_owner_reports p name
           (concat (map (\<lambda>(module_name, s). map (\<lambda>file. (fs_lexically_normal fs file, module_name, ms_files_line s)) (ms_files s))
             (visited_entries env (pt_module_sets settled)))) Map.empty in
     error_if (\<not> IsSupportedBootstrapTargetKind (pt_kind t)) p span
       (''target '' @ quoted name @ '' uses unsupported bootstrap target kind: '' @ pt_kind t) @
     error_if (pt_root t = []) p span (''target '' @ quoted name @ '' is missing required key: root'') @
     error_if (\<not> IsSupportedMode (pt_mode t)) p span (''target '' @ quoted name @ '' uses unsupported build mode: '' @ pt_mode t) @
     error_if (\<not> IsSupportedBootstrapEnv (pt_env t)) p span
       (''target '' @ quoted name @ '' uses unsupported bootstrap environment: '' @ pt_env t) @
     runtime_reports env p span name t @
     error_if (pt_link_inputs t \<noteq> [] \<and> \<not> IsExecutableTargetKind (pt_kind t)) p span
       (''target '' @ quoted name @ '' may only declare link.inputs on executable targets'') @
     concat (map (package_reports fs p span name) (visited_entries env (pt_package_roots settled))) @
     ReportDuplicateConfiguredPaths fs p name ''link input'' (pt_link_inputs settled) @
     ReportDuplicateConfiguredPaths fs p name ''module search path'' (pt_module_search_paths settled) @
     concat (map (module_set_reports env project span name) (visited_entries env (pt_module_sets t))) @
     ReportDuplicateConfiguredPaths fs p name ''test root'' (tt_roots (pt_tests settled)) @
     package_owner_reports p span name
       (concat (map (\<lambda>(package_name, roots). map (\<lambda>root. (fs_lexically_normal fs root, package_name)) roots)
         (visited_entries env (pt_package_roots settled)))) Map.empty @
     owner_reports @
     entry_reports fs p span name settled owned @
     error_if (\<not> IsSupportedMode (tt_mode (pt_tests t))) p span
       (''target '' @ quoted name @ '' tests use unsupported build mode: '' @ tt_mode (pt_tests t)))"

fun root_reports :: "filesystem \<Rightarrow> path \<Rightarrow> (string \<times> ProjectTarget) list \<Rightarrow> (string \<rightharpoonup> string) \<Rightarrow> Diagnostic list" where
  \<comment> \<open>\<open>root_to_target\<close>\<close>
  "root_reports fs p [] roots = []"
| "root_reports fs p ((name, t) # rest) roots =
     (let normalized_root = fs_lexically_normal fs (pt_root t) in
      if pt_root t = [] then root_reports fs p rest roots
      else case roots normalized_root of
          None \<Rightarrow> root_reports fs p rest (roots(normalized_root \<mapsto> name))
        | Some other \<Rightarrow>
            project_report kError p kDefaultSourceSpan (''targets '' @ quoted other @ '' and '' @ quoted name @
              '' declare the same root module: '' @ normalized_root) # root_reports fs p rest roots)"

definition settled_project :: "filesystem \<Rightarrow> ProjectFile \<Rightarrow> ProjectFile" where
  "settled_project fs project =
     project\<lparr>pf_targets := map (\<lambda>(name, t). (name, settled_target fs project name t)) (pf_targets project),
       pf_build_dir := in_root fs project (pf_build_dir project)\<rparr>"

definition project_reports :: "driver_env \<Rightarrow> ProjectFile \<Rightarrow> Diagnostic list" where
  \<comment> \<open>Everything after the loop over the lines.\<close>
  "project_reports env project =
     (let p = pf_path project; settled = settled_project (de_fs env) project in
      error_if (pf_project_name project = []) p kDefaultSourceSpan ''project file is missing required top-level key: project'' @
      error_if (pf_targets project = []) p kDefaultSourceSpan ''project file does not define any targets'' @
      concat (map (target_reports env project) (visited_entries env (pf_targets project))) @
      root_reports (de_fs env) p (visited_entries env (pf_targets settled)) Map.empty @
      (case pf_default_target project of
         None \<Rightarrow> []
       | Some default_target \<Rightarrow> error_if (default_target \<notin> fst ` set (pf_targets project)) p kDefaultSourceSpan
           (''project default target is not defined: '' @ default_target)))"

definition LoadProjectFile :: "driver_env \<Rightarrow> string option \<Rightarrow> path \<Rightarrow> DiagnosticSink \<Rightarrow> (ProjectFile option \<times> DiagnosticSink) option" where
  \<comment> \<open>The content of the file, \<open>None\<close> when it cannot be read. The result is \<open>None\<close> for undefined behaviour.\<close>
  "LoadProjectFile env content p diagnostics =
     (let fs = de_fs env; project_path = fs_absolute_normal fs p in
      case content of
        None \<Rightarrow> Some (None, Report (project_report kError project_path kDefaultSourceSpan ''unable to read project file'') diagnostics)
      | Some text \<Rightarrow>
          let start = new_ProjectFile\<lparr>pf_path := project_path, pf_root_dir := path_parent project_path\<rparr>;
              (lines, diagnostics) = ReadLogicalProjectLines text project_path diagnostics in
          map_option (\<lambda>st.
              let diagnostics = fold Report (project_reports env (lp_project st)) (lp_diagnostics st) in
              (if HasErrors diagnostics then None else Some (settled_project fs (lp_project st)), diagnostics))
            (project_lines project_path lines
              \<lparr>lp_project = start, lp_header = [], lp_header_line = 0, lp_diagnostics = diagnostics\<rparr>))"

section \<open>Use of a project\<close>

definition SortedTargetNames :: "ProjectFile \<Rightarrow> string list" where
  "SortedTargetNames project = sort (map fst (pf_targets project))"

definition JoinSortedNames :: "string list \<Rightarrow> string" where
  "JoinSortedNames names = join_with '', '' names"

definition ReportTargetSelectionNotes :: "ProjectFile \<Rightarrow> DiagnosticSink \<Rightarrow> DiagnosticSink" where
  "ReportTargetSelectionNotes project diagnostics =
     fold Report
       [project_report kNote (pf_path project) kDefaultSourceSpan (''available targets: '' @ JoinSortedNames (SortedTargetNames project)),
        project_report kNote (pf_path project) kDefaultSourceSpan ''pass --target <name> to select one target explicitly'']
       diagnostics"

definition SelectProjectTarget ::
  "driver_env \<Rightarrow> ProjectFile \<Rightarrow> string option \<Rightarrow> DiagnosticSink \<Rightarrow> (ProjectTarget option \<times> DiagnosticSink) option" where
  \<comment> \<open>\<open>None\<close>: the exception of \<open>targets.at\<close>.\<close>
  "SelectProjectTarget env project explicit_target diagnostics =
     (let p = pf_path project; available = JoinSortedNames (SortedTargetNames project);
          error = (\<lambda>message. Some (None :: ProjectTarget option, ReportTargetSelectionNotes project
            (Report (project_report kError p kDefaultSourceSpan message) diagnostics))) in
      case explicit_target of
        Some name \<Rightarrow>
          (case map_of (pf_targets project) name of
             Some t \<Rightarrow> Some (Some t, diagnostics)
           | None \<Rightarrow> error (''unknown target in project file: '' @ name @ ''; available targets: '' @ available))
      | None \<Rightarrow>
          (case pf_default_target project of
             Some name \<Rightarrow> map_option (\<lambda>t. (Some t, diagnostics)) (map_of (pf_targets project) name)
           | None \<Rightarrow>
               if length (pf_targets project) = 1 then Some (Some (snd (hd (visited_entries env (pf_targets project)))), diagnostics)
               else error (''project file does not declare a default target; available targets: '' @ available @
                 ''; pass --target <name>'')))"

fun distinct_normal :: "filesystem \<Rightarrow> path list \<Rightarrow> path list \<Rightarrow> path list" where
  \<comment> \<open>The calls of \<open>append\<close> in \<open>ComputeProjectImportRoots\<close>; the roots are what has been seen.\<close>
  "distinct_normal fs [] roots = roots"
| "distinct_normal fs (r # rest) roots =
     (let normalized = fs_absolute_normal fs r in
      distinct_normal fs rest (if normalized \<in> set roots then roots else roots @ [normalized]))"

definition ComputeProjectImportRoots :: "filesystem \<Rightarrow> ProjectTarget \<Rightarrow> path list \<Rightarrow> path list" where
  "ComputeProjectImportRoots fs t cli_import_roots =
     distinct_normal fs (cli_import_roots @ pt_module_search_paths t @
       (if pt_module_search_paths t = [] \<and> pt_root t \<noteq> [] then [path_parent (pt_root t)] else [])) []"

definition LookupProjectModuleSet :: "ProjectTarget \<Rightarrow> string \<Rightarrow> ProjectModuleSet option" where
  "LookupProjectModuleSet t module_name = map_of (pt_module_sets t) module_name"

definition FindProjectModuleSetForSource :: "driver_env \<Rightarrow> ProjectTarget \<Rightarrow> path \<Rightarrow> ProjectModuleSet option" where
  "FindProjectModuleSetForSource env t source_path =
     (let fs = de_fs env; normalized = fs_absolute_normal fs source_path in
      map_option snd (find (\<lambda>(_, s). normalized \<in> fs_lexically_normal fs ` set (ms_files s)) (visited_entries env (pt_module_sets t))))"

fun deepest :: "(nat \<times> 'a) list \<Rightarrow> (nat \<times> 'a) option \<Rightarrow> (nat \<times> 'a) option" where
  \<comment> \<open>The first of those with the greatest depth.\<close>
  "deepest [] best = best"
| "deepest ((depth, x) # rest) best =
     deepest rest (case best of None \<Rightarrow> Some (depth, x)
       | Some (best_depth, _) \<Rightarrow> if best_depth < depth then Some (depth, x) else best)"

definition ResolveTargetPackageIdentity :: "driver_env \<Rightarrow> ProjectTarget \<Rightarrow> path \<Rightarrow> string option" where
  "ResolveTargetPackageIdentity env t source_path =
     (case deepest (concat (map (\<lambda>(package_name, roots).
          map (\<lambda>root. (length (path_components root), package_name))
            (filter (IsPathWithinRoot (de_fs env) source_path) roots))
        (visited_entries env (pt_package_roots t)))) None of
        Some (_, package_name) \<Rightarrow> Some package_name
      | None \<Rightarrow> if pt_package_name t \<noteq> [] then Some (pt_package_name t) else None)"

definition source_package :: "string \<Rightarrow> filesystem \<Rightarrow> path \<Rightarrow> path list \<Rightarrow> string" where
  "source_package prefix fs source_path import_roots =
     prefix @ (case deepest (map (\<lambda>root. (length (path_components root), root))
         (map (fs_absolute_normal fs) (filter (IsPathWithinRoot fs source_path) import_roots))) None of
        Some (_, root) \<Rightarrow> root
      | None \<Rightarrow> path_parent (fs_absolute_normal fs source_path))"

definition ResolveDirectSourcePackageIdentity :: "filesystem \<Rightarrow> path \<Rightarrow> path list \<Rightarrow> string option" where
  "ResolveDirectSourcePackageIdentity fs source_path import_roots = Some (source_package ''direct:'' fs source_path import_roots)"

definition ResolveExternalSourcePackageIdentity :: "filesystem \<Rightarrow> path \<Rightarrow> path list \<Rightarrow> string option" where
  "ResolveExternalSourcePackageIdentity fs source_path import_roots = Some (source_package ''external:'' fs source_path import_roots)"

end
