(* ===== verification/MC_Spans.thy ===== *)
theory MC_Spans
  imports MC_Ast
begin

text \<open>
  The functions of \<open>driver/build_graph.cpp\<close> that move the spans of a tree down by a number of lines, so that the parts of a
  module that lies in several files have spans of their own.
\<close>

definition OffsetPosition :: "nat \<Rightarrow> SourcePosition \<Rightarrow> SourcePosition" where
  "OffsetPosition n p = p\<lparr>pos_line := pos_line p + n\<rparr>"

definition OffsetSpan :: "nat \<Rightarrow> SourceSpan \<Rightarrow> SourceSpan" where
  "OffsetSpan n s =
     (if n = 0 then s else \<lparr>span_begin = OffsetPosition n (span_begin s), span_end = OffsetPosition n (span_end s)\<rparr>)"

primrec OffsetTypeExprSpans :: "nat \<Rightarrow> TypeExpr \<Rightarrow> TypeExpr"
  and OffsetFieldInitSpans :: "nat \<Rightarrow> FieldInit \<Rightarrow> FieldInit"
  and OffsetExprSpans :: "nat \<Rightarrow> Expr \<Rightarrow> Expr" where
  "OffsetTypeExprSpans n (mk_TypeExpr s k nm args inner len params returns) =
     mk_TypeExpr (OffsetSpan n s) k nm (map (map_option (OffsetTypeExprSpans n)) args) (map_option (OffsetTypeExprSpans n) inner)
       (map_option (OffsetExprSpans n) len) (map (map_option (OffsetTypeExprSpans n)) params)
       (map (map_option (OffsetTypeExprSpans n)) returns)"
| "OffsetFieldInitSpans n (mk_FieldInit s has_name nm path v) =
     mk_FieldInit (OffsetSpan n s) has_name nm path (map_option (OffsetExprSpans n) v)"
| "OffsetExprSpans n (mk_Expr s k t t2 iv fv targs target bare args inits l r x) =
     mk_Expr (OffsetSpan n s) k t t2 iv fv (map (map_option (OffsetTypeExprSpans n)) targs) (map_option (OffsetTypeExprSpans n) target)
       bare (map (OffsetExprSpans n) args) (map (OffsetFieldInitSpans n) inits) (map_option (OffsetExprSpans n) l)
       (map_option (OffsetExprSpans n) r) (map_option (OffsetExprSpans n) x)"

definition OffsetNamePatternSpans :: "nat \<Rightarrow> NamePattern \<Rightarrow> NamePattern" where
  "OffsetNamePatternSpans n p = p\<lparr>np_span := OffsetSpan n (np_span p)\<rparr>"

definition OffsetCasePatternSpans :: "nat \<Rightarrow> CasePattern \<Rightarrow> CasePattern" where
  "OffsetCasePatternSpans n p =
     p\<lparr>cp_span := OffsetSpan n (cp_span p), cp_expr := map_option (OffsetExprSpans n) (cp_expr p)\<rparr>"

definition when_flag :: "bool \<Rightarrow> 'a \<Rightarrow> 'a \<Rightarrow> 'a" where
  \<comment> \<open>The change is made under the flag.\<close>
  "when_flag b unchanged changed = (if b then changed else unchanged)"

primrec OffsetStmtSpans :: "nat \<Rightarrow> Stmt \<Rightarrow> Stmt"
  and OffsetSwitchCaseSpans :: "nat \<Rightarrow> SwitchCase \<Rightarrow> SwitchCase"
  and OffsetDefaultCaseSpans :: "nat \<Rightarrow> DefaultCase \<Rightarrow> DefaultCase" where
  "OffsetStmtSpans n (mk_Stmt s k ss pat ann es targets vals init cases has_default dc l1 l2 th el) =
     mk_Stmt (OffsetSpan n s) k (map (OffsetStmtSpans n) ss) (OffsetNamePatternSpans n pat) (map_option (OffsetTypeExprSpans n) ann)
       (map (OffsetExprSpans n) es) (map (OffsetExprSpans n) targets) (map (OffsetExprSpans n) vals) init
       (map (OffsetSwitchCaseSpans n) cases) has_default
       (when_flag has_default dc (map_option (OffsetDefaultCaseSpans n) dc)) l1 l2
       (map_option (OffsetStmtSpans n) th) (map_option (OffsetStmtSpans n) el)"
| "OffsetSwitchCaseSpans n (mk_SwitchCase s pat ss) =
     \<comment> \<open>The span of the case itself is left as it is.\<close>
     mk_SwitchCase s (OffsetCasePatternSpans n pat) (map (OffsetStmtSpans n) ss)"
| "OffsetDefaultCaseSpans n (mk_DefaultCase s ss) = mk_DefaultCase (OffsetSpan n s) (map (OffsetStmtSpans n) ss)"

definition OffsetAttributeArgSpans :: "nat \<Rightarrow> AttributeArg \<Rightarrow> AttributeArg" where
  "OffsetAttributeArgSpans n a = a\<lparr>aa_span := OffsetSpan n (aa_span a)\<rparr>"

definition OffsetAttributeSpans :: "nat \<Rightarrow> Attribute \<Rightarrow> Attribute" where
  "OffsetAttributeSpans n a =
     a\<lparr>at_span := OffsetSpan n (at_span a), at_args := map (OffsetAttributeArgSpans n) (at_args a)\<rparr>"

definition OffsetFieldDeclSpans :: "nat \<Rightarrow> FieldDecl \<Rightarrow> FieldDecl" where
  "OffsetFieldDeclSpans n f =
     f\<lparr>fd_span := OffsetSpan n (fd_span f), fd_type := map_option (OffsetTypeExprSpans n) (fd_type f)\<rparr>"

definition OffsetEnumVariantDeclSpans :: "nat \<Rightarrow> EnumVariantDecl \<Rightarrow> EnumVariantDecl" where
  "OffsetEnumVariantDeclSpans n v =
     v\<lparr>ev_span := OffsetSpan n (ev_span v), ev_payload_fields := map (OffsetFieldDeclSpans n) (ev_payload_fields v)\<rparr>"

definition OffsetParamDeclSpans :: "nat \<Rightarrow> ParamDecl \<Rightarrow> ParamDecl" where
  "OffsetParamDeclSpans n p =
     p\<lparr>pa_span := OffsetSpan n (pa_span p), pa_attributes := map (OffsetAttributeSpans n) (pa_attributes p),
       pa_type := map_option (OffsetTypeExprSpans n) (pa_type p)\<rparr>"

definition OffsetDeclSpans :: "nat \<Rightarrow> Decl \<Rightarrow> Decl" where
  "OffsetDeclSpans n d =
     d\<lparr>d_span := OffsetSpan n (d_span d), d_attributes := map (OffsetAttributeSpans n) (d_attributes d),
       d_params := map (OffsetParamDeclSpans n) (d_params d),
       d_return_types := map (map_option (OffsetTypeExprSpans n)) (d_return_types d),
       d_body := map_option (OffsetStmtSpans n) (d_body d), d_fields := map (OffsetFieldDeclSpans n) (d_fields d),
       d_variants := map (OffsetEnumVariantDeclSpans n) (d_variants d), d_pattern := OffsetNamePatternSpans n (d_pattern d),
       d_type_ann := map_option (OffsetTypeExprSpans n) (d_type_ann d), d_values := map (OffsetExprSpans n) (d_values d),
       d_aliased_type := map_option (OffsetTypeExprSpans n) (d_aliased_type d)\<rparr>"

definition OffsetImportSpan :: "nat \<Rightarrow> ImportDecl \<Rightarrow> ImportDecl" where
  "OffsetImportSpan n i = i\<lparr>im_span := OffsetSpan n (im_span i)\<rparr>"

definition OffsetSourceFileSpans :: "nat \<Rightarrow> SourceFile \<Rightarrow> SourceFile" where
  "OffsetSourceFileSpans n f =
     f\<lparr>sf_span := OffsetSpan n (sf_span f), sf_imports := map (OffsetImportSpan n) (sf_imports f),
       sf_decls := map (OffsetDeclSpans n) (sf_decls f)\<rparr>"

end
