(* ===== verification/MC_Graph.thy ===== *)
theory MC_Graph
  imports MC_Project MC_Spans MC_Lexer MC_ParserDecl
begin

text \<open>
  The graphs of modules and of targets: \<open>compiler/driver/build_graph.cpp\<close>, with \<open>ParseSourcePath\<close> of \<open>build_support.cpp\<close>.

  The search for modules recurses through the imports of the files it reads, and has fuel; \<open>None\<close> is a search that
  does not return, because of the fuel or because the parser does not.
\<close>

section \<open>Data\<close>

record CompileImport =
  ci_module_name :: string
  ci_artifact_key :: string
  ci_package_identity :: string
  ci_source_path :: path
  ci_source_paths :: "path list"
  ci_module_kind :: ModuleKind

record CompileNode =
  cn_module_name :: string
  cn_artifact_key :: string
  cn_package_identity :: string
  cn_source_path :: path
  cn_source_paths :: "path list"
  cn_parse_result :: ParseResult
  cn_imports :: "CompileImport list"

record CompileGraph =
  cg_entry_source_path :: path
  cg_import_roots :: "path list"
  cg_build_dir :: path
  cg_mode :: string
  cg_env :: string
  cg_wrap_entry_main :: bool
  cg_namespace_entry_module :: bool
  cg_target_config :: TargetConfig
  cg_nodes :: "CompileNode list"

record ResolvedModuleSource =
  rs_module_name :: string
  rs_artifact_key :: string
  rs_primary_source_path :: path
  rs_source_paths :: "path list"
  rs_package_identity :: "string option"
  rs_module_kind :: ModuleKind

definition kMergedModulePartLineStride :: nat where
  "kMergedModulePartLineStride = 1000000"

declare kMergedModulePartLineStride_def [code del]
  \<comment> \<open>Evaluation keeps the name, since numbers of this size are unary there.\<close>

record source_env =
  se_driver :: driver_env
  se_read :: "path \<Rightarrow> string option"
    \<comment> \<open>the content of a file, \<open>None\<close> when it cannot be read\<close>
  se_stream_double :: "string \<Rightarrow> (double \<times> bool) option"
    \<comment> \<open>the extraction of a \<open>double\<close>, for the lexer\<close>

abbreviation se_fs :: "source_env \<Rightarrow> filesystem" where
  "se_fs env \<equiv> de_fs (se_driver env)"

section \<open>Resolution of imports\<close>

definition MakeModuleArtifactKey :: "string \<Rightarrow> string \<Rightarrow> string" where
  "MakeModuleArtifactKey package_identity module_name =
     (if package_identity = [] then module_name else package_identity @ ''::'' @ module_name)"

definition package_text :: "string option \<Rightarrow> string" where
  \<comment> \<open>\<open>value_or(std::string {})\<close>\<close>
  "package_text p = (case p of None \<Rightarrow> [] | Some t \<Rightarrow> t)"

definition package_of_text :: "string \<Rightarrow> string option" where
  "package_of_text t = (if t = [] then None else Some t)"

definition source_of_known :: "CompileImport \<Rightarrow> ResolvedModuleSource" where
  "source_of_known i =
     \<lparr>rs_module_name = ci_module_name i, rs_artifact_key = ci_artifact_key i, rs_primary_source_path = ci_source_path i,
      rs_source_paths = ci_source_paths i, rs_package_identity = package_of_text (ci_package_identity i),
      rs_module_kind = ci_module_kind i\<rparr>"

record module_rules =
  \<comment> \<open>The arguments that do not change during a search; \<open>None\<close> is an empty \<open>std::function\<close>.\<close>
  mr_import_roots :: "path list"
  mr_package_identity_for_source :: "(path \<Rightarrow> string option) option"
  mr_known_module_sources :: "(string \<Rightarrow> CompileImport list) option"
  mr_external_module_paths :: "string set"

definition package_identity_of :: "module_rules \<Rightarrow> path \<Rightarrow> string option" where
  "package_identity_of rules p = (case mr_package_identity_for_source rules of None \<Rightarrow> None | Some f \<Rightarrow> f p)"

definition kind_of_path :: "path \<Rightarrow> ModuleKind" where
  "kind_of_path p = (if IsInternalModulePath p then kInternal else kOrdinary)"

record ImportMatches =
  ma_matches :: "ResolvedModuleSource list"
  ma_seen_matches :: "string set"
  ma_rejected_internal_reason :: "string option"

definition append_match :: "string \<Rightarrow> string option \<Rightarrow> ResolvedModuleSource \<Rightarrow> ImportMatches \<Rightarrow> ImportMatches" where
  "append_match module_name importer_package_identity m st =
     (let key = rs_primary_source_path m; reject = (\<lambda>st reason. st\<lparr>ma_rejected_internal_reason := Some reason\<rparr>) in
      if key \<in> ma_seen_matches st then st
      else
        let st = st\<lparr>ma_seen_matches := insert key (ma_seen_matches st)\<rparr>; found = st\<lparr>ma_matches := ma_matches st @ [m]\<rparr> in
        if rs_module_kind m \<noteq> kInternal then found
        else case importer_package_identity of
            None \<Rightarrow> reject st (''direct source mode does not support importing internal module: '' @ module_name)
          | Some importer \<Rightarrow>
              (case rs_package_identity m of
                 None \<Rightarrow> reject st (''unable to determine package identity for internal module: '' @ key)
               | Some package_identity \<Rightarrow>
                   if package_identity \<noteq> importer
                   then reject st (''module '' @ module_name @ '' is internal to package '' @ quoted package_identity @
                     '' and cannot be imported from package '' @ quoted importer)
                   else found))"

definition root_candidate :: "source_env \<Rightarrow> module_rules \<Rightarrow> string \<Rightarrow> path \<Rightarrow> ResolvedModuleSource" where
  "root_candidate env rules module_name root =
     (let candidate = fs_absolute_normal (se_fs env) (path_append root (module_name @ ''.mc'')) in
      \<lparr>rs_module_name = module_name, rs_artifact_key = candidate, rs_primary_source_path = candidate,
       rs_source_paths = [candidate], rs_package_identity = package_identity_of rules candidate,
       rs_module_kind = kind_of_path candidate\<rparr>)"

definition import_sources :: "source_env \<Rightarrow> module_rules \<Rightarrow> string \<Rightarrow> ResolvedModuleSource list" where
  \<comment> \<open>Those that \<open>append_match\<close> is called with, in order.\<close>
  "import_sources env rules module_name =
     (case mr_known_module_sources rules of None \<Rightarrow> [] | Some known \<Rightarrow> map source_of_known (known module_name)) @
     filter (\<lambda>m. fs_exists (se_fs env) (rs_primary_source_path m)) (map (root_candidate env rules module_name) (mr_import_roots rules))"

definition ResolveImportPathWithPackageRules ::
  "source_env \<Rightarrow> module_rules \<Rightarrow> path \<Rightarrow> string \<Rightarrow> string option \<Rightarrow> DiagnosticSink \<Rightarrow> SourceSpan \<Rightarrow>
     ResolvedModuleSource option \<times> DiagnosticSink" where
  "ResolveImportPathWithPackageRules env rules importer_path module_name importer_package_identity diagnostics span =
     (let st = fold (append_match module_name importer_package_identity) (import_sources env rules module_name)
            \<lparr>ma_matches = [], ma_seen_matches = {}, ma_rejected_internal_reason = None\<rparr>;
          error = (\<lambda>message. (None, Report (project_report kError importer_path span message) diagnostics)) in
      case ma_matches st of
        [m] \<Rightarrow> (Some m, diagnostics)
      | [] \<Rightarrow> error (case ma_rejected_internal_reason st of
          Some reason \<Rightarrow> reason
        | None \<Rightarrow> ''unable to resolve import module: '' @ module_name)
      | ms \<Rightarrow> error (''ambiguous import module '' @ quoted module_name @ '' matched multiple roots: '' @
          JoinPaths (map rs_primary_source_path ms)))"

section \<open>Modules in several files\<close>

definition CanonicalizeModuleSourcePaths :: "filesystem \<Rightarrow> path list \<Rightarrow> path list" where
  "CanonicalizeModuleSourcePaths fs source_paths = distinct_normal fs source_paths []"

fun distinct_imports :: "string set \<Rightarrow> ImportDecl list \<Rightarrow> ImportDecl list" where
  \<comment> \<open>\<open>seen_imports\<close>\<close>
  "distinct_imports seen [] = []"
| "distinct_imports seen (i # rest) =
     (if im_module_name i \<in> seen then distinct_imports seen rest
      else i # distinct_imports (insert (im_module_name i) seen) rest)"

definition MergeParsedModuleSources :: "ParseResult list \<Rightarrow> ParseResult" where
  \<comment> \<open>Every part has a source file. The names that \<open>std::sort\<close> compares differ.\<close>
  "MergeParsedModuleSources parts =
     (let files = map pr_source_file parts in
      \<lparr>pr_source_file =
         \<lparr>sf_span = (case files of [] \<Rightarrow> kDefaultSourceSpan | f # _ \<Rightarrow> sf_span f),
          sf_module_kind = (case files of [] \<Rightarrow> kOrdinary | f # _ \<Rightarrow> sf_module_kind f),
          sf_imports = sort_key im_module_name (distinct_imports {} (concat (map sf_imports files))),
          sf_decls = concat (map sf_decls files)\<rparr>,
       pr_ok = True\<rparr>)"

definition ReadSourceText :: "source_env \<Rightarrow> path \<Rightarrow> DiagnosticSink \<Rightarrow> string option \<times> DiagnosticSink" where
  "ReadSourceText env p diagnostics =
     (case se_read env p of
        None \<Rightarrow> (None, Report (project_report kError p kDefaultSourceSpan ''unable to read source file'') diagnostics)
      | Some content \<Rightarrow> (Some content, diagnostics))"

definition ParseSourcePath :: "source_env \<Rightarrow> path \<Rightarrow> DiagnosticSink \<Rightarrow> (ParseResult option \<times> DiagnosticSink) option" where
  "ParseSourcePath env p diagnostics =
     (case ReadSourceText env p diagnostics of
        (None, diagnostics) \<Rightarrow> Some (None, diagnostics)
      | (Some source_text, diagnostics) \<Rightarrow>
          let (lexed, diagnostics) = Lex (se_stream_double env) source_text p diagnostics in
          map_option (apfst (\<lambda>r. if pr_ok r then Some r else None)) (Parse lexed p diagnostics))"

fun parse_parts ::
  "source_env \<Rightarrow> path list \<Rightarrow> ParseResult list \<Rightarrow> DiagnosticSink \<Rightarrow> (ParseResult list option \<times> DiagnosticSink) option" where
  \<comment> \<open>The loop of \<open>ParseLogicalModuleSources\<close>; the parts so far give \<open>part_index\<close> and \<open>expected_module_kind\<close>.\<close>
  "parse_parts env [] parts diagnostics = Some (Some parts, diagnostics)"
| "parse_parts env (p # rest) parts diagnostics =
     (case ParseSourcePath env p diagnostics of
        None \<Rightarrow> None
      | Some (None, diagnostics) \<Rightarrow> Some (None, diagnostics)
      | Some (Some parsed, diagnostics) \<Rightarrow>
          if parts \<noteq> [] \<and> sf_module_kind (pr_source_file parsed) \<noteq> sf_module_kind (pr_source_file (hd parts))
          then Some (None, Report (project_report kError p kDefaultSourceSpan
            ''logical module source set mixes ordinary and internal module files'') diagnostics)
          else parse_parts env rest
            (parts @ [parsed\<lparr>pr_source_file := OffsetSourceFileSpans (length parts * kMergedModulePartLineStride) (pr_source_file parsed)\<rparr>])
            diagnostics)"

definition ParseLogicalModuleSources ::
  "source_env \<Rightarrow> path list \<Rightarrow> DiagnosticSink \<Rightarrow> (ParseResult option \<times> DiagnosticSink) option" where
  "ParseLogicalModuleSources env source_paths diagnostics =
     map_option (apfst (map_option MergeParsedModuleSources))
       (parse_parts env (CanonicalizeModuleSourcePaths (se_fs env) source_paths) [] diagnostics)"

section \<open>The graph of modules\<close>

record GraphState =
  gs_diagnostics :: DiagnosticSink
  gs_visiting :: "string set"
  gs_visited :: "string set"
  gs_nodes :: "CompileNode list"

definition import_of_source :: "string \<Rightarrow> ResolvedModuleSource \<Rightarrow> CompileImport" where
  "import_of_source module_name m =
     \<lparr>ci_module_name = module_name, ci_artifact_key = rs_artifact_key m, ci_package_identity = package_text (rs_package_identity m),
      ci_source_path = rs_primary_source_path m, ci_source_paths = rs_source_paths m, ci_module_kind = rs_module_kind m\<rparr>"

fun discover_imports ::
  "(ResolvedModuleSource \<Rightarrow> GraphState \<Rightarrow> (bool \<times> GraphState) option) \<Rightarrow> source_env \<Rightarrow> module_rules \<Rightarrow> path \<Rightarrow> string option \<Rightarrow>
     ImportDecl list \<Rightarrow> GraphState \<Rightarrow> (CompileImport list option \<times> GraphState) option" where
  \<comment> \<open>The loop over the imports of a module; \<open>None\<close> in the result is \<open>return false\<close>.\<close>
  "discover_imports discover env rules importer_path package_identity [] st = Some (Some [], st)"
| "discover_imports discover env rules importer_path package_identity (i # rest) st =
     (let (found, diagnostics) = ResolveImportPathWithPackageRules env rules importer_path (im_module_name i) package_identity
            (gs_diagnostics st) (im_span i);
          st = st\<lparr>gs_diagnostics := diagnostics\<rparr>;
          continue = (\<lambda>m st. map_option (apfst (map_option ((#) (import_of_source (im_module_name i) m))))
            (discover_imports discover env rules importer_path package_identity rest st)) in
      case found of
        None \<Rightarrow> Some (None, st)
      | Some m \<Rightarrow>
          if fs_absolute_normal (se_fs env) (rs_primary_source_path m) \<in> mr_external_module_paths rules then continue m st
          else case discover m st of
              None \<Rightarrow> None
            | Some (False, st) \<Rightarrow> Some (None, st)
            | Some (True, st) \<Rightarrow> continue m st)"

definition current_package :: "module_rules \<Rightarrow> path \<Rightarrow> ResolvedModuleSource \<Rightarrow> string option" where
  "current_package rules normalized_path m =
     (case rs_package_identity m of Some p \<Rightarrow> Some p | None \<Rightarrow> package_identity_of rules normalized_path)"

primrec DiscoverModuleGraphRecursive ::
  "nat \<Rightarrow> source_env \<Rightarrow> module_rules \<Rightarrow> ResolvedModuleSource \<Rightarrow> GraphState \<Rightarrow> (bool \<times> GraphState) option" where
  "DiscoverModuleGraphRecursive 0 env rules m st = None"
| "DiscoverModuleGraphRecursive (Suc n) env rules m st =
     (let normalized_path = fs_absolute_normal (se_fs env) (rs_primary_source_path m); path_key = rs_artifact_key m;
          error = (\<lambda>message st. st\<lparr>gs_diagnostics := Report (project_report kError normalized_path kDefaultSourceSpan message) (gs_diagnostics st)\<rparr>);
          fail = (\<lambda>st. Some (False, st\<lparr>gs_visiting := gs_visiting st - {path_key}\<rparr>)) in
      if path_key \<in> gs_visited st then Some (True, st)
      else if path_key \<in> gs_visiting st
      then Some (False, error (''import cycle detected involving module: '' @ rs_module_name m) st)
      else
        case ParseLogicalModuleSources env (rs_source_paths m) (gs_diagnostics st) of
          None \<Rightarrow> None
        | Some (parse_result, diagnostics) \<Rightarrow>
            let st = st\<lparr>gs_visiting := insert path_key (gs_visiting st), gs_diagnostics := diagnostics\<rparr>;
                package_identity = current_package rules normalized_path m in
            (case parse_result of
               None \<Rightarrow> fail st
             | Some parse_result \<Rightarrow>
                 if rs_module_kind m = kInternal \<and> package_identity = None
                 then fail (error ''direct source mode does not support internal module roots'' st)
                 else case discover_imports (DiscoverModuleGraphRecursive n env rules) env rules normalized_path package_identity
                     (sf_imports (pr_source_file parse_result)) st of
                     None \<Rightarrow> None
                   | Some (None, st) \<Rightarrow> fail st
                   | Some (Some imports, st) \<Rightarrow>
                       Some (True, st\<lparr>gs_visited := insert path_key (gs_visited st), gs_visiting := gs_visiting st - {path_key},
                         gs_nodes := gs_nodes st @
                           [\<lparr>cn_module_name = rs_module_name m, cn_artifact_key = path_key, cn_package_identity = package_text package_identity,
                             cn_source_path = normalized_path, cn_source_paths = rs_source_paths m, cn_parse_result = parse_result,
                             cn_imports = imports\<rparr>]\<rparr>)))"

definition entry_module :: "source_env \<Rightarrow> module_rules \<Rightarrow> path \<Rightarrow> ResolvedModuleSource" where
  "entry_module env rules entry_source_path =
     (let fs = se_fs env; normalized_entry = fs_absolute_normal fs entry_source_path;
          entry = \<lparr>rs_module_name = path_stem normalized_entry, rs_artifact_key = normalized_entry,
            rs_primary_source_path = normalized_entry, rs_source_paths = [normalized_entry],
            rs_package_identity = package_identity_of rules normalized_entry, rs_module_kind = kind_of_path normalized_entry\<rparr> in
      case mr_known_module_sources rules of
        None \<Rightarrow> entry
      | Some known \<Rightarrow>
          (case find (\<lambda>k. normalized_entry \<in> fs_absolute_normal fs ` set (ci_source_paths k)) (known (path_stem normalized_entry)) of
             None \<Rightarrow> entry
           | Some k \<Rightarrow> source_of_known k))"

record graph_options =
  go_build_dir :: path
  go_target_config :: TargetConfig
  go_mode :: string
  go_env :: string
  go_wrap_entry_main :: bool
  go_namespace_entry_module :: bool

definition DiscoverModuleGraph ::
  "nat \<Rightarrow> source_env \<Rightarrow> module_rules \<Rightarrow> path \<Rightarrow> graph_options \<Rightarrow> DiagnosticSink \<Rightarrow> (CompileGraph option \<times> DiagnosticSink) option" where
  "DiscoverModuleGraph n env rules entry_source_path options diagnostics =
     (let entry = entry_module env rules entry_source_path in
      map_option (\<lambda>(ok, st).
          (if ok then Some \<lparr>cg_entry_source_path = rs_primary_source_path entry, cg_import_roots = mr_import_roots rules,
               cg_build_dir = go_build_dir options, cg_mode = go_mode options, cg_env = go_env options,
               cg_wrap_entry_main = go_wrap_entry_main options, cg_namespace_entry_module = go_namespace_entry_module options,
               cg_target_config = go_target_config options, cg_nodes = gs_nodes st\<rparr>
           else None, gs_diagnostics st))
        (DiscoverModuleGraphRecursive n env rules entry
          \<lparr>gs_diagnostics = diagnostics, gs_visiting = {}, gs_visited = {}, gs_nodes = []\<rparr>))"

definition first_index :: "CompileNode list \<Rightarrow> string \<Rightarrow> nat option" where
  \<comment> \<open>\<open>node_indices\<close>: \<open>emplace\<close> keeps the first.\<close>
  "first_index nodes key = map_of (zip (map cn_artifact_key nodes) [0..<length nodes]) key"

definition AssertCompileGraphTopologicalOrder :: "CompileGraph \<Rightarrow> bool" where
  \<comment> \<open>Whether all the assertions hold.\<close>
  "AssertCompileGraphTopologicalOrder graph =
     list_all (\<lambda>(i, node). list_all (\<lambda>imported. case first_index (cg_nodes graph) (ci_artifact_key imported) of
         None \<Rightarrow> True | Some k \<Rightarrow> k < i) (cn_imports node))
       (zip [0..<length (cg_nodes graph)] (cg_nodes graph))"

end
