(* ===== verification/MC_Target.thy ===== *)
theory MC_Target
  imports MC_Graph
begin

text \<open>
  Graphs of targets: the rest of \<open>compiler/driver/build_graph.cpp\<close>. A target is built on the graphs of the libraries that
  it links, which are built first; the recursion over the links has fuel of its own.
\<close>

section \<open>Data\<close>

record CommandOptions =
  co_source_path :: path
  co_project_path :: "path option"
  co_target_name :: "string option"
  co_mode_override :: "string option"
  co_env_override :: "string option"
  co_build_dir :: path
  co_build_dir_explicit :: bool
  co_import_roots :: "path list"
  co_run_arguments :: "string list"
  co_emit_dump_paths :: bool
  co_dump_ast :: bool
  co_dump_mir :: bool
  co_dump_backend :: bool

datatype (plugins only: code size) TargetBuildGraph =
  mk_TargetBuildGraph
    (tg_project: ProjectFile)
    (tg_target: ProjectTarget)
    (tg_compile_graph: CompileGraph)
    (tg_linked_targets: "TargetBuildGraph list")

lemma linked_smaller [termination_simp]:
  "g \<in> set gs \<Longrightarrow> size_list size (tg_linked_targets g) < size_list size gs"
proof (induction gs)
  case (Cons h gs)
  have "size_list size (tg_linked_targets g) < size g" by (cases g) simp
  with Cons show ?case by force
qed simp

section \<open>Targets and their sources\<close>

definition BuildResolvedModuleSource ::
  "filesystem \<Rightarrow> string \<Rightarrow> string option \<Rightarrow> path list \<Rightarrow> ModuleKind \<Rightarrow> path option \<Rightarrow> ResolvedModuleSource" where
  "BuildResolvedModuleSource fs module_name package_identity source_paths module_kind preferred_primary_source =
     (let paths = CanonicalizeModuleSourcePaths fs source_paths in
      \<lparr>rs_module_name = module_name, rs_artifact_key = MakeModuleArtifactKey (package_text package_identity) module_name,
       rs_primary_source_path = (case preferred_primary_source of Some p \<Rightarrow> fs_absolute_normal fs p | None \<Rightarrow> hd paths),
       rs_source_paths = paths, rs_package_identity = package_identity, rs_module_kind = module_kind\<rparr>)"

definition ResolveProjectTargetConfig :: "driver_env \<Rightarrow> ProjectFile \<Rightarrow> ProjectTarget \<Rightarrow> DiagnosticSink \<Rightarrow> TargetConfig \<times> DiagnosticSink" where
  \<comment> \<open>The first \<open>if\<close> assigns to \<open>triple\<close> what it is.\<close>
  "ResolveProjectTargetConfig env project t diagnostics =
     (let config = de_config env in
      (config\<lparr>tc_hosted := (pt_env t = ''hosted'')\<rparr>,
       if pt_target t \<noteq> [] \<and> pt_target t \<noteq> tc_triple config \<and> pt_target t \<noteq> tc_target_family config
       then Report (project_report kError (pf_path project) kDefaultSourceSpan
         (''unsupported target triple for bootstrap codegen: '' @ pt_target t)) diagnostics
       else diagnostics))"

definition SupportsBootstrapTarget :: "driver_env \<Rightarrow> ProjectTarget \<Rightarrow> ProjectFile \<Rightarrow> DiagnosticSink \<Rightarrow> bool \<times> DiagnosticSink" where
  "SupportsBootstrapTarget env t project diagnostics =
     (let p = pf_path project; config = de_config env;
          error = (\<lambda>message. (False, fold Report
            (project_report kError p kDefaultSourceSpan message # ReportBootstrapTargetNotes config p (pt_name t)) diagnostics)) in
      if pt_target t = [] then
        if pt_env t = ''freestanding'' then error (''target '' @ quoted (pt_name t) @ '' must declare an explicit freestanding target'')
        else (True, diagnostics)
      else if pt_target t = tc_triple config \<or> pt_target t = tc_target_family config then (True, diagnostics)
      else error (''target '' @ quoted (pt_name t) @ '' requests unsupported bootstrap target: '' @ pt_target t))"

record OwnedPaths =
  op_owned_paths :: "string set"
  op_owners :: "string \<rightharpoonup> string"
  op_diagnostics :: DiagnosticSink

definition collect_node :: "string \<Rightarrow> ProjectTarget \<Rightarrow> ProjectFile \<Rightarrow> CompileNode \<Rightarrow> OwnedPaths \<Rightarrow> OwnedPaths" where
  "collect_node owner_name consumer_target project node st =
     (let key = cn_source_path node in
      case op_owners st key of
        None \<Rightarrow> st\<lparr>op_owners := (op_owners st)(key \<mapsto> owner_name), op_owned_paths := insert key (op_owned_paths st)\<rparr>
      | Some owner \<Rightarrow>
          if owner \<noteq> owner_name
          then st\<lparr>op_diagnostics := Report (project_report kError (pf_path project) kDefaultSourceSpan
            (''target '' @ quoted (pt_name consumer_target) @ '' links static libraries '' @ quoted owner @ '' and '' @
             quoted owner_name @ '' that both provide module source: '' @ key)) (op_diagnostics st)\<rparr>
          else st\<lparr>op_owned_paths := insert key (op_owned_paths st)\<rparr>)"

primrec CollectOwnedSourcePathsForLink ::
  "TargetBuildGraph \<Rightarrow> string \<Rightarrow> ProjectTarget \<Rightarrow> ProjectFile \<Rightarrow> OwnedPaths \<Rightarrow> OwnedPaths" where
  "CollectOwnedSourcePathsForLink (mk_TargetBuildGraph p t graph linked_targets) = (\<lambda>owner_name consumer_target project st.
     fold (\<lambda>collect st. collect owner_name consumer_target project st) (map CollectOwnedSourcePathsForLink linked_targets)
       (fold (collect_node owner_name consumer_target project) (cg_nodes graph) st))"

definition import_of_node :: "CompileNode \<Rightarrow> CompileImport" where
  \<comment> \<open>A parsed file has a syntax tree.\<close>
  "import_of_node node =
     \<lparr>ci_module_name = cn_module_name node, ci_artifact_key = cn_artifact_key node, ci_package_identity = cn_package_identity node,
      ci_source_path = cn_source_path node, ci_source_paths = cn_source_paths node,
      ci_module_kind = sf_module_kind (pr_source_file (cn_parse_result node))\<rparr>"

definition own_module_set :: "driver_env \<Rightarrow> ProjectTarget \<Rightarrow> string \<Rightarrow> CompileImport list" where
  \<comment> \<open>The files of a module set are not empty.\<close>
  "own_module_set env t module_name =
     (case LookupProjectModuleSet t module_name of
        None \<Rightarrow> []
      | Some s \<Rightarrow>
          let primary_source = (if pt_root t \<in> set (ms_files s) then pt_root t else hd (ms_files s)) in
          [import_of_source (ms_module_name s) (BuildResolvedModuleSource (de_fs env) (ms_module_name s)
            (ResolveTargetPackageIdentity env t primary_source) (ms_files s) kOrdinary (Some primary_source))])"

fun LookupKnownProjectModuleSources :: "driver_env \<Rightarrow> ProjectTarget \<Rightarrow> TargetBuildGraph list \<Rightarrow> string \<Rightarrow> CompileImport list" where
  "LookupKnownProjectModuleSources env t linked_targets module_name =
     own_module_set env t module_name @
     concat (map (\<lambda>g. map import_of_node (filter (\<lambda>node. cn_module_name node = module_name) (cg_nodes (tg_compile_graph g))) @
       LookupKnownProjectModuleSources env (tg_target g) (tg_linked_targets g) module_name) linked_targets)"

declare LookupKnownProjectModuleSources.simps [simp del]

section \<open>The graph of a target\<close>

type_synonym link_state = "DiagnosticSink \<times> string set"
  \<comment> \<open>the diagnostics and \<open>visiting_targets\<close>\<close>

fun link_targets ::
  "(ProjectTarget \<Rightarrow> link_state \<Rightarrow> (TargetBuildGraph option \<times> link_state) option) \<Rightarrow> ProjectFile \<Rightarrow> ProjectTarget \<Rightarrow> string list \<Rightarrow>
     link_state \<Rightarrow> (TargetBuildGraph list option \<times> link_state) option" where
  \<comment> \<open>The loop over the links.\<close>
  "link_targets build project t [] st = Some (Some [], st)"
| "link_targets build project t (link_name # rest) (diagnostics, visiting) =
     (let error = (\<lambda>message. link_targets build project t rest
            (Report (project_report kError (pf_path project) kDefaultSourceSpan message) diagnostics, visiting)) in
      case map_of (pf_targets project) link_name of
        None \<Rightarrow> error (''target '' @ quoted (pt_name t) @ '' links unknown target '' @ quoted link_name)
      | Some found \<Rightarrow>
          let linked_target = found\<lparr>pt_mode := pt_mode t, pt_env := pt_env t\<rparr> in
          if \<not> IsStaticLibraryTargetKind (pt_kind linked_target)
          then error (''target '' @ quoted (pt_name t) @ '' can only link static libraries, but '' @ quoted (pt_name linked_target) @
            '' has kind '' @ quoted (pt_kind linked_target))
          else case build linked_target (diagnostics, visiting) of
              None \<Rightarrow> None
            | Some (None, diagnostics, visiting) \<Rightarrow> Some (None, diagnostics, visiting)
            | Some (Some g, st) \<Rightarrow> map_option (apfst (map_option ((#) g))) (link_targets build project t rest st))"

definition target_rules :: "driver_env \<Rightarrow> ProjectFile \<Rightarrow> ProjectTarget \<Rightarrow> path list \<Rightarrow> TargetBuildGraph list \<Rightarrow> string set \<Rightarrow> module_rules" where
  \<comment> \<open>The arguments with which \<open>BuildResolvedTargetGraph\<close> searches for modules.\<close>
  "target_rules env project t cli_import_roots linked_targets external_module_paths =
     (let import_roots = ComputeProjectImportRoots (de_fs env) t cli_import_roots in
      \<lparr>mr_import_roots = import_roots,
       mr_package_identity_for_source = Some (\<lambda>p. if IsPathWithinRoot (de_fs env) p (pf_root_dir project)
         then ResolveTargetPackageIdentity env t p else ResolveExternalSourcePackageIdentity (de_fs env) p import_roots),
       mr_known_module_sources = Some (LookupKnownProjectModuleSources env t linked_targets),
       mr_external_module_paths = external_module_paths\<rparr>)"

definition target_options :: "ProjectFile \<Rightarrow> ProjectTarget \<Rightarrow> TargetConfig \<Rightarrow> graph_options" where
  "target_options project t config =
     \<lparr>go_build_dir = pf_build_dir project, go_target_config = config, go_mode = pt_mode t, go_env = pt_env t,
      go_wrap_entry_main = (IsExecutableTargetKind (pt_kind t) \<and> pt_env t = ''hosted''),
      go_namespace_entry_module = (\<not> IsExecutableTargetKind (pt_kind t))\<rparr>"

definition collect_linked :: "TargetBuildGraph list \<Rightarrow> ProjectTarget \<Rightarrow> ProjectFile \<Rightarrow> DiagnosticSink \<Rightarrow> OwnedPaths" where
  "collect_linked linked_targets t project diagnostics =
     fold (\<lambda>g. CollectOwnedSourcePathsForLink g (pt_name (tg_target g)) t project) linked_targets
       \<lparr>op_owned_paths = {}, op_owners = Map.empty, op_diagnostics = diagnostics\<rparr>"

definition own_graph ::
  "nat \<Rightarrow> source_env \<Rightarrow> ProjectFile \<Rightarrow> ProjectTarget \<Rightarrow> path list \<Rightarrow> TargetBuildGraph list \<Rightarrow> DiagnosticSink \<Rightarrow>
     (TargetBuildGraph option \<times> DiagnosticSink) option" where
  \<comment> \<open>What follows the loop over the links.\<close>
  "own_graph m env project t cli_import_roots linked_targets diagnostics =
     (if HasErrors diagnostics then Some (None, diagnostics)
      else
        let owned = collect_linked linked_targets t project diagnostics; diagnostics = op_diagnostics owned in
        if HasErrors diagnostics then Some (None, diagnostics)
        else
          let (config, diagnostics) = ResolveProjectTargetConfig (se_driver env) project t diagnostics in
          map_option (apfst (map_option (\<lambda>graph. mk_TargetBuildGraph project t graph linked_targets)))
            (DiscoverModuleGraph m env (target_rules (se_driver env) project t cli_import_roots linked_targets (op_owned_paths owned))
              (pt_root t) (target_options project t config) diagnostics))"

primrec BuildResolvedTargetGraph ::
  "nat \<Rightarrow> nat \<Rightarrow> source_env \<Rightarrow> ProjectFile \<Rightarrow> path list \<Rightarrow> ProjectTarget \<Rightarrow> link_state \<Rightarrow>
     (TargetBuildGraph option \<times> link_state) option" where
  \<comment> \<open>Fuel for the links, then for the modules of each target.\<close>
  "BuildResolvedTargetGraph 0 m env project cli_import_roots t st = None"
| "BuildResolvedTargetGraph (Suc n) m env project cli_import_roots t st =
     (let (diagnostics, visiting) = st; (supported, diagnostics) = SupportsBootstrapTarget (se_driver env) t project diagnostics in
      if \<not> supported then Some (None, diagnostics, visiting)
      else if pt_name t \<in> visiting
      then Some (None, Report (project_report kError (pf_path project) kDefaultSourceSpan
        (''target dependency cycle detected involving '' @ quoted (pt_name t))) diagnostics, visiting)
      else
        case link_targets (BuildResolvedTargetGraph n m env project cli_import_roots) project t (pt_links t)
            (diagnostics, insert (pt_name t) visiting) of
          None \<Rightarrow> None
        | Some (linked, diagnostics, visiting) \<Rightarrow>
            let visiting = visiting - {pt_name t} in
            (case linked of
               None \<Rightarrow> Some (None, diagnostics, visiting)
             | Some linked_targets \<Rightarrow>
                 map_option (\<lambda>(g, diagnostics). (g, diagnostics, visiting))
                   (own_graph m env project t cli_import_roots linked_targets diagnostics)))"

section \<open>The graph of the selected target\<close>

definition DefaultProjectPath :: "path \<Rightarrow> path" where
  \<comment> \<open>The argument is \<open>std::filesystem::current_path()\<close>.\<close>
  "DefaultProjectPath current_path = path_append current_path ''build.toml''"

definition LoadSelectedProject ::
  "source_env \<Rightarrow> path \<Rightarrow> CommandOptions \<Rightarrow> DiagnosticSink \<Rightarrow> (ProjectFile option \<times> DiagnosticSink) option" where
  "LoadSelectedProject env current_path options diagnostics =
     (let project_path = fs_absolute_normal (se_fs env)
        (case co_project_path options of Some p \<Rightarrow> p | None \<Rightarrow> DefaultProjectPath current_path) in
      LoadProjectFile (se_driver env) (se_read env project_path) project_path diagnostics)"

definition BuildTargetGraph ::
  "nat \<Rightarrow> nat \<Rightarrow> source_env \<Rightarrow> path \<Rightarrow> CommandOptions \<Rightarrow> DiagnosticSink \<Rightarrow> (TargetBuildGraph option \<times> DiagnosticSink) option" where
  "BuildTargetGraph n m env current_path options diagnostics =
     (case LoadSelectedProject env current_path options diagnostics of
        None \<Rightarrow> None
      | Some (None, diagnostics) \<Rightarrow> Some (None, diagnostics)
      | Some (Some project, diagnostics) \<Rightarrow>
          (case SelectProjectTarget (se_driver env) project (co_target_name options) diagnostics of
             None \<Rightarrow> None
           | Some (None, diagnostics) \<Rightarrow> Some (None, diagnostics)
           | Some (Some t, diagnostics) \<Rightarrow>
               let error = (\<lambda>message. Some (None, Report (project_report kError (pf_path project) kDefaultSourceSpan message) diagnostics));
                   mode = (case co_mode_override options of Some m \<Rightarrow> m | None \<Rightarrow> pt_mode t);
                   env_name = (case co_env_override options of Some e \<Rightarrow> e | None \<Rightarrow> pt_env t) in
               if HasErrors diagnostics then Some (None, diagnostics)
               else if \<not> IsSupportedMode mode then error (''unsupported build mode for target build: '' @ mode)
               else if \<not> IsSupportedEnv env_name then error (''unsupported environment for target build: '' @ env_name)
               else
                 let build_dir = fs_absolute_normal (se_fs env)
                   (if co_build_dir_explicit options then co_build_dir options else path_append (pf_build_dir project) mode) in
                 map_option (apsnd fst) (BuildResolvedTargetGraph n m env (project\<lparr>pf_build_dir := build_dir\<rparr>)
                   (co_import_roots options) (t\<lparr>pt_mode := mode, pt_env := env_name\<rparr>) (diagnostics, {}))))"

end
