(* ===== verification/MC_GraphSpec.thy ===== *)
theory MC_GraphSpec
  imports MC_Graph MC_LexerSpec MC_ParserDeclSpec
begin

text \<open>
  The search for modules: what it keeps, that it ends, and that the nodes of a graph are in topological order.
\<close>

section \<open>What a resolution yields\<close>

lemma append_match_cases:
  "ma_matches (append_match module_name importer m st) = ma_matches st \<or>
   ma_matches (append_match module_name importer m st) = ma_matches st @ [m]"
  by (auto simp: append_match_def Let_def split: option.split)

lemma fold_append_match: "set (ma_matches (fold (append_match module_name importer) ms st)) \<subseteq> set (ma_matches st) \<union> set ms"
proof (induction ms arbitrary: st)
  case (Cons m ms)
  have "set (ma_matches (append_match module_name importer m st)) \<subseteq> insert m (set (ma_matches st))"
    using append_match_cases [where m = m and st = st] by (metis insertCI set_append list.set(2) list.set(1) Un_insert_right sup_bot_right subsetI)
  with Cons.IH [of "append_match module_name importer m st"] show ?case by auto
qed simp

lemma resolved_source:
  assumes "ResolveImportPathWithPackageRules env rules p module_name importer d span = (Some m, d')"
  shows "m \<in> set (import_sources env rules module_name) \<and> d' = d"
proof -
  let ?st = "fold (append_match module_name importer) (import_sources env rules module_name)
    \<lparr>ma_matches = [], ma_seen_matches = {}, ma_rejected_internal_reason = None\<rparr>"
  have "set (ma_matches ?st) \<subseteq> set (import_sources env rules module_name)"
    by (rule subset_trans [OF fold_append_match]) simp
  with assms show ?thesis by (auto simp: ResolveImportPathWithPackageRules_def Let_def split: list.splits)
qed

section \<open>The invariant\<close>

abbreviation node_keys :: "CompileNode list \<Rightarrow> string list" where
  "node_keys nodes \<equiv> map cn_artifact_key nodes"

definition is_external :: "source_env \<Rightarrow> module_rules \<Rightarrow> CompileImport \<Rightarrow> bool" where
  "is_external env rules i \<longleftrightarrow> fs_absolute_normal (se_fs env) (ci_source_path i) \<in> mr_external_module_paths rules"

definition imports_before :: "source_env \<Rightarrow> module_rules \<Rightarrow> string set \<Rightarrow> CompileNode \<Rightarrow> bool" where
  \<comment> \<open>What the node imps is external or has one of the keys; and it imports what its file says.\<close>
  "imports_before env rules keys node \<longleftrightarrow>
     map ci_module_name (cn_imports node) = map im_module_name (sf_imports (pr_source_file (cn_parse_result node))) \<and>
     (\<forall>i \<in> set (cn_imports node). is_external env rules i \<or> ci_artifact_key i \<in> keys)"

definition ordered :: "source_env \<Rightarrow> module_rules \<Rightarrow> CompileNode list \<Rightarrow> bool" where
  "ordered env rules nodes \<longleftrightarrow> distinct (node_keys nodes) \<and>
     (\<forall>k < length nodes. imports_before env rules (set (node_keys (take k nodes))) (nodes ! k))"

definition graph_wf :: "source_env \<Rightarrow> module_rules \<Rightarrow> GraphState \<Rightarrow> bool" where
  "graph_wf env rules st \<longleftrightarrow> ordered env rules (gs_nodes st) \<and> gs_visited st = set (node_keys (gs_nodes st)) \<and>
     gs_visited st \<inter> gs_visiting st = {}"

definition grows :: "GraphState \<Rightarrow> GraphState \<Rightarrow> bool" where
  \<comment> \<open>Nodes are only added at the end, and the modules in progress are the same.\<close>
  "grows st st' \<longleftrightarrow> gs_visiting st' = gs_visiting st \<and> (\<exists>new. gs_nodes st' = gs_nodes st @ new)"

lemma grows_refl [simp]: "grows st st"
  by (simp add: grows_def)

lemma grows_trans: "grows st st' \<Longrightarrow> grows st' st'' \<Longrightarrow> grows st st''"
  by (auto simp: grows_def)

lemma grows_visited: "grows st st' \<Longrightarrow> graph_wf env rules st \<Longrightarrow> graph_wf env rules st' \<Longrightarrow> gs_visited st \<subseteq> gs_visited st'"
  by (auto simp: grows_def graph_wf_def)

lemma ordered_append:
  assumes "ordered env rules nodes" "imports_before env rules (set (node_keys nodes)) node" "cn_artifact_key node \<notin> set (node_keys nodes)"
  shows "ordered env rules (nodes @ [node])"
  using assms by (auto simp: ordered_def nth_append less_Suc_eq)

lemma graph_wf_diagnostics [simp]: "graph_wf env rules (st\<lparr>gs_diagnostics := d\<rparr>) = graph_wf env rules st"
  by (simp add: graph_wf_def)

lemma grows_diagnostics [simp]: "grows st (st'\<lparr>gs_diagnostics := d\<rparr>) = grows st st'" "grows (st\<lparr>gs_diagnostics := d\<rparr>) st' = grows st st'"
  by (simp_all add: grows_def)

definition keeps_graph :: "source_env \<Rightarrow> module_rules \<Rightarrow> (ResolvedModuleSource \<Rightarrow> GraphState \<Rightarrow> (bool \<times> GraphState) option) \<Rightarrow> bool" where
  \<comment> \<open>What holds of a search for one module.\<close>
  "keeps_graph env rules discover \<longleftrightarrow>
     (\<forall>m st ok st'. graph_wf env rules st \<longrightarrow> discover m st = Some (ok, st') \<longrightarrow>
        graph_wf env rules st' \<and> grows st st' \<and> (ok \<longrightarrow> rs_artifact_key m \<in> gs_visited st'))"

lemma keeps_graphD:
  "keeps_graph env rules discover \<Longrightarrow> graph_wf env rules st \<Longrightarrow> discover m st = Some (ok, st') \<Longrightarrow>
     graph_wf env rules st' \<and> grows st st' \<and> (ok \<longrightarrow> rs_artifact_key m \<in> gs_visited st')"
  by (auto simp: keeps_graph_def)

lemma discover_imports_keeps:
  assumes "keeps_graph env rules discover"
  shows "graph_wf env rules st \<Longrightarrow> discover_imports discover env rules p package is st = Some (r, st') \<Longrightarrow>
    graph_wf env rules st' \<and> grows st st' \<and>
    (\<forall>imps. r = Some imps \<longrightarrow> map ci_module_name imps = map im_module_name is \<and>
       (\<forall>i \<in> set imps. is_external env rules i \<or> ci_artifact_key i \<in> gs_visited st'))"
proof (induction "is" arbitrary: st r)
  case (Cons i rest)
  obtain found d where f: "ResolveImportPathWithPackageRules env rules p (im_module_name i) package (gs_diagnostics st) (im_span i) = (found, d)"
    by force
  let ?st = "st\<lparr>gs_diagnostics := d\<rparr>"
  show ?case
  proof (cases found)
    case None
    then show ?thesis using Cons.prems f by (simp add: Let_def) (auto simp del: grows_diagnostics simp: grows_diagnostics(1))
  next
    case (Some m)
    have continue: ?thesis
      if st1: "graph_wf env rules st1" "grows st st1"
        "is_external env rules (import_of_source (im_module_name i) m) \<or> rs_artifact_key m \<in> gs_visited st1"
        and rest: "map_option (apfst (map_option ((#) (import_of_source (im_module_name i) m))))
          (discover_imports discover env rules p package rest st1) = Some (r, st')" for st1
    proof -
      obtain r' where r': "discover_imports discover env rules p package rest st1 = Some (r', st')"
        "r = map_option ((#) (import_of_source (im_module_name i) m)) r'"
        using rest by auto
      have ih: "graph_wf env rules st'" "grows st1 st'"
        "\<forall>imps. r' = Some imps \<longrightarrow> map ci_module_name imps = map im_module_name rest \<and>
          (\<forall>i \<in> set imps. is_external env rules i \<or> ci_artifact_key i \<in> gs_visited st')"
        using Cons.IH [OF st1(1) r'(1)] by auto
      have "gs_visited st1 \<subseteq> gs_visited st'" by (rule grows_visited [OF ih(2) st1(1) ih(1)])
      with st1(3) have "is_external env rules (import_of_source (im_module_name i) m) \<or> rs_artifact_key m \<in> gs_visited st'" by blast
      moreover have "ci_artifact_key (import_of_source (im_module_name i) m) = rs_artifact_key m"
        "ci_module_name (import_of_source (im_module_name i) m) = im_module_name i"
        by (simp_all add: import_of_source_def)
      moreover have "grows st st'" by (rule grows_trans [OF st1(2) ih(2)])
      ultimately show ?thesis using ih r'(2) by auto
    qed
    show ?thesis
    proof (cases "fs_absolute_normal (se_fs env) (rs_primary_source_path m) \<in> mr_external_module_paths rules")
      case True
      show ?thesis
        by (rule continue [of ?st]) (use Cons.prems f Some True in \<open>simp_all add: is_external_def import_of_source_def\<close>)
    next
      case False
      then obtain ok st1 where d: "discover m ?st = Some (ok, st1)"
        using Cons.prems f Some by (auto simp: Let_def split: option.splits)
      have k: "graph_wf env rules st1" "grows ?st st1" "ok \<longrightarrow> rs_artifact_key m \<in> gs_visited st1"
        using keeps_graphD [OF assms _ d] Cons.prems(1) by auto
      show ?thesis
      proof (cases ok)
        case True
        show ?thesis
          by (rule continue [of st1]) (use Cons.prems f Some False True d k in \<open>simp_all add: Let_def\<close>)
      next
        case ok: False
        then show ?thesis using Cons.prems f Some False d k by (auto simp: Let_def)
      qed
    qed
  qed
qed auto

section \<open>The search for one module\<close>

lemma new_node_wf:
  assumes "graph_wf env rules st" "key \<in> gs_visiting st"
    and "map ci_module_name (cn_imports node) = map im_module_name (sf_imports (pr_source_file (cn_parse_result node)))"
    and "\<forall>i \<in> set (cn_imports node). is_external env rules i \<or> ci_artifact_key i \<in> gs_visited st" "cn_artifact_key node = key"
  shows "graph_wf env rules (st\<lparr>gs_visited := insert key (gs_visited st), gs_visiting := gs_visiting st - {key},
    gs_nodes := gs_nodes st @ [node]\<rparr>)"
proof -
  have "key \<notin> set (node_keys (gs_nodes st))" using assms(1,2) by (auto simp: graph_wf_def)
  moreover have "imports_before env rules (set (node_keys (gs_nodes st))) node"
    using assms(1,3,4) by (auto simp: imports_before_def graph_wf_def)
  ultimately show ?thesis using assms(1,5) ordered_append [of env rules "gs_nodes st" node] by (auto simp: graph_wf_def)
qed

lemma DiscoverModuleGraphRecursive_keeps: "keeps_graph env rules (DiscoverModuleGraphRecursive n env rules)"
proof (induction n)
  case (Suc n)
  show ?case
    unfolding keeps_graph_def
  proof (intro allI impI)
    fix m st ok st'
    assume wf: "graph_wf env rules st" and res: "DiscoverModuleGraphRecursive (Suc n) env rules m st = Some (ok, st')"
    let ?key = "rs_artifact_key m"
    show "graph_wf env rules st' \<and> grows st st' \<and> (ok \<longrightarrow> ?key \<in> gs_visited st')"
    proof (cases "?key \<in> gs_visited st \<or> ?key \<in> gs_visiting st")
      case True
      then show ?thesis using wf res by (auto simp: Let_def split: if_splits)
    next
      case False
      then obtain pr d where pr: "ParseLogicalModuleSources env (rs_source_paths m) (gs_diagnostics st) = Some (pr, d)"
        using res by (auto simp: Let_def split: option.splits)
      let ?st = "st\<lparr>gs_visiting := insert ?key (gs_visiting st), gs_diagnostics := d\<rparr>"
      have wf': "graph_wf env rules ?st" using wf False by (auto simp: graph_wf_def)
      have restored: "graph_wf env rules (st1\<lparr>gs_visiting := gs_visiting st1 - {?key}\<rparr>) \<and>
          grows st (st1\<lparr>gs_visiting := gs_visiting st1 - {?key}\<rparr>)"
        if "graph_wf env rules st1" "grows ?st st1" for st1
        using that False by (auto simp: graph_wf_def grows_def)
      show ?thesis
      proof (cases "\<exists>parsed. pr = Some parsed \<and> \<not> (rs_module_kind m = kInternal \<and>
          current_package rules (fs_absolute_normal (se_fs env) (rs_primary_source_path m)) m = None)")
        case no: False
        from no False pr res restored [OF wf'] restored [OF iffD2 [OF graph_wf_diagnostics wf']] show ?thesis
          by (auto simp: Let_def split: option.splits if_splits)
      next
        case True
        then obtain parsed where parsed: "pr = Some parsed" by blast
        let ?p = "fs_absolute_normal (se_fs env) (rs_primary_source_path m)"
        obtain r st1 where r: "discover_imports (DiscoverModuleGraphRecursive n env rules) env rules ?p (current_package rules ?p m)
            (sf_imports (pr_source_file parsed)) ?st = Some (r, st1)"
          using True parsed False pr res by (auto simp: Let_def split: option.splits if_splits)
        from discover_imports_keeps [OF Suc.IH wf' r]
        have k: "graph_wf env rules st1" "grows ?st st1" "\<And>imps. r = Some imps \<Longrightarrow>
            map ci_module_name imps = map im_module_name (sf_imports (pr_source_file parsed)) \<and>
            (\<forall>i \<in> set imps. is_external env rules i \<or> ci_artifact_key i \<in> gs_visited st1)" by auto
        show ?thesis
        proof (cases r)
          case None
          then show ?thesis using True parsed False pr res r restored [OF k(1,2)] by (auto simp: Let_def)
        next
          case (Some imps)
          let ?node = "\<lparr>cn_module_name = rs_module_name m, cn_artifact_key = ?key,
            cn_package_identity = package_text (current_package rules ?p m), cn_source_path = ?p, cn_source_paths = rs_source_paths m,
            cn_parse_result = parsed, cn_imports = imps\<rparr>"
          have "st' = st1\<lparr>gs_visited := insert ?key (gs_visited st1), gs_visiting := gs_visiting st1 - {?key},
              gs_nodes := gs_nodes st1 @ [?node]\<rparr>"
            using True parsed False pr res r Some by (auto simp: Let_def)
          moreover have "?key \<in> gs_visiting st1" using k(2) by (simp add: grows_def)
          ultimately show ?thesis
            using new_node_wf [OF k(1), of ?key ?node] k(2) k(3) [OF Some] False by (auto simp: grows_def)
        qed
      qed
    qed
  qed
qed (simp add: keeps_graph_def)

section \<open>Files\<close>

lemma lexed_wf:
  assumes "lexed = fst (Lex f src p d)"
  shows "ps_wf (parse_start lexed q d')"
proof -
  obtain ts eof where "lr_tokens lexed = ts @ [eof]" "tok_kind eof = T_kEof" "\<forall>t \<in> set ts. tok_kind t \<noteq> T_kEof"
    using Lex_placed [of f src p d] assms by auto
  then show ?thesis
    by (auto simp: ps_wf_def in_bounds_def parse_start_def nth_append)
qed

lemma Parse_reports:
  assumes "lexed = fst (Lex f src p d)" "Parse lexed q d1 = Some (r, d2)"
  shows "\<exists>ok. reported d1 (lr_ok lexed) d2 ok \<and> (pr_ok r \<longleftrightarrow> ok \<and> \<not> HasErrors d2)"
proof -
  let ?k = "length (lr_tokens lexed)"
  obtain s' where run: "Run (2 * ?k + 4) ?k (parse_start lexed q d1) = Some (r, s')" and d2: "d2 = ps_diagnostics s'"
    using assms(2) by (auto simp: Parse_def Parse_fuel_def)
  have "run_result (parse_start lexed q d1) (r, s')"
    by (rule outcome_partial [OF Parse_fuel_parses [OF lexed_wf [OF assms(1)]] run]) simp
  then show ?thesis by (intro exI [of _ "ps_ok s'"]) (auto simp: moved_def parse_start_def d2)
qed

definition sources_parse :: "source_env \<Rightarrow> bool" where
  \<comment> \<open>The parser returns on every file.\<close>
  "sources_parse env \<longleftrightarrow> (\<forall>p d. ParseSourcePath env p d \<noteq> None)"

definition plain_sources :: "source_env \<Rightarrow> bool" where
  \<comment> \<open>The files declare no structures and enumerations.\<close>
  "plain_sources env \<longleftrightarrow> (\<forall>p src d. se_read env p = Some src \<longrightarrow>
     without_members (lr_tokens (fst (Lex (se_stream_double env) src p d))))"

lemma plain_sources_parse: "plain_sources env \<Longrightarrow> sources_parse env"
  unfolding sources_parse_def
proof (intro allI)
  fix p d assume plain: "plain_sources env"
  show "ParseSourcePath env p d \<noteq> None"
  proof (cases "se_read env p")
    case None
    then show ?thesis by (simp add: ParseSourcePath_def ReadSourceText_def)
  next
    case (Some src)
    obtain lexed d1 where l: "Lex (se_stream_double env) src p d = (lexed, d1)" by force
    have "without_members (lr_tokens lexed)" using plain Some l unfolding plain_sources_def by (metis fst_conv)
    then have "Parse lexed p d1 \<noteq> None"
      using outcome_total [OF Parse_fuel_parses [of lexed p d1 True "length (lr_tokens lexed)"]]
        lexed_wf [of lexed "se_stream_double env" src p d] l by (auto simp: Parse_def Parse_fuel_def)
    with Some l show ?thesis by (simp add: ParseSourcePath_def ReadSourceText_def)
  qed
qed

section \<open>Enough fuel\<close>

definition import_keys :: "source_env \<Rightarrow> module_rules \<Rightarrow> string set" where
  \<comment> \<open>The keys that imps can lead to.\<close>
  "import_keys env rules = (\<Union>module_name. rs_artifact_key ` set (import_sources env rules module_name))"

lemma import_keys_exist:
  "mr_known_module_sources rules = None \<Longrightarrow> import_keys env rules \<subseteq> Collect (fs_exists (se_fs env))"
  by (auto simp: import_keys_def import_sources_def root_candidate_def Let_def)

lemma parse_parts_total: "sources_parse env \<Longrightarrow> parse_parts env ps parts d \<noteq> None"
  by (induction ps arbitrary: parts d) (auto simp: sources_parse_def split: option.split)

lemma ParseLogicalModuleSources_total: "sources_parse env \<Longrightarrow> ParseLogicalModuleSources env ps d \<noteq> None"
  by (simp add: ParseLogicalModuleSources_def parse_parts_total)

lemma discover_imports_total:
  assumes "keeps_graph env rules discover"
    and "\<And>m st. rs_artifact_key m \<in> import_keys env rules \<Longrightarrow> graph_wf env rules st \<Longrightarrow> gs_visiting st = V \<Longrightarrow> discover m st \<noteq> None"
  shows "graph_wf env rules st \<Longrightarrow> gs_visiting st = V \<Longrightarrow> discover_imports discover env rules p package is st \<noteq> None"
proof (induction "is" arbitrary: st)
  case (Cons i rest)
  obtain found d where f: "ResolveImportPathWithPackageRules env rules p (im_module_name i) package (gs_diagnostics st) (im_span i) = (found, d)"
    by force
  let ?st = "st\<lparr>gs_diagnostics := d\<rparr>"
  show ?case
  proof (cases found)
    case None
    then show ?thesis using f by simp
  next
    case (Some m)
    have "rs_artifact_key m \<in> import_keys env rules"
      using resolved_source [of env rules p "im_module_name i" package "gs_diagnostics st" "im_span i" m d] f Some
      by (auto simp: import_keys_def)
    then have "discover m ?st \<noteq> None" using assms(2) Cons.prems by simp
    then obtain ok st1 where d: "discover m ?st = Some (ok, st1)" by auto
    have "graph_wf env rules st1 \<and> gs_visiting st1 = V"
      using keeps_graphD [OF assms(1) _ d] Cons.prems by (auto simp: grows_def)
    then show ?thesis using Cons.IH [of st1] Cons.IH [of ?st] Cons.prems f Some d by (cases ok) (auto simp: Let_def)
  qed
qed simp

lemma DiscoverModuleGraphRecursive_total:
  assumes "sources_parse env" "finite K" "import_keys env rules \<subseteq> K"
  shows "rs_artifact_key m \<in> K \<Longrightarrow> graph_wf env rules st \<Longrightarrow> card (K - gs_visiting st) < n \<Longrightarrow>
    DiscoverModuleGraphRecursive n env rules m st \<noteq> None"
proof (induction n arbitrary: m st)
  case (Suc n)
  let ?key = "rs_artifact_key m"
  show ?case
  proof (cases "?key \<in> gs_visited st \<or> ?key \<in> gs_visiting st")
    case True
    then show ?thesis by (auto simp: Let_def)
  next
    case False
    obtain pr d where pr: "ParseLogicalModuleSources env (rs_source_paths m) (gs_diagnostics st) = Some (pr, d)"
      using ParseLogicalModuleSources_total [OF assms(1)] by fastforce
    let ?st = "st\<lparr>gs_visiting := insert ?key (gs_visiting st), gs_diagnostics := d\<rparr>"
    have "card (K - insert ?key (gs_visiting st)) < card (K - gs_visiting st)"
      using assms(2) Suc.prems(1) False by (intro psubset_card_mono) auto
    then have c: "card (K - insert ?key (gs_visiting st)) < n" using Suc.prems(3) by simp
    have "discover_imports (DiscoverModuleGraphRecursive n env rules) env rules p package is ?st \<noteq> None" for p package "is"
    proof (rule discover_imports_total [OF DiscoverModuleGraphRecursive_keeps, where V = "gs_visiting ?st"])
      show "DiscoverModuleGraphRecursive n env rules m1 st1 \<noteq> None"
        if "rs_artifact_key m1 \<in> import_keys env rules" "graph_wf env rules st1" "gs_visiting st1 = gs_visiting ?st" for m1 st1
        using Suc.IH [of m1 st1] that assms(3) c by auto
      show "graph_wf env rules ?st" using Suc.prems(2) False by (auto simp: graph_wf_def)
    qed simp
    then have total: "\<exists>r st'. discover_imports (DiscoverModuleGraphRecursive n env rules) env rules p package is ?st = Some (r, st')"
      for p package "is" by fast
    let ?p = "fs_absolute_normal (se_fs env) (rs_primary_source_path m)"
    show ?thesis
    proof (cases pr)
      case None
      then show ?thesis using False pr by (simp add: Let_def)
    next
      case (Some parsed)
      obtain r st' where "discover_imports (DiscoverModuleGraphRecursive n env rules) env rules ?p (current_package rules ?p m)
          (sf_imports (pr_source_file parsed)) ?st = Some (r, st')" using total by blast
      then show ?thesis using False pr Some by (cases r) (auto simp: Let_def)
    qed
  qed
qed simp

section \<open>Module graphs\<close>

lemma empty_graph_wf: "graph_wf env rules \<lparr>gs_diagnostics = d, gs_visiting = {}, gs_visited = {}, gs_nodes = []\<rparr>"
  by (simp add: graph_wf_def ordered_def)

lemma DiscoverModuleGraph_search:
  assumes "DiscoverModuleGraph n env rules entry options d = Some (Some graph, d')"
  obtains st where "DiscoverModuleGraphRecursive n env rules (entry_module env rules entry)
      \<lparr>gs_diagnostics = d, gs_visiting = {}, gs_visited = {}, gs_nodes = []\<rparr> = Some (True, st)"
    and "cg_nodes graph = gs_nodes st" "cg_mode graph = go_mode options" "cg_env graph = go_env options"
    and "cg_target_config graph = go_target_config options"
proof (cases "DiscoverModuleGraphRecursive n env rules (entry_module env rules entry)
    \<lparr>gs_diagnostics = d, gs_visiting = {}, gs_visited = {}, gs_nodes = []\<rparr>")
  case None
  with assms show ?thesis by (simp add: DiscoverModuleGraph_def Let_def)
next
  case (Some p)
  obtain ok st where p: "p = (ok, st)" by (cases p)
  have "ok \<and> cg_nodes graph = gs_nodes st \<and> cg_mode graph = go_mode options \<and> cg_env graph = go_env options \<and>
      cg_target_config graph = go_target_config options"
    using assms Some p by (cases ok) (simp_all only: DiscoverModuleGraph_def Let_def option.map prod.case if_True if_False
      option.inject prod.inject option.distinct, clarsimp+)
  then show ?thesis using that [of st] Some p by simp
qed

lemma DiscoverModuleGraph_ordered:
  assumes "DiscoverModuleGraph n env rules entry options d = Some (Some graph, d')"
  shows "ordered env rules (cg_nodes graph)"
    and "rs_artifact_key (entry_module env rules entry) \<in> set (node_keys (cg_nodes graph))"
proof -
  obtain st where r: "DiscoverModuleGraphRecursive n env rules (entry_module env rules entry)
      \<lparr>gs_diagnostics = d, gs_visiting = {}, gs_visited = {}, gs_nodes = []\<rparr> = Some (True, st)" "cg_nodes graph = gs_nodes st"
    using DiscoverModuleGraph_search [OF assms] by blast
  have "graph_wf env rules st \<and> rs_artifact_key (entry_module env rules entry) \<in> gs_visited st"
    using keeps_graphD [OF DiscoverModuleGraphRecursive_keeps empty_graph_wf r(1)] by blast
  then show "ordered env rules (cg_nodes graph)" "rs_artifact_key (entry_module env rules entry) \<in> set (node_keys (cg_nodes graph))"
    unfolding graph_wf_def r(2) by blast+
qed

lemma DiscoverModuleGraph_options:
  assumes "DiscoverModuleGraph n env rules entry options d = Some (Some graph, d')"
  shows "cg_mode graph = go_mode options \<and> cg_env graph = go_env options \<and> cg_target_config graph = go_target_config options"
  using DiscoverModuleGraph_search [OF assms] by blast

lemma DiscoverModuleGraph_total:
  assumes "sources_parse env" "finite K" "import_keys env rules \<subseteq> K" "rs_artifact_key (entry_module env rules entry) \<in> K" "card K < n"
  shows "DiscoverModuleGraph n env rules entry options d \<noteq> None"
proof -
  let ?st = "\<lparr>gs_diagnostics = d, gs_visiting = {}, gs_visited = {}, gs_nodes = []\<rparr>"
  have "DiscoverModuleGraphRecursive n env rules (entry_module env rules entry) ?st \<noteq> None"
    by (rule DiscoverModuleGraphRecursive_total [OF assms(1-4) empty_graph_wf]) (simp add: assms(5))
  then show ?thesis by (simp add: DiscoverModuleGraph_def Let_def)
qed

lemma discover_imports_keys:
  assumes "\<And>m st ok st'. rs_artifact_key m \<in> K \<Longrightarrow> gs_visited st \<subseteq> K \<Longrightarrow> discover m st = Some (ok, st') \<Longrightarrow> gs_visited st' \<subseteq> K"
    and "import_keys env rules \<subseteq> K"
  shows "gs_visited st \<subseteq> K \<Longrightarrow> discover_imports discover env rules p package is st = Some (r, st') \<Longrightarrow> gs_visited st' \<subseteq> K"
proof (induction "is" arbitrary: st r)
  case (Cons i rest)
  obtain found d where f: "ResolveImportPathWithPackageRules env rules p (im_module_name i) package (gs_diagnostics st) (im_span i) = (found, d)"
    by force
  show ?case
  proof (cases found)
    case None
    then show ?thesis using Cons.prems f by auto
  next
    case (Some m)
    have "rs_artifact_key m \<in> K"
      using resolved_source [of env rules p "im_module_name i" package "gs_diagnostics st" "im_span i" m d] f Some assms(2)
      by (auto simp: import_keys_def)
    note k = assms(1) [OF this, of "st\<lparr>gs_diagnostics := d\<rparr>"]
    show ?thesis
    proof (cases "fs_absolute_normal (se_fs env) (rs_primary_source_path m) \<in> mr_external_module_paths rules")
      case True
      then show ?thesis using Cons.prems f Some Cons.IH [of "st\<lparr>gs_diagnostics := d\<rparr>"] by (auto simp: Let_def)
    next
      case False
      then obtain ok st1 where d: "discover m (st\<lparr>gs_diagnostics := d\<rparr>) = Some (ok, st1)"
        using Cons.prems(2) f Some by (auto simp: Let_def split: option.splits)
      then have "gs_visited st1 \<subseteq> K" using k Cons.prems(1) by simp
      then show ?thesis using Cons.prems(2) f Some False d Cons.IH [of st1] by (cases ok) (auto simp: Let_def)
    qed
  qed
qed simp

lemma DiscoverModuleGraphRecursive_keys:
  assumes "import_keys env rules \<subseteq> K"
  shows "rs_artifact_key m \<in> K \<Longrightarrow> gs_visited st \<subseteq> K \<Longrightarrow> DiscoverModuleGraphRecursive n env rules m st = Some (ok, st') \<Longrightarrow>
    gs_visited st' \<subseteq> K"
proof (induction n arbitrary: m st ok st')
  case (Suc n)
  let ?key = "rs_artifact_key m" and ?p = "fs_absolute_normal (se_fs env) (rs_primary_source_path m)"
  show ?case
  proof (cases "?key \<in> gs_visited st \<or> ?key \<in> gs_visiting st")
    case True
    then show ?thesis using Suc.prems by (auto simp: Let_def split: if_splits)
  next
    case False
    then obtain pr d where pr: "ParseLogicalModuleSources env (rs_source_paths m) (gs_diagnostics st) = Some (pr, d)"
      using Suc.prems(3) by (auto simp: Let_def split: option.splits)
    let ?st = "st\<lparr>gs_visiting := insert ?key (gs_visiting st), gs_diagnostics := d\<rparr>"
    show ?thesis
    proof (cases "\<exists>parsed. pr = Some parsed \<and> \<not> (rs_module_kind m = kInternal \<and> current_package rules ?p m = None)")
      case no: False
      from no False pr Suc.prems show ?thesis by (auto simp: Let_def split: option.splits if_splits)
    next
      case True
      then obtain parsed where parsed: "pr = Some parsed" by blast
      obtain r st1 where r: "discover_imports (DiscoverModuleGraphRecursive n env rules) env rules ?p (current_package rules ?p m)
          (sf_imports (pr_source_file parsed)) ?st = Some (r, st1)"
        using True parsed False pr Suc.prems(3) by (auto simp: Let_def split: option.splits if_splits)
      have "gs_visited st1 \<subseteq> K"
        by (rule discover_imports_keys [OF Suc.IH assms _ r]) (use Suc.prems(2) in simp_all)
      moreover have "gs_visited st' \<subseteq> insert ?key (gs_visited st1)"
        using True parsed False pr Suc.prems(3) r by (cases r) (auto simp: Let_def)
      ultimately show ?thesis using Suc.prems(1) by blast
    qed
  qed
qed simp

lemma DiscoverModuleGraph_keys:
  assumes "DiscoverModuleGraph n env rules entry options d = Some (Some graph, d')"
    and "import_keys env rules \<subseteq> K" "rs_artifact_key (entry_module env rules entry) \<in> K"
  shows "set (node_keys (cg_nodes graph)) \<subseteq> K"
proof -
  obtain st where r: "DiscoverModuleGraphRecursive n env rules (entry_module env rules entry)
      \<lparr>gs_diagnostics = d, gs_visiting = {}, gs_visited = {}, gs_nodes = []\<rparr> = Some (True, st)" "cg_nodes graph = gs_nodes st"
    using DiscoverModuleGraph_search [OF assms(1)] by blast
  have "graph_wf env rules st" using keeps_graphD [OF DiscoverModuleGraphRecursive_keeps empty_graph_wf r(1)] by blast
  moreover have "gs_visited st \<subseteq> K" by (rule DiscoverModuleGraphRecursive_keys [OF assms(2,3) _ r(1)]) simp
  ultimately show ?thesis by (simp add: graph_wf_def r(2))
qed

lemma first_index_of:
  assumes "distinct (node_keys nodes)" "key \<in> set (node_keys (take k nodes))" "k \<le> length nodes"
  shows "\<exists>j < k. first_index nodes key = Some j"
proof -
  obtain j where j: "j < k" "key = node_keys nodes ! j" using assms(2,3) by (auto simp: in_set_conv_nth)
  have "first_index nodes (node_keys nodes ! j) = Some ([0..<length nodes] ! j)"
    unfolding first_index_def by (rule map_of_zip_nth) (use assms j in auto)
  with j assms(3) show ?thesis by auto
qed

lemma ordered_asserted:
  assumes "ordered env rules (cg_nodes graph)" "mr_external_module_paths rules = {}"
  shows "AssertCompileGraphTopologicalOrder graph"
proof -
  let ?nodes = "cg_nodes graph"
  have "case first_index ?nodes (ci_artifact_key m) of None \<Rightarrow> True | Some j \<Rightarrow> j < k"
    if "k < length ?nodes" "m \<in> set (cn_imports (?nodes ! k))" for k m
  proof -
    have "ci_artifact_key m \<in> set (node_keys (take k ?nodes))"
      using assms that by (auto simp: ordered_def imports_before_def is_external_def)
    with first_index_of [of ?nodes "ci_artifact_key m" k] assms(1) that(1) show ?thesis by (auto simp: ordered_def)
  qed
  then show ?thesis by (auto simp: AssertCompileGraphTopologicalOrder_def list_all_iff set_zip)
qed

section \<open>Reports\<close>

definition honest :: "DiagnosticSink \<Rightarrow> bool \<Rightarrow> DiagnosticSink \<Rightarrow> bool" where
  \<comment> \<open>A step that succeeds reports no error, one that fails leaves an error.\<close>
  "honest d ok d' \<longleftrightarrow> (if ok then HasErrors d' = HasErrors d else HasErrors d')"

lemma honest_trans: "honest d True d' \<Longrightarrow> honest d' ok d'' \<Longrightarrow> honest d ok d''"
  by (auto simp: honest_def)

lemma honest_refl [simp]: "honest d True d"
  by (simp add: honest_def)

lemma honest_failed: "honest d True d' \<Longrightarrow> honest d' False d'' \<Longrightarrow> honest d False d''"
  by (simp add: honest_def)

lemma HasErrors_of_errors: "\<forall>x \<in> set ds. diag_severity x = kError \<Longrightarrow> HasErrors ds \<longleftrightarrow> ds \<noteq> []"
  by (induction ds) auto

lemma ParseSourcePath_honest:
  assumes "ParseSourcePath env p d = Some (r, d')"
  shows "honest d (r \<noteq> None) d'"
proof (cases "se_read env p")
  case None
  with assms show ?thesis by (auto simp: ParseSourcePath_def ReadSourceText_def honest_def project_report_def)
next
  case (Some src)
  obtain lexed d1 where l: "Lex (se_stream_double env) src p d = (lexed, d1)" by force
  obtain pr where pr: "Parse lexed p d1 = Some (pr, d')" "r = (if pr_ok pr then Some pr else None)"
    using assms Some l by (auto simp: ParseSourcePath_def ReadSourceText_def)
  obtain ds where ds: "d1 = d @ ds" "\<forall>x \<in> set ds. diag_severity x = kError" "lr_ok lexed \<longleftrightarrow> ds = []"
    using Lex_diagnostics [of "se_stream_double env" src p d] l by auto
  have "lexed = fst (Lex (se_stream_double env) src p d)" using l by simp
  from Parse_reports [OF this pr(1)] obtain ds2 where
    "d' = d1 @ ds2" "\<forall>x \<in> set ds2. diag_severity x = kError" "pr_ok pr \<longleftrightarrow> (lr_ok lexed \<and> ds2 = []) \<and> \<not> HasErrors d'"
    unfolding reported_def by blast
  with ds pr(2) show ?thesis by (auto simp: honest_def HasErrors_of_errors)
qed

lemma parse_parts_honest: "parse_parts env ps parts d = Some (r, d') \<Longrightarrow> honest d (r \<noteq> None) d'"
proof (induction ps arbitrary: parts d r)
  case (Cons p ps)
  obtain pr d1 where p: "ParseSourcePath env p d = Some (pr, d1)" using Cons.prems by (auto split: option.splits)
  note h = ParseSourcePath_honest [OF p]
  show ?case
  proof (cases pr)
    case None
    with Cons.prems p h show ?thesis by auto
  next
    case (Some parsed)
    with h have "honest d True d1" by simp
    then show ?thesis
      using Cons.prems p Some Cons.IH by (auto simp: honest_def project_report_def split: if_splits)
  qed
qed simp

lemma ParseLogicalModuleSources_honest: "ParseLogicalModuleSources env ps d = Some (r, d') \<Longrightarrow> honest d (r \<noteq> None) d'"
  by (auto simp: ParseLogicalModuleSources_def dest: parse_parts_honest)

lemma ResolveImport_honest:
  "ResolveImportPathWithPackageRules env rules p module_name importer d span = (r, d') \<Longrightarrow> honest d (r \<noteq> None) d'"
  by (auto simp: ResolveImportPathWithPackageRules_def Let_def honest_def project_report_def split: list.splits)

definition honest_search :: "(ResolvedModuleSource \<Rightarrow> GraphState \<Rightarrow> (bool \<times> GraphState) option) \<Rightarrow> bool" where
  "honest_search discover \<longleftrightarrow> (\<forall>m st ok st'. discover m st = Some (ok, st') \<longrightarrow> honest (gs_diagnostics st) ok (gs_diagnostics st'))"

lemma discover_imports_honest:
  assumes "honest_search discover"
  shows "discover_imports discover env rules p package is st = Some (r, st') \<Longrightarrow> honest (gs_diagnostics st) (r \<noteq> None) (gs_diagnostics st')"
proof (induction "is" arbitrary: st r)
  case (Cons i rest)
  obtain found d where f: "ResolveImportPathWithPackageRules env rules p (im_module_name i) package (gs_diagnostics st) (im_span i) = (found, d)"
    by force
  note h = ResolveImport_honest [OF f]
  let ?st = "st\<lparr>gs_diagnostics := d\<rparr>"
  show ?case
  proof (cases found)
    case None
    with Cons.prems f h show ?thesis by auto
  next
    case (Some m)
    then have d: "honest (gs_diagnostics st) True d" using h by simp
    have continue: ?thesis if "honest d True (gs_diagnostics st1)"
      "map_option (apfst (map_option ((#) (import_of_source (im_module_name i) m)))) (discover_imports discover env rules p package rest st1) = Some (r, st')"
      for st1
      using that Cons.IH [of st1] honest_trans [OF d] honest_trans by auto
    show ?thesis
    proof (cases "fs_absolute_normal (se_fs env) (rs_primary_source_path m) \<in> mr_external_module_paths rules")
      case True
      with Cons.prems f Some show ?thesis by (intro continue [of ?st]) simp_all
    next
      case False
      then obtain ok st1 where r: "discover m ?st = Some (ok, st1)"
        using Cons.prems f Some by (auto simp: Let_def split: option.splits)
      have h1: "honest d ok (gs_diagnostics st1)" using assms r unfolding honest_search_def by fastforce
      show ?thesis
      proof (cases ok)
        case True
        with Cons.prems f Some False r h1 show ?thesis by (intro continue [of st1]) (simp_all add: Let_def)
      next
        case ok: False
        with Cons.prems f Some False r h1 show ?thesis by (auto simp: Let_def honest_def)
      qed
    qed
  qed
qed auto

lemma DiscoverModuleGraphRecursive_honest: "honest_search (DiscoverModuleGraphRecursive n env rules)"
proof (induction n)
  case (Suc n)
  show ?case
    unfolding honest_search_def
  proof (intro allI impI)
    fix m st ok st'
    assume res: "DiscoverModuleGraphRecursive (Suc n) env rules m st = Some (ok, st')"
    let ?key = "rs_artifact_key m"
    let ?p = "fs_absolute_normal (se_fs env) (rs_primary_source_path m)"
    show "honest (gs_diagnostics st) ok (gs_diagnostics st')"
    proof (cases "?key \<in> gs_visited st \<or> ?key \<in> gs_visiting st")
      case True
      then show ?thesis using res by (auto simp: Let_def honest_def project_report_def split: if_splits)
    next
      case False
      then obtain pr d where pr: "ParseLogicalModuleSources env (rs_source_paths m) (gs_diagnostics st) = Some (pr, d)"
        using res by (auto simp: Let_def split: option.splits)
      note h = ParseLogicalModuleSources_honest [OF pr]
      let ?st = "st\<lparr>gs_visiting := insert ?key (gs_visiting st), gs_diagnostics := d\<rparr>"
      show ?thesis
      proof (cases "\<exists>parsed. pr = Some parsed \<and> \<not> (rs_module_kind m = kInternal \<and> current_package rules ?p m = None)")
        case no: False
        from no False pr res h show ?thesis by (auto simp: Let_def honest_def project_report_def split: option.splits if_splits)
      next
        case True
        then obtain parsed where parsed: "pr = Some parsed" by blast
        obtain r st1 where r: "discover_imports (DiscoverModuleGraphRecursive n env rules) env rules ?p (current_package rules ?p m)
            (sf_imports (pr_source_file parsed)) ?st = Some (r, st1)"
          using True parsed False pr res by (auto simp: Let_def split: option.splits if_splits)
        have h1: "honest d (r \<noteq> None) (gs_diagnostics st1)" using discover_imports_honest [OF Suc.IH r] by simp
        have "ok = (r \<noteq> None) \<and> gs_diagnostics st' = gs_diagnostics st1"
          using True parsed False pr res r by (cases r) (auto simp: Let_def)
        with h h1 parsed show ?thesis by (auto simp: honest_def)
      qed
    qed
  qed
qed (simp add: honest_search_def)

lemma DiscoverModuleGraph_honest:
  assumes "DiscoverModuleGraph n env rules entry options d = Some (r, d')"
  shows "honest d (r \<noteq> None) d'"
proof (cases "DiscoverModuleGraphRecursive n env rules (entry_module env rules entry)
    \<lparr>gs_diagnostics = d, gs_visiting = {}, gs_visited = {}, gs_nodes = []\<rparr>")
  case None
  with assms show ?thesis by (simp add: DiscoverModuleGraph_def Let_def)
next
  case (Some p)
  obtain ok st where p: "p = (ok, st)" by (cases p)
  have "honest d ok (gs_diagnostics st)"
    using DiscoverModuleGraphRecursive_honest [of n env rules] Some p unfolding honest_search_def by fastforce
  moreover have "(r \<noteq> None) = ok \<and> d' = gs_diagnostics st"
    using assms Some p by (cases ok) (auto simp: DiscoverModuleGraph_def Let_def)
  ultimately show ?thesis by simp
qed

end
