(* ===== verification/MC_ProjectSpec.thy ===== *)
theory MC_ProjectSpec
  imports MC_Project
begin

text \<open>
  What holds of a project that \<open>LoadProjectFile\<close> returns: its names, roots, files and options are consistent, whatever the file.
\<close>

section \<open>No errors\<close>

lemma HasErrors_fold_Report [simp]: "HasErrors (fold Report ds sink) \<longleftrightarrow> HasErrors ds \<or> HasErrors sink"
  by (induction ds arbitrary: sink) auto

lemma HasErrors_error_if [simp]: "HasErrors (error_if c p span message) \<longleftrightarrow> c"
  by (simp add: error_if_def project_report_def)

lemma HasErrors_concat [simp]: "HasErrors (concat dss) \<longleftrightarrow> (\<exists>ds \<in> set dss. HasErrors ds)"
  by (induction dss) auto

lemma severity_project_report [simp]: "diag_severity (project_report severity p span message) = severity"
  by (simp add: project_report_def)

lemma first_duplicate_None:
  "first_duplicate fs seen ps = None \<longleftrightarrow> distinct (map (fs_lexically_normal fs) ps) \<and> seen \<inter> fs_lexically_normal fs ` set ps = {}"
  by (induction fs seen ps rule: first_duplicate.induct) (auto simp: Let_def)

lemma HasErrors_duplicates [simp]:
  "HasErrors (ReportDuplicateConfiguredPaths fs p n l ps) \<longleftrightarrow> \<not> distinct (map (fs_lexically_normal fs) ps)"
  using first_duplicate_None [of fs "{}" ps] by (auto simp: ReportDuplicateConfiguredPaths_def split: option.split)

lemma package_owners:
  "\<not> HasErrors (package_owner_reports p span name xs owned) \<Longrightarrow>
     \<exists>m. owned \<subseteq>\<^sub>m m \<and> (\<forall>x \<in> set xs. m (fst x) = Some (snd x))"
proof (induction xs arbitrary: owned)
  case (Cons x xs)
  obtain root n where x: "x = (root, n)" by force
  show ?case
  proof (cases "owned root")
    case None
    with Cons.prems x have "\<not> HasErrors (package_owner_reports p span name xs (owned(root \<mapsto> n)))" by simp
    then obtain m where m: "owned(root \<mapsto> n) \<subseteq>\<^sub>m m" "\<forall>x \<in> set xs. m (fst x) = Some (snd x)" using Cons.IH by blast
    with None have "owned \<subseteq>\<^sub>m m" "m root = Some n" by (auto simp: map_le_def dom_def split: if_splits)
    with m(2) x show ?thesis by auto
  next
    case (Some owner)
    with Cons.prems x have "\<not> HasErrors (package_owner_reports p span name xs owned)" and o: "owner = n" by auto
    then obtain m where m: "owned \<subseteq>\<^sub>m m" "\<forall>x \<in> set xs. m (fst x) = Some (snd x)" using Cons.IH by blast
    with Some o have "m root = Some n" by (auto simp: map_le_def dom_def)
    with m x show ?thesis by auto
  qed
qed (auto intro: map_le_refl)

lemma file_owners:
  "\<not> HasErrors (fst (file_owner_reports p name xs owned)) \<Longrightarrow> m = snd (file_owner_reports p name xs owned) \<Longrightarrow>
     owned \<subseteq>\<^sub>m m \<and> (\<forall>x \<in> set xs. \<exists>l. m (fst x) = Some (fst (snd x), l))"
proof (induction xs arbitrary: owned)
  case (Cons x xs)
  obtain src n l where x: "x = (src, n, l)" by (metis prod.exhaust)
  show ?case
  proof (cases "owned src")
    case None
    with Cons x have m: "owned(src \<mapsto> (n, l)) \<subseteq>\<^sub>m m" "\<forall>x \<in> set xs. \<exists>l. m (fst x) = Some (fst (snd x), l)"
      by (simp_all del: fun_upd_apply)
    from m(1) None have "owned \<subseteq>\<^sub>m m" "m src = Some (n, l)" by (auto simp: map_le_def dom_def split: if_splits)
    with m(2) x show ?thesis by auto
  next
    case (Some e)
    obtain owner k where e: "e = (owner, k)" by force
    let ?r = "file_owner_reports p name xs owned"
    have "\<not> HasErrors (fst ?r)" "owner = n" "m = snd ?r"
      using Cons.prems Some e x by (auto simp: Let_def split: prod.splits)
    then have m: "owned \<subseteq>\<^sub>m m" "\<forall>x \<in> set xs. \<exists>l. m (fst x) = Some (fst (snd x), l)" using Cons.IH by auto
    from m(1) Some e \<open>owner = n\<close> have "m src = Some (n, k)" by (auto simp: map_le_def dom_def)
    with m x show ?thesis by auto
  qed
qed (auto intro: map_le_refl)

lemma roots_distinct:
  "\<not> HasErrors (root_reports fs p ts roots) \<Longrightarrow>
     distinct (map (\<lambda>x. fs_lexically_normal fs (pt_root (snd x))) (filter (\<lambda>x. pt_root (snd x) \<noteq> []) ts)) \<and>
     (\<forall>x \<in> set ts. pt_root (snd x) \<noteq> [] \<longrightarrow> roots (fs_lexically_normal fs (pt_root (snd x))) = None)"
proof (induction ts arbitrary: roots)
  case (Cons x ts)
  obtain n t where x: "x = (n, t)" by force
  show ?case
  proof (cases "pt_root t = []")
    case True
    then show ?thesis using Cons x by (simp add: Let_def)
  next
    case False
    let ?k = "fs_lexically_normal fs (pt_root t)"
    from False Cons.prems x have k: "roots ?k = None" "\<not> HasErrors (root_reports fs p ts (roots(?k \<mapsto> n)))"
      by (auto simp: Let_def split: option.splits)
    from Cons.IH [OF k(2)] show ?thesis using False k(1) x by (auto split: if_splits)
  qed
qed simp

section \<open>What loading keeps\<close>

definition target_wf :: "string \<Rightarrow> ProjectTarget \<Rightarrow> bool" where
  \<comment> \<open>The names are the keys, and a key occurs once.\<close>
  "target_wf n t \<longleftrightarrow> pt_name t = n \<and> n \<noteq> [] \<and> distinct (map fst (pt_package_roots t)) \<and> distinct (map fst (pt_module_sets t)) \<and>
     (\<forall>x \<in> set (pt_module_sets t). ms_module_name (snd x) = fst x)"

definition project_wf :: "ProjectFile \<Rightarrow> bool" where
  "project_wf p \<longleftrightarrow> distinct (map fst (pf_targets p)) \<and> (\<forall>x \<in> set (pf_targets p). target_wf (fst x) (snd x))"

lemma set_update: "x \<in> set (AList.update k v m) \<Longrightarrow> x = (k, v) \<or> x \<in> set m"
  by (induction m) (auto split: if_splits)

lemma update_keys: "distinct (map fst m) \<Longrightarrow> distinct (map fst (AList.update k v m))"
  by (rule distinct_update)

lemma kind_error_fst [simp]: "fst (kind_error p line key st) = fst st"
  by (simp add: kind_error_def)

lemma with_kinds:
  assumes "P (fst st)"
  shows "(\<And>x t. P t \<Longrightarrow> P (f x t)) \<Longrightarrow> P (fst (with_string p line key v f st))"
    "(\<And>x t. P t \<Longrightarrow> P (g x t)) \<Longrightarrow> P (fst (with_boolean p line key v g st))"
    "(\<And>x t. P t \<Longrightarrow> P (h x t)) \<Longrightarrow> P (fst (with_array p line key v h st))"
    "(\<And>x st. P (fst st) \<Longrightarrow> P (fst (a x st))) \<Longrightarrow> P (fst (with_integer p line key v a st))"
  using assms by (auto simp: with_string_def with_boolean_def with_array_def with_integer_def split: ParsedValue.split)

lemma single_key_keeps: "P (fst st) \<Longrightarrow> P (fst (act st)) \<Longrightarrow> P (fst (single_key table expected p line key act st))"
  by (simp add: single_key_def)

lemma module_set_name: "target_wf n t \<Longrightarrow> ms_module_name (LookupTargetModuleSet m t) = m"
  by (auto simp: LookupTargetModuleSet_def target_wf_def split: option.split dest!: map_of_SomeD)

lemma package_roots_wf: "target_wf n t \<Longrightarrow> target_wf n (t\<lparr>pt_package_roots := AList.update m ts (pt_package_roots t)\<rparr>)"
  by (auto simp: target_wf_def update_keys)

lemma module_sets_wf:
  "target_wf n t \<Longrightarrow> ms_module_name s = m \<Longrightarrow> target_wf n (t\<lparr>pt_module_sets := AList.update m s (pt_module_sets t)\<rparr>)"
  by (auto simp: target_wf_def update_keys dest!: set_update)

lemmas target_kinds = with_kinds [where P = "target_wf n" for n]

lemma string_member_wf:
  assumes "target_wf n (fst st)"
  shows "target_wf n (fst (with_string p line key v (\<lambda>t target. target\<lparr>pt_kind := t\<rparr>) st))"
    "target_wf n (fst (with_string p line key v (\<lambda>t target. target\<lparr>pt_package_name := t\<rparr>) st))"
    "target_wf n (fst (with_string p line key v (\<lambda>t target. target\<lparr>pt_root := t\<rparr>) st))"
    "target_wf n (fst (with_string p line key v (\<lambda>t target. target\<lparr>pt_mode := t\<rparr>) st))"
    "target_wf n (fst (with_string p line key v (\<lambda>t target. target\<lparr>pt_env := t\<rparr>) st))"
    "target_wf n (fst (with_string p line key v (\<lambda>t target. target\<lparr>pt_target := t\<rparr>) st))"
    "target_wf n (fst (with_string p line key v (\<lambda>t target. target\<lparr>pt_runtime_startup := t\<rparr>) st))"
    "target_wf n (fst (with_string p line key v (\<lambda>t target. target\<lparr>pt_tests := pt_tests target\<lparr>tt_mode := t\<rparr>\<rparr>) st))"
  by (rule target_kinds(1) [OF assms], simp add: target_wf_def)+

lemma array_member_wf:
  assumes "target_wf n (fst st)"
  shows "target_wf n (fst (with_array p line key v (\<lambda>ts target. target\<lparr>pt_links := ts\<rparr>) st))"
    "target_wf n (fst (with_array p line key v (\<lambda>ts target. target\<lparr>pt_module_search_paths := ts\<rparr>) st))"
    "target_wf n (fst (with_array p line key v (\<lambda>ts target. target\<lparr>pt_link_inputs := ts\<rparr>) st))"
    "target_wf n (fst (with_array p line key v (\<lambda>ts target. target\<lparr>pt_tests := pt_tests target\<lparr>tt_roots := ts\<rparr>\<rparr>) st))"
  by (rule target_kinds(3) [OF assms], simp add: target_wf_def)+

lemma map_member_wf:
  assumes "target_wf n (fst st)"
  shows "target_wf n (fst (with_array p line key v (\<lambda>ts target. target\<lparr>pt_package_roots := AList.update m ts (pt_package_roots target)\<rparr>) st))"
    "target_wf n (fst (with_array p line key v (\<lambda>ts target. target\<lparr>pt_module_sets := AList.update m
       ((LookupTargetModuleSet m target)\<lparr>ms_files := ts, ms_files_line := line\<rparr>) (pt_module_sets target)\<rparr>) st))"
  by (rule target_kinds(3) [OF assms], simp add: package_roots_wf module_sets_wf module_set_name)+

lemma target_entry_wf: "target_wf n (fst st) \<Longrightarrow> target_wf n (fst (target_entry p line key v st))"
  by (simp add: target_entry_def string_member_wf array_member_wf)

lemma tests_entry_wf:
  assumes "target_wf n (fst st)"
  shows "target_wf n (fst (tests_entry p line key v st))"
proof -
  have "target_wf n (fst (with_boolean p line key v (\<lambda>b target. target\<lparr>pt_tests := pt_tests target\<lparr>tt_enabled := b\<rparr>\<rparr>) st))" for key
    by (rule target_kinds(2) [OF assms]) (simp add: target_wf_def)
  moreover have "target_wf n (fst (with_integer p line key v
      (\<lambda>k. apfst (\<lambda>target. target\<lparr>pt_tests := pt_tests target\<lparr>tt_timeout_ms := Some k\<rparr>\<rparr>)) st))" for key
    by (rule target_kinds(4) [OF assms]) (simp add: target_wf_def)
  ultimately show ?thesis using assms by (simp add: tests_entry_def Let_def string_member_wf array_member_wf)
qed

lemma nested_entry_wf:
  assumes "target_wf n (fst st)"
  shows "target_wf n (fst (nested_entry p line tables key v st))"
proof -
  consider "tables = []" | t where "tables = [t]" | t m where "tables = [t, m]" | t m u us where "tables = t # m # u # us"
    by (metis list.exhaust)
  then show ?thesis
    by cases (use assms in \<open>simp_all add: nested_entry_def single_key_def target_entry_wf tests_entry_wf string_member_wf array_member_wf map_member_wf\<close>)
qed

lemma project_wf_update: "project_wf p \<Longrightarrow> target_wf n t \<Longrightarrow> project_wf (p\<lparr>pf_targets := AList.update n t (pf_targets p)\<rparr>)"
  by (auto simp: project_wf_def update_keys dest!: set_update)

lemma new_target_wf: "n \<noteq> [] \<Longrightarrow> target_wf n (new_ProjectTarget\<lparr>pt_name := n\<rparr>)"
  by (simp add: target_wf_def new_ProjectTarget_def)

lemma LookupTarget_wf:
  assumes "project_wf (fst st)" "LookupTarget n p line st = (r, st')"
  shows "project_wf (fst st') \<and> (\<forall>t. r = Some t \<longrightarrow> target_wf n t)"
proof (cases "n = [] \<or> map_of (pf_targets (fst st)) n \<noteq> None")
  case True
  then show ?thesis using assms
    by (cases st) (auto simp: LookupTarget_def project_wf_def split: if_splits option.splits dest!: map_of_SomeD)
next
  case False
  then show ?thesis using assms new_target_wf [of n]
    by (cases st) (auto simp: LookupTarget_def Let_def intro: project_wf_update split: if_splits option.splits)
qed

lemma top_level_entry_wf:
  assumes "project_wf (fst st)"
  shows "project_wf (fst (top_level_entry p line key v st))"
proof -
  note kinds = with_kinds [where P = project_wf, OF assms]
  have "project_wf (fst (with_string p line key v (\<lambda>t project. project\<lparr>pf_project_name := t\<rparr>) st))"
    "project_wf (fst (with_string p line key v (\<lambda>t project. project\<lparr>pf_default_target := Some t\<rparr>) st))"
    "project_wf (fst (with_string p line key v (\<lambda>t project. project\<lparr>pf_build_dir := t\<rparr>) st))" for key
    by (rule kinds(1), simp add: project_wf_def)+
  moreover have "project_wf (fst (with_integer p line key v
      (\<lambda>n. if n \<noteq> 1 then apsnd (ReportProjectError p line message) else id) st))" for key message
    by (rule kinds(4)) simp
  ultimately show ?thesis using assms by (simp add: top_level_entry_def)
qed

lemma section_entry_wf:
  assumes "project_wf (fst st)"
  shows "project_wf (fst (section_entry p line header header_line key v st))"
proof (cases header rule: remdups_adj.cases)
  case 1
  then show ?thesis using top_level_entry_wf [OF assms] by (simp add: section_entry_def)
next
  case (2 a)
  then show ?thesis using assms by (simp add: section_entry_def)
next
  case (3 root n tables)
  obtain r project d where l: "LookupTarget n p line st = (r, project, d)" by (metis prod.exhaust)
  show ?thesis
  proof (cases "root = ''targets'' \<and> r \<noteq> None")
    case False
    then show ?thesis using assms LookupTarget_wf [OF assms l] 3 l by (auto simp: section_entry_def split: option.split)
  next
    case True
    then obtain t where t: "r = Some t" by blast
    let ?t = "if pt_decl_line t = 0 then t\<lparr>pt_decl_line := header_line\<rparr> else t"
    have "target_wf n ?t" using LookupTarget_wf [OF assms l] t by (simp add: target_wf_def)
    then have "target_wf n (fst (nested_entry p line tables key v (?t, d)))" by (intro nested_entry_wf) simp
    then show ?thesis using LookupTarget_wf [OF assms l] 3 True l t
      by (auto simp: section_entry_def Let_def project_wf_update split: prod.split)
  qed
qed

lemma project_lines_wf: "project_lines p ls st = Some st' \<Longrightarrow> project_wf (lp_project st) \<Longrightarrow> project_wf (lp_project st')"
proof (induction ls arbitrary: st)
  case (Cons l ls)
  obtain st1 where st1: "project_line p l st = Some st1" "project_lines p ls st1 = Some st'"
    using Cons.prems(1) by (auto split: option.splits)
  have "project_wf (lp_project st1)"
    using st1(1) Cons.prems(2) section_entry_wf [of "(lp_project st, lp_diagnostics st)"]
    by (auto simp: project_line_def Let_def split: if_splits option.splits prod.splits) (metis fst_conv)
  with st1(2) show ?case by (rule Cons.IH)
qed simp

section \<open>What a loaded project satisfies\<close>

definition env_ok :: "driver_env \<Rightarrow> bool" where
  \<comment> \<open>A loop over a map visits its keys, and an absolute path is not empty.\<close>
  "env_ok env \<longleftrightarrow> (\<forall>ks. set (de_visit env ks) = set ks) \<and> (\<forall>p. fs_absolute_normal (de_fs env) p \<noteq> [])"

abbreviation same_path :: "filesystem \<Rightarrow> path \<Rightarrow> path \<Rightarrow> bool" where
  "same_path fs p q \<equiv> fs_lexically_normal fs p = fs_lexically_normal fs q"

definition unique_owners :: "filesystem \<Rightarrow> (string \<times> path list) list \<Rightarrow> bool" where
  \<comment> \<open>No path stands under two names, nor twice under one.\<close>
  "unique_owners fs m \<longleftrightarrow>
     (\<forall>x \<in> set m. distinct (map (fs_lexically_normal fs) (snd x)) \<and>
       (\<forall>y \<in> set m. \<forall>p \<in> set (snd x). \<forall>q \<in> set (snd y). same_path fs p q \<longrightarrow> fst x = fst y))"

definition runtime_ok :: "ProjectTarget \<Rightarrow> bool" where
  "runtime_ok t \<longleftrightarrow>
     (if pt_env t = ''hosted'' then pt_runtime_startup t = ''default''
      else pt_env t = ''freestanding'' \<and> pt_target t \<noteq> [] \<and> pt_runtime_startup t \<noteq> ''default'' \<and> IsPlainStartupName (pt_runtime_startup t))"

definition module_sets_ok :: "filesystem \<Rightarrow> ProjectTarget \<Rightarrow> bool" where
  \<comment> \<open>The sets have files, sorted, none internal, and the root of the target can only be in the set with its name, which has it.\<close>
  "module_sets_ok fs t \<longleftrightarrow>
     (\<forall>x \<in> set (pt_module_sets t). fst x \<noteq> ''internal'' \<and> ms_module_name (snd x) = fst x \<and> ms_files (snd x) \<noteq> [] \<and>
        sorted (ms_files (snd x)) \<and> (\<forall>f \<in> set (ms_files (snd x)). \<not> IsInternalModulePath f) \<and>
        ((\<exists>f \<in> set (ms_files (snd x)). same_path fs f (pt_root t)) \<longleftrightarrow> fst x = path_stem (pt_root t)))"

definition target_consistent :: "driver_env \<Rightarrow> ProjectTarget \<Rightarrow> bool" where
  "target_consistent env t \<longleftrightarrow>
     IsSupportedBootstrapTargetKind (pt_kind t) \<and> pt_root t \<noteq> [] \<and> pt_package_name t \<noteq> [] \<and>
     IsSupportedMode (pt_mode t) \<and> IsSupportedMode (tt_mode (pt_tests t)) \<and> runtime_ok t \<and>
     (pt_link_inputs t \<noteq> [] \<longrightarrow> IsExecutableTargetKind (pt_kind t)) \<and>
     distinct (map (fs_lexically_normal (de_fs env)) (pt_link_inputs t)) \<and>
     distinct (map (fs_lexically_normal (de_fs env)) (pt_module_search_paths t)) \<and>
     distinct (map (fs_lexically_normal (de_fs env)) (tt_roots (pt_tests t))) \<and>
     unique_owners (de_fs env) (pt_package_roots t) \<and> [] \<notin> fst ` set (pt_package_roots t) \<and>
     unique_owners (de_fs env) (map (apsnd ms_files) (pt_module_sets t)) \<and> module_sets_ok (de_fs env) t"

definition project_consistent :: "driver_env \<Rightarrow> ProjectFile \<Rightarrow> bool" where
  "project_consistent env p \<longleftrightarrow>
     pf_project_name p \<noteq> [] \<and> pf_targets p \<noteq> [] \<and> distinct (map fst (pf_targets p)) \<and>
     (\<forall>x \<in> set (pf_targets p). pt_name (snd x) = fst x \<and> target_consistent env (snd x)) \<and>
     (\<forall>x \<in> set (pf_targets p). \<forall>y \<in> set (pf_targets p).
        same_path (de_fs env) (pt_root (snd x)) (pt_root (snd y)) \<longrightarrow> x = y) \<and>
     (\<forall>n. pf_default_target p = Some n \<longrightarrow> n \<in> fst ` set (pf_targets p))"

lemma set_map_filter: "set (List.map_filter f xs) = {y. \<exists>x \<in> set xs. f x = Some y}"
  by (force simp: map_filter_def)

lemma visited_set: "env_ok env \<Longrightarrow> distinct (map fst m) \<Longrightarrow> set (visited_entries env m) = set m"
  by (auto simp: visited_entries_def env_ok_def set_map_filter map_of_eq_Some_iff) force+

lemma unique_ownersI:
  assumes "\<forall>x \<in> set m. distinct (map (fs_lexically_normal fs) (snd x))"
    and "\<forall>x \<in> set m. \<forall>p \<in> set (snd x). owner (fs_lexically_normal fs p) = Some (fst x)"
  shows "unique_owners fs m"
  unfolding unique_owners_def
proof (intro ballI conjI impI)
  fix x y p q assume "x \<in> set m" "y \<in> set m" "p \<in> set (snd x)" "q \<in> set (snd y)" "same_path fs p q"
  with assms(2) have "owner (fs_lexically_normal fs p) = Some (fst x)" "owner (fs_lexically_normal fs q) = Some (fst y)" by blast+
  with \<open>same_path fs p q\<close> show "fst x = fst y" by simp
qed (use assms(1) in blast)

lemma packages_unique:
  assumes "env_ok env" "distinct (map fst m)" "\<forall>x \<in> set m. distinct (map (fs_lexically_normal fs) (snd x))"
    and "\<not> HasErrors (package_owner_reports p span name
      (concat (map (\<lambda>(n, roots). map (\<lambda>root. (fs_lexically_normal fs root, n)) roots) (visited_entries env m))) Map.empty)"
  shows "unique_owners fs m"
proof -
  obtain owner where "\<forall>x \<in> set (concat (map (\<lambda>(n, roots). map (\<lambda>root. (fs_lexically_normal fs root, n)) roots) (visited_entries env m))).
      owner (fst x) = Some (snd x)"
    using package_owners [OF assms(4)] by blast
  then have "\<forall>x \<in> set m. \<forall>p \<in> set (snd x). owner (fs_lexically_normal fs p) = Some (fst x)"
    by (auto simp: visited_set [OF assms(1,2)])
  with assms(3) show ?thesis by (rule unique_ownersI)
qed

lemma files_owned:
  assumes "env_ok env" "distinct (map fst m)"
    and "file_owner_reports p name (concat (map (\<lambda>(n, s). map (\<lambda>f. (fs_lexically_normal fs f, n, ms_files_line s)) (ms_files s))
      (visited_entries env m))) Map.empty = (reports, owned)" "\<not> HasErrors reports"
  shows "\<forall>x \<in> set m. \<forall>f \<in> set (ms_files (snd x)). \<exists>l. owned (fs_lexically_normal fs f) = Some (fst x, l)"
proof -
  let ?xs = "concat (map (\<lambda>(n, s). map (\<lambda>f. (fs_lexically_normal fs f, n, ms_files_line s)) (ms_files s)) (visited_entries env m))"
  have o: "\<forall>x \<in> set ?xs. \<exists>l. owned (fst x) = Some (fst (snd x), l)"
    by (rule conjunct2 [OF file_owners [of p name _ Map.empty owned]]) (simp_all only: assms(3,4) fst_conv snd_conv simp_thms)
  show ?thesis
  proof (intro ballI)
    fix x f assume "x \<in> set m" "f \<in> set (ms_files (snd x))"
    then have "(fs_lexically_normal fs f, fst x, ms_files_line (snd x)) \<in> set ?xs"
      using prod.collapse [of x] by (auto simp: visited_set [OF assms(1,2)] intro!: bexI [of _ "(fst x, snd x)"])
    from bspec [OF o this] show "\<exists>l. owned (fs_lexically_normal fs f) = Some (fst x, l)" by simp
  qed
qed

lemma settled_simps [simp]:
  "pt_name (settled_target fs pr n t) = pt_name t" "pt_kind (settled_target fs pr n t) = pt_kind t"
  "pt_mode (settled_target fs pr n t) = pt_mode t" "pt_env (settled_target fs pr n t) = pt_env t"
  "pt_target (settled_target fs pr n t) = pt_target t" "pt_runtime_startup (settled_target fs pr n t) = pt_runtime_startup t"
  "tt_mode (pt_tests (settled_target fs pr n t)) = tt_mode (pt_tests t)"
  "pt_link_inputs (settled_target fs pr n t) = [] \<longleftrightarrow> pt_link_inputs t = []"
  "pt_package_name (settled_target fs pr n t) = (if pt_package_name t = [] then n else pt_package_name t)"
  "map fst (pt_package_roots (settled_target fs pr n t)) = map fst (pt_package_roots t)"
  "map fst (pt_module_sets (settled_target fs pr n t)) = map fst (pt_module_sets t)"
  "pt_module_sets (settled_target fs pr n t) = map (apsnd (settled_module_set fs pr)) (pt_module_sets t)"
  "pt_root (settled_target fs pr n t) = (if pt_root t = [] then [] else in_root fs pr (pt_root t))"
  by (simp_all add: settled_target_def Let_def)

lemma runtime_reports_ok:
  "\<not> HasErrors (runtime_reports env p span n t) \<Longrightarrow> IsSupportedBootstrapEnv (pt_env t) \<Longrightarrow> runtime_ok t"
  by (auto simp: runtime_reports_def runtime_ok_def IsSupportedBootstrapEnv_def ReportBootstrapTargetNotes_def split: if_splits)

lemma sort_eq_Nil [simp]: "sort xs = [] \<longleftrightarrow> xs = []"
  by (metis length_0_conv length_sort)

lemma module_set_reports_ok:
  assumes "\<not> HasErrors (module_set_reports env pr span n (m, s))"
  shows "m \<noteq> ''internal'' \<and> ms_files s \<noteq> [] \<and> (\<forall>f \<in> set (ms_files (settled_module_set (de_fs env) pr s)). \<not> IsInternalModulePath f) \<and>
    distinct (map (fs_lexically_normal (de_fs env)) (ms_files (settled_module_set (de_fs env) pr s))) \<and>
    sorted (ms_files (settled_module_set (de_fs env) pr s))"
  using assms by (auto simp: module_set_reports_def settled_module_set_def Let_def split: if_splits)

lemma target_reports_ok:
  assumes env: "env_ok env" and wf: "target_wf n t" and ok: "\<not> HasErrors (target_reports env pr (n, t))"
  shows "target_consistent env (settled_target (de_fs env) pr n t)"
proof -
  let ?fs = "de_fs env" and ?t = "settled_target (de_fs env) pr n t"
  let ?span = "MakeLineSpan (if pt_decl_line t = 0 then 1 else pt_decl_line t)"
  let ?files = "concat (map (\<lambda>(module_name, s). map (\<lambda>f. (fs_lexically_normal ?fs f, module_name, ms_files_line s)) (ms_files s))
    (visited_entries env (pt_module_sets ?t)))"
  obtain owner_reports owned where o: "file_owner_reports (pf_path pr) n ?files Map.empty = (owner_reports, owned)" by force
  note r = ok [unfolded target_reports_def Let_def prod.case o HasErrors_append HasErrors_error_if HasErrors_concat
      HasErrors_duplicates de_Morgan_disj not_not set_map]
  have basic: "IsSupportedBootstrapTargetKind (pt_kind t)" "pt_root t \<noteq> []" "IsSupportedMode (pt_mode t)"
    "IsSupportedMode (tt_mode (pt_tests t))" "IsSupportedBootstrapEnv (pt_env t)"
    "pt_link_inputs t \<noteq> [] \<longrightarrow> IsExecutableTargetKind (pt_kind t)"
    "distinct (map (fs_lexically_normal ?fs) (pt_link_inputs ?t))"
    "distinct (map (fs_lexically_normal ?fs) (pt_module_search_paths ?t))"
    "distinct (map (fs_lexically_normal ?fs) (tt_roots (pt_tests ?t)))"
    using r by blast+
  have keys: "distinct (map fst (pt_package_roots ?t))" "distinct (map fst (pt_module_sets ?t))" "distinct (map fst (pt_module_sets t))"
    using wf by (simp_all only: target_wf_def settled_simps(10,11))
  have packages: "unique_owners ?fs (pt_package_roots ?t)" "[] \<notin> fst ` set (pt_package_roots ?t)"
  proof -
    have each: "fst x \<noteq> [] \<and> distinct (map (fs_lexically_normal ?fs) (snd x))" if "x \<in> set (pt_package_roots ?t)" for x
    proof -
      have "\<forall>x \<in> set (visited_entries env (pt_package_roots ?t)). \<not> HasErrors (package_reports ?fs (pf_path pr) ?span n x)"
        using r by blast
      then have "\<not> HasErrors (package_reports ?fs (pf_path pr) ?span n x)" using that visited_set [OF env keys(1)] by blast
      then show ?thesis by (cases x) (simp add: package_reports_def)
    qed
    then show "[] \<notin> fst ` set (pt_package_roots ?t)" by force
    have "\<not> HasErrors (package_owner_reports (pf_path pr) ?span n (concat (map (\<lambda>(m, roots). map (\<lambda>root. (fs_lexically_normal ?fs root, m)) roots)
        (visited_entries env (pt_package_roots ?t)))) Map.empty)"
      using r by blast
    from packages_unique [OF env keys(1) _ this] each show "unique_owners ?fs (pt_package_roots ?t)" by blast
  qed
  have sets: "fst x \<noteq> ''internal'' \<and> ms_files (snd x) \<noteq> [] \<and> sorted (ms_files (snd x)) \<and> (\<forall>f \<in> set (ms_files (snd x)). \<not> IsInternalModulePath f) \<and>
      distinct (map (fs_lexically_normal ?fs) (ms_files (snd x))) \<and> ms_module_name (snd x) = fst x"
    if x: "x \<in> set (pt_module_sets ?t)" for x
  proof -
    obtain y where y: "y \<in> set (pt_module_sets t)" "x = apsnd (settled_module_set ?fs pr) y"
      using x unfolding settled_simps set_map by blast
    have "\<forall>x \<in> set (visited_entries env (pt_module_sets t)). \<not> HasErrors (module_set_reports env pr ?span n x)"
      using r by blast
    then have "\<not> HasErrors (module_set_reports env pr ?span n (fst y, snd y))"
      using y(1) visited_set [OF env keys(3)] by (metis prod.collapse)
    from module_set_reports_ok [OF this] show ?thesis using y wf
      by (auto simp: settled_module_set_def target_wf_def)
  qed
  have owned: "\<exists>l. owned (fs_lexically_normal ?fs f) = Some (fst x, l)" if "x \<in> set (pt_module_sets ?t)" "f \<in> set (ms_files (snd x))" for x f
    using files_owned [OF env keys(2) o] r that by blast
  have files: "unique_owners ?fs (map (apsnd ms_files) (pt_module_sets ?t))"
  proof (rule unique_ownersI)
    show "\<forall>x \<in> set (map (apsnd ms_files) (pt_module_sets ?t)). distinct (map (fs_lexically_normal ?fs) (snd x))"
      unfolding set_map using sets by fastforce
    show "\<forall>x \<in> set (map (apsnd ms_files) (pt_module_sets ?t)). \<forall>f \<in> set (snd x).
        map_option fst (owned (fs_lexically_normal ?fs f)) = Some (fst x)"
      unfolding set_map ball_simps using owned by fastforce
  qed
  have entry: "\<not> HasErrors (entry_reports ?fs (pf_path pr) ?span n ?t owned)" using r by blast
  have root: "(\<exists>f \<in> set (ms_files (snd x)). same_path ?fs f (pt_root ?t)) \<longleftrightarrow> fst x = path_stem (pt_root ?t)"
    if x: "x \<in> set (pt_module_sets ?t)" for x
  proof
    assume "\<exists>f \<in> set (ms_files (snd x)). same_path ?fs f (pt_root ?t)"
    then obtain l where "owned (fs_lexically_normal ?fs (pt_root ?t)) = Some (fst x, l)" using owned [OF x] by metis
    with entry show "fst x = path_stem (pt_root ?t)" by (simp add: entry_reports_def Let_def del: settled_simps)
  next
    assume "fst x = path_stem (pt_root ?t)"
    then have "map_of (pt_module_sets ?t) (path_stem (pt_root ?t)) = Some (snd x)"
      using x keys(2) by (metis map_of_eq_Some_iff prod.collapse)
    with entry have "fs_lexically_normal ?fs (pt_root ?t) \<in> fs_lexically_normal ?fs ` set (ms_files (snd x))"
      by (simp add: entry_reports_def Let_def del: settled_simps)
    then show "\<exists>f \<in> set (ms_files (snd x)). same_path ?fs f (pt_root ?t)" by auto
  qed
  have runtime: "runtime_ok ?t" using runtime_reports_ok [of env _ _ n t] r basic(5) by (auto simp: runtime_ok_def)
  have "pt_root ?t \<noteq> []" "pt_package_name ?t \<noteq> []" using basic(2) env wf by (simp_all add: in_root_def env_ok_def target_wf_def)
  then show ?thesis
    unfolding target_consistent_def module_sets_ok_def settled_simps(2,3,7,8)
    using basic packages files sets root runtime by blast
qed

lemma settled_project_simps [simp]:
  "pf_targets (settled_project fs pr) = map (\<lambda>(n, t). (n, settled_target fs pr n t)) (pf_targets pr)"
  "pf_project_name (settled_project fs pr) = pf_project_name pr" "pf_default_target (settled_project fs pr) = pf_default_target pr"
  by (simp_all add: settled_project_def)

lemma project_reports_ok:
  assumes env: "env_ok env" and wf: "project_wf pr" and ok: "\<not> HasErrors (project_reports env pr)"
  shows "project_consistent env (settled_project (de_fs env) pr)"
proof -
  let ?fs = "de_fs env" and ?p = "settled_project (de_fs env) pr"
  note r = ok [unfolded project_reports_def Let_def HasErrors_append HasErrors_error_if HasErrors_concat de_Morgan_disj not_not set_map]
  have keys: "distinct (map fst (pf_targets pr))" "distinct (map fst (pf_targets ?p))"
    using wf by (simp_all add: project_wf_def comp_def case_prod_beta)
  have targets: "pt_name (snd x) = fst x \<and> target_consistent env (snd x)" if x: "x \<in> set (pf_targets ?p)" for x
  proof -
    obtain n t where t: "(n, t) \<in> set (pf_targets pr)" "x = (n, settled_target ?fs pr n t)" using x by auto
    have "\<forall>x \<in> set (visited_entries env (pf_targets pr)). \<not> HasErrors (target_reports env pr x)" using r by blast
    then have "\<not> HasErrors (target_reports env pr (n, t))" using t(1) visited_set [OF env keys(1)] by blast
    moreover have "target_wf n t" using wf t(1) by (auto simp: project_wf_def)
    ultimately show ?thesis using target_reports_ok [OF env, of n t pr] t(2) by (simp add: target_wf_def)
  qed
  have roots: "x = y" if xy: "x \<in> set (pf_targets ?p)" "y \<in> set (pf_targets ?p)" "same_path ?fs (pt_root (snd x)) (pt_root (snd y))" for x y
  proof -
    let ?ts = "visited_entries env (pf_targets ?p)"
    have "\<not> HasErrors (root_reports ?fs (pf_path pr) ?ts Map.empty)" using r by blast
    from roots_distinct [OF this]
    have "inj_on (\<lambda>x. fs_lexically_normal ?fs (pt_root (snd x))) (set (filter (\<lambda>x. pt_root (snd x) \<noteq> []) ?ts))"
      by (simp add: distinct_map)
    moreover have "pt_root (snd x) \<noteq> []" "pt_root (snd y) \<noteq> []" using targets xy by (auto simp: target_consistent_def)
    ultimately show ?thesis using xy visited_set [OF env keys(2)] by (auto simp only: inj_on_def set_filter mem_Collect_eq)
  qed
  have "n \<in> fst ` set (pf_targets ?p)" if "pf_default_target pr = Some n" for n
    using r that by (auto simp: case_prod_beta image_image)
  then show ?thesis
    unfolding project_consistent_def using r keys(2) targets roots by simp
qed

lemma LoadProjectFile_consistent:
  assumes "env_ok env" "LoadProjectFile env content p d = Some (Some pr, d')"
  shows "project_consistent env pr \<and> \<not> HasErrors d'"
proof -
  let ?path = "fs_absolute_normal (de_fs env) p"
  let ?start = "new_ProjectFile\<lparr>pf_path := ?path, pf_root_dir := path_parent ?path\<rparr>"
  obtain input where input: "content = Some input" using assms(2) by (auto simp: LoadProjectFile_def Let_def split: option.splits)
  obtain ls d1 where ls: "ReadLogicalProjectLines input ?path d = (ls, d1)" by force
  obtain st where st: "project_lines ?path ls \<lparr>lp_project = ?start, lp_header = [], lp_header_line = 0, lp_diagnostics = d1\<rparr> = Some st"
    "\<not> HasErrors (fold Report (project_reports env (lp_project st)) (lp_diagnostics st))"
    "pr = settled_project (de_fs env) (lp_project st)" "d' = fold Report (project_reports env (lp_project st)) (lp_diagnostics st)"
    using assms(2) input ls by (auto simp: LoadProjectFile_def Let_def split: if_splits)
  have "project_wf (lp_project st)" using project_lines_wf [OF st(1)] by (simp add: project_wf_def new_ProjectFile_def)
  from project_reports_ok [OF assms(1) this] st(2-4) show ?thesis by simp
qed

lemma SelectProjectTarget_consistent:
  assumes "project_consistent env pr" "env_ok env"
  shows "\<exists>r d'. SelectProjectTarget env pr explicit_target d = Some (r, d') \<and>
    (case r of None \<Rightarrow> HasErrors d' | Some t \<Rightarrow> d' = d \<and> (pt_name t, t) \<in> set (pf_targets pr) \<and>
       (\<forall>n. explicit_target = Some n \<longrightarrow> pt_name t = n))"
proof -
  have named: "pt_name t = n \<and> (pt_name t, t) \<in> set (pf_targets pr)" if "map_of (pf_targets pr) n = Some t" for n t
    using assms(1) map_of_SomeD [OF that] by (auto simp: project_consistent_def)
  have one: "(pt_name (snd (hd (visited_entries env (pf_targets pr)))), snd (hd (visited_entries env (pf_targets pr)))) \<in> set (pf_targets pr)"
    if "length (pf_targets pr) = 1"
  proof -
    have "set (visited_entries env (pf_targets pr)) = set (pf_targets pr)" "pf_targets pr \<noteq> []"
      using visited_set [OF assms(2)] assms(1) by (auto simp: project_consistent_def)
    then have "hd (visited_entries env (pf_targets pr)) \<in> set (pf_targets pr)" by (metis hd_in_set set_empty)
    moreover from this have "pt_name (snd (hd (visited_entries env (pf_targets pr)))) = fst (hd (visited_entries env (pf_targets pr)))"
      using assms(1) unfolding project_consistent_def by blast
    ultimately show ?thesis by simp
  qed
  have no_throw: "\<exists>t. map_of (pf_targets pr) n = Some t" if "pf_default_target pr = Some n" for n
  proof -
    have "n \<in> fst ` set (pf_targets pr)" using assms(1) that by (simp add: project_consistent_def)
    then have "map_of (pf_targets pr) n \<noteq> None" by (simp add: map_of_eq_None_iff)
    then show ?thesis by simp
  qed
  show ?thesis
  proof (cases explicit_target)
    case (Some n)
    then show ?thesis using named [of n]
      by (cases "map_of (pf_targets pr) n") (auto simp: SelectProjectTarget_def Let_def ReportTargetSelectionNotes_def)
  next
    case None
    show ?thesis
    proof (cases "pf_default_target pr")
      case (Some n)
      with no_throw [of n] obtain t where "map_of (pf_targets pr) n = Some t" by blast
      with named [of n t] None Some show ?thesis by (auto simp: SelectProjectTarget_def Let_def)
    next
      case none: None
      with None one show ?thesis by (auto simp: SelectProjectTarget_def Let_def ReportTargetSelectionNotes_def)
    qed
  qed
qed

end
