(* ===== verification/MC_TargetSpec.thy ===== *)
theory MC_TargetSpec
  imports MC_Target MC_GraphSpec MC_ProjectSpec
begin

text \<open>
  The graphs of targets: what the libraries that a target links have to be, who owns a source, and that the
  recursion over the links ends.
\<close>

section \<open>Who owns a source\<close>

primrec graph_sources :: "TargetBuildGraph \<Rightarrow> string set" where
  \<comment> \<open>The sources of a target and of everything that it links.\<close>
  "graph_sources (mk_TargetBuildGraph p t graph linked_targets) =
     cn_source_path ` set (cg_nodes graph) \<union> \<Union> (set (map graph_sources linked_targets))"

definition claims :: "string \<Rightarrow> string set \<Rightarrow> OwnedPaths \<Rightarrow> OwnedPaths \<Rightarrow> bool" where
  \<comment> \<open>A step without errors gives the paths to the owner, and none of them was another's.\<close>
  "claims owner S st st' \<longleftrightarrow> (\<not> HasErrors (op_diagnostics st') \<longrightarrow>
     \<not> HasErrors (op_diagnostics st) \<and> op_owned_paths st' = op_owned_paths st \<union> S \<and>
     (\<forall>k \<in> S. op_owners st k \<in> {None, Some owner}) \<and>
     (\<forall>k. op_owners st' k = (if k \<in> S then Some owner else op_owners st k)))"

lemma claims_refl: "claims owner {} st st"
  by (simp add: claims_def)

lemma claims_trans:
  assumes "claims owner S st st'" "claims owner S' st' st''"
  shows "claims owner (S \<union> S') st st''"
  unfolding claims_def
proof (intro impI conjI ballI allI)
  assume ok: "\<not> HasErrors (op_diagnostics st'')"
  note b = assms(2) [unfolded claims_def, rule_format, OF ok]
  note a = assms(1) [unfolded claims_def, rule_format, OF conjunct1 [OF b]]
  show "\<not> HasErrors (op_diagnostics st)" "op_owned_paths st'' = op_owned_paths st \<union> (S \<union> S')" using a b by auto
  show "op_owners st k \<in> {None, Some owner}" if "k \<in> S \<union> S'" for k
  proof (cases "k \<in> S")
    case False
    with that have "k \<in> S'" by blast
    with b have "op_owners st' k \<in> {None, Some owner}" by blast
    with a False show ?thesis by simp
  qed (use a in blast)
  show "op_owners st'' k = (if k \<in> S \<union> S' then Some owner else op_owners st k)" for k using a b by auto
qed

lemma claims_node: "claims owner {cn_source_path node} st (collect_node owner t project node st)"
  by (auto simp: claims_def collect_node_def Let_def split: option.splits if_splits)

lemma claims_fold:
  assumes "\<And>x st. x \<in> set xs \<Longrightarrow> claims owner (S x) st (f x st)"
  shows "claims owner (\<Union> (S ` set xs)) st (fold f xs st)"
  using assms
proof (induction xs arbitrary: st)
  case (Cons x xs)
  have "claims owner (S x \<union> \<Union> (S ` set xs)) st (fold f xs (f x st))"
    by (rule claims_trans [OF Cons.prems(1) [of x st]]) (use Cons in auto)
  then show ?case by simp
qed (simp add: claims_refl)

lemma claims_graph: "claims owner (graph_sources g) st (CollectOwnedSourcePathsForLink g owner t project st)"
proof (induction g arbitrary: st)
  case (mk_TargetBuildGraph p t' graph gs)
  have "claims owner (cn_source_path ` set (cg_nodes graph)) st (fold (collect_node owner t project) (cg_nodes graph) st)"
    using claims_fold [where S = "\<lambda>node. {cn_source_path node}" and xs = "cg_nodes graph" and f = "collect_node owner t project" and owner = owner and st = st]
      claims_node [of owner _ _ t project] by (simp add: UNION_singleton_eq_range)
  moreover have "claims owner (\<Union> (graph_sources ` set gs)) st1 (fold (\<lambda>g. CollectOwnedSourcePathsForLink g owner t project) gs st1)" for st1
    by (rule claims_fold) (use mk_TargetBuildGraph in blast)
  ultimately show ?case by (simp add: fold_map comp_def) (blast intro: claims_trans)
qed

lemma collect_owners:
  "\<not> HasErrors (op_diagnostics (fold (\<lambda>g. CollectOwnedSourcePathsForLink g (pt_name (tg_target g)) t project) gs st)) \<Longrightarrow>
     st' = fold (\<lambda>g. CollectOwnedSourcePathsForLink g (pt_name (tg_target g)) t project) gs st \<Longrightarrow>
     op_owned_paths st' = op_owned_paths st \<union> \<Union> (graph_sources ` set gs) \<and> op_owners st \<subseteq>\<^sub>m op_owners st' \<and>
     (\<forall>g \<in> set gs. \<forall>k \<in> graph_sources g. op_owners st' k = Some (pt_name (tg_target g))) \<and> \<not> HasErrors (op_diagnostics st)"
proof (induction gs arbitrary: st)
  case (Cons g gs)
  let ?st = "CollectOwnedSourcePathsForLink g (pt_name (tg_target g)) t project st"
  have ih: "op_owned_paths st' = op_owned_paths ?st \<union> \<Union> (graph_sources ` set gs)" "op_owners ?st \<subseteq>\<^sub>m op_owners st'"
      "\<forall>g \<in> set gs. \<forall>k \<in> graph_sources g. op_owners st' k = Some (pt_name (tg_target g))" "\<not> HasErrors (op_diagnostics ?st)"
    using Cons.IH [of ?st] Cons.prems by auto
  note c = claims_graph [of "pt_name (tg_target g)" g st t project, unfolded claims_def, rule_format, OF ih(4)]
  have "op_owners st \<subseteq>\<^sub>m op_owners ?st" using c by (auto simp: map_le_def dom_def)
  then have "op_owners st \<subseteq>\<^sub>m op_owners st'" using ih(2) by (rule map_le_trans)
  moreover have "op_owners st' k = Some (pt_name (tg_target g))" if "k \<in> graph_sources g" for k
  proof -
    have "op_owners ?st k = Some (pt_name (tg_target g))" using c that by simp
    with ih(2) show ?thesis by (metis domI map_le_def)
  qed
  ultimately show ?case using ih c by auto
qed (auto intro: map_le_refl)

definition separate :: "TargetBuildGraph list \<Rightarrow> bool" where
  \<comment> \<open>Libraries with different names have no source in common.\<close>
  "separate gs \<longleftrightarrow> (\<forall>g \<in> set gs. \<forall>h \<in> set gs. pt_name (tg_target g) \<noteq> pt_name (tg_target h) \<longrightarrow> graph_sources g \<inter> graph_sources h = {})"

lemma collect_linked_separate:
  assumes "\<not> HasErrors (op_diagnostics (collect_linked gs t project d))"
  shows "separate gs" "op_owned_paths (collect_linked gs t project d) = \<Union> (graph_sources ` set gs)"
proof -
  let ?st = "collect_linked gs t project d"
  have c: "op_owned_paths ?st = \<Union> (graph_sources ` set gs)"
      "\<forall>g \<in> set gs. \<forall>k \<in> graph_sources g. op_owners ?st k = Some (pt_name (tg_target g))"
    using collect_owners [of t project gs "\<lparr>op_owned_paths = {}, op_owners = Map.empty, op_diagnostics = d\<rparr>" ?st] assms
    by (simp_all add: collect_linked_def)
  show "op_owned_paths ?st = \<Union> (graph_sources ` set gs)" by (rule c(1))
  show "separate gs" using c(2) by (auto simp: separate_def) (metis option.inject)
qed

section \<open>The links\<close>

definition link_ok :: "ProjectTarget \<Rightarrow> TargetBuildGraph \<Rightarrow> bool" where
  \<comment> \<open>A linked target is a static library that the target names, built for the same mode and environment.\<close>
  "link_ok t g \<longleftrightarrow> pt_name (tg_target g) \<in> set (pt_links t) \<and> IsStaticLibraryTargetKind (pt_kind (tg_target g)) \<and>
     pt_mode (tg_target g) = pt_mode t \<and> pt_env (tg_target g) = pt_env t"

inductive built :: "source_env \<Rightarrow> ProjectFile \<Rightarrow> path list \<Rightarrow> string set \<Rightarrow> TargetBuildGraph \<Rightarrow> bool"
  for env project cli_import_roots where
  "\<lbrakk>pt_name t \<notin> visiting;
    pt_target t = [] \<or> pt_target t = tc_triple (de_config (se_driver env)) \<or> pt_target t = tc_target_family (de_config (se_driver env));
    \<forall>g \<in> set gs. link_ok t g \<and> built env project cli_import_roots (insert (pt_name t) visiting) g; separate gs;
    ordered env (target_rules (se_driver env) project t cli_import_roots gs (\<Union> (graph_sources ` set gs))) (cg_nodes graph);
    cg_mode graph = pt_mode t; cg_env graph = pt_env t; tc_hosted (cg_target_config graph) = (pt_env t = ''hosted'')\<rbrakk> \<Longrightarrow>
   built env project cli_import_roots visiting (mk_TargetBuildGraph project t graph gs)"

inductive_simps built_simps: "built env project cli_import_roots visiting (mk_TargetBuildGraph p t graph gs)"

lemma SupportsBootstrapTarget_iff:
  "SupportsBootstrapTarget env t project d = (True, d') \<Longrightarrow>
     d' = d \<and> (pt_target t = [] \<or> pt_target t = tc_triple (de_config env) \<or> pt_target t = tc_target_family (de_config env))"
  by (auto simp: SupportsBootstrapTarget_def Let_def split: if_splits)

lemma own_graph_built:
  assumes "own_graph m env project t roots gs d = Some (Some g, d')"
    and "pt_name t \<notin> visiting" "\<forall>g \<in> set gs. link_ok t g \<and> built env project roots (insert (pt_name t) visiting) g"
    and "pt_target t = [] \<or> pt_target t = tc_triple (de_config (se_driver env)) \<or> pt_target t = tc_target_family (de_config (se_driver env))"
  shows "built env project roots visiting g \<and> tg_target g = t"
proof -
  let ?owned = "collect_linked gs t project d"
  let ?rules = "target_rules (se_driver env) project t roots gs (\<Union> (graph_sources ` set gs))"
  obtain config d1 where config: "ResolveProjectTargetConfig (se_driver env) project t (op_diagnostics ?owned) = (config, d1)" by force
  have ok: "\<not> HasErrors (op_diagnostics ?owned)" using assms(1) by (auto simp: own_graph_def Let_def split: if_splits)
  obtain graph d2 where graph: "DiscoverModuleGraph m env ?rules (pt_root t) (target_options project t config) d1 = Some (Some graph, d2)"
    "g = mk_TargetBuildGraph project t graph gs"
    using assms(1) ok config collect_linked_separate(2) [OF ok] by (auto simp: own_graph_def Let_def split: if_splits)
  have "cg_mode graph = pt_mode t \<and> cg_env graph = pt_env t \<and> cg_target_config graph = config"
    by (rule DiscoverModuleGraph_options [OF graph(1), unfolded target_options_def, simplified])
  moreover have "tc_hosted config = (pt_env t = ''hosted'')" using config by (auto simp: ResolveProjectTargetConfig_def Let_def)
  ultimately show ?thesis using graph(2) assms(2-4) collect_linked_separate(1) [OF ok] DiscoverModuleGraph_ordered(1) [OF graph(1)]
    by (simp add: built_simps)
qed

lemma link_targets_built:
  assumes "\<And>t' d g d' v'. build t' (d, v) = Some (g, d', v') \<Longrightarrow> v' = v \<and> (\<forall>h. g = Some h \<longrightarrow> built env project roots v h \<and> tg_target h = t')"
    and "\<forall>x \<in> set (pf_targets project). pt_name (snd x) = fst x"
  shows "link_targets build project t links (d, v) = Some (r, d', v') \<Longrightarrow> set links \<subseteq> set (pt_links t) \<Longrightarrow>
    v' = v \<and> (\<forall>gs. r = Some gs \<longrightarrow> (\<forall>g \<in> set gs. link_ok t g \<and> built env project roots v g))"
proof (induction links arbitrary: d r)
  case (Cons link_name rest)
  show ?case
  proof (cases "map_of (pf_targets project) link_name")
    case None
    with Cons show ?thesis by simp
  next
    case (Some found)
    let ?t = "found\<lparr>pt_mode := pt_mode t, pt_env := pt_env t\<rparr>"
    have name: "pt_name ?t = link_name" using assms(2) map_of_SomeD [OF Some] by fastforce
    show ?thesis
    proof (cases "IsStaticLibraryTargetKind (pt_kind found)")
      case False
      with Some Cons show ?thesis by (simp add: Let_def)
    next
      case True
      obtain g d1 v1 where b: "build ?t (d, v) = Some (g, d1, v1)"
        using Cons.prems(1) Some True by (auto simp: Let_def split: option.splits)
      have v1: "v1 = v" "\<And>h. g = Some h \<Longrightarrow> built env project roots v h \<and> tg_target h = ?t" using assms(1) [OF b] by auto
      show ?thesis
      proof (cases g)
        case None
        with Cons.prems(1) Some True b v1 show ?thesis by (simp add: Let_def)
      next
        case g: (Some h)
        obtain r' where r': "link_targets build project t rest (d1, v) = Some (r', d', v')" "r = map_option ((#) h) r'"
          using Cons.prems(1) Some True b v1 g by (auto simp: Let_def)
        have "link_ok t h \<and> built env project roots v h"
          using v1(2) [OF g] name True Cons.prems(2) by (simp add: link_ok_def)
        with Cons.IH [OF r'(1)] r'(2) Cons.prems(2) show ?thesis by auto
      qed
    qed
  qed
qed simp

lemma BuildResolvedTargetGraph_built:
  assumes "\<forall>x \<in> set (pf_targets project). pt_name (snd x) = fst x"
  shows "BuildResolvedTargetGraph n m env project roots t (d, v) = Some (g, d', v') \<Longrightarrow>
    v' = v \<and> (\<forall>h. g = Some h \<longrightarrow> built env project roots v h \<and> tg_target h = t)"
proof (induction n arbitrary: t d v g d' v')
  case (Suc n)
  obtain supported d1 where s: "SupportsBootstrapTarget (se_driver env) t project d = (supported, d1)" by force
  show ?case
  proof (cases "supported \<and> pt_name t \<notin> v")
    case False
    with Suc.prems s show ?thesis by (auto simp: Let_def split: if_splits)
  next
    case True
    let ?v = "insert (pt_name t) v"
    obtain linked d2 v2 where l: "link_targets (BuildResolvedTargetGraph n m env project roots) project t (pt_links t) (d1, ?v) = Some (linked, d2, v2)"
      using Suc.prems s True by (auto simp: Let_def split: option.splits)
    have k: "v2 = ?v" "\<And>gs. linked = Some gs \<Longrightarrow> \<forall>g \<in> set gs. link_ok t g \<and> built env project roots ?v g"
      using link_targets_built [OF Suc.IH assms(1) l] by auto
    have v: "?v - {pt_name t} = v" using True by auto
    show ?thesis
    proof (cases linked)
      case None
      with Suc.prems s True l k v show ?thesis by (simp add: Let_def)
    next
      case (Some gs)
      have o: "own_graph m env project t roots gs d2 = Some (g, d')" "v' = v"
        using Suc.prems s True l k(1) v Some by (auto simp: Let_def)
      have "SupportsBootstrapTarget (se_driver env) t project d = (True, d1)" using s True by simp
      from own_graph_built [OF _ _ k(2) [OF Some] conjunct2 [OF SupportsBootstrapTarget_iff [OF this]]] o True show ?thesis by auto
    qed
  qed
qed simp

section \<open>Targets of one file\<close>

lemma LookupKnown_Nil: "LookupKnownProjectModuleSources env t [] n = own_module_set env t n"
  by (subst LookupKnownProjectModuleSources.simps) simp

lemma LookupKnown_one: "LookupKnownProjectModuleSources env t [g] n = own_module_set env t n @
    map import_of_node (filter (\<lambda>node. cn_module_name node = n) (cg_nodes (tg_compile_graph g))) @
    LookupKnownProjectModuleSources env (tg_target g) (tg_linked_targets g) n"
  by (subst LookupKnownProjectModuleSources.simps) simp

lemma DiscoverModuleGraph_single:
  assumes "ParseLogicalModuleSources env [p] d = Some (Some parsed, d)" "sf_imports (pr_source_file parsed) = []"
    "fs_absolute_normal (se_fs env) p = p" "\<not> IsInternalModulePath p" "mr_known_module_sources rules = Some known" "known (path_stem p) = []"
  shows "\<exists>graph node. DiscoverModuleGraph (Suc 0) env rules p options d = Some (Some graph, d) \<and> cg_nodes graph = [node] \<and> cn_source_path node = p \<and> cn_module_name node = path_stem p"
  using assms by (simp add: DiscoverModuleGraph_def entry_module_def kind_of_path_def Let_def)

lemma own_graph_single:
  assumes "map_option (\<lambda>(r, d). (map_option (\<lambda>r. sf_imports (pr_source_file r)) r, d)) (ParseLogicalModuleSources env [pt_root t] []) = Some (Some [], [])"
    "fs_absolute_normal (se_fs env) (pt_root t) = pt_root t" "\<not> IsInternalModulePath (pt_root t)" "pt_target t = []"
    "LookupKnownProjectModuleSources (se_driver env) t gs (path_stem (pt_root t)) = []" "op_diagnostics (collect_linked gs t project []) = []"
  shows "\<exists>graph node. own_graph (Suc 0) env project t roots gs [] = Some (Some (mk_TargetBuildGraph project t graph gs), []) \<and> cg_nodes graph = [node] \<and> cn_source_path node = pt_root t \<and> cn_module_name node = path_stem (pt_root t)"
proof -
  obtain parsed where p: "ParseLogicalModuleSources env [pt_root t] [] = Some (Some parsed, [])" "sf_imports (pr_source_file parsed) = []"
    using assms(1) by auto
  have known: "mr_known_module_sources (target_rules (se_driver env) project t roots gs ext) = Some (LookupKnownProjectModuleSources (se_driver env) t gs)" for ext
    by (simp add: target_rules_def Let_def)
  from DiscoverModuleGraph_single [OF p assms(2,3) known assms(5)] assms(4,6) show ?thesis
    by (fastforce simp: own_graph_def ResolveProjectTargetConfig_def Let_def)
qed

section \<open>Enough fuel\<close>

definition target_keys :: "source_env \<Rightarrow> path list \<Rightarrow> ProjectTarget \<Rightarrow> string set" where
  \<comment> \<open>The keys of the modules of a target: its root, its module sets, and the files below its import roots.\<close>
  "target_keys env cli_import_roots t =
     insert (fs_absolute_normal (se_fs env) (pt_root t))
       ((\<Union>module_name. ci_artifact_key ` set (own_module_set (se_driver env) t module_name)) \<union>
        {p. fs_exists (se_fs env) p \<and> (\<exists>root \<in> set (ComputeProjectImportRoots (se_fs env) t cli_import_roots).
           \<exists>module_name. p = fs_absolute_normal (se_fs env) (path_append root (module_name @ ''.mc'')))})"

definition project_keys :: "source_env \<Rightarrow> path list \<Rightarrow> ProjectFile \<Rightarrow> string set" where
  "project_keys env cli_import_roots project = (\<Union>(name, t) \<in> set (pf_targets project). target_keys env cli_import_roots t)"

lemma target_keys_mode [simp]: "target_keys env roots (t\<lparr>pt_mode := m, pt_env := e\<rparr>) = target_keys env roots t"
proof -
  let ?t = "t\<lparr>pt_mode := m, pt_env := e\<rparr>"
  have p: "ResolveTargetPackageIdentity denv ?t p = ResolveTargetPackageIdentity denv t p" for denv p
    by (simp add: ResolveTargetPackageIdentity_def split: option.split)
  have "own_module_set denv ?t n = own_module_set denv t n" for denv n
    unfolding own_module_set_def LookupProjectModuleSet_def p by (simp split: option.split)
  moreover have "ComputeProjectImportRoots fs ?t roots = ComputeProjectImportRoots fs t roots" for fs
    by (simp add: ComputeProjectImportRoots_def)
  ultimately show ?thesis by (simp add: target_keys_def)
qed

primrec keyed :: "source_env \<Rightarrow> path list \<Rightarrow> string set \<Rightarrow> TargetBuildGraph \<Rightarrow> bool" where
  \<comment> \<open>The keys of the graph and of the graphs that it links are among those given.\<close>
  "keyed env roots K (mk_TargetBuildGraph project t graph gs) \<longleftrightarrow>
     target_keys env roots t \<subseteq> K \<and> set (node_keys (cg_nodes graph)) \<subseteq> K \<and> list_all id (map (keyed env roots K) gs)"

lemma target_keysI:
  assumes "target_keys env roots t \<subseteq> K"
  shows "fs_absolute_normal (se_fs env) (pt_root t) \<in> K"
    and "i \<in> set (own_module_set (se_driver env) t n) \<Longrightarrow> ci_artifact_key i \<in> K"
    and "root \<in> set (ComputeProjectImportRoots (se_fs env) t roots) \<Longrightarrow>
      p = fs_absolute_normal (se_fs env) (path_append root (n @ ''.mc'')) \<Longrightarrow> fs_exists (se_fs env) p \<Longrightarrow> p \<in> K"
  by (rule subsetD [OF assms], unfold target_keys_def, blast)+

lemma known_keys:
  "target_keys env roots t \<subseteq> K \<Longrightarrow> list_all (keyed env roots K) gs \<Longrightarrow>
     \<forall>i \<in> set (LookupKnownProjectModuleSources (se_driver env) t gs n). ci_artifact_key i \<in> K"
proof (induction "se_driver env" t gs n rule: LookupKnownProjectModuleSources.induct)
  case (1 t gs n)
  have linked: "(\<forall>i \<in> set (map import_of_node (filter (\<lambda>node. cn_module_name node = n) (cg_nodes (tg_compile_graph g)))).
        ci_artifact_key i \<in> K) \<and>
      (\<forall>i \<in> set (LookupKnownProjectModuleSources (se_driver env) (tg_target g) (tg_linked_targets g) n). ci_artifact_key i \<in> K)"
    if g: "g \<in> set gs" for g
  proof
    obtain p t' graph hs where h: "g = mk_TargetBuildGraph p t' graph hs" by (cases g)
    have "keyed env roots K g" using 1(3) g by (simp add: list_all_iff)
    then have k: "target_keys env roots t' \<subseteq> K" "set (node_keys (cg_nodes graph)) \<subseteq> K" "list_all (keyed env roots K) hs"
      by (simp_all add: h list_all_iff)
    show "\<forall>i \<in> set (LookupKnownProjectModuleSources (se_driver env) (tg_target g) (tg_linked_targets g) n). ci_artifact_key i \<in> K"
      using 1(1) [OF g] k by (simp add: h)
    show "\<forall>i \<in> set (map import_of_node (filter (\<lambda>node. cn_module_name node = n) (cg_nodes (tg_compile_graph g)))). ci_artifact_key i \<in> K"
      using k(2) by (auto simp: h import_of_node_def)
  qed
  show ?case
    using linked target_keysI(2) [OF 1(2)] by (subst LookupKnownProjectModuleSources.simps) (simp add: ball_Un)
qed

lemma target_import_keys:
  assumes "target_keys env roots t \<subseteq> K" "list_all (keyed env roots K) gs"
  shows "import_keys env (target_rules (se_driver env) project t roots gs external) \<subseteq> K"
    and "rs_artifact_key (entry_module env (target_rules (se_driver env) project t roots gs external) (pt_root t)) \<in> K"
proof -
  note k = known_keys [OF assms]
  let ?rules = "target_rules (se_driver env) project t roots gs external"
  have "rs_artifact_key m \<in> K" if "m \<in> set (import_sources env ?rules n)" for m n
    using that k [of n] target_keysI(3) [OF assms(1)]
    by (auto simp: import_sources_def target_rules_def root_candidate_def source_of_known_def Let_def)
  then show "import_keys env ?rules \<subseteq> K" by (auto simp: import_keys_def)
  have "find P (LookupKnownProjectModuleSources (se_driver env) t gs n) = Some x \<Longrightarrow> ci_artifact_key x \<in> K" for P n x
    using k [of n] by (auto simp: find_Some_iff)
  then show "rs_artifact_key (entry_module env ?rules (pt_root t)) \<in> K"
    using target_keysI(1) [OF assms(1)]
    by (simp add: entry_module_def target_rules_def source_of_known_def Let_def split: option.split)
qed

lemma own_graph_keyed:
  assumes "sources_parse env" "finite K" "card K < m" "target_keys env roots t \<subseteq> K" "list_all (keyed env roots K) gs"
  shows "\<exists>g d'. own_graph m env project t roots gs d = Some (g, d') \<and> (\<forall>h. g = Some h \<longrightarrow> keyed env roots K h)"
proof -
  let ?owned = "collect_linked gs t project d"
  let ?rules = "target_rules (se_driver env) project t roots gs (op_owned_paths ?owned)"
  obtain config d1 where config: "ResolveProjectTargetConfig (se_driver env) project t (op_diagnostics ?owned) = (config, d1)" by force
  have "DiscoverModuleGraph m env ?rules (pt_root t) (target_options project t config) d1 \<noteq> None"
    by (rule DiscoverModuleGraph_total [OF assms(1,2) target_import_keys [OF assms(4,5)] assms(3)])
  then obtain r d2 where r: "DiscoverModuleGraph m env ?rules (pt_root t) (target_options project t config) d1 = Some (r, d2)"
    by fastforce
  have "set (node_keys (cg_nodes graph)) \<subseteq> K" if "r = Some graph" for graph
    by (rule DiscoverModuleGraph_keys [OF r [unfolded that] target_import_keys [OF assms(4,5)]])
  then show ?thesis using assms(4,5) r config by (cases r) (auto simp: own_graph_def Let_def list_all_iff)
qed

lemma link_targets_keyed:
  assumes "\<And>t' d. pt_name t' \<in> names \<Longrightarrow> target_keys env roots t' \<subseteq> K \<Longrightarrow>
      \<exists>g d'. build t' (d, v) = Some (g, d', v) \<and> (\<forall>h. g = Some h \<longrightarrow> keyed env roots K h)"
    and "\<forall>x \<in> set (pf_targets project). pt_name (snd x) = fst x" "names = fst ` set (pf_targets project)"
    and "project_keys env roots project \<subseteq> K"
  shows "\<exists>gs d' v'. link_targets build project t links (d, v) = Some (gs, d', v') \<and> (\<forall>hs. gs = Some hs \<longrightarrow> list_all (keyed env roots K) hs)"
proof (induction links arbitrary: d)
  case (Cons link_name rest)
  show ?case
  proof (cases "map_of (pf_targets project) link_name")
    case None
    with Cons show ?thesis by simp
  next
    case (Some found)
    let ?t = "found\<lparr>pt_mode := pt_mode t, pt_env := pt_env t\<rparr>"
    have found: "(link_name, found) \<in> set (pf_targets project)" using Some by (rule map_of_SomeD)
    then have "pt_name ?t \<in> names" "target_keys env roots ?t \<subseteq> K"
      using assms(2-4) by (force, auto simp: project_keys_def)
    then obtain g d1 where b: "build ?t (d, v) = Some (g, d1, v)" "\<forall>h. g = Some h \<longrightarrow> keyed env roots K h"
      using assms(1) by blast
    obtain gs d' v' where r: "link_targets build project t rest (d1, v) = Some (gs, d', v')" "\<forall>hs. gs = Some hs \<longrightarrow> list_all (keyed env roots K) hs"
      using Cons.IH by blast
    show ?thesis using Some b r Cons.IH by (cases g) (auto simp: Let_def)
  qed
qed simp

lemma BuildResolvedTargetGraph_keyed:
  assumes "sources_parse env" "finite K" "card K < m" "project_keys env roots project \<subseteq> K"
    and "\<forall>x \<in> set (pf_targets project). pt_name (snd x) = fst x"
  shows "pt_name t \<in> fst ` set (pf_targets project) \<Longrightarrow> target_keys env roots t \<subseteq> K \<Longrightarrow> card (fst ` set (pf_targets project) - v) < n \<Longrightarrow>
    \<exists>g d'. BuildResolvedTargetGraph n m env project roots t (d, v) = Some (g, d', v) \<and> (\<forall>h. g = Some h \<longrightarrow> keyed env roots K h)"
proof (induction n arbitrary: t d v)
  case (Suc n)
  let ?names = "fst ` set (pf_targets project)"
  have "\<exists>g d' v'. BuildResolvedTargetGraph (Suc n) m env project roots t (d, v) = Some (g, d', v') \<and> (\<forall>h. g = Some h \<longrightarrow> keyed env roots K h)"
  proof -
    obtain supported d1 where s: "SupportsBootstrapTarget (se_driver env) t project d = (supported, d1)" by force
    show ?thesis
    proof (cases "supported \<and> pt_name t \<notin> v")
      case False
      with s show ?thesis by (auto simp: Let_def)
    next
      case True
      let ?v = "insert (pt_name t) v"
      have "card (?names - ?v) < card (?names - v)" using Suc.prems(1) True by (intro psubset_card_mono) auto
      then have c: "card (?names - ?v) < n" using Suc.prems(3) by simp
      obtain linked d2 v2 where l: "link_targets (BuildResolvedTargetGraph n m env project roots) project t (pt_links t) (d1, ?v) = Some (linked, d2, v2)"
          "\<forall>hs. linked = Some hs \<longrightarrow> list_all (keyed env roots K) hs"
        using link_targets_keyed [of ?names env roots K "BuildResolvedTargetGraph n m env project roots" ?v project t "pt_links t" d1]
          Suc.IH [OF _ _ c] assms(4,5) by blast
      show ?thesis
      proof (cases linked)
        case None
        with s True l show ?thesis by (simp add: Let_def)
      next
        case (Some gs)
        with l(2) own_graph_keyed [OF assms(1-3) Suc.prems(2), of gs project d2] s True l(1) show ?thesis by (auto simp: Let_def)
      qed
    qed
  qed
  then show ?case using BuildResolvedTargetGraph_built [OF assms(5)] by blast
qed simp

lemma finite_own_module_sets: "finite (\<Union>n. ci_artifact_key ` set (own_module_set env t n))"
proof -
  have "own_module_set env t n = []" if "n \<notin> fst ` set (pt_module_sets t)" for n
    using that by (simp add: own_module_set_def LookupProjectModuleSet_def map_of_eq_None_iff [THEN iffD2])
  then have "(\<Union>n. ci_artifact_key ` set (own_module_set env t n)) =
      (\<Union>n \<in> fst ` set (pt_module_sets t). ci_artifact_key ` set (own_module_set env t n))"
    by fastforce
  then show ?thesis by simp
qed

lemma finite_project_keys:
  assumes "finite (Collect (fs_exists (se_fs env)))"
  shows "finite (project_keys env roots project)"
  unfolding project_keys_def target_keys_def
  using assms finite_own_module_sets by (auto intro: finite_subset [OF _ assms])

section \<open>The selected target\<close>

lemma project_consistent_build_dir: "project_consistent env (project\<lparr>pf_build_dir := b\<rparr>) = project_consistent env project"
  by (simp add: project_consistent_def)

lemma project_keys_build_dir: "project_keys env roots (project\<lparr>pf_build_dir := b\<rparr>) = project_keys env roots project"
  by (simp add: project_keys_def)

lemma project_names: "project_consistent env project \<Longrightarrow> \<forall>x \<in> set (pf_targets project). pt_name (snd x) = fst x"
  by (simp add: project_consistent_def)

lemma BuildTargetGraph_built:
  assumes "env_ok (se_driver env)" "BuildTargetGraph n m env current_path options d = Some (Some g, d')"
  shows "\<exists>project. project_consistent (se_driver env) project \<and> built env project (co_import_roots options) {} g \<and>
    (\<exists>t. (pt_name t, t) \<in> set (pf_targets project) \<and>
       tg_target g = t\<lparr>pt_mode := pt_mode (tg_target g), pt_env := pt_env (tg_target g)\<rparr> \<and>
       (\<forall>name. co_target_name options = Some name \<longrightarrow> pt_name t = name)) \<and>
    IsSupportedMode (pt_mode (tg_target g)) \<and> IsSupportedEnv (pt_env (tg_target g))"
proof -
  obtain project d1 where load: "LoadSelectedProject env current_path options d = Some (Some project, d1)"
    using assms(2) by (auto simp: BuildTargetGraph_def split: option.splits)
  then have con: "project_consistent (se_driver env) project"
    using LoadProjectFile_consistent [OF assms(1)] by (auto simp: LoadSelectedProject_def Let_def)
  obtain r d2 where select: "SelectProjectTarget (se_driver env) project (co_target_name options) d1 = Some (r, d2)"
      "case r of None \<Rightarrow> HasErrors d2 | Some t \<Rightarrow> d2 = d1 \<and> (pt_name t, t) \<in> set (pf_targets project) \<and>
         (\<forall>n. co_target_name options = Some n \<longrightarrow> pt_name t = n)"
    using SelectProjectTarget_consistent [OF con assms(1)] by blast
  obtain t where t: "r = Some t" using assms(2) load select(1) by (cases r) (auto simp: BuildTargetGraph_def)
  let ?mode = "case co_mode_override options of Some m \<Rightarrow> m | None \<Rightarrow> pt_mode t"
  let ?env = "case co_env_override options of Some e \<Rightarrow> e | None \<Rightarrow> pt_env t"
  let ?dir = "fs_absolute_normal (se_fs env)
    (if co_build_dir_explicit options then co_build_dir options else path_append (pf_build_dir project) ?mode)"
  let ?t = "t\<lparr>pt_mode := ?mode, pt_env := ?env\<rparr>"
  have mode: "\<not> HasErrors d2" "IsSupportedMode ?mode" "IsSupportedEnv ?env"
    using assms(2) load select(1) t by (auto simp: BuildTargetGraph_def Let_def split: if_split_asm)
  obtain v where b: "BuildResolvedTargetGraph n m env (project\<lparr>pf_build_dir := ?dir\<rparr>) (co_import_roots options) ?t (d2, {}) = Some (Some g, d', v)"
    using assms(2) load select(1) t mode by (auto simp: BuildTargetGraph_def Let_def)
  have "built env (project\<lparr>pf_build_dir := ?dir\<rparr>) (co_import_roots options) {} g \<and> tg_target g = ?t"
    using BuildResolvedTargetGraph_built [OF _ b] project_names [OF con] by simp
  then show ?thesis
    using con mode select(2) t by (intro exI [of _ "project\<lparr>pf_build_dir := ?dir\<rparr>"]) (auto simp: project_consistent_build_dir)
qed

lemma BuildTargetGraph_total:
  assumes "env_ok (se_driver env)" "LoadSelectedProject env current_path options d = Some (r, d1)"
    and "sources_parse env"
    and "\<forall>project. r = Some project \<longrightarrow> finite (project_keys env (co_import_roots options) project) \<and>
      card (project_keys env (co_import_roots options) project) < m \<and> card (fst ` set (pf_targets project)) < n"
  shows "BuildTargetGraph n m env current_path options d \<noteq> None"
proof (cases r)
  case None
  with assms(2) show ?thesis by (simp add: BuildTargetGraph_def)
next
  case (Some project)
  then have con: "project_consistent (se_driver env) project"
    using LoadProjectFile_consistent [OF assms(1)] assms(2) by (auto simp: LoadSelectedProject_def Let_def)
  obtain r' d2 where select: "SelectProjectTarget (se_driver env) project (co_target_name options) d1 = Some (r', d2)"
      "case r' of None \<Rightarrow> HasErrors d2 | Some t \<Rightarrow> d2 = d1 \<and> (pt_name t, t) \<in> set (pf_targets project) \<and>
         (\<forall>n. co_target_name options = Some n \<longrightarrow> pt_name t = n)"
    using SelectProjectTarget_consistent [OF con assms(1)] by blast
  show ?thesis
  proof (cases r')
    case None
    with assms(2) Some select(1) show ?thesis by (simp add: BuildTargetGraph_def)
  next
    case t: (Some t)
    let ?K = "project_keys env (co_import_roots options) project"
    have n: "pt_name t \<in> fst ` set (pf_targets project)" using select(2) t by (force intro: rev_image_eqI)
    have k: "target_keys env (co_import_roots options) t \<subseteq> ?K" using select(2) t by (auto simp: project_keys_def)
    have "\<exists>g d'. BuildResolvedTargetGraph n m env (project\<lparr>pf_build_dir := b\<rparr>) (co_import_roots options)
        (t\<lparr>pt_mode := mode, pt_env := e\<rparr>) (d2, {}) = Some (g, d', {}) \<and> (\<forall>h. g = Some h \<longrightarrow> keyed env (co_import_roots options) ?K h)"
      for b mode e
      using assms(4) Some project_names [OF con] n k
      by (intro BuildResolvedTargetGraph_keyed [OF assms(3)]) (simp_all add: project_keys_build_dir)
    then have "BuildResolvedTargetGraph n m env (project\<lparr>pf_build_dir := b\<rparr>) (co_import_roots options) (t\<lparr>pt_mode := mode, pt_env := e\<rparr>) (d2, {}) \<noteq> None"
      for b mode e by (metis option.distinct(1))
    then show ?thesis using assms(2) Some select(1) t by (simp add: BuildTargetGraph_def Let_def del: not_None_eq)
  qed
qed

section \<open>Reports\<close>

definition settled :: "'a option \<Rightarrow> DiagnosticSink \<Rightarrow> bool" where
  \<comment> \<open>A result and no error, or no result and an error.\<close>
  "settled r d \<longleftrightarrow> (r \<noteq> None \<longleftrightarrow> \<not> HasErrors d)"

lemma SupportsBootstrapTarget_reports: "SupportsBootstrapTarget env t project d = (False, d') \<Longrightarrow> HasErrors d'"
  by (auto simp: SupportsBootstrapTarget_def Let_def split: if_splits)

lemma own_graph_settled:
  assumes "own_graph m env project t roots gs d = Some (r, d')"
    and "pt_target t = [] \<or> pt_target t = tc_triple (de_config (se_driver env)) \<or> pt_target t = tc_target_family (de_config (se_driver env))"
  shows "settled r d'"
proof -
  let ?owned = "collect_linked gs t project d"
  have config: "snd (ResolveProjectTargetConfig (se_driver env) project t d1) = d1" for d1
    using assms(2) by (auto simp: ResolveProjectTargetConfig_def Let_def)
  obtain config where c: "ResolveProjectTargetConfig (se_driver env) project t (op_diagnostics ?owned) = (config, op_diagnostics ?owned)"
    using config [of "op_diagnostics ?owned"] by (metis prod.collapse)
  show ?thesis
  proof (cases "HasErrors d \<or> HasErrors (op_diagnostics ?owned)")
    case True
    with assms(1) show ?thesis by (auto simp: own_graph_def settled_def Let_def split: if_splits)
  next
    case False
    then obtain graph where g: "DiscoverModuleGraph m env (target_rules (se_driver env) project t roots gs (op_owned_paths ?owned)) (pt_root t)
        (target_options project t config) (op_diagnostics ?owned) = Some (graph, d')" "(r \<noteq> None) = (graph \<noteq> None)"
      using assms(1) c by (auto simp: own_graph_def Let_def)
    show ?thesis using DiscoverModuleGraph_honest [OF g(1)] g(2) False by (auto simp: settled_def honest_def)
  qed
qed

lemma link_targets_reports:
  assumes "\<And>t' st g d' v'. build t' st = Some (g, d', v') \<Longrightarrow> settled g d'"
  shows "link_targets build project t links st = Some (None, d', v') \<Longrightarrow> HasErrors d'"
proof (induction links arbitrary: st)
  case (Cons link_name rest)
  obtain d v where st: "st = (d, v)" by force
  show ?case
  proof (cases "map_of (pf_targets project) link_name")
    case None
    with Cons st show ?thesis by (simp add: Let_def)
  next
    case (Some found)
    let ?t = "found\<lparr>pt_mode := pt_mode t, pt_env := pt_env t\<rparr>"
    show ?thesis
    proof (cases "IsStaticLibraryTargetKind (pt_kind found)")
      case False
      with Some Cons st show ?thesis by (simp add: Let_def)
    next
      case True
      obtain g d1 v1 where b: "build ?t (d, v) = Some (g, d1, v1)"
        using Cons.prems Some True st by (auto simp: Let_def split: option.splits)
      with assms [OF b] Cons Some True st show ?thesis by (cases g) (auto simp: Let_def settled_def)
    qed
  qed
qed simp

lemma BuildResolvedTargetGraph_settled:
  "BuildResolvedTargetGraph n m env project roots t st = Some (g, d', v') \<Longrightarrow> settled g d'"
proof (induction n arbitrary: t st g d' v')
  case (Suc n)
  obtain d v where st: "st = (d, v)" by force
  obtain supported d1 where s: "SupportsBootstrapTarget (se_driver env) t project d = (supported, d1)" by force
  show ?case
  proof (cases "supported \<and> pt_name t \<notin> v")
    case False
    with Suc.prems s st show ?thesis
      by (cases supported) (auto simp: Let_def settled_def project_report_def dest: SupportsBootstrapTarget_reports)
  next
    case True
    let ?v = "insert (pt_name t) v"
    obtain linked d2 v2 where l: "link_targets (BuildResolvedTargetGraph n m env project roots) project t (pt_links t) (d1, ?v) = Some (linked, d2, v2)"
      using Suc.prems s True st by (auto simp: Let_def split: option.splits)
    show ?thesis
    proof (cases linked)
      case None
      have "HasErrors d2" by (rule link_targets_reports [OF Suc.IH l [unfolded None]])
      with None Suc.prems s True l st show ?thesis by (simp add: Let_def settled_def)
    next
      case (Some gs)
      have o: "own_graph m env project t roots gs d2 = Some (g, d')" using Suc.prems s True l Some st by (auto simp: Let_def)
      have "SupportsBootstrapTarget (se_driver env) t project d = (True, d1)" using s True by simp
      with own_graph_settled [OF o] SupportsBootstrapTarget_iff show ?thesis by blast
    qed
  qed
qed simp

lemma LoadProjectFile_settled: "LoadProjectFile env content p d = Some (r, d') \<Longrightarrow> settled r d'"
  by (auto simp: LoadProjectFile_def settled_def Let_def split: option.splits prod.splits if_splits)

lemma BuildTargetGraph_settled:
  assumes "env_ok (se_driver env)" "BuildTargetGraph n m env current_path options d = Some (g, d')"
  shows "settled g d'"
proof -
  obtain r d1 where load: "LoadSelectedProject env current_path options d = Some (r, d1)"
    using assms(2) by (auto simp: BuildTargetGraph_def split: option.splits)
  then have s: "settled r d1" by (simp add: LoadSelectedProject_def Let_def LoadProjectFile_settled)
  show ?thesis
  proof (cases r)
    case None
    with s assms(2) load show ?thesis by (simp add: BuildTargetGraph_def settled_def)
  next
    case (Some project)
    then have con: "project_consistent (se_driver env) project"
      using LoadProjectFile_consistent [OF assms(1)] load by (auto simp: LoadSelectedProject_def Let_def)
    obtain r' d2 where select: "SelectProjectTarget (se_driver env) project (co_target_name options) d1 = Some (r', d2)"
      "case r' of None \<Rightarrow> HasErrors d2 | Some t \<Rightarrow> d2 = d1 \<and> (pt_name t, t) \<in> set (pf_targets project) \<and>
         (\<forall>n. co_target_name options = Some n \<longrightarrow> pt_name t = n)"
      using SelectProjectTarget_consistent [OF con assms(1)] by blast
    show ?thesis
    proof (cases r')
      case None
      with assms(2) load Some select show ?thesis by (auto simp: BuildTargetGraph_def settled_def)
    next
      case t: (Some t)
      from assms(2) load Some select(1) t show ?thesis
        by (auto simp: BuildTargetGraph_def Let_def settled_def project_report_def split: if_split_asm
          dest!: BuildResolvedTargetGraph_settled)
    qed
  qed
qed

end
