(* ===== verification/MC_BuildState.thy ===== *)
theory MC_BuildState
  imports MC_Project
begin

text \<open>
  The record of the last build of a module (second half of \<open>compiler/driver/build_support.cpp\<close>): the paths of the
  artifacts, the text of the record, its reader, and the test that lets a build keep an object file. The content of
  the file is an argument of the reader and a result of the writer, as in \<open>MC_Mci\<close>.
\<close>

section \<open>Data and paths\<close>

record ModuleBuildState =
  bs_target_identity :: string
  bs_package_identity :: string
  bs_mode :: string
  bs_env :: string
  bs_source_hash :: string
  bs_interface_hash :: string
  bs_wrap_hosted_main :: bool
  bs_imported_interface_hashes :: "(string \<times> string) list"

definition kModuleBuildStateFormatVersion :: "32 word" where
  "kModuleBuildStateFormatVersion = 2"

definition HashText :: "string \<Rightarrow> string" where
  "HashText text = HexU64 (foldl hash_step 1469598103934665603 text)"

definition ComputeModuleStatePath :: "filesystem \<Rightarrow> path \<Rightarrow> path \<Rightarrow> path" where
  "ComputeModuleStatePath fs source_path build_dir =
     path_append (path_append build_dir ''state'') (SanitizeArtifactStem fs source_path @ ''.state.txt'')"

definition ComputeLogicalModuleStatePath :: "string \<Rightarrow> path \<Rightarrow> path" where
  "ComputeLogicalModuleStatePath artifact_key build_dir =
     path_append (path_append build_dir ''state'') (SanitizeLogicalArtifactStem artifact_key @ ''.state.txt'')"

definition runtime_object_of :: "path \<Rightarrow> string \<Rightarrow> string \<Rightarrow> path" where
  "runtime_object_of object_path env startup =
     path_append (path_parent object_path) (path_stem object_path @ ''.'' @ env @ ''.'' @ startup @ ''.runtime.o'')"

definition ComputeRuntimeObjectPath :: "filesystem \<Rightarrow> path \<Rightarrow> path \<Rightarrow> string \<Rightarrow> string \<Rightarrow> path" where
  "ComputeRuntimeObjectPath fs entry_source_path build_dir =
     runtime_object_of (art_object (ComputeBuildArtifactTargets fs entry_source_path build_dir))"

definition ComputeLogicalRuntimeObjectPath :: "string \<Rightarrow> path \<Rightarrow> string \<Rightarrow> string \<Rightarrow> path" where
  "ComputeLogicalRuntimeObjectPath artifact_key build_dir =
     runtime_object_of (art_object (ComputeLogicalBuildArtifactTargets artifact_key build_dir))"

section \<open>Reading\<close>

definition split_first :: "char \<Rightarrow> string \<Rightarrow> (string \<times> string) option" where
  \<comment> \<open>The texts before and after the first \<open>c\<close>, when there is one.\<close>
  "split_first c s = (if c \<in> set s then Some (takeWhile (\<lambda>x. x \<noteq> c) s, tl (dropWhile (\<lambda>x. x \<noteq> c) s)) else None)"

definition state_error :: "path \<Rightarrow> string \<Rightarrow> DiagnosticSink \<Rightarrow> DiagnosticSink" where
  "state_error p message = Report (project_report kError p kDefaultSourceSpan message)"

definition entry_fault :: "path \<Rightarrow> DiagnosticSink \<Rightarrow> DiagnosticSink" where
  "entry_fault p = state_error p ''invalid module build state entry''"

type_synonym state_input = "string list \<times> DiagnosticSink"
  \<comment> \<open>the lines not read yet, and the sink\<close>

definition keyed_value :: "string \<Rightarrow> string \<Rightarrow> string option" where
  \<comment> \<open>The text after the first tab of a line, when the text before it is the key.\<close>
  "keyed_value key line =
     (case split_first tab_char line of
        None \<Rightarrow> None
      | Some (k, v) \<Rightarrow> if k = key then Some v else None)"

fun read_state_line :: "path \<Rightarrow> string \<Rightarrow> state_input \<Rightarrow> string option \<times> state_input" where
  "read_state_line p expected_key ([], d) = (None, [], d)"
| "read_state_line p expected_key (line # rest, d) =
     (case keyed_value expected_key line of
        None \<Rightarrow> (None, rest, entry_fault p d)
      | Some v \<Rightarrow> (Some v, rest, d))"

fun read_state_lines :: "path \<Rightarrow> string list \<Rightarrow> state_input \<Rightarrow> string option list \<times> state_input" where
  \<comment> \<open>One line for each key; a line that does not fit is not the end.\<close>
  "read_state_lines p [] inp = ([], inp)"
| "read_state_lines p (key # keys) inp =
     (let (v, inp) = read_state_line p key inp; (vs, inp) = read_state_lines p keys inp in (v # vs, inp))"

fun load_import_hashes :: "path \<Rightarrow> string list \<Rightarrow> DiagnosticSink \<Rightarrow> (string \<times> string) list option \<times> DiagnosticSink" where
  "load_import_hashes p [] d = (Some [], d)"
| "load_import_hashes p (line # rest) d =
     (if line = [] then (None, entry_fault p d)
      else case keyed_value ''import_hash'' line of
          None \<Rightarrow> (None, entry_fault p d)
        | Some value \<Rightarrow>
            (case split_first (CHR ''='') value of
               None \<Rightarrow> (None, state_error p ''invalid imported interface hash entry'' d)
             | Some h \<Rightarrow> apfst (map_option ((#) h)) (load_import_hashes p rest d)))"

definition kStateKeys :: "string list" where
  "kStateKeys = [''target'', ''mode'', ''env'', ''package'', ''source_hash'', ''interface_hash'', ''wrap_hosted_main'']"

definition state_of_values :: "string list \<Rightarrow> ModuleBuildState" where
  \<comment> \<open>The values of \<open>kStateKeys\<close>.\<close>
  "state_of_values vs =
     \<lparr>bs_target_identity = vs ! 0, bs_package_identity = vs ! 3, bs_mode = vs ! 1, bs_env = vs ! 2,
      bs_source_hash = vs ! 4, bs_interface_hash = vs ! 5, bs_wrap_hosted_main = (vs ! 6 = ''1''),
      bs_imported_interface_hashes = []\<rparr>"

definition LoadModuleBuildState :: "path \<Rightarrow> string option \<Rightarrow> DiagnosticSink \<Rightarrow> ModuleBuildState option \<times> DiagnosticSink" where
  \<comment> \<open>The content of the file, or \<open>None\<close> when it cannot be read.\<close>
  "LoadModuleBuildState p content d =
     (case content of
        None \<Rightarrow> (None, d)
      | Some text \<Rightarrow>
        (case read_state_line p ''format'' (getlines newline_char text, d) of
           (None, rest, d) \<Rightarrow> (None, d)
         | (Some format_text, rest, d) \<Rightarrow>
           (case ParseArrayLength format_text of
              None \<Rightarrow> (None, state_error p ''invalid module build state format entry'' d)
            | Some parsed_format \<Rightarrow>
              if (ucast parsed_format :: 32 word) \<noteq> kModuleBuildStateFormatVersion then (None, d)
              else
                let (vs, rest, d) = read_state_lines p kStateKeys (rest, d) in
                case those vs of
                  None \<Rightarrow> (None, d)
                | Some vs \<Rightarrow>
                    apfst (map_option (\<lambda>hs. (state_of_values vs)\<lparr>bs_imported_interface_hashes := hs\<rparr>))
                      (load_import_hashes p rest d))))"

section \<open>Writing\<close>

definition state_line :: "string \<Rightarrow> string \<Rightarrow> string" where
  "state_line key value = key @ [tab_char] @ value"

definition state_lines :: "ModuleBuildState \<Rightarrow> string list" where
  "state_lines s =
     [state_line ''format'' (string_of_nat (unat kModuleBuildStateFormatVersion)),
      state_line ''target'' (bs_target_identity s),
      state_line ''mode'' (bs_mode s),
      state_line ''env'' (bs_env s),
      state_line ''package'' (bs_package_identity s),
      state_line ''source_hash'' (bs_source_hash s),
      state_line ''interface_hash'' (bs_interface_hash s),
      state_line ''wrap_hosted_main'' (if bs_wrap_hosted_main s then ''1'' else ''0'')] @
     map (\<lambda>(import_name, hash). state_line ''import_hash'' (import_name @ ''='' @ hash)) (bs_imported_interface_hashes s)"

definition module_state_text :: "ModuleBuildState \<Rightarrow> string" where
  "module_state_text s = concat (map (\<lambda>line. line @ [newline_char]) (state_lines s))"

definition WriteModuleBuildState ::
  "bool \<Rightarrow> bool \<Rightarrow> path \<Rightarrow> ModuleBuildState \<Rightarrow> DiagnosticSink \<Rightarrow> string option \<times> bool \<times> DiagnosticSink" where
  \<comment> \<open>\<open>opened\<close>: the file could be opened; \<open>written\<close>: the stream is good after the output. The text
    that is written, the value returned, and the sink.\<close>
  "WriteModuleBuildState opened written p s d =
     (if \<not> opened then (None, False, state_error p ''unable to write module build state'' d)
      else (Some (module_state_text s), written, d))"

section \<open>Reuse\<close>

definition ShouldReuseModuleObject :: "(path \<Rightarrow> bool) \<Rightarrow> ModuleBuildState \<Rightarrow> ModuleBuildState \<Rightarrow> path \<Rightarrow> path \<Rightarrow> bool" where
  "ShouldReuseModuleObject exists s current object_path mci_path =
     (if \<not> exists object_path \<or> \<not> exists mci_path then False
      else if bs_target_identity s \<noteq> bs_target_identity current \<or> bs_package_identity s \<noteq> bs_package_identity current \<or>
        bs_mode s \<noteq> bs_mode current \<or> bs_env s \<noteq> bs_env current \<or> bs_source_hash s \<noteq> bs_source_hash current \<or>
        bs_interface_hash s \<noteq> bs_interface_hash current \<or> bs_wrap_hosted_main s \<noteq> bs_wrap_hosted_main current
      then False
      else bs_imported_interface_hashes s = bs_imported_interface_hashes current)"

section \<open>What is read back\<close>

definition state_writable :: "ModuleBuildState \<Rightarrow> bool" where
  \<comment> \<open>No text has a line break, and no name of an import has a \<open>=\<close>.\<close>
  "state_writable s \<longleftrightarrow>
     list_all (\<lambda>t. newline_char \<notin> set t)
       [bs_target_identity s, bs_package_identity s, bs_mode s, bs_env s, bs_source_hash s, bs_interface_hash s] \<and>
     list_all (\<lambda>(name, hash). newline_char \<notin> set name \<and> CHR ''='' \<notin> set name \<and> newline_char \<notin> set hash)
       (bs_imported_interface_hashes s)"

lemma split_first_append: "c \<notin> set k \<Longrightarrow> split_first c (k @ c # v) = Some (k, v)"
  by (simp add: split_first_def takeWhile_append dropWhile_append)

lemma split_first_SomeD: "split_first c s = Some (k, v) \<Longrightarrow> s = k @ c # v \<and> c \<notin> set k"
proof -
  assume s: "split_first c s = Some (k, v)"
  then have "dropWhile (\<lambda>x. x \<noteq> c) s \<noteq> []" by (auto simp: split_first_def dropWhile_eq_Nil_conv split: if_splits)
  then obtain x r where r: "dropWhile (\<lambda>x. x \<noteq> c) s = x # r" by (cases "dropWhile (\<lambda>x. x \<noteq> c) s") auto
  moreover have "x = c" using hd_dropWhile [of "\<lambda>x. x \<noteq> c" s] r by simp
  ultimately show ?thesis
    using s takeWhile_dropWhile_id [of "\<lambda>x. x \<noteq> c" s] by (auto simp: split_first_def split: if_splits dest: set_takeWhileD)
qed

lemma keyed_value_line [simp]: "tab_char \<notin> set key \<Longrightarrow> keyed_value key (state_line key v) = Some v"
  by (simp add: keyed_value_def state_line_def split_first_append)

lemma state_line_neq_Nil [simp]: "state_line key v \<noteq> []"
  by (simp add: state_line_def)

lemma load_import_hashes_lines:
  assumes "list_all (\<lambda>(name, hash). CHR ''='' \<notin> set name) hs"
  shows "load_import_hashes p (map (\<lambda>(name, hash). state_line ''import_hash'' (name @ ''='' @ hash)) hs) d = (Some hs, d)"
  using assms
proof (induction hs)
  case (Cons h hs)
  obtain name hash where h: "h = (name, hash)" by (cases h)
  with Cons show ?case by (simp add: split_first_append)
qed simp

lemma format_text: "string_of_nat (unat kModuleBuildStateFormatVersion) = ''2''"
  by code_simp

lemma state_lines_no_newline: "state_writable s \<Longrightarrow> \<forall>x \<in> set (state_lines s). newline_char \<notin> set x"
  by (auto simp: state_writable_def state_lines_def state_line_def list_all_iff format_text split: prod.splits)

lemma LoadModuleBuildState_text:
  assumes "state_writable s"
  shows "LoadModuleBuildState p (Some (module_state_text s)) d = (Some s, d)"
proof -
  have "getlines newline_char (module_state_text s) = state_lines s"
    unfolding module_state_text_def by (rule getlines_concat) (rule state_lines_no_newline [OF assms])
  moreover have "load_import_hashes p (map (\<lambda>(import_name, hash). state_line ''import_hash'' (import_name @ ''='' @ hash))
      (bs_imported_interface_hashes s)) d = (Some (bs_imported_interface_hashes s), d)"
    by (rule load_import_hashes_lines) (use assms in \<open>auto simp: state_writable_def list_all_iff\<close>)
  ultimately show ?thesis
    by (simp add: LoadModuleBuildState_def state_lines_def kStateKeys_def state_of_values_def kModuleBuildStateFormatVersion_def)
qed

lemma ShouldReuseModuleObject_iff:
  "ShouldReuseModuleObject exists s current object_path mci_path \<longleftrightarrow>
     exists object_path \<and> exists mci_path \<and> s = current"
  by (auto simp: ShouldReuseModuleObject_def intro!: ModuleBuildState.equality)

end
