(* ===== verification/MC_Merge.thy ===== *)
theory MC_Merge
  imports MC_BuildState MC_Graph MC_Mci MC_MirTypes MC_Resolver
begin

text \<open>
  Modules that are built apart: \<open>compiler/driver/builder_merge.cpp\<close> without its first part, which is that of
  \<open>build_graph.cpp\<close>. The names of an imported module are qualified, the names that a module imports are declared in it,
  and the modules of a program are merged into one. \<open>None\<close> is a text of a type that cannot be made.

  Three functions have the names of functions of \<open>module_resolver.cpp\<close>, which \<open>MC_Resolver\<close> models; here they end in
  \<open>_by\<close>.
\<close>

section \<open>Names\<close>

type_synonym renaming = "string \<rightharpoonup> string"

definition QualifyImportedSymbol :: "string \<Rightarrow> string \<Rightarrow> string" where
  "QualifyImportedSymbol module_name symbol_name =
     map (\<lambda>c. if c = CHR ''/'' then CHR ''_'' else c) module_name @ ''.'' @ symbol_name"

definition renamed :: "renaming \<Rightarrow> string \<Rightarrow> string" where
  \<comment> \<open>The entry that \<open>find\<close> finds, or the name itself.\<close>
  "renamed r name = (case r name of Some q \<Rightarrow> q | None \<Rightarrow> name)"

definition ConvertImportedTypeDecl :: "TypeDeclSummary \<Rightarrow> MirTypeDecl" where
  \<comment> \<open>Without a case for the kind, it keeps the default \<open>kStruct\<close>.\<close>
  "ConvertImportedTypeDecl d =
     \<lparr>mt_kind = (case td_kind d of D_kEnum \<Rightarrow> MD_kEnum | D_kDistinct \<Rightarrow> MD_kDistinct | D_kTypeAlias \<Rightarrow> MD_kAlias | _ \<Rightarrow> MD_kStruct),
      mt_name = td_name d, mt_type_params = td_type_params d, mt_is_packed = td_is_packed d, mt_is_abi_c = td_is_abi_c d,
      mt_fields = td_fields d,
      mt_variants = map (\<lambda>v. \<lparr>vd_name = vs_name v, vd_payload_fields = vs_payload_fields v\<rparr>) (td_variants d),
      mt_aliased_type = td_aliased_type d\<rparr>"

section \<open>Renaming\<close>

primrec RewriteImportedTypeNames_by :: "renaming \<Rightarrow> Type \<Rightarrow> Type" where
  "RewriteImportedTypeNames_by renamed_types (mk_Type k name metadata subtypes) =
     (let subtypes = map (RewriteImportedTypeNames_by renamed_types) subtypes in
      mk_Type k (if k \<noteq> Ty_kNamed then name else renamed renamed_types name) metadata subtypes)"

definition RewriteImportedTypeDecl_by :: "renaming \<Rightarrow> MirTypeDecl \<Rightarrow> MirTypeDecl" where
  "RewriteImportedTypeDecl_by renamed_types d =
     (let rewrite = RewriteImportedTypeNames_by renamed_types in
      d\<lparr>mt_aliased_type := rewrite (mt_aliased_type d), mt_fields := map (apsnd rewrite) (mt_fields d),
        mt_variants := map (\<lambda>v. v\<lparr>vd_payload_fields := map (apsnd rewrite) (vd_payload_fields v)\<rparr>) (mt_variants d)\<rparr>)"

primrec RewriteImportedConstValue_by :: "double_ops \<Rightarrow> renaming \<Rightarrow> renaming \<Rightarrow> ConstValue \<Rightarrow> ConstValue option" where
  "RewriteImportedConstValue_by fp renamed_types renamed_functions
      (mk_ConstValue kind integer_value float_value bool_value txt procedure_name enum_type
        variant_name variant_tag field_names elements) =
     do {
       es \<leftarrow> those (map (RewriteImportedConstValue_by fp renamed_types renamed_functions) elements);
       with_text fp (mk_ConstValue kind integer_value float_value bool_value txt
         (if kind = CK_kProcedure then renamed renamed_functions procedure_name else procedure_name)
         (if kind = CK_kEnum then RewriteImportedTypeNames_by renamed_types enum_type else enum_type)
         variant_name variant_tag field_names es) }"

definition RewriteImportedSymbolReference :: "renaming \<Rightarrow> renaming \<Rightarrow> TargetKind \<Rightarrow> string \<Rightarrow> string" where
  "RewriteImportedSymbolReference renamed_functions renamed_globals target_kind v =
     (if v = [] then v
      else if target_kind = TK_kFunction then renamed renamed_functions v
      else if target_kind = TK_kGlobal then renamed renamed_globals v
      else v)"

definition InstructionUsesTypeTargetMetadata :: "InstructionKind \<Rightarrow> bool" where
  "InstructionUsesTypeTargetMetadata kind \<longleftrightarrow>
     kind \<in> {I_kArenaNew, I_kConvert, I_kConvertNumeric, I_kConvertDistinct, I_kPointerToInt, I_kIntToPointer,
       I_kArrayToSlice, I_kBufferToSlice, I_kAggregateInit}"

definition InstructionUsesVariantTargetMetadata :: "InstructionKind \<Rightarrow> bool" where
  "InstructionUsesVariantTargetMetadata kind \<longleftrightarrow> kind = I_kVariantInit \<or> kind = I_kVariantMatch \<or> kind = I_kVariantExtract"

definition CanonicalVariantTarget :: "Type \<Rightarrow> string \<Rightarrow> string" where
  "CanonicalVariantTarget base_type variant_name =
     (if variant_name = [] then []
      else if ty_kind base_type = Ty_kNamed \<and> ty_name base_type \<noteq> [] then ty_name base_type @ ''.'' @ variant_name
      else variant_name)"

definition RewriteImportedInstructionMetadata :: "renaming \<Rightarrow> renaming \<Rightarrow> Instruction \<Rightarrow> Instruction option" where
  "RewriteImportedInstructionMetadata renamed_functions renamed_globals i =
     do {
       i \<leftarrow> (if InstructionUsesTypeTargetMetadata (in_kind i)
         then map_option (\<lambda>formatted_type. i\<lparr>in_target := formatted_type, in_target_display := formatted_type\<rparr>) (FormatType (in_type i))
         else Some i);
       let i = (if InstructionUsesVariantTargetMetadata (in_kind i)
         then let canonical_target = CanonicalVariantTarget (in_target_base_type i) (in_target_name i) in
           i\<lparr>in_target := canonical_target, in_target_display := canonical_target\<rparr>
         else i);
       let rewrite = RewriteImportedSymbolReference renamed_functions renamed_globals (in_target_kind i);
       Some (i\<lparr>in_target := rewrite (in_target i), in_target_name := rewrite (in_target_name i),
         in_target_display := rewrite (in_target_display i)\<rparr>) }"

section \<open>The names of an imported unit\<close>

definition rename_all :: "string \<Rightarrow> string list \<Rightarrow> renaming" where
  \<comment> \<open>The map after \<open>emplace\<close> for each of the names.\<close>
  "rename_all module_name names =
     (\<lambda>name. if name \<in> set names then Some (QualifyImportedSymbol module_name name) else None)"

definition unqualified :: "string list \<Rightarrow> string list" where
  "unqualified = filter (\<lambda>name. \<not> has_dot name)"

definition type_renaming :: "string \<Rightarrow> MirModule \<Rightarrow> renaming" where
  "type_renaming module_name m = rename_all module_name (unqualified (map mt_name (mm_type_decls m)))"

definition function_renaming :: "string \<Rightarrow> MirModule \<Rightarrow> renaming" where
  "function_renaming module_name m = rename_all module_name (map mf_name (filter (\<lambda>f. \<not> mf_is_extern f) (mm_functions m)))"

definition global_renaming :: "string \<Rightarrow> MirModule \<Rightarrow> renaming" where
  "global_renaming module_name m = rename_all module_name (unqualified (concat (map gd_names (mm_globals m))))"

definition namespace_type_decl :: "string \<Rightarrow> MirModule \<Rightarrow> MirTypeDecl \<Rightarrow> MirTypeDecl" where
  "namespace_type_decl module_name m d =
     (RewriteImportedTypeDecl_by (type_renaming module_name m) d)\<lparr>mt_name := renamed (type_renaming module_name m) (mt_name d)\<rparr>"

definition namespace_global :: "double_ops \<Rightarrow> string \<Rightarrow> MirModule \<Rightarrow> GlobalDecl \<Rightarrow> GlobalDecl option" where
  "namespace_global fp module_name m g =
     do {
       vs \<leftarrow> those (map (\<lambda>v. case v of
           None \<Rightarrow> Some None
         | Some x \<Rightarrow> map_option Some (RewriteImportedConstValue_by fp (type_renaming module_name m) (function_renaming module_name m) x))
         (gd_constant_values g));
       Some (g\<lparr>gd_type := RewriteImportedTypeNames_by (type_renaming module_name m) (gd_type g),
         gd_names := map (renamed (global_renaming module_name m)) (gd_names g), gd_constant_values := vs\<rparr>) }"

definition namespace_instruction :: "string \<Rightarrow> MirModule \<Rightarrow> Instruction \<Rightarrow> Instruction option" where
  "namespace_instruction module_name m i =
     (let rewrite = RewriteImportedTypeNames_by (type_renaming module_name m) in
      RewriteImportedInstructionMetadata (function_renaming module_name m) (global_renaming module_name m)
        (i\<lparr>in_type := rewrite (in_type i), in_target_base_type := rewrite (in_target_base_type i),
           in_target_aux_types := map rewrite (in_target_aux_types i)\<rparr>))"

definition namespace_function :: "string \<Rightarrow> MirModule \<Rightarrow> MirFunction \<Rightarrow> MirFunction option" where
  "namespace_function module_name m f =
     (let rewrite = RewriteImportedTypeNames_by (type_renaming module_name m) in
      do {
        blocks \<leftarrow> those (map (\<lambda>b. map_option (\<lambda>is. b\<lparr>bb_instructions := is\<rparr>)
          (those (map (namespace_instruction module_name m) (bb_instructions b)))) (mf_blocks f));
        Some (f\<lparr>mf_name := (if mf_is_extern f then mf_name f else QualifyImportedSymbol module_name (mf_name f)),
          mf_locals := map (\<lambda>l. l\<lparr>lc_type := rewrite (lc_type l)\<rparr>) (mf_locals f),
          mf_return_types := map rewrite (mf_return_types f), mf_blocks := blocks\<rparr>) })"

definition NamespaceImportedBuildUnit :: "double_ops \<Rightarrow> string \<Rightarrow> MirModule \<Rightarrow> MirModule option" where
  "NamespaceImportedBuildUnit fp module_name m =
     do {
       gs \<leftarrow> those (map (namespace_global fp module_name m) (mm_globals m));
       fs \<leftarrow> those (map (namespace_function module_name m) (mm_functions m));
       Some (m\<lparr>mm_type_decls := map (namespace_type_decl module_name m) (mm_type_decls m), mm_globals := gs, mm_functions := fs\<rparr>) }"

section \<open>Declarations of what is imported\<close>

fun add_new :: "('a \<Rightarrow> string) \<Rightarrow> string set \<Rightarrow> 'a list \<Rightarrow> 'a list" where
  \<comment> \<open>Those whose name \<open>insert\<close> reports as new, from the names seen so far.\<close>
  "add_new name seen [] = []"
| "add_new name seen (x # xs) = (if name x \<in> seen then add_new name seen xs else x # add_new name (insert (name x) seen) xs)"

definition extern_function :: "string \<Rightarrow> FunctionSignature \<Rightarrow> MirFunction" where
  "extern_function module_name f =
     \<lparr>mf_name = QualifyImportedSymbol module_name (fs_name f), mf_is_extern = True, mf_extern_abi = fs_extern_abi f,
      mf_type_params = fs_type_params f,
      mf_locals = map (\<lambda>(index, t). \<lparr>lc_name = ''arg'' @ string_of_nat index, lc_type = t, lc_is_parameter = True,
        lc_is_noalias = False, lc_is_mutable = False\<rparr>) (zip [0..<length (fs_param_types f)] (fs_param_types f)),
      mf_return_types = fs_return_types f, mf_blocks = []\<rparr>"

fun extern_globals :: "string \<Rightarrow> string set \<Rightarrow> GlobalSummary list \<Rightarrow> GlobalDecl list" where
  "extern_globals module_name seen [] = []"
| "extern_globals module_name seen (g # gs) =
     (let names = add_new (\<lambda>n. n) seen (map (QualifyImportedSymbol module_name) (gs_names g));
          rest = extern_globals module_name (seen \<union> set names) gs in
      if names = [] then rest
      else \<lparr>gd_is_const = gs_is_const g, gd_is_extern = True, gd_names = names, gd_type = gs_type g, gd_initializers = [],
             gd_constant_values = []\<rparr> # rest)"

definition mir_global_names :: "MirModule \<Rightarrow> string list" where
  "mir_global_names m = concat (map gd_names (mm_globals m))"

definition add_imported_module :: "string \<times> Module \<Rightarrow> MirModule \<Rightarrow> MirModule" where
  \<comment> \<open>The names that exist are always those that the module declares.\<close>
  "add_imported_module = (\<lambda>(module_name, imported) m.
     m\<lparr>mm_type_decls := mm_type_decls m @
         map ConvertImportedTypeDecl (add_new td_name (mt_name ` set (mm_type_decls m)) (mod_type_decls imported)),
       mm_functions := mm_functions m @
         add_new mf_name (mf_name ` set (mm_functions m)) (map (extern_function module_name) (mod_functions imported)),
       mm_globals := mm_globals m @ extern_globals module_name (set (mir_global_names m)) (mod_globals imported)\<rparr>)"

definition AddImportedExternDeclarations :: "(string \<times> Module) list \<Rightarrow> MirModule \<Rightarrow> MirModule" where
  \<comment> \<open>The keys of the map differ.\<close>
  "AddImportedExternDeclarations imported_modules m = fold add_imported_module (sort_key fst imported_modules) m"

section \<open>Merging\<close>

record MergeState =
  ms_merged :: MirModule
  ms_seen_imports :: "string set"
  ms_seen_types :: "string set"
  ms_seen_functions :: "string set"
  ms_seen_globals :: "string set"
  ms_defined_functions :: "string \<rightharpoonup> path"
  ms_diagnostics :: DiagnosticSink

definition duplicate_definition :: "string \<Rightarrow> path \<Rightarrow> string" where
  "duplicate_definition name existing =
     ''duplicate non-extern function definition during module merge: '' @ name @ ''; first defined in '' @ existing"

fun append_function :: "filesystem \<Rightarrow> path \<Rightarrow> MirFunction \<Rightarrow> MergeState \<Rightarrow> bool \<times> MergeState" where
  "append_function fs source_path f st =
     (let push = (\<lambda>st. st\<lparr>ms_seen_functions := insert (mf_name f) (ms_seen_functions st),
            ms_merged := (ms_merged st)\<lparr>mm_functions := mm_functions (ms_merged st) @ [f]\<rparr>\<rparr>);
          normalized_source = fs_absolute_normal fs source_path in
      if mf_is_extern f then (True, if mf_name f \<in> ms_seen_functions st then st else push st)
      else case ms_defined_functions st (mf_name f) of
          Some existing \<Rightarrow> (False, st\<lparr>ms_diagnostics := Report (project_report kError normalized_source kDefaultSourceSpan
            (duplicate_definition (mf_name f) existing))
            (ms_diagnostics st)\<rparr>)
        | None \<Rightarrow> (True, push (st\<lparr>ms_defined_functions := (ms_defined_functions st)(mf_name f \<mapsto> normalized_source)\<rparr>)))"

fun append_functions :: "filesystem \<Rightarrow> path \<Rightarrow> MirFunction list \<Rightarrow> MergeState \<Rightarrow> bool \<times> MergeState" where
  "append_functions fs source_path [] st = (True, st)"
| "append_functions fs source_path (f # rest) st =
     (case append_function fs source_path f st of
        (False, st) \<Rightarrow> (False, st)
      | (True, st) \<Rightarrow> append_functions fs source_path rest st)"

fun merge_globals :: "string set \<Rightarrow> GlobalDecl list \<Rightarrow> GlobalDecl list" where
  \<comment> \<open>Only the names are filtered, not the values beside them.\<close>
  "merge_globals seen [] = []"
| "merge_globals seen (g # gs) =
     (let names = add_new (\<lambda>n. n) seen (gd_names g); rest = merge_globals (seen \<union> set names) gs in
      if names = [] then rest else g\<lparr>gd_names := names\<rparr> # rest)"

definition merge_declarations :: "MirModule \<Rightarrow> MergeState \<Rightarrow> MergeState" where
  \<comment> \<open>The imports, types and globals of a module.\<close>
  "merge_declarations m st =
     (let merged = ms_merged st in
      st\<lparr>ms_merged := merged\<lparr>
           mm_imports := mm_imports merged @ add_new (\<lambda>n. n) (ms_seen_imports st) (mm_imports m),
           mm_type_decls := mm_type_decls merged @ add_new mt_name (ms_seen_types st) (mm_type_decls m),
           mm_globals := mm_globals merged @ merge_globals (ms_seen_globals st) (mm_globals m)\<rparr>,
         ms_seen_imports := ms_seen_imports st \<union> set (mm_imports m),
         ms_seen_types := ms_seen_types st \<union> mt_name ` set (mm_type_decls m),
         ms_seen_globals := ms_seen_globals st \<union> set (mir_global_names m)\<rparr>)"

definition merge_module :: "filesystem \<Rightarrow> path \<Rightarrow> MirModule \<Rightarrow> MergeState \<Rightarrow> bool \<times> MergeState" where
  "merge_module fs source_path m st = append_functions fs source_path (mm_functions m) (merge_declarations m st)"

fun merge_modules :: "filesystem \<Rightarrow> (path \<times> MirModule) list \<Rightarrow> MergeState \<Rightarrow> bool \<times> MergeState" where
  "merge_modules fs [] st = (True, st)"
| "merge_modules fs ((source_path, m) # rest) st =
     (case merge_module fs source_path m st of
        (False, st) \<Rightarrow> (False, st)
      | (True, st) \<Rightarrow> merge_modules fs rest st)"

definition empty_mir_module :: MirModule where
  "empty_mir_module = \<lparr>mm_imports = [], mm_type_decls = [], mm_globals = [], mm_functions = []\<rparr>"

definition merge_inputs :: "filesystem \<Rightarrow> (path \<times> MirModule) list \<Rightarrow> MirModule \<Rightarrow> path \<Rightarrow> (path \<times> MirModule) list" where
  \<comment> \<open>The source and the module of the units but that of the entry, whose module comes last.\<close>
  "merge_inputs fs units entry_mir entry_source_path =
     filter (\<lambda>u. fst u \<noteq> fs_absolute_normal fs entry_source_path) units @ [(entry_source_path, entry_mir)]"

definition MergeBuildUnits ::
  "filesystem \<Rightarrow> (path \<times> MirModule) list \<Rightarrow> MirModule \<Rightarrow> path \<Rightarrow> DiagnosticSink \<Rightarrow> MirModule option \<times> DiagnosticSink" where
  "MergeBuildUnits fs units entry_mir entry_source_path d =
     (case merge_modules fs (merge_inputs fs units entry_mir entry_source_path)
         \<lparr>ms_merged = empty_mir_module, ms_seen_imports = {}, ms_seen_types = {}, ms_seen_functions = {}, ms_seen_globals = {},
          ms_defined_functions = Map.empty, ms_diagnostics = d\<rparr> of
        (ok, st) \<Rightarrow> (if ok then Some (ms_merged st) else None, ms_diagnostics st))"

section \<open>Sources and interfaces\<close>

fun read_texts :: "source_env \<Rightarrow> path list \<Rightarrow> string \<Rightarrow> DiagnosticSink \<Rightarrow> string option \<times> DiagnosticSink" where
  "read_texts env [] txt d = (Some txt, d)"
| "read_texts env (p # rest) txt d =
     (case ReadSourceText env p d of
        (None, d) \<Rightarrow> (None, d)
      | (Some source_text, d) \<Rightarrow> read_texts env rest (txt @ p @ [newline_char] @ source_text @ [CHR 0x00]) d)"

definition ReadLogicalModuleSourceText :: "source_env \<Rightarrow> path list \<Rightarrow> DiagnosticSink \<Rightarrow> string option \<times> DiagnosticSink" where
  "ReadLogicalModuleSourceText env source_paths = read_texts env (CanonicalizeModuleSourcePaths (se_fs env) source_paths) []"

definition MakeModuleInterfaceArtifact :: "path \<Rightarrow> string \<Rightarrow> SourceFile \<Rightarrow> Module \<Rightarrow> string \<Rightarrow> InterfaceArtifact" where
  "MakeModuleInterfaceArtifact source_path module_name source_file checked_module target_identity =
     new_InterfaceArtifact\<lparr>ia_target_identity := target_identity, ia_package_identity := mod_package_identity checked_module,
       ia_module_name := module_name, ia_module_kind := sf_module_kind source_file, ia_source_path := source_path,
       ia_module := BuildImportVisibleModuleSurface checked_module source_file\<rparr>"

end
