(* ===== verification/MC_MergeSpec.thy ===== *)
theory MC_MergeSpec
  imports MC_Merge
begin

text \<open>
  What merging and renaming keep: a name means in the merged module what it means in the first module that declares
  it, every definition is there once, and a renamed module resolves its renamed types to the renamed declarations.
\<close>

section \<open>The first of each name\<close>

lemma find_add_new:
  "find (\<lambda>x. name x = n) (add_new name seen xs) = (if n \<in> seen then None else find (\<lambda>x. name x = n) xs)"
  by (induction name seen xs rule: add_new.induct) auto

lemma add_new_names: "name ` set (add_new name seen xs) = name ` set xs - seen"
  by (induction name seen xs rule: add_new.induct) auto

lemma add_new_distinct: "distinct (map name (add_new name seen xs))"
  by (induction name seen xs rule: add_new.induct) (simp_all add: add_new_names)

lemma add_new_append: "add_new name seen (xs @ ys) = add_new name seen xs @ add_new name (seen \<union> name ` set xs) ys"
proof (induction name seen xs rule: add_new.induct)
  case (2 name seen x xs)
  then show ?case by (simp add: insert_absorb)
qed simp

lemma find_append: "find P (xs @ ys) = (case find P xs of Some x \<Rightarrow> Some x | None \<Rightarrow> find P ys)"
  by (induction xs) auto

section \<open>Globals\<close>

lemma merge_globals_names: "concat (map gd_names (merge_globals seen gs)) = add_new (\<lambda>n. n) seen (concat (map gd_names gs))"
proof (induction seen gs rule: merge_globals.induct)
  case (2 seen g gs)
  have "seen \<union> set (add_new (\<lambda>n. n) seen (gd_names g)) = seen \<union> set (gd_names g)"
    using add_new_names [of "\<lambda>n. n" seen "gd_names g"] by auto
  with 2 show ?case by (auto simp: add_new_append Let_def)
qed simp

section \<open>Functions\<close>

abbreviation definitions_of :: "MirFunction list \<Rightarrow> MirFunction list" where
  "definitions_of fs \<equiv> filter (\<lambda>f. \<not> mf_is_extern f) fs"

fun kept_functions :: "string set \<Rightarrow> MirFunction list \<Rightarrow> MirFunction list" where
  \<comment> \<open>Reference: an external declaration is dropped when its name is known.\<close>
  "kept_functions seen [] = []"
| "kept_functions seen (f # fs) =
     (if mf_is_extern f \<and> mf_name f \<in> seen then kept_functions seen fs
      else f # kept_functions (insert (mf_name f) seen) fs)"

lemma find_kept: "n \<notin> seen \<Longrightarrow> find (\<lambda>f. mf_name f = n) (kept_functions seen fs) = find (\<lambda>f. mf_name f = n) fs"
  by (induction seen fs rule: kept_functions.induct) auto

lemma definitions_kept: "definitions_of (kept_functions seen fs) = definitions_of fs"
  by (induction seen fs rule: kept_functions.induct) auto

lemma externs_kept:
  "distinct (map mf_name (filter mf_is_extern (kept_functions seen fs))) \<and>
   mf_name ` set (filter mf_is_extern (kept_functions seen fs)) \<inter> seen = {}"
  by (induction seen fs rule: kept_functions.induct) auto

lemma kept_functions_append:
  "kept_functions seen (xs @ ys) = kept_functions seen xs @ kept_functions (seen \<union> mf_name ` set xs) ys"
  by (induction seen xs rule: kept_functions.induct) (auto simp: insert_absorb)

definition new_definitions :: "MergeState \<Rightarrow> MirFunction list \<Rightarrow> bool" where
  "new_definitions st fs \<longleftrightarrow> distinct (map mf_name (definitions_of fs)) \<and>
     (\<forall>f \<in> set (definitions_of fs). ms_defined_functions st (mf_name f) = None)"

definition functions_merged :: "MirFunction list \<Rightarrow> MergeState \<Rightarrow> MergeState \<Rightarrow> bool" where
  \<comment> \<open>The state after all of the functions were added.\<close>
  "functions_merged fs st st' \<longleftrightarrow>
     mm_functions (ms_merged st') = mm_functions (ms_merged st) @ kept_functions (ms_seen_functions st) fs \<and>
     ms_seen_functions st' = ms_seen_functions st \<union> mf_name ` set fs \<and>
     dom (ms_defined_functions st') = dom (ms_defined_functions st) \<union> mf_name ` set (definitions_of fs) \<and>
     ms_diagnostics st' = ms_diagnostics st"

definition merge_failed :: "MergeState \<Rightarrow> MergeState \<Rightarrow> bool" where
  "merge_failed st st' \<longleftrightarrow> (\<exists>p message. ms_diagnostics st' = Report (project_report kError p kDefaultSourceSpan message) (ms_diagnostics st))"

definition same_declarations :: "MergeState \<Rightarrow> MergeState \<Rightarrow> bool" where
  "same_declarations st st' \<longleftrightarrow>
     mm_imports (ms_merged st') = mm_imports (ms_merged st) \<and> mm_type_decls (ms_merged st') = mm_type_decls (ms_merged st) \<and>
     mm_globals (ms_merged st') = mm_globals (ms_merged st) \<and> ms_seen_imports st' = ms_seen_imports st \<and>
     ms_seen_types st' = ms_seen_types st \<and> ms_seen_globals st' = ms_seen_globals st"

lemma append_function_cases:
  assumes "append_function fs p f st = (ok, st')"
  shows "ok = new_definitions st [f] \<and> same_declarations st st' \<and>
    (if ok then functions_merged [f] st st' else merge_failed st st')"
proof (cases "mf_is_extern f")
  case True
  with assms show ?thesis
    by (auto simp: new_definitions_def functions_merged_def same_declarations_def Let_def split: if_splits)
next
  case False
  show ?thesis
  proof (cases "ms_defined_functions st (mf_name f)")
    case None
    with False assms show ?thesis
      by (auto simp: new_definitions_def functions_merged_def same_declarations_def Let_def dom_def)
  next
    case (Some existing)
    with False assms have "ms_diagnostics st' = Report (project_report kError (fs_absolute_normal fs p) kDefaultSourceSpan
        (duplicate_definition (mf_name f) existing)) (ms_diagnostics st)"
      by (auto simp: Let_def)
    then have "merge_failed st st'" unfolding merge_failed_def by blast
    with Some False assms show ?thesis by (auto simp: new_definitions_def same_declarations_def Let_def)
  qed
qed

lemma dom_eq_None: "dom f = dom g \<union> S \<Longrightarrow> f n = None \<longleftrightarrow> g n = None \<and> n \<notin> S"
  by (metis Un_iff domIff)

lemma new_definitions_append:
  assumes "functions_merged xs st st'"
  shows "new_definitions st (xs @ ys) \<longleftrightarrow> new_definitions st xs \<and> new_definitions st' ys"
proof -
  have "ms_defined_functions st' n = None \<longleftrightarrow>
      ms_defined_functions st n = None \<and> n \<notin> mf_name ` set (definitions_of xs)" for n
    using assms by (intro dom_eq_None) (simp add: functions_merged_def)
  then have "(\<forall>f \<in> set (definitions_of ys). ms_defined_functions st' (mf_name f) = None) \<longleftrightarrow>
      (\<forall>f \<in> set (definitions_of ys). ms_defined_functions st (mf_name f) = None) \<and>
      mf_name ` set (definitions_of xs) \<inter> mf_name ` set (definitions_of ys) = {}"
    unfolding disjoint_iff by (simp only: ball_conj_distrib) blast
  then show ?thesis
    by (simp only: new_definitions_def filter_append map_append distinct_append set_map set_append ball_Un) blast
qed

lemma functions_merged_append:
  "functions_merged xs st st1 \<Longrightarrow> functions_merged ys st1 st2 \<Longrightarrow> functions_merged (xs @ ys) st st2"
  by (auto simp: functions_merged_def kept_functions_append)

lemma same_declarations_trans: "same_declarations st st1 \<Longrightarrow> same_declarations st1 st2 \<Longrightarrow> same_declarations st st2"
  by (simp add: same_declarations_def)

lemma append_functions_cases:
  "append_functions fs p gs st = (ok, st') \<Longrightarrow>
     ok = new_definitions st gs \<and> same_declarations st st' \<and> (if ok then functions_merged gs st st' else merge_failed st st')"
proof (induction fs p gs st rule: append_functions.induct)
  case (1 fs p st)
  then show ?case by (simp add: new_definitions_def functions_merged_def same_declarations_def)
next
  case (2 fs p f rest st)
  obtain ok1 st1 where s: "append_function fs p f st = (ok1, st1)" by (cases "append_function fs p f st")
  note f = append_function_cases [OF s]
  show ?case
  proof (cases ok1)
    case True
    with f have m: "functions_merged [f] st st1" by simp
    from True s 2(2) have r: "append_functions fs p rest st1 = (ok, st')" by simp
    have "ok = new_definitions st1 rest \<and> same_declarations st1 st' \<and>
        (if ok then functions_merged rest st1 st' else merge_failed st1 st')"
      using 2(1) s True r by simp
    moreover have "merge_failed st1 st' \<Longrightarrow> merge_failed st st'"
      using m by (simp add: merge_failed_def functions_merged_def)
    ultimately show ?thesis
      using True f new_definitions_append [OF m, of rest] functions_merged_append [OF m, of rest st'] same_declarations_trans
      by (auto split: if_splits)
  next
    case False
    with s 2(2) f have "\<not> ok" "st' = st1" "\<not> new_definitions st [f]" by auto
    moreover from this have "\<not> new_definitions st (f # rest)" by (auto simp: new_definitions_def split: if_splits)
    ultimately show ?thesis using f False by simp
  qed
qed

section \<open>Modules\<close>

definition declarations_merged :: "MirModule list \<Rightarrow> MergeState \<Rightarrow> MergeState \<Rightarrow> bool" where
  "declarations_merged ms st st' \<longleftrightarrow>
     mm_imports (ms_merged st') = mm_imports (ms_merged st) @ add_new (\<lambda>n. n) (ms_seen_imports st) (concat (map mm_imports ms)) \<and>
     mm_type_decls (ms_merged st') = mm_type_decls (ms_merged st) @ add_new mt_name (ms_seen_types st) (concat (map mm_type_decls ms)) \<and>
     mir_global_names (ms_merged st') =
       mir_global_names (ms_merged st) @ add_new (\<lambda>n. n) (ms_seen_globals st) (concat (map mir_global_names ms)) \<and>
     ms_seen_imports st' = ms_seen_imports st \<union> set (concat (map mm_imports ms)) \<and>
     ms_seen_types st' = ms_seen_types st \<union> mt_name ` set (concat (map mm_type_decls ms)) \<and>
     ms_seen_globals st' = ms_seen_globals st \<union> set (concat (map mir_global_names ms))"

abbreviation all_functions :: "MirModule list \<Rightarrow> MirFunction list" where
  "all_functions ms \<equiv> concat (map mm_functions ms)"

lemma declarations_merged_append:
  "declarations_merged ms st st1 \<Longrightarrow> declarations_merged ns st1 st2 \<Longrightarrow> declarations_merged (ms @ ns) st st2"
  by (simp add: declarations_merged_def add_new_append Un_assoc image_Un)

lemma merge_module_cases:
  assumes "merge_module fs p m st = (ok, st')"
  shows "ok = new_definitions st (mm_functions m) \<and>
    (if ok then declarations_merged [m] st st' \<and> functions_merged (mm_functions m) st st' else merge_failed st st')"
proof -
  have same: "mm_functions (ms_merged (merge_declarations m st)) = mm_functions (ms_merged st)"
      "ms_seen_functions (merge_declarations m st) = ms_seen_functions st"
      "ms_defined_functions (merge_declarations m st) = ms_defined_functions st"
      "ms_diagnostics (merge_declarations m st) = ms_diagnostics st"
    by (simp_all add: merge_declarations_def Let_def)
  have decls: "declarations_merged [m] st (merge_declarations m st)"
    by (simp add: declarations_merged_def merge_declarations_def Let_def mir_global_names_def merge_globals_names)
  let ?st = "merge_declarations m st"
  note f = append_functions_cases [OF assms [unfolded merge_module_def]]
  have new: "new_definitions ?st (mm_functions m) \<longleftrightarrow> new_definitions st (mm_functions m)"
    by (simp add: new_definitions_def same)
  have "functions_merged (mm_functions m) ?st st' \<Longrightarrow> functions_merged (mm_functions m) st st'"
    by (simp only: functions_merged_def same)
  moreover have "merge_failed ?st st' \<Longrightarrow> merge_failed st st'"
    by (simp only: merge_failed_def same)
  moreover have "same_declarations ?st st' \<Longrightarrow> declarations_merged [m] st st'"
    using decls by (simp add: declarations_merged_def same_declarations_def mir_global_names_def)
  ultimately show ?thesis using f new by (simp split: if_splits)
qed

lemma merge_modules_cases:
  "merge_modules fs items st = (ok, st') \<Longrightarrow>
     ok = new_definitions st (all_functions (map snd items)) \<and>
     (if ok then declarations_merged (map snd items) st st' \<and> functions_merged (all_functions (map snd items)) st st'
      else merge_failed st st')"
proof (induction fs items st rule: merge_modules.induct)
  case (1 fs st)
  then show ?case by (simp add: new_definitions_def functions_merged_def declarations_merged_def)
next
  case (2 fs p m rest st)
  obtain ok1 st1 where s: "merge_module fs p m st = (ok1, st1)" by (cases "merge_module fs p m st")
  note f = merge_module_cases [OF s]
  show ?case
  proof (cases ok1)
    case True
    with f have d: "declarations_merged [m] st st1" and g: "functions_merged (mm_functions m) st st1" by simp_all
    from True s 2(2) have r: "merge_modules fs rest st1 = (ok, st')" by simp
    have ih: "ok = new_definitions st1 (all_functions (map snd rest)) \<and>
        (if ok then declarations_merged (map snd rest) st1 st' \<and> functions_merged (all_functions (map snd rest)) st1 st'
         else merge_failed st1 st')"
      by (rule 2(1) [OF s [symmetric] _ r]) (simp add: True)
    have "merge_failed st1 st' \<Longrightarrow> merge_failed st st'" using g by (simp add: merge_failed_def functions_merged_def)
    with ih True f show ?thesis
      using new_definitions_append [OF g] functions_merged_append [OF g] declarations_merged_append [OF d]
      by (auto split: if_splits)
  next
    case False
    with s 2(2) f have "\<not> ok" "st' = st1" "\<not> new_definitions st (mm_functions m)" by auto
    moreover from this have "\<not> new_definitions st (all_functions (map snd ((p, m) # rest)))" by (auto simp: new_definitions_def)
    ultimately show ?thesis using f False by simp
  qed
qed

section \<open>The merged module\<close>

definition merged_of :: "MirModule list \<Rightarrow> MirModule \<Rightarrow> bool" where
  \<comment> \<open>The first of everything that has a name, and every definition.\<close>
  "merged_of ms m \<longleftrightarrow>
     mm_imports m = add_new (\<lambda>n. n) {} (concat (map mm_imports ms)) \<and>
     mm_type_decls m = add_new mt_name {} (concat (map mm_type_decls ms)) \<and>
     mir_global_names m = add_new (\<lambda>n. n) {} (concat (map mir_global_names ms)) \<and>
     mm_functions m = kept_functions {} (all_functions ms)"

lemma MergeBuildUnits_cases:
  fixes fs units entry_mir p
  defines "ms \<equiv> map snd (merge_inputs fs units entry_mir p)"
  assumes "MergeBuildUnits fs units entry_mir p d = (r, d')"
  shows "case r of
      None \<Rightarrow> \<not> distinct (map mf_name (definitions_of (all_functions ms))) \<and>
        (\<exists>q message. d' = Report (project_report kError q kDefaultSourceSpan message) d)
    | Some m \<Rightarrow> distinct (map mf_name (definitions_of (all_functions ms))) \<and> merged_of ms m \<and> d' = d"
proof -
  let ?st = "\<lparr>ms_merged = empty_mir_module, ms_seen_imports = {}, ms_seen_types = {}, ms_seen_functions = {},
    ms_seen_globals = {}, ms_defined_functions = Map.empty, ms_diagnostics = d\<rparr>"
  obtain ok st where s: "merge_modules fs (merge_inputs fs units entry_mir p) ?st = (ok, st)"
    by (cases "merge_modules fs (merge_inputs fs units entry_mir p) ?st")
  have new: "new_definitions ?st (all_functions ms) \<longleftrightarrow> distinct (map mf_name (definitions_of (all_functions ms)))"
    by (simp add: new_definitions_def)
  note f = merge_modules_cases [OF s, folded ms_def, unfolded new]
  have r: "r = (if ok then Some (ms_merged st) else None)" "d' = ms_diagnostics st"
    using assms(2) s by (auto simp: MergeBuildUnits_def)
  have "mir_global_names empty_mir_module = []" by (simp add: mir_global_names_def empty_mir_module_def)
  then have "declarations_merged ms ?st st \<Longrightarrow> functions_merged (all_functions ms) ?st st \<Longrightarrow> merged_of ms (ms_merged st) \<and> d' = d"
    by (simp add: declarations_merged_def functions_merged_def merged_of_def r empty_mir_module_def)
  moreover have "merge_failed ?st st \<Longrightarrow> \<exists>q message. d' = Report (project_report kError q kDefaultSourceSpan message) d"
    by (simp add: merge_failed_def r)
  ultimately show ?thesis using f r by (simp split: if_splits)
qed

lemma merged_lookups:
  assumes "merged_of ms m"
  shows "FindMirFunction m n = find (\<lambda>f. mf_name f = n) (all_functions ms)"
    and "FindMirTypeDecl m n = find (\<lambda>t. mt_name t = n) (concat (map mm_type_decls ms))"
    and "definitions_of (mm_functions m) = definitions_of (all_functions ms)"
    and "distinct (map mf_name (filter mf_is_extern (mm_functions m)))"
    and "distinct (map mt_name (mm_type_decls m))" "distinct (mir_global_names m)" "distinct (mm_imports m)"
    and "set (mir_global_names m) = set (concat (map mir_global_names ms))"
  using assms externs_kept [of "{}" "all_functions ms"] add_new_names [of "\<lambda>n. n" "{}" "concat (map mir_global_names ms)"]
    add_new_distinct [of "\<lambda>n. n" "{}"]
  by (simp_all add: merged_of_def FindMirFunction_def FindMirTypeDecl_def find_kept find_add_new definitions_kept
      add_new_distinct)

section \<open>Names of an imported unit\<close>

lemma QualifyImportedSymbol_inject [simp]: "QualifyImportedSymbol m a = QualifyImportedSymbol m b \<longleftrightarrow> a = b"
  by (simp add: QualifyImportedSymbol_def)

lemma those_map_SomeD:
  "those (map f xs) = Some ys \<Longrightarrow> length ys = length xs \<and> (\<forall>i < length xs. f (xs ! i) = Some (ys ! i))"
proof (induction xs arbitrary: ys)
  case (Cons x xs)
  then show ?case by (auto split: option.splits simp: nth_Cons split: nat.split)
qed simp

lemma find_those_map:
  assumes "those (map f xs) = Some ys" "\<And>x y. x \<in> set xs \<Longrightarrow> f x = Some y \<Longrightarrow> P x \<longleftrightarrow> Q y"
  shows "find Q ys = Option.bind (find P xs) f"
  using assms
proof (induction xs arbitrary: ys)
  case (Cons x xs)
  then show ?case by (fastforce split: option.splits)
qed simp

lemma find_map_renamed:
  assumes "\<And>x. name (g x) = r (name x)" "inj_on r (insert n (name ` set xs))"
  shows "find (\<lambda>y. name y = r n) (map g xs) = map_option g (find (\<lambda>x. name x = n) xs)"
  using assms(2)
proof (induction xs)
  case (Cons x xs)
  then have "r (name x) = r n \<longleftrightarrow> name x = n"
    by (intro inj_on_eq_iff [of r "insert n (name ` set (x # xs))"]) simp_all
  moreover have "inj_on r (insert n (name ` set xs))" using Cons.prems by (auto intro: inj_on_subset)
  ultimately show ?case using Cons.IH assms(1) by simp
qed simp

lemma renamed_rename_all: "renamed (rename_all m names) n = (if n \<in> set names then QualifyImportedSymbol m n else n)"
  by (simp add: renamed_def rename_all_def)

lemma inj_on_renamed:
  "\<forall>b \<in> set names. QualifyImportedSymbol m b \<notin> N \<Longrightarrow> inj_on (renamed (rename_all m names)) N"
  by (auto simp: inj_on_def renamed_rename_all split: if_splits)

definition declared_types :: "MirModule \<Rightarrow> string list" where
  "declared_types m = map mt_name (mm_type_decls m)"

lemma namespaced_type:
  assumes "NamespaceImportedBuildUnit fp module_name m = Some m'"
    and "\<forall>b \<in> set (unqualified (declared_types m)). QualifyImportedSymbol module_name b \<notin> insert n (set (declared_types m))"
  shows "FindMirTypeDecl m' (renamed (type_renaming module_name m) n) =
    map_option (namespace_type_decl module_name m) (FindMirTypeDecl m n)"
proof -
  have "mm_type_decls m' = map (namespace_type_decl module_name m) (mm_type_decls m)"
    using assms(1) by (auto simp: NamespaceImportedBuildUnit_def split: Option.bind_splits)
  moreover have "inj_on (renamed (type_renaming module_name m)) (insert n (mt_name ` set (mm_type_decls m)))"
    unfolding type_renaming_def using assms(2) by (intro inj_on_renamed) (simp add: declared_types_def)
  ultimately show ?thesis
    by (simp add: FindMirTypeDecl_def find_map_renamed namespace_type_decl_def)
qed

lemma namespaced_function:
  assumes "NamespaceImportedBuildUnit fp module_name m = Some m'" "FindMirFunction m n = Some f" "\<not> mf_is_extern f"
    and "\<forall>g \<in> set (mm_functions m). mf_is_extern g \<longrightarrow> mf_name g \<noteq> n \<and> mf_name g \<noteq> QualifyImportedSymbol module_name n"
  shows "FindMirFunction m' (QualifyImportedSymbol module_name n) = namespace_function module_name m f"
proof -
  have t: "those (map (namespace_function module_name m) (mm_functions m)) = Some (mm_functions m')"
    using assms(1) by (auto simp: NamespaceImportedBuildUnit_def split: Option.bind_splits)
  have "find (\<lambda>g. mf_name g = QualifyImportedSymbol module_name n) (mm_functions m') =
      Option.bind (find (\<lambda>g. mf_name g = n) (mm_functions m)) (namespace_function module_name m)"
  proof (rule find_those_map [OF t])
    fix g g'
    assume "g \<in> set (mm_functions m)" "namespace_function module_name m g = Some g'"
    then show "mf_name g = n \<longleftrightarrow> mf_name g' = QualifyImportedSymbol module_name n"
      using assms(4) by (auto simp: namespace_function_def Let_def split: Option.bind_splits if_splits)
  qed
  then show ?thesis using assms(2) by (simp add: FindMirFunction_def)
qed

lemma merged_definition_found:
  assumes "NamespaceImportedBuildUnit fp module_name m = Some m'" "FindMirFunction m n = Some f" "\<not> mf_is_extern f"
    and "\<forall>g \<in> set (mm_functions m). mf_is_extern g \<longrightarrow> mf_name g \<noteq> n \<and> mf_name g \<noteq> QualifyImportedSymbol module_name n"
    and "MergeBuildUnits fs units entry_mir p d = (Some merged, d')"
    and "map snd (merge_inputs fs units entry_mir p) = before @ m' # later"
    and "\<forall>g \<in> set (all_functions before). mf_is_extern g \<longrightarrow> mf_name g \<noteq> QualifyImportedSymbol module_name n"
  shows "\<exists>f'. namespace_function module_name m f = Some f' \<and> \<not> mf_is_extern f' \<and>
    FindMirFunction merged (QualifyImportedSymbol module_name n) = Some f'"
proof -
  let ?q = "QualifyImportedSymbol module_name n" and ?ms = "map snd (merge_inputs fs units entry_mir p)"
  have f: "FindMirFunction m' ?q = namespace_function module_name m f"
    by (rule namespaced_function [OF assms(1-4)])
  have t: "those (map (namespace_function module_name m) (mm_functions m)) = Some (mm_functions m')"
    using assms(1) by (auto simp: NamespaceImportedBuildUnit_def split: Option.bind_splits)
  have "f \<in> set (mm_functions m)" using assms(2) by (auto simp: FindMirFunction_def find_Some_iff)
  with t obtain f' where f': "namespace_function module_name m f = Some f'"
    by (metis in_set_conv_nth those_map_SomeD)
  then have e: "\<not> mf_is_extern f'" "mf_name f' = ?q" using assms(2,3)
    by (auto simp: namespace_function_def Let_def FindMirFunction_def find_Some_iff split: Option.bind_splits)
  have m: "distinct (map mf_name (definitions_of (all_functions ?ms)))" "merged_of ?ms merged"
    using MergeBuildUnits_cases [OF assms(5)] by simp_all
  have i: "f' \<in> set (mm_functions m')" using f f' by (auto simp: FindMirFunction_def find_Some_iff)
  have "mf_name g \<noteq> ?q" if g: "g \<in> set (all_functions before)" for g
  proof
    assume q: "mf_name g = ?q"
    then have "\<not> mf_is_extern g" using assms(7) g by blast
    then have "?q \<in> mf_name ` set (definitions_of (all_functions before))" using q g by force
    moreover have "?q \<in> mf_name ` set (definitions_of (mm_functions m'))" using i e by force
    moreover have "mf_name ` set (definitions_of (all_functions before)) \<inter> mf_name ` set (definitions_of (mm_functions m')) = {}"
      using m(1) unfolding assms(6) by (simp add: Int_Un_distrib)
    ultimately show False by blast
  qed
  then have "find (\<lambda>g. mf_name g = ?q) (all_functions before) = None" unfolding find_None_iff by blast
  moreover have "find (\<lambda>g. mf_name g = ?q) (mm_functions m') = Some f'" using f f' by (simp add: FindMirFunction_def)
  ultimately have "FindMirFunction merged ?q = Some f'"
    by (simp add: merged_lookups(1) [OF m(2)] assms(6) find_append)
  with f' e(1) show ?thesis by blast
qed

section \<open>Declarations of what is imported\<close>

definition imported_names :: "(string \<times> Module) list \<Rightarrow> string set" where
  "imported_names imports = (\<Union>(module_name, m) \<in> set imports. QualifyImportedSymbol module_name ` fs_name ` set (mod_functions m))"

lemma add_imported_module_functions:
  assumes i: "i = (q, imported)" and "m' = add_imported_module i m"
  shows "\<exists>gs. mm_functions m' = mm_functions m @ gs \<and> list_all mf_is_extern gs \<and>
      (distinct (map mf_name (mm_functions m)) \<longrightarrow> distinct (map mf_name (mm_functions m'))) \<and>
      mf_name ` set (mm_functions m') = mf_name ` set (mm_functions m) \<union> imported_names [i]"
proof (intro exI conjI impI)
  let ?gs = "add_new mf_name (mf_name ` set (mm_functions m)) (map (extern_function q) (mod_functions imported))"
  show f: "mm_functions m' = mm_functions m @ ?gs"
    by (simp add: assms i add_imported_module_def)
  have "set (add_new name seen xs) \<subseteq> set xs" for name :: "MirFunction \<Rightarrow> string" and seen xs
    by (induction name seen xs rule: add_new.induct) auto
  then have "set ?gs \<subseteq> extern_function q ` set (mod_functions imported)" by fastforce
  then show "list_all mf_is_extern ?gs" by (auto simp: list_all_iff extern_function_def)
  show "distinct (map mf_name (mm_functions m'))" if "distinct (map mf_name (mm_functions m))"
    using that by (simp add: f add_new_distinct add_new_names)
  show "mf_name ` set (mm_functions m') = mf_name ` set (mm_functions m) \<union> imported_names [i]"
    by (auto simp: f image_Un add_new_names imported_names_def i extern_function_def image_image)
qed

lemma AddImportedExternDeclarations_functions:
  "\<exists>gs. mm_functions (AddImportedExternDeclarations imports m) = mm_functions m @ gs \<and> list_all mf_is_extern gs \<and>
      (distinct (map mf_name (mm_functions m)) \<longrightarrow>
        distinct (map mf_name (mm_functions (AddImportedExternDeclarations imports m)))) \<and>
      mf_name ` set (mm_functions (AddImportedExternDeclarations imports m)) = mf_name ` set (mm_functions m) \<union> imported_names imports"
proof -
  have "\<exists>gs. mm_functions (fold add_imported_module is m) = mm_functions m @ gs \<and> list_all mf_is_extern gs \<and>
      (distinct (map mf_name (mm_functions m)) \<longrightarrow> distinct (map mf_name (mm_functions (fold add_imported_module is m)))) \<and>
      mf_name ` set (mm_functions (fold add_imported_module is m)) = mf_name ` set (mm_functions m) \<union> imported_names is" for "is"
  proof (induction "is" arbitrary: m)
    case (Cons i "is")
    obtain gs where 1: "mm_functions (add_imported_module i m) = mm_functions m @ gs" "list_all mf_is_extern gs"
        "distinct (map mf_name (mm_functions m)) \<longrightarrow> distinct (map mf_name (mm_functions (add_imported_module i m)))"
        "mf_name ` set (mm_functions (add_imported_module i m)) = mf_name ` set (mm_functions m) \<union> imported_names [i]"
      using add_imported_module_functions [OF _ refl, of i "fst i" "snd i" m] by auto
    obtain hs where 2: "mm_functions (fold add_imported_module is (add_imported_module i m)) =
          mm_functions (add_imported_module i m) @ hs" "list_all mf_is_extern hs"
        "distinct (map mf_name (mm_functions (add_imported_module i m))) \<longrightarrow>
          distinct (map mf_name (mm_functions (fold add_imported_module is (add_imported_module i m))))"
        "mf_name ` set (mm_functions (fold add_imported_module is (add_imported_module i m))) =
          mf_name ` set (mm_functions (add_imported_module i m)) \<union> imported_names is"
      using Cons.IH [of "add_imported_module i m"] by blast
    have "imported_names (i # is) = imported_names [i] \<union> imported_names is" by (simp add: imported_names_def)
    with 1 2 show ?case by (intro exI [of _ "gs @ hs"]) auto
  qed (simp add: imported_names_def)
  moreover have "imported_names (sort_key fst imports) = imported_names imports" by (simp add: imported_names_def)
  ultimately show ?thesis by (simp only: AddImportedExternDeclarations_def) metis
qed

end
