(* ===== verification/MC_Host.thy ===== *)
theory MC_Host
  imports MC_BuildState MC_Mir
begin

text \<open>
  The host: \<open>compiler/codegen_llvm/backend_host.cpp\<close>, which runs the tools of the host on the files of a build, with the
  search for the runtime sources of \<open>driver/build_support.cpp\<close>.

  The files are a value that the operations change. What writing a file and running a command do to it are arguments, and so
  are the two passes of the code generator that make the text of a module, whose code is not modelled.
\<close>

section \<open>Files\<close>

record files =
  fl_read :: "path \<Rightarrow> string option"
  fl_exists :: "path \<Rightarrow> bool"
  fl_is_directory :: "path \<Rightarrow> bool"
  fl_time :: "path \<Rightarrow> nat"
    \<comment> \<open>\<open>last_write_time\<close>\<close>

record host_env =
  he_config :: TargetConfig
    \<comment> \<open>\<open>BootstrapTargetConfig()\<close>\<close>
  he_write :: "path \<Rightarrow> string \<Rightarrow> files \<Rightarrow> (string \<times> nat \<times> bool) option"
    \<comment> \<open>an output stream on a file: what the file holds afterwards, its time, and whether the stream is good; \<open>None\<close> when it cannot be opened\<close>
  he_run :: "string list \<Rightarrow> files \<Rightarrow> int \<times> string \<times> files"
    \<comment> \<open>\<open>fork\<close>, \<open>execvp\<close> and \<open>waitpid\<close>: exit code, output, and the files afterwards\<close>
  he_specialize :: "MirModule \<Rightarrow> path \<Rightarrow> MirModule option \<times> Diagnostic list"
    \<comment> \<open>\<open>SpecializeExecutableGenericFunctions\<close>\<close>
  he_render :: "MirModule \<Rightarrow> TargetConfig \<Rightarrow> path \<Rightarrow> bool \<Rightarrow> string option \<times> Diagnostic list"
    \<comment> \<open>\<open>ValidateExecutableBackendCapabilities\<close> and \<open>RenderLlvmModule\<close>\<close>

definition write_file :: "host_env \<Rightarrow> path \<Rightarrow> string \<Rightarrow> files \<Rightarrow> bool \<times> bool \<times> files" where
  \<comment> \<open>Whether the file was opened, whether the stream is good, and the files.\<close>
  "write_file env p txt fl =
     (case he_write env p txt fl of
        None \<Rightarrow> (False, False, fl)
      | Some (content, time, good) \<Rightarrow>
          (True, good, fl\<lparr>fl_read := (fl_read fl)(p := Some content), fl_exists := (fl_exists fl)(p := True),
             fl_time := (fl_time fl)(p := time)\<rparr>))"

definition RemoveArtifactIfExists :: "path \<Rightarrow> files \<Rightarrow> files" where
  "RemoveArtifactIfExists p fl = fl\<lparr>fl_read := (fl_read fl)(p := None), fl_exists := (fl_exists fl)(p := False)\<rparr>"

section \<open>Commands\<close>

definition shell_char :: "char \<Rightarrow> string" where
  "shell_char ch = (if ch = apostrophe_char then [apostrophe_char, backslash_char, apostrophe_char, apostrophe_char] else [ch])"

definition QuoteShellArg :: "string \<Rightarrow> string" where
  "QuoteShellArg argument = [apostrophe_char] @ concat (map shell_char argument) @ [apostrophe_char]"

definition JoinCommand :: "string list \<Rightarrow> string" where
  "JoinCommand args = join_with '' '' (map QuoteShellArg args)"

definition TrimTrailingNewlines :: "string \<Rightarrow> string" where
  "TrimTrailingNewlines txt = rev (dropWhile (\<lambda>c. c = newline_char \<or> c = CHR 0x0D) (rev txt))"

definition RunCapturedHostCommand :: "host_env \<Rightarrow> string list \<Rightarrow> files \<Rightarrow> int \<times> string \<times> files" where
  "RunCapturedHostCommand env args fl =
     (if args = [] then (127, ''empty host toolchain command'', fl) else he_run env args fl)"

definition BuildHostToolCommand :: "TargetConfig \<Rightarrow> string \<Rightarrow> string list \<Rightarrow> string list" where
  "BuildHostToolCommand target tool args = tc_host_tool_prefix target @ [tool] @ args"

definition backend_error :: "path \<Rightarrow> string \<Rightarrow> DiagnosticSink \<Rightarrow> DiagnosticSink" where
  \<comment> \<open>\<open>ReportBackendError\<close>\<close>
  "backend_error p message = Report (project_report kError p kDefaultSourceSpan message)"

definition host_failure :: "string \<Rightarrow> string list \<Rightarrow> int \<Rightarrow> string \<Rightarrow> path option \<Rightarrow> string" where
  "host_failure description args exit_code output related =
     (let txt = TrimTrailingNewlines output in
      ''LLVM bootstrap backend failed to '' @ description @ '' using host toolchain command: '' @ JoinCommand args @
      '' (exit='' @ string_of_int exit_code @ '')'' @
      (case related of None \<Rightarrow> [] | Some p \<Rightarrow> ''; inspect emitted artifact '' @ quoted p) @
      (if txt = [] then [] else [newline_char] @ ''host tool output:'' @ [newline_char] @ txt))"

type_synonym host_result = "bool \<times> files \<times> DiagnosticSink"

definition RunHostCommand ::
  "host_env \<Rightarrow> string list \<Rightarrow> path \<Rightarrow> string \<Rightarrow> path option \<Rightarrow> files \<Rightarrow> DiagnosticSink \<Rightarrow> host_result" where
  "RunHostCommand env args source_path description related fl d =
     (let (exit_code, output, fl) = RunCapturedHostCommand env args fl in
      if exit_code = 0 then (True, fl, d)
      else (False, fl, backend_error source_path (host_failure description args exit_code output related) d))"

section \<open>Targets\<close>

definition IsBootstrapTarget :: "host_env \<Rightarrow> TargetConfig \<Rightarrow> bool" where
  "IsBootstrapTarget env target \<longleftrightarrow> tc_triple target = tc_triple (he_config env) \<and>
     tc_target_family target = tc_target_family (he_config env) \<and> tc_object_format target = tc_object_format (he_config env)"

definition ValidateBootstrapTarget :: "host_env \<Rightarrow> TargetConfig \<Rightarrow> path \<Rightarrow> DiagnosticSink \<Rightarrow> bool \<times> DiagnosticSink" where
  "ValidateBootstrapTarget env target source_path d =
     (if IsBootstrapTarget env target then (True, d)
      else (False, backend_error source_path
        (''LLVM bootstrap backend only supports bootstrap '' @ quoted ''arm64-apple-darwin'' @ '' targets in Stage 3; got triple='' @
         quoted (tc_triple target) @ '' target_family='' @ quoted (tc_target_family target)) d))"

section \<open>Object files\<close>

record ObjectBuildOptions =
  ob_target :: TargetConfig
  ob_llvm_ir_path :: path
  ob_object_path :: path
  ob_wrap_hosted_main :: bool

definition emit_object :: "host_env \<Rightarrow> path \<Rightarrow> ObjectBuildOptions \<Rightarrow> string \<Rightarrow> files \<Rightarrow> DiagnosticSink \<Rightarrow> host_result" where
  \<comment> \<open>The second part of \<open>BuildObjectFile\<close>: the text goes to a file, and the compiler makes the object of it.\<close>
  "emit_object env source_path options llvm_ir fl d =
     (let (opened, good, fl) = write_file env (ob_llvm_ir_path options) llvm_ir fl in
      if \<not> (opened \<and> good)
      then (False, fl, backend_error source_path
        (''LLVM bootstrap backend could not write LLVM IR artifact '' @ quoted (ob_llvm_ir_path options)) d)
      else RunHostCommand env
        (BuildHostToolCommand (ob_target options) ''clang''
          [''-target'', tc_triple (ob_target options), ''-x'', ''ir'', ob_llvm_ir_path options, ''-c'', ''-o'', ob_object_path options])
        source_path ''emit an object file'' (Some (ob_llvm_ir_path options))
        (RemoveArtifactIfExists (ob_object_path options) fl) d)"

definition BuildObjectFile :: "host_env \<Rightarrow> MirModule \<Rightarrow> path \<Rightarrow> ObjectBuildOptions \<Rightarrow> files \<Rightarrow> DiagnosticSink \<Rightarrow> host_result" where
  "BuildObjectFile env m source_path options fl d =
     (case he_specialize env m source_path of
        (None, reports) \<Rightarrow> (False, fl, d @ reports)
      | (Some executable_module, reports) \<Rightarrow>
        (case ValidateBootstrapTarget env (ob_target options) source_path (d @ reports) of
           (False, d) \<Rightarrow> (False, fl, d)
         | (True, d) \<Rightarrow>
           (case he_render env executable_module (ob_target options) source_path (ob_wrap_hosted_main options) of
              (None, reports) \<Rightarrow> (False, fl, d @ reports)
            | (Some llvm_ir, reports) \<Rightarrow> emit_object env source_path options llvm_ir fl (d @ reports))))"

section \<open>Executables and libraries\<close>

record LinkOptions =
  lo_target :: TargetConfig
  lo_object_paths :: "path list"
  lo_extra_input_paths :: "path list"
  lo_library_paths :: "path list"
  lo_runtime_source_path :: "path option"
  lo_runtime_object_path :: path
  lo_executable_path :: path

definition compile_runtime :: "host_env \<Rightarrow> path \<Rightarrow> LinkOptions \<Rightarrow> path \<Rightarrow> files \<Rightarrow> DiagnosticSink \<Rightarrow> host_result" where
  "compile_runtime env source_path options runtime_source fl d =
     (let runtime_object = lo_runtime_object_path options in
      if \<not> fl_exists fl runtime_object \<or> fl_time fl runtime_source > fl_time fl runtime_object
      then RunHostCommand env
        (BuildHostToolCommand (lo_target options) ''clang''
          [''-target'', tc_triple (lo_target options), ''-c'', runtime_source, ''-o'', runtime_object])
        source_path ''compile runtime support'' None (RemoveArtifactIfExists runtime_object fl) d
      else (True, fl, d))"

definition link_command :: "LinkOptions \<Rightarrow> string list" where
  "link_command options =
     BuildHostToolCommand (lo_target options) ''clang'' [''-target'', tc_triple (lo_target options)] @
     lo_object_paths options @ lo_extra_input_paths options @ lo_library_paths options @
     [lo_runtime_object_path options, ''-o'', lo_executable_path options]"

definition LinkExecutable :: "host_env \<Rightarrow> path \<Rightarrow> LinkOptions \<Rightarrow> files \<Rightarrow> DiagnosticSink \<Rightarrow> host_result" where
  "LinkExecutable env source_path options fl d =
     (let failed = (\<lambda>message d. (False, fl, backend_error source_path message d)) in
      case ValidateBootstrapTarget env (lo_target options) source_path d of
        (False, d) \<Rightarrow> (False, fl, d)
      | (True, d) \<Rightarrow>
        (case lo_runtime_source_path options of
           None \<Rightarrow> failed ''LLVM bootstrap backend requires an explicit runtime support source path'' d
         | Some runtime_source \<Rightarrow>
             if \<not> fl_exists fl runtime_source
             then failed (''LLVM bootstrap backend could not read runtime support source '' @ quoted runtime_source) d
             else case find (\<lambda>p. \<not> fl_exists fl p) (lo_extra_input_paths options) of
                 Some p \<Rightarrow> failed (''LLVM bootstrap backend could not read explicit link input '' @ quoted p) d
               | None \<Rightarrow>
                 (case compile_runtime env source_path options runtime_source fl d of
                    (False, fl, d) \<Rightarrow> (False, fl, d)
                  | (True, fl, d) \<Rightarrow>
                      RunHostCommand env (link_command options) source_path ''link an executable'' None
                        (RemoveArtifactIfExists (lo_executable_path options) fl) d)))"

record ArchiveOptions =
  ao_target :: TargetConfig
  ao_object_paths :: "path list"
  ao_archive_path :: path

definition ArchiveStaticLibrary :: "host_env \<Rightarrow> path \<Rightarrow> ArchiveOptions \<Rightarrow> files \<Rightarrow> DiagnosticSink \<Rightarrow> host_result" where
  "ArchiveStaticLibrary env source_path options fl d =
     (case ValidateBootstrapTarget env (ao_target options) source_path d of
        (False, d) \<Rightarrow> (False, fl, d)
      | (True, d) \<Rightarrow>
          if ao_object_paths options = []
          then (False, fl, backend_error source_path ''LLVM bootstrap backend cannot archive an empty static library'' d)
          else RunHostCommand env
            (BuildHostToolCommand (ao_target options) ''libtool'' [''-static'', ''-o'', ao_archive_path options] @ ao_object_paths options)
            source_path ''archive a hosted static library'' None (RemoveArtifactIfExists (ao_archive_path options) fl) d)"

record BuildOptions =
  bo_target :: TargetConfig
  bo_runtime_source_path :: "path option"
  bo_llvm_ir_path :: path
  bo_object_path :: path
  bo_executable_path :: path

definition BuildExecutable :: "host_env \<Rightarrow> MirModule \<Rightarrow> path \<Rightarrow> BuildOptions \<Rightarrow> files \<Rightarrow> DiagnosticSink \<Rightarrow> host_result" where
  "BuildExecutable env m source_path options fl d =
     (case BuildObjectFile env m source_path
         \<lparr>ob_target = bo_target options, ob_llvm_ir_path = bo_llvm_ir_path options, ob_object_path = bo_object_path options,
          ob_wrap_hosted_main = tc_hosted (bo_target options)\<rparr> fl d of
        (False, fl, d) \<Rightarrow> (False, fl, d)
      | (True, fl, d) \<Rightarrow>
          LinkExecutable env source_path
            \<lparr>lo_target = bo_target options, lo_object_paths = [bo_object_path options], lo_extra_input_paths = [],
             lo_library_paths = [], lo_runtime_source_path = bo_runtime_source_path options,
             lo_runtime_object_path = path_append (path_parent (bo_object_path options)) (path_stem (bo_object_path options) @ ''.runtime.o''),
             lo_executable_path = bo_executable_path options\<rparr> fl d)"

section \<open>Runtime sources\<close>

definition path_root :: "path \<Rightarrow> path" where
  \<comment> \<open>\<open>root_path()\<close>\<close>
  "path_root p = (if p \<noteq> [] \<and> hd p = slash then [slash] else [])"

lemma path_parent_shorter:
  assumes "p \<noteq> []" "p \<noteq> path_root p"
  shows "length (path_parent p) < length p"
proof -
  define r where "r = dropWhile (\<lambda>c. c \<noteq> slash) (rev p)"
  define s where "s = dropWhile (\<lambda>c. c = slash) r"
  have r: "length r \<le> length p" using length_dropWhile_le [of "\<lambda>c. c \<noteq> slash" "rev p"] by (simp add: r_def)
  have parent: "path_parent p = (if s = [] \<and> r \<noteq> [] then [slash] else rev s)"
    unfolding path_parent_def Let_def r_def s_def by (simp only: rev_rev_ident rev_is_Nil_conv)
  show ?thesis
  proof (cases r)
    case Nil
    then have "s = []" by (simp only: s_def dropWhile.simps)
    with Nil assms(1) show ?thesis by (simp add: parent)
  next
    case (Cons c cs)
    then have "c \<in> set p" using set_dropWhileD [of c "\<lambda>c. c \<noteq> slash" "rev p"] by (simp add: r_def)
    have "hd r = slash" using hd_dropWhile [of "\<lambda>c. c \<noteq> slash" "rev p", folded r_def] Cons by fastforce
    then have c: "c = slash" by (simp add: Cons)
    have "length s \<le> length cs" using length_dropWhile_le [of "\<lambda>c. c = slash" cs] by (simp add: s_def Cons c)
    then have s: "length s < length r" by (simp add: Cons)
    have "length p \<noteq> 1"
    proof
      assume "length p = 1"
      then obtain x where "p = [x]" by (auto simp: length_Suc_conv)
      with c \<open>c \<in> set p\<close> assms(2) show False by (simp add: path_root_def)
    qed
    then have "1 < length p" using assms(1) by (cases p) auto
    with s r show ?thesis by (auto simp: parent)
  qed
qed

function repository_root_from :: "files \<Rightarrow> path \<Rightarrow> path option" where
  \<comment> \<open>The loop of \<open>DiscoverRepositoryRoot\<close>.\<close>
  "repository_root_from fl current =
     (if current = [] then None
      else if fl_exists fl (path_append current ''stdlib'') \<and> fl_exists fl (path_append current ''runtime'') then Some current
      else if current = path_root current then None
      else repository_root_from fl (path_parent current))"
  by pat_completeness auto
termination
  by (relation "measure (\<lambda>(fl, current). length current)") (auto simp: path_parent_shorter)

declare repository_root_from.simps [simp del]

definition DiscoverRepositoryRoot :: "filesystem \<Rightarrow> files \<Rightarrow> path \<Rightarrow> path option" where
  "DiscoverRepositoryRoot fs fl start_path =
     (let current = fs_absolute_normal fs start_path in
      repository_root_from fl (if fl_is_directory fl current then current else path_parent current))"

definition existing_file :: "files \<Rightarrow> path \<Rightarrow> path option" where
  "existing_file fl p = (if fl_exists fl p then Some p else None)"

definition DiscoverHostedRuntimeSupportSource :: "filesystem \<Rightarrow> files \<Rightarrow> path \<Rightarrow> path option" where
  "DiscoverHostedRuntimeSupportSource fs fl source_path =
     (case DiscoverRepositoryRoot fs fl source_path of
        None \<Rightarrow> None
      | Some repo_root \<Rightarrow> existing_file fl (path_append repo_root ''runtime/hosted/mc_hosted_runtime.c''))"

definition DiscoverRuntimeSupportSource :: "filesystem \<Rightarrow> files \<Rightarrow> string \<Rightarrow> string \<Rightarrow> path \<Rightarrow> path option" where
  "DiscoverRuntimeSupportSource fs fl env startup source_path =
     (if env = ''hosted'' then (if startup \<noteq> ''default'' then None else DiscoverHostedRuntimeSupportSource fs fl source_path)
      else if env \<noteq> ''freestanding'' then None
      else case DiscoverRepositoryRoot fs fl source_path of
          None \<Rightarrow> None
        | Some repo_root \<Rightarrow>
            existing_file fl (path_append (path_append repo_root ''runtime/freestanding'') (''mc_'' @ startup @ ''.c'')))"

definition ComputeEffectiveImportRoots :: "filesystem \<Rightarrow> files \<Rightarrow> path \<Rightarrow> path list \<Rightarrow> path list" where
  "ComputeEffectiveImportRoots fs fl source_path import_roots =
     distinct_normal fs (import_roots @
       (case DiscoverRepositoryRoot fs fl source_path of
          None \<Rightarrow> []
        | Some repo_root \<Rightarrow> let stdlib_root = path_append repo_root ''stdlib'' in if fl_exists fl stdlib_root then [stdlib_root] else [])) []"

section \<open>Quoted words\<close>

fun sh_words :: "bool \<Rightarrow> string \<Rightarrow> string option \<Rightarrow> string list option" where
  \<comment> \<open>Reference: the words of a command of the shell, from inside or outside of quotes, with the word that has begun.\<close>
  "sh_words True [] cur = None"
| "sh_words True (c # cs) cur =
     (if c = apostrophe_char then sh_words False cs cur else sh_words True cs (Some (the cur @ [c])))"
| "sh_words False [] cur = Some (case cur of None \<Rightarrow> [] | Some w \<Rightarrow> [w])"
| "sh_words False (c # cs) cur =
     (let word = (case cur of None \<Rightarrow> [] | Some w \<Rightarrow> w) in
      if c = CHR '' '' then map_option ((@) (case cur of None \<Rightarrow> [] | Some w \<Rightarrow> [w])) (sh_words False cs None)
      else if c = apostrophe_char then sh_words True cs (Some word)
      else if c = backslash_char then (case cs of [] \<Rightarrow> None | e # es \<Rightarrow> sh_words False es (Some (word @ [e])))
      else sh_words False cs (Some (word @ [c])))"

lemma sh_words_quoted:
  "sh_words True (concat (map shell_char s) @ apostrophe_char # rest) (Some w) = sh_words False rest (Some (w @ s))"
  by (induction s arbitrary: w) (auto simp: shell_char_def)

lemma sh_words_QuoteShellArg: "sh_words False (QuoteShellArg s @ rest) None = sh_words False rest (Some s)"
  by (simp add: QuoteShellArg_def sh_words_quoted)

lemma sh_words_JoinCommand: "sh_words False (JoinCommand args) None = Some args"
proof (induction args rule: induct_list012)
  case (2 x)
  then show ?case using sh_words_QuoteShellArg [of x "[]"] by (simp add: JoinCommand_def)
next
  case (3 x y zs)
  have "JoinCommand (x # y # zs) = QuoteShellArg x @ CHR '' '' # JoinCommand (y # zs)" by (simp add: JoinCommand_def)
  with 3 show ?case by (simp add: sh_words_QuoteShellArg)
qed (simp add: JoinCommand_def)

end
