(* ===== verification/MC_Builder.thy ===== *)
theory MC_Builder
  imports MC_Merge MC_Host MC_MirValidate MC_Target "HOL-Library.Product_Lexorder"
begin

text \<open>
  Builds: \<open>compiler/driver/builder.cpp\<close>, with \<open>WriteModuleInterface\<close> and \<open>LoadImportedInterfaces\<close> of \<open>builder_merge.cpp\<close>.

  A step changes the files and the sink. The inner option is \<open>std::nullopt\<close>, with which a build ends; the outer one
  is a step that does not return. The checker and the lowering to MIR, whose code is not modelled, are arguments; both
  of them add reports to the sink and are successful when it has no errors.
\<close>

section \<open>Steps\<close>

record build_state =
  bt_files :: files
  bt_diagnostics :: DiagnosticSink

type_synonym 'a step = "build_state \<Rightarrow> ('a option \<times> build_state) option"

definition done_with :: "'a \<Rightarrow> 'a step" where
  "done_with x st = Some (Some x, st)"

definition give_up :: "'a step" where
  "give_up st = Some (None, st)"

definition never :: "'a step" where
  "never st = None"

definition and_then :: "'a step \<Rightarrow> ('a \<Rightarrow> 'b step) \<Rightarrow> 'b step" where
  "and_then m f st =
     (case m st of None \<Rightarrow> None | Some (None, st) \<Rightarrow> Some (None, st) | Some (Some x, st) \<Rightarrow> f x st)"

definition require :: "bool \<Rightarrow> unit step" where
  "require b = (if b then done_with () else give_up)"

definition returned :: "'a option \<Rightarrow> 'a step" where
  \<comment> \<open>A value whose computation may not return.\<close>
  "returned x = (case x of None \<Rightarrow> never | Some v \<Rightarrow> done_with v)"

definition from_files :: "(files \<Rightarrow> 'a) \<Rightarrow> 'a step" where
  "from_files f st = Some (Some (f (bt_files st)), st)"

definition with_sink :: "(files \<Rightarrow> DiagnosticSink \<Rightarrow> ('a \<times> DiagnosticSink) option) \<Rightarrow> 'a step" where
  "with_sink f st = map_option (\<lambda>(x, d). (Some x, st\<lparr>bt_diagnostics := d\<rparr>)) (f (bt_files st) (bt_diagnostics st))"

definition with_host :: "(files \<Rightarrow> DiagnosticSink \<Rightarrow> host_result) \<Rightarrow> unit step" where
  "with_host f st =
     (case f (bt_files st) (bt_diagnostics st) of (ok, fl, d) \<Rightarrow> require ok \<lparr>bt_files = fl, bt_diagnostics = d\<rparr>)"

definition some_of :: "'a option \<Rightarrow> 'a step" where
  "some_of x = (case x of None \<Rightarrow> give_up | Some v \<Rightarrow> done_with v)"

section \<open>Data\<close>

record CheckOptions =
  ck_imported_modules :: "(string \<times> Module) list option"
  ck_current_package_identity :: "string option"
  ck_module_part_paths :: "path list"
  ck_module_part_line_stride :: nat

record build_env =
  be_source :: source_env
    \<comment> \<open>the file system but for what exists and what is in the files\<close>
  be_host :: host_env
  be_vmax :: nat
  be_fp :: double_ops
  be_fuel :: nat
    \<comment> \<open>for the recursions of \<open>ValidateModule\<close>\<close>
  be_check :: "SourceFile \<Rightarrow> path \<Rightarrow> CheckOptions \<Rightarrow> Module \<times> Diagnostic list"
    \<comment> \<open>\<open>CheckProgram\<close>: the module, and what it reports\<close>
  be_lower :: "SourceFile \<Rightarrow> Module \<Rightarrow> path \<Rightarrow> (string \<times> Module) list \<Rightarrow> MirModule \<times> Diagnostic list"
    \<comment> \<open>\<open>LowerSourceFile\<close>\<close>

definition source_at :: "build_env \<Rightarrow> files \<Rightarrow> source_env" where
  \<comment> \<open>The environment with the files as they are.\<close>
  "source_at env fl =
     (let s = be_source env; d = se_driver s in
      s\<lparr>se_read := fl_read fl, se_driver := d\<lparr>de_fs := (de_fs d)\<lparr>fs_exists := fl_exists fl\<rparr>\<rparr>\<rparr>)"

abbreviation be_fs :: "build_env \<Rightarrow> filesystem" where
  "be_fs env \<equiv> se_fs (be_source env)"

record ImportedInterfaceData =
  ii_modules :: "(string \<times> Module) list"
  ii_interface_hashes :: "(string \<times> string) list"

record BuildUnit =
  bu_module_name :: string
  bu_artifact_key :: string
  bu_source_path :: path
  bu_parse_result :: ParseResult
  bu_sema_module :: Module
  bu_mir_module :: MirModule
  bu_llvm_ir_path :: path
  bu_object_path :: path
  bu_interface_hash :: string
  bu_reused_object :: bool

section \<open>Interfaces\<close>

definition load_interface :: "build_env \<Rightarrow> path \<Rightarrow> InterfaceArtifact step" where
  "load_interface env p =
     and_then (with_sink (\<lambda>fl. LoadInterfaceArtifact (be_vmax env) (be_fp env) (se_stream_double (be_source env)) (fl_read fl p) p)) some_of"

definition validate_interface :: "build_env \<Rightarrow> path \<Rightarrow> string \<Rightarrow> string \<Rightarrow> string \<Rightarrow> ModuleKind \<Rightarrow> path \<Rightarrow> InterfaceArtifact \<Rightarrow> unit step" where
  "validate_interface env p target package_identity m_name kind source_path a =
     and_then (with_sink (\<lambda>fl d. Some (ValidateInterfaceArtifactMetadata (be_fs env) a p target package_identity m_name kind source_path d)))
       require"

definition emplace_module :: "string \<Rightarrow> Module \<Rightarrow> (string \<times> Module) list \<Rightarrow> (string \<times> Module) list" where
  "emplace_module k m ms = (if k \<in> fst ` set ms then ms else ms @ [(k, m)])"

fun load_node_imports :: "build_env \<Rightarrow> string \<Rightarrow> path \<Rightarrow> CompileImport list \<Rightarrow> ImportedInterfaceData \<Rightarrow> ImportedInterfaceData step" where
  "load_node_imports env target_identity build_dir [] imported = done_with imported"
| "load_node_imports env target_identity build_dir (i # rest) imported =
     (let mci = dump_mci (ComputeLogicalDumpTargets (ci_artifact_key i) build_dir) in
      and_then (load_interface env mci) (\<lambda>a.
      and_then (validate_interface env mci target_identity (ci_package_identity i) (ci_module_name i) (ci_module_kind i) (ci_source_path i) a) (\<lambda>_.
      and_then (returned (RewriteImportedModuleSurfaceTypes (be_fp env) (ia_module a) (ci_module_name i))) (\<lambda>m.
        load_node_imports env target_identity build_dir rest
          \<lparr>ii_modules = emplace_module (ci_module_name i) m (ii_modules imported),
           ii_interface_hashes = ii_interface_hashes imported @ [(ci_module_name i, ia_interface_hash a)]\<rparr>))))"

definition LoadImportedInterfaces :: "build_env \<Rightarrow> CompileNode \<Rightarrow> string \<Rightarrow> path \<Rightarrow> ImportedInterfaceData step" where
  "LoadImportedInterfaces env node target_identity build_dir =
     load_node_imports env target_identity build_dir (cn_imports node) \<lparr>ii_modules = [], ii_interface_hashes = []\<rparr>"

definition write_interface :: "build_env \<Rightarrow> path \<Rightarrow> InterfaceArtifact \<Rightarrow> unit step" where
  \<comment> \<open>\<open>WriteInterfaceArtifact\<close> on the files.\<close>
  "write_interface env p a st =
     (case WriteInterfaceArtifact True True p a [] of
        Some (Some txt, _, _) \<Rightarrow>
          (case write_file (be_host env) p txt (bt_files st) of
             (opened, good, fl) \<Rightarrow>
               (case WriteInterfaceArtifact opened good p a (bt_diagnostics st) of
                  None \<Rightarrow> None
                | Some (_, ok, d) \<Rightarrow> require ok \<lparr>bt_files = fl, bt_diagnostics = d\<rparr>))
      | _ \<Rightarrow> None)"

definition WriteModuleInterface :: "build_env \<Rightarrow> string \<Rightarrow> InterfaceArtifact \<Rightarrow> path \<Rightarrow> unit step" where
  "WriteModuleInterface env artifact_key a build_dir =
     write_interface env (dump_mci (ComputeLogicalDumpTargets artifact_key build_dir)) a"

definition write_state :: "build_env \<Rightarrow> path \<Rightarrow> ModuleBuildState \<Rightarrow> unit step" where
  \<comment> \<open>\<open>WriteModuleBuildState\<close> on the files.\<close>
  "write_state env p s = with_host (\<lambda>fl d.
     case write_file (be_host env) p (module_state_text s) fl of
       (opened, good, fl) \<Rightarrow> (case WriteModuleBuildState opened good p s d of (_, ok, d) \<Rightarrow> (ok, fl, d)))"

section \<open>The graph of modules\<close>

definition check_options :: "build_env \<Rightarrow> CompileNode \<Rightarrow> ImportedInterfaceData \<Rightarrow> CheckOptions" where
  "check_options env node imported =
     \<lparr>ck_imported_modules = (if ii_modules imported = [] then None else Some (ii_modules imported)),
      ck_current_package_identity = package_of_text (cn_package_identity node),
      ck_module_part_paths = (if length (cn_source_paths node) > 1 then CanonicalizeModuleSourcePaths (be_fs env) (cn_source_paths node) else []),
      ck_module_part_line_stride = (if length (cn_source_paths node) > 1 then kMergedModulePartLineStride else 0)\<rparr>"

definition check_source :: "build_env \<Rightarrow> CompileNode \<Rightarrow> ImportedInterfaceData \<Rightarrow> Module step" where
  "check_source env node imported =
     and_then (with_sink (\<lambda>fl d.
       let (m, reports) = be_check env (pr_source_file (cn_parse_result node)) (cn_source_path node) (check_options env node imported) in
       Some (if HasErrors (d @ reports) then None else Some m, d @ reports))) some_of"

definition current_state_of ::
  "CompileGraph \<Rightarrow> CompileNode \<Rightarrow> ImportedInterfaceData \<Rightarrow> string \<Rightarrow> string \<Rightarrow> ModuleBuildState" where
  "current_state_of graph node imported source_text interface_hash =
     \<lparr>bs_target_identity = tc_triple (cg_target_config graph), bs_package_identity = cn_package_identity node,
      bs_mode = cg_mode graph, bs_env = cg_env graph, bs_source_hash = HashText source_text, bs_interface_hash = interface_hash,
      bs_wrap_hosted_main = (cg_wrap_entry_main graph \<and> cn_source_path node = cg_entry_source_path graph),
      bs_imported_interface_hashes = sort (ii_interface_hashes imported)\<rparr>"

definition node_mci :: "CompileGraph \<Rightarrow> CompileNode \<Rightarrow> path" where
  "node_mci graph node = dump_mci (ComputeLogicalDumpTargets (cn_artifact_key node) (cg_build_dir graph))"

definition node_targets :: "CompileGraph \<Rightarrow> CompileNode \<Rightarrow> BuildArtifactTargets" where
  "node_targets graph node = ComputeLogicalBuildArtifactTargets (cn_artifact_key node) (cg_build_dir graph)"

definition node_state_path :: "CompileGraph \<Rightarrow> CompileNode \<Rightarrow> path" where
  "node_state_path graph node = ComputeLogicalModuleStatePath (cn_artifact_key node) (cg_build_dir graph)"

definition update_interface :: "build_env \<Rightarrow> CompileGraph \<Rightarrow> CompileNode \<Rightarrow> InterfaceArtifact \<Rightarrow> string \<Rightarrow> bool step" where
  \<comment> \<open>From \<open>interface_written\<close> on; the result is \<open>interface_changed\<close>, which is also what \<open>interface_written\<close> is afterwards.\<close>
  "update_interface env graph node a interface_hash =
     (let mci = node_mci graph node in
      and_then (from_files (\<lambda>fl. fl_exists fl mci)) (\<lambda>present.
      and_then (if present
          then and_then (load_interface env mci) (\<lambda>previous.
               and_then (validate_interface env mci (tc_triple (cg_target_config graph)) (cn_package_identity node) (cn_module_name node)
                 (sf_module_kind (pr_source_file (cn_parse_result node))) (cn_source_path node) previous) (\<lambda>_.
               done_with (Some previous)))
          else done_with None) (\<lambda>previous_interface.
        let interface_changed = (case previous_interface of None \<Rightarrow> True | Some previous \<Rightarrow> ia_interface_hash previous \<noteq> interface_hash) in
        if interface_changed
        then and_then (WriteModuleInterface env (cn_artifact_key node) a (cg_build_dir graph)) (\<lambda>_. done_with True)
        else done_with False)))"

definition lower_module :: "build_env \<Rightarrow> CompileGraph \<Rightarrow> bool \<Rightarrow> CompileNode \<Rightarrow> Module \<Rightarrow> ImportedInterfaceData \<Rightarrow> MirModule step" where
  "lower_module env graph emit_objects node m imported =
     and_then (with_sink (\<lambda>fl d.
       let (mir, reports) = be_lower env (pr_source_file (cn_parse_result node)) m (cn_source_path node) (ii_modules imported) in
       Some (if HasErrors (d @ reports) then None else Some mir, d @ reports))) (\<lambda>lowered.
     and_then (some_of lowered) (\<lambda>mir.
       let mir = (if emit_objects \<and> ii_modules imported \<noteq> [] then AddImportedExternDeclarations (ii_modules imported) mir else mir) in
     and_then (returned (if cn_source_path node \<noteq> cg_entry_source_path graph \<or> cg_namespace_entry_module graph
         then NamespaceImportedBuildUnit (be_fp env) (cn_module_name node) mir else Some mir)) (\<lambda>mir.
     and_then (with_sink (\<lambda>fl. ValidateModule (be_fuel env) mir (cn_source_path node))) (\<lambda>valid.
     and_then (require valid) (\<lambda>_. done_with mir)))))"

definition write_missing :: "build_env \<Rightarrow> CompileGraph \<Rightarrow> CompileNode \<Rightarrow> InterfaceArtifact \<Rightarrow> bool \<Rightarrow> unit step" where
  \<comment> \<open>Writes the interface when it was not written and is not there.\<close>
  "write_missing env graph node a written =
     and_then (from_files (\<lambda>fl. fl_exists fl (node_mci graph node))) (\<lambda>present.
       if \<not> written \<and> \<not> present then WriteModuleInterface env (cn_artifact_key node) a (cg_build_dir graph) else done_with ())"

definition object_options :: "CompileGraph \<Rightarrow> BuildArtifactTargets \<Rightarrow> bool \<Rightarrow> ObjectBuildOptions" where
  "object_options graph targets wrap_hosted_main =
     \<lparr>ob_target = cg_target_config graph, ob_llvm_ir_path = art_llvm_ir targets, ob_object_path = art_object targets,
      ob_wrap_hosted_main = wrap_hosted_main\<rparr>"

definition emit_node ::
  "build_env \<Rightarrow> CompileGraph \<Rightarrow> bool \<Rightarrow> CompileNode \<Rightarrow> InterfaceArtifact \<Rightarrow> bool \<Rightarrow> ModuleBuildState \<Rightarrow> bool \<Rightarrow> MirModule \<Rightarrow> bool step" where
  \<comment> \<open>The result is \<open>reused_object\<close>.\<close>
  "emit_node env graph emit_objects node a interface_changed current reuse_object mir =
     (if emit_objects then
        if \<not> reuse_object then
          and_then (with_host (BuildObjectFile (be_host env) mir (cn_source_path node)
            (object_options graph (node_targets graph node) (bs_wrap_hosted_main current)))) (\<lambda>_.
          and_then (write_state env (node_state_path graph node) current) (\<lambda>_. done_with False))
        else and_then (write_missing env graph node a interface_changed) (\<lambda>_. done_with True)
      else and_then (write_missing env graph node a interface_changed) (\<lambda>_. done_with False))"

definition compile_node :: "build_env \<Rightarrow> CompileGraph \<Rightarrow> bool \<Rightarrow> CompileNode \<Rightarrow> BuildUnit step" where
  \<comment> \<open>One turn of the loop of \<open>CompileModuleGraph\<close>.\<close>
  "compile_node env graph emit_objects node =
     and_then (LoadImportedInterfaces env node (tc_triple (cg_target_config graph)) (cg_build_dir graph)) (\<lambda>imported.
     and_then (with_sink (\<lambda>fl d. Some (ReadLogicalModuleSourceText (source_at env fl) (cn_source_paths node) d))) (\<lambda>source_text.
     and_then (some_of source_text) (\<lambda>source_text.
     and_then (check_source env node imported) (\<lambda>m.
       let a = MakeModuleInterfaceArtifact (cn_source_path node) (cn_module_name node) (pr_source_file (cn_parse_result node)) m
             (tc_triple (cg_target_config graph)) in
     and_then (returned (ComputeInterfaceHash a)) (\<lambda>interface_hash.
       let current = current_state_of graph node imported source_text interface_hash;
           targets = node_targets graph node in
     and_then (with_sink (\<lambda>fl d. Some (LoadModuleBuildState (node_state_path graph node) (fl_read fl (node_state_path graph node)) d)))
       (\<lambda>previous_state.
     and_then (from_files (\<lambda>fl. emit_objects \<and> (case previous_state of None \<Rightarrow> False
         | Some previous \<Rightarrow> ShouldReuseModuleObject (fl_exists fl) previous current (art_object targets) (node_mci graph node)))) (\<lambda>reuse_object.
     and_then (update_interface env graph node a interface_hash) (\<lambda>interface_changed.
     and_then (lower_module env graph emit_objects node m imported) (\<lambda>mir.
     and_then (emit_node env graph emit_objects node a interface_changed current reuse_object mir) (\<lambda>reused_object.
       done_with
         \<lparr>bu_module_name = cn_module_name node, bu_artifact_key = cn_artifact_key node, bu_source_path = cn_source_path node,
          bu_parse_result = cn_parse_result node, bu_sema_module = m, bu_mir_module = mir, bu_llvm_ir_path = art_llvm_ir targets,
          bu_object_path = art_object targets, bu_interface_hash = interface_hash, bu_reused_object = reused_object\<rparr>))))))))))"

fun compile_nodes :: "build_env \<Rightarrow> CompileGraph \<Rightarrow> bool \<Rightarrow> CompileNode list \<Rightarrow> BuildUnit list step" where
  "compile_nodes env graph emit_objects [] = done_with []"
| "compile_nodes env graph emit_objects (node # rest) =
     and_then (compile_node env graph emit_objects node) (\<lambda>u.
     and_then (compile_nodes env graph emit_objects rest) (\<lambda>us. done_with (u # us)))"

definition CompileModuleGraph :: "build_env \<Rightarrow> CompileGraph \<Rightarrow> bool \<Rightarrow> BuildUnit list step" where
  "CompileModuleGraph env graph emit_objects =
     (if AssertCompileGraphTopologicalOrder graph then compile_nodes env graph emit_objects (cg_nodes graph) else never)"

section \<open>Links\<close>

definition IsOutputOlderThan :: "files \<Rightarrow> path \<Rightarrow> path \<Rightarrow> bool" where
  "IsOutputOlderThan fl output_path input_path =
     (if \<not> fl_exists fl output_path \<or> \<not> fl_exists fl input_path then True
      else fl_time fl output_path < fl_time fl input_path)"

definition ShouldRelinkProjectExecutable ::
  "files \<Rightarrow> path \<Rightarrow> path \<Rightarrow> path option \<Rightarrow> path list \<Rightarrow> path list \<Rightarrow> BuildUnit list \<Rightarrow> bool" where
  "ShouldRelinkProjectExecutable fl executable_path runtime_object_path runtime_source_path link_inputs library_paths units =
     (let older = IsOutputOlderThan fl in
      if \<not> fl_exists fl executable_path \<or> \<not> fl_exists fl runtime_object_path then True
      else if (case runtime_source_path of None \<Rightarrow> False | Some p \<Rightarrow> older runtime_object_path p) then True
      else if older executable_path runtime_object_path then True
      else if list_ex (\<lambda>u. \<not> bu_reused_object u \<or> older executable_path (bu_object_path u)) units then True
      else if list_ex (older executable_path) link_inputs then True
      else list_ex (older executable_path) library_paths)"

definition ShouldArchiveProjectStaticLibrary :: "files \<Rightarrow> path \<Rightarrow> BuildUnit list \<Rightarrow> bool" where
  "ShouldArchiveProjectStaticLibrary fl archive_path units =
     (if \<not> fl_exists fl archive_path then True
      else list_ex (\<lambda>u. \<not> bu_reused_object u \<or> IsOutputOlderThan fl archive_path (bu_object_path u)) units)"

fun add_new_paths :: "path list \<Rightarrow> path list \<Rightarrow> path list" where
  "add_new_paths seen [] = []"
| "add_new_paths seen (p # ps) = (if p \<in> set seen then add_new_paths seen ps else p # add_new_paths (p # seen) ps)"

definition AppendUniquePaths :: "path list \<Rightarrow> path list \<Rightarrow> path list" where
  "AppendUniquePaths destination paths = destination @ add_new_paths destination paths"

definition merge_units :: "build_env \<Rightarrow> BuildUnit list \<Rightarrow> MirModule \<Rightarrow> path \<Rightarrow> MirModule step" where
  \<comment> \<open>\<open>MergeBuildUnits\<close> and \<open>ValidateModule\<close> on its result.\<close>
  "merge_units env units entry_mir entry_source_path =
     and_then (with_sink (\<lambda>fl d. Some (MergeBuildUnits (be_fs env) (map (\<lambda>u. (bu_source_path u, bu_mir_module u)) units)
       entry_mir entry_source_path d))) (\<lambda>merged.
     and_then (some_of merged) (\<lambda>merged_module.
     and_then (with_sink (\<lambda>fl. ValidateModule (be_fuel env) merged_module entry_source_path)) (\<lambda>valid.
     and_then (require valid) (\<lambda>_. done_with merged_module))))"

lemma linked_size [termination_simp]: "size_list size (tg_linked_targets g) < Suc (size g + k)"
  by (cases g) simp

fun PrepareLinkedTargetInterfaces :: "build_env \<Rightarrow> TargetBuildGraph list \<Rightarrow> unit step" where
  "PrepareLinkedTargetInterfaces env [] = done_with ()"
| "PrepareLinkedTargetInterfaces env (linked_graph # rest) =
     and_then (PrepareLinkedTargetInterfaces env (tg_linked_targets linked_graph)) (\<lambda>_.
     and_then (CompileModuleGraph env (tg_compile_graph linked_graph) False) (\<lambda>_.
       PrepareLinkedTargetInterfaces env rest))"

definition direct_rules :: "build_env \<Rightarrow> files \<Rightarrow> path list \<Rightarrow> module_rules" where
  "direct_rules env fl import_roots =
     \<lparr>mr_import_roots = import_roots,
      mr_package_identity_for_source = Some (\<lambda>p. ResolveDirectSourcePackageIdentity (be_fs env) p import_roots),
      mr_known_module_sources = None, mr_external_module_paths = {}\<rparr>"

definition CompileToMir :: "nat \<Rightarrow> build_env \<Rightarrow> CommandOptions \<Rightarrow> bool \<Rightarrow> BuildUnit step" where
  \<comment> \<open>\<open>n\<close> is the fuel of the search for modules. The paths and flags of the last four members are the defaults.\<close>
  "CompileToMir n env options include_imports_for_build =
     (let entry_path = fs_absolute_normal (be_fs env) (co_source_path options) in
      and_then (from_files (\<lambda>fl. ComputeEffectiveImportRoots (be_fs env) fl entry_path (co_import_roots options))) (\<lambda>import_roots.
      and_then (with_sink (\<lambda>fl. DiscoverModuleGraph n (source_at env fl) (direct_rules env fl import_roots) entry_path
        \<lparr>go_build_dir = co_build_dir options, go_target_config = he_config (be_host env), go_mode = ''debug'', go_env = ''hosted'',
         go_wrap_entry_main = True, go_namespace_entry_module = False\<rparr>)) (\<lambda>found.
      and_then (some_of found) (\<lambda>graph.
      and_then (CompileModuleGraph env graph False) (\<lambda>units.
      and_then (require (units \<noteq> [])) (\<lambda>_.
        let entry_unit = last units in
      and_then (if include_imports_for_build \<and> length units > 1
          then merge_units env units (bu_mir_module entry_unit) (bu_source_path entry_unit) else done_with (bu_mir_module entry_unit)) (\<lambda>mir.
        done_with (entry_unit\<lparr>bu_mir_module := mir, bu_llvm_ir_path := [], bu_object_path := [], bu_interface_hash := [],
          bu_reused_object := False\<rparr>))))))))"

definition WriteTextArtifact :: "build_env \<Rightarrow> path \<Rightarrow> string \<Rightarrow> string \<Rightarrow> unit step" where
  "WriteTextArtifact env p contents description = with_host (\<lambda>fl d.
     case write_file (be_host env) p contents fl of
       (opened, good, fl) \<Rightarrow>
         if opened \<and> good then (True, fl, d)
         else (False, fl, Report (project_report kError p kDefaultSourceSpan (''unable to write '' @ description)) d))"

section \<open>Projects\<close>

record ProjectBuildResult =
  pb_units :: "BuildUnit list"
  pb_executable_path :: "path option"
  pb_static_library_path :: "path option"
  pb_link_library_paths :: "path list"

definition archive_library :: "build_env \<Rightarrow> CompileGraph \<Rightarrow> BuildUnit list \<Rightarrow> path \<Rightarrow> unit step" where
  "archive_library env graph units archive_path =
     and_then (from_files (\<lambda>fl. ShouldArchiveProjectStaticLibrary fl archive_path units)) (\<lambda>archive.
       if archive
       then with_host (ArchiveStaticLibrary (be_host env) (bu_source_path (last units))
         \<lparr>ao_target = cg_target_config graph, ao_object_paths = map bu_object_path units, ao_archive_path = archive_path\<rparr>)
       else done_with ())"

definition link_objects :: "build_env \<Rightarrow> CompileGraph \<Rightarrow> BuildArtifactTargets \<Rightarrow> BuildUnit list \<Rightarrow> (BuildUnit list \<times> path list) step" where
  \<comment> \<open>The units, of which the last may have another object, and the objects to link.\<close>
  "link_objects env graph targets units =
     (let entry_unit = last units in
      if length units > 1 then
        and_then (merge_units env units (bu_mir_module entry_unit) (bu_source_path entry_unit)) (\<lambda>merged_module.
        and_then (with_host (BuildObjectFile (be_host env) merged_module (bu_source_path entry_unit)
          (object_options graph targets (cg_wrap_entry_main graph)))) (\<lambda>_.
        done_with (butlast units @ [entry_unit\<lparr>bu_object_path := art_object targets\<rparr>], [art_object targets])))
      else done_with (units, map bu_object_path units))"

definition link_executable ::
  "build_env \<Rightarrow> ProjectTarget \<Rightarrow> CompileGraph \<Rightarrow> BuildArtifactTargets \<Rightarrow> path list \<Rightarrow> BuildUnit list \<Rightarrow> BuildUnit list step" where
  "link_executable env t graph targets library_paths units =
     (let entry_unit = last units;
          runtime_object_path = ComputeLogicalRuntimeObjectPath (bu_artifact_key entry_unit) (cg_build_dir graph) (pt_env t) (pt_runtime_startup t) in
      and_then (from_files (\<lambda>fl. DiscoverRuntimeSupportSource (be_fs env) fl (pt_env t) (pt_runtime_startup t) (bu_source_path entry_unit)))
        (\<lambda>runtime_source_path.
      and_then (from_files (\<lambda>fl. ShouldRelinkProjectExecutable fl (art_executable targets) runtime_object_path runtime_source_path
          (pt_link_inputs t) library_paths units)) (\<lambda>relink.
        if relink then
          and_then (link_objects env graph targets units) (\<lambda>(units, object_paths).
          and_then (with_host (LinkExecutable (be_host env) (bu_source_path entry_unit)
            \<lparr>lo_target = cg_target_config graph, lo_object_paths = object_paths, lo_extra_input_paths = pt_link_inputs t,
             lo_library_paths = library_paths, lo_runtime_source_path = runtime_source_path,
             lo_runtime_object_path = runtime_object_path, lo_executable_path = art_executable targets\<rparr>)) (\<lambda>_.
          done_with units))
        else done_with units)))"

definition build_target :: "build_env \<Rightarrow> TargetBuildGraph \<Rightarrow> path list \<Rightarrow> ProjectBuildResult step" where
  \<comment> \<open>\<open>BuildProjectTarget\<close> from the end of its first loop on.\<close>
  "build_target env g linked_library_paths =
     (let graph = tg_compile_graph g; t = tg_target g in
      and_then (CompileModuleGraph env graph True) (\<lambda>units.
      and_then (require (units \<noteq> [])) (\<lambda>_.
        let targets = ComputeLogicalBuildArtifactTargets (bu_artifact_key (last units)) (cg_build_dir graph) in
        if IsStaticLibraryTargetKind (pt_kind t) then
          and_then (archive_library env graph units (art_static_library targets)) (\<lambda>_.
          done_with \<lparr>pb_units = units, pb_executable_path = None, pb_static_library_path = Some (art_static_library targets),
            pb_link_library_paths = AppendUniquePaths [art_static_library targets] linked_library_paths\<rparr>)
        else
          and_then (link_executable env t graph targets linked_library_paths units) (\<lambda>units.
          done_with \<lparr>pb_units = units, pb_executable_path = Some (art_executable targets), pb_static_library_path = None,
            pb_link_library_paths = linked_library_paths\<rparr>))))"

fun build_linked :: "build_env \<Rightarrow> TargetBuildGraph list \<Rightarrow> path list \<Rightarrow> path list step" where
  \<comment> \<open>The first loop of \<open>BuildProjectTarget\<close>, with the recursive calls in it.\<close>
  "build_linked env [] paths = done_with paths"
| "build_linked env (linked_graph # rest) paths =
     and_then (build_linked env (tg_linked_targets linked_graph) []) (\<lambda>libraries.
     and_then (build_target env linked_graph libraries) (\<lambda>linked_result.
       build_linked env rest (AppendUniquePaths paths (pb_link_library_paths linked_result))))"

definition BuildProjectTarget :: "build_env \<Rightarrow> TargetBuildGraph \<Rightarrow> ProjectBuildResult step" where
  "BuildProjectTarget env g = and_then (build_linked env (tg_linked_targets g) []) (build_target env g)"

end
