(* ===== verification/MC_BuilderSpec.thy ===== *)
theory MC_BuilderSpec
  imports MC_Builder MC_MciSpec
begin

text \<open>
  What a build leaves behind, and that a second build finds it: after a build that succeeds, every module is up to date, a
  build of such modules keeps every object, and the contents of the files stay as they are.
\<close>

section \<open>Steps that succeed\<close>

lemma and_then_success:
  "and_then m f st = Some (Some y, st') \<longleftrightarrow> (\<exists>x st1. m st = Some (Some x, st1) \<and> f x st1 = Some (Some y, st'))"
  by (auto simp: and_then_def split: option.splits prod.splits)

lemma done_with_success [simp]: "done_with x st = Some (Some y, st') \<longleftrightarrow> x = y \<and> st = st'"
  by (simp add: done_with_def)

lemma give_up_success [simp]: "give_up st \<noteq> Some (Some y, st')"
  by (simp add: give_up_def)

lemma never_success [simp]: "never st \<noteq> Some r"
  by (simp add: never_def)

lemma require_success [simp]: "require b st = Some (Some y, st') \<longleftrightarrow> b \<and> st = st'"
  by (simp add: require_def)

lemma returned_success [simp]: "returned x st = Some (Some y, st') \<longleftrightarrow> x = Some y \<and> st = st'"
  by (auto simp: returned_def split: option.splits)

lemma some_of_success [simp]: "some_of x st = Some (Some y, st') \<longleftrightarrow> x = Some y \<and> st = st'"
  by (auto simp: some_of_def split: option.splits)

lemma from_files_success [simp]: "from_files f st = Some (Some y, st') \<longleftrightarrow> y = f (bt_files st) \<and> st = st'"
  by (auto simp: from_files_def)

lemma with_sink_success:
  "with_sink f st = Some (Some y, st') \<longleftrightarrow>
     (\<exists>d. f (bt_files st) (bt_diagnostics st) = Some (y, d) \<and> st' = st\<lparr>bt_diagnostics := d\<rparr>)"
  by (auto simp: with_sink_def)

lemma with_host_success:
  "with_host f st = Some (Some y, st') \<longleftrightarrow>
     f (bt_files st) (bt_diagnostics st) = (True, bt_files st', bt_diagnostics st')"
  by (cases st') (auto simp: with_host_def split: prod.splits)

section \<open>Steps that can be repeated\<close>

definition replays :: "path set \<Rightarrow> 'a step \<Rightarrow> 'a \<Rightarrow> files \<Rightarrow> bool" where
  \<comment> \<open>The step gives the value on all files with these contents, and leaves them; it reports no errors.\<close>
  "replays P m x fl \<longleftrightarrow> (\<forall>fl2 d2. (\<forall>p \<in> P. fl_read fl2 p = fl_read fl p) \<longrightarrow> \<not> HasErrors d2 \<longrightarrow>
     (\<exists>d3. m \<lparr>bt_files = fl2, bt_diagnostics = d2\<rparr> = Some (Some x, \<lparr>bt_files = fl2, bt_diagnostics = d3\<rparr>) \<and> \<not> HasErrors d3))"

definition repeatable :: "path set \<Rightarrow> 'a step \<Rightarrow> bool" where
  \<comment> \<open>A step that only reads: when it succeeds, it can be repeated.\<close>
  "repeatable P m \<longleftrightarrow> (\<forall>st st' x. m st = Some (Some x, st') \<longrightarrow> \<not> HasErrors (bt_diagnostics st) \<longrightarrow>
     bt_files st' = bt_files st \<and> \<not> HasErrors (bt_diagnostics st') \<and> replays P m x (bt_files st))"

lemma replays_cong: "replays P m x fl \<Longrightarrow> \<forall>p \<in> P. fl_read fl' p = fl_read fl p \<Longrightarrow> replays P m x fl'"
  by (simp add: replays_def)

lemma replaysD:
  "replays P m x fl \<Longrightarrow> \<not> HasErrors d \<Longrightarrow>
     \<exists>d'. m \<lparr>bt_files = fl, bt_diagnostics = d\<rparr> = Some (Some x, \<lparr>bt_files = fl, bt_diagnostics = d'\<rparr>) \<and> \<not> HasErrors d'"
  by (simp add: replays_def)

lemma repeatableD:
  assumes "repeatable P m" "m st = Some (Some x, st')" "\<not> HasErrors (bt_diagnostics st)"
  shows "bt_files st' = bt_files st" "\<not> HasErrors (bt_diagnostics st')" "replays P m x (bt_files st)"
  using assms by (auto simp: repeatable_def)

lemma repeatable_and_then:
  assumes m: "repeatable P m" and f: "\<And>x. repeatable P (f x)"
  shows "repeatable P (and_then m f)"
  unfolding repeatable_def
proof (intro allI impI conjI)
  fix st st' y
  assume s: "and_then m f st = Some (Some y, st')" and d: "\<not> HasErrors (bt_diagnostics st)"
  then obtain x st1 where 1: "m st = Some (Some x, st1)" and 2: "f x st1 = Some (Some y, st')"
    by (auto simp: and_then_success)
  note a = repeatableD [OF m 1 d]
  note b = repeatableD [OF f 2 a(2)]
  show "bt_files st' = bt_files st" "\<not> HasErrors (bt_diagnostics st')" using a b by simp_all
  show "replays P (and_then m f) y (bt_files st)"
    unfolding replays_def
  proof (intro allI impI)
    fix fl2 :: files and d2
    assume p: "\<forall>p \<in> P. fl_read fl2 p = fl_read (bt_files st) p" and d2: "\<not> HasErrors d2"
    from a(3) p d2 obtain d3 where 3: "m \<lparr>bt_files = fl2, bt_diagnostics = d2\<rparr> = Some (Some x, \<lparr>bt_files = fl2, bt_diagnostics = d3\<rparr>)"
        "\<not> HasErrors d3"
      unfolding replays_def by blast
    from b(3) p a(1) 3(2) obtain d4 where 4: "f x \<lparr>bt_files = fl2, bt_diagnostics = d3\<rparr> = Some (Some y, \<lparr>bt_files = fl2, bt_diagnostics = d4\<rparr>)"
        "\<not> HasErrors d4"
      unfolding replays_def by metis
    then show "\<exists>d3. and_then m f \<lparr>bt_files = fl2, bt_diagnostics = d2\<rparr> = Some (Some y, \<lparr>bt_files = fl2, bt_diagnostics = d3\<rparr>) \<and> \<not> HasErrors d3"
      using 3(1) by (simp add: and_then_def)
  qed
qed

lemma repeatable_pure [simp]:
  "repeatable P (done_with x)" "repeatable P (returned o_x)" "repeatable P (some_of o_x)" "repeatable P (require b)"
  by (auto simp: repeatable_def replays_def done_with_def returned_def some_of_def require_def give_up_def never_def
      split: option.splits if_splits)

lemma repeatable_with_sink:
  assumes "\<And>fl d x d'. f fl d = Some (x, d') \<Longrightarrow> \<not> HasErrors d \<Longrightarrow> good x \<Longrightarrow>
      \<not> HasErrors d' \<and> (\<forall>fl2 d2. (\<forall>p \<in> P. fl_read fl2 p = fl_read fl p) \<longrightarrow> \<not> HasErrors d2 \<longrightarrow>
        (\<exists>d3. f fl2 d2 = Some (x, d3) \<and> \<not> HasErrors d3))"
    and "\<And>x st. \<not> good x \<Longrightarrow> (\<forall>y st'. g x st \<noteq> Some (Some y, st'))" "\<And>x. repeatable P (g x)"
  shows "repeatable P (and_then (with_sink f) g)"
  unfolding repeatable_def
proof (intro allI impI conjI)
  fix st st' y
  assume s: "and_then (with_sink f) g st = Some (Some y, st')" and d: "\<not> HasErrors (bt_diagnostics st)"
  then obtain x d1 where 1: "f (bt_files st) (bt_diagnostics st) = Some (x, d1)" and 2: "g x (st\<lparr>bt_diagnostics := d1\<rparr>) = Some (Some y, st')"
    by (auto simp: and_then_success with_sink_success)
  have x: "good x" using 2 assms(2) by blast
  note a = assms(1) [OF 1 d x]
  have d1: "\<not> HasErrors (bt_diagnostics (st\<lparr>bt_diagnostics := d1\<rparr>))" using a by simp
  note b = repeatableD [OF assms(3) 2 d1]
  show "bt_files st' = bt_files st" "\<not> HasErrors (bt_diagnostics st')" using b by simp_all
  show "replays P (and_then (with_sink f) g) y (bt_files st)"
    unfolding replays_def
  proof (intro allI impI)
    fix fl2 :: files and d2
    assume p: "\<forall>p \<in> P. fl_read fl2 p = fl_read (bt_files st) p" and d2: "\<not> HasErrors d2"
    from a p d2 obtain d3 where 3: "f fl2 d2 = Some (x, d3)" "\<not> HasErrors d3" by blast
    from b(3) p 3(2) obtain d4 where 4: "g x \<lparr>bt_files = fl2, bt_diagnostics = d3\<rparr> = Some (Some y, \<lparr>bt_files = fl2, bt_diagnostics = d4\<rparr>)"
        "\<not> HasErrors d4"
      unfolding replays_def by (simp, blast)
    then show "\<exists>d3. and_then (with_sink f) g \<lparr>bt_files = fl2, bt_diagnostics = d2\<rparr> =
        Some (Some y, \<lparr>bt_files = fl2, bt_diagnostics = d3\<rparr>) \<and> \<not> HasErrors d3"
      using 3(1) by (simp add: and_then_def with_sink_def)
  qed
qed

section \<open>What a module is built from\<close>

lemma LoadInterfaceArtifact_any_sink:
  "LoadInterfaceArtifact vmax fp sd content p d = Some (Some a, d') \<Longrightarrow>
     d' = d \<and> LoadInterfaceArtifact vmax fp sd content p e = Some (Some a, e)"
  by (auto simp: LoadInterfaceArtifact_def split: option.splits sum.splits if_splits)

lemma repeatable_load_interface: "p \<in> P \<Longrightarrow> repeatable P (load_interface env p)"
  unfolding load_interface_def
  by (rule repeatable_with_sink [where good = "\<lambda>x. x \<noteq> None"]) (auto dest: LoadInterfaceArtifact_any_sink)

lemma repeatable_validate_interface: "repeatable P (validate_interface env p target package_identity n kind source_path a)"
  unfolding validate_interface_def
  by (rule repeatable_with_sink [where good = "\<lambda>x. x"])
    (auto simp: ValidateInterfaceArtifactMetadata_def split: option.splits)

lemma repeatable_load_node_imports:
  "(\<And>i. i \<in> set is \<Longrightarrow> dump_mci (ComputeLogicalDumpTargets (ci_artifact_key i) build_dir) \<in> P) \<Longrightarrow>
     repeatable P (load_node_imports env target build_dir is imported)"
proof (induction env target build_dir "is" imported rule: load_node_imports.induct)
  case (2 env target build_dir i rest imported)
  then show ?case
    by (auto simp: Let_def intro!: repeatable_and_then repeatable_load_interface repeatable_validate_interface)
qed simp

lemma repeatable_check_source: "repeatable P (check_source env node imported)"
  unfolding check_source_def
  by (rule repeatable_with_sink [where good = "\<lambda>x. x \<noteq> None"]) (auto split: prod.splits if_splits)

lemma ValidateModule_any_sink:
  "ValidateModule n m p d = Some (True, d') \<Longrightarrow> d' = d \<and> ValidateModule n m p e = Some (True, e)"
  by (auto simp: ValidateModule_def)

lemma repeatable_lower_module: "repeatable P (lower_module env graph emit_objects node m imported)"
proof -
  have v: "repeatable P (and_then (with_sink (\<lambda>fl. ValidateModule (be_fuel env) mir (cn_source_path node)))
      (\<lambda>valid. and_then (require valid) (\<lambda>_. done_with mir)))" for mir
    by (rule repeatable_with_sink [where good = "\<lambda>x. x"])
      (auto dest: ValidateModule_any_sink simp: and_then_success intro!: repeatable_and_then)
  show ?thesis
    unfolding lower_module_def Let_def
    by (rule repeatable_with_sink [where good = "\<lambda>x. x \<noteq> None"])
      (auto simp: and_then_success split: prod.splits if_splits intro!: repeatable_and_then v)
qed

section \<open>What the operations on files change\<close>

definition same_but :: "path set \<Rightarrow> files \<Rightarrow> files \<Rightarrow> bool" where
  "same_but S fl fl' \<longleftrightarrow> (\<forall>p. p \<notin> S \<longrightarrow> fl_read fl' p = fl_read fl p \<and> fl_exists fl' p = fl_exists fl p \<and> fl_time fl' p = fl_time fl p)"

lemma same_but_refl [simp]: "same_but S fl fl"
  by (simp add: same_but_def)

lemma same_but_trans: "same_but S fl fl1 \<Longrightarrow> same_but T fl1 fl2 \<Longrightarrow> same_but (S \<union> T) fl fl2"
  by (simp add: same_but_def)

lemma same_butD:
  "same_but S fl fl' \<Longrightarrow> p \<notin> S \<Longrightarrow> fl_read fl' p = fl_read fl p \<and> fl_exists fl' p = fl_exists fl p \<and> fl_time fl' p = fl_time fl p"
  by (simp add: same_but_def)

lemma same_but_mono: "same_but S fl fl' \<Longrightarrow> S \<subseteq> T \<Longrightarrow> same_but T fl fl'"
  by (auto simp: same_but_def)

definition writes_ok :: "host_env \<Rightarrow> bool" where
  \<comment> \<open>Every file can be opened and takes all of the text.\<close>
  "writes_ok env \<longleftrightarrow> (\<forall>p txt fl. \<exists>time. he_write env p txt fl = Some (txt, time, True))"

definition runs_ok :: "host_env \<Rightarrow> bool" where
  \<comment> \<open>A tool of the host changes the file that its last option names, which is there when it exits with 0.\<close>
  "runs_ok env \<longleftrightarrow> (\<forall>args p fl. case he_run env (args @ [''-o'', p]) fl of
     (exit_code, _, fl') \<Rightarrow> same_but {p} fl fl' \<and> (exit_code = 0 \<longrightarrow> fl_exists fl' p))"

lemma write_file_ok:
  assumes "writes_ok env"
  shows "\<exists>fl'. write_file env p txt fl = (True, True, fl') \<and> same_but {p} fl fl' \<and> fl_read fl' p = Some txt \<and> fl_exists fl' p"
proof -
  obtain time where "he_write env p txt fl = Some (txt, time, True)"
    using assms unfolding writes_ok_def by blast
  then show ?thesis by (simp add: write_file_def same_but_def)
qed

lemma RemoveArtifactIfExists_same: "same_but {p} fl (RemoveArtifactIfExists p fl)"
  by (simp add: same_but_def RemoveArtifactIfExists_def)

lemma RunHostCommand_same:
  assumes "runs_ok env" "RunHostCommand env (args @ [''-o'', p]) source_path description related fl d = (True, fl', d')"
  shows "same_but {p} fl fl' \<and> fl_exists fl' p"
proof -
  obtain c out fl1 where r: "he_run env (args @ [''-o'', p]) fl = (c, out, fl1)" by (cases "he_run env (args @ [''-o'', p]) fl")
  with assms(2) have "c = 0" "fl' = fl1" by (auto simp: RunHostCommand_def RunCapturedHostCommand_def split: if_splits)
  moreover have "case he_run env (args @ [''-o'', p]) fl of
      (exit_code, _, fl') \<Rightarrow> same_but {p} fl fl' \<and> (exit_code = 0 \<longrightarrow> fl_exists fl' p)"
    by (rule assms(1) [unfolded runs_ok_def, THEN spec, THEN spec, THEN spec])
  ultimately show ?thesis by (simp add: r)
qed

lemma BuildObjectFile_same:
  assumes "writes_ok env" "runs_ok env" "BuildObjectFile env m source_path options fl d = (True, fl', d')"
  shows "same_but {ob_llvm_ir_path options, ob_object_path options} fl fl' \<and> fl_exists fl' (ob_object_path options)"
proof -
  obtain llvm_ir d1 where e: "emit_object env source_path options llvm_ir fl d1 = (True, fl', d')"
    using assms(3) by (auto simp: BuildObjectFile_def split: prod.splits option.splits bool.splits)
  obtain fl1 where w: "write_file env (ob_llvm_ir_path options) llvm_ir fl = (True, True, fl1)"
      "same_but {ob_llvm_ir_path options} fl fl1"
    using write_file_ok [OF assms(1)] by blast
  let ?o = "ob_object_path options"
  obtain args where "RunHostCommand env (args @ [''-o'', ?o]) source_path ''emit an object file''
      (Some (ob_llvm_ir_path options)) (RemoveArtifactIfExists ?o fl1) d1 = (True, fl', d')"
  proof
    show "RunHostCommand env ((tc_host_tool_prefix (ob_target options) @ [''clang'', ''-target'', tc_triple (ob_target options), ''-x'', ''ir'',
        ob_llvm_ir_path options, ''-c'']) @ [''-o'', ?o]) source_path ''emit an object file''
        (Some (ob_llvm_ir_path options)) (RemoveArtifactIfExists ?o fl1) d1 = (True, fl', d')"
      using e w(1) by (simp add: emit_object_def BuildHostToolCommand_def)
  qed
  from RunHostCommand_same [OF assms(2) this] have r: "same_but {?o} (RemoveArtifactIfExists ?o fl1) fl'" "fl_exists fl' ?o" by auto
  have "same_but ({ob_llvm_ir_path options} \<union> {?o} \<union> {?o}) fl fl'"
    by (rule same_but_trans [OF same_but_trans [OF w(2) RemoveArtifactIfExists_same] r(1)])
  with r(2) show ?thesis by (simp add: insert_commute)
qed

section \<open>The text of an interface\<close>

definition interface_text :: "InterfaceArtifact \<Rightarrow> string option" where
  \<comment> \<open>What \<open>WriteInterfaceArtifact\<close> writes.\<close>
  "interface_text a = (case WriteInterfaceArtifact True True [] a [] of Some (txt, _) \<Rightarrow> txt | None \<Rightarrow> None)"

lemma WriteInterfaceArtifact_text:
  "WriteInterfaceArtifact True good p a d = map_option (\<lambda>txt. (Some txt, good, d)) (interface_text a)"
  by (auto simp: interface_text_def WriteInterfaceArtifact_def Let_def split: Option.bind_splits option.splits)

lemma interface_text_of_hash: "ComputeInterfaceHash a = Some h \<Longrightarrow> \<exists>txt. interface_text a = Some txt"
  by (auto simp: interface_text_def WriteInterfaceArtifact_def ComputeInterfaceHash_def SerializeArtifactWithoutHash_def
      artifact_records_def Let_def split: Option.bind_splits option.splits)

lemma write_interface_eq:
  assumes "writes_ok (be_host env)" "interface_text a = Some txt"
  shows "\<exists>fl'. write_interface env p a \<lparr>bt_files = fl, bt_diagnostics = d\<rparr> = Some (Some (), \<lparr>bt_files = fl', bt_diagnostics = d\<rparr>) \<and>
    same_but {p} fl fl' \<and> fl_read fl' p = Some txt \<and> fl_exists fl' p"
  using write_file_ok [OF assms(1), of p "txt" fl] assms(2)
  by (auto simp: write_interface_def WriteInterfaceArtifact_text require_def done_with_def)

lemma write_state_eq:
  assumes "writes_ok (be_host env)"
  shows "\<exists>fl'. write_state env p s \<lparr>bt_files = fl, bt_diagnostics = d\<rparr> = Some (Some (), \<lparr>bt_files = fl', bt_diagnostics = d\<rparr>) \<and>
    same_but {p} fl fl' \<and> fl_read fl' p = Some (module_state_text s)"
  using write_file_ok [OF assms(1), of p "module_state_text s" fl]
  by (auto simp: write_state_def with_host_def WriteModuleBuildState_def require_def done_with_def)

section \<open>Recorded states\<close>

lemma read_state_line_any_sink:
  "read_state_line p key (ls, d) = (Some v, ls', d') \<Longrightarrow> d' = d \<and> read_state_line p key (ls, e) = (Some v, ls', e)"
  by (cases ls) (auto split: option.splits)

lemma read_state_lines_any_sink:
  "read_state_lines p keys (ls, d) = (vs, ls', d') \<Longrightarrow> those vs = Some ws \<Longrightarrow>
     d' = d \<and> read_state_lines p keys (ls, e) = (vs, ls', e)"
proof (induction keys arbitrary: ls d vs ws ls' d')
  case (Cons key keys)
  obtain v ls1 d1 where 1: "read_state_line p key (ls, d) = (v, ls1, d1)" by (cases "read_state_line p key (ls, d)") auto
  obtain vs2 ls2 d2 where 2: "read_state_lines p keys (ls1, d1) = (vs2, ls2, d2)" by (cases "read_state_lines p keys (ls1, d1)") auto
  from Cons.prems(1) have r: "vs = v # vs2" "ls' = ls2" "d' = d2" by (auto simp: 1 2)
  with Cons.prems(2) obtain x ws2 where "v = Some x" "those vs2 = Some ws2" by (auto split: option.splits)
  with 1 read_state_line_any_sink [of p key ls d x ls1 d1 e] Cons.IH [OF 2] r show ?case by auto
qed simp

lemma load_import_hashes_any_sink:
  "load_import_hashes p ls d = (Some hs, d') \<Longrightarrow> d' = d \<and> load_import_hashes p ls e = (Some hs, e)"
proof (induction p ls d arbitrary: hs rule: load_import_hashes.induct)
  case (2 p line rest d)
  then show ?case
    by (cases "load_import_hashes p rest d") (auto split: option.splits if_splits simp: apfst_def map_prod_def)
qed simp

lemma LoadModuleBuildState_any_sink:
  assumes "LoadModuleBuildState p content d = (Some s, d')"
  shows "d' = d \<and> LoadModuleBuildState p content e = (Some s, e)"
proof -
  obtain t where c: "content = Some t" using assms by (cases content) (auto simp: LoadModuleBuildState_def)
  obtain f ls d1 where 1: "read_state_line p ''format'' (getlines newline_char t, d) = (Some f, ls, d1)"
    using assms by (auto simp: LoadModuleBuildState_def c split: prod.splits option.splits)
  obtain vs ls2 d2 where 2: "read_state_lines p kStateKeys (ls, d1) = (vs, ls2, d2)"
    by (cases "read_state_lines p kStateKeys (ls, d1)") auto
  note r = assms [unfolded LoadModuleBuildState_def c option.case prod.case 1]
  obtain v where v: "ParseArrayLength f = Some v" "(ucast v :: 32 word) = kModuleBuildStateFormatVersion"
    using r by (auto split: option.splits if_splits)
  obtain ws where ws: "those vs = Some ws" using r by (auto simp: v 2 split: option.splits)
  obtain hs where hs: "load_import_hashes p ls2 d2 = (Some hs, d')" "s = (state_of_values ws)\<lparr>bs_imported_interface_hashes := hs\<rparr>"
    using r by (cases "load_import_hashes p ls2 d2") (auto simp: v 2 ws apfst_def map_prod_def)
  show ?thesis
    using read_state_line_any_sink [OF 1] read_state_lines_any_sink [OF 2 ws] load_import_hashes_any_sink [OF hs(1)]
    by (auto simp: LoadModuleBuildState_def c v ws hs(2))
qed

section \<open>Sources\<close>

lemma distinct_normal_exists [simp]: "distinct_normal (fs\<lparr>fs_exists := e\<rparr>) ps roots = distinct_normal fs ps roots"
  by (induction fs ps roots rule: distinct_normal.induct) (simp_all add: Let_def)

definition source_text_step :: "build_env \<Rightarrow> CompileNode \<Rightarrow> string step" where
  "source_text_step env node =
     and_then (with_sink (\<lambda>fl d. Some (ReadLogicalModuleSourceText (source_at env fl) (cn_source_paths node) d))) some_of"

lemma read_texts_any_sink:
  "read_texts env ps t d = (Some x, d') \<Longrightarrow> \<forall>p \<in> set ps. se_read env2 p = se_read env p \<Longrightarrow>
     d' = d \<and> read_texts env2 ps t e = (Some x, e)"
  by (induction env ps t d rule: read_texts.induct) (auto simp: ReadSourceText_def split: option.splits)

definition node_sources :: "build_env \<Rightarrow> CompileNode \<Rightarrow> path list" where
  "node_sources env node = CanonicalizeModuleSourcePaths (be_fs env) (cn_source_paths node)"

lemma ReadLogicalModuleSourceText_any_sink:
  "ReadLogicalModuleSourceText (source_at env fl) (cn_source_paths node) d = (Some x, d') \<Longrightarrow>
     \<forall>p \<in> set (node_sources env node). fl_read fl2 p = fl_read fl p \<Longrightarrow>
     d' = d \<and> ReadLogicalModuleSourceText (source_at env fl2) (cn_source_paths node) e = (Some x, e)"
  unfolding ReadLogicalModuleSourceText_def node_sources_def
  by (rule read_texts_any_sink [of "source_at env fl", rotated])
    (simp_all add: source_at_def Let_def CanonicalizeModuleSourcePaths_def)

lemma repeatable_source_text: "set (node_sources env node) \<subseteq> P \<Longrightarrow> repeatable P (source_text_step env node)"
  unfolding source_text_step_def
  by (rule repeatable_with_sink [where good = "\<lambda>x. x \<noteq> None"])
    (auto, (use ReadLogicalModuleSourceText_any_sink in blast)+)

lemma source_text_step_same: "source_text_step env node st = Some (Some x, st') \<Longrightarrow> st' = st"
  using ReadLogicalModuleSourceText_any_sink [of env "bt_files st" node "bt_diagnostics st" x _ "bt_files st"]
  by (auto simp: source_text_step_def and_then_success with_sink_success)

lemma load_interface_same: "load_interface env p st = Some (Some a, st') \<Longrightarrow> st' = st"
  by (auto simp: load_interface_def and_then_success with_sink_success dest: LoadInterfaceArtifact_any_sink [THEN conjunct1])

lemma validate_interface_same:
  "validate_interface env p target package_identity n kind source_path a st = Some (Some x, st') \<Longrightarrow> st' = st"
  by (cases "metadata_fault (be_fs env) a target package_identity n kind source_path")
    (auto simp: validate_interface_def and_then_success with_sink_success ValidateInterfaceArtifactMetadata_def)

lemma load_node_imports_same:
  "load_node_imports env target build_dir is imported st = Some (Some x, st') \<Longrightarrow> st' = st"
proof (induction env target build_dir "is" imported arbitrary: st rule: load_node_imports.induct)
  case (2 env target build_dir i rest imported)
  from 2(2) show ?case
    unfolding load_node_imports.simps Let_def and_then_success
    by (elim exE conjE) (auto dest!: load_interface_same validate_interface_same 2(1) [OF refl])
qed simp

lemma load_node_imports_hashes:
  "load_node_imports env target build_dir is imported st = Some (Some x, st') \<Longrightarrow>
     \<exists>hs. ii_interface_hashes x = ii_interface_hashes imported @ hs \<and>
       (\<forall>(n, h) \<in> set hs. n \<in> ci_module_name ` set is \<and> h \<in> range HexU64)"
proof (induction env target build_dir "is" imported arbitrary: st rule: load_node_imports.induct)
  case (2 env target build_dir i rest imported)
  let ?p = "dump_mci (ComputeLogicalDumpTargets (ci_artifact_key i) build_dir)"
  from 2(2) obtain a m st1 st2 where a: "load_interface env ?p st = Some (Some a, st1)"
      and r: "load_node_imports env target build_dir rest
        \<lparr>ii_modules = emplace_module (ci_module_name i) m (ii_modules imported),
         ii_interface_hashes = ii_interface_hashes imported @ [(ci_module_name i, ia_interface_hash a)]\<rparr> st2 = Some (Some x, st')"
    by (auto simp: Let_def and_then_success)
  from a have "ComputeInterfaceHash a = Some (ia_interface_hash a)"
    by (auto simp: load_interface_def and_then_success with_sink_success dest!: LoadInterfaceArtifact_checked)
  then have "ia_interface_hash a \<in> range HexU64"
    by (auto simp: ComputeInterfaceHash_def) (metis rangeI)
  moreover obtain hs where "ii_interface_hashes x = ii_interface_hashes imported @ [(ci_module_name i, ia_interface_hash a)] @ hs"
      "\<forall>(n, h) \<in> set hs. n \<in> ci_module_name ` set rest \<and> h \<in> range HexU64"
    using 2(1) [OF refl r] by auto
  ultimately show ?case by (intro exI [of _ "(ci_module_name i, ia_interface_hash a) # hs"]) auto
qed simp

section \<open>Settled modules\<close>

definition artifact_paths :: "CompileGraph \<Rightarrow> CompileNode \<Rightarrow> path list" where
  "artifact_paths graph node =
     [node_mci graph node, node_state_path graph node, art_object (node_targets graph node), art_llvm_ir (node_targets graph node)]"

lemma artifacts_differ:
  assumes "distinct (artifact_paths graph node)"
  shows "node_state_path graph node \<noteq> node_mci graph node" "art_object (node_targets graph node) \<noteq> node_mci graph node"
    "art_object (node_targets graph node) \<noteq> node_state_path graph node" "node_mci graph node \<noteq> art_object (node_targets graph node)"
    "node_mci graph node \<noteq> node_state_path graph node" "node_mci graph node \<noteq> art_llvm_ir (node_targets graph node)"
  using assms by (auto simp: artifact_paths_def)

definition import_mcis :: "CompileGraph \<Rightarrow> CompileNode \<Rightarrow> path list" where
  "import_mcis graph node = map (\<lambda>i. dump_mci (ComputeLogicalDumpTargets (ci_artifact_key i) (cg_build_dir graph))) (cn_imports node)"

definition read_paths :: "build_env \<Rightarrow> CompileGraph \<Rightarrow> CompileNode \<Rightarrow> path set" where
  "read_paths env graph node = set (node_sources env node) \<union> set (import_mcis graph node)"

definition node_interface :: "CompileGraph \<Rightarrow> CompileNode \<Rightarrow> Module \<Rightarrow> InterfaceArtifact" where
  "node_interface graph node m =
     MakeModuleInterfaceArtifact (cn_source_path node) (cn_module_name node) (pr_source_file (cn_parse_result node)) m
       (tc_triple (cg_target_config graph))"

definition node_unit :: "CompileGraph \<Rightarrow> CompileNode \<Rightarrow> Module \<Rightarrow> MirModule \<Rightarrow> string \<Rightarrow> bool \<Rightarrow> BuildUnit" where
  "node_unit graph node m mir interface_hash reused_object =
     \<lparr>bu_module_name = cn_module_name node, bu_artifact_key = cn_artifact_key node, bu_source_path = cn_source_path node,
      bu_parse_result = cn_parse_result node, bu_sema_module = m, bu_mir_module = mir,
      bu_llvm_ir_path = art_llvm_ir (node_targets graph node), bu_object_path = art_object (node_targets graph node),
      bu_interface_hash = interface_hash, bu_reused_object = reused_object\<rparr>"

abbreviation read_interface :: "build_env \<Rightarrow> path \<Rightarrow> files \<Rightarrow> InterfaceArtifact \<Rightarrow> bool" where
  "read_interface env p fl a \<equiv>
     LoadInterfaceArtifact (be_vmax env) (be_fp env) (se_stream_double (be_source env)) (fl_read fl p) p [] = Some (Some a, [])"

definition interface_current :: "build_env \<Rightarrow> CompileGraph \<Rightarrow> CompileNode \<Rightarrow> InterfaceArtifact \<Rightarrow> string \<Rightarrow> files \<Rightarrow> bool" where
  \<comment> \<open>The file holds the interface, or one with its hash.\<close>
  "interface_current env graph node a hash fl \<longleftrightarrow>
     fl_read fl (node_mci graph node) = interface_text a \<or>
     (\<exists>previous. read_interface env (node_mci graph node) fl previous \<and> ia_interface_hash previous = hash)"

definition interface_fault :: "build_env \<Rightarrow> CompileGraph \<Rightarrow> CompileNode \<Rightarrow> InterfaceArtifact \<Rightarrow> string option" where
  "interface_fault env graph node a =
     metadata_fault (be_fs env) a (tc_triple (cg_target_config graph)) (cn_package_identity node) (cn_module_name node)
       (sf_module_kind (pr_source_file (cn_parse_result node))) (cn_source_path node)"

definition interface_ok :: "build_env \<Rightarrow> CompileGraph \<Rightarrow> files \<Rightarrow> CompileNode \<Rightarrow> bool" where
  \<comment> \<open>The interface of the module can be read, and is that of the module.\<close>
  "interface_ok env graph fl node \<longleftrightarrow>
     (\<exists>a. read_interface env (node_mci graph node) fl a \<and> interface_fault env graph node a = None)"

definition state_current :: "CompileGraph \<Rightarrow> CompileNode \<Rightarrow> ModuleBuildState \<Rightarrow> files \<Rightarrow> bool" where
  "state_current graph node s fl \<longleftrightarrow>
     LoadModuleBuildState (node_state_path graph node) (fl_read fl (node_state_path graph node)) [] = (Some s, [])"

definition up_to_date :: "build_env \<Rightarrow> CompileGraph \<Rightarrow> CompileNode \<Rightarrow> BuildUnit \<Rightarrow> files \<Rightarrow> bool" where
  "up_to_date env graph node u fl \<longleftrightarrow> (\<exists>imported t m mir hash reused.
     replays (read_paths env graph node) (LoadImportedInterfaces env node (tc_triple (cg_target_config graph)) (cg_build_dir graph)) imported fl \<and>
     replays (read_paths env graph node) (source_text_step env node) t fl \<and>
     replays (read_paths env graph node) (check_source env node imported) m fl \<and>
     replays (read_paths env graph node) (lower_module env graph True node m imported) mir fl \<and>
     ComputeInterfaceHash (node_interface graph node m) = Some hash \<and>
     state_current graph node (current_state_of graph node imported t hash) fl \<and>
     fl_exists fl (art_object (node_targets graph node)) \<and> fl_exists fl (node_mci graph node) \<and>
     interface_current env graph node (node_interface graph node m) hash fl \<and>
     u = node_unit graph node m mir hash reused)"

definition node_paths :: "build_env \<Rightarrow> CompileGraph \<Rightarrow> CompileNode \<Rightarrow> path set" where
  "node_paths env graph node = read_paths env graph node \<union> set (artifact_paths graph node)"

lemma up_to_date_cong:
  assumes "up_to_date env graph node u fl"
    and "\<forall>p \<in> node_paths env graph node. fl_read fl' p = fl_read fl p \<and> fl_exists fl' p = fl_exists fl p"
  shows "up_to_date env graph node u fl'"
proof -
  have r: "\<forall>p \<in> read_paths env graph node. fl_read fl' p = fl_read fl p"
    using assms(2) by (simp add: node_paths_def)
  have a: "fl_read fl' (node_mci graph node) = fl_read fl (node_mci graph node)"
      "fl_read fl' (node_state_path graph node) = fl_read fl (node_state_path graph node)"
      "fl_exists fl' (art_object (node_targets graph node)) = fl_exists fl (art_object (node_targets graph node))"
      "fl_exists fl' (node_mci graph node) = fl_exists fl (node_mci graph node)"
    using assms(2) by (simp_all add: node_paths_def artifact_paths_def)
  show ?thesis
    using assms(1) unfolding up_to_date_def state_current_def interface_current_def a by (blast intro: replays_cong [OF _ r])
qed

lemma interface_ok_cong:
  "interface_ok env graph fl node \<Longrightarrow> fl_read fl' (node_mci graph node) = fl_read fl (node_mci graph node) \<Longrightarrow>
     interface_ok env graph fl' node"
  by (simp add: interface_ok_def)

lemma and_then_assoc: "and_then (and_then m f) g = and_then m (\<lambda>x. and_then (f x) g)"
  by (rule ext) (simp add: and_then_def split: option.split prod.split)

definition load_state :: "CompileGraph \<Rightarrow> CompileNode \<Rightarrow> ModuleBuildState option step" where
  "load_state graph node =
     with_sink (\<lambda>fl d. Some (LoadModuleBuildState (node_state_path graph node) (fl_read fl (node_state_path graph node)) d))"

definition can_reuse :: "CompileGraph \<Rightarrow> CompileNode \<Rightarrow> ModuleBuildState \<Rightarrow> ModuleBuildState option \<Rightarrow> files \<Rightarrow> bool" where
  "can_reuse graph node current previous_state fl \<longleftrightarrow>
     previous_state = Some current \<and> fl_exists fl (art_object (node_targets graph node)) \<and> fl_exists fl (node_mci graph node)"

lemma compile_node_eq:
  "compile_node env graph True node =
     and_then (LoadImportedInterfaces env node (tc_triple (cg_target_config graph)) (cg_build_dir graph)) (\<lambda>imported.
     and_then (source_text_step env node) (\<lambda>t.
     and_then (check_source env node imported) (\<lambda>m.
     and_then (returned (ComputeInterfaceHash (node_interface graph node m))) (\<lambda>hash.
     and_then (load_state graph node) (\<lambda>previous_state.
     and_then (from_files (can_reuse graph node (current_state_of graph node imported t hash) previous_state)) (\<lambda>reuse_object.
     and_then (update_interface env graph node (node_interface graph node m) hash) (\<lambda>interface_changed.
     and_then (lower_module env graph True node m imported) (\<lambda>mir.
     and_then (emit_node env graph True node (node_interface graph node m) interface_changed
       (current_state_of graph node imported t hash) reuse_object mir) (\<lambda>reused_object.
       done_with (node_unit graph node m mir hash reused_object))))))))))"
proof -
  have r: "(\<lambda>fl. True \<and> (case previous_state of None \<Rightarrow> False
         | Some previous \<Rightarrow> ShouldReuseModuleObject (fl_exists fl) previous current (art_object (node_targets graph node)) (node_mci graph node))) =
      can_reuse graph node current previous_state" for previous_state current
    by (rule ext) (auto simp: can_reuse_def ShouldReuseModuleObject_iff split: option.splits)
  show ?thesis
    unfolding compile_node_def Let_def r source_text_step_def and_then_assoc load_state_def node_interface_def node_unit_def
    by (rule refl)
qed

section \<open>The first build\<close>

lemma write_interface_done:
  assumes "writes_ok (be_host env)" "interface_text a = Some t" "write_interface env p a st = Some (Some x, st')"
  shows "same_but {p} (bt_files st) (bt_files st') \<and> fl_read (bt_files st') p = Some t \<and> fl_exists (bt_files st') p \<and>
    bt_diagnostics st' = bt_diagnostics st"
  using write_interface_eq [OF assms(1,2), of p "bt_files st" "bt_diagnostics st"] assms(3) by (cases st) auto

lemma update_interface_done:
  assumes w: "writes_ok (be_host env)" and h: "ComputeInterfaceHash a = Some hash"
    and u: "update_interface env graph node a hash st = Some (Some changed, st')"
  shows "same_but {node_mci graph node} (bt_files st) (bt_files st') \<and> fl_exists (bt_files st') (node_mci graph node) \<and>
    interface_current env graph node a hash (bt_files st') \<and> bt_diagnostics st' = bt_diagnostics st"
proof -
  obtain t where t: "interface_text a = Some t" using interface_text_of_hash [OF h] by blast
  note written = write_interface_done [OF w t, of "node_mci graph node"]
  have wr: ?thesis if "WriteModuleInterface env (cn_artifact_key node) a (cg_build_dir graph) st = Some (Some x, st')" for x
    using written [of st x st'] that by (simp add: WriteModuleInterface_def node_mci_def interface_current_def t)
  show ?thesis
  proof (cases "fl_exists (bt_files st) (node_mci graph node)")
    case False
    with u obtain x where "WriteModuleInterface env (cn_artifact_key node) a (cg_build_dir graph) st = Some (Some x, st')"
      by (auto simp: update_interface_def Let_def and_then_success)
    then show ?thesis by (rule wr)
  next
    case True
    obtain previous st1 st2 where l: "load_interface env (node_mci graph node) st = Some (Some previous, st1)"
        and v: "validate_interface env (node_mci graph node) (tc_triple (cg_target_config graph)) (cn_package_identity node) (cn_module_name node)
          (sf_module_kind (pr_source_file (cn_parse_result node))) (cn_source_path node) previous st1 = Some (Some (), st2)"
        and c: "(if ia_interface_hash previous \<noteq> hash
          then and_then (WriteModuleInterface env (cn_artifact_key node) a (cg_build_dir graph)) (\<lambda>_. done_with True)
          else done_with False) st2 = Some (Some changed, st')"
      using u True by (auto simp: update_interface_def Let_def and_then_success)
    have same: "st2 = st" using load_interface_same [OF l] validate_interface_same [OF v] by simp
    show ?thesis
    proof (cases "ia_interface_hash previous = hash")
      case True
      have "read_interface env (node_mci graph node) (bt_files st) previous"
        using l by (auto simp: load_interface_def and_then_success with_sink_success dest: LoadInterfaceArtifact_any_sink)
      with True c same \<open>fl_exists (bt_files st) (node_mci graph node)\<close> show ?thesis by (auto simp: interface_current_def)
    next
      case False
      with c same obtain x where "WriteModuleInterface env (cn_artifact_key node) a (cg_build_dir graph) st = Some (Some x, st')"
        by (auto simp: and_then_success)
      then show ?thesis by (rule wr)
    qed
  qed
qed

lemma write_missing_present:
  "fl_exists (bt_files st) (node_mci graph node) \<Longrightarrow> write_missing env graph node a written st = Some (Some (), st)"
  by (simp add: write_missing_def and_then_def from_files_def done_with_def)

definition state_of_files :: "CompileGraph \<Rightarrow> CompileNode \<Rightarrow> path set" where
  "state_of_files graph node = {node_state_path graph node, art_object (node_targets graph node), art_llvm_ir (node_targets graph node)}"

lemma emit_node_done:
  assumes w: "writes_ok (be_host env)" and r: "runs_ok (be_host env)" and d: "distinct (artifact_paths graph node)"
    and s: "state_writable current" and p: "fl_exists (bt_files st) (node_mci graph node)"
    and e: "emit_node env graph True node a changed current reuse_object mir st = Some (Some reused, st')"
    and reuse: "reuse_object \<longrightarrow> state_current graph node current (bt_files st) \<and> fl_exists (bt_files st) (art_object (node_targets graph node))"
  shows "same_but (state_of_files graph node) (bt_files st) (bt_files st') \<and> state_current graph node current (bt_files st') \<and>
    fl_exists (bt_files st') (art_object (node_targets graph node))"
proof (cases reuse_object)
  case True
  with e p have "st' = st" by (auto simp: emit_node_def and_then_success write_missing_present)
  with True reuse show ?thesis by simp
next
  case False
  let ?o = "object_options graph (node_targets graph node) (bs_wrap_hosted_main current)"
  from False e obtain st1 where b: "BuildObjectFile (be_host env) mir (cn_source_path node) ?o (bt_files st) (bt_diagnostics st) =
        (True, bt_files st1, bt_diagnostics st1)"
      and ws: "write_state env (node_state_path graph node) current st1 = Some (Some (), st')"
    by (auto simp: emit_node_def and_then_success with_host_success)
  obtain fl2 where 2: "write_state env (node_state_path graph node) current \<lparr>bt_files = bt_files st1, bt_diagnostics = bt_diagnostics st1\<rparr> =
        Some (Some (), \<lparr>bt_files = fl2, bt_diagnostics = bt_diagnostics st1\<rparr>)"
      "same_but {node_state_path graph node} (bt_files st1) fl2" "fl_read fl2 (node_state_path graph node) = Some (module_state_text current)"
    using write_state_eq [OF w] by blast
  from 2(1) ws have f: "bt_files st' = fl2" by (cases st1) auto
  have 1: "same_but {art_llvm_ir (node_targets graph node), art_object (node_targets graph node)} (bt_files st) (bt_files st1)"
      "fl_exists (bt_files st1) (art_object (node_targets graph node))"
    using BuildObjectFile_same [OF w r b] by (simp_all add: object_options_def)
  have "same_but (state_of_files graph node) (bt_files st) fl2"
    using same_but_trans [OF 1(1) 2(2)] by (rule same_but_mono) (auto simp: state_of_files_def)
  moreover have "state_current graph node current fl2"
    using LoadModuleBuildState_text [OF s] by (simp add: state_current_def 2(3))
  moreover have "fl_exists fl2 (art_object (node_targets graph node))"
    using 1(2) same_butD [OF 2(2), of "art_object (node_targets graph node)"] artifacts_differ [OF d] by simp
  ultimately show ?thesis by (simp add: f)
qed

section \<open>Names that a recorded state can hold\<close>

definition recordable :: "CompileGraph \<Rightarrow> CompileNode \<Rightarrow> bool" where
  "recordable graph node \<longleftrightarrow>
     list_all (\<lambda>t. newline_char \<notin> set t) [tc_triple (cg_target_config graph), cn_package_identity node, cg_mode graph, cg_env graph] \<and>
     list_all (\<lambda>i. newline_char \<notin> set (ci_module_name i) \<and> CHR ''='' \<notin> set (ci_module_name i)) (cn_imports node)"

lemma HexU64_no_newline: "newline_char \<notin> set (HexU64 v)"
  using HexU64_text(1) [of v] by (auto simp: plain_text_def)

lemma current_state_writable:
  assumes "recordable graph node" "LoadImportedInterfaces env node target build_dir st = Some (Some imported, st')"
    and "ComputeInterfaceHash a = Some hash"
  shows "state_writable (current_state_of graph node imported t hash)"
proof -
  have "newline_char \<notin> set hash" using assms(3) HexU64_no_newline by (auto simp: ComputeInterfaceHash_def)
  moreover have "\<forall>(n, h) \<in> set (ii_interface_hashes imported). n \<in> ci_module_name ` set (cn_imports node) \<and> h \<in> range HexU64"
    using load_node_imports_hashes [OF assms(2) [unfolded LoadImportedInterfaces_def]] by auto
  then have "\<forall>(n, h) \<in> set (ii_interface_hashes imported). newline_char \<notin> set n \<and> CHR ''='' \<notin> set n \<and> newline_char \<notin> set h"
    using assms(1) HexU64_no_newline by (fastforce simp: recordable_def list_all_iff)
  ultimately show ?thesis
    using assms(1) HexU64_no_newline
    by (simp add: state_writable_def current_state_of_def recordable_def HashText_def list_all_iff)
qed

section \<open>One module\<close>

lemma LoadImportedInterfaces_same: "LoadImportedInterfaces env node target build_dir st = Some (Some x, st') \<Longrightarrow> st' = st"
  unfolding LoadImportedInterfaces_def by (rule load_node_imports_same)

lemma check_source_quiet: "check_source env node imported st = Some (Some m, st') \<Longrightarrow> \<not> HasErrors (bt_diagnostics st)"
  by (auto simp: check_source_def and_then_success with_sink_success split: prod.splits if_splits)

lemma repeatable_imports:
  "repeatable (read_paths env graph node) (LoadImportedInterfaces env node (tc_triple (cg_target_config graph)) (cg_build_dir graph))"
  unfolding LoadImportedInterfaces_def by (rule repeatable_load_node_imports) (simp add: read_paths_def import_mcis_def)

lemma repeatable_sources: "repeatable (read_paths env graph node) (source_text_step env node)"
  by (rule repeatable_source_text) (simp add: read_paths_def)

lemma compile_node_settles:
  assumes w: "writes_ok (be_host env)" and r: "runs_ok (be_host env)" and rec: "recordable graph node"
    and d: "distinct (artifact_paths graph node)" and apart: "read_paths env graph node \<inter> set (artifact_paths graph node) = {}"
    and c: "compile_node env graph True node st = Some (Some u, st')"
  shows "up_to_date env graph node u (bt_files st') \<and> same_but (set (artifact_paths graph node)) (bt_files st) (bt_files st')"
proof -
  let ?P = "read_paths env graph node"
  obtain imported s1 t s2 m s3 hash s4 previous s5 reuse s6 changed s7 mir s8 reused s9 where
    1: "LoadImportedInterfaces env node (tc_triple (cg_target_config graph)) (cg_build_dir graph) st = Some (Some imported, s1)" and
    2: "source_text_step env node s1 = Some (Some t, s2)" and
    3: "check_source env node imported s2 = Some (Some m, s3)" and
    4: "returned (ComputeInterfaceHash (node_interface graph node m)) s3 = Some (Some hash, s4)" and
    5: "load_state graph node s4 = Some (Some previous, s5)" and
    6: "from_files (can_reuse graph node (current_state_of graph node imported t hash) previous) s5 = Some (Some reuse, s6)" and
    7: "update_interface env graph node (node_interface graph node m) hash s6 = Some (Some changed, s7)" and
    8: "lower_module env graph True node m imported s7 = Some (Some mir, s8)" and
    9: "emit_node env graph True node (node_interface graph node m) changed (current_state_of graph node imported t hash) reuse mir s8 =
      Some (Some reused, s9)" and
    10: "done_with (node_unit graph node m mir hash reused) s9 = Some (Some u, st')"
    using c unfolding compile_node_eq and_then_success by blast
  let ?a = "node_interface graph node m" and ?s = "current_state_of graph node imported t hash"
  have same: "s1 = st" "s2 = st" using LoadImportedInterfaces_same [OF 1] source_text_step_same [OF 2] by simp_all
  have quiet: "\<not> HasErrors (bt_diagnostics st)" using check_source_quiet [OF 3] by (simp add: same)
  have h: "ComputeInterfaceHash ?a = Some hash" and s4: "s4 = s3" using 4 by simp_all
  note k1 = repeatableD [OF repeatable_imports 1 quiet]
  note k2 = repeatableD [OF repeatable_sources 2 [unfolded same] quiet]
  note k3 = repeatableD [OF repeatable_check_source [of ?P] 3 [unfolded same] quiet]
  have f5: "bt_files s5 = bt_files st" "bt_files s6 = bt_files st" "s6 = s5" using 5 6 k3(1) s4 by (auto simp: load_state_def with_sink_success)
  have p5: "previous = fst (LoadModuleBuildState (node_state_path graph node) (fl_read (bt_files st) (node_state_path graph node)) (bt_diagnostics s4))"
    using 5 k3(1) s4 by (auto simp: load_state_def with_sink_success)
  have q8: "\<not> HasErrors (bt_diagnostics s7)"
    using 8 by (auto simp: lower_module_def and_then_success with_sink_success split: prod.splits if_splits)
  note k7 = update_interface_done [OF w h 7, unfolded f5]
  note k8 = repeatableD [OF repeatable_lower_module [of ?P] 8 q8]
  have sb7: "same_but {node_mci graph node} (bt_files st) (bt_files s8)" using k7 k8(1) by simp
  have reuse: "reuse \<longrightarrow> state_current graph node ?s (bt_files s8) \<and> fl_exists (bt_files s8) (art_object (node_targets graph node))"
  proof
    assume reuse
    then have c: "can_reuse graph node ?s previous (bt_files st)" using 6 f5 by simp
    then have "LoadModuleBuildState (node_state_path graph node) (fl_read (bt_files st) (node_state_path graph node)) [] = (Some ?s, [])"
      using p5 LoadModuleBuildState_any_sink [of "node_state_path graph node" _ _ ?s _ "[]"]
      by (cases "LoadModuleBuildState (node_state_path graph node) (fl_read (bt_files st) (node_state_path graph node)) (bt_diagnostics s4)")
        (auto simp: can_reuse_def)
    then show "state_current graph node ?s (bt_files s8) \<and> fl_exists (bt_files s8) (art_object (node_targets graph node))"
      using c same_butD [OF sb7, of "node_state_path graph node"] same_butD [OF sb7, of "art_object (node_targets graph node)"]
        artifacts_differ [OF d] by (simp add: state_current_def can_reuse_def)
  qed
  have "state_writable ?s" by (rule current_state_writable [OF rec 1 h])
  moreover have "fl_exists (bt_files s8) (node_mci graph node)" using k7 k8(1) by simp
  ultimately have k9: "same_but (state_of_files graph node) (bt_files s8) (bt_files st') \<and> state_current graph node ?s (bt_files st') \<and>
      fl_exists (bt_files st') (art_object (node_targets graph node))"
    using emit_node_done [OF w r d _ _ 9 reuse] 10 by simp
  have all: "same_but (set (artifact_paths graph node)) (bt_files st) (bt_files st')"
    by (rule same_but_mono [OF same_but_trans [OF sb7 conjunct1 [OF k9]]]) (auto simp: state_of_files_def artifact_paths_def)
  have mci: "node_mci graph node \<notin> ?P" using apart by (auto simp: artifact_paths_def)
  have r: "\<forall>p \<in> ?P. fl_read (bt_files st') p = fl_read (bt_files st) p"
    using same_butD [OF all] apart by blast
  have r7: "\<forall>p \<in> ?P. fl_read (bt_files st') p = fl_read (bt_files s7) p"
    using r same_butD [OF conjunct1 [OF k7]] mci by (metis singletonD)
  have m7: "fl_read (bt_files st') (node_mci graph node) = fl_read (bt_files s7) (node_mci graph node)"
      "fl_exists (bt_files st') (node_mci graph node)"
    using k7 k8(1) same_butD [OF conjunct1 [OF k9], of "node_mci graph node"] artifacts_differ [OF d] by (simp_all add: state_of_files_def)
  have "interface_current env graph node ?a hash (bt_files st')"
    using k7 unfolding interface_current_def m7 by blast
  moreover have "u = node_unit graph node m mir hash reused" using 10 by simp
  ultimately have "up_to_date env graph node u (bt_files st')"
    unfolding up_to_date_def
    using replays_cong [OF k1(3) r] replays_cong [OF k2(3) r] replays_cong [OF k3(3) r] replays_cong [OF k8(3) r7] h k9 m7 by blast
  with all show ?thesis by simp
qed

section \<open>The second build\<close>

definition unchanged :: "path set \<Rightarrow> files \<Rightarrow> files \<Rightarrow> bool" where
  \<comment> \<open>The same files with the same contents, and the same times but for those of some paths.\<close>
  "unchanged S fl fl' \<longleftrightarrow> fl_read fl' = fl_read fl \<and> fl_exists fl' = fl_exists fl \<and> (\<forall>p. p \<notin> S \<longrightarrow> fl_time fl' p = fl_time fl p)"

lemma unchanged_of_same_but:
  "same_but {p} fl fl' \<Longrightarrow> fl_read fl' p = fl_read fl p \<Longrightarrow> fl_exists fl' p = fl_exists fl p \<Longrightarrow> unchanged {p} fl fl'"
  by (auto simp: same_but_def unchanged_def fun_eq_iff)

lemmas run_steps = and_then_def option.case prod.case done_with_def

lemma load_interface_again:
  "read_interface env p fl a \<Longrightarrow>
     load_interface env p \<lparr>bt_files = fl, bt_diagnostics = d\<rparr> = Some (Some a, \<lparr>bt_files = fl, bt_diagnostics = d\<rparr>)"
  using LoadInterfaceArtifact_any_sink [of "be_vmax env" "be_fp env" "se_stream_double (be_source env)" "fl_read fl p" p "[]" a "[]" d]
  by (simp add: load_interface_def and_then_def with_sink_def some_of_def done_with_def)

lemma update_interface_again:
  assumes w: "writes_ok (be_host env)" and h: "ComputeInterfaceHash a = Some hash" and ok: "interface_ok env graph fl node"
    and c: "interface_current env graph node a hash fl" and e: "fl_exists fl (node_mci graph node)"
  shows "\<exists>changed fl'. update_interface env graph node a hash \<lparr>bt_files = fl, bt_diagnostics = d\<rparr> =
      Some (Some changed, \<lparr>bt_files = fl', bt_diagnostics = d\<rparr>) \<and> unchanged {node_mci graph node} fl fl'"
proof -
  obtain t where t: "interface_text a = Some t" using interface_text_of_hash [OF h] by blast
  let ?p = "node_mci graph node"
  obtain previous where l: "read_interface env ?p fl previous" and f: "interface_fault env graph node previous = None"
    using ok by (auto simp: interface_ok_def)
  have v: "validate_interface env ?p (tc_triple (cg_target_config graph)) (cn_package_identity node) (cn_module_name node)
      (sf_module_kind (pr_source_file (cn_parse_result node))) (cn_source_path node) previous \<lparr>bt_files = fl, bt_diagnostics = d\<rparr> =
      Some (Some (), \<lparr>bt_files = fl, bt_diagnostics = d\<rparr>)"
    using f by (simp add: validate_interface_def and_then_def with_sink_def ValidateInterfaceArtifactMetadata_def interface_fault_def
        require_def done_with_def)
  have wi: "WriteModuleInterface env (cn_artifact_key node) a (cg_build_dir graph) = write_interface env ?p a"
    by (simp add: WriteModuleInterface_def node_mci_def)
  have fe: "from_files (\<lambda>fl. fl_exists fl ?p) \<lparr>bt_files = fl, bt_diagnostics = d\<rparr> =
      Some (Some True, \<lparr>bt_files = fl, bt_diagnostics = d\<rparr>)"
    using e by (simp add: from_files_def)
  have u: "update_interface env graph node a hash \<lparr>bt_files = fl, bt_diagnostics = d\<rparr> =
      (if ia_interface_hash previous \<noteq> hash
       then and_then (write_interface env ?p a) (\<lambda>_. done_with True)
       else done_with False) \<lparr>bt_files = fl, bt_diagnostics = d\<rparr>"
    unfolding update_interface_def Let_def wi
    by (simp only: run_steps fe load_interface_again [OF l] v if_True)
  show ?thesis
  proof (cases "ia_interface_hash previous = hash")
    case True
    then show ?thesis by (auto simp: u done_with_def unchanged_def)
  next
    case False
    with c l have "fl_read fl ?p = Some t" by (auto simp: interface_current_def t)
    moreover obtain fl' where "write_interface env ?p a \<lparr>bt_files = fl, bt_diagnostics = d\<rparr> =
          Some (Some (), \<lparr>bt_files = fl', bt_diagnostics = d\<rparr>)" "same_but {?p} fl fl'" "fl_read fl' ?p = Some t" "fl_exists fl' ?p"
      using write_interface_eq [OF w t] by blast
    ultimately show ?thesis
      using False e by (auto simp: u and_then_def done_with_def intro!: unchanged_of_same_but)
  qed
qed

lemma compile_node_again:
  assumes w: "writes_ok (be_host env)" and s: "up_to_date env graph node u fl" and ok: "interface_ok env graph fl node"
    and q: "\<not> HasErrors d"
  shows "\<exists>fl' d'. compile_node env graph True node \<lparr>bt_files = fl, bt_diagnostics = d\<rparr> =
      Some (Some (u\<lparr>bu_reused_object := True\<rparr>), \<lparr>bt_files = fl', bt_diagnostics = d'\<rparr>) \<and> \<not> HasErrors d' \<and>
    unchanged {node_mci graph node} fl fl'"
proof -
  obtain imported t m mir hash reused where
    1: "replays (read_paths env graph node) (LoadImportedInterfaces env node (tc_triple (cg_target_config graph)) (cg_build_dir graph)) imported fl" and
    2: "replays (read_paths env graph node) (source_text_step env node) t fl" and
    3: "replays (read_paths env graph node) (check_source env node imported) m fl" and
    4: "replays (read_paths env graph node) (lower_module env graph True node m imported) mir fl" and
    h: "ComputeInterfaceHash (node_interface graph node m) = Some hash" and
    c: "state_current graph node (current_state_of graph node imported t hash) fl" and
    e: "fl_exists fl (art_object (node_targets graph node))" "fl_exists fl (node_mci graph node)" and
    i: "interface_current env graph node (node_interface graph node m) hash fl" and
    u: "u = node_unit graph node m mir hash reused"
    using s unfolding up_to_date_def by blast
  obtain d1 where 1: "LoadImportedInterfaces env node (tc_triple (cg_target_config graph)) (cg_build_dir graph)
      \<lparr>bt_files = fl, bt_diagnostics = d\<rparr> = Some (Some imported, \<lparr>bt_files = fl, bt_diagnostics = d1\<rparr>)" "\<not> HasErrors d1"
    using replaysD [OF 1 q] by blast
  obtain d2 where 2: "source_text_step env node \<lparr>bt_files = fl, bt_diagnostics = d1\<rparr> =
      Some (Some t, \<lparr>bt_files = fl, bt_diagnostics = d2\<rparr>)" "\<not> HasErrors d2"
    using replaysD [OF 2 1(2)] by blast
  obtain d3 where 3: "check_source env node imported \<lparr>bt_files = fl, bt_diagnostics = d2\<rparr> =
      Some (Some m, \<lparr>bt_files = fl, bt_diagnostics = d3\<rparr>)" "\<not> HasErrors d3"
    using replaysD [OF 3 2(2)] by blast
  obtain changed fl1 where 5: "update_interface env graph node (node_interface graph node m) hash \<lparr>bt_files = fl, bt_diagnostics = d3\<rparr> =
      Some (Some changed, \<lparr>bt_files = fl1, bt_diagnostics = d3\<rparr>)" "unchanged {node_mci graph node} fl fl1"
    using update_interface_again [OF w h ok i e(2)] by blast
  have "replays (read_paths env graph node) (lower_module env graph True node m imported) mir fl1"
    by (rule replays_cong [OF 4]) (use 5(2) in \<open>simp add: unchanged_def\<close>)
  from replaysD [OF this 3(2)] obtain d4 where 6: "lower_module env graph True node m imported
      \<lparr>bt_files = fl1, bt_diagnostics = d3\<rparr> = Some (Some mir, \<lparr>bt_files = fl1, bt_diagnostics = d4\<rparr>)" "\<not> HasErrors d4"
    by blast
  have l: "load_state graph node \<lparr>bt_files = fl, bt_diagnostics = d3\<rparr> =
      Some (Some (Some (current_state_of graph node imported t hash)), \<lparr>bt_files = fl, bt_diagnostics = d3\<rparr>)"
    using LoadModuleBuildState_any_sink [OF c [unfolded state_current_def]]
    by (simp add: load_state_def with_sink_def)
  have r: "from_files (can_reuse graph node (current_state_of graph node imported t hash) (Some (current_state_of graph node imported t hash)))
      \<lparr>bt_files = fl, bt_diagnostics = d3\<rparr> = Some (Some True, \<lparr>bt_files = fl, bt_diagnostics = d3\<rparr>)"
    using e by (simp add: from_files_def can_reuse_def)
  have "fl_exists (bt_files \<lparr>bt_files = fl1, bt_diagnostics = d4\<rparr>) (node_mci graph node)" using 5(2) e(2) by (simp add: unchanged_def)
  then have n: "emit_node env graph True node (node_interface graph node m) changed (current_state_of graph node imported t hash) True mir
      \<lparr>bt_files = fl1, bt_diagnostics = d4\<rparr> = Some (Some True, \<lparr>bt_files = fl1, bt_diagnostics = d4\<rparr>)"
    by (simp only: emit_node_def run_steps write_missing_present if_True if_False not_True_eq_False simp_thms)
  have rh: "returned (ComputeInterfaceHash (node_interface graph node m)) \<lparr>bt_files = fl, bt_diagnostics = d3\<rparr> =
      Some (Some hash, \<lparr>bt_files = fl, bt_diagnostics = d3\<rparr>)"
    by (simp add: h returned_def done_with_def)
  have "compile_node env graph True node \<lparr>bt_files = fl, bt_diagnostics = d\<rparr> =
      Some (Some (node_unit graph node m mir hash True), \<lparr>bt_files = fl1, bt_diagnostics = d4\<rparr>)"
    unfolding compile_node_eq
    by (simp only: run_steps 1(1) 2(1) 3(1) rh l r 5(1) 6(1) n)
  moreover have "node_unit graph node m mir hash True = u\<lparr>bu_reused_object := True\<rparr>" by (simp add: u node_unit_def)
  ultimately show ?thesis using 5(2) 6(2) by auto
qed

section \<open>The graph\<close>

primrec artifacts_apart :: "build_env \<Rightarrow> CompileGraph \<Rightarrow> CompileNode list \<Rightarrow> bool" where
  \<comment> \<open>A module has artifacts of its own, which neither it nor a module before it reads.\<close>
  "artifacts_apart env graph [] = True"
| "artifacts_apart env graph (node # rest) \<longleftrightarrow>
     distinct (artifact_paths graph node) \<and> read_paths env graph node \<inter> set (artifact_paths graph node) = {} \<and>
     (\<forall>later \<in> set rest. node_paths env graph node \<inter> set (artifact_paths graph later) = {}) \<and> artifacts_apart env graph rest"

lemma compile_nodes_settle:
  assumes w: "writes_ok (be_host env)" and r: "runs_ok (be_host env)"
  shows "compile_nodes env graph True ns st = Some (Some us, st') \<Longrightarrow> artifacts_apart env graph ns \<Longrightarrow> list_all (recordable graph) ns \<Longrightarrow>
     list_all2 (\<lambda>n u. up_to_date env graph n u (bt_files st')) ns us \<and>
     same_but (\<Union>n \<in> set ns. set (artifact_paths graph n)) (bt_files st) (bt_files st')"
proof (induction ns arbitrary: st us)
  case (Cons n ns)
  obtain u st1 vs where 1: "compile_node env graph True n st = Some (Some u, st1)"
      and 2: "compile_nodes env graph True ns st1 = Some (Some vs, st')" and us: "us = u # vs"
    using Cons.prems(1) by (auto simp: and_then_success)
  have k1: "up_to_date env graph n u (bt_files st1) \<and> same_but (set (artifact_paths graph n)) (bt_files st) (bt_files st1)"
    using Cons.prems by (intro compile_node_settles [OF w r _ _ _ 1]) simp_all
  have k2: "list_all2 (\<lambda>n u. up_to_date env graph n u (bt_files st')) ns vs \<and>
      same_but (\<Union>n \<in> set ns. set (artifact_paths graph n)) (bt_files st1) (bt_files st')"
    using Cons.prems by (intro Cons.IH [OF 2]) simp_all
  have "\<forall>p \<in> node_paths env graph n. p \<notin> (\<Union>n \<in> set ns. set (artifact_paths graph n))" using Cons.prems(2) by auto
  then have "\<forall>p \<in> node_paths env graph n.
      fl_read (bt_files st') p = fl_read (bt_files st1) p \<and> fl_exists (bt_files st') p = fl_exists (bt_files st1) p"
    using same_butD [OF conjunct2 [OF k2]] by blast
  then have "up_to_date env graph n u (bt_files st')" by (rule up_to_date_cong [OF conjunct1 [OF k1]])
  then show ?case
    using k1 k2 same_but_trans [OF conjunct2 [OF k1] conjunct2 [OF k2]] by (simp add: us)
qed simp

lemma unchanged_trans: "unchanged S fl fl1 \<Longrightarrow> unchanged T fl1 fl2 \<Longrightarrow> unchanged (S \<union> T) fl fl2"
  by (simp add: unchanged_def)

lemma compile_nodes_again:
  assumes w: "writes_ok (be_host env)"
  shows "list_all2 (\<lambda>n u. up_to_date env graph n u fl) ns us \<Longrightarrow> list_all (interface_ok env graph fl) ns \<Longrightarrow> \<not> HasErrors d \<Longrightarrow>
     \<exists>fl' d'. compile_nodes env graph True ns \<lparr>bt_files = fl, bt_diagnostics = d\<rparr> =
       Some (Some (map (\<lambda>u. u\<lparr>bu_reused_object := True\<rparr>) us), \<lparr>bt_files = fl', bt_diagnostics = d'\<rparr>) \<and> \<not> HasErrors d' \<and>
       unchanged (node_mci graph ` set ns) fl fl'"
proof (induction ns arbitrary: us fl d)
  case Nil
  then show ?case by (simp add: done_with_def unchanged_def)
next
  case (Cons n ns)
  obtain u vs where us: "us = u # vs" "up_to_date env graph n u fl" "list_all2 (\<lambda>n u. up_to_date env graph n u fl) ns vs"
    using Cons.prems(1) by (auto simp: list_all2_Cons1)
  have "interface_ok env graph fl n" using Cons.prems(2) by simp
  then obtain fl1 d1 where 1: "compile_node env graph True n \<lparr>bt_files = fl, bt_diagnostics = d\<rparr> =
        Some (Some (u\<lparr>bu_reused_object := True\<rparr>), \<lparr>bt_files = fl1, bt_diagnostics = d1\<rparr>)" "\<not> HasErrors d1"
      "unchanged {node_mci graph n} fl fl1"
    using compile_node_again [OF w us(2) _ Cons.prems(3)] by blast
  have "list_all2 (\<lambda>n u. up_to_date env graph n u fl1) ns vs"
    using us(3) by (rule list_all2_mono) (auto intro: up_to_date_cong simp: 1(3) [unfolded unchanged_def])
  moreover have "list_all (interface_ok env graph fl1) ns"
    using Cons.prems(2) 1(3) by (auto simp: list_all_iff unchanged_def intro: interface_ok_cong)
  ultimately obtain fl2 d2 where 2: "compile_nodes env graph True ns \<lparr>bt_files = fl1, bt_diagnostics = d1\<rparr> =
        Some (Some (map (\<lambda>u. u\<lparr>bu_reused_object := True\<rparr>) vs), \<lparr>bt_files = fl2, bt_diagnostics = d2\<rparr>)" "\<not> HasErrors d2"
      "unchanged (node_mci graph ` set ns) fl1 fl2"
    using Cons.IH 1(2) by blast
  show ?case
  proof (intro exI conjI)
    show "compile_nodes env graph True (n # ns) \<lparr>bt_files = fl, bt_diagnostics = d\<rparr> =
        Some (Some (map (\<lambda>u. u\<lparr>bu_reused_object := True\<rparr>) us), \<lparr>bt_files = fl2, bt_diagnostics = d2\<rparr>)"
      by (simp only: us(1) compile_nodes.simps run_steps 1(1) 2(1) list.map)
    show "unchanged (node_mci graph ` set (n # ns)) fl fl2" using unchanged_trans [OF 1(3) 2(3)] by simp
  qed (rule 2(2))
qed

lemma CompileModuleGraph_again:
  assumes "writes_ok (be_host env)" "runs_ok (be_host env)" "artifacts_apart env graph (cg_nodes graph)"
    and "list_all (recordable graph) (cg_nodes graph)"
    and first: "CompileModuleGraph env graph True st = Some (Some us, st')"
    and "list_all (interface_ok env graph (bt_files st')) (cg_nodes graph)" "\<not> HasErrors d"
  shows "\<exists>fl d'. CompileModuleGraph env graph True \<lparr>bt_files = bt_files st', bt_diagnostics = d\<rparr> =
      Some (Some (map (\<lambda>u. u\<lparr>bu_reused_object := True\<rparr>) us), \<lparr>bt_files = fl, bt_diagnostics = d'\<rparr>) \<and> \<not> HasErrors d' \<and>
    unchanged (node_mci graph ` set (cg_nodes graph)) (bt_files st') fl"
proof -
  have a: "AssertCompileGraphTopologicalOrder graph" using first by (auto simp: CompileModuleGraph_def split: if_splits)
  have c: "compile_nodes env graph True (cg_nodes graph) st = Some (Some us, st')" using first a by (simp add: CompileModuleGraph_def)
  show ?thesis
    using compile_nodes_again [OF assms(1) conjunct1 [OF compile_nodes_settle [OF assms(1,2) c assms(3,4)]] assms(6,7)]
    by (simp add: CompileModuleGraph_def a)
qed

end
