(* ===== verification/MC_BuilderFaults.thy ===== *)
theory MC_BuilderFaults
  imports MC_BuilderSpec
begin

text \<open>
  Two things that builds do and are not meant to do. An interface that has not changed is written again: a change of
  one byte always changes the hash, so the hash of an interface with the format version that a new
  \<open>InterfaceArtifact\<close> has is never the one that is written. And a recorded state that cannot be read ends the
  build, because its report is an error that the later passes find in the sink.
\<close>

section \<open>The hash of a text\<close>

lemma hash_step_inject_hash: "hash_step h b = hash_step h' b \<longleftrightarrow> h = h'"
proof
  assume e: "hash_step h b = hash_step h' b"
  have inv: "(1099511628211 :: uint64) * 14886173955864302971 = 1" by simp
  have "(h XOR of_nat (char_code b)) * 1099511628211 * 14886173955864302971 =
      (h' XOR of_nat (char_code b)) * 1099511628211 * (14886173955864302971 :: uint64)"
    using e by simp
  then have "h XOR of_nat (char_code b) = h' XOR of_nat (char_code b)"
    by (simp only: mult.assoc inv mult_1_right)
  then have "(h XOR of_nat (char_code b)) XOR of_nat (char_code b) = (h' XOR of_nat (char_code b)) XOR of_nat (char_code b)" by simp
  then show "h = h'" by (simp only: xor.assoc xor_self_eq xor.right_neutral)
qed simp

lemma hash_step_inject_byte: "hash_step h b = hash_step h b' \<longleftrightarrow> b = b'"
proof
  assume e: "hash_step h b = hash_step h b'"
  have inv: "(1099511628211 :: uint64) * 14886173955864302971 = 1" by simp
  have "(h XOR of_nat (char_code b)) * 1099511628211 * 14886173955864302971 =
      (h XOR of_nat (char_code b')) * 1099511628211 * (14886173955864302971 :: uint64)"
    using e by simp
  then have "h XOR of_nat (char_code b) = h XOR of_nat (char_code b')"
    by (simp only: mult.assoc inv mult_1_right)
  then have "h XOR (h XOR of_nat (char_code b)) = h XOR (h XOR of_nat (char_code b'))" by simp
  then have "(of_nat (char_code b) :: uint64) = of_nat (char_code b')"
    by (simp only: xor.assoc [symmetric] xor_self_eq xor.left_neutral)
  then have "unat (of_nat (char_code b) :: uint64) = unat (of_nat (char_code b') :: uint64)" by simp
  moreover have "char_code c < 2 ^ 64" for c
    unfolding char_code_def by (rule less_trans [OF nat_of_char_less_256]) simp
  ultimately have "char_code b = char_code b'"
    by (simp add: unsigned_of_nat take_bit_nat_eq_self)
  then show "b = b'" by (simp add: char_code_def)
qed simp

lemma foldl_hash_inject: "foldl hash_step h s = foldl hash_step h' s \<longleftrightarrow> h = h'"
  by (induction s arbitrary: h h') (simp_all add: hash_step_inject_hash del: hash_step.simps)

lemma hash_one_byte: "b \<noteq> b' \<Longrightarrow> foldl hash_step h (pre @ b # rest) \<noteq> foldl hash_step h (pre @ b' # rest)"
  by (simp add: foldl_hash_inject hash_step_inject_byte del: hash_step.simps)

section \<open>Its digits\<close>

lemma HexU64_loop_nth: "n \<le> i \<Longrightarrow> HexU64_loop n v t ! i = t ! i"
  by (induction n arbitrary: v t) simp_all

lemma HexU64_loop_inject:
  "n \<le> length t \<Longrightarrow> HexU64_loop n v t = HexU64_loop n w t \<Longrightarrow> take_bit (4 * n) v = take_bit (4 * n) w"
proof (induction n arbitrary: v w t)
  case (Suc n)
  let ?d = "\<lambda>v. hex_digit (v AND 0xF)"
  have "HexU64_loop n (drop_bit 4 v) (t[n := ?d v]) ! n = HexU64_loop n (drop_bit 4 w) (t[n := ?d w]) ! n"
    using Suc.prems(2) by simp
  then have d: "?d v = ?d w" using Suc.prems(1) by (simp add: HexU64_loop_nth)
  have small: "unat (x AND 0xF :: uint64) < 16" for x
  proof -
    have "x AND 0xF \<le> 0xF" by (rule word_and_le1)
    then show ?thesis by (simp add: word_le_nat_alt)
  qed
  have "distinct ''0123456789abcdef''" "length ''0123456789abcdef'' = 16" by simp_all
  then have "unat (v AND 0xF) = unat (w AND 0xF)"
    using d small [of v] small [of w] unfolding hex_digit_def by (metis nth_eq_iff_index_eq)
  then have low: "v AND 0xF = w AND 0xF" by (rule word_unat_eq_iff [THEN iffD2])
  have "take_bit (4 * n) (drop_bit 4 v) = take_bit (4 * n) (drop_bit 4 w)"
    using Suc.prems by (intro Suc.IH [of "t[n := ?d v]"]) (simp_all add: d)
  then have high: "bit (drop_bit 4 v) k = bit (drop_bit 4 w) k" if "k < 4 * n" for k
    using that by (metis bit_take_bit_iff)
  show ?case
  proof (rule bit_eqI)
    fix k
    assume "possible_bit TYPE(64 word) k"
    have "take_bit 4 v = take_bit 4 w" using low by (simp add: take_bit_eq_mask mask_eq_exp_minus_1)
    then have l: "k < 4 \<Longrightarrow> bit v k = bit w k" by (metis bit_take_bit_iff)
    have h: "4 \<le> k \<Longrightarrow> k < 4 * Suc n \<Longrightarrow> bit v k = bit w k"
      using high [of "k - 4"] by (simp add: bit_drop_bit_eq)
    show "bit (take_bit (4 * Suc n) v) k = bit (take_bit (4 * Suc n) w) k"
      using l h by (cases "k < 4") (auto simp: bit_take_bit_iff)
  qed
qed simp

lemma HexU64_inject: "HexU64 v = HexU64 w \<longleftrightarrow> v = w"
  using HexU64_loop_inject [of 16 "replicate 16 (CHR ''0'')" v w] take_bit_word_eq_self [of 64 v] take_bit_word_eq_self [of 64 w]
  by (auto simp: HexU64_def)

section \<open>The hash of an interface\<close>

lemma interface_hash_of_version:
  assumes "ComputeInterfaceHash (a\<lparr>ia_format_version := 6\<rparr>) = Some h" "ComputeInterfaceHash (a\<lparr>ia_format_version := 7\<rparr>) = Some h'"
  shows "h \<noteq> h'"
proof -
  obtain rs where r: "artifact_records (a\<lparr>ia_format_version := v\<rparr>) = Some ([''format'', string_of_int v] # rs)" for v
    using assms(1)
    by (auto simp: ComputeInterfaceHash_def SerializeArtifactWithoutHash_def artifact_records_def header_records_def
        split: Option.bind_splits)
  have s: "string_of_int 6 = ''6''" "string_of_int 7 = ''7''" by code_simp+
  let ?rest = "newline_char # concat (map record_line rs)"
  have "h = HexU64 (foldl hash_step 1469598103934665603 (''format'' @ tab_char # CHR ''6'' # ?rest))"
      "h' = HexU64 (foldl hash_step 1469598103934665603 (''format'' @ tab_char # CHR ''7'' # ?rest))"
    using assms by (simp_all add: ComputeInterfaceHash_def SerializeArtifactWithoutHash_def r s record_line_def del: hash_step.simps foldl.simps)
  then show ?thesis
    using hash_one_byte [of "CHR ''6''" "CHR ''7''" _ "''format'' @ [tab_char]" ?rest] by (simp add: HexU64_inject del: hash_step.simps foldl.simps)
qed

lemma update_interface_changes:
  assumes w: "artifact_writable (be_vmax env) (se_stream_double (be_source env)) (node_interface graph node m)"
    and t: "interface_text (node_interface graph node m) = Some contents" "length contents < 2 ^ 64"
    and h: "ComputeInterfaceHash (node_interface graph node m) = Some hash"
    and f: "fl_read (bt_files st) (node_mci graph node) = Some contents" "fl_exists (bt_files st) (node_mci graph node)"
    and u: "update_interface env graph node (node_interface graph node m) hash st = Some (Some changed, st')"
  shows changed
proof -
  let ?a = "node_interface graph node m"
  have "WriteInterfaceArtifact True True [] ?a [] = Some (Some contents, True, [])"
    using WriteInterfaceArtifact_text [of True "[]" ?a "[]"] t(1) by simp
  from LoadInterfaceArtifact_written [OF w t(2) this, of "be_fp env" "node_mci graph node" "[]"] obtain h7 where
    7: "ComputeInterfaceHash (?a\<lparr>ia_format_version := kFormatVersion\<rparr>) = Some h7" and
    l: "read_interface env (node_mci graph node) (bt_files st) (reread_artifact (be_fp env) (se_stream_double (be_source env)) h7 ?a)"
    unfolding f by blast
  have "?a = ?a\<lparr>ia_format_version := 6\<rparr>"
    by (simp add: node_interface_def MakeModuleInterfaceArtifact_def new_InterfaceArtifact_def)
  then have "hash \<noteq> h7" using interface_hash_of_version [of ?a hash h7] h 7 by (simp add: kFormatVersion_def)
  moreover obtain previous st1 st2 where p: "load_interface env (node_mci graph node) st = Some (Some previous, st1)"
      and c: "(if ia_interface_hash previous \<noteq> hash
          then and_then (WriteModuleInterface env (cn_artifact_key node) ?a (cg_build_dir graph)) (\<lambda>_. done_with True)
          else done_with False) st2 = Some (Some changed, st')"
    using u f(2) by (auto simp: update_interface_def Let_def and_then_success)
  moreover have "previous = reread_artifact (be_fp env) (se_stream_double (be_source env)) h7 ?a"
    using load_interface_again [OF l, of "bt_diagnostics st"] p by (cases st) simp
  ultimately show ?thesis by (auto simp: reread_artifact_def and_then_success)
qed

section \<open>A recorded state that cannot be read\<close>

abbreviation after :: "'a list \<Rightarrow> 'b \<times> 'c \<times> 'a list \<Rightarrow> 'b \<times> 'c \<times> 'a list" where
  "after d \<equiv> apsnd (apsnd ((@) d))"

lemma read_state_line_after: "read_state_line p key (ls, d) = after d (read_state_line p key (ls, []))"
  by (cases ls) (simp_all add: entry_fault_def state_error_def Report_def split: option.split)

lemma read_state_lines_after: "read_state_lines p keys (ls, d) = after d (read_state_lines p keys (ls, []))"
proof (induction keys arbitrary: ls d)
  case (Cons key keys)
  obtain v ls1 d1 where "read_state_line p key (ls, []) = (v, ls1, d1)" by (cases "read_state_line p key (ls, [])") auto
  moreover obtain vs ls2 d2 where "read_state_lines p keys (ls1, []) = (vs, ls2, d2)" by (cases "read_state_lines p keys (ls1, [])") auto
  ultimately show ?case
    using read_state_line_after [of p key ls d] Cons.IH [of ls1 "d @ d1"] Cons.IH [of ls1 d1] by simp
qed simp

lemma load_import_hashes_after: "load_import_hashes p ls d = apsnd ((@) d) (load_import_hashes p ls [])"
proof (induction ls arbitrary: d)
  case (Cons l ls)
  then show ?case
    by (cases "load_import_hashes p ls []") (simp add: Cons.IH [of d] entry_fault_def state_error_def Report_def split: option.split)
qed simp

lemma LoadModuleBuildState_after: "LoadModuleBuildState p content d = apsnd ((@) d) (LoadModuleBuildState p content [])"
proof (cases content)
  case (Some t)
  obtain f ls1 d1 where 1: "read_state_line p ''format'' (getlines newline_char t, []) = (f, ls1, d1)"
    by (cases "read_state_line p ''format'' (getlines newline_char t, [])") auto
  obtain vs ls2 d2 where 2: "read_state_lines p kStateKeys (ls1, []) = (vs, ls2, d2)"
    by (cases "read_state_lines p kStateKeys (ls1, [])") auto
  obtain hs d3 where 3: "load_import_hashes p ls2 [] = (hs, d3)" by (cases "load_import_hashes p ls2 []")
  have a: "read_state_line p ''format'' (getlines newline_char t, d) = (f, ls1, d @ d1)"
    using read_state_line_after [of p "''format''" "getlines newline_char t" d] 1 by simp
  have b: "read_state_lines p kStateKeys (ls1, x) = (vs, ls2, x @ d2)" for x
    using read_state_lines_after [of p kStateKeys ls1 x] 2 by simp
  have c: "load_import_hashes p ls2 x = (hs, x @ d3)" for x
    using load_import_hashes_after [of p ls2 x] 3 by simp
  show ?thesis
    by (simp add: LoadModuleBuildState_def Some 1 a b c entry_fault_def state_error_def Report_def split: option.split)
qed (simp add: LoadModuleBuildState_def)

lemma write_interface_quiet: "write_interface env p a st = Some (Some x, st') \<Longrightarrow> bt_diagnostics st' = bt_diagnostics st"
  by (auto simp: write_interface_def WriteInterfaceArtifact_def Let_def split: option.splits prod.splits if_splits Option.bind_splits)

lemma update_interface_quiet:
  "update_interface env graph node a hash st = Some (Some changed, st') \<Longrightarrow> bt_diagnostics st' = bt_diagnostics st"
  unfolding update_interface_def Let_def and_then_success
  by (elim exE conjE) (auto simp: and_then_success WriteModuleInterface_def split: if_splits
      dest!: load_interface_same validate_interface_same write_interface_quiet)

lemma compile_node_malformed:
  assumes "LoadModuleBuildState (node_state_path graph node) (fl_read (bt_files st) (node_state_path graph node)) [] = (r, reports)"
    and "HasErrors reports"
  shows "compile_node env graph True node st \<noteq> Some (Some u, st')"
proof
  assume c: "compile_node env graph True node st = Some (Some u, st')"
  obtain imported s1 t s2 m s3 hash s4 previous s5 reuse s6 changed s7 mir s8 where
    1: "LoadImportedInterfaces env node (tc_triple (cg_target_config graph)) (cg_build_dir graph) st = Some (Some imported, s1)" and
    2: "source_text_step env node s1 = Some (Some t, s2)" and
    3: "check_source env node imported s2 = Some (Some m, s3)" and
    4: "returned (ComputeInterfaceHash (node_interface graph node m)) s3 = Some (Some hash, s4)" and
    5: "load_state graph node s4 = Some (Some previous, s5)" and
    6: "from_files (can_reuse graph node (current_state_of graph node imported t hash) previous) s5 = Some (Some reuse, s6)" and
    7: "update_interface env graph node (node_interface graph node m) hash s6 = Some (Some changed, s7)" and
    8: "lower_module env graph True node m imported s7 = Some (Some mir, s8)"
    using c unfolding compile_node_eq and_then_success by blast
  have "s2 = st" using LoadImportedInterfaces_same [OF 1] source_text_step_same [OF 2] by simp
  then have "bt_files s4 = bt_files st"
    using 3 4 by (auto simp: check_source_def and_then_success with_sink_success)
  then have "HasErrors (bt_diagnostics s5)"
    using 5 assms LoadModuleBuildState_after [of "node_state_path graph node" "fl_read (bt_files st) (node_state_path graph node)" "bt_diagnostics s4"]
    by (auto simp: load_state_def with_sink_success)
  then have "HasErrors (bt_diagnostics s7)" using 6 update_interface_quiet [OF 7] by simp
  then show False
    using 8 by (auto simp: lower_module_def and_then_success with_sink_success split: prod.splits if_splits)
qed

end
