(* ===== verification/MC_BuilderExample.thy ===== *)
theory MC_BuilderExample
  imports MC_BuilderFaults
begin

text \<open>
  A build of one module without imports, on a disk that takes every text and with tools that make their output. Its
  first run is computed, and what it leaves behind is shown to be as the theorems on builds demand.
\<close>

section \<open>The module\<close>

definition one_target :: TargetConfig where
  "one_target = \<lparr>tc_triple = ''t'', tc_target_family = ''f'', tc_object_format = ''o'', tc_host_tool_prefix = [], tc_hosted = True\<rparr>"

definition one_host :: host_env where
  \<comment> \<open>A disk that takes every text, and tools that make the file they are to make.\<close>
  "one_host = \<lparr>he_config = one_target, he_write = \<lambda>p contents fl. Some (contents, 0, True),
     he_run = \<lambda>args fl. (0, [], fl\<lparr>fl_exists := (fl_exists fl)(last args := True)\<rparr>),
     he_specialize = \<lambda>m p. (Some m, []), he_render = \<lambda>m target p wrap. (Some ''ir'', [])\<rparr>"

definition one_builder :: "double_ops \<Rightarrow> build_env" where
  "one_builder fp = \<lparr>
     be_source = \<lparr>se_driver = \<lparr>de_fs = \<lparr>fs_absolute_normal = \<lambda>p. p, fs_lexically_normal = \<lambda>p. p, fs_exists = \<lambda>_. False\<rparr>,
       de_visit = \<lambda>ks. ks, de_config = one_target\<rparr>, se_read = \<lambda>_. None, se_stream_double = \<lambda>_. None\<rparr>,
     be_host = one_host, be_vmax = 10, be_fp = fp, be_fuel = 5,
     be_check = \<lambda>f p options. (empty_module\<lparr>mod_package_identity := ''app''\<rparr>, []),
     be_lower = \<lambda>f m p imported. (empty_mir_module, [])\<rparr>"

definition one_file :: SourceFile where
  "one_file = \<lparr>sf_span = kDefaultSourceSpan, sf_module_kind = kOrdinary, sf_imports = [], sf_decls = []\<rparr>"

definition one_node :: CompileNode where
  "one_node = \<lparr>cn_module_name = ''a'', cn_artifact_key = ''a'', cn_package_identity = ''app'', cn_source_path = ''a.mc'',
     cn_source_paths = [''a.mc''], cn_parse_result = \<lparr>pr_source_file = one_file, pr_ok = True\<rparr>, cn_imports = []\<rparr>"

definition one_graph :: CompileGraph where
  "one_graph = \<lparr>cg_entry_source_path = ''a.mc'', cg_import_roots = [], cg_build_dir = ''b'', cg_mode = ''debug'', cg_env = ''hosted'',
     cg_wrap_entry_main = True, cg_namespace_entry_module = False, cg_target_config = one_target, cg_nodes = [one_node]\<rparr>"

definition one_disk :: files where
  "one_disk = \<lparr>fl_read = (\<lambda>_. None)(''a.mc'' := Some ''x''), fl_exists = \<lambda>p. p = ''a.mc'', fl_is_directory = \<lambda>_. False, fl_time = \<lambda>_. 0\<rparr>"

lemma one_host_ok: "writes_ok one_host" "runs_ok one_host"
  by (simp_all add: writes_ok_def runs_ok_def one_host_def same_but_def)

lemma one_apart: "artifacts_apart (one_builder fp) one_graph (cg_nodes one_graph)"
  by code_simp

lemma one_recordable: "list_all (recordable one_graph) (cg_nodes one_graph)"
  by code_simp

abbreviation one_module :: Module where
  "one_module \<equiv> empty_module\<lparr>mod_package_identity := ''app''\<rparr>"

lemma one_writable: "artifact_writable 10 (\<lambda>_. None) (node_interface one_graph one_node one_module)"
  by (simp add: artifact_writable_def node_interface_def MakeModuleInterfaceArtifact_def BuildImportVisibleModuleSurface_def
      one_node_def one_file_def new_InterfaceArtifact_def empty_module_def BuildModuleLookupMaps_def)

abbreviation one_interface :: InterfaceArtifact where
  "one_interface \<equiv> node_interface one_graph one_node one_module"

section \<open>Its first build\<close>

lemma one_text: "\<exists>t. interface_text one_interface = Some t \<and> length t < 2 ^ 64"
proof -
  have "(case artifact_records (one_interface\<lparr>ia_format_version := kFormatVersion\<rparr>) of
      Some rs \<Rightarrow> length (concat (map record_line rs)) < 400 | None \<Rightarrow> False)" by code_simp
  then obtain t where "WriteInterfaceArtifact True True [] one_interface [] = Some (Some t, True, [])" "length t < 2 ^ 64"
    using Write_length [of one_interface _ True "[]" "[]"] by (fastforce split: option.splits)
  then show ?thesis by (simp add: interface_text_def)
qed

lemma one_hash: "\<exists>h. ComputeInterfaceHash one_interface = Some h"
proof -
  have "(case artifact_records one_interface of Some rs \<Rightarrow> True | None \<Rightarrow> False)" by code_simp
  then show ?thesis by (auto simp: ComputeInterfaceHash_def SerializeArtifactWithoutHash_def split: option.splits)
qed

lemma one_paths:
  "node_mci one_graph one_node \<noteq> ''a.mc''" "node_state_path one_graph one_node \<noteq> ''a.mc''"
  "distinct (artifact_paths one_graph one_node)"
  by code_simp+

lemma one_source: "\<exists>t. source_text_step (one_builder fp) one_node \<lparr>bt_files = one_disk, bt_diagnostics = []\<rparr> =
    Some (Some t, \<lparr>bt_files = one_disk, bt_diagnostics = []\<rparr>)"
proof -
  have "CanonicalizeModuleSourcePaths (se_fs (source_at (one_builder fp) one_disk)) [''a.mc''] = [''a.mc'']" by code_simp
  then show ?thesis
    by (simp add: source_text_step_def and_then_def with_sink_def some_of_def done_with_def ReadLogicalModuleSourceText_def
      ReadSourceText_def source_at_def one_disk_def one_node_def Let_def)
qed

lemma be_host_one: "be_host (one_builder fp) = one_host"
  by (simp add: one_builder_def)

lemma config_one: "cg_target_config one_graph = one_target"
  by (simp add: one_graph_def)

lemma one_object_built:
  "ob_target options = one_target \<Longrightarrow> \<exists>fl'. BuildObjectFile one_host m p options fl [] = (True, fl', [])"
  by (simp add: BuildObjectFile_def emit_object_def one_host_def ValidateBootstrapTarget_def IsBootstrapTarget_def write_file_def
      RunHostCommand_def RunCapturedHostCommand_def BuildHostToolCommand_def)

lemma one_first:
  "\<exists>u fl. compile_node (one_builder fp) one_graph True one_node \<lparr>bt_files = one_disk, bt_diagnostics = []\<rparr> =
      Some (Some u, \<lparr>bt_files = fl, bt_diagnostics = []\<rparr>) \<and> fl_read fl (node_mci one_graph one_node) = interface_text one_interface"
proof -
  let ?env = "one_builder fp" and ?d = "one_disk"
  obtain contents where c: "interface_text one_interface = Some contents" using one_text by blast
  obtain hash where h: "ComputeInterfaceHash one_interface = Some hash" using one_hash by blast
  obtain t where 2: "source_text_step ?env one_node \<lparr>bt_files = ?d, bt_diagnostics = []\<rparr> =
    Some (Some t, \<lparr>bt_files = ?d, bt_diagnostics = []\<rparr>)" using one_source by blast
  have 1: "LoadImportedInterfaces ?env one_node (tc_triple (cg_target_config one_graph)) (cg_build_dir one_graph)
      \<lparr>bt_files = ?d, bt_diagnostics = []\<rparr> = Some (Some \<lparr>ii_modules = [], ii_interface_hashes = []\<rparr>, \<lparr>bt_files = ?d, bt_diagnostics = []\<rparr>)"
    by (simp add: LoadImportedInterfaces_def one_node_def done_with_def)
  have 3: "check_source ?env one_node \<lparr>ii_modules = [], ii_interface_hashes = []\<rparr> \<lparr>bt_files = ?d, bt_diagnostics = []\<rparr> =
      Some (Some one_module, \<lparr>bt_files = ?d, bt_diagnostics = []\<rparr>)"
    by (simp add: check_source_def and_then_def with_sink_def some_of_def done_with_def one_builder_def)
  have 4: "returned (ComputeInterfaceHash one_interface) \<lparr>bt_files = ?d, bt_diagnostics = []\<rparr> = Some (Some hash, \<lparr>bt_files = ?d, bt_diagnostics = []\<rparr>)"
    by (simp add: h returned_def done_with_def)
  have 5: "load_state one_graph one_node \<lparr>bt_files = ?d, bt_diagnostics = []\<rparr> = Some (Some None, \<lparr>bt_files = ?d, bt_diagnostics = []\<rparr>)"
    using one_paths(2) by (simp add: load_state_def with_sink_def LoadModuleBuildState_def one_disk_def)
  have 6: "from_files (can_reuse one_graph one_node s None) \<lparr>bt_files = ?d, bt_diagnostics = []\<rparr> =
      Some (Some False, \<lparr>bt_files = ?d, bt_diagnostics = []\<rparr>)" for s
    by (simp add: from_files_def can_reuse_def)
  have w: "writes_ok (be_host ?env)" by (simp add: one_builder_def one_host_ok)
  obtain fl1 where w1: "write_interface ?env (node_mci one_graph one_node) one_interface \<lparr>bt_files = ?d, bt_diagnostics = []\<rparr> =
        Some (Some (), \<lparr>bt_files = fl1, bt_diagnostics = []\<rparr>)"
      "fl_read fl1 (node_mci one_graph one_node) = Some contents" "fl_exists fl1 (node_mci one_graph one_node)"
    using write_interface_eq [OF w c] by blast
  have "from_files (\<lambda>fl. fl_exists fl (node_mci one_graph one_node)) \<lparr>bt_files = ?d, bt_diagnostics = []\<rparr> =
      Some (Some False, \<lparr>bt_files = ?d, bt_diagnostics = []\<rparr>)"
    using one_paths(1) by (simp add: from_files_def one_disk_def)
  then have 7: "update_interface ?env one_graph one_node one_interface hash \<lparr>bt_files = ?d, bt_diagnostics = []\<rparr> =
      Some (Some True, \<lparr>bt_files = fl1, bt_diagnostics = []\<rparr>)"
    unfolding update_interface_def Let_def WriteModuleInterface_def node_mci_def [symmetric]
    by (simp only: run_steps w1(1) if_False if_True)
  have v: "ValidateModule 5 empty_mir_module ''a.mc'' [] = Some (True, [])" by code_simp
  have 8: "lower_module ?env one_graph True one_node one_module \<lparr>ii_modules = [], ii_interface_hashes = []\<rparr>
      \<lparr>bt_files = fl1, bt_diagnostics = []\<rparr> = Some (Some empty_mir_module, \<lparr>bt_files = fl1, bt_diagnostics = []\<rparr>)"
    using v by (simp add: lower_module_def and_then_def with_sink_def some_of_def done_with_def returned_def require_def one_builder_def
        one_node_def one_graph_def)
  let ?s = "current_state_of one_graph one_node \<lparr>ii_modules = [], ii_interface_hashes = []\<rparr> t hash"
  let ?o = "object_options one_graph (node_targets one_graph one_node) (bs_wrap_hosted_main ?s)"
  obtain fl2 where b: "BuildObjectFile (be_host ?env) empty_mir_module (cn_source_path one_node) ?o fl1 [] = (True, fl2, [])"
    using one_object_built [of ?o empty_mir_module "cn_source_path one_node" fl1] by (auto simp: be_host_one object_options_def config_one)
  have r: "runs_ok (be_host ?env)" by (simp add: one_builder_def one_host_ok)
  note same2 = BuildObjectFile_same [OF w r b, THEN conjunct1]
  obtain fl3 where w3: "write_state ?env (node_state_path one_graph one_node) ?s \<lparr>bt_files = fl2, bt_diagnostics = []\<rparr> =
        Some (Some (), \<lparr>bt_files = fl3, bt_diagnostics = []\<rparr>)" "same_but {node_state_path one_graph one_node} fl2 fl3"
    using write_state_eq [OF w] by blast
  have 9: "emit_node ?env one_graph True one_node one_interface True ?s False empty_mir_module \<lparr>bt_files = fl1, bt_diagnostics = []\<rparr> =
      Some (Some False, \<lparr>bt_files = fl3, bt_diagnostics = []\<rparr>)"
    using w3(1) by (simp add: emit_node_def and_then_def with_host_def b require_def done_with_def)
  have "fl_read fl3 (node_mci one_graph one_node) = Some contents"
    using same_butD [OF same2] same_butD [OF w3(2)] w1(2) artifacts_differ [OF one_paths(3)]
    by (simp add: object_options_def)
  moreover have "compile_node ?env one_graph True one_node \<lparr>bt_files = ?d, bt_diagnostics = []\<rparr> =
      Some (Some (node_unit one_graph one_node one_module empty_mir_module hash False), \<lparr>bt_files = fl3, bt_diagnostics = []\<rparr>)"
    unfolding compile_node_eq by (simp only: run_steps 1 2 3 4 5 6 7 8 9)
  ultimately show ?thesis by (auto simp: c)
qed

lemma one_interface_ok:
  assumes "fl_read fl (node_mci one_graph one_node) = interface_text one_interface"
  shows "interface_ok (one_builder fp) one_graph fl one_node"
proof -
  obtain contents where c: "interface_text one_interface = Some contents" "length contents < 2 ^ 64" using one_text by blast
  have "WriteInterfaceArtifact True True [] one_interface [] = Some (Some contents, True, [])"
    using WriteInterfaceArtifact_text [of True "[]" one_interface "[]"] c(1) by simp
  from LoadInterfaceArtifact_written [OF one_writable c(2) this, of fp "node_mci one_graph one_node" "[]"] obtain h where
    "read_interface (one_builder fp) (node_mci one_graph one_node) fl (reread_artifact fp (\<lambda>_. None) h one_interface)"
    by (auto simp: assms c(1) one_builder_def)
  moreover have "interface_fault (one_builder fp) one_graph one_node (reread_artifact fp (\<lambda>_. None) h one_interface) = None"
    by (simp add: interface_fault_def metadata_fault_def reread_artifact_def node_interface_def MakeModuleInterfaceArtifact_def
      new_InterfaceArtifact_def one_builder_def one_graph_def one_node_def one_target_def empty_module_def)
  ultimately show ?thesis unfolding interface_ok_def by blast
qed

abbreviation clean :: "files \<Rightarrow> build_state" where
  "clean fl \<equiv> \<lparr>bt_files = fl, bt_diagnostics = []\<rparr>"

lemma one_graph_first:
  "\<exists>u fl. CompileModuleGraph (one_builder fp) one_graph True (clean one_disk) = Some (Some [u], clean fl) \<and>
     fl_read fl (node_mci one_graph one_node) = interface_text one_interface"
proof -
  obtain u fl where 1: "compile_node (one_builder fp) one_graph True one_node (clean one_disk) = Some (Some u, clean fl)"
      "fl_read fl (node_mci one_graph one_node) = interface_text one_interface"
    using one_first by blast
  have a: "AssertCompileGraphTopologicalOrder one_graph" by code_simp
  have n: "cg_nodes one_graph = [one_node]" by (simp add: one_graph_def)
  have "CompileModuleGraph (one_builder fp) one_graph True (clean one_disk) = Some (Some [u], clean fl)"
    unfolding CompileModuleGraph_def n by (simp only: a if_True compile_nodes.simps run_steps 1(1))
  with 1(2) show ?thesis by blast
qed

end
