(* ===== verification/Spec2Isabelle.thy ===== *)
theory Spec2Isabelle
  imports MC_LexerSpec MC_LexerRound MC_ParserStuck MC_TypeSpec MC_TypeUtilsSpec MC_ConstEvalSpec MC_LayoutSpec MC_ResolverSpec MC_FlowSpec MC_MciSpec MC_MirValidateSpec MC_TargetSpec MC_MergeSpec MC_BuilderExample
begin

text \<open>
  A model of the Modern C compiler, the C++ sources under \<open>src/compiler/\<close>, and the theorems that make
  its passes correct.

  \<^bold>\<open>The program.\<close> A module is a file of source text. \<open>Lex\<close> turns the text into tokens and \<open>Parse\<close>
  turns these into a tree; both report errors to one sink of diagnostics and go on. The checker gives the tree its types:
  it resolves aliases and imports, evaluates constants and array lengths, lays out structures, and
  leaves a summary of the module (\<open>Module\<close> in \<open>sema/check.h\<close>), of which a surface, the part that other modules
  see, is written to an interface file. Functions are lowered to blocks of three-address instructions (\<open>mir/mir.h\<close>),
  which are validated and then printed as LLVM text. The driver reads project files, orders the targets and modules, and runs
  the tools.

  \<^bold>\<open>Theories.\<close> Each component has a theory with its data and operations, in the order of the source
  and with its names, and one or more theories of lemmas about it.
  \<^item> \<open>MC_Prelude\<close>: decimal and hexadecimal numerals, lists, joins, options; the collections of hints.
  \<^item> \<open>MC_Support\<close>: \<open>support/\<close>, that is diagnostics and their text, source spans, the search of imported files, the
    names of dumps and artifacts.
  \<^item> \<open>MC_Token\<close>, \<open>MC_Lexer\<close> with \<open>MC_LexerSpec\<close> (where tokens lie, what is reported) and \<open>MC_LexerRound\<close> (lexing what
    was spelled): \<open>lex/\<close>. The state of the class \<open>Lexer\<close> is the record \<open>LexState\<close>.
  \<^item> \<open>MC_Ast\<close>: \<open>ast/ast.h\<close>. \<open>MC_AstShape\<close>: the trees that later passes rely on.
  \<^item> \<open>MC_ParserCore\<close>, \<open>MC_Lookahead\<close>, \<open>MC_ParserExpr\<close>, \<open>MC_ParserStmt\<close>, \<open>MC_ParserDecl\<close>: \<open>parse/\<close>, one definition for each method of the
    class \<open>Parser\<close>, whose members are the record \<open>ParseState\<close>. \<open>MC_ParserContract\<close> and \<open>MC_ParserRules\<close> say what a parser
    promises and give the rules that combine parsers; \<open>MC_ParserExprSpec\<close>, \<open>MC_StmtShape\<close>, \<open>MC_StmtRules\<close>, \<open>MC_ParserStmtSpec\<close>,
    \<open>MC_ParserDeclSpec\<close> prove the contract of each method, in locales whose parameters are the parsers of
    the level below; \<open>MC_ParserStuck\<close>: the loops that do not return.
  \<^item> \<open>MC_Type\<close>, \<open>MC_TypeSpec\<close>: \<open>sema/type.cpp\<close>, types, their equality, text, substitution, and conversion from and to the tree.
  \<^item> \<open>MC_Module\<close>: the summaries of \<open>sema/check.h\<close> and their lookup maps.
  \<^item> \<open>MC_TypeUtils\<close>, \<open>MC_TypeUtilsSpec\<close>: \<open>sema/type_utils.cpp\<close>, aliases, numeric conversion, the analysis for \<open>noalias\<close>.
  \<^item> \<open>MC_ConstEval\<close>, \<open>MC_ConstEvalSpec\<close>: \<open>sema/const_eval.cpp\<close> and the array lengths of \<open>sema/check.cpp\<close>.
  \<^item> \<open>MC_Layout\<close>, \<open>MC_LayoutSpec\<close>: \<open>sema/layout.cpp\<close>.
  \<^item> \<open>MC_Resolver\<close>, \<open>MC_ResolverSpec\<close>: \<open>sema/module_resolver.cpp\<close>, surfaces of modules and the renaming of imported types.
  \<^item> \<open>MC_Mir\<close>, \<open>MC_Flow\<close>, \<open>MC_FlowSpec\<close>: \<open>mir/mir.h\<close> and \<open>mir/mir_validate_flow.cpp\<close>, reachable blocks, dominators, single
    definition and dominance of values.
  \<^item> \<open>MC_MirTypes\<close>: \<open>mir/mir_type_utils.cpp\<close> and the searches and special calls of \<open>mir/mir.cpp\<close>. \<open>MC_MirValidate\<close>: \<open>mir/mir_validate.cpp\<close>,
    one definition for each case of the switch of \<open>ValidateModule\<close>, each returning the list of its reports (\<open>None\<close> in
    the list is a report that is not reached: an assertion fails or the recursion has no fuel). \<open>MC_MirValidateSpec\<close>: what
    follows when there is no report.
  \<^item> \<open>MC_MciText\<close>, \<open>MC_MciType\<close>, \<open>MC_MciConst\<close>, \<open>MC_Mci\<close>: \<open>mci/mci.cpp\<close>, interface files: the escapes and lists, the class
    \<open>TypeParser\<close> (the rest of the text is its state), constants, and the records of a file with their loader, one
    definition for each kind of record. \<open>MC_MciTypeSpec\<close>, \<open>MC_MciConstSpec\<close>, \<open>MC_MciSpec\<close>: what is written is
    read back.
  \<^item> \<open>MC_Project\<close>: \<open>driver/project.cpp\<close>, project files, one definition for each group of keys and each group of checks of \<open>LoadProjectFile\<close>;
    \<open>MC_ProjectSpec\<close>: what a loaded project satisfies. \<open>MC_Spans\<close>, \<open>MC_Graph\<close>, \<open>MC_Target\<close>: \<open>driver/build_graph.cpp\<close>, the shifting of spans,
    the search for modules, the graphs of targets; \<open>MC_GraphSpec\<close>, \<open>MC_TargetSpec\<close>: their invariants and termination.
  \<^item> \<open>MC_BuildState\<close>: the record of the last build of a module (\<open>driver/build_support.cpp\<close>), its text, its reader, and the test for reuse.
    \<open>MC_Merge\<close>: \<open>driver/builder_merge.cpp\<close>, the names of imported units, extern declarations, merging; \<open>MC_MergeSpec\<close>: what a
    name means afterwards. \<open>MC_Host\<close>: \<open>codegen_llvm/backend_host.cpp\<close>, the commands for the tools of the host, on files that are a
    record of maps (contents, existence, time). \<open>MC_Builder\<close>: \<open>driver/builder.cpp\<close>, builds of modules, targets and projects as steps
    that change the files and the sink; \<open>MC_BuilderSpec\<close>: what a build leaves behind and that a second one finds it, for which
    \<open>MC_BuilderExample\<close> has an example; \<open>MC_BuilderFaults\<close>: an interface that is always written again, and a record that ends the build.

  \<^bold>\<open>Conventions.\<close> A struct is a record with a prefix for its fields, an enum a datatype. A \<open>std::size_t\<close> and a \<open>std::int64_t\<close>
  are words of 64 bits; numbers that only count elements are \<open>nat\<close>. A \<open>std::optional\<close> is an option;
  a nullable pointer that is always owned is an option of the node. A member function takes the state and returns it updated.
  Undefined behaviour that the source can reach (a dereferenced null, \<open>front()\<close> of an empty vector) is
  \<open>None\<close>. The library functions that the sources only call (the extraction of a double from a stream, arithmetic on doubles, the file system)
  are arguments, and so are the checker, lowering, the rendering of LLVM text and the tools of the host in builds. A \<open>std::unordered_map\<close> that is visited is an association list with the order of visiting as an argument; paths are their generic text.

  \<^bold>\<open>Fuel and termination.\<close> The recursive descent has fuel, and the number \<open>k\<close> of tokens left bounds it: \<open>2 * k + 2\<close> is enough
  for expressions and types, and for a statement twice that of the expressions in it (C5, C6, C7); \<open>Parse\<close> runs with
  \<open>2 * k + 4\<close> where \<open>k\<close> counts all tokens, and that is enough (C8), except at the tokens of C10. The parsers of types and constants in interface files
  have the length of the text as fuel. \<open>None\<close> stands for running out of fuel, and the theorems on parsers
  state that a result is returned. The recursion of \<open>Compute\<close> in the layouts is unguarded in the source; there \<open>None\<close>
  for every fuel is what an endless recursion is (C21). Loops that need not end are \<open>while_option\<close>
  (C17). The comparison of representations and the matching of generic types in \<open>ValidateModule\<close> recurse through
  declarations and have fuel; a theorem on its result holds for any fuel that gives one. The iteration of \<open>ComputeDominators\<close> is proved to end (C25).
  The search for modules has fuel for the depth of imports, and one unit more than the number of keys is enough (C34); the recursion over links has fuel for
  their depth, and one unit more than the number of targets is enough (C37).

  \<^bold>\<open>Properties.\<close> C1--C4: tokens partition the text, errors are reported, spelled tokens lex back, literals are
  exact in 64 bits. C5--C10: the parsers return, move forward, and build well-formed trees
  whenever they report no error; and the loops over members for which none of this holds. C11--C13:
  type equality, conversion from and to the tree. C14: the lookup maps agree with the searches. C15--C17:
  aliases, numeric conversion, the analysis that may run forever. C18: constant arithmetic is exact or undefined.
  C19--C21: alignment and placement of fields, and where the computation
  recurses forever. C22, C23: what an import sees. C24, C25: reachability and dominance in terms
  of paths. C26--C30: interface files are read back, what is loaded has been checked, and the names for
  which this fails. C31--C33: in a validated module values are defined before they are used, divisions and shifts are checked, and
  stores, calls and returns are well typed. C34--C37: module graphs are in topological order, loaded projects are consistent, and
  graphs of targets link static libraries without cycles and shared sources, and are returned exactly when no error is reported.
  C38--C40: merged modules have every definition once, calls between modules lead to it, and a build that is repeated changes nothing.

  \<^bold>\<open>Not modelled.\<close> The walk of the checker over declarations and bodies (\<open>sema/check.cpp\<close>), lowering
  (\<open>mir/mir_lower.cpp\<close>) and the specialization of generic functions (\<open>mir/mir.cpp\<close>) are left out: they are the largest functions of the
  program and each depends on the whole of the one before; builds take them as arguments. The dumps of trees and of MIR are text for golden tests.
  The LLVM backend prints text whose meaning is that of another tool, and the hosted runtime and the commands of the driver are
  calls to the operating system.
\<close>

section \<open>The lexer\<close>

text \<open>C1. The lexer partitions the source text. Whatever the text, the token list of \<open>Lex\<close> ends with
  the only end-of-file token, every other token spans the piece of the text it was read from, with
  the line and column of its ends, its lexeme is that piece and, for a keyword or punctuation, the
  spelling of its kind; a newline token covers a run of line ends, blanks and comments; and when no
  error is reported the text between neighbouring tokens is blanks and comments.\<close>

theorem Lex_partitions_source:
  "token_stream (lr_ok (fst (Lex stream_double src p d))) src (lr_tokens (fst (Lex stream_double src p d)))"
  using Lex_placed [of stream_double src p d] by (auto simp: token_stream_def)

text \<open>C2. The lexer only adds error diagnostics to the sink, and the flag of its result is set exactly
  when it added none.\<close>

theorem Lex_reports_iff_not_ok:
  "reported d True (snd (Lex stream_double src p d)) (lr_ok (fst (Lex stream_double src p d)))"
  using Lex_diagnostics [of stream_double src p d] by (auto simp: reported_def)

text \<open>C3. Printing and lexing: a list of keywords and punctuation, written out with a blank between
  neighbours, lexes without error to exactly these kinds and the end of the file.\<close>

theorem Lex_of_spelling:
  assumes "list_all has_fixed_spelling ks"
  shows "map tok_kind (lr_tokens (fst (Lex stream_double (spell ks) p d))) = ks @ [T_kEof]
    \<and> lr_ok (fst (Lex stream_double (spell ks) p d))"
  using Lex_spelled assms by (auto simp: list_all_iff)

theorem Lex_of_spelling_witness:
  "map tok_kind (lr_tokens (fst (Lex (\<lambda>_. None) (spell [T_kLt, T_kLtLt, T_kWhile, T_kSlash, T_kSlash]) ''a.mc'' [])))
     = [T_kLt, T_kLtLt, T_kWhile, T_kSlash, T_kSlash, T_kEof]"
  using Lex_of_spelling [of "[T_kLt, T_kLtLt, T_kWhile, T_kSlash, T_kSlash]" "\<lambda>_. None" "''a.mc''" "[]"]
  by (simp add: has_fixed_spelling_def)

text \<open>C4. Integer literals are exact. The parser of literals, which works in 64-bit arithmetic and tests
  for overflow before each step, returns the number that the digits write in unbounded integers when
  it is below \<open>2 ^ 63\<close> and nothing when it is not, when a digit is not one of the base or none is there.\<close>

theorem ParseIntegerLiteralValue_exact:
  "ParseIntegerLiteralValue cs = map_option of_int (integer_literal cs)"
  by (rule ParseIntegerLiteralValue_reference)

section \<open>The parser\<close>

definition sample_token :: "TokenKind \<Rightarrow> Token" where
  \<comment> \<open>Tokens for the examples below.\<close>
  "sample_token k = \<lparr>tok_kind = k, tok_lexeme = ''x'', tok_integer_value = None, tok_float_value = None,
     tok_span = \<lparr>span_begin = start_position, span_end = start_position\<rparr>\<rparr>"

definition sample_tokens :: "TokenKind list \<Rightarrow> LexResult" where
  "sample_tokens ks = \<lparr>lr_tokens = map sample_token (ks @ [T_kEof]), lr_ok = True\<rparr>"

abbreviation sample_state :: "TokenKind list \<Rightarrow> ParseState" where
  "sample_state ks \<equiv> parse_start (sample_tokens ks) ''a.mc'' []"

lemma sample_state_wf: "T_kEof \<notin> set ks \<Longrightarrow> ps_wf (sample_state ks)"
  by (auto simp: ps_wf_def in_bounds_def parse_start_def sample_tokens_def sample_token_def nth_append
      dest: nth_mem)

abbreviation sample_lexed :: LexResult where
  "sample_lexed \<equiv> fst (Lex (\<lambda>_. None) (spell [T_kRBrace]) ''a.mc'' [])"

lemma sample_without_members: "without_members (lr_tokens sample_lexed)"
proof -
  have "map tok_kind (lr_tokens sample_lexed) = [T_kRBrace, T_kEof]"
    using Lex_spelled [of "[T_kRBrace]"] by (simp add: has_fixed_spelling_def)
  then show ?thesis by (auto simp: without_members_def map_eq_Cons_conv)
qed

text \<open>C5. Expressions. From any state before the end-of-file token the recursive descent of expressions
  ends: two units of fuel for each token left, and two more, are enough. It consumes a token
  unless the file is at its end, keeps the tokens and reports only errors, and every node of the tree
  has the fields of its kind; the operands of a binary operator bind at least as tightly as its
  precedence asks for (equal only on the left); and without an error no type in the tree is missing.\<close>

theorem ParseExpr_total:
  assumes "ps_wf s" "2 * tokens_left s + 2 \<le> n"
  shows "\<exists>e s'. ParseExpr n a s = Some (e, s') \<and> moved s (\<not> AtEnd s) s' \<and> expr_ok (ps_ok s') e"
proof -
  have "outcome True (ParseExpr n a s) (\<lambda>(e, s'). moved s (\<not> AtEnd s) s' \<and> expr_ok (ps_ok s') e)"
    using parser.pe [of True n a] assms by (simp add: parses_def)
  from outcome_total [OF this] show ?thesis by auto
qed

theorem ParseExpr_total_witness:
  "\<exists>e s'. ParseExpr 10 True (sample_state [T_kMinus, T_kIdentifier]) = Some (e, s') \<and> expr_ok (ps_ok s') e"
proof -
  let ?s = "sample_state [T_kMinus, T_kIdentifier]"
  have "2 * tokens_left ?s + 2 \<le> 10"
    by (simp add: tokens_left_def parse_start_def sample_tokens_def)
  from ParseExpr_total [OF sample_state_wf this, of True] show ?thesis by auto
qed

text \<open>C6. Types. The descent of type expressions ends with a unit of fuel less, consumes a token when the
  current one can start a type, and returns a well-shaped tree, or none after it reported an error.\<close>

theorem ParseTypeExpr_total:
  assumes "ps_wf s" "2 * tokens_left s + 1 \<le> n"
  shows "\<exists>x s'. ParseTypeExpr n depth s = Some (x, s') \<and> moved s (starts_type depth s) s' \<and>
    opt_type_ok (ps_ok s') x"
proof -
  have "outcome True (ParseTypeExpr n depth s)
      (\<lambda>(x, s'). moved s (starts_type depth s) s' \<and> opt_type_ok (ps_ok s') x)"
    using parser.pt [of True n depth] assms by (simp add: parses_def)
  from outcome_total [OF this] show ?thesis by auto
qed

theorem ParseTypeExpr_total_witness:
  "\<exists>x s'. ParseTypeExpr 9 0 (sample_state [T_kStar, T_kIdentifier]) = Some (x, s') \<and> opt_type_ok (ps_ok s') x"
proof -
  let ?s = "sample_state [T_kStar, T_kIdentifier]"
  have "2 * tokens_left ?s + 1 \<le> 9"
    by (simp add: tokens_left_def parse_start_def sample_tokens_def)
  from ParseTypeExpr_total [OF sample_state_wf this, of 0] show ?thesis by auto
qed

text \<open>Lookahead. The walk that decides whether the tokens ahead are a type needs no more fuel than
  twice the tokens left: with more it gives the same answer, so the bound of the model is none of the
  code's behaviour.\<close>

theorem SkipTypeExprLookahead_fuel:
  assumes "ps_wf s" "lookahead_fuel s \<le> n"
  shows "SkipTypeExpr n s off bare 0 = SkipTypeExprLookahead s off bare"
  using lookahead_fuel_enough(1) [OF assms] by (simp add: SkipTypeExprLookahead_def)

theorem SkipTypeExprLookahead_fuel_witness:
  "SkipTypeExpr 100 (sample_state [T_kStar, T_kIdentifier]) 0 True 0
     = SkipTypeExprLookahead (sample_state [T_kStar, T_kIdentifier]) 0 True"
  using SkipTypeExprLookahead_fuel [OF sample_state_wf, of "[T_kStar, T_kIdentifier]" 100 0 True]
  by (simp add: lookahead_fuel_def tokens_left_def parse_start_def sample_tokens_def)

text \<open>C7. Statements. The descent of statements ends on every well-formed state past the first token,
  with one unit of fuel for each token and twice that and some for the expressions in it, consumes a
  token unless the file is at its end, and returns a statement with the fields of its kind.\<close>

theorem ParseStatement_total:
  assumes "ps_wf s" "0 < ps_index s" "tokens_left s \<le> n" "2 * n + 2 \<le> m"
  shows "\<exists>st s'. ParseStatement m n s = Some (st, s') \<and> moved s (\<not> AtEnd s) s' \<and> stmt_ok (ps_ok s') st"
proof -
  have "outcome True (ParseStatement m n s) (\<lambda>(st, s'). moved s (\<not> AtEnd s) s' \<and> stmt_ok (ps_ok s') st)"
    using stmt_parsers_parse(1) [of True n m] assms by (simp add: parses_after_def ready_def)
  from outcome_total [OF this] show ?thesis by auto
qed

theorem ParseStatement_total_witness:
  "\<exists>st s'. ParseStatement 10 4 (Advance (sample_state [T_kLBrace, T_kReturn, T_kRBrace])) = Some (st, s') \<and>
     stmt_ok (ps_ok s') st"
proof -
  let ?s = "sample_state [T_kLBrace, T_kReturn, T_kRBrace]"
  have "moved ?s True (Advance ?s)"
    by (rule moved_Advance [OF moved_refl [OF sample_state_wf]])
      (simp_all add: AtEnd_def Current_def parse_start_def sample_tokens_def sample_token_def)
  moreover have "tokens_left ?s = 4"
    by (simp add: tokens_left_def parse_start_def sample_tokens_def)
  ultimately show ?thesis
    using ParseStatement_total [of "Advance ?s" 4 10] moved_left_le [of ?s True "Advance ?s"]
    by (auto simp: moved_wf moved_past)
qed

text \<open>C8. Files. Lexing and parsing a file ends, whatever its text, unless it declares a structure or an
  enumeration (see C10), with the fuel of \<open>Parse\<close>.\<close>

theorem Parse_total:
  assumes "lexed = fst (Lex stream_double src p d)" "without_members (lr_tokens lexed)"
  shows "\<exists>r d'. Parse lexed q d1 = Some (r, d')"
  using outcome_total [OF Parse_fuel_parses [of lexed q d1 True "length (lr_tokens lexed)"]] lexed_wf [OF assms(1)]
    assms(2)
  by (auto simp: Parse_def Parse_fuel_def)

theorem Parse_total_witness:
  "\<exists>r d'. Parse sample_lexed ''a.mc'' [] = Some (r, d')"
  using Parse_total [OF refl sample_without_members] .

text \<open>C9. What a parse returns, for any fuel: the diagnostics of the sink stay and only errors follow;
  the result is ok exactly when the lexer was, none was added and the sink held none before; and then
  every declaration has the fields of its kind, with no type missing and well-formed bodies.\<close>

theorem Parse_sound:
  assumes "lexed = fst (Lex stream_double src p d)" "Parse_fuel k lexed q d1 = Some (r, d2)"
  shows "\<exists>ok. reported d1 (lr_ok lexed) d2 ok \<and> (pr_ok r \<longleftrightarrow> ok \<and> \<not> HasErrors d2) \<and>
    list_all (decl_ok ok) (sf_decls (pr_source_file r))"
proof -
  obtain s' where run: "Run (2 * k + 4) k (parse_start lexed q d1) = Some (r, s')" and d2: "d2 = ps_diagnostics s'"
    using assms(2) by (auto simp: Parse_fuel_def)
  have "run_result (parse_start lexed q d1) (r, s')"
    by (rule outcome_partial [OF Parse_fuel_parses [OF lexed_wf [OF assms(1)]] run]) simp
  then show ?thesis
    by (intro exI [of _ "ps_ok s'"]) (auto simp: moved_def parse_start_def d2)
qed

theorem Parse_sound_witness:
  "\<exists>r d2 ok. Parse sample_lexed ''a.mc'' [] = Some (r, d2) \<and>
     list_all (decl_ok ok) (sf_decls (pr_source_file r))"
proof -
  let ?l = sample_lexed
  obtain x where "Run (2 * length (lr_tokens ?l) + 4) (length (lr_tokens ?l)) (parse_start ?l ''a.mc'' []) = Some x"
    using sample_without_members outcome_total [OF Parse_fuel_parses [of ?l "''a.mc''" "[]" True "length (lr_tokens ?l)"]] lexed_wf [OF refl]
    by auto
  then have "Parse_fuel (length (lr_tokens ?l)) ?l ''a.mc'' [] = Some (fst x, ps_diagnostics (snd x))"
    by (cases x) (simp add: Parse_fuel_def)
  from Parse_sound [OF refl this] this show ?thesis by (auto simp: Parse_def)
qed

text \<open>C10. A malformed structure or enumeration hangs the compiler. When a file opens with \<open>struct S {\<close> or
  \<open>enum E {\<close> and the next token starts no member, is no separator and does not close the body, the
  loop over the members consumes nothing, reports the same errors again and never comes back: no
  amount of fuel gives a result.\<close>

theorem Parse_hangs:
  assumes "malformed_members (lr_tokens lexed)"
  shows "\<forall>k. Parse_fuel k lexed q d = None"
  using malformed_members_stuck [OF assms] by simp

theorem Parse_hangs_witness:
  "Parse (sample_tokens [T_kStruct, T_kIdentifier, T_kLBrace, T_kAssign, T_kRBrace]) ''a.mc'' [] = None"
proof -
  have "malformed_members (lr_tokens (sample_tokens [T_kStruct, T_kIdentifier, T_kLBrace, T_kAssign, T_kRBrace]))"
    by (simp add: malformed_members_def sample_tokens_def sample_token_def field_start_def IsTypeExprStart_def)
  from Parse_hangs [OF this] show ?thesis by (simp add: Parse_def)
qed

section \<open>Types\<close>

text \<open>C11. Equality of types is equality of the forms in which the names of built-in types are replaced,
  so it is an equivalence relation, and equal types have the same text.\<close>

theorem type_eq_equivalence:
  "equivp type_eq \<and> (\<forall>l r. type_eq l r = (CanonicalizeBuiltinType l = CanonicalizeBuiltinType r)) \<and>
   (\<forall>l. type_eq l (CanonicalizeBuiltinType l))"
  by (simp add: type_eq_canonical equivp_def fun_eq_iff) metis

text \<open>C12. From tokens to types. When the parser of types succeeds without an error, the conversion of
  its tree to a type does not dereference a missing child, and the type has a text.\<close>

theorem TypeFromAst_of_parsed:
  assumes "ps_wf s" "2 * tokens_left s + 1 \<le> n" "ParseTypeExpr n depth s = Some (x, s')" "ps_ok s'"
  shows "\<exists>t txt. TypeFromAst x = Some t \<and> FormatType t = Some txt"
proof -
  have "outcome True (ParseTypeExpr n depth s)
      (\<lambda>(x, s'). moved s (starts_type depth s) s' \<and> opt_type_ok (ps_ok s') x)"
    using parser.pt [of True n depth] assms(1,2) by (simp add: parses_def)
  with outcome_total [OF this] assms have "opt_type_ok True x" by auto
  then obtain t where "TypeFromAst x = Some t" "type_shaped t"
    using TypeFromAst_node_total(1) by (cases x) (auto simp: TypeFromAst_def or_unknown_def)
  then show ?thesis using FormatType_total by auto
qed

theorem TypeFromAst_of_parsed_witness:
  "\<exists>x s' t txt. ParseTypeExpr 9 0 (sample_state [T_kStar, T_kIdentifier]) = Some (x, s') \<and>
     TypeFromAst x = Some t \<and> FormatType t = Some txt"
proof -
  let ?s = "sample_state [T_kStar, T_kIdentifier]"
  have n: "2 * tokens_left ?s + 1 \<le> 9"
    by (simp add: tokens_left_def parse_start_def sample_tokens_def)
  have "map_option (\<lambda>(x, s). ps_ok s) (ParseTypeExpr 9 0 ?s) = Some True" by code_simp
  then obtain x s' where "ParseTypeExpr 9 0 ?s = Some (x, s')" "ps_ok s'" by auto
  with TypeFromAst_of_parsed [OF sample_state_wf n this] show ?thesis by auto
qed

text \<open>C13. A type written as a tree and read back is the same type.\<close>

theorem TypeToAst_roundtrip:
  assumes "type_plain t" "TypeToAst t = Some e"
  shows "\<exists>u. TypeFromAst (Some e) = Some u \<and> type_eq u t"
  using TypeFromAst_TypeToAst_node [OF assms] by (simp add: TypeFromAst_def or_unknown_def type_eq_canonical)

theorem TypeToAst_roundtrip_witness:
  "\<exists>e u. TypeToAst (PointerType (ArrayType (NamedType ''Node'') ''4'')) = Some e \<and>
     TypeFromAst (Some e) = Some u \<and> type_eq u (PointerType (ArrayType (NamedType ''Node'') ''4''))"
proof -
  let ?t = "PointerType (ArrayType (NamedType ''Node'') ''4'')"
  have p: "type_plain ?t" by (simp add: type_constructors)
  obtain e where "TypeToAst ?t = Some e"
    by (simp add: TypeToAst.simps type_constructors IsStringBuiltinName_def)
  from TypeToAst_roundtrip [OF p this] this show ?thesis by blast
qed

section \<open>Module summaries\<close>

text \<open>C14. The lookup maps of a module find what the searches over its lists find.\<close>

theorem lookup_maps_refine:
  "FindFunctionSignature m f = map_option ((!) (mod_functions m)) (mod_function_lookup (BuildModuleLookupMaps m) f) \<and>
   FindTypeDecl m t = map_option ((!) (mod_type_decls m)) (mod_type_decl_lookup (BuildModuleLookupMaps m) t)"
  using lookup_maps_find [of m] by simp

section \<open>Aliases and conversions\<close>

definition sample_decl :: "DeclKind \<Rightarrow> string \<Rightarrow> Type \<Rightarrow> (string \<times> Type) list \<Rightarrow> TypeDeclSummary" where
  \<comment> \<open>Declarations for the examples below.\<close>
  "sample_decl k n aliased fs =
     \<lparr>td_kind = k, td_name = n, td_type_params = [], td_attributes = [], td_fields = fs, td_variants = [],
      td_aliased_type = aliased, td_is_packed = False, td_is_abi_c = False, td_layout = no_layout\<rparr>"

definition sample_module :: "TypeDeclSummary list \<Rightarrow> Module" where
  "sample_module ds = empty_module\<lparr>mod_type_decls := ds\<rparr>"

lemmas sample_decls = sample_decl_def sample_module_def FindTypeDecl_def

text \<open>C15. Stripping. When no alias leads back to itself, the type that stripping returns names no alias,
  at any depth, and stripping it again changes nothing.\<close>

theorem StripType_normal:
  assumes "aliases_ranked m mode rank"
  shows "alias_free m mode (StripType t m mode) \<and> StripType (StripType t m mode) m mode = StripType t m mode"
  using StripType_free [OF assms] StripType_idem [OF assms] by simp

theorem StripType_normal_witness:
  "alias_free (sample_module [sample_decl D_kTypeAlias ''A'' (PointerType (NamedType ''A2'')) [],
       sample_decl D_kTypeAlias ''A2'' (NamedType ''u8'') []]) kAliasesOnly
     (StripType (NamedType ''A'') (sample_module [sample_decl D_kTypeAlias ''A'' (PointerType (NamedType ''A2'')) [],
       sample_decl D_kTypeAlias ''A2'' (NamedType ''u8'') []]) kAliasesOnly)"
proof -
  let ?m = "sample_module [sample_decl D_kTypeAlias ''A'' (PointerType (NamedType ''A2'')) [],
    sample_decl D_kTypeAlias ''A2'' (NamedType ''u8'') []]"
  have "aliases_ranked ?m kAliasesOnly (\<lambda>n. if n = ''A'' then 1 else 0)"
    by (auto simp: aliases_ranked_def alias_name_def sample_decls type_constructors split: if_splits)
  from StripType_normal [OF this] show ?thesis by blast
qed

text \<open>C16. The common type of two operands, when aliases do not lead back to themselves. It does not depend on the order of the
  operands. When it is a type of values, values of both operands may be assigned to it; when it is that of floating-point
  literals, both operands are literals; and when there is none, the type of an operand is not known, or neither may be assigned
  to the other, nil apart.\<close>

theorem MergeNumericTypes_accepts:
  assumes "aliases_ranked m kAliasesOnly rank"
  shows "let t = MergeNumericTypes l r m in
    MergeNumericTypes r l m = t \<and>
    (if ty_kind t = Ty_kUnknown then
       IsUnknown (stripped l m) \<or> IsUnknown (stripped r m) \<or>
       (\<not> IsAssignable l r m \<or> ty_kind (stripped r m) = Ty_kNil) \<and> (\<not> IsAssignable r l m \<or> ty_kind (stripped l m) = Ty_kNil)
     else if ty_kind t = Ty_kFloatLiteral then
       ty_kind (stripped l m) \<in> {Ty_kIntLiteral, Ty_kFloatLiteral} \<and> ty_kind (stripped r m) \<in> {Ty_kIntLiteral, Ty_kFloatLiteral}
     else IsAssignable t l m \<and> IsAssignable t r m)"
  using Merge_accepts [OF assms, of l r "MergeNumericTypes l r m"] Merge_commutes [of r l m] Merge_literals [of l r m]
    Merge_unknown [of l r m] Merge_unknown [of r l m]
  unfolding Let_def by auto

theorem MergeNumericTypes_accepts_witness:
  "IsAssignable (NamedType ''i32'') IntLiteralType (sample_module []) \<and>
     MergeNumericTypes (NamedType ''i32'') IntLiteralType (sample_module []) = NamedType ''i32''"
proof -
  have "aliases_ranked (sample_module []) kAliasesOnly (\<lambda>_. 0)"
    by (simp add: aliases_ranked_def sample_decls empty_module_def)
  moreover have "MergeNumericTypes IntLiteralType (NamedType ''i32'') (sample_module []) = NamedType ''i32''"
    by (simp add: MergeNumericTypes_def StripType_def StripTypeInternal.simps type_constructors sample_decls
        empty_module_def Let_def type_eq_canonical IsUnknown_def IsIntegerTypeName_def IsStringBuiltinName_def)
  ultimately show ?thesis
    using MergeNumericTypes_accepts [of "sample_module []" "\<lambda>_. 0" IntLiteralType "NamedType ''i32''"]
    by (simp add: NamedType_def Let_def)
qed

text \<open>C17. An eligibility test that does not end. \<open>type A = const A\<close> makes the loop that removes \<open>const\<close>
  from the type of a \<open>@noalias\<close> parameter run for ever.\<close>

theorem IsNoAliasEligibleType_hangs:
  assumes "FindTypeDecl m a = Some d" "td_kind d = D_kTypeAlias" "td_type_params d = []"
    "td_aliased_type d = ConstType (NamedType a)"
  shows "IsNoAliasEligibleType (NamedType a) m = None"
  using const_alias_stuck [OF assms] .

theorem IsNoAliasEligibleType_hangs_witness:
  "IsNoAliasEligibleType (NamedType ''A'')
     (sample_module [sample_decl D_kTypeAlias ''A'' (ConstType (NamedType ''A'')) []]) = None"
  by (rule IsNoAliasEligibleType_hangs) (simp add: sample_decls, simp_all add: sample_decl_def)

section \<open>Constants\<close>

text \<open>C18. The operators on integer constants are those of the integers, brought into 64 bits, whatever the type of the
  constants: sums, differences, products and left shifts wrap, and a division by zero, the division and the remainder of the least
  number by \<open>-1\<close>, and a shift by a negative amount or by 64 and more give no constant. The machine arithmetic that the code
  uses never leaves its defined range. (The language documents let the division of the least number wrap too.)\<close>

theorem EvaluateConstBinaryOp_exact:
  assumes "cv_kind l = CK_kInteger" "cv_kind r = CK_kInteger" "\<not> IsConstComparisonOp op"
  shows "map_option (\<lambda>v. (cv_kind v, sint (cv_integer_value v))) (EvaluateConstBinaryOp fp op l r) =
    map_option (Pair CK_kInteger) (int_op_spec op (sint (cv_integer_value l)) (sint (cv_integer_value r)))"
  using EvaluateConstBinaryOp_int [OF assms] .

theorem EvaluateConstBinaryOp_exact_witness:
  "\<forall>fp. map_option (\<lambda>v. (cv_kind v, sint (cv_integer_value v)))
      (EvaluateConstBinaryOp fp ''-'' (MakeConstValue_int int64_min) (MakeConstValue_int 1)) = Some (CK_kInteger, 2 ^ 63 - 1)"
  using EvaluateConstBinaryOp_exact [of "MakeConstValue_int int64_min" "MakeConstValue_int 1" "''-''"]
  by (simp add: IsConstComparisonOp_def int_op_spec_def sint_int64_min wrap64_def signed_take_bit_int_eq_self_iff)

text \<open>Two readings of one literal. A hexadecimal literal with a digit \<open>e\<close> is an integer for
  the lexer and for the evaluation of constants, but its type is that of floating-point literals.\<close>

theorem hex_literal_float_type:
  assumes "tok_lexeme t = ''0x'' @ ds" "CHR ''e'' \<in> set ds \<or> CHR ''E'' \<in> set ds" "tok_kind t = T_kIntLiteral"
    "tok_integer_value t = ParseIntegerLiteralValue (tok_lexeme t)" "tok_float_value t = None"
    "tok_integer_value t = Some v"
  shows "InferLiteralType (literal_node t) = FloatLiteralType \<and>
    ParseLiteralConstValue fp (literal_node t) = Some (MakeConstValue_int v)"
proof -
  have "\<exists>c \<in> set (tok_lexeme t). c \<in> set ''.eE''" using assms(1,2) by auto
  then show ?thesis
    using assms(1,3,5,6) by (simp add: InferLiteralType_def ParseLiteralConstValue_def literal_node_def ToString_kind_def
        set_node_defs new_Expr_def)
qed

theorem hex_literal_float_type_witness:
  "InferLiteralType (literal_node ((sample_token T_kIntLiteral)\<lparr>tok_lexeme := ''0x1e'', tok_integer_value := Some 30\<rparr>))
     = FloatLiteralType"
proof -
  let ?t = "(sample_token T_kIntLiteral)\<lparr>tok_lexeme := ''0x1e'', tok_integer_value := Some 30\<rparr>"
  have "ParseIntegerLiteralValue ''0x1e'' = Some 30"
    by code_simp
  then show ?thesis
    using hex_literal_float_type [of ?t "''1e''" 30] by (simp add: sample_token_def)
qed

section \<open>Layouts\<close>

text \<open>C19. Layouts are well-formed, whatever overflows: the alignment of every layout computed or stored is a
  power of two up to 8 (or 0, for an empty structure) and divides its size. Computing a layout only adds
  reports and stores layouts in the declarations.\<close>

theorem ComputeTypeLayout_invariant:
  assumes "ComputeTypeLayout n t span s = Some (l, s')" "layouts_wf s"
  shows "layout_wf l \<and> layouts_wf s' \<and> same_decls s s' \<and> (\<exists>rs. ly_reports s' = ly_reports s @ rs)"
  using layout.step [OF assms(1) [unfolded ComputeTypeLayout_def] assms(2)] by (simp add: layout_step_def)

abbreviation point_decl :: TypeDeclSummary where
  "point_decl \<equiv> sample_decl D_kStruct ''P'' UnknownType
     [(''a'', NamedType ''u8''), (''b'', NamedType ''u32''), (''c'', NamedType ''u8'')]"

abbreviation point_state :: LayoutState where
  "point_state \<equiv> \<lparr>ly_module = sample_module [point_decl], ly_reports = []\<rparr>"

lemma point_wf: "layouts_wf point_state"
  by (simp add: layouts_wf_def sample_decls)

lemma point_computed:
  "map_option (\<lambda>(l, s'). (lay_valid l, lay_size l, lay_field_offsets l))
     (ComputeTypeLayout 3 (NamedType ''P'') kDefaultSourceSpan point_state) = Some (True, 12, [0, 4, 8])"
  by code_simp

lemma point_struct_computed:
  "map_option (\<lambda>(l, s'). lay_valid l)
     (ComputeStructLayout (Compute 2 kDefaultSourceSpan) point_decl (NamedType ''P'') kDefaultSourceSpan {} point_state)
   = Some True"
  by code_simp

theorem ComputeTypeLayout_invariant_witness:
  "\<exists>l s'. ComputeTypeLayout 3 (NamedType ''P'') kDefaultSourceSpan point_state = Some (l, s') \<and> layout_wf l \<and> layouts_wf s'"
proof -
  obtain l s' where "ComputeTypeLayout 3 (NamedType ''P'') kDefaultSourceSpan point_state = Some (l, s')"
    using point_computed by auto
  from ComputeTypeLayout_invariant [OF this point_wf] this show ?thesis by blast
qed

text \<open>C20. Structures. The fields of a structure lie one behind the other in their order, each at the first
  multiple of its alignment (1 in a packed structure), where the layout of a field is the one computed for its
  type; the structure ends at the first multiple of its own alignment behind the last field. For this
  the sizes of the fields, with 8 bytes for each, must stay below \<open>2 ^ 64\<close>: the code does not test it.\<close>

theorem ComputeStructLayout_placed:
  assumes "ComputeStructLayout (Compute n span) d t span active s = Some (l, s')" "layouts_wf s"
    "layout_wf (td_layout d)" "lay_valid l" "td_type_params d \<noteq> [] \<or> \<not> lay_valid (td_layout d)"
  shows "\<exists>key ls. FormatType t = Some key \<and>
    list_all2 (laid_out (Compute n span) (insert key active)) (InstantiateTypeDeclFields d t) ls \<and>
    (sum_list (map (\<lambda>l. unat (lay_size l) + 8) ls) + 8 < 2 ^ 64 \<longrightarrow>
      (\<exists>fin. fields_placed (td_is_packed d) 0 (lay_field_offsets l) ls fin \<and>
        fin \<le> unat (lay_size l) \<and> unat (lay_size l) < fin + max 1 (unat (lay_alignment l)) \<and>
        unat (lay_alignment l) dvd unat (lay_size l)))"
proof -
  obtain ls key sz where key: "FormatType t = Some key"
    and ls: "list_all2 (laid_out (Compute n span) (insert key active)) (InstantiateTypeDeclFields d t) ls"
    and pl: "place (td_is_packed d) (0, if td_is_packed d then 1 else 0, []) ls = (sz, lay_alignment l, lay_field_offsets l)"
    and sz: "lay_size l = AlignTo sz (lay_alignment l)" and wf: "layout_wf l"
    using layout.ComputeStructLayout_step [OF assms(1-3)] assms(4,5) by blast
  show ?thesis
  proof (intro exI [of _ key] exI [of _ ls] conjI key ls impI)
    assume "sum_list (map (\<lambda>l. unat (lay_size l) + 8) ls) + 8 < 2 ^ 64"
    with place_exact [OF pl list_all2_laid_out [OF ls]] obtain
      pl: "fields_placed (td_is_packed d) 0 (lay_field_offsets l) ls (unat sz)" "unat sz + 8 < 2 ^ 64" by auto
    have "good_alignment (lay_alignment l)" using wf assms(4) by (simp add: layout_wf_def)
    with AlignTo_exact [OF this pl(2)] pl(1) wf assms(4)
    show "\<exists>fin. fields_placed (td_is_packed d) 0 (lay_field_offsets l) ls fin \<and>
        fin \<le> unat (lay_size l) \<and> unat (lay_size l) < fin + max 1 (unat (lay_alignment l)) \<and>
        unat (lay_alignment l) dvd unat (lay_size l)"
      by (auto simp: sz layout_wf_def)
  qed
qed

theorem ComputeStructLayout_placed_witness:
  "\<exists>l s' ls. ComputeStructLayout (Compute 2 kDefaultSourceSpan) point_decl (NamedType ''P'') kDefaultSourceSpan {} point_state = Some (l, s') \<and>
     list_all2 (laid_out (Compute 2 kDefaultSourceSpan) {''P''}) (td_fields point_decl) ls"
proof -
  obtain l s' where l: "ComputeStructLayout (Compute 2 kDefaultSourceSpan) point_decl (NamedType ''P'') kDefaultSourceSpan {} point_state = Some (l, s')"
    "lay_valid l" using point_struct_computed by auto
  have d: "layout_wf (td_layout point_decl)" "td_type_params point_decl \<noteq> [] \<or> \<not> lay_valid (td_layout point_decl)"
    by (simp_all add: sample_decl_def)
  have "FormatType (NamedType ''P'') = Some ''P''" by code_simp
  with ComputeStructLayout_placed [OF l(1) point_wf d(1) l(2) d(2)] l(1) show ?thesis
    by (auto simp: InstantiateTypeDeclFields_def sample_decl_def)
qed

text \<open>C21. A cycle of aliases hangs the compiler. When the first declaration of a module is a structure without parameters,
  whose layout is not known and whose name is not that of a built-in type, and the type of its first field is in a set of aliases and
  distinct types each of which stands for another of the set, the layouts of the module are computed for ever: the test for
  cycles covers structures and enumerations only.\<close>

theorem ComputeTypeLayouts_hangs:
  assumes "\<forall>a \<in> A. \<exists>b \<in> A. alias_to s a b" "x \<in> A"
    "mod_type_decls (ly_module s) = d # ds" "td_kind d = D_kStruct" "td_type_params d = []"
    "\<not> lay_valid (td_layout d)" "builtin_layout (td_name d) = None" "td_fields d = (f, NamedType x) # fs"
  shows "\<forall>n. ComputeTypeLayouts n span s = None"
  using alias_cycle_layouts [OF assms] by blast

abbreviation cyclic_struct :: TypeDeclSummary where
  "cyclic_struct \<equiv> sample_decl D_kStruct ''S'' UnknownType [(''x'', NamedType ''A'')]"

abbreviation cyclic_aliases :: "TypeDeclSummary list" where
  "cyclic_aliases \<equiv> [sample_decl D_kTypeAlias ''A'' (NamedType ''B'') [], sample_decl D_kTypeAlias ''B'' (NamedType ''A'') []]"

theorem ComputeTypeLayouts_hangs_witness:
  "\<forall>n. ComputeTypeLayouts n kDefaultSourceSpan \<lparr>ly_module = sample_module (cyclic_struct # cyclic_aliases), ly_reports = []\<rparr> = None"
proof (rule ComputeTypeLayouts_hangs [of "{''A'', ''B''}" _ "''A''" cyclic_struct cyclic_aliases "''x''" "[]"])
  show "\<forall>a \<in> {''A'', ''B''}. \<exists>b \<in> {''A'', ''B''}.
      alias_to \<lparr>ly_module = sample_module (cyclic_struct # cyclic_aliases), ly_reports = []\<rparr> a b"
    by (simp add: alias_to_def sample_decls builtin_layout_def)
qed (simp_all add: sample_decls builtin_layout_def)

section \<open>Imported modules\<close>

text \<open>C22. The surface of a module. What is marked private is not found in it, and what is not is found with the
  same signature, declaration and constant value as in the module; no fact about expressions leaves
  the module.\<close>

theorem import_surface_exact:
  "FindFunctionSignature (BuildImportVisibleModuleSurface m f) n =
     (if n \<in> private_value_names f then None else FindFunctionSignature m n) \<and>
   FindTypeDecl (BuildImportVisibleModuleSurface m f) n =
     (if n \<in> private_type_names f then None else FindTypeDecl m n) \<and>
   const_global fp (BuildImportVisibleModuleSurface m f) n =
     (if n \<in> private_value_names f then None else const_global fp m n) \<and>
   mod_expr_types (BuildImportVisibleModuleSurface m f) = Map.empty"
  by (simp add: visible_find visible_const_global surface_sel)

text \<open>C23. Names under an import. When a surface is rewritten for a module that imports it, every type name
  that led to a declaration is replaced by one that leads to the rewritten declaration, unless it is
  that of a built-in type or a type parameter; and rewriting a type twice is rewriting it once.\<close>

theorem imported_names_resolve:
  assumes "RewriteImportedModuleSurfaceTypes fp m q = Some r" "qualifier_free q m"
    "FindTypeDecl m n = Some d" "n \<noteq> []" "\<not> IsBuiltinNamedType n" "n \<notin> set ps"
    "L = set (map td_name (mod_type_decls m))"
  shows "FindTypeDecl r (qualified_type_name q L ps n) = Some (RewriteImportedTypeDecl d q L) \<and>
    (\<forall>t. type_names (RewriteImportedTypeNames q L ps t) = qualified_type_name q L ps ` type_names t) \<and>
    (\<forall>t. RewriteImportedTypeNames q L ps (RewriteImportedTypeNames q L ps t) = RewriteImportedTypeNames q L ps t)"
  using Rewritten_find [OF assms(1-6)] by (simp add: assms(7) Rewrite_names Rewrite_idem)

lemma sample_rewritten: "\<exists>r. RewriteImportedModuleSurfaceTypes fp (sample_module ds) q = Some r"
  by (simp add: RewriteImportedModuleSurfaceTypes_def sample_module_def empty_module_def)

theorem imported_names_resolve_witness:
  "\<forall>fp. \<exists>r. RewriteImportedModuleSurfaceTypes fp (sample_module [sample_decl D_kStruct ''S'' UnknownType []]) ''lib/a'' = Some r \<and>
     FindTypeDecl r ''lib_a.S'' \<noteq> None"
proof
  fix fp
  let ?d = "sample_decl D_kStruct ''S'' UnknownType []"
  obtain r where r: "RewriteImportedModuleSurfaceTypes fp (sample_module [?d]) ''lib/a'' = Some r"
    using sample_rewritten by blast
  have "qualifier_free ''lib/a'' (sample_module [?d])"
    by (simp add: qualifier_free_def sample_decls QualifyImportedName_def ImportedModuleQualifier_def)
  moreover have "FindTypeDecl (sample_module [?d]) ''S'' = Some ?d" by (simp add: sample_decls)
  moreover have "\<not> IsBuiltinNamedType ''S''"
    by (simp add: IsBuiltinNamedType_def IsIntegerTypeName_def IsFloatTypeName_def)
  moreover have "qualified_type_name ''lib/a'' {''S''} [] ''S'' = ''lib_a.S''"
    using calculation(3) by (simp add: qualified_type_name_def QualifyImportedName_def ImportedModuleQualifier_def)
  ultimately show "\<exists>r. RewriteImportedModuleSurfaceTypes fp (sample_module [?d]) ''lib/a'' = Some r \<and> FindTypeDecl r ''lib_a.S'' \<noteq> None"
    using imported_names_resolve [OF r, of "''S''" ?d "[]" "{''S''}"] r by (auto simp: sample_decls)
qed

text \<open>A lost declaration. A module may declare a type with the name \<open>Result\<close>, which the rewriting takes
  for a built-in one: the declaration is renamed, references to it keep the old name, and nothing is found under it.\<close>

theorem Result_not_resolved:
  assumes "RewriteImportedModuleSurfaceTypes fp m q = Some r" "FindTypeDecl m ''Result'' = Some d"
  shows "RewriteImportedTypeNames q (set (map td_name (mod_type_decls m))) ps (NamedType ''Result'') = NamedType ''Result'' \<and>
    FindTypeDecl r ''Result'' = None"
  using Rewritten_builtin [OF assms(1), of "''Result''"] by (simp add: IsBuiltinNamedType_def)

theorem Result_not_resolved_witness:
  "\<forall>fp. \<exists>r. RewriteImportedModuleSurfaceTypes fp (sample_module [sample_decl D_kEnum ''Result'' UnknownType []]) ''m'' = Some r \<and>
     FindTypeDecl r ''Result'' = None"
proof
  fix fp
  let ?d = "sample_decl D_kEnum ''Result'' UnknownType []"
  obtain r where r: "RewriteImportedModuleSurfaceTypes fp (sample_module [?d]) ''m'' = Some r"
    using sample_rewritten by blast
  have "FindTypeDecl (sample_module [?d]) ''Result'' = Some ?d" by (simp add: sample_decls)
  from Result_not_resolved [OF r this] r
  show "\<exists>r. RewriteImportedModuleSurfaceTypes fp (sample_module [?d]) ''m'' = Some r \<and> FindTypeDecl r ''Result'' = None"
    by blast
qed

text \<open>The comparison by which two imports of one declaration are recognised is an equivalence relation: equality
  of the declarations without their attributes, with types in canonical form.\<close>

theorem EquivalentTypeDeclSummary_equivalence:
  "equivp EquivalentTypeDeclSummary \<and>
   (\<forall>l r. EquivalentTypeDeclSummary l r = (decl_key l = decl_key r))"
  by (simp add: Equivalent_key equivp_def fun_eq_iff) metis

section \<open>Control flow of the middle representation\<close>

abbreviation entry_label_of :: "MirFunction \<Rightarrow> string" where
  "entry_label_of f \<equiv> bb_label (hd (mf_blocks f))"

definition sample_block :: "string \<Rightarrow> Instruction list \<Rightarrow> TerminatorKind \<Rightarrow> string list \<Rightarrow> string \<Rightarrow> string \<Rightarrow> BasicBlock" where
  \<comment> \<open>Blocks for the examples below.\<close>
  "sample_block l is k vs t u =
     \<lparr>bb_label = l, bb_instructions = is, bb_terminator =
       \<lparr>tm_kind = k, tm_values = vs, tm_true_target = t, tm_false_target = u\<rparr>\<rparr>"

definition sample_diamond :: MirFunction where
  "sample_diamond = \<lparr>mf_name = ''f'', mf_is_extern = False, mf_extern_abi = [], mf_type_params = [],
     mf_locals = [], mf_return_types = [], mf_blocks =
     [sample_block ''e'' [(new_Instruction I_kConst)\<lparr>in_result := ''c''\<rparr>] X_kCondBranch [''c''] ''t'' ''j'',
      sample_block ''t'' [(new_Instruction I_kConst)\<lparr>in_result := ''x''\<rparr>] X_kBranch [] ''j'' [],
      sample_block ''j'' [] X_kReturn [''x''] [] []]\<rparr>"

text \<open>C24. Reachable blocks. When the structure of a function is found to be correct, the labels that the walk
  over its blocks returns are exactly those that a path from the first block leads to, and each of them
  is the label of one block.\<close>

theorem reachable_blocks_exact:
  assumes "fl_ok (ValidateFunctionStructure f)"
  shows "fl_reachable_blocks (ValidateFunctionStructure f) = {l. \<exists>ls. walk (mf_blocks f) (entry_label_of f) ls l} \<and>
    fl_reachable_blocks (ValidateFunctionStructure f) \<subseteq> block_labels (mf_blocks f) \<and>
    distinct (map bb_label (mf_blocks f))"
proof -
  obtain entry bs where f: "mf_blocks f = entry # bs" "distinct (map bb_label (mf_blocks f))"
    "fl_reachable_blocks (ValidateFunctionStructure f) = reachable_from (mf_blocks f) (bb_label entry)"
    "\<forall>b \<in> set (mf_blocks f). terminator_faults (mf_name f) (block_labels (mf_blocks f)) b = []"
    using structure_ok [OF assms] .
  then show ?thesis
    using reachable_blocks_exist [OF f(4), of entry] by (simp add: reachable_from_def)
qed

lemma sample_diamond_ok: "fl_ok (ValidateFunctionStructure sample_diamond)"
  by code_simp

theorem reachable_blocks_exact_witness:
  "fl_reachable_blocks (ValidateFunctionStructure sample_diamond) \<subseteq> {''e'', ''t'', ''j''}"
proof -
  have "block_labels (mf_blocks sample_diamond) = {''e'', ''t'', ''j''}"
    by (simp add: sample_diamond_def sample_block_def block_labels_def)
  with reachable_blocks_exact [OF sample_diamond_ok] show ?thesis by blast
qed

text \<open>C25. Dominance. The iteration over the sets of dominators ends, and it reports nothing exactly when, for
  every operand used in a reachable block, every path from the first block to that block goes through
  the block that defines the operand.\<close>

theorem ValidateFunctionDominance_exact:
  assumes "fl_ok (ValidateFunctionStructure f)" "R = fl_reachable_blocks (ValidateFunctionStructure f)"
  shows "\<exists>reports. ValidateFunctionDominance f R = Some reports \<and>
    (reports = [] \<longleftrightarrow> (\<forall>b \<in> set (mf_blocks f). bb_label b \<in> R \<longrightarrow>
      (\<forall>v \<in> set (uses_of b). \<forall>d. value_defs (mf_blocks f) R v = Some d \<longrightarrow>
         (\<forall>ls. walk (mf_blocks f) (entry_label_of f) ls (bb_label b) \<longrightarrow> d \<in> set ls))))"
  using dominance_checked [OF assms refl] by (simp add: on_every_path_def)

theorem ValidateFunctionDominance_exact_witness:
  "\<exists>reports. ValidateFunctionDominance sample_diamond (fl_reachable_blocks (ValidateFunctionStructure sample_diamond)) = Some reports \<and>
     reports \<noteq> []"
proof -
  let ?bs = "mf_blocks sample_diamond" and ?R = "fl_reachable_blocks (ValidateFunctionStructure sample_diamond)"
  let ?b = "sample_block ''j'' [] X_kReturn [''x''] [] []"
  have "''j'' \<in> set (next_labels ?bs ''e'')" by code_simp
  then have "walk ?bs (entry_label_of sample_diamond) ([''e''] @ [''j'']) ''j''"
    by (intro walk_next) (auto simp: sample_diamond_def sample_block_def intro: walk_entry)
  moreover have "?b \<in> set ?bs" "bb_label ?b = ''j''" "''x'' \<in> set (uses_of ?b)"
    by (simp_all add: sample_diamond_def sample_block_def uses_of_def)
  moreover have "''j'' \<in> ?R" "value_defs ?bs ?R ''x'' = Some ''t''" by code_simp+
  moreover have "''t'' \<notin> set ([''e''] @ [''j''])" by simp
  ultimately show ?thesis
    using ValidateFunctionDominance_exact [OF sample_diamond_ok refl] by metis
qed

section \<open>Interface files\<close>

text \<open>C26. Types in interface files. Of a type whose canonical form can be written, the parser of the interface reader reads
  the text back as the type with the names of built-in types replaced. It can be written when its names consist of the characters of type
  names, are not the text of a built-in type and start neither with \<open>const\<close> nor with \<open>proc\<close> (see C27), nodes have the members
  of their kind, the length of an array has no \<open>]\<close>, and a procedure has as many parameters as it says and no result that
  the text would not show.\<close>

theorem ParseTypeText_of_FormatType:
  assumes "type_writable (CanonicalizeBuiltinType t)" "FormatType t = Some s"
  shows "ParseTypeText s = Some (CanonicalizeBuiltinType t)"
  using assms by (rule ParseTypeText_Format)

abbreviation sample_procedure :: Type where
  "sample_procedure \<equiv> ProcedureType [ArrayType (mk_Type Ty_kNamed ''lib.Box'' [] [PointerType (NamedType ''i32''), BoolType]) ''4'']
     [mk_Type Ty_kNamed ''Slice'' [] [NamedType ''u8''], NamedType ''str'']"

lemma sample_procedure_format:
  "FormatType sample_procedure = Some ''proc([4]lib.Box<*i32, bool>)->tuple<Slice<u8>, string>''"
  by code_simp

theorem ParseTypeText_of_FormatType_witness:
  "ParseTypeText ''proc([4]lib.Box<*i32, bool>)->tuple<Slice<u8>, string>'' = Some (CanonicalizeBuiltinType sample_procedure)"
proof (rule ParseTypeText_of_FormatType [OF _ sample_procedure_format])
  show "type_writable (CanonicalizeBuiltinType sample_procedure)"
    by (simp add: type_constructors type_name_ok_def is_type_name_char_def builtin_type_texts_def IsStringBuiltinName_def class_simps)
qed

text \<open>C27. Names that are not read back. The reader takes \<open>const\<close> and \<open>proc\<close> at the start of a name for the keyword,
  whatever follows. A named type that starts with one of them is written as its name, and
  what is read from that name never has it as its text.\<close>

theorem ParseTypeText_reserved_prefix:
  assumes "list_all is_type_name_char name" "take 5 name = ''const'' \<or> take 4 name = ''proc''"
  shows "FormatType (NamedType name) = Some name \<and> (\<forall>t. ParseTypeText name = Some t \<longrightarrow> FormatType t \<noteq> Some name)"
proof (intro conjI allI impI)
  have "CanonicalizeBuiltinType (NamedType name) = NamedType name"
    using assms(2) by (cases "name = ''bool''"; cases "IsStringBuiltinName name") (auto simp: type_constructors IsStringBuiltinName_def)
  then show "FormatType (NamedType name) = Some name"
    by (simp only: FormatType.simps [of "NamedType name"]) (simp add: Let_def type_constructors)
  fix t assume t: "ParseTypeText name = Some t"
  obtain r where r: "name = take 4 name @ r" "name = take 5 name @ drop 5 name" by (metis append_take_drop_id)
  have "take 4 name \<noteq> ''proc''"
  proof
    assume p: "take 4 name = ''proc''"
    with r(1) assms(1) have "r = [] \<or> is_type_name_char (hd r)" by (cases r) auto
    then have "r = [] \<or> hd r \<notin> {CHR '' '', tab_char, CHR ''(''}" by (auto simp: is_type_name_char_def class_simps)
    with ParseTypeText_proc [of r] r(1) p t show False by simp
  qed
  with assms(2) have c: "take 5 name = ''const''" by simp
  then have "map_option ConstType (ParseTypeText (drop 5 name)) = Some t"
    using t r(2) ParseTypeText_const [of "drop 5 name"] by metis
  then obtain u where u: "t = ConstType u" by auto
  show "FormatType t \<noteq> Some name"
  proof
    assume "FormatType t = Some name"
    then have "CHR '' '' \<in> set name"
      by (simp only: u FormatType.simps [of "ConstType u"]) (auto simp: type_constructors Let_def)
    then show False using assms(1) by (auto simp: list_all_iff is_type_name_char_def class_simps)
  qed
qed

theorem ParseTypeText_reserved_prefix_witness:
  "ParseTypeText ''process.State'' = None \<and> ParseTypeText ''constants.Limit'' = Some (ConstType (NamedType ''ants.Limit'')) \<and>
   FormatType (ConstType (NamedType ''ants.Limit'')) \<noteq> Some ''constants.Limit''"
proof -
  have "ParseTypeText ''constants.Limit'' = Some (ConstType (NamedType ''ants.Limit''))" "ParseTypeText ''process.State'' = None"
    "list_all is_type_name_char ''constants.Limit''" by code_simp+
  then show ?thesis using ParseTypeText_reserved_prefix [of "''constants.Limit''"] by simp
qed

text \<open>C28. Constants in interface files. A constant whose floats have texts that are numbers, whose tags are not negative, whose enum
  types can be written and whose lists fit the containers is read back from its text as \<open>reread_const\<close> says: types are
  canonical and a float has the value that its text is read as. When the text of each float is read as its value (a text of six digits need
  not be), the constant read agrees with the one written in all members that count for its kind.\<close>

theorem ParseConstValue_of_Serialize:
  assumes "const_writable vmax stream_double v" "SerializeConstValue_some v = Some s" "length s < 2 ^ 64"
  shows "ParseConstValue vmax fp stream_double s = Some (Some (reread_const fp stream_double v)) \<and>
    (floats_exact stream_double v \<longrightarrow> const_agrees v (reread_const fp stream_double v))"
  using ParseConstValue_read [OF assms] reread_agrees by blast

definition sample_integer :: "64 word \<Rightarrow> ConstValue" where
  "sample_integer n = mk_ConstValue CK_kInteger n 0 False ''5'' [] (NamedType []) [] 0 [] []"

definition sample_aggregate :: ConstValue where
  \<comment> \<open>\<open>{ lo: 5, mid: 1; 2, ... }\<close>, a field whose name needs an escape.\<close>
  "sample_aggregate = mk_ConstValue CK_kAggregate 0 0 False [] [] (NamedType []) [] 0 [''lo'', ''a;b'']
     [sample_integer 5, sample_integer (- 7)]"

theorem ParseConstValue_of_Serialize_witness:
  "\<forall>fp. \<exists>w. ParseConstValue 10 fp (\<lambda>_. None) ''a:2:2:lo3:i:53:a;b4:i:-7'' = Some (Some w) \<and> const_agrees sample_aggregate w"
proof
  fix fp
  have "const_writable 10 (\<lambda>_. None) sample_aggregate" by (simp add: sample_aggregate_def sample_integer_def)
  moreover have "SerializeConstValue_some sample_aggregate = Some ''a:2:2:lo3:i:53:a;b4:i:-7''" by code_simp
  moreover have "floats_exact (\<lambda>_. None) sample_aggregate" by (simp add: sample_aggregate_def sample_integer_def)
  ultimately show "\<exists>w. ParseConstValue 10 fp (\<lambda>_. None) ''a:2:2:lo3:i:53:a;b4:i:-7'' = Some (Some w) \<and> const_agrees sample_aggregate w"
    using ParseConstValue_of_Serialize [of 10 "\<lambda>_. None" sample_aggregate "''a:2:2:lo3:i:53:a;b4:i:-7''" fp] by simp
qed

text \<open>C29. Interface files are read back. Of an artifact that can be written, what \<open>WriteInterfaceArtifact\<close> puts into the file is
  loaded without a report, with the hash that was computed, as \<open>reread_artifact\<close> says: the same imports, functions,
  declarations and globals with canonical types and without attributes and expressions; and when the text of each float is read as its
  value, the globals have the values that were written. It can be written when it has a package, all its types (see C26)
  and constants (see C28) can be, the names of its declarations and their variants differ, lists that go together have the same length, and no list
  consists of one empty text.\<close>

theorem LoadInterfaceArtifact_of_written:
  assumes "artifact_writable vmax sd a" "length contents < 2 ^ 64"
    "WriteInterfaceArtifact True written p a d = Some (Some contents, r, d')"
  shows "\<exists>h. ComputeInterfaceHash (a\<lparr>ia_format_version := kFormatVersion\<rparr>) = Some h \<and>
    LoadInterfaceArtifact vmax fp sd (Some contents) q e = Some (Some (reread_artifact fp sd h a), e) \<and>
    (module_floats_exact sd (ia_module a) \<longrightarrow>
      list_all2 global_values_agree (mod_globals (ia_module a)) (mod_globals (ia_module (reread_artifact fp sd h a))))"
  using LoadInterfaceArtifact_written [OF assms] reread_globals_agree by (fastforce simp: reread_artifact_def)

definition sample_signature :: FunctionSignature where
  "sample_signature = \<lparr>fs_name = ''push'', fs_is_extern = False, fs_extern_abi = [], fs_type_params = [''T''],
     fs_param_types = [PointerType (NamedType ''Point''), NamedType ''T''], fs_param_is_noalias = [True, False],
     fs_return_types = [NamedType ''bool'']\<rparr>"

definition sample_artifact :: InterfaceArtifact where
  "sample_artifact = new_InterfaceArtifact\<lparr>ia_package_identity := ''app'', ia_module_name := ''geo;me|try'',
     ia_module := (sample_module [sample_decl D_kStruct ''Point'' (NamedType ''i32'') [(''x'', NamedType ''i32'')]])
       \<lparr>mod_imports := [''io''], mod_functions := [sample_signature]\<rparr>\<rparr>"

lemma sample_artifact_writable: "artifact_writable vmax sd sample_artifact"
  by (simp add: artifact_writable_def sample_artifact_def sample_module_def sample_decl_def sample_signature_def
      new_InterfaceArtifact_def empty_module_def function_writable_def type_decl_writable_def fields_writable_def
      type_constructors type_name_ok_def is_type_name_char_def builtin_type_texts_def IsStringBuiltinName_def class_simps)

theorem LoadInterfaceArtifact_of_written_witness:
  "\<exists>contents. WriteInterfaceArtifact True True ''g.mci'' sample_artifact [] = Some (Some contents, True, []) \<and>
     (\<forall>fp. \<exists>h. LoadInterfaceArtifact 10 fp (\<lambda>_. None) (Some contents) ''g.mci'' [] =
        Some (Some (reread_artifact fp (\<lambda>_. None) h sample_artifact), []))"
proof -
  have "(case artifact_records (sample_artifact\<lparr>ia_format_version := kFormatVersion\<rparr>) of
      Some rs \<Rightarrow> length (concat (map record_line rs)) < 400 | None \<Rightarrow> False)" by code_simp
  then obtain contents where w: "WriteInterfaceArtifact True True ''g.mci'' sample_artifact [] = Some (Some contents, True, [])"
      "length contents < 2 ^ 64"
    using Write_length [of sample_artifact _ True "''g.mci''" "[]"] by (fastforce split: option.splits)
  show ?thesis using LoadInterfaceArtifact_of_written [OF sample_artifact_writable w(2,1)] w(1) by blast
qed

text \<open>C30. What is loaded has been checked. An artifact that is returned has the format version of this compiler, a
  package, and the hash of its own contents, and nothing was reported; otherwise there is exactly one
  report, for the file in question.\<close>

theorem LoadInterfaceArtifact_verified:
  assumes "LoadInterfaceArtifact vmax fp sd content p d = Some (r, d')"
  shows "case r of
      None \<Rightarrow> \<exists>span message. d' = mci_report p span message d
    | Some a \<Rightarrow> d' = d \<and> ia_format_version a = kFormatVersion \<and> ia_package_identity a \<noteq> [] \<and>
        ComputeInterfaceHash a = Some (ia_interface_hash a)"
  using assms by (rule LoadInterfaceArtifact_checked)

theorem LoadInterfaceArtifact_verified_witness:
  "\<forall>fp. \<exists>span message. LoadInterfaceArtifact 10 fp (\<lambda>_. None) (Some []) ''g.mci'' [] =
     Some (None, mci_report ''g.mci'' span message [])"
proof
  fix fp
  have "\<exists>d'. LoadInterfaceArtifact 10 fp (\<lambda>_. None) (Some []) ''g.mci'' [] = Some (None, d')"
    by (simp add: LoadInterfaceArtifact_def getlines_def load_fault_def load_start_def kFormatVersion_def new_InterfaceArtifact_def)
  then obtain d' where l: "LoadInterfaceArtifact 10 fp (\<lambda>_. None) (Some []) ''g.mci'' [] = Some (None, d')" by blast
  from LoadInterfaceArtifact_verified [OF l] l
  show "\<exists>span message. LoadInterfaceArtifact 10 fp (\<lambda>_. None) (Some []) ''g.mci'' [] =
     Some (None, mci_report ''g.mci'' span message [])" by auto
qed

section \<open>Validation of the middle representation\<close>

abbreviation sample_int :: Type where
  "sample_int \<equiv> NamedType ''i32''"

definition sample_instruction :: "InstructionKind \<Rightarrow> string \<Rightarrow> Type \<Rightarrow> string \<Rightarrow> string \<Rightarrow> string list \<Rightarrow> Instruction" where
  "sample_instruction k r t op target operands =
     (new_Instruction k)\<lparr>in_result := r, in_type := t, in_op := op, in_target := target, in_operands := operands\<rparr>"

definition sample_divide :: MirFunction where
  \<comment> \<open>Divides its parameters and calls itself with the quotient.\<close>
  "sample_divide =
     (let parameter = \<lambda>n. \<lparr>lc_name = n, lc_type = sample_int, lc_is_parameter = True, lc_is_noalias = False, lc_is_mutable = True\<rparr> in
      \<lparr>mf_name = ''divide'', mf_is_extern = False, mf_extern_abi = [], mf_type_params = [],
       mf_locals = [parameter ''a'', parameter ''b''], mf_return_types = [sample_int], mf_blocks =
       [sample_block ''e''
         [sample_instruction I_kLoadLocal ''x'' sample_int [] ''a'' [],
          sample_instruction I_kLoadLocal ''y'' sample_int [] ''b'' [],
          sample_instruction I_kDivCheck [] UnknownType ''/'' [] [''x'', ''y''],
          sample_instruction I_kBinary ''q'' sample_int ''/'' [] [''x'', ''y''],
          sample_instruction I_kStoreLocal [] sample_int [] ''a'' [''q''],
          (sample_instruction I_kSymbolRef ''f'' (ProcedureType [sample_int, sample_int] [sample_int]) [] ''divide'' [])
            \<lparr>in_target_kind := TK_kFunction, in_target_name := ''divide''\<rparr>] X_kBranch [] ''j'' [],
        sample_block ''j''
         [(sample_instruction I_kCall ''r'' sample_int [] ''divide'' [''f'', ''q'', ''y''])
            \<lparr>in_target_kind := TK_kFunction, in_target_name := ''divide''\<rparr>] X_kReturn [''r''] [] []]\<rparr>)"

definition sample_mir :: MirModule where
  "sample_mir = \<lparr>mm_imports = [], mm_type_decls = [], mm_globals = [], mm_functions = [sample_divide]\<rparr>"

lemma sample_mir_valid: "ValidateModule 5 sample_mir ''p'' [] = Some (True, [])"
  by code_simp

lemmas sample_mir_simps = sample_mir_def sample_divide_def sample_block_def sample_instruction_def new_Instruction_def

lemma sample_divide_in: "sample_divide \<in> set (mm_functions sample_mir)" "\<not> mf_is_extern sample_divide"
  by (simp_all add: sample_mir_simps Let_def)

abbreviation "sample_entry \<equiv> mf_blocks sample_divide ! 0"
abbreviation "sample_exit \<equiv> mf_blocks sample_divide ! 1"

lemma sample_blocks: "sample_entry \<in> set (mf_blocks sample_divide)" "sample_exit \<in> set (mf_blocks sample_divide)"
  by (simp_all add: sample_mir_simps Let_def)

lemma sample_walks:
  "walk (mf_blocks sample_divide) (entry_label_of sample_divide) [''e''] (bb_label sample_entry)"
  "walk (mf_blocks sample_divide) (entry_label_of sample_divide) ([''e''] @ [''j'']) (bb_label sample_exit)"
proof -
  have "bb_label sample_entry = ''e''" "bb_label sample_exit = ''j''" "''j'' \<in> set (next_labels (mf_blocks sample_divide) ''e'')"
    by code_simp+
  moreover from this(1) have e: "entry_label_of sample_divide = ''e''" by (simp add: sample_mir_simps Let_def)
  ultimately show "walk (mf_blocks sample_divide) (entry_label_of sample_divide) [''e''] (bb_label sample_entry)"
    "walk (mf_blocks sample_divide) (entry_label_of sample_divide) ([''e''] @ [''j'']) (bb_label sample_exit)"
    by (simp_all only: e) (blast intro: walk_entry walk_next)+
qed

text \<open>C31. No undefined values. In a module that \<open>ValidateModule\<close> finds correct, every value that an instruction or a
  terminator of a function uses is the result of an instruction that was executed before, on every path from the
  entry to the use: of a block on the path, and, when that is the block of the use, of an instruction above it.\<close>

theorem ValidateModule_defined:
  assumes "ValidateModule n m p d = Some (True, d')" "f \<in> set (mm_functions m)" "\<not> mf_is_extern f"
    and "b \<in> set (mf_blocks f)" "walk (mf_blocks f) (entry_label_of f) ls (bb_label b)" "used_at b k v"
  shows "\<exists>def j. def \<in> set (mf_blocks f) \<and> bb_label def \<in> set ls \<and> defined_at def j v \<and> (def = b \<longrightarrow> j < k)"
  by (rule used_defined [OF module_valid [OF assms(1-3)] assms(4-6)])

theorem ValidateModule_defined_witness:
  "\<exists>def j. def \<in> set (mf_blocks sample_divide) \<and> bb_label def \<in> {''e'', ''j''} \<and> defined_at def j ''q'' \<and>
     def \<noteq> sample_exit"
proof -
  have "used_at sample_exit 0 ''q''" by (simp add: used_at_def sample_mir_simps Let_def)
  from ValidateModule_defined [OF sample_mir_valid sample_divide_in sample_blocks(2) sample_walks(2) this]
  show ?thesis by fastforce
qed

text \<open>C32. Checked arithmetic. In the reachable blocks of a module that \<open>ValidateModule\<close> finds correct, every division
  and remainder comes right after a \<open>div_check\<close>, and every shift right after a \<open>shift_check\<close>, with the same operator
  on the same operands.\<close>

theorem ValidateModule_checked:
  assumes "ValidateModule n m p d = Some (True, d')" "f \<in> set (mm_functions m)" "\<not> mf_is_extern f"
    and "b \<in> set (mf_blocks f)" "walk (mf_blocks f) (entry_label_of f) ls (bb_label b)"
    and "k < length (bb_instructions b)" "in_kind (bb_instructions b ! k) = I_kBinary"
    and "in_op (bb_instructions b ! k) \<in> {''/'', ''%''} \<and> check = I_kDivCheck \<or>
      in_op (bb_instructions b ! k) \<in> {''<<'', ''>>''} \<and> check = I_kShiftCheck"
  shows "0 < k \<and> in_kind (bb_instructions b ! (k - 1)) = check \<and>
    in_op (bb_instructions b ! (k - 1)) = in_op (bb_instructions b ! k) \<and>
    in_operands (bb_instructions b ! (k - 1)) = in_operands (bb_instructions b ! k)"
  by (rule valid_checks [OF module_valid [OF assms(1-3)] reachable_checked [OF module_valid [OF assms(1-3)] assms(4,5)] assms(6-8)])

theorem ValidateModule_checked_witness: "in_kind (bb_instructions sample_entry ! 2) = I_kDivCheck"
proof -
  let ?i = "bb_instructions sample_entry"
  have "3 < length ?i" "in_kind (?i ! 3) = I_kBinary"
    "in_op (?i ! 3) \<in> {''/'', ''%''} \<and> I_kDivCheck = I_kDivCheck \<or> in_op (?i ! 3) \<in> {''<<'', ''>>''} \<and> I_kDivCheck = I_kShiftCheck"
    by (simp_all add: sample_mir_simps Let_def)
  from ValidateModule_checked [OF sample_mir_valid sample_divide_in sample_blocks(1) sample_walks(1) this] show ?thesis by simp
qed

text \<open>C33. Typed values. In the reachable blocks of a module that \<open>ValidateModule\<close> finds correct, with the type of a value
  that of the instruction that computes it: what is stored in a local fits its type; a callee whose type is known has a
  procedure type with as many parameters as there are arguments, each argument fits its parameter, and the
  instruction has the type of the result; and the values returned are as many as the return types of the function
  and fit them.\<close>

theorem ValidateModule_typed:
  assumes "ValidateModule n m p d = Some (True, d')" "f \<in> set (mm_functions m)" "\<not> mf_is_extern f"
    and "b \<in> set (mf_blocks f)" "walk (mf_blocks f) (entry_label_of f) ls (bb_label b)"
  shows "(\<forall>i \<in> set (bb_instructions b).
      (in_kind i = I_kStoreLocal \<longrightarrow> (\<exists>v l. in_operands i = [v] \<and> local_types_of f (in_target i) = Some l \<and>
         IsAssignableType m l (flow_type f v))) \<and>
      (in_kind i = I_kCall \<longrightarrow> (\<exists>callee args. in_operands i = callee # args \<and>
         (IsUnknown (flow_type f callee) \<or> call_fits m (flow_type f callee) (in_type i) (map (flow_type f) args))))) \<and>
    (tm_kind (bb_terminator b) = X_kReturn \<longrightarrow>
      list_all2 (\<lambda>t v. IsAssignableType m t (flow_type f v)) (mf_return_types f) (tm_values (bb_terminator b)))"
proof -
  have v: "valid_function n m f" by (rule module_valid [OF assms(1-3)])
  have c: "b \<in> set (checked_blocks f)" by (rule reachable_checked [OF v assms(4,5)])
  show ?thesis using valid_store_local [OF v c] valid_call [OF v c] valid_return [OF v c] by blast
qed

theorem ValidateModule_typed_witness:
  "call_fits sample_mir (flow_type sample_divide ''f'') sample_int (map (flow_type sample_divide) [''q'', ''y''])"
proof -
  have "hd (bb_instructions sample_exit) \<in> set (bb_instructions sample_exit)" "in_kind (hd (bb_instructions sample_exit)) = I_kCall"
    "in_type (hd (bb_instructions sample_exit)) = sample_int" "in_operands (hd (bb_instructions sample_exit)) = [''f'', ''q'', ''y'']"
    by (simp_all add: sample_mir_simps Let_def)
  moreover have "\<not> IsUnknown (flow_type sample_divide ''f'')" by code_simp
  ultimately show ?thesis
    using ValidateModule_typed [OF sample_mir_valid sample_divide_in sample_blocks(2) sample_walks(2)] by fastforce
qed

section \<open>The driver\<close>

abbreviation dquoted :: "string \<Rightarrow> string" where
  "dquoted s \<equiv> [quote_char] @ s @ [quote_char]"

definition sample_text :: "string list \<Rightarrow> string" where
  "sample_text ls = concat (map (\<lambda>l. l @ [CHR 0x0A]) ls)"

definition sample_project_text :: string where
  \<comment> \<open>A program that links a library.\<close>
  "sample_project_text = sample_text
     [''schema=1'', ''project='' @ dquoted ''d'', ''[targets.a]'', ''package='' @ dquoted ''d'', ''root='' @ dquoted ''a'', ''links=['' @ dquoted ''b'' @ '']'',
      ''[targets.b]'', ''kind='' @ dquoted ''staticlib'', ''package='' @ dquoted ''d'', ''root='' @ dquoted ''b'']"

definition sample_files :: "(path \<times> string) list" where
  "sample_files = [(''/p/lib.mc'', sample_text [''enum E { A }'']), (''/p/top.mc'', sample_text [''import lib''])]"

definition sample_project_files :: "(path \<times> string) list" where
  "sample_project_files = [(''/p/build.toml'', sample_project_text), (''/p/a'', []), (''/p/b'', [])]"

definition sample_fs :: filesystem where
  "sample_fs = \<lparr>fs_absolute_normal = (\<lambda>p. if take 1 p = [slash] then p else ''/p/'' @ p), fs_lexically_normal = id,
     fs_exists = (\<lambda>p. p \<in> fst ` set sample_files)\<rparr>"

definition sample_config :: TargetConfig where
  "sample_config = \<lparr>tc_triple = ''arm64-apple-darwin25.4.0'', tc_target_family = ''arm64-apple-darwin'', tc_object_format = ''macho'',
     tc_host_tool_prefix = [], tc_hosted = True\<rparr>"

definition sample_env :: source_env where
  "sample_env = \<lparr>se_driver = \<lparr>de_fs = sample_fs, de_visit = id, de_config = sample_config\<rparr>,
     se_read = map_of sample_files, se_stream_double = (\<lambda>_. None)\<rparr>"

definition sample_rules :: module_rules where
  "sample_rules = \<lparr>mr_import_roots = [''/p''], mr_package_identity_for_source = None, mr_known_module_sources = None,
     mr_external_module_paths = {}\<rparr>"

lemma sample_env_ok: "env_ok (se_driver sample_env)"
  by (auto simp: env_ok_def sample_env_def sample_fs_def)

lemma sample_parses: "sources_parse sample_env"
  unfolding sources_parse_def
proof (intro allI)
  fix p d
  have e: "case Lex (\<lambda>_. None) (sample_text [''enum E { A }'']) p d of (l, d1) \<Rightarrow> Parse l p d1 \<noteq> None"
    "case Lex (\<lambda>_. None) (sample_text [''import lib'']) p d of (l, d1) \<Rightarrow> Parse l p d1 \<noteq> None" by code_simp+
  show "ParseSourcePath sample_env p d \<noteq> None"
  proof (cases "se_read sample_env p")
    case None
    then show ?thesis by (simp add: ParseSourcePath_def ReadSourceText_def)
  next
    case (Some src)
    then have "src = sample_text [''enum E { A }''] \<or> src = sample_text [''import lib'']"
      by (auto simp: sample_env_def sample_files_def split: if_splits)
    moreover have "se_stream_double sample_env = (\<lambda>_. None)" by (simp add: sample_env_def)
    ultimately show ?thesis using Some e by (auto simp: ParseSourcePath_def ReadSourceText_def split: prod.splits)
  qed
qed

lemma sample_import_keys: "import_keys sample_env sample_rules \<subseteq> set (map fst sample_files)"
  using import_keys_exist [of sample_rules sample_env] by (simp add: sample_rules_def sample_env_def sample_fs_def)

text \<open>C34. Module graphs. Assume that the parser returns on every file, with or without errors (for the files of C10 it does not, for
  files without structures and enumerations it does by C8), and that the entry and the imports can lead to finitely many
  keys only. Then the search for the modules of an entry returns with more fuel than there are keys. It gives a graph and reports no error,
  or it gives none and reports one. The nodes of a graph have different keys; the entry is one of them; each has the imports of
  its files, and each import is external or an earlier node; and without external modules the assertion that the graph is in
  topological order holds.\<close>

theorem DiscoverModuleGraph_topological:
  assumes "sources_parse env" "finite K" "import_keys env rules \<subseteq> K"
    and "rs_artifact_key (entry_module env rules entry) \<in> K" "card K < n"
  shows "\<exists>r d'. DiscoverModuleGraph n env rules entry options d = Some (r, d') \<and>
    (case r of
       None \<Rightarrow> HasErrors d'
     | Some graph \<Rightarrow> HasErrors d' = HasErrors d \<and> ordered env rules (cg_nodes graph) \<and>
         rs_artifact_key (entry_module env rules entry) \<in> set (node_keys (cg_nodes graph)) \<and>
         (mr_external_module_paths rules = {} \<longrightarrow> AssertCompileGraphTopologicalOrder graph))"
proof -
  obtain r d' where r: "DiscoverModuleGraph n env rules entry options d = Some (r, d')"
    using DiscoverModuleGraph_total [OF assms] by fastforce
  have h: "honest d (r \<noteq> None) d'" by (rule DiscoverModuleGraph_honest [OF r])
  show ?thesis
  proof (cases r)
    case None
    with r h show ?thesis by (simp add: honest_def)
  next
    case (Some graph)
    with r have g: "DiscoverModuleGraph n env rules entry options d = Some (Some graph, d')" by simp
    from h Some ordered_asserted [OF DiscoverModuleGraph_ordered(1) [OF g]] DiscoverModuleGraph_ordered [OF g] g show ?thesis
      by (simp add: honest_def)
  qed
qed

theorem DiscoverModuleGraph_topological_witness:
  "\<exists>r d'. DiscoverModuleGraph 3 sample_env sample_rules ''top.mc'' (target_options new_ProjectFile new_ProjectTarget sample_config) []
      = Some (r, d') \<and>
    (case r of None \<Rightarrow> HasErrors d' | Some graph \<Rightarrow> \<not> HasErrors d' \<and> ordered sample_env sample_rules (cg_nodes graph) \<and>
       AssertCompileGraphTopologicalOrder graph)"
proof -
  let ?options = "target_options new_ProjectFile new_ProjectTarget sample_config"
  have "rs_artifact_key (entry_module sample_env sample_rules ''top.mc'') = ''/p/top.mc''"
    by (simp add: entry_module_def Let_def sample_rules_def sample_env_def sample_fs_def)
  then have "rs_artifact_key (entry_module sample_env sample_rules ''top.mc'') \<in> set (map fst sample_files)" by (simp add: sample_files_def)
  moreover have "card (set (map fst sample_files)) < 3" by (simp add: sample_files_def)
  ultimately obtain r d' where "DiscoverModuleGraph 3 sample_env sample_rules ''top.mc'' ?options [] = Some (r, d')"
    "case r of None \<Rightarrow> HasErrors d' | Some graph \<Rightarrow> HasErrors d' = HasErrors [] \<and> ordered sample_env sample_rules (cg_nodes graph) \<and>
         rs_artifact_key (entry_module sample_env sample_rules ''top.mc'') \<in> set (node_keys (cg_nodes graph)) \<and>
         (mr_external_module_paths sample_rules = {} \<longrightarrow> AssertCompileGraphTopologicalOrder graph)"
    using DiscoverModuleGraph_topological [OF sample_parses finite_set sample_import_keys, of "''top.mc''" 3 ?options "[]"] by blast
  moreover have "mr_external_module_paths sample_rules = {}" by (simp add: sample_rules_def)
  ultimately show ?thesis by (cases r) auto
qed

text \<open>C35. Project files. Whatever the file says, a project that \<open>LoadProjectFile\<close> returns is consistent, and no error was reported: it has a name and targets with
  different names and roots, its default target is one of them, and each target has a supported kind, mode and environment, a
  package, a startup that fits the environment, no path configured twice, no package or module set that shares a path with
  another, and a root that is in the module set with its name or in none. When no project is returned, an error was
  reported; and the selection of a target in a consistent project does not throw: it returns a
  target under its name or reports an error.\<close>

theorem LoadProjectFile_selects:
  assumes "env_ok env" "LoadProjectFile env content p d = Some (r, d')"
  shows "case r of
      None \<Rightarrow> HasErrors d'
    | Some project \<Rightarrow> \<not> HasErrors d' \<and> project_consistent env project \<and>
        (\<exists>t d''. SelectProjectTarget env project explicit_target d' = Some (t, d'') \<and>
          (case t of None \<Rightarrow> HasErrors d''
           | Some t \<Rightarrow> d'' = d' \<and> (pt_name t, t) \<in> set (pf_targets project) \<and> (\<forall>n. explicit_target = Some n \<longrightarrow> pt_name t = n)))"
proof (cases r)
  case None
  with LoadProjectFile_settled [OF assms(2)] show ?thesis by (simp add: settled_def)
next
  case (Some project)
  have "project_consistent env project \<and> \<not> HasErrors d'" by (rule LoadProjectFile_consistent [OF assms(1) assms(2) [unfolded Some]])
  with SelectProjectTarget_consistent [OF _ assms(1), of project explicit_target d'] Some show ?thesis by simp
qed

theorem LoadProjectFile_selects_witness:
  "case LoadProjectFile (se_driver sample_env) (Some sample_project_text) ''/p/build.toml'' [] of
     Some (Some project, d) \<Rightarrow> \<not> HasErrors d \<and> project_consistent (se_driver sample_env) project \<and>
       map fst (pf_targets project) = [''a'', ''b'']
   | _ \<Rightarrow> False"
proof -
  let ?load = "LoadProjectFile (se_driver sample_env) (Some sample_project_text) ''/p/build.toml'' []"
  have "case ?load of Some (Some project, d) \<Rightarrow> map fst (pf_targets project) = [''a'', ''b''] | _ \<Rightarrow> False" by code_simp
  then obtain project d where l: "?load = Some (Some project, d)" "map fst (pf_targets project) = [''a'', ''b'']"
    by (auto split: option.splits)
  from LoadProjectFile_selects [OF sample_env_ok l(1)] l show ?thesis by simp
qed

definition sample_project_env :: source_env where
  "sample_project_env = sample_env\<lparr>se_read := map_of sample_project_files\<rparr>"

definition sample_options :: CommandOptions where
  "sample_options = \<lparr>co_source_path = [], co_project_path = None, co_target_name = Some ''a'', co_mode_override = None,
     co_env_override = None, co_build_dir = ''build/debug'', co_build_dir_explicit = False, co_import_roots = [],
     co_run_arguments = [], co_emit_dump_paths = False, co_dump_ast = False, co_dump_mir = False, co_dump_backend = False\<rparr>"

definition sample_target :: "string \<Rightarrow> string \<Rightarrow> nat \<Rightarrow> string list \<Rightarrow> ProjectTarget" where
  "sample_target name kind line links = new_ProjectTarget\<lparr>pt_name := name, pt_decl_line := line, pt_kind := kind, pt_package_name := ''d'', pt_root := ''/p/'' @ name, pt_links := links\<rparr>"
definition sample_project :: ProjectFile where
  "sample_project = \<lparr>pf_path = ''/p/build.toml'', pf_root_dir = ''/p'', pf_project_name = ''d'', pf_default_target = None,
     pf_build_dir = ''/p/build'', pf_targets = [(''a'', sample_target ''a'' ''exe'' 3 [''b'']), (''b'', sample_target ''b'' ''staticlib'' 7 [])]\<rparr>"
lemma sample_loaded: "LoadSelectedProject sample_project_env ''/p'' sample_options [] = Some (Some sample_project, [])" by code_simp

lemma sample_project_parsed: "map_option (\<lambda>(r, d). (map_option (\<lambda>r. sf_imports (pr_source_file r)) r, d)) (ParseLogicalModuleSources sample_project_env [''/p/a''] []) = Some (Some [], [])" 
 "map_option (\<lambda>(r, d). (map_option (\<lambda>r. sf_imports (pr_source_file r)) r, d)) (ParseLogicalModuleSources sample_project_env [''/p/b''] []) = Some (Some [], [])" 
by code_simp+

lemma sample_a: "pt_root (sample_target ''a'' ''exe'' 3 [''b'']) = ''/p/a''" "path_stem ''/p/a'' = ''a''" "\<not> IsInternalModulePath ''/p/a''"
  by code_simp+
lemma sample_b: "pt_root (sample_target ''b'' ''staticlib'' 7 []) = ''/p/b''" "path_stem ''/p/b'' = ''b''" "\<not> IsInternalModulePath ''/p/b''"
  by code_simp+
lemma sample_fields: "pt_name (sample_target n k l ls) = n" "pt_target (sample_target n k l ls) = []" "pt_env (sample_target n k l ls) = ''hosted''"
  "pt_module_sets (sample_target n k l ls) = []" "pt_links (sample_target n k l ls) = ls" "pt_kind (sample_target n k l ls) = k" "pt_mode (sample_target n k l ls) = ''debug''"
  "sample_target n k l ls\<lparr>pt_mode := ''debug'', pt_env := ''hosted''\<rparr> = sample_target n k l ls"
  by (simp_all add: sample_target_def new_ProjectTarget_def)

lemma sample_own:
  assumes "t = sample_target n k l ls" "''/p/'' @ n = pt_root t" "pt_root t \<in> {''/p/a'', ''/p/b''}"
    "LookupKnownProjectModuleSources (se_driver sample_project_env) t gs (path_stem (pt_root t)) = []" "op_diagnostics (collect_linked gs t project []) = []"
  shows "\<exists>graph node. own_graph (Suc 0) sample_project_env project t roots gs [] = Some (Some (mk_TargetBuildGraph project t graph gs), []) \<and> cg_nodes graph = [node] \<and> cn_source_path node = pt_root t \<and> cn_module_name node = path_stem (pt_root t)"
proof (rule own_graph_single)
  show "fs_absolute_normal (se_fs sample_project_env) (pt_root t) = pt_root t"
    using assms(2) by (simp add: sample_project_env_def sample_env_def sample_fs_def flip: assms(2))
  show "map_option (\<lambda>(r, d). (map_option (\<lambda>r. sf_imports (pr_source_file r)) r, d)) (ParseLogicalModuleSources sample_project_env [pt_root t] []) = Some (Some [], [])"
    "\<not> IsInternalModulePath (pt_root t)" using assms(3) sample_project_parsed sample_a(3) sample_b(3) by auto
  show "pt_target t = []" by (simp add: assms(1) sample_fields)
qed (rule assms(4,5))+

lemma sample_project_graph:
  "\<exists>g. BuildTargetGraph 3 1 sample_project_env ''/p'' sample_options [] = Some (Some g, []) \<and> pt_name (tg_target g) = ''a'' \<and>
     map (\<lambda>h. pt_name (tg_target h)) (tg_linked_targets g) = [''b'']"
proof -
  let ?p = "sample_project\<lparr>pf_build_dir := ''/p/build/debug''\<rparr>"
  let ?a = "sample_target ''a'' ''exe'' 3 [''b'']" let ?b = "sample_target ''b'' ''staticlib'' 7 []"
  have sel: "SelectProjectTarget (se_driver sample_project_env) sample_project (Some ''a'') [] = Some (Some ?a, [])"
    by (simp add: SelectProjectTarget_def Let_def sample_project_def)
  have sup: "SupportsBootstrapTarget env t project [] = (True, [])" if "pt_target t = []" "pt_env t = ''hosted''" for env t project
    using that by (simp add: SupportsBootstrapTarget_def Let_def)
  have "LookupKnownProjectModuleSources (se_driver sample_project_env) ?b [] ''b'' = []"
    by (simp add: LookupKnown_Nil LookupKnown_one own_module_set_def LookupProjectModuleSet_def sample_fields)
  then have "\<exists>graph node. own_graph (Suc 0) sample_project_env ?p ?b [] [] [] = Some (Some (mk_TargetBuildGraph ?p ?b graph []), []) \<and>
      cg_nodes graph = [node] \<and> cn_source_path node = pt_root ?b \<and> cn_module_name node = path_stem (pt_root ?b)"
    by (intro sample_own [OF refl]) (simp_all add: sample_b collect_linked_def)
  then obtain graph node where b: "own_graph (Suc 0) sample_project_env ?p ?b [] [] [] = Some (Some (mk_TargetBuildGraph ?p ?b graph []), [])"
      "cg_nodes graph = [node]" "cn_source_path node = ''/p/b''" "cn_module_name node = ''b''" unfolding sample_b(1,2) by blast
  let ?g = "mk_TargetBuildGraph ?p ?b graph []"
  have build_b: "BuildResolvedTargetGraph (Suc n) (Suc 0) sample_project_env ?p [] ?b ([], v) = Some (Some ?g, [], v)" if "''b'' \<notin> v" for n v
    using that by (simp add: sup sample_fields b(1) Let_def)
  have "LookupKnownProjectModuleSources (se_driver sample_project_env) ?a [?g] ''a'' = []"
    by (simp add: LookupKnown_Nil LookupKnown_one own_module_set_def LookupProjectModuleSet_def sample_fields b(2,4))
  then have "\<exists>graph' node. own_graph (Suc 0) sample_project_env ?p ?a [] [?g] [] = Some (Some (mk_TargetBuildGraph ?p ?a graph' [?g]), []) \<and>
      cg_nodes graph' = [node] \<and> cn_source_path node = pt_root ?a \<and> cn_module_name node = path_stem (pt_root ?a)"
    by (intro sample_own [OF refl]) (simp_all add: sample_a collect_linked_def collect_node_def Let_def b)
  then obtain graph' where a: "own_graph (Suc 0) sample_project_env ?p ?a [] [?g] [] = Some (Some (mk_TargetBuildGraph ?p ?a graph' [?g]), [])"
    by blast
  have links: "link_targets build ?p ?a [''b''] ([], v) = Some (Some [?g], [], v)" if "build ?b ([], v) = Some (Some ?g, [], v)" for build v
  proof -
    have "map_of (pf_targets ?p) ''b'' = Some ?b" by (simp add: sample_project_def)
    then show ?thesis using that by (simp add: Let_def sample_fields IsStaticLibraryTargetKind_def)
  qed
  have "BuildResolvedTargetGraph (Suc (Suc n)) (Suc 0) sample_project_env ?p [] ?a ([], {}) = Some (Some (mk_TargetBuildGraph ?p ?a graph' [?g]), [], {})" for n
    using links [of "BuildResolvedTargetGraph (Suc n) (Suc 0) sample_project_env ?p []" "{''a''}"] build_b [of "{''a''}" n] by (simp add: sup sample_fields a Let_def del: BuildResolvedTargetGraph.simps link_targets.simps add: BuildResolvedTargetGraph.simps(2) [of "Suc n"])
  then have "BuildResolvedTargetGraph 3 (Suc 0) sample_project_env ?p [] ?a ([], {}) = Some (Some (mk_TargetBuildGraph ?p ?a graph' [?g]), [], {})"
    by (simp add: numeral_3_eq_3)
  moreover have "fs_absolute_normal (se_fs sample_project_env) (path_append (pf_build_dir sample_project) ''debug'') = ''/p/build/debug''"
    by code_simp
  ultimately have "BuildTargetGraph 3 1 sample_project_env ''/p'' sample_options [] = Some (Some (mk_TargetBuildGraph ?p ?a graph' [?g]), [])"
    using sample_loaded sel by (simp add: BuildTargetGraph_def Let_def sample_options_def sample_fields IsSupportedMode_def IsSupportedEnv_def)
  then show ?thesis by (simp add: sample_fields)
qed

lemma sample_project_parses: "sources_parse sample_project_env"
proof -
  have read: "se_read sample_project_env p \<in> {None, Some [], Some sample_project_text}" for p
    by (simp add: sample_project_env_def sample_project_files_def)
  have parse: "case Lex (\<lambda>_. None) src p d of (l, d1) \<Rightarrow>
      (case Parse l p d1 of None \<Rightarrow> False | Some (r, _) \<Rightarrow> sf_imports (pr_source_file r) = [])"
    if "src \<in> {[], sample_project_text}" for src p d
  proof -
    have e: "case Lex (\<lambda>_. None) [] p d of (l, d1) \<Rightarrow>
        (case Parse l p d1 of None \<Rightarrow> False | Some (r, _) \<Rightarrow> sf_imports (pr_source_file r) = [])"
      "case Lex (\<lambda>_. None) sample_project_text p d of (l, d1) \<Rightarrow>
        (case Parse l p d1 of None \<Rightarrow> False | Some (r, _) \<Rightarrow> sf_imports (pr_source_file r) = [])" by code_simp+
    from that consider "src = []" | "src = sample_project_text" by blast
    then show ?thesis by cases (simp_all only: e)
  qed
  have "case ParseSourcePath sample_project_env p d of None \<Rightarrow> False | Some (Some r, _) \<Rightarrow> sf_imports (pr_source_file r) = [] | _ \<Rightarrow> True"
    for p d
  proof (cases "se_read sample_project_env p")
    case None
    then show ?thesis by (simp add: ParseSourcePath_def ReadSourceText_def)
  next
    case (Some src)
    moreover have "se_stream_double sample_project_env = (\<lambda>_. None)" by (simp add: sample_project_env_def sample_env_def)
    moreover have "src \<in> {[], sample_project_text}" using read [of p] Some by auto
    ultimately show ?thesis using parse [of src p d]
      by (auto simp: ParseSourcePath_def ReadSourceText_def split: prod.splits option.splits)
  qed
  note parsed = this
  have "ParseSourcePath sample_project_env p d \<noteq> None" for p d using parsed [of p d] by (auto split: option.splits)
  then show ?thesis by (simp only: sources_parse_def) blast
qed

text \<open>C36. Graphs of targets. A graph that \<open>BuildTargetGraph\<close> returns is that of the target asked for in a consistent project, with the
  mode and environment of the options, both supported. Below it no target links to itself, however indirectly; every
  target is supported, is built for the mode and environment of the one that links it, which names it, and is a static
  library; two libraries that one target links and that differ in name have no source in common; and the modules of each
  target are in topological order, their imports being earlier modules of the target or sources of the
  libraries it links.\<close>

theorem BuildTargetGraph_sound:
  assumes "env_ok (se_driver env)" "BuildTargetGraph n m env current_path options d = Some (Some g, d')"
  shows "\<exists>project. project_consistent (se_driver env) project \<and> built env project (co_import_roots options) {} g \<and>
    (\<exists>t. (pt_name t, t) \<in> set (pf_targets project) \<and>
       tg_target g = t\<lparr>pt_mode := pt_mode (tg_target g), pt_env := pt_env (tg_target g)\<rparr> \<and>
       (\<forall>name. co_target_name options = Some name \<longrightarrow> pt_name t = name)) \<and>
    IsSupportedMode (pt_mode (tg_target g)) \<and> IsSupportedEnv (pt_env (tg_target g))"
  by (rule BuildTargetGraph_built [OF assms])

theorem BuildTargetGraph_sound_witness:
  "\<exists>g. BuildTargetGraph 3 1 sample_project_env ''/p'' sample_options [] = Some (Some g, []) \<and> pt_name (tg_target g) = ''a'' \<and>
     map (\<lambda>h. pt_name (tg_target h)) (tg_linked_targets g) = [''b''] \<and> (\<exists>project. built sample_project_env project [] {} g)"
proof -
  obtain g where g: "BuildTargetGraph 3 1 sample_project_env ''/p'' sample_options [] = Some (Some g, [])"
      "pt_name (tg_target g) = ''a'' \<and> map (\<lambda>h. pt_name (tg_target h)) (tg_linked_targets g) = [''b'']"
    using sample_project_graph by auto
  have "env_ok (se_driver sample_project_env)" using sample_env_ok by (simp add: sample_project_env_def)
  moreover have "co_import_roots sample_options = []" by (simp add: sample_options_def)
  ultimately show ?thesis using BuildTargetGraph_sound [OF _ g(1)] g by metis
qed

text \<open>C37. The graph of a target, or an error. Assume that the project file can be read into a value (which fails only for numbers that
  overflow), that the parser returns on every file (see C10), that the roots, module sets and import roots of the targets lead to
  finitely many modules, and that there is more fuel than modules and, for the links, than targets. Then \<open>BuildTargetGraph\<close>
  returns, even when targets link each other in a cycle: a graph, and no error is reported, or no graph and at least one error.\<close>

theorem BuildTargetGraph_total_or_error:
  assumes "env_ok (se_driver env)" "LoadSelectedProject env current_path options d = Some (r, d1)" "sources_parse env"
    and "\<forall>project. r = Some project \<longrightarrow> finite (project_keys env (co_import_roots options) project) \<and>
      card (project_keys env (co_import_roots options) project) < m \<and> card (fst ` set (pf_targets project)) < n"
  shows "\<exists>g d'. BuildTargetGraph n m env current_path options d = Some (g, d') \<and> (g = None \<longleftrightarrow> HasErrors d')"
proof -
  obtain g d' where "BuildTargetGraph n m env current_path options d = Some (g, d')"
    using BuildTargetGraph_total [OF assms] by fastforce
  moreover from BuildTargetGraph_settled [OF assms(1) this] have "g = None \<longleftrightarrow> HasErrors d'" by (auto simp: settled_def)
  ultimately show ?thesis by blast
qed

theorem BuildTargetGraph_total_or_error_witness:
  "\<exists>m g d'. BuildTargetGraph 3 m sample_project_env ''/p'' sample_options [] = Some (g, d') \<and> (g = None \<longleftrightarrow> HasErrors d')"
proof -
  let ?K = "project_keys sample_project_env (co_import_roots sample_options) sample_project"
  have "Collect (fs_exists (se_fs sample_project_env)) = fst ` set sample_files"
    by (simp add: sample_project_env_def sample_env_def sample_fs_def)
  then have "finite ?K" by (intro finite_project_keys) simp
  moreover have "card (fst ` set (pf_targets sample_project)) < 3" by (simp add: sample_project_def)
  moreover have "env_ok (se_driver sample_project_env)" using sample_env_ok by (simp add: sample_project_env_def)
  ultimately show ?thesis
    using BuildTargetGraph_total_or_error [OF _ sample_loaded sample_project_parses, of "Suc (card ?K)" 3] by auto
qed

section \<open>Builds\<close>

text \<open>C38. Merging. \<open>MergeBuildUnits\<close> gives a module exactly when no two definitions of the modules have the same name; otherwise it
  reports one error. The merged module has every definition, in order; a name of a function or of a type means in it what
  it means in the first module that declares it; what is only declared, the types, the globals and the imports are there once,
  and no global is lost.\<close>

theorem MergeBuildUnits_links:
  "let ms = map snd (merge_inputs fs units entry_mir p); definitions = definitions_of (all_functions ms) in
   case MergeBuildUnits fs units entry_mir p d of
     (None, d') \<Rightarrow> \<not> distinct (map mf_name definitions) \<and>
       (\<exists>q message. d' = Report (project_report kError q kDefaultSourceSpan message) d)
   | (Some m, d') \<Rightarrow> distinct (map mf_name definitions) \<and> d' = d \<and> definitions_of (mm_functions m) = definitions \<and>
       (\<forall>n. FindMirFunction m n = find (\<lambda>f. mf_name f = n) (all_functions ms)) \<and>
       (\<forall>n. FindMirTypeDecl m n = find (\<lambda>t. mt_name t = n) (concat (map mm_type_decls ms))) \<and>
       distinct (map mf_name (filter mf_is_extern (mm_functions m))) \<and> distinct (map mt_name (mm_type_decls m)) \<and>
       distinct (mm_imports m) \<and> distinct (mir_global_names m) \<and>
       set (mir_global_names m) = set (concat (map mir_global_names ms))"
proof -
  let ?ms = "map snd (merge_inputs fs units entry_mir p)"
  obtain r d' where m: "MergeBuildUnits fs units entry_mir p d = (r, d')" by force
  note c = MergeBuildUnits_cases [OF m]
  show ?thesis
  proof (cases r)
    case None
    with c show ?thesis by (simp only: Let_def m prod.case option.case simp_thms)
  next
    case (Some whole)
    with c have w: "distinct (map mf_name (definitions_of (all_functions ?ms)))" "merged_of ?ms whole" "d' = d" by simp_all
    show ?thesis
      unfolding Let_def m Some prod.case option.case by (intro conjI allI w(1,3) merged_lookups [OF w(2)])
  qed
qed

text \<open>C39. Calls between modules. Assume that a module, renamed for the program it is imported into, is one of the modules that are merged
  without an error, and that none before it merely declares the qualified name of a function that it defines, nor the module
  itself. Then the qualified name leads in the merged module to the definition, renamed: every module that declares
  the imported function calls it.\<close>

theorem merged_call_resolves:
  assumes "NamespaceImportedBuildUnit fp module_name m = Some m'" "FindMirFunction m n = Some f" "\<not> mf_is_extern f"
    and "\<forall>g \<in> set (mm_functions m). mf_is_extern g \<longrightarrow> mf_name g \<notin> {n, QualifyImportedSymbol module_name n}"
    and "MergeBuildUnits fs units entry_mir p d = (Some whole, d')"
    and "map snd (merge_inputs fs units entry_mir p) = before @ m' # later"
    and "\<forall>g \<in> set (all_functions before). mf_is_extern g \<longrightarrow> mf_name g \<noteq> QualifyImportedSymbol module_name n"
  shows "\<exists>f'. namespace_function module_name m f = Some f' \<and> \<not> mf_is_extern f' \<and>
    FindMirFunction whole (QualifyImportedSymbol module_name n) = Some f'"
  using merged_definition_found [OF assms(1-3)] assms(4-7) by simp

definition sample_function :: "string \<Rightarrow> bool \<Rightarrow> MirFunction" where
  "sample_function name is_extern = \<lparr>mf_name = name, mf_is_extern = is_extern, mf_extern_abi = [], mf_type_params = [], mf_locals = [],
     mf_return_types = [], mf_blocks = []\<rparr>"

definition sample_unit :: MirModule where
  "sample_unit = empty_mir_module\<lparr>mm_functions := [sample_function ''f'' False]\<rparr>"

definition sample_importer :: MirModule where
  "sample_importer = empty_mir_module\<lparr>mm_functions := [sample_function ''lib_a.f'' True, sample_function ''main'' False]\<rparr>"

theorem merged_call_resolves_witness:
  "\<forall>fp. \<exists>m' whole. NamespaceImportedBuildUnit fp ''lib/a'' sample_unit = Some m' \<and>
     MergeBuildUnits sample_fs [(''/p/lib/a.mc'', m'), (''/p/top.mc'', sample_importer)] sample_importer ''top.mc'' [] = (Some whole, []) \<and>
     FindMirFunction whole ''lib_a.f'' = Some (sample_function ''lib_a.f'' False)"
proof
  fix fp
  let ?m = "empty_mir_module\<lparr>mm_functions := [sample_function ''lib_a.f'' False]\<rparr>"
  let ?units = "[(''/p/lib/a.mc'', ?m), (''/p/top.mc'', sample_importer)]"
  have q: "QualifyImportedSymbol ''lib/a'' ''f'' = ''lib_a.f''" by (simp add: QualifyImportedSymbol_def)
  have n: "NamespaceImportedBuildUnit fp ''lib/a'' sample_unit = Some ?m"
    by (simp add: NamespaceImportedBuildUnit_def sample_unit_def sample_function_def namespace_function_def empty_mir_module_def q)
  have i: "map snd (merge_inputs sample_fs ?units sample_importer ''top.mc'') = [] @ ?m # [sample_importer]"
    by (simp add: merge_inputs_def sample_fs_def)
  obtain whole where g: "MergeBuildUnits sample_fs ?units sample_importer ''top.mc'' [] = (Some whole, [])"
  proof (cases "MergeBuildUnits sample_fs ?units sample_importer ''top.mc'' []")
    case (Pair r d')
    from MergeBuildUnits_cases [OF Pair, unfolded i] have "r \<noteq> None \<and> d' = []"
      by (cases r) (simp_all add: sample_importer_def sample_function_def empty_mir_module_def)
    with Pair that show ?thesis by blast
  qed
  have "\<exists>f'. namespace_function ''lib/a'' sample_unit (sample_function ''f'' False) = Some f' \<and> \<not> mf_is_extern f' \<and>
      FindMirFunction whole (QualifyImportedSymbol ''lib/a'' ''f'') = Some f'"
    by (rule merged_call_resolves [OF n _ _ _ g i])
      (simp_all add: sample_unit_def sample_function_def empty_mir_module_def FindMirFunction_def)
  then have "FindMirFunction whole ''lib_a.f'' = Some (sample_function ''lib_a.f'' False)"
    by (simp add: q namespace_function_def sample_function_def)
  with n g show "\<exists>m' whole. NamespaceImportedBuildUnit fp ''lib/a'' sample_unit = Some m' \<and>
     MergeBuildUnits sample_fs [(''/p/lib/a.mc'', m'), (''/p/top.mc'', sample_importer)] sample_importer ''top.mc'' [] = (Some whole, []) \<and>
     FindMirFunction whole ''lib_a.f'' = Some (sample_function ''lib_a.f'' False)"
    by blast
qed

text \<open>C40. Building twice. Assume that files that are written can be read and that tools only make the file that their last option names; that
  the artifacts of the modules have paths of their own, which are none of those that the modules before or the module
  itself read; and that the names that go into a recorded state have no line breaks and those of imports no \<open>=\<close>. When a build of
  a graph with objects succeeds and the interfaces that it leaves can be read and are those of their modules (see C29), then
  the same build, run again on the files that it left with a sink without errors, succeeds with the same units, keeps every object,
  and leaves every file with its contents; at most the interfaces have a new time.\<close>

theorem CompileModuleGraph_no_op_rebuild:
  assumes "writes_ok (be_host env)" "runs_ok (be_host env)" "artifacts_apart env graph (cg_nodes graph)"
    and "list_all (recordable graph) (cg_nodes graph)"
    and "CompileModuleGraph env graph True st = Some (Some us, st')"
    and "list_all (interface_ok env graph (bt_files st')) (cg_nodes graph)" "\<not> HasErrors d"
  shows "\<exists>fl d'. CompileModuleGraph env graph True \<lparr>bt_files = bt_files st', bt_diagnostics = d\<rparr> =
      Some (Some (map (\<lambda>u. u\<lparr>bu_reused_object := True\<rparr>) us), \<lparr>bt_files = fl, bt_diagnostics = d'\<rparr>) \<and> \<not> HasErrors d' \<and>
    unchanged (node_mci graph ` set (cg_nodes graph)) (bt_files st') fl"
  by (rule CompileModuleGraph_again [OF assms])

theorem CompileModuleGraph_no_op_rebuild_witness:
  "\<forall>fp. \<exists>u fl fl' d'. CompileModuleGraph (one_builder fp) one_graph True (clean one_disk) = Some (Some [u], clean fl) \<and>
     CompileModuleGraph (one_builder fp) one_graph True (clean fl) =
       Some (Some [u\<lparr>bu_reused_object := True\<rparr>], \<lparr>bt_files = fl', bt_diagnostics = d'\<rparr>) \<and>
     unchanged {node_mci one_graph one_node} fl fl'"
proof
  fix fp
  obtain u fl where 1: "CompileModuleGraph (one_builder fp) one_graph True (clean one_disk) = Some (Some [u], clean fl)"
      "fl_read fl (node_mci one_graph one_node) = interface_text one_interface"
    using one_graph_first by blast
  have n: "cg_nodes one_graph = [one_node]" by (simp add: one_graph_def)
  have "list_all (interface_ok (one_builder fp) one_graph (bt_files (clean fl))) (cg_nodes one_graph)"
    using one_interface_ok [OF 1(2)] by (simp add: n)
  from CompileModuleGraph_no_op_rebuild [OF _ _ one_apart one_recordable 1(1) this, of "[]"] obtain fl' d' where
    "CompileModuleGraph (one_builder fp) one_graph True (clean fl) =
       Some (Some [u\<lparr>bu_reused_object := True\<rparr>], \<lparr>bt_files = fl', bt_diagnostics = d'\<rparr>)"
    "unchanged {node_mci one_graph one_node} fl fl'"
    by (auto simp: one_host_ok be_host_one n)
  with 1(1) show "\<exists>u fl fl' d'. CompileModuleGraph (one_builder fp) one_graph True (clean one_disk) = Some (Some [u], clean fl) \<and>
     CompileModuleGraph (one_builder fp) one_graph True (clean fl) =
       Some (Some [u\<lparr>bu_reused_object := True\<rparr>], \<lparr>bt_files = fl', bt_diagnostics = d'\<rparr>) \<and>
     unchanged {node_mci one_graph one_node} fl fl'"
    by blast
qed

end
